(* ===== verification/Prelude.thy ===== *)
theory Prelude
  imports Main "HOL-Library.AList" "HOL-Library.Char_ord" "HOL-Library.List_Lexorder"
begin

text \<open>
  What every component of the model shares.

  Go strings are byte sequences, so a Go \<open>string\<close> is an Isabelle \<open>string\<close>, a list of
  8-bit characters, and \<open>len\<close> is \<open>length\<close>. Go orders strings bytewise, which is the
  lexicographic order of \<open>List_Lexorder\<close> over \<open>Char_ord\<close>. A fallible operation returns
  \<open>'e + 'a\<close>, with the error on the left, as Go returns a value and an error of which one
  counts.

  The collections below gather the rewrite rules each group of proofs shares.
\<close>

named_theorems clone_simps \<open>a generated Clone method copies its value\<close>
named_theorems store_simps \<open>operations of the ordered collection, on its association list\<close>
named_theorems mirror_simps \<open>steps of the session mirror, on its abstract view\<close>

type_synonym ('e, 'a) result = "'e + 'a"

abbreviation err :: "'e \<Rightarrow> ('e, 'a) result" where
  "err \<equiv> Inl"

abbreviation ok :: "'a \<Rightarrow> ('e, 'a) result" where
  "ok \<equiv> Inr"

definition bind_res :: "('e, 'a) result \<Rightarrow> ('a \<Rightarrow> ('e, 'b) result) \<Rightarrow> ('e, 'b) result" where
  "bind_res r f = (case r of Inl e \<Rightarrow> Inl e | Inr a \<Rightarrow> f a)"

lemma bind_res_simps [simp]:
  "bind_res (Inl e) f = Inl e"
  "bind_res (Inr a) f = f a"
  by (simp_all add: bind_res_def)

lemma bind_res_Inr_iff:
  "bind_res r f = Inr b \<longleftrightarrow> (\<exists>a. r = Inr a \<and> f a = Inr b)"
  by (cases r) simp_all

text \<open>
  Go's comma-ok map lookup is \<open>m k\<close>; an index expression \<open>m[k]\<close> yields the zero value of the
  element type for a key that is absent, and is \<open>entry_or\<close> with that zero value.
\<close>

definition entry_or :: "'a \<Rightarrow> ('k \<rightharpoonup> 'a) \<Rightarrow> 'k \<Rightarrow> 'a" where
  "entry_or z m k = (case m k of None \<Rightarrow> z | Some v \<Rightarrow> v)"

lemma entry_or_Some [simp]: "m k = Some v \<Longrightarrow> entry_or z m k = v"
  by (simp add: entry_or_def)

lemma entry_or_upd [simp]:
  "entry_or z (m(k \<mapsto> v)) k' = (if k' = k then v else entry_or z m k')"
  by (simp add: entry_or_def)

lemma find_append:
  "find P (xs @ ys) = (case find P xs of None \<Rightarrow> find P ys | Some x \<Rightarrow> Some x)"
  by (induction xs) auto

subsection \<open>Association lists\<close>

lemma update_append_new:
  "k \<notin> fst ` set xs \<Longrightarrow> AList.update k v xs = xs @ [(k, v)]"
  by (induction xs) auto

lemma update_map_old:
  "k \<in> fst ` set xs \<Longrightarrow> distinct (map fst xs) \<Longrightarrow>
    AList.update k v xs = map (\<lambda>(i, w). (i, if i = k then v else w)) xs"
proof (induction xs)
  case (Cons x xs)
  have "fst x \<notin> fst ` set xs" using Cons.prems by auto
  then have "map (\<lambda>(i, w). (i, if i = fst x then v else w)) xs = xs"
    by (intro map_idI) (force simp: split_beta image_iff prod_eq_iff)
  with Cons show ?case by (cases x) auto
qed simp

lemma update_update_same [simp]:
  "AList.update k v (AList.update k w xs) = AList.update k v xs"
  by (induction xs) auto

lemma update_twice_same: "AList.update k v (AList.update k v xs) = AList.update k v xs"
  by simp

lemma update_distinct_keys [simp]:
  "distinct (map fst xs) \<Longrightarrow> distinct (map fst (AList.update k v xs))"
  by (rule AList.distinct_update)

lemma fst_set_update [simp]: "fst ` set (AList.update k v xs) = insert k (fst ` set xs)"
  by (induction xs) auto

lemma filter_distinct_keys [simp]:
  "distinct (map fst xs) \<Longrightarrow> distinct (map fst (filter P xs))"
  by (induction xs) auto

lemma map_of_filter_in_distinct:
  assumes "distinct (map fst xs)"
  shows "map_of (filter P xs) k =
    (case map_of xs k of None \<Rightarrow> None | Some v \<Rightarrow> if P (k, v) then Some v else None)"
  using assms
proof (induction xs)
  case (Cons x xs)
  obtain i w where x: "x = (i, w)" by (cases x)
  have "map_of xs i = None" using Cons.prems x by (simp add: map_of_eq_None_iff)
  with Cons x show ?case by (auto split: option.splits)
qed simp

lemma alist_by_keys:
  "distinct (map fst xs) \<Longrightarrow> xs = map (\<lambda>k. (k, the (map_of xs k))) (map fst xs)"
  by (rule sym, simp only: map_map, rule map_idI) (auto simp: prod_eq_iff)

lemma alist_determined:
  assumes "map fst xs = map fst ys" and "distinct (map fst xs)" and "map_of xs = map_of ys"
  shows "xs = ys"
  using alist_by_keys [of xs] alist_by_keys [of ys] assms by metis

end
