(* ===== verification/Ordered_Collection.thy ===== *)
theory Ordered_Collection
  imports Prelude
begin

text \<open>
  \<open>herdr/ordered_collection.go\<close>: entries by id in the order they were reported.

  The struct is the record \<open>ordered_collection\<close>; a nil Go map reads as an empty one and every
  writer makes it first, so both are \<open>Map.empty\<close>. Each method is one definition that returns the
  updated struct. Where the Go code indexes the map (\<open>o.entries[id]\<close>) an absent id yields the
  zero value of the element type, which is the argument \<open>z\<close>.

  \<open>oc_alist\<close> is the abstract view, the association list of the entries in order, and \<open>oc_inv\<close> the
  representation invariant. The \<open>oc_alist_\<close> lemmas say what each method does to the view. The
  locale \<open>ordered_store\<close> is the contract the session mirror relies on; it is interpreted on this
  model as \<open>oc\<close>.
\<close>

record 'a ordered_collection =
  ids :: "string list"
  entries :: "string \<rightharpoonup> 'a"

definition oc_empty :: "'a ordered_collection" where
  "oc_empty = \<lparr>ids = [], entries = Map.empty\<rparr>"

definition oc_get :: "'a ordered_collection \<Rightarrow> string \<Rightarrow> 'a option" where
  "oc_get c i = entries c i"

definition oc_values :: "'a \<Rightarrow> 'a ordered_collection \<Rightarrow> 'a list" where
  "oc_values z c = map (entry_or z (entries c)) (ids c)"

definition oc_set :: "string \<Rightarrow> 'a \<Rightarrow> 'a ordered_collection \<Rightarrow> 'a ordered_collection" where
  "oc_set i v c =
    \<lparr>ids = (if entries c i = None then ids c @ [i] else ids c),
     entries = (entries c)(i \<mapsto> v)\<rparr>"

definition oc_delete :: "string \<Rightarrow> 'a ordered_collection \<Rightarrow> 'a ordered_collection" where
  "oc_delete i c =
    (if entries c i = None then c
     else \<lparr>ids = filter (\<lambda>candidate. candidate \<noteq> i) (ids c), entries = (entries c)(i := None)\<rparr>)"

text \<open>
  The loop of \<open>deleteWhere\<close>: its state is the position of the first match (\<open>-1\<close> so far), the ids
  kept and the map, which shrinks while the loop runs.
\<close>

fun oc_delete_loop ::
  "'a \<Rightarrow> ('a \<Rightarrow> bool) \<Rightarrow> int \<Rightarrow> string list \<Rightarrow> int \<Rightarrow> string list \<Rightarrow> (string \<rightharpoonup> 'a) \<Rightarrow>
    int \<times> string list \<times> (string \<rightharpoonup> 'a)" where
  "oc_delete_loop z match n [] first kept es = (first, kept, es)"
| "oc_delete_loop z match n (i # is) first kept es =
    (if match (entry_or z es i)
     then oc_delete_loop z match (n + 1) is (if first < 0 then n else first) kept (es(i := None))
     else oc_delete_loop z match (n + 1) is first (kept @ [i]) es)"

definition oc_delete_where ::
  "'a \<Rightarrow> ('a \<Rightarrow> bool) \<Rightarrow> 'a ordered_collection \<Rightarrow> 'a ordered_collection \<times> int" where
  "oc_delete_where z match c =
    (case oc_delete_loop z match 0 (ids c) (-1) [] (entries c) of
      (first, kept, es) \<Rightarrow> (\<lparr>ids = kept, entries = es\<rparr>, first))"

text \<open>
  The loop of \<open>insertAt\<close> over the values, collecting the fresh ids; \<open>slices.Insert\<close> puts them in.
\<close>

fun oc_insert_loop ::
  "('a \<Rightarrow> string) \<Rightarrow> ('a \<Rightarrow> 'a) \<Rightarrow> 'a list \<Rightarrow> string list \<Rightarrow> (string \<rightharpoonup> 'a) \<Rightarrow>
    string list \<times> (string \<rightharpoonup> 'a)" where
  "oc_insert_loop key clone [] fresh es = (fresh, es)"
| "oc_insert_loop key clone (v # vs) fresh es =
    oc_insert_loop key clone vs
      (if es (key v) = None then fresh @ [key v] else fresh)
      (es(key v \<mapsto> clone v))"

definition oc_insert_at ::
  "int \<Rightarrow> 'a list \<Rightarrow> ('a \<Rightarrow> string) \<Rightarrow> ('a \<Rightarrow> 'a) \<Rightarrow> 'a ordered_collection \<Rightarrow> 'a ordered_collection" where
  "oc_insert_at index vs key clone c =
    (case oc_insert_loop key clone vs [] (entries c) of
      (fresh, es) \<Rightarrow>
        let at = (if index < 0 \<or> index > int (length (ids c)) then int (length (ids c)) else index)
        in \<lparr>ids = take (nat at) (ids c) @ fresh @ drop (nat at) (ids c), entries = es\<rparr>)"

definition oc_reset ::
  "'a list \<Rightarrow> ('a \<Rightarrow> string) \<Rightarrow> ('a \<Rightarrow> 'a) \<Rightarrow> 'a ordered_collection \<Rightarrow> 'a ordered_collection" where
  "oc_reset vs key clone c =
    foldl (\<lambda>o' v. oc_set (key v) (clone v) o') \<lparr>ids = [], entries = Map.empty\<rparr> vs"

definition oc_update ::
  "'a \<Rightarrow> (string \<Rightarrow> 'a \<Rightarrow> 'a) \<Rightarrow> 'a ordered_collection \<Rightarrow> 'a ordered_collection" where
  "oc_update z rewrite c =
    c\<lparr>entries := foldl (\<lambda>es i. es(i \<mapsto> rewrite i (entry_or z es i))) (entries c) (ids c)\<rparr>"

subsection \<open>Invariant and abstract view\<close>

definition oc_inv :: "'a ordered_collection \<Rightarrow> bool" where
  "oc_inv c \<longleftrightarrow> distinct (ids c) \<and> set (ids c) = dom (entries c)"

definition oc_alist :: "'a ordered_collection \<Rightarrow> (string \<times> 'a) list" where
  "oc_alist c = map (\<lambda>i. (i, the (entries c i))) (ids c)"

lemma oc_keys [simp]: "map fst (oc_alist c) = ids c"
  by (simp add: oc_alist_def comp_def)

lemma oc_alist_fst [simp]: "fst ` set (oc_alist c) = set (ids c)"
  by (metis oc_keys list.set_map)

lemma oc_inv_distinct [simp]: "oc_inv c \<Longrightarrow> distinct (map fst (oc_alist c))"
  by (simp add: oc_inv_def)

lemma oc_map_of: "oc_inv c \<Longrightarrow> map_of (oc_alist c) = entries c"
proof
  fix i
  assume inv: "oc_inv c"
  show "map_of (oc_alist c) i = entries c i"
  proof (cases "i \<in> set (ids c)")
    case True
    with inv obtain v where v: "entries c i = Some v" by (auto simp: oc_inv_def)
    with True inv have "(i, v) \<in> set (oc_alist c)" by (force simp: oc_alist_def)
    with inv have "map_of (oc_alist c) i = Some v" by (simp only: oc_inv_distinct map_of_is_SomeI)
    with v show ?thesis by simp
  next
    case False
    then have "map_of (oc_alist c) i = None" by (simp add: map_of_eq_None_iff)
    moreover have "entries c i = None" using False inv by (auto simp: oc_inv_def)
    ultimately show ?thesis by simp
  qed
qed

lemma oc_get_alist [store_simps]: "oc_inv c \<Longrightarrow> oc_get c i = map_of (oc_alist c) i"
  by (simp add: oc_get_def oc_map_of)

lemma oc_ext:
  assumes "oc_inv c" and "oc_inv d" and "oc_alist c = oc_alist d"
  shows "c = d"
proof -
  have "ids c = ids d" using assms(3) by (metis oc_keys)
  moreover have "entries c = entries d" using assms by (metis oc_map_of)
  ultimately show ?thesis by simp
qed

text \<open>
  An invariant collection is given by its view; these two facts turn a statement about the record
  into one about association lists.
\<close>

lemma oc_of_alist:
  assumes "distinct (map fst xs)" and "map_of xs = es" and "map fst xs = is"
  shows "oc_inv \<lparr>ids = is, entries = es\<rparr>" and "oc_alist \<lparr>ids = is, entries = es\<rparr> = xs"
proof -
  show "oc_inv \<lparr>ids = is, entries = es\<rparr>"
    using assms(1) by (simp add: oc_inv_def dom_map_of_conv_image_fst flip: assms(2,3))
  show "oc_alist \<lparr>ids = is, entries = es\<rparr> = xs"
    unfolding oc_alist_def using alist_by_keys [OF assms(1)] assms(2,3) by simp
qed

subsection \<open>What each method does to the view\<close>

lemma oc_empty_inv [simp]: "oc_inv oc_empty" and oc_empty_alist [simp]: "oc_alist oc_empty = []"
  by (simp_all add: oc_empty_def oc_inv_def oc_alist_def)

lemma oc_set_inv [simp]: "oc_inv c \<Longrightarrow> oc_inv (oc_set i v c)"
  by (auto simp: oc_inv_def oc_set_def)

lemma oc_set_alist [store_simps]:
  assumes "oc_inv c"
  shows "oc_alist (oc_set i v c) = AList.update i v (oc_alist c)"
proof (rule alist_determined)
  have "map_of (AList.update i v (oc_alist c)) = (entries c)(i \<mapsto> v)"
    using assms by (simp add: update_conv' oc_map_of)
  then show "map_of (oc_alist (oc_set i v c)) = map_of (AList.update i v (oc_alist c))"
    using assms by (simp add: oc_map_of) (simp add: oc_set_def)
  show "map fst (oc_alist (oc_set i v c)) = map fst (AList.update i v (oc_alist c))"
    using assms by (auto simp: oc_inv_def oc_set_def update_keys)
  show "distinct (map fst (oc_alist (oc_set i v c)))"
    using assms by (simp only: oc_inv_distinct oc_set_inv)
qed

lemma oc_delete_inv [simp]: "oc_inv c \<Longrightarrow> oc_inv (oc_delete i c)"
  by (auto simp: oc_inv_def oc_delete_def)

lemma oc_delete_alist [store_simps]:
  assumes "oc_inv c"
  shows "oc_alist (oc_delete i c) = AList.delete i (oc_alist c)"
proof (cases "entries c i")
  case None
  then have "i \<notin> set (ids c)" using assms by (auto simp: oc_inv_def)
  with None show ?thesis by (simp add: oc_delete_def delete_idem)
next
  case (Some v)
  then show ?thesis
    by (simp add: oc_delete_def oc_alist_def AList.delete_eq filter_map comp_def) (auto intro!: map_cong filter_cong)
qed

text \<open>The position of the first match, \<open>-1\<close> when there is none.\<close>

definition first_match :: "('a \<Rightarrow> bool) \<Rightarrow> 'a list \<Rightarrow> int" where
  "first_match P xs = (if list_ex P xs then int (length (takeWhile (Not \<circ> P) xs)) else - 1)"

lemma oc_delete_loop_spec:
  assumes "distinct is" and "set is \<subseteq> dom es" and "0 \<le> n"
  shows "oc_delete_loop z match n is first kept es =
    (if first < 0 \<and> list_ex (\<lambda>i. match (the (es i))) is
     then n + int (length (takeWhile (\<lambda>i. \<not> match (the (es i))) is)) else first,
     kept @ filter (\<lambda>i. \<not> match (the (es i))) is,
     \<lambda>i. if i \<in> set is \<and> match (the (es i)) then None else es i)"
  using assms
proof (induction "is" arbitrary: n first kept es)
  case (Cons i "is")
  obtain v where v: "es i = Some v" using Cons.prems by auto
  let ?es = "es(i := None)"
  have same: "\<And>j. j \<in> set is \<Longrightarrow> ?es j = es j" using Cons.prems by auto
  have "set is \<subseteq> dom ?es" using Cons.prems by auto
  note IH' = Cons.IH [of ?es, OF _ this] and IH = Cons.IH [of es]
  have tw: "takeWhile (\<lambda>j. \<not> match (the (?es j))) is = takeWhile (\<lambda>j. \<not> match (the (es j))) is"
    and fl: "filter (\<lambda>j. \<not> match (the (?es j))) is = filter (\<lambda>j. \<not> match (the (es j))) is"
    and ex: "list_ex (\<lambda>j. match (the (?es j))) is = list_ex (\<lambda>j. match (the (es j))) is"
    using same by (auto intro!: takeWhile_cong filter_cong simp: list_ex_iff simp del: fun_upd_apply)
  show ?case
  proof (cases "match v")
    case True
    have "(\<lambda>j. if j \<in> set is \<and> match (the (?es j)) then None else ?es j) =
        (\<lambda>j. if j \<in> set (i # is) \<and> match (the (es j)) then None else es j)"
      using v True same by (auto simp: fun_eq_iff)
    with True v Cons.prems show ?thesis by (simp add: IH' tw fl ex del: fun_upd_apply)
  next
    case False
    with v Cons.prems show ?thesis by (auto simp: IH fun_eq_iff)
  qed
qed simp

lemma oc_delete_where_spec:
  assumes "oc_inv c"
  shows "oc_inv (fst (oc_delete_where z match c))"
    and "oc_alist (fst (oc_delete_where z match c)) = filter (\<lambda>(i, v). \<not> match v) (oc_alist c)"
    and "snd (oc_delete_where z match c) = first_match (\<lambda>(i, v). match v) (oc_alist c)"
proof -
  let ?es = "\<lambda>i. if i \<in> set (ids c) \<and> match (the (entries c i)) then None else entries c i"
  let ?is = "filter (\<lambda>i. \<not> match (the (entries c i))) (ids c)"
  have run: "oc_delete_where z match c =
    (\<lparr>ids = ?is, entries = ?es\<rparr>,
     if list_ex (\<lambda>i. match (the (entries c i))) (ids c)
     then int (length (takeWhile (\<lambda>i. \<not> match (the (entries c i))) (ids c))) else - 1)"
    using assms oc_delete_loop_spec [of "ids c" "entries c" 0 z match "- 1" "[]"]
    by (simp add: oc_inv_def oc_delete_where_def)
  show "oc_inv (fst (oc_delete_where z match c))"
    using assms by (auto simp: run oc_inv_def split: if_splits)
  show "oc_alist (fst (oc_delete_where z match c)) = filter (\<lambda>(i, v). \<not> match v) (oc_alist c)"
    by (simp add: run oc_alist_def filter_map comp_def)
  show "snd (oc_delete_where z match c) = first_match (\<lambda>(i, v). match v) (oc_alist c)"
    by (simp add: run first_match_def oc_alist_def list_ex_iff takeWhile_map comp_def)
qed

text \<open>
  \<open>insertAt\<close> rewrites the entries already held in place and inserts the others, in the order and
  with the last value the list gives them.
\<close>

definition insert_values :: "('a \<Rightarrow> string) \<Rightarrow> string set \<Rightarrow> 'a list \<Rightarrow> (string \<times> 'a) list" where
  "insert_values key held vs =
    foldl (\<lambda>acc v. if key v \<in> held then acc else AList.update (key v) v acc) [] vs"

definition overwrite_values ::
  "('a \<Rightarrow> string) \<Rightarrow> 'a list \<Rightarrow> (string \<times> 'a) list \<Rightarrow> (string \<times> 'a) list" where
  "overwrite_values key vs xs =
    map (\<lambda>(i, w). (i, case find (\<lambda>v. key v = i) (rev vs) of None \<Rightarrow> w | Some v \<Rightarrow> v)) xs"

definition clamp_index :: "int \<Rightarrow> nat \<Rightarrow> nat" where
  "clamp_index index n = (if index < 0 \<or> index > int n then n else nat index)"

definition alist_insert_at ::
  "int \<Rightarrow> 'a list \<Rightarrow> ('a \<Rightarrow> string) \<Rightarrow> (string \<times> 'a) list \<Rightarrow> (string \<times> 'a) list" where
  "alist_insert_at index vs key xs =
    (let ys = overwrite_values key vs xs; n = clamp_index index (length xs)
     in take n ys @ insert_values key (fst ` set xs) vs @ drop n ys)"

lemma overwrite_keys [simp]: "map fst (overwrite_values key vs xs) = map fst xs"
  by (auto simp: overwrite_values_def)

lemma overwrite_Nil [simp]: "overwrite_values key [] xs = xs"
  by (simp add: overwrite_values_def)

lemma insert_values_keys:
  "fst ` set (insert_values key held vs) = key ` set vs - held"
  "distinct (map fst (insert_values key held vs))"
  by (induction vs rule: rev_induct) (auto simp: insert_values_def)

lemma insert_values_snoc:
  "insert_values key held (vs @ [v]) =
    (if key v \<in> held then insert_values key held vs
     else AList.update (key v) v (insert_values key held vs))"
  by (simp add: insert_values_def)

lemma insert_values_map_of:
  "map_of (insert_values key held vs) i =
    (if i \<in> held then None else find (\<lambda>v. key v = i) (rev vs))"
proof (induction vs rule: rev_induct)
  case (snoc v vs)
  then show ?case by (auto simp: insert_values_snoc update_conv')
qed (simp add: insert_values_def)

lemma overwrite_map_of:
  "map_of (overwrite_values key vs xs) i =
    (case map_of xs i of None \<Rightarrow> None
     | Some w \<Rightarrow> Some (case find (\<lambda>v. key v = i) (rev vs) of None \<Rightarrow> w | Some v \<Rightarrow> v))"
  by (induction xs) (auto simp: overwrite_values_def split: option.splits)

lemma find_key_None: "find (\<lambda>v. key v = i) (rev vs) = None \<longleftrightarrow> i \<notin> key ` set vs"
  by (auto simp: find_None_iff)

lemma oc_insert_loop_spec:
  assumes "clone = id"
  shows "oc_insert_loop key clone vs fresh es =
    (fresh @ map fst (insert_values key (dom es) vs),
     \<lambda>i. case find (\<lambda>v. key v = i) (rev vs) of None \<Rightarrow> es i | Some v \<Rightarrow> Some v)"
proof -
  have keys: "\<And>held k v vs. k = key v \<Longrightarrow>
      map fst (insert_values key held (v # vs)) =
      (if k \<in> held then map fst (insert_values key held vs)
       else k # map fst (insert_values key (insert k held) vs))" for key :: "'a \<Rightarrow> string"
  proof -
    fix held k v vs assume k: "k = key v"
    show "map fst (insert_values key held (v # vs)) =
      (if k \<in> held then map fst (insert_values key held vs)
       else k # map fst (insert_values key (insert k held) vs))"
    proof (induction vs rule: rev_induct)
      case Nil
      then show ?case using k by (simp add: insert_values_def)
    next
      case (snoc w ws)
      have snoc': "insert_values key held (v # ws @ [w]) =
          (if key w \<in> held then insert_values key held (v # ws)
           else AList.update (key w) w (insert_values key held (v # ws)))"
        using insert_values_snoc [of key held "v # ws" w] by simp
      have "set (map fst (insert_values key held (v # ws))) = insert k (key ` set ws) - held"
        using insert_values_keys(1) [of key held "v # ws"] k by simp
      moreover have "set (map fst (insert_values key (insert k held) ws)) = key ` set ws - insert k held"
        using insert_values_keys(1) [of key "insert k held" ws] by simp
      moreover have "set (map fst (insert_values key held ws)) = key ` set ws - held"
        using insert_values_keys(1) [of key held ws] by simp
      ultimately show ?case using snoc.IH k
        by (simp only: append_Cons snoc' insert_values_snoc) (auto simp: update_keys)
    qed
  qed
  show ?thesis
  proof (induction vs arbitrary: fresh es)
    case (Cons v vs)
    have "key v \<in> dom es \<Longrightarrow> insert (key v) (dom es) = dom es" by auto
    then have "map fst (insert_values key (dom es) (v # vs)) =
        (if es (key v) = None then [key v] else []) @
        map fst (insert_values key (insert (key v) (dom es)) vs)"
      by (auto simp: keys [OF refl] domIff)
    moreover have "clone v = v" using assms by simp
    ultimately show ?case
      by (simp add: Cons.IH find_append del: fun_upd_apply)
        (auto simp: fun_eq_iff split: option.splits)
  qed (simp add: insert_values_def)
qed

lemma oc_insert_at_spec:
  assumes inv: "oc_inv c" and clone: "clone = id"
  shows "oc_inv (oc_insert_at index vs key clone c)"
    and "oc_alist (oc_insert_at index vs key clone c) = alist_insert_at index vs key (oc_alist c)"
proof -
  let ?held = "dom (entries c)" and ?n = "clamp_index index (length (ids c))"
  let ?ys = "overwrite_values key vs (oc_alist c)"
  let ?ins = "insert_values key ?held vs"
  let ?all = "take ?n ?ys @ ?ins @ drop ?n ?ys"
  let ?es = "\<lambda>i. case find (\<lambda>v. key v = i) (rev vs) of None \<Rightarrow> entries c i | Some v \<Rightarrow> Some v"
  have keys_ys: "map fst ?ys = ids c" by simp
  have keys: "map fst ?all = take ?n (ids c) @ map fst ?ins @ drop ?n (ids c)"
    by (simp only: map_append keys_ys flip: take_map drop_map)
  have run: "oc_insert_at index vs key clone c = \<lparr>ids = map fst ?all, entries = ?es\<rparr>"
    unfolding keys by (auto simp: oc_insert_at_def oc_insert_loop_spec [OF clone] clamp_index_def Let_def)
  have held: "?held = fst ` set ?ys"
    using inv keys_ys by (metis oc_inv_def list.set_map)
  have "distinct (map fst ?ys)" using inv by (simp only: keys_ys) (simp add: oc_inv_def)
  then have d2: "distinct (map fst (take ?n ?ys) @ map fst (drop ?n ?ys))"
    by (metis append_take_drop_id map_append)
  have parts: "fst ` set (take ?n ?ys) \<union> fst ` set (drop ?n ?ys) = ?held"
    by (metis append_take_drop_id held image_Un set_append)
  have dis: "distinct (map fst ?all)"
    using d2 parts insert_values_keys [of key ?held vs] by auto
  have es: "map_of ?all = ?es"
  proof
    fix i
    have "map_of ?ys i = map_of (take ?n ?ys @ drop ?n ?ys) i" by simp
    then have split: "map_of ?ys i =
        (case map_of (take ?n ?ys) i of None \<Rightarrow> map_of (drop ?n ?ys) i | Some w \<Rightarrow> Some w)"
      by (simp only: map_of_append map_add_def)
    have ys: "map_of ?ys i = (case entries c i of None \<Rightarrow> None
        | Some w \<Rightarrow> Some (case find (\<lambda>v. key v = i) (rev vs) of None \<Rightarrow> w | Some v \<Rightarrow> v))"
      using inv by (simp add: overwrite_map_of oc_map_of)
    have disj: "map_of (take ?n ?ys) i \<noteq> None \<Longrightarrow> map_of (drop ?n ?ys) i = None"
      using d2 by (auto simp: map_of_eq_None_iff)
    show "map_of ?all i = ?es i"
      using split ys disj insert_values_map_of [of key ?held vs i]
      by (cases "map_of (drop ?n ?ys) i"; cases "map_of (take ?n ?ys) i")
        (auto simp: map_add_def domIff split: option.splits if_splits)
  qed
  show "oc_inv (oc_insert_at index vs key clone c)"
    unfolding run by (rule oc_of_alist(1) [OF dis es refl])
  have "oc_alist (oc_insert_at index vs key clone c) = ?all"
    unfolding run by (rule oc_of_alist(2) [OF dis es refl])
  moreover have "?held = fst ` set (oc_alist c)" using inv by (simp add: oc_inv_def)
  moreover have "length (ids c) = length (oc_alist c)" by (simp add: oc_alist_def)
  ultimately show "oc_alist (oc_insert_at index vs key clone c) = alist_insert_at index vs key (oc_alist c)"
    by (simp add: alist_insert_at_def Let_def)
qed

definition alist_of_values :: "('a \<Rightarrow> string) \<Rightarrow> 'a list \<Rightarrow> (string \<times> 'a) list" where
  "alist_of_values key vs = foldl (\<lambda>acc v. AList.update (key v) v acc) [] vs"

lemma oc_reset_spec:
  assumes clone: "clone = id"
  shows "oc_inv (oc_reset vs key clone c)"
    and "oc_alist (oc_reset vs key clone c) = alist_of_values key vs"
proof -
  have empty: "\<lparr>ids = [], entries = Map.empty\<rparr> = oc_empty" by (simp add: oc_empty_def)
  have "oc_inv (oc_reset vs key clone c) \<and>
    oc_alist (oc_reset vs key clone c) = alist_of_values key vs"
    unfolding oc_reset_def alist_of_values_def empty
    by (induction vs rule: rev_induct) (simp_all add: clone oc_set_alist)
  then show "oc_inv (oc_reset vs key clone c)"
    and "oc_alist (oc_reset vs key clone c) = alist_of_values key vs" by auto
qed

lemma oc_update_loop_spec:
  assumes "distinct is" and "set is \<subseteq> dom es"
  shows "foldl (\<lambda>es i. es(i \<mapsto> f i (entry_or z es i))) es is =
    (\<lambda>i. if i \<in> set is then Some (f i (the (es i))) else es i)"
  using assms
proof (induction "is" arbitrary: es)
  case (Cons i "is")
  obtain v where v: "es i = Some v" using Cons.prems by auto
  have "set is \<subseteq> dom (es(i \<mapsto> f i v))" using Cons.prems by auto
  with Cons.prems have "foldl (\<lambda>es i. es(i \<mapsto> f i (entry_or z es i))) (es(i \<mapsto> f i v)) is =
      (\<lambda>j. if j \<in> set is then Some (f j (the ((es(i \<mapsto> f i v)) j))) else (es(i \<mapsto> f i v)) j)"
    by (intro Cons.IH) (auto simp del: fun_upd_apply)
  with Cons.prems v show ?case by (simp add: fun_eq_iff del: fun_upd_apply) auto
qed simp

lemma oc_update_spec:
  assumes "oc_inv c"
  shows "oc_inv (oc_update z f c)"
    and "oc_alist (oc_update z f c) = map (\<lambda>(i, v). (i, f i v)) (oc_alist c)"
  using assms oc_update_loop_spec [of "ids c" "entries c" f z]
  by (auto simp: oc_inv_def oc_update_def oc_alist_def dom_def split: if_splits)

lemma oc_values_alist [store_simps]: "oc_inv c \<Longrightarrow> oc_values z c = map snd (oc_alist c)"
  by (auto simp: oc_values_def oc_alist_def oc_inv_def entry_or_def split: option.splits)

lemmas oc_inv_intros [simp] =
  oc_delete_where_spec(1) oc_insert_at_spec(1) oc_reset_spec(1) oc_update_spec(1)

lemmas oc_alist_simps [store_simps] =
  oc_delete_where_spec(2,3) oc_insert_at_spec(2) oc_reset_spec(2) oc_update_spec(2)

subsection \<open>The contract of an ordered store\<close>

text \<open>
  What the session mirror asks of a collection: the view determines it, and each operation is the
  association-list operation on the view. The lemmas of the block follow from the contract alone.
\<close>

locale ordered_store =
  fixes inv :: "'c \<Rightarrow> bool"
    and view :: "'c \<Rightarrow> (string \<times> 'a) list"
    and get :: "'c \<Rightarrow> string \<Rightarrow> 'a option"
    and set_entry :: "string \<Rightarrow> 'a \<Rightarrow> 'c \<Rightarrow> 'c"
    and remove :: "string \<Rightarrow> 'c \<Rightarrow> 'c"
    and rewrite :: "(string \<Rightarrow> 'a \<Rightarrow> 'a) \<Rightarrow> 'c \<Rightarrow> 'c"
    and remove_where :: "('a \<Rightarrow> bool) \<Rightarrow> 'c \<Rightarrow> 'c"
  assumes view_distinct: "inv c \<Longrightarrow> distinct (map fst (view c))"
    and view_inject: "inv c \<Longrightarrow> inv d \<Longrightarrow> view c = view d \<Longrightarrow> c = d"
    and get_view: "inv c \<Longrightarrow> get c i = map_of (view c) i"
    and set_inv: "inv c \<Longrightarrow> inv (set_entry i v c)"
    and set_view: "inv c \<Longrightarrow> view (set_entry i v c) = AList.update i v (view c)"
    and remove_inv: "inv c \<Longrightarrow> inv (remove i c)"
    and remove_view: "inv c \<Longrightarrow> view (remove i c) = AList.delete i (view c)"
    and rewrite_inv: "inv c \<Longrightarrow> inv (rewrite f c)"
    and rewrite_view: "inv c \<Longrightarrow> view (rewrite f c) = map (\<lambda>(i, v). (i, f i v)) (view c)"
    and remove_where_inv: "inv c \<Longrightarrow> inv (remove_where P c)"
    and remove_where_view: "inv c \<Longrightarrow> view (remove_where P c) = filter (\<lambda>(i, v). \<not> P v) (view c)"
begin

lemmas views = set_view remove_view rewrite_view remove_where_view
lemmas invs = set_inv remove_inv rewrite_inv remove_where_inv

lemma get_set: "inv c \<Longrightarrow> get (set_entry i v c) j = (if j = i then Some v else get c j)"
  by (simp add: get_view set_inv set_view update_conv)

lemma get_remove: "inv c \<Longrightarrow> get (remove i c) j = (if j = i then None else get c j)"
  by (simp add: get_view remove_inv remove_view delete_conv)

lemma get_rewrite: "inv c \<Longrightarrow> get (rewrite f c) j = map_option (f j) (get c j)"
proof -
  have "map_of (map (\<lambda>(i, v). (i, f i v)) xs) j = map_option (f j) (map_of xs j)" for xs
    by (induction xs) auto
  then show "inv c \<Longrightarrow> ?thesis" by (simp add: get_view rewrite_inv rewrite_view)
qed

lemma get_remove_where:
  "inv c \<Longrightarrow> get (remove_where P c) j =
    (case get c j of None \<Rightarrow> None | Some v \<Rightarrow> if P v then None else Some v)"
  by (simp add: get_view remove_where_inv remove_where_view map_of_filter_in_distinct view_distinct
      split: option.split)

lemma set_twice: "inv c \<Longrightarrow> set_entry i v (set_entry i w c) = set_entry i v c"
  by (rule view_inject) (simp_all add: invs views)

lemma remove_twice: "inv c \<Longrightarrow> remove i (remove i c) = remove i c"
  by (rule view_inject) (simp_all add: invs views delete_idem)

lemma remove_where_twice: "inv c \<Longrightarrow> remove_where P (remove_where P c) = remove_where P c"
  by (rule view_inject) (simp_all add: invs views)

lemma rewrite_twice:
  "inv c \<Longrightarrow> (\<And>i v. f i (f i v) = f i v) \<Longrightarrow> rewrite f (rewrite f c) = rewrite f c"
  by (rule view_inject) (simp_all add: invs views split_beta comp_def)

lemma remove_set: "inv c \<Longrightarrow> remove i (set_entry i v c) = remove i c"
proof (rule view_inject)
  have "AList.delete i (AList.update i v xs) = AList.delete i xs" for xs
    by (induction xs) auto
  then show "inv c \<Longrightarrow> view (remove i (set_entry i v c)) = view (remove i c)"
    by (simp add: invs views)
qed (simp_all add: invs)

end

interpretation oc: ordered_store
  "oc_inv :: 'a ordered_collection \<Rightarrow> bool" oc_alist oc_get oc_set oc_delete "oc_update z"
  "\<lambda>P c. fst (oc_delete_where z P c)" for z :: 'a
  by unfold_locales (simp_all add: store_simps oc_ext oc_inv_def [THEN iffD1])

end
