(* ===== verification/Keyed_Store.thy ===== *)
theory Keyed_Store
  imports Ordered_Collection
begin

text \<open>
  An ordered collection whose entries carry their own id, as every collection of the session mirror
  does (\<open>workspaceKey\<close>, \<open>tabKey\<close>, ... in \<open>herdr/session_cache.go\<close>). Such a collection is its list of
  values, and the operations are list operations: \<open>upsert\<close>, \<open>filter\<close>, \<open>map\<close> and \<open>find\<close>. The locale
  \<open>keyed_store\<close> is that contract, and its interpretation \<open>keyed\<close> shows that the ordered collection
  meets it for any key.
\<close>

definition upsert :: "('a \<Rightarrow> string) \<Rightarrow> 'a \<Rightarrow> 'a list \<Rightarrow> 'a list" where
  "upsert key v xs =
    (if key v \<in> key ` set xs then map (\<lambda>x. if key x = key v then v else x) xs else xs @ [v])"

definition upsert_all :: "('a \<Rightarrow> string) \<Rightarrow> 'a list \<Rightarrow> 'a list" where
  "upsert_all key vs = foldl (\<lambda>xs v. upsert key v xs) [] vs"

definition oc_list :: "'a ordered_collection \<Rightarrow> 'a list" where
  "oc_list c = map snd (oc_alist c)"

definition keyed_inv :: "('a \<Rightarrow> string) \<Rightarrow> 'a ordered_collection \<Rightarrow> bool" where
  "keyed_inv key c \<longleftrightarrow> oc_inv c \<and> (\<forall>p \<in> set (oc_alist c). key (snd p) = fst p)"

subsection \<open>Lists with distinct keys\<close>

lemma upsert_keys [simp]: "key ` set (upsert key v xs) = insert (key v) (key ` set xs)"
  by (auto simp: upsert_def image_iff)

lemma upsert_map_keys:
  "map key (upsert key v xs) = (if key v \<in> key ` set xs then map key xs else map key xs @ [key v])"
  by (auto simp: upsert_def)

lemma upsert_distinct [simp]: "distinct (map key xs) \<Longrightarrow> distinct (map key (upsert key v xs))"
  by (simp add: upsert_map_keys)

lemma upsert_in [simp]: "v \<in> set (upsert key v xs)"
  by (auto simp: upsert_def)

lemma upsert_mem: "x \<in> set (upsert key v xs) \<longleftrightarrow> x = v \<or> (x \<in> set xs \<and> key x \<noteq> key v)"
  by (auto simp: upsert_def image_iff)

lemma upsert_same [simp]: "upsert key v (upsert key v xs) = upsert key v xs"
proof -
  have "map (\<lambda>x. if key x = key v then v else x) (upsert key v xs) = upsert key v xs"
    by (rule map_idI) (auto simp: upsert_mem)
  then show ?thesis by (subst upsert_def) simp
qed

lemma upsert_id: "v \<in> set xs \<Longrightarrow> distinct (map key xs) \<Longrightarrow> upsert key v xs = xs"
  by (auto simp: upsert_def intro!: map_idI dest: inj_onD simp: distinct_map)

lemma filter_keys_distinct [simp]: "distinct (map key xs) \<Longrightarrow> distinct (map key (filter P xs))"
  by (induction xs) auto

lemma upsert_filter_twice [simp]:
  assumes "distinct (map key xs)"
  shows "filter Q (upsert key v (filter Q (upsert key v xs))) = filter Q (upsert key v xs)"
proof (cases "Q v")
  case True
  then have "v \<in> set (filter Q (upsert key v xs))" by simp
  with assms have "upsert key v (filter Q (upsert key v xs)) = filter Q (upsert key v xs)"
    by (intro upsert_id) simp_all
  then show ?thesis by simp
next
  case False
  then have "key v \<notin> key ` set (filter Q (upsert key v xs))" by (auto simp: upsert_mem)
  with False show ?thesis by (simp add: upsert_def)
qed

lemma find_key_map_of: "find (\<lambda>v. key v = i) xs = map_of (map (\<lambda>v. (key v, v)) xs) i"
  by (induction xs) auto

lemma find_key_Some:
  "distinct (map key xs) \<Longrightarrow> find (\<lambda>v. key v = i) xs = Some v \<longleftrightarrow> v \<in> set xs \<and> key v = i"
  by (induction xs) auto

lemma find_key_absent: "find (\<lambda>v. key v = i) xs = None \<longleftrightarrow> i \<notin> key ` set xs"
  by (induction xs) auto

text \<open>Rewriting one entry in place, as the update of the value found under its id.\<close>

lemma upsert_held:
  assumes "distinct (map key xs)" and "find (\<lambda>v. key v = i) xs = Some v" and "key (f v) = i"
  shows "upsert key (f v) xs = map (\<lambda>x. if key x = i then f x else x) xs"
proof -
  have v: "v \<in> set xs" "key v = i" using assms(1,2) by (simp_all only: find_key_Some)
  have same: "x = v" if "x \<in> set xs" "key x = i" for x
    using assms(1) that v by (metis distinct_map inj_onD)
  have "map (\<lambda>x. if key x = key (f v) then f v else x) xs =
      map (\<lambda>x. if key x = i then f x else x) xs"
    by (rule map_cong [OF refl]) (metis same assms(3))
  moreover have "key (f v) \<in> key ` set xs" using v assms(3) by (metis imageI)
  ultimately show ?thesis by (simp add: upsert_def)
qed

lemma map_unheld:
  "find (\<lambda>v. key v = i) xs = None \<Longrightarrow> map (\<lambda>x. if key x = i then f x else x) xs = xs"
  by (auto simp: find_None_iff intro: map_idI)

subsection \<open>The operations on a keyed collection\<close>

lemma keyed_inv_oc [simp]: "keyed_inv key c \<Longrightarrow> oc_inv c"
  by (simp add: keyed_inv_def)

lemma keyed_alist: "keyed_inv key c \<Longrightarrow> oc_alist c = map (\<lambda>v. (key v, v)) (oc_list c)"
  by (auto simp: keyed_inv_def oc_list_def intro!: map_idI [symmetric] prod_eqI)

lemma keyed_ids: "keyed_inv key c \<Longrightarrow> map key (oc_list c) = ids c"
  by (metis (no_types, lifting) keyed_alist list.map_comp map_cong oc_keys comp_apply fst_conv)

lemma keyed_distinct: "keyed_inv key c \<Longrightarrow> distinct (map key (oc_list c))"
  by (simp add: keyed_ids oc_inv_def [THEN iffD1])

lemma alist_update_upsert:
  "distinct (map key xs) \<Longrightarrow>
    AList.update (key v) v (map (\<lambda>v. (key v, v)) xs) = map (\<lambda>v. (key v, v)) (upsert key v xs)"
proof (induction xs)
  case (Cons x xs)
  then show ?case
  proof (cases "key x = key v")
    case True
    with Cons.prems have "map (\<lambda>x. if key x = key v then v else x) xs = xs"
      by (intro map_idI) (auto simp: image_iff)
    with True show ?thesis by (simp add: upsert_def)
  next
    case False
    with Cons show ?thesis by (simp add: upsert_def)
  qed
qed (simp add: upsert_def)

lemma alist_delete_filter:
  "AList.delete i (map (\<lambda>v. (key v, v)) xs) = map (\<lambda>v. (key v, v)) (filter (\<lambda>v. key v \<noteq> i) xs)"
  by (induction xs) auto

lemma keyed_of_list:
  assumes "oc_inv c" and "oc_alist c = map (\<lambda>v. (key v, v)) xs"
  shows "keyed_inv key c" and "oc_list c = xs"
  using assms by (auto simp: keyed_inv_def oc_list_def comp_def)

lemma keyed_set:
  assumes "keyed_inv key c" and "key v = i"
  shows "keyed_inv key (oc_set i v c)" and "oc_list (oc_set i v c) = upsert key v (oc_list c)"
proof -
  have "oc_alist (oc_set i v c) = map (\<lambda>v. (key v, v)) (upsert key v (oc_list c))"
    using assms by (simp add: store_simps keyed_alist [OF assms(1)] keyed_distinct
        flip: assms(2) alist_update_upsert)
  then show "keyed_inv key (oc_set i v c)" and "oc_list (oc_set i v c) = upsert key v (oc_list c)"
    using assms(1) keyed_of_list by (metis keyed_inv_oc oc_set_inv)+
qed

lemma keyed_delete:
  assumes "keyed_inv key c"
  shows "keyed_inv key (oc_delete i c)"
    and "oc_list (oc_delete i c) = filter (\<lambda>v. key v \<noteq> i) (oc_list c)"
proof -
  have "oc_alist (oc_delete i c) = map (\<lambda>v. (key v, v)) (filter (\<lambda>v. key v \<noteq> i) (oc_list c))"
    using assms by (simp add: store_simps keyed_alist [OF assms] alist_delete_filter)
  then show "keyed_inv key (oc_delete i c)"
    and "oc_list (oc_delete i c) = filter (\<lambda>v. key v \<noteq> i) (oc_list c)"
    using assms keyed_of_list by (metis keyed_inv_oc oc_delete_inv)+
qed

lemma keyed_delete_where:
  assumes "keyed_inv key c"
  shows "keyed_inv key (fst (oc_delete_where z P c))"
    and "oc_list (fst (oc_delete_where z P c)) = filter (\<lambda>v. \<not> P v) (oc_list c)"
    and "snd (oc_delete_where z P c) = first_match P (oc_list c)"
proof -
  have "oc_alist (fst (oc_delete_where z P c)) =
      map (\<lambda>v. (key v, v)) (filter (\<lambda>v. \<not> P v) (oc_list c))"
    using assms by (simp add: store_simps keyed_alist [OF assms] filter_map comp_def)
  then show "keyed_inv key (fst (oc_delete_where z P c))"
    and "oc_list (fst (oc_delete_where z P c)) = filter (\<lambda>v. \<not> P v) (oc_list c)"
    using assms keyed_of_list by (metis keyed_inv_oc oc_delete_where_spec(1))+
  show "snd (oc_delete_where z P c) = first_match P (oc_list c)"
    using assms by (simp add: store_simps first_match_def oc_list_def list_ex_iff takeWhile_map
        comp_def split_beta)
qed

lemma keyed_update:
  assumes "keyed_inv key c" and "\<And>i v. key (f i v) = key v"
  shows "keyed_inv key (oc_update z f c)"
    and "oc_list (oc_update z f c) = map (\<lambda>v. f (key v) v) (oc_list c)"
proof -
  have "oc_alist (oc_update z f c) = map (\<lambda>v. (key v, v)) (map (\<lambda>v. f (key v) v) (oc_list c))"
    using assms by (simp add: store_simps keyed_alist [OF assms(1)] comp_def)
  then show "keyed_inv key (oc_update z f c)"
    and "oc_list (oc_update z f c) = map (\<lambda>v. f (key v) v) (oc_list c)"
    using assms(1) keyed_of_list by (metis keyed_inv_oc oc_update_spec(1))+
qed

lemma keyed_reset:
  assumes "clone = id"
  shows "keyed_inv key (oc_reset vs key clone c)"
    and "oc_list (oc_reset vs key clone c) = upsert_all key vs"
proof -
  have "distinct (map key (upsert_all key vs)) \<and>
      alist_of_values key vs = map (\<lambda>v. (key v, v)) (upsert_all key vs)"
    by (induction vs rule: rev_induct)
      (simp_all add: alist_of_values_def upsert_all_def alist_update_upsert)
  then show "keyed_inv key (oc_reset vs key clone c)"
    and "oc_list (oc_reset vs key clone c) = upsert_all key vs"
    using keyed_of_list [of "oc_reset vs key clone c" key] oc_reset_spec [OF assms] by metis+
qed

lemma keyed_get: "keyed_inv key c \<Longrightarrow> oc_get c i = find (\<lambda>v. key v = i) (oc_list c)"
  by (simp add: store_simps find_key_map_of keyed_alist)

lemma keyed_ext: "keyed_inv key c \<Longrightarrow> keyed_inv key d \<Longrightarrow> oc_list c = oc_list d \<Longrightarrow> c = d"
  by (metis keyed_alist keyed_inv_oc oc_ext)

lemma upsert_all_distinct: "distinct (map key vs) \<Longrightarrow> upsert_all key vs = vs"
proof (induction vs rule: rev_induct)
  case (snoc v vs)
  then show ?case by (simp add: upsert_all_def upsert_def image_iff)
qed (simp add: upsert_all_def)

lemma keyed_values: "keyed_inv key c \<Longrightarrow> oc_values z c = oc_list c"
  by (simp add: oc_list_def oc_values_alist)

definition list_insert_at ::
  "int \<Rightarrow> 'a list \<Rightarrow> ('a \<Rightarrow> string) \<Rightarrow> 'a list \<Rightarrow> 'a list" where
  "list_insert_at index vs key xs =
    (let ys = map (\<lambda>x. case find (\<lambda>v. key v = key x) (rev vs) of None \<Rightarrow> x | Some v \<Rightarrow> v) xs;
         n = clamp_index index (length xs)
     in take n ys @ upsert_all key (filter (\<lambda>v. key v \<notin> key ` set xs) vs) @ drop n ys)"

lemma insert_values_upsert:
  "insert_values key held vs = map (\<lambda>v. (key v, v)) (upsert_all key (filter (\<lambda>v. key v \<notin> held) vs))"
proof -
  have "distinct (map key (upsert_all key (filter (\<lambda>v. key v \<notin> held) vs))) \<and> ?thesis"
    by (induction vs rule: rev_induct)
      (simp_all add: insert_values_def upsert_all_def alist_update_upsert)
  then show ?thesis by simp
qed

lemma overwrite_values_list:
  "overwrite_values key vs (map (\<lambda>x. (key x, x)) xs) =
    map (\<lambda>x. (key x, x))
      (map (\<lambda>x. case find (\<lambda>v. key v = key x) (rev vs) of None \<Rightarrow> x | Some v \<Rightarrow> v) xs)"
  by (auto simp: overwrite_values_def find_Some_iff split: option.split)

lemma keyed_insert_at:
  assumes "keyed_inv key c" and "clone = id"
  shows "keyed_inv key (oc_insert_at index vs key clone c)"
    and "oc_list (oc_insert_at index vs key clone c) = list_insert_at index vs key (oc_list c)"
proof -
  have keys: "fst ` (\<lambda>v. (key v, v)) ` X = key ` X" for X by (simp add: image_comp comp_def)
  have "oc_alist (oc_insert_at index vs key clone c) =
      map (\<lambda>v. (key v, v)) (list_insert_at index vs key (oc_list c))"
    unfolding oc_insert_at_spec(2) [OF keyed_inv_oc [OF assms(1)] assms(2)] keyed_alist [OF assms(1)]
    by (simp only: alist_insert_at_def list_insert_at_def Let_def overwrite_values_list
        insert_values_upsert set_map keys take_map drop_map map_append length_map)
  then show "keyed_inv key (oc_insert_at index vs key clone c)"
    and "oc_list (oc_insert_at index vs key clone c) = list_insert_at index vs key (oc_list c)"
    using assms keyed_of_list by (metis keyed_inv_oc oc_insert_at_spec(1))+
qed

subsection \<open>The contract\<close>

locale keyed_store =
  fixes key :: "'a \<Rightarrow> string"
    and inv :: "'c \<Rightarrow> bool"
    and vals :: "'c \<Rightarrow> 'a list"
    and get :: "'c \<Rightarrow> string \<Rightarrow> 'a option"
    and put :: "string \<Rightarrow> 'a \<Rightarrow> 'c \<Rightarrow> 'c"
    and remove :: "string \<Rightarrow> 'c \<Rightarrow> 'c"
    and remove_where :: "('a \<Rightarrow> bool) \<Rightarrow> 'c \<Rightarrow> 'c"
    and rewrite :: "(string \<Rightarrow> 'a \<Rightarrow> 'a) \<Rightarrow> 'c \<Rightarrow> 'c"
    and reload :: "'a list \<Rightarrow> 'c \<Rightarrow> 'c"
  assumes keys_distinct: "inv c \<Longrightarrow> distinct (map key (vals c))"
    and vals_determine: "inv c \<Longrightarrow> inv d \<Longrightarrow> vals c = vals d \<Longrightarrow> c = d"
    and get_vals: "inv c \<Longrightarrow> get c i = find (\<lambda>v. key v = i) (vals c)"
    and put_inv: "inv c \<Longrightarrow> key v = i \<Longrightarrow> inv (put i v c)"
    and put_vals: "inv c \<Longrightarrow> key v = i \<Longrightarrow> vals (put i v c) = upsert key v (vals c)"
    and remove_inv: "inv c \<Longrightarrow> inv (remove i c)"
    and remove_vals: "inv c \<Longrightarrow> vals (remove i c) = filter (\<lambda>v. key v \<noteq> i) (vals c)"
    and remove_where_inv: "inv c \<Longrightarrow> inv (remove_where P c)"
    and remove_where_vals: "inv c \<Longrightarrow> vals (remove_where P c) = filter (\<lambda>v. \<not> P v) (vals c)"
    and rewrite_inv: "inv c \<Longrightarrow> (\<And>i v. key (f i v) = key v) \<Longrightarrow> inv (rewrite f c)"
    and rewrite_vals:
      "inv c \<Longrightarrow> (\<And>i v. key (f i v) = key v) \<Longrightarrow> vals (rewrite f c) = map (\<lambda>v. f (key v) v) (vals c)"
    and reload_inv: "inv (reload vs c)"
    and reload_vals: "vals (reload vs c) = upsert_all key vs"
begin

lemmas laws = put_inv put_vals remove_inv remove_vals remove_where_inv remove_where_vals
  rewrite_inv rewrite_vals reload_inv reload_vals

lemma get_key: "inv c \<Longrightarrow> get c i = Some v \<Longrightarrow> key v = i"
  by (simp add: get_vals find_key_Some keys_distinct)

lemma get_mem: "inv c \<Longrightarrow> get c i = Some v \<longleftrightarrow> v \<in> set (vals c) \<and> key v = i"
  by (simp add: get_vals find_key_Some keys_distinct)

lemma get_absent: "inv c \<Longrightarrow> get c i = None \<longleftrightarrow> i \<notin> key ` set (vals c)"
  by (simp add: get_vals find_key_absent)

lemma put_present: "inv c \<Longrightarrow> get c i = Some v \<Longrightarrow> put i v c = c"
  by (rule vals_determine) (simp_all add: get_mem laws upsert_id keys_distinct)

lemma put_again: "inv c \<Longrightarrow> key v = i \<Longrightarrow> put i v (put i v c) = put i v c"
  by (rule vals_determine) (simp_all add: laws)

lemma reload_again: "reload vs (reload vs c) = reload vs d"
  by (rule vals_determine) (simp_all add: laws)

lemma reload_vals_same: "inv c \<Longrightarrow> reload (vals c) d = c"
  by (rule vals_determine) (simp_all add: laws keys_distinct upsert_all_distinct)

lemma get_after_put:
  "inv c \<Longrightarrow> key v = i \<Longrightarrow> get (put i v c) j = (if j = i then Some v else get c j)"
proof -
  assume inv: "inv c" and i: "key v = i"
  then have inv': "inv (put i v c)" by (rule put_inv)
  have "get (put i v c) j = Some w \<longleftrightarrow> (if j = i then Some v else get c j) = Some w" for w
    using inv inv' i by (auto simp: get_mem put_vals upsert_mem)
  then show ?thesis by (metis not_None_eq)
qed

end

interpretation keyed: keyed_store key "keyed_inv key" oc_list oc_get oc_set oc_delete
  "\<lambda>P c. fst (oc_delete_where z P c)" "oc_update z" "\<lambda>vs. oc_reset vs key id"
  for key :: "'a \<Rightarrow> string" and z :: 'a
  by unfold_locales
    (blast intro: keyed_distinct keyed_ext keyed_get keyed_set keyed_delete keyed_delete_where(1,2)
      keyed_update keyed_reset [OF refl])+

end
