(* ===== verification/Go_Values.thy ===== *)
theory Go_Values
  imports Prelude "HOL-Library.Word"
begin

text \<open>
  The values Go structs hold: \<open>herdr/optional.go\<close>, \<open>herdr/ptr.go\<close>, and the built-in slices, maps
  and pointers.

  \<open>Optional[T]\<close> has unexported fields, so only three states can be built and the struct is the
  datatype \<open>optional\<close>; \<open>T\<close>'s zero value is the argument \<open>z\<close> of the accessors. A slice, a map and
  a pointer may be nil, which Go tells apart from an empty one (JSON writes \<open>null\<close> for it), so each
  is an \<open>option\<close> with \<open>None\<close> for nil. A \<open>uint64\<close> is a \<open>64 word\<close>, and so on; a \<open>float64\<close> is the
  64-bit word of its IEEE 754 representation, which is all a program that only stores and copies it
  can see.
\<close>

datatype 'a optional = Absent | ExplicitNull | Present 'a

text \<open>\<open>Some\<close> and \<open>Null\<close> are the constructors; the zero value is \<open>Absent\<close>.\<close>

definition opt_get :: "'a \<Rightarrow> 'a optional \<Rightarrow> 'a \<times> bool" where
  "opt_get z o' = (case o' of Present v \<Rightarrow> (v, True) | _ \<Rightarrow> (z, False))"

definition opt_value_or_zero :: "'a \<Rightarrow> 'a optional \<Rightarrow> 'a" where
  "opt_value_or_zero z o' = (case o' of Present v \<Rightarrow> v | _ \<Rightarrow> z)"

definition opt_is_set :: "'a optional \<Rightarrow> bool" where
  "opt_is_set o' = (case o' of Absent \<Rightarrow> False | _ \<Rightarrow> True)"

definition opt_is_null :: "'a optional \<Rightarrow> bool" where
  "opt_is_null o' = (case o' of ExplicitNull \<Rightarrow> True | _ \<Rightarrow> False)"

definition opt_is_zero :: "'a optional \<Rightarrow> bool" where
  "opt_is_zero o' = (case o' of Absent \<Rightarrow> True | _ \<Rightarrow> False)"

lemma opt_get_iff: "opt_get z o' = (v, True) \<longleftrightarrow> o' = Present v"
  by (auto simp: opt_get_def split: optional.splits)

subsection \<open>Slices, maps and pointers\<close>

type_synonym 'a slice = "'a list option"
type_synonym 'a str_map = "(string \<rightharpoonup> 'a) option"
type_synonym 'a pointer = "'a option"
type_synonym float64 = "64 word"

text \<open>A \<open>range\<close> over a nil slice has no iterations, and a read of a nil map finds nothing.\<close>

definition elems :: "'a slice \<Rightarrow> 'a list" where
  "elems s = (case s of None \<Rightarrow> [] | Some xs \<Rightarrow> xs)"

definition map_entries :: "'a str_map \<Rightarrow> (string \<rightharpoonup> 'a)" where
  "map_entries m = (case m of None \<Rightarrow> Map.empty | Some f \<Rightarrow> f)"

lemma elems_simps [simp]: "elems None = []" "elems (Some xs) = xs"
  by (simp_all add: elems_def)

definition deref_or_zero :: "'a \<Rightarrow> 'a pointer \<Rightarrow> 'a" where
  "deref_or_zero z p = (case p of None \<Rightarrow> z | Some v \<Rightarrow> v)"

definition clone_ptr :: "'a pointer \<Rightarrow> 'a pointer" where
  "clone_ptr p = (case p of None \<Rightarrow> None | Some v \<Rightarrow> (let cloned = v in Some cloned))"

text \<open>
  The copies a generated Clone makes of a slice (\<open>make\<close>, then one element at a time) and of a map
  (\<open>make\<close>, then one entry at a time), and the copy under an \<open>Optional\<close>.
\<close>

definition clone_slice :: "('a \<Rightarrow> 'a) \<Rightarrow> 'a slice \<Rightarrow> 'a slice" where
  "clone_slice clone s = (case s of None \<Rightarrow> None | Some xs \<Rightarrow> Some (map clone xs))"

definition clone_map :: "('a \<Rightarrow> 'a) \<Rightarrow> 'a str_map \<Rightarrow> 'a str_map" where
  "clone_map clone m = (case m of None \<Rightarrow> None | Some f \<Rightarrow> Some (\<lambda>k. map_option clone (f k)))"

definition clone_opt :: "('a \<Rightarrow> 'a) \<Rightarrow> 'a optional \<Rightarrow> 'a optional" where
  "clone_opt clone o' = (case o' of Present v \<Rightarrow> Present (clone v) | _ \<Rightarrow> o')"

lemma clone_ptr_id [clone_simps]: "clone_ptr p = p"
  by (simp add: clone_ptr_def split: option.split)

lemma clone_slice_id [clone_simps]: "clone_slice id = id" "clone_slice (\<lambda>x. x) = id"
  by (simp_all add: clone_slice_def fun_eq_iff split: option.split)

lemma clone_map_id [clone_simps]: "clone_map id = id" "clone_map (\<lambda>x. x) = id"
  by (simp_all add: clone_map_def fun_eq_iff option.map_id0 option.map_ident split: option.split)

lemma clone_opt_id [clone_simps]: "clone_opt id = id" "clone_opt (\<lambda>x. x) = id"
  by (simp_all add: clone_opt_def fun_eq_iff split: optional.split)

end
