(* ===== verification/Api_Types.thy ===== *)
theory Api_Types
  imports Go_Values
begin

text \<open>
  The structs of \<open>herdr/types_gen.go\<close> that a session mirrors and an event carries.

  Each struct is a record, its field names prefixed by the initials of the struct; string enums
  are strings. \<open>_zero\<close> is the zero value of the type and \<open>_clone\<close> its Clone method, one update per
  field that Clone copies. The records are values, so a clone is shown to be the same value; which
  slices and maps it shares with the original is not part of this model.
\<close>

type_synonym agent_session_ref_kind = string
type_synonym agent_status = string
type_synonym read_format = string
type_synonym read_source = string
type_synonym split_direction = string

record pane_layout_rect =
  plr_height :: "16 word"
  plr_width :: "16 word"
  plr_x :: "16 word"
  plr_y :: "16 word"

definition pane_layout_rect_zero :: pane_layout_rect where
  "pane_layout_rect_zero = \<lparr>plr_height = 0,
     plr_width = 0,
     plr_x = 0,
     plr_y = 0\<rparr>"

definition pane_layout_rect_clone :: "pane_layout_rect \<Rightarrow> pane_layout_rect" where
  "pane_layout_rect_clone v = (let out = v in out)"

lemma pane_layout_rect_clone_id [clone_simps]: "pane_layout_rect_clone = id"
  by (simp add: fun_eq_iff pane_layout_rect_clone_def clone_simps)

record pane_layout_pane =
  plp_focused :: bool
  plp_pane_id :: string
  plp_rect :: pane_layout_rect

definition pane_layout_pane_zero :: pane_layout_pane where
  "pane_layout_pane_zero = \<lparr>plp_focused = False,
     plp_pane_id = [],
     plp_rect = pane_layout_rect_zero\<rparr>"

definition pane_layout_pane_clone :: "pane_layout_pane \<Rightarrow> pane_layout_pane" where
  "pane_layout_pane_clone v =
    (let out = v;
      out = out\<lparr>plp_rect := pane_layout_rect_clone (plp_rect v)\<rparr>
     in out)"

lemma pane_layout_pane_clone_id [clone_simps]: "pane_layout_pane_clone = id"
  by (simp add: fun_eq_iff pane_layout_pane_clone_def clone_simps)

record pane_layout_split =
  plsp_direction :: split_direction
  plsp_id :: string
  plsp_ratio :: float64
  plsp_rect :: pane_layout_rect

definition pane_layout_split_zero :: pane_layout_split where
  "pane_layout_split_zero = \<lparr>plsp_direction = [],
     plsp_id = [],
     plsp_ratio = 0,
     plsp_rect = pane_layout_rect_zero\<rparr>"

definition pane_layout_split_clone :: "pane_layout_split \<Rightarrow> pane_layout_split" where
  "pane_layout_split_clone v =
    (let out = v;
      out = out\<lparr>plsp_rect := pane_layout_rect_clone (plsp_rect v)\<rparr>
     in out)"

lemma pane_layout_split_clone_id [clone_simps]: "pane_layout_split_clone = id"
  by (simp add: fun_eq_iff pane_layout_split_clone_def clone_simps)

record pane_layout_snapshot =
  pls_area :: pane_layout_rect
  pls_focused_pane_id :: string
  pls_panes :: "pane_layout_pane slice"
  pls_splits :: "pane_layout_split slice"
  pls_tab_id :: string
  pls_workspace_id :: string
  pls_zoomed :: bool

definition pane_layout_snapshot_zero :: pane_layout_snapshot where
  "pane_layout_snapshot_zero = \<lparr>pls_area = pane_layout_rect_zero,
     pls_focused_pane_id = [],
     pls_panes = None,
     pls_splits = None,
     pls_tab_id = [],
     pls_workspace_id = [],
     pls_zoomed = False\<rparr>"

definition pane_layout_snapshot_clone :: "pane_layout_snapshot \<Rightarrow> pane_layout_snapshot" where
  "pane_layout_snapshot_clone v =
    (let out = v;
      out = out\<lparr>pls_area := pane_layout_rect_clone (pls_area v)\<rparr>;
      out = out\<lparr>pls_panes := clone_slice pane_layout_pane_clone (pls_panes v)\<rparr>;
      out = out\<lparr>pls_splits := clone_slice pane_layout_split_clone (pls_splits v)\<rparr>
     in out)"

lemma pane_layout_snapshot_clone_id [clone_simps]: "pane_layout_snapshot_clone = id"
  by (simp add: fun_eq_iff pane_layout_snapshot_clone_def clone_simps)

record agent_session_info =
  asi_agent :: string
  asi_kind :: agent_session_ref_kind
  asi_source :: string
  asi_value :: string

definition agent_session_info_zero :: agent_session_info where
  "agent_session_info_zero = \<lparr>asi_agent = [],
     asi_kind = [],
     asi_source = [],
     asi_value = []\<rparr>"

definition agent_session_info_clone :: "agent_session_info \<Rightarrow> agent_session_info" where
  "agent_session_info_clone v = (let out = v in out)"

lemma agent_session_info_clone_id [clone_simps]: "agent_session_info_clone = id"
  by (simp add: fun_eq_iff agent_session_info_clone_def clone_simps)

record pane_scroll_info =
  psc_max_offset_from_bottom :: "64 word"
  psc_offset_from_bottom :: "64 word"
  psc_viewport_rows :: "64 word"

definition pane_scroll_info_zero :: pane_scroll_info where
  "pane_scroll_info_zero = \<lparr>psc_max_offset_from_bottom = 0,
     psc_offset_from_bottom = 0,
     psc_viewport_rows = 0\<rparr>"

definition pane_scroll_info_clone :: "pane_scroll_info \<Rightarrow> pane_scroll_info" where
  "pane_scroll_info_clone v = (let out = v in out)"

lemma pane_scroll_info_clone_id [clone_simps]: "pane_scroll_info_clone = id"
  by (simp add: fun_eq_iff pane_scroll_info_clone_def clone_simps)

record pane_info =
  pi_agent :: "string optional"
  pi_agent_session :: "agent_session_info optional"
  pi_agent_status :: agent_status
  pi_cwd :: "string optional"
  pi_display_agent :: "string optional"
  pi_focused :: bool
  pi_foreground_cwd :: "string optional"
  pi_label :: "string optional"
  pi_pane_id :: string
  pi_restore_error :: "string optional"
  pi_revision :: "64 word"
  pi_scroll :: "pane_scroll_info optional"
  pi_state_labels :: "string str_map optional"
  pi_tab_id :: string
  pi_terminal_id :: string
  pi_terminal_title :: "string optional"
  pi_terminal_title_stripped :: "string optional"
  pi_title :: "string optional"
  pi_tokens :: "string str_map optional"
  pi_workspace_id :: string

definition pane_info_zero :: pane_info where
  "pane_info_zero = \<lparr>pi_agent = Absent,
     pi_agent_session = Absent,
     pi_agent_status = [],
     pi_cwd = Absent,
     pi_display_agent = Absent,
     pi_focused = False,
     pi_foreground_cwd = Absent,
     pi_label = Absent,
     pi_pane_id = [],
     pi_restore_error = Absent,
     pi_revision = 0,
     pi_scroll = Absent,
     pi_state_labels = Absent,
     pi_tab_id = [],
     pi_terminal_id = [],
     pi_terminal_title = Absent,
     pi_terminal_title_stripped = Absent,
     pi_title = Absent,
     pi_tokens = Absent,
     pi_workspace_id = []\<rparr>"

definition pane_info_clone :: "pane_info \<Rightarrow> pane_info" where
  "pane_info_clone v =
    (let out = v;
      out = out\<lparr>pi_agent_session := clone_opt agent_session_info_clone (pi_agent_session v)\<rparr>;
      out = out\<lparr>pi_scroll := clone_opt pane_scroll_info_clone (pi_scroll v)\<rparr>;
      out = out\<lparr>pi_state_labels := clone_opt (clone_map (\<lambda>x. x)) (pi_state_labels v)\<rparr>;
      out = out\<lparr>pi_tokens := clone_opt (clone_map (\<lambda>x. x)) (pi_tokens v)\<rparr>
     in out)"

lemma pane_info_clone_id [clone_simps]: "pane_info_clone = id"
  by (simp add: fun_eq_iff pane_info_clone_def clone_simps)

record tab_info =
  ti_agent_status :: agent_status
  ti_focused :: bool
  ti_label :: string
  ti_number :: "64 word"
  ti_pane_count :: "64 word"
  ti_tab_id :: string
  ti_workspace_id :: string

definition tab_info_zero :: tab_info where
  "tab_info_zero = \<lparr>ti_agent_status = [],
     ti_focused = False,
     ti_label = [],
     ti_number = 0,
     ti_pane_count = 0,
     ti_tab_id = [],
     ti_workspace_id = []\<rparr>"

definition tab_info_clone :: "tab_info \<Rightarrow> tab_info" where
  "tab_info_clone v = (let out = v in out)"

lemma tab_info_clone_id [clone_simps]: "tab_info_clone = id"
  by (simp add: fun_eq_iff tab_info_clone_def clone_simps)

record workspace_worktree_info =
  wwi_checkout_path :: string
  wwi_is_linked_worktree :: bool
  wwi_repo_key :: string
  wwi_repo_name :: string
  wwi_repo_root :: string

definition workspace_worktree_info_zero :: workspace_worktree_info where
  "workspace_worktree_info_zero = \<lparr>wwi_checkout_path = [],
     wwi_is_linked_worktree = False,
     wwi_repo_key = [],
     wwi_repo_name = [],
     wwi_repo_root = []\<rparr>"

definition workspace_worktree_info_clone :: "workspace_worktree_info \<Rightarrow> workspace_worktree_info" where
  "workspace_worktree_info_clone v = (let out = v in out)"

lemma workspace_worktree_info_clone_id [clone_simps]: "workspace_worktree_info_clone = id"
  by (simp add: fun_eq_iff workspace_worktree_info_clone_def clone_simps)

record workspace_info =
  wi_active_tab_id :: string
  wi_agent_status :: agent_status
  wi_focused :: bool
  wi_label :: string
  wi_number :: "64 word"
  wi_pane_count :: "64 word"
  wi_tab_count :: "64 word"
  wi_tokens :: "string str_map optional"
  wi_workspace_id :: string
  wi_worktree :: "workspace_worktree_info optional"

definition workspace_info_zero :: workspace_info where
  "workspace_info_zero = \<lparr>wi_active_tab_id = [],
     wi_agent_status = [],
     wi_focused = False,
     wi_label = [],
     wi_number = 0,
     wi_pane_count = 0,
     wi_tab_count = 0,
     wi_tokens = Absent,
     wi_workspace_id = [],
     wi_worktree = Absent\<rparr>"

definition workspace_info_clone :: "workspace_info \<Rightarrow> workspace_info" where
  "workspace_info_clone v =
    (let out = v;
      out = out\<lparr>wi_tokens := clone_opt (clone_map (\<lambda>x. x)) (wi_tokens v)\<rparr>;
      out = out\<lparr>wi_worktree := clone_opt workspace_worktree_info_clone (wi_worktree v)\<rparr>
     in out)"

lemma workspace_info_clone_id [clone_simps]: "workspace_info_clone = id"
  by (simp add: fun_eq_iff workspace_info_clone_def clone_simps)

record pane_read_result =
  prr_format :: read_format
  prr_pane_id :: string
  prr_revision :: "64 word"
  prr_source :: read_source
  prr_tab_id :: string
  prr_text :: string
  prr_truncated :: bool
  prr_workspace_id :: string

definition pane_read_result_zero :: pane_read_result where
  "pane_read_result_zero = \<lparr>prr_format = [],
     prr_pane_id = [],
     prr_revision = 0,
     prr_source = [],
     prr_tab_id = [],
     prr_text = [],
     prr_truncated = False,
     prr_workspace_id = []\<rparr>"

definition pane_read_result_clone :: "pane_read_result \<Rightarrow> pane_read_result" where
  "pane_read_result_clone v = (let out = v in out)"

lemma pane_read_result_clone_id [clone_simps]: "pane_read_result_clone = id"
  by (simp add: fun_eq_iff pane_read_result_clone_def clone_simps)

record worktree_info =
  wti_branch :: "string optional"
  wti_is_bare :: bool
  wti_is_detached :: bool
  wti_is_linked_worktree :: bool
  wti_is_prunable :: bool
  wti_label :: string
  wti_open_workspace_id :: "string optional"
  wti_path :: string

definition worktree_info_zero :: worktree_info where
  "worktree_info_zero = \<lparr>wti_branch = Absent,
     wti_is_bare = False,
     wti_is_detached = False,
     wti_is_linked_worktree = False,
     wti_is_prunable = False,
     wti_label = [],
     wti_open_workspace_id = Absent,
     wti_path = []\<rparr>"

definition worktree_info_clone :: "worktree_info \<Rightarrow> worktree_info" where
  "worktree_info_clone v = (let out = v in out)"

lemma worktree_info_clone_id [clone_simps]: "worktree_info_clone = id"
  by (simp add: fun_eq_iff worktree_info_clone_def clone_simps)

record agent_info =
  ai_agent :: "string optional"
  ai_agent_session :: "agent_session_info optional"
  ai_agent_status :: agent_status
  ai_completion_seq :: "64 word optional"
  ai_cwd :: "string optional"
  ai_display_agent :: "string optional"
  ai_focused :: bool
  ai_foreground_cwd :: "string optional"
  ai_interactive_ready :: "bool optional"
  ai_launch_pending :: "bool optional"
  ai_name :: "string optional"
  ai_pane_id :: string
  ai_revision :: "64 word"
  ai_screen_detection_skipped :: "bool optional"
  ai_state_change_seq :: "64 word optional"
  ai_state_labels :: "string str_map optional"
  ai_tab_id :: string
  ai_terminal_id :: string
  ai_terminal_title :: "string optional"
  ai_terminal_title_stripped :: "string optional"
  ai_title :: "string optional"
  ai_tokens :: "string str_map optional"
  ai_workspace_id :: string

definition agent_info_zero :: agent_info where
  "agent_info_zero = \<lparr>ai_agent = Absent,
     ai_agent_session = Absent,
     ai_agent_status = [],
     ai_completion_seq = Absent,
     ai_cwd = Absent,
     ai_display_agent = Absent,
     ai_focused = False,
     ai_foreground_cwd = Absent,
     ai_interactive_ready = Absent,
     ai_launch_pending = Absent,
     ai_name = Absent,
     ai_pane_id = [],
     ai_revision = 0,
     ai_screen_detection_skipped = Absent,
     ai_state_change_seq = Absent,
     ai_state_labels = Absent,
     ai_tab_id = [],
     ai_terminal_id = [],
     ai_terminal_title = Absent,
     ai_terminal_title_stripped = Absent,
     ai_title = Absent,
     ai_tokens = Absent,
     ai_workspace_id = []\<rparr>"

definition agent_info_clone :: "agent_info \<Rightarrow> agent_info" where
  "agent_info_clone v =
    (let out = v;
      out = out\<lparr>ai_agent_session := clone_opt agent_session_info_clone (ai_agent_session v)\<rparr>;
      out = out\<lparr>ai_state_labels := clone_opt (clone_map (\<lambda>x. x)) (ai_state_labels v)\<rparr>;
      out = out\<lparr>ai_tokens := clone_opt (clone_map (\<lambda>x. x)) (ai_tokens v)\<rparr>
     in out)"

lemma agent_info_clone_id [clone_simps]: "agent_info_clone = id"
  by (simp add: fun_eq_iff agent_info_clone_def clone_simps)

record session_snapshot =
  ss_agents :: "agent_info slice"
  ss_focused_pane_id :: "string optional"
  ss_focused_tab_id :: "string optional"
  ss_focused_workspace_id :: "string optional"
  ss_layouts :: "pane_layout_snapshot slice"
  ss_panes :: "pane_info slice"
  ss_protocol :: "32 word"
  ss_tabs :: "tab_info slice"
  ss_version :: string
  ss_workspaces :: "workspace_info slice"

definition session_snapshot_zero :: session_snapshot where
  "session_snapshot_zero = \<lparr>ss_agents = None,
     ss_focused_pane_id = Absent,
     ss_focused_tab_id = Absent,
     ss_focused_workspace_id = Absent,
     ss_layouts = None,
     ss_panes = None,
     ss_protocol = 0,
     ss_tabs = None,
     ss_version = [],
     ss_workspaces = None\<rparr>"

definition session_snapshot_clone :: "session_snapshot \<Rightarrow> session_snapshot" where
  "session_snapshot_clone v =
    (let out = v;
      out = out\<lparr>ss_agents := clone_slice agent_info_clone (ss_agents v)\<rparr>;
      out = out\<lparr>ss_layouts := clone_slice pane_layout_snapshot_clone (ss_layouts v)\<rparr>;
      out = out\<lparr>ss_panes := clone_slice pane_info_clone (ss_panes v)\<rparr>;
      out = out\<lparr>ss_tabs := clone_slice tab_info_clone (ss_tabs v)\<rparr>;
      out = out\<lparr>ss_workspaces := clone_slice workspace_info_clone (ss_workspaces v)\<rparr>
     in out)"

lemma session_snapshot_clone_id [clone_simps]: "session_snapshot_clone = id"
  by (simp add: fun_eq_iff session_snapshot_clone_def clone_simps)

end
