(* ===== verification/Api_Events.thy ===== *)
theory Api_Events
  imports Api_Types
begin

text \<open>
  The event payloads of \<open>herdr/events_gen.go\<close>: one record per struct, the union \<open>event\<close> of the
  types that implement Go's \<open>Event\<close> interface (as the pointers a decoder returns), its
  \<open>EventName\<close> and \<open>cloneEvent\<close>.
\<close>

record layout_updated_event =
  layout_updated_layout :: pane_layout_snapshot

definition layout_updated_event_zero :: layout_updated_event where
  "layout_updated_event_zero = \<lparr>layout_updated_layout = pane_layout_snapshot_zero\<rparr>"

definition layout_updated_event_clone :: "layout_updated_event \<Rightarrow> layout_updated_event" where
  "layout_updated_event_clone v =
    (let out = v;
      out = out\<lparr>layout_updated_layout := pane_layout_snapshot_clone (layout_updated_layout v)\<rparr>
     in out)"

lemma layout_updated_event_clone_id [clone_simps]: "layout_updated_event_clone = id"
  by (simp add: fun_eq_iff layout_updated_event_clone_def clone_simps)

record pane_agent_detected_event =
  pane_agent_detected_agent :: "string optional"
  pane_agent_detected_final_status :: "agent_status optional"
  pane_agent_detected_pane_id :: string
  pane_agent_detected_released :: "bool optional"
  pane_agent_detected_workspace_id :: string

definition pane_agent_detected_event_zero :: pane_agent_detected_event where
  "pane_agent_detected_event_zero = \<lparr>pane_agent_detected_agent = Absent,
     pane_agent_detected_final_status = Absent,
     pane_agent_detected_pane_id = [],
     pane_agent_detected_released = Absent,
     pane_agent_detected_workspace_id = []\<rparr>"

definition pane_agent_detected_event_clone :: "pane_agent_detected_event \<Rightarrow> pane_agent_detected_event" where
  "pane_agent_detected_event_clone v = (let out = v in out)"

lemma pane_agent_detected_event_clone_id [clone_simps]: "pane_agent_detected_event_clone = id"
  by (simp add: fun_eq_iff pane_agent_detected_event_clone_def clone_simps)

record pane_agent_status_changed_event =
  pane_agent_status_changed_agent :: "string optional"
  pane_agent_status_changed_agent_status :: agent_status
  pane_agent_status_changed_display_agent :: "string optional"
  pane_agent_status_changed_pane_id :: string
  pane_agent_status_changed_state_labels :: "string str_map optional"
  pane_agent_status_changed_title :: "string optional"
  pane_agent_status_changed_workspace_id :: string

definition pane_agent_status_changed_event_zero :: pane_agent_status_changed_event where
  "pane_agent_status_changed_event_zero = \<lparr>pane_agent_status_changed_agent = Absent,
     pane_agent_status_changed_agent_status = [],
     pane_agent_status_changed_display_agent = Absent,
     pane_agent_status_changed_pane_id = [],
     pane_agent_status_changed_state_labels = Absent,
     pane_agent_status_changed_title = Absent,
     pane_agent_status_changed_workspace_id = []\<rparr>"

definition pane_agent_status_changed_event_clone :: "pane_agent_status_changed_event \<Rightarrow> pane_agent_status_changed_event" where
  "pane_agent_status_changed_event_clone v =
    (let out = v;
      out = out\<lparr>pane_agent_status_changed_state_labels := clone_opt (clone_map (\<lambda>x. x)) (pane_agent_status_changed_state_labels v)\<rparr>
     in out)"

lemma pane_agent_status_changed_event_clone_id [clone_simps]: "pane_agent_status_changed_event_clone = id"
  by (simp add: fun_eq_iff pane_agent_status_changed_event_clone_def clone_simps)

record pane_closed_event =
  pane_closed_pane_id :: string
  pane_closed_workspace_id :: string

definition pane_closed_event_zero :: pane_closed_event where
  "pane_closed_event_zero = \<lparr>pane_closed_pane_id = [],
     pane_closed_workspace_id = []\<rparr>"

definition pane_closed_event_clone :: "pane_closed_event \<Rightarrow> pane_closed_event" where
  "pane_closed_event_clone v = (let out = v in out)"

lemma pane_closed_event_clone_id [clone_simps]: "pane_closed_event_clone = id"
  by (simp add: fun_eq_iff pane_closed_event_clone_def clone_simps)

record pane_created_event =
  pane_created_pane :: pane_info

definition pane_created_event_zero :: pane_created_event where
  "pane_created_event_zero = \<lparr>pane_created_pane = pane_info_zero\<rparr>"

definition pane_created_event_clone :: "pane_created_event \<Rightarrow> pane_created_event" where
  "pane_created_event_clone v =
    (let out = v;
      out = out\<lparr>pane_created_pane := pane_info_clone (pane_created_pane v)\<rparr>
     in out)"

lemma pane_created_event_clone_id [clone_simps]: "pane_created_event_clone = id"
  by (simp add: fun_eq_iff pane_created_event_clone_def clone_simps)

record pane_exited_event =
  pane_exited_pane_id :: string
  pane_exited_workspace_id :: string

definition pane_exited_event_zero :: pane_exited_event where
  "pane_exited_event_zero = \<lparr>pane_exited_pane_id = [],
     pane_exited_workspace_id = []\<rparr>"

definition pane_exited_event_clone :: "pane_exited_event \<Rightarrow> pane_exited_event" where
  "pane_exited_event_clone v = (let out = v in out)"

lemma pane_exited_event_clone_id [clone_simps]: "pane_exited_event_clone = id"
  by (simp add: fun_eq_iff pane_exited_event_clone_def clone_simps)

record pane_focused_event =
  pane_focused_pane_id :: string
  pane_focused_workspace_id :: string

definition pane_focused_event_zero :: pane_focused_event where
  "pane_focused_event_zero = \<lparr>pane_focused_pane_id = [],
     pane_focused_workspace_id = []\<rparr>"

definition pane_focused_event_clone :: "pane_focused_event \<Rightarrow> pane_focused_event" where
  "pane_focused_event_clone v = (let out = v in out)"

lemma pane_focused_event_clone_id [clone_simps]: "pane_focused_event_clone = id"
  by (simp add: fun_eq_iff pane_focused_event_clone_def clone_simps)

record pane_moved_event =
  pane_moved_closed_tab_id :: "string optional"
  pane_moved_closed_workspace_id :: "string optional"
  pane_moved_created_tab :: "tab_info optional"
  pane_moved_created_workspace :: "workspace_info optional"
  pane_moved_pane :: pane_info
  pane_moved_previous_pane_id :: string
  pane_moved_previous_tab_id :: string
  pane_moved_previous_workspace_id :: string

definition pane_moved_event_zero :: pane_moved_event where
  "pane_moved_event_zero = \<lparr>pane_moved_closed_tab_id = Absent,
     pane_moved_closed_workspace_id = Absent,
     pane_moved_created_tab = Absent,
     pane_moved_created_workspace = Absent,
     pane_moved_pane = pane_info_zero,
     pane_moved_previous_pane_id = [],
     pane_moved_previous_tab_id = [],
     pane_moved_previous_workspace_id = []\<rparr>"

definition pane_moved_event_clone :: "pane_moved_event \<Rightarrow> pane_moved_event" where
  "pane_moved_event_clone v =
    (let out = v;
      out = out\<lparr>pane_moved_created_tab := clone_opt tab_info_clone (pane_moved_created_tab v)\<rparr>;
      out = out\<lparr>pane_moved_created_workspace := clone_opt workspace_info_clone (pane_moved_created_workspace v)\<rparr>;
      out = out\<lparr>pane_moved_pane := pane_info_clone (pane_moved_pane v)\<rparr>
     in out)"

lemma pane_moved_event_clone_id [clone_simps]: "pane_moved_event_clone = id"
  by (simp add: fun_eq_iff pane_moved_event_clone_def clone_simps)

record pane_output_changed_event =
  pane_output_changed_pane_id :: string
  pane_output_changed_revision :: "64 word"
  pane_output_changed_workspace_id :: string

definition pane_output_changed_event_zero :: pane_output_changed_event where
  "pane_output_changed_event_zero = \<lparr>pane_output_changed_pane_id = [],
     pane_output_changed_revision = 0,
     pane_output_changed_workspace_id = []\<rparr>"

definition pane_output_changed_event_clone :: "pane_output_changed_event \<Rightarrow> pane_output_changed_event" where
  "pane_output_changed_event_clone v = (let out = v in out)"

lemma pane_output_changed_event_clone_id [clone_simps]: "pane_output_changed_event_clone = id"
  by (simp add: fun_eq_iff pane_output_changed_event_clone_def clone_simps)

record pane_output_matched_event =
  pane_output_matched_matched_line :: string
  pane_output_matched_pane_id :: string
  pane_output_matched_read :: pane_read_result

definition pane_output_matched_event_zero :: pane_output_matched_event where
  "pane_output_matched_event_zero = \<lparr>pane_output_matched_matched_line = [],
     pane_output_matched_pane_id = [],
     pane_output_matched_read = pane_read_result_zero\<rparr>"

definition pane_output_matched_event_clone :: "pane_output_matched_event \<Rightarrow> pane_output_matched_event" where
  "pane_output_matched_event_clone v =
    (let out = v;
      out = out\<lparr>pane_output_matched_read := pane_read_result_clone (pane_output_matched_read v)\<rparr>
     in out)"

lemma pane_output_matched_event_clone_id [clone_simps]: "pane_output_matched_event_clone = id"
  by (simp add: fun_eq_iff pane_output_matched_event_clone_def clone_simps)

record pane_scroll_changed_event =
  pane_scroll_changed_pane_id :: string
  pane_scroll_changed_scroll :: pane_scroll_info
  pane_scroll_changed_workspace_id :: string

definition pane_scroll_changed_event_zero :: pane_scroll_changed_event where
  "pane_scroll_changed_event_zero = \<lparr>pane_scroll_changed_pane_id = [],
     pane_scroll_changed_scroll = pane_scroll_info_zero,
     pane_scroll_changed_workspace_id = []\<rparr>"

definition pane_scroll_changed_event_clone :: "pane_scroll_changed_event \<Rightarrow> pane_scroll_changed_event" where
  "pane_scroll_changed_event_clone v =
    (let out = v;
      out = out\<lparr>pane_scroll_changed_scroll := pane_scroll_info_clone (pane_scroll_changed_scroll v)\<rparr>
     in out)"

lemma pane_scroll_changed_event_clone_id [clone_simps]: "pane_scroll_changed_event_clone = id"
  by (simp add: fun_eq_iff pane_scroll_changed_event_clone_def clone_simps)

record pane_updated_event =
  pane_updated_pane :: pane_info

definition pane_updated_event_zero :: pane_updated_event where
  "pane_updated_event_zero = \<lparr>pane_updated_pane = pane_info_zero\<rparr>"

definition pane_updated_event_clone :: "pane_updated_event \<Rightarrow> pane_updated_event" where
  "pane_updated_event_clone v =
    (let out = v;
      out = out\<lparr>pane_updated_pane := pane_info_clone (pane_updated_pane v)\<rparr>
     in out)"

lemma pane_updated_event_clone_id [clone_simps]: "pane_updated_event_clone = id"
  by (simp add: fun_eq_iff pane_updated_event_clone_def clone_simps)

record tab_closed_event =
  tab_closed_tab_id :: string
  tab_closed_workspace_id :: string

definition tab_closed_event_zero :: tab_closed_event where
  "tab_closed_event_zero = \<lparr>tab_closed_tab_id = [],
     tab_closed_workspace_id = []\<rparr>"

definition tab_closed_event_clone :: "tab_closed_event \<Rightarrow> tab_closed_event" where
  "tab_closed_event_clone v = (let out = v in out)"

lemma tab_closed_event_clone_id [clone_simps]: "tab_closed_event_clone = id"
  by (simp add: fun_eq_iff tab_closed_event_clone_def clone_simps)

record tab_created_event =
  tab_created_tab :: tab_info

definition tab_created_event_zero :: tab_created_event where
  "tab_created_event_zero = \<lparr>tab_created_tab = tab_info_zero\<rparr>"

definition tab_created_event_clone :: "tab_created_event \<Rightarrow> tab_created_event" where
  "tab_created_event_clone v =
    (let out = v;
      out = out\<lparr>tab_created_tab := tab_info_clone (tab_created_tab v)\<rparr>
     in out)"

lemma tab_created_event_clone_id [clone_simps]: "tab_created_event_clone = id"
  by (simp add: fun_eq_iff tab_created_event_clone_def clone_simps)

record tab_focused_event =
  tab_focused_tab_id :: string
  tab_focused_workspace_id :: string

definition tab_focused_event_zero :: tab_focused_event where
  "tab_focused_event_zero = \<lparr>tab_focused_tab_id = [],
     tab_focused_workspace_id = []\<rparr>"

definition tab_focused_event_clone :: "tab_focused_event \<Rightarrow> tab_focused_event" where
  "tab_focused_event_clone v = (let out = v in out)"

lemma tab_focused_event_clone_id [clone_simps]: "tab_focused_event_clone = id"
  by (simp add: fun_eq_iff tab_focused_event_clone_def clone_simps)

record tab_moved_event =
  tab_moved_insert_index :: "64 word"
  tab_moved_tab_id :: string
  tab_moved_tabs :: "tab_info slice"
  tab_moved_workspace_id :: string

definition tab_moved_event_zero :: tab_moved_event where
  "tab_moved_event_zero = \<lparr>tab_moved_insert_index = 0,
     tab_moved_tab_id = [],
     tab_moved_tabs = None,
     tab_moved_workspace_id = []\<rparr>"

definition tab_moved_event_clone :: "tab_moved_event \<Rightarrow> tab_moved_event" where
  "tab_moved_event_clone v =
    (let out = v;
      out = out\<lparr>tab_moved_tabs := clone_slice tab_info_clone (tab_moved_tabs v)\<rparr>
     in out)"

lemma tab_moved_event_clone_id [clone_simps]: "tab_moved_event_clone = id"
  by (simp add: fun_eq_iff tab_moved_event_clone_def clone_simps)

record tab_renamed_event =
  tab_renamed_label :: string
  tab_renamed_tab_id :: string
  tab_renamed_workspace_id :: string

definition tab_renamed_event_zero :: tab_renamed_event where
  "tab_renamed_event_zero = \<lparr>tab_renamed_label = [],
     tab_renamed_tab_id = [],
     tab_renamed_workspace_id = []\<rparr>"

definition tab_renamed_event_clone :: "tab_renamed_event \<Rightarrow> tab_renamed_event" where
  "tab_renamed_event_clone v = (let out = v in out)"

lemma tab_renamed_event_clone_id [clone_simps]: "tab_renamed_event_clone = id"
  by (simp add: fun_eq_iff tab_renamed_event_clone_def clone_simps)

record workspace_closed_event =
  workspace_closed_workspace :: "workspace_info optional"
  workspace_closed_workspace_id :: string

definition workspace_closed_event_zero :: workspace_closed_event where
  "workspace_closed_event_zero = \<lparr>workspace_closed_workspace = Absent,
     workspace_closed_workspace_id = []\<rparr>"

definition workspace_closed_event_clone :: "workspace_closed_event \<Rightarrow> workspace_closed_event" where
  "workspace_closed_event_clone v =
    (let out = v;
      out = out\<lparr>workspace_closed_workspace := clone_opt workspace_info_clone (workspace_closed_workspace v)\<rparr>
     in out)"

lemma workspace_closed_event_clone_id [clone_simps]: "workspace_closed_event_clone = id"
  by (simp add: fun_eq_iff workspace_closed_event_clone_def clone_simps)

record workspace_created_event =
  workspace_created_workspace :: workspace_info

definition workspace_created_event_zero :: workspace_created_event where
  "workspace_created_event_zero = \<lparr>workspace_created_workspace = workspace_info_zero\<rparr>"

definition workspace_created_event_clone :: "workspace_created_event \<Rightarrow> workspace_created_event" where
  "workspace_created_event_clone v =
    (let out = v;
      out = out\<lparr>workspace_created_workspace := workspace_info_clone (workspace_created_workspace v)\<rparr>
     in out)"

lemma workspace_created_event_clone_id [clone_simps]: "workspace_created_event_clone = id"
  by (simp add: fun_eq_iff workspace_created_event_clone_def clone_simps)

record workspace_focused_event =
  workspace_focused_workspace_id :: string

definition workspace_focused_event_zero :: workspace_focused_event where
  "workspace_focused_event_zero = \<lparr>workspace_focused_workspace_id = []\<rparr>"

definition workspace_focused_event_clone :: "workspace_focused_event \<Rightarrow> workspace_focused_event" where
  "workspace_focused_event_clone v = (let out = v in out)"

lemma workspace_focused_event_clone_id [clone_simps]: "workspace_focused_event_clone = id"
  by (simp add: fun_eq_iff workspace_focused_event_clone_def clone_simps)

record workspace_metadata_updated_event =
  workspace_metadata_updated_workspace :: workspace_info

definition workspace_metadata_updated_event_zero :: workspace_metadata_updated_event where
  "workspace_metadata_updated_event_zero = \<lparr>workspace_metadata_updated_workspace = workspace_info_zero\<rparr>"

definition workspace_metadata_updated_event_clone :: "workspace_metadata_updated_event \<Rightarrow> workspace_metadata_updated_event" where
  "workspace_metadata_updated_event_clone v =
    (let out = v;
      out = out\<lparr>workspace_metadata_updated_workspace := workspace_info_clone (workspace_metadata_updated_workspace v)\<rparr>
     in out)"

lemma workspace_metadata_updated_event_clone_id [clone_simps]: "workspace_metadata_updated_event_clone = id"
  by (simp add: fun_eq_iff workspace_metadata_updated_event_clone_def clone_simps)

record workspace_moved_event =
  workspace_moved_insert_index :: "64 word"
  workspace_moved_workspace_id :: string
  workspace_moved_workspaces :: "workspace_info slice"

definition workspace_moved_event_zero :: workspace_moved_event where
  "workspace_moved_event_zero = \<lparr>workspace_moved_insert_index = 0,
     workspace_moved_workspace_id = [],
     workspace_moved_workspaces = None\<rparr>"

definition workspace_moved_event_clone :: "workspace_moved_event \<Rightarrow> workspace_moved_event" where
  "workspace_moved_event_clone v =
    (let out = v;
      out = out\<lparr>workspace_moved_workspaces := clone_slice workspace_info_clone (workspace_moved_workspaces v)\<rparr>
     in out)"

lemma workspace_moved_event_clone_id [clone_simps]: "workspace_moved_event_clone = id"
  by (simp add: fun_eq_iff workspace_moved_event_clone_def clone_simps)

record workspace_renamed_event =
  workspace_renamed_label :: string
  workspace_renamed_workspace_id :: string

definition workspace_renamed_event_zero :: workspace_renamed_event where
  "workspace_renamed_event_zero = \<lparr>workspace_renamed_label = [],
     workspace_renamed_workspace_id = []\<rparr>"

definition workspace_renamed_event_clone :: "workspace_renamed_event \<Rightarrow> workspace_renamed_event" where
  "workspace_renamed_event_clone v = (let out = v in out)"

lemma workspace_renamed_event_clone_id [clone_simps]: "workspace_renamed_event_clone = id"
  by (simp add: fun_eq_iff workspace_renamed_event_clone_def clone_simps)

record workspace_reordered_event =
  workspace_reordered_before_workspace_id :: "string optional"
  workspace_reordered_workspace_ids :: "string slice"
  workspace_reordered_workspaces :: "workspace_info slice"

definition workspace_reordered_event_zero :: workspace_reordered_event where
  "workspace_reordered_event_zero = \<lparr>workspace_reordered_before_workspace_id = Absent,
     workspace_reordered_workspace_ids = None,
     workspace_reordered_workspaces = None\<rparr>"

definition workspace_reordered_event_clone :: "workspace_reordered_event \<Rightarrow> workspace_reordered_event" where
  "workspace_reordered_event_clone v =
    (let out = v;
      out = out\<lparr>workspace_reordered_workspace_ids := clone_slice (\<lambda>x. x) (workspace_reordered_workspace_ids v)\<rparr>;
      out = out\<lparr>workspace_reordered_workspaces := clone_slice workspace_info_clone (workspace_reordered_workspaces v)\<rparr>
     in out)"

lemma workspace_reordered_event_clone_id [clone_simps]: "workspace_reordered_event_clone = id"
  by (simp add: fun_eq_iff workspace_reordered_event_clone_def clone_simps)

record workspace_updated_event =
  workspace_updated_workspace :: workspace_info

definition workspace_updated_event_zero :: workspace_updated_event where
  "workspace_updated_event_zero = \<lparr>workspace_updated_workspace = workspace_info_zero\<rparr>"

definition workspace_updated_event_clone :: "workspace_updated_event \<Rightarrow> workspace_updated_event" where
  "workspace_updated_event_clone v =
    (let out = v;
      out = out\<lparr>workspace_updated_workspace := workspace_info_clone (workspace_updated_workspace v)\<rparr>
     in out)"

lemma workspace_updated_event_clone_id [clone_simps]: "workspace_updated_event_clone = id"
  by (simp add: fun_eq_iff workspace_updated_event_clone_def clone_simps)

record worktree_created_event =
  worktree_created_workspace :: workspace_info
  worktree_created_worktree :: worktree_info

definition worktree_created_event_zero :: worktree_created_event where
  "worktree_created_event_zero = \<lparr>worktree_created_workspace = workspace_info_zero,
     worktree_created_worktree = worktree_info_zero\<rparr>"

definition worktree_created_event_clone :: "worktree_created_event \<Rightarrow> worktree_created_event" where
  "worktree_created_event_clone v =
    (let out = v;
      out = out\<lparr>worktree_created_workspace := workspace_info_clone (worktree_created_workspace v)\<rparr>;
      out = out\<lparr>worktree_created_worktree := worktree_info_clone (worktree_created_worktree v)\<rparr>
     in out)"

lemma worktree_created_event_clone_id [clone_simps]: "worktree_created_event_clone = id"
  by (simp add: fun_eq_iff worktree_created_event_clone_def clone_simps)

record worktree_opened_event =
  worktree_opened_already_open :: bool
  worktree_opened_workspace :: workspace_info
  worktree_opened_worktree :: worktree_info

definition worktree_opened_event_zero :: worktree_opened_event where
  "worktree_opened_event_zero = \<lparr>worktree_opened_already_open = False,
     worktree_opened_workspace = workspace_info_zero,
     worktree_opened_worktree = worktree_info_zero\<rparr>"

definition worktree_opened_event_clone :: "worktree_opened_event \<Rightarrow> worktree_opened_event" where
  "worktree_opened_event_clone v =
    (let out = v;
      out = out\<lparr>worktree_opened_workspace := workspace_info_clone (worktree_opened_workspace v)\<rparr>;
      out = out\<lparr>worktree_opened_worktree := worktree_info_clone (worktree_opened_worktree v)\<rparr>
     in out)"

lemma worktree_opened_event_clone_id [clone_simps]: "worktree_opened_event_clone = id"
  by (simp add: fun_eq_iff worktree_opened_event_clone_def clone_simps)

record worktree_removed_event =
  worktree_removed_forced :: bool
  worktree_removed_workspace :: "workspace_info optional"
  worktree_removed_workspace_id :: string
  worktree_removed_worktree :: worktree_info

definition worktree_removed_event_zero :: worktree_removed_event where
  "worktree_removed_event_zero = \<lparr>worktree_removed_forced = False,
     worktree_removed_workspace = Absent,
     worktree_removed_workspace_id = [],
     worktree_removed_worktree = worktree_info_zero\<rparr>"

definition worktree_removed_event_clone :: "worktree_removed_event \<Rightarrow> worktree_removed_event" where
  "worktree_removed_event_clone v =
    (let out = v;
      out = out\<lparr>worktree_removed_workspace := clone_opt workspace_info_clone (worktree_removed_workspace v)\<rparr>;
      out = out\<lparr>worktree_removed_worktree := worktree_info_clone (worktree_removed_worktree v)\<rparr>
     in out)"

lemma worktree_removed_event_clone_id [clone_simps]: "worktree_removed_event_clone = id"
  by (simp add: fun_eq_iff worktree_removed_event_clone_def clone_simps)

subsection \<open>The union of the events\<close>

datatype (plugins only: code size) event =
    LayoutUpdated layout_updated_event
  | PaneAgentDetected pane_agent_detected_event
  | PaneAgentStatusChanged pane_agent_status_changed_event
  | PaneClosed pane_closed_event
  | PaneCreated pane_created_event
  | PaneExited pane_exited_event
  | PaneFocused pane_focused_event
  | PaneMoved pane_moved_event
  | PaneOutputChanged pane_output_changed_event
  | PaneOutputMatched pane_output_matched_event
  | PaneScrollChanged pane_scroll_changed_event
  | PaneUpdated pane_updated_event
  | TabClosed tab_closed_event
  | TabCreated tab_created_event
  | TabFocused tab_focused_event
  | TabMoved tab_moved_event
  | TabRenamed tab_renamed_event
  | WorkspaceClosed workspace_closed_event
  | WorkspaceCreated workspace_created_event
  | WorkspaceFocused workspace_focused_event
  | WorkspaceMetadataUpdated workspace_metadata_updated_event
  | WorkspaceMoved workspace_moved_event
  | WorkspaceRenamed workspace_renamed_event
  | WorkspaceReordered workspace_reordered_event
  | WorkspaceUpdated workspace_updated_event
  | WorktreeCreated worktree_created_event
  | WorktreeOpened worktree_opened_event
  | WorktreeRemoved worktree_removed_event

primrec event_name :: "event \<Rightarrow> string" where
    "event_name (LayoutUpdated v) = ''layout.updated''"
  | "event_name (PaneAgentDetected v) = ''pane.agent_detected''"
  | "event_name (PaneAgentStatusChanged v) = ''pane.agent_status_changed''"
  | "event_name (PaneClosed v) = ''pane.closed''"
  | "event_name (PaneCreated v) = ''pane.created''"
  | "event_name (PaneExited v) = ''pane.exited''"
  | "event_name (PaneFocused v) = ''pane.focused''"
  | "event_name (PaneMoved v) = ''pane.moved''"
  | "event_name (PaneOutputChanged v) = ''pane.output_changed''"
  | "event_name (PaneOutputMatched v) = ''pane.output_matched''"
  | "event_name (PaneScrollChanged v) = ''pane.scroll_changed''"
  | "event_name (PaneUpdated v) = ''pane.updated''"
  | "event_name (TabClosed v) = ''tab.closed''"
  | "event_name (TabCreated v) = ''tab.created''"
  | "event_name (TabFocused v) = ''tab.focused''"
  | "event_name (TabMoved v) = ''tab.moved''"
  | "event_name (TabRenamed v) = ''tab.renamed''"
  | "event_name (WorkspaceClosed v) = ''workspace.closed''"
  | "event_name (WorkspaceCreated v) = ''workspace.created''"
  | "event_name (WorkspaceFocused v) = ''workspace.focused''"
  | "event_name (WorkspaceMetadataUpdated v) = ''workspace.metadata_updated''"
  | "event_name (WorkspaceMoved v) = ''workspace.moved''"
  | "event_name (WorkspaceRenamed v) = ''workspace.renamed''"
  | "event_name (WorkspaceReordered v) = ''workspace.reordered''"
  | "event_name (WorkspaceUpdated v) = ''workspace.updated''"
  | "event_name (WorktreeCreated v) = ''worktree.created''"
  | "event_name (WorktreeOpened v) = ''worktree.opened''"
  | "event_name (WorktreeRemoved v) = ''worktree.removed''"

primrec clone_event :: "event \<Rightarrow> event" where
    "clone_event (LayoutUpdated v) = LayoutUpdated (layout_updated_event_clone v)"
  | "clone_event (PaneAgentDetected v) = PaneAgentDetected (pane_agent_detected_event_clone v)"
  | "clone_event (PaneAgentStatusChanged v) = PaneAgentStatusChanged (pane_agent_status_changed_event_clone v)"
  | "clone_event (PaneClosed v) = PaneClosed (pane_closed_event_clone v)"
  | "clone_event (PaneCreated v) = PaneCreated (pane_created_event_clone v)"
  | "clone_event (PaneExited v) = PaneExited (pane_exited_event_clone v)"
  | "clone_event (PaneFocused v) = PaneFocused (pane_focused_event_clone v)"
  | "clone_event (PaneMoved v) = PaneMoved (pane_moved_event_clone v)"
  | "clone_event (PaneOutputChanged v) = PaneOutputChanged (pane_output_changed_event_clone v)"
  | "clone_event (PaneOutputMatched v) = PaneOutputMatched (pane_output_matched_event_clone v)"
  | "clone_event (PaneScrollChanged v) = PaneScrollChanged (pane_scroll_changed_event_clone v)"
  | "clone_event (PaneUpdated v) = PaneUpdated (pane_updated_event_clone v)"
  | "clone_event (TabClosed v) = TabClosed (tab_closed_event_clone v)"
  | "clone_event (TabCreated v) = TabCreated (tab_created_event_clone v)"
  | "clone_event (TabFocused v) = TabFocused (tab_focused_event_clone v)"
  | "clone_event (TabMoved v) = TabMoved (tab_moved_event_clone v)"
  | "clone_event (TabRenamed v) = TabRenamed (tab_renamed_event_clone v)"
  | "clone_event (WorkspaceClosed v) = WorkspaceClosed (workspace_closed_event_clone v)"
  | "clone_event (WorkspaceCreated v) = WorkspaceCreated (workspace_created_event_clone v)"
  | "clone_event (WorkspaceFocused v) = WorkspaceFocused (workspace_focused_event_clone v)"
  | "clone_event (WorkspaceMetadataUpdated v) = WorkspaceMetadataUpdated (workspace_metadata_updated_event_clone v)"
  | "clone_event (WorkspaceMoved v) = WorkspaceMoved (workspace_moved_event_clone v)"
  | "clone_event (WorkspaceRenamed v) = WorkspaceRenamed (workspace_renamed_event_clone v)"
  | "clone_event (WorkspaceReordered v) = WorkspaceReordered (workspace_reordered_event_clone v)"
  | "clone_event (WorkspaceUpdated v) = WorkspaceUpdated (workspace_updated_event_clone v)"
  | "clone_event (WorktreeCreated v) = WorktreeCreated (worktree_created_event_clone v)"
  | "clone_event (WorktreeOpened v) = WorktreeOpened (worktree_opened_event_clone v)"
  | "clone_event (WorktreeRemoved v) = WorktreeRemoved (worktree_removed_event_clone v)"

lemma clone_event_id [clone_simps]: "clone_event = id"
proof
  show "clone_event e = id e" for e by (cases e) (simp_all add: clone_simps)
qed

end
