(* ===== verification/Session_Cache.thy ===== *)
theory Session_Cache
  imports Keyed_Store Api_Events
begin

text \<open>
  The session mirror: \<open>herdr/session_cache.go\<close>, \<open>herdr/session_clone.go\<close> and the accessors of
  \<open>herdr/session_state.go\<close>.

  \<open>session_cache\<close> is the Go struct, five ordered collections with the version and protocol of the
  snapshot. \<open>apply_event\<close> is the method \<open>apply\<close>, which dispatches on the event; one definition per
  method it calls. The cache is returned updated.
\<close>

record session_cache =
  workspaces :: "workspace_info ordered_collection"
  tabs :: "tab_info ordered_collection"
  panes :: "pane_info ordered_collection"
  agents :: "agent_info ordered_collection"
  layouts :: "pane_layout_snapshot ordered_collection"
  version :: string
  protocol :: "32 word"

definition workspace_key :: "workspace_info \<Rightarrow> string" where
  "workspace_key w = wi_workspace_id w"

definition tab_key :: "tab_info \<Rightarrow> string" where
  "tab_key t = ti_tab_id t"

definition pane_key :: "pane_info \<Rightarrow> string" where
  "pane_key p = pi_pane_id p"

definition agent_key :: "agent_info \<Rightarrow> string" where
  "agent_key a = ai_pane_id a"

definition layout_key :: "pane_layout_snapshot \<Rightarrow> string" where
  "layout_key l = pls_tab_id l"

definition new_session_cache :: "session_snapshot \<Rightarrow> session_cache" where
  "new_session_cache snapshot =
    (let cache = \<lparr>workspaces = oc_empty, tabs = oc_empty, panes = oc_empty, agents = oc_empty,
           layouts = oc_empty, version = ss_version snapshot, protocol = ss_protocol snapshot\<rparr>;
         cache = cache\<lparr>workspaces := oc_reset (elems (ss_workspaces snapshot)) workspace_key
           workspace_info_clone (workspaces cache)\<rparr>;
         cache = cache\<lparr>tabs := oc_reset (elems (ss_tabs snapshot)) tab_key tab_info_clone (tabs cache)\<rparr>;
         cache = cache\<lparr>panes := oc_reset (elems (ss_panes snapshot)) pane_key pane_info_clone (panes cache)\<rparr>;
         cache = cache\<lparr>agents := oc_reset (elems (ss_agents snapshot)) agent_key agent_info_clone
           (agents cache)\<rparr>;
         cache = cache\<lparr>layouts := oc_reset (elems (ss_layouts snapshot)) layout_key
           pane_layout_snapshot_clone (layouts cache)\<rparr>
     in cache)"

text \<open>The fields an \<open>AgentInfo\<close> shares with the pane it runs in.\<close>

definition merge_agent :: "agent_info \<Rightarrow> pane_info \<Rightarrow> agent_info" where
  "merge_agent agent pane = agent\<lparr>
    ai_agent := pi_agent pane,
    ai_agent_session := pi_agent_session pane,
    ai_agent_status := pi_agent_status pane,
    ai_cwd := pi_cwd pane,
    ai_display_agent := pi_display_agent pane,
    ai_focused := pi_focused pane,
    ai_foreground_cwd := pi_foreground_cwd pane,
    ai_pane_id := pi_pane_id pane,
    ai_revision := pi_revision pane,
    ai_state_labels := pi_state_labels pane,
    ai_tab_id := pi_tab_id pane,
    ai_terminal_id := pi_terminal_id pane,
    ai_terminal_title := pi_terminal_title pane,
    ai_terminal_title_stripped := pi_terminal_title_stripped pane,
    ai_title := pi_title pane,
    ai_tokens := pi_tokens pane,
    ai_workspace_id := pi_workspace_id pane\<rparr>"

subsection \<open>The methods \<open>apply\<close> calls\<close>

definition set_pane :: "pane_info \<Rightarrow> session_cache \<Rightarrow> session_cache" where
  "set_pane pane c =
    (let pane = pane_info_clone pane;
         c = c\<lparr>panes := oc_set (pi_pane_id pane) pane (panes c)\<rparr>
     in case oc_get (agents c) (pi_pane_id pane) of
          None \<Rightarrow> c
        | Some agent \<Rightarrow>
            c\<lparr>agents := oc_set (pi_pane_id pane) (merge_agent agent pane) (agents c)\<rparr>)"

definition close_pane :: "string \<Rightarrow> session_cache \<Rightarrow> session_cache" where
  "close_pane paneID c =
    (let c = c\<lparr>panes := oc_delete paneID (panes c)\<rparr>
     in c\<lparr>agents := oc_delete paneID (agents c)\<rparr>)"

definition close_tab :: "string \<Rightarrow> session_cache \<Rightarrow> session_cache" where
  "close_tab tabID c =
    (let c = c\<lparr>tabs := oc_delete tabID (tabs c)\<rparr>;
         c = c\<lparr>layouts := oc_delete tabID (layouts c)\<rparr>;
         c = c\<lparr>panes := fst (oc_delete_where pane_info_zero (\<lambda>p. pi_tab_id p = tabID) (panes c))\<rparr>;
         c = c\<lparr>agents := fst (oc_delete_where agent_info_zero (\<lambda>a. ai_tab_id a = tabID) (agents c))\<rparr>
     in c)"

definition close_workspace :: "string \<Rightarrow> session_cache \<Rightarrow> session_cache" where
  "close_workspace workspaceID c =
    (let c = c\<lparr>workspaces := oc_delete workspaceID (workspaces c)\<rparr>;
         c = c\<lparr>tabs := fst (oc_delete_where tab_info_zero
           (\<lambda>t. ti_workspace_id t = workspaceID) (tabs c))\<rparr>;
         c = c\<lparr>panes := fst (oc_delete_where pane_info_zero
           (\<lambda>p. pi_workspace_id p = workspaceID) (panes c))\<rparr>;
         c = c\<lparr>agents := fst (oc_delete_where agent_info_zero
           (\<lambda>a. ai_workspace_id a = workspaceID) (agents c))\<rparr>;
         c = c\<lparr>layouts := fst (oc_delete_where pane_layout_snapshot_zero
           (\<lambda>l. pls_workspace_id l = workspaceID) (layouts c))\<rparr>
     in c)"

definition move_pane :: "pane_moved_event \<Rightarrow> session_cache \<Rightarrow> session_cache" where
  "move_pane e c =
    (let c = (case pane_moved_created_workspace e of
           Present workspace \<Rightarrow> c\<lparr>workspaces :=
             oc_set (wi_workspace_id workspace) (workspace_info_clone workspace) (workspaces c)\<rparr>
         | _ \<Rightarrow> c);
         c = (case pane_moved_created_tab e of
           Present tab \<Rightarrow> c\<lparr>tabs := oc_set (ti_tab_id tab) (tab_info_clone tab) (tabs c)\<rparr>
         | _ \<Rightarrow> c);
         had_agent = oc_get (agents c) (pane_moved_previous_pane_id e);
         c = close_pane (pane_moved_previous_pane_id e) c;
         pane = pane_info_clone (pane_moved_pane e);
         c = c\<lparr>panes := oc_set (pi_pane_id pane) pane (panes c)\<rparr>;
         c = (case had_agent of
           Some agent \<Rightarrow> c\<lparr>agents := oc_set (pi_pane_id pane) (merge_agent agent pane) (agents c)\<rparr>
         | None \<Rightarrow> c);
         c = (case pane_moved_closed_tab_id e of Present tabID \<Rightarrow> close_tab tabID c | _ \<Rightarrow> c);
         c = (case pane_moved_closed_workspace_id e of
           Present workspaceID \<Rightarrow> close_workspace workspaceID c | _ \<Rightarrow> c)
     in c)"

definition reorder_tabs :: "string \<Rightarrow> tab_info slice \<Rightarrow> session_cache \<Rightarrow> session_cache" where
  "reorder_tabs workspaceID ts c =
    (case oc_delete_where tab_info_zero (\<lambda>t. ti_workspace_id t = workspaceID) (tabs c) of
      (rest, at) \<Rightarrow> c\<lparr>tabs := oc_insert_at at (elems ts) tab_key tab_info_clone rest\<rparr>)"

definition apply_agent_detected ::
  "pane_agent_detected_event \<Rightarrow> session_cache \<Rightarrow> session_cache" where
  "apply_agent_detected e c =
    (let paneID = pane_agent_detected_pane_id e;
         has_pane = oc_get (panes c) paneID;
         released = opt_value_or_zero False (pane_agent_detected_released e);
         pane = (case has_pane of None \<Rightarrow> pane_info_zero
           | Some pane \<Rightarrow>
               let pane = (if released then pane\<lparr>pi_agent := Absent, pi_display_agent := Absent\<rparr>
                           else pane\<lparr>pi_agent := pane_agent_detected_agent e\<rparr>)
               in case pane_agent_detected_final_status e of
                    Present status \<Rightarrow> pane\<lparr>pi_agent_status := status\<rparr> | _ \<Rightarrow> pane);
         c = (case has_pane of None \<Rightarrow> c
           | Some _ \<Rightarrow> c\<lparr>panes := oc_set paneID pane (panes c)\<rparr>)
     in if released then c\<lparr>agents := oc_delete paneID (agents c)\<rparr>
        else if has_pane = None then c
        else let agent = (case oc_get (agents c) paneID of None \<Rightarrow> agent_info_zero | Some a \<Rightarrow> a)
             in c\<lparr>agents := oc_set paneID (merge_agent agent pane) (agents c)\<rparr>)"

definition apply_agent_status ::
  "pane_agent_status_changed_event \<Rightarrow> session_cache \<Rightarrow> session_cache" where
  "apply_agent_status e c =
    (let paneID = pane_agent_status_changed_pane_id e;
         has_pane = oc_get (panes c) paneID;
         pane = (case has_pane of None \<Rightarrow> pane_info_zero
           | Some pane \<Rightarrow>
             let pane = pane\<lparr>pi_agent_status := pane_agent_status_changed_agent_status e\<rparr>;
                 pane = (case pane_agent_status_changed_agent e of
                   Present value \<Rightarrow> pane\<lparr>pi_agent := Present value\<rparr> | _ \<Rightarrow> pane);
                 pane = (case pane_agent_status_changed_display_agent e of
                   Present value \<Rightarrow> pane\<lparr>pi_display_agent := Present value\<rparr> | _ \<Rightarrow> pane);
                 pane = (case pane_agent_status_changed_title e of
                   Present value \<Rightarrow> pane\<lparr>pi_title := Present value\<rparr> | _ \<Rightarrow> pane);
                 pane = (case pane_agent_status_changed_state_labels e of
                   Present labels \<Rightarrow>
                     pane\<lparr>pi_state_labels := Present (clone_map (\<lambda>x. x) labels)\<rparr> | _ \<Rightarrow> pane)
             in pane);
         c = (case has_pane of None \<Rightarrow> c
           | Some _ \<Rightarrow> c\<lparr>panes := oc_set paneID pane (panes c)\<rparr>)
     in case oc_get (agents c) paneID of
          None \<Rightarrow> c
        | Some agent \<Rightarrow>
            if has_pane \<noteq> None
            then c\<lparr>agents := oc_set paneID (merge_agent agent pane) (agents c)\<rparr>
            else c\<lparr>agents := oc_set paneID
              (agent\<lparr>ai_agent_status := pane_agent_status_changed_agent_status e\<rparr>) (agents c)\<rparr>)"

definition focus_workspace :: "string \<Rightarrow> session_cache \<Rightarrow> session_cache" where
  "focus_workspace workspaceID c =
    c\<lparr>workspaces := oc_update workspace_info_zero
      (\<lambda>i w. w\<lparr>wi_focused := (i = workspaceID)\<rparr>) (workspaces c)\<rparr>"

definition focus_tab :: "string \<Rightarrow> session_cache \<Rightarrow> session_cache" where
  "focus_tab tabID c =
    c\<lparr>tabs := oc_update tab_info_zero (\<lambda>i t. t\<lparr>ti_focused := (i = tabID)\<rparr>) (tabs c)\<rparr>"

definition focus_pane :: "string \<Rightarrow> session_cache \<Rightarrow> session_cache" where
  "focus_pane paneID c =
    (let c = c\<lparr>panes := oc_update pane_info_zero
           (\<lambda>i p. p\<lparr>pi_focused := (i = paneID)\<rparr>) (panes c)\<rparr>;
         c = c\<lparr>agents := oc_update agent_info_zero
           (\<lambda>i a. a\<lparr>ai_focused := (i = paneID)\<rparr>) (agents c)\<rparr>
     in case oc_get (panes c) paneID of
          None \<Rightarrow> c
        | Some pane \<Rightarrow>
            (case oc_get (layouts c) (pi_tab_id pane) of
               None \<Rightarrow> c
             | Some layout \<Rightarrow>
                 c\<lparr>layouts := oc_set (pi_tab_id pane)
                   (layout\<lparr>pls_focused_pane_id := paneID\<rparr>) (layouts c)\<rparr>))"

definition put_workspace :: "workspace_info \<Rightarrow> session_cache \<Rightarrow> session_cache" where
  "put_workspace w c =
    c\<lparr>workspaces := oc_set (wi_workspace_id w) (workspace_info_clone w) (workspaces c)\<rparr>"

definition put_workspaces :: "workspace_info slice \<Rightarrow> session_cache \<Rightarrow> session_cache" where
  "put_workspaces ws c =
    c\<lparr>workspaces := oc_reset (elems ws) workspace_key workspace_info_clone (workspaces c)\<rparr>"

text \<open>\<open>apply\<close>: an event type with no case of its own leaves the mirror as it is.\<close>

fun apply_event :: "event \<Rightarrow> session_cache \<Rightarrow> session_cache" where
  "apply_event (WorkspaceCreated e) c = put_workspace (workspace_created_workspace e) c"
| "apply_event (WorkspaceUpdated e) c = put_workspace (workspace_updated_workspace e) c"
| "apply_event (WorkspaceMetadataUpdated e) c =
    put_workspace (workspace_metadata_updated_workspace e) c"
| "apply_event (WorkspaceRenamed e) c =
    (case oc_get (workspaces c) (workspace_renamed_workspace_id e) of
       None \<Rightarrow> c
     | Some workspace \<Rightarrow> c\<lparr>workspaces := oc_set (workspace_renamed_workspace_id e)
         (workspace\<lparr>wi_label := workspace_renamed_label e\<rparr>) (workspaces c)\<rparr>)"
| "apply_event (WorkspaceMoved e) c = put_workspaces (workspace_moved_workspaces e) c"
| "apply_event (WorkspaceReordered e) c = put_workspaces (workspace_reordered_workspaces e) c"
| "apply_event (WorkspaceFocused e) c = focus_workspace (workspace_focused_workspace_id e) c"
| "apply_event (WorkspaceClosed e) c = close_workspace (workspace_closed_workspace_id e) c"
| "apply_event (WorktreeCreated e) c = put_workspace (worktree_created_workspace e) c"
| "apply_event (WorktreeOpened e) c = put_workspace (worktree_opened_workspace e) c"
| "apply_event (WorktreeRemoved e) c =
    (case worktree_removed_workspace e of
       Present workspace \<Rightarrow> put_workspace workspace c | _ \<Rightarrow> c)"
| "apply_event (TabCreated e) c =
    c\<lparr>tabs := oc_set (ti_tab_id (tab_created_tab e)) (tab_info_clone (tab_created_tab e)) (tabs c)\<rparr>"
| "apply_event (TabRenamed e) c =
    (case oc_get (tabs c) (tab_renamed_tab_id e) of
       None \<Rightarrow> c
     | Some tab \<Rightarrow> c\<lparr>tabs := oc_set (tab_renamed_tab_id e)
         (tab\<lparr>ti_label := tab_renamed_label e\<rparr>) (tabs c)\<rparr>)"
| "apply_event (TabMoved e) c = reorder_tabs (tab_moved_workspace_id e) (tab_moved_tabs e) c"
| "apply_event (TabFocused e) c = focus_tab (tab_focused_tab_id e) c"
| "apply_event (TabClosed e) c = close_tab (tab_closed_tab_id e) c"
| "apply_event (PaneCreated e) c = set_pane (pane_created_pane e) c"
| "apply_event (PaneUpdated e) c = set_pane (pane_updated_pane e) c"
| "apply_event (PaneMoved e) c = move_pane e c"
| "apply_event (PaneFocused e) c = focus_pane (pane_focused_pane_id e) c"
| "apply_event (PaneClosed e) c = close_pane (pane_closed_pane_id e) c"
| "apply_event (PaneOutputChanged e) c =
    (case oc_get (panes c) (pane_output_changed_pane_id e) of
       None \<Rightarrow> c
     | Some pane \<Rightarrow> set_pane (pane\<lparr>pi_revision := pane_output_changed_revision e\<rparr>) c)"
| "apply_event (PaneScrollChanged e) c =
    (case oc_get (panes c) (pane_scroll_changed_pane_id e) of
       None \<Rightarrow> c
     | Some pane \<Rightarrow> set_pane (pane\<lparr>pi_scroll := Present (pane_scroll_changed_scroll e)\<rparr>) c)"
| "apply_event (PaneAgentDetected e) c = apply_agent_detected e c"
| "apply_event (PaneAgentStatusChanged e) c = apply_agent_status e c"
| "apply_event (LayoutUpdated e) c =
    c\<lparr>layouts := oc_set (pls_tab_id (layout_updated_layout e))
      (pane_layout_snapshot_clone (layout_updated_layout e)) (layouts c)\<rparr>"
| "apply_event (PaneExited e) c = c"
| "apply_event (PaneOutputMatched e) c = c"

subsection \<open>The accessors\<close>

definition clone_each :: "'a list \<Rightarrow> ('a \<Rightarrow> 'a) \<Rightarrow> 'a list" where
  "clone_each values clone = map clone values"

definition cache_workspaces :: "session_cache \<Rightarrow> workspace_info list" where
  "cache_workspaces c = clone_each (oc_values workspace_info_zero (workspaces c)) workspace_info_clone"

definition cache_tabs :: "session_cache \<Rightarrow> tab_info list" where
  "cache_tabs c = clone_each (oc_values tab_info_zero (tabs c)) tab_info_clone"

definition cache_agents :: "session_cache \<Rightarrow> agent_info list" where
  "cache_agents c = clone_each (oc_values agent_info_zero (agents c)) agent_info_clone"

definition cache_pane :: "session_cache \<Rightarrow> string \<Rightarrow> pane_info \<times> bool" where
  "cache_pane c paneID =
    (case oc_get (panes c) paneID of
       None \<Rightarrow> (pane_info_zero, False) | Some pane \<Rightarrow> (pane_info_clone pane, True))"

definition cache_layout :: "session_cache \<Rightarrow> string \<Rightarrow> pane_layout_snapshot \<times> bool" where
  "cache_layout c tabID =
    (case oc_get (layouts c) tabID of
       None \<Rightarrow> (pane_layout_snapshot_zero, False)
     | Some layout \<Rightarrow> (pane_layout_snapshot_clone layout, True))"

fun focused_id :: "'a list \<Rightarrow> ('a \<Rightarrow> string \<times> bool) \<Rightarrow> string optional" where
  "focused_id [] read = Absent"
| "focused_id (v # vs) read =
    (case read v of (i, focused) \<Rightarrow> if focused then Present i else focused_id vs read)"

definition cache_snapshot :: "session_cache \<Rightarrow> session_snapshot" where
  "cache_snapshot c =
    (let ws = clone_each (oc_values workspace_info_zero (workspaces c)) workspace_info_clone;
         ts = clone_each (oc_values tab_info_zero (tabs c)) tab_info_clone;
         ps = clone_each (oc_values pane_info_zero (panes c)) pane_info_clone
     in \<lparr>ss_agents = Some (clone_each (oc_values agent_info_zero (agents c)) agent_info_clone),
         ss_focused_pane_id = focused_id ps (\<lambda>p. (pi_pane_id p, pi_focused p)),
         ss_focused_tab_id = focused_id ts (\<lambda>t. (ti_tab_id t, ti_focused t)),
         ss_focused_workspace_id = focused_id ws (\<lambda>w. (wi_workspace_id w, wi_focused w)),
         ss_layouts = Some (clone_each (oc_values pane_layout_snapshot_zero (layouts c))
           pane_layout_snapshot_clone),
         ss_panes = Some ps,
         ss_protocol = protocol c,
         ss_tabs = Some ts,
         ss_version = version c,
         ss_workspaces = Some ws\<rparr>)"

end
