(* ===== verification/Mirror.thy ===== *)
theory Mirror
  imports Session_Cache
begin

text \<open>
  What the session mirror promises, without ids, maps or ordered collections: five lists of values
  with distinct ids, and one list operation per event. \<open>mirror_of\<close> abstracts a cache, \<open>cache_inv\<close> is
  the invariant of a cache, and the refinement lemmas show that \<open>apply\<close> and the accessors of
  \<open>herdr/session_state.go\<close> implement the specification \<open>mirror_event\<close>.
\<close>

record mirror =
  m_workspaces :: "workspace_info list"
  m_tabs :: "tab_info list"
  m_panes :: "pane_info list"
  m_agents :: "agent_info list"
  m_layouts :: "pane_layout_snapshot list"
  m_version :: string
  m_protocol :: "32 word"

definition mirror_of :: "session_cache \<Rightarrow> mirror" where
  "mirror_of c =
    \<lparr>m_workspaces = oc_list (workspaces c), m_tabs = oc_list (tabs c), m_panes = oc_list (panes c),
     m_agents = oc_list (agents c), m_layouts = oc_list (layouts c),
     m_version = version c, m_protocol = protocol c\<rparr>"

definition cache_inv :: "session_cache \<Rightarrow> bool" where
  "cache_inv c \<longleftrightarrow>
    keyed_inv workspace_key (workspaces c) \<and> keyed_inv tab_key (tabs c) \<and>
    keyed_inv pane_key (panes c) \<and> keyed_inv agent_key (agents c) \<and>
    keyed_inv layout_key (layouts c)"

definition mirror_inv :: "mirror \<Rightarrow> bool" where
  "mirror_inv m \<longleftrightarrow>
    distinct (map workspace_key (m_workspaces m)) \<and> distinct (map tab_key (m_tabs m)) \<and>
    distinct (map pane_key (m_panes m)) \<and> distinct (map agent_key (m_agents m)) \<and>
    distinct (map layout_key (m_layouts m))"

lemmas key_defs = workspace_key_def tab_key_def pane_key_def agent_key_def layout_key_def

text \<open>The value a list holds under an id.\<close>

abbreviation held :: "('a \<Rightarrow> string) \<Rightarrow> 'a list \<Rightarrow> string \<Rightarrow> 'a option" where
  "held key xs i \<equiv> find (\<lambda>v. key v = i) xs"

subsection \<open>The specification of the events\<close>

definition m_put_pane :: "pane_info \<Rightarrow> mirror \<Rightarrow> mirror" where
  "m_put_pane p m = m\<lparr>m_panes := upsert pane_key p (m_panes m),
     m_agents := map (\<lambda>a. if agent_key a = pane_key p then merge_agent a p else a) (m_agents m)\<rparr>"

definition m_drop_pane :: "string \<Rightarrow> mirror \<Rightarrow> mirror" where
  "m_drop_pane i m = m\<lparr>m_panes := filter (\<lambda>p. pane_key p \<noteq> i) (m_panes m),
     m_agents := filter (\<lambda>a. agent_key a \<noteq> i) (m_agents m)\<rparr>"

definition m_drop_tab :: "string \<Rightarrow> mirror \<Rightarrow> mirror" where
  "m_drop_tab i m = m\<lparr>m_tabs := filter (\<lambda>t. tab_key t \<noteq> i) (m_tabs m),
     m_layouts := filter (\<lambda>l. layout_key l \<noteq> i) (m_layouts m),
     m_panes := filter (\<lambda>p. pi_tab_id p \<noteq> i) (m_panes m),
     m_agents := filter (\<lambda>a. ai_tab_id a \<noteq> i) (m_agents m)\<rparr>"

definition m_drop_workspace :: "string \<Rightarrow> mirror \<Rightarrow> mirror" where
  "m_drop_workspace i m = m\<lparr>m_workspaces := filter (\<lambda>w. workspace_key w \<noteq> i) (m_workspaces m),
     m_tabs := filter (\<lambda>t. ti_workspace_id t \<noteq> i) (m_tabs m),
     m_panes := filter (\<lambda>p. pi_workspace_id p \<noteq> i) (m_panes m),
     m_agents := filter (\<lambda>a. ai_workspace_id a \<noteq> i) (m_agents m),
     m_layouts := filter (\<lambda>l. pls_workspace_id l \<noteq> i) (m_layouts m)\<rparr>"

text \<open>An optional effect: a field that is absent or null has none.\<close>

definition when_present :: "('a \<Rightarrow> 'm \<Rightarrow> 'm) \<Rightarrow> 'a optional \<Rightarrow> 'm \<Rightarrow> 'm" where
  "when_present f o' m = (case o' of Present v \<Rightarrow> f v m | _ \<Rightarrow> m)"

definition m_put_workspace :: "workspace_info \<Rightarrow> mirror \<Rightarrow> mirror" where
  "m_put_workspace w m = m\<lparr>m_workspaces := upsert workspace_key w (m_workspaces m)\<rparr>"

definition m_put_tab :: "tab_info \<Rightarrow> mirror \<Rightarrow> mirror" where
  "m_put_tab t m = m\<lparr>m_tabs := upsert tab_key t (m_tabs m)\<rparr>"

text \<open>The pane leaves its old id, taking its agent along, before the emptied containers close.\<close>

definition m_rekey_pane :: "string \<Rightarrow> pane_info \<Rightarrow> mirror \<Rightarrow> mirror" where
  "m_rekey_pane i p m = m\<lparr>
     m_panes := upsert pane_key p (filter (\<lambda>q. pane_key q \<noteq> i) (m_panes m)),
     m_agents := (case held agent_key (m_agents m) i of
         None \<Rightarrow> filter (\<lambda>a. agent_key a \<noteq> i) (m_agents m)
       | Some a \<Rightarrow> upsert agent_key (merge_agent a p) (filter (\<lambda>a. agent_key a \<noteq> i) (m_agents m)))\<rparr>"

definition m_move_pane :: "pane_moved_event \<Rightarrow> mirror \<Rightarrow> mirror" where
  "m_move_pane e =
    when_present m_drop_workspace (pane_moved_closed_workspace_id e) \<circ>
    when_present m_drop_tab (pane_moved_closed_tab_id e) \<circ>
    m_rekey_pane (pane_moved_previous_pane_id e) (pane_moved_pane e) \<circ>
    when_present m_put_tab (pane_moved_created_tab e) \<circ>
    when_present m_put_workspace (pane_moved_created_workspace e)"

definition m_edit_pane :: "string \<Rightarrow> (pane_info \<Rightarrow> pane_info) \<Rightarrow> mirror \<Rightarrow> mirror" where
  "m_edit_pane i f m = (case held pane_key (m_panes m) i of None \<Rightarrow> m | Some p \<Rightarrow> m_put_pane (f p) m)"

definition detected_pane :: "pane_agent_detected_event \<Rightarrow> pane_info \<Rightarrow> pane_info" where
  "detected_pane e p =
    (let p = (if opt_value_or_zero False (pane_agent_detected_released e)
              then p\<lparr>pi_agent := Absent, pi_display_agent := Absent\<rparr>
              else p\<lparr>pi_agent := pane_agent_detected_agent e\<rparr>)
     in when_present (\<lambda>s p. p\<lparr>pi_agent_status := s\<rparr>) (pane_agent_detected_final_status e) p)"

definition m_agent_detected :: "pane_agent_detected_event \<Rightarrow> mirror \<Rightarrow> mirror" where
  "m_agent_detected e m =
    (let i = pane_agent_detected_pane_id e;
         drop_agent = filter (\<lambda>a. agent_key a \<noteq> i);
         released = opt_value_or_zero False (pane_agent_detected_released e)
     in case held pane_key (m_panes m) i of
          None \<Rightarrow> if released then m\<lparr>m_agents := drop_agent (m_agents m)\<rparr> else m
        | Some p \<Rightarrow>
            let p = detected_pane e p;
                a = (case held agent_key (m_agents m) i of None \<Rightarrow> agent_info_zero | Some a \<Rightarrow> a)
            in m\<lparr>m_panes := upsert pane_key p (m_panes m),
                 m_agents := (if released then drop_agent (m_agents m)
                   else upsert agent_key (merge_agent a p) (m_agents m))\<rparr>)"

definition status_pane :: "pane_agent_status_changed_event \<Rightarrow> pane_info \<Rightarrow> pane_info" where
  "status_pane e =
    when_present (\<lambda>v p. p\<lparr>pi_state_labels := Present v\<rparr>) (pane_agent_status_changed_state_labels e) \<circ>
    when_present (\<lambda>v p. p\<lparr>pi_title := Present v\<rparr>) (pane_agent_status_changed_title e) \<circ>
    when_present (\<lambda>v p. p\<lparr>pi_display_agent := Present v\<rparr>) (pane_agent_status_changed_display_agent e) \<circ>
    when_present (\<lambda>v p. p\<lparr>pi_agent := Present v\<rparr>) (pane_agent_status_changed_agent e) \<circ>
    (\<lambda>p. p\<lparr>pi_agent_status := pane_agent_status_changed_agent_status e\<rparr>)"

definition m_agent_status :: "pane_agent_status_changed_event \<Rightarrow> mirror \<Rightarrow> mirror" where
  "m_agent_status e m =
    (let i = pane_agent_status_changed_pane_id e
     in case held pane_key (m_panes m) i of
          None \<Rightarrow> m\<lparr>m_agents := map (\<lambda>a. if agent_key a = i
            then a\<lparr>ai_agent_status := pane_agent_status_changed_agent_status e\<rparr> else a) (m_agents m)\<rparr>
        | Some p \<Rightarrow> m_put_pane (status_pane e p) m)"

definition m_focus_pane :: "string \<Rightarrow> mirror \<Rightarrow> mirror" where
  "m_focus_pane i m = m\<lparr>
     m_panes := map (\<lambda>p. p\<lparr>pi_focused := (pane_key p = i)\<rparr>) (m_panes m),
     m_agents := map (\<lambda>a. a\<lparr>ai_focused := (agent_key a = i)\<rparr>) (m_agents m),
     m_layouts := (case held pane_key (m_panes m) i of
         None \<Rightarrow> m_layouts m
       | Some p \<Rightarrow> map (\<lambda>l. if layout_key l = pi_tab_id p then l\<lparr>pls_focused_pane_id := i\<rparr> else l)
           (m_layouts m))\<rparr>"

definition m_reorder_tabs :: "string \<Rightarrow> tab_info list \<Rightarrow> mirror \<Rightarrow> mirror" where
  "m_reorder_tabs i ts m = m\<lparr>m_tabs :=
     list_insert_at (first_match (\<lambda>t. ti_workspace_id t = i) (m_tabs m)) ts tab_key
       (filter (\<lambda>t. ti_workspace_id t \<noteq> i) (m_tabs m))\<rparr>"

definition m_put_workspaces :: "workspace_info slice \<Rightarrow> mirror \<Rightarrow> mirror" where
  "m_put_workspaces ws m = m\<lparr>m_workspaces := upsert_all workspace_key (elems ws)\<rparr>"

fun mirror_event :: "event \<Rightarrow> mirror \<Rightarrow> mirror" where
  "mirror_event (WorkspaceCreated e) m = m_put_workspace (workspace_created_workspace e) m"
| "mirror_event (WorkspaceUpdated e) m = m_put_workspace (workspace_updated_workspace e) m"
| "mirror_event (WorkspaceMetadataUpdated e) m =
    m_put_workspace (workspace_metadata_updated_workspace e) m"
| "mirror_event (WorkspaceRenamed e) m = m\<lparr>m_workspaces :=
    map (\<lambda>w. if workspace_key w = workspace_renamed_workspace_id e
      then w\<lparr>wi_label := workspace_renamed_label e\<rparr> else w) (m_workspaces m)\<rparr>"
| "mirror_event (WorkspaceMoved e) m = m_put_workspaces (workspace_moved_workspaces e) m"
| "mirror_event (WorkspaceReordered e) m = m_put_workspaces (workspace_reordered_workspaces e) m"
| "mirror_event (WorkspaceFocused e) m = m\<lparr>m_workspaces :=
    map (\<lambda>w. w\<lparr>wi_focused := (workspace_key w = workspace_focused_workspace_id e)\<rparr>) (m_workspaces m)\<rparr>"
| "mirror_event (WorkspaceClosed e) m = m_drop_workspace (workspace_closed_workspace_id e) m"
| "mirror_event (WorktreeCreated e) m = m_put_workspace (worktree_created_workspace e) m"
| "mirror_event (WorktreeOpened e) m = m_put_workspace (worktree_opened_workspace e) m"
| "mirror_event (WorktreeRemoved e) m = when_present m_put_workspace (worktree_removed_workspace e) m"
| "mirror_event (TabCreated e) m = m_put_tab (tab_created_tab e) m"
| "mirror_event (TabRenamed e) m = m\<lparr>m_tabs :=
    map (\<lambda>t. if tab_key t = tab_renamed_tab_id e then t\<lparr>ti_label := tab_renamed_label e\<rparr> else t)
      (m_tabs m)\<rparr>"
| "mirror_event (TabMoved e) m =
    m_reorder_tabs (tab_moved_workspace_id e) (elems (tab_moved_tabs e)) m"
| "mirror_event (TabFocused e) m = m\<lparr>m_tabs :=
    map (\<lambda>t. t\<lparr>ti_focused := (tab_key t = tab_focused_tab_id e)\<rparr>) (m_tabs m)\<rparr>"
| "mirror_event (TabClosed e) m = m_drop_tab (tab_closed_tab_id e) m"
| "mirror_event (PaneCreated e) m = m_put_pane (pane_created_pane e) m"
| "mirror_event (PaneUpdated e) m = m_put_pane (pane_updated_pane e) m"
| "mirror_event (PaneMoved e) m = m_move_pane e m"
| "mirror_event (PaneFocused e) m = m_focus_pane (pane_focused_pane_id e) m"
| "mirror_event (PaneClosed e) m = m_drop_pane (pane_closed_pane_id e) m"
| "mirror_event (PaneOutputChanged e) m = m_edit_pane (pane_output_changed_pane_id e)
    (\<lambda>p. p\<lparr>pi_revision := pane_output_changed_revision e\<rparr>) m"
| "mirror_event (PaneScrollChanged e) m = m_edit_pane (pane_scroll_changed_pane_id e)
    (\<lambda>p. p\<lparr>pi_scroll := Present (pane_scroll_changed_scroll e)\<rparr>) m"
| "mirror_event (PaneAgentDetected e) m = m_agent_detected e m"
| "mirror_event (PaneAgentStatusChanged e) m = m_agent_status e m"
| "mirror_event (LayoutUpdated e) m = m\<lparr>m_layouts :=
    upsert layout_key (layout_updated_layout e) (m_layouts m)\<rparr>"
| "mirror_event (PaneExited e) m = m"
| "mirror_event (PaneOutputMatched e) m = m"

subsection \<open>The operations refine it\<close>

lemma mirror_inv_of: "cache_inv c \<Longrightarrow> mirror_inv (mirror_of c)"
  by (simp add: cache_inv_def mirror_inv_def mirror_of_def keyed.keys_distinct)

lemma mirror_determines:
  "cache_inv c \<Longrightarrow> cache_inv d \<Longrightarrow> mirror_of c = mirror_of d \<Longrightarrow> c = d"
  by (intro session_cache.equality)
    (auto simp: cache_inv_def mirror_of_def intro: keyed.vals_determine)

text \<open>\<open>refines f g\<close>: on a cache with the invariant, \<open>f\<close> keeps it and does to the view what \<open>g\<close> does.\<close>

definition refines :: "(session_cache \<Rightarrow> session_cache) \<Rightarrow> (mirror \<Rightarrow> mirror) \<Rightarrow> bool" where
  "refines f g \<longleftrightarrow> (\<forall>c. cache_inv c \<longrightarrow> cache_inv (f c) \<and> mirror_of (f c) = g (mirror_of c))"

lemma refinesI:
  "(\<And>c. cache_inv c \<Longrightarrow> cache_inv (f c)) \<Longrightarrow>
   (\<And>c. cache_inv c \<Longrightarrow> mirror_of (f c) = g (mirror_of c)) \<Longrightarrow> refines f g"
  by (simp add: refines_def)

lemma refines_comp: "refines f1 g1 \<Longrightarrow> refines f2 g2 \<Longrightarrow> refines (f2 \<circ> f1) (g2 \<circ> g1)"
  by (simp add: refines_def)

lemma refines_id: "refines (\<lambda>c. c) (\<lambda>m. m)"
  by (simp add: refines_def)

text \<open>What a proof about one operation unfolds: the laws of the store, and the two views.\<close>

lemmas keyed_laws = keyed.laws keyed.get_vals keyed_insert_at keyed_delete_where
lemmas store_laws =
  keyed_laws [where key = workspace_key] keyed_laws [where key = tab_key]
  keyed_laws [where key = pane_key] keyed_laws [where key = agent_key]
  keyed_laws [where key = layout_key]
lemmas views_simps = mirror_of_def cache_inv_def store_laws clone_simps key_defs [symmetric]

lemma refines_put_workspace: "refines (put_workspace w) (m_put_workspace w)"
  by (rule refinesI) (simp_all add: put_workspace_def m_put_workspace_def views_simps)

lemma refines_put_workspaces: "refines (put_workspaces ws) (m_put_workspaces ws)"
  by (rule refinesI) (simp_all add: put_workspaces_def m_put_workspaces_def views_simps)

lemma refines_close_pane: "refines (close_pane i) (m_drop_pane i)"
  by (rule refinesI) (simp_all add: close_pane_def m_drop_pane_def views_simps Let_def)

lemma refines_close_tab: "refines (close_tab i) (m_drop_tab i)"
  by (rule refinesI) (simp_all add: close_tab_def m_drop_tab_def views_simps Let_def)

lemma refines_close_workspace: "refines (close_workspace i) (m_drop_workspace i)"
  by (rule refinesI) (simp_all add: close_workspace_def m_drop_workspace_def views_simps Let_def)

lemma refines_reorder_tabs: "refines (reorder_tabs i ts) (m_reorder_tabs i (elems ts))"
  by (rule refinesI)
    (simp_all add: reorder_tabs_def m_reorder_tabs_def views_simps split_beta)

lemma refines_set_pane: "refines (set_pane p) (m_put_pane p)"
proof (rule refinesI)
  fix c
  assume inv: "cache_inv c"
  then have "distinct (map agent_key (oc_list (agents c)))"
    by (simp add: cache_inv_def keyed.keys_distinct)
  note held = upsert_held [OF this, of "pane_key p" _ "\<lambda>a. merge_agent a p"]
    map_unheld [of agent_key "pane_key p" "oc_list (agents c)" "\<lambda>a. merge_agent a p"]
  have "agent_key (merge_agent a p) = pane_key p" for a by (simp add: key_defs merge_agent_def)
  with inv held show "cache_inv (set_pane p c)"
    and "mirror_of (set_pane p c) = m_put_pane p (mirror_of c)"
    by (simp_all add: set_pane_def m_put_pane_def views_simps Let_def split: option.split)
qed

text \<open>An update of another field keeps the id.\<close>

lemma key_updates [simp]:
  "workspace_key (w\<lparr>wi_focused := b\<rparr>) = workspace_key w"
  "workspace_key (w\<lparr>wi_label := s\<rparr>) = workspace_key w"
  "tab_key (t\<lparr>ti_focused := b\<rparr>) = tab_key t"
  "tab_key (t\<lparr>ti_label := s\<rparr>) = tab_key t"
  "pane_key (p\<lparr>pi_focused := b\<rparr>) = pane_key p"
  "pane_key (p\<lparr>pi_revision := n\<rparr>) = pane_key p"
  "pane_key (p\<lparr>pi_scroll := sc\<rparr>) = pane_key p"
  "agent_key (a\<lparr>ai_focused := b\<rparr>) = agent_key a"
  "agent_key (a\<lparr>ai_agent_status := s\<rparr>) = agent_key a"
  "agent_key (merge_agent a p) = pane_key p"
  "layout_key (l\<lparr>pls_focused_pane_id := s\<rparr>) = layout_key l"
  by (simp_all add: key_defs merge_agent_def)

lemma held_map:
  "(\<And>v. key (f v) = key v) \<Longrightarrow> held key (map f xs) i = map_option f (held key xs i)"
  by (induction xs) auto

lemma refines_focus_pane: "refines (focus_pane i) (m_focus_pane i)"
proof -
  have "cache_inv (focus_pane i c) \<and> mirror_of (focus_pane i c) = m_focus_pane i (mirror_of c)"
    if inv: "cache_inv c" for c
  proof (cases "held pane_key (oc_list (panes c)) i")
    case None
    then show ?thesis using inv
      by (simp add: focus_pane_def m_focus_pane_def views_simps held_map)
  next
    case (Some p)
    let ?f = "\<lambda>l. l\<lparr>pls_focused_pane_id := i\<rparr>" and ?t = "pi_tab_id p"
    show ?thesis
    proof (cases "held layout_key (oc_list (layouts c)) ?t")
      case None
      with Some inv map_unheld [OF None, of ?f] show ?thesis
        by (simp add: focus_pane_def m_focus_pane_def views_simps held_map)
    next
      case (Some l)
      have "distinct (map layout_key (oc_list (layouts c)))"
        using inv by (simp add: cache_inv_def keyed.keys_distinct)
      with Some have key: "layout_key l = ?t" by (simp add: find_key_Some)
      with \<open>distinct _\<close> Some have "upsert layout_key (?f l) (oc_list (layouts c)) =
          map (\<lambda>l. if layout_key l = ?t then ?f l else l) (oc_list (layouts c))"
        by (simp add: upsert_held [where f = ?f])
      with \<open>held pane_key _ _ = _\<close> Some key inv show ?thesis
        by (simp add: focus_pane_def m_focus_pane_def views_simps held_map)
    qed
  qed
  then show ?thesis by (simp add: refines_def)
qed

lemma refines_when_present:
  "(\<And>v. refines (f v) (g v)) \<Longrightarrow> refines (when_present f o') (when_present g o')"
  by (cases o') (simp_all add: refines_def when_present_def)

text \<open>The middle of \<open>movePane\<close>, between the containers it creates and those it closes.\<close>

definition rekey_pane :: "string \<Rightarrow> pane_info \<Rightarrow> session_cache \<Rightarrow> session_cache" where
  "rekey_pane i p c =
    (let had_agent = oc_get (agents c) i; c = close_pane i c;
         c = c\<lparr>panes := oc_set (pi_pane_id p) p (panes c)\<rparr>
     in case had_agent of
          Some agent \<Rightarrow> c\<lparr>agents := oc_set (pi_pane_id p) (merge_agent agent p) (agents c)\<rparr>
        | None \<Rightarrow> c)"

lemma refines_rekey_pane: "refines (rekey_pane i p) (m_rekey_pane i p)"
proof (rule refinesI)
  fix c
  assume inv: "cache_inv c"
  then show "cache_inv (rekey_pane i p c)"
    and "mirror_of (rekey_pane i p c) = m_rekey_pane i p (mirror_of c)"
    by (cases "held agent_key (oc_list (agents c)) i";
      simp add: rekey_pane_def m_rekey_pane_def close_pane_def views_simps Let_def)+
qed

lemma refines_put_tab: "refines (\<lambda>c. c\<lparr>tabs := oc_set (ti_tab_id t) (tab_info_clone t) (tabs c)\<rparr>) (m_put_tab t)"
  by (rule refinesI) (simp_all add: m_put_tab_def views_simps)

lemma move_pane_parts:
  "move_pane e =
    when_present close_workspace (pane_moved_closed_workspace_id e) \<circ>
    when_present close_tab (pane_moved_closed_tab_id e) \<circ>
    rekey_pane (pane_moved_previous_pane_id e) (pane_moved_pane e) \<circ>
    when_present (\<lambda>t c. c\<lparr>tabs := oc_set (ti_tab_id t) (tab_info_clone t) (tabs c)\<rparr>)
      (pane_moved_created_tab e) \<circ>
    when_present put_workspace (pane_moved_created_workspace e)"
  by (simp add: fun_eq_iff move_pane_def rekey_pane_def when_present_def put_workspace_def Let_def
      clone_simps cong: optional.case_cong)

lemma refines_move_pane: "refines (move_pane e) (m_move_pane e)"
  unfolding move_pane_parts m_move_pane_def
  by (intro refines_comp refines_when_present refines_close_workspace refines_close_tab
      refines_rekey_pane refines_put_tab refines_put_workspace)

lemma detected_pane_key [simp]: "pane_key (detected_pane e p) = pane_key p"
  by (simp add: detected_pane_def when_present_def key_defs Let_def split: optional.split)

lemma status_pane_key [simp]: "pane_key (status_pane e p) = pane_key p"
  by (simp add: status_pane_def when_present_def key_defs split: optional.split)

lemma apply_agent_detected_cases:
  "apply_agent_detected e c =
    (let i = pane_agent_detected_pane_id e;
         released = opt_value_or_zero False (pane_agent_detected_released e)
     in case oc_get (panes c) i of
          None \<Rightarrow> if released then c\<lparr>agents := oc_delete i (agents c)\<rparr> else c
        | Some p \<Rightarrow>
            c\<lparr>panes := oc_set i (detected_pane e p) (panes c),
              agents := if released then oc_delete i (agents c)
                else oc_set i (merge_agent (case oc_get (agents c) i of None \<Rightarrow> agent_info_zero
                  | Some a \<Rightarrow> a) (detected_pane e p)) (agents c)\<rparr>)"
  by (cases "oc_get (panes c) (pane_agent_detected_pane_id e)";
      cases "opt_value_or_zero False (pane_agent_detected_released e)";
      cases "pane_agent_detected_final_status e";
      simp add: apply_agent_detected_def detected_pane_def when_present_def Let_def)

lemma held_key: "held key xs i = Some v \<Longrightarrow> key v = i"
  by (auto simp: find_Some_iff)

lemma refines_agent_detected: "refines (apply_agent_detected e) (m_agent_detected e)"
proof -
  have "cache_inv (apply_agent_detected e c) \<and>
      mirror_of (apply_agent_detected e c) = m_agent_detected e (mirror_of c)"
    if inv: "cache_inv c" for c
  proof (cases "held pane_key (oc_list (panes c)) (pane_agent_detected_pane_id e)")
    case None
    with inv show ?thesis
      by (simp add: apply_agent_detected_cases m_agent_detected_def views_simps)
  next
    case (Some p)
    with inv held_key [OF Some] show ?thesis
      by (simp add: apply_agent_detected_cases m_agent_detected_def views_simps Let_def)
  qed
  then show ?thesis by (simp add: refines_def)
qed

lemma apply_agent_status_cases:
  "apply_agent_status e c =
    (let i = pane_agent_status_changed_pane_id e
     in case oc_get (panes c) i of
          Some p \<Rightarrow>
            (let c' = c\<lparr>panes := oc_set i (status_pane e p) (panes c)\<rparr>
             in case oc_get (agents c) i of None \<Rightarrow> c'
                | Some a \<Rightarrow> c'\<lparr>agents := oc_set i (merge_agent a (status_pane e p)) (agents c)\<rparr>)
        | None \<Rightarrow>
            (case oc_get (agents c) i of None \<Rightarrow> c
             | Some a \<Rightarrow> c\<lparr>agents := oc_set i
                 (a\<lparr>ai_agent_status := pane_agent_status_changed_agent_status e\<rparr>) (agents c)\<rparr>))"
proof (cases "oc_get (panes c) (pane_agent_status_changed_pane_id e)")
  case None
  then show ?thesis by (simp add: apply_agent_status_def Let_def split: option.split)
next
  case (Some p)
  have pane: "status_pane e p =
    (let pane = p\<lparr>pi_agent_status := pane_agent_status_changed_agent_status e\<rparr>;
         pane = (case pane_agent_status_changed_agent e of
           Present value \<Rightarrow> pane\<lparr>pi_agent := Present value\<rparr> | _ \<Rightarrow> pane);
         pane = (case pane_agent_status_changed_display_agent e of
           Present value \<Rightarrow> pane\<lparr>pi_display_agent := Present value\<rparr> | _ \<Rightarrow> pane);
         pane = (case pane_agent_status_changed_title e of
           Present value \<Rightarrow> pane\<lparr>pi_title := Present value\<rparr> | _ \<Rightarrow> pane);
         pane = (case pane_agent_status_changed_state_labels e of
           Present labels \<Rightarrow> pane\<lparr>pi_state_labels := Present labels\<rparr> | _ \<Rightarrow> pane)
     in pane)"
    by (simp only: status_pane_def when_present_def Let_def comp_def)
  show ?thesis
    unfolding apply_agent_status_def Let_def Some option.case pane [unfolded Let_def] clone_map_id
    by (simp only: option.simps simp_thms if_True id_apply split: option.split) simp
qed

lemma refines_agent_status: "refines (apply_agent_status e) (m_agent_status e)"
proof -
  have "cache_inv (apply_agent_status e c) \<and>
      mirror_of (apply_agent_status e c) = m_agent_status e (mirror_of c)"
    if inv: "cache_inv c" for c
  proof -
    let ?i = "pane_agent_status_changed_pane_id e"
    have dist: "distinct (map agent_key (oc_list (agents c)))"
      using inv by (simp add: cache_inv_def keyed.keys_distinct)
    note hit = upsert_held [OF dist, of ?i] and miss = map_unheld [of agent_key ?i "oc_list (agents c)"]
    show ?thesis
    proof (cases "held pane_key (oc_list (panes c)) ?i")
      case None
      let ?f = "\<lambda>a. a\<lparr>ai_agent_status := pane_agent_status_changed_agent_status e\<rparr>"
      show ?thesis
      proof (cases "held agent_key (oc_list (agents c)) ?i")
        case None
        with \<open>held pane_key _ _ = _\<close> inv miss [OF None, of ?f] show ?thesis
          by (simp add: apply_agent_status_cases m_agent_status_def views_simps Let_def)
      next
        case (Some a)
        with \<open>held pane_key _ _ = _\<close> inv hit [OF Some, of ?f] held_key [OF Some] show ?thesis
          by (simp add: apply_agent_status_cases m_agent_status_def views_simps Let_def)
      qed
    next
      case (Some p)
      let ?f = "\<lambda>a. merge_agent a (status_pane e p)"
      note p = Some held_key [OF Some]
      show ?thesis
      proof (cases "held agent_key (oc_list (agents c)) ?i")
        case None
        with p inv miss [OF None, of ?f] show ?thesis
          by (simp add: apply_agent_status_cases m_agent_status_def m_put_pane_def views_simps Let_def)
      next
        case (Some a)
        with p inv hit [OF Some, of ?f] show ?thesis
          by (simp add: apply_agent_status_cases m_agent_status_def m_put_pane_def views_simps Let_def)
      qed
    qed
  qed
  then show ?thesis by (simp add: refines_def)
qed

lemma refines_edit_pane:
  assumes "\<And>p. pane_key (f p) = pane_key p"
  shows "refines (\<lambda>c. case oc_get (panes c) i of None \<Rightarrow> c | Some p \<Rightarrow> set_pane (f p) c) (m_edit_pane i f)"
  using refines_set_pane
  by (auto simp: refines_def m_edit_pane_def keyed.get_vals [where key = pane_key] cache_inv_def
      mirror_of_def split: option.split)

text \<open>A rename or a focus change of one kind of entry, in the two ways the code writes it.\<close>

lemma keyed_edit_one:
  assumes "keyed_inv key xs" and "\<And>v. key (f v) = key v"
  shows "oc_list (case oc_get xs i of None \<Rightarrow> xs | Some v \<Rightarrow> oc_set i (f v) xs) =
      map (\<lambda>v. if key v = i then f v else v) (oc_list xs)"
    and "keyed_inv key (case oc_get xs i of None \<Rightarrow> xs | Some v \<Rightarrow> oc_set i (f v) xs)"
proof -
  have "oc_list (case oc_get xs i of None \<Rightarrow> xs | Some v \<Rightarrow> oc_set i (f v) xs) =
      map (\<lambda>v. if key v = i then f v else v) (oc_list xs) \<and>
    keyed_inv key (case oc_get xs i of None \<Rightarrow> xs | Some v \<Rightarrow> oc_set i (f v) xs)"
  proof (cases "held key (oc_list xs) i")
    case None
    with assms show ?thesis by (simp add: keyed.get_vals [where key = key] map_unheld)
  next
    case (Some v)
    with assms held_key [OF Some] upsert_held [OF keyed.keys_distinct [OF assms(1)] Some, of f]
    show ?thesis by (simp add: keyed.get_vals [where key = key] keyed.laws)
  qed
  then show "oc_list (case oc_get xs i of None \<Rightarrow> xs | Some v \<Rightarrow> oc_set i (f v) xs) =
      map (\<lambda>v. if key v = i then f v else v) (oc_list xs)"
    and "keyed_inv key (case oc_get xs i of None \<Rightarrow> xs | Some v \<Rightarrow> oc_set i (f v) xs)" by auto
qed

lemma refines_rename_workspace:
  "refines (apply_event (WorkspaceRenamed e)) (mirror_event (WorkspaceRenamed e))"
proof -
  have split: "apply_event (WorkspaceRenamed e) c =
    c\<lparr>workspaces := (case oc_get (workspaces c) (workspace_renamed_workspace_id e) of
        None \<Rightarrow> workspaces c
      | Some w \<Rightarrow> oc_set (workspace_renamed_workspace_id e) (w\<lparr>wi_label := workspace_renamed_label e\<rparr>)
          (workspaces c))\<rparr>" for c
    by (simp split: option.split)
  show ?thesis
    unfolding refines_def split
    by (simp add: cache_inv_def mirror_of_def keyed_edit_one [where key = workspace_key])
qed

lemma refines_rename_tab: "refines (apply_event (TabRenamed e)) (mirror_event (TabRenamed e))"
proof -
  have split: "apply_event (TabRenamed e) c =
    c\<lparr>tabs := (case oc_get (tabs c) (tab_renamed_tab_id e) of
        None \<Rightarrow> tabs c
      | Some t \<Rightarrow> oc_set (tab_renamed_tab_id e) (t\<lparr>ti_label := tab_renamed_label e\<rparr>) (tabs c))\<rparr>" for c
    by (simp split: option.split)
  show ?thesis
    unfolding refines_def split
    by (simp add: cache_inv_def mirror_of_def keyed_edit_one [where key = tab_key])
qed

lemma refines_focus_workspace:
  "refines (apply_event (WorkspaceFocused e)) (mirror_event (WorkspaceFocused e))"
  by (rule refinesI) (simp_all add: focus_workspace_def views_simps)

lemma refines_focus_tab: "refines (apply_event (TabFocused e)) (mirror_event (TabFocused e))"
  by (rule refinesI) (simp_all add: focus_tab_def views_simps)

lemma refines_layout_updated:
  "refines (apply_event (LayoutUpdated e)) (mirror_event (LayoutUpdated e))"
  by (rule refinesI) (simp_all add: views_simps)

lemma refines_tab_created: "refines (apply_event (TabCreated e)) (mirror_event (TabCreated e))"
  using refines_put_tab [of "tab_created_tab e"] by (simp add: refines_def)

lemma refines_worktree_removed:
  "refines (apply_event (WorktreeRemoved e)) (mirror_event (WorktreeRemoved e))"
  using refines_when_present [where o' = "worktree_removed_workspace e", OF refines_put_workspace]
  by (simp add: refines_def when_present_def)

lemmas refines_ops =
  refines_put_workspace refines_put_workspaces refines_close_pane refines_close_tab
  refines_close_workspace refines_reorder_tabs refines_set_pane refines_focus_pane
  refines_move_pane refines_agent_detected refines_agent_status

lemmas refines_events =
  refines_rename_workspace refines_rename_tab refines_focus_workspace refines_focus_tab
  refines_layout_updated refines_tab_created refines_worktree_removed

lemma refines_event: "refines (apply_event e) (mirror_event e)"
proof (cases e)
  case (PaneOutputChanged x)
  with refines_edit_pane [of "\<lambda>p. p\<lparr>pi_revision := pane_output_changed_revision x\<rparr>"]
  show ?thesis by (simp add: refines_def)
next
  case (PaneScrollChanged x)
  with refines_edit_pane [of "\<lambda>p. p\<lparr>pi_scroll := Present (pane_scroll_changed_scroll x)\<rparr>"]
  show ?thesis by (simp add: refines_def)
qed (use refines_ops refines_events refines_id in \<open>simp_all add: refines_def\<close>)

lemma apply_event_inv [simp]: "cache_inv c \<Longrightarrow> cache_inv (apply_event e c)"
  and apply_event_mirror [mirror_simps]:
    "cache_inv c \<Longrightarrow> mirror_of (apply_event e c) = mirror_event e (mirror_of c)"
  using refines_event [of e] by (simp_all add: refines_def)

subsection \<open>A cache built from a snapshot\<close>

definition mirror_of_snapshot :: "session_snapshot \<Rightarrow> mirror" where
  "mirror_of_snapshot s =
    \<lparr>m_workspaces = upsert_all workspace_key (elems (ss_workspaces s)),
     m_tabs = upsert_all tab_key (elems (ss_tabs s)),
     m_panes = upsert_all pane_key (elems (ss_panes s)),
     m_agents = upsert_all agent_key (elems (ss_agents s)),
     m_layouts = upsert_all layout_key (elems (ss_layouts s)),
     m_version = ss_version s, m_protocol = ss_protocol s\<rparr>"

lemma new_session_cache_inv [simp]: "cache_inv (new_session_cache s)"
  by (simp add: new_session_cache_def Let_def cache_inv_def clone_simps keyed.reload_inv)

lemma new_session_cache_mirror [mirror_simps]:
  "mirror_of (new_session_cache s) = mirror_of_snapshot s"
  by (simp add: new_session_cache_def Let_def mirror_of_def mirror_of_snapshot_def clone_simps
      keyed.reload_vals)

subsection \<open>The accessors, on the view\<close>

lemma held_mem: "held key xs i = Some v \<Longrightarrow> i \<in> key ` set xs"
  using find_key_absent [of key i xs] by auto

lemma cache_lists:
  assumes "cache_inv c"
  shows "cache_workspaces c = m_workspaces (mirror_of c)"
    and "cache_tabs c = m_tabs (mirror_of c)"
    and "cache_agents c = m_agents (mirror_of c)"
    and "fst (cache_pane c i) = (case held pane_key (m_panes (mirror_of c)) i of
      None \<Rightarrow> pane_info_zero | Some p \<Rightarrow> p)"
    and "snd (cache_pane c i) \<longleftrightarrow> i \<in> pane_key ` set (m_panes (mirror_of c))"
    and "fst (cache_layout c i) = (case held layout_key (m_layouts (mirror_of c)) i of
      None \<Rightarrow> pane_layout_snapshot_zero | Some l \<Rightarrow> l)"
    and "snd (cache_layout c i) \<longleftrightarrow> i \<in> layout_key ` set (m_layouts (mirror_of c))"
  using assms
  by (auto simp: cache_workspaces_def cache_tabs_def cache_agents_def cache_pane_def cache_layout_def
      clone_each_def views_simps keyed_values [where key = workspace_key]
      keyed_values [where key = tab_key] keyed_values [where key = agent_key] find_key_absent
      dest: held_mem split: option.splits)

definition mirror_snapshot :: "mirror \<Rightarrow> session_snapshot" where
  "mirror_snapshot m =
    \<lparr>ss_agents = Some (m_agents m),
     ss_focused_pane_id = focused_id (m_panes m) (\<lambda>p. (pi_pane_id p, pi_focused p)),
     ss_focused_tab_id = focused_id (m_tabs m) (\<lambda>t. (ti_tab_id t, ti_focused t)),
     ss_focused_workspace_id = focused_id (m_workspaces m) (\<lambda>w. (wi_workspace_id w, wi_focused w)),
     ss_layouts = Some (m_layouts m), ss_panes = Some (m_panes m), ss_protocol = m_protocol m,
     ss_tabs = Some (m_tabs m), ss_version = m_version m, ss_workspaces = Some (m_workspaces m)\<rparr>"

lemma cache_snapshot_mirror [mirror_simps]:
  "cache_inv c \<Longrightarrow> cache_snapshot c = mirror_snapshot (mirror_of c)"
  by (simp add: cache_snapshot_def mirror_snapshot_def mirror_of_def cache_inv_def clone_simps
      clone_each_def Let_def keyed_values [where key = workspace_key]
      keyed_values [where key = tab_key] keyed_values [where key = agent_key]
      keyed_values [where key = pane_key] keyed_values [where key = layout_key])

end
