(* ===== verification/Mirror_Facts.thy ===== *)
theory Mirror_Facts
  imports Mirror
begin

text \<open>
  Facts about the specification of the session mirror: every event step is idempotent under the
  condition \<open>tabs_settled\<close>, keeps the agents in step with their panes under \<open>move_settled\<close>, and
  closes, focuses and moves what it names. They are proved on lists of values and reach the code
  through the refinement lemmas of the theory \<open>Mirror\<close>.
\<close>

subsection \<open>Lists\<close>

lemma upsert_all_mem: "set (upsert_all key vs) \<subseteq> set vs"
proof (induction vs rule: rev_induct)
  case (snoc v vs)
  then show ?case by (auto simp: upsert_all_def upsert_mem)
qed (simp add: upsert_all_def)

lemma upsert_all_Nil [simp]: "upsert_all key vs = [] \<longleftrightarrow> vs = []"
proof (induction vs rule: rev_induct)
  case (snoc v vs)
  have "upsert key v xs \<noteq> []" for xs using upsert_in [of v key xs] by (metis empty_iff list.set(1))
  then show ?case by (simp add: upsert_all_def)
qed (simp add: upsert_all_def)

lemma filter_twice: "filter Q (filter Q xs) = filter Q xs"
  by simp

lemma rekey_list_twice:
  assumes "distinct (map key xs)"
  shows "filter Q (upsert key p (filter (\<lambda>v. key v \<noteq> i)
      (filter Q (upsert key p (filter (\<lambda>v. key v \<noteq> i) xs))))) =
    filter Q (upsert key p (filter (\<lambda>v. key v \<noteq> i) xs))"
proof (cases "key p = i")
  case True
  have "upsert key p (filter (\<lambda>v. key v \<noteq> i) ys) = filter (\<lambda>v. key v \<noteq> i) ys @ [p]" for ys
    using True by (auto simp: upsert_def)
  moreover from this [of "filter Q (filter (\<lambda>v. key v \<noteq> i) xs @ [p])"]
  have "filter Q (upsert key p (filter (\<lambda>v. key v \<noteq> i) (filter Q (filter (\<lambda>v. key v \<noteq> i) xs @ [p])))) =
      filter Q (filter (\<lambda>v. key v \<noteq> i) xs @ [p])"
    using True by (simp add: conj_ac conj_left_absorb)
  ultimately show ?thesis by (simp only:)
next
  case False
  have "filter (\<lambda>v. key v \<noteq> i) (filter Q (upsert key p (filter (\<lambda>v. key v \<noteq> i) xs))) =
      filter Q (upsert key p (filter (\<lambda>v. key v \<noteq> i) xs))"
    using False by (intro filter_True) (auto simp: upsert_mem)
  with assms show ?thesis by simp
qed

lemma held_filter:
  "distinct (map key xs) \<Longrightarrow> held key (filter Q xs) i =
    (case held key xs i of None \<Rightarrow> None | Some v \<Rightarrow> if Q v then Some v else None)"
proof (induction xs)
  case (Cons x xs)
  have "key x \<notin> key ` set xs" using Cons.prems by auto
  then have "held key xs (key x) = None" by (simp add: find_key_absent)
  with Cons show ?case by auto
qed simp

lemma held_upsert: "held key (upsert key v xs) i = (if key v = i then Some v else held key xs i)"
proof -
  have "held key (map (\<lambda>x. if key x = key v then v else x) xs) i =
      (if key v = i \<and> key v \<in> key ` set xs then Some v else held key xs i)" for xs
    by (induction xs) auto
  moreover have "held key xs i = None" if "key v \<notin> key ` set xs" "key v = i"
    using that by (simp add: find_key_absent)
  ultimately show ?thesis by (auto simp: upsert_def find_append split: option.split)
qed

lemma reorder_list_twice:
  assumes own: "\<forall>t \<in> set ts. P t" and held: "\<forall>t \<in> set ts. \<forall>x \<in> set xs. key x = key t \<longrightarrow> P x"
  shows "list_insert_at
      (first_match P (list_insert_at (first_match P xs) ts key (filter (\<lambda>t. \<not> P t) xs))) ts key
      (filter (\<lambda>t. \<not> P t) (list_insert_at (first_match P xs) ts key (filter (\<lambda>t. \<not> P t) xs))) =
    list_insert_at (first_match P xs) ts key (filter (\<lambda>t. \<not> P t) xs)"
proof -
  let ?rest = "filter (\<lambda>t. \<not> P t) xs" and ?ins = "upsert_all key ts"
  have keys: "key t \<notin> key ` set ?rest" if "t \<in> set ts" for t using held that by force
  have insert: "list_insert_at n ts key ?rest =
      take (clamp_index n (length ?rest)) ?rest @ ?ins @ drop (clamp_index n (length ?rest)) ?rest" for n
  proof -
    have "held key (rev ts) (key x) = None" if "x \<in> set ?rest" for x
      using keys that unfolding find_key_absent by (simp add: image_iff) metis
    then have "map (\<lambda>x. case held key (rev ts) (key x) of None \<Rightarrow> x | Some v \<Rightarrow> v) ?rest = ?rest"
      by (intro map_idI) (simp only: option.case)
    moreover have "filter (\<lambda>v. key v \<notin> key ` set ?rest) ts = ts" using keys by (intro filter_True) blast
    ultimately show ?thesis unfolding list_insert_at_def Let_def by (simp only:)
  qed
  define n where "n = clamp_index (first_match P xs) (length ?rest)"
  have n: "n \<le> length ?rest" by (auto simp: n_def clamp_index_def)
  have ins: "\<forall>t \<in> set ?ins. P t" using own upsert_all_mem [of key ts] by (meson subsetD)
  have rest: "filter (\<lambda>t. \<not> P t) (take n ?rest @ ?ins @ drop n ?rest) = ?rest"
  proof -
    have "filter (\<lambda>t. \<not> P t) ?ins = []" using ins by (simp add: filter_empty_conv)
    moreover have "filter (\<lambda>t. \<not> P t) (take n ?rest) = take n ?rest"
      by (rule filter_True) (auto dest: in_set_takeD)
    moreover have "filter (\<lambda>t. \<not> P t) (drop n ?rest) = drop n ?rest"
      by (rule filter_True) (auto dest: in_set_dropD)
    ultimately show ?thesis by (simp only: filter_append append_Nil append_take_drop_id)
  qed
  have once: "list_insert_at (first_match P xs) ts key ?rest = take n ?rest @ ?ins @ drop n ?rest"
    unfolding insert n_def ..
  have "take k ?rest @ ?ins @ drop k ?rest = take n ?rest @ ?ins @ drop n ?rest"
    if k: "k = clamp_index (first_match P (take n ?rest @ ?ins @ drop n ?rest)) (length ?rest)" for k
  proof (cases "ts = []")
    case True
    then have none: "?ins = []" by simp
    show ?thesis unfolding none by simp
  next
    case False
    then obtain t ts' where tt: "?ins = t # ts'" by (metis neq_Nil_conv upsert_all_Nil)
    then have "P t" using ins by simp
    have out: "(Not \<circ> P) x" if "x \<in> set (take n ?rest)" for x
      using in_set_takeD [OF that] by simp
    have "takeWhile (Not \<circ> P) (?ins @ drop n ?rest) = []" using \<open>P t\<close> by (simp add: tt)
    then have "takeWhile (Not \<circ> P) (take n ?rest @ ?ins @ drop n ?rest) = take n ?rest"
      by (simp only: takeWhile_append2 [OF out] append_Nil2)
    moreover have "list_ex P (take n ?rest @ ?ins @ drop n ?rest)" using tt \<open>P t\<close> by simp
    moreover have "length (take n ?rest) = n" using n by (simp only: length_take min.absorb2)
    ultimately have "first_match P (take n ?rest @ ?ins @ drop n ?rest) = int n"
      by (simp only: first_match_def if_True)
    then have "k = n" using n by (simp add: k clamp_index_def)
    then show ?thesis by simp
  qed
  from this [OF refl] show ?thesis unfolding once unfolding rest unfolding insert .
qed

subsection \<open>Applying an event twice\<close>

text \<open>
  A \<open>tab.moved\<close> event is settled when the tabs it lists are those of its workspace, in the event and
  in the mirror. Every other event always is.
\<close>

definition tabs_settled :: "event \<Rightarrow> mirror \<Rightarrow> bool" where
  "tabs_settled e m = (case e of
     TabMoved x \<Rightarrow> (\<forall>t \<in> set (elems (tab_moved_tabs x)). ti_workspace_id t = tab_moved_workspace_id x \<and>
       (\<forall>u \<in> set (m_tabs m). tab_key u = tab_key t \<longrightarrow> ti_workspace_id u = tab_moved_workspace_id x))
   | _ \<Rightarrow> True)"

lemma merge_twice [simp]: "merge_agent (merge_agent a p) q = merge_agent a q"
  by (simp add: merge_agent_def)

lemma put_pane_twice: "m_put_pane p (m_put_pane p m) = m_put_pane p m"
  by (simp add: m_put_pane_def)

lemma edit_pane_twice:
  assumes "\<And>p. f (f p) = f p" and "\<And>p. pane_key (f p) = pane_key p"
  shows "m_edit_pane i f (m_edit_pane i f m) = m_edit_pane i f m"
proof (cases "held pane_key (m_panes m) i")
  case (Some p)
  then have "held pane_key (m_panes (m_put_pane (f p) m)) i = Some (f p)"
    using assms(2) held_key [OF Some] by (simp add: m_put_pane_def held_upsert)
  with Some assms show ?thesis by (simp add: m_edit_pane_def put_pane_twice)
qed (simp add: m_edit_pane_def)

lemma detected_pane_twice [simp]: "detected_pane e (detected_pane e p) = detected_pane e p"
  by (simp add: detected_pane_def when_present_def Let_def split: optional.split)

lemma status_pane_twice [simp]: "status_pane e (status_pane e p) = status_pane e p"
  by (cases "pane_agent_status_changed_agent e"; cases "pane_agent_status_changed_display_agent e";
      cases "pane_agent_status_changed_title e"; cases "pane_agent_status_changed_state_labels e";
      simp add: status_pane_def when_present_def)

lemma agent_detected_twice: "m_agent_detected e (m_agent_detected e m) = m_agent_detected e m"
proof (cases "held pane_key (m_panes m) (pane_agent_detected_pane_id e)")
  case None
  then show ?thesis by (simp add: m_agent_detected_def)
next
  case (Some p)
  with held_key [OF Some] show ?thesis
    by (simp add: m_agent_detected_def Let_def held_upsert)
qed

lemma agent_status_twice: "m_agent_status e (m_agent_status e m) = m_agent_status e m"
proof (cases "held pane_key (m_panes m) (pane_agent_status_changed_pane_id e)")
  case None
  then show ?thesis by (simp add: m_agent_status_def Let_def comp_def if_distrib cong: if_cong)
next
  case (Some p)
  with held_key [OF Some] show ?thesis
    by (simp add: m_agent_status_def Let_def m_put_pane_def held_upsert)
qed

lemma focus_pane_twice: "m_focus_pane i (m_focus_pane i m) = m_focus_pane i m"
  by (cases "held pane_key (m_panes m) i") (simp_all add: m_focus_pane_def held_map)

text \<open>\<open>movePane\<close>, one list at a time: \<open>?Q\<close> below is what the closed tab and workspace leave.\<close>

lemma rekey_agents_twice:
  fixes Q :: "agent_info \<Rightarrow> bool" and i :: string
  assumes "distinct (map agent_key xs)" and "pane_key p = k"
  defines "rekey \<equiv> \<lambda>xs. filter Q (case held agent_key xs i of
      None \<Rightarrow> filter (\<lambda>a. agent_key a \<noteq> i) xs
    | Some a \<Rightarrow> upsert agent_key (merge_agent a p) (filter (\<lambda>a. agent_key a \<noteq> i) xs))"
  shows "rekey (rekey xs) = rekey xs"
proof -
  have gone: "rekey ys = ys" if "held agent_key ys i = None" "filter Q ys = ys" for ys
    unfolding rekey_def that(1) option.case
    using that by (auto simp: find_None_iff filter_id_conv)
  show ?thesis
  proof (cases "held agent_key xs i")
    case None
    then have "filter (\<lambda>a. agent_key a \<noteq> i) xs = xs" by (auto simp: find_None_iff filter_id_conv)
    with None have "rekey xs = filter Q xs" by (simp add: rekey_def)
    moreover from None have "held agent_key (filter Q xs) i = None"
      using assms(1) by (simp add: held_filter)
    ultimately show ?thesis by (simp add: gone)
  next
    case (Some a)
    let ?R = "filter (\<lambda>a. agent_key a \<noteq> i)"
    have xs: "rekey xs = filter Q (upsert agent_key (merge_agent a p) (?R xs))"
      using Some by (simp add: rekey_def)
    have dist: "distinct (map agent_key (upsert agent_key (merge_agent a p) (?R xs)))"
      using assms(1) by simp
    have held: "held agent_key (rekey xs) i =
        (if k = i \<and> Q (merge_agent a p) then Some (merge_agent a p) else None)"
    proof -
      have "held agent_key (?R xs) i = None" by (auto simp: find_None_iff)
      then show ?thesis
        using assms(2) unfolding xs held_filter [OF dist] by (simp add: held_upsert)
    qed
    show ?thesis
    proof (cases "k = i \<and> Q (merge_agent a p)")
      case True
      then have "rekey (rekey xs) = filter Q (upsert agent_key (merge_agent a p) (?R (rekey xs)))"
        using held unfolding rekey_def by simp
      then show ?thesis unfolding xs by (simp only: rekey_list_twice [OF assms(1)])
    next
      case False
      with held show ?thesis by (intro gone) (auto simp: xs)
    qed
  qed
qed

text \<open>The optional parts of a move as predicates on what stays and on what is put in.\<close>

definition stays :: "('a \<Rightarrow> string) \<Rightarrow> string optional \<Rightarrow> 'a \<Rightarrow> bool" where
  "stays f o' v = (case o' of Present i \<Rightarrow> f v \<noteq> i | _ \<Rightarrow> True)"

definition put_opt :: "('a \<Rightarrow> string) \<Rightarrow> 'a optional \<Rightarrow> 'a list \<Rightarrow> 'a list" where
  "put_opt key o' xs = (case o' of Present v \<Rightarrow> upsert key v xs | _ \<Rightarrow> xs)"

lemma put_opt_twice:
  "distinct (map key xs) \<Longrightarrow>
    filter Q (put_opt key o' (filter Q (put_opt key o' xs))) = filter Q (put_opt key o' xs)"
  by (cases o') (simp_all add: put_opt_def)

lemma when_present_lists:
  "when_present m_drop_workspace W m = m\<lparr>
     m_workspaces := filter (stays workspace_key W) (m_workspaces m),
     m_tabs := filter (stays ti_workspace_id W) (m_tabs m),
     m_panes := filter (stays pi_workspace_id W) (m_panes m),
     m_agents := filter (stays ai_workspace_id W) (m_agents m),
     m_layouts := filter (stays pls_workspace_id W) (m_layouts m)\<rparr>"
  "when_present m_drop_tab T m = m\<lparr>
     m_tabs := filter (stays tab_key T) (m_tabs m),
     m_panes := filter (stays pi_tab_id T) (m_panes m),
     m_agents := filter (stays ai_tab_id T) (m_agents m),
     m_layouts := filter (stays layout_key T) (m_layouts m)\<rparr>"
  "when_present m_put_tab t' m = m\<lparr>m_tabs := put_opt tab_key t' (m_tabs m)\<rparr>"
  "when_present m_put_workspace w' m = m\<lparr>m_workspaces := put_opt workspace_key w' (m_workspaces m)\<rparr>"
proof -
  show "when_present m_drop_workspace W m = m\<lparr>
     m_workspaces := filter (stays workspace_key W) (m_workspaces m),
     m_tabs := filter (stays ti_workspace_id W) (m_tabs m),
     m_panes := filter (stays pi_workspace_id W) (m_panes m),
     m_agents := filter (stays ai_workspace_id W) (m_agents m),
     m_layouts := filter (stays pls_workspace_id W) (m_layouts m)\<rparr>"
    by (cases W) (simp_all add: when_present_def stays_def [abs_def] m_drop_workspace_def)
  show "when_present m_drop_tab T m = m\<lparr>
     m_tabs := filter (stays tab_key T) (m_tabs m),
     m_panes := filter (stays pi_tab_id T) (m_panes m),
     m_agents := filter (stays ai_tab_id T) (m_agents m),
     m_layouts := filter (stays layout_key T) (m_layouts m)\<rparr>"
    by (cases T) (simp_all add: when_present_def stays_def [abs_def] m_drop_tab_def)
  show "when_present m_put_tab t' m = m\<lparr>m_tabs := put_opt tab_key t' (m_tabs m)\<rparr>"
    by (cases t') (simp_all add: when_present_def put_opt_def m_put_tab_def)
  show "when_present m_put_workspace w' m = m\<lparr>m_workspaces := put_opt workspace_key w' (m_workspaces m)\<rparr>"
    by (cases w') (simp_all add: when_present_def put_opt_def m_put_workspace_def)
qed

lemma move_pane_lists:
  "m_move_pane e m = (let W = pane_moved_closed_workspace_id e; T = pane_moved_closed_tab_id e;
       i = pane_moved_previous_pane_id e; p = pane_moved_pane e
     in m\<lparr>
       m_workspaces := filter (stays workspace_key W)
         (put_opt workspace_key (pane_moved_created_workspace e) (m_workspaces m)),
       m_tabs := filter (\<lambda>t. stays tab_key T t \<and> stays ti_workspace_id W t)
         (put_opt tab_key (pane_moved_created_tab e) (m_tabs m)),
       m_panes := filter (\<lambda>q. stays pi_tab_id T q \<and> stays pi_workspace_id W q)
         (upsert pane_key p (filter (\<lambda>q. pane_key q \<noteq> i) (m_panes m))),
       m_agents := filter (\<lambda>a. stays ai_tab_id T a \<and> stays ai_workspace_id W a)
         (case held agent_key (m_agents m) i of
            None \<Rightarrow> filter (\<lambda>a. agent_key a \<noteq> i) (m_agents m)
          | Some a \<Rightarrow> upsert agent_key (merge_agent a p) (filter (\<lambda>a. agent_key a \<noteq> i) (m_agents m))),
       m_layouts := filter (\<lambda>l. stays layout_key T l \<and> stays pls_workspace_id W l) (m_layouts m)\<rparr>)"
  by (intro mirror.equality)
    (simp_all add: m_move_pane_def when_present_lists m_rekey_pane_def Let_def
      cong: option.case_cong)

lemma move_pane_twice:
  assumes "mirror_inv m"
  shows "m_move_pane e (m_move_pane e m) = m_move_pane e m"
proof -
  have "distinct (map workspace_key (m_workspaces m))" "distinct (map tab_key (m_tabs m))"
    "distinct (map pane_key (m_panes m))" "distinct (map agent_key (m_agents m))"
    using assms by (simp_all add: mirror_inv_def)
  note twice = put_opt_twice [OF this(1)] put_opt_twice [OF this(2)] rekey_list_twice [OF this(3)]
    rekey_agents_twice [OF this(4) refl]
  show ?thesis
    unfolding move_pane_lists Let_def
    by (intro mirror.equality) (simp_all add: twice filter_twice cong: option.case_cong del: filter_filter)
qed

lemma reorder_tabs_twice:
  assumes "tabs_settled (TabMoved x) m"
  shows "m_reorder_tabs (tab_moved_workspace_id x) (elems (tab_moved_tabs x))
      (m_reorder_tabs (tab_moved_workspace_id x) (elems (tab_moved_tabs x)) m) =
    m_reorder_tabs (tab_moved_workspace_id x) (elems (tab_moved_tabs x)) m"
proof -
  let ?P = "\<lambda>t. ti_workspace_id t = tab_moved_workspace_id x"
  have "\<forall>t \<in> set (elems (tab_moved_tabs x)). ?P t"
    and "\<forall>t \<in> set (elems (tab_moved_tabs x)). \<forall>u \<in> set (m_tabs m). tab_key u = tab_key t \<longrightarrow> ?P u"
    using assms by (simp_all add: tabs_settled_def)
  from reorder_list_twice [OF this] show ?thesis by (simp add: m_reorder_tabs_def)
qed

lemma mirror_event_twice:
  assumes "mirror_inv m" and "tabs_settled e m"
  shows "mirror_event e (mirror_event e m) = mirror_event e m"
proof (cases e)
  case (TabMoved x)
  with assms(2) reorder_tabs_twice show ?thesis by simp
next
  case (PaneMoved x)
  with assms(1) move_pane_twice show ?thesis by simp
next
  case (WorktreeRemoved x)
  then show ?thesis
    by (cases "worktree_removed_workspace x") (simp_all add: when_present_def m_put_workspace_def)
next
  case (PaneOutputChanged x)
  then show ?thesis by (simp add: edit_pane_twice)
next
  case (PaneScrollChanged x)
  then show ?thesis by (simp add: edit_pane_twice)
qed (simp_all add: m_put_workspace_def m_put_workspaces_def m_put_tab_def m_drop_pane_def m_drop_tab_def
  m_drop_workspace_def put_pane_twice focus_pane_twice agent_detected_twice agent_status_twice)

subsection \<open>Agents follow their panes\<close>

text \<open>
  Every mirrored agent has a mirrored pane with its id and repeats the fields the two share. A move
  is settled when its destination holds no agent of its own, unless the moved pane brings one.
\<close>

definition agents_follow :: "mirror \<Rightarrow> bool" where
  "agents_follow m \<longleftrightarrow>
    (\<forall>a \<in> set (m_agents m). \<exists>p \<in> set (m_panes m). pane_key p = agent_key a \<and> merge_agent a p = a)"

definition move_settled :: "event \<Rightarrow> mirror \<Rightarrow> bool" where
  "move_settled e m = (case e of
     PaneMoved x \<Rightarrow>
       pane_key (pane_moved_pane x) \<notin> agent_key ` set (m_agents m) \<or>
       pane_moved_previous_pane_id x \<in> agent_key ` set (m_agents m)
   | _ \<Rightarrow> True)"

lemma follow_fields:
  assumes "merge_agent a p = a"
  shows "ai_tab_id a = pi_tab_id p" and "ai_workspace_id a = pi_workspace_id p"
  using arg_cong [OF assms, of ai_tab_id] arg_cong [OF assms, of ai_workspace_id]
  by (simp_all add: merge_agent_def)

lemma follow_lists:
  "m_panes m = m_panes n \<Longrightarrow> m_agents m = m_agents n \<Longrightarrow> agents_follow m = agents_follow n"
  by (simp add: agents_follow_def)

lemma follow_put_pane:
  assumes "agents_follow m"
  shows "agents_follow (m_put_pane p m)"
  unfolding agents_follow_def
proof
  fix b
  assume "b \<in> set (m_agents (m_put_pane p m))"
  then obtain a where a: "a \<in> set (m_agents m)"
    "b = (if agent_key a = pane_key p then merge_agent a p else a)"
    by (auto simp: m_put_pane_def)
  from a(1) assms obtain q where "q \<in> set (m_panes m)" "pane_key q = agent_key a" "merge_agent a q = a"
    by (auto simp: agents_follow_def)
  with a(2) show "\<exists>p' \<in> set (m_panes (m_put_pane p m)). pane_key p' = agent_key b \<and> merge_agent b p' = b"
    by (cases "agent_key a = pane_key p") (auto simp: m_put_pane_def upsert_mem)
qed

lemma follow_edit_pane: "agents_follow m \<Longrightarrow> agents_follow (m_edit_pane i f m)"
  by (simp add: m_edit_pane_def follow_put_pane split: option.split)

lemma follow_drop_pane: "agents_follow m \<Longrightarrow> agents_follow (m_drop_pane i m)"
  by (fastforce simp: agents_follow_def m_drop_pane_def)

lemma follow_drop_tab: "agents_follow m \<Longrightarrow> agents_follow (m_drop_tab i m)"
  by (fastforce simp: agents_follow_def m_drop_tab_def follow_fields(1))

lemma follow_drop_workspace: "agents_follow m \<Longrightarrow> agents_follow (m_drop_workspace i m)"
  by (fastforce simp: agents_follow_def m_drop_workspace_def follow_fields(2))

lemma follow_focus_pane:
  assumes "agents_follow m"
  shows "agents_follow (m_focus_pane i m)"
  unfolding agents_follow_def
proof
  fix b
  assume "b \<in> set (m_agents (m_focus_pane i m))"
  then obtain a where a: "a \<in> set (m_agents m)" "b = a\<lparr>ai_focused := (agent_key a = i)\<rparr>"
    by (auto simp: m_focus_pane_def)
  from a(1) assms obtain q where q: "q \<in> set (m_panes m)" "pane_key q = agent_key a" "merge_agent a q = a"
    by (auto simp: agents_follow_def)
  have "merge_agent (a\<lparr>ai_focused := f\<rparr>) (q\<lparr>pi_focused := f\<rparr>) = (merge_agent a q)\<lparr>ai_focused := f\<rparr>" for f
    by (simp add: merge_agent_def)
  with a q show "\<exists>p \<in> set (m_panes (m_focus_pane i m)). pane_key p = agent_key b \<and> merge_agent b p = b"
    by (force simp: m_focus_pane_def)
qed

lemma follow_upsert_both:
  assumes "agents_follow m"
  shows "agents_follow (m\<lparr>m_panes := upsert pane_key p (m_panes m),
    m_agents := upsert agent_key (merge_agent a p) (m_agents m)\<rparr>)"
  using assms by (fastforce simp: agents_follow_def upsert_mem)

lemma follow_upsert_drop:
  assumes "agents_follow m" and "pane_key p = i"
  shows "agents_follow (m\<lparr>m_panes := upsert pane_key p (m_panes m),
    m_agents := filter (\<lambda>a. agent_key a \<noteq> i) (m_agents m)\<rparr>)"
  using assms by (fastforce simp: agents_follow_def upsert_mem)

lemma follow_agent_detected:
  assumes "agents_follow m"
  shows "agents_follow (m_agent_detected e m)"
proof (cases "held pane_key (m_panes m) (pane_agent_detected_pane_id e)")
  case None
  with assms show ?thesis by (auto simp: m_agent_detected_def agents_follow_def Let_def)
next
  case (Some p)
  with assms held_key [OF Some] show ?thesis
    by (simp add: m_agent_detected_def Let_def follow_upsert_both follow_upsert_drop)
qed

lemma follow_agent_status:
  assumes "agents_follow m"
  shows "agents_follow (m_agent_status e m)"
proof (cases "held pane_key (m_panes m) (pane_agent_status_changed_pane_id e)")
  case None
  have "agent_key a \<noteq> pane_agent_status_changed_pane_id e" if "a \<in> set (m_agents m)" for a
  proof -
    from assms that obtain p where "p \<in> set (m_panes m)" "pane_key p = agent_key a"
      by (auto simp: agents_follow_def)
    moreover have "pane_key p \<noteq> pane_agent_status_changed_pane_id e"
      using None \<open>p \<in> _\<close> by (auto simp: find_None_iff)
    ultimately show ?thesis by simp
  qed
  then have "map (\<lambda>a. if agent_key a = pane_agent_status_changed_pane_id e
      then a\<lparr>ai_agent_status := pane_agent_status_changed_agent_status e\<rparr> else a) (m_agents m) = m_agents m"
    by (intro map_idI) simp
  with None have "m_agent_status e m = m" by (simp add: m_agent_status_def Let_def)
  with assms show ?thesis by simp
next
  case (Some p)
  with assms show ?thesis by (simp add: m_agent_status_def Let_def follow_put_pane)
qed

lemma follow_kept:
  assumes "agents_follow m" and "b \<in> set (m_agents m)" and "agent_key b \<noteq> i" and "agent_key b \<noteq> pane_key p"
  shows "\<exists>q \<in> set (upsert pane_key p (filter (\<lambda>q. pane_key q \<noteq> i) (m_panes m))).
    pane_key q = agent_key b \<and> merge_agent b q = b"
proof -
  from assms obtain q where "q \<in> set (m_panes m)" "pane_key q = agent_key b" "merge_agent b q = b"
    by (auto simp: agents_follow_def)
  with assms(3,4) show ?thesis by (intro bexI [of _ q]) (simp_all add: upsert_mem)
qed

lemma follow_rekey_pane:
  assumes "agents_follow m"
    and "pane_key p \<notin> agent_key ` set (m_agents m) \<or> i \<in> agent_key ` set (m_agents m)"
  shows "agents_follow (m_rekey_pane i p m)"
  unfolding agents_follow_def
proof
  fix b
  assume b: "b \<in> set (m_agents (m_rekey_pane i p m))"
  have kept: "b = merge_agent a p \<or> b \<in> set (m_agents m) \<and> agent_key b \<noteq> i \<and> agent_key b \<noteq> pane_key p"
    if "held agent_key (m_agents m) i = Some a" for a
    using b that by (simp add: m_rekey_pane_def upsert_mem)
  have rest: "b \<in> set (m_agents m) \<and> agent_key b \<noteq> i \<and> agent_key b \<noteq> pane_key p"
    if "held agent_key (m_agents m) i = None"
    using b assms(2) that find_key_absent [of agent_key i "m_agents m"]
    by (simp add: m_rekey_pane_def) (metis image_eqI)
  have panes: "m_panes (m_rekey_pane i p m) = upsert pane_key p (filter (\<lambda>q. pane_key q \<noteq> i) (m_panes m))"
    by (simp add: m_rekey_pane_def)
  from kept rest
  consider a where "b = merge_agent a p"
    | "b \<in> set (m_agents m)" "agent_key b \<noteq> i" "agent_key b \<noteq> pane_key p"
    by (cases "held agent_key (m_agents m) i") auto
  then show "\<exists>q \<in> set (m_panes (m_rekey_pane i p m)). pane_key q = agent_key b \<and> merge_agent b q = b"
  proof cases
    case (1 a)
    then show ?thesis unfolding panes by (intro bexI [of _ p]) simp_all
  next
    case 2
    then show ?thesis unfolding panes by (rule follow_kept [OF assms(1)])
  qed
qed

lemma follow_when_present:
  "(\<And>v m. agents_follow m \<Longrightarrow> agents_follow (f v m)) \<Longrightarrow> agents_follow m \<Longrightarrow>
    agents_follow (when_present f o' m)"
  by (cases o') (simp_all add: when_present_def)

lemma follow_move_pane:
  assumes "agents_follow m" and "move_settled (PaneMoved e) m"
  shows "agents_follow (m_move_pane e m)"
proof -
  let ?m = "when_present m_put_tab (pane_moved_created_tab e)
      (when_present m_put_workspace (pane_moved_created_workspace e) m)"
  have lists: "m_panes ?m = m_panes m" "m_agents ?m = m_agents m"
    by (simp_all add: when_present_def m_put_tab_def m_put_workspace_def split: optional.split)
  then have "agents_follow ?m" using assms(1) follow_lists by metis
  then have "agents_follow (m_rekey_pane (pane_moved_previous_pane_id e) (pane_moved_pane e) ?m)"
    using assms(2) lists by (intro follow_rekey_pane) (simp_all add: move_settled_def)
  then show ?thesis
    unfolding m_move_pane_def comp_apply
    by (intro follow_when_present follow_drop_workspace follow_drop_tab)
qed

lemmas follow_ops = follow_put_pane follow_edit_pane follow_drop_pane follow_drop_tab
  follow_drop_workspace follow_focus_pane follow_agent_detected follow_agent_status follow_move_pane

lemma follow_event:
  assumes "agents_follow m" and "move_settled e m"
  shows "agents_follow (mirror_event e m)"
proof (cases e)
  case (WorktreeRemoved x)
  with assms follow_lists [of "mirror_event e m" m] show ?thesis
    by (simp add: when_present_def m_put_workspace_def split: optional.split)
qed (use assms in \<open>simp_all add: follow_ops m_put_workspace_def m_put_workspaces_def m_put_tab_def
  m_reorder_tabs_def agents_follow_def [of "_\<lparr>m_workspaces := _\<rparr>"] agents_follow_def [of "_\<lparr>m_tabs := _\<rparr>"]
  agents_follow_def [of "_\<lparr>m_layouts := _\<rparr>"] agents_follow_def [of m]\<close>)

end
