(* ===== verification/Session_Mirror.thy ===== *)
theory Session_Mirror
  imports Mirror_Facts
begin

text \<open>
  What the session mirror guarantees, stated on the model of \<open>herdr/session_cache.go\<close> and of the
  accessors in \<open>herdr/session_state.go\<close>: it implements the specification, replaying an event changes
  nothing, agents stay in step with their panes, and the effect of closing, focusing and moving.
\<close>

declare apply_event.simps [simp del]

definition run_events :: "event list \<Rightarrow> session_cache \<Rightarrow> session_cache" where
  "run_events es c = fold apply_event es c"

text \<open>The caches a session can hold: a snapshot, then events in any order.\<close>

inductive mirrored :: "session_cache \<Rightarrow> bool" where
  snapshot: "mirrored (new_session_cache s)"
| event: "mirrored c \<Longrightarrow> mirrored (apply_event e c)"

lemma mirrored_inv: "mirrored c \<Longrightarrow> cache_inv c"
  by (induction rule: mirrored.induct) simp_all

lemma run_events_mirror:
  "cache_inv c \<Longrightarrow> cache_inv (run_events es c) \<and> mirror_of (run_events es c) = fold mirror_event es (mirror_of c)"
  by (induction es arbitrary: c) (simp_all add: run_events_def mirror_simps)

lemma mirrored_run: "mirrored (run_events es (new_session_cache s))"
proof (induction es rule: rev_induct)
  case Nil
  show ?case by (simp add: run_events_def mirrored.snapshot)
next
  case (snoc e es)
  then show ?case by (simp add: run_events_def mirrored.event)
qed

text \<open>
  C1. The mirror built from a snapshot and any sequence of events shows, through its accessors, the
  lists the specification computes from the same snapshot and events.
\<close>

theorem mirror_implements_spec:
  "cache_workspaces (run_events es (new_session_cache s)) =
      m_workspaces (fold mirror_event es (mirror_of_snapshot s)) \<and>
   cache_tabs (run_events es (new_session_cache s)) =
      m_tabs (fold mirror_event es (mirror_of_snapshot s)) \<and>
   cache_agents (run_events es (new_session_cache s)) =
      m_agents (fold mirror_event es (mirror_of_snapshot s)) \<and>
   cache_snapshot (run_events es (new_session_cache s)) =
      mirror_snapshot (fold mirror_event es (mirror_of_snapshot s))"
proof -
  let ?c = "run_events es (new_session_cache s)"
  have inv: "cache_inv ?c" and view: "mirror_of ?c = fold mirror_event es (mirror_of_snapshot s)"
    using run_events_mirror [of "new_session_cache s" es] by (simp_all add: mirror_simps)
  show ?thesis
    using cache_lists(1,2,3) [OF inv] cache_snapshot_mirror [OF inv] by (simp add: view)
qed

text \<open>
  C2. Applying an event a second time leaves the mirror as the first application left it, for every
  event but a \<open>tab.moved\<close> whose tabs are not all of its own workspace.
\<close>

theorem apply_event_idempotent:
  assumes "mirrored c" and "tabs_settled e (mirror_of c)"
  shows "apply_event e (apply_event e c) = apply_event e c"
proof (rule mirror_determines)
  have inv: "cache_inv c" using assms(1) by (rule mirrored_inv)
  then show "cache_inv (apply_event e (apply_event e c))" and "cache_inv (apply_event e c)" by simp_all
  show "mirror_of (apply_event e (apply_event e c)) = mirror_of (apply_event e c)"
    using inv assms(2) by (simp add: mirror_simps mirror_event_twice mirror_inv_of)
qed

definition sample_tab :: "string \<Rightarrow> string \<Rightarrow> tab_info" where
  "sample_tab i w = tab_info_zero\<lparr>ti_tab_id := i, ti_workspace_id := w\<rparr>"

definition sample_snapshot :: session_snapshot where
  "sample_snapshot = session_snapshot_zero\<lparr>ss_tabs :=
    Some [sample_tab ''a'' ''w'', sample_tab ''b'' ''v'', sample_tab ''c'' ''w'']\<rparr>"

definition sample_move :: "tab_info list \<Rightarrow> event" where
  "sample_move ts = TabMoved (tab_moved_event_zero\<lparr>tab_moved_workspace_id := ''w'',
    tab_moved_tabs := Some ts\<rparr>)"

lemmas sample_defs = sample_snapshot_def sample_move_def sample_tab_def session_snapshot_zero_def
  tab_info_zero_def tab_moved_event_zero_def mirror_of_snapshot_def upsert_all_def upsert_def
  tab_key_def

theorem apply_event_idempotent_witness:
  "let c = new_session_cache sample_snapshot;
       e = sample_move [sample_tab ''c'' ''w'', sample_tab ''a'' ''w'']
   in apply_event e (apply_event e c) = apply_event e c \<and>
      map ti_tab_id (cache_tabs (apply_event e c)) = [''c'', ''a'', ''b'']"
proof -
  let ?c = "new_session_cache sample_snapshot"
  let ?e = "sample_move [sample_tab ''c'' ''w'', sample_tab ''a'' ''w'']"
  have tabs: "m_tabs (mirror_of ?c) = [sample_tab ''a'' ''w'', sample_tab ''b'' ''v'', sample_tab ''c'' ''w'']"
    by (simp add: mirror_simps) (simp add: sample_defs)
  have "tabs_settled ?e (mirror_of ?c)"
    unfolding tabs_settled_def by (simp add: sample_move_def tabs) (simp add: sample_defs)
  with apply_event_idempotent [OF mirrored.snapshot [of sample_snapshot], of ?e]
  have "apply_event ?e (apply_event ?e ?c) = apply_event ?e ?c" by simp
  moreover have "cache_tabs (apply_event ?e ?c) = m_tabs (mirror_event ?e (mirror_of ?c))"
    by (simp add: cache_lists mirror_simps)
  moreover have "map ti_tab_id (m_tabs (mirror_event ?e (mirror_of ?c))) = [''c'', ''a'', ''b'']"
    by (simp add: sample_move_def m_reorder_tabs_def tabs tab_moved_event_zero_def)
      (simp add: sample_defs list_insert_at_def first_match_def clamp_index_def)
  ultimately show ?thesis by (simp add: Let_def)
qed

text \<open>
  The condition of the theorem above is needed: a \<open>tab.moved\<close> that lists a tab of another
  workspace moves the tabs again when it is applied a second time.
\<close>

lemma apply_event_not_idempotent:
  "\<exists>c e. mirrored c \<and> apply_event e (apply_event e c) \<noteq> apply_event e c"
proof -
  let ?c = "new_session_cache sample_snapshot"
  let ?e = "sample_move [sample_tab ''b'' ''w'', sample_tab ''a'' ''w'']"
  have tabs: "m_tabs (mirror_of ?c) = [sample_tab ''a'' ''w'', sample_tab ''b'' ''v'', sample_tab ''c'' ''w'']"
    by (simp add: mirror_simps) (simp add: sample_defs)
  have once: "m_tabs (mirror_event ?e (mirror_of ?c)) = [sample_tab ''a'' ''w'', sample_tab ''b'' ''w'']"
    by (simp add: sample_move_def m_reorder_tabs_def tabs tab_moved_event_zero_def)
      (simp add: sample_defs list_insert_at_def first_match_def clamp_index_def)
  have "m_tabs (mirror_event ?e (mirror_event ?e (mirror_of ?c))) = [sample_tab ''b'' ''w'', sample_tab ''a'' ''w'']"
    using once by (simp add: sample_move_def m_reorder_tabs_def tab_moved_event_zero_def)
      (simp add: sample_defs list_insert_at_def first_match_def clamp_index_def)
  then have twice: "map ti_tab_id (m_tabs (mirror_of (apply_event ?e (apply_event ?e ?c)))) = [''b'', ''a'']"
    by (simp only: apply_event_mirror apply_event_inv new_session_cache_inv) (simp add: sample_tab_def)
  have "map ti_tab_id (m_tabs (mirror_of (apply_event ?e ?c))) = [''a'', ''b'']"
    unfolding apply_event_mirror [OF new_session_cache_inv] once by (simp add: sample_tab_def)
  with twice have "apply_event ?e (apply_event ?e ?c) \<noteq> apply_event ?e ?c" by force
  then show ?thesis by (intro exI [of _ ?c] exI [of _ ?e] conjI mirrored.snapshot)
qed


definition sample_pane :: "string \<Rightarrow> pane_info" where
  "sample_pane i = pane_info_zero\<lparr>pi_pane_id := i, pi_tab_id := ''t'', pi_workspace_id := ''w''\<rparr>"

definition sample_agents :: session_snapshot where
  "sample_agents = session_snapshot_zero\<lparr>ss_panes := Some [sample_pane ''p'', sample_pane ''q''],
    ss_agents := Some [merge_agent agent_info_zero (sample_pane ''p'')]\<rparr>"

definition sample_pane_move :: event where
  "sample_pane_move = PaneMoved (pane_moved_event_zero\<lparr>pane_moved_previous_pane_id := ''p'',
    pane_moved_pane := (sample_pane ''r'')\<lparr>pi_tab_id := ''u''\<rparr>,
    pane_moved_closed_tab_id := Present ''t''\<rparr>)"

lemmas sample_agent_defs = sample_agents_def sample_pane_move_def sample_pane_def
  session_snapshot_zero_def pane_moved_event_zero_def agent_info_zero_def pane_info_zero_def
  mirror_of_snapshot_def upsert_all_def upsert_def pane_key_def agent_key_def merge_agent_def

lemma sample_agents_lists:
  "m_panes (mirror_of (new_session_cache sample_agents)) = [sample_pane ''p'', sample_pane ''q'']"
  "m_agents (mirror_of (new_session_cache sample_agents)) = [merge_agent agent_info_zero (sample_pane ''p'')]"
  by (simp add: mirror_simps, simp add: sample_agent_defs)+

lemma sample_agents_settled:
  "agents_follow (mirror_of (new_session_cache sample_agents))"
  "move_settled sample_pane_move (mirror_of (new_session_cache sample_agents))"
proof -
  show "agents_follow (mirror_of (new_session_cache sample_agents))"
    by (simp add: agents_follow_def sample_agents_lists)
  show "move_settled sample_pane_move (mirror_of (new_session_cache sample_agents))"
    by (simp add: move_settled_def sample_pane_move_def sample_agents_lists)
      (simp add: sample_agent_defs)
qed


text \<open>
  C5. A snapshot read from the mirror rebuilds the same mirror, with every collection in order and
  the version and protocol it was built from.
\<close>

theorem snapshot_rebuilds_mirror:
  assumes "mirrored c"
  shows "new_session_cache (cache_snapshot c) = c"
proof (rule mirror_determines)
  have inv: "cache_inv c" using assms by (rule mirrored_inv)
  show "mirror_of (new_session_cache (cache_snapshot c)) = mirror_of c"
    using inv mirror_inv_of [OF inv]
    by (simp add: mirror_simps mirror_of_snapshot_def mirror_snapshot_def mirror_inv_def upsert_all_distinct)
qed (use assms mirrored_inv in simp_all)

theorem snapshot_rebuilds_mirror_witness:
  "new_session_cache (cache_snapshot (apply_event sample_pane_move (new_session_cache sample_agents))) =
    apply_event sample_pane_move (new_session_cache sample_agents)"
  by (rule snapshot_rebuilds_mirror) (intro mirrored.intros)



lemma held_memE:
  assumes "i \<in> key ` set xs" obtains v where "held key xs i = Some v"
  using assms find_key_absent [of key i xs] by (cases "held key xs i") auto

lemma focused_id_exclusive:
  assumes "\<forall>v \<in> set vs. focused v \<longleftrightarrow> key v = i"
  shows "focused_id vs (\<lambda>v. (key v, focused v)) = (if i \<in> key ` set vs then Present i else Absent)"
  using assms by (induction vs) auto

text \<open>
  C7. After \<open>pane.focused\<close> the pane it names is the only focused pane and the only one whose agent is
  focused, the snapshot names it when the mirror holds it, and so does the layout of its tab.
\<close>

theorem focus_is_exclusive:
  assumes "mirrored c"
  shows "let d = apply_event (PaneFocused e) c; i = pane_focused_pane_id e; p = cache_pane c i
    in (\<forall>q \<in> set (elems (ss_panes (cache_snapshot d))). pi_focused q = (pi_pane_id q = i)) \<and>
       (\<forall>a \<in> set (cache_agents d). ai_focused a = (ai_pane_id a = i)) \<and>
       ss_focused_pane_id (cache_snapshot d) = (if snd p then Present i else Absent) \<and>
       (snd p \<longrightarrow> snd (cache_layout d (pi_tab_id (fst p))) \<longrightarrow>
          pls_focused_pane_id (fst (cache_layout d (pi_tab_id (fst p)))) = i)"
proof -
  let ?d = "apply_event (PaneFocused e) c" and ?i = "pane_focused_pane_id e"
  have inv: "cache_inv c" "cache_inv ?d" using mirrored_inv [OF assms] apply_event_inv by blast+
  have view: "mirror_of ?d = m_focus_pane ?i (mirror_of c)"
    using inv by (simp add: mirror_simps)
  have panes: "elems (ss_panes (cache_snapshot ?d)) = m_panes (m_focus_pane ?i (mirror_of c))"
    and focused: "ss_focused_pane_id (cache_snapshot ?d) = focused_id (m_panes (m_focus_pane ?i (mirror_of c)))
        (\<lambda>p. (pi_pane_id p, pi_focused p))"
    unfolding cache_snapshot_mirror [OF inv(2)] view by (simp_all add: mirror_snapshot_def)
  have flags: "\<forall>q \<in> set (m_panes (m_focus_pane ?i (mirror_of c))). pi_focused q = (pi_pane_id q = ?i)"
    by (auto simp: m_focus_pane_def pane_key_def)
  have keys: "pi_pane_id ` set (m_panes (m_focus_pane ?i (mirror_of c))) = pane_key ` set (m_panes (mirror_of c))"
    by (simp add: m_focus_pane_def image_comp comp_def pane_key_def)
  have layout: "pls_focused_pane_id (fst (cache_layout ?d (pi_tab_id (fst (cache_pane c ?i))))) = ?i"
    if held: "snd (cache_pane c ?i)" and lay: "snd (cache_layout ?d (pi_tab_id (fst (cache_pane c ?i))))"
  proof -
    obtain p where p: "held pane_key (m_panes (mirror_of c)) ?i = Some p"
      using held unfolding cache_lists(5) [OF inv(1)] by (rule held_memE)
    then have fp: "fst (cache_pane c ?i) = p" by (simp add: cache_lists(4) [OF inv(1)])
    obtain l where l: "held layout_key (m_layouts (m_focus_pane ?i (mirror_of c))) (pi_tab_id p) = Some l"
      using lay unfolding fp cache_lists(7) [OF inv(2)] view by (rule held_memE)
    then have "l \<in> set (m_layouts (m_focus_pane ?i (mirror_of c)))" and "layout_key l = pi_tab_id p"
      by (auto simp: find_Some_iff)
    then have "pls_focused_pane_id l = ?i" using p by (auto simp: m_focus_pane_def)
    with l show ?thesis by (simp add: fp cache_lists(6) [OF inv(2)] view)
  qed
  have agents: "\<forall>a \<in> set (cache_agents ?d). ai_focused a = (ai_pane_id a = ?i)"
    by (auto simp: cache_lists(3) [OF inv(2)] view m_focus_pane_def agent_key_def)
  show ?thesis
    unfolding Let_def panes focused focused_id_exclusive [OF flags] keys cache_lists(5) [OF inv(1)]
    using flags layout agents by (simp add: cache_lists(5) [OF inv(1)])
qed

theorem focus_is_exclusive_witness:
  "ss_focused_pane_id (cache_snapshot (apply_event
      (PaneFocused (pane_focused_event_zero\<lparr>pane_focused_pane_id := ''q''\<rparr>))
      (new_session_cache sample_agents))) = Present ''q''"
proof -
  have "snd (cache_pane (new_session_cache sample_agents) ''q'')"
    by (simp add: cache_lists sample_agents_lists) (simp add: sample_agent_defs)
  with focus_is_exclusive [OF mirrored.snapshot, of "pane_focused_event_zero\<lparr>pane_focused_pane_id := ''q''\<rparr>"
      sample_agents]
  show ?thesis by (simp add: Let_def)
qed

text \<open>
  A pane that moves is found under its new id as the event reports it, its agent moves with it
  and takes over the fields it shares, and the old id is gone, unless the move closes the container
  the pane went to.
\<close>

lemma moved_pane_keeps_agent:
  assumes "mirrored c"
    and "pane_moved_closed_tab_id e \<noteq> Present (pi_tab_id (pane_moved_pane e))"
    and "pane_moved_closed_workspace_id e \<noteq> Present (pi_workspace_id (pane_moved_pane e))"
    and "pane_moved_previous_pane_id e \<noteq> pi_pane_id (pane_moved_pane e)"
    and "a \<in> set (cache_agents c)" and "ai_pane_id a = pane_moved_previous_pane_id e"
  shows "cache_pane (apply_event (PaneMoved e) c) (pi_pane_id (pane_moved_pane e)) = (pane_moved_pane e, True) \<and>
    \<not> snd (cache_pane (apply_event (PaneMoved e) c) (pane_moved_previous_pane_id e)) \<and>
    merge_agent a (pane_moved_pane e) \<in> set (cache_agents (apply_event (PaneMoved e) c)) \<and>
    pane_moved_previous_pane_id e \<notin> ai_pane_id ` set (cache_agents (apply_event (PaneMoved e) c))"
proof -
  let ?d = "apply_event (PaneMoved e) c" and ?p = "pane_moved_pane e" and ?m = "mirror_of c"
  have inv: "cache_inv c" "cache_inv ?d" using mirrored_inv [OF assms(1)] apply_event_inv by blast+
  have view: "mirror_of ?d = m_move_pane e ?m"
    using inv by (simp add: mirror_simps)
  have dist: "distinct (map agent_key (m_agents ?m))" "distinct (map pane_key (m_panes ?m))"
    using mirror_inv_of [OF inv(1)] by (simp_all add: mirror_inv_def)
  have a: "held agent_key (m_agents ?m) (pane_moved_previous_pane_id e) = Some a"
    unfolding find_key_Some [OF dist(1)]
    using assms(5,6) by (simp add: cache_lists(3) [OF inv(1)] agent_key_def)
  have kept: "stays pi_workspace_id (pane_moved_closed_workspace_id e) ?p"
      "stays pi_tab_id (pane_moved_closed_tab_id e) ?p"
      "stays ai_workspace_id (pane_moved_closed_workspace_id e) (merge_agent a ?p)"
      "stays ai_tab_id (pane_moved_closed_tab_id e) (merge_agent a ?p)"
    using assms(2,3) by (auto simp: stays_def merge_agent_def split: optional.splits)
  have p: "?p \<in> set (m_panes (m_move_pane e ?m))"
    using kept by (simp add: move_pane_lists Let_def)
  moreover have "distinct (map pane_key (m_panes (m_move_pane e ?m)))"
    using mirror_inv_of [OF inv(2)] by (simp add: view mirror_inv_def)
  ultimately have "held pane_key (m_panes (m_move_pane e ?m)) (pi_pane_id ?p) = Some ?p"
    by (simp add: find_key_Some key_defs [symmetric])
  then have "cache_pane ?d (pi_pane_id ?p) = (?p, True)"
    using cache_lists(4,5) [OF inv(2), of "pi_pane_id ?p"] p
    by (intro prod_eqI) (auto simp: view pane_key_def)
  moreover have "\<not> snd (cache_pane ?d (pane_moved_previous_pane_id e))"
    using assms(4) by (auto simp: cache_lists(5) [OF inv(2)] view move_pane_lists Let_def upsert_mem pane_key_def)
  moreover have "merge_agent a ?p \<in> set (cache_agents ?d)"
    using kept a by (simp add: cache_lists(3) [OF inv(2)] view move_pane_lists Let_def)
  moreover have "pane_moved_previous_pane_id e \<notin> ai_pane_id ` set (cache_agents ?d)"
    using assms(4) a by (auto simp: cache_lists(3) [OF inv(2)] view move_pane_lists Let_def upsert_mem agent_key_def
        merge_agent_def)
  ultimately show ?thesis by simp
qed

lemma moved_pane_keeps_agent_witness:
  "cache_pane (apply_event sample_pane_move (new_session_cache sample_agents)) ''r'' =
    ((sample_pane ''r'')\<lparr>pi_tab_id := ''u''\<rparr>, True)"
proof -
  let ?e = "pane_moved_event_zero\<lparr>pane_moved_previous_pane_id := ''p'',
    pane_moved_pane := (sample_pane ''r'')\<lparr>pi_tab_id := ''u''\<rparr>, pane_moved_closed_tab_id := Present ''t''\<rparr>"
  have "merge_agent agent_info_zero (sample_pane ''p'') \<in> set (cache_agents (new_session_cache sample_agents))"
    by (simp add: cache_lists sample_agents_lists)
  from moved_pane_keeps_agent [OF mirrored.snapshot _ _ _ this, of ?e]
  show ?thesis
    unfolding sample_pane_move_def
    by (simp add: sample_pane_def pane_moved_event_zero_def merge_agent_def)
qed

end
