(* ===== verification/Go_Strings.thy ===== *)
theory Go_Strings
  imports Prelude
begin

text \<open>
  The parts of Go's \<open>strings\<close>, \<open>strconv\<close> and \<open>unicode/utf8\<close> packages the program uses, on byte
  strings. They model the standard library, so they map to no file of the repository; each one says
  which function it stands for.
\<close>

subsection \<open>Prefixes, suffixes and splitting\<close>

fun has_prefix :: "string \<Rightarrow> string \<Rightarrow> bool" where
  "has_prefix s [] = True"
| "has_prefix [] (p # ps) = False"
| "has_prefix (c # cs) (p # ps) = (c = p \<and> has_prefix cs ps)"

text \<open>\<open>strings.TrimPrefix\<close> and \<open>strings.CutSuffix\<close>.\<close>

definition trim_prefix :: "string \<Rightarrow> string \<Rightarrow> string" where
  "trim_prefix s p = (if has_prefix s p then drop (length p) s else s)"

definition cut_suffix :: "string \<Rightarrow> string \<Rightarrow> string option" where
  "cut_suffix s p =
    (if has_prefix (rev s) (rev p) then Some (take (length s - length p) s) else None)"

text \<open>\<open>strings.Split\<close> with a separator of one byte; splitting the empty string gives one empty part.\<close>

fun split_on :: "char \<Rightarrow> string \<Rightarrow> string list" where
  "split_on sep [] = [[]]"
| "split_on sep (c # cs) =
    (if c = sep then [] # split_on sep cs
     else case split_on sep cs of [] \<Rightarrow> [[c]] | p # ps \<Rightarrow> (c # p) # ps)"

text \<open>\<open>strings.Join\<close> and \<open>strings.Replace(s, old, new, 1)\<close> for one-byte \<open>old\<close> and \<open>new\<close>.\<close>

fun join_with :: "string \<Rightarrow> string list \<Rightarrow> string" where
  "join_with sep [] = []"
| "join_with sep [p] = p"
| "join_with sep (p # q # ps) = p @ sep @ join_with sep (q # ps)"

fun replace_first :: "char \<Rightarrow> char \<Rightarrow> string \<Rightarrow> string" where
  "replace_first old new [] = []"
| "replace_first old new (c # cs) = (if c = old then new # cs else c # replace_first old new cs)"

lemma split_on_not_Nil [simp]: "split_on sep s \<noteq> []"
  by (induction s) (auto split: list.splits)

lemma join_split: "join_with [sep] (split_on sep s) = s"
proof (induction s)
  case (Cons c s)
  obtain p ps where "split_on sep s = p # ps" by (meson neq_Nil_conv split_on_not_Nil)
  with Cons show ?case by (cases ps) auto
qed simp

lemma split_on_no_sep: "p \<in> set (split_on sep s) \<Longrightarrow> sep \<notin> set p"
  by (induction s arbitrary: p) (auto split: if_splits list.splits)

lemma split_on_append: "sep \<notin> set a \<Longrightarrow> split_on sep (a @ sep # b) = a # split_on sep b"
  by (induction a) auto

lemma split_on_alone: "sep \<notin> set a \<Longrightarrow> split_on sep a = [a]"
  by (induction a) auto

lemma split_join_with:
  "es \<noteq> [] \<Longrightarrow> \<forall>e \<in> set es. sep \<notin> set e \<Longrightarrow> split_on sep (join_with [sep] es) = es"
proof (induction "[sep]" es rule: join_with.induct)
  case (3 x y zs)
  then show ?case using split_on_append [of sep x] by simp
qed (simp_all add: split_on_alone)

lemma has_prefix_append [simp]: "has_prefix (p @ s) p"
  by (induction p) auto

lemma has_prefix_iff: "has_prefix s p \<longleftrightarrow> (\<exists>t. s = p @ t)"
  by (induction s p rule: has_prefix.induct) auto

lemma cut_suffix_Some: "cut_suffix s p = Some d \<longleftrightarrow> s = d @ p"
proof -
  have "has_prefix (rev s) (rev p) \<longleftrightarrow> (\<exists>t. s = t @ p)"
    unfolding has_prefix_iff by (metis rev_append rev_rev_ident)
  then show ?thesis by (auto simp: cut_suffix_def)
qed

lemma cut_suffix_None: "cut_suffix s p = None \<longleftrightarrow> (\<nexists>d. s = d @ p)"
  using cut_suffix_Some [of s p] by (metis not_None_eq)

subsection \<open>White space\<close>

text \<open>
  \<open>strings.TrimSpace\<close> removes the characters of \<open>unicode.IsSpace\<close> at both ends. Their UTF-8
  encodings are the byte strings below, and a decoder standing at an end of the string reads one of
  them exactly when the string has it as a prefix or a suffix.
\<close>

definition space_encodings :: "string list" where
  "space_encodings =
    [[CHR 0x09], [CHR 0x0A], [CHR 0x0B], [CHR 0x0C], [CHR 0x0D], [CHR 0x20],
     [CHR 0xC2, CHR 0x85], [CHR 0xC2, CHR 0xA0], [CHR 0xE1, CHR 0x9A, CHR 0x80],
     [CHR 0xE2, CHR 0x80, CHR 0x80], [CHR 0xE2, CHR 0x80, CHR 0x81], [CHR 0xE2, CHR 0x80, CHR 0x82],
     [CHR 0xE2, CHR 0x80, CHR 0x83], [CHR 0xE2, CHR 0x80, CHR 0x84], [CHR 0xE2, CHR 0x80, CHR 0x85],
     [CHR 0xE2, CHR 0x80, CHR 0x86], [CHR 0xE2, CHR 0x80, CHR 0x87], [CHR 0xE2, CHR 0x80, CHR 0x88],
     [CHR 0xE2, CHR 0x80, CHR 0x89], [CHR 0xE2, CHR 0x80, CHR 0x8A], [CHR 0xE2, CHR 0x80, CHR 0xA8],
     [CHR 0xE2, CHR 0x80, CHR 0xA9], [CHR 0xE2, CHR 0x80, CHR 0xAF], [CHR 0xE2, CHR 0x81, CHR 0x9F],
     [CHR 0xE3, CHR 0x80, CHR 0x80]]"

function trim_left_any :: "string list \<Rightarrow> string \<Rightarrow> string" where
  "trim_left_any ps s =
    (case find (\<lambda>p. p \<noteq> [] \<and> has_prefix s p) ps of
      None \<Rightarrow> s | Some p \<Rightarrow> trim_left_any ps (drop (length p) s))"
  by pat_completeness auto
termination
proof (relation "measure (\<lambda>(ps, s). length s)")
  fix ps :: "string list" and s p
  assume "find (\<lambda>p. p \<noteq> [] \<and> has_prefix s p) ps = Some p"
  then have "p \<noteq> []" and "has_prefix s p" by (auto simp: find_Some_iff)
  then show "((ps, drop (length p) s), ps, s) \<in> measure (\<lambda>(ps, s). length s)"
    by (cases p) (auto simp: has_prefix_iff)
qed simp

declare trim_left_any.simps [simp del]

definition trim_space :: "string \<Rightarrow> string" where
  "trim_space s =
    rev (trim_left_any (map rev space_encodings) (rev (trim_left_any space_encodings s)))"

text \<open>\<open>bytes.TrimRight(line, cutset)\<close> for an ASCII cutset.\<close>

definition trim_right_chars :: "char list \<Rightarrow> string \<Rightarrow> string" where
  "trim_right_chars cs s = rev (dropWhile (\<lambda>c. c \<in> set cs) (rev s))"

subsection \<open>Digits\<close>

definition is_digit :: "char \<Rightarrow> bool" where
  "is_digit c \<longleftrightarrow> 48 \<le> (of_char c :: nat) \<and> (of_char c :: nat) \<le> 57"

fun dec_value :: "nat \<Rightarrow> string \<Rightarrow> nat" where
  "dec_value acc [] = acc"
| "dec_value acc (c # cs) = dec_value (10 * acc + (of_char c - 48)) cs"

text \<open>
  \<open>strconv.ParseUint(s, 10, bits)\<close> for \<open>bits\<close> up to 64, without its error: digits only, at least
  one, and a value the width holds. \<open>strconv.FormatUint(n, 10)\<close> is its inverse.
\<close>

definition parse_uint :: "nat \<Rightarrow> string \<Rightarrow> nat option" where
  "parse_uint bits s =
    (if s \<noteq> [] \<and> list_all is_digit s \<and> dec_value 0 s < 2 ^ bits then Some (dec_value 0 s) else None)"

fun format_uint :: "nat \<Rightarrow> string" where
  "format_uint n = (if n < 10 then [char_of (48 + n)] else format_uint (n div 10) @ [char_of (48 + n mod 10)])"

declare format_uint.simps [simp del]

lemma dec_value_append: "dec_value a (xs @ ys) = dec_value (dec_value a xs) ys"
  by (induction xs arbitrary: a) auto

lemma is_digit_char_of [simp]: "(n::nat) < 10 \<Longrightarrow> is_digit (char_of (48 + n))"
  by (simp add: is_digit_def)

lemma format_uint_digits: "list_all is_digit (format_uint n) \<and> format_uint n \<noteq> []"
proof (induction n rule: format_uint.induct)
  case (1 n)
  then show ?case by (subst (1 2) format_uint.simps) auto
qed

lemma dec_value_format [simp]: "dec_value 0 (format_uint n) = n"
proof (induction n rule: format_uint.induct)
  case (1 n)
  show ?case
  proof (cases "n < 10")
    case True
    then show ?thesis by (subst format_uint.simps) simp
  next
    case False
    then show ?thesis using 1 by (subst format_uint.simps) (simp add: dec_value_append)
  qed
qed

lemma parse_format_uint: "n < 2 ^ bits \<Longrightarrow> parse_uint bits (format_uint n) = Some n"
  using format_uint_digits [of n] by (simp add: parse_uint_def)

lemma parse_uint_bound: "parse_uint bits s = Some n \<Longrightarrow> n < 2 ^ bits"
  by (auto simp: parse_uint_def split: if_splits)

subsection \<open>UTF-8\<close>

text \<open>
  \<open>utf8.RuneCountInString\<close>: a byte that starts no valid encoding counts as one rune.
  \<open>rune_size\<close> is the size of the first rune, by the table of lead bytes and the ranges their
  second byte may take.
\<close>

definition in_range :: "nat \<Rightarrow> nat \<Rightarrow> char \<Rightarrow> bool" where
  "in_range lo hi c \<longleftrightarrow> lo \<le> of_char c \<and> of_char c \<le> hi"

fun rune_size :: "string \<Rightarrow> nat" where
  "rune_size [] = 0"
| "rune_size (a # s) =
    (let n = of_char a :: nat;
         two = (case s of b # _ \<Rightarrow> in_range 0x80 0xBF b | _ \<Rightarrow> False);
         three = (\<lambda>lo hi. case s of b # c # _ \<Rightarrow> in_range lo hi b \<and> in_range 0x80 0xBF c | _ \<Rightarrow> False);
         four = (\<lambda>lo hi. case s of b # c # d # _ \<Rightarrow>
            in_range lo hi b \<and> in_range 0x80 0xBF c \<and> in_range 0x80 0xBF d | _ \<Rightarrow> False)
     in if 0xC2 \<le> n \<and> n \<le> 0xDF \<and> two then 2
        else if n = 0xE0 \<and> three 0xA0 0xBF then 3
        else if n = 0xED \<and> three 0x80 0x9F then 3
        else if 0xE1 \<le> n \<and> n \<le> 0xEF \<and> n \<noteq> 0xED \<and> three 0x80 0xBF then 3
        else if n = 0xF0 \<and> four 0x90 0xBF then 4
        else if 0xF1 \<le> n \<and> n \<le> 0xF3 \<and> four 0x80 0xBF then 4
        else if n = 0xF4 \<and> four 0x80 0x8F then 4
        else 1)"

lemma rune_size_pos: "s \<noteq> [] \<Longrightarrow> 0 < rune_size s"
  by (cases s) (simp_all add: Let_def)

function rune_count :: "string \<Rightarrow> nat" where
  "rune_count s = (if s = [] then 0 else Suc (rune_count (drop (rune_size s) s)))"
  by pat_completeness auto
termination
  by (relation "measure length") (auto simp: rune_size_pos)

declare rune_count.simps [simp del] rune_size.simps [simp del]

lemma rune_size_ascii: "(of_char a :: nat) < 0x80 \<Longrightarrow> rune_size (a # s) = 1"
  by (simp add: rune_size.simps Let_def)

lemma rune_count_ascii:
  "\<forall>c \<in> set s. (of_char c :: nat) < 0x80 \<Longrightarrow> rune_count s = length s"
proof (induction s)
  case (Cons c s)
  then have "rune_size (c # s) = 1" by (simp add: rune_size_ascii)
  with Cons show ?case by (subst rune_count.simps) simp
qed (simp add: rune_count.simps)

subsection \<open>Case\<close>

text \<open>ASCII \<open>strings.ToLower\<close> and \<open>strings.ToUpper\<close>, byte by byte.\<close>

definition lower_char :: "char \<Rightarrow> char" where
  "lower_char c = (if in_range 65 90 c then char_of ((of_char c :: nat) + 32) else c)"

definition upper_char :: "char \<Rightarrow> char" where
  "upper_char c = (if in_range 97 122 c then char_of ((of_char c :: nat) - 32) else c)"

end
