(* ===== verification/Json_Text.thy ===== *)
theory Json_Text
  imports Go_Strings
begin

text \<open>
  JSON as \<open>encoding/json\<close> reads and writes it. It models the standard library and maps to no file of
  the repository.

  A document is the datatype \<open>json\<close>: a number keeps its literal, a string the bytes it decodes to
  (escapes resolved, invalid UTF-8 replaced by U+FFFD), an object its members in order with
  duplicates. \<open>parse_json\<close> is the syntax of \<open>json.Unmarshal\<close> and \<open>print_json\<close> the compact form
  \<open>json.Marshal\<close> writes, with its escapes. A parse runs on fuel, the length of the text; each step
  consumes at least one byte, so the fuel is enough for every text.
\<close>

datatype json =
    JNull
  | JBool bool
  | JNum string
  | JStr string
  | JArr "json list"
  | JObj "(string \<times> json) list"

subsection \<open>Strings\<close>

definition bytes_of :: "nat list \<Rightarrow> string" where
  "bytes_of ns = map char_of ns"

definition utf8_encode :: "nat \<Rightarrow> string" where
  "utf8_encode n =
    (if n < 0x80 then bytes_of [n]
     else if n < 0x800 then bytes_of [0xC0 + n div 64, 0x80 + n mod 64]
     else if n < 0x10000 then bytes_of [0xE0 + n div 4096, 0x80 + n div 64 mod 64, 0x80 + n mod 64]
     else bytes_of [0xF0 + n div 262144, 0x80 + n div 4096 mod 64, 0x80 + n div 64 mod 64, 0x80 + n mod 64])"

definition replacement :: string where
  "replacement = bytes_of [0xEF, 0xBF, 0xBD]"

definition hex_value :: "char \<Rightarrow> nat option" where
  "hex_value c =
    (if in_range 48 57 c then Some (of_char c - 48)
     else if in_range 97 102 c then Some (of_char c - 87)
     else if in_range 65 70 c then Some (of_char c - 55) else None)"

fun hex4 :: "string \<Rightarrow> nat option" where
  "hex4 (a # b # c # d # _) =
    (case (hex_value a, hex_value b, hex_value c, hex_value d) of
       (Some x, Some y, Some z, Some w) \<Rightarrow> Some (((x * 16 + y) * 16 + z) * 16 + w)
     | _ \<Rightarrow> None)"
| "hex4 _ = None"

definition simple_escape :: "char \<Rightarrow> nat option" where
  "simple_escape c = map_of [(CHR 0x22, 0x22), (CHR 0x5C, 0x5C), (CHR 0x2F, 0x2F), (CHR 0x62, 8),
    (CHR 0x66, 12), (CHR 0x6E, 10), (CHR 0x72, 13), (CHR 0x74, 9)] c"

text \<open>\<open>\u\<close> escapes: a surrogate pair is one rune, a lone surrogate the replacement character.\<close>

definition unicode_escape :: "string \<Rightarrow> (string \<times> nat) option" where
  "unicode_escape s = (case hex4 s of
     None \<Rightarrow> None
   | Some n \<Rightarrow>
       if 0xD800 \<le> n \<and> n \<le> 0xDBFF then
         (if take 2 (drop 4 s) = [CHR 0x5C, CHR 0x75] then
            (case hex4 (drop 6 s) of
               None \<Rightarrow> None
             | Some m \<Rightarrow>
                 if 0xDC00 \<le> m \<and> m \<le> 0xDFFF
                 then Some (utf8_encode (0x10000 + (n - 0xD800) * 1024 + (m - 0xDC00)), 10)
                 else Some (replacement, 4))
          else Some (replacement, 4))
       else if 0xDC00 \<le> n \<and> n \<le> 0xDFFF then Some (replacement, 4)
       else Some (utf8_encode n, 4))"

text \<open>The body of a string, after its opening quote: what it decodes to, and the rest.\<close>

fun parse_string :: "nat \<Rightarrow> string \<Rightarrow> (string \<times> string) option" where
  "parse_string 0 s = None"
| "parse_string (Suc f) [] = None"
| "parse_string (Suc f) (c # s) =
    (let more = (\<lambda>out rest. map_option (\<lambda>(t, r). (out @ t, r)) (parse_string f rest))
     in if c = CHR 0x22 then Some ([], s)
        else if c = CHR 0x5C then
          (case s of [] \<Rightarrow> None
           | e # s' \<Rightarrow>
               (if e = CHR 0x75
                then (case unicode_escape s' of None \<Rightarrow> None | Some (out, n) \<Rightarrow> more out (drop n s'))
                else (case simple_escape e of None \<Rightarrow> None | Some n \<Rightarrow> more (bytes_of [n]) s')))
        else if (of_char c :: nat) < 0x20 then None
        else (let n = rune_size (c # s)
              in if n = 1 \<and> (of_char c :: nat) \<ge> 0x80 then more replacement s
                 else more (take n (c # s)) (drop n (c # s))))"

subsection \<open>Values\<close>

definition is_space :: "char \<Rightarrow> bool" where
  "is_space c \<longleftrightarrow> c \<in> {CHR 0x20, CHR 0x09, CHR 0x0A, CHR 0x0D}"

definition skip_space :: "string \<Rightarrow> string" where
  "skip_space s = dropWhile is_space s"

definition digits :: "string \<Rightarrow> string \<times> string" where
  "digits s = (takeWhile is_digit s, dropWhile is_digit s)"

definition scan_int :: "string \<Rightarrow> (string \<times> string) option" where
  "scan_int s = (case digits s of
     ([], _) \<Rightarrow> None
   | (ds, r) \<Rightarrow> if hd ds = CHR 0x30 then Some ([CHR 0x30], tl ds @ r) else Some (ds, r))"

text \<open>The rest of a text that starts with the byte \<open>c\<close>.\<close>

definition expect :: "char \<Rightarrow> string \<Rightarrow> string option" where
  "expect c s = (case s of [] \<Rightarrow> None | c' # r \<Rightarrow> if c' = c then Some r else None)"

definition scan_frac :: "string \<Rightarrow> (string \<times> string) option" where
  "scan_frac s = (case expect (CHR 0x2E) s of
     Some s' \<Rightarrow> (case digits s' of ([], _) \<Rightarrow> None | (ds, r) \<Rightarrow> Some (CHR 0x2E # ds, r))
   | None \<Rightarrow> Some ([], s))"

definition scan_sign :: "char list \<Rightarrow> string \<Rightarrow> string \<times> string" where
  "scan_sign cs s = (case s of [] \<Rightarrow> ([], s) | c # r \<Rightarrow> if c \<in> set cs then ([c], r) else ([], s))"

definition scan_exp :: "string \<Rightarrow> (string \<times> string) option" where
  "scan_exp s = (case s of
     [] \<Rightarrow> Some ([], s)
   | e # s' \<Rightarrow>
       if e \<noteq> CHR 0x65 \<and> e \<noteq> CHR 0x45 then Some ([], s)
       else (let (sign, s'') = scan_sign [CHR 0x2B, CHR 0x2D] s'
             in case digits s'' of ([], _) \<Rightarrow> None | (ds, r) \<Rightarrow> Some (e # sign @ ds, r)))"

definition scan_number :: "string \<Rightarrow> (string \<times> string) option" where
  "scan_number s =
    (let (sign, s1) = scan_sign [CHR 0x2D] s
     in case scan_int s1 of None \<Rightarrow> None
        | Some (i, s2) \<Rightarrow>
            (case scan_frac s2 of None \<Rightarrow> None
             | Some (fr, s3) \<Rightarrow>
                 (case scan_exp s3 of None \<Rightarrow> None | Some (ex, r) \<Rightarrow> Some (sign @ i @ fr @ ex, r))))"

definition max_depth :: nat where
  "max_depth = 10000"

text \<open>
  \<open>parse_value f d\<close> with nesting depth \<open>d\<close>; \<open>parse_elems\<close> and \<open>parse_members\<close> stand behind an element
  or a member that is still to come, with the opening bracket read.
\<close>

fun parse_value :: "nat \<Rightarrow> nat \<Rightarrow> string \<Rightarrow> (json \<times> string) option"
  and parse_elems :: "nat \<Rightarrow> nat \<Rightarrow> string \<Rightarrow> (json list \<times> string) option"
  and parse_members :: "nat \<Rightarrow> nat \<Rightarrow> string \<Rightarrow> ((string \<times> json) list \<times> string) option" where
  "parse_value 0 d s = None"
| "parse_value (Suc f) d s =
    (case skip_space s of
       [] \<Rightarrow> None
     | c # r \<Rightarrow>
         if c = CHR 0x22 then map_option (\<lambda>(t, r'). (JStr t, r')) (parse_string (Suc (length r)) r)
         else if c = CHR 0x5B then
           (if max_depth \<le> d then None
            else case expect (CHR 0x5D) (skip_space r) of
              Some r' \<Rightarrow> Some (JArr [], r')
            | None \<Rightarrow> map_option (\<lambda>(xs, r'). (JArr xs, r')) (parse_elems f (Suc d) r))
         else if c = CHR 0x7B then
           (if max_depth \<le> d then None
            else case expect (CHR 0x7D) (skip_space r) of
              Some r' \<Rightarrow> Some (JObj [], r')
            | None \<Rightarrow> map_option (\<lambda>(xs, r'). (JObj xs, r')) (parse_members f (Suc d) r))
         else if has_prefix (c # r) ''true'' then Some (JBool True, drop 4 (c # r))
         else if has_prefix (c # r) ''false'' then Some (JBool False, drop 5 (c # r))
         else if has_prefix (c # r) ''null'' then Some (JNull, drop 4 (c # r))
         else map_option (\<lambda>(lit, r'). (JNum lit, r')) (scan_number (c # r)))"
| "parse_elems 0 d s = None"
| "parse_elems (Suc f) d s =
    (case parse_value f d s of None \<Rightarrow> None
     | Some (x, r) \<Rightarrow>
         (case expect (CHR 0x2C) (skip_space r) of
            Some r' \<Rightarrow> map_option (\<lambda>(xs, r''). (x # xs, r'')) (parse_elems f d r')
          | None \<Rightarrow> map_option (\<lambda>r'. ([x], r')) (expect (CHR 0x5D) (skip_space r))))"
| "parse_members 0 d s = None"
| "parse_members (Suc f) d s =
    (case Option.bind (expect (CHR 0x22) (skip_space s)) (\<lambda>r. parse_string (Suc (length r)) r) of
       None \<Rightarrow> None
     | Some (k, r1) \<Rightarrow>
         (case Option.bind (expect (CHR 0x3A) (skip_space r1)) (parse_value f d) of
            None \<Rightarrow> None
          | Some (x, r3) \<Rightarrow>
              (case expect (CHR 0x2C) (skip_space r3) of
                 Some r' \<Rightarrow> map_option (\<lambda>(xs, r''). ((k, x) # xs, r'')) (parse_members f d r')
               | None \<Rightarrow> map_option (\<lambda>r'. ([(k, x)], r')) (expect (CHR 0x7D) (skip_space r3)))))"

definition parse_json :: "string \<Rightarrow> json option" where
  "parse_json s = (case parse_value (2 * length s + 2) 0 s of
     Some (j, r) \<Rightarrow> if skip_space r = [] then Some j else None
   | None \<Rightarrow> None)"

subsection \<open>Printing\<close>

definition hex_digit :: "nat \<Rightarrow> char" where
  "hex_digit n = (if n < 10 then char_of (48 + n) else char_of (87 + n))"

text \<open>\<open>appendString\<close> with HTML escaping: what one byte of ASCII is written as.\<close>

definition escape_ascii :: "char \<Rightarrow> string" where
  "escape_ascii c = (let n = of_char c :: nat in
     if n = 0x22 \<or> n = 0x5C then [CHR 0x5C, c]
     else if n = 8 then (CHR 0x5C # ''b'') else if n = 12 then (CHR 0x5C # ''f'') else if n = 10 then (CHR 0x5C # ''n'')
     else if n = 13 then (CHR 0x5C # ''r'') else if n = 9 then (CHR 0x5C # ''t'')
     else if n < 0x20 \<or> n = 0x3C \<or> n = 0x3E \<or> n = 0x26
     then (CHR 0x5C # ''u00'') @ [hex_digit (n div 16), hex_digit (n mod 16)]
     else [c])"

function escape_string :: "string \<Rightarrow> string" where
  "escape_string s =
    (case s of [] \<Rightarrow> []
     | c # r \<Rightarrow>
         if (of_char c :: nat) < 0x80 then escape_ascii c @ escape_string r
         else (let n = rune_size s; t = take n s
               in (if n = 1 then (CHR 0x5C # ''ufffd'')
                   else if t = bytes_of [0xE2, 0x80, 0xA8] then (CHR 0x5C # ''u2028'')
                   else if t = bytes_of [0xE2, 0x80, 0xA9] then (CHR 0x5C # ''u2029'') else t)
                  @ escape_string (drop n s)))"
  by pat_completeness auto
termination
  by (relation "measure length") (auto simp: rune_size_pos)

declare escape_string.simps [simp del]

definition print_string :: "string \<Rightarrow> string" where
  "print_string s = [CHR 0x22] @ escape_string s @ [CHR 0x22]"

fun print_json :: "json \<Rightarrow> string" where
  "print_json JNull = ''null''"
| "print_json (JBool b) = (if b then ''true'' else ''false'')"
| "print_json (JNum lit) = lit"
| "print_json (JStr s) = print_string s"
| "print_json (JArr xs) = [CHR 0x5B] @ join_with [CHR 0x2C] (map print_json xs) @ [CHR 0x5D]"
| "print_json (JObj kvs) =
    [CHR 0x7B] @ join_with [CHR 0x2C] (map (\<lambda>(k, x). print_string k @ [CHR 0x3A] @ print_json x) kvs)
      @ [CHR 0x7D]"

end
