(* ===== verification/Json_Codec.thy ===== *)
theory Json_Codec
  imports Json_Text Go_Values
begin

text \<open>
  How \<open>encoding/json\<close> decodes a document into Go values and encodes them back, on the datatype
  \<open>json\<close>, and \<open>Optional\<close>'s \<open>MarshalJSON\<close> and \<open>UnmarshalJSON\<close> (\<open>herdr/optional.go\<close>).

  A \<open>codec\<close> of a Go type holds its zero value, its encoder, its decoder and the values that survive a
  round trip. A decoder gets the old value of the variable it decodes into (Go merges into it) and
  yields \<open>None\<close> where \<open>json.Unmarshal\<close> reports an error; what is left in the variable after an error
  is never read. A struct is a list of \<open>field\<close>s; object members are matched to fields by name, first
  exactly and then under case folding, and a member without a field is ignored. The two number
  formats of a \<open>float64\<close> are arguments: \<open>parse_float\<close> stands for \<open>strconv.ParseFloat\<close> and
  \<open>print_float\<close> for the shortest decimal \<open>json.Marshal\<close> writes.
\<close>

record 'a codec =
  cod_zero :: 'a
  cod_enc :: "'a \<Rightarrow> json"
  cod_dec :: "json \<Rightarrow> 'a \<Rightarrow> 'a option"
  cod_ok :: "'a \<Rightarrow> bool"

definition lawful :: "'a codec \<Rightarrow> bool" where
  "lawful c \<longleftrightarrow> (\<forall>x. cod_ok c x \<longrightarrow> cod_dec c (cod_enc c x) (cod_zero c) = Some x)"

lemma lawfulD: "lawful c \<Longrightarrow> cod_ok c x \<Longrightarrow> cod_dec c (cod_enc c x) (cod_zero c) = Some x"
  by (simp add: lawful_def)

subsection \<open>Basic types\<close>

text \<open>A Go string is written with invalid UTF-8 replaced, so it survives when it is valid.\<close>

function valid_utf8 :: "string \<Rightarrow> bool" where
  "valid_utf8 s = (case s of [] \<Rightarrow> True
     | c # r \<Rightarrow> ((of_char c :: nat) < 0x80 \<or> 1 < rune_size s) \<and> valid_utf8 (drop (rune_size s) s))"
  by pat_completeness auto
termination
  by (relation "measure length") (auto simp: rune_size_pos)

declare valid_utf8.simps [simp del]

function coerce_utf8 :: "string \<Rightarrow> string" where
  "coerce_utf8 s = (case s of [] \<Rightarrow> []
     | c # r \<Rightarrow> (if (of_char c :: nat) < 0x80 \<or> 1 < rune_size s then take (rune_size s) s else replacement)
         @ coerce_utf8 (drop (rune_size s) s))"
  by pat_completeness auto
termination
  by (relation "measure length") (auto simp: rune_size_pos)

declare coerce_utf8.simps [simp del]

lemma coerce_valid: "valid_utf8 s \<Longrightarrow> coerce_utf8 s = s"
proof (induction s rule: coerce_utf8.induct)
  case (1 s)
  show ?case
  proof (cases s)
    case Nil
    then show ?thesis by (simp add: coerce_utf8.simps)
  next
    case (Cons c r)
    then show ?thesis
      using 1 valid_utf8.simps [of s] by (subst coerce_utf8.simps) simp
  qed
qed

definition string_codec :: "string codec" where
  "string_codec = \<lparr>cod_zero = [], cod_enc = (\<lambda>s. JStr (coerce_utf8 s)),
     cod_dec = (\<lambda>j old. case j of JStr s \<Rightarrow> Some s | JNull \<Rightarrow> Some old | _ \<Rightarrow> None),
     cod_ok = valid_utf8\<rparr>"

definition bool_codec :: "bool codec" where
  "bool_codec = \<lparr>cod_zero = False, cod_enc = JBool,
     cod_dec = (\<lambda>j old. case j of JBool b \<Rightarrow> Some b | JNull \<Rightarrow> Some old | _ \<Rightarrow> None),
     cod_ok = (\<lambda>_. True)\<rparr>"

definition uint_codec :: "'w::len word codec" where
  "uint_codec = \<lparr>cod_zero = 0, cod_enc = (\<lambda>n. JNum (format_uint (unat n))),
     cod_dec = (\<lambda>j old. case j of
         JNum lit \<Rightarrow> map_option of_nat (parse_uint (LENGTH('w)) lit) | JNull \<Rightarrow> Some old | _ \<Rightarrow> None),
     cod_ok = (\<lambda>_. True)\<rparr>"

definition float_codec :: "(string \<Rightarrow> float64 option) \<Rightarrow> (float64 \<Rightarrow> string) \<Rightarrow> float64 codec" where
  "float_codec parse_float print_float = \<lparr>cod_zero = 0, cod_enc = (\<lambda>x. JNum (print_float x)),
     cod_dec = (\<lambda>j old. case j of JNum lit \<Rightarrow> parse_float lit | JNull \<Rightarrow> Some old | _ \<Rightarrow> None),
     cod_ok = (\<lambda>x. parse_float (print_float x) = Some x)\<rparr>"

lemma lawful_string [simp]: "lawful string_codec"
  by (simp add: lawful_def string_codec_def coerce_valid)

lemma lawful_bool [simp]: "lawful bool_codec"
  by (simp add: lawful_def bool_codec_def)

lemma lawful_uint [simp]: "lawful (uint_codec :: 'w::len word codec)"
  by (simp add: lawful_def uint_codec_def parse_format_uint unsigned_less)

lemma lawful_float [simp]: "lawful (float_codec p f)"
  by (simp add: lawful_def float_codec_def)

subsection \<open>\<open>Optional\<close>, slices and maps\<close>

text \<open>
  \<open>MarshalJSON\<close> writes \<open>null\<close> for an absent value; a struct with \<open>omitzero\<close> leaves the member out
  instead, see \<open>optional_field\<close>. \<open>UnmarshalJSON\<close> decodes into a fresh variable.
\<close>

definition optional_enc :: "'a codec \<Rightarrow> 'a optional \<Rightarrow> json" where
  "optional_enc c o' = (case o' of Present v \<Rightarrow> cod_enc c v | _ \<Rightarrow> JNull)"

definition optional_dec :: "'a codec \<Rightarrow> json \<Rightarrow> 'a optional option" where
  "optional_dec c j =
    (if j = JNull then Some ExplicitNull else map_option Present (cod_dec c j (cod_zero c)))"

text \<open>An array is decoded element by element, into the old elements as far as they reach.\<close>

fun decode_elems :: "'a codec \<Rightarrow> json list \<Rightarrow> 'a list \<Rightarrow> 'a list option" where
  "decode_elems c [] old = Some []"
| "decode_elems c (j # js) old =
    (case cod_dec c j (case old of [] \<Rightarrow> cod_zero c | x # _ \<Rightarrow> x) of
       None \<Rightarrow> None
     | Some x \<Rightarrow> map_option (\<lambda>xs. x # xs) (decode_elems c js (tl old)))"

definition slice_codec :: "'a codec \<Rightarrow> 'a slice codec" where
  "slice_codec c = \<lparr>cod_zero = None,
     cod_enc = (\<lambda>s. case s of None \<Rightarrow> JNull | Some xs \<Rightarrow> JArr (map (cod_enc c) xs)),
     cod_dec = (\<lambda>j old. case j of
         JArr js \<Rightarrow> map_option Some (decode_elems c js (elems old)) | JNull \<Rightarrow> Some None | _ \<Rightarrow> None),
     cod_ok = (\<lambda>s. case s of None \<Rightarrow> True | Some xs \<Rightarrow> list_all (cod_ok c) xs)\<rparr>"

fun decode_map :: "'a codec \<Rightarrow> (string \<times> json) list \<Rightarrow> (string \<rightharpoonup> 'a) \<Rightarrow> (string \<rightharpoonup> 'a) option" where
  "decode_map c [] m = Some m"
| "decode_map c ((k, j) # kvs) m =
    (case cod_dec c j (cod_zero c) of None \<Rightarrow> None | Some x \<Rightarrow> decode_map c kvs (m(k \<mapsto> x)))"

text \<open>\<open>json.Marshal\<close> writes the members of a map sorted by key.\<close>

definition map_codec :: "'a codec \<Rightarrow> 'a str_map codec" where
  "map_codec c = \<lparr>cod_zero = None,
     cod_enc = (\<lambda>m. case m of None \<Rightarrow> JNull
       | Some f \<Rightarrow> JObj (map (\<lambda>k. (coerce_utf8 k, cod_enc c (the (f k)))) (sorted_list_of_set (dom f)))),
     cod_dec = (\<lambda>j old. case j of
         JObj kvs \<Rightarrow> map_option Some (decode_map c kvs (map_entries old))
       | JNull \<Rightarrow> Some None | _ \<Rightarrow> None),
     cod_ok = (\<lambda>m. case m of None \<Rightarrow> True
       | Some f \<Rightarrow> finite (dom f) \<and> (\<forall>k x. f k = Some x \<longrightarrow> valid_utf8 k \<and> cod_ok c x))\<rparr>"

lemma lawful_slice [simp]:
  assumes "lawful c"
  shows "lawful (slice_codec c)"
proof -
  have "list_all (cod_ok c) xs \<Longrightarrow> decode_elems c (map (cod_enc c) xs) [] = Some xs" for xs
    by (induction xs) (simp_all add: lawfulD [OF assms])
  then show ?thesis by (simp add: lawful_def slice_codec_def split: option.split)
qed

lemma decode_map_enc:
  assumes "lawful c"
  shows "\<forall>k \<in> set ks. \<exists>x. f k = Some x \<and> valid_utf8 k \<and> cod_ok c x \<Longrightarrow>
    decode_map c (map (\<lambda>k. (coerce_utf8 k, cod_enc c (the (f k)))) ks) m =
      Some (m ++ (f |` set ks))"
proof (induction ks arbitrary: m)
  case (Cons k ks)
  from Cons.prems obtain x where x: "f k = Some x" "valid_utf8 k" "cod_ok c x" by auto
  have "m(k \<mapsto> x) ++ f |` set ks = m ++ f |` set (k # ks)"
    using x by (auto simp: fun_eq_iff map_add_def restrict_map_def split: option.split)
  with Cons x show ?case by (simp add: lawfulD [OF assms] coerce_valid del: fun_upd_apply)
qed simp

lemma lawful_map [simp]:
  assumes "lawful c"
  shows "lawful (map_codec c)"
proof -
  have "decode_map c (map (\<lambda>k. (coerce_utf8 k, cod_enc c (the (f k)))) (sorted_list_of_set (dom f))) Map.empty = Some f"
    if "finite (dom f)" "\<forall>k x. f k = Some x \<longrightarrow> valid_utf8 k \<and> cod_ok c x" for f
  proof -
    have "f |` dom f = f" by (rule ext) (simp add: restrict_map_def domIff)
    moreover have "\<forall>k \<in> set (sorted_list_of_set (dom f)). \<exists>x. f k = Some x \<and> valid_utf8 k \<and> cod_ok c x"
      using that by auto
    ultimately show ?thesis using that(1) decode_map_enc [OF assms, of _ f Map.empty] by simp
  qed
  then show ?thesis by (auto simp: lawful_def map_codec_def map_entries_def split: option.split)
qed

subsection \<open>Structs\<close>

text \<open>
  A field encodes itself to a member or, under \<open>omitzero\<close>, to nothing, and decodes a member into its
  place in the struct.
\<close>

record 'r field =
  fld_name :: string
  fld_enc :: "'r \<Rightarrow> json option"
  fld_dec :: "json \<Rightarrow> 'r \<Rightarrow> 'r option"
  fld_ok :: "'r \<Rightarrow> bool"

definition plain_field ::
  "string \<Rightarrow> 'a codec \<Rightarrow> ('r \<Rightarrow> 'a) \<Rightarrow> ('a \<Rightarrow> 'r \<Rightarrow> 'r) \<Rightarrow> 'r field" where
  "plain_field name c get put = \<lparr>fld_name = name,
     fld_enc = (\<lambda>r. Some (cod_enc c (get r))),
     fld_dec = (\<lambda>j r. map_option (\<lambda>x. put x r) (cod_dec c j (get r))),
     fld_ok = (\<lambda>r. cod_ok c (get r))\<rparr>"

definition optional_field ::
  "string \<Rightarrow> 'a codec \<Rightarrow> ('r \<Rightarrow> 'a optional) \<Rightarrow> ('a optional \<Rightarrow> 'r \<Rightarrow> 'r) \<Rightarrow> 'r field" where
  "optional_field name c get put = \<lparr>fld_name = name,
     fld_enc = (\<lambda>r. if opt_is_zero (get r) then None else Some (optional_enc c (get r))),
     fld_dec = (\<lambda>j r. map_option (\<lambda>x. put x r) (optional_dec c j)),
     fld_ok = (\<lambda>r. case get r of Present v \<Rightarrow> cod_ok c v \<and> cod_enc c v \<noteq> JNull | _ \<Rightarrow> True)\<rparr>"

text \<open>
  Case folding of member names (\<open>foldName\<close>): ASCII letters, and the two runes outside ASCII that fold
  to one, the Kelvin sign and the long s.
\<close>

fun fold_name :: "string \<Rightarrow> string" where
  "fold_name [] = []"
| "fold_name (a # s) =
    (if take 2 s = bytes_of [0x84, 0xAA] \<and> (of_char a :: nat) = 0xE2 then CHR 0x4B # fold_name (drop 2 s)
     else if take 1 s = bytes_of [0xBF] \<and> (of_char a :: nat) = 0xC5 then CHR 0x53 # fold_name (drop 1 s)
     else upper_char a # fold_name s)"

definition find_field :: "'r field list \<Rightarrow> string \<Rightarrow> 'r field option" where
  "find_field fs k = (case find (\<lambda>f. fld_name f = k) fs of
     Some f \<Rightarrow> Some f | None \<Rightarrow> find (\<lambda>f. fold_name (fld_name f) = fold_name k) fs)"

fun decode_members :: "'r field list \<Rightarrow> (string \<times> json) list \<Rightarrow> 'r \<Rightarrow> 'r option" where
  "decode_members fs [] r = Some r"
| "decode_members fs ((k, j) # kvs) r =
    (case find_field fs k of
       None \<Rightarrow> decode_members fs kvs r
     | Some f \<Rightarrow> (case fld_dec f j r of None \<Rightarrow> None | Some r' \<Rightarrow> decode_members fs kvs r'))"

definition decode_struct :: "'r field list \<Rightarrow> json \<Rightarrow> 'r \<Rightarrow> 'r option" where
  "decode_struct fs j r =
    (case j of JObj kvs \<Rightarrow> decode_members fs kvs r | JNull \<Rightarrow> Some r | _ \<Rightarrow> None)"

definition encode_members :: "'r field list \<Rightarrow> 'r \<Rightarrow> (string \<times> json) list" where
  "encode_members fs r = List.map_filter (\<lambda>f. map_option (Pair (fld_name f)) (fld_enc f r)) fs"

definition struct_codec :: "'r \<Rightarrow> 'r field list \<Rightarrow> 'r codec" where
  "struct_codec z fs = \<lparr>cod_zero = z, cod_enc = (\<lambda>r. JObj (encode_members fs r)),
     cod_dec = decode_struct fs, cod_ok = (\<lambda>r. list_all (\<lambda>f. fld_ok f r) fs)\<rparr>"

text \<open>One field after the other, from the zero struct: what a round trip comes down to.\<close>

fun refill :: "'r field list \<Rightarrow> 'r \<Rightarrow> 'r \<Rightarrow> 'r option" where
  "refill [] r r' = Some r'"
| "refill (f # fs) r r' = (case fld_enc f r of
     None \<Rightarrow> refill fs r r'
   | Some j \<Rightarrow> (case fld_dec f j r' of None \<Rightarrow> None | Some r'' \<Rightarrow> refill fs r r''))"

lemma find_field_exact:
  assumes "distinct (map fld_name fs)" and "f \<in> set fs"
  shows "find_field fs (fld_name f) = Some f"
proof -
  have "find (\<lambda>g. fld_name g = fld_name f) fs = Some f"
    using assms by (induction fs) auto
  then show ?thesis by (simp add: find_field_def)
qed

lemma decode_encode_members:
  assumes "distinct (map fld_name fs)"
  shows "set gs \<subseteq> set fs \<Longrightarrow> decode_members fs (encode_members gs r) r' = refill gs r r'"
proof (induction gs arbitrary: r')
  case (Cons g gs)
  then have "find_field fs (fld_name g) = Some g" using assms by (simp add: find_field_exact)
  with Cons show ?case
    by (simp add: encode_members_def map_filter_simps split: option.split)
qed (simp add: encode_members_def map_filter_simps)

lemma refill_plain:
  assumes "lawful c" and "cod_ok c (get r)" and "get r' = cod_zero c"
  shows "refill (plain_field name c get put # fs) r r' = refill fs r (put (get r) r')"
  using assms by (simp add: plain_field_def lawful_def)

lemma refill_optional:
  assumes "lawful c" and "fld_ok (optional_field name c get put) r" and "put Absent r' = r'"
  shows "refill (optional_field name c get put # fs) r r' = refill fs r (put (get r) r')"
  using assms
  by (cases "get r")
    (simp_all add: optional_field_def lawful_def opt_is_zero_def optional_enc_def optional_dec_def)

lemma lawful_struct:
  assumes "distinct (map fld_name fs)"
    and "\<And>r. list_all (\<lambda>f. fld_ok f r) fs \<Longrightarrow> refill fs r z = Some r"
  shows "lawful (struct_codec z fs)"
  using assms by (simp add: lawful_def struct_codec_def decode_struct_def decode_encode_members)

text \<open>Members no field answers to, such as the tag of a union, do not disturb the decoding.\<close>

lemma decode_members_skip:
  "find_field fs k = None \<Longrightarrow> decode_members fs ((k, j) # kvs) r = decode_members fs kvs r"
  by simp

end
