(* ===== verification/Type_Codec.thy ===== *)
theory Type_Codec
  imports Json_Codec Api_Events
begin

text \<open>
  The JSON form of the structs of \<open>herdr/types_gen.go\<close> and \<open>herdr/events_gen.go\<close> a session sees:
  for each struct the list of its fields, with the names and \<open>omitzero\<close> options of the struct tags,
  and its codec. \<open>pf\<close> and \<open>ff\<close> are the formats of a \<open>float64\<close>, see \<open>Json_Codec\<close>.
\<close>

lemma field_names:
  "fld_name (plain_field name c get put) = name"
  "fld_name (optional_field name c get' put') = name"
  by (simp_all add: plain_field_def optional_field_def)

lemma codec_zeros [simp]:
  "cod_zero string_codec = []" "cod_zero bool_codec = False" "cod_zero uint_codec = 0"
  "cod_zero (float_codec pf ff) = 0" "cod_zero (slice_codec c) = None" "cod_zero (map_codec c) = None"
  by (simp_all add: string_codec_def bool_codec_def uint_codec_def float_codec_def slice_codec_def
      map_codec_def)

lemma plain_field_ok: "fld_ok (plain_field name c get put) r = cod_ok c (get r)"
  by (simp add: plain_field_def)

lemmas refill_simps = refill_plain refill_optional plain_field_ok

declare refill.simps(2) [simp del]

definition pane_layout_rect_fields :: "pane_layout_rect field list" where
  "pane_layout_rect_fields =
    [plain_field ''height'' uint_codec plr_height (\<lambda>x r. r\<lparr>plr_height := x\<rparr>),
     plain_field ''width'' uint_codec plr_width (\<lambda>x r. r\<lparr>plr_width := x\<rparr>),
     plain_field ''x'' uint_codec plr_x (\<lambda>x r. r\<lparr>plr_x := x\<rparr>),
     plain_field ''y'' uint_codec plr_y (\<lambda>x r. r\<lparr>plr_y := x\<rparr>)]"

definition pane_layout_rect_codec :: "pane_layout_rect codec" where
  "pane_layout_rect_codec = struct_codec pane_layout_rect_zero pane_layout_rect_fields"

lemma pane_layout_rect_codec_lawful [simp]: "lawful (pane_layout_rect_codec)"
  unfolding pane_layout_rect_codec_def
proof (rule lawful_struct)
  show "distinct (map fld_name (pane_layout_rect_fields))" by (simp add: pane_layout_rect_fields_def field_names)
  show "list_all (\<lambda>f. fld_ok f r) (pane_layout_rect_fields) \<Longrightarrow> refill (pane_layout_rect_fields) r pane_layout_rect_zero = Some r" for r
    by (cases r) (simp add: pane_layout_rect_fields_def pane_layout_rect_zero_def refill_simps)
qed

lemma pane_layout_rect_codec_zero [simp]: "cod_zero (pane_layout_rect_codec) = pane_layout_rect_zero"
  by (simp add: pane_layout_rect_codec_def struct_codec_def)

definition pane_layout_pane_fields :: "pane_layout_pane field list" where
  "pane_layout_pane_fields =
    [plain_field ''focused'' bool_codec plp_focused (\<lambda>x r. r\<lparr>plp_focused := x\<rparr>),
     plain_field ''pane_id'' string_codec plp_pane_id (\<lambda>x r. r\<lparr>plp_pane_id := x\<rparr>),
     plain_field ''rect'' pane_layout_rect_codec plp_rect (\<lambda>x r. r\<lparr>plp_rect := x\<rparr>)]"

definition pane_layout_pane_codec :: "pane_layout_pane codec" where
  "pane_layout_pane_codec = struct_codec pane_layout_pane_zero pane_layout_pane_fields"

lemma pane_layout_pane_codec_lawful [simp]: "lawful (pane_layout_pane_codec)"
  unfolding pane_layout_pane_codec_def
proof (rule lawful_struct)
  show "distinct (map fld_name (pane_layout_pane_fields))" by (simp add: pane_layout_pane_fields_def field_names)
  show "list_all (\<lambda>f. fld_ok f r) (pane_layout_pane_fields) \<Longrightarrow> refill (pane_layout_pane_fields) r pane_layout_pane_zero = Some r" for r
    by (cases r) (simp add: pane_layout_pane_fields_def pane_layout_pane_zero_def refill_simps)
qed

lemma pane_layout_pane_codec_zero [simp]: "cod_zero (pane_layout_pane_codec) = pane_layout_pane_zero"
  by (simp add: pane_layout_pane_codec_def struct_codec_def)

definition pane_layout_split_fields :: "(string \<Rightarrow> float64 option) \<Rightarrow> (float64 \<Rightarrow> string) \<Rightarrow> pane_layout_split field list" where
  "pane_layout_split_fields pf ff =
    [plain_field ''direction'' string_codec plsp_direction (\<lambda>x r. r\<lparr>plsp_direction := x\<rparr>),
     plain_field ''id'' string_codec plsp_id (\<lambda>x r. r\<lparr>plsp_id := x\<rparr>),
     plain_field ''ratio'' (float_codec pf ff) plsp_ratio (\<lambda>x r. r\<lparr>plsp_ratio := x\<rparr>),
     plain_field ''rect'' pane_layout_rect_codec plsp_rect (\<lambda>x r. r\<lparr>plsp_rect := x\<rparr>)]"

definition pane_layout_split_codec :: "(string \<Rightarrow> float64 option) \<Rightarrow> (float64 \<Rightarrow> string) \<Rightarrow> pane_layout_split codec" where
  "pane_layout_split_codec pf ff = struct_codec pane_layout_split_zero (pane_layout_split_fields pf ff)"

lemma pane_layout_split_codec_lawful [simp]: "lawful (pane_layout_split_codec pf ff)"
  unfolding pane_layout_split_codec_def
proof (rule lawful_struct)
  show "distinct (map fld_name (pane_layout_split_fields pf ff))" by (simp add: pane_layout_split_fields_def field_names)
  show "list_all (\<lambda>f. fld_ok f r) (pane_layout_split_fields pf ff) \<Longrightarrow> refill (pane_layout_split_fields pf ff) r pane_layout_split_zero = Some r" for r
    by (cases r) (simp add: pane_layout_split_fields_def pane_layout_split_zero_def refill_simps)
qed

lemma pane_layout_split_codec_zero [simp]: "cod_zero (pane_layout_split_codec pf ff) = pane_layout_split_zero"
  by (simp add: pane_layout_split_codec_def struct_codec_def)

definition pane_layout_snapshot_fields :: "(string \<Rightarrow> float64 option) \<Rightarrow> (float64 \<Rightarrow> string) \<Rightarrow> pane_layout_snapshot field list" where
  "pane_layout_snapshot_fields pf ff =
    [plain_field ''area'' pane_layout_rect_codec pls_area (\<lambda>x r. r\<lparr>pls_area := x\<rparr>),
     plain_field ''focused_pane_id'' string_codec pls_focused_pane_id (\<lambda>x r. r\<lparr>pls_focused_pane_id := x\<rparr>),
     plain_field ''panes'' (slice_codec pane_layout_pane_codec) pls_panes (\<lambda>x r. r\<lparr>pls_panes := x\<rparr>),
     plain_field ''splits'' (slice_codec (pane_layout_split_codec pf ff)) pls_splits (\<lambda>x r. r\<lparr>pls_splits := x\<rparr>),
     plain_field ''tab_id'' string_codec pls_tab_id (\<lambda>x r. r\<lparr>pls_tab_id := x\<rparr>),
     plain_field ''workspace_id'' string_codec pls_workspace_id (\<lambda>x r. r\<lparr>pls_workspace_id := x\<rparr>),
     plain_field ''zoomed'' bool_codec pls_zoomed (\<lambda>x r. r\<lparr>pls_zoomed := x\<rparr>)]"

definition pane_layout_snapshot_codec :: "(string \<Rightarrow> float64 option) \<Rightarrow> (float64 \<Rightarrow> string) \<Rightarrow> pane_layout_snapshot codec" where
  "pane_layout_snapshot_codec pf ff = struct_codec pane_layout_snapshot_zero (pane_layout_snapshot_fields pf ff)"

lemma pane_layout_snapshot_codec_lawful [simp]: "lawful (pane_layout_snapshot_codec pf ff)"
  unfolding pane_layout_snapshot_codec_def
proof (rule lawful_struct)
  show "distinct (map fld_name (pane_layout_snapshot_fields pf ff))" by (simp add: pane_layout_snapshot_fields_def field_names)
  show "list_all (\<lambda>f. fld_ok f r) (pane_layout_snapshot_fields pf ff) \<Longrightarrow> refill (pane_layout_snapshot_fields pf ff) r pane_layout_snapshot_zero = Some r" for r
    by (cases r) (simp add: pane_layout_snapshot_fields_def pane_layout_snapshot_zero_def refill_simps)
qed

lemma pane_layout_snapshot_codec_zero [simp]: "cod_zero (pane_layout_snapshot_codec pf ff) = pane_layout_snapshot_zero"
  by (simp add: pane_layout_snapshot_codec_def struct_codec_def)

definition layout_updated_event_fields :: "(string \<Rightarrow> float64 option) \<Rightarrow> (float64 \<Rightarrow> string) \<Rightarrow> layout_updated_event field list" where
  "layout_updated_event_fields pf ff =
    [plain_field ''layout'' (pane_layout_snapshot_codec pf ff) layout_updated_layout (\<lambda>x r. r\<lparr>layout_updated_layout := x\<rparr>)]"

definition layout_updated_event_codec :: "(string \<Rightarrow> float64 option) \<Rightarrow> (float64 \<Rightarrow> string) \<Rightarrow> layout_updated_event codec" where
  "layout_updated_event_codec pf ff = struct_codec layout_updated_event_zero (layout_updated_event_fields pf ff)"

lemma layout_updated_event_codec_lawful [simp]: "lawful (layout_updated_event_codec pf ff)"
  unfolding layout_updated_event_codec_def
proof (rule lawful_struct)
  show "distinct (map fld_name (layout_updated_event_fields pf ff))" by (simp add: layout_updated_event_fields_def field_names)
  show "list_all (\<lambda>f. fld_ok f r) (layout_updated_event_fields pf ff) \<Longrightarrow> refill (layout_updated_event_fields pf ff) r layout_updated_event_zero = Some r" for r
    by (cases r) (simp add: layout_updated_event_fields_def layout_updated_event_zero_def refill_simps)
qed

lemma layout_updated_event_codec_zero [simp]: "cod_zero (layout_updated_event_codec pf ff) = layout_updated_event_zero"
  by (simp add: layout_updated_event_codec_def struct_codec_def)

definition pane_agent_detected_event_fields :: "pane_agent_detected_event field list" where
  "pane_agent_detected_event_fields =
    [optional_field ''agent'' string_codec pane_agent_detected_agent (\<lambda>x r. r\<lparr>pane_agent_detected_agent := x\<rparr>),
     optional_field ''final_status'' string_codec pane_agent_detected_final_status (\<lambda>x r. r\<lparr>pane_agent_detected_final_status := x\<rparr>),
     plain_field ''pane_id'' string_codec pane_agent_detected_pane_id (\<lambda>x r. r\<lparr>pane_agent_detected_pane_id := x\<rparr>),
     optional_field ''released'' bool_codec pane_agent_detected_released (\<lambda>x r. r\<lparr>pane_agent_detected_released := x\<rparr>),
     plain_field ''workspace_id'' string_codec pane_agent_detected_workspace_id (\<lambda>x r. r\<lparr>pane_agent_detected_workspace_id := x\<rparr>)]"

definition pane_agent_detected_event_codec :: "pane_agent_detected_event codec" where
  "pane_agent_detected_event_codec = struct_codec pane_agent_detected_event_zero pane_agent_detected_event_fields"

lemma pane_agent_detected_event_codec_lawful [simp]: "lawful (pane_agent_detected_event_codec)"
  unfolding pane_agent_detected_event_codec_def
proof (rule lawful_struct)
  show "distinct (map fld_name (pane_agent_detected_event_fields))" by (simp add: pane_agent_detected_event_fields_def field_names)
  show "list_all (\<lambda>f. fld_ok f r) (pane_agent_detected_event_fields) \<Longrightarrow> refill (pane_agent_detected_event_fields) r pane_agent_detected_event_zero = Some r" for r
    by (cases r) (simp add: pane_agent_detected_event_fields_def pane_agent_detected_event_zero_def refill_simps)
qed

lemma pane_agent_detected_event_codec_zero [simp]: "cod_zero (pane_agent_detected_event_codec) = pane_agent_detected_event_zero"
  by (simp add: pane_agent_detected_event_codec_def struct_codec_def)

definition pane_agent_status_changed_event_fields :: "pane_agent_status_changed_event field list" where
  "pane_agent_status_changed_event_fields =
    [optional_field ''agent'' string_codec pane_agent_status_changed_agent (\<lambda>x r. r\<lparr>pane_agent_status_changed_agent := x\<rparr>),
     plain_field ''agent_status'' string_codec pane_agent_status_changed_agent_status (\<lambda>x r. r\<lparr>pane_agent_status_changed_agent_status := x\<rparr>),
     optional_field ''display_agent'' string_codec pane_agent_status_changed_display_agent (\<lambda>x r. r\<lparr>pane_agent_status_changed_display_agent := x\<rparr>),
     plain_field ''pane_id'' string_codec pane_agent_status_changed_pane_id (\<lambda>x r. r\<lparr>pane_agent_status_changed_pane_id := x\<rparr>),
     optional_field ''state_labels'' (map_codec string_codec) pane_agent_status_changed_state_labels (\<lambda>x r. r\<lparr>pane_agent_status_changed_state_labels := x\<rparr>),
     optional_field ''title'' string_codec pane_agent_status_changed_title (\<lambda>x r. r\<lparr>pane_agent_status_changed_title := x\<rparr>),
     plain_field ''workspace_id'' string_codec pane_agent_status_changed_workspace_id (\<lambda>x r. r\<lparr>pane_agent_status_changed_workspace_id := x\<rparr>)]"

definition pane_agent_status_changed_event_codec :: "pane_agent_status_changed_event codec" where
  "pane_agent_status_changed_event_codec = struct_codec pane_agent_status_changed_event_zero pane_agent_status_changed_event_fields"

lemma pane_agent_status_changed_event_codec_lawful [simp]: "lawful (pane_agent_status_changed_event_codec)"
  unfolding pane_agent_status_changed_event_codec_def
proof (rule lawful_struct)
  show "distinct (map fld_name (pane_agent_status_changed_event_fields))" by (simp add: pane_agent_status_changed_event_fields_def field_names)
  show "list_all (\<lambda>f. fld_ok f r) (pane_agent_status_changed_event_fields) \<Longrightarrow> refill (pane_agent_status_changed_event_fields) r pane_agent_status_changed_event_zero = Some r" for r
    by (cases r) (simp add: pane_agent_status_changed_event_fields_def pane_agent_status_changed_event_zero_def refill_simps)
qed

lemma pane_agent_status_changed_event_codec_zero [simp]: "cod_zero (pane_agent_status_changed_event_codec) = pane_agent_status_changed_event_zero"
  by (simp add: pane_agent_status_changed_event_codec_def struct_codec_def)

definition pane_closed_event_fields :: "pane_closed_event field list" where
  "pane_closed_event_fields =
    [plain_field ''pane_id'' string_codec pane_closed_pane_id (\<lambda>x r. r\<lparr>pane_closed_pane_id := x\<rparr>),
     plain_field ''workspace_id'' string_codec pane_closed_workspace_id (\<lambda>x r. r\<lparr>pane_closed_workspace_id := x\<rparr>)]"

definition pane_closed_event_codec :: "pane_closed_event codec" where
  "pane_closed_event_codec = struct_codec pane_closed_event_zero pane_closed_event_fields"

lemma pane_closed_event_codec_lawful [simp]: "lawful (pane_closed_event_codec)"
  unfolding pane_closed_event_codec_def
proof (rule lawful_struct)
  show "distinct (map fld_name (pane_closed_event_fields))" by (simp add: pane_closed_event_fields_def field_names)
  show "list_all (\<lambda>f. fld_ok f r) (pane_closed_event_fields) \<Longrightarrow> refill (pane_closed_event_fields) r pane_closed_event_zero = Some r" for r
    by (cases r) (simp add: pane_closed_event_fields_def pane_closed_event_zero_def refill_simps)
qed

lemma pane_closed_event_codec_zero [simp]: "cod_zero (pane_closed_event_codec) = pane_closed_event_zero"
  by (simp add: pane_closed_event_codec_def struct_codec_def)

definition agent_session_info_fields :: "agent_session_info field list" where
  "agent_session_info_fields =
    [plain_field ''agent'' string_codec asi_agent (\<lambda>x r. r\<lparr>asi_agent := x\<rparr>),
     plain_field ''kind'' string_codec asi_kind (\<lambda>x r. r\<lparr>asi_kind := x\<rparr>),
     plain_field ''source'' string_codec asi_source (\<lambda>x r. r\<lparr>asi_source := x\<rparr>),
     plain_field ''value'' string_codec asi_value (\<lambda>x r. r\<lparr>asi_value := x\<rparr>)]"

definition agent_session_info_codec :: "agent_session_info codec" where
  "agent_session_info_codec = struct_codec agent_session_info_zero agent_session_info_fields"

lemma agent_session_info_codec_lawful [simp]: "lawful (agent_session_info_codec)"
  unfolding agent_session_info_codec_def
proof (rule lawful_struct)
  show "distinct (map fld_name (agent_session_info_fields))" by (simp add: agent_session_info_fields_def field_names)
  show "list_all (\<lambda>f. fld_ok f r) (agent_session_info_fields) \<Longrightarrow> refill (agent_session_info_fields) r agent_session_info_zero = Some r" for r
    by (cases r) (simp add: agent_session_info_fields_def agent_session_info_zero_def refill_simps)
qed

lemma agent_session_info_codec_zero [simp]: "cod_zero (agent_session_info_codec) = agent_session_info_zero"
  by (simp add: agent_session_info_codec_def struct_codec_def)

definition pane_scroll_info_fields :: "pane_scroll_info field list" where
  "pane_scroll_info_fields =
    [plain_field ''max_offset_from_bottom'' uint_codec psc_max_offset_from_bottom (\<lambda>x r. r\<lparr>psc_max_offset_from_bottom := x\<rparr>),
     plain_field ''offset_from_bottom'' uint_codec psc_offset_from_bottom (\<lambda>x r. r\<lparr>psc_offset_from_bottom := x\<rparr>),
     plain_field ''viewport_rows'' uint_codec psc_viewport_rows (\<lambda>x r. r\<lparr>psc_viewport_rows := x\<rparr>)]"

definition pane_scroll_info_codec :: "pane_scroll_info codec" where
  "pane_scroll_info_codec = struct_codec pane_scroll_info_zero pane_scroll_info_fields"

lemma pane_scroll_info_codec_lawful [simp]: "lawful (pane_scroll_info_codec)"
  unfolding pane_scroll_info_codec_def
proof (rule lawful_struct)
  show "distinct (map fld_name (pane_scroll_info_fields))" by (simp add: pane_scroll_info_fields_def field_names)
  show "list_all (\<lambda>f. fld_ok f r) (pane_scroll_info_fields) \<Longrightarrow> refill (pane_scroll_info_fields) r pane_scroll_info_zero = Some r" for r
    by (cases r) (simp add: pane_scroll_info_fields_def pane_scroll_info_zero_def refill_simps)
qed

lemma pane_scroll_info_codec_zero [simp]: "cod_zero (pane_scroll_info_codec) = pane_scroll_info_zero"
  by (simp add: pane_scroll_info_codec_def struct_codec_def)

definition pane_info_fields :: "pane_info field list" where
  "pane_info_fields =
    [optional_field ''agent'' string_codec pi_agent (\<lambda>x r. r\<lparr>pi_agent := x\<rparr>),
     optional_field ''agent_session'' agent_session_info_codec pi_agent_session (\<lambda>x r. r\<lparr>pi_agent_session := x\<rparr>),
     plain_field ''agent_status'' string_codec pi_agent_status (\<lambda>x r. r\<lparr>pi_agent_status := x\<rparr>),
     optional_field ''cwd'' string_codec pi_cwd (\<lambda>x r. r\<lparr>pi_cwd := x\<rparr>),
     optional_field ''display_agent'' string_codec pi_display_agent (\<lambda>x r. r\<lparr>pi_display_agent := x\<rparr>),
     plain_field ''focused'' bool_codec pi_focused (\<lambda>x r. r\<lparr>pi_focused := x\<rparr>),
     optional_field ''foreground_cwd'' string_codec pi_foreground_cwd (\<lambda>x r. r\<lparr>pi_foreground_cwd := x\<rparr>),
     optional_field ''label'' string_codec pi_label (\<lambda>x r. r\<lparr>pi_label := x\<rparr>),
     plain_field ''pane_id'' string_codec pi_pane_id (\<lambda>x r. r\<lparr>pi_pane_id := x\<rparr>),
     optional_field ''restore_error'' string_codec pi_restore_error (\<lambda>x r. r\<lparr>pi_restore_error := x\<rparr>),
     plain_field ''revision'' uint_codec pi_revision (\<lambda>x r. r\<lparr>pi_revision := x\<rparr>),
     optional_field ''scroll'' pane_scroll_info_codec pi_scroll (\<lambda>x r. r\<lparr>pi_scroll := x\<rparr>),
     optional_field ''state_labels'' (map_codec string_codec) pi_state_labels (\<lambda>x r. r\<lparr>pi_state_labels := x\<rparr>),
     plain_field ''tab_id'' string_codec pi_tab_id (\<lambda>x r. r\<lparr>pi_tab_id := x\<rparr>),
     plain_field ''terminal_id'' string_codec pi_terminal_id (\<lambda>x r. r\<lparr>pi_terminal_id := x\<rparr>),
     optional_field ''terminal_title'' string_codec pi_terminal_title (\<lambda>x r. r\<lparr>pi_terminal_title := x\<rparr>),
     optional_field ''terminal_title_stripped'' string_codec pi_terminal_title_stripped (\<lambda>x r. r\<lparr>pi_terminal_title_stripped := x\<rparr>),
     optional_field ''title'' string_codec pi_title (\<lambda>x r. r\<lparr>pi_title := x\<rparr>),
     optional_field ''tokens'' (map_codec string_codec) pi_tokens (\<lambda>x r. r\<lparr>pi_tokens := x\<rparr>),
     plain_field ''workspace_id'' string_codec pi_workspace_id (\<lambda>x r. r\<lparr>pi_workspace_id := x\<rparr>)]"

definition pane_info_codec :: "pane_info codec" where
  "pane_info_codec = struct_codec pane_info_zero pane_info_fields"

lemma pane_info_codec_lawful [simp]: "lawful (pane_info_codec)"
  unfolding pane_info_codec_def
proof (rule lawful_struct)
  show "distinct (map fld_name (pane_info_fields))" by (simp add: pane_info_fields_def field_names)
  show "list_all (\<lambda>f. fld_ok f r) (pane_info_fields) \<Longrightarrow> refill (pane_info_fields) r pane_info_zero = Some r" for r
    by (cases r) (simp add: pane_info_fields_def pane_info_zero_def refill_simps)
qed

lemma pane_info_codec_zero [simp]: "cod_zero (pane_info_codec) = pane_info_zero"
  by (simp add: pane_info_codec_def struct_codec_def)

definition pane_created_event_fields :: "pane_created_event field list" where
  "pane_created_event_fields =
    [plain_field ''pane'' pane_info_codec pane_created_pane (\<lambda>x r. r\<lparr>pane_created_pane := x\<rparr>)]"

definition pane_created_event_codec :: "pane_created_event codec" where
  "pane_created_event_codec = struct_codec pane_created_event_zero pane_created_event_fields"

lemma pane_created_event_codec_lawful [simp]: "lawful (pane_created_event_codec)"
  unfolding pane_created_event_codec_def
proof (rule lawful_struct)
  show "distinct (map fld_name (pane_created_event_fields))" by (simp add: pane_created_event_fields_def field_names)
  show "list_all (\<lambda>f. fld_ok f r) (pane_created_event_fields) \<Longrightarrow> refill (pane_created_event_fields) r pane_created_event_zero = Some r" for r
    by (cases r) (simp add: pane_created_event_fields_def pane_created_event_zero_def refill_simps)
qed

lemma pane_created_event_codec_zero [simp]: "cod_zero (pane_created_event_codec) = pane_created_event_zero"
  by (simp add: pane_created_event_codec_def struct_codec_def)

definition pane_exited_event_fields :: "pane_exited_event field list" where
  "pane_exited_event_fields =
    [plain_field ''pane_id'' string_codec pane_exited_pane_id (\<lambda>x r. r\<lparr>pane_exited_pane_id := x\<rparr>),
     plain_field ''workspace_id'' string_codec pane_exited_workspace_id (\<lambda>x r. r\<lparr>pane_exited_workspace_id := x\<rparr>)]"

definition pane_exited_event_codec :: "pane_exited_event codec" where
  "pane_exited_event_codec = struct_codec pane_exited_event_zero pane_exited_event_fields"

lemma pane_exited_event_codec_lawful [simp]: "lawful (pane_exited_event_codec)"
  unfolding pane_exited_event_codec_def
proof (rule lawful_struct)
  show "distinct (map fld_name (pane_exited_event_fields))" by (simp add: pane_exited_event_fields_def field_names)
  show "list_all (\<lambda>f. fld_ok f r) (pane_exited_event_fields) \<Longrightarrow> refill (pane_exited_event_fields) r pane_exited_event_zero = Some r" for r
    by (cases r) (simp add: pane_exited_event_fields_def pane_exited_event_zero_def refill_simps)
qed

lemma pane_exited_event_codec_zero [simp]: "cod_zero (pane_exited_event_codec) = pane_exited_event_zero"
  by (simp add: pane_exited_event_codec_def struct_codec_def)

definition pane_focused_event_fields :: "pane_focused_event field list" where
  "pane_focused_event_fields =
    [plain_field ''pane_id'' string_codec pane_focused_pane_id (\<lambda>x r. r\<lparr>pane_focused_pane_id := x\<rparr>),
     plain_field ''workspace_id'' string_codec pane_focused_workspace_id (\<lambda>x r. r\<lparr>pane_focused_workspace_id := x\<rparr>)]"

definition pane_focused_event_codec :: "pane_focused_event codec" where
  "pane_focused_event_codec = struct_codec pane_focused_event_zero pane_focused_event_fields"

lemma pane_focused_event_codec_lawful [simp]: "lawful (pane_focused_event_codec)"
  unfolding pane_focused_event_codec_def
proof (rule lawful_struct)
  show "distinct (map fld_name (pane_focused_event_fields))" by (simp add: pane_focused_event_fields_def field_names)
  show "list_all (\<lambda>f. fld_ok f r) (pane_focused_event_fields) \<Longrightarrow> refill (pane_focused_event_fields) r pane_focused_event_zero = Some r" for r
    by (cases r) (simp add: pane_focused_event_fields_def pane_focused_event_zero_def refill_simps)
qed

lemma pane_focused_event_codec_zero [simp]: "cod_zero (pane_focused_event_codec) = pane_focused_event_zero"
  by (simp add: pane_focused_event_codec_def struct_codec_def)

definition tab_info_fields :: "tab_info field list" where
  "tab_info_fields =
    [plain_field ''agent_status'' string_codec ti_agent_status (\<lambda>x r. r\<lparr>ti_agent_status := x\<rparr>),
     plain_field ''focused'' bool_codec ti_focused (\<lambda>x r. r\<lparr>ti_focused := x\<rparr>),
     plain_field ''label'' string_codec ti_label (\<lambda>x r. r\<lparr>ti_label := x\<rparr>),
     plain_field ''number'' uint_codec ti_number (\<lambda>x r. r\<lparr>ti_number := x\<rparr>),
     plain_field ''pane_count'' uint_codec ti_pane_count (\<lambda>x r. r\<lparr>ti_pane_count := x\<rparr>),
     plain_field ''tab_id'' string_codec ti_tab_id (\<lambda>x r. r\<lparr>ti_tab_id := x\<rparr>),
     plain_field ''workspace_id'' string_codec ti_workspace_id (\<lambda>x r. r\<lparr>ti_workspace_id := x\<rparr>)]"

definition tab_info_codec :: "tab_info codec" where
  "tab_info_codec = struct_codec tab_info_zero tab_info_fields"

lemma tab_info_codec_lawful [simp]: "lawful (tab_info_codec)"
  unfolding tab_info_codec_def
proof (rule lawful_struct)
  show "distinct (map fld_name (tab_info_fields))" by (simp add: tab_info_fields_def field_names)
  show "list_all (\<lambda>f. fld_ok f r) (tab_info_fields) \<Longrightarrow> refill (tab_info_fields) r tab_info_zero = Some r" for r
    by (cases r) (simp add: tab_info_fields_def tab_info_zero_def refill_simps)
qed

lemma tab_info_codec_zero [simp]: "cod_zero (tab_info_codec) = tab_info_zero"
  by (simp add: tab_info_codec_def struct_codec_def)

definition workspace_worktree_info_fields :: "workspace_worktree_info field list" where
  "workspace_worktree_info_fields =
    [plain_field ''checkout_path'' string_codec wwi_checkout_path (\<lambda>x r. r\<lparr>wwi_checkout_path := x\<rparr>),
     plain_field ''is_linked_worktree'' bool_codec wwi_is_linked_worktree (\<lambda>x r. r\<lparr>wwi_is_linked_worktree := x\<rparr>),
     plain_field ''repo_key'' string_codec wwi_repo_key (\<lambda>x r. r\<lparr>wwi_repo_key := x\<rparr>),
     plain_field ''repo_name'' string_codec wwi_repo_name (\<lambda>x r. r\<lparr>wwi_repo_name := x\<rparr>),
     plain_field ''repo_root'' string_codec wwi_repo_root (\<lambda>x r. r\<lparr>wwi_repo_root := x\<rparr>)]"

definition workspace_worktree_info_codec :: "workspace_worktree_info codec" where
  "workspace_worktree_info_codec = struct_codec workspace_worktree_info_zero workspace_worktree_info_fields"

lemma workspace_worktree_info_codec_lawful [simp]: "lawful (workspace_worktree_info_codec)"
  unfolding workspace_worktree_info_codec_def
proof (rule lawful_struct)
  show "distinct (map fld_name (workspace_worktree_info_fields))" by (simp add: workspace_worktree_info_fields_def field_names)
  show "list_all (\<lambda>f. fld_ok f r) (workspace_worktree_info_fields) \<Longrightarrow> refill (workspace_worktree_info_fields) r workspace_worktree_info_zero = Some r" for r
    by (cases r) (simp add: workspace_worktree_info_fields_def workspace_worktree_info_zero_def refill_simps)
qed

lemma workspace_worktree_info_codec_zero [simp]: "cod_zero (workspace_worktree_info_codec) = workspace_worktree_info_zero"
  by (simp add: workspace_worktree_info_codec_def struct_codec_def)

definition workspace_info_fields :: "workspace_info field list" where
  "workspace_info_fields =
    [plain_field ''active_tab_id'' string_codec wi_active_tab_id (\<lambda>x r. r\<lparr>wi_active_tab_id := x\<rparr>),
     plain_field ''agent_status'' string_codec wi_agent_status (\<lambda>x r. r\<lparr>wi_agent_status := x\<rparr>),
     plain_field ''focused'' bool_codec wi_focused (\<lambda>x r. r\<lparr>wi_focused := x\<rparr>),
     plain_field ''label'' string_codec wi_label (\<lambda>x r. r\<lparr>wi_label := x\<rparr>),
     plain_field ''number'' uint_codec wi_number (\<lambda>x r. r\<lparr>wi_number := x\<rparr>),
     plain_field ''pane_count'' uint_codec wi_pane_count (\<lambda>x r. r\<lparr>wi_pane_count := x\<rparr>),
     plain_field ''tab_count'' uint_codec wi_tab_count (\<lambda>x r. r\<lparr>wi_tab_count := x\<rparr>),
     optional_field ''tokens'' (map_codec string_codec) wi_tokens (\<lambda>x r. r\<lparr>wi_tokens := x\<rparr>),
     plain_field ''workspace_id'' string_codec wi_workspace_id (\<lambda>x r. r\<lparr>wi_workspace_id := x\<rparr>),
     optional_field ''worktree'' workspace_worktree_info_codec wi_worktree (\<lambda>x r. r\<lparr>wi_worktree := x\<rparr>)]"

definition workspace_info_codec :: "workspace_info codec" where
  "workspace_info_codec = struct_codec workspace_info_zero workspace_info_fields"

lemma workspace_info_codec_lawful [simp]: "lawful (workspace_info_codec)"
  unfolding workspace_info_codec_def
proof (rule lawful_struct)
  show "distinct (map fld_name (workspace_info_fields))" by (simp add: workspace_info_fields_def field_names)
  show "list_all (\<lambda>f. fld_ok f r) (workspace_info_fields) \<Longrightarrow> refill (workspace_info_fields) r workspace_info_zero = Some r" for r
    by (cases r) (simp add: workspace_info_fields_def workspace_info_zero_def refill_simps)
qed

lemma workspace_info_codec_zero [simp]: "cod_zero (workspace_info_codec) = workspace_info_zero"
  by (simp add: workspace_info_codec_def struct_codec_def)

definition pane_moved_event_fields :: "pane_moved_event field list" where
  "pane_moved_event_fields =
    [optional_field ''closed_tab_id'' string_codec pane_moved_closed_tab_id (\<lambda>x r. r\<lparr>pane_moved_closed_tab_id := x\<rparr>),
     optional_field ''closed_workspace_id'' string_codec pane_moved_closed_workspace_id (\<lambda>x r. r\<lparr>pane_moved_closed_workspace_id := x\<rparr>),
     optional_field ''created_tab'' tab_info_codec pane_moved_created_tab (\<lambda>x r. r\<lparr>pane_moved_created_tab := x\<rparr>),
     optional_field ''created_workspace'' workspace_info_codec pane_moved_created_workspace (\<lambda>x r. r\<lparr>pane_moved_created_workspace := x\<rparr>),
     plain_field ''pane'' pane_info_codec pane_moved_pane (\<lambda>x r. r\<lparr>pane_moved_pane := x\<rparr>),
     plain_field ''previous_pane_id'' string_codec pane_moved_previous_pane_id (\<lambda>x r. r\<lparr>pane_moved_previous_pane_id := x\<rparr>),
     plain_field ''previous_tab_id'' string_codec pane_moved_previous_tab_id (\<lambda>x r. r\<lparr>pane_moved_previous_tab_id := x\<rparr>),
     plain_field ''previous_workspace_id'' string_codec pane_moved_previous_workspace_id (\<lambda>x r. r\<lparr>pane_moved_previous_workspace_id := x\<rparr>)]"

definition pane_moved_event_codec :: "pane_moved_event codec" where
  "pane_moved_event_codec = struct_codec pane_moved_event_zero pane_moved_event_fields"

lemma pane_moved_event_codec_lawful [simp]: "lawful (pane_moved_event_codec)"
  unfolding pane_moved_event_codec_def
proof (rule lawful_struct)
  show "distinct (map fld_name (pane_moved_event_fields))" by (simp add: pane_moved_event_fields_def field_names)
  show "list_all (\<lambda>f. fld_ok f r) (pane_moved_event_fields) \<Longrightarrow> refill (pane_moved_event_fields) r pane_moved_event_zero = Some r" for r
    by (cases r) (simp add: pane_moved_event_fields_def pane_moved_event_zero_def refill_simps)
qed

lemma pane_moved_event_codec_zero [simp]: "cod_zero (pane_moved_event_codec) = pane_moved_event_zero"
  by (simp add: pane_moved_event_codec_def struct_codec_def)

definition pane_output_changed_event_fields :: "pane_output_changed_event field list" where
  "pane_output_changed_event_fields =
    [plain_field ''pane_id'' string_codec pane_output_changed_pane_id (\<lambda>x r. r\<lparr>pane_output_changed_pane_id := x\<rparr>),
     plain_field ''revision'' uint_codec pane_output_changed_revision (\<lambda>x r. r\<lparr>pane_output_changed_revision := x\<rparr>),
     plain_field ''workspace_id'' string_codec pane_output_changed_workspace_id (\<lambda>x r. r\<lparr>pane_output_changed_workspace_id := x\<rparr>)]"

definition pane_output_changed_event_codec :: "pane_output_changed_event codec" where
  "pane_output_changed_event_codec = struct_codec pane_output_changed_event_zero pane_output_changed_event_fields"

lemma pane_output_changed_event_codec_lawful [simp]: "lawful (pane_output_changed_event_codec)"
  unfolding pane_output_changed_event_codec_def
proof (rule lawful_struct)
  show "distinct (map fld_name (pane_output_changed_event_fields))" by (simp add: pane_output_changed_event_fields_def field_names)
  show "list_all (\<lambda>f. fld_ok f r) (pane_output_changed_event_fields) \<Longrightarrow> refill (pane_output_changed_event_fields) r pane_output_changed_event_zero = Some r" for r
    by (cases r) (simp add: pane_output_changed_event_fields_def pane_output_changed_event_zero_def refill_simps)
qed

lemma pane_output_changed_event_codec_zero [simp]: "cod_zero (pane_output_changed_event_codec) = pane_output_changed_event_zero"
  by (simp add: pane_output_changed_event_codec_def struct_codec_def)

definition pane_read_result_fields :: "pane_read_result field list" where
  "pane_read_result_fields =
    [plain_field ''format'' string_codec prr_format (\<lambda>x r. r\<lparr>prr_format := x\<rparr>),
     plain_field ''pane_id'' string_codec prr_pane_id (\<lambda>x r. r\<lparr>prr_pane_id := x\<rparr>),
     plain_field ''revision'' uint_codec prr_revision (\<lambda>x r. r\<lparr>prr_revision := x\<rparr>),
     plain_field ''source'' string_codec prr_source (\<lambda>x r. r\<lparr>prr_source := x\<rparr>),
     plain_field ''tab_id'' string_codec prr_tab_id (\<lambda>x r. r\<lparr>prr_tab_id := x\<rparr>),
     plain_field ''text'' string_codec prr_text (\<lambda>x r. r\<lparr>prr_text := x\<rparr>),
     plain_field ''truncated'' bool_codec prr_truncated (\<lambda>x r. r\<lparr>prr_truncated := x\<rparr>),
     plain_field ''workspace_id'' string_codec prr_workspace_id (\<lambda>x r. r\<lparr>prr_workspace_id := x\<rparr>)]"

definition pane_read_result_codec :: "pane_read_result codec" where
  "pane_read_result_codec = struct_codec pane_read_result_zero pane_read_result_fields"

lemma pane_read_result_codec_lawful [simp]: "lawful (pane_read_result_codec)"
  unfolding pane_read_result_codec_def
proof (rule lawful_struct)
  show "distinct (map fld_name (pane_read_result_fields))" by (simp add: pane_read_result_fields_def field_names)
  show "list_all (\<lambda>f. fld_ok f r) (pane_read_result_fields) \<Longrightarrow> refill (pane_read_result_fields) r pane_read_result_zero = Some r" for r
    by (cases r) (simp add: pane_read_result_fields_def pane_read_result_zero_def refill_simps)
qed

lemma pane_read_result_codec_zero [simp]: "cod_zero (pane_read_result_codec) = pane_read_result_zero"
  by (simp add: pane_read_result_codec_def struct_codec_def)

definition pane_output_matched_event_fields :: "pane_output_matched_event field list" where
  "pane_output_matched_event_fields =
    [plain_field ''matched_line'' string_codec pane_output_matched_matched_line (\<lambda>x r. r\<lparr>pane_output_matched_matched_line := x\<rparr>),
     plain_field ''pane_id'' string_codec pane_output_matched_pane_id (\<lambda>x r. r\<lparr>pane_output_matched_pane_id := x\<rparr>),
     plain_field ''read'' pane_read_result_codec pane_output_matched_read (\<lambda>x r. r\<lparr>pane_output_matched_read := x\<rparr>)]"

definition pane_output_matched_event_codec :: "pane_output_matched_event codec" where
  "pane_output_matched_event_codec = struct_codec pane_output_matched_event_zero pane_output_matched_event_fields"

lemma pane_output_matched_event_codec_lawful [simp]: "lawful (pane_output_matched_event_codec)"
  unfolding pane_output_matched_event_codec_def
proof (rule lawful_struct)
  show "distinct (map fld_name (pane_output_matched_event_fields))" by (simp add: pane_output_matched_event_fields_def field_names)
  show "list_all (\<lambda>f. fld_ok f r) (pane_output_matched_event_fields) \<Longrightarrow> refill (pane_output_matched_event_fields) r pane_output_matched_event_zero = Some r" for r
    by (cases r) (simp add: pane_output_matched_event_fields_def pane_output_matched_event_zero_def refill_simps)
qed

lemma pane_output_matched_event_codec_zero [simp]: "cod_zero (pane_output_matched_event_codec) = pane_output_matched_event_zero"
  by (simp add: pane_output_matched_event_codec_def struct_codec_def)

definition pane_scroll_changed_event_fields :: "pane_scroll_changed_event field list" where
  "pane_scroll_changed_event_fields =
    [plain_field ''pane_id'' string_codec pane_scroll_changed_pane_id (\<lambda>x r. r\<lparr>pane_scroll_changed_pane_id := x\<rparr>),
     plain_field ''scroll'' pane_scroll_info_codec pane_scroll_changed_scroll (\<lambda>x r. r\<lparr>pane_scroll_changed_scroll := x\<rparr>),
     plain_field ''workspace_id'' string_codec pane_scroll_changed_workspace_id (\<lambda>x r. r\<lparr>pane_scroll_changed_workspace_id := x\<rparr>)]"

definition pane_scroll_changed_event_codec :: "pane_scroll_changed_event codec" where
  "pane_scroll_changed_event_codec = struct_codec pane_scroll_changed_event_zero pane_scroll_changed_event_fields"

lemma pane_scroll_changed_event_codec_lawful [simp]: "lawful (pane_scroll_changed_event_codec)"
  unfolding pane_scroll_changed_event_codec_def
proof (rule lawful_struct)
  show "distinct (map fld_name (pane_scroll_changed_event_fields))" by (simp add: pane_scroll_changed_event_fields_def field_names)
  show "list_all (\<lambda>f. fld_ok f r) (pane_scroll_changed_event_fields) \<Longrightarrow> refill (pane_scroll_changed_event_fields) r pane_scroll_changed_event_zero = Some r" for r
    by (cases r) (simp add: pane_scroll_changed_event_fields_def pane_scroll_changed_event_zero_def refill_simps)
qed

lemma pane_scroll_changed_event_codec_zero [simp]: "cod_zero (pane_scroll_changed_event_codec) = pane_scroll_changed_event_zero"
  by (simp add: pane_scroll_changed_event_codec_def struct_codec_def)

definition pane_updated_event_fields :: "pane_updated_event field list" where
  "pane_updated_event_fields =
    [plain_field ''pane'' pane_info_codec pane_updated_pane (\<lambda>x r. r\<lparr>pane_updated_pane := x\<rparr>)]"

definition pane_updated_event_codec :: "pane_updated_event codec" where
  "pane_updated_event_codec = struct_codec pane_updated_event_zero pane_updated_event_fields"

lemma pane_updated_event_codec_lawful [simp]: "lawful (pane_updated_event_codec)"
  unfolding pane_updated_event_codec_def
proof (rule lawful_struct)
  show "distinct (map fld_name (pane_updated_event_fields))" by (simp add: pane_updated_event_fields_def field_names)
  show "list_all (\<lambda>f. fld_ok f r) (pane_updated_event_fields) \<Longrightarrow> refill (pane_updated_event_fields) r pane_updated_event_zero = Some r" for r
    by (cases r) (simp add: pane_updated_event_fields_def pane_updated_event_zero_def refill_simps)
qed

lemma pane_updated_event_codec_zero [simp]: "cod_zero (pane_updated_event_codec) = pane_updated_event_zero"
  by (simp add: pane_updated_event_codec_def struct_codec_def)

definition tab_closed_event_fields :: "tab_closed_event field list" where
  "tab_closed_event_fields =
    [plain_field ''tab_id'' string_codec tab_closed_tab_id (\<lambda>x r. r\<lparr>tab_closed_tab_id := x\<rparr>),
     plain_field ''workspace_id'' string_codec tab_closed_workspace_id (\<lambda>x r. r\<lparr>tab_closed_workspace_id := x\<rparr>)]"

definition tab_closed_event_codec :: "tab_closed_event codec" where
  "tab_closed_event_codec = struct_codec tab_closed_event_zero tab_closed_event_fields"

lemma tab_closed_event_codec_lawful [simp]: "lawful (tab_closed_event_codec)"
  unfolding tab_closed_event_codec_def
proof (rule lawful_struct)
  show "distinct (map fld_name (tab_closed_event_fields))" by (simp add: tab_closed_event_fields_def field_names)
  show "list_all (\<lambda>f. fld_ok f r) (tab_closed_event_fields) \<Longrightarrow> refill (tab_closed_event_fields) r tab_closed_event_zero = Some r" for r
    by (cases r) (simp add: tab_closed_event_fields_def tab_closed_event_zero_def refill_simps)
qed

lemma tab_closed_event_codec_zero [simp]: "cod_zero (tab_closed_event_codec) = tab_closed_event_zero"
  by (simp add: tab_closed_event_codec_def struct_codec_def)

definition tab_created_event_fields :: "tab_created_event field list" where
  "tab_created_event_fields =
    [plain_field ''tab'' tab_info_codec tab_created_tab (\<lambda>x r. r\<lparr>tab_created_tab := x\<rparr>)]"

definition tab_created_event_codec :: "tab_created_event codec" where
  "tab_created_event_codec = struct_codec tab_created_event_zero tab_created_event_fields"

lemma tab_created_event_codec_lawful [simp]: "lawful (tab_created_event_codec)"
  unfolding tab_created_event_codec_def
proof (rule lawful_struct)
  show "distinct (map fld_name (tab_created_event_fields))" by (simp add: tab_created_event_fields_def field_names)
  show "list_all (\<lambda>f. fld_ok f r) (tab_created_event_fields) \<Longrightarrow> refill (tab_created_event_fields) r tab_created_event_zero = Some r" for r
    by (cases r) (simp add: tab_created_event_fields_def tab_created_event_zero_def refill_simps)
qed

lemma tab_created_event_codec_zero [simp]: "cod_zero (tab_created_event_codec) = tab_created_event_zero"
  by (simp add: tab_created_event_codec_def struct_codec_def)

definition tab_focused_event_fields :: "tab_focused_event field list" where
  "tab_focused_event_fields =
    [plain_field ''tab_id'' string_codec tab_focused_tab_id (\<lambda>x r. r\<lparr>tab_focused_tab_id := x\<rparr>),
     plain_field ''workspace_id'' string_codec tab_focused_workspace_id (\<lambda>x r. r\<lparr>tab_focused_workspace_id := x\<rparr>)]"

definition tab_focused_event_codec :: "tab_focused_event codec" where
  "tab_focused_event_codec = struct_codec tab_focused_event_zero tab_focused_event_fields"

lemma tab_focused_event_codec_lawful [simp]: "lawful (tab_focused_event_codec)"
  unfolding tab_focused_event_codec_def
proof (rule lawful_struct)
  show "distinct (map fld_name (tab_focused_event_fields))" by (simp add: tab_focused_event_fields_def field_names)
  show "list_all (\<lambda>f. fld_ok f r) (tab_focused_event_fields) \<Longrightarrow> refill (tab_focused_event_fields) r tab_focused_event_zero = Some r" for r
    by (cases r) (simp add: tab_focused_event_fields_def tab_focused_event_zero_def refill_simps)
qed

lemma tab_focused_event_codec_zero [simp]: "cod_zero (tab_focused_event_codec) = tab_focused_event_zero"
  by (simp add: tab_focused_event_codec_def struct_codec_def)

definition tab_moved_event_fields :: "tab_moved_event field list" where
  "tab_moved_event_fields =
    [plain_field ''insert_index'' uint_codec tab_moved_insert_index (\<lambda>x r. r\<lparr>tab_moved_insert_index := x\<rparr>),
     plain_field ''tab_id'' string_codec tab_moved_tab_id (\<lambda>x r. r\<lparr>tab_moved_tab_id := x\<rparr>),
     plain_field ''tabs'' (slice_codec tab_info_codec) tab_moved_tabs (\<lambda>x r. r\<lparr>tab_moved_tabs := x\<rparr>),
     plain_field ''workspace_id'' string_codec tab_moved_workspace_id (\<lambda>x r. r\<lparr>tab_moved_workspace_id := x\<rparr>)]"

definition tab_moved_event_codec :: "tab_moved_event codec" where
  "tab_moved_event_codec = struct_codec tab_moved_event_zero tab_moved_event_fields"

lemma tab_moved_event_codec_lawful [simp]: "lawful (tab_moved_event_codec)"
  unfolding tab_moved_event_codec_def
proof (rule lawful_struct)
  show "distinct (map fld_name (tab_moved_event_fields))" by (simp add: tab_moved_event_fields_def field_names)
  show "list_all (\<lambda>f. fld_ok f r) (tab_moved_event_fields) \<Longrightarrow> refill (tab_moved_event_fields) r tab_moved_event_zero = Some r" for r
    by (cases r) (simp add: tab_moved_event_fields_def tab_moved_event_zero_def refill_simps)
qed

lemma tab_moved_event_codec_zero [simp]: "cod_zero (tab_moved_event_codec) = tab_moved_event_zero"
  by (simp add: tab_moved_event_codec_def struct_codec_def)

definition tab_renamed_event_fields :: "tab_renamed_event field list" where
  "tab_renamed_event_fields =
    [plain_field ''label'' string_codec tab_renamed_label (\<lambda>x r. r\<lparr>tab_renamed_label := x\<rparr>),
     plain_field ''tab_id'' string_codec tab_renamed_tab_id (\<lambda>x r. r\<lparr>tab_renamed_tab_id := x\<rparr>),
     plain_field ''workspace_id'' string_codec tab_renamed_workspace_id (\<lambda>x r. r\<lparr>tab_renamed_workspace_id := x\<rparr>)]"

definition tab_renamed_event_codec :: "tab_renamed_event codec" where
  "tab_renamed_event_codec = struct_codec tab_renamed_event_zero tab_renamed_event_fields"

lemma tab_renamed_event_codec_lawful [simp]: "lawful (tab_renamed_event_codec)"
  unfolding tab_renamed_event_codec_def
proof (rule lawful_struct)
  show "distinct (map fld_name (tab_renamed_event_fields))" by (simp add: tab_renamed_event_fields_def field_names)
  show "list_all (\<lambda>f. fld_ok f r) (tab_renamed_event_fields) \<Longrightarrow> refill (tab_renamed_event_fields) r tab_renamed_event_zero = Some r" for r
    by (cases r) (simp add: tab_renamed_event_fields_def tab_renamed_event_zero_def refill_simps)
qed

lemma tab_renamed_event_codec_zero [simp]: "cod_zero (tab_renamed_event_codec) = tab_renamed_event_zero"
  by (simp add: tab_renamed_event_codec_def struct_codec_def)

definition workspace_closed_event_fields :: "workspace_closed_event field list" where
  "workspace_closed_event_fields =
    [optional_field ''workspace'' workspace_info_codec workspace_closed_workspace (\<lambda>x r. r\<lparr>workspace_closed_workspace := x\<rparr>),
     plain_field ''workspace_id'' string_codec workspace_closed_workspace_id (\<lambda>x r. r\<lparr>workspace_closed_workspace_id := x\<rparr>)]"

definition workspace_closed_event_codec :: "workspace_closed_event codec" where
  "workspace_closed_event_codec = struct_codec workspace_closed_event_zero workspace_closed_event_fields"

lemma workspace_closed_event_codec_lawful [simp]: "lawful (workspace_closed_event_codec)"
  unfolding workspace_closed_event_codec_def
proof (rule lawful_struct)
  show "distinct (map fld_name (workspace_closed_event_fields))" by (simp add: workspace_closed_event_fields_def field_names)
  show "list_all (\<lambda>f. fld_ok f r) (workspace_closed_event_fields) \<Longrightarrow> refill (workspace_closed_event_fields) r workspace_closed_event_zero = Some r" for r
    by (cases r) (simp add: workspace_closed_event_fields_def workspace_closed_event_zero_def refill_simps)
qed

lemma workspace_closed_event_codec_zero [simp]: "cod_zero (workspace_closed_event_codec) = workspace_closed_event_zero"
  by (simp add: workspace_closed_event_codec_def struct_codec_def)

definition workspace_created_event_fields :: "workspace_created_event field list" where
  "workspace_created_event_fields =
    [plain_field ''workspace'' workspace_info_codec workspace_created_workspace (\<lambda>x r. r\<lparr>workspace_created_workspace := x\<rparr>)]"

definition workspace_created_event_codec :: "workspace_created_event codec" where
  "workspace_created_event_codec = struct_codec workspace_created_event_zero workspace_created_event_fields"

lemma workspace_created_event_codec_lawful [simp]: "lawful (workspace_created_event_codec)"
  unfolding workspace_created_event_codec_def
proof (rule lawful_struct)
  show "distinct (map fld_name (workspace_created_event_fields))" by (simp add: workspace_created_event_fields_def field_names)
  show "list_all (\<lambda>f. fld_ok f r) (workspace_created_event_fields) \<Longrightarrow> refill (workspace_created_event_fields) r workspace_created_event_zero = Some r" for r
    by (cases r) (simp add: workspace_created_event_fields_def workspace_created_event_zero_def refill_simps)
qed

lemma workspace_created_event_codec_zero [simp]: "cod_zero (workspace_created_event_codec) = workspace_created_event_zero"
  by (simp add: workspace_created_event_codec_def struct_codec_def)

definition workspace_focused_event_fields :: "workspace_focused_event field list" where
  "workspace_focused_event_fields =
    [plain_field ''workspace_id'' string_codec workspace_focused_workspace_id (\<lambda>x r. r\<lparr>workspace_focused_workspace_id := x\<rparr>)]"

definition workspace_focused_event_codec :: "workspace_focused_event codec" where
  "workspace_focused_event_codec = struct_codec workspace_focused_event_zero workspace_focused_event_fields"

lemma workspace_focused_event_codec_lawful [simp]: "lawful (workspace_focused_event_codec)"
  unfolding workspace_focused_event_codec_def
proof (rule lawful_struct)
  show "distinct (map fld_name (workspace_focused_event_fields))" by (simp add: workspace_focused_event_fields_def field_names)
  show "list_all (\<lambda>f. fld_ok f r) (workspace_focused_event_fields) \<Longrightarrow> refill (workspace_focused_event_fields) r workspace_focused_event_zero = Some r" for r
    by (cases r) (simp add: workspace_focused_event_fields_def workspace_focused_event_zero_def refill_simps)
qed

lemma workspace_focused_event_codec_zero [simp]: "cod_zero (workspace_focused_event_codec) = workspace_focused_event_zero"
  by (simp add: workspace_focused_event_codec_def struct_codec_def)

definition workspace_metadata_updated_event_fields :: "workspace_metadata_updated_event field list" where
  "workspace_metadata_updated_event_fields =
    [plain_field ''workspace'' workspace_info_codec workspace_metadata_updated_workspace (\<lambda>x r. r\<lparr>workspace_metadata_updated_workspace := x\<rparr>)]"

definition workspace_metadata_updated_event_codec :: "workspace_metadata_updated_event codec" where
  "workspace_metadata_updated_event_codec = struct_codec workspace_metadata_updated_event_zero workspace_metadata_updated_event_fields"

lemma workspace_metadata_updated_event_codec_lawful [simp]: "lawful (workspace_metadata_updated_event_codec)"
  unfolding workspace_metadata_updated_event_codec_def
proof (rule lawful_struct)
  show "distinct (map fld_name (workspace_metadata_updated_event_fields))" by (simp add: workspace_metadata_updated_event_fields_def field_names)
  show "list_all (\<lambda>f. fld_ok f r) (workspace_metadata_updated_event_fields) \<Longrightarrow> refill (workspace_metadata_updated_event_fields) r workspace_metadata_updated_event_zero = Some r" for r
    by (cases r) (simp add: workspace_metadata_updated_event_fields_def workspace_metadata_updated_event_zero_def refill_simps)
qed

lemma workspace_metadata_updated_event_codec_zero [simp]: "cod_zero (workspace_metadata_updated_event_codec) = workspace_metadata_updated_event_zero"
  by (simp add: workspace_metadata_updated_event_codec_def struct_codec_def)

definition workspace_moved_event_fields :: "workspace_moved_event field list" where
  "workspace_moved_event_fields =
    [plain_field ''insert_index'' uint_codec workspace_moved_insert_index (\<lambda>x r. r\<lparr>workspace_moved_insert_index := x\<rparr>),
     plain_field ''workspace_id'' string_codec workspace_moved_workspace_id (\<lambda>x r. r\<lparr>workspace_moved_workspace_id := x\<rparr>),
     plain_field ''workspaces'' (slice_codec workspace_info_codec) workspace_moved_workspaces (\<lambda>x r. r\<lparr>workspace_moved_workspaces := x\<rparr>)]"

definition workspace_moved_event_codec :: "workspace_moved_event codec" where
  "workspace_moved_event_codec = struct_codec workspace_moved_event_zero workspace_moved_event_fields"

lemma workspace_moved_event_codec_lawful [simp]: "lawful (workspace_moved_event_codec)"
  unfolding workspace_moved_event_codec_def
proof (rule lawful_struct)
  show "distinct (map fld_name (workspace_moved_event_fields))" by (simp add: workspace_moved_event_fields_def field_names)
  show "list_all (\<lambda>f. fld_ok f r) (workspace_moved_event_fields) \<Longrightarrow> refill (workspace_moved_event_fields) r workspace_moved_event_zero = Some r" for r
    by (cases r) (simp add: workspace_moved_event_fields_def workspace_moved_event_zero_def refill_simps)
qed

lemma workspace_moved_event_codec_zero [simp]: "cod_zero (workspace_moved_event_codec) = workspace_moved_event_zero"
  by (simp add: workspace_moved_event_codec_def struct_codec_def)

definition workspace_renamed_event_fields :: "workspace_renamed_event field list" where
  "workspace_renamed_event_fields =
    [plain_field ''label'' string_codec workspace_renamed_label (\<lambda>x r. r\<lparr>workspace_renamed_label := x\<rparr>),
     plain_field ''workspace_id'' string_codec workspace_renamed_workspace_id (\<lambda>x r. r\<lparr>workspace_renamed_workspace_id := x\<rparr>)]"

definition workspace_renamed_event_codec :: "workspace_renamed_event codec" where
  "workspace_renamed_event_codec = struct_codec workspace_renamed_event_zero workspace_renamed_event_fields"

lemma workspace_renamed_event_codec_lawful [simp]: "lawful (workspace_renamed_event_codec)"
  unfolding workspace_renamed_event_codec_def
proof (rule lawful_struct)
  show "distinct (map fld_name (workspace_renamed_event_fields))" by (simp add: workspace_renamed_event_fields_def field_names)
  show "list_all (\<lambda>f. fld_ok f r) (workspace_renamed_event_fields) \<Longrightarrow> refill (workspace_renamed_event_fields) r workspace_renamed_event_zero = Some r" for r
    by (cases r) (simp add: workspace_renamed_event_fields_def workspace_renamed_event_zero_def refill_simps)
qed

lemma workspace_renamed_event_codec_zero [simp]: "cod_zero (workspace_renamed_event_codec) = workspace_renamed_event_zero"
  by (simp add: workspace_renamed_event_codec_def struct_codec_def)

definition workspace_reordered_event_fields :: "workspace_reordered_event field list" where
  "workspace_reordered_event_fields =
    [optional_field ''before_workspace_id'' string_codec workspace_reordered_before_workspace_id (\<lambda>x r. r\<lparr>workspace_reordered_before_workspace_id := x\<rparr>),
     plain_field ''workspace_ids'' (slice_codec string_codec) workspace_reordered_workspace_ids (\<lambda>x r. r\<lparr>workspace_reordered_workspace_ids := x\<rparr>),
     plain_field ''workspaces'' (slice_codec workspace_info_codec) workspace_reordered_workspaces (\<lambda>x r. r\<lparr>workspace_reordered_workspaces := x\<rparr>)]"

definition workspace_reordered_event_codec :: "workspace_reordered_event codec" where
  "workspace_reordered_event_codec = struct_codec workspace_reordered_event_zero workspace_reordered_event_fields"

lemma workspace_reordered_event_codec_lawful [simp]: "lawful (workspace_reordered_event_codec)"
  unfolding workspace_reordered_event_codec_def
proof (rule lawful_struct)
  show "distinct (map fld_name (workspace_reordered_event_fields))" by (simp add: workspace_reordered_event_fields_def field_names)
  show "list_all (\<lambda>f. fld_ok f r) (workspace_reordered_event_fields) \<Longrightarrow> refill (workspace_reordered_event_fields) r workspace_reordered_event_zero = Some r" for r
    by (cases r) (simp add: workspace_reordered_event_fields_def workspace_reordered_event_zero_def refill_simps)
qed

lemma workspace_reordered_event_codec_zero [simp]: "cod_zero (workspace_reordered_event_codec) = workspace_reordered_event_zero"
  by (simp add: workspace_reordered_event_codec_def struct_codec_def)

definition workspace_updated_event_fields :: "workspace_updated_event field list" where
  "workspace_updated_event_fields =
    [plain_field ''workspace'' workspace_info_codec workspace_updated_workspace (\<lambda>x r. r\<lparr>workspace_updated_workspace := x\<rparr>)]"

definition workspace_updated_event_codec :: "workspace_updated_event codec" where
  "workspace_updated_event_codec = struct_codec workspace_updated_event_zero workspace_updated_event_fields"

lemma workspace_updated_event_codec_lawful [simp]: "lawful (workspace_updated_event_codec)"
  unfolding workspace_updated_event_codec_def
proof (rule lawful_struct)
  show "distinct (map fld_name (workspace_updated_event_fields))" by (simp add: workspace_updated_event_fields_def field_names)
  show "list_all (\<lambda>f. fld_ok f r) (workspace_updated_event_fields) \<Longrightarrow> refill (workspace_updated_event_fields) r workspace_updated_event_zero = Some r" for r
    by (cases r) (simp add: workspace_updated_event_fields_def workspace_updated_event_zero_def refill_simps)
qed

lemma workspace_updated_event_codec_zero [simp]: "cod_zero (workspace_updated_event_codec) = workspace_updated_event_zero"
  by (simp add: workspace_updated_event_codec_def struct_codec_def)

definition worktree_info_fields :: "worktree_info field list" where
  "worktree_info_fields =
    [optional_field ''branch'' string_codec wti_branch (\<lambda>x r. r\<lparr>wti_branch := x\<rparr>),
     plain_field ''is_bare'' bool_codec wti_is_bare (\<lambda>x r. r\<lparr>wti_is_bare := x\<rparr>),
     plain_field ''is_detached'' bool_codec wti_is_detached (\<lambda>x r. r\<lparr>wti_is_detached := x\<rparr>),
     plain_field ''is_linked_worktree'' bool_codec wti_is_linked_worktree (\<lambda>x r. r\<lparr>wti_is_linked_worktree := x\<rparr>),
     plain_field ''is_prunable'' bool_codec wti_is_prunable (\<lambda>x r. r\<lparr>wti_is_prunable := x\<rparr>),
     plain_field ''label'' string_codec wti_label (\<lambda>x r. r\<lparr>wti_label := x\<rparr>),
     optional_field ''open_workspace_id'' string_codec wti_open_workspace_id (\<lambda>x r. r\<lparr>wti_open_workspace_id := x\<rparr>),
     plain_field ''path'' string_codec wti_path (\<lambda>x r. r\<lparr>wti_path := x\<rparr>)]"

definition worktree_info_codec :: "worktree_info codec" where
  "worktree_info_codec = struct_codec worktree_info_zero worktree_info_fields"

lemma worktree_info_codec_lawful [simp]: "lawful (worktree_info_codec)"
  unfolding worktree_info_codec_def
proof (rule lawful_struct)
  show "distinct (map fld_name (worktree_info_fields))" by (simp add: worktree_info_fields_def field_names)
  show "list_all (\<lambda>f. fld_ok f r) (worktree_info_fields) \<Longrightarrow> refill (worktree_info_fields) r worktree_info_zero = Some r" for r
    by (cases r) (simp add: worktree_info_fields_def worktree_info_zero_def refill_simps)
qed

lemma worktree_info_codec_zero [simp]: "cod_zero (worktree_info_codec) = worktree_info_zero"
  by (simp add: worktree_info_codec_def struct_codec_def)

definition worktree_created_event_fields :: "worktree_created_event field list" where
  "worktree_created_event_fields =
    [plain_field ''workspace'' workspace_info_codec worktree_created_workspace (\<lambda>x r. r\<lparr>worktree_created_workspace := x\<rparr>),
     plain_field ''worktree'' worktree_info_codec worktree_created_worktree (\<lambda>x r. r\<lparr>worktree_created_worktree := x\<rparr>)]"

definition worktree_created_event_codec :: "worktree_created_event codec" where
  "worktree_created_event_codec = struct_codec worktree_created_event_zero worktree_created_event_fields"

lemma worktree_created_event_codec_lawful [simp]: "lawful (worktree_created_event_codec)"
  unfolding worktree_created_event_codec_def
proof (rule lawful_struct)
  show "distinct (map fld_name (worktree_created_event_fields))" by (simp add: worktree_created_event_fields_def field_names)
  show "list_all (\<lambda>f. fld_ok f r) (worktree_created_event_fields) \<Longrightarrow> refill (worktree_created_event_fields) r worktree_created_event_zero = Some r" for r
    by (cases r) (simp add: worktree_created_event_fields_def worktree_created_event_zero_def refill_simps)
qed

lemma worktree_created_event_codec_zero [simp]: "cod_zero (worktree_created_event_codec) = worktree_created_event_zero"
  by (simp add: worktree_created_event_codec_def struct_codec_def)

definition worktree_opened_event_fields :: "worktree_opened_event field list" where
  "worktree_opened_event_fields =
    [plain_field ''already_open'' bool_codec worktree_opened_already_open (\<lambda>x r. r\<lparr>worktree_opened_already_open := x\<rparr>),
     plain_field ''workspace'' workspace_info_codec worktree_opened_workspace (\<lambda>x r. r\<lparr>worktree_opened_workspace := x\<rparr>),
     plain_field ''worktree'' worktree_info_codec worktree_opened_worktree (\<lambda>x r. r\<lparr>worktree_opened_worktree := x\<rparr>)]"

definition worktree_opened_event_codec :: "worktree_opened_event codec" where
  "worktree_opened_event_codec = struct_codec worktree_opened_event_zero worktree_opened_event_fields"

lemma worktree_opened_event_codec_lawful [simp]: "lawful (worktree_opened_event_codec)"
  unfolding worktree_opened_event_codec_def
proof (rule lawful_struct)
  show "distinct (map fld_name (worktree_opened_event_fields))" by (simp add: worktree_opened_event_fields_def field_names)
  show "list_all (\<lambda>f. fld_ok f r) (worktree_opened_event_fields) \<Longrightarrow> refill (worktree_opened_event_fields) r worktree_opened_event_zero = Some r" for r
    by (cases r) (simp add: worktree_opened_event_fields_def worktree_opened_event_zero_def refill_simps)
qed

lemma worktree_opened_event_codec_zero [simp]: "cod_zero (worktree_opened_event_codec) = worktree_opened_event_zero"
  by (simp add: worktree_opened_event_codec_def struct_codec_def)

definition worktree_removed_event_fields :: "worktree_removed_event field list" where
  "worktree_removed_event_fields =
    [plain_field ''forced'' bool_codec worktree_removed_forced (\<lambda>x r. r\<lparr>worktree_removed_forced := x\<rparr>),
     optional_field ''workspace'' workspace_info_codec worktree_removed_workspace (\<lambda>x r. r\<lparr>worktree_removed_workspace := x\<rparr>),
     plain_field ''workspace_id'' string_codec worktree_removed_workspace_id (\<lambda>x r. r\<lparr>worktree_removed_workspace_id := x\<rparr>),
     plain_field ''worktree'' worktree_info_codec worktree_removed_worktree (\<lambda>x r. r\<lparr>worktree_removed_worktree := x\<rparr>)]"

definition worktree_removed_event_codec :: "worktree_removed_event codec" where
  "worktree_removed_event_codec = struct_codec worktree_removed_event_zero worktree_removed_event_fields"

lemma worktree_removed_event_codec_lawful [simp]: "lawful (worktree_removed_event_codec)"
  unfolding worktree_removed_event_codec_def
proof (rule lawful_struct)
  show "distinct (map fld_name (worktree_removed_event_fields))" by (simp add: worktree_removed_event_fields_def field_names)
  show "list_all (\<lambda>f. fld_ok f r) (worktree_removed_event_fields) \<Longrightarrow> refill (worktree_removed_event_fields) r worktree_removed_event_zero = Some r" for r
    by (cases r) (simp add: worktree_removed_event_fields_def worktree_removed_event_zero_def refill_simps)
qed

lemma worktree_removed_event_codec_zero [simp]: "cod_zero (worktree_removed_event_codec) = worktree_removed_event_zero"
  by (simp add: worktree_removed_event_codec_def struct_codec_def)

definition agent_info_fields :: "agent_info field list" where
  "agent_info_fields =
    [optional_field ''agent'' string_codec ai_agent (\<lambda>x r. r\<lparr>ai_agent := x\<rparr>),
     optional_field ''agent_session'' agent_session_info_codec ai_agent_session (\<lambda>x r. r\<lparr>ai_agent_session := x\<rparr>),
     plain_field ''agent_status'' string_codec ai_agent_status (\<lambda>x r. r\<lparr>ai_agent_status := x\<rparr>),
     optional_field ''completion_seq'' uint_codec ai_completion_seq (\<lambda>x r. r\<lparr>ai_completion_seq := x\<rparr>),
     optional_field ''cwd'' string_codec ai_cwd (\<lambda>x r. r\<lparr>ai_cwd := x\<rparr>),
     optional_field ''display_agent'' string_codec ai_display_agent (\<lambda>x r. r\<lparr>ai_display_agent := x\<rparr>),
     plain_field ''focused'' bool_codec ai_focused (\<lambda>x r. r\<lparr>ai_focused := x\<rparr>),
     optional_field ''foreground_cwd'' string_codec ai_foreground_cwd (\<lambda>x r. r\<lparr>ai_foreground_cwd := x\<rparr>),
     optional_field ''interactive_ready'' bool_codec ai_interactive_ready (\<lambda>x r. r\<lparr>ai_interactive_ready := x\<rparr>),
     optional_field ''launch_pending'' bool_codec ai_launch_pending (\<lambda>x r. r\<lparr>ai_launch_pending := x\<rparr>),
     optional_field ''name'' string_codec ai_name (\<lambda>x r. r\<lparr>ai_name := x\<rparr>),
     plain_field ''pane_id'' string_codec ai_pane_id (\<lambda>x r. r\<lparr>ai_pane_id := x\<rparr>),
     plain_field ''revision'' uint_codec ai_revision (\<lambda>x r. r\<lparr>ai_revision := x\<rparr>),
     optional_field ''screen_detection_skipped'' bool_codec ai_screen_detection_skipped (\<lambda>x r. r\<lparr>ai_screen_detection_skipped := x\<rparr>),
     optional_field ''state_change_seq'' uint_codec ai_state_change_seq (\<lambda>x r. r\<lparr>ai_state_change_seq := x\<rparr>),
     optional_field ''state_labels'' (map_codec string_codec) ai_state_labels (\<lambda>x r. r\<lparr>ai_state_labels := x\<rparr>),
     plain_field ''tab_id'' string_codec ai_tab_id (\<lambda>x r. r\<lparr>ai_tab_id := x\<rparr>),
     plain_field ''terminal_id'' string_codec ai_terminal_id (\<lambda>x r. r\<lparr>ai_terminal_id := x\<rparr>),
     optional_field ''terminal_title'' string_codec ai_terminal_title (\<lambda>x r. r\<lparr>ai_terminal_title := x\<rparr>),
     optional_field ''terminal_title_stripped'' string_codec ai_terminal_title_stripped (\<lambda>x r. r\<lparr>ai_terminal_title_stripped := x\<rparr>),
     optional_field ''title'' string_codec ai_title (\<lambda>x r. r\<lparr>ai_title := x\<rparr>),
     optional_field ''tokens'' (map_codec string_codec) ai_tokens (\<lambda>x r. r\<lparr>ai_tokens := x\<rparr>),
     plain_field ''workspace_id'' string_codec ai_workspace_id (\<lambda>x r. r\<lparr>ai_workspace_id := x\<rparr>)]"

definition agent_info_codec :: "agent_info codec" where
  "agent_info_codec = struct_codec agent_info_zero agent_info_fields"

lemma agent_info_codec_lawful [simp]: "lawful (agent_info_codec)"
  unfolding agent_info_codec_def
proof (rule lawful_struct)
  show "distinct (map fld_name (agent_info_fields))" by (simp add: agent_info_fields_def field_names)
  show "list_all (\<lambda>f. fld_ok f r) (agent_info_fields) \<Longrightarrow> refill (agent_info_fields) r agent_info_zero = Some r" for r
    by (cases r) (simp add: agent_info_fields_def agent_info_zero_def refill_simps)
qed

lemma agent_info_codec_zero [simp]: "cod_zero (agent_info_codec) = agent_info_zero"
  by (simp add: agent_info_codec_def struct_codec_def)

definition session_snapshot_fields :: "(string \<Rightarrow> float64 option) \<Rightarrow> (float64 \<Rightarrow> string) \<Rightarrow> session_snapshot field list" where
  "session_snapshot_fields pf ff =
    [plain_field ''agents'' (slice_codec agent_info_codec) ss_agents (\<lambda>x r. r\<lparr>ss_agents := x\<rparr>),
     optional_field ''focused_pane_id'' string_codec ss_focused_pane_id (\<lambda>x r. r\<lparr>ss_focused_pane_id := x\<rparr>),
     optional_field ''focused_tab_id'' string_codec ss_focused_tab_id (\<lambda>x r. r\<lparr>ss_focused_tab_id := x\<rparr>),
     optional_field ''focused_workspace_id'' string_codec ss_focused_workspace_id (\<lambda>x r. r\<lparr>ss_focused_workspace_id := x\<rparr>),
     plain_field ''layouts'' (slice_codec (pane_layout_snapshot_codec pf ff)) ss_layouts (\<lambda>x r. r\<lparr>ss_layouts := x\<rparr>),
     plain_field ''panes'' (slice_codec pane_info_codec) ss_panes (\<lambda>x r. r\<lparr>ss_panes := x\<rparr>),
     plain_field ''protocol'' uint_codec ss_protocol (\<lambda>x r. r\<lparr>ss_protocol := x\<rparr>),
     plain_field ''tabs'' (slice_codec tab_info_codec) ss_tabs (\<lambda>x r. r\<lparr>ss_tabs := x\<rparr>),
     plain_field ''version'' string_codec ss_version (\<lambda>x r. r\<lparr>ss_version := x\<rparr>),
     plain_field ''workspaces'' (slice_codec workspace_info_codec) ss_workspaces (\<lambda>x r. r\<lparr>ss_workspaces := x\<rparr>)]"

definition session_snapshot_codec :: "(string \<Rightarrow> float64 option) \<Rightarrow> (float64 \<Rightarrow> string) \<Rightarrow> session_snapshot codec" where
  "session_snapshot_codec pf ff = struct_codec session_snapshot_zero (session_snapshot_fields pf ff)"

lemma session_snapshot_codec_lawful [simp]: "lawful (session_snapshot_codec pf ff)"
  unfolding session_snapshot_codec_def
proof (rule lawful_struct)
  show "distinct (map fld_name (session_snapshot_fields pf ff))" by (simp add: session_snapshot_fields_def field_names)
  show "list_all (\<lambda>f. fld_ok f r) (session_snapshot_fields pf ff) \<Longrightarrow> refill (session_snapshot_fields pf ff) r session_snapshot_zero = Some r" for r
    by (cases r) (simp add: session_snapshot_fields_def session_snapshot_zero_def refill_simps)
qed

lemma session_snapshot_codec_zero [simp]: "cod_zero (session_snapshot_codec pf ff) = session_snapshot_zero"
  by (simp add: session_snapshot_codec_def struct_codec_def)

end
