(* ===== verification/Errors.thy ===== *)
theory Errors
  imports Json_Text
begin

text \<open>
  Errors: \<open>herdr/errors.go\<close>, the error types of the generated files, and the part of the \<open>errors\<close>
  package the client uses.

  An error value is a tree, \<open>go_error\<close>: the sentinels the client compares with \<open>errors.Is\<close>, the
  typed errors it finds with \<open>errors.As\<close>, and \<open>OpError\<close> and \<open>fmt.Errorf("%w: %w")\<close>, which wrap.
  \<open>JsonError\<close> stands for any error of \<open>encoding/json\<close> and \<open>Foreign\<close> for an error of the network, the
  operating system or an injected function, with its text; the client only passes these on.
\<close>

datatype op = OpValidate | OpEncode | OpDial | OpWrite | OpRead | OpDecode | OpClose

fun op_name :: "op \<Rightarrow> string" where
  "op_name OpValidate = ''validate''"
| "op_name OpEncode = ''encode''"
| "op_name OpDial = ''dial''"
| "op_name OpWrite = ''write''"
| "op_name OpRead = ''read''"
| "op_name OpDecode = ''decode''"
| "op_name OpClose = ''close''"

datatype go_error =
    ErrStreamClosed
  | ContextCanceled
  | DeadlineExceeded
  | ErrEOF
  | ErrShortWrite
  | ServerError string string string
  | OpError string op go_error
  | Wrapped2 go_error go_error
  | UnknownEventError string "json option"
  | UnknownResultError string json
  | UnexpectedResultError string string string
  | JsonError
  | Foreign string

text \<open>\<open>opError\<close>: no error stays none.\<close>

definition op_error :: "string \<Rightarrow> op \<Rightarrow> go_error option \<Rightarrow> go_error option" where
  "op_error method op' e = (case e of None \<Rightarrow> None | Some e' \<Rightarrow> Some (OpError method op' e'))"

text \<open>\<open>Unwrap\<close> of the wrapping types, and \<open>errors.Is\<close> over the tree of wrapped errors.\<close>

fun unwrap :: "go_error \<Rightarrow> go_error list" where
  "unwrap (OpError m op' e) = [e]"
| "unwrap (Wrapped2 a b) = [a, b]"
| "unwrap _ = []"

fun is_error :: "go_error \<Rightarrow> go_error \<Rightarrow> bool" where
  "is_error (OpError m op' e) t = (OpError m op' e = t \<or> is_error e t)"
| "is_error (Wrapped2 a b) t = (Wrapped2 a b = t \<or> is_error a t \<or> is_error b t)"
| "is_error e t = (e = t)"

text \<open>\<open>errors.As\<close> for a type of error: the first of the tree, in preorder, that is of the type.\<close>

fun as_error :: "(go_error \<Rightarrow> 'a option) \<Rightarrow> go_error \<Rightarrow> 'a option" where
  "as_error pick (OpError m op' e) =
    (case pick (OpError m op' e) of Some x \<Rightarrow> Some x | None \<Rightarrow> as_error pick e)"
| "as_error pick (Wrapped2 a b) =
    (case pick (Wrapped2 a b) of Some x \<Rightarrow> Some x
     | None \<Rightarrow> (case as_error pick a of Some x \<Rightarrow> Some x | None \<Rightarrow> as_error pick b))"
| "as_error pick e = pick e"

fun server_error :: "go_error \<Rightarrow> (string \<times> string \<times> string) option" where
  "server_error (ServerError method code message) = Some (method, code, message)"
| "server_error _ = None"

fun unexpected_result :: "go_error \<Rightarrow> (string \<times> string \<times> string) option" where
  "unexpected_result (UnexpectedResultError method want got) = Some (method, want, got)"
| "unexpected_result _ = None"

text \<open>\<open>IsCode\<close> and \<open>isRetryable\<close> (\<open>herdr/session.go\<close>).\<close>

definition is_code :: "go_error \<Rightarrow> string \<Rightarrow> bool" where
  "is_code e code = (case as_error server_error e of
     Some (method, code', message) \<Rightarrow> code' = code | None \<Rightarrow> False)"

definition is_retryable :: "go_error \<Rightarrow> bool" where
  "is_retryable e =
    (if as_error server_error e \<noteq> None then False else as_error unexpected_result e = None)"

text \<open>
  The texts. \<open>quote\<close> is \<open>strconv.Quote\<close>, the verb \<open>%q\<close>, and \<open>jt\<close> the text of an error of
  \<open>encoding/json\<close>; the text of a foreign error is its own.
\<close>

fun error_text :: "(string \<Rightarrow> string) \<Rightarrow> string \<Rightarrow> go_error \<Rightarrow> string" where
  "error_text quote jt ErrStreamClosed = ''herdr: stream closed''"
| "error_text quote jt ContextCanceled = ''context canceled''"
| "error_text quote jt DeadlineExceeded = ''context deadline exceeded''"
| "error_text quote jt ErrEOF = ''EOF''"
| "error_text quote jt ErrShortWrite = ''short write''"
| "error_text quote jt (ServerError method code message) =
    (if method = [] then code @ '': '' @ message else method @ '': '' @ code @ '': '' @ message)"
| "error_text quote jt (OpError method op' e) =
    (if method = [] then ''herdr: '' @ op_name op' @ '': '' @ error_text quote jt e
     else ''herdr: '' @ method @ '': '' @ op_name op' @ '': '' @ error_text quote jt e)"
| "error_text quote jt (Wrapped2 a b) = error_text quote jt a @ '': '' @ error_text quote jt b"
| "error_text quote jt (UnknownEventError event data) = ''herdr: unknown event '' @ quote event"
| "error_text quote jt (UnknownResultError type data) = ''herdr: unknown result type '' @ quote type"
| "error_text quote jt (UnexpectedResultError method want got) =
    ''herdr: '' @ method @ '': expected result type '' @ quote want @ '', got '' @ quote got"
| "error_text quote jt JsonError = jt"
| "error_text quote jt (Foreign text) = text"

text \<open>\<open>streamReadError\<close> of \<open>herdr/stream.go\<close>.\<close>

definition stream_read_error :: "string \<Rightarrow> go_error option \<Rightarrow> go_error" where
  "stream_read_error method e =
    OpError method OpRead (case e of None \<Rightarrow> ErrStreamClosed | Some e' \<Rightarrow> Wrapped2 ErrStreamClosed e')"

text \<open>\<open>requestError\<close> of \<open>herdr/client.go\<close>, with what \<open>ctx.Err()\<close> returns.\<close>

definition request_error :: "go_error option \<Rightarrow> string \<Rightarrow> op \<Rightarrow> go_error \<Rightarrow> go_error" where
  "request_error ctx_err method op' e =
    OpError method op' (case ctx_err of Some c \<Rightarrow> c | None \<Rightarrow> e)"

lemma is_error_refl [simp]: "is_error e e"
  by (cases e) simp_all

lemma is_error_unwrap: "is_error e t \<longleftrightarrow> e = t \<or> (\<exists>e' \<in> set (unwrap e). is_error e' t)"
  by (cases e) auto

lemma stream_read_error_closed [simp]: "is_error (stream_read_error m e) ErrStreamClosed"
  by (simp add: stream_read_error_def split: option.split)

lemma stream_read_error_cause [simp]: "is_error (stream_read_error m (Some e)) e"
  by (simp add: stream_read_error_def)

lemma stream_read_error_server:
  "as_error server_error (stream_read_error m e) = (case e of None \<Rightarrow> None | Some e' \<Rightarrow> as_error server_error e')"
  by (simp add: stream_read_error_def split: option.split)

end
