(* ===== verification/Event_Codec.thy ===== *)
theory Event_Codec
  imports Type_Codec Errors
begin

text \<open>
  Encoding and decoding of events: the \<open>MarshalJSON\<close> methods, \<open>DecodeEvent\<close>, \<open>EventEnvelope\<close> and
  \<open>DotName\<close> of \<open>herdr/events_gen.go\<close>. A \<open>json.RawMessage\<close> is the document it holds, \<open>None\<close> when it
  is empty; the spacing of its text is not kept.
\<close>

definition tagged :: "string \<Rightarrow> 'r field list \<Rightarrow> 'r \<Rightarrow> json" where
  "tagged type fs v = JObj ((''type'', JStr type) # encode_members fs v)"

definition untagged :: "'r field list \<Rightarrow> 'r \<Rightarrow> json" where
  "untagged fs v = JObj (encode_members fs v)"

text \<open>The \<open>MarshalJSON\<close> method of each payload; two payloads have none and are written as plain structs.\<close>

definition layout_updated_event_json :: "(string \<Rightarrow> float64 option) \<Rightarrow> (float64 \<Rightarrow> string) \<Rightarrow> layout_updated_event \<Rightarrow> json" where
  "layout_updated_event_json pf ff v = tagged ''layout_updated'' (layout_updated_event_fields pf ff) v"

definition pane_agent_detected_event_json :: "pane_agent_detected_event \<Rightarrow> json" where
  "pane_agent_detected_event_json v = tagged ''pane_agent_detected'' pane_agent_detected_event_fields v"

definition pane_agent_status_changed_event_json :: "pane_agent_status_changed_event \<Rightarrow> json" where
  "pane_agent_status_changed_event_json v = tagged ''pane_agent_status_changed'' pane_agent_status_changed_event_fields v"

definition pane_closed_event_json :: "pane_closed_event \<Rightarrow> json" where
  "pane_closed_event_json v = tagged ''pane_closed'' pane_closed_event_fields v"

definition pane_created_event_json :: "pane_created_event \<Rightarrow> json" where
  "pane_created_event_json v = tagged ''pane_created'' pane_created_event_fields v"

definition pane_exited_event_json :: "pane_exited_event \<Rightarrow> json" where
  "pane_exited_event_json v = tagged ''pane_exited'' pane_exited_event_fields v"

definition pane_focused_event_json :: "pane_focused_event \<Rightarrow> json" where
  "pane_focused_event_json v = tagged ''pane_focused'' pane_focused_event_fields v"

definition pane_moved_event_json :: "pane_moved_event \<Rightarrow> json" where
  "pane_moved_event_json v = tagged ''pane_moved'' pane_moved_event_fields v"

definition pane_output_changed_event_json :: "pane_output_changed_event \<Rightarrow> json" where
  "pane_output_changed_event_json v = tagged ''pane_output_changed'' pane_output_changed_event_fields v"

definition pane_output_matched_event_json :: "pane_output_matched_event \<Rightarrow> json" where
  "pane_output_matched_event_json v = untagged pane_output_matched_event_fields v"

definition pane_scroll_changed_event_json :: "pane_scroll_changed_event \<Rightarrow> json" where
  "pane_scroll_changed_event_json v = untagged pane_scroll_changed_event_fields v"

definition pane_updated_event_json :: "pane_updated_event \<Rightarrow> json" where
  "pane_updated_event_json v = tagged ''pane_updated'' pane_updated_event_fields v"

definition tab_closed_event_json :: "tab_closed_event \<Rightarrow> json" where
  "tab_closed_event_json v = tagged ''tab_closed'' tab_closed_event_fields v"

definition tab_created_event_json :: "tab_created_event \<Rightarrow> json" where
  "tab_created_event_json v = tagged ''tab_created'' tab_created_event_fields v"

definition tab_focused_event_json :: "tab_focused_event \<Rightarrow> json" where
  "tab_focused_event_json v = tagged ''tab_focused'' tab_focused_event_fields v"

definition tab_moved_event_json :: "tab_moved_event \<Rightarrow> json" where
  "tab_moved_event_json v = tagged ''tab_moved'' tab_moved_event_fields v"

definition tab_renamed_event_json :: "tab_renamed_event \<Rightarrow> json" where
  "tab_renamed_event_json v = tagged ''tab_renamed'' tab_renamed_event_fields v"

definition workspace_closed_event_json :: "workspace_closed_event \<Rightarrow> json" where
  "workspace_closed_event_json v = tagged ''workspace_closed'' workspace_closed_event_fields v"

definition workspace_created_event_json :: "workspace_created_event \<Rightarrow> json" where
  "workspace_created_event_json v = tagged ''workspace_created'' workspace_created_event_fields v"

definition workspace_focused_event_json :: "workspace_focused_event \<Rightarrow> json" where
  "workspace_focused_event_json v = tagged ''workspace_focused'' workspace_focused_event_fields v"

definition workspace_metadata_updated_event_json :: "workspace_metadata_updated_event \<Rightarrow> json" where
  "workspace_metadata_updated_event_json v = tagged ''workspace_metadata_updated'' workspace_metadata_updated_event_fields v"

definition workspace_moved_event_json :: "workspace_moved_event \<Rightarrow> json" where
  "workspace_moved_event_json v = tagged ''workspace_moved'' workspace_moved_event_fields v"

definition workspace_renamed_event_json :: "workspace_renamed_event \<Rightarrow> json" where
  "workspace_renamed_event_json v = tagged ''workspace_renamed'' workspace_renamed_event_fields v"

definition workspace_reordered_event_json :: "workspace_reordered_event \<Rightarrow> json" where
  "workspace_reordered_event_json v = tagged ''workspace_reordered'' workspace_reordered_event_fields v"

definition workspace_updated_event_json :: "workspace_updated_event \<Rightarrow> json" where
  "workspace_updated_event_json v = tagged ''workspace_updated'' workspace_updated_event_fields v"

definition worktree_created_event_json :: "worktree_created_event \<Rightarrow> json" where
  "worktree_created_event_json v = tagged ''worktree_created'' worktree_created_event_fields v"

definition worktree_opened_event_json :: "worktree_opened_event \<Rightarrow> json" where
  "worktree_opened_event_json v = tagged ''worktree_opened'' worktree_opened_event_fields v"

definition worktree_removed_event_json :: "worktree_removed_event \<Rightarrow> json" where
  "worktree_removed_event_json v = tagged ''worktree_removed'' worktree_removed_event_fields v"

lemmas event_json_defs [simp] =
  layout_updated_event_json_def
  pane_agent_detected_event_json_def
  pane_agent_status_changed_event_json_def
  pane_closed_event_json_def
  pane_created_event_json_def
  pane_exited_event_json_def
  pane_focused_event_json_def
  pane_moved_event_json_def
  pane_output_changed_event_json_def
  pane_output_matched_event_json_def
  pane_scroll_changed_event_json_def
  pane_updated_event_json_def
  tab_closed_event_json_def
  tab_created_event_json_def
  tab_focused_event_json_def
  tab_moved_event_json_def
  tab_renamed_event_json_def
  workspace_closed_event_json_def
  workspace_created_event_json_def
  workspace_focused_event_json_def
  workspace_metadata_updated_event_json_def
  workspace_moved_event_json_def
  workspace_renamed_event_json_def
  workspace_reordered_event_json_def
  workspace_updated_event_json_def
  worktree_created_event_json_def
  worktree_opened_event_json_def
  worktree_removed_event_json_def

primrec encode_event :: "(string \<Rightarrow> float64 option) \<Rightarrow> (float64 \<Rightarrow> string) \<Rightarrow> event \<Rightarrow> json" where
  "encode_event pf ff (LayoutUpdated v) = layout_updated_event_json pf ff v"
| "encode_event pf ff (PaneAgentDetected v) = pane_agent_detected_event_json v"
| "encode_event pf ff (PaneAgentStatusChanged v) = pane_agent_status_changed_event_json v"
| "encode_event pf ff (PaneClosed v) = pane_closed_event_json v"
| "encode_event pf ff (PaneCreated v) = pane_created_event_json v"
| "encode_event pf ff (PaneExited v) = pane_exited_event_json v"
| "encode_event pf ff (PaneFocused v) = pane_focused_event_json v"
| "encode_event pf ff (PaneMoved v) = pane_moved_event_json v"
| "encode_event pf ff (PaneOutputChanged v) = pane_output_changed_event_json v"
| "encode_event pf ff (PaneOutputMatched v) = pane_output_matched_event_json v"
| "encode_event pf ff (PaneScrollChanged v) = pane_scroll_changed_event_json v"
| "encode_event pf ff (PaneUpdated v) = pane_updated_event_json v"
| "encode_event pf ff (TabClosed v) = tab_closed_event_json v"
| "encode_event pf ff (TabCreated v) = tab_created_event_json v"
| "encode_event pf ff (TabFocused v) = tab_focused_event_json v"
| "encode_event pf ff (TabMoved v) = tab_moved_event_json v"
| "encode_event pf ff (TabRenamed v) = tab_renamed_event_json v"
| "encode_event pf ff (WorkspaceClosed v) = workspace_closed_event_json v"
| "encode_event pf ff (WorkspaceCreated v) = workspace_created_event_json v"
| "encode_event pf ff (WorkspaceFocused v) = workspace_focused_event_json v"
| "encode_event pf ff (WorkspaceMetadataUpdated v) = workspace_metadata_updated_event_json v"
| "encode_event pf ff (WorkspaceMoved v) = workspace_moved_event_json v"
| "encode_event pf ff (WorkspaceRenamed v) = workspace_renamed_event_json v"
| "encode_event pf ff (WorkspaceReordered v) = workspace_reordered_event_json v"
| "encode_event pf ff (WorkspaceUpdated v) = workspace_updated_event_json v"
| "encode_event pf ff (WorktreeCreated v) = worktree_created_event_json v"
| "encode_event pf ff (WorktreeOpened v) = worktree_opened_event_json v"
| "encode_event pf ff (WorktreeRemoved v) = worktree_removed_event_json v"

text \<open>The \<open>type\<close> tag an event is written with, where it has one.\<close>

primrec event_tag :: "event \<Rightarrow> string option" where
  "event_tag (LayoutUpdated v) = Some ''layout_updated''"
| "event_tag (PaneAgentDetected v) = Some ''pane_agent_detected''"
| "event_tag (PaneAgentStatusChanged v) = Some ''pane_agent_status_changed''"
| "event_tag (PaneClosed v) = Some ''pane_closed''"
| "event_tag (PaneCreated v) = Some ''pane_created''"
| "event_tag (PaneExited v) = Some ''pane_exited''"
| "event_tag (PaneFocused v) = Some ''pane_focused''"
| "event_tag (PaneMoved v) = Some ''pane_moved''"
| "event_tag (PaneOutputChanged v) = Some ''pane_output_changed''"
| "event_tag (PaneOutputMatched v) = None"
| "event_tag (PaneScrollChanged v) = None"
| "event_tag (PaneUpdated v) = Some ''pane_updated''"
| "event_tag (TabClosed v) = Some ''tab_closed''"
| "event_tag (TabCreated v) = Some ''tab_created''"
| "event_tag (TabFocused v) = Some ''tab_focused''"
| "event_tag (TabMoved v) = Some ''tab_moved''"
| "event_tag (TabRenamed v) = Some ''tab_renamed''"
| "event_tag (WorkspaceClosed v) = Some ''workspace_closed''"
| "event_tag (WorkspaceCreated v) = Some ''workspace_created''"
| "event_tag (WorkspaceFocused v) = Some ''workspace_focused''"
| "event_tag (WorkspaceMetadataUpdated v) = Some ''workspace_metadata_updated''"
| "event_tag (WorkspaceMoved v) = Some ''workspace_moved''"
| "event_tag (WorkspaceRenamed v) = Some ''workspace_renamed''"
| "event_tag (WorkspaceReordered v) = Some ''workspace_reordered''"
| "event_tag (WorkspaceUpdated v) = Some ''workspace_updated''"
| "event_tag (WorktreeCreated v) = Some ''worktree_created''"
| "event_tag (WorktreeOpened v) = Some ''worktree_opened''"
| "event_tag (WorktreeRemoved v) = Some ''worktree_removed''"

text \<open>The values that survive a round trip, field by field.\<close>

primrec event_ok :: "(string \<Rightarrow> float64 option) \<Rightarrow> (float64 \<Rightarrow> string) \<Rightarrow> event \<Rightarrow> bool" where
  "event_ok pf ff (LayoutUpdated v) = cod_ok (layout_updated_event_codec pf ff) v"
| "event_ok pf ff (PaneAgentDetected v) = cod_ok pane_agent_detected_event_codec v"
| "event_ok pf ff (PaneAgentStatusChanged v) = cod_ok pane_agent_status_changed_event_codec v"
| "event_ok pf ff (PaneClosed v) = cod_ok pane_closed_event_codec v"
| "event_ok pf ff (PaneCreated v) = cod_ok pane_created_event_codec v"
| "event_ok pf ff (PaneExited v) = cod_ok pane_exited_event_codec v"
| "event_ok pf ff (PaneFocused v) = cod_ok pane_focused_event_codec v"
| "event_ok pf ff (PaneMoved v) = cod_ok pane_moved_event_codec v"
| "event_ok pf ff (PaneOutputChanged v) = cod_ok pane_output_changed_event_codec v"
| "event_ok pf ff (PaneOutputMatched v) = cod_ok pane_output_matched_event_codec v"
| "event_ok pf ff (PaneScrollChanged v) = cod_ok pane_scroll_changed_event_codec v"
| "event_ok pf ff (PaneUpdated v) = cod_ok pane_updated_event_codec v"
| "event_ok pf ff (TabClosed v) = cod_ok tab_closed_event_codec v"
| "event_ok pf ff (TabCreated v) = cod_ok tab_created_event_codec v"
| "event_ok pf ff (TabFocused v) = cod_ok tab_focused_event_codec v"
| "event_ok pf ff (TabMoved v) = cod_ok tab_moved_event_codec v"
| "event_ok pf ff (TabRenamed v) = cod_ok tab_renamed_event_codec v"
| "event_ok pf ff (WorkspaceClosed v) = cod_ok workspace_closed_event_codec v"
| "event_ok pf ff (WorkspaceCreated v) = cod_ok workspace_created_event_codec v"
| "event_ok pf ff (WorkspaceFocused v) = cod_ok workspace_focused_event_codec v"
| "event_ok pf ff (WorkspaceMetadataUpdated v) = cod_ok workspace_metadata_updated_event_codec v"
| "event_ok pf ff (WorkspaceMoved v) = cod_ok workspace_moved_event_codec v"
| "event_ok pf ff (WorkspaceRenamed v) = cod_ok workspace_renamed_event_codec v"
| "event_ok pf ff (WorkspaceReordered v) = cod_ok workspace_reordered_event_codec v"
| "event_ok pf ff (WorkspaceUpdated v) = cod_ok workspace_updated_event_codec v"
| "event_ok pf ff (WorktreeCreated v) = cod_ok worktree_created_event_codec v"
| "event_ok pf ff (WorktreeOpened v) = cod_ok worktree_opened_event_codec v"
| "event_ok pf ff (WorktreeRemoved v) = cod_ok worktree_removed_event_codec v"

definition dot_name :: "string \<Rightarrow> string" where
  "dot_name k = replace_first (CHR ''_'') (CHR ''.'') k"

text \<open>\<open>json.Unmarshal\<close> of a payload into a fresh variable.\<close>

definition decode_payload :: "'a codec \<Rightarrow> ('a \<Rightarrow> event) \<Rightarrow> json option \<Rightarrow> (go_error, event) result" where
  "decode_payload c con data = (case data of None \<Rightarrow> err JsonError
   | Some j \<Rightarrow> (case cod_dec c j (cod_zero c) of None \<Rightarrow> err JsonError | Some v \<Rightarrow> ok (con v)))"

definition type_head :: "string field list" where
  "type_head = [plain_field ''type'' string_codec (\<lambda>t. t) (\<lambda>x t. x)]"

definition decode_dedicated :: "string \<Rightarrow> json option \<Rightarrow> (go_error, event) result" where
  "decode_dedicated event data =
    (if event = ''pane.output_matched'' then decode_payload pane_output_matched_event_codec PaneOutputMatched data
     else if event = ''pane.agent_status_changed''
     then decode_payload pane_agent_status_changed_event_codec PaneAgentStatusChanged data
     else if event = ''pane.scroll_changed'' then decode_payload pane_scroll_changed_event_codec PaneScrollChanged data
     else err (UnknownEventError event data))"

definition decode_variant ::
  "(string \<Rightarrow> float64 option) \<Rightarrow> (float64 \<Rightarrow> string) \<Rightarrow> string \<Rightarrow> json option \<Rightarrow> string \<Rightarrow> (go_error, event) result" where
  "decode_variant pf ff event data type =
    (if type = ''layout_updated'' then decode_payload (layout_updated_event_codec pf ff) LayoutUpdated data
     else if type = ''pane_agent_detected'' then decode_payload pane_agent_detected_event_codec PaneAgentDetected data
     else if type = ''pane_agent_status_changed'' then decode_payload pane_agent_status_changed_event_codec PaneAgentStatusChanged data
     else if type = ''pane_closed'' then decode_payload pane_closed_event_codec PaneClosed data
     else if type = ''pane_created'' then decode_payload pane_created_event_codec PaneCreated data
     else if type = ''pane_exited'' then decode_payload pane_exited_event_codec PaneExited data
     else if type = ''pane_focused'' then decode_payload pane_focused_event_codec PaneFocused data
     else if type = ''pane_moved'' then decode_payload pane_moved_event_codec PaneMoved data
     else if type = ''pane_output_changed'' then decode_payload pane_output_changed_event_codec PaneOutputChanged data
     else if type = ''pane_updated'' then decode_payload pane_updated_event_codec PaneUpdated data
     else if type = ''tab_closed'' then decode_payload tab_closed_event_codec TabClosed data
     else if type = ''tab_created'' then decode_payload tab_created_event_codec TabCreated data
     else if type = ''tab_focused'' then decode_payload tab_focused_event_codec TabFocused data
     else if type = ''tab_moved'' then decode_payload tab_moved_event_codec TabMoved data
     else if type = ''tab_renamed'' then decode_payload tab_renamed_event_codec TabRenamed data
     else if type = ''workspace_closed'' then decode_payload workspace_closed_event_codec WorkspaceClosed data
     else if type = ''workspace_created'' then decode_payload workspace_created_event_codec WorkspaceCreated data
     else if type = ''workspace_focused'' then decode_payload workspace_focused_event_codec WorkspaceFocused data
     else if type = ''workspace_metadata_updated'' then decode_payload workspace_metadata_updated_event_codec WorkspaceMetadataUpdated data
     else if type = ''workspace_moved'' then decode_payload workspace_moved_event_codec WorkspaceMoved data
     else if type = ''workspace_renamed'' then decode_payload workspace_renamed_event_codec WorkspaceRenamed data
     else if type = ''workspace_reordered'' then decode_payload workspace_reordered_event_codec WorkspaceReordered data
     else if type = ''workspace_updated'' then decode_payload workspace_updated_event_codec WorkspaceUpdated data
     else if type = ''worktree_created'' then decode_payload worktree_created_event_codec WorktreeCreated data
     else if type = ''worktree_opened'' then decode_payload worktree_opened_event_codec WorktreeOpened data
     else if type = ''worktree_removed'' then decode_payload worktree_removed_event_codec WorktreeRemoved data
     else err (UnknownEventError event data))"

definition decode_event ::
  "(string \<Rightarrow> float64 option) \<Rightarrow> (float64 \<Rightarrow> string) \<Rightarrow> string \<Rightarrow> json option \<Rightarrow> (go_error, event) result" where
  "decode_event pf ff event data =
    (if CHR ''.'' \<in> set event then decode_dedicated event data
     else case data of
       None \<Rightarrow> err JsonError
     | Some j \<Rightarrow> (case decode_struct type_head j [] of
         None \<Rightarrow> err JsonError
       | Some type \<Rightarrow> decode_variant pf ff event data type))"

subsection \<open>Envelopes\<close>

record event_envelope =
  ee_event :: string
  ee_data :: "event option"

definition event_envelope_clone :: "event_envelope \<Rightarrow> event_envelope" where
  "event_envelope_clone v = (let out = v; out = out\<lparr>ee_data := map_option clone_event (ee_data v)\<rparr> in out)"

text \<open>A \<open>json.RawMessage\<close> field takes whatever document stands there, \<open>null\<close> included.\<close>

definition raw_codec :: "json option codec" where
  "raw_codec = \<lparr>cod_zero = None, cod_enc = (\<lambda>d. case d of None \<Rightarrow> JNull | Some j \<Rightarrow> j),
     cod_dec = (\<lambda>j old. Some (Some j)), cod_ok = (\<lambda>d. d \<noteq> None)\<rparr>"

text \<open>The pair of an event name and its raw data: \<open>aux\<close> here and \<open>RawEvent\<close> in \<open>herdr/stream.go\<close>.\<close>

record raw_event =
  re_event :: string
  re_data :: "json option"

definition raw_event_fields :: "raw_event field list" where
  "raw_event_fields = [plain_field ''event'' string_codec re_event (\<lambda>x r. r\<lparr>re_event := x\<rparr>),
     plain_field ''data'' raw_codec re_data (\<lambda>x r. r\<lparr>re_data := x\<rparr>)]"

definition unmarshal_envelope ::
  "(string \<Rightarrow> float64 option) \<Rightarrow> (float64 \<Rightarrow> string) \<Rightarrow> json \<Rightarrow> event_envelope \<Rightarrow>
    event_envelope \<times> go_error option" where
  "unmarshal_envelope pf ff j e =
    (case decode_struct raw_event_fields j \<lparr>re_event = [], re_data = None\<rparr> of
       None \<Rightarrow> (e, Some JsonError)
     | Some aux \<Rightarrow>
         (let e = e\<lparr>ee_event := re_event aux, ee_data := None\<rparr>
          in if re_data aux = None \<or> re_data aux = Some JNull then (e, None)
             else case decode_event pf ff (re_event aux) (re_data aux) of
               Inl x \<Rightarrow> (e, Some x)
             | Inr decoded \<Rightarrow> (e\<lparr>ee_data := Some decoded\<rparr>, None)))"

subsection \<open>Decoding what was encoded\<close>

text \<open>No struct of an event has a member that would catch the \<open>type\<close> tag, not even by case folding.\<close>

definition tag_free :: "'r field list \<Rightarrow> bool" where
  "tag_free fs \<longleftrightarrow> (\<forall>f \<in> set fs. fold_name (fld_name f) \<noteq> ''TYPE'')"

lemma fold_type: "fold_name ''type'' = ''TYPE''"
  by (simp add: upper_char_def in_range_def bytes_of_def char_of_def bit_Suc_0_iff)

lemma tag_free_none: "tag_free fs \<Longrightarrow> find_field fs ''type'' = None"
  unfolding tag_free_def find_field_def fold_type
  by (auto simp: find_None_iff fold_type [symmetric] split: option.split)

lemma decode_tagged:
  assumes "lawful c" and "c = struct_codec z fs" and "tag_free fs" and "cod_ok c v"
  shows "decode_payload c con (Some (tagged type fs v)) = Inr (con v)"
proof -
  have "decode_members fs (encode_members fs v) z = Some v"
    using lawfulD [OF assms(1,4)] by (simp add: assms(2) struct_codec_def decode_struct_def)
  then show ?thesis
    by (simp add: decode_payload_def tagged_def assms(2) tag_free_none [OF assms(3)] struct_codec_def
        decode_struct_def)
qed

lemma decode_untagged:
  assumes "lawful c" and "c = struct_codec z fs" and "cod_ok c v"
  shows "decode_payload c con (Some (untagged fs v)) = Inr (con v)"
  using lawfulD [OF assms(1,3)] by (simp add: decode_payload_def untagged_def assms(2) struct_codec_def)

lemma decode_members_none:
  "\<forall>kv \<in> set kvs. find_field fs (fst kv) = None \<Longrightarrow> decode_members fs kvs r = Some r"
  by (induction kvs) auto

lemma type_head_other: "fold_name k \<noteq> ''TYPE'' \<Longrightarrow> find_field type_head k = None"
  using fold_type by (auto simp: find_field_def type_head_def field_names simp del: fold_name.simps)

lemma decode_type_head:
  assumes "tag_free fs"
  shows "decode_struct type_head (tagged type fs v) [] = Some type"
proof -
  have "\<forall>kv \<in> set (encode_members fs v). fst kv \<in> fld_name ` set fs"
    by (auto simp: encode_members_def map_filter_def)
  with assms have "\<forall>kv \<in> set (encode_members fs v). find_field type_head (fst kv) = None"
    unfolding tag_free_def by (metis imageE type_head_other)
  then have "decode_members type_head (encode_members fs v) type = Some type"
    by (rule decode_members_none)
  then show ?thesis
    by (simp add: decode_struct_def tagged_def)
      (simp add: find_field_def type_head_def field_names plain_field_def string_codec_def)
qed

lemma tag_free_events [simp]:
  "tag_free (layout_updated_event_fields pf ff)"
  "tag_free pane_agent_detected_event_fields"
  "tag_free pane_agent_status_changed_event_fields"
  "tag_free pane_closed_event_fields"
  "tag_free pane_created_event_fields"
  "tag_free pane_exited_event_fields"
  "tag_free pane_focused_event_fields"
  "tag_free pane_moved_event_fields"
  "tag_free pane_output_changed_event_fields"
  "tag_free pane_updated_event_fields"
  "tag_free tab_closed_event_fields"
  "tag_free tab_created_event_fields"
  "tag_free tab_focused_event_fields"
  "tag_free tab_moved_event_fields"
  "tag_free tab_renamed_event_fields"
  "tag_free workspace_closed_event_fields"
  "tag_free workspace_created_event_fields"
  "tag_free workspace_focused_event_fields"
  "tag_free workspace_metadata_updated_event_fields"
  "tag_free workspace_moved_event_fields"
  "tag_free workspace_renamed_event_fields"
  "tag_free workspace_reordered_event_fields"
  "tag_free workspace_updated_event_fields"
  "tag_free worktree_created_event_fields"
  "tag_free worktree_opened_event_fields"
  "tag_free worktree_removed_event_fields"
  by (simp_all add: tag_free_def field_names upper_char_def in_range_def bytes_of_def char_of_def
      layout_updated_event_fields_def pane_agent_detected_event_fields_def
      pane_agent_status_changed_event_fields_def pane_closed_event_fields_def
      pane_created_event_fields_def pane_exited_event_fields_def pane_focused_event_fields_def
      pane_moved_event_fields_def pane_output_changed_event_fields_def
      pane_updated_event_fields_def tab_closed_event_fields_def tab_created_event_fields_def
      tab_focused_event_fields_def tab_moved_event_fields_def tab_renamed_event_fields_def
      workspace_closed_event_fields_def workspace_created_event_fields_def
      workspace_focused_event_fields_def workspace_metadata_updated_event_fields_def
      workspace_moved_event_fields_def workspace_renamed_event_fields_def
      workspace_reordered_event_fields_def workspace_updated_event_fields_def
      worktree_created_event_fields_def worktree_opened_event_fields_def
      worktree_removed_event_fields_def)

lemmas decode_tagged_events =
  decode_tagged [OF layout_updated_event_codec_lawful layout_updated_event_codec_def tag_free_events(1)]
  decode_tagged [OF pane_agent_detected_event_codec_lawful pane_agent_detected_event_codec_def tag_free_events(2)]
  decode_tagged [OF pane_agent_status_changed_event_codec_lawful pane_agent_status_changed_event_codec_def tag_free_events(3)]
  decode_tagged [OF pane_closed_event_codec_lawful pane_closed_event_codec_def tag_free_events(4)]
  decode_tagged [OF pane_created_event_codec_lawful pane_created_event_codec_def tag_free_events(5)]
  decode_tagged [OF pane_exited_event_codec_lawful pane_exited_event_codec_def tag_free_events(6)]
  decode_tagged [OF pane_focused_event_codec_lawful pane_focused_event_codec_def tag_free_events(7)]
  decode_tagged [OF pane_moved_event_codec_lawful pane_moved_event_codec_def tag_free_events(8)]
  decode_tagged [OF pane_output_changed_event_codec_lawful pane_output_changed_event_codec_def tag_free_events(9)]
  decode_tagged [OF pane_updated_event_codec_lawful pane_updated_event_codec_def tag_free_events(10)]
  decode_tagged [OF tab_closed_event_codec_lawful tab_closed_event_codec_def tag_free_events(11)]
  decode_tagged [OF tab_created_event_codec_lawful tab_created_event_codec_def tag_free_events(12)]
  decode_tagged [OF tab_focused_event_codec_lawful tab_focused_event_codec_def tag_free_events(13)]
  decode_tagged [OF tab_moved_event_codec_lawful tab_moved_event_codec_def tag_free_events(14)]
  decode_tagged [OF tab_renamed_event_codec_lawful tab_renamed_event_codec_def tag_free_events(15)]
  decode_tagged [OF workspace_closed_event_codec_lawful workspace_closed_event_codec_def tag_free_events(16)]
  decode_tagged [OF workspace_created_event_codec_lawful workspace_created_event_codec_def tag_free_events(17)]
  decode_tagged [OF workspace_focused_event_codec_lawful workspace_focused_event_codec_def tag_free_events(18)]
  decode_tagged [OF workspace_metadata_updated_event_codec_lawful workspace_metadata_updated_event_codec_def tag_free_events(19)]
  decode_tagged [OF workspace_moved_event_codec_lawful workspace_moved_event_codec_def tag_free_events(20)]
  decode_tagged [OF workspace_renamed_event_codec_lawful workspace_renamed_event_codec_def tag_free_events(21)]
  decode_tagged [OF workspace_reordered_event_codec_lawful workspace_reordered_event_codec_def tag_free_events(22)]
  decode_tagged [OF workspace_updated_event_codec_lawful workspace_updated_event_codec_def tag_free_events(23)]
  decode_tagged [OF worktree_created_event_codec_lawful worktree_created_event_codec_def tag_free_events(24)]
  decode_tagged [OF worktree_opened_event_codec_lawful worktree_opened_event_codec_def tag_free_events(25)]
  decode_tagged [OF worktree_removed_event_codec_lawful worktree_removed_event_codec_def tag_free_events(26)]

lemma decode_variant_encoded:
  assumes "event_tag e = Some t" and "event_ok pf ff e"
  shows "decode_variant pf ff event (Some (encode_event pf ff e)) t = Inr e"
proof -
  have "event_tag e \<noteq> None \<Longrightarrow>
      decode_variant pf ff event (Some (encode_event pf ff e)) (the (event_tag e)) = Inr e"
    using assms(2) by (cases e) (simp_all add: decode_variant_def decode_tagged_events)
  with assms(1) show ?thesis by simp
qed

lemma encoded_type_head:
  assumes "event_tag e = Some t"
  shows "decode_struct type_head (encode_event pf ff e) [] = Some t"
proof -
  have "event_tag e \<noteq> None \<Longrightarrow> decode_struct type_head (encode_event pf ff e) [] = event_tag e"
    by (cases e) (simp_all add: decode_type_head)
  with assms show ?thesis by simp
qed

lemma decode_dedicated_encoded:
  assumes "event_name e \<in> {''pane.output_matched'', ''pane.agent_status_changed'', ''pane.scroll_changed''}"
    and "event_ok pf ff e"
  shows "decode_dedicated (event_name e) (Some (encode_event pf ff e)) = Inr e"
  using assms
  by (cases e) (simp_all add: decode_dedicated_def decode_tagged_events
      decode_untagged [OF pane_output_matched_event_codec_lawful pane_output_matched_event_codec_def]
      decode_untagged [OF pane_scroll_changed_event_codec_lawful pane_scroll_changed_event_codec_def])

text \<open>The name of an event is its tag with the first underscore turned into a dot.\<close>

lemma event_name_tag: "event_tag e = Some t \<Longrightarrow> event_name e = dot_name t"
  by (cases e) (auto simp: dot_name_def)

lemma event_tag_no_dot: "event_tag e = Some t \<Longrightarrow> CHR ''.'' \<notin> set t"
  by (cases e) auto

definition dedicated_names :: "string list" where
  "dedicated_names = [''pane.output_matched'', ''pane.agent_status_changed'', ''pane.scroll_changed'']"

lemma encode_event_not_null: "encode_event pf ff e \<noteq> JNull"
  by (cases e) (simp_all add: tagged_def untagged_def)

lemma envelope_members:
  "decode_struct raw_event_fields (JObj [(''event'', JStr n), (''data'', j)]) \<lparr>re_event = [], re_data = None\<rparr> =
    Some \<lparr>re_event = n, re_data = Some j\<rparr>"
  by (simp add: decode_struct_def raw_event_fields_def find_field_def plain_field_def string_codec_def
      raw_codec_def)

lemma decode_event_tagged:
  assumes "event_ok pf ff e" "event_tag e = Some t"
  shows "decode_event pf ff t (Some (encode_event pf ff e)) = Inr e"
  using assms by (simp add: decode_event_def event_tag_no_dot encoded_type_head decode_variant_encoded)

lemma unmarshal_envelope_tagged:
  assumes "event_ok pf ff e" "event_tag e = Some t"
  shows "unmarshal_envelope pf ff (JObj [(''event'', JStr t), (''data'', encode_event pf ff e)]) old =
    (\<lparr>ee_event = t, ee_data = Some e\<rparr>, None)"
  using decode_event_tagged [OF assms] assms(2) encode_event_not_null
  by (simp add: unmarshal_envelope_def envelope_members Let_def)

text \<open>
  C9. Every event of the protocol decodes back from the payload its \<open>MarshalJSON\<close> writes: by the type
  tag under its lifecycle name, in an envelope as well, and by the dotted name when it is one of the
  three dedicated subscriptions. The strings must be valid UTF-8, as JSON text is.
\<close>

theorem decode_event_roundtrip:
  assumes "event_ok pf ff e"
  shows "(event_tag e \<noteq> None \<or> event_name e \<in> set dedicated_names) \<and>
    (event_tag e \<noteq> None \<longrightarrow>
      decode_event pf ff (the (event_tag e)) (Some (encode_event pf ff e)) = Inr e \<and>
      unmarshal_envelope pf ff
        (JObj [(''event'', JStr (the (event_tag e))), (''data'', encode_event pf ff e)]) old =
        (\<lparr>ee_event = the (event_tag e), ee_data = Some e\<rparr>, None)) \<and>
    (event_name e \<in> set dedicated_names \<longrightarrow>
      decode_event pf ff (event_name e) (Some (encode_event pf ff e)) = Inr e)"
proof (intro conjI impI)
  show "event_tag e \<noteq> None \<or> event_name e \<in> set dedicated_names"
    by (cases e) (simp_all add: dedicated_names_def)
next
  assume "event_tag e \<noteq> None"
  then obtain t where t: "event_tag e = Some t" by blast
  with assms show "decode_event pf ff (the (event_tag e)) (Some (encode_event pf ff e)) = Inr e"
    and "unmarshal_envelope pf ff
      (JObj [(''event'', JStr (the (event_tag e))), (''data'', encode_event pf ff e)]) old =
      (\<lparr>ee_event = the (event_tag e), ee_data = Some e\<rparr>, None)"
    by (simp_all add: decode_event_tagged unmarshal_envelope_tagged)
next
  assume n: "event_name e \<in> set dedicated_names"
  then have "CHR ''.'' \<in> set (event_name e)" by (auto simp: dedicated_names_def)
  with n assms show "decode_event pf ff (event_name e) (Some (encode_event pf ff e)) = Inr e"
    by (simp add: decode_event_def decode_dedicated_encoded dedicated_names_def)
qed

definition sample_event :: event where
  "sample_event = PaneAgentStatusChanged (pane_agent_status_changed_event_zero\<lparr>
     pane_agent_status_changed_agent := Present ''claude'',
     pane_agent_status_changed_agent_status := ''working'',
     pane_agent_status_changed_pane_id := ''w1:p1''\<rparr>)"

lemma valid_utf8_ascii: "\<forall>c \<in> set s. (of_char c :: nat) < 0x80 \<Longrightarrow> valid_utf8 s"
proof (induction s)
  case (Cons c s)
  then show ?case by (simp add: valid_utf8.simps [of "c # s"] rune_size_ascii)
qed (simp add: valid_utf8.simps)

lemma sample_event_ok: "event_ok pf ff sample_event"
  by (simp add: sample_event_def pane_agent_status_changed_event_codec_def struct_codec_def
      pane_agent_status_changed_event_fields_def plain_field_def optional_field_def
      pane_agent_status_changed_event_zero_def string_codec_def valid_utf8_ascii)

theorem decode_event_roundtrip_witness:
  "decode_event (\<lambda>s. None) (\<lambda>x. []) ''pane_agent_status_changed'' (Some (encode_event (\<lambda>s. None) (\<lambda>x. []) sample_event)) =
      Inr sample_event \<and>
   decode_event (\<lambda>s. None) (\<lambda>x. []) ''pane.agent_status_changed'' (Some (encode_event (\<lambda>s. None) (\<lambda>x. []) sample_event)) =
      Inr sample_event"
  using decode_event_roundtrip [OF sample_event_ok, of "\<lambda>s. None" "\<lambda>x. []"]
  by (simp add: sample_event_def dedicated_names_def)



end
