(* ===== verification/Wire.thy ===== *)
theory Wire
  imports Event_Codec
begin

text \<open>
  The lines of a connection and the documents on them: \<open>requestLine\<close>, \<open>decodeResponseLine\<close> and
  \<open>readLine\<close> of \<open>herdr/client.go\<close>, the reading loop and the pushed document of \<open>herdr/stream.go\<close>.

  A \<open>bufio.Reader\<close> is the bytes the peer will have sent and the error that ends them; a read that
  finds no newline returns the rest of the bytes with that error.
\<close>

record reader =
  rd_bytes :: string
  rd_err :: go_error

text \<open>\<open>ReadBytes('\n')\<close>: the line with its newline, or the rest and the error.\<close>

definition read_bytes :: "reader \<Rightarrow> string \<times> go_error option \<times> reader" where
  "read_bytes r =
    (let line = takeWhile (\<lambda>c. c \<noteq> CHR 0x0A) (rd_bytes r);
         rest = dropWhile (\<lambda>c. c \<noteq> CHR 0x0A) (rd_bytes r)
     in case rest of
          [] \<Rightarrow> (line, Some (rd_err r), r\<lparr>rd_bytes := []\<rparr>)
        | c # rest' \<Rightarrow> (line @ [c], None, r\<lparr>rd_bytes := rest'\<rparr>))"

definition trim_line :: "string \<Rightarrow> string" where
  "trim_line line = trim_right_chars [CHR 0x0D, CHR 0x0A] line"

definition blank :: "string \<Rightarrow> bool" where
  "blank line \<longleftrightarrow> trim_space line = []"

lemma read_bytes_shorter:
  "read_bytes r = (line, None, r') \<Longrightarrow> length (rd_bytes r') < length (rd_bytes r)"
proof -
  assume "read_bytes r = (line, None, r')"
  then obtain c where "dropWhile (\<lambda>c. c \<noteq> CHR 0x0A) (rd_bytes r) = c # rd_bytes r'"
    by (auto simp: read_bytes_def Let_def split: list.splits)
  then have "length (rd_bytes r') < length (dropWhile (\<lambda>c. c \<noteq> CHR 0x0A) (rd_bytes r))" by simp
  also have "\<dots> \<le> length (rd_bytes r)" by (rule length_dropWhile_le)
  finally show ?thesis .
qed

text \<open>\<open>readLine\<close>: the first line that is not blank, without its ending, or the error.\<close>

function read_line :: "reader \<Rightarrow> (go_error, string) result \<times> reader" where
  "read_line r =
    (case read_bytes r of
       (line, e, r') \<Rightarrow>
         (if \<not> blank (trim_line line) then (ok (trim_line line), r')
          else case e of Some e' \<Rightarrow> (err e', r') | None \<Rightarrow> read_line r'))"
  by pat_completeness auto
termination
  by (relation "measure (length \<circ> rd_bytes)") (auto dest: read_bytes_shorter [OF sym])

text \<open>The reading goroutine of a stream: what it hands over, the read error last.\<close>

datatype stream_line = LineData string | LineErr go_error

function stream_lines :: "reader \<Rightarrow> stream_line list" where
  "stream_lines r =
    (case read_bytes r of
       (line, e, r') \<Rightarrow>
         (if \<not> blank (trim_line line) then [LineData (trim_line line)] else []) @
         (case e of Some e' \<Rightarrow> [LineErr e'] | None \<Rightarrow> stream_lines r'))"
  by pat_completeness auto
termination
  by (relation "measure (length \<circ> rd_bytes)") (auto dest: read_bytes_shorter [OF sym])

declare read_line.simps [simp del] stream_lines.simps [simp del]

subsection \<open>Documents\<close>

text \<open>A pointer field: \<open>null\<close> makes it nil, anything else allocates.\<close>

definition pointer_codec :: "'a codec \<Rightarrow> 'a pointer codec" where
  "pointer_codec c = \<lparr>cod_zero = None,
     cod_enc = (\<lambda>p. case p of None \<Rightarrow> JNull | Some v \<Rightarrow> cod_enc c v),
     cod_dec = (\<lambda>j old. if j = JNull then Some None
       else map_option Some (cod_dec c j (case old of None \<Rightarrow> cod_zero c | Some v \<Rightarrow> v))),
     cod_ok = (\<lambda>p. case p of None \<Rightarrow> True | Some v \<Rightarrow> cod_ok c v \<and> cod_enc c v \<noteq> JNull)\<rparr>"

record wire_error =
  we_code :: string
  we_message :: string

definition wire_error_codec :: "wire_error codec" where
  "wire_error_codec = struct_codec \<lparr>we_code = [], we_message = []\<rparr>
    [plain_field ''code'' string_codec we_code (\<lambda>x r. r\<lparr>we_code := x\<rparr>),
     plain_field ''message'' string_codec we_message (\<lambda>x r. r\<lparr>we_message := x\<rparr>)]"

record wire_response =
  wr_id :: string
  wr_result :: "json option"
  wr_error :: "wire_error pointer"

definition wire_response_codec :: "wire_response codec" where
  "wire_response_codec = struct_codec \<lparr>wr_id = [], wr_result = None, wr_error = None\<rparr>
    [plain_field ''id'' string_codec wr_id (\<lambda>x r. r\<lparr>wr_id := x\<rparr>),
     plain_field ''result'' raw_codec wr_result (\<lambda>x r. r\<lparr>wr_result := x\<rparr>),
     plain_field ''error'' (pointer_codec wire_error_codec) wr_error (\<lambda>x r. r\<lparr>wr_error := x\<rparr>)]"

text \<open>The document \<open>Next\<close> reads: a \<open>RawEvent\<close> with a possible \<open>error\<close> member.\<close>

record pushed =
  pu_event :: string
  pu_data :: "json option"
  pu_error :: "wire_error pointer"

definition pushed_codec :: "pushed codec" where
  "pushed_codec = struct_codec \<lparr>pu_event = [], pu_data = None, pu_error = None\<rparr>
    [plain_field ''event'' string_codec pu_event (\<lambda>x r. r\<lparr>pu_event := x\<rparr>),
     plain_field ''data'' raw_codec pu_data (\<lambda>x r. r\<lparr>pu_data := x\<rparr>),
     plain_field ''error'' (pointer_codec wire_error_codec) pu_error (\<lambda>x r. r\<lparr>pu_error := x\<rparr>)]"

definition unmarshal :: "'a codec \<Rightarrow> string \<Rightarrow> 'a option" where
  "unmarshal c text = Option.bind (parse_json text) (\<lambda>j. cod_dec c j (cod_zero c))"

text \<open>
  \<open>requestLine\<close>: \<open>params\<close> is \<open>None\<close> for a nil value, and otherwise what \<open>json.Marshal\<close> makes of it.
\<close>

definition request_line :: "string \<Rightarrow> string \<Rightarrow> (go_error, json) result option \<Rightarrow> (go_error, string) result" where
  "request_line i method params =
    (case (case params of None \<Rightarrow> ok (JObj []) | Some p \<Rightarrow> p) of
       Inl e \<Rightarrow> err e
     | Inr p \<Rightarrow> ok (print_json (JObj [(''id'', JStr i), (''method'', JStr method), (''params'', p)]) @ [CHR 0x0A]))"

definition decode_response_line :: "string \<Rightarrow> string \<Rightarrow> (go_error, json) result" where
  "decode_response_line method line =
    (case unmarshal wire_response_codec line of
       None \<Rightarrow> err (OpError method OpDecode JsonError)
     | Some response \<Rightarrow>
         (case wr_error response of
            Some e \<Rightarrow> err (ServerError method (we_code e) (we_message e))
          | None \<Rightarrow>
              (case wr_result response of
                 None \<Rightarrow> err (OpError method OpDecode (Foreign ''response carries neither result nor error''))
               | Some result \<Rightarrow> ok result)))"

subsection \<open>Framing\<close>

lemma rune_bytes_high:
  assumes "(of_char c :: nat) \<ge> 0x80" and "1 < rune_size (c # s)" and "b \<in> set (take (rune_size (c # s)) (c # s))"
  shows "(of_char b :: nat) \<ge> 0x80"
  using assms
  by (auto simp: rune_size.simps Let_def in_range_def take_Suc_conv_app_nth numeral_2_eq_2 numeral_3_eq_3
      split: if_splits list.splits)

lemma escape_ascii_printable: "c \<in> set (escape_ascii a) \<Longrightarrow> (of_char a :: nat) < 0x80 \<Longrightarrow> (of_char c :: nat) \<ge> 0x20"
proof -
  have hex: "(of_char (hex_digit n) :: nat) \<ge> 0x20" if "n < 16" for n
    using that by (auto simp: hex_digit_def)
  assume "c \<in> set (escape_ascii a)" and "(of_char a :: nat) < 0x80"
  then show ?thesis
    by (auto simp: escape_ascii_def Let_def hex less_mult_imp_div_less split: if_splits)
qed

lemma escape_string_printable: "c \<in> set (escape_string s) \<Longrightarrow> (of_char c :: nat) \<ge> 0x20"
proof (induction s rule: escape_string.induct)
  case (1 s)
  show ?case
  proof (cases s)
    case Nil
    then show ?thesis using "1.prems" by (simp add: escape_string.simps)
  next
    case (Cons a r)
    show ?thesis
    proof (cases "(of_char a :: nat) < 0x80")
      case True
      with Cons "1.prems" have "c \<in> set (escape_ascii a) \<or> c \<in> set (escape_string r)"
        by (subst (asm) escape_string.simps) simp
      with 1 Cons True show ?thesis by (auto dest: escape_ascii_printable)
    next
      case False
      let ?n = "rune_size s"
      have rest: "c \<in> set (escape_string (drop ?n s)) \<Longrightarrow> (of_char c :: nat) \<ge> 0x20"
        using 1 Cons False by auto
      have own: "(of_char c :: nat) \<ge> 0x20" if "?n \<noteq> 1" "c \<in> set (take ?n s)"
      proof -
        have "1 < ?n" using that(1) rune_size_pos [of s] Cons by simp
        with that(2) Cons False have "(of_char c :: nat) \<ge> 0x80"
          using rune_bytes_high [of a r c] by simp
        then show ?thesis by simp
      qed
      have "c \<in> set (escape_string (drop ?n s)) \<or>
          (if ?n = 1 then c \<in> set (CHR 0x5C # ''ufffd'')
           else c \<in> set (CHR 0x5C # ''u2028'') \<or> c \<in> set (CHR 0x5C # ''u2029'') \<or> c \<in> set (take ?n s))"
        using "1.prems" Cons False by (subst (asm) escape_string.simps) (auto simp: Let_def split: if_splits)
      with rest own show ?thesis by (auto split: if_splits)
    qed
  qed
qed

text \<open>A document whose number literals hold no control byte prints without one.\<close>

fun plain_numbers :: "json \<Rightarrow> bool" where
  "plain_numbers (JNum lit) = (\<forall>c \<in> set lit. 0x20 \<le> (of_char c :: nat))"
| "plain_numbers (JArr xs) = (\<forall>x \<in> set xs. plain_numbers x)"
| "plain_numbers (JObj kvs) = (\<forall>kv \<in> set kvs. plain_numbers (snd kv))"
| "plain_numbers _ = True"

lemma join_with_set: "c \<in> set (join_with sep xs) \<Longrightarrow> c \<in> set sep \<or> (\<exists>x \<in> set xs. c \<in> set x)"
  by (induction sep xs rule: join_with.induct) auto

lemma print_json_printable:
  "plain_numbers j \<Longrightarrow> c \<in> set (print_json j) \<Longrightarrow> (of_char c :: nat) \<ge> 0x20"
proof (induction j arbitrary: c)
  case (JStr s)
  then show ?case by (auto simp: print_string_def dest: escape_string_printable)
next
  case (JArr xs)
  then show ?case by (auto dest!: join_with_set)
next
  case (JObj kvs)
  have "(of_char c :: nat) \<ge> 0x20" if "kv \<in> set kvs" "c \<in> set (print_string (fst kv) @ [CHR 0x3A] @ print_json (snd kv))" for kv
    using that JObj.IH [of kv "snd kv"] JObj.prems(1)
    by (auto simp: print_string_def snds.simps dest: escape_string_printable)
  then show ?case using JObj.prems(2) by (auto dest!: join_with_set)
qed (auto split: if_splits)

end
