(* ===== verification/Stream.thy ===== *)
theory Stream
  imports Wire
begin

text \<open>
  \<open>herdr/stream.go\<close>: a connection the server keeps open to push events.

  The reading goroutine is the list \<open>st_lines\<close> of what it still hands over, in order, the read error
  last; after it the channel is closed. \<open>Next\<close> has two moments, entering it and the \<open>select\<close> that
  follows, between which \<open>Close\<close> may run on another goroutine: \<open>next_enter\<close> and \<open>next_select\<close>, the
  latter with the case of the \<open>select\<close> that fires as an argument. What \<open>ctx.Err()\<close> returns at a moment
  is an argument too. \<open>st_closed\<close> is the closed channel and the \<open>sync.Once\<close> that closes it, and
  \<open>st_closes\<close> counts the calls of the connection's \<open>Close\<close>.
\<close>

record stream =
  st_method :: string
  st_ack :: json
  st_conn_close :: "go_error option"
  st_lines :: "stream_line list"
  st_closed :: bool
  st_close_err :: "go_error option"
  st_closes :: nat
  st_read_err :: "go_error option"

definition new_stream :: "string \<Rightarrow> go_error option \<Rightarrow> reader \<Rightarrow> json \<Rightarrow> stream" where
  "new_stream method conn_close r ack =
    \<lparr>st_method = method, st_ack = ack, st_conn_close = conn_close, st_lines = stream_lines r,
     st_closed = False, st_close_err = None, st_closes = 0, st_read_err = None\<rparr>"

definition stream_close :: "stream \<Rightarrow> go_error option \<times> stream" where
  "stream_close s =
    (let s = (if st_closed s then s
              else s\<lparr>st_closed := True,
                st_close_err := op_error (st_method s) OpClose (st_conn_close s),
                st_closes := Suc (st_closes s)\<rparr>)
     in (st_close_err s, s))"

definition set_read_err :: "go_error \<Rightarrow> stream \<Rightarrow> stream" where
  "set_read_err e s = (if st_read_err s = None then s\<lparr>st_read_err := Some e\<rparr> else s)"

definition terminal_err :: "go_error option \<Rightarrow> stream \<Rightarrow> go_error" where
  "terminal_err ctx_err s = (case ctx_err of
     Some e \<Rightarrow> OpError (st_method s) OpRead e
   | None \<Rightarrow> stream_read_error (st_method s) (st_read_err s))"

definition next_enter :: "go_error option \<Rightarrow> go_error option \<Rightarrow> stream \<Rightarrow> go_error option" where
  "next_enter ctx_err ctx_err' s = (case ctx_err of
     Some e \<Rightarrow> Some (OpError (st_method s) OpRead e)
   | None \<Rightarrow> if st_closed s then Some (terminal_err ctx_err' s) else None)"

datatype select_case = CtxDone go_error | StreamClosed | LineReady

definition next_select ::
  "select_case \<Rightarrow> go_error option \<Rightarrow> stream \<Rightarrow> (go_error, raw_event) result \<times> stream" where
  "next_select sel ctx_err s = (case sel of
     CtxDone e \<Rightarrow> (err (OpError (st_method s) OpRead e), s)
   | StreamClosed \<Rightarrow> (err (terminal_err ctx_err s), s)
   | LineReady \<Rightarrow>
       (case st_lines s of
          [] \<Rightarrow> (err (terminal_err ctx_err s), s)
        | LineErr e # rest \<Rightarrow>
            (let s = set_read_err e (s\<lparr>st_lines := rest\<rparr>) in (err (terminal_err ctx_err s), s))
        | LineData d # rest \<Rightarrow>
            (let s = s\<lparr>st_lines := rest\<rparr>
             in case unmarshal pushed_codec d of
                  None \<Rightarrow> (err (OpError (st_method s) OpDecode JsonError), s)
                | Some p \<Rightarrow>
                    (case pu_error p of
                       Some e \<Rightarrow>
                         (let s = set_read_err (ServerError (st_method s) (we_code e) (we_message e)) s
                          in (err (terminal_err ctx_err s), s))
                     | None \<Rightarrow> (ok \<lparr>re_event = pu_event p, re_data = pu_data p\<rparr>, s)))))"

text \<open>\<open>NextEvent\<close> of \<open>herdr/events_gen.go\<close> decodes the payload of the line.\<close>

definition next_event ::
  "(string \<Rightarrow> float64 option) \<Rightarrow> (float64 \<Rightarrow> string) \<Rightarrow> string \<Rightarrow> (go_error, raw_event) result \<Rightarrow>
    (go_error, event) result" where
  "next_event pf ff method raw = (case raw of
     Inl e \<Rightarrow> err e
   | Inr r \<Rightarrow> (case decode_event pf ff (re_event r) (re_data r) of
       Inl e \<Rightarrow> err (OpError method OpDecode e) | Inr event \<Rightarrow> ok event))"

text \<open>
  What can happen to a stream: any number of calls of \<open>Next\<close> and \<open>Close\<close>, in any interleaving. The
  closed case of a \<open>select\<close> fires only on a closed stream.
\<close>

inductive stream_step :: "stream \<Rightarrow> stream \<Rightarrow> bool" where
  step_select: "sel = StreamClosed \<longrightarrow> st_closed s \<Longrightarrow> stream_step s (snd (next_select sel ctx_err s))"
| step_close: "stream_step s (snd (stream_close s))"

inductive_cases stream_stepE: "stream_step s t"

definition stream_reaches :: "stream \<Rightarrow> stream \<Rightarrow> bool" where
  "stream_reaches = stream_step\<^sup>*\<^sup>*"

subsection \<open>What the reading loop hands over\<close>

lemma split_on_last: "sep \<notin> set s \<Longrightarrow> split_on sep s = [s]"
  by (induction s) auto

lemma split_on_more: "sep \<notin> set l \<Longrightarrow> split_on sep (l @ sep # rest) = l # split_on sep rest"
  by (induction l) auto

lemma read_bytes_last:
  "CHR 0x0A \<notin> set (rd_bytes r) \<Longrightarrow> read_bytes r = (rd_bytes r, Some (rd_err r), r\<lparr>rd_bytes := []\<rparr>)"
proof -
  assume "CHR 0x0A \<notin> set (rd_bytes r)"
  then have "\<forall>c \<in> set (rd_bytes r). c \<noteq> CHR 0x0A" by metis
  then have "takeWhile (\<lambda>c. c \<noteq> CHR 0x0A) (rd_bytes r) = rd_bytes r"
    and "dropWhile (\<lambda>c. c \<noteq> CHR 0x0A) (rd_bytes r) = []"
    by (simp_all only: takeWhile_eq_all_conv dropWhile_eq_Nil_conv)
  then show ?thesis by (simp only: read_bytes_def Let_def list.case)
qed

lemma read_bytes_more:
  assumes "CHR 0x0A \<notin> set l" and "rd_bytes r = l @ CHR 0x0A # rest"
  shows "read_bytes r = (l @ [CHR 0x0A], None, r\<lparr>rd_bytes := rest\<rparr>)"
proof -
  have no: "\<forall>c \<in> set l. c \<noteq> CHR 0x0A" using assms(1) by metis
  have "takeWhile (\<lambda>c. c \<noteq> CHR 0x0A) (rd_bytes r) = l"
    unfolding assms(2) using no by (subst takeWhile_append2) auto
  moreover have "dropWhile (\<lambda>c. c \<noteq> CHR 0x0A) (rd_bytes r) = CHR 0x0A # rest"
    unfolding assms(2) using no by (subst dropWhile_append2) auto
  ultimately show ?thesis by (simp only: read_bytes_def Let_def list.case)
qed

lemma dropWhile_no_lf:
  "CHR 0x0A \<notin> set s \<Longrightarrow> dropWhile (\<lambda>c. c \<in> set [CHR 0x0D, CHR 0x0A]) s = dropWhile (\<lambda>c. c \<in> set [CHR 0x0D]) s"
  by (induction s) auto

lemma trim_line_no_lf:
  assumes "CHR 0x0A \<notin> set l"
  shows "trim_line l = trim_right_chars [CHR 0x0D] l" and "trim_line (l @ [CHR 0x0A]) = trim_right_chars [CHR 0x0D] l"
proof -
  have "CHR 0x0A \<notin> set (rev l)" using assms by simp
  note no_lf = dropWhile_no_lf [OF this]
  show "trim_line l = trim_right_chars [CHR 0x0D] l"
    unfolding trim_line_def trim_right_chars_def no_lf ..
  have "dropWhile (\<lambda>c. c \<in> set [CHR 0x0D, CHR 0x0A]) (rev (l @ [CHR 0x0A])) =
      dropWhile (\<lambda>c. c \<in> set [CHR 0x0D, CHR 0x0A]) (rev l)" by simp
  then show "trim_line (l @ [CHR 0x0A]) = trim_right_chars [CHR 0x0D] l"
    unfolding trim_line_def trim_right_chars_def no_lf by (simp only: no_lf)
qed

lemma stream_lines_last:
  assumes "CHR 0x0A \<notin> set (rd_bytes r)"
  shows "stream_lines r = (let t = trim_right_chars [CHR 0x0D] (rd_bytes r)
    in (if blank t then [] else [LineData t]) @ [LineErr (rd_err r)])"
  by (subst stream_lines.simps) (simp add: read_bytes_last [OF assms] trim_line_no_lf(1) [OF assms] Let_def)

lemma stream_lines_more:
  assumes "CHR 0x0A \<notin> set l" and "rd_bytes r = l @ CHR 0x0A # rest"
  shows "stream_lines r = (let t = trim_right_chars [CHR 0x0D] l
    in (if blank t then [] else [LineData t]) @ stream_lines (r\<lparr>rd_bytes := rest\<rparr>))"
  by (subst stream_lines.simps) (simp add: read_bytes_more [OF assms] trim_line_no_lf(2) [OF assms(1)] Let_def)

lemma stream_lines_split:
  "stream_lines r =
    map LineData (filter (\<lambda>l. \<not> blank l)
      (map (trim_right_chars [CHR 0x0D]) (split_on (CHR 0x0A) (rd_bytes r)))) @ [LineErr (rd_err r)]"
proof (induction "length (rd_bytes r)" arbitrary: r rule: less_induct)
  case less
  show ?case
  proof (cases "CHR 0x0A \<in> set (rd_bytes r)")
    case False
    then show ?thesis by (simp add: stream_lines_last split_on_last Let_def)
  next
    case True
    then obtain l rest where r: "rd_bytes r = l @ CHR 0x0A # rest" "CHR 0x0A \<notin> set l"
      by (meson split_list_first)
    have "length (rd_bytes (r\<lparr>rd_bytes := rest\<rparr>)) < length (rd_bytes r)" by (simp add: r(1))
    note IH = less [OF this]
    show ?thesis
      unfolding stream_lines_more [OF r(2,1)] IH unfolding r(1) split_on_more [OF r(2)]
      by (simp add: Let_def)
  qed
qed

text \<open>The response line and the stream share one reader: what one takes the other does not see.\<close>

lemma read_line_stream_lines:
  "read_line r = (res, r') \<Longrightarrow> stream_lines r = (case res of
     Inr line \<Rightarrow> LineData line # stream_lines r' | Inl e \<Rightarrow> [LineErr e])"
proof (induction r rule: read_line.induct)
  case (1 r)
  show ?case
  proof (cases "CHR 0x0A \<in> set (rd_bytes r)")
    case False
    let ?t = "trim_line (rd_bytes r)"
    have lines: "stream_lines r = (if blank ?t then [] else [LineData ?t]) @ [LineErr (rd_err r)]"
      by (subst stream_lines.simps) (simp add: read_bytes_last [OF False])
    have "read_line r = (if blank ?t then (Inl (rd_err r), r\<lparr>rd_bytes := []\<rparr>) else (Inr ?t, r\<lparr>rd_bytes := []\<rparr>))"
      by (subst read_line.simps) (simp add: read_bytes_last [OF False])
    moreover have "stream_lines (r\<lparr>rd_bytes := []\<rparr>) = [LineErr (rd_err r)]"
      by (simp add: stream_lines_last Let_def trim_right_chars_def blank_def trim_space_def trim_left_any.simps
          space_encodings_def)
    ultimately show ?thesis using "1.prems" lines by (auto split: if_splits)
  next
    case True
    then obtain l rest where r: "rd_bytes r = l @ CHR 0x0A # rest" "CHR 0x0A \<notin> set l"
      by (meson split_list_first)
    let ?t = "trim_line (l @ [CHR 0x0A])" and ?r = "r\<lparr>rd_bytes := rest\<rparr>"
    note step = read_bytes_more [OF r(2,1)]
    have lines: "stream_lines r = (if blank ?t then [] else [LineData ?t]) @ stream_lines ?r"
      by (subst stream_lines.simps) (simp add: step)
    have "read_line r = (if blank ?t then read_line ?r else (Inr ?t, ?r))"
      by (subst read_line.simps) (simp add: step)
    moreover have "blank ?t \<Longrightarrow> read_line ?r = (res, r') \<Longrightarrow>
        stream_lines ?r = (case res of Inr line \<Rightarrow> LineData line # stream_lines r' | Inl e \<Rightarrow> [LineErr e])"
      using "1.IH" [OF step [symmetric] refl] by simp
    ultimately show ?thesis using "1.prems" lines by (auto split: if_splits)
  qed
qed

subsection \<open>Properties of a stream\<close>

lemma select_keeps:
  "st_closed (snd (next_select sel c s)) = st_closed s"
  "st_closes (snd (next_select sel c s)) = st_closes s"
  "st_close_err (snd (next_select sel c s)) = st_close_err s"
  "st_conn_close (snd (next_select sel c s)) = st_conn_close s"
  "st_method (snd (next_select sel c s)) = st_method s"
  "st_ack (snd (next_select sel c s)) = st_ack s"
  by (simp_all add: next_select_def set_read_err_def Let_def
      split: select_case.split list.split stream_line.split option.split)

lemma close_keeps:
  "st_lines (snd (stream_close s)) = st_lines s"
  "st_read_err (snd (stream_close s)) = st_read_err s"
  "st_method (snd (stream_close s)) = st_method s"
  by (simp_all add: stream_close_def Let_def)

lemma select_lines: "\<exists>taken. st_lines s = taken @ st_lines (snd (next_select sel c s))"
  by (auto simp: next_select_def set_read_err_def Let_def
      split: select_case.split list.split stream_line.split option.split)

lemma select_read_err: "st_read_err s = Some e \<Longrightarrow> st_read_err (snd (next_select sel c s)) = Some e"
  by (auto simp: next_select_def set_read_err_def Let_def
      split: select_case.split list.split stream_line.split option.split)

text \<open>
  C11. The lines a stream hands over are those of the connection after the response, in order and
  each once: the text between newlines, without a carriage return at its end, blank lines left out,
  an unterminated last line included, and the read error after them. The response line is what comes
  before: reading it takes nothing of the stream.
\<close>

theorem stream_hands_over_every_line:
  "st_lines (new_stream method cc r ack) =
      map LineData (filter (\<lambda>l. \<not> blank l)
        (map (trim_right_chars [CHR 0x0D]) (split_on (CHR 0x0A) (rd_bytes r)))) @ [LineErr (rd_err r)] \<and>
   stream_lines r = (case read_line r of
      (Inr line, r') \<Rightarrow> LineData line # st_lines (new_stream method cc r' ack)
    | (Inl e, r') \<Rightarrow> [LineErr e])"
proof
  show "st_lines (new_stream method cc r ack) =
      map LineData (filter (\<lambda>l. \<not> blank l)
        (map (trim_right_chars [CHR 0x0D]) (split_on (CHR 0x0A) (rd_bytes r)))) @ [LineErr (rd_err r)]"
    unfolding new_stream_def using stream_lines_split by simp
  obtain res r' where "read_line r = (res, r')" by fastforce
  with read_line_stream_lines [OF this]
  show "stream_lines r = (case read_line r of
      (Inr line, r') \<Rightarrow> LineData line # st_lines (new_stream method cc r' ack)
    | (Inl e, r') \<Rightarrow> [LineErr e])"
    by (cases res) (simp_all add: new_stream_def)
qed

lemma stream_step_inv:
  assumes "stream_step s t"
  shows "(\<exists>taken. st_lines s = taken @ st_lines t) \<and> st_method t = st_method s \<and>
    (\<forall>e. st_read_err s = Some e \<longrightarrow> st_read_err t = Some e) \<and> (st_closed s \<longrightarrow> st_closed t)"
  using assms
proof (elim stream_stepE)
  fix sel c
  assume "t = snd (next_select sel c s)"
  with select_lines [of s sel c] select_read_err [of s _ sel c] show ?thesis by (simp add: select_keeps)
next
  assume "t = snd (stream_close s)"
  then show ?thesis by (simp add: close_keeps) (simp add: stream_close_def Let_def)
qed

lemma step_conn_close: "stream_step s t \<Longrightarrow> st_conn_close t = st_conn_close s"
  by (elim stream_stepE) (simp_all add: select_keeps, simp add: stream_close_def Let_def)

lemma stream_reaches_inv:
  assumes "stream_reaches s t"
  shows "(\<exists>taken. st_lines s = taken @ st_lines t) \<and> st_method t = st_method s \<and>
    (\<forall>e. st_read_err s = Some e \<longrightarrow> st_read_err t = Some e) \<and> (st_closed s \<longrightarrow> st_closed t)"
  using assms unfolding stream_reaches_def
proof (induction rule: rtranclp_induct)
  case (step t u)
  from stream_step_inv [OF step(2)] obtain taken where "st_lines t = taken @ st_lines u" by blast
  moreover from step(3) obtain taken' where "st_lines s = taken' @ st_lines t" by blast
  ultimately have "\<exists>taken. st_lines s = taken @ st_lines u" by (intro exI [of _ "taken' @ taken"]) simp
  with step(3) stream_step_inv [OF step(2)] show ?case by simp
qed simp

definition close_inv :: "stream \<Rightarrow> bool" where
  "close_inv s \<longleftrightarrow> st_closes s = (if st_closed s then 1 else 0) \<and>
    (st_closed s \<longrightarrow> st_close_err s = op_error (st_method s) OpClose (st_conn_close s))"

lemma close_inv_step: "stream_step s t \<Longrightarrow> close_inv s \<Longrightarrow> close_inv t"
  by (elim stream_stepE) (auto simp: close_inv_def select_keeps stream_close_def Let_def)

lemma close_inv_reaches: "stream_reaches (new_stream m cc r ack) s \<Longrightarrow> close_inv s"
  unfolding stream_reaches_def
  by (induction rule: rtranclp_induct) (simp_all add: close_inv_step, simp add: close_inv_def new_stream_def)

text \<open>
  C12. However its calls interleave, a stream closes its connection at most once, every call of
  \<open>Close\<close> returns the same result, and after it no \<open>Next\<close> yields an event again: with a live context
  it fails with an error that matches \<open>ErrStreamClosed\<close>.
\<close>

theorem stream_closes_once:
  assumes "stream_reaches (new_stream m cc r ack) s"
  shows "st_closes s \<le> 1 \<and> fst (stream_close s) = op_error (st_method s) OpClose (st_conn_close s) \<and>
    st_closes (snd (stream_close s)) = 1 \<and>
    (\<forall>t. stream_reaches (snd (stream_close s)) t \<longrightarrow>
      fst (stream_close t) = fst (stream_close s) \<and> st_closes t = 1 \<and>
      (\<exists>e. next_enter None None t = Some e \<and> is_error e ErrStreamClosed))"
proof -
  have inv: "close_inv s" using assms by (rule close_inv_reaches)
  let ?t = "snd (stream_close s)"
  have step: "stream_step s ?t" by (rule step_close)
  have inv': "close_inv ?t" using close_inv_step [OF step inv] .
  have closed: "st_closed ?t" by (simp add: stream_close_def Let_def)
  have conn: "st_conn_close u = st_conn_close ?t \<and> st_method u = st_method ?t \<and> close_inv u \<and> st_closed u"
    if "stream_reaches ?t u" for u
    using that unfolding stream_reaches_def
  proof (induction rule: rtranclp_induct)
    case base
    show ?case using inv' closed by simp
  next
    case (step u w)
    then have "close_inv w" and "st_closed w \<and> st_method w = st_method u"
      using close_inv_step stream_step_inv by blast+
    with step(3) step_conn_close [OF step(2)] show ?case by simp
  qed
  have same: "st_conn_close ?t = st_conn_close s" "st_method ?t = st_method s"
    by (simp_all add: stream_close_def Let_def)
  have first: "fst (stream_close s) = op_error (st_method s) OpClose (st_conn_close s)"
    using inv by (simp add: close_inv_def stream_close_def Let_def)
  have later: "fst (stream_close u) = fst (stream_close s) \<and> st_closes u = 1 \<and>
      (\<exists>e. next_enter None None u = Some e \<and> is_error e ErrStreamClosed)" if "stream_reaches ?t u" for u
  proof -
    have u: "close_inv u" "st_closed u" "st_conn_close u = st_conn_close s" "st_method u = st_method s"
      using conn [OF that] same by simp_all
    then have "fst (stream_close u) = fst (stream_close s)"
      unfolding first by (simp add: close_inv_def stream_close_def)
    with u show ?thesis by (simp add: close_inv_def next_enter_def terminal_err_def)
  qed
  have "st_closes s \<le> 1" "st_closes ?t = 1"
    using inv inv' closed by (simp_all add: close_inv_def)
  with first later show ?thesis by simp
qed

theorem stream_closes_once_witness:
  "let s = new_stream ''events.subscribe'' (Some (Foreign ''x'')) \<lparr>rd_bytes = [], rd_err = ErrEOF\<rparr> JNull
   in st_closes s \<le> 1 \<and> fst (stream_close s) = Some (OpError ''events.subscribe'' OpClose (Foreign ''x''))"
proof -
  have "stream_reaches s s" for s by (simp add: stream_reaches_def)
  from stream_closes_once [OF this, of "''events.subscribe''" "Some (Foreign ''x'')" "\<lparr>rd_bytes = [], rd_err = ErrEOF\<rparr>" JNull]
  show ?thesis by (simp add: Let_def op_error_def) (simp add: new_stream_def)
qed


text \<open>A line that carries an error response, for an example: \<open>{"error":{"code":"c","message":"m"}}\<close>.\<close>

definition quoted :: "string \<Rightarrow> string" where
  "quoted s = [CHR 0x22] @ s @ [CHR 0x22]"

definition error_line :: string where
  "error_line = [CHR 0x7B] @ quoted ''error'' @ '':'' @ [CHR 0x7B] @ quoted ''code'' @ '':'' @ quoted ''c'' @
    '','' @ quoted ''message'' @ '':'' @ quoted ''m'' @ [CHR 0x7D, CHR 0x7D]"

lemma error_line_decodes:
  "unmarshal pushed_codec error_line =
    Some \<lparr>pu_event = [], pu_data = None, pu_error = Some \<lparr>we_code = ''c'', we_message = ''m''\<rparr>\<rparr>"
  by code_simp


end
