(* ===== verification/Client.thy ===== *)
theory Client
  imports Stream
begin

text \<open>
  \<open>herdr/client.go\<close> and \<open>herdr/dial.go\<close>: one request on a fresh connection, answered by one line,
  after which the connection is closed or becomes a stream.

  The world one call meets is the record \<open>exchange\<close>: what the injected or platform functions answer
  and what \<open>ctx.Err()\<close> returns at the moments the code looks. \<open>owned_conn\<close> is \<open>ownedConnection\<close>, with
  the number of times the underlying \<open>Close\<close> was called. \<open>xc_watch\<close> says whether the watcher of the
  context ran and closed the connection before \<open>stopWatch\<close> joined it.
\<close>

record owned_conn =
  oc_done :: bool
  oc_close_err :: "go_error option"
  oc_result :: "go_error option"
  oc_closes :: nat

definition new_owned :: "go_error option \<Rightarrow> owned_conn" where
  "new_owned result = \<lparr>oc_done = False, oc_close_err = None, oc_result = result, oc_closes = 0\<rparr>"

definition owned_close :: "owned_conn \<Rightarrow> go_error option \<times> owned_conn" where
  "owned_close c =
    (let c = (if oc_done c then c
              else c\<lparr>oc_done := True, oc_close_err := oc_result c, oc_closes := Suc (oc_closes c)\<rparr>)
     in (oc_close_err c, c))"

text \<open>
  What a dial meets: \<open>ctx.Err()\<close> before and after it, under the timeout when one is set, whether the
  dialer returns a connection, its error, and what the connection's \<open>Close\<close> will return.
\<close>

record dialing =
  dl_ctx_before :: "go_error option"
  dl_conn :: bool
  dl_err :: "go_error option"
  dl_ctx_after :: "go_error option"
  dl_close :: "go_error option"

datatype dialed = NoConn | ClosedConn owned_conn | Conn owned_conn

text \<open>The result, and what became of a connection the dialer returned.\<close>

definition client_dial :: "dialing \<Rightarrow> (go_error, owned_conn) result \<times> dialed" where
  "client_dial d = (case dl_ctx_before d of
     Some e \<Rightarrow> (err e, NoConn)
   | None \<Rightarrow>
       (let e = (case dl_ctx_after d of Some c \<Rightarrow> Some c | None \<Rightarrow> dl_err d);
            conn = new_owned (dl_close d)
        in case e of
             Some e' \<Rightarrow> (err e', if dl_conn d then ClosedConn (snd (owned_close conn)) else NoConn)
           | None \<Rightarrow>
               if \<not> dl_conn d
               then (err (Foreign ''herdr: dialer returned no connection and no error''), NoConn)
               else (ok conn, Conn conn)))"

record exchange =
  xc_id :: string
  xc_params :: "(go_error, json) result option"
  xc_ctx_encode :: "go_error option"
  xc_dial :: dialing
  xc_write :: "nat \<times> go_error option"
  xc_ctx_write :: "go_error option"
  xc_reader :: reader
  xc_ctx_read :: "go_error option"
  xc_watch :: bool
  xc_ctx_end :: "go_error option"

definition write_all :: "nat \<times> go_error option \<Rightarrow> string \<Rightarrow> go_error option" where
  "write_all w line = (case snd w of
     Some e \<Rightarrow> Some e | None \<Rightarrow> if fst w \<noteq> length line then Some ErrShortWrite else None)"

text \<open>The deferred close of a failed exchange, after the watcher was stopped.\<close>

definition drop_conn :: "bool \<Rightarrow> owned_conn \<Rightarrow> owned_conn" where
  "drop_conn watched c = (let c = (if watched then snd (owned_close c) else c) in snd (owned_close c))"

record opened =
  op_conn :: owned_conn
  op_reader :: reader
  op_result :: json

definition client_open :: "string \<Rightarrow> exchange \<Rightarrow> (go_error, opened) result \<times> dialed" where
  "client_open method x =
    (case request_line (xc_id x) method (xc_params x) of
       Inl e \<Rightarrow> (err (request_error (xc_ctx_encode x) method OpEncode e), NoConn)
     | Inr request \<Rightarrow>
         (case client_dial (xc_dial x) of
            (Inl e, d) \<Rightarrow> (err (OpError method OpDial e), d)
          | (Inr conn, d) \<Rightarrow>
              (let fail = (\<lambda>e. (err e, ClosedConn (drop_conn (xc_watch x) conn)))
               in case write_all (xc_write x) request of
                    Some e \<Rightarrow> fail (request_error (xc_ctx_write x) method OpWrite e)
                  | None \<Rightarrow>
                      (case read_line (xc_reader x) of
                         (Inl e, r) \<Rightarrow> fail (request_error (xc_ctx_read x) method OpRead e)
                       | (Inr line, r) \<Rightarrow>
                           (case xc_ctx_end x of
                              Some c \<Rightarrow> fail (OpError method OpRead c)
                            | None \<Rightarrow>
                                (case decode_response_line method line of
                                   Inl e \<Rightarrow> fail e
                                 | Inr result \<Rightarrow>
                                     (let conn = (if xc_watch x then snd (owned_close conn) else conn)
                                      in (ok \<lparr>op_conn = conn, op_reader = r, op_result = result\<rparr>, Conn conn))))))))"

definition call_raw :: "string \<Rightarrow> exchange \<Rightarrow> (go_error, json) result \<times> dialed" where
  "call_raw method x = (case client_open method x of
     (Inl e, d) \<Rightarrow> (err e, d)
   | (Inr opened, d) \<Rightarrow> (ok (op_result opened), ClosedConn (snd (owned_close (op_conn opened)))))"

text \<open>\<open>Call\<close> with a codec for the type of \<open>result\<close>, \<open>None\<close> for a nil \<open>result\<close>.\<close>

definition client_call :: "string \<Rightarrow> exchange \<Rightarrow> 'a codec option \<Rightarrow> (go_error, 'a option) result \<times> dialed" where
  "client_call method x c = (case call_raw method x of
     (Inl e, d) \<Rightarrow> (err e, d)
   | (Inr raw, d) \<Rightarrow>
       (case c of
          None \<Rightarrow> (ok None, d)
        | Some c' \<Rightarrow>
            (case cod_dec c' raw (cod_zero c') of
               None \<Rightarrow> (err (OpError method OpDecode JsonError), d)
             | Some v \<Rightarrow> (ok (Some v), d))))"

definition open_stream :: "string \<Rightarrow> exchange \<Rightarrow> (go_error, stream) result \<times> dialed" where
  "open_stream method x = (case client_open method x of
     (Inl e, d) \<Rightarrow> (err e, d)
   | (Inr opened, d) \<Rightarrow>
       (ok (new_stream method (oc_result (op_conn opened)) (op_reader opened) (op_result opened)), d))"

text \<open>\<open>requestID\<close>: the generator when one is set, else a counter.\<close>

definition request_id :: "string option \<Rightarrow> 64 word \<Rightarrow> string \<times> 64 word" where
  "request_id generated sequence = (case generated of
     Some i \<Rightarrow> (i, sequence)
   | None \<Rightarrow> (''herdr-go-'' @ format_uint (unat (sequence + 1)), sequence + 1))"

text \<open>
  The watcher runs only once the context is done, and a done context stays so: what
  \<open>context.AfterFunc\<close> and \<open>Context.Err\<close> are documented to do.
\<close>

definition context_obeys :: "exchange \<Rightarrow> bool" where
  "context_obeys x \<longleftrightarrow> (xc_watch x \<longrightarrow> xc_ctx_end x \<noteq> None) \<and>
    (xc_ctx_write x \<noteq> None \<longrightarrow> xc_ctx_read x = xc_ctx_write x) \<and>
    (xc_ctx_read x \<noteq> None \<longrightarrow> xc_ctx_end x = xc_ctx_read x)"

subsection \<open>Properties of an exchange\<close>

lemma owned_close_once [simp]:
  "oc_closes (snd (owned_close (new_owned r))) = 1"
  "oc_done (snd (owned_close c))"
  "oc_done c \<Longrightarrow> snd (owned_close c) = c"
  by (simp_all add: owned_close_def new_owned_def Let_def)

lemma drop_conn_new [simp]: "oc_closes (drop_conn w (new_owned r)) = 1"
  by (cases w) (simp_all add: drop_conn_def Let_def)

text \<open>A dial either fails, with any connection it returned closed, or hands out a fresh connection.\<close>

lemma client_dial_cases:
  obtains (fails) e d where "client_dial x = (Inl e, d)" "d = NoConn \<or> (\<exists>c. d = ClosedConn c \<and> oc_closes c = 1)"
  | (connects) r where "client_dial x = (Inr (new_owned r), Conn (new_owned r))"
proof (cases "fst (client_dial x)")
  case (Inl e)
  then show ?thesis
    by (intro fails [of e "snd (client_dial x)"])
      (auto simp: client_dial_def Let_def split: option.splits if_splits)
next
  case (Inr c)
  then show ?thesis
    by (intro connects [of "dl_close x"])
      (auto simp: client_dial_def Let_def split: option.splits if_splits)
qed

text \<open>The stages of an exchange after a connection was made.\<close>

lemma client_open_connected:
  assumes "request_line (xc_id x) m (xc_params x) = Inr request"
    and "client_dial (xc_dial x) = (Inr (new_owned r), d)"
  obtains (fails) e where "client_open m x = (Inl e, ClosedConn (drop_conn (xc_watch x) (new_owned r)))"
      "e = request_error (xc_ctx_write x) m OpWrite (the (write_all (xc_write x) request)) \<or>
       (\<exists>c. e = request_error (xc_ctx_read x) m OpRead c) \<or>
       (\<exists>c. xc_ctx_end x = Some c \<and> e = OpError m OpRead c) \<or>
       (\<exists>line. xc_ctx_end x = None \<and> decode_response_line m line = Inl e)"
  | (works) line r' result where "read_line (xc_reader x) = (Inr line, r')"
      "decode_response_line m line = Inr result" "xc_ctx_end x = None"
      "write_all (xc_write x) request = None"
      "let conn = (if xc_watch x then snd (owned_close (new_owned r)) else new_owned r)
       in client_open m x = (Inr \<lparr>op_conn = conn, op_reader = r', op_result = result\<rparr>, Conn conn)"
proof (cases "write_all (xc_write x) request")
  case (Some e)
  from assms Some have "client_open m x = (Inl (request_error (xc_ctx_write x) m OpWrite e), ClosedConn (drop_conn (xc_watch x) (new_owned r)))"
      by (simp add: client_open_def)
    then show ?thesis by (rule fails) (simp add: Some)
next
  case None
  note wrote = this
  obtain res r' where read: "read_line (xc_reader x) = (res, r')" by fastforce
  show ?thesis
  proof (cases res)
    case (Inl e)
    from assms wrote read Inl have "client_open m x = (Inl (request_error (xc_ctx_read x) m OpRead e), ClosedConn (drop_conn (xc_watch x) (new_owned r)))"
      by (simp add: client_open_def)
    then show ?thesis by (rule fails) blast
  next
    case (Inr line)
    show ?thesis
    proof (cases "xc_ctx_end x")
      case (Some c)
      from assms wrote read Inr Some have "client_open m x = (Inl (OpError m OpRead c), ClosedConn (drop_conn (xc_watch x) (new_owned r)))"
      by (simp add: client_open_def)
    then show ?thesis by (rule fails) (simp add: Some)
    next
      case None
      show ?thesis
      proof (cases "decode_response_line m line")
        case (Inl e)
        from assms wrote read \<open>res = Inr line\<close> None Inl have "client_open m x = (Inl (e), ClosedConn (drop_conn (xc_watch x) (new_owned r)))"
      by (simp add: client_open_def)
    then show ?thesis by (rule fails) (use None Inl in \<open>simp, blast\<close>)
      next
        case (Inr result)
        with assms wrote read \<open>res = Inr line\<close> None show ?thesis
          by (intro works) (auto simp: client_open_def)
      qed
    qed
  qed
qed

text \<open>
  C14. No exchange leaks or closes twice: a failed one leaves no connection open, a successful one
  hands out a connection that nobody has closed, and a call closes its connection exactly once.
\<close>

theorem exchange_owns_connection:
  assumes "context_obeys x"
  shows "(case client_open m x of
      (Inl e, d) \<Rightarrow> d = NoConn \<or> (\<exists>c. d = ClosedConn c \<and> oc_closes c = 1)
    | (Inr opened, d) \<Rightarrow> d = Conn (op_conn opened) \<and> oc_closes (op_conn opened) = 0) \<and>
    (snd (call_raw m x) = NoConn \<or> (\<exists>c. snd (call_raw m x) = ClosedConn c \<and> oc_closes c = 1))"
proof -
  have *: "(case client_open m x of
      (Inl e, d) \<Rightarrow> d = NoConn \<or> (\<exists>c. d = ClosedConn c \<and> oc_closes c = 1)
    | (Inr opened, d) \<Rightarrow> d = Conn (op_conn opened) \<and> (\<exists>r. op_conn opened = new_owned r))"
  proof (cases "request_line (xc_id x) m (xc_params x)")
    case (Inl e)
    then show ?thesis by (simp add: client_open_def)
  next
    case (Inr request)
    show ?thesis
    proof (cases "xc_dial x" rule: client_dial_cases)
      case (fails e d)
      with Inr show ?thesis by (auto simp: client_open_def)
    next
      case (connects r)
      from Inr connects show ?thesis
      proof (cases rule: client_open_connected)
        case (fails e)
        then show ?thesis by simp
      next
        case (works line r' result)
        then have "\<not> xc_watch x" using assms by (auto simp: context_obeys_def)
        with works show ?thesis by (auto simp: Let_def)
      qed
    qed
  qed
  then show ?thesis
    by (auto simp: call_raw_def new_owned_def owned_close_def Let_def split: prod.splits sum.splits)
qed

lemma decode_response_errors:
  "decode_response_line m line = Inl e \<Longrightarrow>
    (\<exists>code message. e = ServerError m code message) \<or> (\<exists>cause. e = OpError m OpDecode cause)"
  by (auto simp: decode_response_line_def split: option.splits)

definition sample_reply :: string where
  "sample_reply = [CHR 0x0D, CHR 0x0A, CHR 0x7B] @ quoted ''result'' @ '':'' @ [CHR 0x7B, CHR 0x7D, CHR 0x7D, CHR 0x0A]"

definition sample_exchange :: "go_error option \<Rightarrow> exchange" where
  "sample_exchange c = \<lparr>xc_id = ''1'', xc_params = None, xc_ctx_encode = None,
     xc_dial = \<lparr>dl_ctx_before = None, dl_conn = True, dl_err = None, dl_ctx_after = None, dl_close = None\<rparr>,
     xc_write = (39, None), xc_ctx_write = c, xc_reader = \<lparr>rd_bytes = sample_reply, rd_err = ErrEOF\<rparr>,
     xc_ctx_read = c, xc_watch = (c \<noteq> None), xc_ctx_end = c\<rparr>"

lemma sample_exchange_obeys: "context_obeys (sample_exchange c)"
  by (simp add: context_obeys_def sample_exchange_def)

theorem exchange_owns_connection_witness:
  "(case client_open ''ping'' (sample_exchange (Some ContextCanceled)) of
      (Inl e, d) \<Rightarrow> d = NoConn \<or> (\<exists>c. d = ClosedConn c \<and> oc_closes c = 1)
    | (Inr opened, d) \<Rightarrow> False)"
proof -
  have "isl (fst (client_open ''ping'' (sample_exchange (Some ContextCanceled))))"
    by code_simp
  with exchange_owns_connection [OF sample_exchange_obeys, of "''ping''" "Some ContextCanceled"]
  show ?thesis by (auto split: prod.splits sum.splits)
qed

text \<open>
  C15. Every failure of an exchange is the error response of the server or an \<open>OpError\<close> of the method.
  An exchange whose context is done at its end fails, and one whose context was done already when it
  wrote the request fails with the context's error, whatever the connection reported.
\<close>

theorem exchange_errors:
  assumes "context_obeys x"
  shows "(\<forall>e. fst (client_open m x) = Inl e \<longrightarrow>
      (\<exists>code message. e = ServerError m code message) \<or> (\<exists>op' cause. e = OpError m op' cause)) \<and>
    (xc_ctx_end x \<noteq> None \<longrightarrow> (\<exists>e. fst (client_open m x) = Inl e)) \<and>
    (\<forall>c request conn d. xc_ctx_write x = Some c \<and> request_line (xc_id x) m (xc_params x) = Inr request \<and>
      client_dial (xc_dial x) = (Inr conn, d) \<longrightarrow>
      (\<exists>e. fst (client_open m x) = Inl e \<and> is_error e c))"
proof -
  have obeys: "xc_ctx_write x = Some c \<Longrightarrow> xc_ctx_read x = Some c \<and> xc_ctx_end x = Some c" for c
    using assms by (simp add: context_obeys_def)
  show ?thesis
  proof (cases "request_line (xc_id x) m (xc_params x)")
    case (Inl e)
    then show ?thesis by (simp add: client_open_def request_error_def)
  next
    case (Inr request)
    show ?thesis
    proof (cases "xc_dial x" rule: client_dial_cases)
      case (fails e d)
      with Inr show ?thesis by (simp add: client_open_def)
    next
      case (connects r)
      from Inr connects show ?thesis
      proof (cases rule: client_open_connected)
        case (fails e)
        have "(\<exists>code message. e = ServerError m code message) \<or> (\<exists>op' cause. e = OpError m op' cause)"
          using fails(2) by (auto simp: request_error_def dest: decode_response_errors)
        moreover have "is_error e c" if "xc_ctx_write x = Some c" for c
          using fails(2) obeys [OF that] that by (auto simp: request_error_def)
        ultimately show ?thesis using fails(1) by simp
      next
        case (works line r' result)
        then show ?thesis using obeys by (auto simp: Let_def)
      qed
    qed
  qed
qed

theorem exchange_errors_witness:
  "\<exists>e. fst (client_open ''ping'' (sample_exchange (Some ContextCanceled))) = Inl e \<and> is_error e ContextCanceled"
proof -
  have "request_line (xc_id (sample_exchange (Some ContextCanceled))) ''ping''
      (xc_params (sample_exchange (Some ContextCanceled))) =
      Inr (print_json (JObj [(''id'', JStr ''1''), (''method'', JStr ''ping''), (''params'', JObj [])]) @ [CHR 0x0A])"
    by (simp add: request_line_def sample_exchange_def)
  moreover have "client_dial (xc_dial (sample_exchange (Some ContextCanceled))) =
      (Inr (new_owned None), Conn (new_owned None))"
    by (simp add: client_dial_def sample_exchange_def Let_def)
  moreover have "xc_ctx_write (sample_exchange (Some ContextCanceled)) = Some ContextCanceled"
    by (simp add: sample_exchange_def)
  ultimately show ?thesis
    using exchange_errors [OF sample_exchange_obeys, of "''ping''" "Some ContextCanceled"] by blast
qed

text \<open>
  C16. A stream begins where the opening response ended: the line the response was read from and the
  lines the stream will hand over are together all the lines of the connection, in order. The stream
  keeps the response's result as its acknowledgement.
\<close>

theorem open_stream_loses_nothing:
  assumes "fst (open_stream m x) = Inr s"
  shows "\<exists>line. stream_lines (xc_reader x) = LineData line # st_lines s \<and>
    decode_response_line m line = Inr (st_ack s) \<and> \<not> st_closed s \<and> st_closes s = 0"
proof -
  obtain opened d where opened: "client_open m x = (Inr opened, d)"
    and s: "s = new_stream m (oc_result (op_conn opened)) (op_reader opened) (op_result opened)"
    using assms by (auto simp: open_stream_def split: prod.splits sum.splits)
  obtain request where req: "request_line (xc_id x) m (xc_params x) = Inr request"
    using opened by (cases "request_line (xc_id x) m (xc_params x)") (simp_all add: client_open_def)
  show ?thesis
  proof (cases "xc_dial x" rule: client_dial_cases)
    case (fails e d)
    with req opened show ?thesis by (simp add: client_open_def)
  next
    case (connects r)
    from req connects show ?thesis
    proof (cases rule: client_open_connected)
      case (fails e)
      with opened show ?thesis by simp
    next
      case (works line r' result)
      then have "op_reader opened = r'" "op_result opened = result"
        using opened by (auto simp: Let_def)
      with works read_line_stream_lines [OF works(1)] show ?thesis
        by (simp add: s new_stream_def)
    qed
  qed
qed

theorem open_stream_loses_nothing_witness:
  "\<exists>s line. fst (open_stream ''ping'' (sample_exchange None)) = Inr s \<and>
    stream_lines (xc_reader (sample_exchange None)) = LineData line # st_lines s"
proof -
  have "\<not> isl (fst (open_stream ''ping'' (sample_exchange None)))" by code_simp
  then obtain s where "fst (open_stream ''ping'' (sample_exchange None)) = Inr s" by (metis sum.collapse(2))
  with open_stream_loses_nothing [OF this] show ?thesis by blast
qed

lemma of_char_of_newline: "\<not> (0x20 \<le> (of_char (CHR 0x0A) :: nat))"
  by simp



end
