(* ===== verification/Subscription.thy ===== *)
theory Subscription
  imports Event_Codec
begin

text \<open>
  What a client subscribes to: the unions \<open>Subscription\<close> and \<open>OutputMatch\<close> of \<open>herdr/types_gen.go\<close>
  with their JSON form, and \<open>MirrorSubscriptions\<close> of \<open>herdr/session.go\<close>. A union value is taken as
  the value a decoder produces; \<open>None\<close> is the nil interface.
\<close>

subsection \<open>\<open>OutputMatch\<close>\<close>

datatype output_match = OutputMatchSubstring string | OutputMatchRegex string

definition output_match_value :: "string field list" where
  "output_match_value = [plain_field ''value'' string_codec (\<lambda>v. v) (\<lambda>x r. x)]"

fun encode_output_match :: "output_match \<Rightarrow> json" where
  "encode_output_match (OutputMatchSubstring v) = tagged ''substring'' output_match_value v"
| "encode_output_match (OutputMatchRegex v) = tagged ''regex'' output_match_value v"

definition decode_output_match :: "json \<Rightarrow> output_match option" where
  "decode_output_match j = (case decode_struct type_head j [] of
     None \<Rightarrow> None
   | Some tag \<Rightarrow>
       if tag = ''substring'' then map_option OutputMatchSubstring (decode_struct output_match_value j [])
       else if tag = ''regex'' then map_option OutputMatchRegex (decode_struct output_match_value j [])
       else None)"

text \<open>
  A field of a union type: nil is \<open>null\<close>, as is what the decoder of the struct leaves out. Go decodes
  it last and only once, from the last member of its name; \<open>decode_once\<close> drops the others first.
\<close>

definition union_field ::
  "string \<Rightarrow> ('u \<Rightarrow> json) \<Rightarrow> (json \<Rightarrow> 'u option) \<Rightarrow> ('u \<Rightarrow> bool) \<Rightarrow>
    ('r \<Rightarrow> 'u option) \<Rightarrow> ('u option \<Rightarrow> 'r \<Rightarrow> 'r) \<Rightarrow> 'r field" where
  "union_field name enc dec okay get put = \<lparr>fld_name = name,
     fld_enc = (\<lambda>r. Some (case get r of None \<Rightarrow> JNull | Some u \<Rightarrow> enc u)),
     fld_dec = (\<lambda>j r. if j = JNull then Some (put None r) else map_option (\<lambda>u. put (Some u) r) (dec j)),
     fld_ok = (\<lambda>r. case get r of None \<Rightarrow> True | Some u \<Rightarrow> okay u)\<rparr>"

fun last_only :: "(string \<Rightarrow> bool) \<Rightarrow> (string \<times> json) list \<Rightarrow> (string \<times> json) list" where
  "last_only P [] = []"
| "last_only P (kv # kvs) =
    (if P (fst kv) \<and> (\<exists>kv' \<in> set kvs. P (fst kv')) then last_only P kvs else kv # last_only P kvs)"

definition decode_once :: "'r field list \<Rightarrow> string \<Rightarrow> json \<Rightarrow> 'r \<Rightarrow> 'r option" where
  "decode_once fs name j z = decode_struct fs (case j of
     JObj kvs \<Rightarrow> JObj (last_only (\<lambda>k. map_option fld_name (find_field fs k) = Some name) kvs) | _ \<Rightarrow> j) z"

subsection \<open>\<open>Subscription\<close>\<close>

record pane_agent_status_changed_subscription =
  sub_agent_status :: "string optional"
  sub_status_pane_id :: string

record pane_output_matched_subscription =
  sub_lines :: "32 word optional"
  sub_match :: "output_match option"
  sub_output_pane_id :: string
  sub_source :: string
  sub_strip_ansi :: "bool optional"

record pane_scroll_changed_subscription =
  sub_scroll_pane_id :: string

definition output_match_ok :: "output_match \<Rightarrow> bool" where
  "output_match_ok u = (case u of OutputMatchSubstring v \<Rightarrow> valid_utf8 v | OutputMatchRegex v \<Rightarrow> valid_utf8 v)"

definition pane_agent_status_changed_subscription_fields :: "pane_agent_status_changed_subscription field list" where
  "pane_agent_status_changed_subscription_fields =
    [optional_field ''agent_status'' string_codec sub_agent_status (\<lambda>x r. r\<lparr>sub_agent_status := x\<rparr>),
     plain_field ''pane_id'' string_codec sub_status_pane_id (\<lambda>x r. r\<lparr>sub_status_pane_id := x\<rparr>)]"

definition pane_output_matched_subscription_fields :: "pane_output_matched_subscription field list" where
  "pane_output_matched_subscription_fields =
    [optional_field ''lines'' uint_codec sub_lines (\<lambda>x r. r\<lparr>sub_lines := x\<rparr>),
     union_field ''match'' encode_output_match decode_output_match output_match_ok sub_match (\<lambda>x r. r\<lparr>sub_match := x\<rparr>),
     plain_field ''pane_id'' string_codec sub_output_pane_id (\<lambda>x r. r\<lparr>sub_output_pane_id := x\<rparr>),
     plain_field ''source'' string_codec sub_source (\<lambda>x r. r\<lparr>sub_source := x\<rparr>),
     optional_field ''strip_ansi'' bool_codec sub_strip_ansi (\<lambda>x r. r\<lparr>sub_strip_ansi := x\<rparr>)]"

definition pane_scroll_changed_subscription_fields :: "pane_scroll_changed_subscription field list" where
  "pane_scroll_changed_subscription_fields =
    [plain_field ''pane_id'' string_codec sub_scroll_pane_id (\<lambda>x r. r\<lparr>sub_scroll_pane_id := x\<rparr>)]"

definition no_fields :: "unit field list" where
  "no_fields = []"

datatype (plugins only: code size) subscription =
    WorkspaceCreatedSubscription
  | WorkspaceUpdatedSubscription
  | WorkspaceMetadataUpdatedSubscription
  | WorkspaceRenamedSubscription
  | WorkspaceMovedSubscription
  | WorkspaceReorderedSubscription
  | WorkspaceClosedSubscription
  | WorkspaceFocusedSubscription
  | WorktreeCreatedSubscription
  | WorktreeOpenedSubscription
  | WorktreeRemovedSubscription
  | TabCreatedSubscription
  | TabClosedSubscription
  | TabFocusedSubscription
  | TabRenamedSubscription
  | TabMovedSubscription
  | PaneCreatedSubscription
  | PaneClosedSubscription
  | PaneUpdatedSubscription
  | PaneFocusedSubscription
  | PaneMovedSubscription
  | PaneExitedSubscription
  | PaneAgentDetectedSubscription
  | PaneOutputMatchedSubscription pane_output_matched_subscription
  | PaneAgentStatusChangedSubscription pane_agent_status_changed_subscription
  | PaneScrollChangedSubscription pane_scroll_changed_subscription
  | LayoutUpdatedSubscription

primrec encode_subscription :: "subscription \<Rightarrow> json" where
  "encode_subscription WorkspaceCreatedSubscription = tagged ''workspace.created'' no_fields ()"
| "encode_subscription WorkspaceUpdatedSubscription = tagged ''workspace.updated'' no_fields ()"
| "encode_subscription WorkspaceMetadataUpdatedSubscription = tagged ''workspace.metadata_updated'' no_fields ()"
| "encode_subscription WorkspaceRenamedSubscription = tagged ''workspace.renamed'' no_fields ()"
| "encode_subscription WorkspaceMovedSubscription = tagged ''workspace.moved'' no_fields ()"
| "encode_subscription WorkspaceReorderedSubscription = tagged ''workspace.reordered'' no_fields ()"
| "encode_subscription WorkspaceClosedSubscription = tagged ''workspace.closed'' no_fields ()"
| "encode_subscription WorkspaceFocusedSubscription = tagged ''workspace.focused'' no_fields ()"
| "encode_subscription WorktreeCreatedSubscription = tagged ''worktree.created'' no_fields ()"
| "encode_subscription WorktreeOpenedSubscription = tagged ''worktree.opened'' no_fields ()"
| "encode_subscription WorktreeRemovedSubscription = tagged ''worktree.removed'' no_fields ()"
| "encode_subscription TabCreatedSubscription = tagged ''tab.created'' no_fields ()"
| "encode_subscription TabClosedSubscription = tagged ''tab.closed'' no_fields ()"
| "encode_subscription TabFocusedSubscription = tagged ''tab.focused'' no_fields ()"
| "encode_subscription TabRenamedSubscription = tagged ''tab.renamed'' no_fields ()"
| "encode_subscription TabMovedSubscription = tagged ''tab.moved'' no_fields ()"
| "encode_subscription PaneCreatedSubscription = tagged ''pane.created'' no_fields ()"
| "encode_subscription PaneClosedSubscription = tagged ''pane.closed'' no_fields ()"
| "encode_subscription PaneUpdatedSubscription = tagged ''pane.updated'' no_fields ()"
| "encode_subscription PaneFocusedSubscription = tagged ''pane.focused'' no_fields ()"
| "encode_subscription PaneMovedSubscription = tagged ''pane.moved'' no_fields ()"
| "encode_subscription PaneExitedSubscription = tagged ''pane.exited'' no_fields ()"
| "encode_subscription PaneAgentDetectedSubscription = tagged ''pane.agent_detected'' no_fields ()"
| "encode_subscription (PaneOutputMatchedSubscription v) = tagged ''pane.output_matched'' pane_output_matched_subscription_fields v"
| "encode_subscription (PaneAgentStatusChangedSubscription v) = tagged ''pane.agent_status_changed'' pane_agent_status_changed_subscription_fields v"
| "encode_subscription (PaneScrollChangedSubscription v) = tagged ''pane.scroll_changed'' pane_scroll_changed_subscription_fields v"
| "encode_subscription LayoutUpdatedSubscription = tagged ''layout.updated'' no_fields ()"

primrec subscription_type :: "subscription \<Rightarrow> string" where
  "subscription_type WorkspaceCreatedSubscription = ''workspace.created''"
| "subscription_type WorkspaceUpdatedSubscription = ''workspace.updated''"
| "subscription_type WorkspaceMetadataUpdatedSubscription = ''workspace.metadata_updated''"
| "subscription_type WorkspaceRenamedSubscription = ''workspace.renamed''"
| "subscription_type WorkspaceMovedSubscription = ''workspace.moved''"
| "subscription_type WorkspaceReorderedSubscription = ''workspace.reordered''"
| "subscription_type WorkspaceClosedSubscription = ''workspace.closed''"
| "subscription_type WorkspaceFocusedSubscription = ''workspace.focused''"
| "subscription_type WorktreeCreatedSubscription = ''worktree.created''"
| "subscription_type WorktreeOpenedSubscription = ''worktree.opened''"
| "subscription_type WorktreeRemovedSubscription = ''worktree.removed''"
| "subscription_type TabCreatedSubscription = ''tab.created''"
| "subscription_type TabClosedSubscription = ''tab.closed''"
| "subscription_type TabFocusedSubscription = ''tab.focused''"
| "subscription_type TabRenamedSubscription = ''tab.renamed''"
| "subscription_type TabMovedSubscription = ''tab.moved''"
| "subscription_type PaneCreatedSubscription = ''pane.created''"
| "subscription_type PaneClosedSubscription = ''pane.closed''"
| "subscription_type PaneUpdatedSubscription = ''pane.updated''"
| "subscription_type PaneFocusedSubscription = ''pane.focused''"
| "subscription_type PaneMovedSubscription = ''pane.moved''"
| "subscription_type PaneExitedSubscription = ''pane.exited''"
| "subscription_type PaneAgentDetectedSubscription = ''pane.agent_detected''"
| "subscription_type (PaneOutputMatchedSubscription v) = ''pane.output_matched''"
| "subscription_type (PaneAgentStatusChangedSubscription v) = ''pane.agent_status_changed''"
| "subscription_type (PaneScrollChangedSubscription v) = ''pane.scroll_changed''"
| "subscription_type LayoutUpdatedSubscription = ''layout.updated''"

definition decode_subscription :: "json \<Rightarrow> subscription option" where
  "decode_subscription j = (case decode_struct type_head j [] of
     None \<Rightarrow> None
   | Some tag \<Rightarrow>
       if tag = ''workspace.created'' then map_option (\<lambda>_. WorkspaceCreatedSubscription) (decode_struct no_fields j ())
       else if tag = ''workspace.updated'' then map_option (\<lambda>_. WorkspaceUpdatedSubscription) (decode_struct no_fields j ())
       else if tag = ''workspace.metadata_updated'' then map_option (\<lambda>_. WorkspaceMetadataUpdatedSubscription) (decode_struct no_fields j ())
       else if tag = ''workspace.renamed'' then map_option (\<lambda>_. WorkspaceRenamedSubscription) (decode_struct no_fields j ())
       else if tag = ''workspace.moved'' then map_option (\<lambda>_. WorkspaceMovedSubscription) (decode_struct no_fields j ())
       else if tag = ''workspace.reordered'' then map_option (\<lambda>_. WorkspaceReorderedSubscription) (decode_struct no_fields j ())
       else if tag = ''workspace.closed'' then map_option (\<lambda>_. WorkspaceClosedSubscription) (decode_struct no_fields j ())
       else if tag = ''workspace.focused'' then map_option (\<lambda>_. WorkspaceFocusedSubscription) (decode_struct no_fields j ())
       else if tag = ''worktree.created'' then map_option (\<lambda>_. WorktreeCreatedSubscription) (decode_struct no_fields j ())
       else if tag = ''worktree.opened'' then map_option (\<lambda>_. WorktreeOpenedSubscription) (decode_struct no_fields j ())
       else if tag = ''worktree.removed'' then map_option (\<lambda>_. WorktreeRemovedSubscription) (decode_struct no_fields j ())
       else if tag = ''tab.created'' then map_option (\<lambda>_. TabCreatedSubscription) (decode_struct no_fields j ())
       else if tag = ''tab.closed'' then map_option (\<lambda>_. TabClosedSubscription) (decode_struct no_fields j ())
       else if tag = ''tab.focused'' then map_option (\<lambda>_. TabFocusedSubscription) (decode_struct no_fields j ())
       else if tag = ''tab.renamed'' then map_option (\<lambda>_. TabRenamedSubscription) (decode_struct no_fields j ())
       else if tag = ''tab.moved'' then map_option (\<lambda>_. TabMovedSubscription) (decode_struct no_fields j ())
       else if tag = ''pane.created'' then map_option (\<lambda>_. PaneCreatedSubscription) (decode_struct no_fields j ())
       else if tag = ''pane.closed'' then map_option (\<lambda>_. PaneClosedSubscription) (decode_struct no_fields j ())
       else if tag = ''pane.updated'' then map_option (\<lambda>_. PaneUpdatedSubscription) (decode_struct no_fields j ())
       else if tag = ''pane.focused'' then map_option (\<lambda>_. PaneFocusedSubscription) (decode_struct no_fields j ())
       else if tag = ''pane.moved'' then map_option (\<lambda>_. PaneMovedSubscription) (decode_struct no_fields j ())
       else if tag = ''pane.exited'' then map_option (\<lambda>_. PaneExitedSubscription) (decode_struct no_fields j ())
       else if tag = ''pane.agent_detected'' then map_option (\<lambda>_. PaneAgentDetectedSubscription) (decode_struct no_fields j ())
       else if tag = ''pane.output_matched'' then map_option PaneOutputMatchedSubscription
         (decode_once pane_output_matched_subscription_fields ''match'' j
           \<lparr>sub_lines = Absent, sub_match = None, sub_output_pane_id = [], sub_source = [], sub_strip_ansi = Absent\<rparr>)
       else if tag = ''pane.agent_status_changed'' then map_option PaneAgentStatusChangedSubscription
         (decode_struct pane_agent_status_changed_subscription_fields j \<lparr>sub_agent_status = Absent, sub_status_pane_id = []\<rparr>)
       else if tag = ''pane.scroll_changed'' then map_option PaneScrollChangedSubscription
         (decode_struct pane_scroll_changed_subscription_fields j \<lparr>sub_scroll_pane_id = []\<rparr>)
       else if tag = ''layout.updated'' then map_option (\<lambda>_. LayoutUpdatedSubscription) (decode_struct no_fields j ())
       else None)"

definition mirror_subscriptions :: "subscription list" where
  "mirror_subscriptions = [
     WorkspaceCreatedSubscription,
     WorkspaceUpdatedSubscription,
     WorkspaceMetadataUpdatedSubscription,
     WorkspaceRenamedSubscription,
     WorkspaceMovedSubscription,
     WorkspaceReorderedSubscription,
     WorkspaceClosedSubscription,
     WorkspaceFocusedSubscription,
     WorktreeCreatedSubscription,
     WorktreeOpenedSubscription,
     WorktreeRemovedSubscription,
     TabCreatedSubscription,
     TabClosedSubscription,
     TabRenamedSubscription,
     TabMovedSubscription,
     TabFocusedSubscription,
     PaneCreatedSubscription,
     PaneClosedSubscription,
     PaneUpdatedSubscription,
     PaneFocusedSubscription,
     PaneMovedSubscription,
     PaneExitedSubscription,
     PaneAgentDetectedSubscription,
     LayoutUpdatedSubscription]"

text \<open>The parameters of \<open>events.subscribe\<close>: \<open>null\<close> for a nil slice.\<close>

definition encode_subscribe_params :: "subscription slice \<Rightarrow> json" where
  "encode_subscribe_params subs = JObj [(''subscriptions'',
     case subs of None \<Rightarrow> JNull | Some s \<Rightarrow> JArr (map encode_subscription s))]"

subsection \<open>Properties\<close>

lemma last_only_distinct:
  "distinct (map fst kvs) \<Longrightarrow> (\<And>k k'. P k \<Longrightarrow> P k' \<Longrightarrow> k = k') \<Longrightarrow> last_only P kvs = kvs"
proof (induction kvs)
  case (Cons kv kvs)
  have "\<not> (P (fst kv) \<and> (\<exists>kv' \<in> set kvs. P (fst kv')))"
    using Cons.prems by (auto simp: rev_image_eqI)
  with Cons show ?case by auto
qed simp

lemma decode_tagged_struct:
  assumes "tag_free fs"
  shows "decode_struct fs (tagged type fs v) z = decode_members fs (encode_members fs v) z"
  by (simp add: tagged_def decode_struct_def tag_free_none [OF assms])

lemmas subscription_field_defs = output_match_value_def pane_agent_status_changed_subscription_fields_def
  pane_output_matched_subscription_fields_def pane_scroll_changed_subscription_fields_def no_fields_def

lemma union_field_name: "fld_name (union_field name enc dec okay get put) = name"
  by (simp add: union_field_def)

lemma tag_free_subscriptions [simp]:
  "tag_free output_match_value" "tag_free pane_agent_status_changed_subscription_fields"
  "tag_free pane_output_matched_subscription_fields" "tag_free pane_scroll_changed_subscription_fields"
  "tag_free no_fields"
  by (simp_all add: tag_free_def field_names union_field_name upper_char_def in_range_def bytes_of_def
      char_of_def subscription_field_defs)

lemma decode_output_match_encoded:
  assumes "output_match_ok u"
  shows "decode_output_match (encode_output_match u) = Some u"
proof -
  have "decode_members output_match_value (encode_members output_match_value v) [] = Some v"
    if "valid_utf8 v" for v
    using that
    by (simp add: output_match_value_def encode_members_def map_filter_simps find_field_def
        plain_field_def string_codec_def coerce_valid)
  with assms show ?thesis
    by (cases u) (simp_all add: decode_output_match_def decode_type_head decode_tagged_struct output_match_ok_def)
qed

lemma encode_output_match_not_null [simp]: "encode_output_match u \<noteq> JNull"
  by (cases u) (simp_all add: tagged_def)

text \<open>The strings of a subscription that must survive.\<close>

definition subscription_ok :: "subscription \<Rightarrow> bool" where
  "subscription_ok s = (case s of
     PaneOutputMatchedSubscription v \<Rightarrow> list_all (\<lambda>f. fld_ok f v) pane_output_matched_subscription_fields
   | PaneAgentStatusChangedSubscription v \<Rightarrow> list_all (\<lambda>f. fld_ok f v) pane_agent_status_changed_subscription_fields
   | PaneScrollChangedSubscription v \<Rightarrow> list_all (\<lambda>f. fld_ok f v) pane_scroll_changed_subscription_fields
   | _ \<Rightarrow> True)"

lemma encode_members_names: "fst ` set (encode_members fs v) \<subseteq> fld_name ` set fs"
  by (auto simp: encode_members_def map_filter_def)

lemma refill_union:
  assumes "\<And>u. okay u \<Longrightarrow> dec (enc u) = Some u \<and> enc u \<noteq> JNull"
    and "fld_ok (union_field name enc dec okay get put) r" and "put None r' = r'"
  shows "refill (union_field name enc dec okay get put # fs) r r' = refill fs r (put (get r) r')"
  using assms by (cases "get r") (simp_all add: union_field_def refill.simps)

lemma union_field_ok:
  "fld_ok (union_field name enc dec okay get put) r = (case get r of None \<Rightarrow> True | Some u \<Rightarrow> okay u)"
  by (simp add: union_field_def)

lemma encoded_members_back:
  assumes "distinct (map fld_name fs)" and "refill fs r z = Some r"
  shows "decode_members fs (encode_members fs r) z = Some r"
  using decode_encode_members [OF assms(1), of fs r z] assms(2) by simp

lemma status_subscription_back:
  "list_all (\<lambda>f. fld_ok f v) pane_agent_status_changed_subscription_fields \<Longrightarrow>
    decode_members pane_agent_status_changed_subscription_fields
      (encode_members pane_agent_status_changed_subscription_fields v)
      \<lparr>sub_agent_status = Absent, sub_status_pane_id = []\<rparr> = Some v"
  by (rule encoded_members_back; cases v)
    (simp_all add: pane_agent_status_changed_subscription_fields_def field_names refill_simps)

lemma scroll_subscription_back:
  "list_all (\<lambda>f. fld_ok f v) pane_scroll_changed_subscription_fields \<Longrightarrow>
    decode_members pane_scroll_changed_subscription_fields
      (encode_members pane_scroll_changed_subscription_fields v) \<lparr>sub_scroll_pane_id = []\<rparr> = Some v"
  by (rule encoded_members_back; cases v)
    (simp_all add: pane_scroll_changed_subscription_fields_def field_names refill_simps)

lemma output_fields_distinct: "distinct (map fld_name pane_output_matched_subscription_fields)"
  by (simp add: pane_output_matched_subscription_fields_def field_names union_field_name)

lemma output_subscription_back:
  "list_all (\<lambda>f. fld_ok f v) pane_output_matched_subscription_fields \<Longrightarrow>
    decode_members pane_output_matched_subscription_fields
      (encode_members pane_output_matched_subscription_fields v)
      \<lparr>sub_lines = Absent, sub_match = None, sub_output_pane_id = [], sub_source = [], sub_strip_ansi = Absent\<rparr> = Some v"
  by (rule encoded_members_back [OF output_fields_distinct]; cases v)
    (simp add: pane_output_matched_subscription_fields_def refill_simps union_field_ok
      refill_union [of output_match_ok decode_output_match encode_output_match] decode_output_match_encoded)

lemma no_fields_back: "decode_members no_fields (encode_members no_fields ()) () = Some ()"
  by (simp add: no_fields_def encode_members_def map_filter_simps)

lemma encode_members_keys: "distinct (map fld_name fs) \<Longrightarrow> distinct (map fst (encode_members fs v))"
proof (induction fs)
  case (Cons f fs)
  have "fld_name f \<notin> fst ` set (encode_members fs v)"
    using Cons.prems encode_members_names [of fs v] by auto
  with Cons show ?case by (simp add: encode_members_def map_filter_simps split: option.split)
qed (simp add: encode_members_def map_filter_simps)

text \<open>A document that names every field at most once, exactly, is read the same way.\<close>

lemma last_only_encoded:
  assumes "distinct (map fld_name fs)"
  shows "last_only (\<lambda>k. map_option fld_name (find_field fs k) = Some name) (encode_members fs v) = encode_members fs v"
proof -
  let ?P = "\<lambda>k. map_option fld_name (find_field fs k) = Some name"
  have only: "last_only ?P kvs = kvs" if "set (map fst kvs) \<subseteq> fld_name ` set fs" "distinct (map fst kvs)" for kvs
    using that
  proof (induction kvs)
    case (Cons kv kvs)
    have exact: "?P k \<longleftrightarrow> k = name" if "k \<in> fld_name ` set fs" for k
      using that find_field_exact [OF assms] by auto
    have "\<not> (?P (fst kv) \<and> (\<exists>kv' \<in> set kvs. ?P (fst kv')))"
    proof
      assume "?P (fst kv) \<and> (\<exists>kv' \<in> set kvs. ?P (fst kv'))"
      then obtain kv' where kv': "kv' \<in> set kvs" "?P (fst kv)" "?P (fst kv')" by blast
      moreover have "fst kv \<in> fld_name ` set fs" "fst kv' \<in> fld_name ` set fs"
        using Cons.prems(1) kv'(1) by auto
      ultimately have "fst kv = name" "fst kv' = name" using exact by blast+
      with kv'(1) Cons.prems(2) show False by (metis (no_types) distinct.simps(2) imageI list.set_map list.simps(9))
    qed
    with Cons show ?case by auto
  qed simp
  show ?thesis
    by (rule only) (use encode_members_names [of fs v] encode_members_keys [OF assms] in auto)
qed

lemma decode_once_tagged:
  assumes "tag_free fs" and "distinct (map fld_name fs)"
  shows "decode_once fs name (tagged type fs v) z = decode_members fs (encode_members fs v) z"
  using last_only_encoded [OF assms(2), where name = name and v = v]
  by (simp add: decode_once_def tagged_def decode_struct_def tag_free_none [OF assms(1)])

text \<open>The codec of a struct whose \<open>UnmarshalJSON\<close> decodes into a fresh struct, one field of it last and once.\<close>

definition once_codec :: "'r \<Rightarrow> 'r field list \<Rightarrow> string \<Rightarrow> 'r codec" where
  "once_codec z fs name = (struct_codec z fs)\<lparr>cod_dec := \<lambda>j old. decode_once fs name j z\<rparr>"

lemma lawful_once:
  assumes "distinct (map fld_name fs)"
    and "\<And>r. list_all (\<lambda>f. fld_ok f r) fs \<Longrightarrow> refill fs r z = Some r"
  shows "lawful (once_codec z fs name)"
  unfolding lawful_def
proof (intro allI impI)
  fix r assume "cod_ok (once_codec z fs name) r"
  with assms(2) have "refill fs r z = Some r" by (simp add: once_codec_def struct_codec_def)
  then show "cod_dec (once_codec z fs name) (cod_enc (once_codec z fs name) r) (cod_zero (once_codec z fs name)) = Some r"
    using last_only_encoded [OF assms(1), where name = name and v = r]
    by (simp add: once_codec_def struct_codec_def decode_once_def decode_struct_def decode_encode_members [OF assms(1)])
qed

lemma decode_subscription_encoded:
  assumes "subscription_ok s"
  shows "decode_subscription (encode_subscription s) = Some s"
  using assms
  by (cases s) (simp_all add: decode_subscription_def decode_type_head decode_tagged_struct subscription_ok_def
      decode_once_tagged output_fields_distinct status_subscription_back scroll_subscription_back
      output_subscription_back no_fields_back)

text \<open>
  A subscription decodes back from what the client writes for it, whatever its variant.
\<close>

lemma subscription_roundtrip:
  assumes "subscription_ok s"
  shows "decode_subscription (encode_subscription s) = Some s"
  by (rule decode_subscription_encoded [OF assms])

definition sample_subscription :: subscription where
  "sample_subscription = PaneOutputMatchedSubscription
     \<lparr>sub_lines = Present 40, sub_match = Some (OutputMatchRegex ''error''), sub_output_pane_id = ''w1:p1'',
      sub_source = ''visible'', sub_strip_ansi = Absent\<rparr>"

lemma subscription_roundtrip_witness:
  "decode_subscription (encode_subscription sample_subscription) = Some sample_subscription"
proof (rule subscription_roundtrip)
  show "subscription_ok sample_subscription"
    by (simp add: subscription_ok_def sample_subscription_def pane_output_matched_subscription_fields_def
        union_field_ok plain_field_ok optional_field_def output_match_ok_def valid_utf8_ascii
        string_codec_def uint_codec_def)
qed

text \<open>
  The subscriptions a session uses by default are, without repetition, all that need no parameter.
  They announce every event of the protocol but those of the three pane-scoped subscriptions and
  \<open>pane.output_changed\<close>, for which there is none.
\<close>

lemma mirror_covers_events:
  "distinct mirror_subscriptions \<and>
    (\<forall>s. s \<in> set mirror_subscriptions \<longleftrightarrow> subscription_type s \<notin> set dedicated_names) \<and>
    (\<forall>e. event_name e \<in> subscription_type ` set mirror_subscriptions \<longleftrightarrow>
      event_name e \<notin> set dedicated_names \<and> event_name e \<noteq> ''pane.output_changed'')"
proof (intro conjI allI)
  show "distinct mirror_subscriptions" by (simp add: mirror_subscriptions_def)
  show "s \<in> set mirror_subscriptions \<longleftrightarrow> subscription_type s \<notin> set dedicated_names" for s
    by (cases s) (simp_all add: mirror_subscriptions_def dedicated_names_def)
  show "event_name e \<in> subscription_type ` set mirror_subscriptions \<longleftrightarrow>
      event_name e \<notin> set dedicated_names \<and> event_name e \<noteq> ''pane.output_changed''" for e
    by (cases e) (simp_all add: mirror_subscriptions_def dedicated_names_def)
qed

end
