(* ===== verification/Session_Machine.thy ===== *)
theory Session_Machine
  imports Session_Mirror Client Subscription
begin

text \<open>
  A live session: \<open>herdr/session.go\<close>, \<open>herdr/session_bootstrap.go\<close>, the locked cache of
  \<open>herdr/session_state.go\<close> and \<open>Subscribe\<close> of \<open>herdr/subscribe.go\<close>.

  \<open>session\<close> holds the fields of the Go struct and the place where the call of \<open>Next\<close> stands (\<open>nextMu\<close>
  lets one call run at a time). Every step of \<open>session_step\<close> is one critical section or one blocking
  operation of that call, or of a call of \<open>Close\<close>, which may run between any two of them. What the
  stream, the clock, the context and the server do is the choice of the step. Streams are numbered in
  the order they are opened. The last fields are observations, read by no step: the streams closed so
  far, the snapshot the mirror was last built from, the raw events received and consumed since then
  and the events applied.
\<close>

subsection \<open>Backoff\<close>

text \<open>\<open>defaultBackoff\<close>, in the nanoseconds of a \<open>time.Duration\<close>.\<close>

definition reconnect_base_delay :: int where
  "reconnect_base_delay = 100 * 1000000"

definition reconnect_max_delay :: int where
  "reconnect_max_delay = 5 * 1000000000"

function backoff_loop :: "int \<Rightarrow> int \<Rightarrow> int \<Rightarrow> int" where
  "backoff_loop i attempt delay =
    (if i < attempt \<and> delay < reconnect_max_delay then backoff_loop (i + 1) attempt (delay * 2) else delay)"
  by pat_completeness auto
termination
  by (relation "measure (\<lambda>(i, attempt, delay). nat (attempt - i))") auto

declare backoff_loop.simps [simp del]

definition default_backoff :: "int \<Rightarrow> int" where
  "default_backoff attempt = min (backoff_loop 1 attempt reconnect_base_delay) reconnect_max_delay"

subsection \<open>Subscribe and bootstrap\<close>

text \<open>
  \<open>checkSubscriptionAck\<close> on what \<open>DecodeResult\<close> makes of the acknowledgement: its error, or the type of
  the result. \<open>Subscribe\<close> yields the stream, and says whether it closed one.
\<close>

definition check_subscription_ack :: "(go_error, string) result \<Rightarrow> go_error option" where
  "check_subscription_ack decoded = (case decoded of
     Inl e \<Rightarrow> Some (OpError ''events.subscribe'' OpDecode e)
   | Inr type \<Rightarrow> if type \<noteq> ''subscription_started''
       then Some (OpError ''events.subscribe'' OpDecode
         (UnexpectedResultError ''events.subscribe'' ''subscription_started'' type))
       else None)"

definition client_subscribe ::
  "subscription list \<Rightarrow> (go_error, 'c) result \<Rightarrow> (go_error, string) result \<Rightarrow> (go_error, 'c) result \<times> 'c option" where
  "client_subscribe subs opened decoded =
    (if subs = [] then (err (OpError ''events.subscribe'' OpValidate (Foreign ''no subscriptions'')), None)
     else case opened of
       Inl e \<Rightarrow> (err e, None)
     | Inr stream \<Rightarrow> (case check_subscription_ack decoded of
         Some e \<Rightarrow> (err e, Some stream) | None \<Rightarrow> (ok stream, None)))"

text \<open>
  \<open>collectEvents\<close>: the results of the stream's \<open>Next\<close> up to its first error, which counts unless it is
  the cancellation that stops the collection.
\<close>

fun collect_events :: "(go_error, raw_event) result list \<Rightarrow> raw_event list \<times> go_error option" where
  "collect_events [] = ([], None)"
| "collect_events (Inr r # rs) = (case collect_events rs of (events, e) \<Rightarrow> (r # events, e))"
| "collect_events (Inl e # rs) = ([], if is_error e ContextCanceled then None else Some e)"

text \<open>\<open>bootstrapSession\<close>: the outcome, and the stream it closed on the way.\<close>

definition bootstrap_session ::
  "subscription list \<Rightarrow> (go_error, 'c) result \<Rightarrow> (go_error, string) result \<Rightarrow> (go_error, raw_event) result list \<Rightarrow>
    (go_error, session_snapshot) result \<Rightarrow>
    (go_error, 'c \<times> session_cache \<times> raw_event list) result \<times> 'c option" where
  "bootstrap_session subs opened decoded pushed_results snapshot =
    (case client_subscribe subs opened decoded of
       (Inl e, closed) \<Rightarrow> (err e, closed)
     | (Inr stream, _) \<Rightarrow>
         (case collect_events pushed_results of
            (buffered, stream_err) \<Rightarrow>
              (case (case snapshot of Inl e \<Rightarrow> Some e | Inr _ \<Rightarrow> stream_err) of
                 Some e \<Rightarrow> (err e, Some stream)
               | None \<Rightarrow>
                   (case snapshot of
                      Inl e \<Rightarrow> (err e, Some stream)
                    | Inr snap \<Rightarrow> (ok (stream, new_session_cache snap, buffered), None)))))"

subsection \<open>The session\<close>

datatype next_result = NextEvent event | NextResync go_error | NextError go_error

datatype place =
    Idle
  | Loop
  | NoStream
  | Reading nat
  | Lost go_error
  | Dropping
  | Waiting go_error int
  | Booting go_error int
  | Installing go_error nat session_snapshot session_cache "raw_event list"
  | Publishing go_error session_snapshot session_cache "raw_event list"

record session =
  se_subs :: "subscription list"
  se_pending :: "raw_event list"
  se_resync :: "go_error option"
  se_cause :: "go_error option"
  se_stream :: "nat option"
  se_closed :: bool
  se_cache :: session_cache
  se_place :: place
  se_closing :: "nat option"
  se_next_id :: nat
  se_results :: "next_result list"
  se_closed_streams :: "nat set"
  se_base :: session_snapshot
  se_received :: "raw_event list"
  se_consumed :: "raw_event list"
  se_applied :: "event list"

text \<open>
  \<open>openSession\<close>, with the streams numbered before its own: the session, or the error and the stream that
  was closed.
\<close>

definition new_session :: "subscription list \<Rightarrow> nat \<Rightarrow> session_snapshot \<Rightarrow> raw_event list \<Rightarrow> session" where
  "new_session subs i snap buffered =
    \<lparr>se_subs = subs, se_pending = buffered, se_resync = None, se_cause = None, se_stream = Some i,
     se_closed = False, se_cache = new_session_cache snap, se_place = Idle, se_closing = None,
     se_next_id = Suc i, se_results = [], se_closed_streams = {..<i}, se_base = snap,
     se_received = buffered, se_consumed = [], se_applied = []\<rparr>"

definition open_session ::
  "subscription list \<Rightarrow> (go_error, nat) result \<Rightarrow> (go_error, string) result \<Rightarrow> (go_error, raw_event) result list \<Rightarrow>
    (go_error, session_snapshot) result \<Rightarrow> (go_error, session) result \<times> nat option" where
  "open_session subs opened decoded pushed_results snapshot =
    (let subs = (if subs = [] then mirror_subscriptions else subs)
     in case bootstrap_session subs opened decoded pushed_results snapshot of
          (Inl e, closed) \<Rightarrow> (err e, closed)
        | (Inr (i, cache, buffered), closed) \<Rightarrow>
            (case snapshot of
               Inl e \<Rightarrow> (err e, closed)
             | Inr snap \<Rightarrow> (ok ((new_session subs i snap buffered)\<lparr>se_cache := cache\<rparr>), closed)))"

text \<open>The call of \<open>Next\<close> returns.\<close>

definition return_next :: "next_result \<Rightarrow> session \<Rightarrow> session" where
  "return_next r s = s\<lparr>se_place := Idle, se_results := se_results s @ [r]\<rparr>"

text \<open>\<open>deliver\<close>: decode, apply to the mirror, return.\<close>

definition deliver ::
  "(string \<Rightarrow> float64 option) \<Rightarrow> (float64 \<Rightarrow> string) \<Rightarrow> raw_event \<Rightarrow> session \<Rightarrow> session" where
  "deliver pf ff raw s =
    (let s = s\<lparr>se_consumed := se_consumed s @ [raw]\<rparr>
     in case decode_event pf ff (re_event raw) (re_data raw) of
          Inl e \<Rightarrow> return_next (NextError (OpError ''events.subscribe'' OpDecode e)) s
        | Inr event \<Rightarrow> return_next (NextEvent event)
            (s\<lparr>se_cache := apply_event event (se_cache s), se_applied := se_applied s @ [event]\<rparr>))"

text \<open>\<open>Close\<close> of the session: the critical section, and the close of the stream after it.\<close>

definition close_begin :: "session \<Rightarrow> session" where
  "close_begin s = (if se_closed s then s
     else s\<lparr>se_closed := True, se_closing := se_stream s, se_stream := None\<rparr>)"

definition close_end :: "session \<Rightarrow> session" where
  "close_end s = s\<lparr>se_closed_streams := se_closed_streams s \<union> set_option (se_closing s),
     se_closing := None\<rparr>"

text \<open>\<open>closeStream\<close> of the session, as the call of \<open>Next\<close> runs it.\<close>

definition close_stream :: "session \<Rightarrow> session" where
  "close_stream s = s\<lparr>se_closed_streams := se_closed_streams s \<union> set_option (se_stream s),
     se_stream := None\<rparr>"

text \<open>\<open>EventName\<close> of \<open>ResyncEvent\<close>.\<close>

definition resync_event_name :: string where
  "resync_event_name = ''session.resync''"

text \<open>The loop of \<open>Next\<close> up to its first wait.\<close>

definition next_loop :: "(string \<Rightarrow> float64 option) \<Rightarrow> (float64 \<Rightarrow> string) \<Rightarrow> session \<Rightarrow> session" where
  "next_loop pf ff s = (case se_resync s of
     Some cause \<Rightarrow> return_next (NextResync cause) (s\<lparr>se_resync := None\<rparr>)
   | None \<Rightarrow>
       (case se_pending s of
          raw # rest \<Rightarrow> deliver pf ff raw (s\<lparr>se_pending := rest\<rparr>)
        | [] \<Rightarrow> (case se_stream s of
            None \<Rightarrow> s\<lparr>se_place := NoStream\<rparr> | Some i \<Rightarrow> s\<lparr>se_place := Reading i\<rparr>)))"

text \<open>What the call does with a result of the stream's \<open>Next\<close>.\<close>

definition stream_result ::
  "(string \<Rightarrow> float64 option) \<Rightarrow> (float64 \<Rightarrow> string) \<Rightarrow> (go_error, raw_event) result \<Rightarrow> session \<Rightarrow> session" where
  "stream_result pf ff res s = (case res of
     Inr raw \<Rightarrow> deliver pf ff raw (s\<lparr>se_received := se_received s @ [raw]\<rparr>)
   | Inl e \<Rightarrow> if \<not> is_error e ErrStreamClosed then return_next (NextError e) s
       else s\<lparr>se_place := Lost e\<rparr>)"

text \<open>\<open>wait\<close>: \<open>ctx.Err()\<close> first, then the timer, the context or the closed session.\<close>

datatype waited = Elapsed | Interrupted go_error | SessionDone

definition session_wait :: "go_error option \<Rightarrow> int \<Rightarrow> waited \<Rightarrow> go_error option" where
  "session_wait ctx_err d w = (case ctx_err of
     Some e \<Rightarrow> Some e
   | None \<Rightarrow> if d \<le> 0 then None
       else (case w of Elapsed \<Rightarrow> None | Interrupted e \<Rightarrow> Some e | SessionDone \<Rightarrow> Some ErrStreamClosed))"

definition after_wait :: "go_error \<Rightarrow> int \<Rightarrow> go_error option \<Rightarrow> session \<Rightarrow> session" where
  "after_wait cause attempt res s = (case res of
     Some e \<Rightarrow> return_next (NextError e) s | None \<Rightarrow> s\<lparr>se_place := Booting cause attempt\<rparr>)"

text \<open>
  A bootstrap of the reconnect loop. The stream it opened, if any, takes the next number; one that
  failed has closed it.
\<close>

definition after_bootstrap ::
  "go_error \<Rightarrow> int \<Rightarrow> (go_error, nat) result \<Rightarrow> (go_error, string) result \<Rightarrow>
    (go_error, raw_event) result list \<Rightarrow> (go_error, session_snapshot) result \<Rightarrow> session \<Rightarrow> session" where
  "after_bootstrap cause attempt opened decoded pushed_results snapshot s =
    (let s = (if se_subs s = [] then s else case opened of Inl _ \<Rightarrow> s | Inr i \<Rightarrow> s\<lparr>se_next_id := Suc i\<rparr>)
     in case bootstrap_session (se_subs s) opened decoded pushed_results snapshot of
          (Inl e, closed) \<Rightarrow>
            (let s = s\<lparr>se_closed_streams := se_closed_streams s \<union> set_option closed\<rparr>
             in if \<not> is_retryable e then return_next (NextError e) s
                else s\<lparr>se_place := Waiting cause (attempt + 1)\<rparr>)
        | (Inr (i, cache, buffered), _) \<Rightarrow>
            (case snapshot of
               Inl e \<Rightarrow> return_next (NextError e) s
             | Inr snap \<Rightarrow> s\<lparr>se_place := Installing cause i snap cache buffered\<rparr>))"

text \<open>\<open>install\<close>, and the close of a stream that came too late.\<close>

definition install ::
  "go_error \<Rightarrow> nat \<Rightarrow> session_snapshot \<Rightarrow> session_cache \<Rightarrow> raw_event list \<Rightarrow> session \<Rightarrow> session" where
  "install cause i snap cache buffered s =
    (if se_closed s
     then return_next (NextError ErrStreamClosed)
       (s\<lparr>se_closed_streams := insert i (se_closed_streams s)\<rparr>)
     else s\<lparr>se_stream := Some i, se_place := Publishing cause snap cache buffered\<rparr>)"

text \<open>\<open>replace\<close> of the mirror, and the end of \<open>reconnect\<close>.\<close>

definition publish ::
  "go_error \<Rightarrow> session_snapshot \<Rightarrow> session_cache \<Rightarrow> raw_event list \<Rightarrow> session \<Rightarrow> session" where
  "publish cause snap cache buffered s =
    s\<lparr>se_cache := cache, se_pending := buffered, se_resync := Some cause,
      se_cause := None, se_place := Loop, se_base := snap, se_received := buffered,
      se_consumed := [], se_applied := []\<rparr>"

inductive session_step ::
  "(string \<Rightarrow> float64 option) \<Rightarrow> (float64 \<Rightarrow> string) \<Rightarrow> (int \<Rightarrow> int) \<Rightarrow> session \<Rightarrow> session \<Rightarrow> bool"
  for pf ff backoff where
  call: "se_place s = Idle \<Longrightarrow> session_step pf ff backoff s (s\<lparr>se_place := Loop\<rparr>)"
| loop: "se_place s = Loop \<Longrightarrow> session_step pf ff backoff s (next_loop pf ff s)"
| no_stream_closed: "se_place s = NoStream \<Longrightarrow> se_closed s \<Longrightarrow>
    session_step pf ff backoff s (return_next (NextError ErrStreamClosed) s)"
| no_stream: "se_place s = NoStream \<Longrightarrow> \<not> se_closed s \<Longrightarrow>
    session_step pf ff backoff s
      (s\<lparr>se_place := Waiting (case se_cause s of None \<Rightarrow> ErrStreamClosed | Some e \<Rightarrow> e) 1\<rparr>)"
| read: "se_place s = Reading i \<Longrightarrow> session_step pf ff backoff s (stream_result pf ff res s)"
| lost_closed: "se_place s = Lost e \<Longrightarrow> se_closed s \<Longrightarrow>
    session_step pf ff backoff s (return_next (NextError ErrStreamClosed) s)"
| lost: "se_place s = Lost e \<Longrightarrow> \<not> se_closed s \<Longrightarrow>
    session_step pf ff backoff s (s\<lparr>se_cause := Some e, se_place := Dropping\<rparr>)"
| drop: "se_place s = Dropping \<Longrightarrow>
    session_step pf ff backoff s (close_stream (s\<lparr>se_place := Loop\<rparr>))"
| wait: "se_place s = Waiting cause attempt \<Longrightarrow> w = SessionDone \<longrightarrow> se_closed s \<Longrightarrow>
    session_step pf ff backoff s
      (after_wait cause attempt (session_wait ctx_err (backoff attempt) w) s)"
| boot: "se_place s = Booting cause attempt \<Longrightarrow> opened = Inl e \<or> opened = Inr (se_next_id s) \<Longrightarrow>
    session_step pf ff backoff s
      (after_bootstrap cause attempt opened decoded pushed_results snapshot s)"
| install: "se_place s = Installing cause i snap cache buffered \<Longrightarrow>
    session_step pf ff backoff s (install cause i snap cache buffered s)"
| publish: "se_place s = Publishing cause snap cache buffered \<Longrightarrow>
    session_step pf ff backoff s (publish cause snap cache buffered s)"
| close_begin: "session_step pf ff backoff s (close_begin s)"
| close_end: "se_closing s \<noteq> None \<Longrightarrow> session_step pf ff backoff s (close_end s)"

inductive_cases session_stepE: "session_step pf ff backoff s t"

text \<open>The states of a session, from the moment it was opened.\<close>

inductive session_reach ::
  "(string \<Rightarrow> float64 option) \<Rightarrow> (float64 \<Rightarrow> string) \<Rightarrow> (int \<Rightarrow> int) \<Rightarrow> session \<Rightarrow> bool"
  for pf ff backoff where
  opened: "open_session subs opened decoded pushed_results snapshot = (Inr s, closed) \<Longrightarrow>
    session_reach pf ff backoff s"
| step: "session_reach pf ff backoff s \<Longrightarrow> session_step pf ff backoff s t \<Longrightarrow> session_reach pf ff backoff t"

end
