(* ===== verification/Session_Facts.thy ===== *)
theory Session_Facts
  imports Session_Machine
begin

text \<open>
  What holds of a live session in every state it can reach, whatever the server, the network, the
  contexts and a concurrent \<open>Close\<close> do: who owns which stream, what the mirror holds, what the caller
  of \<open>Next\<close> has been told, and how long a reconnect waits.
\<close>

subsection \<open>Ownership of the streams\<close>

text \<open>The stream a call of \<open>Next\<close> holds that is not yet the session's.\<close>

fun installing :: "place \<Rightarrow> nat option" where
  "installing (Installing cause i snap cache buffered) = Some i"
| "installing _ = None"

definition held_streams :: "session \<Rightarrow> nat set" where
  "held_streams s = set_option (se_stream s) \<union> set_option (se_closing s) \<union> set_option (installing (se_place s))"

definition owns_inv :: "session \<Rightarrow> bool" where
  "owns_inv s \<longleftrightarrow> se_closed_streams s \<union> held_streams s = {..<se_next_id s} \<and>
    se_closed_streams s \<inter> held_streams s = {} \<and>
    (installing (se_place s) \<noteq> None \<longrightarrow> se_stream s = None) \<and>
    (se_closing s \<noteq> None \<longrightarrow> installing (se_place s) \<noteq> se_closing s) \<and>
    (se_closed s \<longrightarrow> se_stream s = None) \<and> (\<not> se_closed s \<longrightarrow> se_closing s = None)"

text \<open>Where a call of \<open>Next\<close> stands while it reconnects, it holds no stream and has nothing to report.\<close>

fun reconnecting :: "place \<Rightarrow> bool" where
  "reconnecting NoStream = True"
| "reconnecting (Waiting cause attempt) = True"
| "reconnecting (Booting cause attempt) = True"
| "reconnecting (Installing cause i snap cache buffered) = True"
| "reconnecting _ = False"

definition drained :: "session \<Rightarrow> bool" where
  "drained s \<longleftrightarrow> se_pending s = [] \<and> se_resync s = None"

definition place_inv :: "session \<Rightarrow> bool" where
  "place_inv s \<longleftrightarrow> se_subs s \<noteq> [] \<and> (reconnecting (se_place s) \<longrightarrow> se_stream s = None) \<and>
    (se_place s \<noteq> Idle \<longrightarrow> se_place s \<noteq> Loop \<longrightarrow> drained s)"

lemma bootstrap_cases:
  assumes "subs \<noteq> []"
  obtains (fails) e where "bootstrap_session subs opened decoded results snapshot =
      (Inl e, case opened of Inl e \<Rightarrow> None | Inr i \<Rightarrow> Some i)"
  | (works) i snap where "opened = Inr i" "snapshot = Inr snap"
      "bootstrap_session subs opened decoded results snapshot =
        (Inr (i, new_session_cache snap, fst (collect_events results)), None)"
      "snd (collect_events results) = None" "check_subscription_ack decoded = None"
  by (cases opened; cases snapshot; cases "check_subscription_ack decoded";
      cases "collect_events results"; cases "snd (collect_events results)")
    (use assms in \<open>auto simp: bootstrap_session_def client_subscribe_def split: prod.splits\<close>)

lemma after_bootstrap_cases:
  assumes "se_subs s \<noteq> []" and "opened = Inl e' \<or> opened = Inr (se_next_id s)"
  obtains (gives_up) e t where "\<not> is_retryable e"
      "after_bootstrap cause attempt opened decoded results snapshot s = return_next (NextError e) t"
      "t = (case opened of Inl e \<Rightarrow> s | Inr i \<Rightarrow> s\<lparr>se_next_id := Suc (se_next_id s),
        se_closed_streams := insert (se_next_id s) (se_closed_streams s)\<rparr>)"
  | (retries) t where
      "after_bootstrap cause attempt opened decoded results snapshot s = t\<lparr>se_place := Waiting cause (attempt + 1)\<rparr>"
      "t = (case opened of Inl e \<Rightarrow> s | Inr i \<Rightarrow> s\<lparr>se_next_id := Suc (se_next_id s),
        se_closed_streams := insert (se_next_id s) (se_closed_streams s)\<rparr>)"
  | (installs) snap where
      "after_bootstrap cause attempt opened decoded results snapshot s =
        s\<lparr>se_next_id := Suc (se_next_id s), se_place := Installing cause (se_next_id s) snap (new_session_cache snap)
          (fst (collect_events results))\<rparr>"
proof (rule bootstrap_cases [OF assms(1), of opened decoded results snapshot], goal_cases fails works)
  case (fails e)
  define t where "t = (case opened of Inl e \<Rightarrow> s | Inr i \<Rightarrow> s\<lparr>se_next_id := Suc (se_next_id s),
        se_closed_streams := insert (se_next_id s) (se_closed_streams s)\<rparr>)"
  have "after_bootstrap cause attempt opened decoded results snapshot s =
      (if \<not> is_retryable e then return_next (NextError e) t else t\<lparr>se_place := Waiting cause (attempt + 1)\<rparr>)"
    using assms fails by (cases opened) (simp_all add: after_bootstrap_def Let_def t_def)
  then show ?case
    using gives_up [OF _ _ t_def] retries [OF _ t_def] by (cases "is_retryable e") simp_all
next
  case (works i snap)
  with assms show ?case
    by (intro installs) (auto simp: after_bootstrap_def Let_def)
qed

lemma return_next_simps [simp]:
  "se_place (return_next r s) = Idle" "se_results (return_next r s) = se_results s @ [r]"
  "se_stream (return_next r s) = se_stream s" "se_closing (return_next r s) = se_closing s"
  "se_closed (return_next r s) = se_closed s" "se_subs (return_next r s) = se_subs s"
  "se_pending (return_next r s) = se_pending s" "se_resync (return_next r s) = se_resync s"
  "se_closed_streams (return_next r s) = se_closed_streams s" "se_next_id (return_next r s) = se_next_id s"
  "se_cache (return_next r s) = se_cache s" "se_base (return_next r s) = se_base s"
  "se_received (return_next r s) = se_received s" "se_consumed (return_next r s) = se_consumed s"
  "se_applied (return_next r s) = se_applied s" "se_cause (return_next r s) = se_cause s"
  by (simp_all add: return_next_def)

text \<open>What a delivery leaves alone.\<close>

lemma deliver_simps [simp]:
  "se_place (deliver pf ff raw s) = Idle" "se_stream (deliver pf ff raw s) = se_stream s"
  "se_closing (deliver pf ff raw s) = se_closing s" "se_closed (deliver pf ff raw s) = se_closed s"
  "se_subs (deliver pf ff raw s) = se_subs s" "se_pending (deliver pf ff raw s) = se_pending s"
  "se_resync (deliver pf ff raw s) = se_resync s" "se_next_id (deliver pf ff raw s) = se_next_id s"
  "se_closed_streams (deliver pf ff raw s) = se_closed_streams s"
  "se_base (deliver pf ff raw s) = se_base s" "se_cause (deliver pf ff raw s) = se_cause s"
  "se_received (deliver pf ff raw s) = se_received s"
  "se_consumed (deliver pf ff raw s) = se_consumed s @ [raw]"
  by (simp_all add: deliver_def Let_def split: sum.split)

lemmas step_defs = next_loop_def stream_result_def after_wait_def install_def publish_def close_begin_def
  close_end_def close_stream_def

lemma place_inv_step: "session_step pf ff backoff s t \<Longrightarrow> place_inv s \<Longrightarrow> place_inv t"
proof (erule session_stepE, goal_cases)
  case (10 cause attempt opened e decoded results snapshot)
  then have "se_subs s \<noteq> []" and "opened = Inl e \<or> opened = Inr (se_next_id s)" by (simp_all add: place_inv_def)
  then show ?case
    by (rule after_bootstrap_cases [of s opened e cause attempt decoded results snapshot])
      (use 10 in \<open>auto simp: place_inv_def drained_def split: sum.splits\<close>)
qed (auto simp: place_inv_def drained_def step_defs split: option.splits list.splits sum.splits)

lemma lessThan_Suc_insert: "{..<Suc n} = insert n {..<n}"
  by auto

lemma fresh_stream: "owns_inv s \<Longrightarrow> se_next_id s \<notin> se_closed_streams s \<union> held_streams s"
  by (simp add: owns_inv_def)

lemma owns_inv_frame:
  assumes "owns_inv s" and "se_closed_streams t = se_closed_streams s" and "se_stream t = se_stream s"
    and "se_closing t = se_closing s" and "se_closed t = se_closed s" and "se_next_id t = se_next_id s"
    and "installing (se_place t) = installing (se_place s)"
  shows "owns_inv t"
  using assms by (simp add: owns_inv_def held_streams_def)

text \<open>The steps that move a stream: dropped, opened, installed, taken by \<open>Close\<close>, closed.\<close>

lemma owns_inv_moves:
  assumes "owns_inv s"
  shows "installing (se_place s) = None \<Longrightarrow> owns_inv (close_stream (s\<lparr>se_place := Loop\<rparr>))"
    and "se_place s = Installing cause i snap cache buffered \<Longrightarrow> owns_inv (install cause i snap cache buffered s)"
    and "owns_inv (close_begin s)" and "owns_inv (close_end s)"
  subgoal using assms by (cases "se_stream s"; cases "se_closing s")
      (auto simp: owns_inv_def held_streams_def close_stream_def)
  subgoal using assms by (cases "se_closed s"; cases "se_closing s")
      (auto simp: owns_inv_def held_streams_def install_def)
  subgoal using assms by (cases "se_closed s"; cases "se_stream s"; cases "installing (se_place s)")
      (simp_all add: owns_inv_def held_streams_def close_begin_def)
  subgoal using assms by (cases "se_closing s"; cases "se_closed s"; cases "installing (se_place s)")
      (auto simp: owns_inv_def held_streams_def close_end_def)
  done

lemma owns_inv_boot:
  assumes "owns_inv s" and "place_inv s" and "se_place s = Booting cause attempt"
    and "opened = Inl e \<or> opened = Inr (se_next_id s)"
  shows "owns_inv (after_bootstrap cause attempt opened decoded results snapshot s)"
proof -
  have fresh: "se_next_id s \<notin> se_closed_streams s" "se_closing s \<noteq> Some (se_next_id s)"
    using fresh_stream [of s] assms by (auto simp: held_streams_def)
  have subs: "se_subs s \<noteq> []" using assms(2) by (simp add: place_inv_def)
  have s: "se_stream s = None" "se_closed_streams s \<union> set_option (se_closing s) = {..<se_next_id s}"
      "se_closed_streams s \<inter> set_option (se_closing s) = {}"
    using assms by (simp_all add: place_inv_def owns_inv_def held_streams_def)
  from subs assms(4) show ?thesis
    by (rule after_bootstrap_cases [of s opened e cause attempt decoded results snapshot])
      (use assms fresh s in \<open>auto simp: owns_inv_def held_streams_def lessThan_Suc_insert split: sum.splits\<close>)
qed

lemma owns_inv_step: "session_step pf ff backoff s t \<Longrightarrow> place_inv s \<Longrightarrow> owns_inv s \<Longrightarrow> owns_inv t"
proof (erule session_stepE, goal_cases)
  case 8
  then show ?case by (simp add: owns_inv_moves)
next
  case 10
  then show ?case by (simp add: owns_inv_boot)
next
  case 11
  then show ?case by (simp add: owns_inv_moves)
next
  case 12
  then show ?case by (simp add: publish_def owns_inv_frame [of s])
next
  case 13
  then show ?case by (simp add: owns_inv_moves)
next
  case 14
  then show ?case by (simp add: owns_inv_moves)
qed (auto intro!: owns_inv_frame [of s] simp: next_loop_def stream_result_def after_wait_def
    split: option.split list.split sum.split)

subsection \<open>What the caller is told\<close>

text \<open>
  The events a caller of \<open>Next\<close> holds if it starts anew at every resync, and the events among the raw
  ones.
\<close>

fun heard :: "event list \<Rightarrow> next_result \<Rightarrow> event list" where
  "heard es (NextEvent e) = es @ [e]"
| "heard es (NextResync cause) = []"
| "heard es (NextError e) = es"

definition events_since :: "next_result list \<Rightarrow> event list" where
  "events_since rs = foldl heard [] rs"

definition decoded_events ::
  "(string \<Rightarrow> float64 option) \<Rightarrow> (float64 \<Rightarrow> string) \<Rightarrow> raw_event list \<Rightarrow> event list" where
  "decoded_events pf ff raws = List.map_filter
    (\<lambda>raw. case decode_event pf ff (re_event raw) (re_data raw) of Inl e \<Rightarrow> None | Inr e \<Rightarrow> Some e) raws"

fun place_ok :: "place \<Rightarrow> bool" where
  "place_ok (Lost e) = is_error e ErrStreamClosed"
| "place_ok (Waiting cause attempt) = (is_error cause ErrStreamClosed \<and> 1 \<le> attempt)"
| "place_ok (Booting cause attempt) = (is_error cause ErrStreamClosed \<and> 1 \<le> attempt)"
| "place_ok (Installing cause i snap cache buffered) =
    (is_error cause ErrStreamClosed \<and> cache = new_session_cache snap)"
| "place_ok (Publishing cause snap cache buffered) =
    (is_error cause ErrStreamClosed \<and> cache = new_session_cache snap)"
| "place_ok _ = True"

definition cause_ok :: "go_error option \<Rightarrow> bool" where
  "cause_ok c \<longleftrightarrow> (case c of None \<Rightarrow> True | Some e \<Rightarrow> is_error e ErrStreamClosed)"

definition data_inv :: "(string \<Rightarrow> float64 option) \<Rightarrow> (float64 \<Rightarrow> string) \<Rightarrow> session \<Rightarrow> bool" where
  "data_inv pf ff s \<longleftrightarrow>
    se_cache s = run_events (se_applied s) (new_session_cache (se_base s)) \<and>
    se_received s = se_consumed s @ se_pending s \<and>
    se_applied s = decoded_events pf ff (se_consumed s) \<and>
    (se_resync s \<noteq> None \<longrightarrow> se_consumed s = []) \<and>
    (se_resync s = None \<longrightarrow> events_since (se_results s) = se_applied s)"

definition causes_inv :: "session \<Rightarrow> bool" where
  "causes_inv s \<longleftrightarrow> place_ok (se_place s) \<and> cause_ok (se_cause s) \<and> cause_ok (se_resync s) \<and>
    (\<forall>c. NextResync c \<in> set (se_results s) \<longrightarrow> is_error c ErrStreamClosed)"

lemma events_since_snoc [simp]: "events_since (rs @ [r]) = heard (events_since rs) r"
  by (simp add: events_since_def)

lemma events_since_Nil [simp]: "events_since [] = []"
  by (simp add: events_since_def)

lemma decoded_events_simps [simp]:
  "decoded_events pf ff [] = []"
  "decoded_events pf ff (raws @ [raw]) = decoded_events pf ff raws @
    (case decode_event pf ff (re_event raw) (re_data raw) of Inl e \<Rightarrow> [] | Inr e \<Rightarrow> [e])"
  by (simp_all add: decoded_events_def map_filter_def split: sum.split)

lemma run_events_snoc [simp]: "run_events (es @ [e]) c = apply_event e (run_events es c)"
  by (simp add: run_events_def)

lemma run_events_Nil [simp]: "run_events [] c = c"
  by (simp add: run_events_def)

lemma cause_ok_simps [simp]: "cause_ok None" "cause_ok (Some e) = is_error e ErrStreamClosed"
  by (simp_all add: cause_ok_def)

lemma deliver_data:
  assumes "data_inv pf ff (s\<lparr>se_received := se_consumed s, se_pending := []\<rparr>)" and "se_resync s = None"
    and "se_received s = se_consumed s @ raw # se_pending s"
  shows "data_inv pf ff (deliver pf ff raw s)"
  using assms by (simp add: data_inv_def deliver_def Let_def split: sum.split)

lemma data_inv_frame:
  assumes "data_inv pf ff s" and "se_cache t = se_cache s" and "se_applied t = se_applied s"
    and "se_base t = se_base s" and "se_received t = se_received s" and "se_consumed t = se_consumed s"
    and "se_pending t = se_pending s" and "se_resync t = se_resync s"
    and "events_since (se_results t) = events_since (se_results s)"
  shows "data_inv pf ff t"
  using assms by (simp add: data_inv_def)

lemma data_inv_boot:
  assumes "data_inv pf ff s" and "place_inv s" and "opened = Inl e \<or> opened = Inr (se_next_id s)"
  shows "data_inv pf ff (after_bootstrap cause attempt opened decoded results snapshot s)"
proof -
  have subs: "se_subs s \<noteq> []" using assms(2) by (simp add: place_inv_def)
  from subs assms(3) show ?thesis
    by (rule after_bootstrap_cases [of s opened e cause attempt decoded results snapshot])
      (use assms in \<open>auto simp: data_inv_def split: sum.splits\<close>)
qed

lemma data_inv_step:
  "session_step pf ff backoff s t \<Longrightarrow> place_inv s \<Longrightarrow> causes_inv s \<Longrightarrow> data_inv pf ff s \<Longrightarrow> data_inv pf ff t"
proof (erule session_stepE, goal_cases)
  case 2
  then show ?case
    by (auto simp: next_loop_def data_inv_def deliver_def Let_def split: option.split list.split sum.split)
next
  case (5 i res)
  then show ?case
    by (auto simp: stream_result_def data_inv_def place_inv_def drained_def deliver_def Let_def split: sum.split)
next
  case 10
  then show ?case by (simp add: data_inv_boot)
next
  case 12
  then show ?case by (simp add: publish_def data_inv_def causes_inv_def)
qed (auto intro!: data_inv_frame [of pf ff s] simp: after_wait_def install_def close_begin_def close_end_def
    close_stream_def split: option.split)

lemma causes_inv_boot:
  assumes "causes_inv s" and "place_inv s" and "se_place s = Booting cause attempt"
    and "opened = Inl e \<or> opened = Inr (se_next_id s)"
  shows "causes_inv (after_bootstrap cause attempt opened decoded results snapshot s)"
proof -
  have subs: "se_subs s \<noteq> []" using assms(2) by (simp add: place_inv_def)
  from subs assms(4) show ?thesis
    by (rule after_bootstrap_cases [of s opened e cause attempt decoded results snapshot])
      (use assms in \<open>auto simp: causes_inv_def split: sum.splits\<close>)
qed

lemma causes_inv_step: "session_step pf ff backoff s t \<Longrightarrow> place_inv s \<Longrightarrow> causes_inv s \<Longrightarrow> causes_inv t"
proof (erule session_stepE, goal_cases)
  case 10
  then show ?case by (simp add: causes_inv_boot)
qed (auto simp: causes_inv_def step_defs deliver_def Let_def split: option.splits list.splits sum.splits)

subsection \<open>The reachable states\<close>

lemma open_session_ok:
  assumes "open_session subs opened decoded results snapshot = (Inr s, closed)"
  obtains i snap where "opened = Inr i" "snapshot = Inr snap"
    "s = new_session (if subs = [] then mirror_subscriptions else subs) i snap (fst (collect_events results))"
proof -
  let ?subs = "if subs = [] then mirror_subscriptions else subs"
  have "?subs \<noteq> []" by (simp add: mirror_subscriptions_def)
  then show ?thesis
    by (rule bootstrap_cases [of ?subs opened decoded results snapshot])
      (use assms that in \<open>auto simp: open_session_def Let_def new_session_def\<close>)
qed

lemma reach_inv:
  "session_reach pf ff backoff s \<Longrightarrow> place_inv s \<and> owns_inv s \<and> causes_inv s \<and> data_inv pf ff s"
proof (induction rule: session_reach.induct)
  case (opened subs opened decoded results snapshot s closed)
  then show ?case
    by (rule open_session_ok)
      (auto simp: new_session_def place_inv_def owns_inv_def held_streams_def causes_inv_def data_inv_def
        drained_def decoded_events_def mirror_subscriptions_def map_filter_simps lessThan_Suc_insert)
next
  case (step s t)
  then show ?case
    using place_inv_step owns_inv_step causes_inv_step data_inv_step by blast
qed

text \<open>
  C20. No stream is leaked or closed while it is in use: each stream a session ever opened is either
  closed or held at exactly one of the places that will close it, and when a closed session has no
  call under way all of them are closed.
\<close>

theorem session_leaks_no_stream:
  assumes "session_reach pf ff backoff s"
  shows "se_closed_streams s \<union> held_streams s = {..<se_next_id s} \<and>
    se_closed_streams s \<inter> held_streams s = {} \<and>
    (se_closed s \<longrightarrow> se_stream s = None) \<and>
    (se_closed s \<and> se_closing s = None \<and> se_place s = Idle \<longrightarrow> se_closed_streams s = {..<se_next_id s})"
proof -
  have inv: "owns_inv s" using reach_inv [OF assms] by simp
  then have "held_streams s = {}" if "se_closed s" "se_closing s = None" "se_place s = Idle"
    using that by (simp add: owns_inv_def held_streams_def)
  with inv show ?thesis unfolding owns_inv_def by (metis Un_empty_right)
qed

definition sample_ack :: "(go_error, string) result" where
  "sample_ack = Inr ''subscription_started''"

definition sample_session :: session where
  "sample_session = new_session mirror_subscriptions 0 session_snapshot_zero []"

lemma sample_session_reach: "session_reach pf ff backoff sample_session"
proof (rule session_reach.opened)
  show "open_session [] (Inr 0) sample_ack [Inl ContextCanceled] (Inr session_snapshot_zero) = (Inr sample_session, None)"
    by (simp add: open_session_def bootstrap_session_def client_subscribe_def check_subscription_ack_def sample_ack_def
        mirror_subscriptions_def sample_session_def new_session_def)
qed

lemma sample_session_closed:
  "session_reach pf ff backoff (close_end (close_begin sample_session))"
proof -
  have "session_reach pf ff backoff (close_begin sample_session)"
    using sample_session_reach by (rule session_reach.step) (rule session_step.close_begin)
  then show ?thesis
    by (rule session_reach.step) (rule session_step.close_end, simp add: close_begin_def sample_session_def new_session_def)
qed

theorem session_leaks_no_stream_witness:
  "se_closed_streams (close_end (close_begin sample_session)) = {..<1}"
  using session_leaks_no_stream [OF sample_session_closed [of "\<lambda>s. None" "\<lambda>x. []" default_backoff]]
  by (simp add: close_end_def close_begin_def sample_session_def new_session_def)

text \<open>
  C21. The mirror is what its reader was told: the snapshot of the last bootstrap and, on top of it,
  exactly the events that calls of \<open>Next\<close> returned since the last resync, in that order; before the
  resync is returned, the snapshot alone. The raw events of the stream, those buffered during the
  bootstrap first, are each consumed once and in the order they came.
\<close>

theorem mirror_shows_what_next_returned:
  assumes "session_reach pf ff backoff s"
  shows "se_cache s = run_events (if se_resync s = None then events_since (se_results s) else [])
      (new_session_cache (se_base s)) \<and>
    mirrored (se_cache s) \<and>
    se_received s = se_consumed s @ se_pending s \<and>
    (se_resync s = None \<longrightarrow> events_since (se_results s) = decoded_events pf ff (se_consumed s))"
proof -
  have inv: "data_inv pf ff s" using reach_inv [OF assms] by simp
  have "mirrored (run_events es (new_session_cache b))" for es b
    by (induction es rule: rev_induct) (simp_all add: mirrored.intros)
  moreover have "se_resync s \<noteq> None \<Longrightarrow> se_applied s = []"
    using inv by (simp add: data_inv_def)
  ultimately show ?thesis using inv by (auto simp: data_inv_def)
qed

definition sample_raw :: raw_event where
  "sample_raw = \<lparr>re_event = ''pane_agent_status_changed'',
     re_data = Some (encode_event (\<lambda>s. None) (\<lambda>x. []) sample_event)\<rparr>"

definition sample_told :: session where
  "sample_told = deliver (\<lambda>s. None) (\<lambda>x. []) sample_raw
     (sample_session\<lparr>se_place := Reading 0, se_received := [sample_raw]\<rparr>)"

lemma sample_told_reach: "session_reach (\<lambda>s. None) (\<lambda>x. []) default_backoff sample_told"
proof -
  let ?reach = "session_reach (\<lambda>s. None) (\<lambda>x. []) default_backoff"
  note defs = sample_session_def new_session_def
  have "?reach (sample_session\<lparr>se_place := Loop\<rparr>)"
    using sample_session_reach by (rule session_reach.step) (rule session_step.call, simp add: defs)
  moreover have "session_step (\<lambda>s. None) (\<lambda>x. []) default_backoff (sample_session\<lparr>se_place := Loop\<rparr>)
      (sample_session\<lparr>se_place := Reading 0\<rparr>)"
    using session_step.loop [of "sample_session\<lparr>se_place := Loop\<rparr>" "\<lambda>s. None" "\<lambda>x. []" default_backoff]
    by (simp add: next_loop_def defs)
  ultimately have "?reach (sample_session\<lparr>se_place := Reading 0\<rparr>)"
    by (rule session_reach.step)
  moreover have "session_step (\<lambda>s. None) (\<lambda>x. []) default_backoff (sample_session\<lparr>se_place := Reading 0\<rparr>) sample_told"
    using session_step.read [of "sample_session\<lparr>se_place := Reading 0\<rparr>" 0 "\<lambda>s. None" "\<lambda>x. []" default_backoff "Inr sample_raw"]
    by (simp add: stream_result_def sample_told_def defs)
  ultimately show ?thesis by (rule session_reach.step)
qed

theorem mirror_shows_what_next_returned_witness:
  "mirrored (se_cache sample_told) \<and> se_received sample_told = se_consumed sample_told @ se_pending sample_told \<and>
    se_consumed sample_told = [sample_raw]"
proof -
  have "se_consumed sample_told = [sample_raw]"
    by (simp add: sample_told_def sample_session_def new_session_def)
  with mirror_shows_what_next_returned [OF sample_told_reach] show ?thesis by blast
qed

text \<open>What a step does with a pending resync.\<close>

lemma resync_step:
  assumes "session_step pf ff backoff s t" and "place_inv s"
  shows "(se_base t \<noteq> se_base s \<longrightarrow> se_resync t \<noteq> None) \<and>
    (case se_resync s of
       Some c \<Rightarrow> se_resync t = Some c \<and> se_results t = se_results s \<or>
         se_resync t = None \<and> se_results t = se_results s @ [NextResync c]
     | None \<Rightarrow> \<forall>c. se_results t \<noteq> se_results s @ [NextResync c])"
  using assms
proof (elim session_stepE, goal_cases)
  case 2
  then show ?case
    by (simp add: next_loop_def deliver_def Let_def split: option.split list.split sum.split)
next
  case (5 i res)
  then have "se_resync s = None" by (simp add: place_inv_def drained_def)
  with 5 show ?case
    by (simp add: stream_result_def deliver_def Let_def split: sum.split)
next
  case (10 cause attempt opened e decoded results snapshot)
  then have s: "se_resync s = None" "se_subs s \<noteq> []" "opened = Inl e \<or> opened = Inr (se_next_id s)"
    by (simp_all add: place_inv_def drained_def)
  from s(2,3) show ?case
    by (rule after_bootstrap_cases [of s opened e cause attempt decoded results snapshot])
      (use 10 s(1) in \<open>simp_all split: sum.split\<close>)
qed (simp_all add: place_inv_def drained_def after_wait_def install_def publish_def close_begin_def
    close_end_def close_stream_def split: option.split)

text \<open>
  C22. A gap is reported before anything after it: when a step rebuilds the mirror, a resync whose cause
  matches \<open>ErrStreamClosed\<close> waits, the session returns no event until it has returned that resync, and
  no resync is lost or replaced by another.
\<close>

theorem gap_is_reported_first:
  assumes "session_reach pf ff backoff s" and "session_step pf ff backoff s t"
  shows "(se_base t \<noteq> se_base s \<longrightarrow> se_resync t \<noteq> None) \<and>
    (\<forall>c. se_resync t = Some c \<longrightarrow> is_error c ErrStreamClosed) \<and>
    (\<forall>c. se_resync s = Some c \<longrightarrow>
      se_resync t = Some c \<and> se_results t = se_results s \<or>
      se_resync t = None \<and> se_results t = se_results s @ [NextResync c]) \<and>
    (\<forall>c. se_results t = se_results s @ [NextResync c] \<longrightarrow> se_resync s = Some c)"
proof -
  have inv: "place_inv s" "causes_inv s" using reach_inv [OF assms(1)] by simp_all
  have "causes_inv t" using assms(2) inv by (rule causes_inv_step)
  then have "\<forall>c. se_resync t = Some c \<longrightarrow> is_error c ErrStreamClosed"
    by (auto simp: causes_inv_def)
  with resync_step [OF assms(2) inv(1)] show ?thesis
    by (cases "se_resync s") auto
qed

text \<open>From an idle, drained session to a first attempt to reconnect.\<close>

definition lost_stream :: "go_error \<Rightarrow> session \<Rightarrow> session" where
  "lost_stream e s = (close_stream s)\<lparr>se_cause := Some e\<rparr>"

lemma reach_booting:
  assumes reach: "session_reach pf ff backoff s" and idle: "se_place s = Idle" "drained s" "\<not> se_closed s"
    and stream: "se_stream s = Some i" and e: "is_error e ErrStreamClosed"
  shows "session_reach pf ff backoff ((lost_stream e s)\<lparr>se_place := Booting e 1\<rparr>)"
proof -
  let ?step = "session_step pf ff backoff" and ?l = "lost_stream e s"
  have s: "se_pending s = []" "se_resync s = None" using idle by (simp_all add: drained_def)
  have l: "se_pending ?l = []" "se_resync ?l = None" "se_stream ?l = None" "\<not> se_closed ?l" "se_cause ?l = Some e"
    using s idle by (simp_all add: lost_stream_def close_stream_def)
  have "?step s (s\<lparr>se_place := Loop\<rparr>)"
    using idle by (intro session_step.call)
  moreover have "?step (s\<lparr>se_place := Loop\<rparr>) (s\<lparr>se_place := Reading i\<rparr>)"
    using session_step.loop [of "s\<lparr>se_place := Loop\<rparr>"] s stream by (simp add: next_loop_def)
  moreover have "?step (s\<lparr>se_place := Reading i\<rparr>) (s\<lparr>se_place := Lost e\<rparr>)"
    using session_step.read [of "s\<lparr>se_place := Reading i\<rparr>" i pf ff backoff "Inl e"] e
    by (simp add: stream_result_def)
  moreover have "?step (s\<lparr>se_place := Lost e\<rparr>) (s\<lparr>se_cause := Some e, se_place := Dropping\<rparr>)"
    using session_step.lost [of "s\<lparr>se_place := Lost e\<rparr>" e] idle by simp
  moreover have "?step (s\<lparr>se_cause := Some e, se_place := Dropping\<rparr>) (?l\<lparr>se_place := Loop\<rparr>)"
  proof -
    have "close_stream (s\<lparr>se_cause := Some e, se_place := Dropping\<rparr>\<lparr>se_place := Loop\<rparr>) = ?l\<lparr>se_place := Loop\<rparr>"
      by (cases s) (simp add: lost_stream_def close_stream_def)
    then show ?thesis
      using session_step.drop [of "s\<lparr>se_cause := Some e, se_place := Dropping\<rparr>" pf ff backoff] by simp
  qed
  moreover have "?step (?l\<lparr>se_place := Loop\<rparr>) (?l\<lparr>se_place := NoStream\<rparr>)"
    using session_step.loop [of "?l\<lparr>se_place := Loop\<rparr>"] l by (simp add: next_loop_def)
  moreover have "?step (?l\<lparr>se_place := NoStream\<rparr>) (?l\<lparr>se_place := Waiting e 1\<rparr>)"
    using session_step.no_stream [of "?l\<lparr>se_place := NoStream\<rparr>"] l by simp
  moreover have "?step (?l\<lparr>se_place := Waiting e 1\<rparr>) (?l\<lparr>se_place := Booting e 1\<rparr>)"
    using session_step.wait [of "?l\<lparr>se_place := Waiting e 1\<rparr>" e 1 Elapsed pf ff backoff None]
    by (simp add: session_wait_def after_wait_def split: if_splits)
  ultimately show ?thesis using reach by (metis session_reach.step)
qed

text \<open>A successful bootstrap leaves the resync to be returned.\<close>

lemma reach_resync:
  assumes reach: "session_reach pf ff backoff (s\<lparr>se_place := Booting e n\<rparr>)" and "\<not> se_closed s" and "se_subs s \<noteq> []"
  shows "session_reach pf ff backoff (publish e snap (new_session_cache snap) []
    (s\<lparr>se_next_id := Suc (se_next_id s), se_stream := Some (se_next_id s)\<rparr>))"
proof -
  let ?step = "session_step pf ff backoff" and ?n = "s\<lparr>se_next_id := Suc (se_next_id s)\<rparr>"
  let ?p = "Publishing e snap (new_session_cache snap) []"
  have "?step (s\<lparr>se_place := Booting e n\<rparr>)
      (?n\<lparr>se_place := Installing e (se_next_id s) snap (new_session_cache snap) []\<rparr>)"
    using session_step.boot [of "s\<lparr>se_place := Booting e n\<rparr>" e n "Inr (se_next_id s)" undefined pf ff backoff
        sample_ack "[Inl ContextCanceled]" "Inr snap"] assms(3)
    by (simp add: after_bootstrap_def bootstrap_session_def client_subscribe_def check_subscription_ack_def
        sample_ack_def)
  moreover have "?step (?n\<lparr>se_place := Installing e (se_next_id s) snap (new_session_cache snap) []\<rparr>)
      (?n\<lparr>se_stream := Some (se_next_id s), se_place := ?p\<rparr>)"
    using session_step.install [of "?n\<lparr>se_place := Installing e (se_next_id s) snap (new_session_cache snap) []\<rparr>"] assms(2)
    by (simp add: install_def)
  moreover have "?step (?n\<lparr>se_stream := Some (se_next_id s), se_place := ?p\<rparr>)
      (publish e snap (new_session_cache snap) [] (?n\<lparr>se_stream := Some (se_next_id s)\<rparr>))"
    using session_step.publish [of "?n\<lparr>se_stream := Some (se_next_id s), se_place := ?p\<rparr>"]
    by (simp add: publish_def)
  ultimately show ?thesis using reach by (metis session_reach.step)
qed

definition sample_resync :: session where
  "sample_resync = publish ErrStreamClosed session_snapshot_zero (new_session_cache session_snapshot_zero) []
    ((lost_stream ErrStreamClosed sample_session)\<lparr>se_next_id := 2, se_stream := Some 1\<rparr>)"

lemma sample_fields:
  "se_place sample_session = Idle" "drained sample_session" "\<not> se_closed sample_session"
  "se_stream sample_session = Some 0" "se_subs sample_session \<noteq> []" "se_next_id sample_session = 1"
  by (simp_all add: sample_session_def new_session_def drained_def mirror_subscriptions_def)

lemma sample_resync_reach: "session_reach pf ff backoff sample_resync"
proof -
  have "session_reach pf ff backoff
      ((lost_stream ErrStreamClosed sample_session)\<lparr>se_place := Booting ErrStreamClosed 1\<rparr>)"
    by (rule reach_booting [OF sample_session_reach sample_fields(1-4) is_error_refl])
  then have "session_reach pf ff backoff (publish ErrStreamClosed session_snapshot_zero
      (new_session_cache session_snapshot_zero) []
      ((lost_stream ErrStreamClosed sample_session)\<lparr>se_next_id := Suc 1, se_stream := Some 1\<rparr>))"
    using reach_resync [where s = "lost_stream ErrStreamClosed sample_session" and snap = session_snapshot_zero] sample_fields
    by (simp add: lost_stream_def close_stream_def)
  then show ?thesis by (simp add: sample_resync_def numeral_2_eq_2)
qed

theorem gap_is_reported_first_witness:
  "se_results (next_loop (\<lambda>s. None) (\<lambda>x. []) sample_resync) = [NextResync ErrStreamClosed]"
proof -
  have place: "se_place sample_resync = Loop" and resync: "se_resync sample_resync = Some ErrStreamClosed"
    by (simp_all add: sample_resync_def publish_def)
  have results: "se_results sample_resync = []"
    by (simp add: sample_resync_def publish_def lost_stream_def close_stream_def sample_session_def new_session_def)
  have "se_resync (next_loop (\<lambda>s. None) (\<lambda>x. []) sample_resync) = None"
    by (simp add: next_loop_def resync)
  with gap_is_reported_first [of "\<lambda>s. None" "\<lambda>x. []" default_backoff, OF sample_resync_reach session_step.loop [OF place]]
  show ?thesis by (simp add: resync results)
qed

subsection \<open>Backoff\<close>

lemma backoff_loop_min:
  assumes "0 < d" and "i \<le> n"
  shows "min (backoff_loop i n d) reconnect_max_delay = min (d * 2 ^ nat (n - i)) reconnect_max_delay"
  using assms
proof (induction i n d rule: backoff_loop.induct)
  case (1 i n d)
  show ?case
  proof (cases "i < n \<and> d < reconnect_max_delay")
    case True
    then have "nat (n - i) = Suc (nat (n - (i + 1)))" by linarith
    with True 1 show ?thesis by (simp add: backoff_loop.simps [of i n d] mult_ac)
  next
    case False
    have "reconnect_max_delay \<le> d * 2 ^ nat (n - i)" if "reconnect_max_delay \<le> d"
      using that 1(2) by (metis mult_left_mono mult.right_neutral one_le_power order_trans less_imp_le one_le_numeral)
    with False 1(3) show ?thesis by (auto simp: backoff_loop.simps [of i n d] min_def)
  qed
qed

text \<open>
  C23. The wait before the n-th attempt doubles from 100 ms and never exceeds 5 s, nor does a delay the
  loop computes exceed 10 s, so that nothing overflows; it is positive, so a closed session always gets
  to see that it is closed.
\<close>

theorem default_backoff_doubles:
  "default_backoff n = min (100000000 * 2 ^ nat (n - 1)) 5000000000 \<and>
    100000000 \<le> default_backoff n \<and> default_backoff n \<le> 5000000000 \<and>
    backoff_loop 1 n reconnect_base_delay \<le> 10000000000 \<and>
    (default_backoff n \<le> default_backoff (n + 1))"
proof -
  have delays: "reconnect_base_delay = 100000000" "reconnect_max_delay = 5000000000"
    by (simp_all add: reconnect_base_delay_def reconnect_max_delay_def)
  have eq: "default_backoff k = min (100000000 * 2 ^ nat (k - 1)) 5000000000" for k
  proof (cases "1 \<le> k")
    case True
    then show ?thesis
      using backoff_loop_min [of reconnect_base_delay 1 k] by (simp add: default_backoff_def delays)
  next
    case False
    then show ?thesis by (simp add: default_backoff_def backoff_loop.simps delays)
  qed
  have base: "(100000000::int) \<le> 100000000 * 2 ^ k" for k :: nat
    using mult_left_mono [of 1 "2 ^ k" "100000000::int"] by simp
  have "(2::int) ^ nat (n - 1) \<le> 2 ^ nat (n + 1 - 1)"
    by (rule power_increasing) simp_all
  then have mono: "default_backoff n \<le> default_backoff (n + 1)"
    unfolding eq by (intro min.mono) simp_all
  have "backoff_loop i k d \<le> 10000000000" if "d \<le> 10000000000" for i k d
    using that
  proof (induction i k d rule: backoff_loop.induct)
    case (1 i k d)
    then show ?case by (simp add: backoff_loop.simps [of i k d] delays)
  qed
  from this [of reconnect_base_delay 1 n] have loop: "backoff_loop 1 n reconnect_base_delay \<le> 10000000000"
    by (simp add: delays)
  show ?thesis using base [of "nat (n - 1)"] mono loop eq [of n] by simp
qed

subsection \<open>Closing\<close>

text \<open>How many steps a call of \<open>Next\<close> may still take on a closed session.\<close>

fun steps_left :: "place \<Rightarrow> nat" where
  "steps_left Idle = 0"
| "steps_left NoStream = 1"
| "steps_left (Lost e) = 1"
| "steps_left (Waiting cause attempt) = 1"
| "steps_left (Installing cause i snap cache buffered) = 1"
| "steps_left (Reading i) = 2"
| "steps_left Loop = 2"
| "steps_left (Booting cause attempt) = 2"
| "steps_left Dropping = 3"
| "steps_left (Publishing cause snap cache buffered) = 3"

lemma deliver_place: "se_place (deliver pf ff raw s) = Idle"
  by simp

lemma closed_step:
  assumes "session_step pf ff backoff s t" and "se_closed s" and "owns_inv s" and "place_inv s"
  shows "se_closed t \<and> (se_place t = se_place s \<or> se_place s = Idle \<or> steps_left (se_place t) < steps_left (se_place s) \<or>
    (\<exists>cause attempt. se_place s = Waiting cause attempt \<and> se_place t = Booting cause attempt))"
  using assms
proof (elim session_stepE, goal_cases)
  case 2
  then have "se_stream s = None" by (simp add: owns_inv_def)
  with 2 show ?case
    by (simp add: next_loop_def split: option.split list.split)
next
  case (5 i res)
  then show ?case by (simp add: stream_result_def split: sum.split)
next
  case (10 cause attempt opened e decoded results snapshot)
  then have "se_subs s \<noteq> []" and "opened = Inl e \<or> opened = Inr (se_next_id s)"
    by (simp_all add: place_inv_def)
  then show ?case
    by (rule after_bootstrap_cases [of s opened e cause attempt decoded results snapshot])
      (use 10 in \<open>simp_all split: sum.split\<close>)
qed (simp_all add: after_wait_def install_def publish_def close_begin_def close_end_def close_stream_def
    split: option.split)

text \<open>Every place of a call has a step of its own, which on a closed session brings the end nearer.\<close>

lemma closed_progress:
  assumes "se_place s \<noteq> Idle" and "se_closed s" and "owns_inv s" and "place_inv s"
  obtains t where "session_step pf ff backoff s t" and "steps_left (se_place t) < steps_left (se_place s)"
proof (cases "se_place s")
  case Loop
  then have "se_stream s = None" using assms(2,3) by (simp add: owns_inv_def)
  with Loop that [OF session_step.loop [OF Loop]] show ?thesis
    by (simp add: next_loop_def split: option.splits list.splits)
next
  case NoStream
  from that [OF session_step.no_stream_closed [OF NoStream assms(2)]] show ?thesis
    by (simp add: NoStream)
next
  case (Reading i)
  from that [OF session_step.read [OF Reading, of _ _ _ "Inl ErrStreamClosed"]] show ?thesis
    by (simp add: Reading stream_result_def)
next
  case (Lost e)
  from that [OF session_step.lost_closed [OF Lost assms(2)]] show ?thesis by (simp add: Lost)
next
  case Dropping
  from that [OF session_step.drop [OF Dropping]] show ?thesis by (simp add: Dropping close_stream_def)
next
  case (Waiting cause attempt)
  from that [OF session_step.wait [OF Waiting, of SessionDone _ _ _ "Some ContextCanceled"]] assms(2) show ?thesis
    by (simp add: Waiting session_wait_def after_wait_def)
next
  case (Booting cause attempt)
  have "se_subs s \<noteq> []" using assms(4) by (simp add: place_inv_def)
  with that [OF session_step.boot [OF Booting, of "Inl ErrEOF" ErrEOF]] show ?thesis
    by (simp add: Booting after_bootstrap_def bootstrap_session_def client_subscribe_def)
next
  case (Installing cause i snap cache buffered)
  from that [OF session_step.install [OF Installing]] assms(2) show ?thesis
    by (simp add: Installing install_def)
next
  case (Publishing cause snap cache buffered)
  from that [OF session_step.publish [OF Publishing]] show ?thesis
    by (simp add: Publishing publish_def)
qed (use assms(1) in simp)


lemma sample_closed_loop: "session_reach pf ff backoff ((close_begin sample_session)\<lparr>se_place := Loop\<rparr>)"
proof (rule session_reach.step)
  show "session_reach pf ff backoff (sample_session\<lparr>se_place := Loop\<rparr>)"
    using sample_session_reach by (rule session_reach.step) (rule session_step.call, simp add: sample_fields)
  have "close_begin (sample_session\<lparr>se_place := Loop\<rparr>) = (close_begin sample_session)\<lparr>se_place := Loop\<rparr>"
    by (simp add: close_begin_def sample_session_def new_session_def)
  then show "session_step pf ff backoff (sample_session\<lparr>se_place := Loop\<rparr>)
      ((close_begin sample_session)\<lparr>se_place := Loop\<rparr>)"
    using session_step.close_begin [of pf ff backoff "sample_session\<lparr>se_place := Loop\<rparr>"] by simp
qed


subsection \<open>An error response during a bootstrap\<close>

text \<open>The server ends the subscription with \<open>events_lost\<close> while the snapshot is taken.\<close>

definition events_lost :: go_error where
  "events_lost = stream_read_error ''events.subscribe''
     (Some (ServerError ''events.subscribe'' ''events_lost'' ''subscriber fell behind''))"

lemma events_lost_facts:
  "is_error events_lost ErrStreamClosed" "\<not> is_retryable events_lost" "is_code events_lost ''events_lost''"
  "\<not> is_error events_lost ContextCanceled"
  by (simp_all add: events_lost_def stream_read_error_def is_retryable_def is_code_def)

text \<open>
  An error response the server pushes while a reconnect takes its snapshot ends the call of \<open>Next\<close>
  with an error that matches \<open>ErrStreamClosed\<close>, although the session is open and the next call
  reconnects.
\<close>

lemma open_session_reports_closed:
  "\<exists>s e. session_reach pf ff backoff s \<and> \<not> se_closed s \<and> se_place s = Idle \<and>
    se_results s = [NextError e] \<and> is_error e ErrStreamClosed \<and> is_code e ''events_lost''"
proof -
  let ?l = "lost_stream ErrStreamClosed sample_session"
  let ?b = "?l\<lparr>se_place := Booting ErrStreamClosed 1\<rparr>"
  let ?t = "after_bootstrap ErrStreamClosed 1 (Inr (se_next_id ?b)) sample_ack [Inl events_lost]
      (Inr session_snapshot_zero) ?b"
  have "session_reach pf ff backoff ?b"
    by (rule reach_booting [OF sample_session_reach sample_fields(1-4) is_error_refl])
  moreover have "session_step pf ff backoff ?b ?t"
    by (rule session_step.boot) simp_all
  ultimately have reach: "session_reach pf ff backoff ?t" by (rule session_reach.step)
  have subs: "se_subs ?b \<noteq> []" by (simp add: lost_stream_def close_stream_def sample_fields)
  have "bootstrap_session (se_subs ?b) (Inr (se_next_id ?b)) sample_ack [Inl events_lost] (Inr session_snapshot_zero) =
      (Inl events_lost, Some (se_next_id ?b))"
    using subs events_lost_facts
    by (simp add: bootstrap_session_def client_subscribe_def check_subscription_ack_def sample_ack_def)
  then have "?t = return_next (NextError events_lost) (?b\<lparr>se_next_id := Suc (se_next_id ?b),
      se_closed_streams := insert (se_next_id ?b) (se_closed_streams ?b)\<rparr>)"
    using subs events_lost_facts by (simp add: after_bootstrap_def Let_def)
  then have "\<not> se_closed ?t" and "se_place ?t = Idle" and "se_results ?t = [NextError events_lost]"
    by (simp_all add: lost_stream_def close_stream_def sample_session_def new_session_def)
  with reach events_lost_facts show ?thesis by blast
qed

end
