(* ===== verification/Manifest.thy ===== *)
theory Manifest
  imports Event_Codec Go_Strings
begin

text \<open>
  Plugin manifests: \<open>plugin/manifest\<close>.

  The structs of \<open>manifest.go\<close> are records; a slice may be nil, which matters for \<open>platforms\<close> alone.
  \<open>Validate\<close> (\<open>validate.go\<close>) is a chain of checks that stops at the first violation. A check yields the
  violation, \<open>None\<close> for nil. Two functions of the standard library are arguments: \<open>quote\<close> is
  \<open>strconv.Quote\<close>, the verb \<open>%q\<close>, and \<open>regexp\<close> is the error of \<open>regexp.Compile\<close>, if any. The TOML decoder
  is not part of the repository; \<open>manifest_parse\<close> takes what it returns.
\<close>

subsection \<open>Popup sizes (\<open>size.go\<close>)\<close>

record popup_size =
  ps_cells :: "16 word"
  ps_percent :: "8 word"

definition popup_is_percent :: "popup_size \<Rightarrow> bool" where
  "popup_is_percent s \<longleftrightarrow> ps_percent s \<noteq> 0"

definition popup_string :: "popup_size \<Rightarrow> string" where
  "popup_string s =
    (if popup_is_percent s then format_uint (unat (ps_percent s)) @ ''%'' else format_uint (unat (ps_cells s)))"

text \<open>A decoded TOML value: an \<open>int64\<close>, a string or another type, known by its name.\<close>

datatype toml_value = TomlInt "64 word" | TomlString string | TomlOther string

definition max_uint16 :: int where
  "max_uint16 = 65535"

definition popup_unmarshal :: "(string \<Rightarrow> string) \<Rightarrow> toml_value \<Rightarrow> (string, popup_size) result" where
  "popup_unmarshal quote data = (case data of
     TomlInt value \<Rightarrow>
       if sint value < 0 \<or> sint value > max_uint16
       then err (''popup size '' @ (if sint value < 0 then ''-'' else []) @ format_uint (nat \<bar>sint value\<bar>)
         @ '' is out of range; a cell count is 0 to 65535'')
       else ok \<lparr>ps_cells = ucast value, ps_percent = 0\<rparr>
   | TomlString value \<Rightarrow>
       (case cut_suffix value ''%'' of
          None \<Rightarrow> err (''popup size '' @ quote value @ '' must be a percentage like '' @ [CHR 0x22] @ ''80%''
            @ [CHR 0x22] @ ''; use an integer for cells'')
        | Some number \<Rightarrow>
            (case parse_uint 8 number of
               None \<Rightarrow> err (''popup size '' @ quote value @ '' must be a percentage between 1% and 100%'')
             | Some percent \<Rightarrow>
                 if percent < 1 \<or> percent > 100
                 then err (''popup size '' @ quote value @ '' must be a percentage between 1% and 100%'')
                 else ok \<lparr>ps_cells = 0, ps_percent = of_nat percent\<rparr>))
   | TomlOther type \<Rightarrow> err (''popup size must be an integer or a percentage like '' @ [CHR 0x22] @ ''80%''
       @ [CHR 0x22] @ '', got '' @ type))"

subsection \<open>The manifest (\<open>manifest.go\<close>)\<close>

record build =
  bu_command :: "string slice"
  bu_platforms :: "string slice"

record startup =
  su_command :: "string slice"
  su_platforms :: "string slice"

record action =
  ac_id :: string
  ac_title :: string
  ac_description :: string
  ac_contexts :: "string slice"
  ac_command :: "string slice"
  ac_platforms :: "string slice"

record event_hook =
  eh_on :: string
  eh_command :: "string slice"
  eh_platforms :: "string slice"

record pane_entry =
  pa_id :: string
  pa_title :: string
  pa_description :: string
  pa_placement :: string
  pa_width :: "popup_size pointer"
  pa_height :: "popup_size pointer"
  pa_command :: "string slice"
  pa_platforms :: "string slice"

record link_handler =
  lh_id :: string
  lh_title :: string
  lh_pattern :: string
  lh_action :: string
  lh_platforms :: "string slice"

record manifest =
  mf_id :: string
  mf_name :: string
  mf_version :: string
  mf_min_herdr_version :: string
  mf_description :: string
  mf_platforms :: "string slice"
  mf_build :: "build slice"
  mf_startup :: "startup slice"
  mf_actions :: "action slice"
  mf_events :: "event_hook slice"
  mf_panes :: "pane_entry slice"
  mf_link_handlers :: "link_handler slice"

definition platform_values :: "string list" where
  "platform_values = [''linux'', ''macos'', ''windows'']"

definition action_contexts :: "string list" where
  "action_contexts = [''global'', ''workspace'', ''tab'', ''pane'', ''selection'']"

definition placements :: "string list" where
  "placements = [''overlay'', ''popup'', ''split'', ''tab'', ''zoomed'']"

subsection \<open>Hook events (\<open>events.go\<close>)\<close>

definition schema_event_kinds :: "string list" where
  "schema_event_kinds = [''workspace_created'', ''workspace_updated'', ''workspace_metadata_updated'',
     ''workspace_closed'', ''workspace_renamed'', ''workspace_moved'', ''workspace_reordered'',
     ''workspace_focused'', ''worktree_created'', ''worktree_opened'', ''worktree_removed'',
     ''tab_created'', ''tab_closed'', ''tab_renamed'', ''tab_moved'', ''tab_focused'',
     ''pane_created'', ''pane_closed'', ''pane_updated'', ''pane_focused'', ''pane_moved'',
     ''pane_output_changed'', ''pane_exited'', ''pane_agent_detected'', ''pane_agent_status_changed'',
     ''layout_updated'']"

definition hook_event_kinds :: "string list" where
  "hook_event_kinds = [''workspace_created'', ''workspace_updated'', ''workspace_closed'',
     ''workspace_renamed'', ''workspace_moved'', ''workspace_reordered'', ''workspace_focused'',
     ''worktree_created'', ''worktree_opened'', ''worktree_removed'', ''tab_created'', ''tab_closed'',
     ''tab_renamed'', ''tab_moved'', ''tab_focused'', ''pane_created'', ''pane_closed'',
     ''pane_focused'', ''pane_moved'', ''pane_exited'', ''pane_agent_detected'', ''pane_agent_status_changed'']"

definition kind_dot_name :: "string \<Rightarrow> string" where
  "kind_dot_name kind = replace_first (CHR ''_'') (CHR ''.'') kind"

definition hook_event_names :: "string list" where
  "hook_event_names = map kind_dot_name hook_event_kinds"

fun hook_name_loop :: "string list \<Rightarrow> string \<Rightarrow> bool" where
  "hook_name_loop [] name = False"
| "hook_name_loop (kind # kinds) name = (if kind_dot_name kind = name then True else hook_name_loop kinds name)"

definition is_hook_event_name :: "string \<Rightarrow> bool" where
  "is_hook_event_name name = hook_name_loop hook_event_kinds name"

subsection \<open>Validation (\<open>validate.go\<close>)\<close>

record manifest_error =
  me_code :: string
  me_message :: string

definition manifest_error_text :: "manifest_error \<Rightarrow> string" where
  "manifest_error_text e = me_code e @ '': '' @ me_message e"

definition new_error :: "string \<Rightarrow> string \<Rightarrow> manifest_error" where
  "new_error code message = \<lparr>me_code = code, me_message = message\<rparr>"

definition id_max_chars :: nat where
  "id_max_chars = 120"

definition letter_or_digit :: "char \<Rightarrow> bool" where
  "letter_or_digit c \<longleftrightarrow> in_range 97 122 c \<or> in_range 65 90 c \<or> in_range 48 57 c"

fun identifier_loop :: "string \<Rightarrow> bool \<Rightarrow> bool" where
  "identifier_loop [] allow_dot = True"
| "identifier_loop (c # cs) allow_dot =
    (if letter_or_digit c then identifier_loop cs allow_dot
     else if c = CHR '':'' \<or> c = CHR ''_'' \<or> c = CHR ''-'' then identifier_loop cs allow_dot
     else if c = CHR ''.'' \<and> allow_dot then identifier_loop cs allow_dot
     else False)"

definition valid_identifier :: "string \<Rightarrow> bool \<Rightarrow> bool" where
  "valid_identifier value allow_dot =
    (let value = trim_space value
     in if value = [] \<or> rune_count value > id_max_chars then False else identifier_loop value allow_dot)"

definition valid_plugin_id :: "string \<Rightarrow> bool" where
  "valid_plugin_id value = valid_identifier value True"

definition valid_local_id :: "string \<Rightarrow> bool" where
  "valid_local_id value = valid_identifier value False"

fun command_loop :: "string list \<Rightarrow> string \<Rightarrow> manifest_error option" where
  "command_loop [] at = None"
| "command_loop (arg # args) at =
    (if arg = [] then Some (new_error ''invalid_plugin_command'' (at @ '': command must contain non-empty argv strings''))
     else command_loop args at)"

definition validate_command :: "string slice \<Rightarrow> string \<Rightarrow> manifest_error option" where
  "validate_command command at =
    (if elems command = []
     then Some (new_error ''invalid_plugin_command'' (at @ '': command must contain non-empty argv strings''))
     else command_loop (elems command) at)"

fun platform_loop :: "(string \<Rightarrow> string) \<Rightarrow> string list \<Rightarrow> string \<Rightarrow> manifest_error option" where
  "platform_loop quote [] at = None"
| "platform_loop quote (p # ps) at =
    (if p = ''linux'' \<or> p = ''macos'' \<or> p = ''windows'' then platform_loop quote ps at
     else Some (new_error ''invalid_plugin_platform'' (at @ '': unknown platform '' @ quote p)))"

definition validate_platforms :: "(string \<Rightarrow> string) \<Rightarrow> string slice \<Rightarrow> string \<Rightarrow> manifest_error option" where
  "validate_platforms quote platforms at = (case platforms of
     None \<Rightarrow> None
   | Some ps \<Rightarrow>
       if ps = [] then Some (new_error ''invalid_plugin_platform''
         (at @ '': platforms must not be an empty array; omit the field to leave platforms undeclared''))
       else platform_loop quote ps at)"

definition version_error :: "(string \<Rightarrow> string) \<Rightarrow> string \<Rightarrow> manifest_error" where
  "version_error quote value = new_error ''invalid_plugin_min_herdr_version''
     (''plugin min_herdr_version '' @ quote value @ '' must be a semantic version like 0.9.0'')"

fun version_loop :: "(string \<Rightarrow> string) \<Rightarrow> string \<Rightarrow> string list \<Rightarrow> manifest_error option" where
  "version_loop quote value [] = None"
| "version_loop quote value (part # parts) = (case parse_uint 32 part of
     None \<Rightarrow> Some (version_error quote value) | Some n \<Rightarrow> version_loop quote value parts)"

definition validate_min_herdr_version :: "(string \<Rightarrow> string) \<Rightarrow> string \<Rightarrow> manifest_error option" where
  "validate_min_herdr_version quote value =
    (let value = trim_space value
     in if value = [] then Some (new_error ''invalid_plugin_min_herdr_version'' ''plugin min_herdr_version is required'')
        else
          (let parts = split_on (CHR ''.'') (trim_prefix value ''v'')
           in if length parts \<noteq> 3 then Some (version_error quote value) else version_loop quote value parts))"

definition at_index :: "string \<Rightarrow> nat \<Rightarrow> string" where
  "at_index name i = name @ ''['' @ format_uint i @ '']''"

text \<open>One check after the other; the first violation counts.\<close>

definition also_check :: "manifest_error option \<Rightarrow> manifest_error option \<Rightarrow> manifest_error option" where
  "also_check a b = (case a of Some e \<Rightarrow> Some e | None \<Rightarrow> b)"

fun build_loop :: "(string \<Rightarrow> string) \<Rightarrow> nat \<Rightarrow> build list \<Rightarrow> manifest_error option" where
  "build_loop quote i [] = None"
| "build_loop quote i (b # bs) =
    (let at = at_index ''build'' i
     in also_check (validate_platforms quote (bu_platforms b) at)
       (also_check (validate_command (bu_command b) at) (build_loop quote (i + 1) bs)))"

fun startup_loop :: "(string \<Rightarrow> string) \<Rightarrow> nat \<Rightarrow> startup list \<Rightarrow> manifest_error option" where
  "startup_loop quote i [] = None"
| "startup_loop quote i (b # bs) =
    (let at = at_index ''startup'' i
     in also_check (validate_platforms quote (su_platforms b) at)
       (also_check (validate_command (su_command b) at) (startup_loop quote (i + 1) bs)))"

fun context_loop :: "(string \<Rightarrow> string) \<Rightarrow> string list \<Rightarrow> string \<Rightarrow> manifest_error option" where
  "context_loop quote [] at = None"
| "context_loop quote (c # cs) at =
    (if c = ''global'' \<or> c = ''workspace'' \<or> c = ''tab'' \<or> c = ''pane'' \<or> c = ''selection''
     then context_loop quote cs at
     else Some (new_error ''invalid_plugin_action_context'' (at @ '': unknown action context '' @ quote c)))"

definition bad_local_id :: "(string \<Rightarrow> string) \<Rightarrow> string \<Rightarrow> string \<Rightarrow> string \<Rightarrow> string \<Rightarrow> manifest_error" where
  "bad_local_id quote code at what i = new_error code (at @ '': '' @ what @ '' id '' @ quote i @
     '' must be 1 to 120 characters of ASCII letters, digits, '' @ [CHR 0x27] @ '':'' @ [CHR 0x27] @ '', '' @
     [CHR 0x27] @ ''_'' @ [CHR 0x27] @ '' or '' @ [CHR 0x27] @ ''-'' @ [CHR 0x27])"

definition quoted_id :: "string \<Rightarrow> string" where
  "quoted_id i = [CHR 0x27] @ i @ [CHR 0x27]"

fun actions_loop :: "(string \<Rightarrow> string) \<Rightarrow> nat \<Rightarrow> string set \<Rightarrow> action list \<Rightarrow> manifest_error option" where
  "actions_loop quote i seen [] = None"
| "actions_loop quote i seen (a # as) =
    (let at = at_index ''actions'' i; id' = trim_space (ac_id a)
     in if \<not> valid_local_id id' then Some (bad_local_id quote ''invalid_plugin_action_id'' at ''action'' (ac_id a))
        else if trim_space (ac_title a) = []
        then Some (new_error ''invalid_plugin_action_title'' (at @ '': action title is required''))
        else also_check (context_loop quote (elems (ac_contexts a)) at)
          (also_check (validate_platforms quote (ac_platforms a) at)
            (also_check (validate_command (ac_command a) at)
              (if id' \<in> seen then Some (new_error ''duplicate_plugin_action_id'' (''duplicate action id '' @ quoted_id id'))
               else actions_loop quote (i + 1) (insert id' seen) as))))"

definition validate_actions :: "(string \<Rightarrow> string) \<Rightarrow> manifest \<Rightarrow> manifest_error option" where
  "validate_actions quote m = actions_loop quote 0 {} (elems (mf_actions m))"

fun events_loop :: "(string \<Rightarrow> string) \<Rightarrow> nat \<Rightarrow> event_hook list \<Rightarrow> manifest_error option" where
  "events_loop quote i [] = None"
| "events_loop quote i (e # es) =
    (let at = at_index ''events'' i
     in if trim_space (eh_on e) = [] then Some (new_error ''invalid_plugin_event'' (at @ '': event name is required''))
        else also_check (validate_platforms quote (eh_platforms e) at)
          (also_check (validate_command (eh_command e) at) (events_loop quote (i + 1) es)))"

definition validate_events :: "(string \<Rightarrow> string) \<Rightarrow> manifest \<Rightarrow> manifest_error option" where
  "validate_events quote m = events_loop quote 0 (elems (mf_events m))"

fun panes_loop :: "(string \<Rightarrow> string) \<Rightarrow> nat \<Rightarrow> string set \<Rightarrow> pane_entry list \<Rightarrow> manifest_error option" where
  "panes_loop quote i seen [] = None"
| "panes_loop quote i seen (p # ps) =
    (let at = at_index ''panes'' i; id' = trim_space (pa_id p)
     in if \<not> valid_local_id id' then Some (bad_local_id quote ''invalid_plugin_pane_id'' at ''pane'' (pa_id p))
        else if trim_space (pa_title p) = []
        then Some (new_error ''invalid_plugin_pane_title'' (at @ '': pane title is required''))
        else if \<not> (pa_placement p = [] \<or> pa_placement p = ''overlay'' \<or> pa_placement p = ''popup'' \<or>
          pa_placement p = ''split'' \<or> pa_placement p = ''tab'' \<or> pa_placement p = ''zoomed'')
        then Some (new_error ''invalid_plugin_pane_placement'' (at @ '': unknown pane placement '' @ quote (pa_placement p)))
        else also_check (validate_platforms quote (pa_platforms p) at)
          (also_check (validate_command (pa_command p) at)
            (if pa_placement p \<noteq> ''popup'' \<and> (pa_width p \<noteq> None \<or> pa_height p \<noteq> None)
             then Some (new_error ''invalid_plugin_pane_size''
               (at @ '': pane width and height are only supported when placement is popup''))
             else if id' \<in> seen then Some (new_error ''duplicate_plugin_pane_id'' (''duplicate pane id '' @ quoted_id id'))
             else panes_loop quote (i + 1) (insert id' seen) ps)))"

definition validate_panes :: "(string \<Rightarrow> string) \<Rightarrow> manifest \<Rightarrow> manifest_error option" where
  "validate_panes quote m = panes_loop quote 0 {} (elems (mf_panes m))"

fun has_action_loop :: "action list \<Rightarrow> string \<Rightarrow> bool" where
  "has_action_loop [] i = False"
| "has_action_loop (a # as) i = (if trim_space (ac_id a) = i then True else has_action_loop as i)"

definition has_action :: "manifest \<Rightarrow> string \<Rightarrow> bool" where
  "has_action m i = has_action_loop (elems (mf_actions m)) i"

fun handlers_loop ::
  "(string \<Rightarrow> string) \<Rightarrow> (string \<Rightarrow> string option) \<Rightarrow> manifest \<Rightarrow> nat \<Rightarrow> string set \<Rightarrow> link_handler list \<Rightarrow>
    manifest_error option" where
  "handlers_loop quote regexp m i seen [] = None"
| "handlers_loop quote regexp m i seen (h # hs) =
    (let at = at_index ''link_handlers'' i; id' = trim_space (lh_id h);
         pattern = trim_space (lh_pattern h); action = trim_space (lh_action h)
     in if \<not> valid_local_id id'
        then Some (bad_local_id quote ''invalid_plugin_link_handler_id'' at ''link handler'' (lh_id h))
        else if trim_space (lh_title h) = []
        then Some (new_error ''invalid_plugin_link_handler_title'' (at @ '': link handler title is required''))
        else if pattern = []
        then Some (new_error ''invalid_plugin_link_handler_pattern'' (at @ '': link handler pattern is required''))
        else case regexp pattern of
          Some e \<Rightarrow> Some (new_error ''invalid_plugin_link_handler_pattern'' (at @ '': '' @ e))
        | None \<Rightarrow>
            if \<not> valid_local_id action
            then Some (new_error ''invalid_plugin_link_handler_action''
              (at @ '': link handler action '' @ quote (lh_action h) @ '' is not a valid action id''))
            else if \<not> has_action m action
            then Some (new_error ''invalid_plugin_link_handler_action''
              (''link handler '' @ quoted_id id' @ '' references unknown action '' @ quoted_id action))
            else also_check (validate_platforms quote (lh_platforms h) at)
              (if id' \<in> seen
               then Some (new_error ''duplicate_plugin_link_handler_id'' (''duplicate link handler id '' @ quoted_id id'))
               else handlers_loop quote regexp m (i + 1) (insert id' seen) hs))"

definition validate_link_handlers ::
  "(string \<Rightarrow> string) \<Rightarrow> (string \<Rightarrow> string option) \<Rightarrow> manifest \<Rightarrow> manifest_error option" where
  "validate_link_handlers quote regexp m = handlers_loop quote regexp m 0 {} (elems (mf_link_handlers m))"

fun warning_loop :: "event_hook list \<Rightarrow> string list" where
  "warning_loop [] = []"
| "warning_loop (e # es) =
    (let name = trim_space (eh_on e)
     in if \<not> is_hook_event_name name then (''unknown event '' @ quoted_id name) # warning_loop es else warning_loop es)"

definition manifest_warnings :: "manifest \<Rightarrow> string list" where
  "manifest_warnings m = warning_loop (elems (mf_events m)) @
    (if mf_platforms m = None then [''manifest does not declare platforms; platform support unknown''] else [])"

definition manifest_validate ::
  "(string \<Rightarrow> string) \<Rightarrow> (string \<Rightarrow> string option) \<Rightarrow> manifest \<Rightarrow> (manifest_error, string list) result" where
  "manifest_validate quote regexp m =
    (if \<not> valid_plugin_id (mf_id m)
     then err (new_error ''invalid_plugin_id'' (''plugin id '' @ quote (mf_id m) @
       '' must be 1 to 120 characters of ASCII letters, digits, '' @ [CHR 0x27] @ '':'' @ [CHR 0x27] @ '', '' @
       [CHR 0x27] @ ''.'' @ [CHR 0x27] @ '', '' @ [CHR 0x27] @ ''_'' @ [CHR 0x27] @ '' or '' @
       [CHR 0x27] @ ''-'' @ [CHR 0x27]))
     else if trim_space (mf_name m) = [] then err (new_error ''invalid_plugin_name'' ''plugin name is required'')
     else if trim_space (mf_version m) = [] then err (new_error ''invalid_plugin_version'' ''plugin version is required'')
     else case
       also_check (validate_min_herdr_version quote (mf_min_herdr_version m))
         (also_check (validate_platforms quote (mf_platforms m) ''manifest'')
           (also_check (build_loop quote 0 (elems (mf_build m)))
             (also_check (startup_loop quote 0 (elems (mf_startup m)))
               (also_check (validate_actions quote m)
                 (also_check (validate_events quote m)
                   (also_check (validate_panes quote m)
                     (validate_link_handlers quote regexp m)))))))
     of Some e \<Rightarrow> err e | None \<Rightarrow> ok (manifest_warnings m))"

subsection \<open>Reading a file\<close>

datatype manifest_failure = ReadFailed string | DecodeFailed string string | Invalid string manifest_error

definition manifest_decode :: "(string, manifest) result \<Rightarrow> (string, manifest) result" where
  "manifest_decode decoded = (case decoded of Inl e \<Rightarrow> err (''decode manifest: '' @ e) | Inr m \<Rightarrow> ok m)"

text \<open>\<open>Parse\<close>, on what the file and the TOML decoder yield.\<close>

definition manifest_parse ::
  "(string \<Rightarrow> string) \<Rightarrow> (string \<Rightarrow> string option) \<Rightarrow> string \<Rightarrow> (string, 'b) result \<Rightarrow> ('b \<Rightarrow> (string, manifest) result) \<Rightarrow>
    (manifest_failure, manifest \<times> string list) result" where
  "manifest_parse quote regexp path file toml = (case file of
     Inl e \<Rightarrow> err (ReadFailed e)
   | Inr data \<Rightarrow>
       (case manifest_decode (toml data) of
          Inl e \<Rightarrow> err (DecodeFailed path e)
        | Inr m \<Rightarrow>
            (case manifest_validate quote regexp m of
               Inl e \<Rightarrow> err (Invalid path e)
             | Inr warnings \<Rightarrow> ok (m, warnings))))"

end
