(* ===== verification/Manifest_Facts.thy ===== *)
theory Manifest_Facts
  imports Manifest
begin

text \<open>
  What validation means: the rules of a manifest, each with the code of its violation, and the proof
  that \<open>Validate\<close> accepts exactly the manifests that keep them all and names a rule that is broken
  otherwise. Further the ids of a plugin, the hook events and the sizes of popups.
\<close>

subsection \<open>White space\<close>

lemma trim_left_any_fixed:
  "trim_left_any ps s = s \<longleftrightarrow> (\<forall>p \<in> set ps. p = [] \<or> \<not> has_prefix s p)"
proof (cases "find (\<lambda>p. p \<noteq> [] \<and> has_prefix s p) ps")
  case None
  then have "trim_left_any ps s = s" by (subst trim_left_any.simps) simp
  with None show ?thesis by (auto simp: find_None_iff)
next
  case (Some p)
  then have p: "p \<in> set ps" "p \<noteq> []" "has_prefix s p" by (auto simp: find_Some_iff)
  have "length (trim_left_any ps t) \<le> length t" for t
  proof (induction ps t rule: trim_left_any.induct)
    case (1 ps t)
    show ?case
    proof (cases "find (\<lambda>p. p \<noteq> [] \<and> has_prefix t p) ps")
      case (Some q)
      with 1 [OF Some] show ?thesis by (subst trim_left_any.simps) simp
    qed (subst trim_left_any.simps, simp)
  qed
  from this [of "drop (length p) s"] have "length (trim_left_any ps s) < length s"
    using p Some by (subst trim_left_any.simps) (cases p; cases s; auto simp: has_prefix_iff)
  with p show ?thesis by fastforce
qed

lemma trim_left_any_twice [simp]: "trim_left_any ps (trim_left_any ps s) = trim_left_any ps s"
proof (induction ps s rule: trim_left_any.induct)
  case (1 ps s)
  show ?case
  proof (cases "find (\<lambda>p. p \<noteq> [] \<and> has_prefix s p) ps")
    case None
    then have "trim_left_any ps s = s" by (subst trim_left_any.simps) simp
    then show ?thesis by simp
  next
    case (Some p)
    then have "trim_left_any ps s = trim_left_any ps (drop (length p) s)" by (subst trim_left_any.simps) simp
    with 1 [OF Some] show ?thesis by simp
  qed
qed

lemma trim_left_any_suffix: "\<exists>p. s = p @ trim_left_any ps s"
proof (induction ps s rule: trim_left_any.induct)
  case (1 ps s)
  show ?case
  proof (cases "find (\<lambda>p. p \<noteq> [] \<and> has_prefix s p) ps")
    case None
    then show ?thesis by (subst trim_left_any.simps) simp
  next
    case (Some p)
    then have p: "has_prefix s p" by (auto simp: find_Some_iff)
    from 1 [OF Some] obtain q where "drop (length p) s = q @ trim_left_any ps (drop (length p) s)" by blast
    moreover have "s = p @ drop (length p) s" using p by (auto simp: has_prefix_iff)
    moreover have "trim_left_any ps s = trim_left_any ps (drop (length p) s)"
      using Some by (subst trim_left_any.simps) simp
    ultimately show ?thesis by (metis append.assoc)
  qed
qed

lemma trim_space_twice [simp]: "trim_space (trim_space s) = trim_space s"
proof -
  let ?l = "trim_left_any space_encodings s" and ?R = "map rev space_encodings"
  obtain q where "rev ?l = q @ trim_left_any ?R (rev ?l)" using trim_left_any_suffix by blast
  then have l: "?l = trim_space s @ rev q" unfolding trim_space_def by (metis rev_append rev_rev_ident)
  have "\<forall>p \<in> set space_encodings. p = [] \<or> \<not> has_prefix ?l p"
    using trim_left_any_twice [of space_encodings s] by (simp only: trim_left_any_fixed)
  then have "\<forall>p \<in> set space_encodings. p = [] \<or> \<not> has_prefix (trim_space s) p"
    unfolding l has_prefix_iff by (metis append.assoc)
  then have "trim_left_any space_encodings (trim_space s) = trim_space s"
    by (simp only: trim_left_any_fixed)
  then show ?thesis by (simp add: trim_space_def [of "trim_space s"]) (simp add: trim_space_def)
qed

subsection \<open>Identifiers\<close>

definition id_char :: "bool \<Rightarrow> char \<Rightarrow> bool" where
  "id_char allow_dot c \<longleftrightarrow> letter_or_digit c \<or> c \<in> {CHR '':'', CHR ''_'', CHR ''-''} \<or> allow_dot \<and> c = CHR ''.''"

definition identifier_ok :: "bool \<Rightarrow> string \<Rightarrow> bool" where
  "identifier_ok allow_dot value \<longleftrightarrow>
    trim_space value \<noteq> [] \<and> length (trim_space value) \<le> 120 \<and> (\<forall>c \<in> set (trim_space value). id_char allow_dot c)"

lemma identifier_loop_iff: "identifier_loop s allow_dot \<longleftrightarrow> (\<forall>c \<in> set s. id_char allow_dot c)"
  by (induction s) (auto simp: id_char_def)

lemma id_char_ascii: "id_char allow_dot c \<Longrightarrow> (of_char c :: nat) < 0x80"
  by (auto simp: id_char_def letter_or_digit_def in_range_def)

lemma valid_identifier_iff: "valid_identifier value allow_dot \<longleftrightarrow> identifier_ok allow_dot value"
  using rune_count_ascii [of "trim_space value"] id_char_ascii [of allow_dot]
  by (auto simp: valid_identifier_def identifier_ok_def Let_def identifier_loop_iff id_max_chars_def)

lemma identifier_ok_trim [simp]: "identifier_ok allow_dot (trim_space value) = identifier_ok allow_dot value"
  by (simp add: identifier_ok_def)

lemmas valid_id_iff = valid_plugin_id_def valid_local_id_def valid_identifier_iff

subsection \<open>The version\<close>

definition version_ok :: "string \<Rightarrow> bool" where
  "version_ok value \<longleftrightarrow> (\<exists>a b c. trim_prefix (trim_space value) ''v'' = a @ ''.'' @ b @ ''.'' @ c \<and>
    (\<forall>part \<in> {a, b, c}. parse_uint 32 part \<noteq> None))"

lemma parse_uint_no_dot: "parse_uint bits s \<noteq> None \<Longrightarrow> CHR ''.'' \<notin> set s"
  by (auto simp: parse_uint_def is_digit_def list_all_iff split: if_splits)

lemma version_loop_None: "version_loop quote value parts = None \<longleftrightarrow> (\<forall>part \<in> set parts. parse_uint 32 part \<noteq> None)"
  by (induction parts) (auto split: option.split)

lemma version_loop_Some: "version_loop quote value parts = Some e \<Longrightarrow> e = version_error quote value"
  by (induction parts) (auto split: option.splits)

lemma three_parts:
  "(length (split_on (CHR ''.'') s) = 3 \<and> (\<forall>part \<in> set (split_on (CHR ''.'') s). P part)) \<longleftrightarrow>
    (\<exists>a b c. s = a @ ''.'' @ b @ ''.'' @ c \<and> CHR ''.'' \<notin> set a \<union> set b \<union> set c \<and> (\<forall>part \<in> {a, b, c}. P part))"
    (is "?l \<longleftrightarrow> ?r")
proof
  assume l: ?l
  then obtain a b c where abc: "split_on (CHR ''.'') s = [a, b, c]"
    by (auto simp: length_Suc_conv numeral_3_eq_3)
  have "s = a @ ''.'' @ b @ ''.'' @ c"
    using join_split [of "CHR ''.''" s] by (simp add: abc)
  moreover have "\<forall>part \<in> {a, b, c}. CHR ''.'' \<notin> set part"
    using split_on_no_sep [of _ "CHR ''.''" s] by (auto simp: abc)
  ultimately show ?r using l abc by auto
next
  assume ?r
  then show ?l by (auto simp: split_on_append split_on_alone)
qed

lemma new_error_code [simp]: "me_code (new_error code message) = code"
  by (simp add: new_error_def)

lemma version_error_code [simp]: "me_code (version_error quote value) = ''invalid_plugin_min_herdr_version''"
  by (simp add: version_error_def)

lemma validate_version_iff: "validate_min_herdr_version quote value = None \<longleftrightarrow> version_ok value"
proof (cases "trim_space value = []")
  case True
  then show ?thesis by (simp add: validate_min_herdr_version_def version_ok_def trim_prefix_def)
next
  case False
  then have "validate_min_herdr_version quote value = None \<longleftrightarrow>
      (length (split_on (CHR ''.'') (trim_prefix (trim_space value) ''v'')) = 3 \<and>
       (\<forall>part \<in> set (split_on (CHR ''.'') (trim_prefix (trim_space value) ''v'')). parse_uint 32 part \<noteq> None))"
    by (simp add: validate_min_herdr_version_def Let_def version_loop_None)
  also have "\<dots> \<longleftrightarrow> version_ok value"
  proof -
    have "(CHR ''.'' \<notin> set a \<union> set b \<union> set c \<and> (\<forall>part \<in> {a, b, c}. parse_uint 32 part \<noteq> None)) =
        (\<forall>part \<in> {a, b, c}. parse_uint 32 part \<noteq> None)" for a b c
      using parse_uint_no_dot [of 32 a] parse_uint_no_dot [of 32 b] parse_uint_no_dot [of 32 c] by blast
    then show ?thesis unfolding three_parts version_ok_def by simp
  qed
  finally show ?thesis .
qed

lemma validate_version_code:
  "validate_min_herdr_version quote value = Some e \<Longrightarrow> me_code e = ''invalid_plugin_min_herdr_version''"
  by (auto simp: validate_min_herdr_version_def Let_def version_loop_Some [THEN arg_cong [of _ _ me_code]]
      split: if_split_asm)

subsection \<open>Platforms and commands\<close>

definition platforms_ok :: "string slice \<Rightarrow> bool" where
  "platforms_ok platforms \<longleftrightarrow> (case platforms of None \<Rightarrow> True | Some ps \<Rightarrow> ps \<noteq> [] \<and> set ps \<subseteq> set platform_values)"

definition command_ok :: "string slice \<Rightarrow> bool" where
  "command_ok command \<longleftrightarrow> elems command \<noteq> [] \<and> [] \<notin> set (elems command)"

named_theorems check_simps \<open>a check of the manifest against its rule\<close>

lemma also_check_None [check_simps]: "also_check a b = None \<longleftrightarrow> a = None \<and> b = None"
  by (simp add: also_check_def split: option.split)

lemma also_check_Some [check_simps]: "also_check a b = Some e \<longleftrightarrow> a = Some e \<or> a = None \<and> b = Some e"
  by (auto simp: also_check_def split: option.split)

lemma platform_loop_None: "platform_loop quote ps at = None \<longleftrightarrow> set ps \<subseteq> set platform_values"
  by (induction ps) (auto simp: platform_values_def)

lemma validate_platforms_None [check_simps]: "validate_platforms quote ps at = None \<longleftrightarrow> platforms_ok ps"
  by (simp add: validate_platforms_def platforms_ok_def platform_loop_None split: option.split)

lemma platform_loop_code: "platform_loop quote ps at = Some e \<Longrightarrow> me_code e = ''invalid_plugin_platform''"
  by (induction ps) (auto split: if_splits)

lemma validate_platforms_Some:
  "validate_platforms quote ps at = Some e \<Longrightarrow> me_code e = ''invalid_plugin_platform'' \<and> \<not> platforms_ok ps"
  using validate_platforms_None [of quote ps at]
  by (auto simp: validate_platforms_def dest: platform_loop_code split: option.splits if_splits)

lemma command_loop_None: "command_loop args at = None \<longleftrightarrow> [] \<notin> set args"
  by (induction args) auto

lemma validate_command_None [check_simps]: "validate_command c at = None \<longleftrightarrow> command_ok c"
  by (simp add: validate_command_def command_ok_def command_loop_None)

lemma command_loop_code: "command_loop args at = Some e \<Longrightarrow> me_code e = ''invalid_plugin_command''"
  by (induction args) (auto split: if_splits)

lemma validate_command_Some:
  "validate_command c at = Some e \<Longrightarrow> me_code e = ''invalid_plugin_command'' \<and> \<not> command_ok c"
  using validate_command_None [of c at]
  by (auto simp: validate_command_def dest: command_loop_code split: if_splits)

lemma context_loop_None [check_simps]: "context_loop quote cs at = None \<longleftrightarrow> set cs \<subseteq> set action_contexts"
  by (induction cs) (auto simp: action_contexts_def)

lemma context_loop_Some:
  "context_loop quote cs at = Some e \<Longrightarrow> me_code e = ''invalid_plugin_action_context'' \<and> \<not> set cs \<subseteq> set action_contexts"
  by (induction cs) (auto simp: action_contexts_def split: if_splits)

subsection \<open>The rules\<close>

text \<open>An id after trimming, which is how it is compared.\<close>

abbreviation trimmed :: "('a \<Rightarrow> string) \<Rightarrow> 'a list \<Rightarrow> string list" where
  "trimmed key xs \<equiv> map (\<lambda>x. trim_space (key x)) xs"

definition pane_placement_ok :: "pane_entry \<Rightarrow> bool" where
  "pane_placement_ok p \<longleftrightarrow> pa_placement p \<in> insert [] (set placements)"

definition pane_size_ok :: "pane_entry \<Rightarrow> bool" where
  "pane_size_ok p \<longleftrightarrow> (pa_placement p = ''popup'' \<or> pa_width p = None \<and> pa_height p = None)"

definition all_platforms :: "manifest \<Rightarrow> string slice set" where
  "all_platforms m = insert (mf_platforms m) (bu_platforms ` set (elems (mf_build m)) \<union>
     su_platforms ` set (elems (mf_startup m)) \<union> ac_platforms ` set (elems (mf_actions m)) \<union>
     eh_platforms ` set (elems (mf_events m)) \<union> pa_platforms ` set (elems (mf_panes m)) \<union>
     lh_platforms ` set (elems (mf_link_handlers m)))"

definition all_commands :: "manifest \<Rightarrow> string slice set" where
  "all_commands m = bu_command ` set (elems (mf_build m)) \<union> su_command ` set (elems (mf_startup m)) \<union>
     ac_command ` set (elems (mf_actions m)) \<union> eh_command ` set (elems (mf_events m)) \<union>
     pa_command ` set (elems (mf_panes m))"

text \<open>Each rule of a manifest under the code of its violation.\<close>

definition manifest_rules :: "(string \<Rightarrow> string option) \<Rightarrow> manifest \<Rightarrow> (string \<times> bool) list" where
  "manifest_rules regexp m =
    (let actions = elems (mf_actions m); events = elems (mf_events m); panes = elems (mf_panes m);
         handlers = elems (mf_link_handlers m)
     in [(''invalid_plugin_id'', identifier_ok True (mf_id m)),
         (''invalid_plugin_name'', trim_space (mf_name m) \<noteq> []),
         (''invalid_plugin_version'', trim_space (mf_version m) \<noteq> []),
         (''invalid_plugin_min_herdr_version'', version_ok (mf_min_herdr_version m)),
         (''invalid_plugin_platform'', \<forall>ps \<in> all_platforms m. platforms_ok ps),
         (''invalid_plugin_command'', \<forall>c \<in> all_commands m. command_ok c),
         (''invalid_plugin_action_id'', \<forall>a \<in> set actions. identifier_ok False (ac_id a)),
         (''invalid_plugin_action_title'', [] \<notin> set (trimmed ac_title actions)),
         (''invalid_plugin_action_context'', \<forall>a \<in> set actions. set (elems (ac_contexts a)) \<subseteq> set action_contexts),
         (''duplicate_plugin_action_id'', distinct (trimmed ac_id actions)),
         (''invalid_plugin_event'', [] \<notin> set (trimmed eh_on events)),
         (''invalid_plugin_pane_id'', \<forall>p \<in> set panes. identifier_ok False (pa_id p)),
         (''invalid_plugin_pane_title'', [] \<notin> set (trimmed pa_title panes)),
         (''invalid_plugin_pane_placement'', \<forall>p \<in> set panes. pane_placement_ok p),
         (''invalid_plugin_pane_size'', \<forall>p \<in> set panes. pane_size_ok p),
         (''duplicate_plugin_pane_id'', distinct (trimmed pa_id panes)),
         (''invalid_plugin_link_handler_id'', \<forall>h \<in> set handlers. identifier_ok False (lh_id h)),
         (''invalid_plugin_link_handler_title'', [] \<notin> set (trimmed lh_title handlers)),
         (''invalid_plugin_link_handler_pattern'',
            \<forall>h \<in> set handlers. trim_space (lh_pattern h) \<noteq> [] \<and> regexp (trim_space (lh_pattern h)) = None),
         (''invalid_plugin_link_handler_action'', \<forall>h \<in> set handlers. identifier_ok False (lh_action h) \<and>
            trim_space (lh_action h) \<in> set (trimmed ac_id actions)),
         (''duplicate_plugin_link_handler_id'', distinct (trimmed lh_id handlers))])"

lemma build_loop_None [check_simps]:
  "build_loop quote i bs = None \<longleftrightarrow> (\<forall>b \<in> set bs. platforms_ok (bu_platforms b) \<and> command_ok (bu_command b))"
  by (induction bs arbitrary: i) (auto simp: check_simps Let_def)

lemma startup_loop_None [check_simps]:
  "startup_loop quote i bs = None \<longleftrightarrow> (\<forall>b \<in> set bs. platforms_ok (su_platforms b) \<and> command_ok (su_command b))"
  by (induction bs arbitrary: i) (auto simp: check_simps Let_def)

lemma events_loop_None [check_simps]:
  "events_loop quote i es = None \<longleftrightarrow> [] \<notin> set (trimmed eh_on es) \<and>
    (\<forall>e \<in> set es. platforms_ok (eh_platforms e) \<and> command_ok (eh_command e))"
  by (induction es arbitrary: i) (auto simp: check_simps Let_def)

lemma actions_loop_None [check_simps]:
  "actions_loop quote i seen as = None \<longleftrightarrow>
    (\<forall>a \<in> set as. identifier_ok False (ac_id a) \<and> trim_space (ac_title a) \<noteq> [] \<and>
      set (elems (ac_contexts a)) \<subseteq> set action_contexts \<and> platforms_ok (ac_platforms a) \<and> command_ok (ac_command a)) \<and>
    distinct (trimmed ac_id as) \<and> seen \<inter> set (trimmed ac_id as) = {}"
  by (induction as arbitrary: i seen) (auto simp: check_simps Let_def valid_id_iff)

lemma panes_loop_None [check_simps]:
  "panes_loop quote i seen ps = None \<longleftrightarrow>
    (\<forall>p \<in> set ps. identifier_ok False (pa_id p) \<and> trim_space (pa_title p) \<noteq> [] \<and> pane_placement_ok p \<and>
      platforms_ok (pa_platforms p) \<and> command_ok (pa_command p) \<and> pane_size_ok p) \<and>
    distinct (trimmed pa_id ps) \<and> seen \<inter> set (trimmed pa_id ps) = {}"
proof (induction ps arbitrary: i seen)
  case (Cons p ps)
  have "pane_placement_ok p \<longleftrightarrow> pa_placement p = [] \<or> pa_placement p = ''overlay'' \<or> pa_placement p = ''popup'' \<or>
      pa_placement p = ''split'' \<or> pa_placement p = ''tab'' \<or> pa_placement p = ''zoomed''"
    by (auto simp: pane_placement_ok_def placements_def)
  with Cons show ?case
    by (auto simp: check_simps Let_def valid_id_iff pane_size_ok_def)
qed simp

lemma has_action_iff [check_simps]: "has_action m i \<longleftrightarrow> i \<in> set (trimmed ac_id (elems (mf_actions m)))"
proof -
  have "has_action_loop as i \<longleftrightarrow> i \<in> set (trimmed ac_id as)" for as
    by (induction as) auto
  then show ?thesis by (simp add: has_action_def)
qed

lemma handlers_loop_None [check_simps]:
  "handlers_loop quote regexp m i seen hs = None \<longleftrightarrow>
    (\<forall>h \<in> set hs. identifier_ok False (lh_id h) \<and> trim_space (lh_title h) \<noteq> [] \<and>
      trim_space (lh_pattern h) \<noteq> [] \<and> regexp (trim_space (lh_pattern h)) = None \<and>
      identifier_ok False (lh_action h) \<and> trim_space (lh_action h) \<in> set (trimmed ac_id (elems (mf_actions m))) \<and>
      platforms_ok (lh_platforms h)) \<and>
    distinct (trimmed lh_id hs) \<and> seen \<inter> set (trimmed lh_id hs) = {}"
proof (induction hs arbitrary: i seen)
  case (Cons h hs)
  show ?case
    by (cases "regexp (trim_space (lh_pattern h))") (auto simp: Let_def valid_id_iff check_simps Cons)
qed simp

lemma bad_local_id_code [simp]: "me_code (bad_local_id quote code at what i) = code"
  by (simp add: bad_local_id_def)

lemmas check_errors = validate_platforms_Some validate_command_Some context_loop_Some

lemma build_loop_Some: "build_loop quote i bs = Some e \<Longrightarrow>
    me_code e = ''invalid_plugin_platform'' \<and> (\<exists>b \<in> set bs. \<not> platforms_ok (bu_platforms b)) \<or>
    me_code e = ''invalid_plugin_command'' \<and> (\<exists>b \<in> set bs. \<not> command_ok (bu_command b))"
proof (induction bs arbitrary: i)
  case (Cons b bs)
  from Cons.prems consider (p) at where "validate_platforms quote (bu_platforms b) at = Some e"
    | (c) at where "validate_command (bu_command b) at = Some e" | (r) "build_loop quote (i + 1) bs = Some e"
    unfolding build_loop.simps Let_def check_simps by blast
  then show ?case
  proof cases
    case p
    from validate_platforms_Some [OF p] show ?thesis unfolding list.set by blast
  next
    case c
    from validate_command_Some [OF c] show ?thesis unfolding list.set by blast
  next
    case r
    from Cons.IH [OF r] show ?thesis unfolding list.set by blast
  qed
qed simp

lemma startup_loop_Some: "startup_loop quote i bs = Some e \<Longrightarrow>
    me_code e = ''invalid_plugin_platform'' \<and> (\<exists>b \<in> set bs. \<not> platforms_ok (su_platforms b)) \<or>
    me_code e = ''invalid_plugin_command'' \<and> (\<exists>b \<in> set bs. \<not> command_ok (su_command b))"
proof (induction bs arbitrary: i)
  case (Cons b bs)
  from Cons.prems consider (p) at where "validate_platforms quote (su_platforms b) at = Some e"
    | (c) at where "validate_command (su_command b) at = Some e" | (r) "startup_loop quote (i + 1) bs = Some e"
    unfolding startup_loop.simps Let_def check_simps by blast
  then show ?case
  proof cases
    case p
    from validate_platforms_Some [OF p] show ?thesis unfolding list.set by blast
  next
    case c
    from validate_command_Some [OF c] show ?thesis unfolding list.set by blast
  next
    case r
    from Cons.IH [OF r] show ?thesis unfolding list.set by blast
  qed
qed simp

lemma events_loop_Some: "events_loop quote i es = Some e \<Longrightarrow>
    me_code e = ''invalid_plugin_event'' \<and> [] \<in> set (trimmed eh_on es) \<or>
    me_code e = ''invalid_plugin_platform'' \<and> (\<exists>x \<in> set es. \<not> platforms_ok (eh_platforms x)) \<or>
    me_code e = ''invalid_plugin_command'' \<and> (\<exists>x \<in> set es. \<not> command_ok (eh_command x))"
proof (induction es arbitrary: i)
  case (Cons x es)
  show ?case
  proof (cases "trim_space (eh_on x) = []")
    case True
    then have "me_code e = ''invalid_plugin_event''" using Cons.prems by (auto simp: Let_def)
    with True show ?thesis by simp
  next
    case False
    with Cons.prems consider (p) at where "validate_platforms quote (eh_platforms x) at = Some e"
      | (c) at where "validate_command (eh_command x) at = Some e" | (r) "events_loop quote (i + 1) es = Some e"
      unfolding events_loop.simps Let_def if_not_P [OF False] check_simps by blast
    then show ?thesis
    proof cases
      case p
      from validate_platforms_Some [OF p] show ?thesis unfolding list.set by blast
    next
      case c
      from validate_command_Some [OF c] show ?thesis unfolding list.set by blast
    next
      case r
      from Cons.IH [OF r] show ?thesis unfolding list.set list.map by blast
    qed
  qed
qed simp

lemma actions_loop_Some: "actions_loop quote i seen as = Some e \<Longrightarrow>
    me_code e = ''invalid_plugin_action_id'' \<and> (\<exists>a \<in> set as. \<not> identifier_ok False (ac_id a)) \<or>
    me_code e = ''invalid_plugin_action_title'' \<and> [] \<in> set (trimmed ac_title as) \<or>
    me_code e = ''invalid_plugin_action_context'' \<and> (\<exists>a \<in> set as. \<not> set (elems (ac_contexts a)) \<subseteq> set action_contexts) \<or>
    me_code e = ''invalid_plugin_platform'' \<and> (\<exists>a \<in> set as. \<not> platforms_ok (ac_platforms a)) \<or>
    me_code e = ''invalid_plugin_command'' \<and> (\<exists>a \<in> set as. \<not> command_ok (ac_command a)) \<or>
    me_code e = ''duplicate_plugin_action_id'' \<and> \<not> (distinct (trimmed ac_id as) \<and> seen \<inter> set (trimmed ac_id as) = {})"
proof (induction as arbitrary: i seen)
  case (Cons a as)
  let ?id = "trim_space (ac_id a)" and ?at = "at_index ''actions'' i"
  consider (id) "\<not> identifier_ok False (ac_id a)"
    | (title) "identifier_ok False (ac_id a)" "trim_space (ac_title a) = []"
    | (checks) "identifier_ok False (ac_id a)" "trim_space (ac_title a) \<noteq> []" by blast
  then show ?case
  proof cases
    case id
    then have "me_code e = ''invalid_plugin_action_id''" using Cons.prems by (auto simp: Let_def valid_id_iff)
    with id show ?thesis unfolding list.set by blast
  next
    case title
    then have "me_code e = ''invalid_plugin_action_title''" using Cons.prems by (auto simp: Let_def valid_id_iff)
    with title show ?thesis by simp
  next
    case checks
    then have "\<not> \<not> valid_local_id ?id" by (simp add: valid_id_iff)
    with Cons.prems checks(2) have "also_check (context_loop quote (elems (ac_contexts a)) ?at)
        (also_check (validate_platforms quote (ac_platforms a) ?at)
          (also_check (validate_command (ac_command a) ?at)
            (if ?id \<in> seen then Some (new_error ''duplicate_plugin_action_id'' (''duplicate action id '' @ quoted_id ?id))
             else actions_loop quote (i + 1) (insert ?id seen) as))) = Some e"
      by (simp only: actions_loop.simps Let_def if_False)
    then consider (x) "context_loop quote (elems (ac_contexts a)) ?at = Some e"
      | (p) "validate_platforms quote (ac_platforms a) ?at = Some e" | (c) "validate_command (ac_command a) ?at = Some e"
      | (duplicate) "?id \<in> seen" "Some (new_error ''duplicate_plugin_action_id'' (''duplicate action id '' @ quoted_id ?id)) = Some e"
      | (rest) "actions_loop quote (i + 1) (insert ?id seen) as = Some e"
      unfolding also_check_Some by (auto split: if_split_asm)
    then show ?thesis
    proof cases
      case x
      from context_loop_Some [OF x] show ?thesis unfolding list.set by blast
    next
      case p
      from validate_platforms_Some [OF p] show ?thesis unfolding list.set by blast
    next
      case c
      from validate_command_Some [OF c] show ?thesis unfolding list.set by blast
    next
      case duplicate
      then have "me_code e = ''duplicate_plugin_action_id''" by auto
      with duplicate(1) show ?thesis by simp
    next
      case rest
      from Cons.IH [OF rest] show ?thesis unfolding list.set list.map distinct.simps by blast
    qed
  qed
qed simp

lemma panes_loop_Some: "panes_loop quote i seen ps = Some e \<Longrightarrow>
    me_code e = ''invalid_plugin_pane_id'' \<and> (\<exists>p \<in> set ps. \<not> identifier_ok False (pa_id p)) \<or>
    me_code e = ''invalid_plugin_pane_title'' \<and> [] \<in> set (trimmed pa_title ps) \<or>
    me_code e = ''invalid_plugin_pane_placement'' \<and> (\<exists>p \<in> set ps. \<not> pane_placement_ok p) \<or>
    me_code e = ''invalid_plugin_platform'' \<and> (\<exists>p \<in> set ps. \<not> platforms_ok (pa_platforms p)) \<or>
    me_code e = ''invalid_plugin_command'' \<and> (\<exists>p \<in> set ps. \<not> command_ok (pa_command p)) \<or>
    me_code e = ''invalid_plugin_pane_size'' \<and> (\<exists>p \<in> set ps. \<not> pane_size_ok p) \<or>
    me_code e = ''duplicate_plugin_pane_id'' \<and> \<not> (distinct (trimmed pa_id ps) \<and> seen \<inter> set (trimmed pa_id ps) = {})"
proof (induction ps arbitrary: i seen)
  case (Cons p ps)
  let ?id = "trim_space (pa_id p)" and ?at = "at_index ''panes'' i"
  have placement: "pane_placement_ok p \<longleftrightarrow> pa_placement p = [] \<or> pa_placement p = ''overlay'' \<or> pa_placement p = ''popup'' \<or>
      pa_placement p = ''split'' \<or> pa_placement p = ''tab'' \<or> pa_placement p = ''zoomed''"
    by (auto simp: pane_placement_ok_def placements_def)
  have size: "pane_size_ok p \<longleftrightarrow> \<not> (pa_placement p \<noteq> ''popup'' \<and> (pa_width p \<noteq> None \<or> pa_height p \<noteq> None))"
    by (simp add: pane_size_ok_def)
  have step: "panes_loop quote i seen (p # ps) =
      (if \<not> valid_local_id ?id then Some (bad_local_id quote ''invalid_plugin_pane_id'' ?at ''pane'' (pa_id p))
       else if trim_space (pa_title p) = [] then Some (new_error ''invalid_plugin_pane_title'' (?at @ '': pane title is required''))
       else if \<not> pane_placement_ok p
       then Some (new_error ''invalid_plugin_pane_placement'' (?at @ '': unknown pane placement '' @ quote (pa_placement p)))
       else also_check (validate_platforms quote (pa_platforms p) ?at)
        (also_check (validate_command (pa_command p) ?at)
          (if \<not> pane_size_ok p then Some (new_error ''invalid_plugin_pane_size''
               (?at @ '': pane width and height are only supported when placement is popup''))
           else if ?id \<in> seen then Some (new_error ''duplicate_plugin_pane_id'' (''duplicate pane id '' @ quoted_id ?id))
           else panes_loop quote (i + 1) (insert ?id seen) ps)))"
    unfolding panes_loop.simps Let_def placement [symmetric] size not_not ..
  consider (id) "\<not> identifier_ok False (pa_id p)"
    | (title) "identifier_ok False (pa_id p)" "trim_space (pa_title p) = []"
    | (placement) "identifier_ok False (pa_id p)" "trim_space (pa_title p) \<noteq> []" "\<not> pane_placement_ok p"
    | (checks) "identifier_ok False (pa_id p)" "trim_space (pa_title p) \<noteq> []" "pane_placement_ok p" by blast
  then show ?case
  proof cases
    case id
    then have "me_code e = ''invalid_plugin_pane_id''" using Cons.prems unfolding step by (auto simp: valid_id_iff)
    with id show ?thesis unfolding list.set by blast
  next
    case title
    then have "me_code e = ''invalid_plugin_pane_title''" using Cons.prems unfolding step by (auto simp: valid_id_iff)
    with title show ?thesis by simp
  next
    case placement
    then have "me_code e = ''invalid_plugin_pane_placement''" using Cons.prems unfolding step by (auto simp: valid_id_iff)
    with placement show ?thesis unfolding list.set by blast
  next
    case checks
    then have "\<not> \<not> valid_local_id ?id" and "\<not> \<not> pane_placement_ok p" by (simp_all add: valid_id_iff)
    with Cons.prems checks(2) have "also_check (validate_platforms quote (pa_platforms p) ?at)
        (also_check (validate_command (pa_command p) ?at)
          (if \<not> pane_size_ok p then Some (new_error ''invalid_plugin_pane_size''
               (?at @ '': pane width and height are only supported when placement is popup''))
           else if ?id \<in> seen then Some (new_error ''duplicate_plugin_pane_id'' (''duplicate pane id '' @ quoted_id ?id))
           else panes_loop quote (i + 1) (insert ?id seen) ps)) = Some e"
      by (simp only: step if_False)
    then consider (p) "validate_platforms quote (pa_platforms p) ?at = Some e"
      | (c) "validate_command (pa_command p) ?at = Some e"
      | (size) "\<not> pane_size_ok p" "Some (new_error ''invalid_plugin_pane_size''
               (?at @ '': pane width and height are only supported when placement is popup'')) = Some e"
      | (duplicate) "?id \<in> seen" "Some (new_error ''duplicate_plugin_pane_id'' (''duplicate pane id '' @ quoted_id ?id)) = Some e"
      | (rest) "panes_loop quote (i + 1) (insert ?id seen) ps = Some e"
      unfolding also_check_Some by (auto split: if_split_asm)
    then show ?thesis
    proof cases
      case p
      from validate_platforms_Some [OF p] show ?thesis unfolding list.set by blast
    next
      case c
      from validate_command_Some [OF c] show ?thesis unfolding list.set by blast
    next
      case size
      then have "me_code e = ''invalid_plugin_pane_size''" by auto
      with size(1) show ?thesis unfolding list.set by blast
    next
      case duplicate
      then have "me_code e = ''duplicate_plugin_pane_id''" by auto
      with duplicate(1) show ?thesis by simp
    next
      case rest
      from Cons.IH [OF rest] show ?thesis unfolding list.set list.map distinct.simps by blast
    qed
  qed
qed simp

lemma handlers_loop_Some: "handlers_loop quote regexp m i seen hs = Some e \<Longrightarrow>
    me_code e = ''invalid_plugin_link_handler_id'' \<and> (\<exists>h \<in> set hs. \<not> identifier_ok False (lh_id h)) \<or>
    me_code e = ''invalid_plugin_link_handler_title'' \<and> [] \<in> set (trimmed lh_title hs) \<or>
    me_code e = ''invalid_plugin_link_handler_pattern'' \<and>
      (\<exists>h \<in> set hs. \<not> (trim_space (lh_pattern h) \<noteq> [] \<and> regexp (trim_space (lh_pattern h)) = None)) \<or>
    me_code e = ''invalid_plugin_link_handler_action'' \<and>
      (\<exists>h \<in> set hs. \<not> (identifier_ok False (lh_action h) \<and>
        trim_space (lh_action h) \<in> set (trimmed ac_id (elems (mf_actions m))))) \<or>
    me_code e = ''invalid_plugin_platform'' \<and> (\<exists>h \<in> set hs. \<not> platforms_ok (lh_platforms h)) \<or>
    me_code e = ''duplicate_plugin_link_handler_id'' \<and> \<not> (distinct (trimmed lh_id hs) \<and> seen \<inter> set (trimmed lh_id hs) = {})"
proof (induction hs arbitrary: i seen)
  case (Cons h hs)
  let ?id = "trim_space (lh_id h)" and ?pattern = "trim_space (lh_pattern h)" and ?action = "trim_space (lh_action h)"
    and ?at = "at_index ''link_handlers'' i"
  consider (id) "\<not> identifier_ok False (lh_id h)" | (title) "identifier_ok False (lh_id h)" "trim_space (lh_title h) = []"
    | (pattern) "identifier_ok False (lh_id h)" "trim_space (lh_title h) \<noteq> []" "?pattern = [] \<or> regexp ?pattern \<noteq> None"
    | (action) "identifier_ok False (lh_id h)" "trim_space (lh_title h) \<noteq> []" "?pattern \<noteq> []" "regexp ?pattern = None"
        "\<not> (identifier_ok False (lh_action h) \<and> has_action m ?action)"
    | (checks) "identifier_ok False (lh_id h)" "trim_space (lh_title h) \<noteq> []" "?pattern \<noteq> []" "regexp ?pattern = None"
        "identifier_ok False (lh_action h)" "has_action m ?action"
    by blast
  then show ?case
  proof cases
    case id
    then have "me_code e = ''invalid_plugin_link_handler_id''" using Cons.prems by (auto simp: Let_def valid_id_iff)
    with id show ?thesis unfolding list.set by blast
  next
    case title
    then have "me_code e = ''invalid_plugin_link_handler_title''" using Cons.prems by (auto simp: Let_def valid_id_iff)
    with title show ?thesis by simp
  next
    case pattern
    then have "me_code e = ''invalid_plugin_link_handler_pattern''"
      using Cons.prems
      by (cases "?pattern = []"; cases "regexp ?pattern")
        (simp_all add: Let_def valid_id_iff, (metis new_error_code)+)
    moreover have "\<exists>h \<in> set (h # hs). \<not> (trim_space (lh_pattern h) \<noteq> [] \<and> regexp (trim_space (lh_pattern h)) = None)"
      using pattern(3) by auto
    ultimately show ?thesis by blast
  next
    case action
    with Cons.prems have "me_code e = ''invalid_plugin_link_handler_action''"
      by (cases "identifier_ok False (lh_action h)"; cases "has_action m ?action")
        (simp_all add: Let_def valid_id_iff, (metis new_error_code)+)
    moreover have "\<exists>h \<in> set (h # hs). \<not> (identifier_ok False (lh_action h) \<and>
        trim_space (lh_action h) \<in> set (trimmed ac_id (elems (mf_actions m))))"
      using action(5) by (auto simp: has_action_iff)
    ultimately show ?thesis by blast
  next
    case checks
    then have "\<not> \<not> valid_local_id ?id" "\<not> \<not> valid_local_id ?action" "\<not> \<not> has_action m ?action"
      by (simp_all add: valid_id_iff)
    with Cons.prems checks(2-4) have "also_check (validate_platforms quote (lh_platforms h) ?at)
        (if ?id \<in> seen
         then Some (new_error ''duplicate_plugin_link_handler_id'' (''duplicate link handler id '' @ quoted_id ?id))
         else handlers_loop quote regexp m (i + 1) (insert ?id seen) hs) = Some e"
      by (simp only: handlers_loop.simps Let_def if_False option.case)
    then consider (p) "validate_platforms quote (lh_platforms h) ?at = Some e"
      | (duplicate) "?id \<in> seen"
          "Some (new_error ''duplicate_plugin_link_handler_id'' (''duplicate link handler id '' @ quoted_id ?id)) = Some e"
      | (rest) "handlers_loop quote regexp m (i + 1) (insert ?id seen) hs = Some e"
      unfolding also_check_Some by (auto split: if_split_asm)
    then show ?thesis
    proof cases
      case p
      from validate_platforms_Some [OF p] show ?thesis unfolding list.set by blast
    next
      case duplicate
      then have "me_code e = ''duplicate_plugin_link_handler_id''" by auto
      with duplicate(1) show ?thesis by simp
    next
      case rest
      from Cons.IH [OF rest] show ?thesis unfolding list.set list.map distinct.simps by blast
    qed
  qed
qed simp

text \<open>The checks after the first three, as \<open>Validate\<close> chains them.\<close>

definition later_checks :: "(string \<Rightarrow> string) \<Rightarrow> (string \<Rightarrow> string option) \<Rightarrow> manifest \<Rightarrow> manifest_error option" where
  "later_checks quote regexp m =
    also_check (validate_min_herdr_version quote (mf_min_herdr_version m))
      (also_check (validate_platforms quote (mf_platforms m) ''manifest'')
        (also_check (build_loop quote 0 (elems (mf_build m)))
          (also_check (startup_loop quote 0 (elems (mf_startup m)))
            (also_check (validate_actions quote m)
              (also_check (validate_events quote m)
                (also_check (validate_panes quote m)
                  (validate_link_handlers quote regexp m)))))))"

lemma later_checks_None:
  assumes "later_checks quote regexp m = None" and "identifier_ok True (mf_id m)"
    and "trim_space (mf_name m) \<noteq> []" and "trim_space (mf_version m) \<noteq> []"
  shows "list_all snd (manifest_rules regexp m)"
proof -
  note checks = assms(1) [unfolded later_checks_def check_simps validate_version_iff validate_actions_def
      validate_events_def validate_panes_def validate_link_handlers_def]
  have "\<forall>ps \<in> all_platforms m. platforms_ok ps" and "\<forall>c \<in> all_commands m. command_ok c"
    using checks by (auto simp: all_platforms_def all_commands_def)
  with checks assms(2-4) show ?thesis
    unfolding manifest_rules_def Let_def list.pred_inject snd_conv by (simp, auto)
qed

lemma broken_rule:
  assumes "(c, b) \<in> set (manifest_rules regexp m)" and "\<not> b"
  shows "(c, False) \<in> set (manifest_rules regexp m)"
  using assms by simp

lemma rule_in:
  "(''invalid_plugin_id'', identifier_ok True (mf_id m)) \<in> set (manifest_rules regexp m)"
  "(''invalid_plugin_name'', trim_space (mf_name m) \<noteq> []) \<in> set (manifest_rules regexp m)"
  "(''invalid_plugin_version'', trim_space (mf_version m) \<noteq> []) \<in> set (manifest_rules regexp m)"
  "(''invalid_plugin_min_herdr_version'', version_ok (mf_min_herdr_version m)) \<in> set (manifest_rules regexp m)"
  "(''invalid_plugin_platform'', \<forall>ps \<in> all_platforms m. platforms_ok ps) \<in> set (manifest_rules regexp m)"
  "(''invalid_plugin_command'', \<forall>c \<in> all_commands m. command_ok c) \<in> set (manifest_rules regexp m)"
  "(''invalid_plugin_action_id'', \<forall>a \<in> set (elems (mf_actions m)). identifier_ok False (ac_id a)) \<in> set (manifest_rules regexp m)"
  "(''invalid_plugin_action_title'', [] \<notin> set (trimmed ac_title (elems (mf_actions m)))) \<in> set (manifest_rules regexp m)"
  "(''invalid_plugin_action_context'', \<forall>a \<in> set (elems (mf_actions m)). set (elems (ac_contexts a)) \<subseteq> set action_contexts) \<in> set (manifest_rules regexp m)"
  "(''duplicate_plugin_action_id'', distinct (trimmed ac_id (elems (mf_actions m)))) \<in> set (manifest_rules regexp m)"
  "(''invalid_plugin_event'', [] \<notin> set (trimmed eh_on (elems (mf_events m)))) \<in> set (manifest_rules regexp m)"
  "(''invalid_plugin_pane_id'', \<forall>p \<in> set (elems (mf_panes m)). identifier_ok False (pa_id p)) \<in> set (manifest_rules regexp m)"
  "(''invalid_plugin_pane_title'', [] \<notin> set (trimmed pa_title (elems (mf_panes m)))) \<in> set (manifest_rules regexp m)"
  "(''invalid_plugin_pane_placement'', \<forall>p \<in> set (elems (mf_panes m)). pane_placement_ok p) \<in> set (manifest_rules regexp m)"
  "(''invalid_plugin_pane_size'', \<forall>p \<in> set (elems (mf_panes m)). pane_size_ok p) \<in> set (manifest_rules regexp m)"
  "(''duplicate_plugin_pane_id'', distinct (trimmed pa_id (elems (mf_panes m)))) \<in> set (manifest_rules regexp m)"
  "(''invalid_plugin_link_handler_id'', \<forall>h \<in> set (elems (mf_link_handlers m)). identifier_ok False (lh_id h)) \<in> set (manifest_rules regexp m)"
  "(''invalid_plugin_link_handler_title'', [] \<notin> set (trimmed lh_title (elems (mf_link_handlers m)))) \<in> set (manifest_rules regexp m)"
  "(''invalid_plugin_link_handler_pattern'',
            \<forall>h \<in> set (elems (mf_link_handlers m)). trim_space (lh_pattern h) \<noteq> [] \<and> regexp (trim_space (lh_pattern h)) = None) \<in> set (manifest_rules regexp m)"
  "(''invalid_plugin_link_handler_action'', \<forall>h \<in> set (elems (mf_link_handlers m)). identifier_ok False (lh_action h) \<and>
            trim_space (lh_action h) \<in> set (trimmed ac_id (elems (mf_actions m)))) \<in> set (manifest_rules regexp m)"
  "(''duplicate_plugin_link_handler_id'', distinct (trimmed lh_id (elems (mf_link_handlers m)))) \<in> set (manifest_rules regexp m)"
  unfolding manifest_rules_def Let_def list.set by (simp_all only: insert_iff simp_thms)

lemma platform_rule: "ps \<in> all_platforms m \<Longrightarrow> \<not> platforms_ok ps \<Longrightarrow>
    (''invalid_plugin_platform'', False) \<in> set (manifest_rules regexp m)"
  by (rule broken_rule [OF rule_in(5)]) blast

lemma command_rule: "c \<in> all_commands m \<Longrightarrow> \<not> command_ok c \<Longrightarrow>
    (''invalid_plugin_command'', False) \<in> set (manifest_rules regexp m)"
  by (rule broken_rule [OF rule_in(6)]) blast

lemma sources_of_lists:
  "b \<in> set (elems (mf_build m)) \<Longrightarrow> bu_platforms b \<in> all_platforms m \<and> bu_command b \<in> all_commands m"
  "u \<in> set (elems (mf_startup m)) \<Longrightarrow> su_platforms u \<in> all_platforms m \<and> su_command u \<in> all_commands m"
  "a \<in> set (elems (mf_actions m)) \<Longrightarrow> ac_platforms a \<in> all_platforms m \<and> ac_command a \<in> all_commands m"
  "e \<in> set (elems (mf_events m)) \<Longrightarrow> eh_platforms e \<in> all_platforms m \<and> eh_command e \<in> all_commands m"
  "p \<in> set (elems (mf_panes m)) \<Longrightarrow> pa_platforms p \<in> all_platforms m \<and> pa_command p \<in> all_commands m"
  "h \<in> set (elems (mf_link_handlers m)) \<Longrightarrow> lh_platforms h \<in> all_platforms m"
  by (simp_all add: all_platforms_def all_commands_def)

text \<open>An error of a list of entries names a rule that is broken.\<close>

lemma build_broken:
  "build_loop quote i (elems (mf_build m)) = Some e \<Longrightarrow> (me_code e, False) \<in> set (manifest_rules regexp m)"
  by (drule build_loop_Some) (metis platform_rule command_rule sources_of_lists(1))

lemma startup_broken:
  "startup_loop quote i (elems (mf_startup m)) = Some e \<Longrightarrow> (me_code e, False) \<in> set (manifest_rules regexp m)"
  by (drule startup_loop_Some) (metis platform_rule command_rule sources_of_lists(2))

lemma actions_broken:
  "validate_actions quote m = Some e \<Longrightarrow> (me_code e, False) \<in> set (manifest_rules regexp m)"
  unfolding validate_actions_def
  using broken_rule [OF rule_in(7), of m regexp] broken_rule [OF rule_in(8), of m regexp]
    broken_rule [OF rule_in(9), of m regexp] broken_rule [OF rule_in(10), of m regexp]
  by (elim actions_loop_Some [elim_format] disjE conjE bexE)
    (metis platform_rule command_rule sources_of_lists(3) Int_empty_left)+

lemma events_broken:
  "validate_events quote m = Some e \<Longrightarrow> (me_code e, False) \<in> set (manifest_rules regexp m)"
  unfolding validate_events_def
  using broken_rule [OF rule_in(11), of m regexp]
  by (elim events_loop_Some [elim_format] disjE conjE bexE)
    (metis platform_rule command_rule sources_of_lists(4))+

lemma panes_broken:
  "validate_panes quote m = Some e \<Longrightarrow> (me_code e, False) \<in> set (manifest_rules regexp m)"
  unfolding validate_panes_def
  using broken_rule [OF rule_in(12), of m regexp] broken_rule [OF rule_in(13), of m regexp]
    broken_rule [OF rule_in(14), of m regexp] broken_rule [OF rule_in(15), of m regexp]
    broken_rule [OF rule_in(16), of m regexp]
  by (elim panes_loop_Some [elim_format] disjE conjE bexE)
    (metis platform_rule command_rule sources_of_lists(5) Int_empty_left)+

lemma handlers_broken:
  "validate_link_handlers quote regexp m = Some e \<Longrightarrow> (me_code e, False) \<in> set (manifest_rules regexp m)"
  unfolding validate_link_handlers_def
  using broken_rule [OF rule_in(17), of m regexp] broken_rule [OF rule_in(18), of m regexp]
    broken_rule [OF rule_in(19), of m regexp] broken_rule [OF rule_in(20), of m regexp]
    broken_rule [OF rule_in(21), of m regexp]
  by (elim handlers_loop_Some [elim_format] disjE conjE bexE)
    (metis platform_rule sources_of_lists(6) Int_empty_left)+

text \<open>
  C26. \<open>Validate\<close> decides the rules of a manifest: it accepts exactly the manifests that keep all of
  them, with the warnings they deserve, and the code of an error belongs to a rule that is broken.
\<close>

theorem validate_decides_rules:
  "case manifest_validate quote regexp m of
     Inl e \<Rightarrow> (me_code e, False) \<in> set (manifest_rules regexp m)
   | Inr w \<Rightarrow> list_all snd (manifest_rules regexp m) \<and> w = manifest_warnings m"
proof -
  consider (id) "\<not> identifier_ok True (mf_id m)" | (name) "identifier_ok True (mf_id m)" "trim_space (mf_name m) = []"
    | (version) "identifier_ok True (mf_id m)" "trim_space (mf_name m) \<noteq> []" "trim_space (mf_version m) = []"
    | (later) "identifier_ok True (mf_id m)" "trim_space (mf_name m) \<noteq> []" "trim_space (mf_version m) \<noteq> []"
    by blast
  then show ?thesis
  proof cases
    case id
    have "(''invalid_plugin_id'', False) \<in> set (manifest_rules regexp m)"
      by (rule broken_rule [OF rule_in(1) id])
    with id show ?thesis by (simp add: manifest_validate_def valid_id_iff)
  next
    case name
    have "(''invalid_plugin_name'', False) \<in> set (manifest_rules regexp m)"
      by (rule broken_rule [OF rule_in(2)]) (simp add: name)
    with name show ?thesis by (simp add: manifest_validate_def valid_id_iff)
  next
    case version
    have "(''invalid_plugin_version'', False) \<in> set (manifest_rules regexp m)"
      by (rule broken_rule [OF rule_in(3)]) (simp add: version)
    with version show ?thesis by (simp add: manifest_validate_def valid_id_iff)
  next
    case later
    then have v: "manifest_validate quote regexp m =
        (case later_checks quote regexp m of Some e \<Rightarrow> err e | None \<Rightarrow> ok (manifest_warnings m))"
      by (simp add: manifest_validate_def valid_id_iff later_checks_def)
    show ?thesis
    proof (cases "later_checks quote regexp m")
      case None
      with v later_checks_None [OF None later] show ?thesis by simp
    next
      case (Some e)
      then consider "validate_min_herdr_version quote (mf_min_herdr_version m) = Some e"
        | "validate_platforms quote (mf_platforms m) ''manifest'' = Some e"
        | "build_loop quote 0 (elems (mf_build m)) = Some e" | "startup_loop quote 0 (elems (mf_startup m)) = Some e"
        | "validate_actions quote m = Some e" | "validate_events quote m = Some e" | "validate_panes quote m = Some e"
        | "validate_link_handlers quote regexp m = Some e"
        unfolding later_checks_def also_check_Some by blast
      then have "(me_code e, False) \<in> set (manifest_rules regexp m)"
      proof cases
        case 1
        then have "\<not> version_ok (mf_min_herdr_version m)" by (metis validate_version_iff option.distinct(1))
        from broken_rule [OF rule_in(4) this] validate_version_code [OF 1] show ?thesis by simp
      next
        case 2
        from validate_platforms_Some [OF 2] platform_rule [of "mf_platforms m" m regexp]
        show ?thesis by (simp add: all_platforms_def)
      qed (rule build_broken startup_broken actions_broken events_broken panes_broken handlers_broken, assumption)+
      with v Some show ?thesis by simp
    qed
  qed
qed

subsection \<open>The ids of a plugin\<close>

text \<open>
  C27. The name herdr gives an action or a pane, the plugin's id and the local id joined by a dot,
  determines both, since a local id holds no dot.
\<close>

theorem qualified_ids_unambiguous:
  assumes "valid_plugin_id p" and "valid_local_id i" and "valid_plugin_id q" and "valid_local_id j"
    and "trim_space p @ ''.'' @ trim_space i = trim_space q @ ''.'' @ trim_space j"
  shows "trim_space p = trim_space q \<and> trim_space i = trim_space j"
proof -
  have no_dot: "CHR ''.'' \<notin> set (trim_space i)" "CHR ''.'' \<notin> set (trim_space j)"
    using assms(2,4) by (auto simp: valid_id_iff identifier_ok_def id_char_def letter_or_digit_def in_range_def)
  have "takeWhile (\<lambda>c. c \<noteq> CHR ''.'') (rev (trim_space p @ ''.'' @ trim_space i)) = rev (trim_space i)"
    using no_dot(1) by (simp add: takeWhile_append takeWhile_eq_all_conv [THEN iffD2])
  moreover have "takeWhile (\<lambda>c. c \<noteq> CHR ''.'') (rev (trim_space q @ ''.'' @ trim_space j)) = rev (trim_space j)"
    using no_dot(2) by (simp add: takeWhile_append takeWhile_eq_all_conv [THEN iffD2])
  ultimately have "trim_space i = trim_space j" using assms(5) by (metis rev_rev_ident)
  with assms(5) show ?thesis by simp
qed

theorem qualified_ids_unambiguous_witness:
  "valid_plugin_id ''acme.board'' \<and> valid_local_id ''open'' \<and> trim_space ''acme.board'' = ''acme.board'' \<and>
    trim_space ''open'' = ''open''"
proof -
  have "valid_plugin_id ''acme.board''" and "valid_local_id ''open''" by code_simp+
  from qualified_ids_unambiguous [OF this this refl] have "trim_space ''acme.board'' = trim_space ''acme.board''" by simp
  moreover have "trim_space ''acme.board'' = ''acme.board''" and "trim_space ''open'' = ''open''" by code_simp+
  ultimately show ?thesis using \<open>valid_plugin_id ''acme.board''\<close> \<open>valid_local_id ''open''\<close> by simp
qed

subsection \<open>Hook events\<close>

lemma hook_name_loop_iff: "hook_name_loop kinds name \<longleftrightarrow> name \<in> set (map kind_dot_name kinds)"
  by (induction kinds) auto

text \<open>
  The kinds the manifest package lists are the tags of the events the client decodes; the hook
  kinds are those but four, in the same order; and a name that passes as a hook event is the name of an
  event of the protocol.
\<close>

lemma hook_events_are_events:
  "(\<forall>t. t \<in> set schema_event_kinds \<longleftrightarrow> (\<exists>e. event_tag e = Some t)) \<and>
    hook_event_kinds = filter (\<lambda>k. k \<notin> {''workspace_metadata_updated'', ''pane_updated'', ''pane_output_changed'',
      ''layout_updated''}) schema_event_kinds \<and>
    (\<forall>name. is_hook_event_name name \<longleftrightarrow> name \<in> set hook_event_names) \<and>
    distinct hook_event_names \<and>
    (\<forall>name. is_hook_event_name name \<longrightarrow> (\<exists>e. event_name e = name))"
proof (intro conjI allI impI)
  have tags: "\<exists>e. event_tag e = Some t" if "t \<in> set schema_event_kinds" for t
    using that unfolding schema_event_kinds_def list.set
    by (elim insertE emptyE; hypsubst; metis event_tag.simps)
  fix t
  show "t \<in> set schema_event_kinds \<longleftrightarrow> (\<exists>e. event_tag e = Some t)"
  proof
    assume "\<exists>e. event_tag e = Some t"
    then obtain e where "event_tag e = Some t" by blast
    then show "t \<in> set schema_event_kinds"
      by (cases e) (auto simp: schema_event_kinds_def)
  qed (rule tags)
  show "hook_event_kinds = filter (\<lambda>k. k \<notin> {''workspace_metadata_updated'', ''pane_updated'', ''pane_output_changed'',
      ''layout_updated''}) schema_event_kinds"
    by (simp add: hook_event_kinds_def schema_event_kinds_def)
  show names: "is_hook_event_name name \<longleftrightarrow> name \<in> set hook_event_names" for name
    by (simp add: is_hook_event_name_def hook_name_loop_iff hook_event_names_def)
  show "distinct hook_event_names" by (simp add: hook_event_names_def hook_event_kinds_def kind_dot_name_def)
  fix name
  assume "is_hook_event_name name"
  then obtain k where k: "k \<in> set hook_event_kinds" "name = kind_dot_name k"
    by (auto simp: names hook_event_names_def)
  then have "k \<in> set schema_event_kinds"
    by (auto simp: hook_event_kinds_def schema_event_kinds_def)
  with tags obtain e where "event_tag e = Some k" by blast
  with k show "\<exists>e. event_name e = name"
    by (metis event_name_tag kind_dot_name_def dot_name_def)
qed

lemma hook_events_are_events_witness:
  "(\<exists>e. event_name e = ''pane.created'') \<and> is_hook_event_name ''pane.created''"
proof -
  have "is_hook_event_name ''pane.created''" by code_simp
  with hook_events_are_events show ?thesis by blast
qed

subsection \<open>Popup sizes\<close>

text \<open>What a size stands for: a cell count, or a percentage from 1 to 100.\<close>

definition popup_size_ok :: "popup_size \<Rightarrow> bool" where
  "popup_size_ok s \<longleftrightarrow> ps_percent s = 0 \<or> ps_cells s = 0 \<and> unat (ps_percent s) \<le> 100"

text \<open>The TOML value of a size: an integer for cells, its text for a percentage.\<close>

definition popup_toml :: "popup_size \<Rightarrow> toml_value" where
  "popup_toml s = (if popup_is_percent s then TomlString (popup_string s) else TomlInt (ucast (ps_cells s)))"

lemma cut_suffix_percent: "cut_suffix (s @ ''%'') ''%'' = Some s"
  by (simp add: cut_suffix_Some)

lemma cut_suffix_digits: "list_all is_digit s \<Longrightarrow> cut_suffix s ''%'' = None"
  by (auto simp: cut_suffix_None is_digit_def)

text \<open>
  Every size that is decoded is a cell count within 16 bits or a percentage from 1 to 100, each such
  size decodes back from its TOML form, and the text of a cell count is no percentage.
\<close>

lemma popup_size_roundtrip:
  "(case popup_unmarshal quote v of Inl e \<Rightarrow> True | Inr s \<Rightarrow> popup_size_ok s) \<and>
    (popup_size_ok s \<longrightarrow> popup_unmarshal quote (popup_toml s) = Inr s) \<and>
    (isl (popup_unmarshal quote (TomlString (popup_string s))) \<longleftrightarrow> \<not> (1 \<le> ps_percent s \<and> ps_percent s \<le> 100))"
proof (intro conjI impI)
  show "case popup_unmarshal quote v of Inl e \<Rightarrow> True | Inr s \<Rightarrow> popup_size_ok s"
  proof (cases v)
    case (TomlString x)
    have "unat (of_nat n :: 8 word) = n" if "n \<le> 100" for n
      using that by (simp add: unat_of_nat take_bit_nat_eq_self)
    then show ?thesis
      by (auto simp: TomlString popup_unmarshal_def popup_size_ok_def split: option.split)
  qed (simp_all add: popup_unmarshal_def popup_size_ok_def)
next
  have small: "sint (ucast c :: 64 word) = uint c" for c :: "16 word"
  proof -
    have "uint c < 2 ^ 16" using uint_lt2p [of c] by simp
    then have "take_bit 63 (uint c) = uint c" by (simp add: take_bit_int_eq_self)
    then show ?thesis by (simp add: sint_uint uint_up_ucast is_up signed_take_bit_eq_if_positive bit_uint_iff)
  qed
  assume ok: "popup_size_ok s"
  show "popup_unmarshal quote (popup_toml s) = Inr s"
  proof (cases "popup_is_percent s")
    case True
    then have "ps_cells s = 0" "unat (ps_percent s) \<le> 100" "0 < unat (ps_percent s)"
      using ok by (simp_all add: popup_size_ok_def popup_is_percent_def unat_gt_0)
    then show ?thesis
      using True by (simp add: popup_toml_def popup_string_def popup_unmarshal_def cut_suffix_percent parse_format_uint)
  next
    case False
    have "uint (ps_cells s) \<le> 65535" using uint_lt2p [of "ps_cells s"] by simp
    moreover have "ucast (ucast (ps_cells s) :: 64 word) = ps_cells s" by (rule bit_word_eqI) (simp add: bit_simps)
    ultimately show ?thesis
      using False by (simp add: popup_toml_def popup_unmarshal_def small max_uint16_def popup_is_percent_def)
  qed
next
  show "isl (popup_unmarshal quote (TomlString (popup_string s))) \<longleftrightarrow> \<not> (1 \<le> ps_percent s \<and> ps_percent s \<le> 100)"
  proof (cases "popup_is_percent s")
    case True
    have "unat (ps_percent s) < 2 ^ 8" using unsigned_less [of "ps_percent s"] by simp
    with True show ?thesis
      by (simp add: popup_string_def popup_unmarshal_def cut_suffix_percent parse_format_uint word_le_nat_alt
          popup_is_percent_def unat_gt_0 Suc_le_eq)
  next
    case False
    then show ?thesis
      using format_uint_digits [of "unat (ps_cells s)"]
      by (simp add: popup_string_def popup_unmarshal_def cut_suffix_digits popup_is_percent_def)
  qed
qed

lemma popup_size_roundtrip_witness:
  "popup_unmarshal (\<lambda>s. s) (popup_toml \<lparr>ps_cells = 0, ps_percent = 80\<rparr>) = Inr \<lparr>ps_cells = 0, ps_percent = 80\<rparr>"
  using popup_size_roundtrip [of "\<lambda>s. s" "TomlInt 0" "\<lparr>ps_cells = 0, ps_percent = 80\<rparr>"]
  by (simp add: popup_size_ok_def)

end
