(* ===== verification/Plugin.thy ===== *)
theory Plugin
  imports Event_Codec Go_Strings
begin

text \<open>
  A plugin process: the environment herdr gives it (\<open>plugin/plugin.go\<close>), the handlers it serves its
  entrypoints with (\<open>plugin/run.go\<close>) and the registry of handlers (\<open>plugin/registry.go\<close>).

  A handler is a state transformer on a world \<open>'w\<close> of any type, which is all a plugin may do, with the
  error it returns. A Go closure over the environment is the handler applied to it. \<open>lookup\<close> is
  \<open>os.LookupEnv\<close>. A Go map of handlers is an association list without repeated keys. A registration that
  panics yields the text of the panic.
\<close>

subsection \<open>The environment (\<open>plugin.go\<close>)\<close>

datatype entry_kind = KindUnknown | KindStartup | KindAction | KindEvent | KindPane

fun kind_name :: "entry_kind \<Rightarrow> string" where
  "kind_name KindUnknown = ''unknown''"
| "kind_name KindStartup = ''startup''"
| "kind_name KindAction = ''action''"
| "kind_name KindEvent = ''event''"
| "kind_name KindPane = ''pane''"

text \<open>
  The errors. \<open>Prefixed\<close> is \<open>fmt.Errorf("...: %w", err)\<close>, \<open>Client\<close> an error of the package \<open>herdr\<close> and
  \<open>Failed\<close> what a handler makes up.
\<close>

datatype plugin_error =
    ErrNotPluginProcess
  | ErrMissingPluginID
  | ErrNoContext
  | ErrNoEventEnvelope
  | ErrNoHandler entry_kind
  | ErrNoRegistration entry_kind string
  | ErrUnknownKind entry_kind
  | ErrNoData string
  | ErrPayload string string
  | ErrClient go_error
  | Failed string
  | Prefixed string plugin_error

record plugin_env =
  pe_plugin_id :: string
  pe_plugin_root :: string
  pe_config_dir :: string
  pe_state_dir :: string
  pe_socket_path :: string
  pe_bin_path :: string
  pe_workspace_id :: string
  pe_tab_id :: string
  pe_pane_id :: string
  pe_action_id :: string
  pe_entrypoint_id :: string
  pe_event :: string
  pe_context_json :: string
  pe_event_json :: string
  pe_clicked_url :: string
  pe_link_handler_id :: string

type_synonym env_lookup = "string \<Rightarrow> string option"

definition get_var :: "env_lookup \<Rightarrow> string \<Rightarrow> string" where
  "get_var lookup key = (case lookup key of None \<Rightarrow> [] | Some v \<Rightarrow> v)"

definition load_from :: "env_lookup \<Rightarrow> (plugin_error, plugin_env) result" where
  "load_from lookup =
    (let get = get_var lookup
     in if get ''HERDR_ENV'' \<noteq> ''1'' then err ErrNotPluginProcess
        else
          (let plugin_id = get ''HERDR_PLUGIN_ID''
           in if plugin_id = [] then err ErrMissingPluginID
              else ok \<lparr>pe_plugin_id = plugin_id,
                pe_plugin_root = get ''HERDR_PLUGIN_ROOT'',
                pe_config_dir = get ''HERDR_PLUGIN_CONFIG_DIR'',
                pe_state_dir = get ''HERDR_PLUGIN_STATE_DIR'',
                pe_socket_path = get ''HERDR_SOCKET_PATH'',
                pe_bin_path = get ''HERDR_BIN_PATH'',
                pe_workspace_id = get ''HERDR_WORKSPACE_ID'',
                pe_tab_id = get ''HERDR_TAB_ID'',
                pe_pane_id = get ''HERDR_PANE_ID'',
                pe_action_id = get ''HERDR_PLUGIN_ACTION_ID'',
                pe_entrypoint_id = get ''HERDR_PLUGIN_ENTRYPOINT_ID'',
                pe_event = get ''HERDR_PLUGIN_EVENT'',
                pe_context_json = get ''HERDR_PLUGIN_CONTEXT_JSON'',
                pe_event_json = get ''HERDR_PLUGIN_EVENT_JSON'',
                pe_clicked_url = get ''HERDR_PLUGIN_CLICKED_URL'',
                pe_link_handler_id = get ''HERDR_PLUGIN_LINK_HANDLER_ID''\<rparr>))"

definition env_kind :: "plugin_env \<Rightarrow> entry_kind" where
  "env_kind e =
    (if pe_event e = ''startup'' then KindStartup
     else if pe_action_id e \<noteq> [] then KindAction
     else if CHR ''.'' \<in> set (pe_event e) then KindEvent
     else if pe_entrypoint_id e \<noteq> [] then KindPane
     else KindUnknown)"

definition env_event_envelope ::
  "(string \<Rightarrow> float64 option) \<Rightarrow> (float64 \<Rightarrow> string) \<Rightarrow> plugin_env \<Rightarrow> (plugin_error, event_envelope) result" where
  "env_event_envelope pf ff e =
    (if pe_event_json e = [] then err ErrNoEventEnvelope
     else case parse_json (pe_event_json e) of
       None \<Rightarrow> err (Prefixed ''plugin: decode HERDR_PLUGIN_EVENT_JSON'' (ErrClient JsonError))
     | Some j \<Rightarrow>
         (case unmarshal_envelope pf ff j \<lparr>ee_event = [], ee_data = None\<rparr> of
            (envelope, Some x) \<Rightarrow> err (Prefixed ''plugin: decode HERDR_PLUGIN_EVENT_JSON'' (ErrClient x))
          | (envelope, None) \<Rightarrow> ok envelope))"

subsection \<open>Running a handler (\<open>run.go\<close>)\<close>

type_synonym 'w handler = "'w \<Rightarrow> plugin_error option \<times> 'w"
type_synonym 'w binder_fun = "plugin_env \<Rightarrow> entry_kind \<Rightarrow> (plugin_error, 'w handler) result"

definition exit_ok :: nat where
  "exit_ok = 0"

definition exit_handler_error :: nat where
  "exit_handler_error = 1"

definition exit_runtime_error :: nat where
  "exit_runtime_error = 2"

text \<open>The exit code, the errors written to stderr and the world after.\<close>

definition plugin_run :: "'w binder_fun \<Rightarrow> env_lookup \<Rightarrow> 'w \<Rightarrow> nat \<times> plugin_error list \<times> 'w" where
  "plugin_run bind lookup w = (case load_from lookup of
     Inl e \<Rightarrow> (exit_runtime_error, [e], w)
   | Inr env \<Rightarrow>
       (let kind = env_kind env
        in case bind env kind of
             Inl e \<Rightarrow> (exit_runtime_error, [e], w)
           | Inr handler \<Rightarrow>
               (case handler w of
                  (Some e, w') \<Rightarrow> (exit_handler_error,
                    [Prefixed (pe_plugin_id env @ '': '' @ kind_name kind) e], w')
                | (None, w') \<Rightarrow> (exit_ok, [], w'))))"

record 'w handlers =
  ha_startup :: "(plugin_env \<Rightarrow> 'w handler) option"
  ha_action :: "(plugin_env \<Rightarrow> string \<Rightarrow> 'w handler) option"
  ha_event :: "(plugin_env \<Rightarrow> event_envelope \<Rightarrow> 'w handler) option"
  ha_pane :: "(plugin_env \<Rightarrow> string \<Rightarrow> 'w handler) option"

text \<open>\<open>eventEnvelope\<close> names the event in the error.\<close>

definition hook_envelope ::
  "(string \<Rightarrow> float64 option) \<Rightarrow> (float64 \<Rightarrow> string) \<Rightarrow> plugin_env \<Rightarrow> (plugin_error, event_envelope) result" where
  "hook_envelope pf ff e = (case env_event_envelope pf ff e of
     Inl x \<Rightarrow> err (Prefixed (''event hook '' @ pe_event e) x) | Inr envelope \<Rightarrow> ok envelope)"

definition handlers_bind ::
  "(string \<Rightarrow> float64 option) \<Rightarrow> (float64 \<Rightarrow> string) \<Rightarrow> 'w handlers \<Rightarrow> 'w binder_fun" where
  "handlers_bind pf ff h env kind = (case kind of
     KindStartup \<Rightarrow> (case ha_startup h of None \<Rightarrow> err (ErrNoHandler kind) | Some f \<Rightarrow> ok (f env))
   | KindAction \<Rightarrow> (case ha_action h of None \<Rightarrow> err (ErrNoHandler kind) | Some f \<Rightarrow> ok (f env (pe_action_id env)))
   | KindEvent \<Rightarrow>
       (case ha_event h of
          None \<Rightarrow> err (ErrNoHandler kind)
        | Some f \<Rightarrow> (case hook_envelope pf ff env of Inl e \<Rightarrow> err e | Inr envelope \<Rightarrow> ok (f env envelope)))
   | KindPane \<Rightarrow> (case ha_pane h of None \<Rightarrow> err (ErrNoHandler kind) | Some f \<Rightarrow> ok (f env (pe_entrypoint_id env)))
   | KindUnknown \<Rightarrow> err (ErrUnknownKind kind))"

subsection \<open>The registry (\<open>registry.go\<close>)\<close>

text \<open>\<open>eventBinder\<close>: binds the decoded payload, or refuses one of another type.\<close>

type_synonym 'w event_binder = "plugin_env \<Rightarrow> event \<Rightarrow> (plugin_error, 'w handler) result"

record 'w plugin =
  pl_startup :: "(plugin_env \<Rightarrow> 'w handler) option"
  pl_actions :: "(string \<times> (plugin_env \<Rightarrow> 'w handler)) list"
  pl_panes :: "(string \<times> (plugin_env \<Rightarrow> 'w handler)) list"
  pl_events :: "(string \<times> 'w event_binder) list"

definition new_plugin :: "'w plugin" where
  "new_plugin = \<lparr>pl_startup = None, pl_actions = [], pl_panes = [], pl_events = []\<rparr>"

definition require_handler :: "bool \<Rightarrow> string \<Rightarrow> string option" where
  "require_handler is_nil what = (if is_nil then Some (''plugin: nil handler for '' @ what) else None)"

definition register_startup :: "(plugin_env \<Rightarrow> 'w handler) option \<Rightarrow> 'w plugin \<Rightarrow> (string, 'w plugin) result" where
  "register_startup h p = (case require_handler (h = None) ''startup hook'' of
     Some panic \<Rightarrow> err panic
   | None \<Rightarrow>
       if pl_startup p \<noteq> None then err ''plugin: startup hook is already registered''
       else ok (p\<lparr>pl_startup := h\<rparr>))"

definition register_id ::
  "(string \<Rightarrow> string) \<Rightarrow> (string \<times> 'h) list \<Rightarrow> string \<Rightarrow> string \<Rightarrow> 'h option \<Rightarrow> (string, (string \<times> 'h) list) result" where
  "register_id quote handlers what i h = (case require_handler (h = None) (what @ '' '' @ i) of
     Some panic \<Rightarrow> err panic
   | None \<Rightarrow>
       if i = [] then err (''plugin: '' @ what @ '' id is empty'')
       else if map_of handlers i \<noteq> None then err (''plugin: '' @ what @ '' '' @ quote i @ '' is already registered'')
       else ok ((i, the h) # handlers))"

definition register_action ::
  "(string \<Rightarrow> string) \<Rightarrow> string \<Rightarrow> (plugin_env \<Rightarrow> 'w handler) option \<Rightarrow> 'w plugin \<Rightarrow> (string, 'w plugin) result" where
  "register_action quote i h p = (case register_id quote (pl_actions p) ''action'' i h of
     Inl panic \<Rightarrow> err panic | Inr hs \<Rightarrow> ok (p\<lparr>pl_actions := hs\<rparr>))"

definition register_pane ::
  "(string \<Rightarrow> string) \<Rightarrow> string \<Rightarrow> (plugin_env \<Rightarrow> 'w handler) option \<Rightarrow> 'w plugin \<Rightarrow> (string, 'w plugin) result" where
  "register_pane quote i h p = (case register_id quote (pl_panes p) ''pane'' i h of
     Inl panic \<Rightarrow> err panic | Inr hs \<Rightarrow> ok (p\<lparr>pl_panes := hs\<rparr>))"

text \<open>
  \<open>OnEvent\<close>, its type parameter given by the \<open>EventName\<close> of the type. A decoded payload is a pointer to
  the type exactly when it has that name, since no two event types share one.
\<close>

definition on_event ::
  "string \<Rightarrow> (plugin_env \<Rightarrow> event \<Rightarrow> 'w handler) option \<Rightarrow> 'w plugin \<Rightarrow> (string, 'w plugin) result" where
  "on_event name h p = (case require_handler (h = None) ''event hook'' of
     Some panic \<Rightarrow> err panic
   | None \<Rightarrow>
       if map_of (pl_events p) name \<noteq> None then err (''plugin: event '' @ name @ '' is already registered'')
       else ok (p\<lparr>pl_events := (name, \<lambda>env payload.
         if event_name payload \<noteq> name then err (ErrPayload name (event_name payload)) else ok (the h env payload))
         # pl_events p\<rparr>))"

record registered_ids =
  ri_startup :: bool
  ri_actions :: "string list"
  ri_panes :: "string list"
  ri_events :: "string list"

definition plugin_registered :: "'w plugin \<Rightarrow> registered_ids" where
  "plugin_registered p = \<lparr>ri_startup = (pl_startup p \<noteq> None), ri_actions = sort (map fst (pl_actions p)),
     ri_panes = sort (map fst (pl_panes p)), ri_events = sort (map fst (pl_events p))\<rparr>"

definition bind_by_id ::
  "(string \<times> (plugin_env \<Rightarrow> 'w handler)) list \<Rightarrow> plugin_env \<Rightarrow> entry_kind \<Rightarrow> string \<Rightarrow> (plugin_error, 'w handler) result" where
  "bind_by_id handlers env kind i = (case map_of handlers i of
     None \<Rightarrow> err (ErrNoRegistration kind i) | Some h \<Rightarrow> ok (h env))"

definition plugin_bind ::
  "(string \<Rightarrow> float64 option) \<Rightarrow> (float64 \<Rightarrow> string) \<Rightarrow> 'w plugin \<Rightarrow> 'w binder_fun" where
  "plugin_bind pf ff p env kind = (case kind of
     KindStartup \<Rightarrow> (case pl_startup p of None \<Rightarrow> err (ErrNoHandler kind) | Some h \<Rightarrow> ok (h env))
   | KindAction \<Rightarrow> bind_by_id (pl_actions p) env kind (pe_action_id env)
   | KindPane \<Rightarrow> bind_by_id (pl_panes p) env kind (pe_entrypoint_id env)
   | KindEvent \<Rightarrow>
       (case map_of (pl_events p) (pe_event env) of
          None \<Rightarrow> err (ErrNoRegistration kind (pe_event env))
        | Some bind_event \<Rightarrow>
            (case hook_envelope pf ff env of
               Inl e \<Rightarrow> err e
             | Inr envelope \<Rightarrow>
                 (case ee_data envelope of
                    None \<Rightarrow> err (ErrNoData (pe_event env))
                  | Some payload \<Rightarrow> bind_event env payload)))
   | KindUnknown \<Rightarrow> err (ErrUnknownKind kind))"

definition plugin_dispatch ::
  "(string \<Rightarrow> float64 option) \<Rightarrow> (float64 \<Rightarrow> string) \<Rightarrow> 'w plugin \<Rightarrow> plugin_env \<Rightarrow> 'w handler" where
  "plugin_dispatch pf ff p env w = (case plugin_bind pf ff p env (env_kind env) of
     Inl e \<Rightarrow> (Some e, w) | Inr handler \<Rightarrow> handler w)"

subsection \<open>What a program registers\<close>

text \<open>
  The calls a program makes on its registry before it runs it. \<open>RegEvent\<close> carries the \<open>EventName\<close> of
  the type parameter. The first panic ends the program.
\<close>

datatype 'w registration =
    RegStartup "(plugin_env \<Rightarrow> 'w handler) option"
  | RegAction string "(plugin_env \<Rightarrow> 'w handler) option"
  | RegPane string "(plugin_env \<Rightarrow> 'w handler) option"
  | RegEvent string "(plugin_env \<Rightarrow> event \<Rightarrow> 'w handler) option"

fun register ::
  "(string \<Rightarrow> string) \<Rightarrow> 'w registration \<Rightarrow> 'w plugin \<Rightarrow> (string, 'w plugin) result" where
  "register quote (RegStartup h) p = register_startup h p"
| "register quote (RegAction i h) p = register_action quote i h p"
| "register quote (RegPane i h) p = register_pane quote i h p"
| "register quote (RegEvent n h) p = on_event n h p"

fun register_all ::
  "(string \<Rightarrow> string) \<Rightarrow> 'w registration list \<Rightarrow> 'w plugin \<Rightarrow> (string, 'w plugin) result" where
  "register_all quote [] p = ok p"
| "register_all quote (r # rs) p = bind_res (register quote r p) (register_all quote rs)"

end
