(* ===== verification/Plugin_Facts.thy ===== *)
theory Plugin_Facts
  imports Plugin
begin

text \<open>
  What \<open>run\<close> promises of every binder, as a locale that both binders of the package interpret; what a
  sequence of registrations builds and when it panics; and which handler a process runs, end to end from
  the environment herdr sets to the arguments the handler is called with.
\<close>

subsection \<open>The contract of a binder\<close>

text \<open>
  \<open>run\<close> needs that an environment of unknown kind is refused and that a refusal is not the failure of
  a handler, whose errors are \<open>Failed\<close> here.
\<close>

fun from_handler :: "plugin_error \<Rightarrow> bool" where
  "from_handler (Failed text) = True"
| "from_handler (Prefixed what e) = from_handler e"
| "from_handler _ = False"

locale entry_binder =
  fixes bind :: "'w binder_fun"
  assumes unknown_refused: "bind env KindUnknown = Inl (ErrUnknownKind KindUnknown)"
    and refusal: "bind env kind = Inl e \<Longrightarrow> \<not> from_handler e"
begin

lemma run_not_loaded:
  "load_from lookup = Inl e \<Longrightarrow> plugin_run bind lookup w = (2, [e], w)"
  by (simp add: plugin_run_def exit_runtime_error_def)

lemma run_refused:
  "load_from lookup = Inr env \<Longrightarrow> bind env (env_kind env) = Inl e \<Longrightarrow> plugin_run bind lookup w = (2, [e], w)"
  by (simp add: plugin_run_def exit_runtime_error_def)

lemma run_unknown:
  "load_from lookup = Inr env \<Longrightarrow> env_kind env = KindUnknown \<Longrightarrow>
    plugin_run bind lookup w = (2, [ErrUnknownKind KindUnknown], w)"
  using run_refused [of lookup env] by (simp add: unknown_refused)

lemma run_bound:
  "load_from lookup = Inr env \<Longrightarrow> bind env (env_kind env) = Inr h \<Longrightarrow>
    plugin_run bind lookup w = (case h w of (None, w') \<Rightarrow> (0, [], w')
      | (Some e, w') \<Rightarrow> (1, [Prefixed (pe_plugin_id env @ '': '' @ kind_name (env_kind env)) e], w'))"
  by (simp add: plugin_run_def exit_ok_def exit_handler_error_def split: prod.split option.split)

lemma run_code:
  assumes "plugin_run bind lookup w = (code, out, w')"
  shows "code = 0 \<and> out = [] \<or> code = 1 \<and> (\<exists>what e. out = [Prefixed what e]) \<or>
    code = 2 \<and> w' = w \<and> (\<exists>e. out = [e] \<and> \<not> from_handler e)"
proof (cases "load_from lookup")
  case (Inl e)
  from Inl have "\<not> from_handler e" by (auto simp: load_from_def Let_def split: if_splits)
  with assms show ?thesis by (auto simp: run_not_loaded [OF Inl])
next
  case (Inr env)
  show ?thesis
  proof (cases "bind env (env_kind env)")
    case (Inl e)
    with assms refusal [OF Inl] show ?thesis by (auto simp: run_refused [OF Inr Inl])
  next
    case bound: (Inr h)
    from assms show ?thesis by (auto simp: run_bound [OF Inr bound] split: prod.splits option.splits)
  qed
qed

end

lemma load_from_refused:
  "get_var lookup ''HERDR_ENV'' \<noteq> ''1'' \<Longrightarrow> load_from lookup = Inl ErrNotPluginProcess"
  "get_var lookup ''HERDR_ENV'' = ''1'' \<Longrightarrow> get_var lookup ''HERDR_PLUGIN_ID'' = [] \<Longrightarrow>
    load_from lookup = Inl ErrMissingPluginID"
  by (simp_all add: load_from_def)


lemma hook_envelope_refusal: "hook_envelope pf ff env = Inl e \<Longrightarrow> \<not> from_handler e"
  by (auto simp: hook_envelope_def env_event_envelope_def split: sum.splits if_splits option.splits prod.splits)

interpretation handler_set: entry_binder "handlers_bind pf ff h" for pf ff and h :: "'w handlers"
proof
  show "handlers_bind pf ff h env KindUnknown = Inl (ErrUnknownKind KindUnknown)" for env
    by (simp add: handlers_bind_def)
  show "handlers_bind pf ff h env kind = Inl e \<Longrightarrow> \<not> from_handler e" for env kind e
    by (auto simp: handlers_bind_def hook_envelope_refusal split: entry_kind.splits option.splits sum.splits)
qed

subsection \<open>What registrations build\<close>

fun startup_regs :: "'w registration list \<Rightarrow> (plugin_env \<Rightarrow> 'w handler) option list" where
  "startup_regs [] = []"
| "startup_regs (RegStartup h # rs) = h # startup_regs rs"
| "startup_regs (_ # rs) = startup_regs rs"

fun action_regs :: "'w registration list \<Rightarrow> (string \<times> (plugin_env \<Rightarrow> 'w handler) option) list" where
  "action_regs [] = []"
| "action_regs (RegAction i h # rs) = (i, h) # action_regs rs"
| "action_regs (_ # rs) = action_regs rs"

fun pane_regs :: "'w registration list \<Rightarrow> (string \<times> (plugin_env \<Rightarrow> 'w handler) option) list" where
  "pane_regs [] = []"
| "pane_regs (RegPane i h # rs) = (i, h) # pane_regs rs"
| "pane_regs (_ # rs) = pane_regs rs"

fun event_regs :: "'w registration list \<Rightarrow> (string \<times> (plugin_env \<Rightarrow> event \<Rightarrow> 'w handler) option) list" where
  "event_regs [] = []"
| "event_regs (RegEvent n h # rs) = (n, h) # event_regs rs"
| "event_regs (_ # rs) = event_regs rs"

lemma regs_append [simp]:
  "startup_regs (rs @ ss) = startup_regs rs @ startup_regs ss"
  "action_regs (rs @ ss) = action_regs rs @ action_regs ss"
  "pane_regs (rs @ ss) = pane_regs rs @ pane_regs ss"
  "event_regs (rs @ ss) = event_regs rs @ event_regs ss"
  by (induction rs rule: startup_regs.induct; simp)+

definition ids_ok :: "(string \<times> 'h option) list \<Rightarrow> bool" where
  "ids_ok regs \<longleftrightarrow> distinct (map fst regs) \<and> None \<notin> snd ` set regs"

text \<open>The registrations that are no mistake: no nil handler, no empty id, nothing twice.\<close>

definition registrations_ok :: "'w registration list \<Rightarrow> bool" where
  "registrations_ok rs \<longleftrightarrow> length (startup_regs rs) \<le> 1 \<and> None \<notin> set (startup_regs rs) \<and>
    ids_ok (action_regs rs) \<and> [] \<notin> fst ` set (action_regs rs) \<and>
    ids_ok (pane_regs rs) \<and> [] \<notin> fst ` set (pane_regs rs) \<and> ids_ok (event_regs rs)"

definition typed_binder :: "string \<Rightarrow> (plugin_env \<Rightarrow> event \<Rightarrow> 'w handler) \<Rightarrow> 'w event_binder" where
  "typed_binder n h = (\<lambda>env payload.
     if event_name payload \<noteq> n then err (ErrPayload n (event_name payload)) else ok (h env payload))"

definition registry_of :: "'w registration list \<Rightarrow> 'w plugin" where
  "registry_of rs = \<lparr>
     pl_startup = (case startup_regs rs of [] \<Rightarrow> None | h # _ \<Rightarrow> h),
     pl_actions = rev (map (map_prod id the) (action_regs rs)),
     pl_panes = rev (map (map_prod id the) (pane_regs rs)),
     pl_events = rev (map (\<lambda>(n, h). (n, typed_binder n (the h))) (event_regs rs))\<rparr>"

lemma register_all_snoc: "register_all quote (rs @ [r]) p = bind_res (register_all quote rs p) (register quote r)"
  by (induction rs arbitrary: p) (simp_all add: bind_res_def split: sum.split)

lemma ids_ok_snoc [simp]: "ids_ok (regs @ [(i, h)]) \<longleftrightarrow> ids_ok regs \<and> i \<notin> fst ` set regs \<and> h \<noteq> None"
  by (auto simp: ids_ok_def)

lemma map_of_rev_regs:
  "map_of (rev (map (\<lambda>(n, h). (n, f n h)) regs)) i = None \<longleftrightarrow> i \<notin> fst ` set regs"
  by (auto simp: map_of_eq_None_iff image_image case_prod_unfold)

lemma map_of_rev_prod: "map_of (rev (map (map_prod id the) regs)) i = None \<longleftrightarrow> i \<notin> fst ` set regs"
  using map_of_rev_regs [of "\<lambda>n. the" regs i] by (simp add: map_prod_def)

lemma register_id_cases:
  "register_id quote (rev (map (map_prod id the) regs)) what i h =
    (if h \<noteq> None \<and> i \<noteq> [] \<and> i \<notin> fst ` set regs then Inr (rev (map (map_prod id the) (regs @ [(i, h)])))
     else Inl (if h = None then ''plugin: nil handler for '' @ what @ '' '' @ i
       else if i = [] then ''plugin: '' @ what @ '' id is empty''
       else ''plugin: '' @ what @ '' '' @ quote i @ '' is already registered''))"
  using map_of_rev_prod [of regs i] by (auto simp: register_id_def require_handler_def)

lemma register_step:
  assumes "registrations_ok rs"
  shows "(case register quote r (registry_of rs) of
      Inr p \<Rightarrow> registrations_ok (rs @ [r]) \<and> p = registry_of (rs @ [r])
    | Inl panic \<Rightarrow> \<not> registrations_ok (rs @ [r]))"
proof (cases r)
  case (RegStartup h)
  with assms show ?thesis
    by (cases "startup_regs rs"; cases h)
      (auto simp: registrations_ok_def registry_of_def register_startup_def require_handler_def)
next
  case (RegAction i h)
  with assms show ?thesis
    by (auto simp: registrations_ok_def registry_of_def register_action_def register_id_cases)
next
  case (RegPane i h)
  with assms show ?thesis
    by (auto simp: registrations_ok_def registry_of_def register_pane_def register_id_cases)
next
  case (RegEvent n h)
  have "map_of (pl_events (registry_of rs)) n = None \<longleftrightarrow> n \<notin> fst ` set (event_regs rs)"
    using map_of_rev_regs [of "\<lambda>n h. typed_binder n (the h)" "event_regs rs" n] by (simp add: registry_of_def)
  with assms RegEvent show ?thesis
    by (cases h) (auto simp: registrations_ok_def on_event_def require_handler_def registry_of_def typed_binder_def)
qed

lemma registrations_ok_prefix: "registrations_ok (rs @ [r]) \<Longrightarrow> registrations_ok rs"
  by (auto simp: registrations_ok_def ids_ok_def)

lemma register_all_registry:
  "(case register_all quote rs new_plugin of
      Inr p \<Rightarrow> registrations_ok rs \<and> p = registry_of rs | Inl panic \<Rightarrow> \<not> registrations_ok rs)"
proof (induction rs rule: rev_induct)
  case Nil
  show ?case by (simp add: registrations_ok_def ids_ok_def registry_of_def new_plugin_def)
next
  case (snoc r rs)
  then show ?case
    using register_step [where rs = rs and r = r and quote = quote] registrations_ok_prefix [of rs r]
    by (auto simp: register_all_snoc split: sum.splits)
qed

lemma registered_program:
  "register_all quote rs new_plugin = Inr p \<longleftrightarrow> registrations_ok rs \<and> p = registry_of rs"
  using register_all_registry [where quote = quote and rs = rs] by (auto split: sum.splits)

text \<open>
  C30. A program's registrations go through exactly when none is a mistake: a nil handler, an empty
  action or pane id, a second handler for an id, an event or the startup hook. Then \<open>Registered\<close> lists
  exactly what was registered, each list sorted and without duplicates.
\<close>

theorem registration_is_exact:
  "(registrations_ok rs \<longleftrightarrow> (\<exists>p. register_all quote rs new_plugin = Inr p)) \<and>
   (\<forall>p. register_all quote rs new_plugin = Inr p \<longrightarrow>
      (ri_startup (plugin_registered p) \<longleftrightarrow> startup_regs rs \<noteq> []) \<and>
      set (ri_actions (plugin_registered p)) = fst ` set (action_regs rs) \<and>
      set (ri_panes (plugin_registered p)) = fst ` set (pane_regs rs) \<and>
      set (ri_events (plugin_registered p)) = fst ` set (event_regs rs) \<and>
      (\<forall>ids \<in> {ri_actions (plugin_registered p), ri_panes (plugin_registered p), ri_events (plugin_registered p)}.
        sorted ids \<and> distinct ids))"
  by (auto simp: registered_program registrations_ok_def ids_ok_def plugin_registered_def registry_of_def
      rev_map [symmetric] case_prod_unfold comp_def image_image split: list.splits)

definition quiet :: "plugin_env \<Rightarrow> nat handler" where
  "quiet env w = (None, w + 1)"

definition sample_registrations :: "nat registration list" where
  "sample_registrations = [RegAction ''show'' (Some quiet), RegStartup (Some quiet), RegAction ''hide'' (Some quiet),
     RegEvent ''pane.closed'' (Some (\<lambda>env e w. (Some (Failed ''no''), w)))]"

theorem registration_is_exact_witness:
  "(\<exists>p. register_all id sample_registrations new_plugin = Inr p) \<and>
   \<not> (\<exists>p. register_all id (RegAction ''hide'' (Some quiet) # sample_registrations) new_plugin = Inr p)"
  using registration_is_exact [where quote = id and rs = sample_registrations]
    registration_is_exact [where quote = id and rs = "RegAction ''hide'' (Some quiet) # sample_registrations"]
  by (simp add: sample_registrations_def registrations_ok_def ids_ok_def)

subsection \<open>Which handler runs\<close>

interpretation registry: entry_binder "plugin_bind pf ff (registry_of rs)" for pf ff and rs :: "'w registration list"
proof
  show "plugin_bind pf ff (registry_of rs) env KindUnknown = Inl (ErrUnknownKind KindUnknown)" for env
    by (simp add: plugin_bind_def)
  show "plugin_bind pf ff (registry_of rs) env kind = Inl e \<Longrightarrow> \<not> from_handler e" for env kind e
    by (auto simp: plugin_bind_def bind_by_id_def hook_envelope_refusal registry_of_def typed_binder_def
        dest!: map_of_SomeD split: entry_kind.splits option.splits sum.splits if_splits)
qed


lemma sample_registered:
  "register_all id sample_registrations new_plugin = Inr (registry_of sample_registrations)"
  unfolding registered_program by (simp add: sample_registrations_def registrations_ok_def ids_ok_def)


text \<open>The result of a run whose handler was called.\<close>

definition handler_outcome :: "plugin_env \<Rightarrow> plugin_error option \<times> 'w \<Rightarrow> nat \<times> plugin_error list \<times> 'w" where
  "handler_outcome env r = (case r of (None, w') \<Rightarrow> (0, [], w')
     | (Some e, w') \<Rightarrow> (1, [Prefixed (pe_plugin_id env @ '': '' @ kind_name (env_kind env)) e], w'))"

lemmas registry_run = registry.run_bound [folded handler_outcome_def] registry.run_refused

lemma map_of_registered:
  assumes "ids_ok regs"
  shows "map_of (rev (map (\<lambda>(n, h). (n, f n h)) regs)) i = map_option (f i) (map_of regs i)"
proof -
  have "distinct (map fst (map (\<lambda>(n, h). (n, f n h)) regs))"
    using assms by (simp add: ids_ok_def case_prod_unfold comp_def)
  then have "map_of (rev (map (\<lambda>(n, h). (n, f n h)) regs)) = map_of (map (\<lambda>(n, h). (n, f n h)) regs)"
    by (subst map_of_inject_set) (simp_all flip: rev_map)
  moreover have "map_of (map (\<lambda>(n, h). (n, f n h)) regs) i = map_option (f i) (map_of regs i)"
    by (induction regs) auto
  ultimately show ?thesis by simp
qed

lemma registered_not_nil: "ids_ok regs \<Longrightarrow> map_of regs i \<noteq> Some None"
  by (force simp: ids_ok_def dest: map_of_SomeD)

text \<open>
  C32. A registered program runs exactly the handler that was registered for the entrypoint: the one for
  the startup hook, for the action or pane id, or for the event, which then gets the payload. Without such
  a registration, or when the payload is missing or of another type, none runs.
\<close>

theorem registered_handler_runs:
  assumes "register_all quote rs new_plugin = Inr p" and "load_from lookup = Inr env"
  shows "(env_kind env = KindStartup \<longrightarrow> plugin_run (plugin_bind pf ff p) lookup w =
      (case startup_regs rs of Some h # _ \<Rightarrow> handler_outcome env (h env w)
       | _ \<Rightarrow> (2, [ErrNoHandler KindStartup], w))) \<and>
    (env_kind env = KindAction \<longrightarrow> plugin_run (plugin_bind pf ff p) lookup w =
      (case map_of (action_regs rs) (pe_action_id env) of Some (Some h) \<Rightarrow> handler_outcome env (h env w)
       | _ \<Rightarrow> (2, [ErrNoRegistration KindAction (pe_action_id env)], w))) \<and>
    (env_kind env = KindPane \<longrightarrow> plugin_run (plugin_bind pf ff p) lookup w =
      (case map_of (pane_regs rs) (pe_entrypoint_id env) of Some (Some h) \<Rightarrow> handler_outcome env (h env w)
       | _ \<Rightarrow> (2, [ErrNoRegistration KindPane (pe_entrypoint_id env)], w))) \<and>
    (env_kind env = KindEvent \<longrightarrow> plugin_run (plugin_bind pf ff p) lookup w =
      (case map_of (event_regs rs) (pe_event env) of
         Some (Some h) \<Rightarrow>
           (case hook_envelope pf ff env of
              Inl e \<Rightarrow> (2, [e], w)
            | Inr envelope \<Rightarrow>
                (case ee_data envelope of
                   None \<Rightarrow> (2, [ErrNoData (pe_event env)], w)
                 | Some e \<Rightarrow>
                     if event_name e = pe_event env then handler_outcome env (h env e w)
                     else (2, [ErrPayload (pe_event env) (event_name e)], w)))
       | _ \<Rightarrow> (2, [ErrNoRegistration KindEvent (pe_event env)], w)))"
proof -
  from assms(1) have p: "p = registry_of rs" and ok: "registrations_ok rs" by (simp_all add: registered_program)
  note run = registry_run [OF assms(2), where rs = rs and pf = pf and ff = ff and w = w]
  have ids: "map_of (pl_actions p) i = map_option the (map_of (action_regs rs) i)"
    "map_of (pl_panes p) i = map_option the (map_of (pane_regs rs) i)"
    "map_of (pl_events p) i = map_option (\<lambda>h. typed_binder i (the h)) (map_of (event_regs rs) i)" for i
    using ok map_of_registered [of "action_regs rs" "\<lambda>n. the" i] map_of_registered [of "pane_regs rs" "\<lambda>n. the" i]
      map_of_registered [of "event_regs rs" "\<lambda>n h. typed_binder n (the h)" i]
    by (simp_all add: p registry_of_def registrations_ok_def map_prod_def)
  have real: "map_of (action_regs rs) i \<noteq> Some None" "map_of (pane_regs rs) i \<noteq> Some None"
    "map_of (event_regs rs) j \<noteq> Some None" "None \<notin> set (startup_regs rs)" for i j
    using ok registered_not_nil by (auto simp: registrations_ok_def)
  have b: "plugin_bind pf ff p env kind = plugin_bind pf ff (registry_of rs) env kind" for kind by (simp add: p)
  show ?thesis
  proof (intro conjI impI)
    assume k: "env_kind env = KindStartup"
    show "plugin_run (plugin_bind pf ff p) lookup w =
      (case startup_regs rs of Some h # _ \<Rightarrow> handler_outcome env (h env w)
       | _ \<Rightarrow> (2, [ErrNoHandler KindStartup], w))"
      using run k real(4) unfolding p
      by (auto simp: plugin_bind_def registry_of_def split: list.splits option.splits)
  next
    assume k: "env_kind env = KindAction"
    show "plugin_run (plugin_bind pf ff p) lookup w =
      (case map_of (action_regs rs) (pe_action_id env) of Some (Some h) \<Rightarrow> handler_outcome env (h env w)
       | _ \<Rightarrow> (2, [ErrNoRegistration KindAction (pe_action_id env)], w))"
      using run k real(1) ids(1) unfolding p
      by (auto simp: plugin_bind_def bind_by_id_def split: option.splits)
  next
    assume k: "env_kind env = KindPane"
    show "plugin_run (plugin_bind pf ff p) lookup w =
      (case map_of (pane_regs rs) (pe_entrypoint_id env) of Some (Some h) \<Rightarrow> handler_outcome env (h env w)
       | _ \<Rightarrow> (2, [ErrNoRegistration KindPane (pe_entrypoint_id env)], w))"
      using run k real(2) ids(2) unfolding p
      by (auto simp: plugin_bind_def bind_by_id_def split: option.splits)
  next
    assume k: "env_kind env = KindEvent"
    show "plugin_run (plugin_bind pf ff p) lookup w =
      (case map_of (event_regs rs) (pe_event env) of
         Some (Some h) \<Rightarrow>
           (case hook_envelope pf ff env of
              Inl e \<Rightarrow> (2, [e], w)
            | Inr envelope \<Rightarrow>
                (case ee_data envelope of
                   None \<Rightarrow> (2, [ErrNoData (pe_event env)], w)
                 | Some e \<Rightarrow>
                     if event_name e = pe_event env then handler_outcome env (h env e w)
                     else (2, [ErrPayload (pe_event env) (event_name e)], w)))
       | _ \<Rightarrow> (2, [ErrNoRegistration KindEvent (pe_event env)], w))"
      using run k real(3) ids(3) unfolding p
      by (auto simp: plugin_bind_def typed_binder_def split: option.splits sum.splits)
  qed
qed

definition sample_env :: "string \<Rightarrow> string \<Rightarrow> env_lookup" where
  "sample_env key val = [''HERDR_ENV'' \<mapsto> ''1'', ''HERDR_PLUGIN_ID'' \<mapsto> ''my.plugin'', key \<mapsto> val]"

definition action_env :: plugin_env where
  "action_env = \<lparr>pe_plugin_id = ''my.plugin'', pe_plugin_root = [], pe_config_dir = [], pe_state_dir = [],
     pe_socket_path = [], pe_bin_path = [], pe_workspace_id = [], pe_tab_id = [], pe_pane_id = [],
     pe_action_id = ''hide'', pe_entrypoint_id = [], pe_event = [], pe_context_json = [], pe_event_json = [],
     pe_clicked_url = [], pe_link_handler_id = []\<rparr>"

lemma action_env_loaded: "load_from (sample_env ''HERDR_PLUGIN_ACTION_ID'' ''hide'') = Inr action_env"
  by (simp add: load_from_def sample_env_def get_var_def action_env_def)

theorem registered_handler_runs_witness:
  "plugin_run (plugin_bind (\<lambda>s. None) (\<lambda>x. []) (registry_of sample_registrations))
    (sample_env ''HERDR_PLUGIN_ACTION_ID'' ''hide'') 4 = (0, [], 5)"
  using registered_handler_runs [OF sample_registered action_env_loaded, where w = 4 and pf = "\<lambda>s. None" and ff = "\<lambda>x. []"]
  by (simp add: env_kind_def action_env_def sample_registrations_def quiet_def handler_outcome_def)

lemma event_name_dotted: "CHR ''.'' \<in> set (event_name e)" "event_name e \<noteq> ''startup''"
  by (cases e; simp)+

lemma event_handler_bound:
  assumes "register_all quote rs new_plugin = Inr p" and "RegEvent (event_name e) (Some h) \<in> set rs"
    and "pe_event env = event_name e" and "hook_envelope pf ff env = Inr \<lparr>ee_event = t, ee_data = Some e\<rparr>"
  shows "plugin_bind pf ff p env KindEvent = Inr (h env e)"
proof -
  from assms(1) have p: "p = registry_of rs" and ok: "registrations_ok rs" by (simp_all add: registered_program)
  have "(event_name e, Some h) \<in> set (event_regs rs)"
    using assms(2) by (induction rs rule: event_regs.induct) auto
  then have "map_of (event_regs rs) (event_name e) = Some (Some h)"
    using ok by (simp add: registrations_ok_def ids_ok_def)
  then show ?thesis
    using ok map_of_registered [of "event_regs rs" "\<lambda>n h. typed_binder n (the h)" "event_name e"] assms(3,4)
    by (simp add: plugin_bind_def p registry_of_def registrations_ok_def typed_binder_def)
qed

text \<open>
  C33. An event hook receives the event herdr sent: when \<open>HERDR_PLUGIN_EVENT\<close> names the event and
  \<open>HERDR_PLUGIN_EVENT_JSON\<close> holds its envelope, the handler registered for the event's type is called with
  that very event, and its result makes the exit code.
\<close>

theorem event_hook_receives_event:
  assumes "register_all quote rs new_plugin = Inr p" and "RegEvent (event_name e) (Some h) \<in> set rs"
    and "event_ok pf ff e" and "event_tag e = Some t"
    and "lookup ''HERDR_ENV'' = Some ''1''" and "lookup ''HERDR_PLUGIN_ID'' = Some i" and "i \<noteq> []"
    and "get_var lookup ''HERDR_PLUGIN_ACTION_ID'' = []" and "lookup ''HERDR_PLUGIN_EVENT'' = Some (event_name e)"
    and "lookup ''HERDR_PLUGIN_EVENT_JSON'' = Some raw"
    and "parse_json raw = Some (JObj [(''event'', JStr t), (''data'', encode_event pf ff e)])"
  shows "\<exists>env. load_from lookup = Inr env \<and>
    plugin_run (plugin_bind pf ff p) lookup w = (case h env e w of
      (None, w') \<Rightarrow> (0, [], w')
    | (Some failure, w') \<Rightarrow> (1, [Prefixed (i @ '': event'') failure], w'))"
proof -
  obtain env where env: "load_from lookup = Inr env" "pe_plugin_id env = i" "pe_event env = event_name e"
    "pe_action_id env = []" "pe_event_json env = raw"
    using assms by (simp add: load_from_def get_var_def)
  have kind: "env_kind env = KindEvent" using event_name_dotted [of e] by (simp add: env_kind_def env)
  have filled: "raw \<noteq> []"
  proof
    assume "raw = []"
    moreover have "parse_json [] = None" by code_simp
    ultimately show False using assms(11) by simp
  qed
  then have envelope: "hook_envelope pf ff env = Inr \<lparr>ee_event = t, ee_data = Some e\<rparr>"
    by (simp add: hook_envelope_def env_event_envelope_def env filled assms unmarshal_envelope_tagged)
  from event_handler_bound [OF assms(1,2) env(3) envelope]
  have "plugin_bind pf ff (registry_of rs) env (env_kind env) = Inr (h env e)"
    using assms(1) by (simp add: registered_program kind)
  from registry_run(1) [OF env(1) this, of w] show ?thesis
    by (intro exI [of _ env]) (use assms(1) in \<open>simp add: registered_program env kind handler_outcome_def split: prod.split option.split\<close>)
qed

definition closed_event :: event where
  "closed_event = PaneClosed \<lparr>pane_closed_pane_id = ''w1:p1'', pane_closed_workspace_id = ''w1''\<rparr>"

definition closed_text :: string where
  "closed_text = ''{\"event\":\"pane_closed\",\"data\":{\"type\":\"pane_closed\",\"pane_id\":\"w1:p1\",\"workspace_id\":\"w1\"}}''"

lemma closed_event_ok: "event_ok pf ff closed_event"
  by (simp add: closed_event_def pane_closed_event_codec_def struct_codec_def pane_closed_event_fields_def
      plain_field_def string_codec_def valid_utf8_ascii)

lemma closed_text_parsed: "parse_json closed_text = Some (JObj [(''event'', JStr ''pane_closed''),
    (''data'', encode_event pf ff closed_event)])"
proof -
  have "parse_json closed_text = Some (JObj [(''event'', JStr ''pane_closed''), (''data'', JObj
    [(''type'', JStr ''pane_closed''), (''pane_id'', JStr ''w1:p1''), (''workspace_id'', JStr ''w1'')])])"
    by code_simp
  then show ?thesis
    by (simp add: closed_event_def tagged_def encode_members_def pane_closed_event_fields_def plain_field_def
        string_codec_def coerce_valid valid_utf8_ascii)
qed

theorem event_hook_receives_event_witness:
  "plugin_run (plugin_bind (\<lambda>s. None) (\<lambda>x. []) (registry_of sample_registrations))
    [''HERDR_ENV'' \<mapsto> ''1'', ''HERDR_PLUGIN_ID'' \<mapsto> ''my.plugin'', ''HERDR_PLUGIN_EVENT'' \<mapsto> ''pane.closed'',
     ''HERDR_PLUGIN_EVENT_JSON'' \<mapsto> closed_text] 0 = (1, [Prefixed ''my.plugin: event'' (Failed ''no'')], 0)"
  using event_hook_receives_event [OF sample_registered, where e = closed_event and t = "''pane_closed''" and
      pf = "\<lambda>s. None" and ff = "\<lambda>x. []" and raw = closed_text and i = "''my.plugin''" and w = 0 and
      h = "\<lambda>env e w. (Some (Failed ''no''), w)" and lookup = "[''HERDR_ENV'' \<mapsto> ''1'',
        ''HERDR_PLUGIN_ID'' \<mapsto> ''my.plugin'', ''HERDR_PLUGIN_EVENT'' \<mapsto> ''pane.closed'',
        ''HERDR_PLUGIN_EVENT_JSON'' \<mapsto> closed_text]", OF _ closed_event_ok _ _ _ _ _ _ _ closed_text_parsed]
  by (simp add: closed_event_def sample_registrations_def get_var_def)

end
