(* ===== verification/Paths.thy ===== *)
theory Paths
  imports Go_Strings
begin

text \<open>
  The functions of \<open>path/filepath\<close> the code uses, as they are on Unix: \<open>Clean\<close>, \<open>Join\<close>, \<open>Rel\<close>, \<open>IsAbs\<close>,
  \<open>Dir\<close> and \<open>Base\<close>. \<open>Clean\<close> reads the elements of a path onto a stack; \<open>path_elems\<close> is what it leaves there
  and \<open>render\<close> the text it makes of it. The facts say which texts a cleaned path can be and what \<open>Rel\<close>
  answers for a path joined to a directory.
\<close>

subsection \<open>The functions\<close>

definition is_abs :: "string \<Rightarrow> bool" where
  "is_abs path \<longleftrightarrow> has_prefix path ''/''"

definition clean_step :: "bool \<Rightarrow> string list \<Rightarrow> string \<Rightarrow> string list" where
  "clean_step rooted stack e =
    (if e = [] \<or> e = ''.'' then stack
     else if e = ''..'' then
       (case stack of
          [] \<Rightarrow> if rooted then [] else [''..'']
        | upper # rest \<Rightarrow> if upper = ''..'' then ''..'' # stack else rest)
     else e # stack)"

definition path_elems :: "string \<Rightarrow> string list" where
  "path_elems path = rev (foldl (clean_step (is_abs path)) [] (split_on (CHR ''/'') path))"

definition render :: "bool \<Rightarrow> string list \<Rightarrow> string" where
  "render rooted es = (if rooted then CHR ''/'' # join_with ''/'' es
     else if es = [] then ''.'' else join_with ''/'' es)"

definition clean_path :: "string \<Rightarrow> string" where
  "clean_path path = render (is_abs path) (path_elems path)"

fun join_paths :: "string list \<Rightarrow> string" where
  "join_paths [] = []"
| "join_paths (e # es) = (if e \<noteq> [] then clean_path (join_with ''/'' (e # es)) else join_paths es)"

text \<open>\<open>Rel\<close> compares the elements of two cleaned paths; the cleaned base \<open>.\<close> counts as empty.\<close>

definition path_words :: "string \<Rightarrow> string list" where
  "path_words path = (if path = [] then [] else if path = ''/'' then [[]] else split_on (CHR ''/'') path)"

fun rel_words :: "string list \<Rightarrow> string list \<Rightarrow> string option" where
  "rel_words [] ts = Some (join_with ''/'' ts)"
| "rel_words bs [] = Some (join_with ''/'' (replicate (length bs) ''..''))"
| "rel_words (b # bs) (t # ts) =
    (if b = t then rel_words bs ts
     else if b = ''..'' then None
     else Some (join_with ''/'' (replicate (length (b # bs)) ''..'' @ t # ts)))"

definition rel_path :: "string \<Rightarrow> string \<Rightarrow> string option" where
  "rel_path base_path targ_path =
    (let base = clean_path base_path; targ = clean_path targ_path
     in if targ = base then Some ''.''
        else
          (let base = (if base = ''.'' then [] else base)
           in if has_prefix base ''/'' \<noteq> has_prefix targ ''/'' then None
              else rel_words (path_words base) (path_words targ)))"

definition dir_path :: "string \<Rightarrow> string" where
  "dir_path path = clean_path (rev (dropWhile (\<lambda>c. c \<noteq> CHR ''/'') (rev path)))"

definition base_path :: "string \<Rightarrow> string" where
  "base_path path =
    (if path = [] then ''.''
     else
       (let stripped = rev (dropWhile (\<lambda>c. c = CHR ''/'') (rev path));
            last = rev (takeWhile (\<lambda>c. c \<noteq> CHR ''/'') (rev stripped))
        in if last = [] then ''/'' else last))"

subsection \<open>Cleaned paths\<close>

text \<open>A proper element names an entry of a directory; a cleaned path may begin with \<open>..\<close> only.\<close>

definition proper :: "string \<Rightarrow> bool" where
  "proper e \<longleftrightarrow> e \<noteq> [] \<and> e \<noteq> ''.'' \<and> e \<noteq> ''..'' \<and> CHR ''/'' \<notin> set e"

definition clean_elems :: "bool \<Rightarrow> string list \<Rightarrow> bool" where
  "clean_elems rooted es \<longleftrightarrow>
    (\<exists>n xs. es = replicate n ''..'' @ xs \<and> list_all proper xs \<and> (rooted \<longrightarrow> n = 0))"

lemma clean_elemsI: "list_all proper xs \<Longrightarrow> (rooted \<longrightarrow> n = 0) \<Longrightarrow> clean_elems rooted (replicate n ''..'' @ xs)"
  unfolding clean_elems_def by blast

lemma clean_step_keeps:
  assumes "clean_elems rooted (rev stack)" "CHR ''/'' \<notin> set e"
  shows "clean_elems rooted (rev (clean_step rooted stack e))"
proof -
  obtain n xs where es: "rev stack = replicate n ''..'' @ xs" "list_all proper xs" "rooted \<longrightarrow> n = 0"
    using assms(1) unfolding clean_elems_def by blast
  have stack: "stack = rev xs @ replicate n ''..''" using arg_cong [OF es(1), of rev] by simp
  consider "e = [] \<or> e = ''.''" | "e = ''..''" | "proper e" using assms(2) unfolding proper_def by blast
  then show ?thesis
  proof cases
    case 1
    with assms(1) show ?thesis by (auto simp: clean_step_def)
  next
    case 2
    show ?thesis
    proof (cases xs rule: rev_cases)
      case Nil
      have "clean_elems rooted (rev (clean_step rooted stack ''..'')) =
          clean_elems rooted (if rooted then [] else replicate (Suc n) ''..'')"
        using es(3) by (cases n) (simp_all add: clean_step_def stack Nil replicate_append_same)
      with 2 show ?thesis using clean_elemsI [of "[]" rooted 0] clean_elemsI [of "[]" rooted "Suc n"] by (cases rooted) simp_all
    next
      case (snoc ys y)
      then have "y \<noteq> ''..''" using es(2) by (simp add: proper_def)
      with 2 snoc have "rev (clean_step rooted stack e) = replicate n ''..'' @ ys"
        by (simp add: clean_step_def stack)
      with es snoc show ?thesis by (simp add: clean_elemsI)
    qed
  next
    case 3
    then have "rev (clean_step rooted stack e) = replicate n ''..'' @ (xs @ [e])"
      by (simp add: clean_step_def es proper_def)
    with 3 es show ?thesis using clean_elemsI [of "xs @ [e]" rooted n] by simp
  qed
qed

lemma clean_fold:
  "clean_elems rooted (rev stack) \<Longrightarrow> (\<forall>e \<in> set es. CHR ''/'' \<notin> set e) \<Longrightarrow>
    clean_elems rooted (rev (foldl (clean_step rooted) stack es))"
  by (induction es arbitrary: stack) (simp_all add: clean_step_keeps)

lemma clean_path_elems: "clean_elems (is_abs path) (path_elems path)"
  unfolding path_elems_def
  using clean_fold [of "is_abs path" "[]" "split_on (CHR ''/'') path"] split_on_no_sep [of _ "CHR ''/''" path]
    clean_elemsI [of "[]" "is_abs path" 0] by auto

lemma clean_elems_words:
  assumes "clean_elems rooted es" "e \<in> set es"
  shows "e \<noteq> [] \<and> e \<noteq> ''.'' \<and> CHR ''/'' \<notin> set e"
proof -
  from assms have "e = ''..'' \<or> proper e" unfolding clean_elems_def list_all_iff by fastforce
  then show ?thesis by (auto simp: proper_def)
qed

text \<open>Below a prefix the elements hold \<open>..\<close> somewhere only if they begin with it.\<close>

lemma clean_dotdot_first:
  assumes "clean_elems rooted (bs @ rs)" "''..'' \<in> set rs"
  shows "\<exists>rest. rs = ''..'' # rest"
proof (cases rs)
  case (Cons r rest)
  obtain n xs where es: "bs @ r # rest = replicate n ''..'' @ xs" "list_all proper xs"
    using assms(1) Cons unfolding clean_elems_def by blast
  have inside: "''..'' \<notin> set xs" using es(2) by (auto simp: proper_def list_all_iff)
  have "length bs < n"
  proof (rule ccontr)
    assume "\<not> length bs < n"
    then have "r # rest = drop (length bs - n) xs"
      using arg_cong [OF es(1), of "drop (length bs)"] by simp
    with inside assms(2) Cons show False by (metis in_set_dropD)
  qed
  then have "(bs @ r # rest) ! length bs = ''..''" unfolding es(1) by (simp add: nth_append)
  with Cons show ?thesis by simp
qed (use assms in simp)

lemma path_words_render:
  assumes "clean_elems rooted es"
  shows "path_words (if render rooted es = ''.'' then [] else render rooted es) =
      (if rooted then [] # es else es)" (is ?words)
    and "render rooted es = ''.'' \<longleftrightarrow> \<not> rooted \<and> es = []" (is ?dot)
    and "has_prefix (render rooted es) ''/'' \<longleftrightarrow> rooted" (is ?rooted)
proof -
  note words = clean_elems_words [OF assms]
  have split: "es \<noteq> [] \<Longrightarrow> split_on (CHR ''/'') (join_with ''/'' es) = es"
    using split_join_with [of es "CHR ''/''"] words by blast
  have hd: "\<exists>c s. join_with ''/'' es = c # s \<and> c \<noteq> CHR ''/''" if "es \<noteq> []"
  proof -
    from that obtain e es' where es: "es = e # es'" by (meson neq_Nil_conv)
    with words [of e] obtain c r where "e = c # r" "c \<noteq> CHR ''/''" by (cases e) auto
    with es show ?thesis by (cases es') auto
  qed
  show ?dot
  proof (cases "rooted \<or> es = []")
    case False
    then have "join_with ''/'' es \<noteq> ''.''" using split words [of "''.''"] by auto
    with False show ?thesis by (simp add: render_def)
  qed (auto simp: render_def)
  with split hd show ?words
    by (cases "es = []") (auto simp: path_words_def render_def)
  show ?rooted using hd by (cases "es = []") (auto simp: render_def)
qed

lemma render_inject:
  assumes "clean_elems rooted es" "clean_elems rooted es'"
  shows "render rooted es = render rooted es' \<longleftrightarrow> es = es'"
  using path_words_render(1) [OF assms(1)] path_words_render(1) [OF assms(2)] by (auto split: if_splits)

lemma clean_step_elem:
  assumes "clean_elems rooted (rev stack @ [e])"
  shows "clean_step rooted stack e = e # stack"
proof (cases "e = ''..''")
  case False
  with assms show ?thesis
    using clean_elems_words [OF assms, of e] by (simp add: clean_step_def)
next
  case True
  obtain n xs where es: "rev stack @ [e] = replicate n ''..'' @ xs" "list_all proper xs" "rooted \<longrightarrow> n = 0"
    using assms unfolding clean_elems_def by blast
  with True have "xs = []" by (cases xs rule: rev_cases) (auto simp: proper_def)
  with es True obtain m where "n = Suc m" "rev stack = replicate m ''..''"
    by (cases n) (auto simp flip: replicate_append_same)
  with es show ?thesis unfolding True
    by (cases m) (auto simp: clean_step_def rev_swap)
qed

lemma clean_elems_prefix:
  assumes "clean_elems rooted (es @ fs)"
  shows "clean_elems rooted es"
proof -
  obtain n xs where es: "es @ fs = replicate n ''..'' @ xs" "list_all proper xs" "rooted \<longrightarrow> n = 0"
    using assms unfolding clean_elems_def by blast
  from es(1) have "es = take (length es) (replicate n ''..'' @ xs)" by (metis append_eq_conv_conj)
  then have "es = replicate (min (length es) n) ''..'' @ take (length es - n) xs" by simp
  moreover have "list_all proper (take (length es - n) xs)"
    using es(2) by (auto simp: list_all_iff dest: in_set_takeD)
  ultimately show ?thesis using es(3) unfolding clean_elems_def by (metis min_0R)
qed

lemma clean_fold_id:
  "clean_elems rooted (rev stack @ es) \<Longrightarrow> foldl (clean_step rooted) stack es = rev es @ stack"
proof (induction es arbitrary: stack)
  case (Cons e es)
  then have "clean_elems rooted (rev stack @ [e])" using clean_elems_prefix [of rooted "rev stack @ [e]" es] by simp
  with Cons show ?case by (simp add: clean_step_elem)
qed simp

lemma clean_step_skip [simp]: "clean_step rooted stack [] = stack" "clean_step rooted stack ''.'' = stack"
  by (simp_all add: clean_step_def)

lemma path_elems_render:
  assumes "clean_elems rooted es"
  shows "is_abs (render rooted es) = rooted" and "path_elems (render rooted es) = es"
proof -
  show abs: "is_abs (render rooted es) = rooted"
    using path_words_render(3) [OF assms] by (simp add: is_abs_def)
  have split: "es \<noteq> [] \<Longrightarrow> split_on (CHR ''/'') (join_with ''/'' es) = es"
    using split_join_with [of es "CHR ''/''"] clean_elems_words [OF assms] by blast
  show "path_elems (render rooted es) = es"
    unfolding path_elems_def abs using split clean_fold_id [of rooted "[]" es] assms
    by (cases "es = []") (auto simp: render_def)
qed

lemma clean_path_facts [simp]:
  "path_elems (clean_path path) = path_elems path"
  "is_abs (clean_path path) = is_abs path"
  "clean_path (clean_path path) = clean_path path"
  using path_elems_render [OF clean_path_elems [of path]] by (simp_all add: clean_path_def)

lemma render_not_Nil: "clean_elems rooted es \<Longrightarrow> render rooted es \<noteq> []"
  using clean_elems_words [of rooted es] by (cases es rule: remdups_adj.cases) (auto simp: render_def)

lemma clean_path_not_Nil: "clean_path p \<noteq> []"
  unfolding clean_path_def by (rule render_not_Nil [OF clean_path_elems])

lemma join_paths_not_Nil: "e \<in> set es \<Longrightarrow> e \<noteq> [] \<Longrightarrow> join_paths es \<noteq> []"
  by (induction es) (auto simp: clean_path_not_Nil)

subsection \<open>Relative paths\<close>

text \<open>A relative path that leaves the base, as the code tests for it.\<close>

definition escapes :: "string \<Rightarrow> bool" where
  "escapes relative \<longleftrightarrow> relative = ''..'' \<or> has_prefix relative ''../''"

lemma escapes_join:
  assumes "CHR ''/'' \<notin> set e"
  shows "escapes (join_with ''/'' (e # es)) \<longleftrightarrow> e = ''..''"
proof -
  have "has_prefix (e @ CHR ''/'' # s) ''../'' \<longleftrightarrow> e = ''..''" for s
  proof
    assume "has_prefix (e @ CHR ''/'' # s) ''../''"
    then obtain t where "e @ CHR ''/'' # s = ''..'' @ CHR ''/'' # t" by (auto simp: has_prefix_iff)
    then have "split_on (CHR ''/'') (e @ CHR ''/'' # s) = split_on (CHR ''/'') (''..'' @ CHR ''/'' # t)" by simp
    then show "e = ''..''" using assms by (simp add: split_on_append)
  qed (simp add: has_prefix_iff)
  moreover have "\<not> has_prefix e ''../''" using assms by (auto simp: has_prefix_iff)
  moreover have "e @ CHR ''/'' # s \<noteq> ''..''" for s
  proof
    assume "e @ CHR ''/'' # s = ''..''"
    then have "CHR ''/'' \<in> set ''..''" by (metis in_set_conv_decomp)
    then show False by simp
  qed
  ultimately show ?thesis by (cases es) (auto simp: escapes_def assms)
qed

lemma rel_words_prefix: "rel_words bs (bs @ rs) = Some (join_with ''/'' rs)"
  by (induction bs) simp_all

lemma rel_words_leaves:
  assumes "\<nexists>rs. ts = bs @ rs"
  shows "rel_words bs ts = None \<or> (\<exists>es. rel_words bs ts = Some (join_with ''/'' (''..'' # es)))"
  using assms
proof (induction bs ts rule: rel_words.induct)
  case (3 b bs t ts)
  then show ?case by (cases "b = t") (auto simp del: join_with.simps)
qed (auto simp del: join_with.simps)

text \<open>\<open>Rel\<close> stays inside exactly when the target's elements go on from the base's without \<open>..\<close>.\<close>

lemma rel_path_inside:
  assumes "is_abs base = is_abs targ"
  shows "(case rel_path base targ of None \<Rightarrow> False | Some relative \<Rightarrow> \<not> escapes relative) \<longleftrightarrow>
    (\<exists>rest. path_elems targ = path_elems base @ rest \<and> ''..'' \<notin> set rest)"
proof (cases "path_elems targ = path_elems base")
  case True
  with assms have "rel_path base targ = Some ''.''" by (simp add: rel_path_def clean_path_def)
  with True show ?thesis by (simp add: escapes_def)
next
  case False
  let ?r = "is_abs base" and ?B = "path_elems base" and ?T = "path_elems targ"
  let ?w = "\<lambda>es. if ?r then [] # es else es"
  have B: "clean_elems ?r ?B" and T: "clean_elems ?r ?T"
    using clean_path_elems [of base] clean_path_elems [of targ] assms by simp_all
  have neq: "clean_path targ \<noteq> clean_path base"
    using False render_inject [OF T B] assms by (simp add: clean_path_def)
  have words: "path_words (clean_path targ) = (if \<not> ?r \<and> ?T = [] then [''.''] else ?w ?T)"
    using path_words_render [OF T] assms by (auto simp: clean_path_def path_words_def render_def)
  have slash: "has_prefix (if clean_path base = ''.'' then [] else clean_path base) ''/'' = has_prefix (clean_path targ) ''/''"
    using path_words_render(2,3) [OF B] path_words_render(3) [OF T] assms by (auto simp: clean_path_def)
  have base: "path_words (if clean_path base = ''.'' then [] else clean_path base) = ?w ?B"
    unfolding clean_path_def by (rule path_words_render(1) [OF B])
  have rel: "rel_path base targ = rel_words (?w ?B) (if \<not> ?r \<and> ?T = [] then [''.''] else ?w ?T)"
    using neq slash by (simp add: rel_path_def Let_def base words)
  show ?thesis
  proof (cases "\<exists>rest. ?T = ?B @ rest")
    case True
    then obtain rest where rest: "?T = ?B @ rest" by blast
    with False obtain e es where e: "rest = e # es" by (cases rest) auto
    from rest e have "rel_path base targ = Some (join_with ''/'' rest)"
      by (simp add: rel rel_words_prefix)
    moreover have "CHR ''/'' \<notin> set e" using clean_elems_words [OF T, of e] rest e by simp
    moreover have "''..'' \<in> set rest \<longleftrightarrow> e = ''..''"
      using clean_dotdot_first [of ?r ?B rest] T rest e by auto
    ultimately show ?thesis using escapes_join [of e es] rest e by auto
  next
    case no: False
    have dot: "[''.''] \<noteq> path_elems base" using clean_elems_words [OF B, of "''.''"] by (metis list.set_intros(1))
    from no have "\<nexists>rs. (if \<not> ?r \<and> ?T = [] then [''.''] else ?w ?T) = ?w ?B @ rs"
      using dot by (auto simp: append_eq_Cons_conv Cons_eq_append_conv)
    from rel_words_leaves [OF this] no show ?thesis
      using escapes_join [of "''..''"] by (auto simp: rel simp del: join_with.simps)
  qed
qed

subsection \<open>Joining\<close>

lemma is_abs_append: "e \<noteq> [] \<Longrightarrow> is_abs (e @ s) = is_abs e"
  by (cases e) (simp_all add: is_abs_def)

lemma is_abs_join: "e \<noteq> [] \<Longrightarrow> is_abs (join_with ''/'' (e # es)) = is_abs e"
  by (cases es) (simp_all add: is_abs_append)

lemma split_append_sep: "split_on sep (s @ sep # t) = split_on sep s @ split_on sep t"
  by (induction s) (auto split: list.split)

lemma split_join_concat: "split_on sep (join_with [sep] (e # es)) = concat (map (split_on sep) (e # es))"
  by (induction es arbitrary: e) (simp_all add: split_append_sep)

lemma path_elems_join:
  assumes "dir \<noteq> []"
  shows "path_elems (join_with ''/'' (dir # es)) =
    rev (foldl (clean_step (is_abs dir)) (rev (path_elems dir)) (concat (map (split_on (CHR ''/'')) es)))"
  unfolding path_elems_def is_abs_join [OF assms] split_join_concat by simp

lemma path_elems_join_proper:
  assumes "dir \<noteq> []" "list_all proper es"
  shows "path_elems (join_with ''/'' (dir # es)) = path_elems dir @ es"
proof -
  have "concat (map (split_on (CHR ''/'')) es) = es"
    using assms(2) by (induction es) (simp_all add: proper_def split_on_alone)
  moreover obtain n xs where "path_elems dir = replicate n ''..'' @ xs" "list_all proper xs" "is_abs dir \<longrightarrow> n = 0"
    using clean_path_elems unfolding clean_elems_def by blast
  then have "clean_elems (is_abs dir) (path_elems dir @ es)"
    using clean_elemsI [of "xs @ es" "is_abs dir" n] assms(2) by simp
  ultimately show ?thesis using clean_fold_id [of "is_abs dir" "rev (path_elems dir)" es]
    by (simp add: path_elems_join [OF assms(1)])
qed

lemma clean_rest_proper:
  assumes "clean_elems rooted es" "''..'' \<notin> set rs" "es = bs @ rs"
  shows "list_all proper rs"
proof -
  have "e = ''..'' \<or> proper e" if "e \<in> set es" for e
    using that assms(1) unfolding clean_elems_def list_all_iff by fastforce
  with assms show ?thesis by (auto simp: list_all_iff)
qed

end
