(* ===== verification/Plugin_State.thy ===== *)
theory Plugin_State
  imports Plugin Paths
begin

text \<open>
  The files of a plugin: \<open>plugin/state.go\<close>.

  A disk maps paths to files. A file knows whether its contents were flushed, since only then they
  survive a crash. Every call to the operating system can fail; the record \<open>faults\<close> says how each one
  ends. The functions that write return all the disks there were on the way, the newest first, so a
  crash at any point can be looked at. Directories appear only in their paths. \<open>quote\<close> is
  \<open>strconv.Quote\<close>; \<open>json.Marshal\<close> and \<open>json.Unmarshal\<close> are arguments, as their type parameter is any.
\<close>

subsection \<open>Names of files\<close>

datatype state_error =
    ErrNoStateDir
  | ErrNoConfigDir
  | ErrEscapes
  | ErrDirNotSet
  | OsError string
  | StateError string state_error

definition join_inside :: "string \<Rightarrow> string list \<Rightarrow> (state_error, string) result" where
  "join_inside dir name =
    (if dir = [] then err ErrDirNotSet
     else if name = [] then ok dir
     else if list_ex (\<lambda>e. e = [] \<or> is_abs e) name then err ErrEscapes
     else
       (let joined = join_paths (dir # name)
        in case rel_path (clean_path dir) joined of
             None \<Rightarrow> err ErrEscapes
           | Some relative \<Rightarrow>
               if relative = ''..'' \<or> has_prefix relative ''../'' then err ErrEscapes else ok joined))"

definition env_state_path :: "plugin_env \<Rightarrow> string list \<Rightarrow> string" where
  "env_state_path e name = (case join_inside (pe_state_dir e) name of Inl x \<Rightarrow> [] | Inr path \<Rightarrow> path)"

definition env_config_path :: "plugin_env \<Rightarrow> string list \<Rightarrow> string" where
  "env_config_path e name = (case join_inside (pe_config_dir e) name of Inl x \<Rightarrow> [] | Inr path \<Rightarrow> path)"

definition file_path ::
  "(string \<Rightarrow> string) \<Rightarrow> string \<Rightarrow> string \<Rightarrow> string \<Rightarrow> state_error \<Rightarrow> (state_error, string) result" where
  "file_path quote dir kind name absent =
    (if dir = [] then err absent
     else case join_inside dir [name] of
       Inl e \<Rightarrow> err (StateError (''plugin: '' @ kind @ '' file '' @ quote name) e)
     | Inr path \<Rightarrow> ok path)"

definition state_file :: "(string \<Rightarrow> string) \<Rightarrow> plugin_env \<Rightarrow> string \<Rightarrow> (state_error, string) result" where
  "state_file quote e name = file_path quote (pe_state_dir e) ''state'' name ErrNoStateDir"

definition config_file :: "(string \<Rightarrow> string) \<Rightarrow> plugin_env \<Rightarrow> string \<Rightarrow> (state_error, string) result" where
  "config_file quote e name = file_path quote (pe_config_dir e) ''config'' name ErrNoConfigDir"

subsection \<open>The disk\<close>

record disk_file =
  fi_content :: string
  fi_flushed :: bool

type_synonym disk = "string \<rightharpoonup> disk_file"

text \<open>
  \<open>fa_create\<close> is \<open>os.CreateTemp\<close> on a directory and a pattern, with the name it chose; \<open>fa_write\<close> has the
  number of bytes that were written before the failure.
\<close>

record faults =
  fa_mkdir :: "string \<Rightarrow> string option"
  fa_create :: "string \<Rightarrow> string \<Rightarrow> (string, string) result"
  fa_open :: "string option"
  fa_write :: "(nat \<times> string) option"
  fa_chmod :: "string option"
  fa_sync :: "string option"
  fa_close :: "string option"
  fa_rename :: "string option"
  fa_remove :: "string option"
  fa_read :: "string option"

definition change :: "(disk \<Rightarrow> disk) \<Rightarrow> disk list \<Rightarrow> disk list" where
  "change f h = f (hd h) # h"

definition append_to :: "string \<Rightarrow> string \<Rightarrow> disk \<Rightarrow> disk" where
  "append_to path data d = (case d path of
     None \<Rightarrow> d | Some f \<Rightarrow> d(path \<mapsto> \<lparr>fi_content = fi_content f @ data, fi_flushed = False\<rparr>))"

definition os_write :: "faults \<Rightarrow> string \<Rightarrow> string \<Rightarrow> disk list \<Rightarrow> state_error option \<times> disk list" where
  "os_write fa path data h = (case fa_write fa of
     None \<Rightarrow> (None, change (append_to path data) h)
   | Some (n, e) \<Rightarrow> (Some (OsError e), change (append_to path (take n data)) h))"

definition os_sync :: "faults \<Rightarrow> string \<Rightarrow> disk list \<Rightarrow> state_error option \<times> disk list" where
  "os_sync fa path h = (case fa_sync fa of
     Some e \<Rightarrow> (Some (OsError e), h)
   | None \<Rightarrow> (None, change (\<lambda>d. d(path := map_option (\<lambda>f. f\<lparr>fi_flushed := True\<rparr>) (d path))) h))"

definition os_remove :: "faults \<Rightarrow> string \<Rightarrow> disk list \<Rightarrow> disk list" where
  "os_remove fa path h = (case fa_remove fa of Some e \<Rightarrow> h | None \<Rightarrow> change (\<lambda>d. d(path := None)) h)"

definition os_rename :: "faults \<Rightarrow> string \<Rightarrow> string \<Rightarrow> disk list \<Rightarrow> state_error option \<times> disk list" where
  "os_rename fa old new h = (case fa_rename fa of
     Some e \<Rightarrow> (Some (OsError e), h)
   | None \<Rightarrow> (None, change (\<lambda>d. d(new := d old, old := None)) h))"

subsection \<open>Reading\<close>

text \<open>A nil result is \<open>None\<close>.\<close>

definition read_file :: "faults \<Rightarrow> string \<Rightarrow> string \<Rightarrow> string \<Rightarrow> disk \<Rightarrow> (state_error, string option) result" where
  "read_file fa path kind name d = (case fa_read fa of
     Some e \<Rightarrow> err (StateError (''plugin: read '' @ kind @ '' '' @ name) (OsError e))
   | None \<Rightarrow> (case d path of None \<Rightarrow> ok None | Some f \<Rightarrow> ok (Some (fi_content f))))"

definition read_state ::
  "(string \<Rightarrow> string) \<Rightarrow> faults \<Rightarrow> plugin_env \<Rightarrow> string \<Rightarrow> disk \<Rightarrow> (state_error, string option) result" where
  "read_state quote fa e name d = (case state_file quote e name of
     Inl x \<Rightarrow> err x | Inr path \<Rightarrow> read_file fa path ''state'' name d)"

definition read_config ::
  "(string \<Rightarrow> string) \<Rightarrow> faults \<Rightarrow> plugin_env \<Rightarrow> string \<Rightarrow> disk \<Rightarrow> (state_error, string option) result" where
  "read_config quote fa e name d = (case config_file quote e name of
     Inl x \<Rightarrow> err x | Inr path \<Rightarrow> read_file fa path ''config'' name d)"

text \<open>The value decoded into, with the error. \<open>unmarshal_into\<close> yields what it leaves in its target.\<close>

definition decode_read ::
  "(string \<Rightarrow> 'a \<Rightarrow> 'a \<times> string option) \<Rightarrow> string \<Rightarrow> string \<Rightarrow> (state_error, string option) result \<Rightarrow> 'a \<Rightarrow>
    'a \<times> state_error option" where
  "decode_read unmarshal_into kind name r into = (case r of
     Inl x \<Rightarrow> (into, Some x)
   | Inr None \<Rightarrow> (into, None)
   | Inr (Some data) \<Rightarrow>
       if data = [] then (into, None)
       else (case unmarshal_into data into of
         (v, None) \<Rightarrow> (v, None)
       | (v, Some e) \<Rightarrow> (v, Some (StateError (''plugin: decode '' @ kind @ '' '' @ name) (OsError e)))))"

definition read_state_json ::
  "(string \<Rightarrow> string) \<Rightarrow> (string \<Rightarrow> 'a \<Rightarrow> 'a \<times> string option) \<Rightarrow> faults \<Rightarrow> plugin_env \<Rightarrow> string \<Rightarrow> disk \<Rightarrow> 'a \<Rightarrow>
    'a \<times> state_error option" where
  "read_state_json quote unmarshal_into fa e name d into =
    decode_read unmarshal_into ''state'' name (read_state quote fa e name d) into"

definition read_config_json ::
  "(string \<Rightarrow> string) \<Rightarrow> (string \<Rightarrow> 'a \<Rightarrow> 'a \<times> string option) \<Rightarrow> faults \<Rightarrow> plugin_env \<Rightarrow> string \<Rightarrow> disk \<Rightarrow> 'a \<Rightarrow>
    'a \<times> state_error option" where
  "read_config_json quote unmarshal_into fa e name d into =
    decode_read unmarshal_into ''config'' name (read_config quote fa e name d) into"

subsection \<open>Writing\<close>

text \<open>The deferred \<open>Close\<close> runs on every path; its error counts if there is no other.\<close>

definition fill_temp :: "faults \<Rightarrow> string \<Rightarrow> string \<Rightarrow> disk list \<Rightarrow> state_error option \<times> disk list" where
  "fill_temp fa temp data h =
    (let (x, h) = (case os_write fa temp data h of
           (Some e, h) \<Rightarrow> (Some e, h)
         | (None, h) \<Rightarrow> (case fa_chmod fa of Some e \<Rightarrow> (Some (OsError e), h) | None \<Rightarrow> os_sync fa temp h))
     in (case x of Some e \<Rightarrow> Some e | None \<Rightarrow> map_option OsError (fa_close fa), h))"

definition write_atomic :: "faults \<Rightarrow> string \<Rightarrow> string \<Rightarrow> disk list \<Rightarrow> state_error option \<times> disk list" where
  "write_atomic fa path data h = (case fa_create fa (dir_path path) (base_path path @ ''.tmp'') of
     Inl e \<Rightarrow> (Some (StateError (''plugin: create temporary file for '' @ path) (OsError e)), h)
   | Inr temp \<Rightarrow>
       (case fill_temp fa temp data (change (\<lambda>d. d(temp \<mapsto> \<lparr>fi_content = [], fi_flushed = False\<rparr>)) h) of
          (Some e, h) \<Rightarrow> (Some (StateError (''plugin: write '' @ path) e), os_remove fa temp h)
        | (None, h) \<Rightarrow>
            (case os_rename fa temp path h of
               (Some e, h) \<Rightarrow> (Some (StateError (''plugin: replace '' @ path) e), os_remove fa temp h)
             | (None, h) \<Rightarrow> (None, h))))"

definition write_state ::
  "(string \<Rightarrow> string) \<Rightarrow> faults \<Rightarrow> plugin_env \<Rightarrow> string \<Rightarrow> string \<Rightarrow> disk \<Rightarrow> state_error option \<times> disk list" where
  "write_state quote fa e name data d = (case state_file quote e name of
     Inl x \<Rightarrow> (Some x, [d])
   | Inr path \<Rightarrow>
       (case fa_mkdir fa (dir_path path) of
          Some x \<Rightarrow> (Some (StateError ''plugin: create state directory'' (OsError x)), [d])
        | None \<Rightarrow> write_atomic fa path data [d]))"

definition write_state_json ::
  "(string \<Rightarrow> string) \<Rightarrow> ('a \<Rightarrow> (string, string) result) \<Rightarrow> faults \<Rightarrow> plugin_env \<Rightarrow> string \<Rightarrow> 'a \<Rightarrow> disk \<Rightarrow>
    state_error option \<times> disk list" where
  "write_state_json quote marshal fa e name v d = (case marshal v of
     Inl x \<Rightarrow> (Some (StateError (''plugin: encode state '' @ name) (OsError x)), [d])
   | Inr data \<Rightarrow> write_state quote fa e name data d)"

definition append_state_jsonl ::
  "(string \<Rightarrow> string) \<Rightarrow> ('a \<Rightarrow> (string, string) result) \<Rightarrow> faults \<Rightarrow> plugin_env \<Rightarrow> string \<Rightarrow> 'a \<Rightarrow> disk \<Rightarrow>
    state_error option \<times> disk list" where
  "append_state_jsonl quote marshal fa e name v d = (case marshal v of
     Inl x \<Rightarrow> (Some (StateError (''plugin: encode state '' @ name) (OsError x)), [d])
   | Inr line \<Rightarrow>
       (case state_file quote e name of
          Inl x \<Rightarrow> (Some x, [d])
        | Inr path \<Rightarrow>
            (case fa_mkdir fa (dir_path path) of
               Some x \<Rightarrow> (Some (StateError ''plugin: create state directory'' (OsError x)), [d])
             | None \<Rightarrow>
                 (case fa_open fa of
                    Some x \<Rightarrow> (Some (StateError (''plugin: append state '' @ name) (OsError x)), [d])
                  | None \<Rightarrow>
                      (let h = change (\<lambda>d. if d path = None then d(path \<mapsto> \<lparr>fi_content = [], fi_flushed = False\<rparr>) else d) [d];
                           (write_error, h) = os_write fa path (line @ [CHR 0x0A]) h;
                           close_error = fa_close fa
                       in case write_error of
                            Some x \<Rightarrow> (Some (StateError (''plugin: append state '' @ name) x), h)
                          | None \<Rightarrow>
                              (case close_error of
                                 Some x \<Rightarrow> (Some (StateError (''plugin: append state '' @ name) (OsError x)), h)
                               | None \<Rightarrow> (None, h)))))))"

end
