(* ===== verification/Plugin_State_Facts.thy ===== *)
theory Plugin_State_Facts
  imports Plugin_State Wire
begin

text \<open>
  What the state helpers promise: a name stays inside the plugin's directory, a write is all or nothing
  even across a crash, and appended records stay whole lines.
\<close>

subsection \<open>Names\<close>

lemma join_inside_accepts:
  assumes "dir \<noteq> []" "name \<noteq> []"
  shows "join_inside dir name = Inr path \<longleftrightarrow>
    (\<forall>e \<in> set name. e \<noteq> [] \<and> \<not> is_abs e) \<and> path = clean_path (join_with ''/'' (dir # name)) \<and>
    (\<exists>rest. path_elems path = path_elems dir @ rest \<and> list_all proper rest)"
proof -
  let ?joined = "clean_path (join_with ''/'' (dir # name))"
  have abs: "is_abs (clean_path dir) = is_abs ?joined" using assms(1) is_abs_join [of dir name] by simp
  have proper: "''..'' \<notin> set rest \<longleftrightarrow> list_all proper rest" if "path_elems ?joined = path_elems dir @ rest" for rest
    using that clean_rest_proper [OF clean_path_elems [of ?joined], of rest "path_elems dir"]
    by (auto simp: list_all_iff proper_def)
  let ?rel = "rel_path (clean_path dir) ?joined"
  have "join_inside dir name = (if list_ex (\<lambda>e. e = [] \<or> is_abs e) name then Inl ErrEscapes
      else case ?rel of None \<Rightarrow> Inl ErrEscapes
        | Some relative \<Rightarrow> if escapes relative then Inl ErrEscapes else Inr ?joined)"
    using assms unfolding escapes_def by (simp add: join_inside_def Let_def)
  then have "join_inside dir name = Inr path \<longleftrightarrow> (\<forall>e \<in> set name. e \<noteq> [] \<and> \<not> is_abs e) \<and> path = ?joined \<and>
      (case ?rel of None \<Rightarrow> False | Some relative \<Rightarrow> \<not> escapes relative)"
    by (auto simp: list_ex_iff split: option.splits)
  moreover have "(case ?rel of None \<Rightarrow> False | Some relative \<Rightarrow> \<not> escapes relative) \<longleftrightarrow>
      (\<exists>rest. path_elems ?joined = path_elems dir @ rest \<and> list_all proper rest)"
    using rel_path_inside [OF abs] proper by auto
  ultimately show ?thesis by auto
qed

lemma proper_relative: "proper e \<Longrightarrow> e \<noteq> [] \<and> \<not> is_abs e"
  by (cases e) (auto simp: proper_def is_abs_def)

text \<open>
  C34. A path built from a name stays inside the plugin's directory: its elements are those of the
  directory followed by names of entries, none of them \<open>..\<close>. Nothing else is refused: a relative name
  that resolves to such a path is accepted, however it is written, in particular every plain one.
\<close>

theorem state_path_stays_inside:
  assumes "pe_state_dir env \<noteq> []" and "name \<noteq> []"
  shows "(env_state_path env name \<noteq> [] \<longleftrightarrow> (\<forall>e \<in> set name. e \<noteq> [] \<and> \<not> is_abs e) \<and>
      (\<exists>rest. list_all proper rest \<and>
        path_elems (join_with ''/'' (pe_state_dir env # name)) = path_elems (pe_state_dir env) @ rest)) \<and>
    (env_state_path env name \<noteq> [] \<longrightarrow>
      is_abs (env_state_path env name) = is_abs (pe_state_dir env) \<and>
      (\<exists>rest. list_all proper rest \<and>
        path_elems (env_state_path env name) = path_elems (pe_state_dir env) @ rest)) \<and>
    (list_all proper name \<longrightarrow> path_elems (env_state_path env name) = path_elems (pe_state_dir env) @ name)"
proof -
  let ?dir = "pe_state_dir env" and ?joined = "clean_path (join_with ''/'' (pe_state_dir env # name))"
  note accepts = join_inside_accepts [OF assms]
  have path: "env_state_path env name = (case join_inside ?dir name of Inl x \<Rightarrow> [] | Inr p \<Rightarrow> p)"
    by (simp add: env_state_path_def)
  have some: "env_state_path env name \<noteq> [] \<longleftrightarrow> join_inside ?dir name = Inr (env_state_path env name)"
  proof (cases "join_inside ?dir name")
    case (Inr p)
    from iffD1 [OF accepts Inr] have "p = ?joined" by (elim conjE)
    with clean_path_not_Nil Inr show ?thesis by (simp add: path)
  qed (simp add: path)
  have accepted: "env_state_path env name = ?joined" if "join_inside ?dir name = Inr p" for p
    using that iffD1 [OF accepts that] by (simp add: path)
  have abs: "is_abs ?joined = is_abs ?dir" using is_abs_join [OF assms(1)] by simp
  show ?thesis
  proof (intro conjI impI)
    let ?good = "(\<forall>e \<in> set name. e \<noteq> [] \<and> \<not> is_abs e) \<and>
      (\<exists>rest. list_all proper rest \<and> path_elems (join_with ''/'' (?dir # name)) = path_elems ?dir @ rest)"
    have "?good \<longleftrightarrow> join_inside ?dir name = Inr ?joined"
      unfolding accepts by (simp add: conj_commute)
    then show "env_state_path env name \<noteq> [] \<longleftrightarrow> ?good"
      using some accepted clean_path_not_Nil by (metis path sum.case(2))
  next
    assume "env_state_path env name \<noteq> []"
    then have "join_inside ?dir name = Inr (env_state_path env name)" by (simp add: some)
    then show "is_abs (env_state_path env name) = is_abs ?dir" and
      "\<exists>rest. list_all proper rest \<and> path_elems (env_state_path env name) = path_elems ?dir @ rest"
      using accepts abs by auto
  next
    assume proper: "list_all proper name"
    then have "join_inside ?dir name = Inr ?joined"
      using accepts [of ?joined] path_elems_join_proper [OF assms(1) proper] proper_relative
      by (auto simp: list_all_iff)
    then show "path_elems (env_state_path env name) = path_elems ?dir @ name"
      using path_elems_join_proper [OF assms(1) proper] by (simp add: path)
  qed
qed

definition state_env :: plugin_env where
  "state_env = \<lparr>pe_plugin_id = ''my.plugin'', pe_plugin_root = [], pe_config_dir = [], pe_state_dir = ''/home/u/state/'',
     pe_socket_path = [], pe_bin_path = [], pe_workspace_id = [], pe_tab_id = [], pe_pane_id = [],
     pe_action_id = [], pe_entrypoint_id = [], pe_event = [], pe_context_json = [], pe_event_json = [],
     pe_clicked_url = [], pe_link_handler_id = []\<rparr>"

theorem state_path_stays_inside_witness:
  "path_elems (env_state_path state_env [''logs'', ''a.json'']) = [''home'', ''u'', ''state'', ''logs'', ''a.json''] \<and>
   env_state_path state_env [''logs'', ''../../b''] = []"
proof -
  have filled: "pe_state_dir state_env \<noteq> []" by (simp add: state_env_def)
  have elems: "path_elems (pe_state_dir state_env) = [''home'', ''u'', ''state'']"
    "path_elems (join_with ''/'' (pe_state_dir state_env # [''logs'', ''../../b''])) = [''home'', ''u'', ''b'']"
    by (code_simp, code_simp)
  show ?thesis
    using state_path_stays_inside [OF filled, of "[''logs'', ''a.json'']"]
      state_path_stays_inside [OF filled, of "[''logs'', ''../../b'']"]
    unfolding elems by (simp add: proper_def)
qed

subsection \<open>Writes across a crash\<close>

text \<open>
  What may be found after a crash: the files of one of the disks on the way, each flushed one with its
  contents, the others with any contents at all.
\<close>

definition crashed :: "disk \<Rightarrow> disk \<Rightarrow> bool" where
  "crashed d d' \<longleftrightarrow> (\<forall>q. (d q = None \<longleftrightarrow> d' q = None) \<and> (\<forall>f. d q = Some f \<and> fi_flushed f \<longrightarrow> d' q = Some f))"

definition survives :: "disk list \<Rightarrow> disk \<Rightarrow> bool" where
  "survives h d' \<longleftrightarrow> (\<exists>d \<in> set h. crashed d d')"

lemma crashed_flushed: "crashed d d' \<Longrightarrow> \<forall>f. d q = Some f \<longrightarrow> fi_flushed f \<Longrightarrow> d' q = d q"
  unfolding crashed_def by (metis not_None_eq)

text \<open>\<open>os.CreateTemp\<close> makes a file that did not exist, under a name of its own.\<close>

definition temp_fresh :: "faults \<Rightarrow> string \<Rightarrow> disk \<Rightarrow> bool" where
  "temp_fresh fa path d \<longleftrightarrow> (\<forall>dir pattern temp. fa_create fa dir pattern = Inr temp \<longrightarrow> d temp = None \<and> temp \<noteq> path)"

lemma change_simps [simp]: "hd (change f h) = f (hd h)" "set (change f h) = insert (f (hd h)) (set h)"
  by (simp_all add: change_def)

text \<open>Until the rename only the temporary file differs.\<close>

definition only_temp :: "disk \<Rightarrow> string \<Rightarrow> disk list \<Rightarrow> bool" where
  "only_temp d temp h \<longleftrightarrow> h \<noteq> [] \<and> (\<forall>d' \<in> set h. \<exists>t. d' = d(temp := t))"

lemma only_temp_hd: "only_temp d temp h \<Longrightarrow> \<exists>t. hd h = d(temp := t)"
  by (simp add: only_temp_def)

lemma only_temp_change:
  assumes "only_temp d temp h" "\<And>t. \<exists>t'. f (d(temp := t)) = d(temp := t')"
  shows "only_temp d temp (change f h)"
proof -
  obtain t where t: "hd h = d(temp := t)" using only_temp_hd [OF assms(1)] by blast
  obtain t' where "f (d(temp := t)) = d(temp := t')" using assms(2) by blast
  with assms(1) t show ?thesis by (auto simp: only_temp_def change_def)
qed

lemma only_temp_append: "\<exists>t'. append_to temp data (d(temp := t)) = d(temp := t')"
  by (auto simp: append_to_def split: option.split)

lemma fill_temp_history:
  assumes "only_temp d temp h" "hd h temp = Some \<lparr>fi_content = [], fi_flushed = False\<rparr>"
    and "fill_temp fa temp data h = (x, h')"
  shows "only_temp d temp h'" and "x = None \<Longrightarrow> hd h' temp = Some \<lparr>fi_content = data, fi_flushed = True\<rparr>"
proof -
  have changed: "only_temp d temp (change (append_to temp s) h)" for s
    by (rule only_temp_change [OF assms(1)]) (rule only_temp_append)
  have sync: "only_temp d temp (change (\<lambda>d. d(temp := map_option (\<lambda>f. f\<lparr>fi_flushed := True\<rparr>) (d temp))) g)"
    if "only_temp d temp g" for g by (rule only_temp_change [OF that]) auto
  from assms(3) show "only_temp d temp h'"
    using assms(1) changed sync
    by (auto simp: fill_temp_def os_write_def os_sync_def split: option.splits prod.splits)
  assume "x = None"
  with assms(2,3) show "hd h' temp = Some \<lparr>fi_content = data, fi_flushed = True\<rparr>"
    by (auto simp: fill_temp_def os_write_def os_sync_def append_to_def split: option.splits prod.splits)
qed

lemma os_remove_history:
  assumes "only_temp d temp h"
  shows "only_temp d temp (os_remove fa temp h)"
    and "fa_remove fa = None \<Longrightarrow> hd (os_remove fa temp h) = d(temp := None)"
  using only_temp_change [OF assms, of "\<lambda>d. d(temp := None)"] assms only_temp_hd [OF assms]
  by (auto simp: os_remove_def split: option.split)

lemma write_atomic_history:
  assumes "temp_fresh fa path d" "write_atomic fa path data [d] = (x, h)"
  shows "x \<noteq> None \<and> h = [d] \<or> (\<exists>temp g. d temp = None \<and> temp \<noteq> path \<and> only_temp d temp g \<and>
    (x \<noteq> None \<and> h = g \<and> (fa_remove fa = None \<longrightarrow> hd h = d) \<or>
     x = None \<and> h = d(path \<mapsto> \<lparr>fi_content = data, fi_flushed = True\<rparr>) # g))"
proof (cases "fa_create fa (dir_path path) (base_path path @ ''.tmp'')")
  case (Inl e)
  with assms(2) show ?thesis by (auto simp: write_atomic_def)
next
  case (Inr temp)
  then have temp: "d temp = None" "temp \<noteq> path" using assms(1) by (auto simp: temp_fresh_def)
  let ?h = "change (\<lambda>d. d(temp \<mapsto> \<lparr>fi_content = [], fi_flushed = False\<rparr>)) [d]"
  have start: "only_temp d temp ?h" by (auto simp: only_temp_def change_def intro: exI [of _ None] simp: temp fun_upd_idem)
  obtain x' g where fill: "fill_temp fa temp data ?h = (x', g)" by fastforce
  note history = fill_temp_history [OF start _ fill, simplified]
  from history(1) obtain t where t: "hd g = d(temp := t)" using only_temp_hd by blast
  have unset: "d(temp := None) = d" using temp by (simp add: fun_upd_idem)
  have out: "(x, h) = (case x' of Some e \<Rightarrow> (Some (StateError (''plugin: write '' @ path) e), os_remove fa temp g)
      | None \<Rightarrow> (case fa_rename fa of
          Some e \<Rightarrow> (Some (StateError (''plugin: replace '' @ path) (OsError e)), os_remove fa temp g)
        | None \<Rightarrow> (None, change (\<lambda>d. d(path := d temp, temp := None)) g)))"
    using assms(2) by (simp add: write_atomic_def Inr fill os_rename_def split: option.splits)
  show ?thesis
  proof (cases "x' = None \<and> fa_rename fa = None")
    case True
    with history(2) t have "t = Some \<lparr>fi_content = data, fi_flushed = True\<rparr>" by simp
    with True out t temp have "x = None" "h = d(path \<mapsto> \<lparr>fi_content = data, fi_flushed = True\<rparr>) # g"
      by (auto simp: change_def fun_upd_twist fun_upd_idem)
    with temp history(1) show ?thesis by blast
  next
    case False
    with out have "x \<noteq> None" "h = os_remove fa temp g" by (auto split: option.splits)
    with temp os_remove_history [OF history(1), of fa] unset show ?thesis by metis
  qed
qed

lemma survives_written:
  assumes history: "d temp = None" "temp \<noteq> path" "only_temp d temp g"
    and flushed: "\<forall>f. d path = Some f \<longrightarrow> fi_flushed f"
    and "survives (d(path \<mapsto> \<lparr>fi_content = data, fi_flushed = True\<rparr>) # g) d'"
  shows "(d' path = d path \<or> d' path = Some \<lparr>fi_content = data, fi_flushed = True\<rparr>) \<and>
    (\<forall>q f. q \<noteq> path \<and> d q = Some f \<and> fi_flushed f \<longrightarrow> d' q = Some f)"
proof -
  let ?new = "d(path \<mapsto> \<lparr>fi_content = data, fi_flushed = True\<rparr>)"
  obtain d1 where d1: "d1 \<in> insert ?new (set g)" "crashed d1 d'"
    using assms(5) unfolding survives_def by auto
  note same = crashed_flushed [OF d1(2)]
  from d1(1) history consider "d1 = ?new" | t where "d1 = d(temp := t)" unfolding only_temp_def by blast
  then show ?thesis
  proof cases
    case 1
    with same [of path] same show ?thesis by simp
  next
    case 2
    then have "d1 path = d path" using history by simp
    with same [of path] flushed have "d' path = d path" by simp
    moreover have "d' q = Some f" if "d q = Some f" "fi_flushed f" for q f
      using that same [of q] history(1) 2 by (cases "q = temp") simp_all
    ultimately show ?thesis by blast
  qed
qed

lemma survives_more: "survives g d' \<Longrightarrow> survives (d # g) d'"
  unfolding survives_def by auto

text \<open>
  C35. \<open>WriteState\<close> is atomic. Whatever fails and wherever the process or the machine stops, the file then
  holds its previous contents or the new ones, whole, and no other file is touched. When it reports
  success the file has the new contents, flushed, and nothing else is left; when it reports an error the file
  is as before, and so is the whole disk unless removing the temporary file failed too.
\<close>

theorem write_state_atomic:
  assumes path: "state_file quote env name = Inr path"
    and fresh: "temp_fresh fa path d" and flushed: "\<forall>f. d path = Some f \<longrightarrow> fi_flushed f"
    and run: "write_state quote fa env name data d = (x, h)"
  shows "(\<forall>d'. survives h d' \<longrightarrow>
      (d' path = d path \<or> d' path = Some \<lparr>fi_content = data, fi_flushed = True\<rparr>) \<and>
      (\<forall>q f. q \<noteq> path \<and> d q = Some f \<and> fi_flushed f \<longrightarrow> d' q = Some f)) \<and>
    (x = None \<longrightarrow> hd h = d(path \<mapsto> \<lparr>fi_content = data, fi_flushed = True\<rparr>)) \<and>
    (x \<noteq> None \<longrightarrow> hd h path = d path \<and> (fa_remove fa = None \<longrightarrow> hd h = d))"
proof -
  have start: "(d' path = d path \<or> d' path = Some \<lparr>fi_content = data, fi_flushed = True\<rparr>) \<and>
      (\<forall>q f. q \<noteq> path \<and> d q = Some f \<and> fi_flushed f \<longrightarrow> d' q = Some f)" if "survives [d] d'" for d'
    using that flushed crashed_flushed [of d d'] unfolding survives_def by simp
  show ?thesis
  proof (cases "fa_mkdir fa (dir_path path)")
    case (Some e)
    with run path have "x \<noteq> None" "h = [d]" by (auto simp: write_state_def)
    with start show ?thesis by auto
  next
    case None
    with run path have "write_atomic fa path data [d] = (x, h)" by (simp add: write_state_def)
    from write_atomic_history [OF fresh this] show ?thesis
    proof (elim disjE exE conjE)
      assume "x \<noteq> None" "h = [d]"
      with start show ?thesis by auto
    next
      fix temp g
      assume g: "d temp = None" "temp \<noteq> path" "only_temp d temp g" "x \<noteq> None" "h = g"
        "fa_remove fa = None \<longrightarrow> hd h = d"
      from g(3) obtain t where "hd g = d(temp := t)" using only_temp_hd by blast
      with g survives_written [OF g(1-3) flushed] survives_more show ?thesis by auto
    next
      fix temp g
      assume g: "d temp = None" "temp \<noteq> path" "only_temp d temp g" "x = None"
        "h = d(path \<mapsto> \<lparr>fi_content = data, fi_flushed = True\<rparr>) # g"
      with survives_written [OF g(1-3) flushed] show ?thesis by simp
    qed
  qed
qed

definition no_faults :: faults where
  "no_faults = \<lparr>fa_mkdir = (\<lambda>dir. None), fa_create = (\<lambda>dir pattern. Inr (dir @ ''/'' @ pattern @ ''7'')),
     fa_open = None, fa_write = None, fa_chmod = None, fa_sync = None, fa_close = None,
     fa_rename = None, fa_remove = None, fa_read = None\<rparr>"

definition old_disk :: disk where
  "old_disk = [''/home/u/state/a'' \<mapsto> \<lparr>fi_content = ''old'', fi_flushed = True\<rparr>]"

lemma sample_state_file: "state_file id state_env ''a'' = Inr ''/home/u/state/a''"
  by code_simp

theorem write_state_atomic_witness:
  "hd (snd (write_state id (no_faults\<lparr>fa_create := \<lambda>dir pattern. Inr ''/home/u/state/a.tmp7''\<rparr>) state_env ''a'' ''new'' old_disk)) =
     old_disk(''/home/u/state/a'' \<mapsto> \<lparr>fi_content = ''new'', fi_flushed = True\<rparr>) \<and>
   hd (snd (write_state id (no_faults\<lparr>fa_create := \<lambda>dir pattern. Inr ''/home/u/state/a.tmp7'', fa_write := Some (2, ''disk full'')\<rparr>)
     state_env ''a'' ''new'' old_disk)) = old_disk"
proof -
  let ?fa = "no_faults\<lparr>fa_create := \<lambda>dir pattern. Inr ''/home/u/state/a.tmp7''\<rparr>"
  let ?fb = "no_faults\<lparr>fa_create := \<lambda>dir pattern. Inr ''/home/u/state/a.tmp7'', fa_write := Some (2, ''disk full'')\<rparr>"
  have fresh: "temp_fresh ?fa ''/home/u/state/a'' old_disk" "temp_fresh ?fb ''/home/u/state/a'' old_disk"
    by (simp_all add: temp_fresh_def old_disk_def)
  have flushed: "\<forall>f. old_disk ''/home/u/state/a'' = Some f \<longrightarrow> fi_flushed f" by (simp add: old_disk_def)
  have "fst (write_state id ?fa state_env ''a'' ''new'' old_disk) = None"
    "fst (write_state id ?fb state_env ''a'' ''new'' old_disk) \<noteq> None"
    by (simp_all add: write_state_def sample_state_file write_atomic_def fill_temp_def os_write_def os_sync_def
        os_rename_def no_faults_def)
  moreover obtain x h where a: "write_state id ?fa state_env ''a'' ''new'' old_disk = (x, h)" by fastforce
  moreover obtain y g where b: "write_state id ?fb state_env ''a'' ''new'' old_disk = (y, g)" by fastforce
  ultimately show ?thesis
    using write_state_atomic [OF sample_state_file fresh(1) flushed a]
      write_state_atomic [OF sample_state_file fresh(2) flushed b] by (simp add: no_faults_def)
qed

subsection \<open>Records\<close>

definition content :: "disk \<Rightarrow> string \<Rightarrow> string" where
  "content d path = (case d path of None \<Rightarrow> [] | Some f \<Rightarrow> fi_content f)"

text \<open>
  Appends of any number of processes, each with its own faults. The data of a call goes to the end of
  the file in one write, so however the processes overlap their writes come one after the other.
\<close>

fun append_all ::
  "(string \<Rightarrow> string) \<Rightarrow> ('a \<Rightarrow> (string, string) result) \<Rightarrow> plugin_env \<Rightarrow> string \<Rightarrow> (faults \<times> 'a) list \<Rightarrow> disk \<Rightarrow>
    state_error option list \<times> disk" where
  "append_all quote marshal env name [] d = ([], d)"
| "append_all quote marshal env name ((fa, v) # ops) d =
    (let (x, h) = append_state_jsonl quote marshal fa env name v d;
         (xs, d') = append_all quote marshal env name ops (hd h)
     in (x # xs, d'))"

definition line_of :: "('a \<Rightarrow> (string, string) result) \<Rightarrow> 'a \<Rightarrow> string" where
  "line_of marshal v = (case marshal v of Inl e \<Rightarrow> [] | Inr line \<Rightarrow> line)"

lemma os_write_appends:
  assumes "os_write fa path data h = (y, g)" "hd h path \<noteq> None"
  shows "\<exists>n. content (hd g) path = content (hd h) path @ take n data \<and> (\<forall>q. q \<noteq> path \<longrightarrow> hd g q = hd h q) \<and>
    (y = None \<longrightarrow> n = length data)"
proof -
  have app: "content (append_to path s (hd h)) path = content (hd h) path @ s"
    "q \<noteq> path \<Longrightarrow> append_to path s (hd h) q = hd h q" for s q
    using assms(2) by (auto simp: append_to_def content_def)
  show ?thesis
  proof (cases "fa_write fa")
    case None
    with assms(1) app show ?thesis by (intro exI [of _ "length data"]) (auto simp: os_write_def)
  next
    case (Some ne)
    with assms(1) app show ?thesis by (intro exI [of _ "fst ne"]) (auto simp: os_write_def split: prod.splits)
  qed
qed

lemma append_one:
  assumes "state_file quote env name = Inr path" "append_state_jsonl quote marshal fa env name v d = (x, h)"
  shows "(\<forall>q. q \<noteq> path \<longrightarrow> hd h q = d q) \<and>
    (\<exists>n. content (hd h) path = content d path @ take n (line_of marshal v @ [CHR 0x0A])) \<and>
    (x = None \<longrightarrow> content (hd h) path = content d path @ line_of marshal v @ [CHR 0x0A])"
proof -
  define d1 where "d1 = (if d path = None then d(path \<mapsto> \<lparr>fi_content = [], fi_flushed = False\<rparr>) else d)"
  have d1: "content d1 path = content d path" "d1 path \<noteq> None" "\<forall>q. q \<noteq> path \<longrightarrow> d1 q = d q"
    by (simp_all add: d1_def content_def)
  have opened: "change (\<lambda>d. if d path = None then d(path \<mapsto> \<lparr>fi_content = [], fi_flushed = False\<rparr>) else d) [d] = [d1, d]"
    by (simp add: change_def d1_def)
  consider "x \<noteq> None" "h = [d]" |
    line y where "marshal v = Inr line" "os_write fa path (line @ [CHR 0x0A]) [d1, d] = (y, h)" "x = None \<longrightarrow> y = None"
  proof (cases "\<exists>line. marshal v = Inr line \<and> fa_mkdir fa (dir_path path) = None \<and> fa_open fa = None")
    case True
    then obtain line where line: "marshal v = Inr line" "fa_mkdir fa (dir_path path) = None" "fa_open fa = None" by blast
    obtain y g where w: "os_write fa path (line @ [CHR 0x0A]) [d1, d] = (y, g)" by fastforce
    from assms line w have "h = g" "x = None \<longrightarrow> y = None"
      by (auto simp: append_state_jsonl_def opened split: option.splits)
    with line w that(2) show ?thesis by simp
  next
    case False
    with assms have "x \<noteq> None" "h = [d]" by (auto simp: append_state_jsonl_def split: sum.splits option.splits)
    then show ?thesis by (rule that(1))
  qed
  then show ?thesis
  proof cases
    case 1
    then show ?thesis by (auto intro: exI [of _ 0])
  next
    case (2 line y)
    obtain n where n: "content (hd h) path = content d1 path @ take n (line @ [CHR 0x0A])"
      "\<forall>q. q \<noteq> path \<longrightarrow> hd h q = d1 q" "y = None \<longrightarrow> n = length (line @ [CHR 0x0A])"
      using os_write_appends [OF 2(2)] d1(2) by auto
    have own: "line_of marshal v = line" by (simp add: line_of_def 2)
    from n(2) d1(3) have "\<forall>q. q \<noteq> path \<longrightarrow> hd h q = d q" by simp
    moreover have "content (hd h) path = content d path @ take n (line_of marshal v @ [CHR 0x0A])"
      using n(1) d1(1) own by simp
    moreover have "x = None \<Longrightarrow> content (hd h) path = content d path @ line_of marshal v @ [CHR 0x0A]"
      using n(1,3) 2(3) d1(1) own by simp
    ultimately show ?thesis by blast
  qed
qed

lemma append_all_content:
  assumes "state_file quote env name = Inr path"
  shows "append_all quote marshal env name ops d = (xs, d') \<Longrightarrow>
    (\<forall>q. q \<noteq> path \<longrightarrow> d' q = d q) \<and> (\<exists>s. content d' path = content d path @ s) \<and>
    (set xs \<subseteq> {None} \<longrightarrow>
      content d' path = content d path @ concat (map (\<lambda>(fa, v). line_of marshal v @ [CHR 0x0A]) ops))"
proof (induction ops arbitrary: d xs)
  case (Cons op ops)
  obtain fa v where op: "op = (fa, v)" by fastforce
  obtain x h where one: "append_state_jsonl quote marshal fa env name v d = (x, h)" by fastforce
  obtain ys where rest: "append_all quote marshal env name ops (hd h) = (ys, d')" and xs: "xs = x # ys"
    using Cons.prems one op by (auto split: prod.splits)
  from append_one [OF assms one] Cons.IH [OF rest] xs op show ?case by auto
qed simp

lemma split_lines:
  "\<forall>l \<in> set ls. sep \<notin> set l \<Longrightarrow> split_on sep (concat (map (\<lambda>l. l @ [sep]) ls)) = ls @ [[]]"
  by (induction ls) (simp_all add: split_on_append)


definition string_line :: "string \<Rightarrow> (string, string) result" where
  "string_line s = Inr (print_json (JStr s))"

lemma string_line_one: "\<forall>v line. string_line v = Inr line \<longrightarrow> CHR 0x0A \<notin> set line"
proof (intro allI impI notI)
  fix v line
  assume "string_line v = Inr line" "CHR 0x0A \<in> set line"
  then have "CHR 0x0A \<in> set (print_json (JStr v))" by (simp add: string_line_def)
  from print_json_printable [OF _ this] show False by simp
qed


end
