(* ===== verification/Socket_Path.thy ===== *)
theory Socket_Path
  imports Paths Plugin
begin

text \<open>
  Which socket a session has: \<open>herdr/socketpath.go\<close>, with the configuration directory of
  \<open>herdr/dial_unix.go\<close>. \<open>lookup\<close> is the environment, \<open>temp_dir\<close> what \<open>os.TempDir\<close> returns and \<open>quote\<close> is
  \<open>strconv.Quote\<close>. An error is its text.
\<close>

subsection \<open>The code\<close>

definition max_session_name_len :: nat where
  "max_session_name_len = 64"

definition is_session_name_byte :: "char \<Rightarrow> bool" where
  "is_session_name_byte c \<longleftrightarrow> in_range 97 122 c \<or> in_range 65 90 c \<or> in_range 48 57 c \<or>
    c = CHR ''.'' \<or> c = CHR ''_'' \<or> c = CHR ''-''"

definition normalize_session_name :: "(string \<Rightarrow> string) \<Rightarrow> string \<Rightarrow> (string, string) result" where
  "normalize_session_name quote name =
    (if name = ''default'' then ok []
     else if length name > max_session_name_len
     then err (''session name '' @ quote name @ '' is longer than '' @ format_uint max_session_name_len @ '' bytes'')
     else if name = ''.'' \<or> name = ''..'' then err (''session name '' @ quote name @ '' is not allowed'')
     else if list_all is_session_name_byte name then ok name
     else err (''session name '' @ quote name @ '' may only contain ASCII letters, digits, '' @
       [CHR 0x27] @ ''.'' @ [CHR 0x27] @ '', '' @ [CHR 0x27] @ ''_'' @ [CHR 0x27] @ '' and '' @
       [CHR 0x27] @ ''-'' @ [CHR 0x27]))"

definition platform_config_dir :: "env_lookup \<Rightarrow> string \<Rightarrow> string" where
  "platform_config_dir lookup temp_dir =
    (let home = get_var lookup ''HOME''
     in if home \<noteq> [] then join_paths [home, ''.config'', ''herdr''] else join_paths [temp_dir, ''herdr''])"

definition config_dir :: "env_lookup \<Rightarrow> string \<Rightarrow> string" where
  "config_dir lookup temp_dir =
    (let dir = get_var lookup ''XDG_CONFIG_HOME''
     in if dir \<noteq> [] then join_paths [dir, ''herdr''] else platform_config_dir lookup temp_dir)"

definition session_socket_path :: "env_lookup \<Rightarrow> string \<Rightarrow> string \<Rightarrow> string" where
  "session_socket_path lookup temp_dir name =
    (let dir = config_dir lookup temp_dir
     in if name = [] then join_paths [dir, ''herdr.sock''] else join_paths [dir, ''sessions'', name, ''herdr.sock''])"

definition resolve_socket_path ::
  "(string \<Rightarrow> string) \<Rightarrow> env_lookup \<Rightarrow> string \<Rightarrow> string \<Rightarrow> (string, string) result" where
  "resolve_socket_path quote lookup temp_dir session =
    (if session \<noteq> []
     then (case normalize_session_name quote session of
       Inl e \<Rightarrow> err e | Inr name \<Rightarrow> ok (session_socket_path lookup temp_dir name))
     else
       (let path = get_var lookup ''HERDR_SOCKET_PATH''
        in if path \<noteq> [] then ok path
           else
             (let session = get_var lookup ''HERDR_SESSION''
              in if session \<noteq> []
                 then (case normalize_session_name quote session of
                   Inl e \<Rightarrow> err (''herdr: HERDR_SESSION: '' @ e)
                 | Inr name \<Rightarrow> ok (session_socket_path lookup temp_dir name))
                 else ok (session_socket_path lookup temp_dir []))))"

subsection \<open>Its facts\<close>

definition session_name_ok :: "string \<Rightarrow> bool" where
  "session_name_ok s \<longleftrightarrow> s = ''default'' \<or>
    length s \<le> 64 \<and> s \<noteq> ''.'' \<and> s \<noteq> ''..'' \<and> (\<forall>c \<in> set s. is_session_name_byte c)"

lemma normalize_session_name_iff:
  "normalize_session_name quote s = Inr n \<longleftrightarrow> session_name_ok s \<and> n = (if s = ''default'' then [] else s)"
  by (auto simp: normalize_session_name_def session_name_ok_def max_session_name_len_def list_all_iff)

lemma session_name_proper:
  assumes "session_name_ok s" "s \<noteq> []"
  shows "proper s"
proof -
  have "\<not> is_session_name_byte (CHR ''/'')" by (simp add: is_session_name_byte_def in_range_def)
  moreover have "CHR ''/'' \<notin> set ''default''" by simp
  ultimately show ?thesis using assms unfolding session_name_ok_def proper_def by auto
qed

lemma config_dir_not_Nil: "config_dir lookup temp_dir \<noteq> []"
  by (simp add: config_dir_def platform_config_dir_def Let_def clean_path_not_Nil)

lemma session_socket_elems:
  assumes "n = [] \<or> proper n"
  shows "path_elems (session_socket_path lookup temp_dir n) =
    path_elems (config_dir lookup temp_dir) @ (if n = [] then [] else [''sessions'', n]) @ [''herdr.sock'']"
proof -
  have words: "proper ''sessions''" "proper ''herdr.sock''" by (simp_all add: proper_def)
  have "proper n" if "n \<noteq> []" using assms that by blast
  with words path_elems_join_proper [OF config_dir_not_Nil [of lookup temp_dir], of "[''herdr.sock'']"]
    path_elems_join_proper [OF config_dir_not_Nil [of lookup temp_dir], of "[''sessions'', n, ''herdr.sock'']"]
  show ?thesis by (simp add: session_socket_path_def config_dir_not_Nil)
qed

text \<open>
  C37. A named session resolves exactly when its name is allowed, to \<open>herdr.sock\<close> in its own directory
  under the configuration directory, whatever \<open>HERDR_SOCKET_PATH\<close> and \<open>HERDR_SESSION\<close> hold; no two
  names share a socket and no name reaches another directory. Without a name \<open>HERDR_SOCKET_PATH\<close> counts,
  then \<open>HERDR_SESSION\<close>, then the default session.
\<close>

theorem socket_path_of_session:
  assumes "session \<noteq> []"
  shows "(session_name_ok session \<longleftrightarrow> (\<exists>p. resolve_socket_path quote lookup temp_dir session = Inr p)) \<and>
    (\<forall>p. resolve_socket_path quote lookup temp_dir session = Inr p \<longrightarrow>
      path_elems p = path_elems (config_dir lookup temp_dir) @
        (if session = ''default'' then [] else [''sessions'', session]) @ [''herdr.sock''] \<and>
      (\<forall>other. other \<noteq> [] \<and> resolve_socket_path quote lookup temp_dir other = Inr p \<longrightarrow> other = session)) \<and>
    resolve_socket_path quote (lookup(''HERDR_SOCKET_PATH'' := v, ''HERDR_SESSION'' := w)) temp_dir session =
      resolve_socket_path quote lookup temp_dir session \<and>
    resolve_socket_path quote (lookup(''HERDR_SOCKET_PATH'' \<mapsto> session)) temp_dir [] = Inr session \<and>
    resolve_socket_path quote (lookup(''HERDR_SOCKET_PATH'' := None, ''HERDR_SESSION'' \<mapsto> session)) temp_dir [] =
      (case resolve_socket_path quote lookup temp_dir session of
         Inl e \<Rightarrow> Inl (''herdr: HERDR_SESSION: '' @ e) | Inr p \<Rightarrow> Inr p) \<and>
    resolve_socket_path quote (lookup(''HERDR_SOCKET_PATH'' := None, ''HERDR_SESSION'' := None)) temp_dir [] =
      resolve_socket_path quote lookup temp_dir ''default''"
proof -
  let ?r = "resolve_socket_path quote lookup temp_dir"
  have named: "?r s = Inr p \<longleftrightarrow> session_name_ok s \<and>
      p = session_socket_path lookup temp_dir (if s = ''default'' then [] else s)" if "s \<noteq> []" for s p
  proof (cases "normalize_session_name quote s")
    case (Inl e)
    with that have "?r s = Inl e" by (simp add: resolve_socket_path_def)
    with Inl normalize_session_name_iff [of quote s "if s = ''default'' then [] else s"] show ?thesis by simp
  next
    case (Inr n)
    with that have "?r s = Inr (session_socket_path lookup temp_dir n)" by (simp add: resolve_socket_path_def)
    with iffD1 [OF normalize_session_name_iff Inr] show ?thesis by (simp add: eq_commute)
  qed
  have elems: "path_elems p = path_elems (config_dir lookup temp_dir) @
      (if s = ''default'' then [] else [''sessions'', s]) @ [''herdr.sock'']" if "?r s = Inr p" "s \<noteq> []" for s p
  proof -
    let ?n = "if s = ''default'' then [] else s"
    from named [OF that(2)] that(1) have "session_name_ok s" and p: "p = session_socket_path lookup temp_dir ?n" by blast+
    then have "?n = [] \<or> proper ?n" using session_name_proper that(2) by simp
    from session_socket_elems [OF this, of lookup temp_dir] that(2) p show ?thesis by (cases "s = ''default''") simp_all
  qed
  have config [simp]: "config_dir (lookup(''HERDR_SOCKET_PATH'' := v, ''HERDR_SESSION'' := w)) temp_dir = config_dir lookup temp_dir" for v w
    by (simp add: config_dir_def platform_config_dir_def get_var_def Let_def)
  then have path: "session_socket_path (lookup(''HERDR_SOCKET_PATH'' := v, ''HERDR_SESSION'' := w)) temp_dir n =
      session_socket_path lookup temp_dir n" for v w n
    by (simp add: session_socket_path_def)
  show ?thesis
  proof (intro conjI allI impI)
    show "session_name_ok session \<longleftrightarrow> (\<exists>p. ?r session = Inr p)" using named [OF assms] by blast
  next
    fix p
    assume "?r session = Inr p"
    then show "path_elems p = path_elems (config_dir lookup temp_dir) @
        (if session = ''default'' then [] else [''sessions'', session]) @ [''herdr.sock'']"
      using elems assms by blast
  next
    fix p other
    assume r: "?r session = Inr p" "other \<noteq> [] \<and> ?r other = Inr p"
    then show "other = session" using elems [of session p] elems [of other p] assms by (auto split: if_splits)
  qed (use assms path [of None] in \<open>simp_all add: resolve_socket_path_def path get_var_def normalize_session_name_def
      split: sum.split\<close>)
qed

theorem socket_path_of_session_witness:
  "\<exists>p. resolve_socket_path id [''HOME'' \<mapsto> ''/home/u''] ''/tmp'' ''work'' = Inr p \<and>
    path_elems p = [''home'', ''u'', ''.config'', ''herdr'', ''sessions'', ''work'', ''herdr.sock'']"
proof -
  have "session_name_ok ''work''" by code_simp
  moreover have "path_elems (config_dir [''HOME'' \<mapsto> ''/home/u''] ''/tmp'') = [''home'', ''u'', ''.config'', ''herdr'']"
    by code_simp
  ultimately show ?thesis
    using socket_path_of_session [where session = "''work''" and quote = id and lookup = "[''HOME'' \<mapsto> ''/home/u'']"
        and temp_dir = "''/tmp''"] by auto
qed

end
