(* ===== verification/Api_Enums.thy ===== *)
theory Api_Enums
  imports Api_Types
begin

text \<open>
  The string enums of \<open>herdr/types_gen.go\<close> and \<open>EventKind\<close> of \<open>herdr/events_gen.go\<close>: a type of strings each, with
  the values of its constants in their order.
\<close>

definition agent_session_ref_kind_values :: "agent_session_ref_kind list" where
  "agent_session_ref_kind_values = [''id'', ''path'']"

definition agent_status_values :: "agent_status list" where
  "agent_status_values = [''idle'', ''working'', ''blocked'', ''done'', ''unknown'']"

type_synonym agent_view_builtin_field = string

definition agent_view_builtin_field_values :: "agent_view_builtin_field list" where
  "agent_view_builtin_field_values = [''status'', ''workspace_id'', ''tab_id'', ''pane_id'', ''agent'', ''seen'', ''state_change_seq'']"

type_synonym agent_view_builtin_sort_field = string

definition agent_view_builtin_sort_field_values :: "agent_view_builtin_sort_field list" where
  "agent_view_builtin_sort_field_values = [''workspace_order'', ''tab_order'', ''pane_order'', ''attention'', ''status'', ''agent'', ''seen'', ''state_change_seq'']"

type_synonym agent_view_context = string

definition agent_view_context_values :: "agent_view_context list" where
  "agent_view_context_values = [''current_workspace_id'', ''current_tab_id'']"

type_synonym agent_view_sort_order = string

definition agent_view_sort_order_values :: "agent_view_sort_order list" where
  "agent_view_sort_order_values = [''asc'', ''desc'']"

type_synonym client_window_title_reason = string

definition client_window_title_reason_values :: "client_window_title_reason list" where
  "client_window_title_reason_values = [''set'', ''cleared'', ''no_foreground_client'']"

type_synonym config_reload_status = string

definition config_reload_status_values :: "config_reload_status list" where
  "config_reload_status_values = [''applied'', ''partial'', ''failed'']"

type_synonym integration_state = string

definition integration_state_values :: "integration_state list" where
  "integration_state_values = [''not_installed'', ''current'', ''outdated'']"

type_synonym integration_target = string

definition integration_target_values :: "integration_target list" where
  "integration_target_values = [''pi'', ''omp'', ''claude'', ''codex'', ''copilot'', ''devin'', ''droid'', ''kimi'', ''opencode'', ''kilo'', ''hermes'', ''qodercli'', ''qwen'', ''cursor'', ''mastracode'', ''antigravity_cli'', ''grok'']"

type_synonym notification_show_reason = string

definition notification_show_reason_values :: "notification_show_reason list" where
  "notification_show_reason_values = [''shown'', ''disabled'', ''rate_limited'', ''no_foreground_client'', ''busy'']"

type_synonym notification_show_sound = string

definition notification_show_sound_values :: "notification_show_sound list" where
  "notification_show_sound_values = [''none'', ''done'', ''request'']"

type_synonym pane_agent_state = string

definition pane_agent_state_values :: "pane_agent_state list" where
  "pane_agent_state_values = [''idle'', ''working'', ''blocked'', ''unknown'']"

type_synonym pane_copy_motion = string

definition pane_copy_motion_values :: "pane_copy_motion list" where
  "pane_copy_motion_values = [''line_end'', ''first_non_blank'', ''next_word_start'', ''previous_word_start'', ''next_word_end'', ''next_big_word_start'', ''previous_big_word_start'', ''next_big_word_end'', ''previous_paragraph'', ''next_paragraph'']"

type_synonym pane_copy_search_direction = string

definition pane_copy_search_direction_values :: "pane_copy_search_direction list" where
  "pane_copy_search_direction_values = [''forward'', ''backward'']"

type_synonym pane_direction = string

definition pane_direction_values :: "pane_direction list" where
  "pane_direction_values = [''left'', ''right'', ''up'', ''down'']"

type_synonym pane_focus_direction_reason = string

definition pane_focus_direction_reason_values :: "pane_focus_direction_reason list" where
  "pane_focus_direction_reason_values = [''no_neighbor'']"

type_synonym pane_move_reason = string

definition pane_move_reason_values :: "pane_move_reason list" where
  "pane_move_reason_values = [''same_tab'', ''zoomed_tab'']"

type_synonym pane_resize_reason = string

definition pane_resize_reason_values :: "pane_resize_reason list" where
  "pane_resize_reason_values = [''unchanged'']"

type_synonym pane_right_click_target = string

definition pane_right_click_target_values :: "pane_right_click_target list" where
  "pane_right_click_target_values = [''herdr'', ''pane'']"

type_synonym pane_swap_reason = string

definition pane_swap_reason_values :: "pane_swap_reason list" where
  "pane_swap_reason_values = [''no_neighbor'', ''same_pane'', ''not_found'', ''cross_tab'']"

type_synonym pane_zoom_mode = string

definition pane_zoom_mode_values :: "pane_zoom_mode list" where
  "pane_zoom_mode_values = [''toggle'', ''on'', ''off'']"

type_synonym pane_zoom_reason = string

definition pane_zoom_reason_values :: "pane_zoom_reason list" where
  "pane_zoom_reason_values = [''single_pane'', ''already_zoomed'', ''already_unzoomed'']"

type_synonym plugin_action_context = string

definition plugin_action_context_values :: "plugin_action_context list" where
  "plugin_action_context_values = [''global'', ''workspace'', ''tab'', ''pane'', ''selection'']"

type_synonym plugin_command_status = string

definition plugin_command_status_values :: "plugin_command_status list" where
  "plugin_command_status_values = [''running'', ''succeeded'', ''failed'']"

type_synonym plugin_pane_placement = string

definition plugin_pane_placement_values :: "plugin_pane_placement list" where
  "plugin_pane_placement_values = [''overlay'', ''popup'', ''split'', ''tab'', ''zoomed'']"

type_synonym plugin_platform = string

definition plugin_platform_values :: "plugin_platform list" where
  "plugin_platform_values = [''linux'', ''macos'', ''windows'']"

type_synonym plugin_source_kind = string

definition plugin_source_kind_values :: "plugin_source_kind list" where
  "plugin_source_kind_values = [''local'', ''github'']"

definition read_format_values :: "read_format list" where
  "read_format_values = [''text'', ''ansi'']"

definition read_source_values :: "read_source list" where
  "read_source_values = [''visible'', ''recent'', ''recent_unwrapped'', ''detection'']"

definition split_direction_values :: "split_direction list" where
  "split_direction_values = [''right'', ''down'']"

type_synonym toast_herdr_position = string

definition toast_herdr_position_values :: "toast_herdr_position list" where
  "toast_herdr_position_values = [''top-left'', ''top-right'', ''bottom-left'', ''bottom-right'']"

type_synonym event_kind = string

definition event_kind_values :: "event_kind list" where
  "event_kind_values = [''workspace_created'', ''workspace_updated'', ''workspace_metadata_updated'', ''workspace_closed'', ''workspace_renamed'', ''workspace_moved'', ''workspace_reordered'', ''workspace_focused'', ''worktree_created'', ''worktree_opened'', ''worktree_removed'', ''tab_created'', ''tab_closed'', ''tab_renamed'', ''tab_moved'', ''tab_focused'', ''pane_created'', ''pane_closed'', ''pane_updated'', ''pane_focused'', ''pane_moved'', ''pane_output_changed'', ''pane_exited'', ''pane_agent_detected'', ''pane_agent_status_changed'', ''layout_updated'']"

lemmas enum_values_defs =
  agent_session_ref_kind_values_def
  agent_status_values_def
  agent_view_builtin_field_values_def
  agent_view_builtin_sort_field_values_def
  agent_view_context_values_def
  agent_view_sort_order_values_def
  client_window_title_reason_values_def
  config_reload_status_values_def
  integration_state_values_def
  integration_target_values_def
  notification_show_reason_values_def
  notification_show_sound_values_def
  pane_agent_state_values_def
  pane_copy_motion_values_def
  pane_copy_search_direction_values_def
  pane_direction_values_def
  pane_focus_direction_reason_values_def
  pane_move_reason_values_def
  pane_resize_reason_values_def
  pane_right_click_target_values_def
  pane_swap_reason_values_def
  pane_zoom_mode_values_def
  pane_zoom_reason_values_def
  plugin_action_context_values_def
  plugin_command_status_values_def
  plugin_pane_placement_values_def
  plugin_platform_values_def
  plugin_source_kind_values_def
  read_format_values_def
  read_source_values_def
  split_direction_values_def
  toast_herdr_position_values_def
  event_kind_values_def

text \<open>No enum has two constants with the same value.\<close>

lemma enum_values_distinct:
  "distinct agent_session_ref_kind_values"
  "distinct agent_status_values"
  "distinct agent_view_builtin_field_values"
  "distinct agent_view_builtin_sort_field_values"
  "distinct agent_view_context_values"
  "distinct agent_view_sort_order_values"
  "distinct client_window_title_reason_values"
  "distinct config_reload_status_values"
  "distinct integration_state_values"
  "distinct integration_target_values"
  "distinct notification_show_reason_values"
  "distinct notification_show_sound_values"
  "distinct pane_agent_state_values"
  "distinct pane_copy_motion_values"
  "distinct pane_copy_search_direction_values"
  "distinct pane_direction_values"
  "distinct pane_focus_direction_reason_values"
  "distinct pane_move_reason_values"
  "distinct pane_resize_reason_values"
  "distinct pane_right_click_target_values"
  "distinct pane_swap_reason_values"
  "distinct pane_zoom_mode_values"
  "distinct pane_zoom_reason_values"
  "distinct plugin_action_context_values"
  "distinct plugin_command_status_values"
  "distinct plugin_pane_placement_values"
  "distinct plugin_platform_values"
  "distinct plugin_source_kind_values"
  "distinct read_format_values"
  "distinct read_source_values"
  "distinct split_direction_values"
  "distinct toast_herdr_position_values"
  "distinct event_kind_values"
  by (simp_all add: enum_values_defs)

end
