(* ===== verification/Info_Types.thy ===== *)
theory Info_Types
  imports Api_Enums
begin

text \<open>
  The structs of \<open>herdr/types_gen.go\<close> that only responses carry: what the server tells about manifests,
  plugins, processes and the outcome of a command. As in \<open>Api_Types\<close> each is a record, its field
  names prefixed by the name of the struct, with its zero value and its \<open>Clone\<close>.
\<close>

record agent_manifest_info =
  agent_manifest_info_active_version :: "string optional"
  agent_manifest_info_agent :: string
  agent_manifest_info_cached_remote_version :: "string optional"
  agent_manifest_info_local_override_shadowing_remote :: bool
  agent_manifest_info_remote_last_checked_unix :: "64 word optional"
  agent_manifest_info_remote_update_error :: "string optional"
  agent_manifest_info_remote_update_result :: "string optional"
  agent_manifest_info_source :: string
  agent_manifest_info_source_kind :: string
  agent_manifest_info_warning :: "string optional"

definition agent_manifest_info_zero :: agent_manifest_info where
  "agent_manifest_info_zero = \<lparr>agent_manifest_info_active_version = Absent,
     agent_manifest_info_agent = [],
     agent_manifest_info_cached_remote_version = Absent,
     agent_manifest_info_local_override_shadowing_remote = False,
     agent_manifest_info_remote_last_checked_unix = Absent,
     agent_manifest_info_remote_update_error = Absent,
     agent_manifest_info_remote_update_result = Absent,
     agent_manifest_info_source = [],
     agent_manifest_info_source_kind = [],
     agent_manifest_info_warning = Absent\<rparr>"

definition agent_manifest_info_clone :: "agent_manifest_info \<Rightarrow> agent_manifest_info" where
  "agent_manifest_info_clone v = (let out = v in out)"

lemma agent_manifest_info_clone_id [clone_simps]: "agent_manifest_info_clone = id"
  by (simp add: fun_eq_iff agent_manifest_info_clone_def clone_simps)

record integration_install_result =
  integration_install_result_messages :: "string slice"

definition integration_install_result_zero :: integration_install_result where
  "integration_install_result_zero = \<lparr>integration_install_result_messages = None\<rparr>"

definition integration_install_result_clone :: "integration_install_result \<Rightarrow> integration_install_result" where
  "integration_install_result_clone v =
    (let out = v;
      out = out\<lparr>integration_install_result_messages := clone_slice (\<lambda>x. x) (integration_install_result_messages v)\<rparr>
     in out)"

lemma integration_install_result_clone_id [clone_simps]: "integration_install_result_clone = id"
  by (simp add: fun_eq_iff integration_install_result_clone_def clone_simps)

record integration_info =
  integration_info_available :: bool
  integration_info_command :: string
  integration_info_label :: string
  integration_info_state :: integration_state
  integration_info_target :: integration_target

definition integration_info_zero :: integration_info where
  "integration_info_zero = \<lparr>integration_info_available = False,
     integration_info_command = [],
     integration_info_label = [],
     integration_info_state = [],
     integration_info_target = []\<rparr>"

definition integration_info_clone :: "integration_info \<Rightarrow> integration_info" where
  "integration_info_clone v = (let out = v in out)"

lemma integration_info_clone_id [clone_simps]: "integration_info_clone = id"
  by (simp add: fun_eq_iff integration_info_clone_def clone_simps)

record integration_uninstall_result =
  integration_uninstall_result_messages :: "string slice"

definition integration_uninstall_result_zero :: integration_uninstall_result where
  "integration_uninstall_result_zero = \<lparr>integration_uninstall_result_messages = None\<rparr>"

definition integration_uninstall_result_clone :: "integration_uninstall_result \<Rightarrow> integration_uninstall_result" where
  "integration_uninstall_result_clone v =
    (let out = v;
      out = out\<lparr>integration_uninstall_result_messages := clone_slice (\<lambda>x. x) (integration_uninstall_result_messages v)\<rparr>
     in out)"

lemma integration_uninstall_result_clone_id [clone_simps]: "integration_uninstall_result_clone = id"
  by (simp add: fun_eq_iff integration_uninstall_result_clone_def clone_simps)

record pane_text_point =
  pane_text_point_col :: "16 word"
  pane_text_point_row :: "32 word"

definition pane_text_point_zero :: pane_text_point where
  "pane_text_point_zero = \<lparr>pane_text_point_col = 0,
     pane_text_point_row = 0\<rparr>"

definition pane_text_point_clone :: "pane_text_point \<Rightarrow> pane_text_point" where
  "pane_text_point_clone v = (let out = v in out)"

lemma pane_text_point_clone_id [clone_simps]: "pane_text_point_clone = id"
  by (simp add: fun_eq_iff pane_text_point_clone_def clone_simps)

record pane_text_range =
  pane_text_range_end :: pane_text_point
  pane_text_range_start :: pane_text_point

definition pane_text_range_zero :: pane_text_range where
  "pane_text_range_zero = \<lparr>pane_text_range_end = pane_text_point_zero,
     pane_text_range_start = pane_text_point_zero\<rparr>"

definition pane_text_range_clone :: "pane_text_range \<Rightarrow> pane_text_range" where
  "pane_text_range_clone v =
    (let out = v;
      out = out\<lparr>pane_text_range_end := pane_text_point_clone (pane_text_range_end v)\<rparr>;
      out = out\<lparr>pane_text_range_start := pane_text_point_clone (pane_text_range_start v)\<rparr>
     in out)"

lemma pane_text_range_clone_id [clone_simps]: "pane_text_range_clone = id"
  by (simp add: fun_eq_iff pane_text_range_clone_def clone_simps)

record pane_edges_result =
  pane_edges_result_down :: bool
  pane_edges_result_layout :: pane_layout_snapshot
  pane_edges_result_left :: bool
  pane_edges_result_pane_id :: string
  pane_edges_result_right :: bool
  pane_edges_result_up :: bool

definition pane_edges_result_zero :: pane_edges_result where
  "pane_edges_result_zero = \<lparr>pane_edges_result_down = False,
     pane_edges_result_layout = pane_layout_snapshot_zero,
     pane_edges_result_left = False,
     pane_edges_result_pane_id = [],
     pane_edges_result_right = False,
     pane_edges_result_up = False\<rparr>"

definition pane_edges_result_clone :: "pane_edges_result \<Rightarrow> pane_edges_result" where
  "pane_edges_result_clone v =
    (let out = v;
      out = out\<lparr>pane_edges_result_layout := pane_layout_snapshot_clone (pane_edges_result_layout v)\<rparr>
     in out)"

lemma pane_edges_result_clone_id [clone_simps]: "pane_edges_result_clone = id"
  by (simp add: fun_eq_iff pane_edges_result_clone_def clone_simps)

record pane_focus_direction_result =
  pane_focus_direction_result_changed :: bool
  pane_focus_direction_result_focused_pane_id :: "string optional"
  pane_focus_direction_result_layout :: pane_layout_snapshot
  pane_focus_direction_result_reason :: "pane_focus_direction_reason optional"
  pane_focus_direction_result_source_pane_id :: string

definition pane_focus_direction_result_zero :: pane_focus_direction_result where
  "pane_focus_direction_result_zero = \<lparr>pane_focus_direction_result_changed = False,
     pane_focus_direction_result_focused_pane_id = Absent,
     pane_focus_direction_result_layout = pane_layout_snapshot_zero,
     pane_focus_direction_result_reason = Absent,
     pane_focus_direction_result_source_pane_id = []\<rparr>"

definition pane_focus_direction_result_clone :: "pane_focus_direction_result \<Rightarrow> pane_focus_direction_result" where
  "pane_focus_direction_result_clone v =
    (let out = v;
      out = out\<lparr>pane_focus_direction_result_layout := pane_layout_snapshot_clone (pane_focus_direction_result_layout v)\<rparr>
     in out)"

lemma pane_focus_direction_result_clone_id [clone_simps]: "pane_focus_direction_result_clone = id"
  by (simp add: fun_eq_iff pane_focus_direction_result_clone_def clone_simps)

record pane_link_region =
  pane_link_region_end_col :: "16 word"
  pane_link_region_row :: "16 word"
  pane_link_region_start_col :: "16 word"

definition pane_link_region_zero :: pane_link_region where
  "pane_link_region_zero = \<lparr>pane_link_region_end_col = 0,
     pane_link_region_row = 0,
     pane_link_region_start_col = 0\<rparr>"

definition pane_link_region_clone :: "pane_link_region \<Rightarrow> pane_link_region" where
  "pane_link_region_clone v = (let out = v in out)"

lemma pane_link_region_clone_id [clone_simps]: "pane_link_region_clone = id"
  by (simp add: fun_eq_iff pane_link_region_clone_def clone_simps)

record pane_move_result =
  pane_move_result_changed :: bool
  pane_move_result_closed_tab_id :: "string optional"
  pane_move_result_closed_workspace_id :: "string optional"
  pane_move_result_created_tab :: "tab_info optional"
  pane_move_result_created_workspace :: "workspace_info optional"
  pane_move_result_focused_pane_id :: string
  pane_move_result_pane :: pane_info
  pane_move_result_previous_pane_id :: string
  pane_move_result_previous_tab_id :: string
  pane_move_result_previous_workspace_id :: string
  pane_move_result_reason :: "pane_move_reason optional"
  pane_move_result_source_layout :: "pane_layout_snapshot optional"
  pane_move_result_target_layout :: pane_layout_snapshot

definition pane_move_result_zero :: pane_move_result where
  "pane_move_result_zero = \<lparr>pane_move_result_changed = False,
     pane_move_result_closed_tab_id = Absent,
     pane_move_result_closed_workspace_id = Absent,
     pane_move_result_created_tab = Absent,
     pane_move_result_created_workspace = Absent,
     pane_move_result_focused_pane_id = [],
     pane_move_result_pane = pane_info_zero,
     pane_move_result_previous_pane_id = [],
     pane_move_result_previous_tab_id = [],
     pane_move_result_previous_workspace_id = [],
     pane_move_result_reason = Absent,
     pane_move_result_source_layout = Absent,
     pane_move_result_target_layout = pane_layout_snapshot_zero\<rparr>"

definition pane_move_result_clone :: "pane_move_result \<Rightarrow> pane_move_result" where
  "pane_move_result_clone v =
    (let out = v;
      out = out\<lparr>pane_move_result_created_tab := clone_opt tab_info_clone (pane_move_result_created_tab v)\<rparr>;
      out = out\<lparr>pane_move_result_created_workspace := clone_opt workspace_info_clone (pane_move_result_created_workspace v)\<rparr>;
      out = out\<lparr>pane_move_result_pane := pane_info_clone (pane_move_result_pane v)\<rparr>;
      out = out\<lparr>pane_move_result_source_layout := clone_opt pane_layout_snapshot_clone (pane_move_result_source_layout v)\<rparr>;
      out = out\<lparr>pane_move_result_target_layout := pane_layout_snapshot_clone (pane_move_result_target_layout v)\<rparr>
     in out)"

lemma pane_move_result_clone_id [clone_simps]: "pane_move_result_clone = id"
  by (simp add: fun_eq_iff pane_move_result_clone_def clone_simps)

record pane_neighbor_result =
  pane_neighbor_result_direction :: pane_direction
  pane_neighbor_result_layout :: pane_layout_snapshot
  pane_neighbor_result_neighbor_pane_id :: "string optional"
  pane_neighbor_result_pane_id :: string

definition pane_neighbor_result_zero :: pane_neighbor_result where
  "pane_neighbor_result_zero = \<lparr>pane_neighbor_result_direction = [],
     pane_neighbor_result_layout = pane_layout_snapshot_zero,
     pane_neighbor_result_neighbor_pane_id = Absent,
     pane_neighbor_result_pane_id = []\<rparr>"

definition pane_neighbor_result_clone :: "pane_neighbor_result \<Rightarrow> pane_neighbor_result" where
  "pane_neighbor_result_clone v =
    (let out = v;
      out = out\<lparr>pane_neighbor_result_layout := pane_layout_snapshot_clone (pane_neighbor_result_layout v)\<rparr>
     in out)"

lemma pane_neighbor_result_clone_id [clone_simps]: "pane_neighbor_result_clone = id"
  by (simp add: fun_eq_iff pane_neighbor_result_clone_def clone_simps)

record pane_process_info_process =
  pane_process_info_process_argv :: "string slice optional"
  pane_process_info_process_argv0 :: "string optional"
  pane_process_info_process_cmdline :: "string optional"
  pane_process_info_process_cwd :: "string optional"
  pane_process_info_process_name :: string
  pane_process_info_process_pid :: "32 word"

definition pane_process_info_process_zero :: pane_process_info_process where
  "pane_process_info_process_zero = \<lparr>pane_process_info_process_argv = Absent,
     pane_process_info_process_argv0 = Absent,
     pane_process_info_process_cmdline = Absent,
     pane_process_info_process_cwd = Absent,
     pane_process_info_process_name = [],
     pane_process_info_process_pid = 0\<rparr>"

definition pane_process_info_process_clone :: "pane_process_info_process \<Rightarrow> pane_process_info_process" where
  "pane_process_info_process_clone v =
    (let out = v;
      out = out\<lparr>pane_process_info_process_argv := clone_opt (clone_slice (\<lambda>x. x)) (pane_process_info_process_argv v)\<rparr>
     in out)"

lemma pane_process_info_process_clone_id [clone_simps]: "pane_process_info_process_clone = id"
  by (simp add: fun_eq_iff pane_process_info_process_clone_def clone_simps)

record pane_process_info =
  pane_process_info_foreground_process_group_id :: "32 word optional"
  pane_process_info_foreground_processes :: "pane_process_info_process slice optional"
  pane_process_info_pane_id :: string
  pane_process_info_shell_pid :: "32 word optional"
  pane_process_info_tty :: "string optional"

definition pane_process_info_zero :: pane_process_info where
  "pane_process_info_zero = \<lparr>pane_process_info_foreground_process_group_id = Absent,
     pane_process_info_foreground_processes = Absent,
     pane_process_info_pane_id = [],
     pane_process_info_shell_pid = Absent,
     pane_process_info_tty = Absent\<rparr>"

definition pane_process_info_clone :: "pane_process_info \<Rightarrow> pane_process_info" where
  "pane_process_info_clone v =
    (let out = v;
      out = out\<lparr>pane_process_info_foreground_processes := clone_opt (clone_slice pane_process_info_process_clone) (pane_process_info_foreground_processes v)\<rparr>
     in out)"

lemma pane_process_info_clone_id [clone_simps]: "pane_process_info_clone = id"
  by (simp add: fun_eq_iff pane_process_info_clone_def clone_simps)

record pane_resize_result =
  pane_resize_result_changed :: bool
  pane_resize_result_focused_pane_id :: string
  pane_resize_result_layout :: pane_layout_snapshot
  pane_resize_result_pane_id :: string
  pane_resize_result_reason :: "pane_resize_reason optional"

definition pane_resize_result_zero :: pane_resize_result where
  "pane_resize_result_zero = \<lparr>pane_resize_result_changed = False,
     pane_resize_result_focused_pane_id = [],
     pane_resize_result_layout = pane_layout_snapshot_zero,
     pane_resize_result_pane_id = [],
     pane_resize_result_reason = Absent\<rparr>"

definition pane_resize_result_clone :: "pane_resize_result \<Rightarrow> pane_resize_result" where
  "pane_resize_result_clone v =
    (let out = v;
      out = out\<lparr>pane_resize_result_layout := pane_layout_snapshot_clone (pane_resize_result_layout v)\<rparr>
     in out)"

lemma pane_resize_result_clone_id [clone_simps]: "pane_resize_result_clone = id"
  by (simp add: fun_eq_iff pane_resize_result_clone_def clone_simps)

record pane_swap_result =
  pane_swap_result_changed :: bool
  pane_swap_result_focused_pane_id :: string
  pane_swap_result_layout :: pane_layout_snapshot
  pane_swap_result_reason :: "pane_swap_reason optional"
  pane_swap_result_source_pane_id :: string
  pane_swap_result_target_pane_id :: "string optional"

definition pane_swap_result_zero :: pane_swap_result where
  "pane_swap_result_zero = \<lparr>pane_swap_result_changed = False,
     pane_swap_result_focused_pane_id = [],
     pane_swap_result_layout = pane_layout_snapshot_zero,
     pane_swap_result_reason = Absent,
     pane_swap_result_source_pane_id = [],
     pane_swap_result_target_pane_id = Absent\<rparr>"

definition pane_swap_result_clone :: "pane_swap_result \<Rightarrow> pane_swap_result" where
  "pane_swap_result_clone v =
    (let out = v;
      out = out\<lparr>pane_swap_result_layout := pane_layout_snapshot_clone (pane_swap_result_layout v)\<rparr>
     in out)"

lemma pane_swap_result_clone_id [clone_simps]: "pane_swap_result_clone = id"
  by (simp add: fun_eq_iff pane_swap_result_clone_def clone_simps)

record pane_zoom_result =
  pane_zoom_result_changed :: bool
  pane_zoom_result_focus_changed :: bool
  pane_zoom_result_focused_pane_id :: string
  pane_zoom_result_layout :: pane_layout_snapshot
  pane_zoom_result_pane_id :: string
  pane_zoom_result_reason :: "pane_zoom_reason optional"
  pane_zoom_result_zoom_changed :: bool
  pane_zoom_result_zoomed :: bool

definition pane_zoom_result_zero :: pane_zoom_result where
  "pane_zoom_result_zero = \<lparr>pane_zoom_result_changed = False,
     pane_zoom_result_focus_changed = False,
     pane_zoom_result_focused_pane_id = [],
     pane_zoom_result_layout = pane_layout_snapshot_zero,
     pane_zoom_result_pane_id = [],
     pane_zoom_result_reason = Absent,
     pane_zoom_result_zoom_changed = False,
     pane_zoom_result_zoomed = False\<rparr>"

definition pane_zoom_result_clone :: "pane_zoom_result \<Rightarrow> pane_zoom_result" where
  "pane_zoom_result_clone v =
    (let out = v;
      out = out\<lparr>pane_zoom_result_layout := pane_layout_snapshot_clone (pane_zoom_result_layout v)\<rparr>
     in out)"

lemma pane_zoom_result_clone_id [clone_simps]: "pane_zoom_result_clone = id"
  by (simp add: fun_eq_iff pane_zoom_result_clone_def clone_simps)

record plugin_action_info =
  plugin_action_info_action_id :: string
  plugin_action_info_command :: "string slice"
  plugin_action_info_contexts :: "plugin_action_context slice optional"
  plugin_action_info_description :: "string optional"
  plugin_action_info_platforms :: "plugin_platform slice optional"
  plugin_action_info_plugin_id :: string
  plugin_action_info_title :: string

definition plugin_action_info_zero :: plugin_action_info where
  "plugin_action_info_zero = \<lparr>plugin_action_info_action_id = [],
     plugin_action_info_command = None,
     plugin_action_info_contexts = Absent,
     plugin_action_info_description = Absent,
     plugin_action_info_platforms = Absent,
     plugin_action_info_plugin_id = [],
     plugin_action_info_title = []\<rparr>"

definition plugin_action_info_clone :: "plugin_action_info \<Rightarrow> plugin_action_info" where
  "plugin_action_info_clone v =
    (let out = v;
      out = out\<lparr>plugin_action_info_command := clone_slice (\<lambda>x. x) (plugin_action_info_command v)\<rparr>;
      out = out\<lparr>plugin_action_info_contexts := clone_opt (clone_slice (\<lambda>x. x)) (plugin_action_info_contexts v)\<rparr>;
      out = out\<lparr>plugin_action_info_platforms := clone_opt (clone_slice (\<lambda>x. x)) (plugin_action_info_platforms v)\<rparr>
     in out)"

lemma plugin_action_info_clone_id [clone_simps]: "plugin_action_info_clone = id"
  by (simp add: fun_eq_iff plugin_action_info_clone_def clone_simps)

record plugin_invocation_context =
  plugin_invocation_context_clicked_url :: "string optional"
  plugin_invocation_context_correlation_id :: "string optional"
  plugin_invocation_context_focused_pane_agent :: "string optional"
  plugin_invocation_context_focused_pane_cwd :: "string optional"
  plugin_invocation_context_focused_pane_id :: "string optional"
  plugin_invocation_context_focused_pane_status :: "agent_status optional"
  plugin_invocation_context_invocation_source :: "string optional"
  plugin_invocation_context_link_handler_id :: "string optional"
  plugin_invocation_context_selected_text :: "string optional"
  plugin_invocation_context_tab_id :: "string optional"
  plugin_invocation_context_tab_label :: "string optional"
  plugin_invocation_context_workspace_cwd :: "string optional"
  plugin_invocation_context_workspace_id :: "string optional"
  plugin_invocation_context_workspace_label :: "string optional"
  plugin_invocation_context_worktree :: "workspace_worktree_info optional"

definition plugin_invocation_context_zero :: plugin_invocation_context where
  "plugin_invocation_context_zero = \<lparr>plugin_invocation_context_clicked_url = Absent,
     plugin_invocation_context_correlation_id = Absent,
     plugin_invocation_context_focused_pane_agent = Absent,
     plugin_invocation_context_focused_pane_cwd = Absent,
     plugin_invocation_context_focused_pane_id = Absent,
     plugin_invocation_context_focused_pane_status = Absent,
     plugin_invocation_context_invocation_source = Absent,
     plugin_invocation_context_link_handler_id = Absent,
     plugin_invocation_context_selected_text = Absent,
     plugin_invocation_context_tab_id = Absent,
     plugin_invocation_context_tab_label = Absent,
     plugin_invocation_context_workspace_cwd = Absent,
     plugin_invocation_context_workspace_id = Absent,
     plugin_invocation_context_workspace_label = Absent,
     plugin_invocation_context_worktree = Absent\<rparr>"

definition plugin_invocation_context_clone :: "plugin_invocation_context \<Rightarrow> plugin_invocation_context" where
  "plugin_invocation_context_clone v =
    (let out = v;
      out = out\<lparr>plugin_invocation_context_worktree := clone_opt workspace_worktree_info_clone (plugin_invocation_context_worktree v)\<rparr>
     in out)"

lemma plugin_invocation_context_clone_id [clone_simps]: "plugin_invocation_context_clone = id"
  by (simp add: fun_eq_iff plugin_invocation_context_clone_def clone_simps)

record plugin_command_log_info =
  plugin_command_log_info_action_id :: "string optional"
  plugin_command_log_info_command :: "string slice"
  plugin_command_log_info_error :: "string optional"
  plugin_command_log_info_event :: "string optional"
  plugin_command_log_info_exit_code :: "32 word optional"
  plugin_command_log_info_finished_unix_ms :: "64 word optional"
  plugin_command_log_info_log_id :: string
  plugin_command_log_info_plugin_id :: string
  plugin_command_log_info_started_unix_ms :: "64 word"
  plugin_command_log_info_status :: plugin_command_status
  plugin_command_log_info_stderr :: "string optional"
  plugin_command_log_info_stdout :: "string optional"

definition plugin_command_log_info_zero :: plugin_command_log_info where
  "plugin_command_log_info_zero = \<lparr>plugin_command_log_info_action_id = Absent,
     plugin_command_log_info_command = None,
     plugin_command_log_info_error = Absent,
     plugin_command_log_info_event = Absent,
     plugin_command_log_info_exit_code = Absent,
     plugin_command_log_info_finished_unix_ms = Absent,
     plugin_command_log_info_log_id = [],
     plugin_command_log_info_plugin_id = [],
     plugin_command_log_info_started_unix_ms = 0,
     plugin_command_log_info_status = [],
     plugin_command_log_info_stderr = Absent,
     plugin_command_log_info_stdout = Absent\<rparr>"

definition plugin_command_log_info_clone :: "plugin_command_log_info \<Rightarrow> plugin_command_log_info" where
  "plugin_command_log_info_clone v =
    (let out = v;
      out = out\<lparr>plugin_command_log_info_command := clone_slice (\<lambda>x. x) (plugin_command_log_info_command v)\<rparr>
     in out)"

lemma plugin_command_log_info_clone_id [clone_simps]: "plugin_command_log_info_clone = id"
  by (simp add: fun_eq_iff plugin_command_log_info_clone_def clone_simps)

record plugin_manifest_action =
  plugin_manifest_action_command :: "string slice"
  plugin_manifest_action_contexts :: "plugin_action_context slice optional"
  plugin_manifest_action_description :: "string optional"
  plugin_manifest_action_id :: string
  plugin_manifest_action_platforms :: "plugin_platform slice optional"
  plugin_manifest_action_title :: string

definition plugin_manifest_action_zero :: plugin_manifest_action where
  "plugin_manifest_action_zero = \<lparr>plugin_manifest_action_command = None,
     plugin_manifest_action_contexts = Absent,
     plugin_manifest_action_description = Absent,
     plugin_manifest_action_id = [],
     plugin_manifest_action_platforms = Absent,
     plugin_manifest_action_title = []\<rparr>"

definition plugin_manifest_action_clone :: "plugin_manifest_action \<Rightarrow> plugin_manifest_action" where
  "plugin_manifest_action_clone v =
    (let out = v;
      out = out\<lparr>plugin_manifest_action_command := clone_slice (\<lambda>x. x) (plugin_manifest_action_command v)\<rparr>;
      out = out\<lparr>plugin_manifest_action_contexts := clone_opt (clone_slice (\<lambda>x. x)) (plugin_manifest_action_contexts v)\<rparr>;
      out = out\<lparr>plugin_manifest_action_platforms := clone_opt (clone_slice (\<lambda>x. x)) (plugin_manifest_action_platforms v)\<rparr>
     in out)"

lemma plugin_manifest_action_clone_id [clone_simps]: "plugin_manifest_action_clone = id"
  by (simp add: fun_eq_iff plugin_manifest_action_clone_def clone_simps)

record plugin_manifest_build =
  plugin_manifest_build_command :: "string slice"
  plugin_manifest_build_platforms :: "plugin_platform slice optional"

definition plugin_manifest_build_zero :: plugin_manifest_build where
  "plugin_manifest_build_zero = \<lparr>plugin_manifest_build_command = None,
     plugin_manifest_build_platforms = Absent\<rparr>"

definition plugin_manifest_build_clone :: "plugin_manifest_build \<Rightarrow> plugin_manifest_build" where
  "plugin_manifest_build_clone v =
    (let out = v;
      out = out\<lparr>plugin_manifest_build_command := clone_slice (\<lambda>x. x) (plugin_manifest_build_command v)\<rparr>;
      out = out\<lparr>plugin_manifest_build_platforms := clone_opt (clone_slice (\<lambda>x. x)) (plugin_manifest_build_platforms v)\<rparr>
     in out)"

lemma plugin_manifest_build_clone_id [clone_simps]: "plugin_manifest_build_clone = id"
  by (simp add: fun_eq_iff plugin_manifest_build_clone_def clone_simps)

record plugin_manifest_event_hook =
  plugin_manifest_event_hook_command :: "string slice"
  plugin_manifest_event_hook_on :: string
  plugin_manifest_event_hook_platforms :: "plugin_platform slice optional"

definition plugin_manifest_event_hook_zero :: plugin_manifest_event_hook where
  "plugin_manifest_event_hook_zero = \<lparr>plugin_manifest_event_hook_command = None,
     plugin_manifest_event_hook_on = [],
     plugin_manifest_event_hook_platforms = Absent\<rparr>"

definition plugin_manifest_event_hook_clone :: "plugin_manifest_event_hook \<Rightarrow> plugin_manifest_event_hook" where
  "plugin_manifest_event_hook_clone v =
    (let out = v;
      out = out\<lparr>plugin_manifest_event_hook_command := clone_slice (\<lambda>x. x) (plugin_manifest_event_hook_command v)\<rparr>;
      out = out\<lparr>plugin_manifest_event_hook_platforms := clone_opt (clone_slice (\<lambda>x. x)) (plugin_manifest_event_hook_platforms v)\<rparr>
     in out)"

lemma plugin_manifest_event_hook_clone_id [clone_simps]: "plugin_manifest_event_hook_clone = id"
  by (simp add: fun_eq_iff plugin_manifest_event_hook_clone_def clone_simps)

record plugin_manifest_link_handler =
  plugin_manifest_link_handler_action :: string
  plugin_manifest_link_handler_id :: string
  plugin_manifest_link_handler_pattern :: string
  plugin_manifest_link_handler_platforms :: "plugin_platform slice optional"
  plugin_manifest_link_handler_title :: string

definition plugin_manifest_link_handler_zero :: plugin_manifest_link_handler where
  "plugin_manifest_link_handler_zero = \<lparr>plugin_manifest_link_handler_action = [],
     plugin_manifest_link_handler_id = [],
     plugin_manifest_link_handler_pattern = [],
     plugin_manifest_link_handler_platforms = Absent,
     plugin_manifest_link_handler_title = []\<rparr>"

definition plugin_manifest_link_handler_clone :: "plugin_manifest_link_handler \<Rightarrow> plugin_manifest_link_handler" where
  "plugin_manifest_link_handler_clone v =
    (let out = v;
      out = out\<lparr>plugin_manifest_link_handler_platforms := clone_opt (clone_slice (\<lambda>x. x)) (plugin_manifest_link_handler_platforms v)\<rparr>
     in out)"

lemma plugin_manifest_link_handler_clone_id [clone_simps]: "plugin_manifest_link_handler_clone = id"
  by (simp add: fun_eq_iff plugin_manifest_link_handler_clone_def clone_simps)

record plugin_source_info =
  plugin_source_info_installed_unix_ms :: "64 word optional"
  plugin_source_info_kind :: "plugin_source_kind optional"
  plugin_source_info_managed_path :: "string optional"
  plugin_source_info_owner :: "string optional"
  plugin_source_info_repo :: "string optional"
  plugin_source_info_requested_ref :: "string optional"
  plugin_source_info_resolved_commit :: "string optional"
  plugin_source_info_subdir :: "string optional"

definition plugin_source_info_zero :: plugin_source_info where
  "plugin_source_info_zero = \<lparr>plugin_source_info_installed_unix_ms = Absent,
     plugin_source_info_kind = Absent,
     plugin_source_info_managed_path = Absent,
     plugin_source_info_owner = Absent,
     plugin_source_info_repo = Absent,
     plugin_source_info_requested_ref = Absent,
     plugin_source_info_resolved_commit = Absent,
     plugin_source_info_subdir = Absent\<rparr>"

definition plugin_source_info_clone :: "plugin_source_info \<Rightarrow> plugin_source_info" where
  "plugin_source_info_clone v = (let out = v in out)"

lemma plugin_source_info_clone_id [clone_simps]: "plugin_source_info_clone = id"
  by (simp add: fun_eq_iff plugin_source_info_clone_def clone_simps)

record plugin_manifest_startup =
  plugin_manifest_startup_command :: "string slice"
  plugin_manifest_startup_platforms :: "plugin_platform slice optional"

definition plugin_manifest_startup_zero :: plugin_manifest_startup where
  "plugin_manifest_startup_zero = \<lparr>plugin_manifest_startup_command = None,
     plugin_manifest_startup_platforms = Absent\<rparr>"

definition plugin_manifest_startup_clone :: "plugin_manifest_startup \<Rightarrow> plugin_manifest_startup" where
  "plugin_manifest_startup_clone v =
    (let out = v;
      out = out\<lparr>plugin_manifest_startup_command := clone_slice (\<lambda>x. x) (plugin_manifest_startup_command v)\<rparr>;
      out = out\<lparr>plugin_manifest_startup_platforms := clone_opt (clone_slice (\<lambda>x. x)) (plugin_manifest_startup_platforms v)\<rparr>
     in out)"

lemma plugin_manifest_startup_clone_id [clone_simps]: "plugin_manifest_startup_clone = id"
  by (simp add: fun_eq_iff plugin_manifest_startup_clone_def clone_simps)

record plugin_pane_info =
  plugin_pane_info_entrypoint :: string
  plugin_pane_info_pane :: pane_info
  plugin_pane_info_plugin_id :: string

definition plugin_pane_info_zero :: plugin_pane_info where
  "plugin_pane_info_zero = \<lparr>plugin_pane_info_entrypoint = [],
     plugin_pane_info_pane = pane_info_zero,
     plugin_pane_info_plugin_id = []\<rparr>"

definition plugin_pane_info_clone :: "plugin_pane_info \<Rightarrow> plugin_pane_info" where
  "plugin_pane_info_clone v =
    (let out = v;
      out = out\<lparr>plugin_pane_info_pane := pane_info_clone (plugin_pane_info_pane v)\<rparr>
     in out)"

lemma plugin_pane_info_clone_id [clone_simps]: "plugin_pane_info_clone = id"
  by (simp add: fun_eq_iff plugin_pane_info_clone_def clone_simps)

record server_capabilities =
  server_capabilities_detached_server_daemon :: "bool optional"
  server_capabilities_endpoint_protocol_generation :: "32 word optional"
  server_capabilities_health_check :: "bool optional"
  server_capabilities_live_handoff :: bool
  server_capabilities_ssh_agent_registration :: "bool optional"
  server_capabilities_surface_interest :: "bool optional"

definition server_capabilities_zero :: server_capabilities where
  "server_capabilities_zero = \<lparr>server_capabilities_detached_server_daemon = Absent,
     server_capabilities_endpoint_protocol_generation = Absent,
     server_capabilities_health_check = Absent,
     server_capabilities_live_handoff = False,
     server_capabilities_ssh_agent_registration = Absent,
     server_capabilities_surface_interest = Absent\<rparr>"

definition server_capabilities_clone :: "server_capabilities \<Rightarrow> server_capabilities" where
  "server_capabilities_clone v = (let out = v in out)"

lemma server_capabilities_clone_id [clone_simps]: "server_capabilities_clone = id"
  by (simp add: fun_eq_iff server_capabilities_clone_def clone_simps)

record worktree_source_info =
  worktree_source_info_repo_key :: string
  worktree_source_info_repo_name :: string
  worktree_source_info_repo_root :: string
  worktree_source_info_source_checkout_path :: string
  worktree_source_info_source_workspace_id :: "string optional"

definition worktree_source_info_zero :: worktree_source_info where
  "worktree_source_info_zero = \<lparr>worktree_source_info_repo_key = [],
     worktree_source_info_repo_name = [],
     worktree_source_info_repo_root = [],
     worktree_source_info_source_checkout_path = [],
     worktree_source_info_source_workspace_id = Absent\<rparr>"

definition worktree_source_info_clone :: "worktree_source_info \<Rightarrow> worktree_source_info" where
  "worktree_source_info_clone v = (let out = v in out)"

lemma worktree_source_info_clone_id [clone_simps]: "worktree_source_info_clone = id"
  by (simp add: fun_eq_iff worktree_source_info_clone_def clone_simps)

end
