(* ===== verification/Response_Structs.thy ===== *)
theory Response_Structs
  imports Info_Types
begin

text \<open>
  The response structs of \<open>herdr/results_gen.go\<close> that have fields and hold no union, with their zero values
  and \<open>Clone\<close>.
\<close>

record agent_info_response =
  agent_info_response_agent :: agent_info

definition agent_info_response_zero :: agent_info_response where
  "agent_info_response_zero = \<lparr>agent_info_response_agent = agent_info_zero\<rparr>"

definition agent_info_response_clone :: "agent_info_response \<Rightarrow> agent_info_response" where
  "agent_info_response_clone v =
    (let out = v;
      out = out\<lparr>agent_info_response_agent := agent_info_clone (agent_info_response_agent v)\<rparr>
     in out)"

lemma agent_info_response_clone_id [clone_simps]: "agent_info_response_clone = id"
  by (simp add: fun_eq_iff agent_info_response_clone_def clone_simps)

record agent_list_response =
  agent_list_response_agents :: "agent_info slice"

definition agent_list_response_zero :: agent_list_response where
  "agent_list_response_zero = \<lparr>agent_list_response_agents = None\<rparr>"

definition agent_list_response_clone :: "agent_list_response \<Rightarrow> agent_list_response" where
  "agent_list_response_clone v =
    (let out = v;
      out = out\<lparr>agent_list_response_agents := clone_slice agent_info_clone (agent_list_response_agents v)\<rparr>
     in out)"

lemma agent_list_response_clone_id [clone_simps]: "agent_list_response_clone = id"
  by (simp add: fun_eq_iff agent_list_response_clone_def clone_simps)

record agent_manifest_reload_response =
  agent_manifest_reload_response_manifests :: "agent_manifest_info slice"

definition agent_manifest_reload_response_zero :: agent_manifest_reload_response where
  "agent_manifest_reload_response_zero = \<lparr>agent_manifest_reload_response_manifests = None\<rparr>"

definition agent_manifest_reload_response_clone :: "agent_manifest_reload_response \<Rightarrow> agent_manifest_reload_response" where
  "agent_manifest_reload_response_clone v =
    (let out = v;
      out = out\<lparr>agent_manifest_reload_response_manifests := clone_slice agent_manifest_info_clone (agent_manifest_reload_response_manifests v)\<rparr>
     in out)"

lemma agent_manifest_reload_response_clone_id [clone_simps]: "agent_manifest_reload_response_clone = id"
  by (simp add: fun_eq_iff agent_manifest_reload_response_clone_def clone_simps)

record agent_manifest_status_response =
  agent_manifest_status_response_last_check_unix :: "64 word optional"
  agent_manifest_status_response_last_result :: "string optional"
  agent_manifest_status_response_manifests :: "agent_manifest_info slice"

definition agent_manifest_status_response_zero :: agent_manifest_status_response where
  "agent_manifest_status_response_zero = \<lparr>agent_manifest_status_response_last_check_unix = Absent,
     agent_manifest_status_response_last_result = Absent,
     agent_manifest_status_response_manifests = None\<rparr>"

definition agent_manifest_status_response_clone :: "agent_manifest_status_response \<Rightarrow> agent_manifest_status_response" where
  "agent_manifest_status_response_clone v =
    (let out = v;
      out = out\<lparr>agent_manifest_status_response_manifests := clone_slice agent_manifest_info_clone (agent_manifest_status_response_manifests v)\<rparr>
     in out)"

lemma agent_manifest_status_response_clone_id [clone_simps]: "agent_manifest_status_response_clone = id"
  by (simp add: fun_eq_iff agent_manifest_status_response_clone_def clone_simps)

record agent_prompted_response =
  agent_prompted_response_agent :: agent_info

definition agent_prompted_response_zero :: agent_prompted_response where
  "agent_prompted_response_zero = \<lparr>agent_prompted_response_agent = agent_info_zero\<rparr>"

definition agent_prompted_response_clone :: "agent_prompted_response \<Rightarrow> agent_prompted_response" where
  "agent_prompted_response_clone v =
    (let out = v;
      out = out\<lparr>agent_prompted_response_agent := agent_info_clone (agent_prompted_response_agent v)\<rparr>
     in out)"

lemma agent_prompted_response_clone_id [clone_simps]: "agent_prompted_response_clone = id"
  by (simp add: fun_eq_iff agent_prompted_response_clone_def clone_simps)

record agent_started_response =
  agent_started_response_agent :: agent_info
  agent_started_response_argv :: "string slice"

definition agent_started_response_zero :: agent_started_response where
  "agent_started_response_zero = \<lparr>agent_started_response_agent = agent_info_zero,
     agent_started_response_argv = None\<rparr>"

definition agent_started_response_clone :: "agent_started_response \<Rightarrow> agent_started_response" where
  "agent_started_response_clone v =
    (let out = v;
      out = out\<lparr>agent_started_response_agent := agent_info_clone (agent_started_response_agent v)\<rparr>;
      out = out\<lparr>agent_started_response_argv := clone_slice (\<lambda>x. x) (agent_started_response_argv v)\<rparr>
     in out)"

lemma agent_started_response_clone_id [clone_simps]: "agent_started_response_clone = id"
  by (simp add: fun_eq_iff agent_started_response_clone_def clone_simps)

record agent_view_response =
  agent_view_response_active :: bool
  agent_view_response_label :: "string optional"
  agent_view_response_source :: "string optional"

definition agent_view_response_zero :: agent_view_response where
  "agent_view_response_zero = \<lparr>agent_view_response_active = False,
     agent_view_response_label = Absent,
     agent_view_response_source = Absent\<rparr>"

definition agent_view_response_clone :: "agent_view_response \<Rightarrow> agent_view_response" where
  "agent_view_response_clone v = (let out = v in out)"

lemma agent_view_response_clone_id [clone_simps]: "agent_view_response_clone = id"
  by (simp add: fun_eq_iff agent_view_response_clone_def clone_simps)

record client_shell_surface_set_response =
  client_shell_surface_set_response_active :: bool
  client_shell_surface_set_response_projection_revision :: "64 word"

definition client_shell_surface_set_response_zero :: client_shell_surface_set_response where
  "client_shell_surface_set_response_zero = \<lparr>client_shell_surface_set_response_active = False,
     client_shell_surface_set_response_projection_revision = 0\<rparr>"

definition client_shell_surface_set_response_clone :: "client_shell_surface_set_response \<Rightarrow> client_shell_surface_set_response" where
  "client_shell_surface_set_response_clone v = (let out = v in out)"

lemma client_shell_surface_set_response_clone_id [clone_simps]: "client_shell_surface_set_response_clone = id"
  by (simp add: fun_eq_iff client_shell_surface_set_response_clone_def clone_simps)

record client_window_title_response =
  client_window_title_response_changed :: bool
  client_window_title_response_reason :: client_window_title_reason

definition client_window_title_response_zero :: client_window_title_response where
  "client_window_title_response_zero = \<lparr>client_window_title_response_changed = False,
     client_window_title_response_reason = []\<rparr>"

definition client_window_title_response_clone :: "client_window_title_response \<Rightarrow> client_window_title_response" where
  "client_window_title_response_clone v = (let out = v in out)"

lemma client_window_title_response_clone_id [clone_simps]: "client_window_title_response_clone = id"
  by (simp add: fun_eq_iff client_window_title_response_clone_def clone_simps)

record config_reload_response =
  config_reload_response_diagnostics :: "string slice"
  config_reload_response_status :: config_reload_status

definition config_reload_response_zero :: config_reload_response where
  "config_reload_response_zero = \<lparr>config_reload_response_diagnostics = None,
     config_reload_response_status = []\<rparr>"

definition config_reload_response_clone :: "config_reload_response \<Rightarrow> config_reload_response" where
  "config_reload_response_clone v =
    (let out = v;
      out = out\<lparr>config_reload_response_diagnostics := clone_slice (\<lambda>x. x) (config_reload_response_diagnostics v)\<rparr>
     in out)"

lemma config_reload_response_clone_id [clone_simps]: "config_reload_response_clone = id"
  by (simp add: fun_eq_iff config_reload_response_clone_def clone_simps)

record integration_install_response =
  integration_install_response_details :: integration_install_result
  integration_install_response_target :: integration_target

definition integration_install_response_zero :: integration_install_response where
  "integration_install_response_zero = \<lparr>integration_install_response_details = integration_install_result_zero,
     integration_install_response_target = []\<rparr>"

definition integration_install_response_clone :: "integration_install_response \<Rightarrow> integration_install_response" where
  "integration_install_response_clone v =
    (let out = v;
      out = out\<lparr>integration_install_response_details := integration_install_result_clone (integration_install_response_details v)\<rparr>
     in out)"

lemma integration_install_response_clone_id [clone_simps]: "integration_install_response_clone = id"
  by (simp add: fun_eq_iff integration_install_response_clone_def clone_simps)

record integration_list_response =
  integration_list_response_integrations :: "integration_info slice"

definition integration_list_response_zero :: integration_list_response where
  "integration_list_response_zero = \<lparr>integration_list_response_integrations = None\<rparr>"

definition integration_list_response_clone :: "integration_list_response \<Rightarrow> integration_list_response" where
  "integration_list_response_clone v =
    (let out = v;
      out = out\<lparr>integration_list_response_integrations := clone_slice integration_info_clone (integration_list_response_integrations v)\<rparr>
     in out)"

lemma integration_list_response_clone_id [clone_simps]: "integration_list_response_clone = id"
  by (simp add: fun_eq_iff integration_list_response_clone_def clone_simps)

record integration_uninstall_response =
  integration_uninstall_response_details :: integration_uninstall_result
  integration_uninstall_response_target :: integration_target

definition integration_uninstall_response_zero :: integration_uninstall_response where
  "integration_uninstall_response_zero = \<lparr>integration_uninstall_response_details = integration_uninstall_result_zero,
     integration_uninstall_response_target = []\<rparr>"

definition integration_uninstall_response_clone :: "integration_uninstall_response \<Rightarrow> integration_uninstall_response" where
  "integration_uninstall_response_clone v =
    (let out = v;
      out = out\<lparr>integration_uninstall_response_details := integration_uninstall_result_clone (integration_uninstall_response_details v)\<rparr>
     in out)"

lemma integration_uninstall_response_clone_id [clone_simps]: "integration_uninstall_response_clone = id"
  by (simp add: fun_eq_iff integration_uninstall_response_clone_def clone_simps)

record notification_show_response =
  notification_show_response_reason :: notification_show_reason
  notification_show_response_shown :: bool

definition notification_show_response_zero :: notification_show_response where
  "notification_show_response_zero = \<lparr>notification_show_response_reason = [],
     notification_show_response_shown = False\<rparr>"

definition notification_show_response_clone :: "notification_show_response \<Rightarrow> notification_show_response" where
  "notification_show_response_clone v = (let out = v in out)"

lemma notification_show_response_clone_id [clone_simps]: "notification_show_response_clone = id"
  by (simp add: fun_eq_iff notification_show_response_clone_def clone_simps)

record output_matched_response =
  output_matched_response_matched_line :: "string optional"
  output_matched_response_pane_id :: string
  output_matched_response_read :: pane_read_result
  output_matched_response_revision :: "64 word"

definition output_matched_response_zero :: output_matched_response where
  "output_matched_response_zero = \<lparr>output_matched_response_matched_line = Absent,
     output_matched_response_pane_id = [],
     output_matched_response_read = pane_read_result_zero,
     output_matched_response_revision = 0\<rparr>"

definition output_matched_response_clone :: "output_matched_response \<Rightarrow> output_matched_response" where
  "output_matched_response_clone v =
    (let out = v;
      out = out\<lparr>output_matched_response_read := pane_read_result_clone (output_matched_response_read v)\<rparr>
     in out)"

lemma output_matched_response_clone_id [clone_simps]: "output_matched_response_clone = id"
  by (simp add: fun_eq_iff output_matched_response_clone_def clone_simps)

record pane_copy_motion_response =
  pane_copy_motion_response_content_revision :: "64 word"
  pane_copy_motion_response_cursor :: pane_text_point
  pane_copy_motion_response_pane_id :: string

definition pane_copy_motion_response_zero :: pane_copy_motion_response where
  "pane_copy_motion_response_zero = \<lparr>pane_copy_motion_response_content_revision = 0,
     pane_copy_motion_response_cursor = pane_text_point_zero,
     pane_copy_motion_response_pane_id = []\<rparr>"

definition pane_copy_motion_response_clone :: "pane_copy_motion_response \<Rightarrow> pane_copy_motion_response" where
  "pane_copy_motion_response_clone v =
    (let out = v;
      out = out\<lparr>pane_copy_motion_response_cursor := pane_text_point_clone (pane_copy_motion_response_cursor v)\<rparr>
     in out)"

lemma pane_copy_motion_response_clone_id [clone_simps]: "pane_copy_motion_response_clone = id"
  by (simp add: fun_eq_iff pane_copy_motion_response_clone_def clone_simps)

record pane_copy_search_response =
  pane_copy_search_response_content_revision :: "64 word"
  pane_copy_search_response_current :: "32 word optional"
  pane_copy_search_response_current_global :: "64 word optional"
  pane_copy_search_response_matches :: "pane_text_range slice"
  pane_copy_search_response_pane_id :: string
  pane_copy_search_response_total :: "64 word"

definition pane_copy_search_response_zero :: pane_copy_search_response where
  "pane_copy_search_response_zero = \<lparr>pane_copy_search_response_content_revision = 0,
     pane_copy_search_response_current = Absent,
     pane_copy_search_response_current_global = Absent,
     pane_copy_search_response_matches = None,
     pane_copy_search_response_pane_id = [],
     pane_copy_search_response_total = 0\<rparr>"

definition pane_copy_search_response_clone :: "pane_copy_search_response \<Rightarrow> pane_copy_search_response" where
  "pane_copy_search_response_clone v =
    (let out = v;
      out = out\<lparr>pane_copy_search_response_matches := clone_slice pane_text_range_clone (pane_copy_search_response_matches v)\<rparr>
     in out)"

lemma pane_copy_search_response_clone_id [clone_simps]: "pane_copy_search_response_clone = id"
  by (simp add: fun_eq_iff pane_copy_search_response_clone_def clone_simps)

record pane_current_response =
  pane_current_response_pane :: pane_info

definition pane_current_response_zero :: pane_current_response where
  "pane_current_response_zero = \<lparr>pane_current_response_pane = pane_info_zero\<rparr>"

definition pane_current_response_clone :: "pane_current_response \<Rightarrow> pane_current_response" where
  "pane_current_response_clone v =
    (let out = v;
      out = out\<lparr>pane_current_response_pane := pane_info_clone (pane_current_response_pane v)\<rparr>
     in out)"

lemma pane_current_response_clone_id [clone_simps]: "pane_current_response_clone = id"
  by (simp add: fun_eq_iff pane_current_response_clone_def clone_simps)

record pane_edges_response =
  pane_edges_response_edges :: pane_edges_result

definition pane_edges_response_zero :: pane_edges_response where
  "pane_edges_response_zero = \<lparr>pane_edges_response_edges = pane_edges_result_zero\<rparr>"

definition pane_edges_response_clone :: "pane_edges_response \<Rightarrow> pane_edges_response" where
  "pane_edges_response_clone v =
    (let out = v;
      out = out\<lparr>pane_edges_response_edges := pane_edges_result_clone (pane_edges_response_edges v)\<rparr>
     in out)"

lemma pane_edges_response_clone_id [clone_simps]: "pane_edges_response_clone = id"
  by (simp add: fun_eq_iff pane_edges_response_clone_def clone_simps)

record pane_focus_direction_response =
  pane_focus_direction_response_focus :: pane_focus_direction_result

definition pane_focus_direction_response_zero :: pane_focus_direction_response where
  "pane_focus_direction_response_zero = \<lparr>pane_focus_direction_response_focus = pane_focus_direction_result_zero\<rparr>"

definition pane_focus_direction_response_clone :: "pane_focus_direction_response \<Rightarrow> pane_focus_direction_response" where
  "pane_focus_direction_response_clone v =
    (let out = v;
      out = out\<lparr>pane_focus_direction_response_focus := pane_focus_direction_result_clone (pane_focus_direction_response_focus v)\<rparr>
     in out)"

lemma pane_focus_direction_response_clone_id [clone_simps]: "pane_focus_direction_response_clone = id"
  by (simp add: fun_eq_iff pane_focus_direction_response_clone_def clone_simps)

record pane_info_response =
  pane_info_response_pane :: pane_info

definition pane_info_response_zero :: pane_info_response where
  "pane_info_response_zero = \<lparr>pane_info_response_pane = pane_info_zero\<rparr>"

definition pane_info_response_clone :: "pane_info_response \<Rightarrow> pane_info_response" where
  "pane_info_response_clone v =
    (let out = v;
      out = out\<lparr>pane_info_response_pane := pane_info_clone (pane_info_response_pane v)\<rparr>
     in out)"

lemma pane_info_response_clone_id [clone_simps]: "pane_info_response_clone = id"
  by (simp add: fun_eq_iff pane_info_response_clone_def clone_simps)

record pane_layout_response =
  pane_layout_response_layout :: pane_layout_snapshot

definition pane_layout_response_zero :: pane_layout_response where
  "pane_layout_response_zero = \<lparr>pane_layout_response_layout = pane_layout_snapshot_zero\<rparr>"

definition pane_layout_response_clone :: "pane_layout_response \<Rightarrow> pane_layout_response" where
  "pane_layout_response_clone v =
    (let out = v;
      out = out\<lparr>pane_layout_response_layout := pane_layout_snapshot_clone (pane_layout_response_layout v)\<rparr>
     in out)"

lemma pane_layout_response_clone_id [clone_simps]: "pane_layout_response_clone = id"
  by (simp add: fun_eq_iff pane_layout_response_clone_def clone_simps)

record pane_link_activated_response =
  pane_link_activated_response_handled :: bool
  pane_link_activated_response_url :: "string optional"

definition pane_link_activated_response_zero :: pane_link_activated_response where
  "pane_link_activated_response_zero = \<lparr>pane_link_activated_response_handled = False,
     pane_link_activated_response_url = Absent\<rparr>"

definition pane_link_activated_response_clone :: "pane_link_activated_response \<Rightarrow> pane_link_activated_response" where
  "pane_link_activated_response_clone v = (let out = v in out)"

lemma pane_link_activated_response_clone_id [clone_simps]: "pane_link_activated_response_clone = id"
  by (simp add: fun_eq_iff pane_link_activated_response_clone_def clone_simps)

record pane_link_resolved_response =
  pane_link_resolved_response_regions :: "pane_link_region slice"

definition pane_link_resolved_response_zero :: pane_link_resolved_response where
  "pane_link_resolved_response_zero = \<lparr>pane_link_resolved_response_regions = None\<rparr>"

definition pane_link_resolved_response_clone :: "pane_link_resolved_response \<Rightarrow> pane_link_resolved_response" where
  "pane_link_resolved_response_clone v =
    (let out = v;
      out = out\<lparr>pane_link_resolved_response_regions := clone_slice pane_link_region_clone (pane_link_resolved_response_regions v)\<rparr>
     in out)"

lemma pane_link_resolved_response_clone_id [clone_simps]: "pane_link_resolved_response_clone = id"
  by (simp add: fun_eq_iff pane_link_resolved_response_clone_def clone_simps)

record pane_list_response =
  pane_list_response_panes :: "pane_info slice"

definition pane_list_response_zero :: pane_list_response where
  "pane_list_response_zero = \<lparr>pane_list_response_panes = None\<rparr>"

definition pane_list_response_clone :: "pane_list_response \<Rightarrow> pane_list_response" where
  "pane_list_response_clone v =
    (let out = v;
      out = out\<lparr>pane_list_response_panes := clone_slice pane_info_clone (pane_list_response_panes v)\<rparr>
     in out)"

lemma pane_list_response_clone_id [clone_simps]: "pane_list_response_clone = id"
  by (simp add: fun_eq_iff pane_list_response_clone_def clone_simps)

record pane_move_response =
  pane_move_response_move_result :: pane_move_result

definition pane_move_response_zero :: pane_move_response where
  "pane_move_response_zero = \<lparr>pane_move_response_move_result = pane_move_result_zero\<rparr>"

definition pane_move_response_clone :: "pane_move_response \<Rightarrow> pane_move_response" where
  "pane_move_response_clone v =
    (let out = v;
      out = out\<lparr>pane_move_response_move_result := pane_move_result_clone (pane_move_response_move_result v)\<rparr>
     in out)"

lemma pane_move_response_clone_id [clone_simps]: "pane_move_response_clone = id"
  by (simp add: fun_eq_iff pane_move_response_clone_def clone_simps)

record pane_neighbor_response =
  pane_neighbor_response_neighbor :: pane_neighbor_result

definition pane_neighbor_response_zero :: pane_neighbor_response where
  "pane_neighbor_response_zero = \<lparr>pane_neighbor_response_neighbor = pane_neighbor_result_zero\<rparr>"

definition pane_neighbor_response_clone :: "pane_neighbor_response \<Rightarrow> pane_neighbor_response" where
  "pane_neighbor_response_clone v =
    (let out = v;
      out = out\<lparr>pane_neighbor_response_neighbor := pane_neighbor_result_clone (pane_neighbor_response_neighbor v)\<rparr>
     in out)"

lemma pane_neighbor_response_clone_id [clone_simps]: "pane_neighbor_response_clone = id"
  by (simp add: fun_eq_iff pane_neighbor_response_clone_def clone_simps)

record pane_process_info_response =
  pane_process_info_response_process_info :: pane_process_info

definition pane_process_info_response_zero :: pane_process_info_response where
  "pane_process_info_response_zero = \<lparr>pane_process_info_response_process_info = pane_process_info_zero\<rparr>"

definition pane_process_info_response_clone :: "pane_process_info_response \<Rightarrow> pane_process_info_response" where
  "pane_process_info_response_clone v =
    (let out = v;
      out = out\<lparr>pane_process_info_response_process_info := pane_process_info_clone (pane_process_info_response_process_info v)\<rparr>
     in out)"

lemma pane_process_info_response_clone_id [clone_simps]: "pane_process_info_response_clone = id"
  by (simp add: fun_eq_iff pane_process_info_response_clone_def clone_simps)

record pane_read_response =
  pane_read_response_read :: pane_read_result

definition pane_read_response_zero :: pane_read_response where
  "pane_read_response_zero = \<lparr>pane_read_response_read = pane_read_result_zero\<rparr>"

definition pane_read_response_clone :: "pane_read_response \<Rightarrow> pane_read_response" where
  "pane_read_response_clone v =
    (let out = v;
      out = out\<lparr>pane_read_response_read := pane_read_result_clone (pane_read_response_read v)\<rparr>
     in out)"

lemma pane_read_response_clone_id [clone_simps]: "pane_read_response_clone = id"
  by (simp add: fun_eq_iff pane_read_response_clone_def clone_simps)

record pane_resize_response =
  pane_resize_response_resize :: pane_resize_result

definition pane_resize_response_zero :: pane_resize_response where
  "pane_resize_response_zero = \<lparr>pane_resize_response_resize = pane_resize_result_zero\<rparr>"

definition pane_resize_response_clone :: "pane_resize_response \<Rightarrow> pane_resize_response" where
  "pane_resize_response_clone v =
    (let out = v;
      out = out\<lparr>pane_resize_response_resize := pane_resize_result_clone (pane_resize_response_resize v)\<rparr>
     in out)"

lemma pane_resize_response_clone_id [clone_simps]: "pane_resize_response_clone = id"
  by (simp add: fun_eq_iff pane_resize_response_clone_def clone_simps)

record pane_selection_response =
  pane_selection_response_pane_id :: string
  pane_selection_response_text :: string

definition pane_selection_response_zero :: pane_selection_response where
  "pane_selection_response_zero = \<lparr>pane_selection_response_pane_id = [],
     pane_selection_response_text = []\<rparr>"

definition pane_selection_response_clone :: "pane_selection_response \<Rightarrow> pane_selection_response" where
  "pane_selection_response_clone v = (let out = v in out)"

lemma pane_selection_response_clone_id [clone_simps]: "pane_selection_response_clone = id"
  by (simp add: fun_eq_iff pane_selection_response_clone_def clone_simps)

record pane_swap_response =
  pane_swap_response_swap :: pane_swap_result

definition pane_swap_response_zero :: pane_swap_response where
  "pane_swap_response_zero = \<lparr>pane_swap_response_swap = pane_swap_result_zero\<rparr>"

definition pane_swap_response_clone :: "pane_swap_response \<Rightarrow> pane_swap_response" where
  "pane_swap_response_clone v =
    (let out = v;
      out = out\<lparr>pane_swap_response_swap := pane_swap_result_clone (pane_swap_response_swap v)\<rparr>
     in out)"

lemma pane_swap_response_clone_id [clone_simps]: "pane_swap_response_clone = id"
  by (simp add: fun_eq_iff pane_swap_response_clone_def clone_simps)

record pane_zoom_response =
  pane_zoom_response_zoom :: pane_zoom_result

definition pane_zoom_response_zero :: pane_zoom_response where
  "pane_zoom_response_zero = \<lparr>pane_zoom_response_zoom = pane_zoom_result_zero\<rparr>"

definition pane_zoom_response_clone :: "pane_zoom_response \<Rightarrow> pane_zoom_response" where
  "pane_zoom_response_clone v =
    (let out = v;
      out = out\<lparr>pane_zoom_response_zoom := pane_zoom_result_clone (pane_zoom_response_zoom v)\<rparr>
     in out)"

lemma pane_zoom_response_clone_id [clone_simps]: "pane_zoom_response_clone = id"
  by (simp add: fun_eq_iff pane_zoom_response_clone_def clone_simps)

record plugin_action_invoked_response =
  plugin_action_invoked_response_action :: plugin_action_info
  plugin_action_invoked_response_context :: plugin_invocation_context
  plugin_action_invoked_response_log :: plugin_command_log_info

definition plugin_action_invoked_response_zero :: plugin_action_invoked_response where
  "plugin_action_invoked_response_zero = \<lparr>plugin_action_invoked_response_action = plugin_action_info_zero,
     plugin_action_invoked_response_context = plugin_invocation_context_zero,
     plugin_action_invoked_response_log = plugin_command_log_info_zero\<rparr>"

definition plugin_action_invoked_response_clone :: "plugin_action_invoked_response \<Rightarrow> plugin_action_invoked_response" where
  "plugin_action_invoked_response_clone v =
    (let out = v;
      out = out\<lparr>plugin_action_invoked_response_action := plugin_action_info_clone (plugin_action_invoked_response_action v)\<rparr>;
      out = out\<lparr>plugin_action_invoked_response_context := plugin_invocation_context_clone (plugin_action_invoked_response_context v)\<rparr>;
      out = out\<lparr>plugin_action_invoked_response_log := plugin_command_log_info_clone (plugin_action_invoked_response_log v)\<rparr>
     in out)"

lemma plugin_action_invoked_response_clone_id [clone_simps]: "plugin_action_invoked_response_clone = id"
  by (simp add: fun_eq_iff plugin_action_invoked_response_clone_def clone_simps)

record plugin_action_list_response =
  plugin_action_list_response_actions :: "plugin_action_info slice"

definition plugin_action_list_response_zero :: plugin_action_list_response where
  "plugin_action_list_response_zero = \<lparr>plugin_action_list_response_actions = None\<rparr>"

definition plugin_action_list_response_clone :: "plugin_action_list_response \<Rightarrow> plugin_action_list_response" where
  "plugin_action_list_response_clone v =
    (let out = v;
      out = out\<lparr>plugin_action_list_response_actions := clone_slice plugin_action_info_clone (plugin_action_list_response_actions v)\<rparr>
     in out)"

lemma plugin_action_list_response_clone_id [clone_simps]: "plugin_action_list_response_clone = id"
  by (simp add: fun_eq_iff plugin_action_list_response_clone_def clone_simps)

record plugin_log_list_response =
  plugin_log_list_response_logs :: "plugin_command_log_info slice"

definition plugin_log_list_response_zero :: plugin_log_list_response where
  "plugin_log_list_response_zero = \<lparr>plugin_log_list_response_logs = None\<rparr>"

definition plugin_log_list_response_clone :: "plugin_log_list_response \<Rightarrow> plugin_log_list_response" where
  "plugin_log_list_response_clone v =
    (let out = v;
      out = out\<lparr>plugin_log_list_response_logs := clone_slice plugin_command_log_info_clone (plugin_log_list_response_logs v)\<rparr>
     in out)"

lemma plugin_log_list_response_clone_id [clone_simps]: "plugin_log_list_response_clone = id"
  by (simp add: fun_eq_iff plugin_log_list_response_clone_def clone_simps)

record plugin_pane_closed_response =
  plugin_pane_closed_response_pane_id :: string

definition plugin_pane_closed_response_zero :: plugin_pane_closed_response where
  "plugin_pane_closed_response_zero = \<lparr>plugin_pane_closed_response_pane_id = []\<rparr>"

definition plugin_pane_closed_response_clone :: "plugin_pane_closed_response \<Rightarrow> plugin_pane_closed_response" where
  "plugin_pane_closed_response_clone v = (let out = v in out)"

lemma plugin_pane_closed_response_clone_id [clone_simps]: "plugin_pane_closed_response_clone = id"
  by (simp add: fun_eq_iff plugin_pane_closed_response_clone_def clone_simps)

record plugin_pane_focused_response =
  plugin_pane_focused_response_plugin_pane :: plugin_pane_info

definition plugin_pane_focused_response_zero :: plugin_pane_focused_response where
  "plugin_pane_focused_response_zero = \<lparr>plugin_pane_focused_response_plugin_pane = plugin_pane_info_zero\<rparr>"

definition plugin_pane_focused_response_clone :: "plugin_pane_focused_response \<Rightarrow> plugin_pane_focused_response" where
  "plugin_pane_focused_response_clone v =
    (let out = v;
      out = out\<lparr>plugin_pane_focused_response_plugin_pane := plugin_pane_info_clone (plugin_pane_focused_response_plugin_pane v)\<rparr>
     in out)"

lemma plugin_pane_focused_response_clone_id [clone_simps]: "plugin_pane_focused_response_clone = id"
  by (simp add: fun_eq_iff plugin_pane_focused_response_clone_def clone_simps)

record plugin_pane_opened_response =
  plugin_pane_opened_response_plugin_pane :: plugin_pane_info

definition plugin_pane_opened_response_zero :: plugin_pane_opened_response where
  "plugin_pane_opened_response_zero = \<lparr>plugin_pane_opened_response_plugin_pane = plugin_pane_info_zero\<rparr>"

definition plugin_pane_opened_response_clone :: "plugin_pane_opened_response \<Rightarrow> plugin_pane_opened_response" where
  "plugin_pane_opened_response_clone v =
    (let out = v;
      out = out\<lparr>plugin_pane_opened_response_plugin_pane := plugin_pane_info_clone (plugin_pane_opened_response_plugin_pane v)\<rparr>
     in out)"

lemma plugin_pane_opened_response_clone_id [clone_simps]: "plugin_pane_opened_response_clone = id"
  by (simp add: fun_eq_iff plugin_pane_opened_response_clone_def clone_simps)

record plugin_unlinked_response =
  plugin_unlinked_response_plugin_id :: string
  plugin_unlinked_response_removed :: bool

definition plugin_unlinked_response_zero :: plugin_unlinked_response where
  "plugin_unlinked_response_zero = \<lparr>plugin_unlinked_response_plugin_id = [],
     plugin_unlinked_response_removed = False\<rparr>"

definition plugin_unlinked_response_clone :: "plugin_unlinked_response \<Rightarrow> plugin_unlinked_response" where
  "plugin_unlinked_response_clone v = (let out = v in out)"

lemma plugin_unlinked_response_clone_id [clone_simps]: "plugin_unlinked_response_clone = id"
  by (simp add: fun_eq_iff plugin_unlinked_response_clone_def clone_simps)

record pong_response =
  pong_response_capabilities :: "server_capabilities optional"
  pong_response_protocol :: "32 word"
  pong_response_version :: string

definition pong_response_zero :: pong_response where
  "pong_response_zero = \<lparr>pong_response_capabilities = Absent,
     pong_response_protocol = 0,
     pong_response_version = []\<rparr>"

definition pong_response_clone :: "pong_response \<Rightarrow> pong_response" where
  "pong_response_clone v =
    (let out = v;
      out = out\<lparr>pong_response_capabilities := clone_opt server_capabilities_clone (pong_response_capabilities v)\<rparr>
     in out)"

lemma pong_response_clone_id [clone_simps]: "pong_response_clone = id"
  by (simp add: fun_eq_iff pong_response_clone_def clone_simps)

record session_snapshot_response =
  session_snapshot_response_snapshot :: session_snapshot

definition session_snapshot_response_zero :: session_snapshot_response where
  "session_snapshot_response_zero = \<lparr>session_snapshot_response_snapshot = session_snapshot_zero\<rparr>"

definition session_snapshot_response_clone :: "session_snapshot_response \<Rightarrow> session_snapshot_response" where
  "session_snapshot_response_clone v =
    (let out = v;
      out = out\<lparr>session_snapshot_response_snapshot := session_snapshot_clone (session_snapshot_response_snapshot v)\<rparr>
     in out)"

lemma session_snapshot_response_clone_id [clone_simps]: "session_snapshot_response_clone = id"
  by (simp add: fun_eq_iff session_snapshot_response_clone_def clone_simps)

record tab_created_response =
  tab_created_response_root_pane :: pane_info
  tab_created_response_tab :: tab_info

definition tab_created_response_zero :: tab_created_response where
  "tab_created_response_zero = \<lparr>tab_created_response_root_pane = pane_info_zero,
     tab_created_response_tab = tab_info_zero\<rparr>"

definition tab_created_response_clone :: "tab_created_response \<Rightarrow> tab_created_response" where
  "tab_created_response_clone v =
    (let out = v;
      out = out\<lparr>tab_created_response_root_pane := pane_info_clone (tab_created_response_root_pane v)\<rparr>;
      out = out\<lparr>tab_created_response_tab := tab_info_clone (tab_created_response_tab v)\<rparr>
     in out)"

lemma tab_created_response_clone_id [clone_simps]: "tab_created_response_clone = id"
  by (simp add: fun_eq_iff tab_created_response_clone_def clone_simps)

record tab_info_response =
  tab_info_response_tab :: tab_info

definition tab_info_response_zero :: tab_info_response where
  "tab_info_response_zero = \<lparr>tab_info_response_tab = tab_info_zero\<rparr>"

definition tab_info_response_clone :: "tab_info_response \<Rightarrow> tab_info_response" where
  "tab_info_response_clone v =
    (let out = v;
      out = out\<lparr>tab_info_response_tab := tab_info_clone (tab_info_response_tab v)\<rparr>
     in out)"

lemma tab_info_response_clone_id [clone_simps]: "tab_info_response_clone = id"
  by (simp add: fun_eq_iff tab_info_response_clone_def clone_simps)

record tab_list_response =
  tab_list_response_tabs :: "tab_info slice"

definition tab_list_response_zero :: tab_list_response where
  "tab_list_response_zero = \<lparr>tab_list_response_tabs = None\<rparr>"

definition tab_list_response_clone :: "tab_list_response \<Rightarrow> tab_list_response" where
  "tab_list_response_clone v =
    (let out = v;
      out = out\<lparr>tab_list_response_tabs := clone_slice tab_info_clone (tab_list_response_tabs v)\<rparr>
     in out)"

lemma tab_list_response_clone_id [clone_simps]: "tab_list_response_clone = id"
  by (simp add: fun_eq_iff tab_list_response_clone_def clone_simps)

record workspace_created_response =
  workspace_created_response_root_pane :: pane_info
  workspace_created_response_tab :: tab_info
  workspace_created_response_workspace :: workspace_info

definition workspace_created_response_zero :: workspace_created_response where
  "workspace_created_response_zero = \<lparr>workspace_created_response_root_pane = pane_info_zero,
     workspace_created_response_tab = tab_info_zero,
     workspace_created_response_workspace = workspace_info_zero\<rparr>"

definition workspace_created_response_clone :: "workspace_created_response \<Rightarrow> workspace_created_response" where
  "workspace_created_response_clone v =
    (let out = v;
      out = out\<lparr>workspace_created_response_root_pane := pane_info_clone (workspace_created_response_root_pane v)\<rparr>;
      out = out\<lparr>workspace_created_response_tab := tab_info_clone (workspace_created_response_tab v)\<rparr>;
      out = out\<lparr>workspace_created_response_workspace := workspace_info_clone (workspace_created_response_workspace v)\<rparr>
     in out)"

lemma workspace_created_response_clone_id [clone_simps]: "workspace_created_response_clone = id"
  by (simp add: fun_eq_iff workspace_created_response_clone_def clone_simps)

record workspace_info_response =
  workspace_info_response_workspace :: workspace_info

definition workspace_info_response_zero :: workspace_info_response where
  "workspace_info_response_zero = \<lparr>workspace_info_response_workspace = workspace_info_zero\<rparr>"

definition workspace_info_response_clone :: "workspace_info_response \<Rightarrow> workspace_info_response" where
  "workspace_info_response_clone v =
    (let out = v;
      out = out\<lparr>workspace_info_response_workspace := workspace_info_clone (workspace_info_response_workspace v)\<rparr>
     in out)"

lemma workspace_info_response_clone_id [clone_simps]: "workspace_info_response_clone = id"
  by (simp add: fun_eq_iff workspace_info_response_clone_def clone_simps)

record workspace_list_response =
  workspace_list_response_workspaces :: "workspace_info slice"

definition workspace_list_response_zero :: workspace_list_response where
  "workspace_list_response_zero = \<lparr>workspace_list_response_workspaces = None\<rparr>"

definition workspace_list_response_clone :: "workspace_list_response \<Rightarrow> workspace_list_response" where
  "workspace_list_response_clone v =
    (let out = v;
      out = out\<lparr>workspace_list_response_workspaces := clone_slice workspace_info_clone (workspace_list_response_workspaces v)\<rparr>
     in out)"

lemma workspace_list_response_clone_id [clone_simps]: "workspace_list_response_clone = id"
  by (simp add: fun_eq_iff workspace_list_response_clone_def clone_simps)

record worktree_created_response =
  worktree_created_response_root_pane :: pane_info
  worktree_created_response_tab :: tab_info
  worktree_created_response_workspace :: workspace_info
  worktree_created_response_worktree :: worktree_info

definition worktree_created_response_zero :: worktree_created_response where
  "worktree_created_response_zero = \<lparr>worktree_created_response_root_pane = pane_info_zero,
     worktree_created_response_tab = tab_info_zero,
     worktree_created_response_workspace = workspace_info_zero,
     worktree_created_response_worktree = worktree_info_zero\<rparr>"

definition worktree_created_response_clone :: "worktree_created_response \<Rightarrow> worktree_created_response" where
  "worktree_created_response_clone v =
    (let out = v;
      out = out\<lparr>worktree_created_response_root_pane := pane_info_clone (worktree_created_response_root_pane v)\<rparr>;
      out = out\<lparr>worktree_created_response_tab := tab_info_clone (worktree_created_response_tab v)\<rparr>;
      out = out\<lparr>worktree_created_response_workspace := workspace_info_clone (worktree_created_response_workspace v)\<rparr>;
      out = out\<lparr>worktree_created_response_worktree := worktree_info_clone (worktree_created_response_worktree v)\<rparr>
     in out)"

lemma worktree_created_response_clone_id [clone_simps]: "worktree_created_response_clone = id"
  by (simp add: fun_eq_iff worktree_created_response_clone_def clone_simps)

record worktree_list_response =
  worktree_list_response_source :: worktree_source_info
  worktree_list_response_worktrees :: "worktree_info slice"

definition worktree_list_response_zero :: worktree_list_response where
  "worktree_list_response_zero = \<lparr>worktree_list_response_source = worktree_source_info_zero,
     worktree_list_response_worktrees = None\<rparr>"

definition worktree_list_response_clone :: "worktree_list_response \<Rightarrow> worktree_list_response" where
  "worktree_list_response_clone v =
    (let out = v;
      out = out\<lparr>worktree_list_response_source := worktree_source_info_clone (worktree_list_response_source v)\<rparr>;
      out = out\<lparr>worktree_list_response_worktrees := clone_slice worktree_info_clone (worktree_list_response_worktrees v)\<rparr>
     in out)"

lemma worktree_list_response_clone_id [clone_simps]: "worktree_list_response_clone = id"
  by (simp add: fun_eq_iff worktree_list_response_clone_def clone_simps)

record worktree_opened_response =
  worktree_opened_response_already_open :: bool
  worktree_opened_response_root_pane :: pane_info
  worktree_opened_response_tab :: tab_info
  worktree_opened_response_workspace :: workspace_info
  worktree_opened_response_worktree :: worktree_info

definition worktree_opened_response_zero :: worktree_opened_response where
  "worktree_opened_response_zero = \<lparr>worktree_opened_response_already_open = False,
     worktree_opened_response_root_pane = pane_info_zero,
     worktree_opened_response_tab = tab_info_zero,
     worktree_opened_response_workspace = workspace_info_zero,
     worktree_opened_response_worktree = worktree_info_zero\<rparr>"

definition worktree_opened_response_clone :: "worktree_opened_response \<Rightarrow> worktree_opened_response" where
  "worktree_opened_response_clone v =
    (let out = v;
      out = out\<lparr>worktree_opened_response_root_pane := pane_info_clone (worktree_opened_response_root_pane v)\<rparr>;
      out = out\<lparr>worktree_opened_response_tab := tab_info_clone (worktree_opened_response_tab v)\<rparr>;
      out = out\<lparr>worktree_opened_response_workspace := workspace_info_clone (worktree_opened_response_workspace v)\<rparr>;
      out = out\<lparr>worktree_opened_response_worktree := worktree_info_clone (worktree_opened_response_worktree v)\<rparr>
     in out)"

lemma worktree_opened_response_clone_id [clone_simps]: "worktree_opened_response_clone = id"
  by (simp add: fun_eq_iff worktree_opened_response_clone_def clone_simps)

record worktree_removed_response =
  worktree_removed_response_forced :: bool
  worktree_removed_response_path :: string
  worktree_removed_response_workspace_id :: string

definition worktree_removed_response_zero :: worktree_removed_response where
  "worktree_removed_response_zero = \<lparr>worktree_removed_response_forced = False,
     worktree_removed_response_path = [],
     worktree_removed_response_workspace_id = []\<rparr>"

definition worktree_removed_response_clone :: "worktree_removed_response \<Rightarrow> worktree_removed_response" where
  "worktree_removed_response_clone v = (let out = v in out)"

lemma worktree_removed_response_clone_id [clone_simps]: "worktree_removed_response_clone = id"
  by (simp add: fun_eq_iff worktree_removed_response_clone_def clone_simps)

end
