(* ===== verification/Unions_Manual.thy ===== *)
theory Unions_Manual
  imports Wire
begin

text \<open>
  The types written by hand in \<open>herdr/unions_manual.go\<close>: values the schema describes without a
  discriminator, told apart by the kind of their JSON. The bytes of a value are the document they hold,
  so the first byte of the trimmed bytes is the kind of the document. \<open>quote\<close> is \<open>strconv.Quote\<close>. An
  error keeps its text, with \<open>Wrapped\<close> for one that ends in an error of \<open>encoding/json\<close> and \<open>Unsupported\<close>
  for one that ends in the bytes.
\<close>

datatype union_error = Message string | Wrapped string | Unsupported string json

subsection \<open>\<open>PopupSize\<close>\<close>

record pane_size =
  sz_cells :: "16 word"
  sz_percent :: "8 word"

definition pane_size_clone :: "pane_size \<Rightarrow> pane_size" where
  "pane_size_clone s = s"

definition pane_size_is_percent :: "pane_size \<Rightarrow> bool" where
  "pane_size_is_percent s \<longleftrightarrow> sz_percent s \<noteq> 0"

definition pane_size_string :: "pane_size \<Rightarrow> string" where
  "pane_size_string s =
    (if pane_size_is_percent s then format_uint (unat (sz_percent s)) @ ''%'' else format_uint (unat (sz_cells s)))"

definition marshal_pane_size :: "pane_size \<Rightarrow> (union_error, json) result" where
  "marshal_pane_size s =
    (if pane_size_is_percent s
     then
       (if unat (sz_percent s) > 100
        then err (Message (''herdr: popup size '' @ format_uint (unat (sz_percent s)) @
          ''% is out of range; a percentage is 1 to 100''))
        else ok (cod_enc string_codec (pane_size_string s)))
     else ok (cod_enc uint_codec (sz_cells s)))"

definition unmarshal_pane_size :: "(string \<Rightarrow> string) \<Rightarrow> json \<Rightarrow> (union_error, pane_size) result" where
  "unmarshal_pane_size quote data = (case data of
     JStr text \<Rightarrow>
       (case cut_suffix text ''%'' of
          None \<Rightarrow> err (Message (''herdr: popup size '' @ quote text @ '' must be a percentage like '' @
            [CHR 0x22] @ ''80%'' @ [CHR 0x22] @ ''; use a number for cells''))
        | Some number \<Rightarrow>
            (case parse_uint 8 number of
               None \<Rightarrow> err (Message (''herdr: popup size '' @ quote text @ '' must be a percentage between 1% and 100%''))
             | Some percent \<Rightarrow>
                 if percent < 1 \<or> percent > 100
                 then err (Message (''herdr: popup size '' @ quote text @ '' must be a percentage between 1% and 100%''))
                 else ok \<lparr>sz_cells = 0, sz_percent = of_nat percent\<rparr>))
   | _ \<Rightarrow>
       (case cod_dec uint_codec data (0 :: 64 word) of
          None \<Rightarrow> err (Wrapped (''herdr: popup size must be a number or a percentage like '' @
            [CHR 0x22] @ ''80%'' @ [CHR 0x22]))
        | Some cells \<Rightarrow>
            if unat cells > 65535
            then err (Message (''herdr: popup size '' @ format_uint (unat cells) @ '' is out of range; a cell count is 0 to 65535''))
            else ok \<lparr>sz_cells = ucast cells, sz_percent = 0\<rparr>))"

subsection \<open>\<open>AgentViewValue\<close>\<close>

record agent_view_value =
  av_text :: "string pointer"
  av_bool :: "bool pointer"
  av_uint :: "64 word pointer"
  av_context :: "string pointer"

definition agent_view_value_zero :: agent_view_value where
  "agent_view_value_zero = \<lparr>av_text = None, av_bool = None, av_uint = None, av_context = None\<rparr>"

definition agent_view_value_clone :: "agent_view_value \<Rightarrow> agent_view_value" where
  "agent_view_value_clone v =
    (let v = v\<lparr>av_text := clone_ptr (av_text v)\<rparr>;
         v = v\<lparr>av_bool := clone_ptr (av_bool v)\<rparr>;
         v = v\<lparr>av_uint := clone_ptr (av_uint v)\<rparr>;
         v = v\<lparr>av_context := clone_ptr (av_context v)\<rparr>
     in v)"

definition agent_view_text :: "string \<Rightarrow> agent_view_value" where
  "agent_view_text x = agent_view_value_zero\<lparr>av_text := Some x\<rparr>"

definition agent_view_bool :: "bool \<Rightarrow> agent_view_value" where
  "agent_view_bool x = agent_view_value_zero\<lparr>av_bool := Some x\<rparr>"

definition agent_view_uint :: "64 word \<Rightarrow> agent_view_value" where
  "agent_view_uint x = agent_view_value_zero\<lparr>av_uint := Some x\<rparr>"

definition agent_view_context_value :: "string \<Rightarrow> agent_view_value" where
  "agent_view_context_value x = agent_view_value_zero\<lparr>av_context := Some x\<rparr>"

fun count_set :: "nat \<Rightarrow> bool list \<Rightarrow> nat" where
  "count_set n [] = n"
| "count_set n (is_set # rest) = count_set (if is_set then n + 1 else n) rest"

definition marshal_agent_view_value :: "agent_view_value \<Rightarrow> (union_error, json) result" where
  "marshal_agent_view_value v =
    (let n = count_set 0 [av_text v \<noteq> None, av_bool v \<noteq> None, av_uint v \<noteq> None, av_context v \<noteq> None]
     in if n \<noteq> 1
        then err (Message (''herdr: an agent view value must have exactly one field set, got '' @ format_uint n))
        else ok (case av_text v of Some x \<Rightarrow> cod_enc string_codec x
          | None \<Rightarrow> (case av_bool v of Some x \<Rightarrow> cod_enc bool_codec x
            | None \<Rightarrow> (case av_uint v of Some x \<Rightarrow> cod_enc uint_codec x
              | None \<Rightarrow> JObj [(''context'', cod_enc string_codec (the (av_context v)))]))))"

text \<open>The struct around a pointer that the two object forms decode into.\<close>

definition wrapper_fields :: "string \<Rightarrow> string pointer field list" where
  "wrapper_fields name = [plain_field name (pointer_codec string_codec) (\<lambda>p. p) (\<lambda>x p. x)]"

definition unmarshal_agent_view_value :: "json \<Rightarrow> (union_error, agent_view_value) result" where
  "unmarshal_agent_view_value data = (case data of
     JStr x \<Rightarrow> ok (agent_view_text x)
   | JBool x \<Rightarrow> ok (agent_view_bool x)
   | JObj kvs \<Rightarrow>
       (case decode_struct (wrapper_fields ''context'') data None of
          None \<Rightarrow> err (Wrapped [])
        | Some None \<Rightarrow> err (Message ''herdr: agent view value object has no context field'')
        | Some (Some x) \<Rightarrow> ok (agent_view_context_value x))
   | _ \<Rightarrow>
       (case cod_dec uint_codec data 0 of
          None \<Rightarrow> err (Unsupported ''herdr: unsupported agent view value'' data)
        | Some x \<Rightarrow> ok (agent_view_uint x)))"

subsection \<open>\<open>AgentViewField\<close> and \<open>AgentViewSortField\<close>\<close>

record agent_view_field =
  avf_builtin :: string
  avf_token :: string

record agent_view_sort_field =
  avs_builtin :: string
  avs_token :: string

definition agent_view_field_clone :: "agent_view_field \<Rightarrow> agent_view_field" where
  "agent_view_field_clone f = f"

definition agent_view_sort_field_clone :: "agent_view_sort_field \<Rightarrow> agent_view_sort_field" where
  "agent_view_sort_field_clone f = f"

definition agent_view_field_of :: "string \<Rightarrow> agent_view_field" where
  "agent_view_field_of field = \<lparr>avf_builtin = field, avf_token = []\<rparr>"

definition agent_view_field_token :: "string \<Rightarrow> agent_view_field" where
  "agent_view_field_token token = \<lparr>avf_builtin = [], avf_token = token\<rparr>"

definition agent_view_sort_field_of :: "string \<Rightarrow> agent_view_sort_field" where
  "agent_view_sort_field_of field = \<lparr>avs_builtin = field, avs_token = []\<rparr>"

definition agent_view_sort_field_token :: "string \<Rightarrow> agent_view_sort_field" where
  "agent_view_sort_field_token token = \<lparr>avs_builtin = [], avs_token = token\<rparr>"

definition marshal_token :: "string \<Rightarrow> json" where
  "marshal_token token = JObj [(''token'', cod_enc string_codec token)]"

text \<open>\<open>unmarshalFieldOrToken\<close>: the built-in name and the token.\<close>

definition unmarshal_field_or_token :: "json \<Rightarrow> string \<Rightarrow> (union_error, string \<times> string) result" where
  "unmarshal_field_or_token data what = (case data of
     JStr builtin \<Rightarrow> ok (builtin, [])
   | JObj kvs \<Rightarrow>
       (case decode_struct (wrapper_fields ''token'') data None of
          None \<Rightarrow> err (Wrapped [])
        | Some None \<Rightarrow> err (Message (''herdr: '' @ what @ '' object has no token field''))
        | Some (Some token) \<Rightarrow> ok ([], token))
   | _ \<Rightarrow> err (Unsupported (''herdr: '' @ what @ '' must be a string or a token object, got'') data))"

definition marshal_agent_view_field :: "agent_view_field \<Rightarrow> (union_error, json) result" where
  "marshal_agent_view_field f =
    (if avf_token f \<noteq> [] then ok (marshal_token (avf_token f))
     else if avf_builtin f = [] then err (Message ''herdr: an agent view field must name a built-in field or a token'')
     else ok (cod_enc string_codec (avf_builtin f)))"

definition unmarshal_agent_view_field :: "json \<Rightarrow> (union_error, agent_view_field) result" where
  "unmarshal_agent_view_field data = (case unmarshal_field_or_token data ''agent view field'' of
     Inl e \<Rightarrow> err e | Inr (builtin, token) \<Rightarrow> ok \<lparr>avf_builtin = builtin, avf_token = token\<rparr>)"

definition marshal_agent_view_sort_field :: "agent_view_sort_field \<Rightarrow> (union_error, json) result" where
  "marshal_agent_view_sort_field f =
    (if avs_token f \<noteq> [] then ok (marshal_token (avs_token f))
     else if avs_builtin f = []
     then err (Message ''herdr: an agent view sort field must name a built-in field or a token'')
     else ok (cod_enc string_codec (avs_builtin f)))"

definition unmarshal_agent_view_sort_field :: "json \<Rightarrow> (union_error, agent_view_sort_field) result" where
  "unmarshal_agent_view_sort_field data = (case unmarshal_field_or_token data ''agent view sort field'' of
     Inl e \<Rightarrow> err e | Inr (builtin, token) \<Rightarrow> ok \<lparr>avs_builtin = builtin, avs_token = token\<rparr>)"

subsection \<open>Their codecs\<close>

text \<open>
  A type with methods of its own in a struct: a value that does not marshal makes the whole struct fail,
  so it is not among those that survive.
\<close>

definition method_codec ::
  "'a \<Rightarrow> ('a \<Rightarrow> (union_error, json) result) \<Rightarrow> (json \<Rightarrow> (union_error, 'a) result) \<Rightarrow> ('a \<Rightarrow> bool) \<Rightarrow> 'a codec" where
  "method_codec z write_to read_from okay = \<lparr>cod_zero = z,
     cod_enc = (\<lambda>v. case write_to v of Inl e \<Rightarrow> JNull | Inr j \<Rightarrow> j),
     cod_dec = (\<lambda>j old. case read_from j of Inl e \<Rightarrow> None | Inr v \<Rightarrow> Some v),
     cod_ok = okay\<rparr>"

lemma lawful_method:
  assumes "\<And>v. okay v \<Longrightarrow> \<exists>j. write_to v = Inr j \<and> read_from j = Inr v"
  shows "lawful (method_codec z write_to read_from okay)"
  using assms by (fastforce simp: lawful_def method_codec_def)

definition pane_size_ok :: "pane_size \<Rightarrow> bool" where
  "pane_size_ok s \<longleftrightarrow> (if sz_percent s = 0 then True else unat (sz_percent s) \<le> 100 \<and> sz_cells s = 0)"

definition agent_view_value_ok :: "agent_view_value \<Rightarrow> bool" where
  "agent_view_value_ok v \<longleftrightarrow> (\<exists>s. valid_utf8 s \<and> (v = agent_view_text s \<or> v = agent_view_context_value s)) \<or>
    (\<exists>b. v = agent_view_bool b) \<or> (\<exists>n. v = agent_view_uint n)"

definition agent_view_field_ok :: "agent_view_field \<Rightarrow> bool" where
  "agent_view_field_ok f \<longleftrightarrow> valid_utf8 (avf_builtin f) \<and> valid_utf8 (avf_token f) \<and>
    (avf_builtin f = [] \<longleftrightarrow> avf_token f \<noteq> [])"

definition agent_view_sort_field_ok :: "agent_view_sort_field \<Rightarrow> bool" where
  "agent_view_sort_field_ok f \<longleftrightarrow> valid_utf8 (avs_builtin f) \<and> valid_utf8 (avs_token f) \<and>
    (avs_builtin f = [] \<longleftrightarrow> avs_token f \<noteq> [])"

lemma cut_suffix_percent_sign: "cut_suffix (s @ ''%'') ''%'' = Some s"
  by (simp add: cut_suffix_Some)

lemma digits_ascii: "list_all is_digit s \<Longrightarrow> \<forall>c \<in> set s. (of_char c :: nat) < 0x80"
  by (auto simp: list_all_iff is_digit_def)

lemma marshal_pane_size_percent:
  assumes "sz_percent s \<noteq> 0" "unat (sz_percent s) \<le> 100"
  shows "marshal_pane_size s = Inr (JStr (format_uint (unat (sz_percent s)) @ ''%''))"
proof -
  have "valid_utf8 (format_uint (unat (sz_percent s)) @ ''%'')"
    using digits_ascii [OF conjunct1 [OF format_uint_digits [of "unat (sz_percent s)"]]] by (intro valid_utf8_ascii) auto
  with assms show ?thesis
    by (simp add: marshal_pane_size_def pane_size_is_percent_def pane_size_string_def string_codec_def coerce_valid)
qed

lemma unmarshal_pane_size_percent:
  assumes "p \<noteq> 0" "unat p \<le> 100"
  shows "unmarshal_pane_size quote (JStr (format_uint (unat p) @ ''%'')) = Inr \<lparr>sz_cells = 0, sz_percent = p\<rparr>"
proof -
  have "unat p < 2 ^ 8" using unsigned_less [of p] by simp
  moreover have "unat p \<noteq> 0" using assms(1) by (simp add: unsigned_eq_0_iff)
  ultimately show ?thesis
    using assms parse_format_uint [of "unat p" 8] cut_suffix_percent_sign [of "format_uint (unat p)"]
    by (simp add: unmarshal_pane_size_def)
qed

lemma unmarshal_pane_size_cells:
  "unmarshal_pane_size quote (cod_enc uint_codec (n :: 16 word)) = Inr \<lparr>sz_cells = n, sz_percent = 0\<rparr>"
proof -
  have n: "unat n < 65536" using unsigned_less [of n] by simp
  then have "unat (of_nat (unat n) :: 64 word) = unat n"
    by (simp add: unsigned_ucast_eq take_bit_nat_eq_self)
  moreover have "ucast (of_nat (unat n) :: 64 word) = n"
  proof -
    have "ucast (ucast n :: 64 word) = n" by (rule bit_word_eqI) (auto simp: bit_unsigned_iff)
    then show ?thesis by simp
  qed
  ultimately show ?thesis
    using n parse_format_uint [of "unat n" 64] by (simp add: unmarshal_pane_size_def uint_codec_def)
qed

lemma decode_wrapper:
  assumes "valid_utf8 x"
  shows "decode_struct (wrapper_fields name) (JObj [(name, cod_enc string_codec x)]) None = Some (Some x)"
  using assms
  by (simp add: decode_struct_def wrapper_fields_def find_field_def plain_field_def pointer_codec_def string_codec_def
      coerce_valid)

lemma marshal_agent_view_one:
  "marshal_agent_view_value (agent_view_text s) = Inr (cod_enc string_codec s)"
  "marshal_agent_view_value (agent_view_bool b) = Inr (cod_enc bool_codec b)"
  "marshal_agent_view_value (agent_view_uint n) = Inr (cod_enc uint_codec n)"
  "marshal_agent_view_value (agent_view_context_value s) = Inr (JObj [(''context'', cod_enc string_codec s)])"
  by (simp_all add: marshal_agent_view_value_def agent_view_text_def agent_view_bool_def agent_view_uint_def
      agent_view_context_value_def agent_view_value_zero_def)

lemma unmarshal_agent_view_one:
  "valid_utf8 s \<Longrightarrow> unmarshal_agent_view_value (cod_enc string_codec s) = Inr (agent_view_text s)"
  "unmarshal_agent_view_value (cod_enc bool_codec b) = Inr (agent_view_bool b)"
  "unmarshal_agent_view_value (cod_enc uint_codec n) = Inr (agent_view_uint n)"
  "valid_utf8 s \<Longrightarrow>
    unmarshal_agent_view_value (JObj [(''context'', cod_enc string_codec s)]) = Inr (agent_view_context_value s)"
  using lawfulD [OF lawful_uint, of n] decode_wrapper [of s "''context''"]
  by (auto simp: unmarshal_agent_view_value_def string_codec_def bool_codec_def uint_codec_def coerce_valid)

lemma unmarshal_token:
  "valid_utf8 x \<Longrightarrow> unmarshal_field_or_token (marshal_token x) what = Inr ([], x)"
  "valid_utf8 x \<Longrightarrow> unmarshal_field_or_token (cod_enc string_codec x) what = Inr (x, [])"
  using decode_wrapper [of x "''token''"]
  by (simp_all add: unmarshal_field_or_token_def marshal_token_def string_codec_def coerce_valid)

definition pane_size_codec :: "(string \<Rightarrow> string) \<Rightarrow> pane_size codec" where
  "pane_size_codec quote =
    method_codec \<lparr>sz_cells = 0, sz_percent = 0\<rparr> marshal_pane_size (unmarshal_pane_size quote) pane_size_ok"

definition agent_view_value_codec :: "agent_view_value codec" where
  "agent_view_value_codec =
    method_codec agent_view_value_zero marshal_agent_view_value unmarshal_agent_view_value agent_view_value_ok"

definition agent_view_field_codec :: "agent_view_field codec" where
  "agent_view_field_codec = method_codec (agent_view_field_of []) marshal_agent_view_field unmarshal_agent_view_field
     agent_view_field_ok"

definition agent_view_sort_field_codec :: "agent_view_sort_field codec" where
  "agent_view_sort_field_codec = method_codec (agent_view_sort_field_of []) marshal_agent_view_sort_field
     unmarshal_agent_view_sort_field agent_view_sort_field_ok"

lemma pane_size_codec_lawful [simp]: "lawful (pane_size_codec quote)"
  unfolding pane_size_codec_def
proof (rule lawful_method)
  fix s
  assume "pane_size_ok s"
  then show "\<exists>j. marshal_pane_size s = Inr j \<and> unmarshal_pane_size quote j = Inr s"
    using marshal_pane_size_percent [of s] unmarshal_pane_size_percent [of "sz_percent s" quote]
      unmarshal_pane_size_cells [of quote "sz_cells s"]
    by (cases "sz_percent s = 0") (simp_all add: pane_size_ok_def marshal_pane_size_def pane_size_is_percent_def)
qed

lemma agent_view_value_codec_lawful [simp]: "lawful agent_view_value_codec"
  unfolding agent_view_value_codec_def
  by (rule lawful_method) (auto simp: agent_view_value_ok_def marshal_agent_view_one unmarshal_agent_view_one)

lemma agent_view_field_codec_lawful [simp]: "lawful agent_view_field_codec"
  unfolding agent_view_field_codec_def
  by (rule lawful_method)
    (auto simp: agent_view_field_ok_def marshal_agent_view_field_def unmarshal_agent_view_field_def unmarshal_token)

lemma agent_view_sort_field_codec_lawful [simp]: "lawful agent_view_sort_field_codec"
  unfolding agent_view_sort_field_codec_def
  by (rule lawful_method)
    (auto simp: agent_view_sort_field_ok_def marshal_agent_view_sort_field_def unmarshal_agent_view_sort_field_def
      unmarshal_token)

lemma manual_codec_zeros [simp]:
  "cod_zero (pane_size_codec quote) = \<lparr>sz_cells = 0, sz_percent = 0\<rparr>"
  "cod_zero agent_view_value_codec = agent_view_value_zero"
  "cod_zero agent_view_field_codec = agent_view_field_of []"
  "cod_zero agent_view_sort_field_codec = agent_view_sort_field_of []"
  by (simp_all add: pane_size_codec_def agent_view_value_codec_def agent_view_field_codec_def
      agent_view_sort_field_codec_def method_codec_def)

lemma manual_clone_id [clone_simps]:
  "pane_size_clone = id" "agent_view_value_clone = id" "agent_view_field_clone = id" "agent_view_sort_field_clone = id"
  by (simp_all add: fun_eq_iff pane_size_clone_def agent_view_value_clone_def agent_view_field_clone_def
      agent_view_sort_field_clone_def clone_simps)

text \<open>A value marshals exactly when it says one thing.\<close>

lemma marshal_agent_view_value_iff:
  "(\<exists>j. marshal_agent_view_value v = Inr j) \<longleftrightarrow>
    (\<exists>s. v = agent_view_text s) \<or> (\<exists>b. v = agent_view_bool b) \<or> (\<exists>n. v = agent_view_uint n) \<or>
    (\<exists>s. v = agent_view_context_value s)"
proof (cases v)
  case (fields t b n c)
  then show ?thesis
    by (cases t; cases b; cases n; cases c)
      (simp_all add: marshal_agent_view_value_def agent_view_text_def agent_view_bool_def agent_view_uint_def
        agent_view_context_value_def agent_view_value_zero_def)
qed

end
