(* ===== verification/Layout_Node.thy ===== *)
theory Layout_Node
  imports Subscription Unions_Manual
begin

text \<open>
  The tree of a layout: the union \<open>LayoutNode\<close> of \<open>herdr/types_gen.go\<close>, whose splits hold unions again, and
  \<open>LayoutPanes\<close> of \<open>herdr/layout.go\<close>.

  A pointer to a variant is a value of the union as well; \<open>LayoutNodeRef\<close> is such a pointer, \<open>None\<close> for a nil
  one. The nil interface is \<open>None\<close> of \<open>layout_node option\<close>. Following a nil pointer panics, which is \<open>None\<close>
  of a result.
\<close>

subsection \<open>Signed integers and raw documents\<close>

definition parse_int :: "nat \<Rightarrow> string \<Rightarrow> int option" where
  "parse_int bits s =
    (let v = (case s of c # r \<Rightarrow> if c = CHR ''-'' then map_option (\<lambda>n. - int n) (parse_uint 64 r)
           else map_option int (parse_uint 64 s) | [] \<Rightarrow> None)
     in case v of None \<Rightarrow> None
        | Some i \<Rightarrow> if - (2 ^ (bits - 1)) \<le> i \<and> i < 2 ^ (bits - 1) then Some i else None)"

definition format_int :: "int \<Rightarrow> string" where
  "format_int i = (if i < 0 then CHR ''-'' # format_uint (nat (- i)) else format_uint (nat i))"

definition int_codec :: "'w::len word codec" where
  "int_codec = \<lparr>cod_zero = 0, cod_enc = (\<lambda>n. JNum (format_int (sint n))),
     cod_dec = (\<lambda>j old. case j of
         JNum lit \<Rightarrow> map_option of_int (parse_int (LENGTH('w)) lit) | JNull \<Rightarrow> Some old | _ \<Rightarrow> None),
     cod_ok = (\<lambda>_. LENGTH('w) \<le> 64)\<rparr>"

lemma parse_format_int:
  assumes "- (2 ^ (bits - 1)) \<le> i" "i < 2 ^ (bits - 1)" "bits \<le> 64"
  shows "parse_int bits (format_int i) = Some i"
proof -
  have "(2 :: int) ^ (bits - 1) \<le> 2 ^ 63" using assms(3) by (intro power_increasing) auto
  with assms have small: "nat \<bar>i\<bar> < 2 ^ 64" by simp
  have first: "hd (format_uint n) \<noteq> CHR ''-''" "format_uint n \<noteq> []" for n
    using format_uint_digits [of n] by (cases "format_uint n"; auto simp: is_digit_def)+
  show ?thesis
  proof (cases "i < 0")
    case True
    with small assms show ?thesis
      using parse_format_uint [of "nat (- i)" 64] by (simp add: parse_int_def format_int_def)
  next
    case False
    with small assms first [of "nat i"] show ?thesis
      using parse_format_uint [of "nat i" 64]
      by (cases "format_uint (nat i)") (simp_all add: parse_int_def format_int_def)
  qed
qed

lemma lawful_int [simp]: "lawful (int_codec :: 'w::len word codec)"
  using sint_greater_eq [where 'a = 'w] sint_less [where 'a = 'w]
  by (simp add: lawful_def int_codec_def parse_format_int)

lemma lawful_raw [simp]: "lawful raw_codec"
  by (auto simp: lawful_def raw_codec_def)

lemma more_codec_zeros [simp]: "cod_zero int_codec = 0" "cod_zero raw_codec = None"
  by (simp_all add: int_codec_def raw_codec_def)

lemma lawful_pointer [simp]: "lawful c \<Longrightarrow> lawful (pointer_codec c)"
  by (auto simp: lawful_def pointer_codec_def split: option.splits)

lemma pointer_codec_zero [simp]: "cod_zero (pointer_codec c) = None"
  by (simp add: pointer_codec_def)

definition clone_raw :: "json option \<Rightarrow> json option" where
  "clone_raw v = (case v of None \<Rightarrow> None | Some bytes \<Rightarrow> Some bytes)"

lemma clone_raw_id [clone_simps]: "clone_raw = id"
  by (simp add: fun_eq_iff clone_raw_def split: option.split)

lemma map_option_clone [clone_simps]: "map_option id = id"
  by (rule option.map_id0)

subsection \<open>The union\<close>

record layout_node_pane =
  layout_node_pane_command :: "string slice optional"
  layout_node_pane_cwd :: "string optional"
  layout_node_pane_env :: "string str_map optional"
  layout_node_pane_label :: "string optional"
  layout_node_pane_pane_id :: "string optional"

definition layout_node_pane_zero :: layout_node_pane where
  "layout_node_pane_zero = \<lparr>layout_node_pane_command = Absent,
     layout_node_pane_cwd = Absent,
     layout_node_pane_env = Absent,
     layout_node_pane_label = Absent,
     layout_node_pane_pane_id = Absent\<rparr>"

definition layout_node_pane_clone :: "layout_node_pane \<Rightarrow> layout_node_pane" where
  "layout_node_pane_clone v =
    (let out = v;
      out = out\<lparr>layout_node_pane_command := clone_opt (clone_slice (\<lambda>x. x)) (layout_node_pane_command v)\<rparr>;
      out = out\<lparr>layout_node_pane_env := clone_opt (clone_map (\<lambda>x. x)) (layout_node_pane_env v)\<rparr>
     in out)"

lemma layout_node_pane_clone_id [clone_simps]: "layout_node_pane_clone = id"
  by (simp add: fun_eq_iff layout_node_pane_clone_def clone_simps)
definition layout_node_pane_fields :: "layout_node_pane field list" where
  "layout_node_pane_fields =
    [optional_field ''command'' (slice_codec string_codec) layout_node_pane_command (\<lambda>x r. r\<lparr>layout_node_pane_command := x\<rparr>),
     optional_field ''cwd'' string_codec layout_node_pane_cwd (\<lambda>x r. r\<lparr>layout_node_pane_cwd := x\<rparr>),
     optional_field ''env'' (map_codec string_codec) layout_node_pane_env (\<lambda>x r. r\<lparr>layout_node_pane_env := x\<rparr>),
     optional_field ''label'' string_codec layout_node_pane_label (\<lambda>x r. r\<lparr>layout_node_pane_label := x\<rparr>),
     optional_field ''pane_id'' string_codec layout_node_pane_pane_id (\<lambda>x r. r\<lparr>layout_node_pane_pane_id := x\<rparr>)]"

definition layout_node_pane_codec :: "layout_node_pane codec" where
  "layout_node_pane_codec = struct_codec layout_node_pane_zero layout_node_pane_fields"

lemma layout_node_pane_codec_lawful [simp]: "lawful (layout_node_pane_codec)"
  unfolding layout_node_pane_codec_def
proof (rule lawful_struct)
  show "distinct (map fld_name (layout_node_pane_fields))" by (simp add: layout_node_pane_fields_def field_names)
  show "list_all (\<lambda>f. fld_ok f r) (layout_node_pane_fields) \<Longrightarrow> refill (layout_node_pane_fields) r layout_node_pane_zero = Some r" for r
    by (cases r) (simp add: layout_node_pane_fields_def layout_node_pane_zero_def refill_simps)
qed

lemma layout_node_pane_codec_zero [simp]: "cod_zero (layout_node_pane_codec) = layout_node_pane_zero"
  by (simp add: layout_node_pane_codec_def struct_codec_def)
datatype layout_node =
    LayoutNodePane layout_node_pane
  | LayoutNodeSplit split_direction "layout_node option" float64 "layout_node option"
  | LayoutNodeRef "layout_node option"

fun clone_layout_node :: "layout_node \<Rightarrow> layout_node" where
  "clone_layout_node (LayoutNodePane v) = LayoutNodePane (layout_node_pane_clone v)"
| "clone_layout_node (LayoutNodeSplit direction f ratio s) =
    LayoutNodeSplit direction (map_option clone_layout_node f) ratio (map_option clone_layout_node s)"
| "clone_layout_node (LayoutNodeRef None) = LayoutNodeRef None"
| "clone_layout_node (LayoutNodeRef (Some v)) = LayoutNodeRef (Some (clone_layout_node v))"

lemma clone_layout_node_id [clone_simps]: "clone_layout_node = id"
proof
  show "clone_layout_node v = id v" for v
  proof (induction v)
    case (LayoutNodeSplit d f r s)
    then show ?case by (cases f; cases s) simp_all
  next
    case (LayoutNodeRef v)
    then show ?case by (cases v) simp_all
  qed (simp add: clone_simps)
qed

text \<open>\<open>MarshalJSON\<close> of the variants; a nil interface or pointer is \<open>null\<close>.\<close>

fun encode_layout_node :: "(float64 \<Rightarrow> string) \<Rightarrow> layout_node \<Rightarrow> json" where
  "encode_layout_node ff (LayoutNodePane v) = tagged ''pane'' layout_node_pane_fields v"
| "encode_layout_node ff (LayoutNodeSplit direction f ratio s) = JObj
    [(''type'', JStr ''split''), (''direction'', cod_enc string_codec direction),
     (''first'', case f of None \<Rightarrow> JNull | Some n \<Rightarrow> encode_layout_node ff n), (''ratio'', JNum (ff ratio)),
     (''second'', case s of None \<Rightarrow> JNull | Some n \<Rightarrow> encode_layout_node ff n)]"
| "encode_layout_node ff (LayoutNodeRef v) = (case v of None \<Rightarrow> JNull | Some n \<Rightarrow> encode_layout_node ff n)"

text \<open>The struct \<open>aux\<close> of \<open>LayoutNodeSplit.UnmarshalJSON\<close>: the children stay raw documents.\<close>

record split_aux =
  sa_direction :: split_direction
  sa_ratio :: float64
  sa_first :: "json option"
  sa_second :: "json option"

definition split_aux_zero :: split_aux where
  "split_aux_zero = \<lparr>sa_direction = [], sa_ratio = 0, sa_first = None, sa_second = None\<rparr>"

definition split_aux_fields :: "(string \<Rightarrow> float64 option) \<Rightarrow> (float64 \<Rightarrow> string) \<Rightarrow> split_aux field list" where
  "split_aux_fields pf ff =
    [plain_field ''direction'' string_codec sa_direction (\<lambda>x r. r\<lparr>sa_direction := x\<rparr>),
     plain_field ''ratio'' (float_codec pf ff) sa_ratio (\<lambda>x r. r\<lparr>sa_ratio := x\<rparr>),
     plain_field ''first'' raw_codec sa_first (\<lambda>x r. r\<lparr>sa_first := x\<rparr>),
     plain_field ''second'' raw_codec sa_second (\<lambda>x r. r\<lparr>sa_second := x\<rparr>)]"

lemma split_aux_step:
  assumes "f \<in> set (split_aux_fields pf ff)" "fld_dec f j r = Some r'"
  shows "sa_first r' \<in> {sa_first r, Some j} \<and> sa_second r' \<in> {sa_second r, Some j}"
  using assms by (auto simp: split_aux_fields_def plain_field_def raw_codec_def)

lemma find_field_in: "find_field fs k = Some f \<Longrightarrow> f \<in> set fs"
  by (auto simp: find_field_def find_Some_iff split: option.splits)

lemma split_aux_members:
  "decode_members (split_aux_fields pf ff) kvs r = Some r' \<Longrightarrow>
    sa_first r' \<in> insert (sa_first r) (Some ` snd ` set kvs) \<and> sa_second r' \<in> insert (sa_second r) (Some ` snd ` set kvs)"
proof (induction kvs arbitrary: r)
  case (Cons kv kvs)
  obtain k j where kv: "kv = (k, j)" by fastforce
  show ?case
  proof (cases "find_field (split_aux_fields pf ff) k")
    case None
    with Cons kv show ?thesis by auto
  next
    case (Some f)
    with Cons.prems kv obtain r1 where r1: "fld_dec f j r = Some r1" "decode_members (split_aux_fields pf ff) kvs r1 = Some r'"
      by (auto split: option.splits)
    from split_aux_step [OF find_field_in [OF Some] r1(1)] Cons.IH [OF r1(2)] kv show ?thesis by auto
  qed
qed simp

lemma split_aux_smaller:
  assumes "decode_struct (split_aux_fields pf ff) j split_aux_zero = Some aux" "sa_first aux = Some j' \<or> sa_second aux = Some j'"
  shows "size j' < size j"
proof -
  have none: "sa_first split_aux_zero = None" "sa_second split_aux_zero = None" by (simp_all add: split_aux_zero_def)
  from assms none obtain kvs where kvs: "j = JObj kvs" "decode_members (split_aux_fields pf ff) kvs split_aux_zero = Some aux"
    by (cases j) (auto simp: decode_struct_def)
  from split_aux_members [OF kvs(2)] assms(2) none obtain k where "(k, j') \<in> set kvs" by auto
  then have "size j' < size_list (\<lambda>p. size (snd p)) kvs + 1"
    by (induction kvs) auto
  moreover have "size_list (\<lambda>p. size (snd p)) kvs \<le> size_list (size_prod (\<lambda>x. 0) size) kvs"
    by (rule size_list_pointwise) auto
  ultimately show ?thesis using kvs(1) by simp
qed

text \<open>\<open>decodeLayoutNode\<close> and the \<open>UnmarshalJSON\<close> of a split call each other, on ever smaller documents.\<close>

function (sequential) decode_layout_node ::
  "(string \<Rightarrow> float64 option) \<Rightarrow> (float64 \<Rightarrow> string) \<Rightarrow> json \<Rightarrow> layout_node option"
and decode_split_child ::
  "(string \<Rightarrow> float64 option) \<Rightarrow> (float64 \<Rightarrow> string) \<Rightarrow> json option \<Rightarrow> layout_node option option" where
  "decode_layout_node pf ff j = (case decode_struct type_head j [] of
     None \<Rightarrow> None
   | Some tag \<Rightarrow>
       if tag = ''pane'' then map_option LayoutNodePane (cod_dec layout_node_pane_codec j layout_node_pane_zero)
       else if tag = ''split'' then
         (case decode_struct (split_aux_fields pf ff) j split_aux_zero of
            None \<Rightarrow> None
          | Some aux \<Rightarrow>
              (case decode_split_child pf ff (sa_first aux) of
                 None \<Rightarrow> None
               | Some f \<Rightarrow>
                   (case decode_split_child pf ff (sa_second aux) of
                      None \<Rightarrow> None
                    | Some s \<Rightarrow> Some (LayoutNodeSplit (sa_direction aux) f (sa_ratio aux) s))))
       else None)"
| "decode_split_child pf ff None = Some None"
| "decode_split_child pf ff (Some j) =
    (if j = JNull then Some None else map_option Some (decode_layout_node pf ff j))"
  by pat_completeness auto
termination
  by (relation "measure (\<lambda>x. case x of Inl (pf, ff, j) \<Rightarrow> 2 * size j + 1 | Inr (pf, ff, c) \<Rightarrow> (case c of None \<Rightarrow> 0 | Some j \<Rightarrow> 2 * size j + 2))")
    (auto dest: split_aux_smaller split: option.split)

declare decode_layout_node.simps [simp del]

subsection \<open>\<open>LayoutPanes\<close>\<close>

text \<open>\<open>None\<close> is the panic of following a nil pointer.\<close>

fun append_layout_panes :: "layout_node_pane list \<Rightarrow> layout_node option \<Rightarrow> layout_node_pane list option" where
  "append_layout_panes panes None = Some panes"
| "append_layout_panes panes (Some (LayoutNodePane v)) = Some (panes @ [v])"
| "append_layout_panes panes (Some (LayoutNodeSplit direction f ratio s)) =
    (case append_layout_panes panes f of None \<Rightarrow> None | Some panes \<Rightarrow> append_layout_panes panes s)"
| "append_layout_panes panes (Some (LayoutNodeRef None)) = None"
| "append_layout_panes panes (Some (LayoutNodeRef (Some v))) = append_layout_panes panes (Some v)"

definition layout_panes :: "layout_node option \<Rightarrow> layout_node_pane list option" where
  "layout_panes root = append_layout_panes [] root"

subsection \<open>Decoding what was encoded\<close>

text \<open>A tree without nil pointers whose values survive JSON; \<open>plain_node\<close> follows its pointers.\<close>

fun layout_node_ok :: "(string \<Rightarrow> float64 option) \<Rightarrow> (float64 \<Rightarrow> string) \<Rightarrow> layout_node \<Rightarrow> bool" where
  "layout_node_ok pf ff (LayoutNodePane v) = cod_ok layout_node_pane_codec v"
| "layout_node_ok pf ff (LayoutNodeSplit direction f ratio s) =
    (valid_utf8 direction \<and> pf (ff ratio) = Some ratio \<and>
     (case f of None \<Rightarrow> True | Some n \<Rightarrow> layout_node_ok pf ff n) \<and>
     (case s of None \<Rightarrow> True | Some n \<Rightarrow> layout_node_ok pf ff n))"
| "layout_node_ok pf ff (LayoutNodeRef v) = (case v of None \<Rightarrow> False | Some n \<Rightarrow> layout_node_ok pf ff n)"

fun plain_node :: "layout_node \<Rightarrow> layout_node" where
  "plain_node (LayoutNodePane v) = LayoutNodePane v"
| "plain_node (LayoutNodeSplit direction f ratio s) =
    LayoutNodeSplit direction (map_option plain_node f) ratio (map_option plain_node s)"
| "plain_node (LayoutNodeRef None) = LayoutNodeRef None"
| "plain_node (LayoutNodeRef (Some v)) = plain_node v"

fun leaves :: "layout_node option \<Rightarrow> layout_node_pane list" where
  "leaves None = []"
| "leaves (Some (LayoutNodePane v)) = [v]"
| "leaves (Some (LayoutNodeSplit direction f ratio s)) = leaves f @ leaves s"
| "leaves (Some (LayoutNodeRef None)) = []"
| "leaves (Some (LayoutNodeRef (Some v))) = leaves (Some v)"

lemma tag_free_pane [simp]: "tag_free layout_node_pane_fields"
  by (simp add: tag_free_def field_names layout_node_pane_fields_def upper_char_def in_range_def bytes_of_def char_of_def)

lemma split_aux_find:
  "find_field (split_aux_fields pf ff) ''type'' = None"
  "find_field (split_aux_fields pf ff) ''direction'' = Some (plain_field ''direction'' string_codec sa_direction (\<lambda>x r. r\<lparr>sa_direction := x\<rparr>))"
  "find_field (split_aux_fields pf ff) ''ratio'' = Some (plain_field ''ratio'' (float_codec pf ff) sa_ratio (\<lambda>x r. r\<lparr>sa_ratio := x\<rparr>))"
  "find_field (split_aux_fields pf ff) ''first'' = Some (plain_field ''first'' raw_codec sa_first (\<lambda>x r. r\<lparr>sa_first := x\<rparr>))"
  "find_field (split_aux_fields pf ff) ''second'' = Some (plain_field ''second'' raw_codec sa_second (\<lambda>x r. r\<lparr>sa_second := x\<rparr>))"
  by (simp_all add: find_field_def split_aux_fields_def field_names upper_char_def in_range_def bytes_of_def char_of_def)

lemma split_head:
  "decode_struct type_head (JObj [(''type'', JStr t), (''direction'', a), (''first'', b), (''ratio'', c), (''second'', d)]) [] = Some t"
proof -
  have "fold_name ''direction'' \<noteq> ''TYPE''" "fold_name ''first'' \<noteq> ''TYPE''" "fold_name ''ratio'' \<noteq> ''TYPE''"
    "fold_name ''second'' \<noteq> ''TYPE''"
    by (simp_all add: upper_char_def in_range_def bytes_of_def char_of_def)
  note other = this [THEN type_head_other]
  have own: "find_field type_head ''type'' = Some (plain_field ''type'' string_codec (\<lambda>t. t) (\<lambda>x t. x))"
    by (simp add: find_field_def type_head_def field_names)
  have decode: "fld_dec (plain_field ''type'' string_codec (\<lambda>t. t) (\<lambda>x t. x)) (JStr t) [] = Some t"
    by (simp add: plain_field_def string_codec_def)
  show ?thesis by (simp add: decode_struct_def own decode other)
qed

lemma encode_layout_node_not_null:
  "layout_node_ok pf ff n \<Longrightarrow> encode_layout_node ff n \<noteq> JNull"
  by (induction n) (auto simp: tagged_def split: option.splits)

lemma decode_layout_pane:
  assumes "cod_ok layout_node_pane_codec v"
  shows "decode_layout_node pf ff (encode_layout_node ff (LayoutNodePane v)) = Some (LayoutNodePane v)"
proof -
  have "cod_dec layout_node_pane_codec (tagged ''pane'' layout_node_pane_fields v) layout_node_pane_zero = Some v"
    using decode_tagged [OF layout_node_pane_codec_lawful layout_node_pane_codec_def tag_free_pane assms,
        of undefined "''pane''"] lawfulD [OF layout_node_pane_codec_lawful assms]
    by (simp add: layout_node_pane_codec_def struct_codec_def decode_struct_def tagged_def tag_free_none)
  then show ?thesis by (simp add: decode_layout_node.simps(1) decode_type_head)
qed

lemma decode_split:
  assumes "valid_utf8 direction" "pf (ff ratio) = Some ratio"
  shows "decode_struct (split_aux_fields pf ff)
      (JObj [(''type'', JStr ''split''), (''direction'', cod_enc string_codec direction), (''first'', a),
        (''ratio'', JNum (ff ratio)), (''second'', b)]) split_aux_zero =
    Some \<lparr>sa_direction = direction, sa_ratio = ratio, sa_first = Some a, sa_second = Some b\<rparr>"
  using assms
  by (simp add: decode_struct_def split_aux_find plain_field_def string_codec_def float_codec_def raw_codec_def
      coerce_valid split_aux_zero_def)

lemma decode_encode_layout_node:
  "layout_node_ok pf ff n \<Longrightarrow> decode_layout_node pf ff (encode_layout_node ff n) = Some (plain_node n)"
proof (induction n)
  case (LayoutNodePane v)
  then show ?case using decode_layout_pane [of v pf ff] by simp
next
  case (LayoutNodeSplit direction f ratio s)
  have child: "decode_split_child pf ff (Some (case c of None \<Rightarrow> JNull | Some n \<Rightarrow> encode_layout_node ff n)) =
      Some (map_option plain_node c)"
    if "case c of None \<Rightarrow> True | Some n \<Rightarrow> layout_node_ok pf ff n"
      "\<And>n. n \<in> set_option c \<Longrightarrow> layout_node_ok pf ff n \<Longrightarrow> decode_layout_node pf ff (encode_layout_node ff n) = Some (plain_node n)" for c
    using that encode_layout_node_not_null by (cases c) auto
  from LayoutNodeSplit.prems have ok: "valid_utf8 direction" "pf (ff ratio) = Some ratio"
    "case f of None \<Rightarrow> True | Some n \<Rightarrow> layout_node_ok pf ff n" "case s of None \<Rightarrow> True | Some n \<Rightarrow> layout_node_ok pf ff n"
    by simp_all
  have "decode_layout_node pf ff (encode_layout_node ff (LayoutNodeSplit direction f ratio s)) =
    (case decode_split_child pf ff (Some (case f of None \<Rightarrow> JNull | Some n \<Rightarrow> encode_layout_node ff n)) of
       None \<Rightarrow> None
     | Some f' \<Rightarrow> (case decode_split_child pf ff (Some (case s of None \<Rightarrow> JNull | Some n \<Rightarrow> encode_layout_node ff n)) of
         None \<Rightarrow> None | Some s' \<Rightarrow> Some (LayoutNodeSplit direction f' ratio s')))"
    by (simp add: decode_layout_node.simps(1) split_head decode_split [where pf = pf and ff = ff, OF ok(1,2)]
        del: decode_split_child.simps cong: option.case_cong)
  then show ?case
    using child [OF ok(3) LayoutNodeSplit.IH(1)] child [OF ok(4) LayoutNodeSplit.IH(2)]
    by (simp del: decode_split_child.simps)
next
  case (LayoutNodeRef v)
  then show ?case by (cases v) simp_all
qed

lemma append_layout_panes_leaves:
  "(case root of None \<Rightarrow> True | Some n \<Rightarrow> layout_node_ok pf ff n) \<Longrightarrow>
    append_layout_panes panes root = Some (panes @ leaves root)"
  by (induction panes root rule: append_layout_panes.induct) (auto split: option.splits)

lemma leaves_plain: "layout_node_ok pf ff n \<Longrightarrow> leaves (Some (plain_node n)) = leaves (Some n)"
proof (induction n)
  case (LayoutNodeSplit direction f ratio s)
  then show ?case by (cases f; cases s) simp_all
next
  case (LayoutNodeRef v)
  then show ?case by (cases v) simp_all
qed simp

text \<open>
  C38. A layout tree decodes back from what its \<open>MarshalJSON\<close> writes, at any depth, its pointers replaced
  by the values they point to; and \<open>LayoutPanes\<close> yields the panes of the tree from left to right, the
  same before and after, without a panic.
\<close>

theorem layout_tree_roundtrip:
  assumes "layout_node_ok pf ff n"
  shows "decode_layout_node pf ff (encode_layout_node ff n) = Some (plain_node n) \<and>
    layout_panes (Some n) = Some (leaves (Some n)) \<and>
    layout_panes (Some (plain_node n)) = Some (leaves (Some n))"
proof -
  have "layout_node_ok pf ff (plain_node n)"
    using assms
  proof (induction n)
    case (LayoutNodeSplit direction f ratio s)
    then show ?case by (cases f; cases s) simp_all
  next
    case (LayoutNodeRef v)
    then show ?case by (cases v) simp_all
  qed simp
  with assms show ?thesis
    using append_layout_panes_leaves [where root = "Some n" and panes = "[]" and pf = pf and ff = ff] 
      append_layout_panes_leaves [where root = "Some (plain_node n)" and panes = "[]" and pf = pf and ff = ff]
    by (simp add: decode_encode_layout_node layout_panes_def leaves_plain)
qed

definition leaf :: "string \<Rightarrow> layout_node" where
  "leaf i = LayoutNodePane (layout_node_pane_zero\<lparr>layout_node_pane_pane_id := Present i\<rparr>)"

definition sample_tree :: layout_node where
  "sample_tree = LayoutNodeSplit ''right'' (Some (LayoutNodeRef (Some (leaf ''a''))))
     0 (Some (LayoutNodeSplit ''down'' (Some (leaf ''b'')) 0 None))"

lemma leaf_ok: "valid_utf8 i \<Longrightarrow> layout_node_ok pf ff (leaf i)"
  by (simp add: leaf_def layout_node_pane_codec_def struct_codec_def layout_node_pane_fields_def layout_node_pane_zero_def
      plain_field_def optional_field_def string_codec_def)

theorem layout_tree_roundtrip_witness:
  "layout_panes (Some sample_tree) = Some (leaves (Some sample_tree)) \<and>
   map layout_node_pane_pane_id (leaves (Some sample_tree)) = [Present ''a'', Present ''b''] \<and>
   decode_layout_node (\<lambda>s. Some 0) (\<lambda>x. ''0'') (encode_layout_node (\<lambda>x. ''0'') sample_tree) = Some (plain_node sample_tree)"
proof -
  have "layout_node_ok (\<lambda>s. Some 0) (\<lambda>x. ''0'') sample_tree"
    by (simp add: sample_tree_def leaf_ok valid_utf8_ascii)
  from layout_tree_roundtrip [OF this] show ?thesis
    by (simp add: sample_tree_def leaf_def)
qed

end
