(* ===== verification/Info_Unions.thy ===== *)
theory Info_Unions
  imports Info_Types Layout_Node
begin

text \<open>
  The structs only responses carry that hold a union or a hand-written type, at any depth.
\<close>

definition event_envelope_zero :: event_envelope where
  "event_envelope_zero = \<lparr>ee_event = [], ee_data = None\<rparr>"

lemma clone_event_envelope_id [clone_simps]: "event_envelope_clone = id"
  by (simp add: fun_eq_iff event_envelope_clone_def clone_simps)

record layout_description =
  layout_description_focused_pane_id :: string
  layout_description_root :: "layout_node option"
  layout_description_tab_id :: string
  layout_description_workspace_id :: string
  layout_description_zoomed :: bool

definition layout_description_zero :: layout_description where
  "layout_description_zero = \<lparr>layout_description_focused_pane_id = [],
     layout_description_root = None,
     layout_description_tab_id = [],
     layout_description_workspace_id = [],
     layout_description_zoomed = False\<rparr>"

definition layout_description_clone :: "layout_description \<Rightarrow> layout_description" where
  "layout_description_clone v =
    (let out = v;
      out = out\<lparr>layout_description_root := map_option clone_layout_node (layout_description_root v)\<rparr>
     in out)"

lemma layout_description_clone_id [clone_simps]: "layout_description_clone = id"
  by (simp add: fun_eq_iff layout_description_clone_def clone_simps)

record plugin_manifest_pane =
  plugin_manifest_pane_command :: "string slice"
  plugin_manifest_pane_description :: "string optional"
  plugin_manifest_pane_height :: "pane_size optional"
  plugin_manifest_pane_id :: string
  plugin_manifest_pane_placement :: "plugin_pane_placement optional"
  plugin_manifest_pane_platforms :: "plugin_platform slice optional"
  plugin_manifest_pane_title :: string
  plugin_manifest_pane_width :: "pane_size optional"

definition plugin_manifest_pane_zero :: plugin_manifest_pane where
  "plugin_manifest_pane_zero = \<lparr>plugin_manifest_pane_command = None,
     plugin_manifest_pane_description = Absent,
     plugin_manifest_pane_height = Absent,
     plugin_manifest_pane_id = [],
     plugin_manifest_pane_placement = Absent,
     plugin_manifest_pane_platforms = Absent,
     plugin_manifest_pane_title = [],
     plugin_manifest_pane_width = Absent\<rparr>"

definition plugin_manifest_pane_clone :: "plugin_manifest_pane \<Rightarrow> plugin_manifest_pane" where
  "plugin_manifest_pane_clone v =
    (let out = v;
      out = out\<lparr>plugin_manifest_pane_command := clone_slice (\<lambda>x. x) (plugin_manifest_pane_command v)\<rparr>;
      out = out\<lparr>plugin_manifest_pane_height := clone_opt pane_size_clone (plugin_manifest_pane_height v)\<rparr>;
      out = out\<lparr>plugin_manifest_pane_platforms := clone_opt (clone_slice (\<lambda>x. x)) (plugin_manifest_pane_platforms v)\<rparr>;
      out = out\<lparr>plugin_manifest_pane_width := clone_opt pane_size_clone (plugin_manifest_pane_width v)\<rparr>
     in out)"

lemma plugin_manifest_pane_clone_id [clone_simps]: "plugin_manifest_pane_clone = id"
  by (simp add: fun_eq_iff plugin_manifest_pane_clone_def clone_simps)

record installed_plugin_info =
  installed_plugin_info_actions :: "plugin_manifest_action slice optional"
  installed_plugin_info_build :: "plugin_manifest_build slice optional"
  installed_plugin_info_description :: "string optional"
  installed_plugin_info_enabled :: bool
  installed_plugin_info_events :: "plugin_manifest_event_hook slice optional"
  installed_plugin_info_link_handlers :: "plugin_manifest_link_handler slice optional"
  installed_plugin_info_manifest_path :: string
  installed_plugin_info_min_herdr_version :: "string optional"
  installed_plugin_info_name :: string
  installed_plugin_info_panes :: "plugin_manifest_pane slice optional"
  installed_plugin_info_platforms :: "plugin_platform slice optional"
  installed_plugin_info_plugin_id :: string
  installed_plugin_info_plugin_root :: string
  installed_plugin_info_source :: "plugin_source_info optional"
  installed_plugin_info_startup :: "plugin_manifest_startup slice optional"
  installed_plugin_info_version :: string
  installed_plugin_info_warnings :: "string slice optional"

definition installed_plugin_info_zero :: installed_plugin_info where
  "installed_plugin_info_zero = \<lparr>installed_plugin_info_actions = Absent,
     installed_plugin_info_build = Absent,
     installed_plugin_info_description = Absent,
     installed_plugin_info_enabled = False,
     installed_plugin_info_events = Absent,
     installed_plugin_info_link_handlers = Absent,
     installed_plugin_info_manifest_path = [],
     installed_plugin_info_min_herdr_version = Absent,
     installed_plugin_info_name = [],
     installed_plugin_info_panes = Absent,
     installed_plugin_info_platforms = Absent,
     installed_plugin_info_plugin_id = [],
     installed_plugin_info_plugin_root = [],
     installed_plugin_info_source = Absent,
     installed_plugin_info_startup = Absent,
     installed_plugin_info_version = [],
     installed_plugin_info_warnings = Absent\<rparr>"

definition installed_plugin_info_clone :: "installed_plugin_info \<Rightarrow> installed_plugin_info" where
  "installed_plugin_info_clone v =
    (let out = v;
      out = out\<lparr>installed_plugin_info_actions := clone_opt (clone_slice plugin_manifest_action_clone) (installed_plugin_info_actions v)\<rparr>;
      out = out\<lparr>installed_plugin_info_build := clone_opt (clone_slice plugin_manifest_build_clone) (installed_plugin_info_build v)\<rparr>;
      out = out\<lparr>installed_plugin_info_events := clone_opt (clone_slice plugin_manifest_event_hook_clone) (installed_plugin_info_events v)\<rparr>;
      out = out\<lparr>installed_plugin_info_link_handlers := clone_opt (clone_slice plugin_manifest_link_handler_clone) (installed_plugin_info_link_handlers v)\<rparr>;
      out = out\<lparr>installed_plugin_info_panes := clone_opt (clone_slice plugin_manifest_pane_clone) (installed_plugin_info_panes v)\<rparr>;
      out = out\<lparr>installed_plugin_info_platforms := clone_opt (clone_slice (\<lambda>x. x)) (installed_plugin_info_platforms v)\<rparr>;
      out = out\<lparr>installed_plugin_info_source := clone_opt plugin_source_info_clone (installed_plugin_info_source v)\<rparr>;
      out = out\<lparr>installed_plugin_info_startup := clone_opt (clone_slice plugin_manifest_startup_clone) (installed_plugin_info_startup v)\<rparr>;
      out = out\<lparr>installed_plugin_info_warnings := clone_opt (clone_slice (\<lambda>x. x)) (installed_plugin_info_warnings v)\<rparr>
     in out)"

lemma installed_plugin_info_clone_id [clone_simps]: "installed_plugin_info_clone = id"
  by (simp add: fun_eq_iff installed_plugin_info_clone_def clone_simps)

end
