(* ===== verification/Response_Types.thy ===== *)
theory Response_Types
  imports Response_Structs Info_Unions
begin

text \<open>
  The other response structs of \<open>herdr/results_gen.go\<close> that have fields.
\<close>

record agent_explain_response =
  agent_explain_response_explain :: "json option"

definition agent_explain_response_zero :: agent_explain_response where
  "agent_explain_response_zero = \<lparr>agent_explain_response_explain = None\<rparr>"

definition agent_explain_response_clone :: "agent_explain_response \<Rightarrow> agent_explain_response" where
  "agent_explain_response_clone v =
    (let out = v;
      out = out\<lparr>agent_explain_response_explain := clone_raw (agent_explain_response_explain v)\<rparr>
     in out)"

lemma agent_explain_response_clone_id [clone_simps]: "agent_explain_response_clone = id"
  by (simp add: fun_eq_iff agent_explain_response_clone_def clone_simps)

record layout_apply_response =
  layout_apply_response_layout :: layout_description

definition layout_apply_response_zero :: layout_apply_response where
  "layout_apply_response_zero = \<lparr>layout_apply_response_layout = layout_description_zero\<rparr>"

definition layout_apply_response_clone :: "layout_apply_response \<Rightarrow> layout_apply_response" where
  "layout_apply_response_clone v =
    (let out = v;
      out = out\<lparr>layout_apply_response_layout := layout_description_clone (layout_apply_response_layout v)\<rparr>
     in out)"

lemma layout_apply_response_clone_id [clone_simps]: "layout_apply_response_clone = id"
  by (simp add: fun_eq_iff layout_apply_response_clone_def clone_simps)

record layout_export_response =
  layout_export_response_layout :: layout_description

definition layout_export_response_zero :: layout_export_response where
  "layout_export_response_zero = \<lparr>layout_export_response_layout = layout_description_zero\<rparr>"

definition layout_export_response_clone :: "layout_export_response \<Rightarrow> layout_export_response" where
  "layout_export_response_clone v =
    (let out = v;
      out = out\<lparr>layout_export_response_layout := layout_description_clone (layout_export_response_layout v)\<rparr>
     in out)"

lemma layout_export_response_clone_id [clone_simps]: "layout_export_response_clone = id"
  by (simp add: fun_eq_iff layout_export_response_clone_def clone_simps)

record layout_split_ratio_set_response =
  layout_split_ratio_set_response_layout :: layout_description

definition layout_split_ratio_set_response_zero :: layout_split_ratio_set_response where
  "layout_split_ratio_set_response_zero = \<lparr>layout_split_ratio_set_response_layout = layout_description_zero\<rparr>"

definition layout_split_ratio_set_response_clone :: "layout_split_ratio_set_response \<Rightarrow> layout_split_ratio_set_response" where
  "layout_split_ratio_set_response_clone v =
    (let out = v;
      out = out\<lparr>layout_split_ratio_set_response_layout := layout_description_clone (layout_split_ratio_set_response_layout v)\<rparr>
     in out)"

lemma layout_split_ratio_set_response_clone_id [clone_simps]: "layout_split_ratio_set_response_clone = id"
  by (simp add: fun_eq_iff layout_split_ratio_set_response_clone_def clone_simps)

record plugin_disabled_response =
  plugin_disabled_response_plugin :: installed_plugin_info

definition plugin_disabled_response_zero :: plugin_disabled_response where
  "plugin_disabled_response_zero = \<lparr>plugin_disabled_response_plugin = installed_plugin_info_zero\<rparr>"

definition plugin_disabled_response_clone :: "plugin_disabled_response \<Rightarrow> plugin_disabled_response" where
  "plugin_disabled_response_clone v =
    (let out = v;
      out = out\<lparr>plugin_disabled_response_plugin := installed_plugin_info_clone (plugin_disabled_response_plugin v)\<rparr>
     in out)"

lemma plugin_disabled_response_clone_id [clone_simps]: "plugin_disabled_response_clone = id"
  by (simp add: fun_eq_iff plugin_disabled_response_clone_def clone_simps)

record plugin_enabled_response =
  plugin_enabled_response_plugin :: installed_plugin_info

definition plugin_enabled_response_zero :: plugin_enabled_response where
  "plugin_enabled_response_zero = \<lparr>plugin_enabled_response_plugin = installed_plugin_info_zero\<rparr>"

definition plugin_enabled_response_clone :: "plugin_enabled_response \<Rightarrow> plugin_enabled_response" where
  "plugin_enabled_response_clone v =
    (let out = v;
      out = out\<lparr>plugin_enabled_response_plugin := installed_plugin_info_clone (plugin_enabled_response_plugin v)\<rparr>
     in out)"

lemma plugin_enabled_response_clone_id [clone_simps]: "plugin_enabled_response_clone = id"
  by (simp add: fun_eq_iff plugin_enabled_response_clone_def clone_simps)

record plugin_linked_response =
  plugin_linked_response_plugin :: installed_plugin_info

definition plugin_linked_response_zero :: plugin_linked_response where
  "plugin_linked_response_zero = \<lparr>plugin_linked_response_plugin = installed_plugin_info_zero\<rparr>"

definition plugin_linked_response_clone :: "plugin_linked_response \<Rightarrow> plugin_linked_response" where
  "plugin_linked_response_clone v =
    (let out = v;
      out = out\<lparr>plugin_linked_response_plugin := installed_plugin_info_clone (plugin_linked_response_plugin v)\<rparr>
     in out)"

lemma plugin_linked_response_clone_id [clone_simps]: "plugin_linked_response_clone = id"
  by (simp add: fun_eq_iff plugin_linked_response_clone_def clone_simps)

record plugin_list_response =
  plugin_list_response_plugins :: "installed_plugin_info slice"

definition plugin_list_response_zero :: plugin_list_response where
  "plugin_list_response_zero = \<lparr>plugin_list_response_plugins = None\<rparr>"

definition plugin_list_response_clone :: "plugin_list_response \<Rightarrow> plugin_list_response" where
  "plugin_list_response_clone v =
    (let out = v;
      out = out\<lparr>plugin_list_response_plugins := clone_slice installed_plugin_info_clone (plugin_list_response_plugins v)\<rparr>
     in out)"

lemma plugin_list_response_clone_id [clone_simps]: "plugin_list_response_clone = id"
  by (simp add: fun_eq_iff plugin_list_response_clone_def clone_simps)

record wait_matched_response =
  wait_matched_response_event :: event_envelope

definition wait_matched_response_zero :: wait_matched_response where
  "wait_matched_response_zero = \<lparr>wait_matched_response_event = event_envelope_zero\<rparr>"

definition wait_matched_response_clone :: "wait_matched_response \<Rightarrow> wait_matched_response" where
  "wait_matched_response_clone v =
    (let out = v;
      out = out\<lparr>wait_matched_response_event := event_envelope_clone (wait_matched_response_event v)\<rparr>
     in out)"

lemma wait_matched_response_clone_id [clone_simps]: "wait_matched_response_clone = id"
  by (simp add: fun_eq_iff wait_matched_response_clone_def clone_simps)

end
