(* ===== verification/Info_Codec.thy ===== *)
theory Info_Codec
  imports Info_Unions
begin

text \<open>
  The JSON form of the structs of \<open>Info_Types\<close> and \<open>Info_Unions\<close>, as in \<open>Type_Codec\<close>. A struct with a
  field of a union type has an \<open>UnmarshalJSON\<close> that starts from the zero struct and decodes the union last, once.
\<close>

text \<open>A node that comes back as it is holds no pointer.\<close>

definition plain_layout_node_ok :: "(string \<Rightarrow> float64 option) \<Rightarrow> (float64 \<Rightarrow> string) \<Rightarrow> layout_node \<Rightarrow> bool" where
  "plain_layout_node_ok pf ff n \<longleftrightarrow> layout_node_ok pf ff n \<and> plain_node n = n"

lemma decode_layout_node_encoded:
  "plain_layout_node_ok pf ff n \<Longrightarrow>
    decode_layout_node pf ff (encode_layout_node ff n) = Some n \<and> encode_layout_node ff n \<noteq> JNull"
  using encode_layout_node_not_null [of pf ff n]
  by (simp add: plain_layout_node_ok_def decode_encode_layout_node)

text \<open>
  \<open>EventEnvelope\<close> inside a struct. It has no \<open>MarshalJSON\<close>, so its two members are written as they stand; the
  error of its \<open>UnmarshalJSON\<close> becomes the error of the whole. It comes back when its name is the tag of its event.
\<close>

definition event_envelope_codec ::
  "(string \<Rightarrow> float64 option) \<Rightarrow> (float64 \<Rightarrow> string) \<Rightarrow> event_envelope codec" where
  "event_envelope_codec pf ff = \<lparr>cod_zero = event_envelope_zero,
     cod_enc = (\<lambda>e. JObj [(''event'', cod_enc string_codec (ee_event e)),
       (''data'', case ee_data e of None \<Rightarrow> JNull | Some v \<Rightarrow> encode_event pf ff v)]),
     cod_dec = (\<lambda>j old. case unmarshal_envelope pf ff j old of (e, None) \<Rightarrow> Some e | (e, Some x) \<Rightarrow> None),
     cod_ok = (\<lambda>e. valid_utf8 (ee_event e) \<and> (case ee_data e of None \<Rightarrow> True
       | Some v \<Rightarrow> event_ok pf ff v \<and> event_tag v = Some (ee_event e)))\<rparr>"

lemma event_envelope_codec_lawful [simp]: "lawful (event_envelope_codec pf ff)"
  unfolding lawful_def
proof (intro allI impI)
  fix e assume ok: "cod_ok (event_envelope_codec pf ff) e"
  then have valid: "coerce_utf8 (ee_event e) = ee_event e" by (simp add: event_envelope_codec_def coerce_valid)
  show "cod_dec (event_envelope_codec pf ff) (cod_enc (event_envelope_codec pf ff) e) (cod_zero (event_envelope_codec pf ff)) = Some e"
  proof (cases "ee_data e")
    case None
    then show ?thesis
      using valid
      by (cases e) (simp add: event_envelope_codec_def string_codec_def unmarshal_envelope_def envelope_members Let_def event_envelope_zero_def)
  next
    case (Some v)
    with ok have "event_ok pf ff v" "event_tag v = Some (ee_event e)" by (simp_all add: event_envelope_codec_def)
    from unmarshal_envelope_tagged [OF this] Some valid show ?thesis
      by (cases e) (simp add: event_envelope_codec_def string_codec_def)
  qed
qed

lemma event_envelope_codec_zero [simp]: "cod_zero (event_envelope_codec pf ff) = event_envelope_zero"
  by (simp add: event_envelope_codec_def)

definition agent_manifest_info_fields :: "agent_manifest_info field list" where
  "agent_manifest_info_fields =
    [optional_field ''active_version'' string_codec agent_manifest_info_active_version (\<lambda>x r. r\<lparr>agent_manifest_info_active_version := x\<rparr>),
     plain_field ''agent'' string_codec agent_manifest_info_agent (\<lambda>x r. r\<lparr>agent_manifest_info_agent := x\<rparr>),
     optional_field ''cached_remote_version'' string_codec agent_manifest_info_cached_remote_version (\<lambda>x r. r\<lparr>agent_manifest_info_cached_remote_version := x\<rparr>),
     plain_field ''local_override_shadowing_remote'' bool_codec agent_manifest_info_local_override_shadowing_remote (\<lambda>x r. r\<lparr>agent_manifest_info_local_override_shadowing_remote := x\<rparr>),
     optional_field ''remote_last_checked_unix'' uint_codec agent_manifest_info_remote_last_checked_unix (\<lambda>x r. r\<lparr>agent_manifest_info_remote_last_checked_unix := x\<rparr>),
     optional_field ''remote_update_error'' string_codec agent_manifest_info_remote_update_error (\<lambda>x r. r\<lparr>agent_manifest_info_remote_update_error := x\<rparr>),
     optional_field ''remote_update_result'' string_codec agent_manifest_info_remote_update_result (\<lambda>x r. r\<lparr>agent_manifest_info_remote_update_result := x\<rparr>),
     plain_field ''source'' string_codec agent_manifest_info_source (\<lambda>x r. r\<lparr>agent_manifest_info_source := x\<rparr>),
     plain_field ''source_kind'' string_codec agent_manifest_info_source_kind (\<lambda>x r. r\<lparr>agent_manifest_info_source_kind := x\<rparr>),
     optional_field ''warning'' string_codec agent_manifest_info_warning (\<lambda>x r. r\<lparr>agent_manifest_info_warning := x\<rparr>)]"

definition agent_manifest_info_codec :: "agent_manifest_info codec" where
  "agent_manifest_info_codec = struct_codec agent_manifest_info_zero agent_manifest_info_fields"

lemma agent_manifest_info_codec_lawful [simp]: "lawful (agent_manifest_info_codec)"
  unfolding agent_manifest_info_codec_def
proof (rule lawful_struct)
  show "distinct (map fld_name agent_manifest_info_fields)" by (simp add: agent_manifest_info_fields_def field_names)
  show "list_all (\<lambda>f. fld_ok f r) agent_manifest_info_fields \<Longrightarrow> refill agent_manifest_info_fields r agent_manifest_info_zero = Some r" for r
    by (cases r) (simp add: agent_manifest_info_fields_def agent_manifest_info_zero_def refill_simps)
qed

lemma agent_manifest_info_codec_zero [simp]: "cod_zero (agent_manifest_info_codec) = agent_manifest_info_zero"
  by (simp add: agent_manifest_info_codec_def struct_codec_def)

definition integration_install_result_fields :: "integration_install_result field list" where
  "integration_install_result_fields =
    [plain_field ''messages'' (slice_codec string_codec) integration_install_result_messages (\<lambda>x r. r\<lparr>integration_install_result_messages := x\<rparr>)]"

definition integration_install_result_codec :: "integration_install_result codec" where
  "integration_install_result_codec = struct_codec integration_install_result_zero integration_install_result_fields"

lemma integration_install_result_codec_lawful [simp]: "lawful (integration_install_result_codec)"
  unfolding integration_install_result_codec_def
proof (rule lawful_struct)
  show "distinct (map fld_name integration_install_result_fields)" by (simp add: integration_install_result_fields_def field_names)
  show "list_all (\<lambda>f. fld_ok f r) integration_install_result_fields \<Longrightarrow> refill integration_install_result_fields r integration_install_result_zero = Some r" for r
    by (cases r) (simp add: integration_install_result_fields_def integration_install_result_zero_def refill_simps)
qed

lemma integration_install_result_codec_zero [simp]: "cod_zero (integration_install_result_codec) = integration_install_result_zero"
  by (simp add: integration_install_result_codec_def struct_codec_def)

definition integration_info_fields :: "integration_info field list" where
  "integration_info_fields =
    [plain_field ''available'' bool_codec integration_info_available (\<lambda>x r. r\<lparr>integration_info_available := x\<rparr>),
     plain_field ''command'' string_codec integration_info_command (\<lambda>x r. r\<lparr>integration_info_command := x\<rparr>),
     plain_field ''label'' string_codec integration_info_label (\<lambda>x r. r\<lparr>integration_info_label := x\<rparr>),
     plain_field ''state'' string_codec integration_info_state (\<lambda>x r. r\<lparr>integration_info_state := x\<rparr>),
     plain_field ''target'' string_codec integration_info_target (\<lambda>x r. r\<lparr>integration_info_target := x\<rparr>)]"

definition integration_info_codec :: "integration_info codec" where
  "integration_info_codec = struct_codec integration_info_zero integration_info_fields"

lemma integration_info_codec_lawful [simp]: "lawful (integration_info_codec)"
  unfolding integration_info_codec_def
proof (rule lawful_struct)
  show "distinct (map fld_name integration_info_fields)" by (simp add: integration_info_fields_def field_names)
  show "list_all (\<lambda>f. fld_ok f r) integration_info_fields \<Longrightarrow> refill integration_info_fields r integration_info_zero = Some r" for r
    by (cases r) (simp add: integration_info_fields_def integration_info_zero_def refill_simps)
qed

lemma integration_info_codec_zero [simp]: "cod_zero (integration_info_codec) = integration_info_zero"
  by (simp add: integration_info_codec_def struct_codec_def)

definition integration_uninstall_result_fields :: "integration_uninstall_result field list" where
  "integration_uninstall_result_fields =
    [plain_field ''messages'' (slice_codec string_codec) integration_uninstall_result_messages (\<lambda>x r. r\<lparr>integration_uninstall_result_messages := x\<rparr>)]"

definition integration_uninstall_result_codec :: "integration_uninstall_result codec" where
  "integration_uninstall_result_codec = struct_codec integration_uninstall_result_zero integration_uninstall_result_fields"

lemma integration_uninstall_result_codec_lawful [simp]: "lawful (integration_uninstall_result_codec)"
  unfolding integration_uninstall_result_codec_def
proof (rule lawful_struct)
  show "distinct (map fld_name integration_uninstall_result_fields)" by (simp add: integration_uninstall_result_fields_def field_names)
  show "list_all (\<lambda>f. fld_ok f r) integration_uninstall_result_fields \<Longrightarrow> refill integration_uninstall_result_fields r integration_uninstall_result_zero = Some r" for r
    by (cases r) (simp add: integration_uninstall_result_fields_def integration_uninstall_result_zero_def refill_simps)
qed

lemma integration_uninstall_result_codec_zero [simp]: "cod_zero (integration_uninstall_result_codec) = integration_uninstall_result_zero"
  by (simp add: integration_uninstall_result_codec_def struct_codec_def)

definition layout_description_fields :: "(string \<Rightarrow> float64 option) \<Rightarrow> (float64 \<Rightarrow> string) \<Rightarrow> layout_description field list" where
  "layout_description_fields pf ff =
    [plain_field ''focused_pane_id'' string_codec layout_description_focused_pane_id (\<lambda>x r. r\<lparr>layout_description_focused_pane_id := x\<rparr>),
     union_field ''root'' (encode_layout_node ff) (decode_layout_node pf ff) (plain_layout_node_ok pf ff) layout_description_root (\<lambda>x r. r\<lparr>layout_description_root := x\<rparr>),
     plain_field ''tab_id'' string_codec layout_description_tab_id (\<lambda>x r. r\<lparr>layout_description_tab_id := x\<rparr>),
     plain_field ''workspace_id'' string_codec layout_description_workspace_id (\<lambda>x r. r\<lparr>layout_description_workspace_id := x\<rparr>),
     plain_field ''zoomed'' bool_codec layout_description_zoomed (\<lambda>x r. r\<lparr>layout_description_zoomed := x\<rparr>)]"

definition layout_description_codec :: "(string \<Rightarrow> float64 option) \<Rightarrow> (float64 \<Rightarrow> string) \<Rightarrow> layout_description codec" where
  "layout_description_codec pf ff = once_codec layout_description_zero (layout_description_fields pf ff) ''root''"

lemma layout_description_codec_lawful [simp]: "lawful (layout_description_codec pf ff)"
  unfolding layout_description_codec_def
proof (rule lawful_once)
  show "distinct (map fld_name (layout_description_fields pf ff))" by (simp add: layout_description_fields_def field_names union_field_name)
  show "list_all (\<lambda>f. fld_ok f r) (layout_description_fields pf ff) \<Longrightarrow> refill (layout_description_fields pf ff) r layout_description_zero = Some r" for r
    by (cases r)
      (simp add: layout_description_fields_def layout_description_zero_def refill_simps union_field_ok refill_union [OF decode_layout_node_encoded])
qed

lemma layout_description_codec_zero [simp]: "cod_zero (layout_description_codec pf ff) = layout_description_zero"
  by (simp add: layout_description_codec_def once_codec_def struct_codec_def)

definition pane_text_point_fields :: "pane_text_point field list" where
  "pane_text_point_fields =
    [plain_field ''col'' uint_codec pane_text_point_col (\<lambda>x r. r\<lparr>pane_text_point_col := x\<rparr>),
     plain_field ''row'' uint_codec pane_text_point_row (\<lambda>x r. r\<lparr>pane_text_point_row := x\<rparr>)]"

definition pane_text_point_codec :: "pane_text_point codec" where
  "pane_text_point_codec = struct_codec pane_text_point_zero pane_text_point_fields"

lemma pane_text_point_codec_lawful [simp]: "lawful (pane_text_point_codec)"
  unfolding pane_text_point_codec_def
proof (rule lawful_struct)
  show "distinct (map fld_name pane_text_point_fields)" by (simp add: pane_text_point_fields_def field_names)
  show "list_all (\<lambda>f. fld_ok f r) pane_text_point_fields \<Longrightarrow> refill pane_text_point_fields r pane_text_point_zero = Some r" for r
    by (cases r) (simp add: pane_text_point_fields_def pane_text_point_zero_def refill_simps)
qed

lemma pane_text_point_codec_zero [simp]: "cod_zero (pane_text_point_codec) = pane_text_point_zero"
  by (simp add: pane_text_point_codec_def struct_codec_def)

definition pane_text_range_fields :: "pane_text_range field list" where
  "pane_text_range_fields =
    [plain_field ''end'' pane_text_point_codec pane_text_range_end (\<lambda>x r. r\<lparr>pane_text_range_end := x\<rparr>),
     plain_field ''start'' pane_text_point_codec pane_text_range_start (\<lambda>x r. r\<lparr>pane_text_range_start := x\<rparr>)]"

definition pane_text_range_codec :: "pane_text_range codec" where
  "pane_text_range_codec = struct_codec pane_text_range_zero pane_text_range_fields"

lemma pane_text_range_codec_lawful [simp]: "lawful (pane_text_range_codec)"
  unfolding pane_text_range_codec_def
proof (rule lawful_struct)
  show "distinct (map fld_name pane_text_range_fields)" by (simp add: pane_text_range_fields_def field_names)
  show "list_all (\<lambda>f. fld_ok f r) pane_text_range_fields \<Longrightarrow> refill pane_text_range_fields r pane_text_range_zero = Some r" for r
    by (cases r) (simp add: pane_text_range_fields_def pane_text_range_zero_def refill_simps)
qed

lemma pane_text_range_codec_zero [simp]: "cod_zero (pane_text_range_codec) = pane_text_range_zero"
  by (simp add: pane_text_range_codec_def struct_codec_def)

definition pane_edges_result_fields :: "(string \<Rightarrow> float64 option) \<Rightarrow> (float64 \<Rightarrow> string) \<Rightarrow> pane_edges_result field list" where
  "pane_edges_result_fields pf ff =
    [plain_field ''down'' bool_codec pane_edges_result_down (\<lambda>x r. r\<lparr>pane_edges_result_down := x\<rparr>),
     plain_field ''layout'' (pane_layout_snapshot_codec pf ff) pane_edges_result_layout (\<lambda>x r. r\<lparr>pane_edges_result_layout := x\<rparr>),
     plain_field ''left'' bool_codec pane_edges_result_left (\<lambda>x r. r\<lparr>pane_edges_result_left := x\<rparr>),
     plain_field ''pane_id'' string_codec pane_edges_result_pane_id (\<lambda>x r. r\<lparr>pane_edges_result_pane_id := x\<rparr>),
     plain_field ''right'' bool_codec pane_edges_result_right (\<lambda>x r. r\<lparr>pane_edges_result_right := x\<rparr>),
     plain_field ''up'' bool_codec pane_edges_result_up (\<lambda>x r. r\<lparr>pane_edges_result_up := x\<rparr>)]"

definition pane_edges_result_codec :: "(string \<Rightarrow> float64 option) \<Rightarrow> (float64 \<Rightarrow> string) \<Rightarrow> pane_edges_result codec" where
  "pane_edges_result_codec pf ff = struct_codec pane_edges_result_zero (pane_edges_result_fields pf ff)"

lemma pane_edges_result_codec_lawful [simp]: "lawful (pane_edges_result_codec pf ff)"
  unfolding pane_edges_result_codec_def
proof (rule lawful_struct)
  show "distinct (map fld_name (pane_edges_result_fields pf ff))" by (simp add: pane_edges_result_fields_def field_names)
  show "list_all (\<lambda>f. fld_ok f r) (pane_edges_result_fields pf ff) \<Longrightarrow> refill (pane_edges_result_fields pf ff) r pane_edges_result_zero = Some r" for r
    by (cases r) (simp add: pane_edges_result_fields_def pane_edges_result_zero_def refill_simps)
qed

lemma pane_edges_result_codec_zero [simp]: "cod_zero (pane_edges_result_codec pf ff) = pane_edges_result_zero"
  by (simp add: pane_edges_result_codec_def struct_codec_def)

definition pane_focus_direction_result_fields :: "(string \<Rightarrow> float64 option) \<Rightarrow> (float64 \<Rightarrow> string) \<Rightarrow> pane_focus_direction_result field list" where
  "pane_focus_direction_result_fields pf ff =
    [plain_field ''changed'' bool_codec pane_focus_direction_result_changed (\<lambda>x r. r\<lparr>pane_focus_direction_result_changed := x\<rparr>),
     optional_field ''focused_pane_id'' string_codec pane_focus_direction_result_focused_pane_id (\<lambda>x r. r\<lparr>pane_focus_direction_result_focused_pane_id := x\<rparr>),
     plain_field ''layout'' (pane_layout_snapshot_codec pf ff) pane_focus_direction_result_layout (\<lambda>x r. r\<lparr>pane_focus_direction_result_layout := x\<rparr>),
     optional_field ''reason'' string_codec pane_focus_direction_result_reason (\<lambda>x r. r\<lparr>pane_focus_direction_result_reason := x\<rparr>),
     plain_field ''source_pane_id'' string_codec pane_focus_direction_result_source_pane_id (\<lambda>x r. r\<lparr>pane_focus_direction_result_source_pane_id := x\<rparr>)]"

definition pane_focus_direction_result_codec :: "(string \<Rightarrow> float64 option) \<Rightarrow> (float64 \<Rightarrow> string) \<Rightarrow> pane_focus_direction_result codec" where
  "pane_focus_direction_result_codec pf ff = struct_codec pane_focus_direction_result_zero (pane_focus_direction_result_fields pf ff)"

lemma pane_focus_direction_result_codec_lawful [simp]: "lawful (pane_focus_direction_result_codec pf ff)"
  unfolding pane_focus_direction_result_codec_def
proof (rule lawful_struct)
  show "distinct (map fld_name (pane_focus_direction_result_fields pf ff))" by (simp add: pane_focus_direction_result_fields_def field_names)
  show "list_all (\<lambda>f. fld_ok f r) (pane_focus_direction_result_fields pf ff) \<Longrightarrow> refill (pane_focus_direction_result_fields pf ff) r pane_focus_direction_result_zero = Some r" for r
    by (cases r) (simp add: pane_focus_direction_result_fields_def pane_focus_direction_result_zero_def refill_simps)
qed

lemma pane_focus_direction_result_codec_zero [simp]: "cod_zero (pane_focus_direction_result_codec pf ff) = pane_focus_direction_result_zero"
  by (simp add: pane_focus_direction_result_codec_def struct_codec_def)

definition pane_link_region_fields :: "pane_link_region field list" where
  "pane_link_region_fields =
    [plain_field ''end_col'' uint_codec pane_link_region_end_col (\<lambda>x r. r\<lparr>pane_link_region_end_col := x\<rparr>),
     plain_field ''row'' uint_codec pane_link_region_row (\<lambda>x r. r\<lparr>pane_link_region_row := x\<rparr>),
     plain_field ''start_col'' uint_codec pane_link_region_start_col (\<lambda>x r. r\<lparr>pane_link_region_start_col := x\<rparr>)]"

definition pane_link_region_codec :: "pane_link_region codec" where
  "pane_link_region_codec = struct_codec pane_link_region_zero pane_link_region_fields"

lemma pane_link_region_codec_lawful [simp]: "lawful (pane_link_region_codec)"
  unfolding pane_link_region_codec_def
proof (rule lawful_struct)
  show "distinct (map fld_name pane_link_region_fields)" by (simp add: pane_link_region_fields_def field_names)
  show "list_all (\<lambda>f. fld_ok f r) pane_link_region_fields \<Longrightarrow> refill pane_link_region_fields r pane_link_region_zero = Some r" for r
    by (cases r) (simp add: pane_link_region_fields_def pane_link_region_zero_def refill_simps)
qed

lemma pane_link_region_codec_zero [simp]: "cod_zero (pane_link_region_codec) = pane_link_region_zero"
  by (simp add: pane_link_region_codec_def struct_codec_def)

definition pane_move_result_fields :: "(string \<Rightarrow> float64 option) \<Rightarrow> (float64 \<Rightarrow> string) \<Rightarrow> pane_move_result field list" where
  "pane_move_result_fields pf ff =
    [plain_field ''changed'' bool_codec pane_move_result_changed (\<lambda>x r. r\<lparr>pane_move_result_changed := x\<rparr>),
     optional_field ''closed_tab_id'' string_codec pane_move_result_closed_tab_id (\<lambda>x r. r\<lparr>pane_move_result_closed_tab_id := x\<rparr>),
     optional_field ''closed_workspace_id'' string_codec pane_move_result_closed_workspace_id (\<lambda>x r. r\<lparr>pane_move_result_closed_workspace_id := x\<rparr>),
     optional_field ''created_tab'' tab_info_codec pane_move_result_created_tab (\<lambda>x r. r\<lparr>pane_move_result_created_tab := x\<rparr>),
     optional_field ''created_workspace'' workspace_info_codec pane_move_result_created_workspace (\<lambda>x r. r\<lparr>pane_move_result_created_workspace := x\<rparr>),
     plain_field ''focused_pane_id'' string_codec pane_move_result_focused_pane_id (\<lambda>x r. r\<lparr>pane_move_result_focused_pane_id := x\<rparr>),
     plain_field ''pane'' pane_info_codec pane_move_result_pane (\<lambda>x r. r\<lparr>pane_move_result_pane := x\<rparr>),
     plain_field ''previous_pane_id'' string_codec pane_move_result_previous_pane_id (\<lambda>x r. r\<lparr>pane_move_result_previous_pane_id := x\<rparr>),
     plain_field ''previous_tab_id'' string_codec pane_move_result_previous_tab_id (\<lambda>x r. r\<lparr>pane_move_result_previous_tab_id := x\<rparr>),
     plain_field ''previous_workspace_id'' string_codec pane_move_result_previous_workspace_id (\<lambda>x r. r\<lparr>pane_move_result_previous_workspace_id := x\<rparr>),
     optional_field ''reason'' string_codec pane_move_result_reason (\<lambda>x r. r\<lparr>pane_move_result_reason := x\<rparr>),
     optional_field ''source_layout'' (pane_layout_snapshot_codec pf ff) pane_move_result_source_layout (\<lambda>x r. r\<lparr>pane_move_result_source_layout := x\<rparr>),
     plain_field ''target_layout'' (pane_layout_snapshot_codec pf ff) pane_move_result_target_layout (\<lambda>x r. r\<lparr>pane_move_result_target_layout := x\<rparr>)]"

definition pane_move_result_codec :: "(string \<Rightarrow> float64 option) \<Rightarrow> (float64 \<Rightarrow> string) \<Rightarrow> pane_move_result codec" where
  "pane_move_result_codec pf ff = struct_codec pane_move_result_zero (pane_move_result_fields pf ff)"

lemma pane_move_result_codec_lawful [simp]: "lawful (pane_move_result_codec pf ff)"
  unfolding pane_move_result_codec_def
proof (rule lawful_struct)
  show "distinct (map fld_name (pane_move_result_fields pf ff))" by (simp add: pane_move_result_fields_def field_names)
  show "list_all (\<lambda>f. fld_ok f r) (pane_move_result_fields pf ff) \<Longrightarrow> refill (pane_move_result_fields pf ff) r pane_move_result_zero = Some r" for r
    by (cases r) (simp add: pane_move_result_fields_def pane_move_result_zero_def refill_simps)
qed

lemma pane_move_result_codec_zero [simp]: "cod_zero (pane_move_result_codec pf ff) = pane_move_result_zero"
  by (simp add: pane_move_result_codec_def struct_codec_def)

definition pane_neighbor_result_fields :: "(string \<Rightarrow> float64 option) \<Rightarrow> (float64 \<Rightarrow> string) \<Rightarrow> pane_neighbor_result field list" where
  "pane_neighbor_result_fields pf ff =
    [plain_field ''direction'' string_codec pane_neighbor_result_direction (\<lambda>x r. r\<lparr>pane_neighbor_result_direction := x\<rparr>),
     plain_field ''layout'' (pane_layout_snapshot_codec pf ff) pane_neighbor_result_layout (\<lambda>x r. r\<lparr>pane_neighbor_result_layout := x\<rparr>),
     optional_field ''neighbor_pane_id'' string_codec pane_neighbor_result_neighbor_pane_id (\<lambda>x r. r\<lparr>pane_neighbor_result_neighbor_pane_id := x\<rparr>),
     plain_field ''pane_id'' string_codec pane_neighbor_result_pane_id (\<lambda>x r. r\<lparr>pane_neighbor_result_pane_id := x\<rparr>)]"

definition pane_neighbor_result_codec :: "(string \<Rightarrow> float64 option) \<Rightarrow> (float64 \<Rightarrow> string) \<Rightarrow> pane_neighbor_result codec" where
  "pane_neighbor_result_codec pf ff = struct_codec pane_neighbor_result_zero (pane_neighbor_result_fields pf ff)"

lemma pane_neighbor_result_codec_lawful [simp]: "lawful (pane_neighbor_result_codec pf ff)"
  unfolding pane_neighbor_result_codec_def
proof (rule lawful_struct)
  show "distinct (map fld_name (pane_neighbor_result_fields pf ff))" by (simp add: pane_neighbor_result_fields_def field_names)
  show "list_all (\<lambda>f. fld_ok f r) (pane_neighbor_result_fields pf ff) \<Longrightarrow> refill (pane_neighbor_result_fields pf ff) r pane_neighbor_result_zero = Some r" for r
    by (cases r) (simp add: pane_neighbor_result_fields_def pane_neighbor_result_zero_def refill_simps)
qed

lemma pane_neighbor_result_codec_zero [simp]: "cod_zero (pane_neighbor_result_codec pf ff) = pane_neighbor_result_zero"
  by (simp add: pane_neighbor_result_codec_def struct_codec_def)

definition pane_process_info_process_fields :: "pane_process_info_process field list" where
  "pane_process_info_process_fields =
    [optional_field ''argv'' (slice_codec string_codec) pane_process_info_process_argv (\<lambda>x r. r\<lparr>pane_process_info_process_argv := x\<rparr>),
     optional_field ''argv0'' string_codec pane_process_info_process_argv0 (\<lambda>x r. r\<lparr>pane_process_info_process_argv0 := x\<rparr>),
     optional_field ''cmdline'' string_codec pane_process_info_process_cmdline (\<lambda>x r. r\<lparr>pane_process_info_process_cmdline := x\<rparr>),
     optional_field ''cwd'' string_codec pane_process_info_process_cwd (\<lambda>x r. r\<lparr>pane_process_info_process_cwd := x\<rparr>),
     plain_field ''name'' string_codec pane_process_info_process_name (\<lambda>x r. r\<lparr>pane_process_info_process_name := x\<rparr>),
     plain_field ''pid'' uint_codec pane_process_info_process_pid (\<lambda>x r. r\<lparr>pane_process_info_process_pid := x\<rparr>)]"

definition pane_process_info_process_codec :: "pane_process_info_process codec" where
  "pane_process_info_process_codec = struct_codec pane_process_info_process_zero pane_process_info_process_fields"

lemma pane_process_info_process_codec_lawful [simp]: "lawful (pane_process_info_process_codec)"
  unfolding pane_process_info_process_codec_def
proof (rule lawful_struct)
  show "distinct (map fld_name pane_process_info_process_fields)" by (simp add: pane_process_info_process_fields_def field_names)
  show "list_all (\<lambda>f. fld_ok f r) pane_process_info_process_fields \<Longrightarrow> refill pane_process_info_process_fields r pane_process_info_process_zero = Some r" for r
    by (cases r) (simp add: pane_process_info_process_fields_def pane_process_info_process_zero_def refill_simps)
qed

lemma pane_process_info_process_codec_zero [simp]: "cod_zero (pane_process_info_process_codec) = pane_process_info_process_zero"
  by (simp add: pane_process_info_process_codec_def struct_codec_def)

definition pane_process_info_fields :: "pane_process_info field list" where
  "pane_process_info_fields =
    [optional_field ''foreground_process_group_id'' uint_codec pane_process_info_foreground_process_group_id (\<lambda>x r. r\<lparr>pane_process_info_foreground_process_group_id := x\<rparr>),
     optional_field ''foreground_processes'' (slice_codec pane_process_info_process_codec) pane_process_info_foreground_processes (\<lambda>x r. r\<lparr>pane_process_info_foreground_processes := x\<rparr>),
     plain_field ''pane_id'' string_codec pane_process_info_pane_id (\<lambda>x r. r\<lparr>pane_process_info_pane_id := x\<rparr>),
     optional_field ''shell_pid'' uint_codec pane_process_info_shell_pid (\<lambda>x r. r\<lparr>pane_process_info_shell_pid := x\<rparr>),
     optional_field ''tty'' string_codec pane_process_info_tty (\<lambda>x r. r\<lparr>pane_process_info_tty := x\<rparr>)]"

definition pane_process_info_codec :: "pane_process_info codec" where
  "pane_process_info_codec = struct_codec pane_process_info_zero pane_process_info_fields"

lemma pane_process_info_codec_lawful [simp]: "lawful (pane_process_info_codec)"
  unfolding pane_process_info_codec_def
proof (rule lawful_struct)
  show "distinct (map fld_name pane_process_info_fields)" by (simp add: pane_process_info_fields_def field_names)
  show "list_all (\<lambda>f. fld_ok f r) pane_process_info_fields \<Longrightarrow> refill pane_process_info_fields r pane_process_info_zero = Some r" for r
    by (cases r) (simp add: pane_process_info_fields_def pane_process_info_zero_def refill_simps)
qed

lemma pane_process_info_codec_zero [simp]: "cod_zero (pane_process_info_codec) = pane_process_info_zero"
  by (simp add: pane_process_info_codec_def struct_codec_def)

definition pane_resize_result_fields :: "(string \<Rightarrow> float64 option) \<Rightarrow> (float64 \<Rightarrow> string) \<Rightarrow> pane_resize_result field list" where
  "pane_resize_result_fields pf ff =
    [plain_field ''changed'' bool_codec pane_resize_result_changed (\<lambda>x r. r\<lparr>pane_resize_result_changed := x\<rparr>),
     plain_field ''focused_pane_id'' string_codec pane_resize_result_focused_pane_id (\<lambda>x r. r\<lparr>pane_resize_result_focused_pane_id := x\<rparr>),
     plain_field ''layout'' (pane_layout_snapshot_codec pf ff) pane_resize_result_layout (\<lambda>x r. r\<lparr>pane_resize_result_layout := x\<rparr>),
     plain_field ''pane_id'' string_codec pane_resize_result_pane_id (\<lambda>x r. r\<lparr>pane_resize_result_pane_id := x\<rparr>),
     optional_field ''reason'' string_codec pane_resize_result_reason (\<lambda>x r. r\<lparr>pane_resize_result_reason := x\<rparr>)]"

definition pane_resize_result_codec :: "(string \<Rightarrow> float64 option) \<Rightarrow> (float64 \<Rightarrow> string) \<Rightarrow> pane_resize_result codec" where
  "pane_resize_result_codec pf ff = struct_codec pane_resize_result_zero (pane_resize_result_fields pf ff)"

lemma pane_resize_result_codec_lawful [simp]: "lawful (pane_resize_result_codec pf ff)"
  unfolding pane_resize_result_codec_def
proof (rule lawful_struct)
  show "distinct (map fld_name (pane_resize_result_fields pf ff))" by (simp add: pane_resize_result_fields_def field_names)
  show "list_all (\<lambda>f. fld_ok f r) (pane_resize_result_fields pf ff) \<Longrightarrow> refill (pane_resize_result_fields pf ff) r pane_resize_result_zero = Some r" for r
    by (cases r) (simp add: pane_resize_result_fields_def pane_resize_result_zero_def refill_simps)
qed

lemma pane_resize_result_codec_zero [simp]: "cod_zero (pane_resize_result_codec pf ff) = pane_resize_result_zero"
  by (simp add: pane_resize_result_codec_def struct_codec_def)

definition pane_swap_result_fields :: "(string \<Rightarrow> float64 option) \<Rightarrow> (float64 \<Rightarrow> string) \<Rightarrow> pane_swap_result field list" where
  "pane_swap_result_fields pf ff =
    [plain_field ''changed'' bool_codec pane_swap_result_changed (\<lambda>x r. r\<lparr>pane_swap_result_changed := x\<rparr>),
     plain_field ''focused_pane_id'' string_codec pane_swap_result_focused_pane_id (\<lambda>x r. r\<lparr>pane_swap_result_focused_pane_id := x\<rparr>),
     plain_field ''layout'' (pane_layout_snapshot_codec pf ff) pane_swap_result_layout (\<lambda>x r. r\<lparr>pane_swap_result_layout := x\<rparr>),
     optional_field ''reason'' string_codec pane_swap_result_reason (\<lambda>x r. r\<lparr>pane_swap_result_reason := x\<rparr>),
     plain_field ''source_pane_id'' string_codec pane_swap_result_source_pane_id (\<lambda>x r. r\<lparr>pane_swap_result_source_pane_id := x\<rparr>),
     optional_field ''target_pane_id'' string_codec pane_swap_result_target_pane_id (\<lambda>x r. r\<lparr>pane_swap_result_target_pane_id := x\<rparr>)]"

definition pane_swap_result_codec :: "(string \<Rightarrow> float64 option) \<Rightarrow> (float64 \<Rightarrow> string) \<Rightarrow> pane_swap_result codec" where
  "pane_swap_result_codec pf ff = struct_codec pane_swap_result_zero (pane_swap_result_fields pf ff)"

lemma pane_swap_result_codec_lawful [simp]: "lawful (pane_swap_result_codec pf ff)"
  unfolding pane_swap_result_codec_def
proof (rule lawful_struct)
  show "distinct (map fld_name (pane_swap_result_fields pf ff))" by (simp add: pane_swap_result_fields_def field_names)
  show "list_all (\<lambda>f. fld_ok f r) (pane_swap_result_fields pf ff) \<Longrightarrow> refill (pane_swap_result_fields pf ff) r pane_swap_result_zero = Some r" for r
    by (cases r) (simp add: pane_swap_result_fields_def pane_swap_result_zero_def refill_simps)
qed

lemma pane_swap_result_codec_zero [simp]: "cod_zero (pane_swap_result_codec pf ff) = pane_swap_result_zero"
  by (simp add: pane_swap_result_codec_def struct_codec_def)

definition pane_zoom_result_fields :: "(string \<Rightarrow> float64 option) \<Rightarrow> (float64 \<Rightarrow> string) \<Rightarrow> pane_zoom_result field list" where
  "pane_zoom_result_fields pf ff =
    [plain_field ''changed'' bool_codec pane_zoom_result_changed (\<lambda>x r. r\<lparr>pane_zoom_result_changed := x\<rparr>),
     plain_field ''focus_changed'' bool_codec pane_zoom_result_focus_changed (\<lambda>x r. r\<lparr>pane_zoom_result_focus_changed := x\<rparr>),
     plain_field ''focused_pane_id'' string_codec pane_zoom_result_focused_pane_id (\<lambda>x r. r\<lparr>pane_zoom_result_focused_pane_id := x\<rparr>),
     plain_field ''layout'' (pane_layout_snapshot_codec pf ff) pane_zoom_result_layout (\<lambda>x r. r\<lparr>pane_zoom_result_layout := x\<rparr>),
     plain_field ''pane_id'' string_codec pane_zoom_result_pane_id (\<lambda>x r. r\<lparr>pane_zoom_result_pane_id := x\<rparr>),
     optional_field ''reason'' string_codec pane_zoom_result_reason (\<lambda>x r. r\<lparr>pane_zoom_result_reason := x\<rparr>),
     plain_field ''zoom_changed'' bool_codec pane_zoom_result_zoom_changed (\<lambda>x r. r\<lparr>pane_zoom_result_zoom_changed := x\<rparr>),
     plain_field ''zoomed'' bool_codec pane_zoom_result_zoomed (\<lambda>x r. r\<lparr>pane_zoom_result_zoomed := x\<rparr>)]"

definition pane_zoom_result_codec :: "(string \<Rightarrow> float64 option) \<Rightarrow> (float64 \<Rightarrow> string) \<Rightarrow> pane_zoom_result codec" where
  "pane_zoom_result_codec pf ff = struct_codec pane_zoom_result_zero (pane_zoom_result_fields pf ff)"

lemma pane_zoom_result_codec_lawful [simp]: "lawful (pane_zoom_result_codec pf ff)"
  unfolding pane_zoom_result_codec_def
proof (rule lawful_struct)
  show "distinct (map fld_name (pane_zoom_result_fields pf ff))" by (simp add: pane_zoom_result_fields_def field_names)
  show "list_all (\<lambda>f. fld_ok f r) (pane_zoom_result_fields pf ff) \<Longrightarrow> refill (pane_zoom_result_fields pf ff) r pane_zoom_result_zero = Some r" for r
    by (cases r) (simp add: pane_zoom_result_fields_def pane_zoom_result_zero_def refill_simps)
qed

lemma pane_zoom_result_codec_zero [simp]: "cod_zero (pane_zoom_result_codec pf ff) = pane_zoom_result_zero"
  by (simp add: pane_zoom_result_codec_def struct_codec_def)

definition plugin_action_info_fields :: "plugin_action_info field list" where
  "plugin_action_info_fields =
    [plain_field ''action_id'' string_codec plugin_action_info_action_id (\<lambda>x r. r\<lparr>plugin_action_info_action_id := x\<rparr>),
     plain_field ''command'' (slice_codec string_codec) plugin_action_info_command (\<lambda>x r. r\<lparr>plugin_action_info_command := x\<rparr>),
     optional_field ''contexts'' (slice_codec string_codec) plugin_action_info_contexts (\<lambda>x r. r\<lparr>plugin_action_info_contexts := x\<rparr>),
     optional_field ''description'' string_codec plugin_action_info_description (\<lambda>x r. r\<lparr>plugin_action_info_description := x\<rparr>),
     optional_field ''platforms'' (slice_codec string_codec) plugin_action_info_platforms (\<lambda>x r. r\<lparr>plugin_action_info_platforms := x\<rparr>),
     plain_field ''plugin_id'' string_codec plugin_action_info_plugin_id (\<lambda>x r. r\<lparr>plugin_action_info_plugin_id := x\<rparr>),
     plain_field ''title'' string_codec plugin_action_info_title (\<lambda>x r. r\<lparr>plugin_action_info_title := x\<rparr>)]"

definition plugin_action_info_codec :: "plugin_action_info codec" where
  "plugin_action_info_codec = struct_codec plugin_action_info_zero plugin_action_info_fields"

lemma plugin_action_info_codec_lawful [simp]: "lawful (plugin_action_info_codec)"
  unfolding plugin_action_info_codec_def
proof (rule lawful_struct)
  show "distinct (map fld_name plugin_action_info_fields)" by (simp add: plugin_action_info_fields_def field_names)
  show "list_all (\<lambda>f. fld_ok f r) plugin_action_info_fields \<Longrightarrow> refill plugin_action_info_fields r plugin_action_info_zero = Some r" for r
    by (cases r) (simp add: plugin_action_info_fields_def plugin_action_info_zero_def refill_simps)
qed

lemma plugin_action_info_codec_zero [simp]: "cod_zero (plugin_action_info_codec) = plugin_action_info_zero"
  by (simp add: plugin_action_info_codec_def struct_codec_def)

definition plugin_invocation_context_fields :: "plugin_invocation_context field list" where
  "plugin_invocation_context_fields =
    [optional_field ''clicked_url'' string_codec plugin_invocation_context_clicked_url (\<lambda>x r. r\<lparr>plugin_invocation_context_clicked_url := x\<rparr>),
     optional_field ''correlation_id'' string_codec plugin_invocation_context_correlation_id (\<lambda>x r. r\<lparr>plugin_invocation_context_correlation_id := x\<rparr>),
     optional_field ''focused_pane_agent'' string_codec plugin_invocation_context_focused_pane_agent (\<lambda>x r. r\<lparr>plugin_invocation_context_focused_pane_agent := x\<rparr>),
     optional_field ''focused_pane_cwd'' string_codec plugin_invocation_context_focused_pane_cwd (\<lambda>x r. r\<lparr>plugin_invocation_context_focused_pane_cwd := x\<rparr>),
     optional_field ''focused_pane_id'' string_codec plugin_invocation_context_focused_pane_id (\<lambda>x r. r\<lparr>plugin_invocation_context_focused_pane_id := x\<rparr>),
     optional_field ''focused_pane_status'' string_codec plugin_invocation_context_focused_pane_status (\<lambda>x r. r\<lparr>plugin_invocation_context_focused_pane_status := x\<rparr>),
     optional_field ''invocation_source'' string_codec plugin_invocation_context_invocation_source (\<lambda>x r. r\<lparr>plugin_invocation_context_invocation_source := x\<rparr>),
     optional_field ''link_handler_id'' string_codec plugin_invocation_context_link_handler_id (\<lambda>x r. r\<lparr>plugin_invocation_context_link_handler_id := x\<rparr>),
     optional_field ''selected_text'' string_codec plugin_invocation_context_selected_text (\<lambda>x r. r\<lparr>plugin_invocation_context_selected_text := x\<rparr>),
     optional_field ''tab_id'' string_codec plugin_invocation_context_tab_id (\<lambda>x r. r\<lparr>plugin_invocation_context_tab_id := x\<rparr>),
     optional_field ''tab_label'' string_codec plugin_invocation_context_tab_label (\<lambda>x r. r\<lparr>plugin_invocation_context_tab_label := x\<rparr>),
     optional_field ''workspace_cwd'' string_codec plugin_invocation_context_workspace_cwd (\<lambda>x r. r\<lparr>plugin_invocation_context_workspace_cwd := x\<rparr>),
     optional_field ''workspace_id'' string_codec plugin_invocation_context_workspace_id (\<lambda>x r. r\<lparr>plugin_invocation_context_workspace_id := x\<rparr>),
     optional_field ''workspace_label'' string_codec plugin_invocation_context_workspace_label (\<lambda>x r. r\<lparr>plugin_invocation_context_workspace_label := x\<rparr>),
     optional_field ''worktree'' workspace_worktree_info_codec plugin_invocation_context_worktree (\<lambda>x r. r\<lparr>plugin_invocation_context_worktree := x\<rparr>)]"

definition plugin_invocation_context_codec :: "plugin_invocation_context codec" where
  "plugin_invocation_context_codec = struct_codec plugin_invocation_context_zero plugin_invocation_context_fields"

lemma plugin_invocation_context_codec_lawful [simp]: "lawful (plugin_invocation_context_codec)"
  unfolding plugin_invocation_context_codec_def
proof (rule lawful_struct)
  show "distinct (map fld_name plugin_invocation_context_fields)" by (simp add: plugin_invocation_context_fields_def field_names)
  show "list_all (\<lambda>f. fld_ok f r) plugin_invocation_context_fields \<Longrightarrow> refill plugin_invocation_context_fields r plugin_invocation_context_zero = Some r" for r
    by (cases r) (simp add: plugin_invocation_context_fields_def plugin_invocation_context_zero_def refill_simps)
qed

lemma plugin_invocation_context_codec_zero [simp]: "cod_zero (plugin_invocation_context_codec) = plugin_invocation_context_zero"
  by (simp add: plugin_invocation_context_codec_def struct_codec_def)

definition plugin_command_log_info_fields :: "plugin_command_log_info field list" where
  "plugin_command_log_info_fields =
    [optional_field ''action_id'' string_codec plugin_command_log_info_action_id (\<lambda>x r. r\<lparr>plugin_command_log_info_action_id := x\<rparr>),
     plain_field ''command'' (slice_codec string_codec) plugin_command_log_info_command (\<lambda>x r. r\<lparr>plugin_command_log_info_command := x\<rparr>),
     optional_field ''error'' string_codec plugin_command_log_info_error (\<lambda>x r. r\<lparr>plugin_command_log_info_error := x\<rparr>),
     optional_field ''event'' string_codec plugin_command_log_info_event (\<lambda>x r. r\<lparr>plugin_command_log_info_event := x\<rparr>),
     optional_field ''exit_code'' int_codec plugin_command_log_info_exit_code (\<lambda>x r. r\<lparr>plugin_command_log_info_exit_code := x\<rparr>),
     optional_field ''finished_unix_ms'' uint_codec plugin_command_log_info_finished_unix_ms (\<lambda>x r. r\<lparr>plugin_command_log_info_finished_unix_ms := x\<rparr>),
     plain_field ''log_id'' string_codec plugin_command_log_info_log_id (\<lambda>x r. r\<lparr>plugin_command_log_info_log_id := x\<rparr>),
     plain_field ''plugin_id'' string_codec plugin_command_log_info_plugin_id (\<lambda>x r. r\<lparr>plugin_command_log_info_plugin_id := x\<rparr>),
     plain_field ''started_unix_ms'' uint_codec plugin_command_log_info_started_unix_ms (\<lambda>x r. r\<lparr>plugin_command_log_info_started_unix_ms := x\<rparr>),
     plain_field ''status'' string_codec plugin_command_log_info_status (\<lambda>x r. r\<lparr>plugin_command_log_info_status := x\<rparr>),
     optional_field ''stderr'' string_codec plugin_command_log_info_stderr (\<lambda>x r. r\<lparr>plugin_command_log_info_stderr := x\<rparr>),
     optional_field ''stdout'' string_codec plugin_command_log_info_stdout (\<lambda>x r. r\<lparr>plugin_command_log_info_stdout := x\<rparr>)]"

definition plugin_command_log_info_codec :: "plugin_command_log_info codec" where
  "plugin_command_log_info_codec = struct_codec plugin_command_log_info_zero plugin_command_log_info_fields"

lemma plugin_command_log_info_codec_lawful [simp]: "lawful (plugin_command_log_info_codec)"
  unfolding plugin_command_log_info_codec_def
proof (rule lawful_struct)
  show "distinct (map fld_name plugin_command_log_info_fields)" by (simp add: plugin_command_log_info_fields_def field_names)
  show "list_all (\<lambda>f. fld_ok f r) plugin_command_log_info_fields \<Longrightarrow> refill plugin_command_log_info_fields r plugin_command_log_info_zero = Some r" for r
    by (cases r) (simp add: plugin_command_log_info_fields_def plugin_command_log_info_zero_def refill_simps)
qed

lemma plugin_command_log_info_codec_zero [simp]: "cod_zero (plugin_command_log_info_codec) = plugin_command_log_info_zero"
  by (simp add: plugin_command_log_info_codec_def struct_codec_def)

definition plugin_manifest_action_fields :: "plugin_manifest_action field list" where
  "plugin_manifest_action_fields =
    [plain_field ''command'' (slice_codec string_codec) plugin_manifest_action_command (\<lambda>x r. r\<lparr>plugin_manifest_action_command := x\<rparr>),
     optional_field ''contexts'' (slice_codec string_codec) plugin_manifest_action_contexts (\<lambda>x r. r\<lparr>plugin_manifest_action_contexts := x\<rparr>),
     optional_field ''description'' string_codec plugin_manifest_action_description (\<lambda>x r. r\<lparr>plugin_manifest_action_description := x\<rparr>),
     plain_field ''id'' string_codec plugin_manifest_action_id (\<lambda>x r. r\<lparr>plugin_manifest_action_id := x\<rparr>),
     optional_field ''platforms'' (slice_codec string_codec) plugin_manifest_action_platforms (\<lambda>x r. r\<lparr>plugin_manifest_action_platforms := x\<rparr>),
     plain_field ''title'' string_codec plugin_manifest_action_title (\<lambda>x r. r\<lparr>plugin_manifest_action_title := x\<rparr>)]"

definition plugin_manifest_action_codec :: "plugin_manifest_action codec" where
  "plugin_manifest_action_codec = struct_codec plugin_manifest_action_zero plugin_manifest_action_fields"

lemma plugin_manifest_action_codec_lawful [simp]: "lawful (plugin_manifest_action_codec)"
  unfolding plugin_manifest_action_codec_def
proof (rule lawful_struct)
  show "distinct (map fld_name plugin_manifest_action_fields)" by (simp add: plugin_manifest_action_fields_def field_names)
  show "list_all (\<lambda>f. fld_ok f r) plugin_manifest_action_fields \<Longrightarrow> refill plugin_manifest_action_fields r plugin_manifest_action_zero = Some r" for r
    by (cases r) (simp add: plugin_manifest_action_fields_def plugin_manifest_action_zero_def refill_simps)
qed

lemma plugin_manifest_action_codec_zero [simp]: "cod_zero (plugin_manifest_action_codec) = plugin_manifest_action_zero"
  by (simp add: plugin_manifest_action_codec_def struct_codec_def)

definition plugin_manifest_build_fields :: "plugin_manifest_build field list" where
  "plugin_manifest_build_fields =
    [plain_field ''command'' (slice_codec string_codec) plugin_manifest_build_command (\<lambda>x r. r\<lparr>plugin_manifest_build_command := x\<rparr>),
     optional_field ''platforms'' (slice_codec string_codec) plugin_manifest_build_platforms (\<lambda>x r. r\<lparr>plugin_manifest_build_platforms := x\<rparr>)]"

definition plugin_manifest_build_codec :: "plugin_manifest_build codec" where
  "plugin_manifest_build_codec = struct_codec plugin_manifest_build_zero plugin_manifest_build_fields"

lemma plugin_manifest_build_codec_lawful [simp]: "lawful (plugin_manifest_build_codec)"
  unfolding plugin_manifest_build_codec_def
proof (rule lawful_struct)
  show "distinct (map fld_name plugin_manifest_build_fields)" by (simp add: plugin_manifest_build_fields_def field_names)
  show "list_all (\<lambda>f. fld_ok f r) plugin_manifest_build_fields \<Longrightarrow> refill plugin_manifest_build_fields r plugin_manifest_build_zero = Some r" for r
    by (cases r) (simp add: plugin_manifest_build_fields_def plugin_manifest_build_zero_def refill_simps)
qed

lemma plugin_manifest_build_codec_zero [simp]: "cod_zero (plugin_manifest_build_codec) = plugin_manifest_build_zero"
  by (simp add: plugin_manifest_build_codec_def struct_codec_def)

definition plugin_manifest_event_hook_fields :: "plugin_manifest_event_hook field list" where
  "plugin_manifest_event_hook_fields =
    [plain_field ''command'' (slice_codec string_codec) plugin_manifest_event_hook_command (\<lambda>x r. r\<lparr>plugin_manifest_event_hook_command := x\<rparr>),
     plain_field ''on'' string_codec plugin_manifest_event_hook_on (\<lambda>x r. r\<lparr>plugin_manifest_event_hook_on := x\<rparr>),
     optional_field ''platforms'' (slice_codec string_codec) plugin_manifest_event_hook_platforms (\<lambda>x r. r\<lparr>plugin_manifest_event_hook_platforms := x\<rparr>)]"

definition plugin_manifest_event_hook_codec :: "plugin_manifest_event_hook codec" where
  "plugin_manifest_event_hook_codec = struct_codec plugin_manifest_event_hook_zero plugin_manifest_event_hook_fields"

lemma plugin_manifest_event_hook_codec_lawful [simp]: "lawful (plugin_manifest_event_hook_codec)"
  unfolding plugin_manifest_event_hook_codec_def
proof (rule lawful_struct)
  show "distinct (map fld_name plugin_manifest_event_hook_fields)" by (simp add: plugin_manifest_event_hook_fields_def field_names)
  show "list_all (\<lambda>f. fld_ok f r) plugin_manifest_event_hook_fields \<Longrightarrow> refill plugin_manifest_event_hook_fields r plugin_manifest_event_hook_zero = Some r" for r
    by (cases r) (simp add: plugin_manifest_event_hook_fields_def plugin_manifest_event_hook_zero_def refill_simps)
qed

lemma plugin_manifest_event_hook_codec_zero [simp]: "cod_zero (plugin_manifest_event_hook_codec) = plugin_manifest_event_hook_zero"
  by (simp add: plugin_manifest_event_hook_codec_def struct_codec_def)

definition plugin_manifest_link_handler_fields :: "plugin_manifest_link_handler field list" where
  "plugin_manifest_link_handler_fields =
    [plain_field ''action'' string_codec plugin_manifest_link_handler_action (\<lambda>x r. r\<lparr>plugin_manifest_link_handler_action := x\<rparr>),
     plain_field ''id'' string_codec plugin_manifest_link_handler_id (\<lambda>x r. r\<lparr>plugin_manifest_link_handler_id := x\<rparr>),
     plain_field ''pattern'' string_codec plugin_manifest_link_handler_pattern (\<lambda>x r. r\<lparr>plugin_manifest_link_handler_pattern := x\<rparr>),
     optional_field ''platforms'' (slice_codec string_codec) plugin_manifest_link_handler_platforms (\<lambda>x r. r\<lparr>plugin_manifest_link_handler_platforms := x\<rparr>),
     plain_field ''title'' string_codec plugin_manifest_link_handler_title (\<lambda>x r. r\<lparr>plugin_manifest_link_handler_title := x\<rparr>)]"

definition plugin_manifest_link_handler_codec :: "plugin_manifest_link_handler codec" where
  "plugin_manifest_link_handler_codec = struct_codec plugin_manifest_link_handler_zero plugin_manifest_link_handler_fields"

lemma plugin_manifest_link_handler_codec_lawful [simp]: "lawful (plugin_manifest_link_handler_codec)"
  unfolding plugin_manifest_link_handler_codec_def
proof (rule lawful_struct)
  show "distinct (map fld_name plugin_manifest_link_handler_fields)" by (simp add: plugin_manifest_link_handler_fields_def field_names)
  show "list_all (\<lambda>f. fld_ok f r) plugin_manifest_link_handler_fields \<Longrightarrow> refill plugin_manifest_link_handler_fields r plugin_manifest_link_handler_zero = Some r" for r
    by (cases r) (simp add: plugin_manifest_link_handler_fields_def plugin_manifest_link_handler_zero_def refill_simps)
qed

lemma plugin_manifest_link_handler_codec_zero [simp]: "cod_zero (plugin_manifest_link_handler_codec) = plugin_manifest_link_handler_zero"
  by (simp add: plugin_manifest_link_handler_codec_def struct_codec_def)

definition plugin_manifest_pane_fields :: "(string \<Rightarrow> string) \<Rightarrow> plugin_manifest_pane field list" where
  "plugin_manifest_pane_fields quote =
    [plain_field ''command'' (slice_codec string_codec) plugin_manifest_pane_command (\<lambda>x r. r\<lparr>plugin_manifest_pane_command := x\<rparr>),
     optional_field ''description'' string_codec plugin_manifest_pane_description (\<lambda>x r. r\<lparr>plugin_manifest_pane_description := x\<rparr>),
     optional_field ''height'' (pane_size_codec quote) plugin_manifest_pane_height (\<lambda>x r. r\<lparr>plugin_manifest_pane_height := x\<rparr>),
     plain_field ''id'' string_codec plugin_manifest_pane_id (\<lambda>x r. r\<lparr>plugin_manifest_pane_id := x\<rparr>),
     optional_field ''placement'' string_codec plugin_manifest_pane_placement (\<lambda>x r. r\<lparr>plugin_manifest_pane_placement := x\<rparr>),
     optional_field ''platforms'' (slice_codec string_codec) plugin_manifest_pane_platforms (\<lambda>x r. r\<lparr>plugin_manifest_pane_platforms := x\<rparr>),
     plain_field ''title'' string_codec plugin_manifest_pane_title (\<lambda>x r. r\<lparr>plugin_manifest_pane_title := x\<rparr>),
     optional_field ''width'' (pane_size_codec quote) plugin_manifest_pane_width (\<lambda>x r. r\<lparr>plugin_manifest_pane_width := x\<rparr>)]"

definition plugin_manifest_pane_codec :: "(string \<Rightarrow> string) \<Rightarrow> plugin_manifest_pane codec" where
  "plugin_manifest_pane_codec quote = struct_codec plugin_manifest_pane_zero (plugin_manifest_pane_fields quote)"

lemma plugin_manifest_pane_codec_lawful [simp]: "lawful (plugin_manifest_pane_codec quote)"
  unfolding plugin_manifest_pane_codec_def
proof (rule lawful_struct)
  show "distinct (map fld_name (plugin_manifest_pane_fields quote))" by (simp add: plugin_manifest_pane_fields_def field_names)
  show "list_all (\<lambda>f. fld_ok f r) (plugin_manifest_pane_fields quote) \<Longrightarrow> refill (plugin_manifest_pane_fields quote) r plugin_manifest_pane_zero = Some r" for r
    by (cases r) (simp add: plugin_manifest_pane_fields_def plugin_manifest_pane_zero_def refill_simps)
qed

lemma plugin_manifest_pane_codec_zero [simp]: "cod_zero (plugin_manifest_pane_codec quote) = plugin_manifest_pane_zero"
  by (simp add: plugin_manifest_pane_codec_def struct_codec_def)

definition plugin_source_info_fields :: "plugin_source_info field list" where
  "plugin_source_info_fields =
    [optional_field ''installed_unix_ms'' uint_codec plugin_source_info_installed_unix_ms (\<lambda>x r. r\<lparr>plugin_source_info_installed_unix_ms := x\<rparr>),
     optional_field ''kind'' string_codec plugin_source_info_kind (\<lambda>x r. r\<lparr>plugin_source_info_kind := x\<rparr>),
     optional_field ''managed_path'' string_codec plugin_source_info_managed_path (\<lambda>x r. r\<lparr>plugin_source_info_managed_path := x\<rparr>),
     optional_field ''owner'' string_codec plugin_source_info_owner (\<lambda>x r. r\<lparr>plugin_source_info_owner := x\<rparr>),
     optional_field ''repo'' string_codec plugin_source_info_repo (\<lambda>x r. r\<lparr>plugin_source_info_repo := x\<rparr>),
     optional_field ''requested_ref'' string_codec plugin_source_info_requested_ref (\<lambda>x r. r\<lparr>plugin_source_info_requested_ref := x\<rparr>),
     optional_field ''resolved_commit'' string_codec plugin_source_info_resolved_commit (\<lambda>x r. r\<lparr>plugin_source_info_resolved_commit := x\<rparr>),
     optional_field ''subdir'' string_codec plugin_source_info_subdir (\<lambda>x r. r\<lparr>plugin_source_info_subdir := x\<rparr>)]"

definition plugin_source_info_codec :: "plugin_source_info codec" where
  "plugin_source_info_codec = struct_codec plugin_source_info_zero plugin_source_info_fields"

lemma plugin_source_info_codec_lawful [simp]: "lawful (plugin_source_info_codec)"
  unfolding plugin_source_info_codec_def
proof (rule lawful_struct)
  show "distinct (map fld_name plugin_source_info_fields)" by (simp add: plugin_source_info_fields_def field_names)
  show "list_all (\<lambda>f. fld_ok f r) plugin_source_info_fields \<Longrightarrow> refill plugin_source_info_fields r plugin_source_info_zero = Some r" for r
    by (cases r) (simp add: plugin_source_info_fields_def plugin_source_info_zero_def refill_simps)
qed

lemma plugin_source_info_codec_zero [simp]: "cod_zero (plugin_source_info_codec) = plugin_source_info_zero"
  by (simp add: plugin_source_info_codec_def struct_codec_def)

definition plugin_manifest_startup_fields :: "plugin_manifest_startup field list" where
  "plugin_manifest_startup_fields =
    [plain_field ''command'' (slice_codec string_codec) plugin_manifest_startup_command (\<lambda>x r. r\<lparr>plugin_manifest_startup_command := x\<rparr>),
     optional_field ''platforms'' (slice_codec string_codec) plugin_manifest_startup_platforms (\<lambda>x r. r\<lparr>plugin_manifest_startup_platforms := x\<rparr>)]"

definition plugin_manifest_startup_codec :: "plugin_manifest_startup codec" where
  "plugin_manifest_startup_codec = struct_codec plugin_manifest_startup_zero plugin_manifest_startup_fields"

lemma plugin_manifest_startup_codec_lawful [simp]: "lawful (plugin_manifest_startup_codec)"
  unfolding plugin_manifest_startup_codec_def
proof (rule lawful_struct)
  show "distinct (map fld_name plugin_manifest_startup_fields)" by (simp add: plugin_manifest_startup_fields_def field_names)
  show "list_all (\<lambda>f. fld_ok f r) plugin_manifest_startup_fields \<Longrightarrow> refill plugin_manifest_startup_fields r plugin_manifest_startup_zero = Some r" for r
    by (cases r) (simp add: plugin_manifest_startup_fields_def plugin_manifest_startup_zero_def refill_simps)
qed

lemma plugin_manifest_startup_codec_zero [simp]: "cod_zero (plugin_manifest_startup_codec) = plugin_manifest_startup_zero"
  by (simp add: plugin_manifest_startup_codec_def struct_codec_def)

definition installed_plugin_info_fields :: "(string \<Rightarrow> string) \<Rightarrow> installed_plugin_info field list" where
  "installed_plugin_info_fields quote =
    [optional_field ''actions'' (slice_codec plugin_manifest_action_codec) installed_plugin_info_actions (\<lambda>x r. r\<lparr>installed_plugin_info_actions := x\<rparr>),
     optional_field ''build'' (slice_codec plugin_manifest_build_codec) installed_plugin_info_build (\<lambda>x r. r\<lparr>installed_plugin_info_build := x\<rparr>),
     optional_field ''description'' string_codec installed_plugin_info_description (\<lambda>x r. r\<lparr>installed_plugin_info_description := x\<rparr>),
     plain_field ''enabled'' bool_codec installed_plugin_info_enabled (\<lambda>x r. r\<lparr>installed_plugin_info_enabled := x\<rparr>),
     optional_field ''events'' (slice_codec plugin_manifest_event_hook_codec) installed_plugin_info_events (\<lambda>x r. r\<lparr>installed_plugin_info_events := x\<rparr>),
     optional_field ''link_handlers'' (slice_codec plugin_manifest_link_handler_codec) installed_plugin_info_link_handlers (\<lambda>x r. r\<lparr>installed_plugin_info_link_handlers := x\<rparr>),
     plain_field ''manifest_path'' string_codec installed_plugin_info_manifest_path (\<lambda>x r. r\<lparr>installed_plugin_info_manifest_path := x\<rparr>),
     optional_field ''min_herdr_version'' string_codec installed_plugin_info_min_herdr_version (\<lambda>x r. r\<lparr>installed_plugin_info_min_herdr_version := x\<rparr>),
     plain_field ''name'' string_codec installed_plugin_info_name (\<lambda>x r. r\<lparr>installed_plugin_info_name := x\<rparr>),
     optional_field ''panes'' (slice_codec (plugin_manifest_pane_codec quote)) installed_plugin_info_panes (\<lambda>x r. r\<lparr>installed_plugin_info_panes := x\<rparr>),
     optional_field ''platforms'' (slice_codec string_codec) installed_plugin_info_platforms (\<lambda>x r. r\<lparr>installed_plugin_info_platforms := x\<rparr>),
     plain_field ''plugin_id'' string_codec installed_plugin_info_plugin_id (\<lambda>x r. r\<lparr>installed_plugin_info_plugin_id := x\<rparr>),
     plain_field ''plugin_root'' string_codec installed_plugin_info_plugin_root (\<lambda>x r. r\<lparr>installed_plugin_info_plugin_root := x\<rparr>),
     optional_field ''source'' plugin_source_info_codec installed_plugin_info_source (\<lambda>x r. r\<lparr>installed_plugin_info_source := x\<rparr>),
     optional_field ''startup'' (slice_codec plugin_manifest_startup_codec) installed_plugin_info_startup (\<lambda>x r. r\<lparr>installed_plugin_info_startup := x\<rparr>),
     plain_field ''version'' string_codec installed_plugin_info_version (\<lambda>x r. r\<lparr>installed_plugin_info_version := x\<rparr>),
     optional_field ''warnings'' (slice_codec string_codec) installed_plugin_info_warnings (\<lambda>x r. r\<lparr>installed_plugin_info_warnings := x\<rparr>)]"

definition installed_plugin_info_codec :: "(string \<Rightarrow> string) \<Rightarrow> installed_plugin_info codec" where
  "installed_plugin_info_codec quote = struct_codec installed_plugin_info_zero (installed_plugin_info_fields quote)"

lemma installed_plugin_info_codec_lawful [simp]: "lawful (installed_plugin_info_codec quote)"
  unfolding installed_plugin_info_codec_def
proof (rule lawful_struct)
  show "distinct (map fld_name (installed_plugin_info_fields quote))" by (simp add: installed_plugin_info_fields_def field_names)
  show "list_all (\<lambda>f. fld_ok f r) (installed_plugin_info_fields quote) \<Longrightarrow> refill (installed_plugin_info_fields quote) r installed_plugin_info_zero = Some r" for r
    by (cases r) (simp add: installed_plugin_info_fields_def installed_plugin_info_zero_def refill_simps)
qed

lemma installed_plugin_info_codec_zero [simp]: "cod_zero (installed_plugin_info_codec quote) = installed_plugin_info_zero"
  by (simp add: installed_plugin_info_codec_def struct_codec_def)

definition plugin_pane_info_fields :: "plugin_pane_info field list" where
  "plugin_pane_info_fields =
    [plain_field ''entrypoint'' string_codec plugin_pane_info_entrypoint (\<lambda>x r. r\<lparr>plugin_pane_info_entrypoint := x\<rparr>),
     plain_field ''pane'' pane_info_codec plugin_pane_info_pane (\<lambda>x r. r\<lparr>plugin_pane_info_pane := x\<rparr>),
     plain_field ''plugin_id'' string_codec plugin_pane_info_plugin_id (\<lambda>x r. r\<lparr>plugin_pane_info_plugin_id := x\<rparr>)]"

definition plugin_pane_info_codec :: "plugin_pane_info codec" where
  "plugin_pane_info_codec = struct_codec plugin_pane_info_zero plugin_pane_info_fields"

lemma plugin_pane_info_codec_lawful [simp]: "lawful (plugin_pane_info_codec)"
  unfolding plugin_pane_info_codec_def
proof (rule lawful_struct)
  show "distinct (map fld_name plugin_pane_info_fields)" by (simp add: plugin_pane_info_fields_def field_names)
  show "list_all (\<lambda>f. fld_ok f r) plugin_pane_info_fields \<Longrightarrow> refill plugin_pane_info_fields r plugin_pane_info_zero = Some r" for r
    by (cases r) (simp add: plugin_pane_info_fields_def plugin_pane_info_zero_def refill_simps)
qed

lemma plugin_pane_info_codec_zero [simp]: "cod_zero (plugin_pane_info_codec) = plugin_pane_info_zero"
  by (simp add: plugin_pane_info_codec_def struct_codec_def)

definition server_capabilities_fields :: "server_capabilities field list" where
  "server_capabilities_fields =
    [optional_field ''detached_server_daemon'' bool_codec server_capabilities_detached_server_daemon (\<lambda>x r. r\<lparr>server_capabilities_detached_server_daemon := x\<rparr>),
     optional_field ''endpoint_protocol_generation'' uint_codec server_capabilities_endpoint_protocol_generation (\<lambda>x r. r\<lparr>server_capabilities_endpoint_protocol_generation := x\<rparr>),
     optional_field ''health_check'' bool_codec server_capabilities_health_check (\<lambda>x r. r\<lparr>server_capabilities_health_check := x\<rparr>),
     plain_field ''live_handoff'' bool_codec server_capabilities_live_handoff (\<lambda>x r. r\<lparr>server_capabilities_live_handoff := x\<rparr>),
     optional_field ''ssh_agent_registration'' bool_codec server_capabilities_ssh_agent_registration (\<lambda>x r. r\<lparr>server_capabilities_ssh_agent_registration := x\<rparr>),
     optional_field ''surface_interest'' bool_codec server_capabilities_surface_interest (\<lambda>x r. r\<lparr>server_capabilities_surface_interest := x\<rparr>)]"

definition server_capabilities_codec :: "server_capabilities codec" where
  "server_capabilities_codec = struct_codec server_capabilities_zero server_capabilities_fields"

lemma server_capabilities_codec_lawful [simp]: "lawful (server_capabilities_codec)"
  unfolding server_capabilities_codec_def
proof (rule lawful_struct)
  show "distinct (map fld_name server_capabilities_fields)" by (simp add: server_capabilities_fields_def field_names)
  show "list_all (\<lambda>f. fld_ok f r) server_capabilities_fields \<Longrightarrow> refill server_capabilities_fields r server_capabilities_zero = Some r" for r
    by (cases r) (simp add: server_capabilities_fields_def server_capabilities_zero_def refill_simps)
qed

lemma server_capabilities_codec_zero [simp]: "cod_zero (server_capabilities_codec) = server_capabilities_zero"
  by (simp add: server_capabilities_codec_def struct_codec_def)

definition worktree_source_info_fields :: "worktree_source_info field list" where
  "worktree_source_info_fields =
    [plain_field ''repo_key'' string_codec worktree_source_info_repo_key (\<lambda>x r. r\<lparr>worktree_source_info_repo_key := x\<rparr>),
     plain_field ''repo_name'' string_codec worktree_source_info_repo_name (\<lambda>x r. r\<lparr>worktree_source_info_repo_name := x\<rparr>),
     plain_field ''repo_root'' string_codec worktree_source_info_repo_root (\<lambda>x r. r\<lparr>worktree_source_info_repo_root := x\<rparr>),
     plain_field ''source_checkout_path'' string_codec worktree_source_info_source_checkout_path (\<lambda>x r. r\<lparr>worktree_source_info_source_checkout_path := x\<rparr>),
     optional_field ''source_workspace_id'' string_codec worktree_source_info_source_workspace_id (\<lambda>x r. r\<lparr>worktree_source_info_source_workspace_id := x\<rparr>)]"

definition worktree_source_info_codec :: "worktree_source_info codec" where
  "worktree_source_info_codec = struct_codec worktree_source_info_zero worktree_source_info_fields"

lemma worktree_source_info_codec_lawful [simp]: "lawful (worktree_source_info_codec)"
  unfolding worktree_source_info_codec_def
proof (rule lawful_struct)
  show "distinct (map fld_name worktree_source_info_fields)" by (simp add: worktree_source_info_fields_def field_names)
  show "list_all (\<lambda>f. fld_ok f r) worktree_source_info_fields \<Longrightarrow> refill worktree_source_info_fields r worktree_source_info_zero = Some r" for r
    by (cases r) (simp add: worktree_source_info_fields_def worktree_source_info_zero_def refill_simps)
qed

lemma worktree_source_info_codec_zero [simp]: "cod_zero (worktree_source_info_codec) = worktree_source_info_zero"
  by (simp add: worktree_source_info_codec_def struct_codec_def)

end
