(* ===== verification/Response_Codec.thy ===== *)
theory Response_Codec
  imports Response_Types Info_Codec
begin

text \<open>
  The members of the response structs of \<open>herdr/results_gen.go\<close> and their codecs. None has a member that
  would catch the \<open>type\<close> tag \<open>MarshalJSON\<close> adds.
\<close>

definition agent_explain_response_fields :: "agent_explain_response field list" where
  "agent_explain_response_fields =
    [plain_field ''explain'' raw_codec agent_explain_response_explain (\<lambda>x r. r\<lparr>agent_explain_response_explain := x\<rparr>)]"

definition agent_explain_response_codec :: "agent_explain_response codec" where
  "agent_explain_response_codec = struct_codec agent_explain_response_zero agent_explain_response_fields"

lemma agent_explain_response_codec_lawful [simp]: "lawful (agent_explain_response_codec)"
  unfolding agent_explain_response_codec_def
proof (rule lawful_struct)
  show "distinct (map fld_name agent_explain_response_fields)" by (simp add: agent_explain_response_fields_def field_names)
  show "list_all (\<lambda>f. fld_ok f r) agent_explain_response_fields \<Longrightarrow> refill agent_explain_response_fields r agent_explain_response_zero = Some r" for r
    by (cases r) (simp add: agent_explain_response_fields_def agent_explain_response_zero_def refill_simps)
qed

lemma agent_explain_response_codec_zero [simp]: "cod_zero (agent_explain_response_codec) = agent_explain_response_zero"
  by (simp add: agent_explain_response_codec_def struct_codec_def)

definition agent_info_response_fields :: "agent_info_response field list" where
  "agent_info_response_fields =
    [plain_field ''agent'' agent_info_codec agent_info_response_agent (\<lambda>x r. r\<lparr>agent_info_response_agent := x\<rparr>)]"

definition agent_info_response_codec :: "agent_info_response codec" where
  "agent_info_response_codec = struct_codec agent_info_response_zero agent_info_response_fields"

lemma agent_info_response_codec_lawful [simp]: "lawful (agent_info_response_codec)"
  unfolding agent_info_response_codec_def
proof (rule lawful_struct)
  show "distinct (map fld_name agent_info_response_fields)" by (simp add: agent_info_response_fields_def field_names)
  show "list_all (\<lambda>f. fld_ok f r) agent_info_response_fields \<Longrightarrow> refill agent_info_response_fields r agent_info_response_zero = Some r" for r
    by (cases r) (simp add: agent_info_response_fields_def agent_info_response_zero_def refill_simps)
qed

lemma agent_info_response_codec_zero [simp]: "cod_zero (agent_info_response_codec) = agent_info_response_zero"
  by (simp add: agent_info_response_codec_def struct_codec_def)

definition agent_list_response_fields :: "agent_list_response field list" where
  "agent_list_response_fields =
    [plain_field ''agents'' (slice_codec agent_info_codec) agent_list_response_agents (\<lambda>x r. r\<lparr>agent_list_response_agents := x\<rparr>)]"

definition agent_list_response_codec :: "agent_list_response codec" where
  "agent_list_response_codec = struct_codec agent_list_response_zero agent_list_response_fields"

lemma agent_list_response_codec_lawful [simp]: "lawful (agent_list_response_codec)"
  unfolding agent_list_response_codec_def
proof (rule lawful_struct)
  show "distinct (map fld_name agent_list_response_fields)" by (simp add: agent_list_response_fields_def field_names)
  show "list_all (\<lambda>f. fld_ok f r) agent_list_response_fields \<Longrightarrow> refill agent_list_response_fields r agent_list_response_zero = Some r" for r
    by (cases r) (simp add: agent_list_response_fields_def agent_list_response_zero_def refill_simps)
qed

lemma agent_list_response_codec_zero [simp]: "cod_zero (agent_list_response_codec) = agent_list_response_zero"
  by (simp add: agent_list_response_codec_def struct_codec_def)

definition agent_manifest_reload_response_fields :: "agent_manifest_reload_response field list" where
  "agent_manifest_reload_response_fields =
    [plain_field ''manifests'' (slice_codec agent_manifest_info_codec) agent_manifest_reload_response_manifests (\<lambda>x r. r\<lparr>agent_manifest_reload_response_manifests := x\<rparr>)]"

definition agent_manifest_reload_response_codec :: "agent_manifest_reload_response codec" where
  "agent_manifest_reload_response_codec = struct_codec agent_manifest_reload_response_zero agent_manifest_reload_response_fields"

lemma agent_manifest_reload_response_codec_lawful [simp]: "lawful (agent_manifest_reload_response_codec)"
  unfolding agent_manifest_reload_response_codec_def
proof (rule lawful_struct)
  show "distinct (map fld_name agent_manifest_reload_response_fields)" by (simp add: agent_manifest_reload_response_fields_def field_names)
  show "list_all (\<lambda>f. fld_ok f r) agent_manifest_reload_response_fields \<Longrightarrow> refill agent_manifest_reload_response_fields r agent_manifest_reload_response_zero = Some r" for r
    by (cases r) (simp add: agent_manifest_reload_response_fields_def agent_manifest_reload_response_zero_def refill_simps)
qed

lemma agent_manifest_reload_response_codec_zero [simp]: "cod_zero (agent_manifest_reload_response_codec) = agent_manifest_reload_response_zero"
  by (simp add: agent_manifest_reload_response_codec_def struct_codec_def)

definition agent_manifest_status_response_fields :: "agent_manifest_status_response field list" where
  "agent_manifest_status_response_fields =
    [optional_field ''last_check_unix'' uint_codec agent_manifest_status_response_last_check_unix (\<lambda>x r. r\<lparr>agent_manifest_status_response_last_check_unix := x\<rparr>),
     optional_field ''last_result'' string_codec agent_manifest_status_response_last_result (\<lambda>x r. r\<lparr>agent_manifest_status_response_last_result := x\<rparr>),
     plain_field ''manifests'' (slice_codec agent_manifest_info_codec) agent_manifest_status_response_manifests (\<lambda>x r. r\<lparr>agent_manifest_status_response_manifests := x\<rparr>)]"

definition agent_manifest_status_response_codec :: "agent_manifest_status_response codec" where
  "agent_manifest_status_response_codec = struct_codec agent_manifest_status_response_zero agent_manifest_status_response_fields"

lemma agent_manifest_status_response_codec_lawful [simp]: "lawful (agent_manifest_status_response_codec)"
  unfolding agent_manifest_status_response_codec_def
proof (rule lawful_struct)
  show "distinct (map fld_name agent_manifest_status_response_fields)" by (simp add: agent_manifest_status_response_fields_def field_names)
  show "list_all (\<lambda>f. fld_ok f r) agent_manifest_status_response_fields \<Longrightarrow> refill agent_manifest_status_response_fields r agent_manifest_status_response_zero = Some r" for r
    by (cases r) (simp add: agent_manifest_status_response_fields_def agent_manifest_status_response_zero_def refill_simps)
qed

lemma agent_manifest_status_response_codec_zero [simp]: "cod_zero (agent_manifest_status_response_codec) = agent_manifest_status_response_zero"
  by (simp add: agent_manifest_status_response_codec_def struct_codec_def)

definition agent_prompted_response_fields :: "agent_prompted_response field list" where
  "agent_prompted_response_fields =
    [plain_field ''agent'' agent_info_codec agent_prompted_response_agent (\<lambda>x r. r\<lparr>agent_prompted_response_agent := x\<rparr>)]"

definition agent_prompted_response_codec :: "agent_prompted_response codec" where
  "agent_prompted_response_codec = struct_codec agent_prompted_response_zero agent_prompted_response_fields"

lemma agent_prompted_response_codec_lawful [simp]: "lawful (agent_prompted_response_codec)"
  unfolding agent_prompted_response_codec_def
proof (rule lawful_struct)
  show "distinct (map fld_name agent_prompted_response_fields)" by (simp add: agent_prompted_response_fields_def field_names)
  show "list_all (\<lambda>f. fld_ok f r) agent_prompted_response_fields \<Longrightarrow> refill agent_prompted_response_fields r agent_prompted_response_zero = Some r" for r
    by (cases r) (simp add: agent_prompted_response_fields_def agent_prompted_response_zero_def refill_simps)
qed

lemma agent_prompted_response_codec_zero [simp]: "cod_zero (agent_prompted_response_codec) = agent_prompted_response_zero"
  by (simp add: agent_prompted_response_codec_def struct_codec_def)

definition agent_started_response_fields :: "agent_started_response field list" where
  "agent_started_response_fields =
    [plain_field ''agent'' agent_info_codec agent_started_response_agent (\<lambda>x r. r\<lparr>agent_started_response_agent := x\<rparr>),
     plain_field ''argv'' (slice_codec string_codec) agent_started_response_argv (\<lambda>x r. r\<lparr>agent_started_response_argv := x\<rparr>)]"

definition agent_started_response_codec :: "agent_started_response codec" where
  "agent_started_response_codec = struct_codec agent_started_response_zero agent_started_response_fields"

lemma agent_started_response_codec_lawful [simp]: "lawful (agent_started_response_codec)"
  unfolding agent_started_response_codec_def
proof (rule lawful_struct)
  show "distinct (map fld_name agent_started_response_fields)" by (simp add: agent_started_response_fields_def field_names)
  show "list_all (\<lambda>f. fld_ok f r) agent_started_response_fields \<Longrightarrow> refill agent_started_response_fields r agent_started_response_zero = Some r" for r
    by (cases r) (simp add: agent_started_response_fields_def agent_started_response_zero_def refill_simps)
qed

lemma agent_started_response_codec_zero [simp]: "cod_zero (agent_started_response_codec) = agent_started_response_zero"
  by (simp add: agent_started_response_codec_def struct_codec_def)

definition agent_view_response_fields :: "agent_view_response field list" where
  "agent_view_response_fields =
    [plain_field ''active'' bool_codec agent_view_response_active (\<lambda>x r. r\<lparr>agent_view_response_active := x\<rparr>),
     optional_field ''label'' string_codec agent_view_response_label (\<lambda>x r. r\<lparr>agent_view_response_label := x\<rparr>),
     optional_field ''source'' string_codec agent_view_response_source (\<lambda>x r. r\<lparr>agent_view_response_source := x\<rparr>)]"

definition agent_view_response_codec :: "agent_view_response codec" where
  "agent_view_response_codec = struct_codec agent_view_response_zero agent_view_response_fields"

lemma agent_view_response_codec_lawful [simp]: "lawful (agent_view_response_codec)"
  unfolding agent_view_response_codec_def
proof (rule lawful_struct)
  show "distinct (map fld_name agent_view_response_fields)" by (simp add: agent_view_response_fields_def field_names)
  show "list_all (\<lambda>f. fld_ok f r) agent_view_response_fields \<Longrightarrow> refill agent_view_response_fields r agent_view_response_zero = Some r" for r
    by (cases r) (simp add: agent_view_response_fields_def agent_view_response_zero_def refill_simps)
qed

lemma agent_view_response_codec_zero [simp]: "cod_zero (agent_view_response_codec) = agent_view_response_zero"
  by (simp add: agent_view_response_codec_def struct_codec_def)

definition client_shell_surface_set_response_fields :: "client_shell_surface_set_response field list" where
  "client_shell_surface_set_response_fields =
    [plain_field ''active'' bool_codec client_shell_surface_set_response_active (\<lambda>x r. r\<lparr>client_shell_surface_set_response_active := x\<rparr>),
     plain_field ''projection_revision'' uint_codec client_shell_surface_set_response_projection_revision (\<lambda>x r. r\<lparr>client_shell_surface_set_response_projection_revision := x\<rparr>)]"

definition client_shell_surface_set_response_codec :: "client_shell_surface_set_response codec" where
  "client_shell_surface_set_response_codec = struct_codec client_shell_surface_set_response_zero client_shell_surface_set_response_fields"

lemma client_shell_surface_set_response_codec_lawful [simp]: "lawful (client_shell_surface_set_response_codec)"
  unfolding client_shell_surface_set_response_codec_def
proof (rule lawful_struct)
  show "distinct (map fld_name client_shell_surface_set_response_fields)" by (simp add: client_shell_surface_set_response_fields_def field_names)
  show "list_all (\<lambda>f. fld_ok f r) client_shell_surface_set_response_fields \<Longrightarrow> refill client_shell_surface_set_response_fields r client_shell_surface_set_response_zero = Some r" for r
    by (cases r) (simp add: client_shell_surface_set_response_fields_def client_shell_surface_set_response_zero_def refill_simps)
qed

lemma client_shell_surface_set_response_codec_zero [simp]: "cod_zero (client_shell_surface_set_response_codec) = client_shell_surface_set_response_zero"
  by (simp add: client_shell_surface_set_response_codec_def struct_codec_def)

definition client_window_title_response_fields :: "client_window_title_response field list" where
  "client_window_title_response_fields =
    [plain_field ''changed'' bool_codec client_window_title_response_changed (\<lambda>x r. r\<lparr>client_window_title_response_changed := x\<rparr>),
     plain_field ''reason'' string_codec client_window_title_response_reason (\<lambda>x r. r\<lparr>client_window_title_response_reason := x\<rparr>)]"

definition client_window_title_response_codec :: "client_window_title_response codec" where
  "client_window_title_response_codec = struct_codec client_window_title_response_zero client_window_title_response_fields"

lemma client_window_title_response_codec_lawful [simp]: "lawful (client_window_title_response_codec)"
  unfolding client_window_title_response_codec_def
proof (rule lawful_struct)
  show "distinct (map fld_name client_window_title_response_fields)" by (simp add: client_window_title_response_fields_def field_names)
  show "list_all (\<lambda>f. fld_ok f r) client_window_title_response_fields \<Longrightarrow> refill client_window_title_response_fields r client_window_title_response_zero = Some r" for r
    by (cases r) (simp add: client_window_title_response_fields_def client_window_title_response_zero_def refill_simps)
qed

lemma client_window_title_response_codec_zero [simp]: "cod_zero (client_window_title_response_codec) = client_window_title_response_zero"
  by (simp add: client_window_title_response_codec_def struct_codec_def)

definition config_reload_response_fields :: "config_reload_response field list" where
  "config_reload_response_fields =
    [plain_field ''diagnostics'' (slice_codec string_codec) config_reload_response_diagnostics (\<lambda>x r. r\<lparr>config_reload_response_diagnostics := x\<rparr>),
     plain_field ''status'' string_codec config_reload_response_status (\<lambda>x r. r\<lparr>config_reload_response_status := x\<rparr>)]"

definition config_reload_response_codec :: "config_reload_response codec" where
  "config_reload_response_codec = struct_codec config_reload_response_zero config_reload_response_fields"

lemma config_reload_response_codec_lawful [simp]: "lawful (config_reload_response_codec)"
  unfolding config_reload_response_codec_def
proof (rule lawful_struct)
  show "distinct (map fld_name config_reload_response_fields)" by (simp add: config_reload_response_fields_def field_names)
  show "list_all (\<lambda>f. fld_ok f r) config_reload_response_fields \<Longrightarrow> refill config_reload_response_fields r config_reload_response_zero = Some r" for r
    by (cases r) (simp add: config_reload_response_fields_def config_reload_response_zero_def refill_simps)
qed

lemma config_reload_response_codec_zero [simp]: "cod_zero (config_reload_response_codec) = config_reload_response_zero"
  by (simp add: config_reload_response_codec_def struct_codec_def)

definition integration_install_response_fields :: "integration_install_response field list" where
  "integration_install_response_fields =
    [plain_field ''details'' integration_install_result_codec integration_install_response_details (\<lambda>x r. r\<lparr>integration_install_response_details := x\<rparr>),
     plain_field ''target'' string_codec integration_install_response_target (\<lambda>x r. r\<lparr>integration_install_response_target := x\<rparr>)]"

definition integration_install_response_codec :: "integration_install_response codec" where
  "integration_install_response_codec = struct_codec integration_install_response_zero integration_install_response_fields"

lemma integration_install_response_codec_lawful [simp]: "lawful (integration_install_response_codec)"
  unfolding integration_install_response_codec_def
proof (rule lawful_struct)
  show "distinct (map fld_name integration_install_response_fields)" by (simp add: integration_install_response_fields_def field_names)
  show "list_all (\<lambda>f. fld_ok f r) integration_install_response_fields \<Longrightarrow> refill integration_install_response_fields r integration_install_response_zero = Some r" for r
    by (cases r) (simp add: integration_install_response_fields_def integration_install_response_zero_def refill_simps)
qed

lemma integration_install_response_codec_zero [simp]: "cod_zero (integration_install_response_codec) = integration_install_response_zero"
  by (simp add: integration_install_response_codec_def struct_codec_def)

definition integration_list_response_fields :: "integration_list_response field list" where
  "integration_list_response_fields =
    [plain_field ''integrations'' (slice_codec integration_info_codec) integration_list_response_integrations (\<lambda>x r. r\<lparr>integration_list_response_integrations := x\<rparr>)]"

definition integration_list_response_codec :: "integration_list_response codec" where
  "integration_list_response_codec = struct_codec integration_list_response_zero integration_list_response_fields"

lemma integration_list_response_codec_lawful [simp]: "lawful (integration_list_response_codec)"
  unfolding integration_list_response_codec_def
proof (rule lawful_struct)
  show "distinct (map fld_name integration_list_response_fields)" by (simp add: integration_list_response_fields_def field_names)
  show "list_all (\<lambda>f. fld_ok f r) integration_list_response_fields \<Longrightarrow> refill integration_list_response_fields r integration_list_response_zero = Some r" for r
    by (cases r) (simp add: integration_list_response_fields_def integration_list_response_zero_def refill_simps)
qed

lemma integration_list_response_codec_zero [simp]: "cod_zero (integration_list_response_codec) = integration_list_response_zero"
  by (simp add: integration_list_response_codec_def struct_codec_def)

definition integration_uninstall_response_fields :: "integration_uninstall_response field list" where
  "integration_uninstall_response_fields =
    [plain_field ''details'' integration_uninstall_result_codec integration_uninstall_response_details (\<lambda>x r. r\<lparr>integration_uninstall_response_details := x\<rparr>),
     plain_field ''target'' string_codec integration_uninstall_response_target (\<lambda>x r. r\<lparr>integration_uninstall_response_target := x\<rparr>)]"

definition integration_uninstall_response_codec :: "integration_uninstall_response codec" where
  "integration_uninstall_response_codec = struct_codec integration_uninstall_response_zero integration_uninstall_response_fields"

lemma integration_uninstall_response_codec_lawful [simp]: "lawful (integration_uninstall_response_codec)"
  unfolding integration_uninstall_response_codec_def
proof (rule lawful_struct)
  show "distinct (map fld_name integration_uninstall_response_fields)" by (simp add: integration_uninstall_response_fields_def field_names)
  show "list_all (\<lambda>f. fld_ok f r) integration_uninstall_response_fields \<Longrightarrow> refill integration_uninstall_response_fields r integration_uninstall_response_zero = Some r" for r
    by (cases r) (simp add: integration_uninstall_response_fields_def integration_uninstall_response_zero_def refill_simps)
qed

lemma integration_uninstall_response_codec_zero [simp]: "cod_zero (integration_uninstall_response_codec) = integration_uninstall_response_zero"
  by (simp add: integration_uninstall_response_codec_def struct_codec_def)

definition layout_apply_response_fields :: "(string \<Rightarrow> float64 option) \<Rightarrow> (float64 \<Rightarrow> string) \<Rightarrow> layout_apply_response field list" where
  "layout_apply_response_fields pf ff =
    [plain_field ''layout'' (layout_description_codec pf ff) layout_apply_response_layout (\<lambda>x r. r\<lparr>layout_apply_response_layout := x\<rparr>)]"

definition layout_apply_response_codec :: "(string \<Rightarrow> float64 option) \<Rightarrow> (float64 \<Rightarrow> string) \<Rightarrow> layout_apply_response codec" where
  "layout_apply_response_codec pf ff = struct_codec layout_apply_response_zero (layout_apply_response_fields pf ff)"

lemma layout_apply_response_codec_lawful [simp]: "lawful (layout_apply_response_codec pf ff)"
  unfolding layout_apply_response_codec_def
proof (rule lawful_struct)
  show "distinct (map fld_name (layout_apply_response_fields pf ff))" by (simp add: layout_apply_response_fields_def field_names)
  show "list_all (\<lambda>f. fld_ok f r) (layout_apply_response_fields pf ff) \<Longrightarrow> refill (layout_apply_response_fields pf ff) r layout_apply_response_zero = Some r" for r
    by (cases r) (simp add: layout_apply_response_fields_def layout_apply_response_zero_def refill_simps)
qed

lemma layout_apply_response_codec_zero [simp]: "cod_zero (layout_apply_response_codec pf ff) = layout_apply_response_zero"
  by (simp add: layout_apply_response_codec_def struct_codec_def)

definition layout_export_response_fields :: "(string \<Rightarrow> float64 option) \<Rightarrow> (float64 \<Rightarrow> string) \<Rightarrow> layout_export_response field list" where
  "layout_export_response_fields pf ff =
    [plain_field ''layout'' (layout_description_codec pf ff) layout_export_response_layout (\<lambda>x r. r\<lparr>layout_export_response_layout := x\<rparr>)]"

definition layout_export_response_codec :: "(string \<Rightarrow> float64 option) \<Rightarrow> (float64 \<Rightarrow> string) \<Rightarrow> layout_export_response codec" where
  "layout_export_response_codec pf ff = struct_codec layout_export_response_zero (layout_export_response_fields pf ff)"

lemma layout_export_response_codec_lawful [simp]: "lawful (layout_export_response_codec pf ff)"
  unfolding layout_export_response_codec_def
proof (rule lawful_struct)
  show "distinct (map fld_name (layout_export_response_fields pf ff))" by (simp add: layout_export_response_fields_def field_names)
  show "list_all (\<lambda>f. fld_ok f r) (layout_export_response_fields pf ff) \<Longrightarrow> refill (layout_export_response_fields pf ff) r layout_export_response_zero = Some r" for r
    by (cases r) (simp add: layout_export_response_fields_def layout_export_response_zero_def refill_simps)
qed

lemma layout_export_response_codec_zero [simp]: "cod_zero (layout_export_response_codec pf ff) = layout_export_response_zero"
  by (simp add: layout_export_response_codec_def struct_codec_def)

definition layout_split_ratio_set_response_fields :: "(string \<Rightarrow> float64 option) \<Rightarrow> (float64 \<Rightarrow> string) \<Rightarrow> layout_split_ratio_set_response field list" where
  "layout_split_ratio_set_response_fields pf ff =
    [plain_field ''layout'' (layout_description_codec pf ff) layout_split_ratio_set_response_layout (\<lambda>x r. r\<lparr>layout_split_ratio_set_response_layout := x\<rparr>)]"

definition layout_split_ratio_set_response_codec :: "(string \<Rightarrow> float64 option) \<Rightarrow> (float64 \<Rightarrow> string) \<Rightarrow> layout_split_ratio_set_response codec" where
  "layout_split_ratio_set_response_codec pf ff = struct_codec layout_split_ratio_set_response_zero (layout_split_ratio_set_response_fields pf ff)"

lemma layout_split_ratio_set_response_codec_lawful [simp]: "lawful (layout_split_ratio_set_response_codec pf ff)"
  unfolding layout_split_ratio_set_response_codec_def
proof (rule lawful_struct)
  show "distinct (map fld_name (layout_split_ratio_set_response_fields pf ff))" by (simp add: layout_split_ratio_set_response_fields_def field_names)
  show "list_all (\<lambda>f. fld_ok f r) (layout_split_ratio_set_response_fields pf ff) \<Longrightarrow> refill (layout_split_ratio_set_response_fields pf ff) r layout_split_ratio_set_response_zero = Some r" for r
    by (cases r) (simp add: layout_split_ratio_set_response_fields_def layout_split_ratio_set_response_zero_def refill_simps)
qed

lemma layout_split_ratio_set_response_codec_zero [simp]: "cod_zero (layout_split_ratio_set_response_codec pf ff) = layout_split_ratio_set_response_zero"
  by (simp add: layout_split_ratio_set_response_codec_def struct_codec_def)

definition notification_show_response_fields :: "notification_show_response field list" where
  "notification_show_response_fields =
    [plain_field ''reason'' string_codec notification_show_response_reason (\<lambda>x r. r\<lparr>notification_show_response_reason := x\<rparr>),
     plain_field ''shown'' bool_codec notification_show_response_shown (\<lambda>x r. r\<lparr>notification_show_response_shown := x\<rparr>)]"

definition notification_show_response_codec :: "notification_show_response codec" where
  "notification_show_response_codec = struct_codec notification_show_response_zero notification_show_response_fields"

lemma notification_show_response_codec_lawful [simp]: "lawful (notification_show_response_codec)"
  unfolding notification_show_response_codec_def
proof (rule lawful_struct)
  show "distinct (map fld_name notification_show_response_fields)" by (simp add: notification_show_response_fields_def field_names)
  show "list_all (\<lambda>f. fld_ok f r) notification_show_response_fields \<Longrightarrow> refill notification_show_response_fields r notification_show_response_zero = Some r" for r
    by (cases r) (simp add: notification_show_response_fields_def notification_show_response_zero_def refill_simps)
qed

lemma notification_show_response_codec_zero [simp]: "cod_zero (notification_show_response_codec) = notification_show_response_zero"
  by (simp add: notification_show_response_codec_def struct_codec_def)

definition output_matched_response_fields :: "output_matched_response field list" where
  "output_matched_response_fields =
    [optional_field ''matched_line'' string_codec output_matched_response_matched_line (\<lambda>x r. r\<lparr>output_matched_response_matched_line := x\<rparr>),
     plain_field ''pane_id'' string_codec output_matched_response_pane_id (\<lambda>x r. r\<lparr>output_matched_response_pane_id := x\<rparr>),
     plain_field ''read'' pane_read_result_codec output_matched_response_read (\<lambda>x r. r\<lparr>output_matched_response_read := x\<rparr>),
     plain_field ''revision'' uint_codec output_matched_response_revision (\<lambda>x r. r\<lparr>output_matched_response_revision := x\<rparr>)]"

definition output_matched_response_codec :: "output_matched_response codec" where
  "output_matched_response_codec = struct_codec output_matched_response_zero output_matched_response_fields"

lemma output_matched_response_codec_lawful [simp]: "lawful (output_matched_response_codec)"
  unfolding output_matched_response_codec_def
proof (rule lawful_struct)
  show "distinct (map fld_name output_matched_response_fields)" by (simp add: output_matched_response_fields_def field_names)
  show "list_all (\<lambda>f. fld_ok f r) output_matched_response_fields \<Longrightarrow> refill output_matched_response_fields r output_matched_response_zero = Some r" for r
    by (cases r) (simp add: output_matched_response_fields_def output_matched_response_zero_def refill_simps)
qed

lemma output_matched_response_codec_zero [simp]: "cod_zero (output_matched_response_codec) = output_matched_response_zero"
  by (simp add: output_matched_response_codec_def struct_codec_def)

definition pane_copy_motion_response_fields :: "pane_copy_motion_response field list" where
  "pane_copy_motion_response_fields =
    [plain_field ''content_revision'' uint_codec pane_copy_motion_response_content_revision (\<lambda>x r. r\<lparr>pane_copy_motion_response_content_revision := x\<rparr>),
     plain_field ''cursor'' pane_text_point_codec pane_copy_motion_response_cursor (\<lambda>x r. r\<lparr>pane_copy_motion_response_cursor := x\<rparr>),
     plain_field ''pane_id'' string_codec pane_copy_motion_response_pane_id (\<lambda>x r. r\<lparr>pane_copy_motion_response_pane_id := x\<rparr>)]"

definition pane_copy_motion_response_codec :: "pane_copy_motion_response codec" where
  "pane_copy_motion_response_codec = struct_codec pane_copy_motion_response_zero pane_copy_motion_response_fields"

lemma pane_copy_motion_response_codec_lawful [simp]: "lawful (pane_copy_motion_response_codec)"
  unfolding pane_copy_motion_response_codec_def
proof (rule lawful_struct)
  show "distinct (map fld_name pane_copy_motion_response_fields)" by (simp add: pane_copy_motion_response_fields_def field_names)
  show "list_all (\<lambda>f. fld_ok f r) pane_copy_motion_response_fields \<Longrightarrow> refill pane_copy_motion_response_fields r pane_copy_motion_response_zero = Some r" for r
    by (cases r) (simp add: pane_copy_motion_response_fields_def pane_copy_motion_response_zero_def refill_simps)
qed

lemma pane_copy_motion_response_codec_zero [simp]: "cod_zero (pane_copy_motion_response_codec) = pane_copy_motion_response_zero"
  by (simp add: pane_copy_motion_response_codec_def struct_codec_def)

definition pane_copy_search_response_fields :: "pane_copy_search_response field list" where
  "pane_copy_search_response_fields =
    [plain_field ''content_revision'' uint_codec pane_copy_search_response_content_revision (\<lambda>x r. r\<lparr>pane_copy_search_response_content_revision := x\<rparr>),
     optional_field ''current'' uint_codec pane_copy_search_response_current (\<lambda>x r. r\<lparr>pane_copy_search_response_current := x\<rparr>),
     optional_field ''current_global'' uint_codec pane_copy_search_response_current_global (\<lambda>x r. r\<lparr>pane_copy_search_response_current_global := x\<rparr>),
     plain_field ''matches'' (slice_codec pane_text_range_codec) pane_copy_search_response_matches (\<lambda>x r. r\<lparr>pane_copy_search_response_matches := x\<rparr>),
     plain_field ''pane_id'' string_codec pane_copy_search_response_pane_id (\<lambda>x r. r\<lparr>pane_copy_search_response_pane_id := x\<rparr>),
     plain_field ''total'' uint_codec pane_copy_search_response_total (\<lambda>x r. r\<lparr>pane_copy_search_response_total := x\<rparr>)]"

definition pane_copy_search_response_codec :: "pane_copy_search_response codec" where
  "pane_copy_search_response_codec = struct_codec pane_copy_search_response_zero pane_copy_search_response_fields"

lemma pane_copy_search_response_codec_lawful [simp]: "lawful (pane_copy_search_response_codec)"
  unfolding pane_copy_search_response_codec_def
proof (rule lawful_struct)
  show "distinct (map fld_name pane_copy_search_response_fields)" by (simp add: pane_copy_search_response_fields_def field_names)
  show "list_all (\<lambda>f. fld_ok f r) pane_copy_search_response_fields \<Longrightarrow> refill pane_copy_search_response_fields r pane_copy_search_response_zero = Some r" for r
    by (cases r) (simp add: pane_copy_search_response_fields_def pane_copy_search_response_zero_def refill_simps)
qed

lemma pane_copy_search_response_codec_zero [simp]: "cod_zero (pane_copy_search_response_codec) = pane_copy_search_response_zero"
  by (simp add: pane_copy_search_response_codec_def struct_codec_def)

definition pane_current_response_fields :: "pane_current_response field list" where
  "pane_current_response_fields =
    [plain_field ''pane'' pane_info_codec pane_current_response_pane (\<lambda>x r. r\<lparr>pane_current_response_pane := x\<rparr>)]"

definition pane_current_response_codec :: "pane_current_response codec" where
  "pane_current_response_codec = struct_codec pane_current_response_zero pane_current_response_fields"

lemma pane_current_response_codec_lawful [simp]: "lawful (pane_current_response_codec)"
  unfolding pane_current_response_codec_def
proof (rule lawful_struct)
  show "distinct (map fld_name pane_current_response_fields)" by (simp add: pane_current_response_fields_def field_names)
  show "list_all (\<lambda>f. fld_ok f r) pane_current_response_fields \<Longrightarrow> refill pane_current_response_fields r pane_current_response_zero = Some r" for r
    by (cases r) (simp add: pane_current_response_fields_def pane_current_response_zero_def refill_simps)
qed

lemma pane_current_response_codec_zero [simp]: "cod_zero (pane_current_response_codec) = pane_current_response_zero"
  by (simp add: pane_current_response_codec_def struct_codec_def)

definition pane_edges_response_fields :: "(string \<Rightarrow> float64 option) \<Rightarrow> (float64 \<Rightarrow> string) \<Rightarrow> pane_edges_response field list" where
  "pane_edges_response_fields pf ff =
    [plain_field ''edges'' (pane_edges_result_codec pf ff) pane_edges_response_edges (\<lambda>x r. r\<lparr>pane_edges_response_edges := x\<rparr>)]"

definition pane_edges_response_codec :: "(string \<Rightarrow> float64 option) \<Rightarrow> (float64 \<Rightarrow> string) \<Rightarrow> pane_edges_response codec" where
  "pane_edges_response_codec pf ff = struct_codec pane_edges_response_zero (pane_edges_response_fields pf ff)"

lemma pane_edges_response_codec_lawful [simp]: "lawful (pane_edges_response_codec pf ff)"
  unfolding pane_edges_response_codec_def
proof (rule lawful_struct)
  show "distinct (map fld_name (pane_edges_response_fields pf ff))" by (simp add: pane_edges_response_fields_def field_names)
  show "list_all (\<lambda>f. fld_ok f r) (pane_edges_response_fields pf ff) \<Longrightarrow> refill (pane_edges_response_fields pf ff) r pane_edges_response_zero = Some r" for r
    by (cases r) (simp add: pane_edges_response_fields_def pane_edges_response_zero_def refill_simps)
qed

lemma pane_edges_response_codec_zero [simp]: "cod_zero (pane_edges_response_codec pf ff) = pane_edges_response_zero"
  by (simp add: pane_edges_response_codec_def struct_codec_def)

definition pane_focus_direction_response_fields :: "(string \<Rightarrow> float64 option) \<Rightarrow> (float64 \<Rightarrow> string) \<Rightarrow> pane_focus_direction_response field list" where
  "pane_focus_direction_response_fields pf ff =
    [plain_field ''focus'' (pane_focus_direction_result_codec pf ff) pane_focus_direction_response_focus (\<lambda>x r. r\<lparr>pane_focus_direction_response_focus := x\<rparr>)]"

definition pane_focus_direction_response_codec :: "(string \<Rightarrow> float64 option) \<Rightarrow> (float64 \<Rightarrow> string) \<Rightarrow> pane_focus_direction_response codec" where
  "pane_focus_direction_response_codec pf ff = struct_codec pane_focus_direction_response_zero (pane_focus_direction_response_fields pf ff)"

lemma pane_focus_direction_response_codec_lawful [simp]: "lawful (pane_focus_direction_response_codec pf ff)"
  unfolding pane_focus_direction_response_codec_def
proof (rule lawful_struct)
  show "distinct (map fld_name (pane_focus_direction_response_fields pf ff))" by (simp add: pane_focus_direction_response_fields_def field_names)
  show "list_all (\<lambda>f. fld_ok f r) (pane_focus_direction_response_fields pf ff) \<Longrightarrow> refill (pane_focus_direction_response_fields pf ff) r pane_focus_direction_response_zero = Some r" for r
    by (cases r) (simp add: pane_focus_direction_response_fields_def pane_focus_direction_response_zero_def refill_simps)
qed

lemma pane_focus_direction_response_codec_zero [simp]: "cod_zero (pane_focus_direction_response_codec pf ff) = pane_focus_direction_response_zero"
  by (simp add: pane_focus_direction_response_codec_def struct_codec_def)

definition pane_info_response_fields :: "pane_info_response field list" where
  "pane_info_response_fields =
    [plain_field ''pane'' pane_info_codec pane_info_response_pane (\<lambda>x r. r\<lparr>pane_info_response_pane := x\<rparr>)]"

definition pane_info_response_codec :: "pane_info_response codec" where
  "pane_info_response_codec = struct_codec pane_info_response_zero pane_info_response_fields"

lemma pane_info_response_codec_lawful [simp]: "lawful (pane_info_response_codec)"
  unfolding pane_info_response_codec_def
proof (rule lawful_struct)
  show "distinct (map fld_name pane_info_response_fields)" by (simp add: pane_info_response_fields_def field_names)
  show "list_all (\<lambda>f. fld_ok f r) pane_info_response_fields \<Longrightarrow> refill pane_info_response_fields r pane_info_response_zero = Some r" for r
    by (cases r) (simp add: pane_info_response_fields_def pane_info_response_zero_def refill_simps)
qed

lemma pane_info_response_codec_zero [simp]: "cod_zero (pane_info_response_codec) = pane_info_response_zero"
  by (simp add: pane_info_response_codec_def struct_codec_def)

definition pane_layout_response_fields :: "(string \<Rightarrow> float64 option) \<Rightarrow> (float64 \<Rightarrow> string) \<Rightarrow> pane_layout_response field list" where
  "pane_layout_response_fields pf ff =
    [plain_field ''layout'' (pane_layout_snapshot_codec pf ff) pane_layout_response_layout (\<lambda>x r. r\<lparr>pane_layout_response_layout := x\<rparr>)]"

definition pane_layout_response_codec :: "(string \<Rightarrow> float64 option) \<Rightarrow> (float64 \<Rightarrow> string) \<Rightarrow> pane_layout_response codec" where
  "pane_layout_response_codec pf ff = struct_codec pane_layout_response_zero (pane_layout_response_fields pf ff)"

lemma pane_layout_response_codec_lawful [simp]: "lawful (pane_layout_response_codec pf ff)"
  unfolding pane_layout_response_codec_def
proof (rule lawful_struct)
  show "distinct (map fld_name (pane_layout_response_fields pf ff))" by (simp add: pane_layout_response_fields_def field_names)
  show "list_all (\<lambda>f. fld_ok f r) (pane_layout_response_fields pf ff) \<Longrightarrow> refill (pane_layout_response_fields pf ff) r pane_layout_response_zero = Some r" for r
    by (cases r) (simp add: pane_layout_response_fields_def pane_layout_response_zero_def refill_simps)
qed

lemma pane_layout_response_codec_zero [simp]: "cod_zero (pane_layout_response_codec pf ff) = pane_layout_response_zero"
  by (simp add: pane_layout_response_codec_def struct_codec_def)

definition pane_link_activated_response_fields :: "pane_link_activated_response field list" where
  "pane_link_activated_response_fields =
    [plain_field ''handled'' bool_codec pane_link_activated_response_handled (\<lambda>x r. r\<lparr>pane_link_activated_response_handled := x\<rparr>),
     optional_field ''url'' string_codec pane_link_activated_response_url (\<lambda>x r. r\<lparr>pane_link_activated_response_url := x\<rparr>)]"

definition pane_link_activated_response_codec :: "pane_link_activated_response codec" where
  "pane_link_activated_response_codec = struct_codec pane_link_activated_response_zero pane_link_activated_response_fields"

lemma pane_link_activated_response_codec_lawful [simp]: "lawful (pane_link_activated_response_codec)"
  unfolding pane_link_activated_response_codec_def
proof (rule lawful_struct)
  show "distinct (map fld_name pane_link_activated_response_fields)" by (simp add: pane_link_activated_response_fields_def field_names)
  show "list_all (\<lambda>f. fld_ok f r) pane_link_activated_response_fields \<Longrightarrow> refill pane_link_activated_response_fields r pane_link_activated_response_zero = Some r" for r
    by (cases r) (simp add: pane_link_activated_response_fields_def pane_link_activated_response_zero_def refill_simps)
qed

lemma pane_link_activated_response_codec_zero [simp]: "cod_zero (pane_link_activated_response_codec) = pane_link_activated_response_zero"
  by (simp add: pane_link_activated_response_codec_def struct_codec_def)

definition pane_link_resolved_response_fields :: "pane_link_resolved_response field list" where
  "pane_link_resolved_response_fields =
    [plain_field ''regions'' (slice_codec pane_link_region_codec) pane_link_resolved_response_regions (\<lambda>x r. r\<lparr>pane_link_resolved_response_regions := x\<rparr>)]"

definition pane_link_resolved_response_codec :: "pane_link_resolved_response codec" where
  "pane_link_resolved_response_codec = struct_codec pane_link_resolved_response_zero pane_link_resolved_response_fields"

lemma pane_link_resolved_response_codec_lawful [simp]: "lawful (pane_link_resolved_response_codec)"
  unfolding pane_link_resolved_response_codec_def
proof (rule lawful_struct)
  show "distinct (map fld_name pane_link_resolved_response_fields)" by (simp add: pane_link_resolved_response_fields_def field_names)
  show "list_all (\<lambda>f. fld_ok f r) pane_link_resolved_response_fields \<Longrightarrow> refill pane_link_resolved_response_fields r pane_link_resolved_response_zero = Some r" for r
    by (cases r) (simp add: pane_link_resolved_response_fields_def pane_link_resolved_response_zero_def refill_simps)
qed

lemma pane_link_resolved_response_codec_zero [simp]: "cod_zero (pane_link_resolved_response_codec) = pane_link_resolved_response_zero"
  by (simp add: pane_link_resolved_response_codec_def struct_codec_def)

definition pane_list_response_fields :: "pane_list_response field list" where
  "pane_list_response_fields =
    [plain_field ''panes'' (slice_codec pane_info_codec) pane_list_response_panes (\<lambda>x r. r\<lparr>pane_list_response_panes := x\<rparr>)]"

definition pane_list_response_codec :: "pane_list_response codec" where
  "pane_list_response_codec = struct_codec pane_list_response_zero pane_list_response_fields"

lemma pane_list_response_codec_lawful [simp]: "lawful (pane_list_response_codec)"
  unfolding pane_list_response_codec_def
proof (rule lawful_struct)
  show "distinct (map fld_name pane_list_response_fields)" by (simp add: pane_list_response_fields_def field_names)
  show "list_all (\<lambda>f. fld_ok f r) pane_list_response_fields \<Longrightarrow> refill pane_list_response_fields r pane_list_response_zero = Some r" for r
    by (cases r) (simp add: pane_list_response_fields_def pane_list_response_zero_def refill_simps)
qed

lemma pane_list_response_codec_zero [simp]: "cod_zero (pane_list_response_codec) = pane_list_response_zero"
  by (simp add: pane_list_response_codec_def struct_codec_def)

definition pane_move_response_fields :: "(string \<Rightarrow> float64 option) \<Rightarrow> (float64 \<Rightarrow> string) \<Rightarrow> pane_move_response field list" where
  "pane_move_response_fields pf ff =
    [plain_field ''move_result'' (pane_move_result_codec pf ff) pane_move_response_move_result (\<lambda>x r. r\<lparr>pane_move_response_move_result := x\<rparr>)]"

definition pane_move_response_codec :: "(string \<Rightarrow> float64 option) \<Rightarrow> (float64 \<Rightarrow> string) \<Rightarrow> pane_move_response codec" where
  "pane_move_response_codec pf ff = struct_codec pane_move_response_zero (pane_move_response_fields pf ff)"

lemma pane_move_response_codec_lawful [simp]: "lawful (pane_move_response_codec pf ff)"
  unfolding pane_move_response_codec_def
proof (rule lawful_struct)
  show "distinct (map fld_name (pane_move_response_fields pf ff))" by (simp add: pane_move_response_fields_def field_names)
  show "list_all (\<lambda>f. fld_ok f r) (pane_move_response_fields pf ff) \<Longrightarrow> refill (pane_move_response_fields pf ff) r pane_move_response_zero = Some r" for r
    by (cases r) (simp add: pane_move_response_fields_def pane_move_response_zero_def refill_simps)
qed

lemma pane_move_response_codec_zero [simp]: "cod_zero (pane_move_response_codec pf ff) = pane_move_response_zero"
  by (simp add: pane_move_response_codec_def struct_codec_def)

definition pane_neighbor_response_fields :: "(string \<Rightarrow> float64 option) \<Rightarrow> (float64 \<Rightarrow> string) \<Rightarrow> pane_neighbor_response field list" where
  "pane_neighbor_response_fields pf ff =
    [plain_field ''neighbor'' (pane_neighbor_result_codec pf ff) pane_neighbor_response_neighbor (\<lambda>x r. r\<lparr>pane_neighbor_response_neighbor := x\<rparr>)]"

definition pane_neighbor_response_codec :: "(string \<Rightarrow> float64 option) \<Rightarrow> (float64 \<Rightarrow> string) \<Rightarrow> pane_neighbor_response codec" where
  "pane_neighbor_response_codec pf ff = struct_codec pane_neighbor_response_zero (pane_neighbor_response_fields pf ff)"

lemma pane_neighbor_response_codec_lawful [simp]: "lawful (pane_neighbor_response_codec pf ff)"
  unfolding pane_neighbor_response_codec_def
proof (rule lawful_struct)
  show "distinct (map fld_name (pane_neighbor_response_fields pf ff))" by (simp add: pane_neighbor_response_fields_def field_names)
  show "list_all (\<lambda>f. fld_ok f r) (pane_neighbor_response_fields pf ff) \<Longrightarrow> refill (pane_neighbor_response_fields pf ff) r pane_neighbor_response_zero = Some r" for r
    by (cases r) (simp add: pane_neighbor_response_fields_def pane_neighbor_response_zero_def refill_simps)
qed

lemma pane_neighbor_response_codec_zero [simp]: "cod_zero (pane_neighbor_response_codec pf ff) = pane_neighbor_response_zero"
  by (simp add: pane_neighbor_response_codec_def struct_codec_def)

definition pane_process_info_response_fields :: "pane_process_info_response field list" where
  "pane_process_info_response_fields =
    [plain_field ''process_info'' pane_process_info_codec pane_process_info_response_process_info (\<lambda>x r. r\<lparr>pane_process_info_response_process_info := x\<rparr>)]"

definition pane_process_info_response_codec :: "pane_process_info_response codec" where
  "pane_process_info_response_codec = struct_codec pane_process_info_response_zero pane_process_info_response_fields"

lemma pane_process_info_response_codec_lawful [simp]: "lawful (pane_process_info_response_codec)"
  unfolding pane_process_info_response_codec_def
proof (rule lawful_struct)
  show "distinct (map fld_name pane_process_info_response_fields)" by (simp add: pane_process_info_response_fields_def field_names)
  show "list_all (\<lambda>f. fld_ok f r) pane_process_info_response_fields \<Longrightarrow> refill pane_process_info_response_fields r pane_process_info_response_zero = Some r" for r
    by (cases r) (simp add: pane_process_info_response_fields_def pane_process_info_response_zero_def refill_simps)
qed

lemma pane_process_info_response_codec_zero [simp]: "cod_zero (pane_process_info_response_codec) = pane_process_info_response_zero"
  by (simp add: pane_process_info_response_codec_def struct_codec_def)

definition pane_read_response_fields :: "pane_read_response field list" where
  "pane_read_response_fields =
    [plain_field ''read'' pane_read_result_codec pane_read_response_read (\<lambda>x r. r\<lparr>pane_read_response_read := x\<rparr>)]"

definition pane_read_response_codec :: "pane_read_response codec" where
  "pane_read_response_codec = struct_codec pane_read_response_zero pane_read_response_fields"

lemma pane_read_response_codec_lawful [simp]: "lawful (pane_read_response_codec)"
  unfolding pane_read_response_codec_def
proof (rule lawful_struct)
  show "distinct (map fld_name pane_read_response_fields)" by (simp add: pane_read_response_fields_def field_names)
  show "list_all (\<lambda>f. fld_ok f r) pane_read_response_fields \<Longrightarrow> refill pane_read_response_fields r pane_read_response_zero = Some r" for r
    by (cases r) (simp add: pane_read_response_fields_def pane_read_response_zero_def refill_simps)
qed

lemma pane_read_response_codec_zero [simp]: "cod_zero (pane_read_response_codec) = pane_read_response_zero"
  by (simp add: pane_read_response_codec_def struct_codec_def)

definition pane_resize_response_fields :: "(string \<Rightarrow> float64 option) \<Rightarrow> (float64 \<Rightarrow> string) \<Rightarrow> pane_resize_response field list" where
  "pane_resize_response_fields pf ff =
    [plain_field ''resize'' (pane_resize_result_codec pf ff) pane_resize_response_resize (\<lambda>x r. r\<lparr>pane_resize_response_resize := x\<rparr>)]"

definition pane_resize_response_codec :: "(string \<Rightarrow> float64 option) \<Rightarrow> (float64 \<Rightarrow> string) \<Rightarrow> pane_resize_response codec" where
  "pane_resize_response_codec pf ff = struct_codec pane_resize_response_zero (pane_resize_response_fields pf ff)"

lemma pane_resize_response_codec_lawful [simp]: "lawful (pane_resize_response_codec pf ff)"
  unfolding pane_resize_response_codec_def
proof (rule lawful_struct)
  show "distinct (map fld_name (pane_resize_response_fields pf ff))" by (simp add: pane_resize_response_fields_def field_names)
  show "list_all (\<lambda>f. fld_ok f r) (pane_resize_response_fields pf ff) \<Longrightarrow> refill (pane_resize_response_fields pf ff) r pane_resize_response_zero = Some r" for r
    by (cases r) (simp add: pane_resize_response_fields_def pane_resize_response_zero_def refill_simps)
qed

lemma pane_resize_response_codec_zero [simp]: "cod_zero (pane_resize_response_codec pf ff) = pane_resize_response_zero"
  by (simp add: pane_resize_response_codec_def struct_codec_def)

definition pane_selection_response_fields :: "pane_selection_response field list" where
  "pane_selection_response_fields =
    [plain_field ''pane_id'' string_codec pane_selection_response_pane_id (\<lambda>x r. r\<lparr>pane_selection_response_pane_id := x\<rparr>),
     plain_field ''text'' string_codec pane_selection_response_text (\<lambda>x r. r\<lparr>pane_selection_response_text := x\<rparr>)]"

definition pane_selection_response_codec :: "pane_selection_response codec" where
  "pane_selection_response_codec = struct_codec pane_selection_response_zero pane_selection_response_fields"

lemma pane_selection_response_codec_lawful [simp]: "lawful (pane_selection_response_codec)"
  unfolding pane_selection_response_codec_def
proof (rule lawful_struct)
  show "distinct (map fld_name pane_selection_response_fields)" by (simp add: pane_selection_response_fields_def field_names)
  show "list_all (\<lambda>f. fld_ok f r) pane_selection_response_fields \<Longrightarrow> refill pane_selection_response_fields r pane_selection_response_zero = Some r" for r
    by (cases r) (simp add: pane_selection_response_fields_def pane_selection_response_zero_def refill_simps)
qed

lemma pane_selection_response_codec_zero [simp]: "cod_zero (pane_selection_response_codec) = pane_selection_response_zero"
  by (simp add: pane_selection_response_codec_def struct_codec_def)

definition pane_swap_response_fields :: "(string \<Rightarrow> float64 option) \<Rightarrow> (float64 \<Rightarrow> string) \<Rightarrow> pane_swap_response field list" where
  "pane_swap_response_fields pf ff =
    [plain_field ''swap'' (pane_swap_result_codec pf ff) pane_swap_response_swap (\<lambda>x r. r\<lparr>pane_swap_response_swap := x\<rparr>)]"

definition pane_swap_response_codec :: "(string \<Rightarrow> float64 option) \<Rightarrow> (float64 \<Rightarrow> string) \<Rightarrow> pane_swap_response codec" where
  "pane_swap_response_codec pf ff = struct_codec pane_swap_response_zero (pane_swap_response_fields pf ff)"

lemma pane_swap_response_codec_lawful [simp]: "lawful (pane_swap_response_codec pf ff)"
  unfolding pane_swap_response_codec_def
proof (rule lawful_struct)
  show "distinct (map fld_name (pane_swap_response_fields pf ff))" by (simp add: pane_swap_response_fields_def field_names)
  show "list_all (\<lambda>f. fld_ok f r) (pane_swap_response_fields pf ff) \<Longrightarrow> refill (pane_swap_response_fields pf ff) r pane_swap_response_zero = Some r" for r
    by (cases r) (simp add: pane_swap_response_fields_def pane_swap_response_zero_def refill_simps)
qed

lemma pane_swap_response_codec_zero [simp]: "cod_zero (pane_swap_response_codec pf ff) = pane_swap_response_zero"
  by (simp add: pane_swap_response_codec_def struct_codec_def)

definition pane_zoom_response_fields :: "(string \<Rightarrow> float64 option) \<Rightarrow> (float64 \<Rightarrow> string) \<Rightarrow> pane_zoom_response field list" where
  "pane_zoom_response_fields pf ff =
    [plain_field ''zoom'' (pane_zoom_result_codec pf ff) pane_zoom_response_zoom (\<lambda>x r. r\<lparr>pane_zoom_response_zoom := x\<rparr>)]"

definition pane_zoom_response_codec :: "(string \<Rightarrow> float64 option) \<Rightarrow> (float64 \<Rightarrow> string) \<Rightarrow> pane_zoom_response codec" where
  "pane_zoom_response_codec pf ff = struct_codec pane_zoom_response_zero (pane_zoom_response_fields pf ff)"

lemma pane_zoom_response_codec_lawful [simp]: "lawful (pane_zoom_response_codec pf ff)"
  unfolding pane_zoom_response_codec_def
proof (rule lawful_struct)
  show "distinct (map fld_name (pane_zoom_response_fields pf ff))" by (simp add: pane_zoom_response_fields_def field_names)
  show "list_all (\<lambda>f. fld_ok f r) (pane_zoom_response_fields pf ff) \<Longrightarrow> refill (pane_zoom_response_fields pf ff) r pane_zoom_response_zero = Some r" for r
    by (cases r) (simp add: pane_zoom_response_fields_def pane_zoom_response_zero_def refill_simps)
qed

lemma pane_zoom_response_codec_zero [simp]: "cod_zero (pane_zoom_response_codec pf ff) = pane_zoom_response_zero"
  by (simp add: pane_zoom_response_codec_def struct_codec_def)

definition plugin_action_invoked_response_fields :: "plugin_action_invoked_response field list" where
  "plugin_action_invoked_response_fields =
    [plain_field ''action'' plugin_action_info_codec plugin_action_invoked_response_action (\<lambda>x r. r\<lparr>plugin_action_invoked_response_action := x\<rparr>),
     plain_field ''context'' plugin_invocation_context_codec plugin_action_invoked_response_context (\<lambda>x r. r\<lparr>plugin_action_invoked_response_context := x\<rparr>),
     plain_field ''log'' plugin_command_log_info_codec plugin_action_invoked_response_log (\<lambda>x r. r\<lparr>plugin_action_invoked_response_log := x\<rparr>)]"

definition plugin_action_invoked_response_codec :: "plugin_action_invoked_response codec" where
  "plugin_action_invoked_response_codec = struct_codec plugin_action_invoked_response_zero plugin_action_invoked_response_fields"

lemma plugin_action_invoked_response_codec_lawful [simp]: "lawful (plugin_action_invoked_response_codec)"
  unfolding plugin_action_invoked_response_codec_def
proof (rule lawful_struct)
  show "distinct (map fld_name plugin_action_invoked_response_fields)" by (simp add: plugin_action_invoked_response_fields_def field_names)
  show "list_all (\<lambda>f. fld_ok f r) plugin_action_invoked_response_fields \<Longrightarrow> refill plugin_action_invoked_response_fields r plugin_action_invoked_response_zero = Some r" for r
    by (cases r) (simp add: plugin_action_invoked_response_fields_def plugin_action_invoked_response_zero_def refill_simps)
qed

lemma plugin_action_invoked_response_codec_zero [simp]: "cod_zero (plugin_action_invoked_response_codec) = plugin_action_invoked_response_zero"
  by (simp add: plugin_action_invoked_response_codec_def struct_codec_def)

definition plugin_action_list_response_fields :: "plugin_action_list_response field list" where
  "plugin_action_list_response_fields =
    [plain_field ''actions'' (slice_codec plugin_action_info_codec) plugin_action_list_response_actions (\<lambda>x r. r\<lparr>plugin_action_list_response_actions := x\<rparr>)]"

definition plugin_action_list_response_codec :: "plugin_action_list_response codec" where
  "plugin_action_list_response_codec = struct_codec plugin_action_list_response_zero plugin_action_list_response_fields"

lemma plugin_action_list_response_codec_lawful [simp]: "lawful (plugin_action_list_response_codec)"
  unfolding plugin_action_list_response_codec_def
proof (rule lawful_struct)
  show "distinct (map fld_name plugin_action_list_response_fields)" by (simp add: plugin_action_list_response_fields_def field_names)
  show "list_all (\<lambda>f. fld_ok f r) plugin_action_list_response_fields \<Longrightarrow> refill plugin_action_list_response_fields r plugin_action_list_response_zero = Some r" for r
    by (cases r) (simp add: plugin_action_list_response_fields_def plugin_action_list_response_zero_def refill_simps)
qed

lemma plugin_action_list_response_codec_zero [simp]: "cod_zero (plugin_action_list_response_codec) = plugin_action_list_response_zero"
  by (simp add: plugin_action_list_response_codec_def struct_codec_def)

definition plugin_disabled_response_fields :: "(string \<Rightarrow> string) \<Rightarrow> plugin_disabled_response field list" where
  "plugin_disabled_response_fields quote =
    [plain_field ''plugin'' (installed_plugin_info_codec quote) plugin_disabled_response_plugin (\<lambda>x r. r\<lparr>plugin_disabled_response_plugin := x\<rparr>)]"

definition plugin_disabled_response_codec :: "(string \<Rightarrow> string) \<Rightarrow> plugin_disabled_response codec" where
  "plugin_disabled_response_codec quote = struct_codec plugin_disabled_response_zero (plugin_disabled_response_fields quote)"

lemma plugin_disabled_response_codec_lawful [simp]: "lawful (plugin_disabled_response_codec quote)"
  unfolding plugin_disabled_response_codec_def
proof (rule lawful_struct)
  show "distinct (map fld_name (plugin_disabled_response_fields quote))" by (simp add: plugin_disabled_response_fields_def field_names)
  show "list_all (\<lambda>f. fld_ok f r) (plugin_disabled_response_fields quote) \<Longrightarrow> refill (plugin_disabled_response_fields quote) r plugin_disabled_response_zero = Some r" for r
    by (cases r) (simp add: plugin_disabled_response_fields_def plugin_disabled_response_zero_def refill_simps)
qed

lemma plugin_disabled_response_codec_zero [simp]: "cod_zero (plugin_disabled_response_codec quote) = plugin_disabled_response_zero"
  by (simp add: plugin_disabled_response_codec_def struct_codec_def)

definition plugin_enabled_response_fields :: "(string \<Rightarrow> string) \<Rightarrow> plugin_enabled_response field list" where
  "plugin_enabled_response_fields quote =
    [plain_field ''plugin'' (installed_plugin_info_codec quote) plugin_enabled_response_plugin (\<lambda>x r. r\<lparr>plugin_enabled_response_plugin := x\<rparr>)]"

definition plugin_enabled_response_codec :: "(string \<Rightarrow> string) \<Rightarrow> plugin_enabled_response codec" where
  "plugin_enabled_response_codec quote = struct_codec plugin_enabled_response_zero (plugin_enabled_response_fields quote)"

lemma plugin_enabled_response_codec_lawful [simp]: "lawful (plugin_enabled_response_codec quote)"
  unfolding plugin_enabled_response_codec_def
proof (rule lawful_struct)
  show "distinct (map fld_name (plugin_enabled_response_fields quote))" by (simp add: plugin_enabled_response_fields_def field_names)
  show "list_all (\<lambda>f. fld_ok f r) (plugin_enabled_response_fields quote) \<Longrightarrow> refill (plugin_enabled_response_fields quote) r plugin_enabled_response_zero = Some r" for r
    by (cases r) (simp add: plugin_enabled_response_fields_def plugin_enabled_response_zero_def refill_simps)
qed

lemma plugin_enabled_response_codec_zero [simp]: "cod_zero (plugin_enabled_response_codec quote) = plugin_enabled_response_zero"
  by (simp add: plugin_enabled_response_codec_def struct_codec_def)

definition plugin_linked_response_fields :: "(string \<Rightarrow> string) \<Rightarrow> plugin_linked_response field list" where
  "plugin_linked_response_fields quote =
    [plain_field ''plugin'' (installed_plugin_info_codec quote) plugin_linked_response_plugin (\<lambda>x r. r\<lparr>plugin_linked_response_plugin := x\<rparr>)]"

definition plugin_linked_response_codec :: "(string \<Rightarrow> string) \<Rightarrow> plugin_linked_response codec" where
  "plugin_linked_response_codec quote = struct_codec plugin_linked_response_zero (plugin_linked_response_fields quote)"

lemma plugin_linked_response_codec_lawful [simp]: "lawful (plugin_linked_response_codec quote)"
  unfolding plugin_linked_response_codec_def
proof (rule lawful_struct)
  show "distinct (map fld_name (plugin_linked_response_fields quote))" by (simp add: plugin_linked_response_fields_def field_names)
  show "list_all (\<lambda>f. fld_ok f r) (plugin_linked_response_fields quote) \<Longrightarrow> refill (plugin_linked_response_fields quote) r plugin_linked_response_zero = Some r" for r
    by (cases r) (simp add: plugin_linked_response_fields_def plugin_linked_response_zero_def refill_simps)
qed

lemma plugin_linked_response_codec_zero [simp]: "cod_zero (plugin_linked_response_codec quote) = plugin_linked_response_zero"
  by (simp add: plugin_linked_response_codec_def struct_codec_def)

definition plugin_list_response_fields :: "(string \<Rightarrow> string) \<Rightarrow> plugin_list_response field list" where
  "plugin_list_response_fields quote =
    [plain_field ''plugins'' (slice_codec (installed_plugin_info_codec quote)) plugin_list_response_plugins (\<lambda>x r. r\<lparr>plugin_list_response_plugins := x\<rparr>)]"

definition plugin_list_response_codec :: "(string \<Rightarrow> string) \<Rightarrow> plugin_list_response codec" where
  "plugin_list_response_codec quote = struct_codec plugin_list_response_zero (plugin_list_response_fields quote)"

lemma plugin_list_response_codec_lawful [simp]: "lawful (plugin_list_response_codec quote)"
  unfolding plugin_list_response_codec_def
proof (rule lawful_struct)
  show "distinct (map fld_name (plugin_list_response_fields quote))" by (simp add: plugin_list_response_fields_def field_names)
  show "list_all (\<lambda>f. fld_ok f r) (plugin_list_response_fields quote) \<Longrightarrow> refill (plugin_list_response_fields quote) r plugin_list_response_zero = Some r" for r
    by (cases r) (simp add: plugin_list_response_fields_def plugin_list_response_zero_def refill_simps)
qed

lemma plugin_list_response_codec_zero [simp]: "cod_zero (plugin_list_response_codec quote) = plugin_list_response_zero"
  by (simp add: plugin_list_response_codec_def struct_codec_def)

definition plugin_log_list_response_fields :: "plugin_log_list_response field list" where
  "plugin_log_list_response_fields =
    [plain_field ''logs'' (slice_codec plugin_command_log_info_codec) plugin_log_list_response_logs (\<lambda>x r. r\<lparr>plugin_log_list_response_logs := x\<rparr>)]"

definition plugin_log_list_response_codec :: "plugin_log_list_response codec" where
  "plugin_log_list_response_codec = struct_codec plugin_log_list_response_zero plugin_log_list_response_fields"

lemma plugin_log_list_response_codec_lawful [simp]: "lawful (plugin_log_list_response_codec)"
  unfolding plugin_log_list_response_codec_def
proof (rule lawful_struct)
  show "distinct (map fld_name plugin_log_list_response_fields)" by (simp add: plugin_log_list_response_fields_def field_names)
  show "list_all (\<lambda>f. fld_ok f r) plugin_log_list_response_fields \<Longrightarrow> refill plugin_log_list_response_fields r plugin_log_list_response_zero = Some r" for r
    by (cases r) (simp add: plugin_log_list_response_fields_def plugin_log_list_response_zero_def refill_simps)
qed

lemma plugin_log_list_response_codec_zero [simp]: "cod_zero (plugin_log_list_response_codec) = plugin_log_list_response_zero"
  by (simp add: plugin_log_list_response_codec_def struct_codec_def)

definition plugin_pane_closed_response_fields :: "plugin_pane_closed_response field list" where
  "plugin_pane_closed_response_fields =
    [plain_field ''pane_id'' string_codec plugin_pane_closed_response_pane_id (\<lambda>x r. r\<lparr>plugin_pane_closed_response_pane_id := x\<rparr>)]"

definition plugin_pane_closed_response_codec :: "plugin_pane_closed_response codec" where
  "plugin_pane_closed_response_codec = struct_codec plugin_pane_closed_response_zero plugin_pane_closed_response_fields"

lemma plugin_pane_closed_response_codec_lawful [simp]: "lawful (plugin_pane_closed_response_codec)"
  unfolding plugin_pane_closed_response_codec_def
proof (rule lawful_struct)
  show "distinct (map fld_name plugin_pane_closed_response_fields)" by (simp add: plugin_pane_closed_response_fields_def field_names)
  show "list_all (\<lambda>f. fld_ok f r) plugin_pane_closed_response_fields \<Longrightarrow> refill plugin_pane_closed_response_fields r plugin_pane_closed_response_zero = Some r" for r
    by (cases r) (simp add: plugin_pane_closed_response_fields_def plugin_pane_closed_response_zero_def refill_simps)
qed

lemma plugin_pane_closed_response_codec_zero [simp]: "cod_zero (plugin_pane_closed_response_codec) = plugin_pane_closed_response_zero"
  by (simp add: plugin_pane_closed_response_codec_def struct_codec_def)

definition plugin_pane_focused_response_fields :: "plugin_pane_focused_response field list" where
  "plugin_pane_focused_response_fields =
    [plain_field ''plugin_pane'' plugin_pane_info_codec plugin_pane_focused_response_plugin_pane (\<lambda>x r. r\<lparr>plugin_pane_focused_response_plugin_pane := x\<rparr>)]"

definition plugin_pane_focused_response_codec :: "plugin_pane_focused_response codec" where
  "plugin_pane_focused_response_codec = struct_codec plugin_pane_focused_response_zero plugin_pane_focused_response_fields"

lemma plugin_pane_focused_response_codec_lawful [simp]: "lawful (plugin_pane_focused_response_codec)"
  unfolding plugin_pane_focused_response_codec_def
proof (rule lawful_struct)
  show "distinct (map fld_name plugin_pane_focused_response_fields)" by (simp add: plugin_pane_focused_response_fields_def field_names)
  show "list_all (\<lambda>f. fld_ok f r) plugin_pane_focused_response_fields \<Longrightarrow> refill plugin_pane_focused_response_fields r plugin_pane_focused_response_zero = Some r" for r
    by (cases r) (simp add: plugin_pane_focused_response_fields_def plugin_pane_focused_response_zero_def refill_simps)
qed

lemma plugin_pane_focused_response_codec_zero [simp]: "cod_zero (plugin_pane_focused_response_codec) = plugin_pane_focused_response_zero"
  by (simp add: plugin_pane_focused_response_codec_def struct_codec_def)

definition plugin_pane_opened_response_fields :: "plugin_pane_opened_response field list" where
  "plugin_pane_opened_response_fields =
    [plain_field ''plugin_pane'' plugin_pane_info_codec plugin_pane_opened_response_plugin_pane (\<lambda>x r. r\<lparr>plugin_pane_opened_response_plugin_pane := x\<rparr>)]"

definition plugin_pane_opened_response_codec :: "plugin_pane_opened_response codec" where
  "plugin_pane_opened_response_codec = struct_codec plugin_pane_opened_response_zero plugin_pane_opened_response_fields"

lemma plugin_pane_opened_response_codec_lawful [simp]: "lawful (plugin_pane_opened_response_codec)"
  unfolding plugin_pane_opened_response_codec_def
proof (rule lawful_struct)
  show "distinct (map fld_name plugin_pane_opened_response_fields)" by (simp add: plugin_pane_opened_response_fields_def field_names)
  show "list_all (\<lambda>f. fld_ok f r) plugin_pane_opened_response_fields \<Longrightarrow> refill plugin_pane_opened_response_fields r plugin_pane_opened_response_zero = Some r" for r
    by (cases r) (simp add: plugin_pane_opened_response_fields_def plugin_pane_opened_response_zero_def refill_simps)
qed

lemma plugin_pane_opened_response_codec_zero [simp]: "cod_zero (plugin_pane_opened_response_codec) = plugin_pane_opened_response_zero"
  by (simp add: plugin_pane_opened_response_codec_def struct_codec_def)

definition plugin_unlinked_response_fields :: "plugin_unlinked_response field list" where
  "plugin_unlinked_response_fields =
    [plain_field ''plugin_id'' string_codec plugin_unlinked_response_plugin_id (\<lambda>x r. r\<lparr>plugin_unlinked_response_plugin_id := x\<rparr>),
     plain_field ''removed'' bool_codec plugin_unlinked_response_removed (\<lambda>x r. r\<lparr>plugin_unlinked_response_removed := x\<rparr>)]"

definition plugin_unlinked_response_codec :: "plugin_unlinked_response codec" where
  "plugin_unlinked_response_codec = struct_codec plugin_unlinked_response_zero plugin_unlinked_response_fields"

lemma plugin_unlinked_response_codec_lawful [simp]: "lawful (plugin_unlinked_response_codec)"
  unfolding plugin_unlinked_response_codec_def
proof (rule lawful_struct)
  show "distinct (map fld_name plugin_unlinked_response_fields)" by (simp add: plugin_unlinked_response_fields_def field_names)
  show "list_all (\<lambda>f. fld_ok f r) plugin_unlinked_response_fields \<Longrightarrow> refill plugin_unlinked_response_fields r plugin_unlinked_response_zero = Some r" for r
    by (cases r) (simp add: plugin_unlinked_response_fields_def plugin_unlinked_response_zero_def refill_simps)
qed

lemma plugin_unlinked_response_codec_zero [simp]: "cod_zero (plugin_unlinked_response_codec) = plugin_unlinked_response_zero"
  by (simp add: plugin_unlinked_response_codec_def struct_codec_def)

definition pong_response_fields :: "pong_response field list" where
  "pong_response_fields =
    [optional_field ''capabilities'' server_capabilities_codec pong_response_capabilities (\<lambda>x r. r\<lparr>pong_response_capabilities := x\<rparr>),
     plain_field ''protocol'' uint_codec pong_response_protocol (\<lambda>x r. r\<lparr>pong_response_protocol := x\<rparr>),
     plain_field ''version'' string_codec pong_response_version (\<lambda>x r. r\<lparr>pong_response_version := x\<rparr>)]"

definition pong_response_codec :: "pong_response codec" where
  "pong_response_codec = struct_codec pong_response_zero pong_response_fields"

lemma pong_response_codec_lawful [simp]: "lawful (pong_response_codec)"
  unfolding pong_response_codec_def
proof (rule lawful_struct)
  show "distinct (map fld_name pong_response_fields)" by (simp add: pong_response_fields_def field_names)
  show "list_all (\<lambda>f. fld_ok f r) pong_response_fields \<Longrightarrow> refill pong_response_fields r pong_response_zero = Some r" for r
    by (cases r) (simp add: pong_response_fields_def pong_response_zero_def refill_simps)
qed

lemma pong_response_codec_zero [simp]: "cod_zero (pong_response_codec) = pong_response_zero"
  by (simp add: pong_response_codec_def struct_codec_def)

definition session_snapshot_response_fields :: "(string \<Rightarrow> float64 option) \<Rightarrow> (float64 \<Rightarrow> string) \<Rightarrow> session_snapshot_response field list" where
  "session_snapshot_response_fields pf ff =
    [plain_field ''snapshot'' (session_snapshot_codec pf ff) session_snapshot_response_snapshot (\<lambda>x r. r\<lparr>session_snapshot_response_snapshot := x\<rparr>)]"

definition session_snapshot_response_codec :: "(string \<Rightarrow> float64 option) \<Rightarrow> (float64 \<Rightarrow> string) \<Rightarrow> session_snapshot_response codec" where
  "session_snapshot_response_codec pf ff = struct_codec session_snapshot_response_zero (session_snapshot_response_fields pf ff)"

lemma session_snapshot_response_codec_lawful [simp]: "lawful (session_snapshot_response_codec pf ff)"
  unfolding session_snapshot_response_codec_def
proof (rule lawful_struct)
  show "distinct (map fld_name (session_snapshot_response_fields pf ff))" by (simp add: session_snapshot_response_fields_def field_names)
  show "list_all (\<lambda>f. fld_ok f r) (session_snapshot_response_fields pf ff) \<Longrightarrow> refill (session_snapshot_response_fields pf ff) r session_snapshot_response_zero = Some r" for r
    by (cases r) (simp add: session_snapshot_response_fields_def session_snapshot_response_zero_def refill_simps)
qed

lemma session_snapshot_response_codec_zero [simp]: "cod_zero (session_snapshot_response_codec pf ff) = session_snapshot_response_zero"
  by (simp add: session_snapshot_response_codec_def struct_codec_def)

definition tab_created_response_fields :: "tab_created_response field list" where
  "tab_created_response_fields =
    [plain_field ''root_pane'' pane_info_codec tab_created_response_root_pane (\<lambda>x r. r\<lparr>tab_created_response_root_pane := x\<rparr>),
     plain_field ''tab'' tab_info_codec tab_created_response_tab (\<lambda>x r. r\<lparr>tab_created_response_tab := x\<rparr>)]"

definition tab_created_response_codec :: "tab_created_response codec" where
  "tab_created_response_codec = struct_codec tab_created_response_zero tab_created_response_fields"

lemma tab_created_response_codec_lawful [simp]: "lawful (tab_created_response_codec)"
  unfolding tab_created_response_codec_def
proof (rule lawful_struct)
  show "distinct (map fld_name tab_created_response_fields)" by (simp add: tab_created_response_fields_def field_names)
  show "list_all (\<lambda>f. fld_ok f r) tab_created_response_fields \<Longrightarrow> refill tab_created_response_fields r tab_created_response_zero = Some r" for r
    by (cases r) (simp add: tab_created_response_fields_def tab_created_response_zero_def refill_simps)
qed

lemma tab_created_response_codec_zero [simp]: "cod_zero (tab_created_response_codec) = tab_created_response_zero"
  by (simp add: tab_created_response_codec_def struct_codec_def)

definition tab_info_response_fields :: "tab_info_response field list" where
  "tab_info_response_fields =
    [plain_field ''tab'' tab_info_codec tab_info_response_tab (\<lambda>x r. r\<lparr>tab_info_response_tab := x\<rparr>)]"

definition tab_info_response_codec :: "tab_info_response codec" where
  "tab_info_response_codec = struct_codec tab_info_response_zero tab_info_response_fields"

lemma tab_info_response_codec_lawful [simp]: "lawful (tab_info_response_codec)"
  unfolding tab_info_response_codec_def
proof (rule lawful_struct)
  show "distinct (map fld_name tab_info_response_fields)" by (simp add: tab_info_response_fields_def field_names)
  show "list_all (\<lambda>f. fld_ok f r) tab_info_response_fields \<Longrightarrow> refill tab_info_response_fields r tab_info_response_zero = Some r" for r
    by (cases r) (simp add: tab_info_response_fields_def tab_info_response_zero_def refill_simps)
qed

lemma tab_info_response_codec_zero [simp]: "cod_zero (tab_info_response_codec) = tab_info_response_zero"
  by (simp add: tab_info_response_codec_def struct_codec_def)

definition tab_list_response_fields :: "tab_list_response field list" where
  "tab_list_response_fields =
    [plain_field ''tabs'' (slice_codec tab_info_codec) tab_list_response_tabs (\<lambda>x r. r\<lparr>tab_list_response_tabs := x\<rparr>)]"

definition tab_list_response_codec :: "tab_list_response codec" where
  "tab_list_response_codec = struct_codec tab_list_response_zero tab_list_response_fields"

lemma tab_list_response_codec_lawful [simp]: "lawful (tab_list_response_codec)"
  unfolding tab_list_response_codec_def
proof (rule lawful_struct)
  show "distinct (map fld_name tab_list_response_fields)" by (simp add: tab_list_response_fields_def field_names)
  show "list_all (\<lambda>f. fld_ok f r) tab_list_response_fields \<Longrightarrow> refill tab_list_response_fields r tab_list_response_zero = Some r" for r
    by (cases r) (simp add: tab_list_response_fields_def tab_list_response_zero_def refill_simps)
qed

lemma tab_list_response_codec_zero [simp]: "cod_zero (tab_list_response_codec) = tab_list_response_zero"
  by (simp add: tab_list_response_codec_def struct_codec_def)

definition wait_matched_response_fields :: "(string \<Rightarrow> float64 option) \<Rightarrow> (float64 \<Rightarrow> string) \<Rightarrow> wait_matched_response field list" where
  "wait_matched_response_fields pf ff =
    [plain_field ''event'' (event_envelope_codec pf ff) wait_matched_response_event (\<lambda>x r. r\<lparr>wait_matched_response_event := x\<rparr>)]"

definition wait_matched_response_codec :: "(string \<Rightarrow> float64 option) \<Rightarrow> (float64 \<Rightarrow> string) \<Rightarrow> wait_matched_response codec" where
  "wait_matched_response_codec pf ff = struct_codec wait_matched_response_zero (wait_matched_response_fields pf ff)"

lemma wait_matched_response_codec_lawful [simp]: "lawful (wait_matched_response_codec pf ff)"
  unfolding wait_matched_response_codec_def
proof (rule lawful_struct)
  show "distinct (map fld_name (wait_matched_response_fields pf ff))" by (simp add: wait_matched_response_fields_def field_names)
  show "list_all (\<lambda>f. fld_ok f r) (wait_matched_response_fields pf ff) \<Longrightarrow> refill (wait_matched_response_fields pf ff) r wait_matched_response_zero = Some r" for r
    by (cases r) (simp add: wait_matched_response_fields_def wait_matched_response_zero_def refill_simps)
qed

lemma wait_matched_response_codec_zero [simp]: "cod_zero (wait_matched_response_codec pf ff) = wait_matched_response_zero"
  by (simp add: wait_matched_response_codec_def struct_codec_def)

definition workspace_created_response_fields :: "workspace_created_response field list" where
  "workspace_created_response_fields =
    [plain_field ''root_pane'' pane_info_codec workspace_created_response_root_pane (\<lambda>x r. r\<lparr>workspace_created_response_root_pane := x\<rparr>),
     plain_field ''tab'' tab_info_codec workspace_created_response_tab (\<lambda>x r. r\<lparr>workspace_created_response_tab := x\<rparr>),
     plain_field ''workspace'' workspace_info_codec workspace_created_response_workspace (\<lambda>x r. r\<lparr>workspace_created_response_workspace := x\<rparr>)]"

definition workspace_created_response_codec :: "workspace_created_response codec" where
  "workspace_created_response_codec = struct_codec workspace_created_response_zero workspace_created_response_fields"

lemma workspace_created_response_codec_lawful [simp]: "lawful (workspace_created_response_codec)"
  unfolding workspace_created_response_codec_def
proof (rule lawful_struct)
  show "distinct (map fld_name workspace_created_response_fields)" by (simp add: workspace_created_response_fields_def field_names)
  show "list_all (\<lambda>f. fld_ok f r) workspace_created_response_fields \<Longrightarrow> refill workspace_created_response_fields r workspace_created_response_zero = Some r" for r
    by (cases r) (simp add: workspace_created_response_fields_def workspace_created_response_zero_def refill_simps)
qed

lemma workspace_created_response_codec_zero [simp]: "cod_zero (workspace_created_response_codec) = workspace_created_response_zero"
  by (simp add: workspace_created_response_codec_def struct_codec_def)

definition workspace_info_response_fields :: "workspace_info_response field list" where
  "workspace_info_response_fields =
    [plain_field ''workspace'' workspace_info_codec workspace_info_response_workspace (\<lambda>x r. r\<lparr>workspace_info_response_workspace := x\<rparr>)]"

definition workspace_info_response_codec :: "workspace_info_response codec" where
  "workspace_info_response_codec = struct_codec workspace_info_response_zero workspace_info_response_fields"

lemma workspace_info_response_codec_lawful [simp]: "lawful (workspace_info_response_codec)"
  unfolding workspace_info_response_codec_def
proof (rule lawful_struct)
  show "distinct (map fld_name workspace_info_response_fields)" by (simp add: workspace_info_response_fields_def field_names)
  show "list_all (\<lambda>f. fld_ok f r) workspace_info_response_fields \<Longrightarrow> refill workspace_info_response_fields r workspace_info_response_zero = Some r" for r
    by (cases r) (simp add: workspace_info_response_fields_def workspace_info_response_zero_def refill_simps)
qed

lemma workspace_info_response_codec_zero [simp]: "cod_zero (workspace_info_response_codec) = workspace_info_response_zero"
  by (simp add: workspace_info_response_codec_def struct_codec_def)

definition workspace_list_response_fields :: "workspace_list_response field list" where
  "workspace_list_response_fields =
    [plain_field ''workspaces'' (slice_codec workspace_info_codec) workspace_list_response_workspaces (\<lambda>x r. r\<lparr>workspace_list_response_workspaces := x\<rparr>)]"

definition workspace_list_response_codec :: "workspace_list_response codec" where
  "workspace_list_response_codec = struct_codec workspace_list_response_zero workspace_list_response_fields"

lemma workspace_list_response_codec_lawful [simp]: "lawful (workspace_list_response_codec)"
  unfolding workspace_list_response_codec_def
proof (rule lawful_struct)
  show "distinct (map fld_name workspace_list_response_fields)" by (simp add: workspace_list_response_fields_def field_names)
  show "list_all (\<lambda>f. fld_ok f r) workspace_list_response_fields \<Longrightarrow> refill workspace_list_response_fields r workspace_list_response_zero = Some r" for r
    by (cases r) (simp add: workspace_list_response_fields_def workspace_list_response_zero_def refill_simps)
qed

lemma workspace_list_response_codec_zero [simp]: "cod_zero (workspace_list_response_codec) = workspace_list_response_zero"
  by (simp add: workspace_list_response_codec_def struct_codec_def)

definition worktree_created_response_fields :: "worktree_created_response field list" where
  "worktree_created_response_fields =
    [plain_field ''root_pane'' pane_info_codec worktree_created_response_root_pane (\<lambda>x r. r\<lparr>worktree_created_response_root_pane := x\<rparr>),
     plain_field ''tab'' tab_info_codec worktree_created_response_tab (\<lambda>x r. r\<lparr>worktree_created_response_tab := x\<rparr>),
     plain_field ''workspace'' workspace_info_codec worktree_created_response_workspace (\<lambda>x r. r\<lparr>worktree_created_response_workspace := x\<rparr>),
     plain_field ''worktree'' worktree_info_codec worktree_created_response_worktree (\<lambda>x r. r\<lparr>worktree_created_response_worktree := x\<rparr>)]"

definition worktree_created_response_codec :: "worktree_created_response codec" where
  "worktree_created_response_codec = struct_codec worktree_created_response_zero worktree_created_response_fields"

lemma worktree_created_response_codec_lawful [simp]: "lawful (worktree_created_response_codec)"
  unfolding worktree_created_response_codec_def
proof (rule lawful_struct)
  show "distinct (map fld_name worktree_created_response_fields)" by (simp add: worktree_created_response_fields_def field_names)
  show "list_all (\<lambda>f. fld_ok f r) worktree_created_response_fields \<Longrightarrow> refill worktree_created_response_fields r worktree_created_response_zero = Some r" for r
    by (cases r) (simp add: worktree_created_response_fields_def worktree_created_response_zero_def refill_simps)
qed

lemma worktree_created_response_codec_zero [simp]: "cod_zero (worktree_created_response_codec) = worktree_created_response_zero"
  by (simp add: worktree_created_response_codec_def struct_codec_def)

definition worktree_list_response_fields :: "worktree_list_response field list" where
  "worktree_list_response_fields =
    [plain_field ''source'' worktree_source_info_codec worktree_list_response_source (\<lambda>x r. r\<lparr>worktree_list_response_source := x\<rparr>),
     plain_field ''worktrees'' (slice_codec worktree_info_codec) worktree_list_response_worktrees (\<lambda>x r. r\<lparr>worktree_list_response_worktrees := x\<rparr>)]"

definition worktree_list_response_codec :: "worktree_list_response codec" where
  "worktree_list_response_codec = struct_codec worktree_list_response_zero worktree_list_response_fields"

lemma worktree_list_response_codec_lawful [simp]: "lawful (worktree_list_response_codec)"
  unfolding worktree_list_response_codec_def
proof (rule lawful_struct)
  show "distinct (map fld_name worktree_list_response_fields)" by (simp add: worktree_list_response_fields_def field_names)
  show "list_all (\<lambda>f. fld_ok f r) worktree_list_response_fields \<Longrightarrow> refill worktree_list_response_fields r worktree_list_response_zero = Some r" for r
    by (cases r) (simp add: worktree_list_response_fields_def worktree_list_response_zero_def refill_simps)
qed

lemma worktree_list_response_codec_zero [simp]: "cod_zero (worktree_list_response_codec) = worktree_list_response_zero"
  by (simp add: worktree_list_response_codec_def struct_codec_def)

definition worktree_opened_response_fields :: "worktree_opened_response field list" where
  "worktree_opened_response_fields =
    [plain_field ''already_open'' bool_codec worktree_opened_response_already_open (\<lambda>x r. r\<lparr>worktree_opened_response_already_open := x\<rparr>),
     plain_field ''root_pane'' pane_info_codec worktree_opened_response_root_pane (\<lambda>x r. r\<lparr>worktree_opened_response_root_pane := x\<rparr>),
     plain_field ''tab'' tab_info_codec worktree_opened_response_tab (\<lambda>x r. r\<lparr>worktree_opened_response_tab := x\<rparr>),
     plain_field ''workspace'' workspace_info_codec worktree_opened_response_workspace (\<lambda>x r. r\<lparr>worktree_opened_response_workspace := x\<rparr>),
     plain_field ''worktree'' worktree_info_codec worktree_opened_response_worktree (\<lambda>x r. r\<lparr>worktree_opened_response_worktree := x\<rparr>)]"

definition worktree_opened_response_codec :: "worktree_opened_response codec" where
  "worktree_opened_response_codec = struct_codec worktree_opened_response_zero worktree_opened_response_fields"

lemma worktree_opened_response_codec_lawful [simp]: "lawful (worktree_opened_response_codec)"
  unfolding worktree_opened_response_codec_def
proof (rule lawful_struct)
  show "distinct (map fld_name worktree_opened_response_fields)" by (simp add: worktree_opened_response_fields_def field_names)
  show "list_all (\<lambda>f. fld_ok f r) worktree_opened_response_fields \<Longrightarrow> refill worktree_opened_response_fields r worktree_opened_response_zero = Some r" for r
    by (cases r) (simp add: worktree_opened_response_fields_def worktree_opened_response_zero_def refill_simps)
qed

lemma worktree_opened_response_codec_zero [simp]: "cod_zero (worktree_opened_response_codec) = worktree_opened_response_zero"
  by (simp add: worktree_opened_response_codec_def struct_codec_def)

definition worktree_removed_response_fields :: "worktree_removed_response field list" where
  "worktree_removed_response_fields =
    [plain_field ''forced'' bool_codec worktree_removed_response_forced (\<lambda>x r. r\<lparr>worktree_removed_response_forced := x\<rparr>),
     plain_field ''path'' string_codec worktree_removed_response_path (\<lambda>x r. r\<lparr>worktree_removed_response_path := x\<rparr>),
     plain_field ''workspace_id'' string_codec worktree_removed_response_workspace_id (\<lambda>x r. r\<lparr>worktree_removed_response_workspace_id := x\<rparr>)]"

definition worktree_removed_response_codec :: "worktree_removed_response codec" where
  "worktree_removed_response_codec = struct_codec worktree_removed_response_zero worktree_removed_response_fields"

lemma worktree_removed_response_codec_lawful [simp]: "lawful (worktree_removed_response_codec)"
  unfolding worktree_removed_response_codec_def
proof (rule lawful_struct)
  show "distinct (map fld_name worktree_removed_response_fields)" by (simp add: worktree_removed_response_fields_def field_names)
  show "list_all (\<lambda>f. fld_ok f r) worktree_removed_response_fields \<Longrightarrow> refill worktree_removed_response_fields r worktree_removed_response_zero = Some r" for r
    by (cases r) (simp add: worktree_removed_response_fields_def worktree_removed_response_zero_def refill_simps)
qed

lemma worktree_removed_response_codec_zero [simp]: "cod_zero (worktree_removed_response_codec) = worktree_removed_response_zero"
  by (simp add: worktree_removed_response_codec_def struct_codec_def)

end
