(* ===== verification/Param_Structs_A.thy ===== *)
theory Param_Structs_A
  imports Info_Types
begin

text \<open>
  The first half of the parameter structs of \<open>herdr/types_gen.go\<close> without unions, and the variants of
  \<open>EventMatch\<close>, with their zero values and \<open>Clone\<close>.
\<close>

record agent_prompt_wait_options =
  agent_prompt_wait_options_timeout_ms :: "64 word optional"
  agent_prompt_wait_options_until :: "agent_status slice optional"

definition agent_prompt_wait_options_zero :: agent_prompt_wait_options where
  "agent_prompt_wait_options_zero = \<lparr>agent_prompt_wait_options_timeout_ms = Absent,
     agent_prompt_wait_options_until = Absent\<rparr>"

definition agent_prompt_wait_options_clone :: "agent_prompt_wait_options \<Rightarrow> agent_prompt_wait_options" where
  "agent_prompt_wait_options_clone v =
    (let out = v;
      out = out\<lparr>agent_prompt_wait_options_until := clone_opt (clone_slice (\<lambda>x. x)) (agent_prompt_wait_options_until v)\<rparr>
     in out)"

lemma agent_prompt_wait_options_clone_id [clone_simps]: "agent_prompt_wait_options_clone = id"
  by (simp add: fun_eq_iff agent_prompt_wait_options_clone_def clone_simps)

record agent_prompt_params =
  agent_prompt_params_target :: string
  agent_prompt_params_text :: string
  agent_prompt_params_wait :: "agent_prompt_wait_options optional"

definition agent_prompt_params_zero :: agent_prompt_params where
  "agent_prompt_params_zero = \<lparr>agent_prompt_params_target = [],
     agent_prompt_params_text = [],
     agent_prompt_params_wait = Absent\<rparr>"

definition agent_prompt_params_clone :: "agent_prompt_params \<Rightarrow> agent_prompt_params" where
  "agent_prompt_params_clone v =
    (let out = v;
      out = out\<lparr>agent_prompt_params_wait := clone_opt agent_prompt_wait_options_clone (agent_prompt_params_wait v)\<rparr>
     in out)"

lemma agent_prompt_params_clone_id [clone_simps]: "agent_prompt_params_clone = id"
  by (simp add: fun_eq_iff agent_prompt_params_clone_def clone_simps)

record agent_read_params =
  agent_read_params_format :: "read_format optional"
  agent_read_params_lines :: "32 word optional"
  agent_read_params_source :: read_source
  agent_read_params_strip_ansi :: "bool optional"
  agent_read_params_target :: string

definition agent_read_params_zero :: agent_read_params where
  "agent_read_params_zero = \<lparr>agent_read_params_format = Absent,
     agent_read_params_lines = Absent,
     agent_read_params_source = [],
     agent_read_params_strip_ansi = Absent,
     agent_read_params_target = []\<rparr>"

definition agent_read_params_clone :: "agent_read_params \<Rightarrow> agent_read_params" where
  "agent_read_params_clone v = (let out = v in out)"

lemma agent_read_params_clone_id [clone_simps]: "agent_read_params_clone = id"
  by (simp add: fun_eq_iff agent_read_params_clone_def clone_simps)

record agent_rename_params =
  agent_rename_params_name :: "string optional"
  agent_rename_params_target :: string

definition agent_rename_params_zero :: agent_rename_params where
  "agent_rename_params_zero = \<lparr>agent_rename_params_name = Absent,
     agent_rename_params_target = []\<rparr>"

definition agent_rename_params_clone :: "agent_rename_params \<Rightarrow> agent_rename_params" where
  "agent_rename_params_clone v = (let out = v in out)"

lemma agent_rename_params_clone_id [clone_simps]: "agent_rename_params_clone = id"
  by (simp add: fun_eq_iff agent_rename_params_clone_def clone_simps)

record agent_send_keys_params =
  agent_send_keys_params_keys :: "string slice"
  agent_send_keys_params_target :: string

definition agent_send_keys_params_zero :: agent_send_keys_params where
  "agent_send_keys_params_zero = \<lparr>agent_send_keys_params_keys = None,
     agent_send_keys_params_target = []\<rparr>"

definition agent_send_keys_params_clone :: "agent_send_keys_params \<Rightarrow> agent_send_keys_params" where
  "agent_send_keys_params_clone v =
    (let out = v;
      out = out\<lparr>agent_send_keys_params_keys := clone_slice (\<lambda>x. x) (agent_send_keys_params_keys v)\<rparr>
     in out)"

lemma agent_send_keys_params_clone_id [clone_simps]: "agent_send_keys_params_clone = id"
  by (simp add: fun_eq_iff agent_send_keys_params_clone_def clone_simps)

record agent_start_params =
  agent_start_params_args :: "string slice optional"
  agent_start_params_kind :: string
  agent_start_params_name :: string
  agent_start_params_pane_id :: string
  agent_start_params_timeout_ms :: "64 word optional"

definition agent_start_params_zero :: agent_start_params where
  "agent_start_params_zero = \<lparr>agent_start_params_args = Absent,
     agent_start_params_kind = [],
     agent_start_params_name = [],
     agent_start_params_pane_id = [],
     agent_start_params_timeout_ms = Absent\<rparr>"

definition agent_start_params_clone :: "agent_start_params \<Rightarrow> agent_start_params" where
  "agent_start_params_clone v =
    (let out = v;
      out = out\<lparr>agent_start_params_args := clone_opt (clone_slice (\<lambda>x. x)) (agent_start_params_args v)\<rparr>
     in out)"

lemma agent_start_params_clone_id [clone_simps]: "agent_start_params_clone = id"
  by (simp add: fun_eq_iff agent_start_params_clone_def clone_simps)

record agent_target =
  agent_target_target :: string

definition agent_target_zero :: agent_target where
  "agent_target_zero = \<lparr>agent_target_target = []\<rparr>"

definition agent_target_clone :: "agent_target \<Rightarrow> agent_target" where
  "agent_target_clone v = (let out = v in out)"

lemma agent_target_clone_id [clone_simps]: "agent_target_clone = id"
  by (simp add: fun_eq_iff agent_target_clone_def clone_simps)

record agent_view_clear_params =
  agent_view_clear_params_source :: "string optional"

definition agent_view_clear_params_zero :: agent_view_clear_params where
  "agent_view_clear_params_zero = \<lparr>agent_view_clear_params_source = Absent\<rparr>"

definition agent_view_clear_params_clone :: "agent_view_clear_params \<Rightarrow> agent_view_clear_params" where
  "agent_view_clear_params_clone v = (let out = v in out)"

lemma agent_view_clear_params_clone_id [clone_simps]: "agent_view_clear_params_clone = id"
  by (simp add: fun_eq_iff agent_view_clear_params_clone_def clone_simps)

record agent_wait_params =
  agent_wait_params_target :: string
  agent_wait_params_timeout_ms :: "64 word optional"
  agent_wait_params_until :: "agent_status slice optional"

definition agent_wait_params_zero :: agent_wait_params where
  "agent_wait_params_zero = \<lparr>agent_wait_params_target = [],
     agent_wait_params_timeout_ms = Absent,
     agent_wait_params_until = Absent\<rparr>"

definition agent_wait_params_clone :: "agent_wait_params \<Rightarrow> agent_wait_params" where
  "agent_wait_params_clone v =
    (let out = v;
      out = out\<lparr>agent_wait_params_until := clone_opt (clone_slice (\<lambda>x. x)) (agent_wait_params_until v)\<rparr>
     in out)"

lemma agent_wait_params_clone_id [clone_simps]: "agent_wait_params_clone = id"
  by (simp add: fun_eq_iff agent_wait_params_clone_def clone_simps)

record client_shell_surface_set_params =
  client_shell_surface_set_params_active :: bool

definition client_shell_surface_set_params_zero :: client_shell_surface_set_params where
  "client_shell_surface_set_params_zero = \<lparr>client_shell_surface_set_params_active = False\<rparr>"

definition client_shell_surface_set_params_clone :: "client_shell_surface_set_params \<Rightarrow> client_shell_surface_set_params" where
  "client_shell_surface_set_params_clone v = (let out = v in out)"

lemma client_shell_surface_set_params_clone_id [clone_simps]: "client_shell_surface_set_params_clone = id"
  by (simp add: fun_eq_iff client_shell_surface_set_params_clone_def clone_simps)

record client_window_title_set_params =
  client_window_title_set_params_title :: string

definition client_window_title_set_params_zero :: client_window_title_set_params where
  "client_window_title_set_params_zero = \<lparr>client_window_title_set_params_title = []\<rparr>"

definition client_window_title_set_params_clone :: "client_window_title_set_params \<Rightarrow> client_window_title_set_params" where
  "client_window_title_set_params_clone v = (let out = v in out)"

lemma client_window_title_set_params_clone_id [clone_simps]: "client_window_title_set_params_clone = id"
  by (simp add: fun_eq_iff client_window_title_set_params_clone_def clone_simps)

record pane_selection_read_params =
  pane_selection_read_params_anchor :: pane_text_point
  pane_selection_read_params_content_revision :: "64 word optional"
  pane_selection_read_params_cursor :: pane_text_point
  pane_selection_read_params_pane_id :: string

definition pane_selection_read_params_zero :: pane_selection_read_params where
  "pane_selection_read_params_zero = \<lparr>pane_selection_read_params_anchor = pane_text_point_zero,
     pane_selection_read_params_content_revision = Absent,
     pane_selection_read_params_cursor = pane_text_point_zero,
     pane_selection_read_params_pane_id = []\<rparr>"

definition pane_selection_read_params_clone :: "pane_selection_read_params \<Rightarrow> pane_selection_read_params" where
  "pane_selection_read_params_clone v =
    (let out = v;
      out = out\<lparr>pane_selection_read_params_anchor := pane_text_point_clone (pane_selection_read_params_anchor v)\<rparr>;
      out = out\<lparr>pane_selection_read_params_cursor := pane_text_point_clone (pane_selection_read_params_cursor v)\<rparr>
     in out)"

lemma pane_selection_read_params_clone_id [clone_simps]: "pane_selection_read_params_clone = id"
  by (simp add: fun_eq_iff pane_selection_read_params_clone_def clone_simps)

record command_invoke_params =
  command_invoke_params_command_id :: string
  command_invoke_params_pane_id :: "string optional"
  command_invoke_params_selection :: "pane_selection_read_params optional"
  command_invoke_params_tab_id :: "string optional"
  command_invoke_params_workspace_id :: "string optional"

definition command_invoke_params_zero :: command_invoke_params where
  "command_invoke_params_zero = \<lparr>command_invoke_params_command_id = [],
     command_invoke_params_pane_id = Absent,
     command_invoke_params_selection = Absent,
     command_invoke_params_tab_id = Absent,
     command_invoke_params_workspace_id = Absent\<rparr>"

definition command_invoke_params_clone :: "command_invoke_params \<Rightarrow> command_invoke_params" where
  "command_invoke_params_clone v =
    (let out = v;
      out = out\<lparr>command_invoke_params_selection := clone_opt pane_selection_read_params_clone (command_invoke_params_selection v)\<rparr>
     in out)"

lemma command_invoke_params_clone_id [clone_simps]: "command_invoke_params_clone = id"
  by (simp add: fun_eq_iff command_invoke_params_clone_def clone_simps)

record event_match_pane_agent_detected =
  event_match_pane_agent_detected_agent :: "string optional"
  event_match_pane_agent_detected_pane_id :: string

definition event_match_pane_agent_detected_zero :: event_match_pane_agent_detected where
  "event_match_pane_agent_detected_zero = \<lparr>event_match_pane_agent_detected_agent = Absent,
     event_match_pane_agent_detected_pane_id = []\<rparr>"

definition event_match_pane_agent_detected_clone :: "event_match_pane_agent_detected \<Rightarrow> event_match_pane_agent_detected" where
  "event_match_pane_agent_detected_clone v = (let out = v in out)"

lemma event_match_pane_agent_detected_clone_id [clone_simps]: "event_match_pane_agent_detected_clone = id"
  by (simp add: fun_eq_iff event_match_pane_agent_detected_clone_def clone_simps)

record event_match_pane_agent_status_changed =
  event_match_pane_agent_status_changed_agent_status :: agent_status
  event_match_pane_agent_status_changed_pane_id :: string

definition event_match_pane_agent_status_changed_zero :: event_match_pane_agent_status_changed where
  "event_match_pane_agent_status_changed_zero = \<lparr>event_match_pane_agent_status_changed_agent_status = [],
     event_match_pane_agent_status_changed_pane_id = []\<rparr>"

definition event_match_pane_agent_status_changed_clone :: "event_match_pane_agent_status_changed \<Rightarrow> event_match_pane_agent_status_changed" where
  "event_match_pane_agent_status_changed_clone v = (let out = v in out)"

lemma event_match_pane_agent_status_changed_clone_id [clone_simps]: "event_match_pane_agent_status_changed_clone = id"
  by (simp add: fun_eq_iff event_match_pane_agent_status_changed_clone_def clone_simps)

record event_match_pane_closed =
  event_match_pane_closed_pane_id :: string

definition event_match_pane_closed_zero :: event_match_pane_closed where
  "event_match_pane_closed_zero = \<lparr>event_match_pane_closed_pane_id = []\<rparr>"

definition event_match_pane_closed_clone :: "event_match_pane_closed \<Rightarrow> event_match_pane_closed" where
  "event_match_pane_closed_clone v = (let out = v in out)"

lemma event_match_pane_closed_clone_id [clone_simps]: "event_match_pane_closed_clone = id"
  by (simp add: fun_eq_iff event_match_pane_closed_clone_def clone_simps)

record event_match_pane_created =
  event_match_pane_created_pane_id :: "string optional"
  event_match_pane_created_workspace_id :: "string optional"

definition event_match_pane_created_zero :: event_match_pane_created where
  "event_match_pane_created_zero = \<lparr>event_match_pane_created_pane_id = Absent,
     event_match_pane_created_workspace_id = Absent\<rparr>"

definition event_match_pane_created_clone :: "event_match_pane_created \<Rightarrow> event_match_pane_created" where
  "event_match_pane_created_clone v = (let out = v in out)"

lemma event_match_pane_created_clone_id [clone_simps]: "event_match_pane_created_clone = id"
  by (simp add: fun_eq_iff event_match_pane_created_clone_def clone_simps)

record event_match_pane_exited =
  event_match_pane_exited_pane_id :: string

definition event_match_pane_exited_zero :: event_match_pane_exited where
  "event_match_pane_exited_zero = \<lparr>event_match_pane_exited_pane_id = []\<rparr>"

definition event_match_pane_exited_clone :: "event_match_pane_exited \<Rightarrow> event_match_pane_exited" where
  "event_match_pane_exited_clone v = (let out = v in out)"

lemma event_match_pane_exited_clone_id [clone_simps]: "event_match_pane_exited_clone = id"
  by (simp add: fun_eq_iff event_match_pane_exited_clone_def clone_simps)

record event_match_pane_focused =
  event_match_pane_focused_pane_id :: string

definition event_match_pane_focused_zero :: event_match_pane_focused where
  "event_match_pane_focused_zero = \<lparr>event_match_pane_focused_pane_id = []\<rparr>"

definition event_match_pane_focused_clone :: "event_match_pane_focused \<Rightarrow> event_match_pane_focused" where
  "event_match_pane_focused_clone v = (let out = v in out)"

lemma event_match_pane_focused_clone_id [clone_simps]: "event_match_pane_focused_clone = id"
  by (simp add: fun_eq_iff event_match_pane_focused_clone_def clone_simps)

record event_match_pane_moved =
  event_match_pane_moved_pane_id :: string

definition event_match_pane_moved_zero :: event_match_pane_moved where
  "event_match_pane_moved_zero = \<lparr>event_match_pane_moved_pane_id = []\<rparr>"

definition event_match_pane_moved_clone :: "event_match_pane_moved \<Rightarrow> event_match_pane_moved" where
  "event_match_pane_moved_clone v = (let out = v in out)"

lemma event_match_pane_moved_clone_id [clone_simps]: "event_match_pane_moved_clone = id"
  by (simp add: fun_eq_iff event_match_pane_moved_clone_def clone_simps)

record event_match_pane_output_changed =
  event_match_pane_output_changed_min_revision :: "64 word optional"
  event_match_pane_output_changed_pane_id :: string

definition event_match_pane_output_changed_zero :: event_match_pane_output_changed where
  "event_match_pane_output_changed_zero = \<lparr>event_match_pane_output_changed_min_revision = Absent,
     event_match_pane_output_changed_pane_id = []\<rparr>"

definition event_match_pane_output_changed_clone :: "event_match_pane_output_changed \<Rightarrow> event_match_pane_output_changed" where
  "event_match_pane_output_changed_clone v = (let out = v in out)"

lemma event_match_pane_output_changed_clone_id [clone_simps]: "event_match_pane_output_changed_clone = id"
  by (simp add: fun_eq_iff event_match_pane_output_changed_clone_def clone_simps)

record event_match_tab_closed =
  event_match_tab_closed_tab_id :: string

definition event_match_tab_closed_zero :: event_match_tab_closed where
  "event_match_tab_closed_zero = \<lparr>event_match_tab_closed_tab_id = []\<rparr>"

definition event_match_tab_closed_clone :: "event_match_tab_closed \<Rightarrow> event_match_tab_closed" where
  "event_match_tab_closed_clone v = (let out = v in out)"

lemma event_match_tab_closed_clone_id [clone_simps]: "event_match_tab_closed_clone = id"
  by (simp add: fun_eq_iff event_match_tab_closed_clone_def clone_simps)

record event_match_tab_created =
  event_match_tab_created_tab_id :: "string optional"
  event_match_tab_created_workspace_id :: "string optional"

definition event_match_tab_created_zero :: event_match_tab_created where
  "event_match_tab_created_zero = \<lparr>event_match_tab_created_tab_id = Absent,
     event_match_tab_created_workspace_id = Absent\<rparr>"

definition event_match_tab_created_clone :: "event_match_tab_created \<Rightarrow> event_match_tab_created" where
  "event_match_tab_created_clone v = (let out = v in out)"

lemma event_match_tab_created_clone_id [clone_simps]: "event_match_tab_created_clone = id"
  by (simp add: fun_eq_iff event_match_tab_created_clone_def clone_simps)

record event_match_tab_focused =
  event_match_tab_focused_tab_id :: string

definition event_match_tab_focused_zero :: event_match_tab_focused where
  "event_match_tab_focused_zero = \<lparr>event_match_tab_focused_tab_id = []\<rparr>"

definition event_match_tab_focused_clone :: "event_match_tab_focused \<Rightarrow> event_match_tab_focused" where
  "event_match_tab_focused_clone v = (let out = v in out)"

lemma event_match_tab_focused_clone_id [clone_simps]: "event_match_tab_focused_clone = id"
  by (simp add: fun_eq_iff event_match_tab_focused_clone_def clone_simps)

record event_match_tab_moved =
  event_match_tab_moved_tab_id :: string

definition event_match_tab_moved_zero :: event_match_tab_moved where
  "event_match_tab_moved_zero = \<lparr>event_match_tab_moved_tab_id = []\<rparr>"

definition event_match_tab_moved_clone :: "event_match_tab_moved \<Rightarrow> event_match_tab_moved" where
  "event_match_tab_moved_clone v = (let out = v in out)"

lemma event_match_tab_moved_clone_id [clone_simps]: "event_match_tab_moved_clone = id"
  by (simp add: fun_eq_iff event_match_tab_moved_clone_def clone_simps)

record event_match_tab_renamed =
  event_match_tab_renamed_label :: "string optional"
  event_match_tab_renamed_tab_id :: string

definition event_match_tab_renamed_zero :: event_match_tab_renamed where
  "event_match_tab_renamed_zero = \<lparr>event_match_tab_renamed_label = Absent,
     event_match_tab_renamed_tab_id = []\<rparr>"

definition event_match_tab_renamed_clone :: "event_match_tab_renamed \<Rightarrow> event_match_tab_renamed" where
  "event_match_tab_renamed_clone v = (let out = v in out)"

lemma event_match_tab_renamed_clone_id [clone_simps]: "event_match_tab_renamed_clone = id"
  by (simp add: fun_eq_iff event_match_tab_renamed_clone_def clone_simps)

record event_match_workspace_closed =
  event_match_workspace_closed_workspace_id :: string

definition event_match_workspace_closed_zero :: event_match_workspace_closed where
  "event_match_workspace_closed_zero = \<lparr>event_match_workspace_closed_workspace_id = []\<rparr>"

definition event_match_workspace_closed_clone :: "event_match_workspace_closed \<Rightarrow> event_match_workspace_closed" where
  "event_match_workspace_closed_clone v = (let out = v in out)"

lemma event_match_workspace_closed_clone_id [clone_simps]: "event_match_workspace_closed_clone = id"
  by (simp add: fun_eq_iff event_match_workspace_closed_clone_def clone_simps)

record event_match_workspace_created =
  event_match_workspace_created_workspace_id :: "string optional"

definition event_match_workspace_created_zero :: event_match_workspace_created where
  "event_match_workspace_created_zero = \<lparr>event_match_workspace_created_workspace_id = Absent\<rparr>"

definition event_match_workspace_created_clone :: "event_match_workspace_created \<Rightarrow> event_match_workspace_created" where
  "event_match_workspace_created_clone v = (let out = v in out)"

lemma event_match_workspace_created_clone_id [clone_simps]: "event_match_workspace_created_clone = id"
  by (simp add: fun_eq_iff event_match_workspace_created_clone_def clone_simps)

record event_match_workspace_focused =
  event_match_workspace_focused_workspace_id :: string

definition event_match_workspace_focused_zero :: event_match_workspace_focused where
  "event_match_workspace_focused_zero = \<lparr>event_match_workspace_focused_workspace_id = []\<rparr>"

definition event_match_workspace_focused_clone :: "event_match_workspace_focused \<Rightarrow> event_match_workspace_focused" where
  "event_match_workspace_focused_clone v = (let out = v in out)"

lemma event_match_workspace_focused_clone_id [clone_simps]: "event_match_workspace_focused_clone = id"
  by (simp add: fun_eq_iff event_match_workspace_focused_clone_def clone_simps)

record event_match_workspace_moved =
  event_match_workspace_moved_workspace_id :: string

definition event_match_workspace_moved_zero :: event_match_workspace_moved where
  "event_match_workspace_moved_zero = \<lparr>event_match_workspace_moved_workspace_id = []\<rparr>"

definition event_match_workspace_moved_clone :: "event_match_workspace_moved \<Rightarrow> event_match_workspace_moved" where
  "event_match_workspace_moved_clone v = (let out = v in out)"

lemma event_match_workspace_moved_clone_id [clone_simps]: "event_match_workspace_moved_clone = id"
  by (simp add: fun_eq_iff event_match_workspace_moved_clone_def clone_simps)

record event_match_workspace_renamed =
  event_match_workspace_renamed_label :: "string optional"
  event_match_workspace_renamed_workspace_id :: string

definition event_match_workspace_renamed_zero :: event_match_workspace_renamed where
  "event_match_workspace_renamed_zero = \<lparr>event_match_workspace_renamed_label = Absent,
     event_match_workspace_renamed_workspace_id = []\<rparr>"

definition event_match_workspace_renamed_clone :: "event_match_workspace_renamed \<Rightarrow> event_match_workspace_renamed" where
  "event_match_workspace_renamed_clone v = (let out = v in out)"

lemma event_match_workspace_renamed_clone_id [clone_simps]: "event_match_workspace_renamed_clone = id"
  by (simp add: fun_eq_iff event_match_workspace_renamed_clone_def clone_simps)

record event_match_workspace_updated =
  event_match_workspace_updated_workspace_id :: string

definition event_match_workspace_updated_zero :: event_match_workspace_updated where
  "event_match_workspace_updated_zero = \<lparr>event_match_workspace_updated_workspace_id = []\<rparr>"

definition event_match_workspace_updated_clone :: "event_match_workspace_updated \<Rightarrow> event_match_workspace_updated" where
  "event_match_workspace_updated_clone v = (let out = v in out)"

lemma event_match_workspace_updated_clone_id [clone_simps]: "event_match_workspace_updated_clone = id"
  by (simp add: fun_eq_iff event_match_workspace_updated_clone_def clone_simps)

record integration_install_params =
  integration_install_params_target :: integration_target

definition integration_install_params_zero :: integration_install_params where
  "integration_install_params_zero = \<lparr>integration_install_params_target = []\<rparr>"

definition integration_install_params_clone :: "integration_install_params \<Rightarrow> integration_install_params" where
  "integration_install_params_clone v = (let out = v in out)"

lemma integration_install_params_clone_id [clone_simps]: "integration_install_params_clone = id"
  by (simp add: fun_eq_iff integration_install_params_clone_def clone_simps)

record integration_uninstall_params =
  integration_uninstall_params_target :: integration_target

definition integration_uninstall_params_zero :: integration_uninstall_params where
  "integration_uninstall_params_zero = \<lparr>integration_uninstall_params_target = []\<rparr>"

definition integration_uninstall_params_clone :: "integration_uninstall_params \<Rightarrow> integration_uninstall_params" where
  "integration_uninstall_params_clone v = (let out = v in out)"

lemma integration_uninstall_params_clone_id [clone_simps]: "integration_uninstall_params_clone = id"
  by (simp add: fun_eq_iff integration_uninstall_params_clone_def clone_simps)

record layout_export_params =
  layout_export_params_pane_id :: "string optional"
  layout_export_params_tab_id :: "string optional"

definition layout_export_params_zero :: layout_export_params where
  "layout_export_params_zero = \<lparr>layout_export_params_pane_id = Absent,
     layout_export_params_tab_id = Absent\<rparr>"

definition layout_export_params_clone :: "layout_export_params \<Rightarrow> layout_export_params" where
  "layout_export_params_clone v = (let out = v in out)"

lemma layout_export_params_clone_id [clone_simps]: "layout_export_params_clone = id"
  by (simp add: fun_eq_iff layout_export_params_clone_def clone_simps)

record layout_set_split_ratio_params =
  layout_set_split_ratio_params_pane_id :: "string optional"
  layout_set_split_ratio_params_path :: "bool slice"
  layout_set_split_ratio_params_ratio :: float64
  layout_set_split_ratio_params_tab_id :: "string optional"

definition layout_set_split_ratio_params_zero :: layout_set_split_ratio_params where
  "layout_set_split_ratio_params_zero = \<lparr>layout_set_split_ratio_params_pane_id = Absent,
     layout_set_split_ratio_params_path = None,
     layout_set_split_ratio_params_ratio = 0,
     layout_set_split_ratio_params_tab_id = Absent\<rparr>"

definition layout_set_split_ratio_params_clone :: "layout_set_split_ratio_params \<Rightarrow> layout_set_split_ratio_params" where
  "layout_set_split_ratio_params_clone v =
    (let out = v;
      out = out\<lparr>layout_set_split_ratio_params_path := clone_slice (\<lambda>x. x) (layout_set_split_ratio_params_path v)\<rparr>
     in out)"

lemma layout_set_split_ratio_params_clone_id [clone_simps]: "layout_set_split_ratio_params_clone = id"
  by (simp add: fun_eq_iff layout_set_split_ratio_params_clone_def clone_simps)

record notification_show_params =
  notification_show_params_body :: "string optional"
  notification_show_params_position :: "toast_herdr_position optional"
  notification_show_params_sound :: "notification_show_sound optional"
  notification_show_params_title :: string

definition notification_show_params_zero :: notification_show_params where
  "notification_show_params_zero = \<lparr>notification_show_params_body = Absent,
     notification_show_params_position = Absent,
     notification_show_params_sound = Absent,
     notification_show_params_title = []\<rparr>"

definition notification_show_params_clone :: "notification_show_params \<Rightarrow> notification_show_params" where
  "notification_show_params_clone v = (let out = v in out)"

lemma notification_show_params_clone_id [clone_simps]: "notification_show_params_clone = id"
  by (simp add: fun_eq_iff notification_show_params_clone_def clone_simps)

record pane_clear_agent_authority_params =
  pane_clear_agent_authority_params_pane_id :: string
  pane_clear_agent_authority_params_seq :: "64 word optional"
  pane_clear_agent_authority_params_source :: "string optional"

definition pane_clear_agent_authority_params_zero :: pane_clear_agent_authority_params where
  "pane_clear_agent_authority_params_zero = \<lparr>pane_clear_agent_authority_params_pane_id = [],
     pane_clear_agent_authority_params_seq = Absent,
     pane_clear_agent_authority_params_source = Absent\<rparr>"

definition pane_clear_agent_authority_params_clone :: "pane_clear_agent_authority_params \<Rightarrow> pane_clear_agent_authority_params" where
  "pane_clear_agent_authority_params_clone v = (let out = v in out)"

lemma pane_clear_agent_authority_params_clone_id [clone_simps]: "pane_clear_agent_authority_params_clone = id"
  by (simp add: fun_eq_iff pane_clear_agent_authority_params_clone_def clone_simps)

record pane_copy_motion_params =
  pane_copy_motion_params_content_revision :: "64 word optional"
  pane_copy_motion_params_cursor :: pane_text_point
  pane_copy_motion_params_motion :: pane_copy_motion
  pane_copy_motion_params_pane_id :: string

definition pane_copy_motion_params_zero :: pane_copy_motion_params where
  "pane_copy_motion_params_zero = \<lparr>pane_copy_motion_params_content_revision = Absent,
     pane_copy_motion_params_cursor = pane_text_point_zero,
     pane_copy_motion_params_motion = [],
     pane_copy_motion_params_pane_id = []\<rparr>"

definition pane_copy_motion_params_clone :: "pane_copy_motion_params \<Rightarrow> pane_copy_motion_params" where
  "pane_copy_motion_params_clone v =
    (let out = v;
      out = out\<lparr>pane_copy_motion_params_cursor := pane_text_point_clone (pane_copy_motion_params_cursor v)\<rparr>
     in out)"

lemma pane_copy_motion_params_clone_id [clone_simps]: "pane_copy_motion_params_clone = id"
  by (simp add: fun_eq_iff pane_copy_motion_params_clone_def clone_simps)

record pane_copy_search_params =
  pane_copy_search_params_content_revision :: "64 word"
  pane_copy_search_params_cursor :: pane_text_point
  pane_copy_search_params_direction :: pane_copy_search_direction
  pane_copy_search_params_pane_id :: string
  pane_copy_search_params_previous :: "pane_text_range optional"
  pane_copy_search_params_query :: string

definition pane_copy_search_params_zero :: pane_copy_search_params where
  "pane_copy_search_params_zero = \<lparr>pane_copy_search_params_content_revision = 0,
     pane_copy_search_params_cursor = pane_text_point_zero,
     pane_copy_search_params_direction = [],
     pane_copy_search_params_pane_id = [],
     pane_copy_search_params_previous = Absent,
     pane_copy_search_params_query = []\<rparr>"

definition pane_copy_search_params_clone :: "pane_copy_search_params \<Rightarrow> pane_copy_search_params" where
  "pane_copy_search_params_clone v =
    (let out = v;
      out = out\<lparr>pane_copy_search_params_cursor := pane_text_point_clone (pane_copy_search_params_cursor v)\<rparr>;
      out = out\<lparr>pane_copy_search_params_previous := clone_opt pane_text_range_clone (pane_copy_search_params_previous v)\<rparr>
     in out)"

lemma pane_copy_search_params_clone_id [clone_simps]: "pane_copy_search_params_clone = id"
  by (simp add: fun_eq_iff pane_copy_search_params_clone_def clone_simps)

record pane_current_params =
  pane_current_params_caller_pane_id :: "string optional"

definition pane_current_params_zero :: pane_current_params where
  "pane_current_params_zero = \<lparr>pane_current_params_caller_pane_id = Absent\<rparr>"

definition pane_current_params_clone :: "pane_current_params \<Rightarrow> pane_current_params" where
  "pane_current_params_clone v = (let out = v in out)"

lemma pane_current_params_clone_id [clone_simps]: "pane_current_params_clone = id"
  by (simp add: fun_eq_iff pane_current_params_clone_def clone_simps)

record pane_edges_params =
  pane_edges_params_pane_id :: "string optional"

definition pane_edges_params_zero :: pane_edges_params where
  "pane_edges_params_zero = \<lparr>pane_edges_params_pane_id = Absent\<rparr>"

definition pane_edges_params_clone :: "pane_edges_params \<Rightarrow> pane_edges_params" where
  "pane_edges_params_clone v = (let out = v in out)"

lemma pane_edges_params_clone_id [clone_simps]: "pane_edges_params_clone = id"
  by (simp add: fun_eq_iff pane_edges_params_clone_def clone_simps)

record pane_focus_direction_params =
  pane_focus_direction_params_direction :: pane_direction
  pane_focus_direction_params_pane_id :: "string optional"

definition pane_focus_direction_params_zero :: pane_focus_direction_params where
  "pane_focus_direction_params_zero = \<lparr>pane_focus_direction_params_direction = [],
     pane_focus_direction_params_pane_id = Absent\<rparr>"

definition pane_focus_direction_params_clone :: "pane_focus_direction_params \<Rightarrow> pane_focus_direction_params" where
  "pane_focus_direction_params_clone v = (let out = v in out)"

lemma pane_focus_direction_params_clone_id [clone_simps]: "pane_focus_direction_params_clone = id"
  by (simp add: fun_eq_iff pane_focus_direction_params_clone_def clone_simps)

record pane_input_set_params =
  pane_input_set_params_pane_id :: string
  pane_input_set_params_right_click :: pane_right_click_target

definition pane_input_set_params_zero :: pane_input_set_params where
  "pane_input_set_params_zero = \<lparr>pane_input_set_params_pane_id = [],
     pane_input_set_params_right_click = []\<rparr>"

definition pane_input_set_params_clone :: "pane_input_set_params \<Rightarrow> pane_input_set_params" where
  "pane_input_set_params_clone v = (let out = v in out)"

lemma pane_input_set_params_clone_id [clone_simps]: "pane_input_set_params_clone = id"
  by (simp add: fun_eq_iff pane_input_set_params_clone_def clone_simps)

record pane_layout_params =
  pane_layout_params_pane_id :: "string optional"

definition pane_layout_params_zero :: pane_layout_params where
  "pane_layout_params_zero = \<lparr>pane_layout_params_pane_id = Absent\<rparr>"

definition pane_layout_params_clone :: "pane_layout_params \<Rightarrow> pane_layout_params" where
  "pane_layout_params_clone v = (let out = v in out)"

lemma pane_layout_params_clone_id [clone_simps]: "pane_layout_params_clone = id"
  by (simp add: fun_eq_iff pane_layout_params_clone_def clone_simps)

record pane_link_activate_params =
  pane_link_activate_params_col :: "16 word"
  pane_link_activate_params_content_revision :: "64 word optional"
  pane_link_activate_params_offset_from_bottom :: "64 word optional"
  pane_link_activate_params_pane_id :: string
  pane_link_activate_params_viewport_row :: "16 word"

definition pane_link_activate_params_zero :: pane_link_activate_params where
  "pane_link_activate_params_zero = \<lparr>pane_link_activate_params_col = 0,
     pane_link_activate_params_content_revision = Absent,
     pane_link_activate_params_offset_from_bottom = Absent,
     pane_link_activate_params_pane_id = [],
     pane_link_activate_params_viewport_row = 0\<rparr>"

definition pane_link_activate_params_clone :: "pane_link_activate_params \<Rightarrow> pane_link_activate_params" where
  "pane_link_activate_params_clone v = (let out = v in out)"

lemma pane_link_activate_params_clone_id [clone_simps]: "pane_link_activate_params_clone = id"
  by (simp add: fun_eq_iff pane_link_activate_params_clone_def clone_simps)

record pane_list_params =
  pane_list_params_workspace_id :: "string optional"

definition pane_list_params_zero :: pane_list_params where
  "pane_list_params_zero = \<lparr>pane_list_params_workspace_id = Absent\<rparr>"

definition pane_list_params_clone :: "pane_list_params \<Rightarrow> pane_list_params" where
  "pane_list_params_clone v = (let out = v in out)"

lemma pane_list_params_clone_id [clone_simps]: "pane_list_params_clone = id"
  by (simp add: fun_eq_iff pane_list_params_clone_def clone_simps)

record pane_move_destination_new_tab =
  pane_move_destination_new_tab_label :: "string optional"
  pane_move_destination_new_tab_workspace_id :: "string optional"

definition pane_move_destination_new_tab_zero :: pane_move_destination_new_tab where
  "pane_move_destination_new_tab_zero = \<lparr>pane_move_destination_new_tab_label = Absent,
     pane_move_destination_new_tab_workspace_id = Absent\<rparr>"

definition pane_move_destination_new_tab_clone :: "pane_move_destination_new_tab \<Rightarrow> pane_move_destination_new_tab" where
  "pane_move_destination_new_tab_clone v = (let out = v in out)"

lemma pane_move_destination_new_tab_clone_id [clone_simps]: "pane_move_destination_new_tab_clone = id"
  by (simp add: fun_eq_iff pane_move_destination_new_tab_clone_def clone_simps)

end
