(* ===== verification/Param_Structs_B.thy ===== *)
theory Param_Structs_B
  imports Info_Types
begin

text \<open>
  The second half of the parameter structs of \<open>herdr/types_gen.go\<close> without unions.
\<close>

lemma clone_ptr_fun [clone_simps]: "clone_ptr = id"
  by (simp add: fun_eq_iff clone_simps)

record pane_move_destination_new_workspace =
  pane_move_destination_new_workspace_label :: "string optional"
  pane_move_destination_new_workspace_tab_label :: "string optional"

definition pane_move_destination_new_workspace_zero :: pane_move_destination_new_workspace where
  "pane_move_destination_new_workspace_zero = \<lparr>pane_move_destination_new_workspace_label = Absent,
     pane_move_destination_new_workspace_tab_label = Absent\<rparr>"

definition pane_move_destination_new_workspace_clone :: "pane_move_destination_new_workspace \<Rightarrow> pane_move_destination_new_workspace" where
  "pane_move_destination_new_workspace_clone v = (let out = v in out)"

lemma pane_move_destination_new_workspace_clone_id [clone_simps]: "pane_move_destination_new_workspace_clone = id"
  by (simp add: fun_eq_iff pane_move_destination_new_workspace_clone_def clone_simps)

record pane_move_destination_tab =
  pane_move_destination_tab_ratio :: "float64 optional"
  pane_move_destination_tab_split :: split_direction
  pane_move_destination_tab_tab_id :: string
  pane_move_destination_tab_target_pane_id :: "string optional"

definition pane_move_destination_tab_zero :: pane_move_destination_tab where
  "pane_move_destination_tab_zero = \<lparr>pane_move_destination_tab_ratio = Absent,
     pane_move_destination_tab_split = [],
     pane_move_destination_tab_tab_id = [],
     pane_move_destination_tab_target_pane_id = Absent\<rparr>"

definition pane_move_destination_tab_clone :: "pane_move_destination_tab \<Rightarrow> pane_move_destination_tab" where
  "pane_move_destination_tab_clone v = (let out = v in out)"

lemma pane_move_destination_tab_clone_id [clone_simps]: "pane_move_destination_tab_clone = id"
  by (simp add: fun_eq_iff pane_move_destination_tab_clone_def clone_simps)

record pane_neighbor_params =
  pane_neighbor_params_direction :: pane_direction
  pane_neighbor_params_pane_id :: "string optional"

definition pane_neighbor_params_zero :: pane_neighbor_params where
  "pane_neighbor_params_zero = \<lparr>pane_neighbor_params_direction = [],
     pane_neighbor_params_pane_id = Absent\<rparr>"

definition pane_neighbor_params_clone :: "pane_neighbor_params \<Rightarrow> pane_neighbor_params" where
  "pane_neighbor_params_clone v = (let out = v in out)"

lemma pane_neighbor_params_clone_id [clone_simps]: "pane_neighbor_params_clone = id"
  by (simp add: fun_eq_iff pane_neighbor_params_clone_def clone_simps)

record pane_process_info_params =
  pane_process_info_params_pane_id :: "string optional"

definition pane_process_info_params_zero :: pane_process_info_params where
  "pane_process_info_params_zero = \<lparr>pane_process_info_params_pane_id = Absent\<rparr>"

definition pane_process_info_params_clone :: "pane_process_info_params \<Rightarrow> pane_process_info_params" where
  "pane_process_info_params_clone v = (let out = v in out)"

lemma pane_process_info_params_clone_id [clone_simps]: "pane_process_info_params_clone = id"
  by (simp add: fun_eq_iff pane_process_info_params_clone_def clone_simps)

record pane_read_params =
  pane_read_params_format :: "read_format optional"
  pane_read_params_lines :: "32 word optional"
  pane_read_params_pane_id :: string
  pane_read_params_source :: read_source
  pane_read_params_strip_ansi :: "bool optional"

definition pane_read_params_zero :: pane_read_params where
  "pane_read_params_zero = \<lparr>pane_read_params_format = Absent,
     pane_read_params_lines = Absent,
     pane_read_params_pane_id = [],
     pane_read_params_source = [],
     pane_read_params_strip_ansi = Absent\<rparr>"

definition pane_read_params_clone :: "pane_read_params \<Rightarrow> pane_read_params" where
  "pane_read_params_clone v = (let out = v in out)"

lemma pane_read_params_clone_id [clone_simps]: "pane_read_params_clone = id"
  by (simp add: fun_eq_iff pane_read_params_clone_def clone_simps)

record pane_release_agent_params =
  pane_release_agent_params_agent :: string
  pane_release_agent_params_pane_id :: string
  pane_release_agent_params_seq :: "64 word optional"
  pane_release_agent_params_source :: string

definition pane_release_agent_params_zero :: pane_release_agent_params where
  "pane_release_agent_params_zero = \<lparr>pane_release_agent_params_agent = [],
     pane_release_agent_params_pane_id = [],
     pane_release_agent_params_seq = Absent,
     pane_release_agent_params_source = []\<rparr>"

definition pane_release_agent_params_clone :: "pane_release_agent_params \<Rightarrow> pane_release_agent_params" where
  "pane_release_agent_params_clone v = (let out = v in out)"

lemma pane_release_agent_params_clone_id [clone_simps]: "pane_release_agent_params_clone = id"
  by (simp add: fun_eq_iff pane_release_agent_params_clone_def clone_simps)

record pane_rename_params =
  pane_rename_params_label :: "string optional"
  pane_rename_params_pane_id :: string

definition pane_rename_params_zero :: pane_rename_params where
  "pane_rename_params_zero = \<lparr>pane_rename_params_label = Absent,
     pane_rename_params_pane_id = []\<rparr>"

definition pane_rename_params_clone :: "pane_rename_params \<Rightarrow> pane_rename_params" where
  "pane_rename_params_clone v = (let out = v in out)"

lemma pane_rename_params_clone_id [clone_simps]: "pane_rename_params_clone = id"
  by (simp add: fun_eq_iff pane_rename_params_clone_def clone_simps)

record pane_report_agent_params =
  pane_report_agent_params_agent :: string
  pane_report_agent_params_agent_session_id :: "string optional"
  pane_report_agent_params_agent_session_path :: "string optional"
  pane_report_agent_params_message :: "string optional"
  pane_report_agent_params_pane_id :: string
  pane_report_agent_params_resume_argv :: "string slice optional"
  pane_report_agent_params_seq :: "64 word optional"
  pane_report_agent_params_source :: string
  pane_report_agent_params_state :: pane_agent_state

definition pane_report_agent_params_zero :: pane_report_agent_params where
  "pane_report_agent_params_zero = \<lparr>pane_report_agent_params_agent = [],
     pane_report_agent_params_agent_session_id = Absent,
     pane_report_agent_params_agent_session_path = Absent,
     pane_report_agent_params_message = Absent,
     pane_report_agent_params_pane_id = [],
     pane_report_agent_params_resume_argv = Absent,
     pane_report_agent_params_seq = Absent,
     pane_report_agent_params_source = [],
     pane_report_agent_params_state = []\<rparr>"

definition pane_report_agent_params_clone :: "pane_report_agent_params \<Rightarrow> pane_report_agent_params" where
  "pane_report_agent_params_clone v =
    (let out = v;
      out = out\<lparr>pane_report_agent_params_resume_argv := clone_opt (clone_slice (\<lambda>x. x)) (pane_report_agent_params_resume_argv v)\<rparr>
     in out)"

lemma pane_report_agent_params_clone_id [clone_simps]: "pane_report_agent_params_clone = id"
  by (simp add: fun_eq_iff pane_report_agent_params_clone_def clone_simps)

record pane_report_agent_session_params =
  pane_report_agent_session_params_agent :: string
  pane_report_agent_session_params_agent_session_id :: "string optional"
  pane_report_agent_session_params_agent_session_path :: "string optional"
  pane_report_agent_session_params_pane_id :: string
  pane_report_agent_session_params_resume_argv :: "string slice optional"
  pane_report_agent_session_params_seq :: "64 word optional"
  pane_report_agent_session_params_session_start_source :: "string optional"
  pane_report_agent_session_params_source :: string

definition pane_report_agent_session_params_zero :: pane_report_agent_session_params where
  "pane_report_agent_session_params_zero = \<lparr>pane_report_agent_session_params_agent = [],
     pane_report_agent_session_params_agent_session_id = Absent,
     pane_report_agent_session_params_agent_session_path = Absent,
     pane_report_agent_session_params_pane_id = [],
     pane_report_agent_session_params_resume_argv = Absent,
     pane_report_agent_session_params_seq = Absent,
     pane_report_agent_session_params_session_start_source = Absent,
     pane_report_agent_session_params_source = []\<rparr>"

definition pane_report_agent_session_params_clone :: "pane_report_agent_session_params \<Rightarrow> pane_report_agent_session_params" where
  "pane_report_agent_session_params_clone v =
    (let out = v;
      out = out\<lparr>pane_report_agent_session_params_resume_argv := clone_opt (clone_slice (\<lambda>x. x)) (pane_report_agent_session_params_resume_argv v)\<rparr>
     in out)"

lemma pane_report_agent_session_params_clone_id [clone_simps]: "pane_report_agent_session_params_clone = id"
  by (simp add: fun_eq_iff pane_report_agent_session_params_clone_def clone_simps)

record pane_report_metadata_params =
  pane_report_metadata_params_agent :: "string optional"
  pane_report_metadata_params_applies_to_source :: "string optional"
  pane_report_metadata_params_clear_display_agent :: "bool optional"
  pane_report_metadata_params_clear_state_labels :: "bool optional"
  pane_report_metadata_params_clear_title :: "bool optional"
  pane_report_metadata_params_display_agent :: "string optional"
  pane_report_metadata_params_pane_id :: string
  pane_report_metadata_params_seq :: "64 word optional"
  pane_report_metadata_params_source :: string
  pane_report_metadata_params_state_labels :: "string str_map optional"
  pane_report_metadata_params_title :: "string optional"
  pane_report_metadata_params_tokens :: "string pointer str_map optional"
  pane_report_metadata_params_ttl_ms :: "64 word optional"

definition pane_report_metadata_params_zero :: pane_report_metadata_params where
  "pane_report_metadata_params_zero = \<lparr>pane_report_metadata_params_agent = Absent,
     pane_report_metadata_params_applies_to_source = Absent,
     pane_report_metadata_params_clear_display_agent = Absent,
     pane_report_metadata_params_clear_state_labels = Absent,
     pane_report_metadata_params_clear_title = Absent,
     pane_report_metadata_params_display_agent = Absent,
     pane_report_metadata_params_pane_id = [],
     pane_report_metadata_params_seq = Absent,
     pane_report_metadata_params_source = [],
     pane_report_metadata_params_state_labels = Absent,
     pane_report_metadata_params_title = Absent,
     pane_report_metadata_params_tokens = Absent,
     pane_report_metadata_params_ttl_ms = Absent\<rparr>"

definition pane_report_metadata_params_clone :: "pane_report_metadata_params \<Rightarrow> pane_report_metadata_params" where
  "pane_report_metadata_params_clone v =
    (let out = v;
      out = out\<lparr>pane_report_metadata_params_state_labels := clone_opt (clone_map (\<lambda>x. x)) (pane_report_metadata_params_state_labels v)\<rparr>;
      out = out\<lparr>pane_report_metadata_params_tokens := clone_opt (clone_map clone_ptr) (pane_report_metadata_params_tokens v)\<rparr>
     in out)"

lemma pane_report_metadata_params_clone_id [clone_simps]: "pane_report_metadata_params_clone = id"
  by (simp add: fun_eq_iff pane_report_metadata_params_clone_def clone_simps)

record pane_resize_params =
  pane_resize_params_amount :: "float64 optional"
  pane_resize_params_direction :: pane_direction
  pane_resize_params_pane_id :: "string optional"

definition pane_resize_params_zero :: pane_resize_params where
  "pane_resize_params_zero = \<lparr>pane_resize_params_amount = Absent,
     pane_resize_params_direction = [],
     pane_resize_params_pane_id = Absent\<rparr>"

definition pane_resize_params_clone :: "pane_resize_params \<Rightarrow> pane_resize_params" where
  "pane_resize_params_clone v = (let out = v in out)"

lemma pane_resize_params_clone_id [clone_simps]: "pane_resize_params_clone = id"
  by (simp add: fun_eq_iff pane_resize_params_clone_def clone_simps)

record pane_scroll_params =
  pane_scroll_params_offset_from_bottom :: "64 word"
  pane_scroll_params_pane_id :: string

definition pane_scroll_params_zero :: pane_scroll_params where
  "pane_scroll_params_zero = \<lparr>pane_scroll_params_offset_from_bottom = 0,
     pane_scroll_params_pane_id = []\<rparr>"

definition pane_scroll_params_clone :: "pane_scroll_params \<Rightarrow> pane_scroll_params" where
  "pane_scroll_params_clone v = (let out = v in out)"

lemma pane_scroll_params_clone_id [clone_simps]: "pane_scroll_params_clone = id"
  by (simp add: fun_eq_iff pane_scroll_params_clone_def clone_simps)

record pane_send_input_params =
  pane_send_input_params_keys :: "string slice optional"
  pane_send_input_params_pane_id :: string
  pane_send_input_params_text :: "string optional"

definition pane_send_input_params_zero :: pane_send_input_params where
  "pane_send_input_params_zero = \<lparr>pane_send_input_params_keys = Absent,
     pane_send_input_params_pane_id = [],
     pane_send_input_params_text = Absent\<rparr>"

definition pane_send_input_params_clone :: "pane_send_input_params \<Rightarrow> pane_send_input_params" where
  "pane_send_input_params_clone v =
    (let out = v;
      out = out\<lparr>pane_send_input_params_keys := clone_opt (clone_slice (\<lambda>x. x)) (pane_send_input_params_keys v)\<rparr>
     in out)"

lemma pane_send_input_params_clone_id [clone_simps]: "pane_send_input_params_clone = id"
  by (simp add: fun_eq_iff pane_send_input_params_clone_def clone_simps)

record pane_send_keys_params =
  pane_send_keys_params_keys :: "string slice"
  pane_send_keys_params_pane_id :: string

definition pane_send_keys_params_zero :: pane_send_keys_params where
  "pane_send_keys_params_zero = \<lparr>pane_send_keys_params_keys = None,
     pane_send_keys_params_pane_id = []\<rparr>"

definition pane_send_keys_params_clone :: "pane_send_keys_params \<Rightarrow> pane_send_keys_params" where
  "pane_send_keys_params_clone v =
    (let out = v;
      out = out\<lparr>pane_send_keys_params_keys := clone_slice (\<lambda>x. x) (pane_send_keys_params_keys v)\<rparr>
     in out)"

lemma pane_send_keys_params_clone_id [clone_simps]: "pane_send_keys_params_clone = id"
  by (simp add: fun_eq_iff pane_send_keys_params_clone_def clone_simps)

record pane_send_text_params =
  pane_send_text_params_pane_id :: string
  pane_send_text_params_text :: string

definition pane_send_text_params_zero :: pane_send_text_params where
  "pane_send_text_params_zero = \<lparr>pane_send_text_params_pane_id = [],
     pane_send_text_params_text = []\<rparr>"

definition pane_send_text_params_clone :: "pane_send_text_params \<Rightarrow> pane_send_text_params" where
  "pane_send_text_params_clone v = (let out = v in out)"

lemma pane_send_text_params_clone_id [clone_simps]: "pane_send_text_params_clone = id"
  by (simp add: fun_eq_iff pane_send_text_params_clone_def clone_simps)

record pane_split_params =
  pane_split_params_cwd :: "string optional"
  pane_split_params_direction :: split_direction
  pane_split_params_env :: "string str_map optional"
  pane_split_params_focus :: "bool optional"
  pane_split_params_ratio :: "float64 optional"
  pane_split_params_right_click :: "pane_right_click_target optional"
  pane_split_params_target_pane_id :: "string optional"
  pane_split_params_workspace_id :: "string optional"

definition pane_split_params_zero :: pane_split_params where
  "pane_split_params_zero = \<lparr>pane_split_params_cwd = Absent,
     pane_split_params_direction = [],
     pane_split_params_env = Absent,
     pane_split_params_focus = Absent,
     pane_split_params_ratio = Absent,
     pane_split_params_right_click = Absent,
     pane_split_params_target_pane_id = Absent,
     pane_split_params_workspace_id = Absent\<rparr>"

definition pane_split_params_clone :: "pane_split_params \<Rightarrow> pane_split_params" where
  "pane_split_params_clone v =
    (let out = v;
      out = out\<lparr>pane_split_params_env := clone_opt (clone_map (\<lambda>x. x)) (pane_split_params_env v)\<rparr>
     in out)"

lemma pane_split_params_clone_id [clone_simps]: "pane_split_params_clone = id"
  by (simp add: fun_eq_iff pane_split_params_clone_def clone_simps)

record pane_swap_params =
  pane_swap_params_direction :: "pane_direction optional"
  pane_swap_params_pane_id :: "string optional"
  pane_swap_params_source_pane_id :: "string optional"
  pane_swap_params_target_pane_id :: "string optional"

definition pane_swap_params_zero :: pane_swap_params where
  "pane_swap_params_zero = \<lparr>pane_swap_params_direction = Absent,
     pane_swap_params_pane_id = Absent,
     pane_swap_params_source_pane_id = Absent,
     pane_swap_params_target_pane_id = Absent\<rparr>"

definition pane_swap_params_clone :: "pane_swap_params \<Rightarrow> pane_swap_params" where
  "pane_swap_params_clone v = (let out = v in out)"

lemma pane_swap_params_clone_id [clone_simps]: "pane_swap_params_clone = id"
  by (simp add: fun_eq_iff pane_swap_params_clone_def clone_simps)

record pane_target =
  pane_target_pane_id :: string

definition pane_target_zero :: pane_target where
  "pane_target_zero = \<lparr>pane_target_pane_id = []\<rparr>"

definition pane_target_clone :: "pane_target \<Rightarrow> pane_target" where
  "pane_target_clone v = (let out = v in out)"

lemma pane_target_clone_id [clone_simps]: "pane_target_clone = id"
  by (simp add: fun_eq_iff pane_target_clone_def clone_simps)

record pane_zoom_params =
  pane_zoom_params_mode :: "pane_zoom_mode optional"
  pane_zoom_params_pane_id :: "string optional"

definition pane_zoom_params_zero :: pane_zoom_params where
  "pane_zoom_params_zero = \<lparr>pane_zoom_params_mode = Absent,
     pane_zoom_params_pane_id = Absent\<rparr>"

definition pane_zoom_params_clone :: "pane_zoom_params \<Rightarrow> pane_zoom_params" where
  "pane_zoom_params_clone v = (let out = v in out)"

lemma pane_zoom_params_clone_id [clone_simps]: "pane_zoom_params_clone = id"
  by (simp add: fun_eq_iff pane_zoom_params_clone_def clone_simps)

record plugin_action_invoke_params =
  plugin_action_invoke_params_action_id :: string
  plugin_action_invoke_params_context :: "plugin_invocation_context optional"
  plugin_action_invoke_params_plugin_id :: "string optional"

definition plugin_action_invoke_params_zero :: plugin_action_invoke_params where
  "plugin_action_invoke_params_zero = \<lparr>plugin_action_invoke_params_action_id = [],
     plugin_action_invoke_params_context = Absent,
     plugin_action_invoke_params_plugin_id = Absent\<rparr>"

definition plugin_action_invoke_params_clone :: "plugin_action_invoke_params \<Rightarrow> plugin_action_invoke_params" where
  "plugin_action_invoke_params_clone v =
    (let out = v;
      out = out\<lparr>plugin_action_invoke_params_context := clone_opt plugin_invocation_context_clone (plugin_action_invoke_params_context v)\<rparr>
     in out)"

lemma plugin_action_invoke_params_clone_id [clone_simps]: "plugin_action_invoke_params_clone = id"
  by (simp add: fun_eq_iff plugin_action_invoke_params_clone_def clone_simps)

record plugin_action_list_params =
  plugin_action_list_params_plugin_id :: "string optional"

definition plugin_action_list_params_zero :: plugin_action_list_params where
  "plugin_action_list_params_zero = \<lparr>plugin_action_list_params_plugin_id = Absent\<rparr>"

definition plugin_action_list_params_clone :: "plugin_action_list_params \<Rightarrow> plugin_action_list_params" where
  "plugin_action_list_params_clone v = (let out = v in out)"

lemma plugin_action_list_params_clone_id [clone_simps]: "plugin_action_list_params_clone = id"
  by (simp add: fun_eq_iff plugin_action_list_params_clone_def clone_simps)

record plugin_link_params =
  plugin_link_params_enabled :: "bool optional"
  plugin_link_params_path :: string
  plugin_link_params_source :: "plugin_source_info optional"

definition plugin_link_params_zero :: plugin_link_params where
  "plugin_link_params_zero = \<lparr>plugin_link_params_enabled = Absent,
     plugin_link_params_path = [],
     plugin_link_params_source = Absent\<rparr>"

definition plugin_link_params_clone :: "plugin_link_params \<Rightarrow> plugin_link_params" where
  "plugin_link_params_clone v =
    (let out = v;
      out = out\<lparr>plugin_link_params_source := clone_opt plugin_source_info_clone (plugin_link_params_source v)\<rparr>
     in out)"

lemma plugin_link_params_clone_id [clone_simps]: "plugin_link_params_clone = id"
  by (simp add: fun_eq_iff plugin_link_params_clone_def clone_simps)

record plugin_list_params =
  plugin_list_params_plugin_id :: "string optional"

definition plugin_list_params_zero :: plugin_list_params where
  "plugin_list_params_zero = \<lparr>plugin_list_params_plugin_id = Absent\<rparr>"

definition plugin_list_params_clone :: "plugin_list_params \<Rightarrow> plugin_list_params" where
  "plugin_list_params_clone v = (let out = v in out)"

lemma plugin_list_params_clone_id [clone_simps]: "plugin_list_params_clone = id"
  by (simp add: fun_eq_iff plugin_list_params_clone_def clone_simps)

record plugin_log_list_params =
  plugin_log_list_params_limit :: "64 word optional"
  plugin_log_list_params_plugin_id :: "string optional"

definition plugin_log_list_params_zero :: plugin_log_list_params where
  "plugin_log_list_params_zero = \<lparr>plugin_log_list_params_limit = Absent,
     plugin_log_list_params_plugin_id = Absent\<rparr>"

definition plugin_log_list_params_clone :: "plugin_log_list_params \<Rightarrow> plugin_log_list_params" where
  "plugin_log_list_params_clone v = (let out = v in out)"

lemma plugin_log_list_params_clone_id [clone_simps]: "plugin_log_list_params_clone = id"
  by (simp add: fun_eq_iff plugin_log_list_params_clone_def clone_simps)

record plugin_pane_close_params =
  plugin_pane_close_params_pane_id :: string

definition plugin_pane_close_params_zero :: plugin_pane_close_params where
  "plugin_pane_close_params_zero = \<lparr>plugin_pane_close_params_pane_id = []\<rparr>"

definition plugin_pane_close_params_clone :: "plugin_pane_close_params \<Rightarrow> plugin_pane_close_params" where
  "plugin_pane_close_params_clone v = (let out = v in out)"

lemma plugin_pane_close_params_clone_id [clone_simps]: "plugin_pane_close_params_clone = id"
  by (simp add: fun_eq_iff plugin_pane_close_params_clone_def clone_simps)

record plugin_pane_focus_params =
  plugin_pane_focus_params_pane_id :: string

definition plugin_pane_focus_params_zero :: plugin_pane_focus_params where
  "plugin_pane_focus_params_zero = \<lparr>plugin_pane_focus_params_pane_id = []\<rparr>"

definition plugin_pane_focus_params_clone :: "plugin_pane_focus_params \<Rightarrow> plugin_pane_focus_params" where
  "plugin_pane_focus_params_clone v = (let out = v in out)"

lemma plugin_pane_focus_params_clone_id [clone_simps]: "plugin_pane_focus_params_clone = id"
  by (simp add: fun_eq_iff plugin_pane_focus_params_clone_def clone_simps)

record plugin_set_enabled_params =
  plugin_set_enabled_params_plugin_id :: string

definition plugin_set_enabled_params_zero :: plugin_set_enabled_params where
  "plugin_set_enabled_params_zero = \<lparr>plugin_set_enabled_params_plugin_id = []\<rparr>"

definition plugin_set_enabled_params_clone :: "plugin_set_enabled_params \<Rightarrow> plugin_set_enabled_params" where
  "plugin_set_enabled_params_clone v = (let out = v in out)"

lemma plugin_set_enabled_params_clone_id [clone_simps]: "plugin_set_enabled_params_clone = id"
  by (simp add: fun_eq_iff plugin_set_enabled_params_clone_def clone_simps)

record plugin_unlink_params =
  plugin_unlink_params_plugin_id :: string

definition plugin_unlink_params_zero :: plugin_unlink_params where
  "plugin_unlink_params_zero = \<lparr>plugin_unlink_params_plugin_id = []\<rparr>"

definition plugin_unlink_params_clone :: "plugin_unlink_params \<Rightarrow> plugin_unlink_params" where
  "plugin_unlink_params_clone v = (let out = v in out)"

lemma plugin_unlink_params_clone_id [clone_simps]: "plugin_unlink_params_clone = id"
  by (simp add: fun_eq_iff plugin_unlink_params_clone_def clone_simps)

record product_announcement_dismiss_params =
  product_announcement_dismiss_params_id :: string
  product_announcement_dismiss_params_version :: string

definition product_announcement_dismiss_params_zero :: product_announcement_dismiss_params where
  "product_announcement_dismiss_params_zero = \<lparr>product_announcement_dismiss_params_id = [],
     product_announcement_dismiss_params_version = []\<rparr>"

definition product_announcement_dismiss_params_clone :: "product_announcement_dismiss_params \<Rightarrow> product_announcement_dismiss_params" where
  "product_announcement_dismiss_params_clone v = (let out = v in out)"

lemma product_announcement_dismiss_params_clone_id [clone_simps]: "product_announcement_dismiss_params_clone = id"
  by (simp add: fun_eq_iff product_announcement_dismiss_params_clone_def clone_simps)

record release_notes_dismiss_params =
  release_notes_dismiss_params_version :: string

definition release_notes_dismiss_params_zero :: release_notes_dismiss_params where
  "release_notes_dismiss_params_zero = \<lparr>release_notes_dismiss_params_version = []\<rparr>"

definition release_notes_dismiss_params_clone :: "release_notes_dismiss_params \<Rightarrow> release_notes_dismiss_params" where
  "release_notes_dismiss_params_clone v = (let out = v in out)"

lemma release_notes_dismiss_params_clone_id [clone_simps]: "release_notes_dismiss_params_clone = id"
  by (simp add: fun_eq_iff release_notes_dismiss_params_clone_def clone_simps)

record server_live_handoff_params =
  server_live_handoff_params_expected_protocol :: "32 word optional"
  server_live_handoff_params_expected_version :: "string optional"
  server_live_handoff_params_import_exe :: "string optional"

definition server_live_handoff_params_zero :: server_live_handoff_params where
  "server_live_handoff_params_zero = \<lparr>server_live_handoff_params_expected_protocol = Absent,
     server_live_handoff_params_expected_version = Absent,
     server_live_handoff_params_import_exe = Absent\<rparr>"

definition server_live_handoff_params_clone :: "server_live_handoff_params \<Rightarrow> server_live_handoff_params" where
  "server_live_handoff_params_clone v = (let out = v in out)"

lemma server_live_handoff_params_clone_id [clone_simps]: "server_live_handoff_params_clone = id"
  by (simp add: fun_eq_iff server_live_handoff_params_clone_def clone_simps)

record server_ssh_agent_register_params =
  server_ssh_agent_register_params_socket_path :: string

definition server_ssh_agent_register_params_zero :: server_ssh_agent_register_params where
  "server_ssh_agent_register_params_zero = \<lparr>server_ssh_agent_register_params_socket_path = []\<rparr>"

definition server_ssh_agent_register_params_clone :: "server_ssh_agent_register_params \<Rightarrow> server_ssh_agent_register_params" where
  "server_ssh_agent_register_params_clone v = (let out = v in out)"

lemma server_ssh_agent_register_params_clone_id [clone_simps]: "server_ssh_agent_register_params_clone = id"
  by (simp add: fun_eq_iff server_ssh_agent_register_params_clone_def clone_simps)

record tab_create_params =
  tab_create_params_cwd :: "string optional"
  tab_create_params_env :: "string str_map optional"
  tab_create_params_focus :: "bool optional"
  tab_create_params_label :: "string optional"
  tab_create_params_workspace_id :: "string optional"

definition tab_create_params_zero :: tab_create_params where
  "tab_create_params_zero = \<lparr>tab_create_params_cwd = Absent,
     tab_create_params_env = Absent,
     tab_create_params_focus = Absent,
     tab_create_params_label = Absent,
     tab_create_params_workspace_id = Absent\<rparr>"

definition tab_create_params_clone :: "tab_create_params \<Rightarrow> tab_create_params" where
  "tab_create_params_clone v =
    (let out = v;
      out = out\<lparr>tab_create_params_env := clone_opt (clone_map (\<lambda>x. x)) (tab_create_params_env v)\<rparr>
     in out)"

lemma tab_create_params_clone_id [clone_simps]: "tab_create_params_clone = id"
  by (simp add: fun_eq_iff tab_create_params_clone_def clone_simps)

record tab_list_params =
  tab_list_params_workspace_id :: "string optional"

definition tab_list_params_zero :: tab_list_params where
  "tab_list_params_zero = \<lparr>tab_list_params_workspace_id = Absent\<rparr>"

definition tab_list_params_clone :: "tab_list_params \<Rightarrow> tab_list_params" where
  "tab_list_params_clone v = (let out = v in out)"

lemma tab_list_params_clone_id [clone_simps]: "tab_list_params_clone = id"
  by (simp add: fun_eq_iff tab_list_params_clone_def clone_simps)

record tab_move_params =
  tab_move_params_insert_index :: "64 word"
  tab_move_params_tab_id :: string

definition tab_move_params_zero :: tab_move_params where
  "tab_move_params_zero = \<lparr>tab_move_params_insert_index = 0,
     tab_move_params_tab_id = []\<rparr>"

definition tab_move_params_clone :: "tab_move_params \<Rightarrow> tab_move_params" where
  "tab_move_params_clone v = (let out = v in out)"

lemma tab_move_params_clone_id [clone_simps]: "tab_move_params_clone = id"
  by (simp add: fun_eq_iff tab_move_params_clone_def clone_simps)

record tab_rename_params =
  tab_rename_params_label :: string
  tab_rename_params_tab_id :: string

definition tab_rename_params_zero :: tab_rename_params where
  "tab_rename_params_zero = \<lparr>tab_rename_params_label = [],
     tab_rename_params_tab_id = []\<rparr>"

definition tab_rename_params_clone :: "tab_rename_params \<Rightarrow> tab_rename_params" where
  "tab_rename_params_clone v = (let out = v in out)"

lemma tab_rename_params_clone_id [clone_simps]: "tab_rename_params_clone = id"
  by (simp add: fun_eq_iff tab_rename_params_clone_def clone_simps)

record tab_target =
  tab_target_tab_id :: string

definition tab_target_zero :: tab_target where
  "tab_target_zero = \<lparr>tab_target_tab_id = []\<rparr>"

definition tab_target_clone :: "tab_target \<Rightarrow> tab_target" where
  "tab_target_clone v = (let out = v in out)"

lemma tab_target_clone_id [clone_simps]: "tab_target_clone = id"
  by (simp add: fun_eq_iff tab_target_clone_def clone_simps)

record workspace_close_params =
  workspace_close_params_close_group :: "bool optional"
  workspace_close_params_workspace_id :: string

definition workspace_close_params_zero :: workspace_close_params where
  "workspace_close_params_zero = \<lparr>workspace_close_params_close_group = Absent,
     workspace_close_params_workspace_id = []\<rparr>"

definition workspace_close_params_clone :: "workspace_close_params \<Rightarrow> workspace_close_params" where
  "workspace_close_params_clone v = (let out = v in out)"

lemma workspace_close_params_clone_id [clone_simps]: "workspace_close_params_clone = id"
  by (simp add: fun_eq_iff workspace_close_params_clone_def clone_simps)

record workspace_create_params =
  workspace_create_params_cwd :: "string optional"
  workspace_create_params_env :: "string str_map optional"
  workspace_create_params_focus :: "bool optional"
  workspace_create_params_label :: "string optional"
  workspace_create_params_source_workspace_id :: "string optional"

definition workspace_create_params_zero :: workspace_create_params where
  "workspace_create_params_zero = \<lparr>workspace_create_params_cwd = Absent,
     workspace_create_params_env = Absent,
     workspace_create_params_focus = Absent,
     workspace_create_params_label = Absent,
     workspace_create_params_source_workspace_id = Absent\<rparr>"

definition workspace_create_params_clone :: "workspace_create_params \<Rightarrow> workspace_create_params" where
  "workspace_create_params_clone v =
    (let out = v;
      out = out\<lparr>workspace_create_params_env := clone_opt (clone_map (\<lambda>x. x)) (workspace_create_params_env v)\<rparr>
     in out)"

lemma workspace_create_params_clone_id [clone_simps]: "workspace_create_params_clone = id"
  by (simp add: fun_eq_iff workspace_create_params_clone_def clone_simps)

record workspace_move_block_params =
  workspace_move_block_params_before_workspace_id :: "string optional"
  workspace_move_block_params_workspace_ids :: "string slice"

definition workspace_move_block_params_zero :: workspace_move_block_params where
  "workspace_move_block_params_zero = \<lparr>workspace_move_block_params_before_workspace_id = Absent,
     workspace_move_block_params_workspace_ids = None\<rparr>"

definition workspace_move_block_params_clone :: "workspace_move_block_params \<Rightarrow> workspace_move_block_params" where
  "workspace_move_block_params_clone v =
    (let out = v;
      out = out\<lparr>workspace_move_block_params_workspace_ids := clone_slice (\<lambda>x. x) (workspace_move_block_params_workspace_ids v)\<rparr>
     in out)"

lemma workspace_move_block_params_clone_id [clone_simps]: "workspace_move_block_params_clone = id"
  by (simp add: fun_eq_iff workspace_move_block_params_clone_def clone_simps)

record workspace_move_params =
  workspace_move_params_insert_index :: "64 word"
  workspace_move_params_workspace_id :: string

definition workspace_move_params_zero :: workspace_move_params where
  "workspace_move_params_zero = \<lparr>workspace_move_params_insert_index = 0,
     workspace_move_params_workspace_id = []\<rparr>"

definition workspace_move_params_clone :: "workspace_move_params \<Rightarrow> workspace_move_params" where
  "workspace_move_params_clone v = (let out = v in out)"

lemma workspace_move_params_clone_id [clone_simps]: "workspace_move_params_clone = id"
  by (simp add: fun_eq_iff workspace_move_params_clone_def clone_simps)

record workspace_rename_params =
  workspace_rename_params_label :: string
  workspace_rename_params_workspace_id :: string

definition workspace_rename_params_zero :: workspace_rename_params where
  "workspace_rename_params_zero = \<lparr>workspace_rename_params_label = [],
     workspace_rename_params_workspace_id = []\<rparr>"

definition workspace_rename_params_clone :: "workspace_rename_params \<Rightarrow> workspace_rename_params" where
  "workspace_rename_params_clone v = (let out = v in out)"

lemma workspace_rename_params_clone_id [clone_simps]: "workspace_rename_params_clone = id"
  by (simp add: fun_eq_iff workspace_rename_params_clone_def clone_simps)

record workspace_report_metadata_params =
  workspace_report_metadata_params_seq :: "64 word optional"
  workspace_report_metadata_params_source :: string
  workspace_report_metadata_params_tokens :: "string pointer str_map"
  workspace_report_metadata_params_ttl_ms :: "64 word optional"
  workspace_report_metadata_params_workspace_id :: string

definition workspace_report_metadata_params_zero :: workspace_report_metadata_params where
  "workspace_report_metadata_params_zero = \<lparr>workspace_report_metadata_params_seq = Absent,
     workspace_report_metadata_params_source = [],
     workspace_report_metadata_params_tokens = None,
     workspace_report_metadata_params_ttl_ms = Absent,
     workspace_report_metadata_params_workspace_id = []\<rparr>"

definition workspace_report_metadata_params_clone :: "workspace_report_metadata_params \<Rightarrow> workspace_report_metadata_params" where
  "workspace_report_metadata_params_clone v =
    (let out = v;
      out = out\<lparr>workspace_report_metadata_params_tokens := clone_map clone_ptr (workspace_report_metadata_params_tokens v)\<rparr>
     in out)"

lemma workspace_report_metadata_params_clone_id [clone_simps]: "workspace_report_metadata_params_clone = id"
  by (simp add: fun_eq_iff workspace_report_metadata_params_clone_def clone_simps)

record workspace_target =
  workspace_target_workspace_id :: string

definition workspace_target_zero :: workspace_target where
  "workspace_target_zero = \<lparr>workspace_target_workspace_id = []\<rparr>"

definition workspace_target_clone :: "workspace_target \<Rightarrow> workspace_target" where
  "workspace_target_clone v = (let out = v in out)"

lemma workspace_target_clone_id [clone_simps]: "workspace_target_clone = id"
  by (simp add: fun_eq_iff workspace_target_clone_def clone_simps)

record worktree_create_params =
  worktree_create_params_base :: "string optional"
  worktree_create_params_branch :: "string optional"
  worktree_create_params_cwd :: "string optional"
  worktree_create_params_focus :: "bool optional"
  worktree_create_params_label :: "string optional"
  worktree_create_params_path :: "string optional"
  worktree_create_params_trust_repository :: "bool optional"
  worktree_create_params_workspace_id :: "string optional"

definition worktree_create_params_zero :: worktree_create_params where
  "worktree_create_params_zero = \<lparr>worktree_create_params_base = Absent,
     worktree_create_params_branch = Absent,
     worktree_create_params_cwd = Absent,
     worktree_create_params_focus = Absent,
     worktree_create_params_label = Absent,
     worktree_create_params_path = Absent,
     worktree_create_params_trust_repository = Absent,
     worktree_create_params_workspace_id = Absent\<rparr>"

definition worktree_create_params_clone :: "worktree_create_params \<Rightarrow> worktree_create_params" where
  "worktree_create_params_clone v = (let out = v in out)"

lemma worktree_create_params_clone_id [clone_simps]: "worktree_create_params_clone = id"
  by (simp add: fun_eq_iff worktree_create_params_clone_def clone_simps)

record worktree_list_params =
  worktree_list_params_cwd :: "string optional"
  worktree_list_params_trust_repository :: "bool optional"
  worktree_list_params_workspace_id :: "string optional"

definition worktree_list_params_zero :: worktree_list_params where
  "worktree_list_params_zero = \<lparr>worktree_list_params_cwd = Absent,
     worktree_list_params_trust_repository = Absent,
     worktree_list_params_workspace_id = Absent\<rparr>"

definition worktree_list_params_clone :: "worktree_list_params \<Rightarrow> worktree_list_params" where
  "worktree_list_params_clone v = (let out = v in out)"

lemma worktree_list_params_clone_id [clone_simps]: "worktree_list_params_clone = id"
  by (simp add: fun_eq_iff worktree_list_params_clone_def clone_simps)

record worktree_open_params =
  worktree_open_params_branch :: "string optional"
  worktree_open_params_cwd :: "string optional"
  worktree_open_params_focus :: "bool optional"
  worktree_open_params_label :: "string optional"
  worktree_open_params_path :: "string optional"
  worktree_open_params_trust_repository :: "bool optional"
  worktree_open_params_workspace_id :: "string optional"

definition worktree_open_params_zero :: worktree_open_params where
  "worktree_open_params_zero = \<lparr>worktree_open_params_branch = Absent,
     worktree_open_params_cwd = Absent,
     worktree_open_params_focus = Absent,
     worktree_open_params_label = Absent,
     worktree_open_params_path = Absent,
     worktree_open_params_trust_repository = Absent,
     worktree_open_params_workspace_id = Absent\<rparr>"

definition worktree_open_params_clone :: "worktree_open_params \<Rightarrow> worktree_open_params" where
  "worktree_open_params_clone v = (let out = v in out)"

lemma worktree_open_params_clone_id [clone_simps]: "worktree_open_params_clone = id"
  by (simp add: fun_eq_iff worktree_open_params_clone_def clone_simps)

record worktree_remove_params =
  worktree_remove_params_force :: "bool optional"
  worktree_remove_params_trust_repository :: "bool optional"
  worktree_remove_params_workspace_id :: string

definition worktree_remove_params_zero :: worktree_remove_params where
  "worktree_remove_params_zero = \<lparr>worktree_remove_params_force = Absent,
     worktree_remove_params_trust_repository = Absent,
     worktree_remove_params_workspace_id = []\<rparr>"

definition worktree_remove_params_clone :: "worktree_remove_params \<Rightarrow> worktree_remove_params" where
  "worktree_remove_params_clone v = (let out = v in out)"

lemma worktree_remove_params_clone_id [clone_simps]: "worktree_remove_params_clone = id"
  by (simp add: fun_eq_iff worktree_remove_params_clone_def clone_simps)

end
