(* ===== verification/Agent_View.thy ===== *)
theory Agent_View
  imports Layout_Node Api_Enums
begin

text \<open>
  The filters of an agent view: the union \<open>AgentViewFilter\<close> of \<open>herdr/types_gen.go\<close>, whose tag is the member
  \<open>op\<close> and whose variants hold filters again, and the parameters that carry one. A union value is taken as
  the value a decoder produces; \<open>None\<close> is the nil interface.
\<close>

subsection \<open>Tags of any name\<close>

definition tagged_by :: "string \<Rightarrow> string \<Rightarrow> 'r field list \<Rightarrow> 'r \<Rightarrow> json" where
  "tagged_by tag type fs v = JObj ((tag, JStr type) # encode_members fs v)"

lemma tagged_by_not_null: "tagged_by tag type fs v \<noteq> JNull"
  by (simp add: tagged_by_def)

definition head_field :: "string \<Rightarrow> string field list" where
  "head_field tag = [plain_field tag string_codec (\<lambda>t. t) (\<lambda>x t. x)]"

definition free_of :: "string \<Rightarrow> 'r field list \<Rightarrow> bool" where
  "free_of tag fs \<longleftrightarrow> (\<forall>f \<in> set fs. fold_name (fld_name f) \<noteq> fold_name tag)"

lemma head_field_simps:
  "find_field (head_field tag) tag = Some (plain_field tag string_codec (\<lambda>t. t) (\<lambda>x t. x))"
  "fold_name k \<noteq> fold_name tag \<Longrightarrow> find_field (head_field tag) k = None"
  by (auto simp: find_field_def head_field_def field_names simp del: fold_name.simps)

lemma decode_head:
  assumes "free_of tag fs"
  shows "decode_struct (head_field tag) (tagged_by tag type fs v) [] = Some type"
proof -
  have "\<forall>kv \<in> set (encode_members fs v). find_field (head_field tag) (fst kv) = None"
    using assms encode_members_names [of fs v] unfolding free_of_def
    by (metis (no_types) head_field_simps(2) imageE image_eqI subsetD)
  then have "decode_members (head_field tag) (encode_members fs v) type = Some type"
    by (rule decode_members_none)
  then show ?thesis
    by (simp add: decode_struct_def tagged_by_def head_field_simps)
      (simp add: plain_field_def string_codec_def)
qed

lemma free_of_none: "free_of tag fs \<Longrightarrow> find_field fs tag = None"
  unfolding free_of_def find_field_def by (auto simp: find_None_iff split: option.split)

lemma decode_tagged_by:
  assumes "lawful c" "c = struct_codec z fs" "free_of tag fs" "cod_ok c v"
  shows "cod_dec c (tagged_by tag type fs v) z = Some v"
  using lawfulD [OF assms(1,4)] assms(2)
  by (simp add: struct_codec_def decode_struct_def tagged_by_def free_of_none [OF assms(3)])

text \<open>The struct around raw documents that the decoder of a union starts with: one, or a slice of them.\<close>

definition raw_member :: "string \<Rightarrow> json \<Rightarrow> json option option" where
  "raw_member name j = decode_struct [plain_field name raw_codec (\<lambda>r. r) (\<lambda>x r. x)] j None"

definition raw_items :: "string \<Rightarrow> json \<Rightarrow> json option slice option" where
  "raw_items name j = decode_struct [plain_field name (slice_codec raw_codec) (\<lambda>r. r) (\<lambda>x r. x)] j None"

lemma find_single: "find_field [f] k = Some g \<Longrightarrow> g = f"
  by (auto simp: find_field_def split: if_splits)

lemma raw_member_in:
  "decode_members [plain_field name raw_codec (\<lambda>r. r) (\<lambda>x r. x)] kvs r = Some r' \<Longrightarrow> r' \<in> insert r (Some ` snd ` set kvs)"
proof (induction kvs arbitrary: r)
  case (Cons kv kvs)
  obtain k j where kv: "kv = (k, j)" by fastforce
  show ?case
  proof (cases "find_field [plain_field name raw_codec (\<lambda>r. r) (\<lambda>x r. x)] k")
    case None
    with Cons kv show ?thesis by auto
  next
    case (Some f)
    with Cons.prems kv find_single [OF Some]
    have "decode_members [plain_field name raw_codec (\<lambda>r. r) (\<lambda>x r. x)] kvs (Some j) = Some r'"
      by (simp add: plain_field_def raw_codec_def)
    from Cons.IH [OF this] kv show ?thesis by auto
  qed
qed simp

lemma member_smaller: "(k, j) \<in> set kvs \<Longrightarrow> size j < size (JObj kvs)"
proof -
  assume "(k, j) \<in> set kvs"
  then have "size j < size_list (\<lambda>p. size (snd p)) kvs + 1"
    by (induction kvs) auto
  moreover have "size_list (\<lambda>p. size (snd p)) kvs \<le> size_list (size_prod (\<lambda>x. 0) size) kvs"
    by (rule size_list_pointwise) auto
  ultimately show ?thesis by simp
qed

lemma raw_member_smaller:
  assumes "raw_member name j = Some (Some j')"
  shows "size j' < size j"
proof -
  from assms obtain kvs where kvs: "j = JObj kvs"
    "decode_members [plain_field name raw_codec (\<lambda>r. r) (\<lambda>x r. x)] kvs None = Some (Some j')"
    by (cases j) (auto simp: raw_member_def decode_struct_def)
  from raw_member_in [OF kvs(2)] obtain k where "(k, j') \<in> set kvs" by auto
  then show ?thesis using kvs(1) member_smaller by blast
qed

lemma decode_raw_elems: "decode_elems raw_codec js old = Some (map Some js)"
  by (induction js arbitrary: old) (simp_all add: raw_codec_def)

lemma raw_items_in:
  "decode_members [plain_field name (slice_codec raw_codec) (\<lambda>r. r) (\<lambda>x r. x)] kvs r = Some r' \<Longrightarrow>
    r' = r \<or> r' = None \<or> (\<exists>js. JArr js \<in> snd ` set kvs \<and> r' = Some (map Some js))"
proof (induction kvs arbitrary: r)
  case (Cons kv kvs)
  let ?f = "plain_field name (slice_codec raw_codec) (\<lambda>r. r) (\<lambda>x r. x)"
  obtain k j where kv: "kv = (k, j)" by fastforce
  show ?case
  proof (cases "find_field [?f] k")
    case None
    with Cons.prems kv have "decode_members [?f] kvs r = Some r'" by simp
    from Cons.IH [OF this] kv show ?thesis by auto
  next
    case (Some f)
    with Cons.prems kv find_single [OF Some] obtain r1 where r1:
      "cod_dec (slice_codec raw_codec) j r = Some r1" "decode_members [?f] kvs r1 = Some r'"
      by (auto simp: plain_field_def split: option.splits)
    from r1(1) have "r1 = None \<or> (\<exists>js. j = JArr js \<and> r1 = Some (map Some js))"
      by (cases j) (simp_all add: slice_codec_def decode_raw_elems)
    moreover have "JArr js \<in> snd ` set (kv # kvs)" if "j = JArr js" for js using kv that by simp
    ultimately show ?thesis using Cons.IH [OF r1(2)] by (elim disjE) auto
  qed
qed simp

fun raw_weight :: "json option \<Rightarrow> nat" where
  "raw_weight None = 2"
| "raw_weight (Some j) = 3 * size j + 2"

lemma raw_items_smaller:
  assumes "raw_items name j = Some items"
  shows "(\<Sum>i\<leftarrow>elems items. raw_weight i) < 3 * size j + 1"
proof (cases "elems items")
  case (Cons i rest)
  from assms Cons obtain kvs where kvs: "j = JObj kvs"
    "decode_members [plain_field name (slice_codec raw_codec) (\<lambda>r. r) (\<lambda>x r. x)] kvs None = Some items"
    by (cases j) (auto simp: raw_items_def decode_struct_def elems_def split: option.splits)
  from raw_items_in [OF kvs(2)] Cons obtain k js where js: "(k, JArr js) \<in> set kvs" "items = Some (map Some js)"
    by (auto simp: elems_def split: option.splits)
  have "(\<Sum>i\<leftarrow>map Some js. raw_weight i) \<le> 3 * size_list size js"
    by (induction js) auto
  moreover have "size (JArr js) < size j" using member_smaller [OF js(1)] kvs(1) by simp
  ultimately show ?thesis using js(2) by simp
qed simp

subsection \<open>The variants without filters inside\<close>

record agent_view_filter_eq =
  agent_view_filter_eq_field :: agent_view_field
  agent_view_filter_eq_value :: agent_view_value

definition agent_view_filter_eq_zero :: agent_view_filter_eq where
  "agent_view_filter_eq_zero = \<lparr>agent_view_filter_eq_field = agent_view_field_of [],
     agent_view_filter_eq_value = agent_view_value_zero\<rparr>"

definition agent_view_filter_eq_clone :: "agent_view_filter_eq \<Rightarrow> agent_view_filter_eq" where
  "agent_view_filter_eq_clone v =
    (let out = v;
      out = out\<lparr>agent_view_filter_eq_field := agent_view_field_clone (agent_view_filter_eq_field v)\<rparr>;
      out = out\<lparr>agent_view_filter_eq_value := agent_view_value_clone (agent_view_filter_eq_value v)\<rparr>
     in out)"

lemma agent_view_filter_eq_clone_id [clone_simps]: "agent_view_filter_eq_clone = id"
  by (simp add: fun_eq_iff agent_view_filter_eq_clone_def clone_simps)

definition agent_view_filter_eq_fields :: "agent_view_filter_eq field list" where
  "agent_view_filter_eq_fields =
    [plain_field ''field'' agent_view_field_codec agent_view_filter_eq_field (\<lambda>x r. r\<lparr>agent_view_filter_eq_field := x\<rparr>),
     plain_field ''value'' agent_view_value_codec agent_view_filter_eq_value (\<lambda>x r. r\<lparr>agent_view_filter_eq_value := x\<rparr>)]"

definition agent_view_filter_eq_codec :: "agent_view_filter_eq codec" where
  "agent_view_filter_eq_codec = struct_codec agent_view_filter_eq_zero agent_view_filter_eq_fields"

lemma agent_view_filter_eq_codec_lawful [simp]: "lawful (agent_view_filter_eq_codec)"
  unfolding agent_view_filter_eq_codec_def
proof (rule lawful_struct)
  show "distinct (map fld_name agent_view_filter_eq_fields)" by (simp add: agent_view_filter_eq_fields_def field_names)
  show "list_all (\<lambda>f. fld_ok f r) agent_view_filter_eq_fields \<Longrightarrow> refill agent_view_filter_eq_fields r agent_view_filter_eq_zero = Some r" for r
    by (cases r) (simp add: agent_view_filter_eq_fields_def agent_view_filter_eq_zero_def refill_simps)
qed

lemma agent_view_filter_eq_codec_zero [simp]: "cod_zero (agent_view_filter_eq_codec) = agent_view_filter_eq_zero"
  by (simp add: agent_view_filter_eq_codec_def struct_codec_def)

record agent_view_filter_exists =
  agent_view_filter_exists_field :: agent_view_field

definition agent_view_filter_exists_zero :: agent_view_filter_exists where
  "agent_view_filter_exists_zero = \<lparr>agent_view_filter_exists_field = agent_view_field_of []\<rparr>"

definition agent_view_filter_exists_clone :: "agent_view_filter_exists \<Rightarrow> agent_view_filter_exists" where
  "agent_view_filter_exists_clone v =
    (let out = v;
      out = out\<lparr>agent_view_filter_exists_field := agent_view_field_clone (agent_view_filter_exists_field v)\<rparr>
     in out)"

lemma agent_view_filter_exists_clone_id [clone_simps]: "agent_view_filter_exists_clone = id"
  by (simp add: fun_eq_iff agent_view_filter_exists_clone_def clone_simps)

definition agent_view_filter_exists_fields :: "agent_view_filter_exists field list" where
  "agent_view_filter_exists_fields =
    [plain_field ''field'' agent_view_field_codec agent_view_filter_exists_field (\<lambda>x r. r\<lparr>agent_view_filter_exists_field := x\<rparr>)]"

definition agent_view_filter_exists_codec :: "agent_view_filter_exists codec" where
  "agent_view_filter_exists_codec = struct_codec agent_view_filter_exists_zero agent_view_filter_exists_fields"

lemma agent_view_filter_exists_codec_lawful [simp]: "lawful (agent_view_filter_exists_codec)"
  unfolding agent_view_filter_exists_codec_def
proof (rule lawful_struct)
  show "distinct (map fld_name agent_view_filter_exists_fields)" by (simp add: agent_view_filter_exists_fields_def field_names)
  show "list_all (\<lambda>f. fld_ok f r) agent_view_filter_exists_fields \<Longrightarrow> refill agent_view_filter_exists_fields r agent_view_filter_exists_zero = Some r" for r
    by (cases r) (simp add: agent_view_filter_exists_fields_def agent_view_filter_exists_zero_def refill_simps)
qed

lemma agent_view_filter_exists_codec_zero [simp]: "cod_zero (agent_view_filter_exists_codec) = agent_view_filter_exists_zero"
  by (simp add: agent_view_filter_exists_codec_def struct_codec_def)

record agent_view_filter_in =
  agent_view_filter_in_field :: agent_view_field
  agent_view_filter_in_values :: "agent_view_value slice"

definition agent_view_filter_in_zero :: agent_view_filter_in where
  "agent_view_filter_in_zero = \<lparr>agent_view_filter_in_field = agent_view_field_of [],
     agent_view_filter_in_values = None\<rparr>"

definition agent_view_filter_in_clone :: "agent_view_filter_in \<Rightarrow> agent_view_filter_in" where
  "agent_view_filter_in_clone v =
    (let out = v;
      out = out\<lparr>agent_view_filter_in_field := agent_view_field_clone (agent_view_filter_in_field v)\<rparr>;
      out = out\<lparr>agent_view_filter_in_values := clone_slice agent_view_value_clone (agent_view_filter_in_values v)\<rparr>
     in out)"

lemma agent_view_filter_in_clone_id [clone_simps]: "agent_view_filter_in_clone = id"
  by (simp add: fun_eq_iff agent_view_filter_in_clone_def clone_simps)

definition agent_view_filter_in_fields :: "agent_view_filter_in field list" where
  "agent_view_filter_in_fields =
    [plain_field ''field'' agent_view_field_codec agent_view_filter_in_field (\<lambda>x r. r\<lparr>agent_view_filter_in_field := x\<rparr>),
     plain_field ''values'' (slice_codec agent_view_value_codec) agent_view_filter_in_values (\<lambda>x r. r\<lparr>agent_view_filter_in_values := x\<rparr>)]"

definition agent_view_filter_in_codec :: "agent_view_filter_in codec" where
  "agent_view_filter_in_codec = struct_codec agent_view_filter_in_zero agent_view_filter_in_fields"

lemma agent_view_filter_in_codec_lawful [simp]: "lawful (agent_view_filter_in_codec)"
  unfolding agent_view_filter_in_codec_def
proof (rule lawful_struct)
  show "distinct (map fld_name agent_view_filter_in_fields)" by (simp add: agent_view_filter_in_fields_def field_names)
  show "list_all (\<lambda>f. fld_ok f r) agent_view_filter_in_fields \<Longrightarrow> refill agent_view_filter_in_fields r agent_view_filter_in_zero = Some r" for r
    by (cases r) (simp add: agent_view_filter_in_fields_def agent_view_filter_in_zero_def refill_simps)
qed

lemma agent_view_filter_in_codec_zero [simp]: "cod_zero (agent_view_filter_in_codec) = agent_view_filter_in_zero"
  by (simp add: agent_view_filter_in_codec_def struct_codec_def)

subsection \<open>The union\<close>

datatype agent_view_filter =
    AgentViewFilterAll "agent_view_filter option slice"
  | AgentViewFilterAny "agent_view_filter option slice"
  | AgentViewFilterNot "agent_view_filter option"
  | AgentViewFilterEq agent_view_filter_eq
  | AgentViewFilterIn agent_view_filter_in
  | AgentViewFilterExists agent_view_filter_exists

fun clone_agent_view_filter :: "agent_view_filter \<Rightarrow> agent_view_filter" where
  "clone_agent_view_filter (AgentViewFilterAll fs) =
    AgentViewFilterAll (map_option (map (map_option clone_agent_view_filter)) fs)"
| "clone_agent_view_filter (AgentViewFilterAny fs) =
    AgentViewFilterAny (map_option (map (map_option clone_agent_view_filter)) fs)"
| "clone_agent_view_filter (AgentViewFilterNot f) = AgentViewFilterNot (map_option clone_agent_view_filter f)"
| "clone_agent_view_filter (AgentViewFilterEq v) = AgentViewFilterEq (agent_view_filter_eq_clone v)"
| "clone_agent_view_filter (AgentViewFilterIn v) = AgentViewFilterIn (agent_view_filter_in_clone v)"
| "clone_agent_view_filter (AgentViewFilterExists v) = AgentViewFilterExists (agent_view_filter_exists_clone v)"

lemma clone_agent_view_filter_id [clone_simps]: "clone_agent_view_filter = id"
proof
  show "clone_agent_view_filter v = id v" for v
    by (induction v) (auto simp: clone_simps intro!: option.map_ident_strong list.map_ident_strong)
qed

text \<open>The \<open>MarshalJSON\<close> methods: a nil interface is \<open>null\<close>, and so is a nil slice.\<close>

fun encode_agent_view_filter :: "agent_view_filter \<Rightarrow> json" where
  "encode_agent_view_filter (AgentViewFilterAll fs) = JObj [(''op'', JStr ''all''), (''filters'',
    case fs of None \<Rightarrow> JNull
    | Some xs \<Rightarrow> JArr (map (\<lambda>f. case f of None \<Rightarrow> JNull | Some n \<Rightarrow> encode_agent_view_filter n) xs))]"
| "encode_agent_view_filter (AgentViewFilterAny fs) = JObj [(''op'', JStr ''any''), (''filters'',
    case fs of None \<Rightarrow> JNull
    | Some xs \<Rightarrow> JArr (map (\<lambda>f. case f of None \<Rightarrow> JNull | Some n \<Rightarrow> encode_agent_view_filter n) xs))]"
| "encode_agent_view_filter (AgentViewFilterNot f) = JObj [(''op'', JStr ''not''),
    (''filter'', case f of None \<Rightarrow> JNull | Some n \<Rightarrow> encode_agent_view_filter n)]"
| "encode_agent_view_filter (AgentViewFilterEq v) = tagged_by ''op'' ''eq'' agent_view_filter_eq_fields v"
| "encode_agent_view_filter (AgentViewFilterIn v) = tagged_by ''op'' ''in'' agent_view_filter_in_fields v"
| "encode_agent_view_filter (AgentViewFilterExists v) = tagged_by ''op'' ''exists'' agent_view_filter_exists_fields v"

text \<open>
  \<open>decodeAgentViewFilter\<close> with the \<open>UnmarshalJSON\<close> methods of its variants, the loop over the raw filters,
  and the one raw filter of a negation. An empty array leaves the slice nil.
\<close>

function (sequential) decode_agent_view_filter :: "json \<Rightarrow> agent_view_filter option"
and decode_filters :: "json option list \<Rightarrow> agent_view_filter option list option"
and decode_filter_child :: "json option \<Rightarrow> agent_view_filter option option" where
  "decode_agent_view_filter j = (case decode_struct (head_field ''op'') j [] of
     None \<Rightarrow> None
   | Some tag \<Rightarrow>
       if tag = ''all'' then
         (case raw_items ''filters'' j of
            None \<Rightarrow> None
          | Some items \<Rightarrow> if elems items = [] then Some (AgentViewFilterAll None)
              else (case decode_filters (elems items) of None \<Rightarrow> None | Some fs \<Rightarrow> Some (AgentViewFilterAll (Some fs))))
       else if tag = ''any'' then
         (case raw_items ''filters'' j of
            None \<Rightarrow> None
          | Some items \<Rightarrow> if elems items = [] then Some (AgentViewFilterAny None)
              else (case decode_filters (elems items) of None \<Rightarrow> None | Some fs \<Rightarrow> Some (AgentViewFilterAny (Some fs))))
       else if tag = ''not'' then
         (case raw_member ''filter'' j of
            None \<Rightarrow> None
          | Some raw \<Rightarrow> (case decode_filter_child raw of None \<Rightarrow> None | Some f \<Rightarrow> Some (AgentViewFilterNot f)))
       else if tag = ''eq'' then map_option AgentViewFilterEq (cod_dec agent_view_filter_eq_codec j agent_view_filter_eq_zero)
       else if tag = ''in'' then map_option AgentViewFilterIn (cod_dec agent_view_filter_in_codec j agent_view_filter_in_zero)
       else if tag = ''exists''
         then map_option AgentViewFilterExists (cod_dec agent_view_filter_exists_codec j agent_view_filter_exists_zero)
       else None)"
| "decode_filters [] = Some []"
| "decode_filters (None # items) = None"
| "decode_filters (Some j # items) = (case decode_agent_view_filter j of
     None \<Rightarrow> None
   | Some f \<Rightarrow> (case decode_filters items of None \<Rightarrow> None | Some fs \<Rightarrow> Some (Some f # fs)))"
| "decode_filter_child None = Some None"
| "decode_filter_child (Some j) = (if j = JNull then Some None else map_option Some (decode_agent_view_filter j))"
  by pat_completeness auto
termination
  by (relation "measure (\<lambda>x. case x of Inl j \<Rightarrow> 3 * size j + 1 | Inr (Inl items) \<Rightarrow> (\<Sum>i\<leftarrow>items. raw_weight i)
      | Inr (Inr c) \<Rightarrow> (case c of None \<Rightarrow> 0 | Some j \<Rightarrow> raw_weight (Some j)))")
    (auto dest: raw_items_smaller raw_member_smaller split: option.split)

declare decode_agent_view_filter.simps [simp del]

subsection \<open>Decoding what was encoded\<close>

text \<open>
  The filters that come back: no nil among the filters of a slice, and no slice that is empty but not nil,
  which would come back nil.
\<close>

fun agent_view_filter_ok :: "agent_view_filter \<Rightarrow> bool" where
  "agent_view_filter_ok (AgentViewFilterAll fs) = (case fs of None \<Rightarrow> True
     | Some xs \<Rightarrow> xs \<noteq> [] \<and> list_all (\<lambda>f. case f of None \<Rightarrow> False | Some n \<Rightarrow> agent_view_filter_ok n) xs)"
| "agent_view_filter_ok (AgentViewFilterAny fs) = (case fs of None \<Rightarrow> True
     | Some xs \<Rightarrow> xs \<noteq> [] \<and> list_all (\<lambda>f. case f of None \<Rightarrow> False | Some n \<Rightarrow> agent_view_filter_ok n) xs)"
| "agent_view_filter_ok (AgentViewFilterNot f) = (case f of None \<Rightarrow> True | Some n \<Rightarrow> agent_view_filter_ok n)"
| "agent_view_filter_ok (AgentViewFilterEq v) = cod_ok agent_view_filter_eq_codec v"
| "agent_view_filter_ok (AgentViewFilterIn v) = cod_ok agent_view_filter_in_codec v"
| "agent_view_filter_ok (AgentViewFilterExists v) = cod_ok agent_view_filter_exists_codec v"

lemma free_of_filters [simp]:
  "free_of ''op'' agent_view_filter_eq_fields" "free_of ''op'' agent_view_filter_in_fields"
  "free_of ''op'' agent_view_filter_exists_fields"
  by (simp_all add: free_of_def field_names upper_char_def in_range_def bytes_of_def char_of_def
      agent_view_filter_eq_fields_def agent_view_filter_in_fields_def agent_view_filter_exists_fields_def)

lemma encode_agent_view_filter_not_null [simp]: "encode_agent_view_filter f \<noteq> JNull"
  by (cases f) (simp_all add: tagged_by_def)

lemma filter_members:
  "decode_struct (head_field ''op'') (JObj [(''op'', JStr t), (''filters'', j)]) [] = Some t"
  "decode_struct (head_field ''op'') (JObj [(''op'', JStr t), (''filter'', j)]) [] = Some t"
  "raw_items ''filters'' (JObj [(''op'', JStr t), (''filters'', j)]) = cod_dec (slice_codec raw_codec) j None"
  "raw_member ''filter'' (JObj [(''op'', JStr t), (''filter'', j)]) = Some (Some j)"
  by (simp_all add: decode_struct_def raw_items_def raw_member_def head_field_def find_field_def plain_field_def
      string_codec_def raw_codec_def upper_char_def in_range_def bytes_of_def char_of_def split: option.split)

lemma decode_filters_encoded:
  "list_all (\<lambda>f. case f of None \<Rightarrow> False | Some n \<Rightarrow> decode_agent_view_filter (encode_agent_view_filter n) = Some n) xs \<Longrightarrow>
    decode_filters (map (\<lambda>f. Some (case f of None \<Rightarrow> JNull | Some n \<Rightarrow> encode_agent_view_filter n)) xs) = Some xs"
  by (induction xs) (auto split: option.splits)

lemma decode_agent_view_filter_encoded_aux:
  "agent_view_filter_ok f \<Longrightarrow> decode_agent_view_filter (encode_agent_view_filter f) = Some f"
proof (induction f)
  case (AgentViewFilterAll fs)
  show ?case
  proof (cases fs)
    case None
    then show ?thesis by (simp add: decode_agent_view_filter.simps(1) filter_members slice_codec_def)
  next
    case (Some xs)
    with AgentViewFilterAll have "list_all (\<lambda>f. case f of None \<Rightarrow> False
        | Some n \<Rightarrow> decode_agent_view_filter (encode_agent_view_filter n) = Some n) xs" "xs \<noteq> []"
      by (auto simp: list_all_iff split: option.splits)
    from decode_filters_encoded [OF this(1)] this(2) Some show ?thesis
      by (simp add: decode_agent_view_filter.simps(1) filter_members slice_codec_def decode_raw_elems comp_def)
  qed
next
  case (AgentViewFilterAny fs)
  show ?case
  proof (cases fs)
    case None
    then show ?thesis by (simp add: decode_agent_view_filter.simps(1) filter_members slice_codec_def)
  next
    case (Some xs)
    with AgentViewFilterAny have "list_all (\<lambda>f. case f of None \<Rightarrow> False
        | Some n \<Rightarrow> decode_agent_view_filter (encode_agent_view_filter n) = Some n) xs" "xs \<noteq> []"
      by (auto simp: list_all_iff split: option.splits)
    from decode_filters_encoded [OF this(1)] this(2) Some show ?thesis
      by (simp add: decode_agent_view_filter.simps(1) filter_members slice_codec_def decode_raw_elems comp_def)
  qed
next
  case (AgentViewFilterNot f)
  then show ?case
    by (cases f) (simp_all add: decode_agent_view_filter.simps(1) filter_members)
next
  case (AgentViewFilterEq v)
  with decode_tagged_by [OF agent_view_filter_eq_codec_lawful agent_view_filter_eq_codec_def]
  show ?case by (simp add: decode_agent_view_filter.simps(1) decode_head)
next
  case (AgentViewFilterIn v)
  with decode_tagged_by [OF agent_view_filter_in_codec_lawful agent_view_filter_in_codec_def]
  show ?case by (simp add: decode_agent_view_filter.simps(1) decode_head)
next
  case (AgentViewFilterExists v)
  with decode_tagged_by [OF agent_view_filter_exists_codec_lawful agent_view_filter_exists_codec_def]
  show ?case by (simp add: decode_agent_view_filter.simps(1) decode_head)
qed

subsection \<open>The parameters of \<open>agent.view.set\<close>\<close>

record agent_view_sort =
  agent_view_sort_field :: agent_view_sort_field
  agent_view_sort_order :: "agent_view_sort_order optional"

definition agent_view_sort_zero :: agent_view_sort where
  "agent_view_sort_zero = \<lparr>agent_view_sort_field = agent_view_sort_field_of [],
     agent_view_sort_order = Absent\<rparr>"

definition agent_view_sort_clone :: "agent_view_sort \<Rightarrow> agent_view_sort" where
  "agent_view_sort_clone v =
    (let out = v;
      out = out\<lparr>agent_view_sort_field := agent_view_sort_field_clone (agent_view_sort_field v)\<rparr>
     in out)"

lemma agent_view_sort_clone_id [clone_simps]: "agent_view_sort_clone = id"
  by (simp add: fun_eq_iff agent_view_sort_clone_def clone_simps)

definition agent_view_sort_fields :: "agent_view_sort field list" where
  "agent_view_sort_fields =
    [plain_field ''field'' agent_view_sort_field_codec agent_view_sort_field (\<lambda>x r. r\<lparr>agent_view_sort_field := x\<rparr>),
     optional_field ''order'' string_codec agent_view_sort_order (\<lambda>x r. r\<lparr>agent_view_sort_order := x\<rparr>)]"

definition agent_view_sort_codec :: "agent_view_sort codec" where
  "agent_view_sort_codec = struct_codec agent_view_sort_zero agent_view_sort_fields"

lemma agent_view_sort_codec_lawful [simp]: "lawful (agent_view_sort_codec)"
  unfolding agent_view_sort_codec_def
proof (rule lawful_struct)
  show "distinct (map fld_name agent_view_sort_fields)" by (simp add: agent_view_sort_fields_def field_names)
  show "list_all (\<lambda>f. fld_ok f r) agent_view_sort_fields \<Longrightarrow> refill agent_view_sort_fields r agent_view_sort_zero = Some r" for r
    by (cases r) (simp add: agent_view_sort_fields_def agent_view_sort_zero_def refill_simps)
qed

lemma agent_view_sort_codec_zero [simp]: "cod_zero (agent_view_sort_codec) = agent_view_sort_zero"
  by (simp add: agent_view_sort_codec_def struct_codec_def)

record agent_view_set_params =
  agent_view_set_params_filter :: "agent_view_filter option optional"
  agent_view_set_params_label :: "string optional"
  agent_view_set_params_sort :: "agent_view_sort slice optional"
  agent_view_set_params_source :: string

definition agent_view_set_params_zero :: agent_view_set_params where
  "agent_view_set_params_zero = \<lparr>agent_view_set_params_filter = Absent,
     agent_view_set_params_label = Absent,
     agent_view_set_params_sort = Absent,
     agent_view_set_params_source = []\<rparr>"

definition agent_view_set_params_clone :: "agent_view_set_params \<Rightarrow> agent_view_set_params" where
  "agent_view_set_params_clone v =
    (let out = v;
      out = out\<lparr>agent_view_set_params_filter := clone_opt (map_option clone_agent_view_filter) (agent_view_set_params_filter v)\<rparr>;
      out = out\<lparr>agent_view_set_params_sort := clone_opt (clone_slice agent_view_sort_clone) (agent_view_set_params_sort v)\<rparr>
     in out)"

lemma agent_view_set_params_clone_id [clone_simps]: "agent_view_set_params_clone = id"
  by (simp add: fun_eq_iff agent_view_set_params_clone_def clone_simps)

definition agent_view_filter_codec :: "agent_view_filter option codec" where
  "agent_view_filter_codec = \<lparr>cod_zero = None,
     cod_enc = (\<lambda>f. case f of None \<Rightarrow> JNull | Some n \<Rightarrow> encode_agent_view_filter n),
     cod_dec = (\<lambda>j old. map_option Some (decode_agent_view_filter j)),
     cod_ok = (\<lambda>f. case f of None \<Rightarrow> False | Some n \<Rightarrow> agent_view_filter_ok n)\<rparr>"

lemma agent_view_filter_codec_lawful [simp]: "lawful agent_view_filter_codec"
  by (auto simp: lawful_def agent_view_filter_codec_def decode_agent_view_filter_encoded_aux split: option.splits)

definition agent_view_set_params_fields :: "agent_view_set_params field list" where
  "agent_view_set_params_fields =
    [optional_field ''filter'' agent_view_filter_codec agent_view_set_params_filter
       (\<lambda>x r. r\<lparr>agent_view_set_params_filter := x\<rparr>),
     optional_field ''label'' string_codec agent_view_set_params_label (\<lambda>x r. r\<lparr>agent_view_set_params_label := x\<rparr>),
     optional_field ''sort'' (slice_codec agent_view_sort_codec) agent_view_set_params_sort
       (\<lambda>x r. r\<lparr>agent_view_set_params_sort := x\<rparr>),
     plain_field ''source'' string_codec agent_view_set_params_source (\<lambda>x r. r\<lparr>agent_view_set_params_source := x\<rparr>)]"

definition agent_view_set_params_codec :: "agent_view_set_params codec" where
  "agent_view_set_params_codec = once_codec agent_view_set_params_zero agent_view_set_params_fields ''filter''"

lemma agent_view_set_params_codec_lawful [simp]: "lawful agent_view_set_params_codec"
  unfolding agent_view_set_params_codec_def
proof (rule lawful_once)
  show "distinct (map fld_name agent_view_set_params_fields)"
    by (simp add: agent_view_set_params_fields_def field_names)
  show "list_all (\<lambda>f. fld_ok f r) agent_view_set_params_fields \<Longrightarrow>
      refill agent_view_set_params_fields r agent_view_set_params_zero = Some r" for r
    by (cases r) (simp add: agent_view_set_params_fields_def agent_view_set_params_zero_def refill_simps)
qed

end
