(* ===== verification/Param_Types.thy ===== *)
theory Param_Types
  imports Param_Structs_A Param_Structs_B Agent_View
begin

text \<open>
  The parameters with unions, and the unions \<open>EventMatch\<close> and \<open>PaneMoveDestination\<close> of
  \<open>herdr/types_gen.go\<close> with \<open>cloneEventMatch\<close> and \<open>clonePaneMoveDestination\<close>.
\<close>

text \<open>\<open>cloneOutputMatch\<close>, \<open>cloneSubscription\<close> and the parameters of \<open>events.subscribe\<close>.\<close>

fun clone_output_match :: "output_match \<Rightarrow> output_match" where
  "clone_output_match (OutputMatchSubstring v) = OutputMatchSubstring v"
| "clone_output_match (OutputMatchRegex v) = OutputMatchRegex v"

lemma clone_output_match_id [clone_simps]: "clone_output_match = id"
proof
  show "clone_output_match u = id u" for u by (cases u) simp_all
qed

definition pane_output_matched_subscription_clone ::
  "pane_output_matched_subscription \<Rightarrow> pane_output_matched_subscription" where
  "pane_output_matched_subscription_clone v =
    (let out = v; out = out\<lparr>sub_match := map_option clone_output_match (sub_match v)\<rparr> in out)"

lemma pane_output_matched_subscription_clone_id [clone_simps]: "pane_output_matched_subscription_clone = id"
  by (simp add: fun_eq_iff pane_output_matched_subscription_clone_def clone_simps)

definition clone_subscription :: "subscription \<Rightarrow> subscription" where
  "clone_subscription s = (case s of
     PaneOutputMatchedSubscription v \<Rightarrow> PaneOutputMatchedSubscription (pane_output_matched_subscription_clone v)
   | _ \<Rightarrow> s)"

lemma clone_subscription_id [clone_simps]: "clone_subscription = id"
  by (simp add: fun_eq_iff clone_subscription_def clone_simps split: subscription.split)

type_synonym events_subscribe_params = "subscription slice"

definition events_subscribe_params_clone :: "events_subscribe_params \<Rightarrow> events_subscribe_params" where
  "events_subscribe_params_clone v = (let out = v; out = clone_slice clone_subscription v in out)"

lemma events_subscribe_params_clone_id [clone_simps]: "events_subscribe_params_clone = id"
  by (simp add: fun_eq_iff events_subscribe_params_clone_def clone_simps)

datatype (plugins only: code size) event_match =
    EventMatchWorkspaceCreated event_match_workspace_created
  | EventMatchWorkspaceUpdated event_match_workspace_updated
  | EventMatchWorkspaceClosed event_match_workspace_closed
  | EventMatchWorkspaceRenamed event_match_workspace_renamed
  | EventMatchWorkspaceMoved event_match_workspace_moved
  | EventMatchWorkspaceFocused event_match_workspace_focused
  | EventMatchTabCreated event_match_tab_created
  | EventMatchTabClosed event_match_tab_closed
  | EventMatchTabRenamed event_match_tab_renamed
  | EventMatchTabMoved event_match_tab_moved
  | EventMatchTabFocused event_match_tab_focused
  | EventMatchPaneCreated event_match_pane_created
  | EventMatchPaneClosed event_match_pane_closed
  | EventMatchPaneFocused event_match_pane_focused
  | EventMatchPaneMoved event_match_pane_moved
  | EventMatchPaneOutputChanged event_match_pane_output_changed
  | EventMatchPaneExited event_match_pane_exited
  | EventMatchPaneAgentDetected event_match_pane_agent_detected
  | EventMatchPaneAgentStatusChanged event_match_pane_agent_status_changed

primrec clone_event_match :: "event_match \<Rightarrow> event_match" where
  "clone_event_match (EventMatchWorkspaceCreated v) = EventMatchWorkspaceCreated (event_match_workspace_created_clone v)"
| "clone_event_match (EventMatchWorkspaceUpdated v) = EventMatchWorkspaceUpdated (event_match_workspace_updated_clone v)"
| "clone_event_match (EventMatchWorkspaceClosed v) = EventMatchWorkspaceClosed (event_match_workspace_closed_clone v)"
| "clone_event_match (EventMatchWorkspaceRenamed v) = EventMatchWorkspaceRenamed (event_match_workspace_renamed_clone v)"
| "clone_event_match (EventMatchWorkspaceMoved v) = EventMatchWorkspaceMoved (event_match_workspace_moved_clone v)"
| "clone_event_match (EventMatchWorkspaceFocused v) = EventMatchWorkspaceFocused (event_match_workspace_focused_clone v)"
| "clone_event_match (EventMatchTabCreated v) = EventMatchTabCreated (event_match_tab_created_clone v)"
| "clone_event_match (EventMatchTabClosed v) = EventMatchTabClosed (event_match_tab_closed_clone v)"
| "clone_event_match (EventMatchTabRenamed v) = EventMatchTabRenamed (event_match_tab_renamed_clone v)"
| "clone_event_match (EventMatchTabMoved v) = EventMatchTabMoved (event_match_tab_moved_clone v)"
| "clone_event_match (EventMatchTabFocused v) = EventMatchTabFocused (event_match_tab_focused_clone v)"
| "clone_event_match (EventMatchPaneCreated v) = EventMatchPaneCreated (event_match_pane_created_clone v)"
| "clone_event_match (EventMatchPaneClosed v) = EventMatchPaneClosed (event_match_pane_closed_clone v)"
| "clone_event_match (EventMatchPaneFocused v) = EventMatchPaneFocused (event_match_pane_focused_clone v)"
| "clone_event_match (EventMatchPaneMoved v) = EventMatchPaneMoved (event_match_pane_moved_clone v)"
| "clone_event_match (EventMatchPaneOutputChanged v) = EventMatchPaneOutputChanged (event_match_pane_output_changed_clone v)"
| "clone_event_match (EventMatchPaneExited v) = EventMatchPaneExited (event_match_pane_exited_clone v)"
| "clone_event_match (EventMatchPaneAgentDetected v) = EventMatchPaneAgentDetected (event_match_pane_agent_detected_clone v)"
| "clone_event_match (EventMatchPaneAgentStatusChanged v) = EventMatchPaneAgentStatusChanged (event_match_pane_agent_status_changed_clone v)"

lemma clone_event_match_id [clone_simps]: "clone_event_match = id"
proof
  show "clone_event_match e = id e" for e by (cases e) (simp_all add: clone_simps)
qed

record events_wait_params =
  events_wait_params_match_event :: "event_match option"
  events_wait_params_timeout_ms :: "64 word optional"

definition events_wait_params_zero :: events_wait_params where
  "events_wait_params_zero = \<lparr>events_wait_params_match_event = None,
     events_wait_params_timeout_ms = Absent\<rparr>"

definition events_wait_params_clone :: "events_wait_params \<Rightarrow> events_wait_params" where
  "events_wait_params_clone v =
    (let out = v;
      out = out\<lparr>events_wait_params_match_event := map_option clone_event_match (events_wait_params_match_event v)\<rparr>
     in out)"

lemma events_wait_params_clone_id [clone_simps]: "events_wait_params_clone = id"
  by (simp add: fun_eq_iff events_wait_params_clone_def clone_simps)

record layout_apply_params =
  layout_apply_params_focus :: "bool optional"
  layout_apply_params_root :: "layout_node option"
  layout_apply_params_tab_id :: "string optional"
  layout_apply_params_tab_label :: "string optional"
  layout_apply_params_workspace_id :: "string optional"

definition layout_apply_params_zero :: layout_apply_params where
  "layout_apply_params_zero = \<lparr>layout_apply_params_focus = Absent,
     layout_apply_params_root = None,
     layout_apply_params_tab_id = Absent,
     layout_apply_params_tab_label = Absent,
     layout_apply_params_workspace_id = Absent\<rparr>"

definition layout_apply_params_clone :: "layout_apply_params \<Rightarrow> layout_apply_params" where
  "layout_apply_params_clone v =
    (let out = v;
      out = out\<lparr>layout_apply_params_root := map_option clone_layout_node (layout_apply_params_root v)\<rparr>
     in out)"

lemma layout_apply_params_clone_id [clone_simps]: "layout_apply_params_clone = id"
  by (simp add: fun_eq_iff layout_apply_params_clone_def clone_simps)

datatype (plugins only: code size) pane_move_destination =
    PaneMoveDestinationTab pane_move_destination_tab
  | PaneMoveDestinationNewTab pane_move_destination_new_tab
  | PaneMoveDestinationNewWorkspace pane_move_destination_new_workspace

primrec clone_pane_move_destination :: "pane_move_destination \<Rightarrow> pane_move_destination" where
  "clone_pane_move_destination (PaneMoveDestinationTab v) = PaneMoveDestinationTab (pane_move_destination_tab_clone v)"
| "clone_pane_move_destination (PaneMoveDestinationNewTab v) = PaneMoveDestinationNewTab (pane_move_destination_new_tab_clone v)"
| "clone_pane_move_destination (PaneMoveDestinationNewWorkspace v) = PaneMoveDestinationNewWorkspace (pane_move_destination_new_workspace_clone v)"

lemma clone_pane_move_destination_id [clone_simps]: "clone_pane_move_destination = id"
proof
  show "clone_pane_move_destination e = id e" for e by (cases e) (simp_all add: clone_simps)
qed

record pane_move_params =
  pane_move_params_destination :: "pane_move_destination option"
  pane_move_params_focus :: "bool optional"
  pane_move_params_pane_id :: string

definition pane_move_params_zero :: pane_move_params where
  "pane_move_params_zero = \<lparr>pane_move_params_destination = None,
     pane_move_params_focus = Absent,
     pane_move_params_pane_id = []\<rparr>"

definition pane_move_params_clone :: "pane_move_params \<Rightarrow> pane_move_params" where
  "pane_move_params_clone v =
    (let out = v;
      out = out\<lparr>pane_move_params_destination := map_option clone_pane_move_destination (pane_move_params_destination v)\<rparr>
     in out)"

lemma pane_move_params_clone_id [clone_simps]: "pane_move_params_clone = id"
  by (simp add: fun_eq_iff pane_move_params_clone_def clone_simps)

record pane_wait_for_output_params =
  pane_wait_for_output_params_lines :: "32 word optional"
  pane_wait_for_output_params_match :: "output_match option"
  pane_wait_for_output_params_pane_id :: string
  pane_wait_for_output_params_source :: read_source
  pane_wait_for_output_params_strip_ansi :: "bool optional"
  pane_wait_for_output_params_timeout_ms :: "64 word optional"

definition pane_wait_for_output_params_zero :: pane_wait_for_output_params where
  "pane_wait_for_output_params_zero = \<lparr>pane_wait_for_output_params_lines = Absent,
     pane_wait_for_output_params_match = None,
     pane_wait_for_output_params_pane_id = [],
     pane_wait_for_output_params_source = [],
     pane_wait_for_output_params_strip_ansi = Absent,
     pane_wait_for_output_params_timeout_ms = Absent\<rparr>"

definition pane_wait_for_output_params_clone :: "pane_wait_for_output_params \<Rightarrow> pane_wait_for_output_params" where
  "pane_wait_for_output_params_clone v =
    (let out = v;
      out = out\<lparr>pane_wait_for_output_params_match := map_option clone_output_match (pane_wait_for_output_params_match v)\<rparr>
     in out)"

lemma pane_wait_for_output_params_clone_id [clone_simps]: "pane_wait_for_output_params_clone = id"
  by (simp add: fun_eq_iff pane_wait_for_output_params_clone_def clone_simps)

record plugin_pane_open_params =
  plugin_pane_open_params_cwd :: "string optional"
  plugin_pane_open_params_direction :: "split_direction optional"
  plugin_pane_open_params_entrypoint :: string
  plugin_pane_open_params_env :: "string str_map optional"
  plugin_pane_open_params_focus :: "bool optional"
  plugin_pane_open_params_height :: "pane_size optional"
  plugin_pane_open_params_placement :: "plugin_pane_placement optional"
  plugin_pane_open_params_plugin_id :: string
  plugin_pane_open_params_target_pane_id :: "string optional"
  plugin_pane_open_params_width :: "pane_size optional"
  plugin_pane_open_params_workspace_id :: "string optional"

definition plugin_pane_open_params_zero :: plugin_pane_open_params where
  "plugin_pane_open_params_zero = \<lparr>plugin_pane_open_params_cwd = Absent,
     plugin_pane_open_params_direction = Absent,
     plugin_pane_open_params_entrypoint = [],
     plugin_pane_open_params_env = Absent,
     plugin_pane_open_params_focus = Absent,
     plugin_pane_open_params_height = Absent,
     plugin_pane_open_params_placement = Absent,
     plugin_pane_open_params_plugin_id = [],
     plugin_pane_open_params_target_pane_id = Absent,
     plugin_pane_open_params_width = Absent,
     plugin_pane_open_params_workspace_id = Absent\<rparr>"

definition plugin_pane_open_params_clone :: "plugin_pane_open_params \<Rightarrow> plugin_pane_open_params" where
  "plugin_pane_open_params_clone v =
    (let out = v;
      out = out\<lparr>plugin_pane_open_params_env := clone_opt (clone_map (\<lambda>x. x)) (plugin_pane_open_params_env v)\<rparr>;
      out = out\<lparr>plugin_pane_open_params_height := clone_opt pane_size_clone (plugin_pane_open_params_height v)\<rparr>;
      out = out\<lparr>plugin_pane_open_params_width := clone_opt pane_size_clone (plugin_pane_open_params_width v)\<rparr>
     in out)"

lemma plugin_pane_open_params_clone_id [clone_simps]: "plugin_pane_open_params_clone = id"
  by (simp add: fun_eq_iff plugin_pane_open_params_clone_def clone_simps)

end
