(* ===== verification/Param_Codec.thy ===== *)
theory Param_Codec
  imports Param_Types Info_Codec
begin

text \<open>
  The JSON form of the structs and unions of the parameters, and that each comes back from it.
\<close>

lemma decode_output_match_back:
  "output_match_ok u \<Longrightarrow> decode_output_match (encode_output_match u) = Some u \<and> encode_output_match u \<noteq> JNull"
  by (simp add: decode_output_match_encoded)

definition agent_prompt_wait_options_fields :: "agent_prompt_wait_options field list" where
  "agent_prompt_wait_options_fields =
    [optional_field ''timeout_ms'' uint_codec agent_prompt_wait_options_timeout_ms (\<lambda>x r. r\<lparr>agent_prompt_wait_options_timeout_ms := x\<rparr>),
     optional_field ''until'' (slice_codec string_codec) agent_prompt_wait_options_until (\<lambda>x r. r\<lparr>agent_prompt_wait_options_until := x\<rparr>)]"

definition agent_prompt_wait_options_codec :: "agent_prompt_wait_options codec" where
  "agent_prompt_wait_options_codec = struct_codec agent_prompt_wait_options_zero agent_prompt_wait_options_fields"

lemma agent_prompt_wait_options_codec_lawful [simp]: "lawful (agent_prompt_wait_options_codec)"
  unfolding agent_prompt_wait_options_codec_def
proof (rule lawful_struct)
  show "distinct (map fld_name agent_prompt_wait_options_fields)" by (simp add: agent_prompt_wait_options_fields_def field_names)
  show "list_all (\<lambda>f. fld_ok f r) agent_prompt_wait_options_fields \<Longrightarrow> refill agent_prompt_wait_options_fields r agent_prompt_wait_options_zero = Some r" for r
    by (cases r) (simp add: agent_prompt_wait_options_fields_def agent_prompt_wait_options_zero_def refill_simps)
qed

lemma agent_prompt_wait_options_codec_zero [simp]: "cod_zero (agent_prompt_wait_options_codec) = agent_prompt_wait_options_zero"
  by (simp add: agent_prompt_wait_options_codec_def struct_codec_def)

definition agent_prompt_params_fields :: "agent_prompt_params field list" where
  "agent_prompt_params_fields =
    [plain_field ''target'' string_codec agent_prompt_params_target (\<lambda>x r. r\<lparr>agent_prompt_params_target := x\<rparr>),
     plain_field ''text'' string_codec agent_prompt_params_text (\<lambda>x r. r\<lparr>agent_prompt_params_text := x\<rparr>),
     optional_field ''wait'' agent_prompt_wait_options_codec agent_prompt_params_wait (\<lambda>x r. r\<lparr>agent_prompt_params_wait := x\<rparr>)]"

definition agent_prompt_params_codec :: "agent_prompt_params codec" where
  "agent_prompt_params_codec = struct_codec agent_prompt_params_zero agent_prompt_params_fields"

lemma agent_prompt_params_codec_lawful [simp]: "lawful (agent_prompt_params_codec)"
  unfolding agent_prompt_params_codec_def
proof (rule lawful_struct)
  show "distinct (map fld_name agent_prompt_params_fields)" by (simp add: agent_prompt_params_fields_def field_names)
  show "list_all (\<lambda>f. fld_ok f r) agent_prompt_params_fields \<Longrightarrow> refill agent_prompt_params_fields r agent_prompt_params_zero = Some r" for r
    by (cases r) (simp add: agent_prompt_params_fields_def agent_prompt_params_zero_def refill_simps)
qed

lemma agent_prompt_params_codec_zero [simp]: "cod_zero (agent_prompt_params_codec) = agent_prompt_params_zero"
  by (simp add: agent_prompt_params_codec_def struct_codec_def)

definition agent_read_params_fields :: "agent_read_params field list" where
  "agent_read_params_fields =
    [optional_field ''format'' string_codec agent_read_params_format (\<lambda>x r. r\<lparr>agent_read_params_format := x\<rparr>),
     optional_field ''lines'' uint_codec agent_read_params_lines (\<lambda>x r. r\<lparr>agent_read_params_lines := x\<rparr>),
     plain_field ''source'' string_codec agent_read_params_source (\<lambda>x r. r\<lparr>agent_read_params_source := x\<rparr>),
     optional_field ''strip_ansi'' bool_codec agent_read_params_strip_ansi (\<lambda>x r. r\<lparr>agent_read_params_strip_ansi := x\<rparr>),
     plain_field ''target'' string_codec agent_read_params_target (\<lambda>x r. r\<lparr>agent_read_params_target := x\<rparr>)]"

definition agent_read_params_codec :: "agent_read_params codec" where
  "agent_read_params_codec = struct_codec agent_read_params_zero agent_read_params_fields"

lemma agent_read_params_codec_lawful [simp]: "lawful (agent_read_params_codec)"
  unfolding agent_read_params_codec_def
proof (rule lawful_struct)
  show "distinct (map fld_name agent_read_params_fields)" by (simp add: agent_read_params_fields_def field_names)
  show "list_all (\<lambda>f. fld_ok f r) agent_read_params_fields \<Longrightarrow> refill agent_read_params_fields r agent_read_params_zero = Some r" for r
    by (cases r) (simp add: agent_read_params_fields_def agent_read_params_zero_def refill_simps)
qed

lemma agent_read_params_codec_zero [simp]: "cod_zero (agent_read_params_codec) = agent_read_params_zero"
  by (simp add: agent_read_params_codec_def struct_codec_def)

definition agent_rename_params_fields :: "agent_rename_params field list" where
  "agent_rename_params_fields =
    [optional_field ''name'' string_codec agent_rename_params_name (\<lambda>x r. r\<lparr>agent_rename_params_name := x\<rparr>),
     plain_field ''target'' string_codec agent_rename_params_target (\<lambda>x r. r\<lparr>agent_rename_params_target := x\<rparr>)]"

definition agent_rename_params_codec :: "agent_rename_params codec" where
  "agent_rename_params_codec = struct_codec agent_rename_params_zero agent_rename_params_fields"

lemma agent_rename_params_codec_lawful [simp]: "lawful (agent_rename_params_codec)"
  unfolding agent_rename_params_codec_def
proof (rule lawful_struct)
  show "distinct (map fld_name agent_rename_params_fields)" by (simp add: agent_rename_params_fields_def field_names)
  show "list_all (\<lambda>f. fld_ok f r) agent_rename_params_fields \<Longrightarrow> refill agent_rename_params_fields r agent_rename_params_zero = Some r" for r
    by (cases r) (simp add: agent_rename_params_fields_def agent_rename_params_zero_def refill_simps)
qed

lemma agent_rename_params_codec_zero [simp]: "cod_zero (agent_rename_params_codec) = agent_rename_params_zero"
  by (simp add: agent_rename_params_codec_def struct_codec_def)

definition agent_send_keys_params_fields :: "agent_send_keys_params field list" where
  "agent_send_keys_params_fields =
    [plain_field ''keys'' (slice_codec string_codec) agent_send_keys_params_keys (\<lambda>x r. r\<lparr>agent_send_keys_params_keys := x\<rparr>),
     plain_field ''target'' string_codec agent_send_keys_params_target (\<lambda>x r. r\<lparr>agent_send_keys_params_target := x\<rparr>)]"

definition agent_send_keys_params_codec :: "agent_send_keys_params codec" where
  "agent_send_keys_params_codec = struct_codec agent_send_keys_params_zero agent_send_keys_params_fields"

lemma agent_send_keys_params_codec_lawful [simp]: "lawful (agent_send_keys_params_codec)"
  unfolding agent_send_keys_params_codec_def
proof (rule lawful_struct)
  show "distinct (map fld_name agent_send_keys_params_fields)" by (simp add: agent_send_keys_params_fields_def field_names)
  show "list_all (\<lambda>f. fld_ok f r) agent_send_keys_params_fields \<Longrightarrow> refill agent_send_keys_params_fields r agent_send_keys_params_zero = Some r" for r
    by (cases r) (simp add: agent_send_keys_params_fields_def agent_send_keys_params_zero_def refill_simps)
qed

lemma agent_send_keys_params_codec_zero [simp]: "cod_zero (agent_send_keys_params_codec) = agent_send_keys_params_zero"
  by (simp add: agent_send_keys_params_codec_def struct_codec_def)

definition agent_start_params_fields :: "agent_start_params field list" where
  "agent_start_params_fields =
    [optional_field ''args'' (slice_codec string_codec) agent_start_params_args (\<lambda>x r. r\<lparr>agent_start_params_args := x\<rparr>),
     plain_field ''kind'' string_codec agent_start_params_kind (\<lambda>x r. r\<lparr>agent_start_params_kind := x\<rparr>),
     plain_field ''name'' string_codec agent_start_params_name (\<lambda>x r. r\<lparr>agent_start_params_name := x\<rparr>),
     plain_field ''pane_id'' string_codec agent_start_params_pane_id (\<lambda>x r. r\<lparr>agent_start_params_pane_id := x\<rparr>),
     optional_field ''timeout_ms'' uint_codec agent_start_params_timeout_ms (\<lambda>x r. r\<lparr>agent_start_params_timeout_ms := x\<rparr>)]"

definition agent_start_params_codec :: "agent_start_params codec" where
  "agent_start_params_codec = struct_codec agent_start_params_zero agent_start_params_fields"

lemma agent_start_params_codec_lawful [simp]: "lawful (agent_start_params_codec)"
  unfolding agent_start_params_codec_def
proof (rule lawful_struct)
  show "distinct (map fld_name agent_start_params_fields)" by (simp add: agent_start_params_fields_def field_names)
  show "list_all (\<lambda>f. fld_ok f r) agent_start_params_fields \<Longrightarrow> refill agent_start_params_fields r agent_start_params_zero = Some r" for r
    by (cases r) (simp add: agent_start_params_fields_def agent_start_params_zero_def refill_simps)
qed

lemma agent_start_params_codec_zero [simp]: "cod_zero (agent_start_params_codec) = agent_start_params_zero"
  by (simp add: agent_start_params_codec_def struct_codec_def)

definition agent_target_fields :: "agent_target field list" where
  "agent_target_fields =
    [plain_field ''target'' string_codec agent_target_target (\<lambda>x r. r\<lparr>agent_target_target := x\<rparr>)]"

definition agent_target_codec :: "agent_target codec" where
  "agent_target_codec = struct_codec agent_target_zero agent_target_fields"

lemma agent_target_codec_lawful [simp]: "lawful (agent_target_codec)"
  unfolding agent_target_codec_def
proof (rule lawful_struct)
  show "distinct (map fld_name agent_target_fields)" by (simp add: agent_target_fields_def field_names)
  show "list_all (\<lambda>f. fld_ok f r) agent_target_fields \<Longrightarrow> refill agent_target_fields r agent_target_zero = Some r" for r
    by (cases r) (simp add: agent_target_fields_def agent_target_zero_def refill_simps)
qed

lemma agent_target_codec_zero [simp]: "cod_zero (agent_target_codec) = agent_target_zero"
  by (simp add: agent_target_codec_def struct_codec_def)

definition agent_view_clear_params_fields :: "agent_view_clear_params field list" where
  "agent_view_clear_params_fields =
    [optional_field ''source'' string_codec agent_view_clear_params_source (\<lambda>x r. r\<lparr>agent_view_clear_params_source := x\<rparr>)]"

definition agent_view_clear_params_codec :: "agent_view_clear_params codec" where
  "agent_view_clear_params_codec = struct_codec agent_view_clear_params_zero agent_view_clear_params_fields"

lemma agent_view_clear_params_codec_lawful [simp]: "lawful (agent_view_clear_params_codec)"
  unfolding agent_view_clear_params_codec_def
proof (rule lawful_struct)
  show "distinct (map fld_name agent_view_clear_params_fields)" by (simp add: agent_view_clear_params_fields_def field_names)
  show "list_all (\<lambda>f. fld_ok f r) agent_view_clear_params_fields \<Longrightarrow> refill agent_view_clear_params_fields r agent_view_clear_params_zero = Some r" for r
    by (cases r) (simp add: agent_view_clear_params_fields_def agent_view_clear_params_zero_def refill_simps)
qed

lemma agent_view_clear_params_codec_zero [simp]: "cod_zero (agent_view_clear_params_codec) = agent_view_clear_params_zero"
  by (simp add: agent_view_clear_params_codec_def struct_codec_def)

definition agent_wait_params_fields :: "agent_wait_params field list" where
  "agent_wait_params_fields =
    [plain_field ''target'' string_codec agent_wait_params_target (\<lambda>x r. r\<lparr>agent_wait_params_target := x\<rparr>),
     optional_field ''timeout_ms'' uint_codec agent_wait_params_timeout_ms (\<lambda>x r. r\<lparr>agent_wait_params_timeout_ms := x\<rparr>),
     optional_field ''until'' (slice_codec string_codec) agent_wait_params_until (\<lambda>x r. r\<lparr>agent_wait_params_until := x\<rparr>)]"

definition agent_wait_params_codec :: "agent_wait_params codec" where
  "agent_wait_params_codec = struct_codec agent_wait_params_zero agent_wait_params_fields"

lemma agent_wait_params_codec_lawful [simp]: "lawful (agent_wait_params_codec)"
  unfolding agent_wait_params_codec_def
proof (rule lawful_struct)
  show "distinct (map fld_name agent_wait_params_fields)" by (simp add: agent_wait_params_fields_def field_names)
  show "list_all (\<lambda>f. fld_ok f r) agent_wait_params_fields \<Longrightarrow> refill agent_wait_params_fields r agent_wait_params_zero = Some r" for r
    by (cases r) (simp add: agent_wait_params_fields_def agent_wait_params_zero_def refill_simps)
qed

lemma agent_wait_params_codec_zero [simp]: "cod_zero (agent_wait_params_codec) = agent_wait_params_zero"
  by (simp add: agent_wait_params_codec_def struct_codec_def)

definition client_shell_surface_set_params_fields :: "client_shell_surface_set_params field list" where
  "client_shell_surface_set_params_fields =
    [plain_field ''active'' bool_codec client_shell_surface_set_params_active (\<lambda>x r. r\<lparr>client_shell_surface_set_params_active := x\<rparr>)]"

definition client_shell_surface_set_params_codec :: "client_shell_surface_set_params codec" where
  "client_shell_surface_set_params_codec = struct_codec client_shell_surface_set_params_zero client_shell_surface_set_params_fields"

lemma client_shell_surface_set_params_codec_lawful [simp]: "lawful (client_shell_surface_set_params_codec)"
  unfolding client_shell_surface_set_params_codec_def
proof (rule lawful_struct)
  show "distinct (map fld_name client_shell_surface_set_params_fields)" by (simp add: client_shell_surface_set_params_fields_def field_names)
  show "list_all (\<lambda>f. fld_ok f r) client_shell_surface_set_params_fields \<Longrightarrow> refill client_shell_surface_set_params_fields r client_shell_surface_set_params_zero = Some r" for r
    by (cases r) (simp add: client_shell_surface_set_params_fields_def client_shell_surface_set_params_zero_def refill_simps)
qed

lemma client_shell_surface_set_params_codec_zero [simp]: "cod_zero (client_shell_surface_set_params_codec) = client_shell_surface_set_params_zero"
  by (simp add: client_shell_surface_set_params_codec_def struct_codec_def)

definition client_window_title_set_params_fields :: "client_window_title_set_params field list" where
  "client_window_title_set_params_fields =
    [plain_field ''title'' string_codec client_window_title_set_params_title (\<lambda>x r. r\<lparr>client_window_title_set_params_title := x\<rparr>)]"

definition client_window_title_set_params_codec :: "client_window_title_set_params codec" where
  "client_window_title_set_params_codec = struct_codec client_window_title_set_params_zero client_window_title_set_params_fields"

lemma client_window_title_set_params_codec_lawful [simp]: "lawful (client_window_title_set_params_codec)"
  unfolding client_window_title_set_params_codec_def
proof (rule lawful_struct)
  show "distinct (map fld_name client_window_title_set_params_fields)" by (simp add: client_window_title_set_params_fields_def field_names)
  show "list_all (\<lambda>f. fld_ok f r) client_window_title_set_params_fields \<Longrightarrow> refill client_window_title_set_params_fields r client_window_title_set_params_zero = Some r" for r
    by (cases r) (simp add: client_window_title_set_params_fields_def client_window_title_set_params_zero_def refill_simps)
qed

lemma client_window_title_set_params_codec_zero [simp]: "cod_zero (client_window_title_set_params_codec) = client_window_title_set_params_zero"
  by (simp add: client_window_title_set_params_codec_def struct_codec_def)

definition pane_selection_read_params_fields :: "pane_selection_read_params field list" where
  "pane_selection_read_params_fields =
    [plain_field ''anchor'' pane_text_point_codec pane_selection_read_params_anchor (\<lambda>x r. r\<lparr>pane_selection_read_params_anchor := x\<rparr>),
     optional_field ''content_revision'' uint_codec pane_selection_read_params_content_revision (\<lambda>x r. r\<lparr>pane_selection_read_params_content_revision := x\<rparr>),
     plain_field ''cursor'' pane_text_point_codec pane_selection_read_params_cursor (\<lambda>x r. r\<lparr>pane_selection_read_params_cursor := x\<rparr>),
     plain_field ''pane_id'' string_codec pane_selection_read_params_pane_id (\<lambda>x r. r\<lparr>pane_selection_read_params_pane_id := x\<rparr>)]"

definition pane_selection_read_params_codec :: "pane_selection_read_params codec" where
  "pane_selection_read_params_codec = struct_codec pane_selection_read_params_zero pane_selection_read_params_fields"

lemma pane_selection_read_params_codec_lawful [simp]: "lawful (pane_selection_read_params_codec)"
  unfolding pane_selection_read_params_codec_def
proof (rule lawful_struct)
  show "distinct (map fld_name pane_selection_read_params_fields)" by (simp add: pane_selection_read_params_fields_def field_names)
  show "list_all (\<lambda>f. fld_ok f r) pane_selection_read_params_fields \<Longrightarrow> refill pane_selection_read_params_fields r pane_selection_read_params_zero = Some r" for r
    by (cases r) (simp add: pane_selection_read_params_fields_def pane_selection_read_params_zero_def refill_simps)
qed

lemma pane_selection_read_params_codec_zero [simp]: "cod_zero (pane_selection_read_params_codec) = pane_selection_read_params_zero"
  by (simp add: pane_selection_read_params_codec_def struct_codec_def)

definition command_invoke_params_fields :: "command_invoke_params field list" where
  "command_invoke_params_fields =
    [plain_field ''command_id'' string_codec command_invoke_params_command_id (\<lambda>x r. r\<lparr>command_invoke_params_command_id := x\<rparr>),
     optional_field ''pane_id'' string_codec command_invoke_params_pane_id (\<lambda>x r. r\<lparr>command_invoke_params_pane_id := x\<rparr>),
     optional_field ''selection'' pane_selection_read_params_codec command_invoke_params_selection (\<lambda>x r. r\<lparr>command_invoke_params_selection := x\<rparr>),
     optional_field ''tab_id'' string_codec command_invoke_params_tab_id (\<lambda>x r. r\<lparr>command_invoke_params_tab_id := x\<rparr>),
     optional_field ''workspace_id'' string_codec command_invoke_params_workspace_id (\<lambda>x r. r\<lparr>command_invoke_params_workspace_id := x\<rparr>)]"

definition command_invoke_params_codec :: "command_invoke_params codec" where
  "command_invoke_params_codec = struct_codec command_invoke_params_zero command_invoke_params_fields"

lemma command_invoke_params_codec_lawful [simp]: "lawful (command_invoke_params_codec)"
  unfolding command_invoke_params_codec_def
proof (rule lawful_struct)
  show "distinct (map fld_name command_invoke_params_fields)" by (simp add: command_invoke_params_fields_def field_names)
  show "list_all (\<lambda>f. fld_ok f r) command_invoke_params_fields \<Longrightarrow> refill command_invoke_params_fields r command_invoke_params_zero = Some r" for r
    by (cases r) (simp add: command_invoke_params_fields_def command_invoke_params_zero_def refill_simps)
qed

lemma command_invoke_params_codec_zero [simp]: "cod_zero (command_invoke_params_codec) = command_invoke_params_zero"
  by (simp add: command_invoke_params_codec_def struct_codec_def)

definition event_match_pane_agent_detected_fields :: "event_match_pane_agent_detected field list" where
  "event_match_pane_agent_detected_fields =
    [optional_field ''agent'' string_codec event_match_pane_agent_detected_agent (\<lambda>x r. r\<lparr>event_match_pane_agent_detected_agent := x\<rparr>),
     plain_field ''pane_id'' string_codec event_match_pane_agent_detected_pane_id (\<lambda>x r. r\<lparr>event_match_pane_agent_detected_pane_id := x\<rparr>)]"

definition event_match_pane_agent_detected_codec :: "event_match_pane_agent_detected codec" where
  "event_match_pane_agent_detected_codec = struct_codec event_match_pane_agent_detected_zero event_match_pane_agent_detected_fields"

lemma event_match_pane_agent_detected_codec_lawful [simp]: "lawful (event_match_pane_agent_detected_codec)"
  unfolding event_match_pane_agent_detected_codec_def
proof (rule lawful_struct)
  show "distinct (map fld_name event_match_pane_agent_detected_fields)" by (simp add: event_match_pane_agent_detected_fields_def field_names)
  show "list_all (\<lambda>f. fld_ok f r) event_match_pane_agent_detected_fields \<Longrightarrow> refill event_match_pane_agent_detected_fields r event_match_pane_agent_detected_zero = Some r" for r
    by (cases r) (simp add: event_match_pane_agent_detected_fields_def event_match_pane_agent_detected_zero_def refill_simps)
qed

lemma event_match_pane_agent_detected_codec_zero [simp]: "cod_zero (event_match_pane_agent_detected_codec) = event_match_pane_agent_detected_zero"
  by (simp add: event_match_pane_agent_detected_codec_def struct_codec_def)

definition event_match_pane_agent_status_changed_fields :: "event_match_pane_agent_status_changed field list" where
  "event_match_pane_agent_status_changed_fields =
    [plain_field ''agent_status'' string_codec event_match_pane_agent_status_changed_agent_status (\<lambda>x r. r\<lparr>event_match_pane_agent_status_changed_agent_status := x\<rparr>),
     plain_field ''pane_id'' string_codec event_match_pane_agent_status_changed_pane_id (\<lambda>x r. r\<lparr>event_match_pane_agent_status_changed_pane_id := x\<rparr>)]"

definition event_match_pane_agent_status_changed_codec :: "event_match_pane_agent_status_changed codec" where
  "event_match_pane_agent_status_changed_codec = struct_codec event_match_pane_agent_status_changed_zero event_match_pane_agent_status_changed_fields"

lemma event_match_pane_agent_status_changed_codec_lawful [simp]: "lawful (event_match_pane_agent_status_changed_codec)"
  unfolding event_match_pane_agent_status_changed_codec_def
proof (rule lawful_struct)
  show "distinct (map fld_name event_match_pane_agent_status_changed_fields)" by (simp add: event_match_pane_agent_status_changed_fields_def field_names)
  show "list_all (\<lambda>f. fld_ok f r) event_match_pane_agent_status_changed_fields \<Longrightarrow> refill event_match_pane_agent_status_changed_fields r event_match_pane_agent_status_changed_zero = Some r" for r
    by (cases r) (simp add: event_match_pane_agent_status_changed_fields_def event_match_pane_agent_status_changed_zero_def refill_simps)
qed

lemma event_match_pane_agent_status_changed_codec_zero [simp]: "cod_zero (event_match_pane_agent_status_changed_codec) = event_match_pane_agent_status_changed_zero"
  by (simp add: event_match_pane_agent_status_changed_codec_def struct_codec_def)

definition event_match_pane_closed_fields :: "event_match_pane_closed field list" where
  "event_match_pane_closed_fields =
    [plain_field ''pane_id'' string_codec event_match_pane_closed_pane_id (\<lambda>x r. r\<lparr>event_match_pane_closed_pane_id := x\<rparr>)]"

definition event_match_pane_closed_codec :: "event_match_pane_closed codec" where
  "event_match_pane_closed_codec = struct_codec event_match_pane_closed_zero event_match_pane_closed_fields"

lemma event_match_pane_closed_codec_lawful [simp]: "lawful (event_match_pane_closed_codec)"
  unfolding event_match_pane_closed_codec_def
proof (rule lawful_struct)
  show "distinct (map fld_name event_match_pane_closed_fields)" by (simp add: event_match_pane_closed_fields_def field_names)
  show "list_all (\<lambda>f. fld_ok f r) event_match_pane_closed_fields \<Longrightarrow> refill event_match_pane_closed_fields r event_match_pane_closed_zero = Some r" for r
    by (cases r) (simp add: event_match_pane_closed_fields_def event_match_pane_closed_zero_def refill_simps)
qed

lemma event_match_pane_closed_codec_zero [simp]: "cod_zero (event_match_pane_closed_codec) = event_match_pane_closed_zero"
  by (simp add: event_match_pane_closed_codec_def struct_codec_def)

definition event_match_pane_created_fields :: "event_match_pane_created field list" where
  "event_match_pane_created_fields =
    [optional_field ''pane_id'' string_codec event_match_pane_created_pane_id (\<lambda>x r. r\<lparr>event_match_pane_created_pane_id := x\<rparr>),
     optional_field ''workspace_id'' string_codec event_match_pane_created_workspace_id (\<lambda>x r. r\<lparr>event_match_pane_created_workspace_id := x\<rparr>)]"

definition event_match_pane_created_codec :: "event_match_pane_created codec" where
  "event_match_pane_created_codec = struct_codec event_match_pane_created_zero event_match_pane_created_fields"

lemma event_match_pane_created_codec_lawful [simp]: "lawful (event_match_pane_created_codec)"
  unfolding event_match_pane_created_codec_def
proof (rule lawful_struct)
  show "distinct (map fld_name event_match_pane_created_fields)" by (simp add: event_match_pane_created_fields_def field_names)
  show "list_all (\<lambda>f. fld_ok f r) event_match_pane_created_fields \<Longrightarrow> refill event_match_pane_created_fields r event_match_pane_created_zero = Some r" for r
    by (cases r) (simp add: event_match_pane_created_fields_def event_match_pane_created_zero_def refill_simps)
qed

lemma event_match_pane_created_codec_zero [simp]: "cod_zero (event_match_pane_created_codec) = event_match_pane_created_zero"
  by (simp add: event_match_pane_created_codec_def struct_codec_def)

definition event_match_pane_exited_fields :: "event_match_pane_exited field list" where
  "event_match_pane_exited_fields =
    [plain_field ''pane_id'' string_codec event_match_pane_exited_pane_id (\<lambda>x r. r\<lparr>event_match_pane_exited_pane_id := x\<rparr>)]"

definition event_match_pane_exited_codec :: "event_match_pane_exited codec" where
  "event_match_pane_exited_codec = struct_codec event_match_pane_exited_zero event_match_pane_exited_fields"

lemma event_match_pane_exited_codec_lawful [simp]: "lawful (event_match_pane_exited_codec)"
  unfolding event_match_pane_exited_codec_def
proof (rule lawful_struct)
  show "distinct (map fld_name event_match_pane_exited_fields)" by (simp add: event_match_pane_exited_fields_def field_names)
  show "list_all (\<lambda>f. fld_ok f r) event_match_pane_exited_fields \<Longrightarrow> refill event_match_pane_exited_fields r event_match_pane_exited_zero = Some r" for r
    by (cases r) (simp add: event_match_pane_exited_fields_def event_match_pane_exited_zero_def refill_simps)
qed

lemma event_match_pane_exited_codec_zero [simp]: "cod_zero (event_match_pane_exited_codec) = event_match_pane_exited_zero"
  by (simp add: event_match_pane_exited_codec_def struct_codec_def)

definition event_match_pane_focused_fields :: "event_match_pane_focused field list" where
  "event_match_pane_focused_fields =
    [plain_field ''pane_id'' string_codec event_match_pane_focused_pane_id (\<lambda>x r. r\<lparr>event_match_pane_focused_pane_id := x\<rparr>)]"

definition event_match_pane_focused_codec :: "event_match_pane_focused codec" where
  "event_match_pane_focused_codec = struct_codec event_match_pane_focused_zero event_match_pane_focused_fields"

lemma event_match_pane_focused_codec_lawful [simp]: "lawful (event_match_pane_focused_codec)"
  unfolding event_match_pane_focused_codec_def
proof (rule lawful_struct)
  show "distinct (map fld_name event_match_pane_focused_fields)" by (simp add: event_match_pane_focused_fields_def field_names)
  show "list_all (\<lambda>f. fld_ok f r) event_match_pane_focused_fields \<Longrightarrow> refill event_match_pane_focused_fields r event_match_pane_focused_zero = Some r" for r
    by (cases r) (simp add: event_match_pane_focused_fields_def event_match_pane_focused_zero_def refill_simps)
qed

lemma event_match_pane_focused_codec_zero [simp]: "cod_zero (event_match_pane_focused_codec) = event_match_pane_focused_zero"
  by (simp add: event_match_pane_focused_codec_def struct_codec_def)

definition event_match_pane_moved_fields :: "event_match_pane_moved field list" where
  "event_match_pane_moved_fields =
    [plain_field ''pane_id'' string_codec event_match_pane_moved_pane_id (\<lambda>x r. r\<lparr>event_match_pane_moved_pane_id := x\<rparr>)]"

definition event_match_pane_moved_codec :: "event_match_pane_moved codec" where
  "event_match_pane_moved_codec = struct_codec event_match_pane_moved_zero event_match_pane_moved_fields"

lemma event_match_pane_moved_codec_lawful [simp]: "lawful (event_match_pane_moved_codec)"
  unfolding event_match_pane_moved_codec_def
proof (rule lawful_struct)
  show "distinct (map fld_name event_match_pane_moved_fields)" by (simp add: event_match_pane_moved_fields_def field_names)
  show "list_all (\<lambda>f. fld_ok f r) event_match_pane_moved_fields \<Longrightarrow> refill event_match_pane_moved_fields r event_match_pane_moved_zero = Some r" for r
    by (cases r) (simp add: event_match_pane_moved_fields_def event_match_pane_moved_zero_def refill_simps)
qed

lemma event_match_pane_moved_codec_zero [simp]: "cod_zero (event_match_pane_moved_codec) = event_match_pane_moved_zero"
  by (simp add: event_match_pane_moved_codec_def struct_codec_def)

definition event_match_pane_output_changed_fields :: "event_match_pane_output_changed field list" where
  "event_match_pane_output_changed_fields =
    [optional_field ''min_revision'' uint_codec event_match_pane_output_changed_min_revision (\<lambda>x r. r\<lparr>event_match_pane_output_changed_min_revision := x\<rparr>),
     plain_field ''pane_id'' string_codec event_match_pane_output_changed_pane_id (\<lambda>x r. r\<lparr>event_match_pane_output_changed_pane_id := x\<rparr>)]"

definition event_match_pane_output_changed_codec :: "event_match_pane_output_changed codec" where
  "event_match_pane_output_changed_codec = struct_codec event_match_pane_output_changed_zero event_match_pane_output_changed_fields"

lemma event_match_pane_output_changed_codec_lawful [simp]: "lawful (event_match_pane_output_changed_codec)"
  unfolding event_match_pane_output_changed_codec_def
proof (rule lawful_struct)
  show "distinct (map fld_name event_match_pane_output_changed_fields)" by (simp add: event_match_pane_output_changed_fields_def field_names)
  show "list_all (\<lambda>f. fld_ok f r) event_match_pane_output_changed_fields \<Longrightarrow> refill event_match_pane_output_changed_fields r event_match_pane_output_changed_zero = Some r" for r
    by (cases r) (simp add: event_match_pane_output_changed_fields_def event_match_pane_output_changed_zero_def refill_simps)
qed

lemma event_match_pane_output_changed_codec_zero [simp]: "cod_zero (event_match_pane_output_changed_codec) = event_match_pane_output_changed_zero"
  by (simp add: event_match_pane_output_changed_codec_def struct_codec_def)

definition event_match_tab_closed_fields :: "event_match_tab_closed field list" where
  "event_match_tab_closed_fields =
    [plain_field ''tab_id'' string_codec event_match_tab_closed_tab_id (\<lambda>x r. r\<lparr>event_match_tab_closed_tab_id := x\<rparr>)]"

definition event_match_tab_closed_codec :: "event_match_tab_closed codec" where
  "event_match_tab_closed_codec = struct_codec event_match_tab_closed_zero event_match_tab_closed_fields"

lemma event_match_tab_closed_codec_lawful [simp]: "lawful (event_match_tab_closed_codec)"
  unfolding event_match_tab_closed_codec_def
proof (rule lawful_struct)
  show "distinct (map fld_name event_match_tab_closed_fields)" by (simp add: event_match_tab_closed_fields_def field_names)
  show "list_all (\<lambda>f. fld_ok f r) event_match_tab_closed_fields \<Longrightarrow> refill event_match_tab_closed_fields r event_match_tab_closed_zero = Some r" for r
    by (cases r) (simp add: event_match_tab_closed_fields_def event_match_tab_closed_zero_def refill_simps)
qed

lemma event_match_tab_closed_codec_zero [simp]: "cod_zero (event_match_tab_closed_codec) = event_match_tab_closed_zero"
  by (simp add: event_match_tab_closed_codec_def struct_codec_def)

definition event_match_tab_created_fields :: "event_match_tab_created field list" where
  "event_match_tab_created_fields =
    [optional_field ''tab_id'' string_codec event_match_tab_created_tab_id (\<lambda>x r. r\<lparr>event_match_tab_created_tab_id := x\<rparr>),
     optional_field ''workspace_id'' string_codec event_match_tab_created_workspace_id (\<lambda>x r. r\<lparr>event_match_tab_created_workspace_id := x\<rparr>)]"

definition event_match_tab_created_codec :: "event_match_tab_created codec" where
  "event_match_tab_created_codec = struct_codec event_match_tab_created_zero event_match_tab_created_fields"

lemma event_match_tab_created_codec_lawful [simp]: "lawful (event_match_tab_created_codec)"
  unfolding event_match_tab_created_codec_def
proof (rule lawful_struct)
  show "distinct (map fld_name event_match_tab_created_fields)" by (simp add: event_match_tab_created_fields_def field_names)
  show "list_all (\<lambda>f. fld_ok f r) event_match_tab_created_fields \<Longrightarrow> refill event_match_tab_created_fields r event_match_tab_created_zero = Some r" for r
    by (cases r) (simp add: event_match_tab_created_fields_def event_match_tab_created_zero_def refill_simps)
qed

lemma event_match_tab_created_codec_zero [simp]: "cod_zero (event_match_tab_created_codec) = event_match_tab_created_zero"
  by (simp add: event_match_tab_created_codec_def struct_codec_def)

definition event_match_tab_focused_fields :: "event_match_tab_focused field list" where
  "event_match_tab_focused_fields =
    [plain_field ''tab_id'' string_codec event_match_tab_focused_tab_id (\<lambda>x r. r\<lparr>event_match_tab_focused_tab_id := x\<rparr>)]"

definition event_match_tab_focused_codec :: "event_match_tab_focused codec" where
  "event_match_tab_focused_codec = struct_codec event_match_tab_focused_zero event_match_tab_focused_fields"

lemma event_match_tab_focused_codec_lawful [simp]: "lawful (event_match_tab_focused_codec)"
  unfolding event_match_tab_focused_codec_def
proof (rule lawful_struct)
  show "distinct (map fld_name event_match_tab_focused_fields)" by (simp add: event_match_tab_focused_fields_def field_names)
  show "list_all (\<lambda>f. fld_ok f r) event_match_tab_focused_fields \<Longrightarrow> refill event_match_tab_focused_fields r event_match_tab_focused_zero = Some r" for r
    by (cases r) (simp add: event_match_tab_focused_fields_def event_match_tab_focused_zero_def refill_simps)
qed

lemma event_match_tab_focused_codec_zero [simp]: "cod_zero (event_match_tab_focused_codec) = event_match_tab_focused_zero"
  by (simp add: event_match_tab_focused_codec_def struct_codec_def)

definition event_match_tab_moved_fields :: "event_match_tab_moved field list" where
  "event_match_tab_moved_fields =
    [plain_field ''tab_id'' string_codec event_match_tab_moved_tab_id (\<lambda>x r. r\<lparr>event_match_tab_moved_tab_id := x\<rparr>)]"

definition event_match_tab_moved_codec :: "event_match_tab_moved codec" where
  "event_match_tab_moved_codec = struct_codec event_match_tab_moved_zero event_match_tab_moved_fields"

lemma event_match_tab_moved_codec_lawful [simp]: "lawful (event_match_tab_moved_codec)"
  unfolding event_match_tab_moved_codec_def
proof (rule lawful_struct)
  show "distinct (map fld_name event_match_tab_moved_fields)" by (simp add: event_match_tab_moved_fields_def field_names)
  show "list_all (\<lambda>f. fld_ok f r) event_match_tab_moved_fields \<Longrightarrow> refill event_match_tab_moved_fields r event_match_tab_moved_zero = Some r" for r
    by (cases r) (simp add: event_match_tab_moved_fields_def event_match_tab_moved_zero_def refill_simps)
qed

lemma event_match_tab_moved_codec_zero [simp]: "cod_zero (event_match_tab_moved_codec) = event_match_tab_moved_zero"
  by (simp add: event_match_tab_moved_codec_def struct_codec_def)

definition event_match_tab_renamed_fields :: "event_match_tab_renamed field list" where
  "event_match_tab_renamed_fields =
    [optional_field ''label'' string_codec event_match_tab_renamed_label (\<lambda>x r. r\<lparr>event_match_tab_renamed_label := x\<rparr>),
     plain_field ''tab_id'' string_codec event_match_tab_renamed_tab_id (\<lambda>x r. r\<lparr>event_match_tab_renamed_tab_id := x\<rparr>)]"

definition event_match_tab_renamed_codec :: "event_match_tab_renamed codec" where
  "event_match_tab_renamed_codec = struct_codec event_match_tab_renamed_zero event_match_tab_renamed_fields"

lemma event_match_tab_renamed_codec_lawful [simp]: "lawful (event_match_tab_renamed_codec)"
  unfolding event_match_tab_renamed_codec_def
proof (rule lawful_struct)
  show "distinct (map fld_name event_match_tab_renamed_fields)" by (simp add: event_match_tab_renamed_fields_def field_names)
  show "list_all (\<lambda>f. fld_ok f r) event_match_tab_renamed_fields \<Longrightarrow> refill event_match_tab_renamed_fields r event_match_tab_renamed_zero = Some r" for r
    by (cases r) (simp add: event_match_tab_renamed_fields_def event_match_tab_renamed_zero_def refill_simps)
qed

lemma event_match_tab_renamed_codec_zero [simp]: "cod_zero (event_match_tab_renamed_codec) = event_match_tab_renamed_zero"
  by (simp add: event_match_tab_renamed_codec_def struct_codec_def)

definition event_match_workspace_closed_fields :: "event_match_workspace_closed field list" where
  "event_match_workspace_closed_fields =
    [plain_field ''workspace_id'' string_codec event_match_workspace_closed_workspace_id (\<lambda>x r. r\<lparr>event_match_workspace_closed_workspace_id := x\<rparr>)]"

definition event_match_workspace_closed_codec :: "event_match_workspace_closed codec" where
  "event_match_workspace_closed_codec = struct_codec event_match_workspace_closed_zero event_match_workspace_closed_fields"

lemma event_match_workspace_closed_codec_lawful [simp]: "lawful (event_match_workspace_closed_codec)"
  unfolding event_match_workspace_closed_codec_def
proof (rule lawful_struct)
  show "distinct (map fld_name event_match_workspace_closed_fields)" by (simp add: event_match_workspace_closed_fields_def field_names)
  show "list_all (\<lambda>f. fld_ok f r) event_match_workspace_closed_fields \<Longrightarrow> refill event_match_workspace_closed_fields r event_match_workspace_closed_zero = Some r" for r
    by (cases r) (simp add: event_match_workspace_closed_fields_def event_match_workspace_closed_zero_def refill_simps)
qed

lemma event_match_workspace_closed_codec_zero [simp]: "cod_zero (event_match_workspace_closed_codec) = event_match_workspace_closed_zero"
  by (simp add: event_match_workspace_closed_codec_def struct_codec_def)

definition event_match_workspace_created_fields :: "event_match_workspace_created field list" where
  "event_match_workspace_created_fields =
    [optional_field ''workspace_id'' string_codec event_match_workspace_created_workspace_id (\<lambda>x r. r\<lparr>event_match_workspace_created_workspace_id := x\<rparr>)]"

definition event_match_workspace_created_codec :: "event_match_workspace_created codec" where
  "event_match_workspace_created_codec = struct_codec event_match_workspace_created_zero event_match_workspace_created_fields"

lemma event_match_workspace_created_codec_lawful [simp]: "lawful (event_match_workspace_created_codec)"
  unfolding event_match_workspace_created_codec_def
proof (rule lawful_struct)
  show "distinct (map fld_name event_match_workspace_created_fields)" by (simp add: event_match_workspace_created_fields_def field_names)
  show "list_all (\<lambda>f. fld_ok f r) event_match_workspace_created_fields \<Longrightarrow> refill event_match_workspace_created_fields r event_match_workspace_created_zero = Some r" for r
    by (cases r) (simp add: event_match_workspace_created_fields_def event_match_workspace_created_zero_def refill_simps)
qed

lemma event_match_workspace_created_codec_zero [simp]: "cod_zero (event_match_workspace_created_codec) = event_match_workspace_created_zero"
  by (simp add: event_match_workspace_created_codec_def struct_codec_def)

definition event_match_workspace_focused_fields :: "event_match_workspace_focused field list" where
  "event_match_workspace_focused_fields =
    [plain_field ''workspace_id'' string_codec event_match_workspace_focused_workspace_id (\<lambda>x r. r\<lparr>event_match_workspace_focused_workspace_id := x\<rparr>)]"

definition event_match_workspace_focused_codec :: "event_match_workspace_focused codec" where
  "event_match_workspace_focused_codec = struct_codec event_match_workspace_focused_zero event_match_workspace_focused_fields"

lemma event_match_workspace_focused_codec_lawful [simp]: "lawful (event_match_workspace_focused_codec)"
  unfolding event_match_workspace_focused_codec_def
proof (rule lawful_struct)
  show "distinct (map fld_name event_match_workspace_focused_fields)" by (simp add: event_match_workspace_focused_fields_def field_names)
  show "list_all (\<lambda>f. fld_ok f r) event_match_workspace_focused_fields \<Longrightarrow> refill event_match_workspace_focused_fields r event_match_workspace_focused_zero = Some r" for r
    by (cases r) (simp add: event_match_workspace_focused_fields_def event_match_workspace_focused_zero_def refill_simps)
qed

lemma event_match_workspace_focused_codec_zero [simp]: "cod_zero (event_match_workspace_focused_codec) = event_match_workspace_focused_zero"
  by (simp add: event_match_workspace_focused_codec_def struct_codec_def)

definition event_match_workspace_moved_fields :: "event_match_workspace_moved field list" where
  "event_match_workspace_moved_fields =
    [plain_field ''workspace_id'' string_codec event_match_workspace_moved_workspace_id (\<lambda>x r. r\<lparr>event_match_workspace_moved_workspace_id := x\<rparr>)]"

definition event_match_workspace_moved_codec :: "event_match_workspace_moved codec" where
  "event_match_workspace_moved_codec = struct_codec event_match_workspace_moved_zero event_match_workspace_moved_fields"

lemma event_match_workspace_moved_codec_lawful [simp]: "lawful (event_match_workspace_moved_codec)"
  unfolding event_match_workspace_moved_codec_def
proof (rule lawful_struct)
  show "distinct (map fld_name event_match_workspace_moved_fields)" by (simp add: event_match_workspace_moved_fields_def field_names)
  show "list_all (\<lambda>f. fld_ok f r) event_match_workspace_moved_fields \<Longrightarrow> refill event_match_workspace_moved_fields r event_match_workspace_moved_zero = Some r" for r
    by (cases r) (simp add: event_match_workspace_moved_fields_def event_match_workspace_moved_zero_def refill_simps)
qed

lemma event_match_workspace_moved_codec_zero [simp]: "cod_zero (event_match_workspace_moved_codec) = event_match_workspace_moved_zero"
  by (simp add: event_match_workspace_moved_codec_def struct_codec_def)

definition event_match_workspace_renamed_fields :: "event_match_workspace_renamed field list" where
  "event_match_workspace_renamed_fields =
    [optional_field ''label'' string_codec event_match_workspace_renamed_label (\<lambda>x r. r\<lparr>event_match_workspace_renamed_label := x\<rparr>),
     plain_field ''workspace_id'' string_codec event_match_workspace_renamed_workspace_id (\<lambda>x r. r\<lparr>event_match_workspace_renamed_workspace_id := x\<rparr>)]"

definition event_match_workspace_renamed_codec :: "event_match_workspace_renamed codec" where
  "event_match_workspace_renamed_codec = struct_codec event_match_workspace_renamed_zero event_match_workspace_renamed_fields"

lemma event_match_workspace_renamed_codec_lawful [simp]: "lawful (event_match_workspace_renamed_codec)"
  unfolding event_match_workspace_renamed_codec_def
proof (rule lawful_struct)
  show "distinct (map fld_name event_match_workspace_renamed_fields)" by (simp add: event_match_workspace_renamed_fields_def field_names)
  show "list_all (\<lambda>f. fld_ok f r) event_match_workspace_renamed_fields \<Longrightarrow> refill event_match_workspace_renamed_fields r event_match_workspace_renamed_zero = Some r" for r
    by (cases r) (simp add: event_match_workspace_renamed_fields_def event_match_workspace_renamed_zero_def refill_simps)
qed

lemma event_match_workspace_renamed_codec_zero [simp]: "cod_zero (event_match_workspace_renamed_codec) = event_match_workspace_renamed_zero"
  by (simp add: event_match_workspace_renamed_codec_def struct_codec_def)

definition event_match_workspace_updated_fields :: "event_match_workspace_updated field list" where
  "event_match_workspace_updated_fields =
    [plain_field ''workspace_id'' string_codec event_match_workspace_updated_workspace_id (\<lambda>x r. r\<lparr>event_match_workspace_updated_workspace_id := x\<rparr>)]"

definition event_match_workspace_updated_codec :: "event_match_workspace_updated codec" where
  "event_match_workspace_updated_codec = struct_codec event_match_workspace_updated_zero event_match_workspace_updated_fields"

lemma event_match_workspace_updated_codec_lawful [simp]: "lawful (event_match_workspace_updated_codec)"
  unfolding event_match_workspace_updated_codec_def
proof (rule lawful_struct)
  show "distinct (map fld_name event_match_workspace_updated_fields)" by (simp add: event_match_workspace_updated_fields_def field_names)
  show "list_all (\<lambda>f. fld_ok f r) event_match_workspace_updated_fields \<Longrightarrow> refill event_match_workspace_updated_fields r event_match_workspace_updated_zero = Some r" for r
    by (cases r) (simp add: event_match_workspace_updated_fields_def event_match_workspace_updated_zero_def refill_simps)
qed

lemma event_match_workspace_updated_codec_zero [simp]: "cod_zero (event_match_workspace_updated_codec) = event_match_workspace_updated_zero"
  by (simp add: event_match_workspace_updated_codec_def struct_codec_def)

primrec encode_event_match :: "event_match \<Rightarrow> json" where
  "encode_event_match (EventMatchWorkspaceCreated v) = tagged_by ''event'' ''workspace_created'' event_match_workspace_created_fields v"
| "encode_event_match (EventMatchWorkspaceUpdated v) = tagged_by ''event'' ''workspace_updated'' event_match_workspace_updated_fields v"
| "encode_event_match (EventMatchWorkspaceClosed v) = tagged_by ''event'' ''workspace_closed'' event_match_workspace_closed_fields v"
| "encode_event_match (EventMatchWorkspaceRenamed v) = tagged_by ''event'' ''workspace_renamed'' event_match_workspace_renamed_fields v"
| "encode_event_match (EventMatchWorkspaceMoved v) = tagged_by ''event'' ''workspace_moved'' event_match_workspace_moved_fields v"
| "encode_event_match (EventMatchWorkspaceFocused v) = tagged_by ''event'' ''workspace_focused'' event_match_workspace_focused_fields v"
| "encode_event_match (EventMatchTabCreated v) = tagged_by ''event'' ''tab_created'' event_match_tab_created_fields v"
| "encode_event_match (EventMatchTabClosed v) = tagged_by ''event'' ''tab_closed'' event_match_tab_closed_fields v"
| "encode_event_match (EventMatchTabRenamed v) = tagged_by ''event'' ''tab_renamed'' event_match_tab_renamed_fields v"
| "encode_event_match (EventMatchTabMoved v) = tagged_by ''event'' ''tab_moved'' event_match_tab_moved_fields v"
| "encode_event_match (EventMatchTabFocused v) = tagged_by ''event'' ''tab_focused'' event_match_tab_focused_fields v"
| "encode_event_match (EventMatchPaneCreated v) = tagged_by ''event'' ''pane_created'' event_match_pane_created_fields v"
| "encode_event_match (EventMatchPaneClosed v) = tagged_by ''event'' ''pane_closed'' event_match_pane_closed_fields v"
| "encode_event_match (EventMatchPaneFocused v) = tagged_by ''event'' ''pane_focused'' event_match_pane_focused_fields v"
| "encode_event_match (EventMatchPaneMoved v) = tagged_by ''event'' ''pane_moved'' event_match_pane_moved_fields v"
| "encode_event_match (EventMatchPaneOutputChanged v) = tagged_by ''event'' ''pane_output_changed'' event_match_pane_output_changed_fields v"
| "encode_event_match (EventMatchPaneExited v) = tagged_by ''event'' ''pane_exited'' event_match_pane_exited_fields v"
| "encode_event_match (EventMatchPaneAgentDetected v) = tagged_by ''event'' ''pane_agent_detected'' event_match_pane_agent_detected_fields v"
| "encode_event_match (EventMatchPaneAgentStatusChanged v) = tagged_by ''event'' ''pane_agent_status_changed'' event_match_pane_agent_status_changed_fields v"

definition decode_event_match :: "json \<Rightarrow> event_match option" where
  "decode_event_match j = (case decode_struct (head_field ''event'') j [] of
     None \<Rightarrow> None
   | Some tag \<Rightarrow>
       if tag = ''workspace_created'' then map_option EventMatchWorkspaceCreated (cod_dec event_match_workspace_created_codec j event_match_workspace_created_zero)
       else if tag = ''workspace_updated'' then map_option EventMatchWorkspaceUpdated (cod_dec event_match_workspace_updated_codec j event_match_workspace_updated_zero)
       else if tag = ''workspace_closed'' then map_option EventMatchWorkspaceClosed (cod_dec event_match_workspace_closed_codec j event_match_workspace_closed_zero)
       else if tag = ''workspace_renamed'' then map_option EventMatchWorkspaceRenamed (cod_dec event_match_workspace_renamed_codec j event_match_workspace_renamed_zero)
       else if tag = ''workspace_moved'' then map_option EventMatchWorkspaceMoved (cod_dec event_match_workspace_moved_codec j event_match_workspace_moved_zero)
       else if tag = ''workspace_focused'' then map_option EventMatchWorkspaceFocused (cod_dec event_match_workspace_focused_codec j event_match_workspace_focused_zero)
       else if tag = ''tab_created'' then map_option EventMatchTabCreated (cod_dec event_match_tab_created_codec j event_match_tab_created_zero)
       else if tag = ''tab_closed'' then map_option EventMatchTabClosed (cod_dec event_match_tab_closed_codec j event_match_tab_closed_zero)
       else if tag = ''tab_renamed'' then map_option EventMatchTabRenamed (cod_dec event_match_tab_renamed_codec j event_match_tab_renamed_zero)
       else if tag = ''tab_moved'' then map_option EventMatchTabMoved (cod_dec event_match_tab_moved_codec j event_match_tab_moved_zero)
       else if tag = ''tab_focused'' then map_option EventMatchTabFocused (cod_dec event_match_tab_focused_codec j event_match_tab_focused_zero)
       else if tag = ''pane_created'' then map_option EventMatchPaneCreated (cod_dec event_match_pane_created_codec j event_match_pane_created_zero)
       else if tag = ''pane_closed'' then map_option EventMatchPaneClosed (cod_dec event_match_pane_closed_codec j event_match_pane_closed_zero)
       else if tag = ''pane_focused'' then map_option EventMatchPaneFocused (cod_dec event_match_pane_focused_codec j event_match_pane_focused_zero)
       else if tag = ''pane_moved'' then map_option EventMatchPaneMoved (cod_dec event_match_pane_moved_codec j event_match_pane_moved_zero)
       else if tag = ''pane_output_changed'' then map_option EventMatchPaneOutputChanged (cod_dec event_match_pane_output_changed_codec j event_match_pane_output_changed_zero)
       else if tag = ''pane_exited'' then map_option EventMatchPaneExited (cod_dec event_match_pane_exited_codec j event_match_pane_exited_zero)
       else if tag = ''pane_agent_detected'' then map_option EventMatchPaneAgentDetected (cod_dec event_match_pane_agent_detected_codec j event_match_pane_agent_detected_zero)
       else if tag = ''pane_agent_status_changed'' then map_option EventMatchPaneAgentStatusChanged (cod_dec event_match_pane_agent_status_changed_codec j event_match_pane_agent_status_changed_zero)
       else None)"

primrec event_match_ok :: "event_match \<Rightarrow> bool" where
  "event_match_ok (EventMatchWorkspaceCreated v) = cod_ok event_match_workspace_created_codec v"
| "event_match_ok (EventMatchWorkspaceUpdated v) = cod_ok event_match_workspace_updated_codec v"
| "event_match_ok (EventMatchWorkspaceClosed v) = cod_ok event_match_workspace_closed_codec v"
| "event_match_ok (EventMatchWorkspaceRenamed v) = cod_ok event_match_workspace_renamed_codec v"
| "event_match_ok (EventMatchWorkspaceMoved v) = cod_ok event_match_workspace_moved_codec v"
| "event_match_ok (EventMatchWorkspaceFocused v) = cod_ok event_match_workspace_focused_codec v"
| "event_match_ok (EventMatchTabCreated v) = cod_ok event_match_tab_created_codec v"
| "event_match_ok (EventMatchTabClosed v) = cod_ok event_match_tab_closed_codec v"
| "event_match_ok (EventMatchTabRenamed v) = cod_ok event_match_tab_renamed_codec v"
| "event_match_ok (EventMatchTabMoved v) = cod_ok event_match_tab_moved_codec v"
| "event_match_ok (EventMatchTabFocused v) = cod_ok event_match_tab_focused_codec v"
| "event_match_ok (EventMatchPaneCreated v) = cod_ok event_match_pane_created_codec v"
| "event_match_ok (EventMatchPaneClosed v) = cod_ok event_match_pane_closed_codec v"
| "event_match_ok (EventMatchPaneFocused v) = cod_ok event_match_pane_focused_codec v"
| "event_match_ok (EventMatchPaneMoved v) = cod_ok event_match_pane_moved_codec v"
| "event_match_ok (EventMatchPaneOutputChanged v) = cod_ok event_match_pane_output_changed_codec v"
| "event_match_ok (EventMatchPaneExited v) = cod_ok event_match_pane_exited_codec v"
| "event_match_ok (EventMatchPaneAgentDetected v) = cod_ok event_match_pane_agent_detected_codec v"
| "event_match_ok (EventMatchPaneAgentStatusChanged v) = cod_ok event_match_pane_agent_status_changed_codec v"

lemma free_of_event_match [simp]:
  "free_of ''event'' event_match_workspace_created_fields"
  "free_of ''event'' event_match_workspace_updated_fields"
  "free_of ''event'' event_match_workspace_closed_fields"
  "free_of ''event'' event_match_workspace_renamed_fields"
  "free_of ''event'' event_match_workspace_moved_fields"
  "free_of ''event'' event_match_workspace_focused_fields"
  "free_of ''event'' event_match_tab_created_fields"
  "free_of ''event'' event_match_tab_closed_fields"
  "free_of ''event'' event_match_tab_renamed_fields"
  "free_of ''event'' event_match_tab_moved_fields"
  "free_of ''event'' event_match_tab_focused_fields"
  "free_of ''event'' event_match_pane_created_fields"
  "free_of ''event'' event_match_pane_closed_fields"
  "free_of ''event'' event_match_pane_focused_fields"
  "free_of ''event'' event_match_pane_moved_fields"
  "free_of ''event'' event_match_pane_output_changed_fields"
  "free_of ''event'' event_match_pane_exited_fields"
  "free_of ''event'' event_match_pane_agent_detected_fields"
  "free_of ''event'' event_match_pane_agent_status_changed_fields"
  by (simp_all add: free_of_def field_names upper_char_def in_range_def bytes_of_def char_of_def
      event_match_workspace_created_fields_def
      event_match_workspace_updated_fields_def
      event_match_workspace_closed_fields_def
      event_match_workspace_renamed_fields_def
      event_match_workspace_moved_fields_def
      event_match_workspace_focused_fields_def
      event_match_tab_created_fields_def
      event_match_tab_closed_fields_def
      event_match_tab_renamed_fields_def
      event_match_tab_moved_fields_def
      event_match_tab_focused_fields_def
      event_match_pane_created_fields_def
      event_match_pane_closed_fields_def
      event_match_pane_focused_fields_def
      event_match_pane_moved_fields_def
      event_match_pane_output_changed_fields_def
      event_match_pane_exited_fields_def
      event_match_pane_agent_detected_fields_def
      event_match_pane_agent_status_changed_fields_def)

lemmas decode_tagged_event_match =
  decode_tagged_by [OF event_match_workspace_created_codec_lawful event_match_workspace_created_codec_def free_of_event_match(1)]
  decode_tagged_by [OF event_match_workspace_updated_codec_lawful event_match_workspace_updated_codec_def free_of_event_match(2)]
  decode_tagged_by [OF event_match_workspace_closed_codec_lawful event_match_workspace_closed_codec_def free_of_event_match(3)]
  decode_tagged_by [OF event_match_workspace_renamed_codec_lawful event_match_workspace_renamed_codec_def free_of_event_match(4)]
  decode_tagged_by [OF event_match_workspace_moved_codec_lawful event_match_workspace_moved_codec_def free_of_event_match(5)]
  decode_tagged_by [OF event_match_workspace_focused_codec_lawful event_match_workspace_focused_codec_def free_of_event_match(6)]
  decode_tagged_by [OF event_match_tab_created_codec_lawful event_match_tab_created_codec_def free_of_event_match(7)]
  decode_tagged_by [OF event_match_tab_closed_codec_lawful event_match_tab_closed_codec_def free_of_event_match(8)]
  decode_tagged_by [OF event_match_tab_renamed_codec_lawful event_match_tab_renamed_codec_def free_of_event_match(9)]
  decode_tagged_by [OF event_match_tab_moved_codec_lawful event_match_tab_moved_codec_def free_of_event_match(10)]
  decode_tagged_by [OF event_match_tab_focused_codec_lawful event_match_tab_focused_codec_def free_of_event_match(11)]
  decode_tagged_by [OF event_match_pane_created_codec_lawful event_match_pane_created_codec_def free_of_event_match(12)]
  decode_tagged_by [OF event_match_pane_closed_codec_lawful event_match_pane_closed_codec_def free_of_event_match(13)]
  decode_tagged_by [OF event_match_pane_focused_codec_lawful event_match_pane_focused_codec_def free_of_event_match(14)]
  decode_tagged_by [OF event_match_pane_moved_codec_lawful event_match_pane_moved_codec_def free_of_event_match(15)]
  decode_tagged_by [OF event_match_pane_output_changed_codec_lawful event_match_pane_output_changed_codec_def free_of_event_match(16)]
  decode_tagged_by [OF event_match_pane_exited_codec_lawful event_match_pane_exited_codec_def free_of_event_match(17)]
  decode_tagged_by [OF event_match_pane_agent_detected_codec_lawful event_match_pane_agent_detected_codec_def free_of_event_match(18)]
  decode_tagged_by [OF event_match_pane_agent_status_changed_codec_lawful event_match_pane_agent_status_changed_codec_def free_of_event_match(19)]

lemma decode_event_match_encoded:
  "event_match_ok u \<Longrightarrow> decode_event_match (encode_event_match u) = Some u \<and> encode_event_match u \<noteq> JNull"
  by (cases u) (simp_all add: decode_event_match_def decode_head decode_tagged_event_match tagged_by_not_null)

definition events_wait_params_fields :: "events_wait_params field list" where
  "events_wait_params_fields =
    [union_field ''match_event'' encode_event_match decode_event_match event_match_ok events_wait_params_match_event (\<lambda>x r. r\<lparr>events_wait_params_match_event := x\<rparr>),
     optional_field ''timeout_ms'' uint_codec events_wait_params_timeout_ms (\<lambda>x r. r\<lparr>events_wait_params_timeout_ms := x\<rparr>)]"

definition events_wait_params_codec :: "events_wait_params codec" where
  "events_wait_params_codec = once_codec events_wait_params_zero events_wait_params_fields ''match_event''"

lemma events_wait_params_codec_lawful [simp]: "lawful (events_wait_params_codec)"
  unfolding events_wait_params_codec_def
proof (rule lawful_once)
  show "distinct (map fld_name events_wait_params_fields)" by (simp add: events_wait_params_fields_def field_names union_field_name)
  show "list_all (\<lambda>f. fld_ok f r) events_wait_params_fields \<Longrightarrow> refill events_wait_params_fields r events_wait_params_zero = Some r" for r
    by (cases r)
      (simp add: events_wait_params_fields_def events_wait_params_zero_def refill_simps union_field_ok refill_union [OF decode_event_match_encoded])
qed

lemma events_wait_params_codec_zero [simp]: "cod_zero (events_wait_params_codec) = events_wait_params_zero"
  by (simp add: events_wait_params_codec_def once_codec_def struct_codec_def)

definition integration_install_params_fields :: "integration_install_params field list" where
  "integration_install_params_fields =
    [plain_field ''target'' string_codec integration_install_params_target (\<lambda>x r. r\<lparr>integration_install_params_target := x\<rparr>)]"

definition integration_install_params_codec :: "integration_install_params codec" where
  "integration_install_params_codec = struct_codec integration_install_params_zero integration_install_params_fields"

lemma integration_install_params_codec_lawful [simp]: "lawful (integration_install_params_codec)"
  unfolding integration_install_params_codec_def
proof (rule lawful_struct)
  show "distinct (map fld_name integration_install_params_fields)" by (simp add: integration_install_params_fields_def field_names)
  show "list_all (\<lambda>f. fld_ok f r) integration_install_params_fields \<Longrightarrow> refill integration_install_params_fields r integration_install_params_zero = Some r" for r
    by (cases r) (simp add: integration_install_params_fields_def integration_install_params_zero_def refill_simps)
qed

lemma integration_install_params_codec_zero [simp]: "cod_zero (integration_install_params_codec) = integration_install_params_zero"
  by (simp add: integration_install_params_codec_def struct_codec_def)

definition integration_uninstall_params_fields :: "integration_uninstall_params field list" where
  "integration_uninstall_params_fields =
    [plain_field ''target'' string_codec integration_uninstall_params_target (\<lambda>x r. r\<lparr>integration_uninstall_params_target := x\<rparr>)]"

definition integration_uninstall_params_codec :: "integration_uninstall_params codec" where
  "integration_uninstall_params_codec = struct_codec integration_uninstall_params_zero integration_uninstall_params_fields"

lemma integration_uninstall_params_codec_lawful [simp]: "lawful (integration_uninstall_params_codec)"
  unfolding integration_uninstall_params_codec_def
proof (rule lawful_struct)
  show "distinct (map fld_name integration_uninstall_params_fields)" by (simp add: integration_uninstall_params_fields_def field_names)
  show "list_all (\<lambda>f. fld_ok f r) integration_uninstall_params_fields \<Longrightarrow> refill integration_uninstall_params_fields r integration_uninstall_params_zero = Some r" for r
    by (cases r) (simp add: integration_uninstall_params_fields_def integration_uninstall_params_zero_def refill_simps)
qed

lemma integration_uninstall_params_codec_zero [simp]: "cod_zero (integration_uninstall_params_codec) = integration_uninstall_params_zero"
  by (simp add: integration_uninstall_params_codec_def struct_codec_def)

definition layout_apply_params_fields :: "(string \<Rightarrow> float64 option) \<Rightarrow> (float64 \<Rightarrow> string) \<Rightarrow> layout_apply_params field list" where
  "layout_apply_params_fields pf ff =
    [optional_field ''focus'' bool_codec layout_apply_params_focus (\<lambda>x r. r\<lparr>layout_apply_params_focus := x\<rparr>),
     union_field ''root'' (encode_layout_node ff) (decode_layout_node pf ff) (plain_layout_node_ok pf ff) layout_apply_params_root (\<lambda>x r. r\<lparr>layout_apply_params_root := x\<rparr>),
     optional_field ''tab_id'' string_codec layout_apply_params_tab_id (\<lambda>x r. r\<lparr>layout_apply_params_tab_id := x\<rparr>),
     optional_field ''tab_label'' string_codec layout_apply_params_tab_label (\<lambda>x r. r\<lparr>layout_apply_params_tab_label := x\<rparr>),
     optional_field ''workspace_id'' string_codec layout_apply_params_workspace_id (\<lambda>x r. r\<lparr>layout_apply_params_workspace_id := x\<rparr>)]"

definition layout_apply_params_codec :: "(string \<Rightarrow> float64 option) \<Rightarrow> (float64 \<Rightarrow> string) \<Rightarrow> layout_apply_params codec" where
  "layout_apply_params_codec pf ff = once_codec layout_apply_params_zero (layout_apply_params_fields pf ff) ''root''"

lemma layout_apply_params_codec_lawful [simp]: "lawful (layout_apply_params_codec pf ff)"
  unfolding layout_apply_params_codec_def
proof (rule lawful_once)
  show "distinct (map fld_name (layout_apply_params_fields pf ff))" by (simp add: layout_apply_params_fields_def field_names union_field_name)
  show "list_all (\<lambda>f. fld_ok f r) (layout_apply_params_fields pf ff) \<Longrightarrow> refill (layout_apply_params_fields pf ff) r layout_apply_params_zero = Some r" for r
    by (cases r)
      (simp add: layout_apply_params_fields_def layout_apply_params_zero_def refill_simps union_field_ok refill_union [OF decode_layout_node_encoded])
qed

lemma layout_apply_params_codec_zero [simp]: "cod_zero (layout_apply_params_codec pf ff) = layout_apply_params_zero"
  by (simp add: layout_apply_params_codec_def once_codec_def struct_codec_def)

definition layout_export_params_fields :: "layout_export_params field list" where
  "layout_export_params_fields =
    [optional_field ''pane_id'' string_codec layout_export_params_pane_id (\<lambda>x r. r\<lparr>layout_export_params_pane_id := x\<rparr>),
     optional_field ''tab_id'' string_codec layout_export_params_tab_id (\<lambda>x r. r\<lparr>layout_export_params_tab_id := x\<rparr>)]"

definition layout_export_params_codec :: "layout_export_params codec" where
  "layout_export_params_codec = struct_codec layout_export_params_zero layout_export_params_fields"

lemma layout_export_params_codec_lawful [simp]: "lawful (layout_export_params_codec)"
  unfolding layout_export_params_codec_def
proof (rule lawful_struct)
  show "distinct (map fld_name layout_export_params_fields)" by (simp add: layout_export_params_fields_def field_names)
  show "list_all (\<lambda>f. fld_ok f r) layout_export_params_fields \<Longrightarrow> refill layout_export_params_fields r layout_export_params_zero = Some r" for r
    by (cases r) (simp add: layout_export_params_fields_def layout_export_params_zero_def refill_simps)
qed

lemma layout_export_params_codec_zero [simp]: "cod_zero (layout_export_params_codec) = layout_export_params_zero"
  by (simp add: layout_export_params_codec_def struct_codec_def)

definition layout_set_split_ratio_params_fields :: "(string \<Rightarrow> float64 option) \<Rightarrow> (float64 \<Rightarrow> string) \<Rightarrow> layout_set_split_ratio_params field list" where
  "layout_set_split_ratio_params_fields pf ff =
    [optional_field ''pane_id'' string_codec layout_set_split_ratio_params_pane_id (\<lambda>x r. r\<lparr>layout_set_split_ratio_params_pane_id := x\<rparr>),
     plain_field ''path'' (slice_codec bool_codec) layout_set_split_ratio_params_path (\<lambda>x r. r\<lparr>layout_set_split_ratio_params_path := x\<rparr>),
     plain_field ''ratio'' (float_codec pf ff) layout_set_split_ratio_params_ratio (\<lambda>x r. r\<lparr>layout_set_split_ratio_params_ratio := x\<rparr>),
     optional_field ''tab_id'' string_codec layout_set_split_ratio_params_tab_id (\<lambda>x r. r\<lparr>layout_set_split_ratio_params_tab_id := x\<rparr>)]"

definition layout_set_split_ratio_params_codec :: "(string \<Rightarrow> float64 option) \<Rightarrow> (float64 \<Rightarrow> string) \<Rightarrow> layout_set_split_ratio_params codec" where
  "layout_set_split_ratio_params_codec pf ff = struct_codec layout_set_split_ratio_params_zero (layout_set_split_ratio_params_fields pf ff)"

lemma layout_set_split_ratio_params_codec_lawful [simp]: "lawful (layout_set_split_ratio_params_codec pf ff)"
  unfolding layout_set_split_ratio_params_codec_def
proof (rule lawful_struct)
  show "distinct (map fld_name (layout_set_split_ratio_params_fields pf ff))" by (simp add: layout_set_split_ratio_params_fields_def field_names)
  show "list_all (\<lambda>f. fld_ok f r) (layout_set_split_ratio_params_fields pf ff) \<Longrightarrow> refill (layout_set_split_ratio_params_fields pf ff) r layout_set_split_ratio_params_zero = Some r" for r
    by (cases r) (simp add: layout_set_split_ratio_params_fields_def layout_set_split_ratio_params_zero_def refill_simps)
qed

lemma layout_set_split_ratio_params_codec_zero [simp]: "cod_zero (layout_set_split_ratio_params_codec pf ff) = layout_set_split_ratio_params_zero"
  by (simp add: layout_set_split_ratio_params_codec_def struct_codec_def)

definition notification_show_params_fields :: "notification_show_params field list" where
  "notification_show_params_fields =
    [optional_field ''body'' string_codec notification_show_params_body (\<lambda>x r. r\<lparr>notification_show_params_body := x\<rparr>),
     optional_field ''position'' string_codec notification_show_params_position (\<lambda>x r. r\<lparr>notification_show_params_position := x\<rparr>),
     optional_field ''sound'' string_codec notification_show_params_sound (\<lambda>x r. r\<lparr>notification_show_params_sound := x\<rparr>),
     plain_field ''title'' string_codec notification_show_params_title (\<lambda>x r. r\<lparr>notification_show_params_title := x\<rparr>)]"

definition notification_show_params_codec :: "notification_show_params codec" where
  "notification_show_params_codec = struct_codec notification_show_params_zero notification_show_params_fields"

lemma notification_show_params_codec_lawful [simp]: "lawful (notification_show_params_codec)"
  unfolding notification_show_params_codec_def
proof (rule lawful_struct)
  show "distinct (map fld_name notification_show_params_fields)" by (simp add: notification_show_params_fields_def field_names)
  show "list_all (\<lambda>f. fld_ok f r) notification_show_params_fields \<Longrightarrow> refill notification_show_params_fields r notification_show_params_zero = Some r" for r
    by (cases r) (simp add: notification_show_params_fields_def notification_show_params_zero_def refill_simps)
qed

lemma notification_show_params_codec_zero [simp]: "cod_zero (notification_show_params_codec) = notification_show_params_zero"
  by (simp add: notification_show_params_codec_def struct_codec_def)

definition pane_clear_agent_authority_params_fields :: "pane_clear_agent_authority_params field list" where
  "pane_clear_agent_authority_params_fields =
    [plain_field ''pane_id'' string_codec pane_clear_agent_authority_params_pane_id (\<lambda>x r. r\<lparr>pane_clear_agent_authority_params_pane_id := x\<rparr>),
     optional_field ''seq'' uint_codec pane_clear_agent_authority_params_seq (\<lambda>x r. r\<lparr>pane_clear_agent_authority_params_seq := x\<rparr>),
     optional_field ''source'' string_codec pane_clear_agent_authority_params_source (\<lambda>x r. r\<lparr>pane_clear_agent_authority_params_source := x\<rparr>)]"

definition pane_clear_agent_authority_params_codec :: "pane_clear_agent_authority_params codec" where
  "pane_clear_agent_authority_params_codec = struct_codec pane_clear_agent_authority_params_zero pane_clear_agent_authority_params_fields"

lemma pane_clear_agent_authority_params_codec_lawful [simp]: "lawful (pane_clear_agent_authority_params_codec)"
  unfolding pane_clear_agent_authority_params_codec_def
proof (rule lawful_struct)
  show "distinct (map fld_name pane_clear_agent_authority_params_fields)" by (simp add: pane_clear_agent_authority_params_fields_def field_names)
  show "list_all (\<lambda>f. fld_ok f r) pane_clear_agent_authority_params_fields \<Longrightarrow> refill pane_clear_agent_authority_params_fields r pane_clear_agent_authority_params_zero = Some r" for r
    by (cases r) (simp add: pane_clear_agent_authority_params_fields_def pane_clear_agent_authority_params_zero_def refill_simps)
qed

lemma pane_clear_agent_authority_params_codec_zero [simp]: "cod_zero (pane_clear_agent_authority_params_codec) = pane_clear_agent_authority_params_zero"
  by (simp add: pane_clear_agent_authority_params_codec_def struct_codec_def)

definition pane_copy_motion_params_fields :: "pane_copy_motion_params field list" where
  "pane_copy_motion_params_fields =
    [optional_field ''content_revision'' uint_codec pane_copy_motion_params_content_revision (\<lambda>x r. r\<lparr>pane_copy_motion_params_content_revision := x\<rparr>),
     plain_field ''cursor'' pane_text_point_codec pane_copy_motion_params_cursor (\<lambda>x r. r\<lparr>pane_copy_motion_params_cursor := x\<rparr>),
     plain_field ''motion'' string_codec pane_copy_motion_params_motion (\<lambda>x r. r\<lparr>pane_copy_motion_params_motion := x\<rparr>),
     plain_field ''pane_id'' string_codec pane_copy_motion_params_pane_id (\<lambda>x r. r\<lparr>pane_copy_motion_params_pane_id := x\<rparr>)]"

definition pane_copy_motion_params_codec :: "pane_copy_motion_params codec" where
  "pane_copy_motion_params_codec = struct_codec pane_copy_motion_params_zero pane_copy_motion_params_fields"

lemma pane_copy_motion_params_codec_lawful [simp]: "lawful (pane_copy_motion_params_codec)"
  unfolding pane_copy_motion_params_codec_def
proof (rule lawful_struct)
  show "distinct (map fld_name pane_copy_motion_params_fields)" by (simp add: pane_copy_motion_params_fields_def field_names)
  show "list_all (\<lambda>f. fld_ok f r) pane_copy_motion_params_fields \<Longrightarrow> refill pane_copy_motion_params_fields r pane_copy_motion_params_zero = Some r" for r
    by (cases r) (simp add: pane_copy_motion_params_fields_def pane_copy_motion_params_zero_def refill_simps)
qed

lemma pane_copy_motion_params_codec_zero [simp]: "cod_zero (pane_copy_motion_params_codec) = pane_copy_motion_params_zero"
  by (simp add: pane_copy_motion_params_codec_def struct_codec_def)

definition pane_copy_search_params_fields :: "pane_copy_search_params field list" where
  "pane_copy_search_params_fields =
    [plain_field ''content_revision'' uint_codec pane_copy_search_params_content_revision (\<lambda>x r. r\<lparr>pane_copy_search_params_content_revision := x\<rparr>),
     plain_field ''cursor'' pane_text_point_codec pane_copy_search_params_cursor (\<lambda>x r. r\<lparr>pane_copy_search_params_cursor := x\<rparr>),
     plain_field ''direction'' string_codec pane_copy_search_params_direction (\<lambda>x r. r\<lparr>pane_copy_search_params_direction := x\<rparr>),
     plain_field ''pane_id'' string_codec pane_copy_search_params_pane_id (\<lambda>x r. r\<lparr>pane_copy_search_params_pane_id := x\<rparr>),
     optional_field ''previous'' pane_text_range_codec pane_copy_search_params_previous (\<lambda>x r. r\<lparr>pane_copy_search_params_previous := x\<rparr>),
     plain_field ''query'' string_codec pane_copy_search_params_query (\<lambda>x r. r\<lparr>pane_copy_search_params_query := x\<rparr>)]"

definition pane_copy_search_params_codec :: "pane_copy_search_params codec" where
  "pane_copy_search_params_codec = struct_codec pane_copy_search_params_zero pane_copy_search_params_fields"

lemma pane_copy_search_params_codec_lawful [simp]: "lawful (pane_copy_search_params_codec)"
  unfolding pane_copy_search_params_codec_def
proof (rule lawful_struct)
  show "distinct (map fld_name pane_copy_search_params_fields)" by (simp add: pane_copy_search_params_fields_def field_names)
  show "list_all (\<lambda>f. fld_ok f r) pane_copy_search_params_fields \<Longrightarrow> refill pane_copy_search_params_fields r pane_copy_search_params_zero = Some r" for r
    by (cases r) (simp add: pane_copy_search_params_fields_def pane_copy_search_params_zero_def refill_simps)
qed

lemma pane_copy_search_params_codec_zero [simp]: "cod_zero (pane_copy_search_params_codec) = pane_copy_search_params_zero"
  by (simp add: pane_copy_search_params_codec_def struct_codec_def)

definition pane_current_params_fields :: "pane_current_params field list" where
  "pane_current_params_fields =
    [optional_field ''caller_pane_id'' string_codec pane_current_params_caller_pane_id (\<lambda>x r. r\<lparr>pane_current_params_caller_pane_id := x\<rparr>)]"

definition pane_current_params_codec :: "pane_current_params codec" where
  "pane_current_params_codec = struct_codec pane_current_params_zero pane_current_params_fields"

lemma pane_current_params_codec_lawful [simp]: "lawful (pane_current_params_codec)"
  unfolding pane_current_params_codec_def
proof (rule lawful_struct)
  show "distinct (map fld_name pane_current_params_fields)" by (simp add: pane_current_params_fields_def field_names)
  show "list_all (\<lambda>f. fld_ok f r) pane_current_params_fields \<Longrightarrow> refill pane_current_params_fields r pane_current_params_zero = Some r" for r
    by (cases r) (simp add: pane_current_params_fields_def pane_current_params_zero_def refill_simps)
qed

lemma pane_current_params_codec_zero [simp]: "cod_zero (pane_current_params_codec) = pane_current_params_zero"
  by (simp add: pane_current_params_codec_def struct_codec_def)

definition pane_edges_params_fields :: "pane_edges_params field list" where
  "pane_edges_params_fields =
    [optional_field ''pane_id'' string_codec pane_edges_params_pane_id (\<lambda>x r. r\<lparr>pane_edges_params_pane_id := x\<rparr>)]"

definition pane_edges_params_codec :: "pane_edges_params codec" where
  "pane_edges_params_codec = struct_codec pane_edges_params_zero pane_edges_params_fields"

lemma pane_edges_params_codec_lawful [simp]: "lawful (pane_edges_params_codec)"
  unfolding pane_edges_params_codec_def
proof (rule lawful_struct)
  show "distinct (map fld_name pane_edges_params_fields)" by (simp add: pane_edges_params_fields_def field_names)
  show "list_all (\<lambda>f. fld_ok f r) pane_edges_params_fields \<Longrightarrow> refill pane_edges_params_fields r pane_edges_params_zero = Some r" for r
    by (cases r) (simp add: pane_edges_params_fields_def pane_edges_params_zero_def refill_simps)
qed

lemma pane_edges_params_codec_zero [simp]: "cod_zero (pane_edges_params_codec) = pane_edges_params_zero"
  by (simp add: pane_edges_params_codec_def struct_codec_def)

definition pane_focus_direction_params_fields :: "pane_focus_direction_params field list" where
  "pane_focus_direction_params_fields =
    [plain_field ''direction'' string_codec pane_focus_direction_params_direction (\<lambda>x r. r\<lparr>pane_focus_direction_params_direction := x\<rparr>),
     optional_field ''pane_id'' string_codec pane_focus_direction_params_pane_id (\<lambda>x r. r\<lparr>pane_focus_direction_params_pane_id := x\<rparr>)]"

definition pane_focus_direction_params_codec :: "pane_focus_direction_params codec" where
  "pane_focus_direction_params_codec = struct_codec pane_focus_direction_params_zero pane_focus_direction_params_fields"

lemma pane_focus_direction_params_codec_lawful [simp]: "lawful (pane_focus_direction_params_codec)"
  unfolding pane_focus_direction_params_codec_def
proof (rule lawful_struct)
  show "distinct (map fld_name pane_focus_direction_params_fields)" by (simp add: pane_focus_direction_params_fields_def field_names)
  show "list_all (\<lambda>f. fld_ok f r) pane_focus_direction_params_fields \<Longrightarrow> refill pane_focus_direction_params_fields r pane_focus_direction_params_zero = Some r" for r
    by (cases r) (simp add: pane_focus_direction_params_fields_def pane_focus_direction_params_zero_def refill_simps)
qed

lemma pane_focus_direction_params_codec_zero [simp]: "cod_zero (pane_focus_direction_params_codec) = pane_focus_direction_params_zero"
  by (simp add: pane_focus_direction_params_codec_def struct_codec_def)

definition pane_input_set_params_fields :: "pane_input_set_params field list" where
  "pane_input_set_params_fields =
    [plain_field ''pane_id'' string_codec pane_input_set_params_pane_id (\<lambda>x r. r\<lparr>pane_input_set_params_pane_id := x\<rparr>),
     plain_field ''right_click'' string_codec pane_input_set_params_right_click (\<lambda>x r. r\<lparr>pane_input_set_params_right_click := x\<rparr>)]"

definition pane_input_set_params_codec :: "pane_input_set_params codec" where
  "pane_input_set_params_codec = struct_codec pane_input_set_params_zero pane_input_set_params_fields"

lemma pane_input_set_params_codec_lawful [simp]: "lawful (pane_input_set_params_codec)"
  unfolding pane_input_set_params_codec_def
proof (rule lawful_struct)
  show "distinct (map fld_name pane_input_set_params_fields)" by (simp add: pane_input_set_params_fields_def field_names)
  show "list_all (\<lambda>f. fld_ok f r) pane_input_set_params_fields \<Longrightarrow> refill pane_input_set_params_fields r pane_input_set_params_zero = Some r" for r
    by (cases r) (simp add: pane_input_set_params_fields_def pane_input_set_params_zero_def refill_simps)
qed

lemma pane_input_set_params_codec_zero [simp]: "cod_zero (pane_input_set_params_codec) = pane_input_set_params_zero"
  by (simp add: pane_input_set_params_codec_def struct_codec_def)

definition pane_layout_params_fields :: "pane_layout_params field list" where
  "pane_layout_params_fields =
    [optional_field ''pane_id'' string_codec pane_layout_params_pane_id (\<lambda>x r. r\<lparr>pane_layout_params_pane_id := x\<rparr>)]"

definition pane_layout_params_codec :: "pane_layout_params codec" where
  "pane_layout_params_codec = struct_codec pane_layout_params_zero pane_layout_params_fields"

lemma pane_layout_params_codec_lawful [simp]: "lawful (pane_layout_params_codec)"
  unfolding pane_layout_params_codec_def
proof (rule lawful_struct)
  show "distinct (map fld_name pane_layout_params_fields)" by (simp add: pane_layout_params_fields_def field_names)
  show "list_all (\<lambda>f. fld_ok f r) pane_layout_params_fields \<Longrightarrow> refill pane_layout_params_fields r pane_layout_params_zero = Some r" for r
    by (cases r) (simp add: pane_layout_params_fields_def pane_layout_params_zero_def refill_simps)
qed

lemma pane_layout_params_codec_zero [simp]: "cod_zero (pane_layout_params_codec) = pane_layout_params_zero"
  by (simp add: pane_layout_params_codec_def struct_codec_def)

definition pane_link_activate_params_fields :: "pane_link_activate_params field list" where
  "pane_link_activate_params_fields =
    [plain_field ''col'' uint_codec pane_link_activate_params_col (\<lambda>x r. r\<lparr>pane_link_activate_params_col := x\<rparr>),
     optional_field ''content_revision'' uint_codec pane_link_activate_params_content_revision (\<lambda>x r. r\<lparr>pane_link_activate_params_content_revision := x\<rparr>),
     optional_field ''offset_from_bottom'' uint_codec pane_link_activate_params_offset_from_bottom (\<lambda>x r. r\<lparr>pane_link_activate_params_offset_from_bottom := x\<rparr>),
     plain_field ''pane_id'' string_codec pane_link_activate_params_pane_id (\<lambda>x r. r\<lparr>pane_link_activate_params_pane_id := x\<rparr>),
     plain_field ''viewport_row'' uint_codec pane_link_activate_params_viewport_row (\<lambda>x r. r\<lparr>pane_link_activate_params_viewport_row := x\<rparr>)]"

definition pane_link_activate_params_codec :: "pane_link_activate_params codec" where
  "pane_link_activate_params_codec = struct_codec pane_link_activate_params_zero pane_link_activate_params_fields"

lemma pane_link_activate_params_codec_lawful [simp]: "lawful (pane_link_activate_params_codec)"
  unfolding pane_link_activate_params_codec_def
proof (rule lawful_struct)
  show "distinct (map fld_name pane_link_activate_params_fields)" by (simp add: pane_link_activate_params_fields_def field_names)
  show "list_all (\<lambda>f. fld_ok f r) pane_link_activate_params_fields \<Longrightarrow> refill pane_link_activate_params_fields r pane_link_activate_params_zero = Some r" for r
    by (cases r) (simp add: pane_link_activate_params_fields_def pane_link_activate_params_zero_def refill_simps)
qed

lemma pane_link_activate_params_codec_zero [simp]: "cod_zero (pane_link_activate_params_codec) = pane_link_activate_params_zero"
  by (simp add: pane_link_activate_params_codec_def struct_codec_def)

definition pane_list_params_fields :: "pane_list_params field list" where
  "pane_list_params_fields =
    [optional_field ''workspace_id'' string_codec pane_list_params_workspace_id (\<lambda>x r. r\<lparr>pane_list_params_workspace_id := x\<rparr>)]"

definition pane_list_params_codec :: "pane_list_params codec" where
  "pane_list_params_codec = struct_codec pane_list_params_zero pane_list_params_fields"

lemma pane_list_params_codec_lawful [simp]: "lawful (pane_list_params_codec)"
  unfolding pane_list_params_codec_def
proof (rule lawful_struct)
  show "distinct (map fld_name pane_list_params_fields)" by (simp add: pane_list_params_fields_def field_names)
  show "list_all (\<lambda>f. fld_ok f r) pane_list_params_fields \<Longrightarrow> refill pane_list_params_fields r pane_list_params_zero = Some r" for r
    by (cases r) (simp add: pane_list_params_fields_def pane_list_params_zero_def refill_simps)
qed

lemma pane_list_params_codec_zero [simp]: "cod_zero (pane_list_params_codec) = pane_list_params_zero"
  by (simp add: pane_list_params_codec_def struct_codec_def)

definition pane_move_destination_new_tab_fields :: "pane_move_destination_new_tab field list" where
  "pane_move_destination_new_tab_fields =
    [optional_field ''label'' string_codec pane_move_destination_new_tab_label (\<lambda>x r. r\<lparr>pane_move_destination_new_tab_label := x\<rparr>),
     optional_field ''workspace_id'' string_codec pane_move_destination_new_tab_workspace_id (\<lambda>x r. r\<lparr>pane_move_destination_new_tab_workspace_id := x\<rparr>)]"

definition pane_move_destination_new_tab_codec :: "pane_move_destination_new_tab codec" where
  "pane_move_destination_new_tab_codec = struct_codec pane_move_destination_new_tab_zero pane_move_destination_new_tab_fields"

lemma pane_move_destination_new_tab_codec_lawful [simp]: "lawful (pane_move_destination_new_tab_codec)"
  unfolding pane_move_destination_new_tab_codec_def
proof (rule lawful_struct)
  show "distinct (map fld_name pane_move_destination_new_tab_fields)" by (simp add: pane_move_destination_new_tab_fields_def field_names)
  show "list_all (\<lambda>f. fld_ok f r) pane_move_destination_new_tab_fields \<Longrightarrow> refill pane_move_destination_new_tab_fields r pane_move_destination_new_tab_zero = Some r" for r
    by (cases r) (simp add: pane_move_destination_new_tab_fields_def pane_move_destination_new_tab_zero_def refill_simps)
qed

lemma pane_move_destination_new_tab_codec_zero [simp]: "cod_zero (pane_move_destination_new_tab_codec) = pane_move_destination_new_tab_zero"
  by (simp add: pane_move_destination_new_tab_codec_def struct_codec_def)

definition pane_move_destination_new_workspace_fields :: "pane_move_destination_new_workspace field list" where
  "pane_move_destination_new_workspace_fields =
    [optional_field ''label'' string_codec pane_move_destination_new_workspace_label (\<lambda>x r. r\<lparr>pane_move_destination_new_workspace_label := x\<rparr>),
     optional_field ''tab_label'' string_codec pane_move_destination_new_workspace_tab_label (\<lambda>x r. r\<lparr>pane_move_destination_new_workspace_tab_label := x\<rparr>)]"

definition pane_move_destination_new_workspace_codec :: "pane_move_destination_new_workspace codec" where
  "pane_move_destination_new_workspace_codec = struct_codec pane_move_destination_new_workspace_zero pane_move_destination_new_workspace_fields"

lemma pane_move_destination_new_workspace_codec_lawful [simp]: "lawful (pane_move_destination_new_workspace_codec)"
  unfolding pane_move_destination_new_workspace_codec_def
proof (rule lawful_struct)
  show "distinct (map fld_name pane_move_destination_new_workspace_fields)" by (simp add: pane_move_destination_new_workspace_fields_def field_names)
  show "list_all (\<lambda>f. fld_ok f r) pane_move_destination_new_workspace_fields \<Longrightarrow> refill pane_move_destination_new_workspace_fields r pane_move_destination_new_workspace_zero = Some r" for r
    by (cases r) (simp add: pane_move_destination_new_workspace_fields_def pane_move_destination_new_workspace_zero_def refill_simps)
qed

lemma pane_move_destination_new_workspace_codec_zero [simp]: "cod_zero (pane_move_destination_new_workspace_codec) = pane_move_destination_new_workspace_zero"
  by (simp add: pane_move_destination_new_workspace_codec_def struct_codec_def)

definition pane_move_destination_tab_fields :: "(string \<Rightarrow> float64 option) \<Rightarrow> (float64 \<Rightarrow> string) \<Rightarrow> pane_move_destination_tab field list" where
  "pane_move_destination_tab_fields pf ff =
    [optional_field ''ratio'' (float_codec pf ff) pane_move_destination_tab_ratio (\<lambda>x r. r\<lparr>pane_move_destination_tab_ratio := x\<rparr>),
     plain_field ''split'' string_codec pane_move_destination_tab_split (\<lambda>x r. r\<lparr>pane_move_destination_tab_split := x\<rparr>),
     plain_field ''tab_id'' string_codec pane_move_destination_tab_tab_id (\<lambda>x r. r\<lparr>pane_move_destination_tab_tab_id := x\<rparr>),
     optional_field ''target_pane_id'' string_codec pane_move_destination_tab_target_pane_id (\<lambda>x r. r\<lparr>pane_move_destination_tab_target_pane_id := x\<rparr>)]"

definition pane_move_destination_tab_codec :: "(string \<Rightarrow> float64 option) \<Rightarrow> (float64 \<Rightarrow> string) \<Rightarrow> pane_move_destination_tab codec" where
  "pane_move_destination_tab_codec pf ff = struct_codec pane_move_destination_tab_zero (pane_move_destination_tab_fields pf ff)"

lemma pane_move_destination_tab_codec_lawful [simp]: "lawful (pane_move_destination_tab_codec pf ff)"
  unfolding pane_move_destination_tab_codec_def
proof (rule lawful_struct)
  show "distinct (map fld_name (pane_move_destination_tab_fields pf ff))" by (simp add: pane_move_destination_tab_fields_def field_names)
  show "list_all (\<lambda>f. fld_ok f r) (pane_move_destination_tab_fields pf ff) \<Longrightarrow> refill (pane_move_destination_tab_fields pf ff) r pane_move_destination_tab_zero = Some r" for r
    by (cases r) (simp add: pane_move_destination_tab_fields_def pane_move_destination_tab_zero_def refill_simps)
qed

lemma pane_move_destination_tab_codec_zero [simp]: "cod_zero (pane_move_destination_tab_codec pf ff) = pane_move_destination_tab_zero"
  by (simp add: pane_move_destination_tab_codec_def struct_codec_def)

primrec encode_pane_move_destination :: "(string \<Rightarrow> float64 option) \<Rightarrow> (float64 \<Rightarrow> string) \<Rightarrow> pane_move_destination \<Rightarrow> json" where
  "encode_pane_move_destination pf ff (PaneMoveDestinationTab v) = tagged_by ''type'' ''tab'' (pane_move_destination_tab_fields pf ff) v"
| "encode_pane_move_destination pf ff (PaneMoveDestinationNewTab v) = tagged_by ''type'' ''new_tab'' pane_move_destination_new_tab_fields v"
| "encode_pane_move_destination pf ff (PaneMoveDestinationNewWorkspace v) = tagged_by ''type'' ''new_workspace'' pane_move_destination_new_workspace_fields v"

definition decode_pane_move_destination :: "(string \<Rightarrow> float64 option) \<Rightarrow> (float64 \<Rightarrow> string) \<Rightarrow> json \<Rightarrow> pane_move_destination option" where
  "decode_pane_move_destination pf ff j = (case decode_struct (head_field ''type'') j [] of
     None \<Rightarrow> None
   | Some tag \<Rightarrow>
       if tag = ''tab'' then map_option PaneMoveDestinationTab (cod_dec (pane_move_destination_tab_codec pf ff) j pane_move_destination_tab_zero)
       else if tag = ''new_tab'' then map_option PaneMoveDestinationNewTab (cod_dec pane_move_destination_new_tab_codec j pane_move_destination_new_tab_zero)
       else if tag = ''new_workspace'' then map_option PaneMoveDestinationNewWorkspace (cod_dec pane_move_destination_new_workspace_codec j pane_move_destination_new_workspace_zero)
       else None)"

primrec pane_move_destination_ok :: "(string \<Rightarrow> float64 option) \<Rightarrow> (float64 \<Rightarrow> string) \<Rightarrow> pane_move_destination \<Rightarrow> bool" where
  "pane_move_destination_ok pf ff (PaneMoveDestinationTab v) = cod_ok (pane_move_destination_tab_codec pf ff) v"
| "pane_move_destination_ok pf ff (PaneMoveDestinationNewTab v) = cod_ok pane_move_destination_new_tab_codec v"
| "pane_move_destination_ok pf ff (PaneMoveDestinationNewWorkspace v) = cod_ok pane_move_destination_new_workspace_codec v"

lemma free_of_pane_move_destination [simp]:
  "free_of ''type'' (pane_move_destination_tab_fields pf ff)"
  "free_of ''type'' pane_move_destination_new_tab_fields"
  "free_of ''type'' pane_move_destination_new_workspace_fields"
  by (simp_all add: free_of_def field_names upper_char_def in_range_def bytes_of_def char_of_def
      pane_move_destination_tab_fields_def
      pane_move_destination_new_tab_fields_def
      pane_move_destination_new_workspace_fields_def)

lemmas decode_tagged_pane_move_destination =
  decode_tagged_by [OF pane_move_destination_tab_codec_lawful pane_move_destination_tab_codec_def free_of_pane_move_destination(1)]
  decode_tagged_by [OF pane_move_destination_new_tab_codec_lawful pane_move_destination_new_tab_codec_def free_of_pane_move_destination(2)]
  decode_tagged_by [OF pane_move_destination_new_workspace_codec_lawful pane_move_destination_new_workspace_codec_def free_of_pane_move_destination(3)]

lemma decode_pane_move_destination_encoded:
  "pane_move_destination_ok pf ff u \<Longrightarrow> decode_pane_move_destination pf ff (encode_pane_move_destination pf ff u) = Some u \<and> encode_pane_move_destination pf ff u \<noteq> JNull"
  by (cases u) (simp_all add: decode_pane_move_destination_def decode_head decode_tagged_pane_move_destination tagged_by_not_null)

definition pane_move_params_fields :: "(string \<Rightarrow> float64 option) \<Rightarrow> (float64 \<Rightarrow> string) \<Rightarrow> pane_move_params field list" where
  "pane_move_params_fields pf ff =
    [union_field ''destination'' (encode_pane_move_destination pf ff) (decode_pane_move_destination pf ff) (pane_move_destination_ok pf ff) pane_move_params_destination (\<lambda>x r. r\<lparr>pane_move_params_destination := x\<rparr>),
     optional_field ''focus'' bool_codec pane_move_params_focus (\<lambda>x r. r\<lparr>pane_move_params_focus := x\<rparr>),
     plain_field ''pane_id'' string_codec pane_move_params_pane_id (\<lambda>x r. r\<lparr>pane_move_params_pane_id := x\<rparr>)]"

definition pane_move_params_codec :: "(string \<Rightarrow> float64 option) \<Rightarrow> (float64 \<Rightarrow> string) \<Rightarrow> pane_move_params codec" where
  "pane_move_params_codec pf ff = once_codec pane_move_params_zero (pane_move_params_fields pf ff) ''destination''"

lemma pane_move_params_codec_lawful [simp]: "lawful (pane_move_params_codec pf ff)"
  unfolding pane_move_params_codec_def
proof (rule lawful_once)
  show "distinct (map fld_name (pane_move_params_fields pf ff))" by (simp add: pane_move_params_fields_def field_names union_field_name)
  show "list_all (\<lambda>f. fld_ok f r) (pane_move_params_fields pf ff) \<Longrightarrow> refill (pane_move_params_fields pf ff) r pane_move_params_zero = Some r" for r
    by (cases r)
      (simp add: pane_move_params_fields_def pane_move_params_zero_def refill_simps union_field_ok refill_union [OF decode_pane_move_destination_encoded])
qed

lemma pane_move_params_codec_zero [simp]: "cod_zero (pane_move_params_codec pf ff) = pane_move_params_zero"
  by (simp add: pane_move_params_codec_def once_codec_def struct_codec_def)

definition pane_neighbor_params_fields :: "pane_neighbor_params field list" where
  "pane_neighbor_params_fields =
    [plain_field ''direction'' string_codec pane_neighbor_params_direction (\<lambda>x r. r\<lparr>pane_neighbor_params_direction := x\<rparr>),
     optional_field ''pane_id'' string_codec pane_neighbor_params_pane_id (\<lambda>x r. r\<lparr>pane_neighbor_params_pane_id := x\<rparr>)]"

definition pane_neighbor_params_codec :: "pane_neighbor_params codec" where
  "pane_neighbor_params_codec = struct_codec pane_neighbor_params_zero pane_neighbor_params_fields"

lemma pane_neighbor_params_codec_lawful [simp]: "lawful (pane_neighbor_params_codec)"
  unfolding pane_neighbor_params_codec_def
proof (rule lawful_struct)
  show "distinct (map fld_name pane_neighbor_params_fields)" by (simp add: pane_neighbor_params_fields_def field_names)
  show "list_all (\<lambda>f. fld_ok f r) pane_neighbor_params_fields \<Longrightarrow> refill pane_neighbor_params_fields r pane_neighbor_params_zero = Some r" for r
    by (cases r) (simp add: pane_neighbor_params_fields_def pane_neighbor_params_zero_def refill_simps)
qed

lemma pane_neighbor_params_codec_zero [simp]: "cod_zero (pane_neighbor_params_codec) = pane_neighbor_params_zero"
  by (simp add: pane_neighbor_params_codec_def struct_codec_def)

definition pane_process_info_params_fields :: "pane_process_info_params field list" where
  "pane_process_info_params_fields =
    [optional_field ''pane_id'' string_codec pane_process_info_params_pane_id (\<lambda>x r. r\<lparr>pane_process_info_params_pane_id := x\<rparr>)]"

definition pane_process_info_params_codec :: "pane_process_info_params codec" where
  "pane_process_info_params_codec = struct_codec pane_process_info_params_zero pane_process_info_params_fields"

lemma pane_process_info_params_codec_lawful [simp]: "lawful (pane_process_info_params_codec)"
  unfolding pane_process_info_params_codec_def
proof (rule lawful_struct)
  show "distinct (map fld_name pane_process_info_params_fields)" by (simp add: pane_process_info_params_fields_def field_names)
  show "list_all (\<lambda>f. fld_ok f r) pane_process_info_params_fields \<Longrightarrow> refill pane_process_info_params_fields r pane_process_info_params_zero = Some r" for r
    by (cases r) (simp add: pane_process_info_params_fields_def pane_process_info_params_zero_def refill_simps)
qed

lemma pane_process_info_params_codec_zero [simp]: "cod_zero (pane_process_info_params_codec) = pane_process_info_params_zero"
  by (simp add: pane_process_info_params_codec_def struct_codec_def)

definition pane_read_params_fields :: "pane_read_params field list" where
  "pane_read_params_fields =
    [optional_field ''format'' string_codec pane_read_params_format (\<lambda>x r. r\<lparr>pane_read_params_format := x\<rparr>),
     optional_field ''lines'' uint_codec pane_read_params_lines (\<lambda>x r. r\<lparr>pane_read_params_lines := x\<rparr>),
     plain_field ''pane_id'' string_codec pane_read_params_pane_id (\<lambda>x r. r\<lparr>pane_read_params_pane_id := x\<rparr>),
     plain_field ''source'' string_codec pane_read_params_source (\<lambda>x r. r\<lparr>pane_read_params_source := x\<rparr>),
     optional_field ''strip_ansi'' bool_codec pane_read_params_strip_ansi (\<lambda>x r. r\<lparr>pane_read_params_strip_ansi := x\<rparr>)]"

definition pane_read_params_codec :: "pane_read_params codec" where
  "pane_read_params_codec = struct_codec pane_read_params_zero pane_read_params_fields"

lemma pane_read_params_codec_lawful [simp]: "lawful (pane_read_params_codec)"
  unfolding pane_read_params_codec_def
proof (rule lawful_struct)
  show "distinct (map fld_name pane_read_params_fields)" by (simp add: pane_read_params_fields_def field_names)
  show "list_all (\<lambda>f. fld_ok f r) pane_read_params_fields \<Longrightarrow> refill pane_read_params_fields r pane_read_params_zero = Some r" for r
    by (cases r) (simp add: pane_read_params_fields_def pane_read_params_zero_def refill_simps)
qed

lemma pane_read_params_codec_zero [simp]: "cod_zero (pane_read_params_codec) = pane_read_params_zero"
  by (simp add: pane_read_params_codec_def struct_codec_def)

definition pane_release_agent_params_fields :: "pane_release_agent_params field list" where
  "pane_release_agent_params_fields =
    [plain_field ''agent'' string_codec pane_release_agent_params_agent (\<lambda>x r. r\<lparr>pane_release_agent_params_agent := x\<rparr>),
     plain_field ''pane_id'' string_codec pane_release_agent_params_pane_id (\<lambda>x r. r\<lparr>pane_release_agent_params_pane_id := x\<rparr>),
     optional_field ''seq'' uint_codec pane_release_agent_params_seq (\<lambda>x r. r\<lparr>pane_release_agent_params_seq := x\<rparr>),
     plain_field ''source'' string_codec pane_release_agent_params_source (\<lambda>x r. r\<lparr>pane_release_agent_params_source := x\<rparr>)]"

definition pane_release_agent_params_codec :: "pane_release_agent_params codec" where
  "pane_release_agent_params_codec = struct_codec pane_release_agent_params_zero pane_release_agent_params_fields"

lemma pane_release_agent_params_codec_lawful [simp]: "lawful (pane_release_agent_params_codec)"
  unfolding pane_release_agent_params_codec_def
proof (rule lawful_struct)
  show "distinct (map fld_name pane_release_agent_params_fields)" by (simp add: pane_release_agent_params_fields_def field_names)
  show "list_all (\<lambda>f. fld_ok f r) pane_release_agent_params_fields \<Longrightarrow> refill pane_release_agent_params_fields r pane_release_agent_params_zero = Some r" for r
    by (cases r) (simp add: pane_release_agent_params_fields_def pane_release_agent_params_zero_def refill_simps)
qed

lemma pane_release_agent_params_codec_zero [simp]: "cod_zero (pane_release_agent_params_codec) = pane_release_agent_params_zero"
  by (simp add: pane_release_agent_params_codec_def struct_codec_def)

definition pane_rename_params_fields :: "pane_rename_params field list" where
  "pane_rename_params_fields =
    [optional_field ''label'' string_codec pane_rename_params_label (\<lambda>x r. r\<lparr>pane_rename_params_label := x\<rparr>),
     plain_field ''pane_id'' string_codec pane_rename_params_pane_id (\<lambda>x r. r\<lparr>pane_rename_params_pane_id := x\<rparr>)]"

definition pane_rename_params_codec :: "pane_rename_params codec" where
  "pane_rename_params_codec = struct_codec pane_rename_params_zero pane_rename_params_fields"

lemma pane_rename_params_codec_lawful [simp]: "lawful (pane_rename_params_codec)"
  unfolding pane_rename_params_codec_def
proof (rule lawful_struct)
  show "distinct (map fld_name pane_rename_params_fields)" by (simp add: pane_rename_params_fields_def field_names)
  show "list_all (\<lambda>f. fld_ok f r) pane_rename_params_fields \<Longrightarrow> refill pane_rename_params_fields r pane_rename_params_zero = Some r" for r
    by (cases r) (simp add: pane_rename_params_fields_def pane_rename_params_zero_def refill_simps)
qed

lemma pane_rename_params_codec_zero [simp]: "cod_zero (pane_rename_params_codec) = pane_rename_params_zero"
  by (simp add: pane_rename_params_codec_def struct_codec_def)

definition pane_report_agent_params_fields :: "pane_report_agent_params field list" where
  "pane_report_agent_params_fields =
    [plain_field ''agent'' string_codec pane_report_agent_params_agent (\<lambda>x r. r\<lparr>pane_report_agent_params_agent := x\<rparr>),
     optional_field ''agent_session_id'' string_codec pane_report_agent_params_agent_session_id (\<lambda>x r. r\<lparr>pane_report_agent_params_agent_session_id := x\<rparr>),
     optional_field ''agent_session_path'' string_codec pane_report_agent_params_agent_session_path (\<lambda>x r. r\<lparr>pane_report_agent_params_agent_session_path := x\<rparr>),
     optional_field ''message'' string_codec pane_report_agent_params_message (\<lambda>x r. r\<lparr>pane_report_agent_params_message := x\<rparr>),
     plain_field ''pane_id'' string_codec pane_report_agent_params_pane_id (\<lambda>x r. r\<lparr>pane_report_agent_params_pane_id := x\<rparr>),
     optional_field ''resume_argv'' (slice_codec string_codec) pane_report_agent_params_resume_argv (\<lambda>x r. r\<lparr>pane_report_agent_params_resume_argv := x\<rparr>),
     optional_field ''seq'' uint_codec pane_report_agent_params_seq (\<lambda>x r. r\<lparr>pane_report_agent_params_seq := x\<rparr>),
     plain_field ''source'' string_codec pane_report_agent_params_source (\<lambda>x r. r\<lparr>pane_report_agent_params_source := x\<rparr>),
     plain_field ''state'' string_codec pane_report_agent_params_state (\<lambda>x r. r\<lparr>pane_report_agent_params_state := x\<rparr>)]"

definition pane_report_agent_params_codec :: "pane_report_agent_params codec" where
  "pane_report_agent_params_codec = struct_codec pane_report_agent_params_zero pane_report_agent_params_fields"

lemma pane_report_agent_params_codec_lawful [simp]: "lawful (pane_report_agent_params_codec)"
  unfolding pane_report_agent_params_codec_def
proof (rule lawful_struct)
  show "distinct (map fld_name pane_report_agent_params_fields)" by (simp add: pane_report_agent_params_fields_def field_names)
  show "list_all (\<lambda>f. fld_ok f r) pane_report_agent_params_fields \<Longrightarrow> refill pane_report_agent_params_fields r pane_report_agent_params_zero = Some r" for r
    by (cases r) (simp add: pane_report_agent_params_fields_def pane_report_agent_params_zero_def refill_simps)
qed

lemma pane_report_agent_params_codec_zero [simp]: "cod_zero (pane_report_agent_params_codec) = pane_report_agent_params_zero"
  by (simp add: pane_report_agent_params_codec_def struct_codec_def)

definition pane_report_agent_session_params_fields :: "pane_report_agent_session_params field list" where
  "pane_report_agent_session_params_fields =
    [plain_field ''agent'' string_codec pane_report_agent_session_params_agent (\<lambda>x r. r\<lparr>pane_report_agent_session_params_agent := x\<rparr>),
     optional_field ''agent_session_id'' string_codec pane_report_agent_session_params_agent_session_id (\<lambda>x r. r\<lparr>pane_report_agent_session_params_agent_session_id := x\<rparr>),
     optional_field ''agent_session_path'' string_codec pane_report_agent_session_params_agent_session_path (\<lambda>x r. r\<lparr>pane_report_agent_session_params_agent_session_path := x\<rparr>),
     plain_field ''pane_id'' string_codec pane_report_agent_session_params_pane_id (\<lambda>x r. r\<lparr>pane_report_agent_session_params_pane_id := x\<rparr>),
     optional_field ''resume_argv'' (slice_codec string_codec) pane_report_agent_session_params_resume_argv (\<lambda>x r. r\<lparr>pane_report_agent_session_params_resume_argv := x\<rparr>),
     optional_field ''seq'' uint_codec pane_report_agent_session_params_seq (\<lambda>x r. r\<lparr>pane_report_agent_session_params_seq := x\<rparr>),
     optional_field ''session_start_source'' string_codec pane_report_agent_session_params_session_start_source (\<lambda>x r. r\<lparr>pane_report_agent_session_params_session_start_source := x\<rparr>),
     plain_field ''source'' string_codec pane_report_agent_session_params_source (\<lambda>x r. r\<lparr>pane_report_agent_session_params_source := x\<rparr>)]"

definition pane_report_agent_session_params_codec :: "pane_report_agent_session_params codec" where
  "pane_report_agent_session_params_codec = struct_codec pane_report_agent_session_params_zero pane_report_agent_session_params_fields"

lemma pane_report_agent_session_params_codec_lawful [simp]: "lawful (pane_report_agent_session_params_codec)"
  unfolding pane_report_agent_session_params_codec_def
proof (rule lawful_struct)
  show "distinct (map fld_name pane_report_agent_session_params_fields)" by (simp add: pane_report_agent_session_params_fields_def field_names)
  show "list_all (\<lambda>f. fld_ok f r) pane_report_agent_session_params_fields \<Longrightarrow> refill pane_report_agent_session_params_fields r pane_report_agent_session_params_zero = Some r" for r
    by (cases r) (simp add: pane_report_agent_session_params_fields_def pane_report_agent_session_params_zero_def refill_simps)
qed

lemma pane_report_agent_session_params_codec_zero [simp]: "cod_zero (pane_report_agent_session_params_codec) = pane_report_agent_session_params_zero"
  by (simp add: pane_report_agent_session_params_codec_def struct_codec_def)

definition pane_report_metadata_params_fields :: "pane_report_metadata_params field list" where
  "pane_report_metadata_params_fields =
    [optional_field ''agent'' string_codec pane_report_metadata_params_agent (\<lambda>x r. r\<lparr>pane_report_metadata_params_agent := x\<rparr>),
     optional_field ''applies_to_source'' string_codec pane_report_metadata_params_applies_to_source (\<lambda>x r. r\<lparr>pane_report_metadata_params_applies_to_source := x\<rparr>),
     optional_field ''clear_display_agent'' bool_codec pane_report_metadata_params_clear_display_agent (\<lambda>x r. r\<lparr>pane_report_metadata_params_clear_display_agent := x\<rparr>),
     optional_field ''clear_state_labels'' bool_codec pane_report_metadata_params_clear_state_labels (\<lambda>x r. r\<lparr>pane_report_metadata_params_clear_state_labels := x\<rparr>),
     optional_field ''clear_title'' bool_codec pane_report_metadata_params_clear_title (\<lambda>x r. r\<lparr>pane_report_metadata_params_clear_title := x\<rparr>),
     optional_field ''display_agent'' string_codec pane_report_metadata_params_display_agent (\<lambda>x r. r\<lparr>pane_report_metadata_params_display_agent := x\<rparr>),
     plain_field ''pane_id'' string_codec pane_report_metadata_params_pane_id (\<lambda>x r. r\<lparr>pane_report_metadata_params_pane_id := x\<rparr>),
     optional_field ''seq'' uint_codec pane_report_metadata_params_seq (\<lambda>x r. r\<lparr>pane_report_metadata_params_seq := x\<rparr>),
     plain_field ''source'' string_codec pane_report_metadata_params_source (\<lambda>x r. r\<lparr>pane_report_metadata_params_source := x\<rparr>),
     optional_field ''state_labels'' (map_codec string_codec) pane_report_metadata_params_state_labels (\<lambda>x r. r\<lparr>pane_report_metadata_params_state_labels := x\<rparr>),
     optional_field ''title'' string_codec pane_report_metadata_params_title (\<lambda>x r. r\<lparr>pane_report_metadata_params_title := x\<rparr>),
     optional_field ''tokens'' (map_codec (pointer_codec string_codec)) pane_report_metadata_params_tokens (\<lambda>x r. r\<lparr>pane_report_metadata_params_tokens := x\<rparr>),
     optional_field ''ttl_ms'' uint_codec pane_report_metadata_params_ttl_ms (\<lambda>x r. r\<lparr>pane_report_metadata_params_ttl_ms := x\<rparr>)]"

definition pane_report_metadata_params_codec :: "pane_report_metadata_params codec" where
  "pane_report_metadata_params_codec = struct_codec pane_report_metadata_params_zero pane_report_metadata_params_fields"

lemma pane_report_metadata_params_codec_lawful [simp]: "lawful (pane_report_metadata_params_codec)"
  unfolding pane_report_metadata_params_codec_def
proof (rule lawful_struct)
  show "distinct (map fld_name pane_report_metadata_params_fields)" by (simp add: pane_report_metadata_params_fields_def field_names)
  show "list_all (\<lambda>f. fld_ok f r) pane_report_metadata_params_fields \<Longrightarrow> refill pane_report_metadata_params_fields r pane_report_metadata_params_zero = Some r" for r
    by (cases r) (simp add: pane_report_metadata_params_fields_def pane_report_metadata_params_zero_def refill_simps)
qed

lemma pane_report_metadata_params_codec_zero [simp]: "cod_zero (pane_report_metadata_params_codec) = pane_report_metadata_params_zero"
  by (simp add: pane_report_metadata_params_codec_def struct_codec_def)

definition pane_resize_params_fields :: "(string \<Rightarrow> float64 option) \<Rightarrow> (float64 \<Rightarrow> string) \<Rightarrow> pane_resize_params field list" where
  "pane_resize_params_fields pf ff =
    [optional_field ''amount'' (float_codec pf ff) pane_resize_params_amount (\<lambda>x r. r\<lparr>pane_resize_params_amount := x\<rparr>),
     plain_field ''direction'' string_codec pane_resize_params_direction (\<lambda>x r. r\<lparr>pane_resize_params_direction := x\<rparr>),
     optional_field ''pane_id'' string_codec pane_resize_params_pane_id (\<lambda>x r. r\<lparr>pane_resize_params_pane_id := x\<rparr>)]"

definition pane_resize_params_codec :: "(string \<Rightarrow> float64 option) \<Rightarrow> (float64 \<Rightarrow> string) \<Rightarrow> pane_resize_params codec" where
  "pane_resize_params_codec pf ff = struct_codec pane_resize_params_zero (pane_resize_params_fields pf ff)"

lemma pane_resize_params_codec_lawful [simp]: "lawful (pane_resize_params_codec pf ff)"
  unfolding pane_resize_params_codec_def
proof (rule lawful_struct)
  show "distinct (map fld_name (pane_resize_params_fields pf ff))" by (simp add: pane_resize_params_fields_def field_names)
  show "list_all (\<lambda>f. fld_ok f r) (pane_resize_params_fields pf ff) \<Longrightarrow> refill (pane_resize_params_fields pf ff) r pane_resize_params_zero = Some r" for r
    by (cases r) (simp add: pane_resize_params_fields_def pane_resize_params_zero_def refill_simps)
qed

lemma pane_resize_params_codec_zero [simp]: "cod_zero (pane_resize_params_codec pf ff) = pane_resize_params_zero"
  by (simp add: pane_resize_params_codec_def struct_codec_def)

definition pane_scroll_params_fields :: "pane_scroll_params field list" where
  "pane_scroll_params_fields =
    [plain_field ''offset_from_bottom'' uint_codec pane_scroll_params_offset_from_bottom (\<lambda>x r. r\<lparr>pane_scroll_params_offset_from_bottom := x\<rparr>),
     plain_field ''pane_id'' string_codec pane_scroll_params_pane_id (\<lambda>x r. r\<lparr>pane_scroll_params_pane_id := x\<rparr>)]"

definition pane_scroll_params_codec :: "pane_scroll_params codec" where
  "pane_scroll_params_codec = struct_codec pane_scroll_params_zero pane_scroll_params_fields"

lemma pane_scroll_params_codec_lawful [simp]: "lawful (pane_scroll_params_codec)"
  unfolding pane_scroll_params_codec_def
proof (rule lawful_struct)
  show "distinct (map fld_name pane_scroll_params_fields)" by (simp add: pane_scroll_params_fields_def field_names)
  show "list_all (\<lambda>f. fld_ok f r) pane_scroll_params_fields \<Longrightarrow> refill pane_scroll_params_fields r pane_scroll_params_zero = Some r" for r
    by (cases r) (simp add: pane_scroll_params_fields_def pane_scroll_params_zero_def refill_simps)
qed

lemma pane_scroll_params_codec_zero [simp]: "cod_zero (pane_scroll_params_codec) = pane_scroll_params_zero"
  by (simp add: pane_scroll_params_codec_def struct_codec_def)

definition pane_send_input_params_fields :: "pane_send_input_params field list" where
  "pane_send_input_params_fields =
    [optional_field ''keys'' (slice_codec string_codec) pane_send_input_params_keys (\<lambda>x r. r\<lparr>pane_send_input_params_keys := x\<rparr>),
     plain_field ''pane_id'' string_codec pane_send_input_params_pane_id (\<lambda>x r. r\<lparr>pane_send_input_params_pane_id := x\<rparr>),
     optional_field ''text'' string_codec pane_send_input_params_text (\<lambda>x r. r\<lparr>pane_send_input_params_text := x\<rparr>)]"

definition pane_send_input_params_codec :: "pane_send_input_params codec" where
  "pane_send_input_params_codec = struct_codec pane_send_input_params_zero pane_send_input_params_fields"

lemma pane_send_input_params_codec_lawful [simp]: "lawful (pane_send_input_params_codec)"
  unfolding pane_send_input_params_codec_def
proof (rule lawful_struct)
  show "distinct (map fld_name pane_send_input_params_fields)" by (simp add: pane_send_input_params_fields_def field_names)
  show "list_all (\<lambda>f. fld_ok f r) pane_send_input_params_fields \<Longrightarrow> refill pane_send_input_params_fields r pane_send_input_params_zero = Some r" for r
    by (cases r) (simp add: pane_send_input_params_fields_def pane_send_input_params_zero_def refill_simps)
qed

lemma pane_send_input_params_codec_zero [simp]: "cod_zero (pane_send_input_params_codec) = pane_send_input_params_zero"
  by (simp add: pane_send_input_params_codec_def struct_codec_def)

definition pane_send_keys_params_fields :: "pane_send_keys_params field list" where
  "pane_send_keys_params_fields =
    [plain_field ''keys'' (slice_codec string_codec) pane_send_keys_params_keys (\<lambda>x r. r\<lparr>pane_send_keys_params_keys := x\<rparr>),
     plain_field ''pane_id'' string_codec pane_send_keys_params_pane_id (\<lambda>x r. r\<lparr>pane_send_keys_params_pane_id := x\<rparr>)]"

definition pane_send_keys_params_codec :: "pane_send_keys_params codec" where
  "pane_send_keys_params_codec = struct_codec pane_send_keys_params_zero pane_send_keys_params_fields"

lemma pane_send_keys_params_codec_lawful [simp]: "lawful (pane_send_keys_params_codec)"
  unfolding pane_send_keys_params_codec_def
proof (rule lawful_struct)
  show "distinct (map fld_name pane_send_keys_params_fields)" by (simp add: pane_send_keys_params_fields_def field_names)
  show "list_all (\<lambda>f. fld_ok f r) pane_send_keys_params_fields \<Longrightarrow> refill pane_send_keys_params_fields r pane_send_keys_params_zero = Some r" for r
    by (cases r) (simp add: pane_send_keys_params_fields_def pane_send_keys_params_zero_def refill_simps)
qed

lemma pane_send_keys_params_codec_zero [simp]: "cod_zero (pane_send_keys_params_codec) = pane_send_keys_params_zero"
  by (simp add: pane_send_keys_params_codec_def struct_codec_def)

definition pane_send_text_params_fields :: "pane_send_text_params field list" where
  "pane_send_text_params_fields =
    [plain_field ''pane_id'' string_codec pane_send_text_params_pane_id (\<lambda>x r. r\<lparr>pane_send_text_params_pane_id := x\<rparr>),
     plain_field ''text'' string_codec pane_send_text_params_text (\<lambda>x r. r\<lparr>pane_send_text_params_text := x\<rparr>)]"

definition pane_send_text_params_codec :: "pane_send_text_params codec" where
  "pane_send_text_params_codec = struct_codec pane_send_text_params_zero pane_send_text_params_fields"

lemma pane_send_text_params_codec_lawful [simp]: "lawful (pane_send_text_params_codec)"
  unfolding pane_send_text_params_codec_def
proof (rule lawful_struct)
  show "distinct (map fld_name pane_send_text_params_fields)" by (simp add: pane_send_text_params_fields_def field_names)
  show "list_all (\<lambda>f. fld_ok f r) pane_send_text_params_fields \<Longrightarrow> refill pane_send_text_params_fields r pane_send_text_params_zero = Some r" for r
    by (cases r) (simp add: pane_send_text_params_fields_def pane_send_text_params_zero_def refill_simps)
qed

lemma pane_send_text_params_codec_zero [simp]: "cod_zero (pane_send_text_params_codec) = pane_send_text_params_zero"
  by (simp add: pane_send_text_params_codec_def struct_codec_def)

definition pane_split_params_fields :: "(string \<Rightarrow> float64 option) \<Rightarrow> (float64 \<Rightarrow> string) \<Rightarrow> pane_split_params field list" where
  "pane_split_params_fields pf ff =
    [optional_field ''cwd'' string_codec pane_split_params_cwd (\<lambda>x r. r\<lparr>pane_split_params_cwd := x\<rparr>),
     plain_field ''direction'' string_codec pane_split_params_direction (\<lambda>x r. r\<lparr>pane_split_params_direction := x\<rparr>),
     optional_field ''env'' (map_codec string_codec) pane_split_params_env (\<lambda>x r. r\<lparr>pane_split_params_env := x\<rparr>),
     optional_field ''focus'' bool_codec pane_split_params_focus (\<lambda>x r. r\<lparr>pane_split_params_focus := x\<rparr>),
     optional_field ''ratio'' (float_codec pf ff) pane_split_params_ratio (\<lambda>x r. r\<lparr>pane_split_params_ratio := x\<rparr>),
     optional_field ''right_click'' string_codec pane_split_params_right_click (\<lambda>x r. r\<lparr>pane_split_params_right_click := x\<rparr>),
     optional_field ''target_pane_id'' string_codec pane_split_params_target_pane_id (\<lambda>x r. r\<lparr>pane_split_params_target_pane_id := x\<rparr>),
     optional_field ''workspace_id'' string_codec pane_split_params_workspace_id (\<lambda>x r. r\<lparr>pane_split_params_workspace_id := x\<rparr>)]"

definition pane_split_params_codec :: "(string \<Rightarrow> float64 option) \<Rightarrow> (float64 \<Rightarrow> string) \<Rightarrow> pane_split_params codec" where
  "pane_split_params_codec pf ff = struct_codec pane_split_params_zero (pane_split_params_fields pf ff)"

lemma pane_split_params_codec_lawful [simp]: "lawful (pane_split_params_codec pf ff)"
  unfolding pane_split_params_codec_def
proof (rule lawful_struct)
  show "distinct (map fld_name (pane_split_params_fields pf ff))" by (simp add: pane_split_params_fields_def field_names)
  show "list_all (\<lambda>f. fld_ok f r) (pane_split_params_fields pf ff) \<Longrightarrow> refill (pane_split_params_fields pf ff) r pane_split_params_zero = Some r" for r
    by (cases r) (simp add: pane_split_params_fields_def pane_split_params_zero_def refill_simps)
qed

lemma pane_split_params_codec_zero [simp]: "cod_zero (pane_split_params_codec pf ff) = pane_split_params_zero"
  by (simp add: pane_split_params_codec_def struct_codec_def)

definition pane_swap_params_fields :: "pane_swap_params field list" where
  "pane_swap_params_fields =
    [optional_field ''direction'' string_codec pane_swap_params_direction (\<lambda>x r. r\<lparr>pane_swap_params_direction := x\<rparr>),
     optional_field ''pane_id'' string_codec pane_swap_params_pane_id (\<lambda>x r. r\<lparr>pane_swap_params_pane_id := x\<rparr>),
     optional_field ''source_pane_id'' string_codec pane_swap_params_source_pane_id (\<lambda>x r. r\<lparr>pane_swap_params_source_pane_id := x\<rparr>),
     optional_field ''target_pane_id'' string_codec pane_swap_params_target_pane_id (\<lambda>x r. r\<lparr>pane_swap_params_target_pane_id := x\<rparr>)]"

definition pane_swap_params_codec :: "pane_swap_params codec" where
  "pane_swap_params_codec = struct_codec pane_swap_params_zero pane_swap_params_fields"

lemma pane_swap_params_codec_lawful [simp]: "lawful (pane_swap_params_codec)"
  unfolding pane_swap_params_codec_def
proof (rule lawful_struct)
  show "distinct (map fld_name pane_swap_params_fields)" by (simp add: pane_swap_params_fields_def field_names)
  show "list_all (\<lambda>f. fld_ok f r) pane_swap_params_fields \<Longrightarrow> refill pane_swap_params_fields r pane_swap_params_zero = Some r" for r
    by (cases r) (simp add: pane_swap_params_fields_def pane_swap_params_zero_def refill_simps)
qed

lemma pane_swap_params_codec_zero [simp]: "cod_zero (pane_swap_params_codec) = pane_swap_params_zero"
  by (simp add: pane_swap_params_codec_def struct_codec_def)

definition pane_target_fields :: "pane_target field list" where
  "pane_target_fields =
    [plain_field ''pane_id'' string_codec pane_target_pane_id (\<lambda>x r. r\<lparr>pane_target_pane_id := x\<rparr>)]"

definition pane_target_codec :: "pane_target codec" where
  "pane_target_codec = struct_codec pane_target_zero pane_target_fields"

lemma pane_target_codec_lawful [simp]: "lawful (pane_target_codec)"
  unfolding pane_target_codec_def
proof (rule lawful_struct)
  show "distinct (map fld_name pane_target_fields)" by (simp add: pane_target_fields_def field_names)
  show "list_all (\<lambda>f. fld_ok f r) pane_target_fields \<Longrightarrow> refill pane_target_fields r pane_target_zero = Some r" for r
    by (cases r) (simp add: pane_target_fields_def pane_target_zero_def refill_simps)
qed

lemma pane_target_codec_zero [simp]: "cod_zero (pane_target_codec) = pane_target_zero"
  by (simp add: pane_target_codec_def struct_codec_def)

definition pane_wait_for_output_params_fields :: "pane_wait_for_output_params field list" where
  "pane_wait_for_output_params_fields =
    [optional_field ''lines'' uint_codec pane_wait_for_output_params_lines (\<lambda>x r. r\<lparr>pane_wait_for_output_params_lines := x\<rparr>),
     union_field ''match'' encode_output_match decode_output_match output_match_ok pane_wait_for_output_params_match (\<lambda>x r. r\<lparr>pane_wait_for_output_params_match := x\<rparr>),
     plain_field ''pane_id'' string_codec pane_wait_for_output_params_pane_id (\<lambda>x r. r\<lparr>pane_wait_for_output_params_pane_id := x\<rparr>),
     plain_field ''source'' string_codec pane_wait_for_output_params_source (\<lambda>x r. r\<lparr>pane_wait_for_output_params_source := x\<rparr>),
     optional_field ''strip_ansi'' bool_codec pane_wait_for_output_params_strip_ansi (\<lambda>x r. r\<lparr>pane_wait_for_output_params_strip_ansi := x\<rparr>),
     optional_field ''timeout_ms'' uint_codec pane_wait_for_output_params_timeout_ms (\<lambda>x r. r\<lparr>pane_wait_for_output_params_timeout_ms := x\<rparr>)]"

definition pane_wait_for_output_params_codec :: "pane_wait_for_output_params codec" where
  "pane_wait_for_output_params_codec = once_codec pane_wait_for_output_params_zero pane_wait_for_output_params_fields ''match''"

lemma pane_wait_for_output_params_codec_lawful [simp]: "lawful (pane_wait_for_output_params_codec)"
  unfolding pane_wait_for_output_params_codec_def
proof (rule lawful_once)
  show "distinct (map fld_name pane_wait_for_output_params_fields)" by (simp add: pane_wait_for_output_params_fields_def field_names union_field_name)
  show "list_all (\<lambda>f. fld_ok f r) pane_wait_for_output_params_fields \<Longrightarrow> refill pane_wait_for_output_params_fields r pane_wait_for_output_params_zero = Some r" for r
    by (cases r)
      (simp add: pane_wait_for_output_params_fields_def pane_wait_for_output_params_zero_def refill_simps union_field_ok refill_union [OF decode_output_match_back])
qed

lemma pane_wait_for_output_params_codec_zero [simp]: "cod_zero (pane_wait_for_output_params_codec) = pane_wait_for_output_params_zero"
  by (simp add: pane_wait_for_output_params_codec_def once_codec_def struct_codec_def)

definition pane_zoom_params_fields :: "pane_zoom_params field list" where
  "pane_zoom_params_fields =
    [optional_field ''mode'' string_codec pane_zoom_params_mode (\<lambda>x r. r\<lparr>pane_zoom_params_mode := x\<rparr>),
     optional_field ''pane_id'' string_codec pane_zoom_params_pane_id (\<lambda>x r. r\<lparr>pane_zoom_params_pane_id := x\<rparr>)]"

definition pane_zoom_params_codec :: "pane_zoom_params codec" where
  "pane_zoom_params_codec = struct_codec pane_zoom_params_zero pane_zoom_params_fields"

lemma pane_zoom_params_codec_lawful [simp]: "lawful (pane_zoom_params_codec)"
  unfolding pane_zoom_params_codec_def
proof (rule lawful_struct)
  show "distinct (map fld_name pane_zoom_params_fields)" by (simp add: pane_zoom_params_fields_def field_names)
  show "list_all (\<lambda>f. fld_ok f r) pane_zoom_params_fields \<Longrightarrow> refill pane_zoom_params_fields r pane_zoom_params_zero = Some r" for r
    by (cases r) (simp add: pane_zoom_params_fields_def pane_zoom_params_zero_def refill_simps)
qed

lemma pane_zoom_params_codec_zero [simp]: "cod_zero (pane_zoom_params_codec) = pane_zoom_params_zero"
  by (simp add: pane_zoom_params_codec_def struct_codec_def)

definition plugin_action_invoke_params_fields :: "plugin_action_invoke_params field list" where
  "plugin_action_invoke_params_fields =
    [plain_field ''action_id'' string_codec plugin_action_invoke_params_action_id (\<lambda>x r. r\<lparr>plugin_action_invoke_params_action_id := x\<rparr>),
     optional_field ''context'' plugin_invocation_context_codec plugin_action_invoke_params_context (\<lambda>x r. r\<lparr>plugin_action_invoke_params_context := x\<rparr>),
     optional_field ''plugin_id'' string_codec plugin_action_invoke_params_plugin_id (\<lambda>x r. r\<lparr>plugin_action_invoke_params_plugin_id := x\<rparr>)]"

definition plugin_action_invoke_params_codec :: "plugin_action_invoke_params codec" where
  "plugin_action_invoke_params_codec = struct_codec plugin_action_invoke_params_zero plugin_action_invoke_params_fields"

lemma plugin_action_invoke_params_codec_lawful [simp]: "lawful (plugin_action_invoke_params_codec)"
  unfolding plugin_action_invoke_params_codec_def
proof (rule lawful_struct)
  show "distinct (map fld_name plugin_action_invoke_params_fields)" by (simp add: plugin_action_invoke_params_fields_def field_names)
  show "list_all (\<lambda>f. fld_ok f r) plugin_action_invoke_params_fields \<Longrightarrow> refill plugin_action_invoke_params_fields r plugin_action_invoke_params_zero = Some r" for r
    by (cases r) (simp add: plugin_action_invoke_params_fields_def plugin_action_invoke_params_zero_def refill_simps)
qed

lemma plugin_action_invoke_params_codec_zero [simp]: "cod_zero (plugin_action_invoke_params_codec) = plugin_action_invoke_params_zero"
  by (simp add: plugin_action_invoke_params_codec_def struct_codec_def)

definition plugin_action_list_params_fields :: "plugin_action_list_params field list" where
  "plugin_action_list_params_fields =
    [optional_field ''plugin_id'' string_codec plugin_action_list_params_plugin_id (\<lambda>x r. r\<lparr>plugin_action_list_params_plugin_id := x\<rparr>)]"

definition plugin_action_list_params_codec :: "plugin_action_list_params codec" where
  "plugin_action_list_params_codec = struct_codec plugin_action_list_params_zero plugin_action_list_params_fields"

lemma plugin_action_list_params_codec_lawful [simp]: "lawful (plugin_action_list_params_codec)"
  unfolding plugin_action_list_params_codec_def
proof (rule lawful_struct)
  show "distinct (map fld_name plugin_action_list_params_fields)" by (simp add: plugin_action_list_params_fields_def field_names)
  show "list_all (\<lambda>f. fld_ok f r) plugin_action_list_params_fields \<Longrightarrow> refill plugin_action_list_params_fields r plugin_action_list_params_zero = Some r" for r
    by (cases r) (simp add: plugin_action_list_params_fields_def plugin_action_list_params_zero_def refill_simps)
qed

lemma plugin_action_list_params_codec_zero [simp]: "cod_zero (plugin_action_list_params_codec) = plugin_action_list_params_zero"
  by (simp add: plugin_action_list_params_codec_def struct_codec_def)

definition plugin_link_params_fields :: "plugin_link_params field list" where
  "plugin_link_params_fields =
    [optional_field ''enabled'' bool_codec plugin_link_params_enabled (\<lambda>x r. r\<lparr>plugin_link_params_enabled := x\<rparr>),
     plain_field ''path'' string_codec plugin_link_params_path (\<lambda>x r. r\<lparr>plugin_link_params_path := x\<rparr>),
     optional_field ''source'' plugin_source_info_codec plugin_link_params_source (\<lambda>x r. r\<lparr>plugin_link_params_source := x\<rparr>)]"

definition plugin_link_params_codec :: "plugin_link_params codec" where
  "plugin_link_params_codec = struct_codec plugin_link_params_zero plugin_link_params_fields"

lemma plugin_link_params_codec_lawful [simp]: "lawful (plugin_link_params_codec)"
  unfolding plugin_link_params_codec_def
proof (rule lawful_struct)
  show "distinct (map fld_name plugin_link_params_fields)" by (simp add: plugin_link_params_fields_def field_names)
  show "list_all (\<lambda>f. fld_ok f r) plugin_link_params_fields \<Longrightarrow> refill plugin_link_params_fields r plugin_link_params_zero = Some r" for r
    by (cases r) (simp add: plugin_link_params_fields_def plugin_link_params_zero_def refill_simps)
qed

lemma plugin_link_params_codec_zero [simp]: "cod_zero (plugin_link_params_codec) = plugin_link_params_zero"
  by (simp add: plugin_link_params_codec_def struct_codec_def)

definition plugin_list_params_fields :: "plugin_list_params field list" where
  "plugin_list_params_fields =
    [optional_field ''plugin_id'' string_codec plugin_list_params_plugin_id (\<lambda>x r. r\<lparr>plugin_list_params_plugin_id := x\<rparr>)]"

definition plugin_list_params_codec :: "plugin_list_params codec" where
  "plugin_list_params_codec = struct_codec plugin_list_params_zero plugin_list_params_fields"

lemma plugin_list_params_codec_lawful [simp]: "lawful (plugin_list_params_codec)"
  unfolding plugin_list_params_codec_def
proof (rule lawful_struct)
  show "distinct (map fld_name plugin_list_params_fields)" by (simp add: plugin_list_params_fields_def field_names)
  show "list_all (\<lambda>f. fld_ok f r) plugin_list_params_fields \<Longrightarrow> refill plugin_list_params_fields r plugin_list_params_zero = Some r" for r
    by (cases r) (simp add: plugin_list_params_fields_def plugin_list_params_zero_def refill_simps)
qed

lemma plugin_list_params_codec_zero [simp]: "cod_zero (plugin_list_params_codec) = plugin_list_params_zero"
  by (simp add: plugin_list_params_codec_def struct_codec_def)

definition plugin_log_list_params_fields :: "plugin_log_list_params field list" where
  "plugin_log_list_params_fields =
    [optional_field ''limit'' uint_codec plugin_log_list_params_limit (\<lambda>x r. r\<lparr>plugin_log_list_params_limit := x\<rparr>),
     optional_field ''plugin_id'' string_codec plugin_log_list_params_plugin_id (\<lambda>x r. r\<lparr>plugin_log_list_params_plugin_id := x\<rparr>)]"

definition plugin_log_list_params_codec :: "plugin_log_list_params codec" where
  "plugin_log_list_params_codec = struct_codec plugin_log_list_params_zero plugin_log_list_params_fields"

lemma plugin_log_list_params_codec_lawful [simp]: "lawful (plugin_log_list_params_codec)"
  unfolding plugin_log_list_params_codec_def
proof (rule lawful_struct)
  show "distinct (map fld_name plugin_log_list_params_fields)" by (simp add: plugin_log_list_params_fields_def field_names)
  show "list_all (\<lambda>f. fld_ok f r) plugin_log_list_params_fields \<Longrightarrow> refill plugin_log_list_params_fields r plugin_log_list_params_zero = Some r" for r
    by (cases r) (simp add: plugin_log_list_params_fields_def plugin_log_list_params_zero_def refill_simps)
qed

lemma plugin_log_list_params_codec_zero [simp]: "cod_zero (plugin_log_list_params_codec) = plugin_log_list_params_zero"
  by (simp add: plugin_log_list_params_codec_def struct_codec_def)

definition plugin_pane_close_params_fields :: "plugin_pane_close_params field list" where
  "plugin_pane_close_params_fields =
    [plain_field ''pane_id'' string_codec plugin_pane_close_params_pane_id (\<lambda>x r. r\<lparr>plugin_pane_close_params_pane_id := x\<rparr>)]"

definition plugin_pane_close_params_codec :: "plugin_pane_close_params codec" where
  "plugin_pane_close_params_codec = struct_codec plugin_pane_close_params_zero plugin_pane_close_params_fields"

lemma plugin_pane_close_params_codec_lawful [simp]: "lawful (plugin_pane_close_params_codec)"
  unfolding plugin_pane_close_params_codec_def
proof (rule lawful_struct)
  show "distinct (map fld_name plugin_pane_close_params_fields)" by (simp add: plugin_pane_close_params_fields_def field_names)
  show "list_all (\<lambda>f. fld_ok f r) plugin_pane_close_params_fields \<Longrightarrow> refill plugin_pane_close_params_fields r plugin_pane_close_params_zero = Some r" for r
    by (cases r) (simp add: plugin_pane_close_params_fields_def plugin_pane_close_params_zero_def refill_simps)
qed

lemma plugin_pane_close_params_codec_zero [simp]: "cod_zero (plugin_pane_close_params_codec) = plugin_pane_close_params_zero"
  by (simp add: plugin_pane_close_params_codec_def struct_codec_def)

definition plugin_pane_focus_params_fields :: "plugin_pane_focus_params field list" where
  "plugin_pane_focus_params_fields =
    [plain_field ''pane_id'' string_codec plugin_pane_focus_params_pane_id (\<lambda>x r. r\<lparr>plugin_pane_focus_params_pane_id := x\<rparr>)]"

definition plugin_pane_focus_params_codec :: "plugin_pane_focus_params codec" where
  "plugin_pane_focus_params_codec = struct_codec plugin_pane_focus_params_zero plugin_pane_focus_params_fields"

lemma plugin_pane_focus_params_codec_lawful [simp]: "lawful (plugin_pane_focus_params_codec)"
  unfolding plugin_pane_focus_params_codec_def
proof (rule lawful_struct)
  show "distinct (map fld_name plugin_pane_focus_params_fields)" by (simp add: plugin_pane_focus_params_fields_def field_names)
  show "list_all (\<lambda>f. fld_ok f r) plugin_pane_focus_params_fields \<Longrightarrow> refill plugin_pane_focus_params_fields r plugin_pane_focus_params_zero = Some r" for r
    by (cases r) (simp add: plugin_pane_focus_params_fields_def plugin_pane_focus_params_zero_def refill_simps)
qed

lemma plugin_pane_focus_params_codec_zero [simp]: "cod_zero (plugin_pane_focus_params_codec) = plugin_pane_focus_params_zero"
  by (simp add: plugin_pane_focus_params_codec_def struct_codec_def)

definition plugin_pane_open_params_fields :: "(string \<Rightarrow> string) \<Rightarrow> plugin_pane_open_params field list" where
  "plugin_pane_open_params_fields quote =
    [optional_field ''cwd'' string_codec plugin_pane_open_params_cwd (\<lambda>x r. r\<lparr>plugin_pane_open_params_cwd := x\<rparr>),
     optional_field ''direction'' string_codec plugin_pane_open_params_direction (\<lambda>x r. r\<lparr>plugin_pane_open_params_direction := x\<rparr>),
     plain_field ''entrypoint'' string_codec plugin_pane_open_params_entrypoint (\<lambda>x r. r\<lparr>plugin_pane_open_params_entrypoint := x\<rparr>),
     optional_field ''env'' (map_codec string_codec) plugin_pane_open_params_env (\<lambda>x r. r\<lparr>plugin_pane_open_params_env := x\<rparr>),
     optional_field ''focus'' bool_codec plugin_pane_open_params_focus (\<lambda>x r. r\<lparr>plugin_pane_open_params_focus := x\<rparr>),
     optional_field ''height'' (pane_size_codec quote) plugin_pane_open_params_height (\<lambda>x r. r\<lparr>plugin_pane_open_params_height := x\<rparr>),
     optional_field ''placement'' string_codec plugin_pane_open_params_placement (\<lambda>x r. r\<lparr>plugin_pane_open_params_placement := x\<rparr>),
     plain_field ''plugin_id'' string_codec plugin_pane_open_params_plugin_id (\<lambda>x r. r\<lparr>plugin_pane_open_params_plugin_id := x\<rparr>),
     optional_field ''target_pane_id'' string_codec plugin_pane_open_params_target_pane_id (\<lambda>x r. r\<lparr>plugin_pane_open_params_target_pane_id := x\<rparr>),
     optional_field ''width'' (pane_size_codec quote) plugin_pane_open_params_width (\<lambda>x r. r\<lparr>plugin_pane_open_params_width := x\<rparr>),
     optional_field ''workspace_id'' string_codec plugin_pane_open_params_workspace_id (\<lambda>x r. r\<lparr>plugin_pane_open_params_workspace_id := x\<rparr>)]"

definition plugin_pane_open_params_codec :: "(string \<Rightarrow> string) \<Rightarrow> plugin_pane_open_params codec" where
  "plugin_pane_open_params_codec quote = struct_codec plugin_pane_open_params_zero (plugin_pane_open_params_fields quote)"

lemma plugin_pane_open_params_codec_lawful [simp]: "lawful (plugin_pane_open_params_codec quote)"
  unfolding plugin_pane_open_params_codec_def
proof (rule lawful_struct)
  show "distinct (map fld_name (plugin_pane_open_params_fields quote))" by (simp add: plugin_pane_open_params_fields_def field_names)
  show "list_all (\<lambda>f. fld_ok f r) (plugin_pane_open_params_fields quote) \<Longrightarrow> refill (plugin_pane_open_params_fields quote) r plugin_pane_open_params_zero = Some r" for r
    by (cases r) (simp add: plugin_pane_open_params_fields_def plugin_pane_open_params_zero_def refill_simps)
qed

lemma plugin_pane_open_params_codec_zero [simp]: "cod_zero (plugin_pane_open_params_codec quote) = plugin_pane_open_params_zero"
  by (simp add: plugin_pane_open_params_codec_def struct_codec_def)

definition plugin_set_enabled_params_fields :: "plugin_set_enabled_params field list" where
  "plugin_set_enabled_params_fields =
    [plain_field ''plugin_id'' string_codec plugin_set_enabled_params_plugin_id (\<lambda>x r. r\<lparr>plugin_set_enabled_params_plugin_id := x\<rparr>)]"

definition plugin_set_enabled_params_codec :: "plugin_set_enabled_params codec" where
  "plugin_set_enabled_params_codec = struct_codec plugin_set_enabled_params_zero plugin_set_enabled_params_fields"

lemma plugin_set_enabled_params_codec_lawful [simp]: "lawful (plugin_set_enabled_params_codec)"
  unfolding plugin_set_enabled_params_codec_def
proof (rule lawful_struct)
  show "distinct (map fld_name plugin_set_enabled_params_fields)" by (simp add: plugin_set_enabled_params_fields_def field_names)
  show "list_all (\<lambda>f. fld_ok f r) plugin_set_enabled_params_fields \<Longrightarrow> refill plugin_set_enabled_params_fields r plugin_set_enabled_params_zero = Some r" for r
    by (cases r) (simp add: plugin_set_enabled_params_fields_def plugin_set_enabled_params_zero_def refill_simps)
qed

lemma plugin_set_enabled_params_codec_zero [simp]: "cod_zero (plugin_set_enabled_params_codec) = plugin_set_enabled_params_zero"
  by (simp add: plugin_set_enabled_params_codec_def struct_codec_def)

definition plugin_unlink_params_fields :: "plugin_unlink_params field list" where
  "plugin_unlink_params_fields =
    [plain_field ''plugin_id'' string_codec plugin_unlink_params_plugin_id (\<lambda>x r. r\<lparr>plugin_unlink_params_plugin_id := x\<rparr>)]"

definition plugin_unlink_params_codec :: "plugin_unlink_params codec" where
  "plugin_unlink_params_codec = struct_codec plugin_unlink_params_zero plugin_unlink_params_fields"

lemma plugin_unlink_params_codec_lawful [simp]: "lawful (plugin_unlink_params_codec)"
  unfolding plugin_unlink_params_codec_def
proof (rule lawful_struct)
  show "distinct (map fld_name plugin_unlink_params_fields)" by (simp add: plugin_unlink_params_fields_def field_names)
  show "list_all (\<lambda>f. fld_ok f r) plugin_unlink_params_fields \<Longrightarrow> refill plugin_unlink_params_fields r plugin_unlink_params_zero = Some r" for r
    by (cases r) (simp add: plugin_unlink_params_fields_def plugin_unlink_params_zero_def refill_simps)
qed

lemma plugin_unlink_params_codec_zero [simp]: "cod_zero (plugin_unlink_params_codec) = plugin_unlink_params_zero"
  by (simp add: plugin_unlink_params_codec_def struct_codec_def)

definition product_announcement_dismiss_params_fields :: "product_announcement_dismiss_params field list" where
  "product_announcement_dismiss_params_fields =
    [plain_field ''id'' string_codec product_announcement_dismiss_params_id (\<lambda>x r. r\<lparr>product_announcement_dismiss_params_id := x\<rparr>),
     plain_field ''version'' string_codec product_announcement_dismiss_params_version (\<lambda>x r. r\<lparr>product_announcement_dismiss_params_version := x\<rparr>)]"

definition product_announcement_dismiss_params_codec :: "product_announcement_dismiss_params codec" where
  "product_announcement_dismiss_params_codec = struct_codec product_announcement_dismiss_params_zero product_announcement_dismiss_params_fields"

lemma product_announcement_dismiss_params_codec_lawful [simp]: "lawful (product_announcement_dismiss_params_codec)"
  unfolding product_announcement_dismiss_params_codec_def
proof (rule lawful_struct)
  show "distinct (map fld_name product_announcement_dismiss_params_fields)" by (simp add: product_announcement_dismiss_params_fields_def field_names)
  show "list_all (\<lambda>f. fld_ok f r) product_announcement_dismiss_params_fields \<Longrightarrow> refill product_announcement_dismiss_params_fields r product_announcement_dismiss_params_zero = Some r" for r
    by (cases r) (simp add: product_announcement_dismiss_params_fields_def product_announcement_dismiss_params_zero_def refill_simps)
qed

lemma product_announcement_dismiss_params_codec_zero [simp]: "cod_zero (product_announcement_dismiss_params_codec) = product_announcement_dismiss_params_zero"
  by (simp add: product_announcement_dismiss_params_codec_def struct_codec_def)

definition release_notes_dismiss_params_fields :: "release_notes_dismiss_params field list" where
  "release_notes_dismiss_params_fields =
    [plain_field ''version'' string_codec release_notes_dismiss_params_version (\<lambda>x r. r\<lparr>release_notes_dismiss_params_version := x\<rparr>)]"

definition release_notes_dismiss_params_codec :: "release_notes_dismiss_params codec" where
  "release_notes_dismiss_params_codec = struct_codec release_notes_dismiss_params_zero release_notes_dismiss_params_fields"

lemma release_notes_dismiss_params_codec_lawful [simp]: "lawful (release_notes_dismiss_params_codec)"
  unfolding release_notes_dismiss_params_codec_def
proof (rule lawful_struct)
  show "distinct (map fld_name release_notes_dismiss_params_fields)" by (simp add: release_notes_dismiss_params_fields_def field_names)
  show "list_all (\<lambda>f. fld_ok f r) release_notes_dismiss_params_fields \<Longrightarrow> refill release_notes_dismiss_params_fields r release_notes_dismiss_params_zero = Some r" for r
    by (cases r) (simp add: release_notes_dismiss_params_fields_def release_notes_dismiss_params_zero_def refill_simps)
qed

lemma release_notes_dismiss_params_codec_zero [simp]: "cod_zero (release_notes_dismiss_params_codec) = release_notes_dismiss_params_zero"
  by (simp add: release_notes_dismiss_params_codec_def struct_codec_def)

definition server_live_handoff_params_fields :: "server_live_handoff_params field list" where
  "server_live_handoff_params_fields =
    [optional_field ''expected_protocol'' uint_codec server_live_handoff_params_expected_protocol (\<lambda>x r. r\<lparr>server_live_handoff_params_expected_protocol := x\<rparr>),
     optional_field ''expected_version'' string_codec server_live_handoff_params_expected_version (\<lambda>x r. r\<lparr>server_live_handoff_params_expected_version := x\<rparr>),
     optional_field ''import_exe'' string_codec server_live_handoff_params_import_exe (\<lambda>x r. r\<lparr>server_live_handoff_params_import_exe := x\<rparr>)]"

definition server_live_handoff_params_codec :: "server_live_handoff_params codec" where
  "server_live_handoff_params_codec = struct_codec server_live_handoff_params_zero server_live_handoff_params_fields"

lemma server_live_handoff_params_codec_lawful [simp]: "lawful (server_live_handoff_params_codec)"
  unfolding server_live_handoff_params_codec_def
proof (rule lawful_struct)
  show "distinct (map fld_name server_live_handoff_params_fields)" by (simp add: server_live_handoff_params_fields_def field_names)
  show "list_all (\<lambda>f. fld_ok f r) server_live_handoff_params_fields \<Longrightarrow> refill server_live_handoff_params_fields r server_live_handoff_params_zero = Some r" for r
    by (cases r) (simp add: server_live_handoff_params_fields_def server_live_handoff_params_zero_def refill_simps)
qed

lemma server_live_handoff_params_codec_zero [simp]: "cod_zero (server_live_handoff_params_codec) = server_live_handoff_params_zero"
  by (simp add: server_live_handoff_params_codec_def struct_codec_def)

definition server_ssh_agent_register_params_fields :: "server_ssh_agent_register_params field list" where
  "server_ssh_agent_register_params_fields =
    [plain_field ''socket_path'' string_codec server_ssh_agent_register_params_socket_path (\<lambda>x r. r\<lparr>server_ssh_agent_register_params_socket_path := x\<rparr>)]"

definition server_ssh_agent_register_params_codec :: "server_ssh_agent_register_params codec" where
  "server_ssh_agent_register_params_codec = struct_codec server_ssh_agent_register_params_zero server_ssh_agent_register_params_fields"

lemma server_ssh_agent_register_params_codec_lawful [simp]: "lawful (server_ssh_agent_register_params_codec)"
  unfolding server_ssh_agent_register_params_codec_def
proof (rule lawful_struct)
  show "distinct (map fld_name server_ssh_agent_register_params_fields)" by (simp add: server_ssh_agent_register_params_fields_def field_names)
  show "list_all (\<lambda>f. fld_ok f r) server_ssh_agent_register_params_fields \<Longrightarrow> refill server_ssh_agent_register_params_fields r server_ssh_agent_register_params_zero = Some r" for r
    by (cases r) (simp add: server_ssh_agent_register_params_fields_def server_ssh_agent_register_params_zero_def refill_simps)
qed

lemma server_ssh_agent_register_params_codec_zero [simp]: "cod_zero (server_ssh_agent_register_params_codec) = server_ssh_agent_register_params_zero"
  by (simp add: server_ssh_agent_register_params_codec_def struct_codec_def)

definition tab_create_params_fields :: "tab_create_params field list" where
  "tab_create_params_fields =
    [optional_field ''cwd'' string_codec tab_create_params_cwd (\<lambda>x r. r\<lparr>tab_create_params_cwd := x\<rparr>),
     optional_field ''env'' (map_codec string_codec) tab_create_params_env (\<lambda>x r. r\<lparr>tab_create_params_env := x\<rparr>),
     optional_field ''focus'' bool_codec tab_create_params_focus (\<lambda>x r. r\<lparr>tab_create_params_focus := x\<rparr>),
     optional_field ''label'' string_codec tab_create_params_label (\<lambda>x r. r\<lparr>tab_create_params_label := x\<rparr>),
     optional_field ''workspace_id'' string_codec tab_create_params_workspace_id (\<lambda>x r. r\<lparr>tab_create_params_workspace_id := x\<rparr>)]"

definition tab_create_params_codec :: "tab_create_params codec" where
  "tab_create_params_codec = struct_codec tab_create_params_zero tab_create_params_fields"

lemma tab_create_params_codec_lawful [simp]: "lawful (tab_create_params_codec)"
  unfolding tab_create_params_codec_def
proof (rule lawful_struct)
  show "distinct (map fld_name tab_create_params_fields)" by (simp add: tab_create_params_fields_def field_names)
  show "list_all (\<lambda>f. fld_ok f r) tab_create_params_fields \<Longrightarrow> refill tab_create_params_fields r tab_create_params_zero = Some r" for r
    by (cases r) (simp add: tab_create_params_fields_def tab_create_params_zero_def refill_simps)
qed

lemma tab_create_params_codec_zero [simp]: "cod_zero (tab_create_params_codec) = tab_create_params_zero"
  by (simp add: tab_create_params_codec_def struct_codec_def)

definition tab_list_params_fields :: "tab_list_params field list" where
  "tab_list_params_fields =
    [optional_field ''workspace_id'' string_codec tab_list_params_workspace_id (\<lambda>x r. r\<lparr>tab_list_params_workspace_id := x\<rparr>)]"

definition tab_list_params_codec :: "tab_list_params codec" where
  "tab_list_params_codec = struct_codec tab_list_params_zero tab_list_params_fields"

lemma tab_list_params_codec_lawful [simp]: "lawful (tab_list_params_codec)"
  unfolding tab_list_params_codec_def
proof (rule lawful_struct)
  show "distinct (map fld_name tab_list_params_fields)" by (simp add: tab_list_params_fields_def field_names)
  show "list_all (\<lambda>f. fld_ok f r) tab_list_params_fields \<Longrightarrow> refill tab_list_params_fields r tab_list_params_zero = Some r" for r
    by (cases r) (simp add: tab_list_params_fields_def tab_list_params_zero_def refill_simps)
qed

lemma tab_list_params_codec_zero [simp]: "cod_zero (tab_list_params_codec) = tab_list_params_zero"
  by (simp add: tab_list_params_codec_def struct_codec_def)

definition tab_move_params_fields :: "tab_move_params field list" where
  "tab_move_params_fields =
    [plain_field ''insert_index'' uint_codec tab_move_params_insert_index (\<lambda>x r. r\<lparr>tab_move_params_insert_index := x\<rparr>),
     plain_field ''tab_id'' string_codec tab_move_params_tab_id (\<lambda>x r. r\<lparr>tab_move_params_tab_id := x\<rparr>)]"

definition tab_move_params_codec :: "tab_move_params codec" where
  "tab_move_params_codec = struct_codec tab_move_params_zero tab_move_params_fields"

lemma tab_move_params_codec_lawful [simp]: "lawful (tab_move_params_codec)"
  unfolding tab_move_params_codec_def
proof (rule lawful_struct)
  show "distinct (map fld_name tab_move_params_fields)" by (simp add: tab_move_params_fields_def field_names)
  show "list_all (\<lambda>f. fld_ok f r) tab_move_params_fields \<Longrightarrow> refill tab_move_params_fields r tab_move_params_zero = Some r" for r
    by (cases r) (simp add: tab_move_params_fields_def tab_move_params_zero_def refill_simps)
qed

lemma tab_move_params_codec_zero [simp]: "cod_zero (tab_move_params_codec) = tab_move_params_zero"
  by (simp add: tab_move_params_codec_def struct_codec_def)

definition tab_rename_params_fields :: "tab_rename_params field list" where
  "tab_rename_params_fields =
    [plain_field ''label'' string_codec tab_rename_params_label (\<lambda>x r. r\<lparr>tab_rename_params_label := x\<rparr>),
     plain_field ''tab_id'' string_codec tab_rename_params_tab_id (\<lambda>x r. r\<lparr>tab_rename_params_tab_id := x\<rparr>)]"

definition tab_rename_params_codec :: "tab_rename_params codec" where
  "tab_rename_params_codec = struct_codec tab_rename_params_zero tab_rename_params_fields"

lemma tab_rename_params_codec_lawful [simp]: "lawful (tab_rename_params_codec)"
  unfolding tab_rename_params_codec_def
proof (rule lawful_struct)
  show "distinct (map fld_name tab_rename_params_fields)" by (simp add: tab_rename_params_fields_def field_names)
  show "list_all (\<lambda>f. fld_ok f r) tab_rename_params_fields \<Longrightarrow> refill tab_rename_params_fields r tab_rename_params_zero = Some r" for r
    by (cases r) (simp add: tab_rename_params_fields_def tab_rename_params_zero_def refill_simps)
qed

lemma tab_rename_params_codec_zero [simp]: "cod_zero (tab_rename_params_codec) = tab_rename_params_zero"
  by (simp add: tab_rename_params_codec_def struct_codec_def)

definition tab_target_fields :: "tab_target field list" where
  "tab_target_fields =
    [plain_field ''tab_id'' string_codec tab_target_tab_id (\<lambda>x r. r\<lparr>tab_target_tab_id := x\<rparr>)]"

definition tab_target_codec :: "tab_target codec" where
  "tab_target_codec = struct_codec tab_target_zero tab_target_fields"

lemma tab_target_codec_lawful [simp]: "lawful (tab_target_codec)"
  unfolding tab_target_codec_def
proof (rule lawful_struct)
  show "distinct (map fld_name tab_target_fields)" by (simp add: tab_target_fields_def field_names)
  show "list_all (\<lambda>f. fld_ok f r) tab_target_fields \<Longrightarrow> refill tab_target_fields r tab_target_zero = Some r" for r
    by (cases r) (simp add: tab_target_fields_def tab_target_zero_def refill_simps)
qed

lemma tab_target_codec_zero [simp]: "cod_zero (tab_target_codec) = tab_target_zero"
  by (simp add: tab_target_codec_def struct_codec_def)

definition workspace_close_params_fields :: "workspace_close_params field list" where
  "workspace_close_params_fields =
    [optional_field ''close_group'' bool_codec workspace_close_params_close_group (\<lambda>x r. r\<lparr>workspace_close_params_close_group := x\<rparr>),
     plain_field ''workspace_id'' string_codec workspace_close_params_workspace_id (\<lambda>x r. r\<lparr>workspace_close_params_workspace_id := x\<rparr>)]"

definition workspace_close_params_codec :: "workspace_close_params codec" where
  "workspace_close_params_codec = struct_codec workspace_close_params_zero workspace_close_params_fields"

lemma workspace_close_params_codec_lawful [simp]: "lawful (workspace_close_params_codec)"
  unfolding workspace_close_params_codec_def
proof (rule lawful_struct)
  show "distinct (map fld_name workspace_close_params_fields)" by (simp add: workspace_close_params_fields_def field_names)
  show "list_all (\<lambda>f. fld_ok f r) workspace_close_params_fields \<Longrightarrow> refill workspace_close_params_fields r workspace_close_params_zero = Some r" for r
    by (cases r) (simp add: workspace_close_params_fields_def workspace_close_params_zero_def refill_simps)
qed

lemma workspace_close_params_codec_zero [simp]: "cod_zero (workspace_close_params_codec) = workspace_close_params_zero"
  by (simp add: workspace_close_params_codec_def struct_codec_def)

definition workspace_create_params_fields :: "workspace_create_params field list" where
  "workspace_create_params_fields =
    [optional_field ''cwd'' string_codec workspace_create_params_cwd (\<lambda>x r. r\<lparr>workspace_create_params_cwd := x\<rparr>),
     optional_field ''env'' (map_codec string_codec) workspace_create_params_env (\<lambda>x r. r\<lparr>workspace_create_params_env := x\<rparr>),
     optional_field ''focus'' bool_codec workspace_create_params_focus (\<lambda>x r. r\<lparr>workspace_create_params_focus := x\<rparr>),
     optional_field ''label'' string_codec workspace_create_params_label (\<lambda>x r. r\<lparr>workspace_create_params_label := x\<rparr>),
     optional_field ''source_workspace_id'' string_codec workspace_create_params_source_workspace_id (\<lambda>x r. r\<lparr>workspace_create_params_source_workspace_id := x\<rparr>)]"

definition workspace_create_params_codec :: "workspace_create_params codec" where
  "workspace_create_params_codec = struct_codec workspace_create_params_zero workspace_create_params_fields"

lemma workspace_create_params_codec_lawful [simp]: "lawful (workspace_create_params_codec)"
  unfolding workspace_create_params_codec_def
proof (rule lawful_struct)
  show "distinct (map fld_name workspace_create_params_fields)" by (simp add: workspace_create_params_fields_def field_names)
  show "list_all (\<lambda>f. fld_ok f r) workspace_create_params_fields \<Longrightarrow> refill workspace_create_params_fields r workspace_create_params_zero = Some r" for r
    by (cases r) (simp add: workspace_create_params_fields_def workspace_create_params_zero_def refill_simps)
qed

lemma workspace_create_params_codec_zero [simp]: "cod_zero (workspace_create_params_codec) = workspace_create_params_zero"
  by (simp add: workspace_create_params_codec_def struct_codec_def)

definition workspace_move_block_params_fields :: "workspace_move_block_params field list" where
  "workspace_move_block_params_fields =
    [optional_field ''before_workspace_id'' string_codec workspace_move_block_params_before_workspace_id (\<lambda>x r. r\<lparr>workspace_move_block_params_before_workspace_id := x\<rparr>),
     plain_field ''workspace_ids'' (slice_codec string_codec) workspace_move_block_params_workspace_ids (\<lambda>x r. r\<lparr>workspace_move_block_params_workspace_ids := x\<rparr>)]"

definition workspace_move_block_params_codec :: "workspace_move_block_params codec" where
  "workspace_move_block_params_codec = struct_codec workspace_move_block_params_zero workspace_move_block_params_fields"

lemma workspace_move_block_params_codec_lawful [simp]: "lawful (workspace_move_block_params_codec)"
  unfolding workspace_move_block_params_codec_def
proof (rule lawful_struct)
  show "distinct (map fld_name workspace_move_block_params_fields)" by (simp add: workspace_move_block_params_fields_def field_names)
  show "list_all (\<lambda>f. fld_ok f r) workspace_move_block_params_fields \<Longrightarrow> refill workspace_move_block_params_fields r workspace_move_block_params_zero = Some r" for r
    by (cases r) (simp add: workspace_move_block_params_fields_def workspace_move_block_params_zero_def refill_simps)
qed

lemma workspace_move_block_params_codec_zero [simp]: "cod_zero (workspace_move_block_params_codec) = workspace_move_block_params_zero"
  by (simp add: workspace_move_block_params_codec_def struct_codec_def)

definition workspace_move_params_fields :: "workspace_move_params field list" where
  "workspace_move_params_fields =
    [plain_field ''insert_index'' uint_codec workspace_move_params_insert_index (\<lambda>x r. r\<lparr>workspace_move_params_insert_index := x\<rparr>),
     plain_field ''workspace_id'' string_codec workspace_move_params_workspace_id (\<lambda>x r. r\<lparr>workspace_move_params_workspace_id := x\<rparr>)]"

definition workspace_move_params_codec :: "workspace_move_params codec" where
  "workspace_move_params_codec = struct_codec workspace_move_params_zero workspace_move_params_fields"

lemma workspace_move_params_codec_lawful [simp]: "lawful (workspace_move_params_codec)"
  unfolding workspace_move_params_codec_def
proof (rule lawful_struct)
  show "distinct (map fld_name workspace_move_params_fields)" by (simp add: workspace_move_params_fields_def field_names)
  show "list_all (\<lambda>f. fld_ok f r) workspace_move_params_fields \<Longrightarrow> refill workspace_move_params_fields r workspace_move_params_zero = Some r" for r
    by (cases r) (simp add: workspace_move_params_fields_def workspace_move_params_zero_def refill_simps)
qed

lemma workspace_move_params_codec_zero [simp]: "cod_zero (workspace_move_params_codec) = workspace_move_params_zero"
  by (simp add: workspace_move_params_codec_def struct_codec_def)

definition workspace_rename_params_fields :: "workspace_rename_params field list" where
  "workspace_rename_params_fields =
    [plain_field ''label'' string_codec workspace_rename_params_label (\<lambda>x r. r\<lparr>workspace_rename_params_label := x\<rparr>),
     plain_field ''workspace_id'' string_codec workspace_rename_params_workspace_id (\<lambda>x r. r\<lparr>workspace_rename_params_workspace_id := x\<rparr>)]"

definition workspace_rename_params_codec :: "workspace_rename_params codec" where
  "workspace_rename_params_codec = struct_codec workspace_rename_params_zero workspace_rename_params_fields"

lemma workspace_rename_params_codec_lawful [simp]: "lawful (workspace_rename_params_codec)"
  unfolding workspace_rename_params_codec_def
proof (rule lawful_struct)
  show "distinct (map fld_name workspace_rename_params_fields)" by (simp add: workspace_rename_params_fields_def field_names)
  show "list_all (\<lambda>f. fld_ok f r) workspace_rename_params_fields \<Longrightarrow> refill workspace_rename_params_fields r workspace_rename_params_zero = Some r" for r
    by (cases r) (simp add: workspace_rename_params_fields_def workspace_rename_params_zero_def refill_simps)
qed

lemma workspace_rename_params_codec_zero [simp]: "cod_zero (workspace_rename_params_codec) = workspace_rename_params_zero"
  by (simp add: workspace_rename_params_codec_def struct_codec_def)

definition workspace_report_metadata_params_fields :: "workspace_report_metadata_params field list" where
  "workspace_report_metadata_params_fields =
    [optional_field ''seq'' uint_codec workspace_report_metadata_params_seq (\<lambda>x r. r\<lparr>workspace_report_metadata_params_seq := x\<rparr>),
     plain_field ''source'' string_codec workspace_report_metadata_params_source (\<lambda>x r. r\<lparr>workspace_report_metadata_params_source := x\<rparr>),
     plain_field ''tokens'' (map_codec (pointer_codec string_codec)) workspace_report_metadata_params_tokens (\<lambda>x r. r\<lparr>workspace_report_metadata_params_tokens := x\<rparr>),
     optional_field ''ttl_ms'' uint_codec workspace_report_metadata_params_ttl_ms (\<lambda>x r. r\<lparr>workspace_report_metadata_params_ttl_ms := x\<rparr>),
     plain_field ''workspace_id'' string_codec workspace_report_metadata_params_workspace_id (\<lambda>x r. r\<lparr>workspace_report_metadata_params_workspace_id := x\<rparr>)]"

definition workspace_report_metadata_params_codec :: "workspace_report_metadata_params codec" where
  "workspace_report_metadata_params_codec = struct_codec workspace_report_metadata_params_zero workspace_report_metadata_params_fields"

lemma workspace_report_metadata_params_codec_lawful [simp]: "lawful (workspace_report_metadata_params_codec)"
  unfolding workspace_report_metadata_params_codec_def
proof (rule lawful_struct)
  show "distinct (map fld_name workspace_report_metadata_params_fields)" by (simp add: workspace_report_metadata_params_fields_def field_names)
  show "list_all (\<lambda>f. fld_ok f r) workspace_report_metadata_params_fields \<Longrightarrow> refill workspace_report_metadata_params_fields r workspace_report_metadata_params_zero = Some r" for r
    by (cases r) (simp add: workspace_report_metadata_params_fields_def workspace_report_metadata_params_zero_def refill_simps)
qed

lemma workspace_report_metadata_params_codec_zero [simp]: "cod_zero (workspace_report_metadata_params_codec) = workspace_report_metadata_params_zero"
  by (simp add: workspace_report_metadata_params_codec_def struct_codec_def)

definition workspace_target_fields :: "workspace_target field list" where
  "workspace_target_fields =
    [plain_field ''workspace_id'' string_codec workspace_target_workspace_id (\<lambda>x r. r\<lparr>workspace_target_workspace_id := x\<rparr>)]"

definition workspace_target_codec :: "workspace_target codec" where
  "workspace_target_codec = struct_codec workspace_target_zero workspace_target_fields"

lemma workspace_target_codec_lawful [simp]: "lawful (workspace_target_codec)"
  unfolding workspace_target_codec_def
proof (rule lawful_struct)
  show "distinct (map fld_name workspace_target_fields)" by (simp add: workspace_target_fields_def field_names)
  show "list_all (\<lambda>f. fld_ok f r) workspace_target_fields \<Longrightarrow> refill workspace_target_fields r workspace_target_zero = Some r" for r
    by (cases r) (simp add: workspace_target_fields_def workspace_target_zero_def refill_simps)
qed

lemma workspace_target_codec_zero [simp]: "cod_zero (workspace_target_codec) = workspace_target_zero"
  by (simp add: workspace_target_codec_def struct_codec_def)

definition worktree_create_params_fields :: "worktree_create_params field list" where
  "worktree_create_params_fields =
    [optional_field ''base'' string_codec worktree_create_params_base (\<lambda>x r. r\<lparr>worktree_create_params_base := x\<rparr>),
     optional_field ''branch'' string_codec worktree_create_params_branch (\<lambda>x r. r\<lparr>worktree_create_params_branch := x\<rparr>),
     optional_field ''cwd'' string_codec worktree_create_params_cwd (\<lambda>x r. r\<lparr>worktree_create_params_cwd := x\<rparr>),
     optional_field ''focus'' bool_codec worktree_create_params_focus (\<lambda>x r. r\<lparr>worktree_create_params_focus := x\<rparr>),
     optional_field ''label'' string_codec worktree_create_params_label (\<lambda>x r. r\<lparr>worktree_create_params_label := x\<rparr>),
     optional_field ''path'' string_codec worktree_create_params_path (\<lambda>x r. r\<lparr>worktree_create_params_path := x\<rparr>),
     optional_field ''trust_repository'' bool_codec worktree_create_params_trust_repository (\<lambda>x r. r\<lparr>worktree_create_params_trust_repository := x\<rparr>),
     optional_field ''workspace_id'' string_codec worktree_create_params_workspace_id (\<lambda>x r. r\<lparr>worktree_create_params_workspace_id := x\<rparr>)]"

definition worktree_create_params_codec :: "worktree_create_params codec" where
  "worktree_create_params_codec = struct_codec worktree_create_params_zero worktree_create_params_fields"

lemma worktree_create_params_codec_lawful [simp]: "lawful (worktree_create_params_codec)"
  unfolding worktree_create_params_codec_def
proof (rule lawful_struct)
  show "distinct (map fld_name worktree_create_params_fields)" by (simp add: worktree_create_params_fields_def field_names)
  show "list_all (\<lambda>f. fld_ok f r) worktree_create_params_fields \<Longrightarrow> refill worktree_create_params_fields r worktree_create_params_zero = Some r" for r
    by (cases r) (simp add: worktree_create_params_fields_def worktree_create_params_zero_def refill_simps)
qed

lemma worktree_create_params_codec_zero [simp]: "cod_zero (worktree_create_params_codec) = worktree_create_params_zero"
  by (simp add: worktree_create_params_codec_def struct_codec_def)

definition worktree_list_params_fields :: "worktree_list_params field list" where
  "worktree_list_params_fields =
    [optional_field ''cwd'' string_codec worktree_list_params_cwd (\<lambda>x r. r\<lparr>worktree_list_params_cwd := x\<rparr>),
     optional_field ''trust_repository'' bool_codec worktree_list_params_trust_repository (\<lambda>x r. r\<lparr>worktree_list_params_trust_repository := x\<rparr>),
     optional_field ''workspace_id'' string_codec worktree_list_params_workspace_id (\<lambda>x r. r\<lparr>worktree_list_params_workspace_id := x\<rparr>)]"

definition worktree_list_params_codec :: "worktree_list_params codec" where
  "worktree_list_params_codec = struct_codec worktree_list_params_zero worktree_list_params_fields"

lemma worktree_list_params_codec_lawful [simp]: "lawful (worktree_list_params_codec)"
  unfolding worktree_list_params_codec_def
proof (rule lawful_struct)
  show "distinct (map fld_name worktree_list_params_fields)" by (simp add: worktree_list_params_fields_def field_names)
  show "list_all (\<lambda>f. fld_ok f r) worktree_list_params_fields \<Longrightarrow> refill worktree_list_params_fields r worktree_list_params_zero = Some r" for r
    by (cases r) (simp add: worktree_list_params_fields_def worktree_list_params_zero_def refill_simps)
qed

lemma worktree_list_params_codec_zero [simp]: "cod_zero (worktree_list_params_codec) = worktree_list_params_zero"
  by (simp add: worktree_list_params_codec_def struct_codec_def)

definition worktree_open_params_fields :: "worktree_open_params field list" where
  "worktree_open_params_fields =
    [optional_field ''branch'' string_codec worktree_open_params_branch (\<lambda>x r. r\<lparr>worktree_open_params_branch := x\<rparr>),
     optional_field ''cwd'' string_codec worktree_open_params_cwd (\<lambda>x r. r\<lparr>worktree_open_params_cwd := x\<rparr>),
     optional_field ''focus'' bool_codec worktree_open_params_focus (\<lambda>x r. r\<lparr>worktree_open_params_focus := x\<rparr>),
     optional_field ''label'' string_codec worktree_open_params_label (\<lambda>x r. r\<lparr>worktree_open_params_label := x\<rparr>),
     optional_field ''path'' string_codec worktree_open_params_path (\<lambda>x r. r\<lparr>worktree_open_params_path := x\<rparr>),
     optional_field ''trust_repository'' bool_codec worktree_open_params_trust_repository (\<lambda>x r. r\<lparr>worktree_open_params_trust_repository := x\<rparr>),
     optional_field ''workspace_id'' string_codec worktree_open_params_workspace_id (\<lambda>x r. r\<lparr>worktree_open_params_workspace_id := x\<rparr>)]"

definition worktree_open_params_codec :: "worktree_open_params codec" where
  "worktree_open_params_codec = struct_codec worktree_open_params_zero worktree_open_params_fields"

lemma worktree_open_params_codec_lawful [simp]: "lawful (worktree_open_params_codec)"
  unfolding worktree_open_params_codec_def
proof (rule lawful_struct)
  show "distinct (map fld_name worktree_open_params_fields)" by (simp add: worktree_open_params_fields_def field_names)
  show "list_all (\<lambda>f. fld_ok f r) worktree_open_params_fields \<Longrightarrow> refill worktree_open_params_fields r worktree_open_params_zero = Some r" for r
    by (cases r) (simp add: worktree_open_params_fields_def worktree_open_params_zero_def refill_simps)
qed

lemma worktree_open_params_codec_zero [simp]: "cod_zero (worktree_open_params_codec) = worktree_open_params_zero"
  by (simp add: worktree_open_params_codec_def struct_codec_def)

definition worktree_remove_params_fields :: "worktree_remove_params field list" where
  "worktree_remove_params_fields =
    [optional_field ''force'' bool_codec worktree_remove_params_force (\<lambda>x r. r\<lparr>worktree_remove_params_force := x\<rparr>),
     optional_field ''trust_repository'' bool_codec worktree_remove_params_trust_repository (\<lambda>x r. r\<lparr>worktree_remove_params_trust_repository := x\<rparr>),
     plain_field ''workspace_id'' string_codec worktree_remove_params_workspace_id (\<lambda>x r. r\<lparr>worktree_remove_params_workspace_id := x\<rparr>)]"

definition worktree_remove_params_codec :: "worktree_remove_params codec" where
  "worktree_remove_params_codec = struct_codec worktree_remove_params_zero worktree_remove_params_fields"

lemma worktree_remove_params_codec_lawful [simp]: "lawful (worktree_remove_params_codec)"
  unfolding worktree_remove_params_codec_def
proof (rule lawful_struct)
  show "distinct (map fld_name worktree_remove_params_fields)" by (simp add: worktree_remove_params_fields_def field_names)
  show "list_all (\<lambda>f. fld_ok f r) worktree_remove_params_fields \<Longrightarrow> refill worktree_remove_params_fields r worktree_remove_params_zero = Some r" for r
    by (cases r) (simp add: worktree_remove_params_fields_def worktree_remove_params_zero_def refill_simps)
qed

lemma worktree_remove_params_codec_zero [simp]: "cod_zero (worktree_remove_params_codec) = worktree_remove_params_zero"
  by (simp add: worktree_remove_params_codec_def struct_codec_def)

text \<open>
  The parameters of \<open>events.subscribe\<close>, whose one field is a slice of a union: an empty array leaves it nil.
\<close>

fun decode_subscriptions :: "json option list \<Rightarrow> subscription list option" where
  "decode_subscriptions [] = Some []"
| "decode_subscriptions (item # items) = (case item of
     None \<Rightarrow> None
   | Some j \<Rightarrow> (case decode_subscription j of
       None \<Rightarrow> None
     | Some s \<Rightarrow> (case decode_subscriptions items of None \<Rightarrow> None | Some ss \<Rightarrow> Some (s # ss))))"

definition decode_subscribe_params :: "json \<Rightarrow> events_subscribe_params option" where
  "decode_subscribe_params j = (case raw_items ''subscriptions'' j of
     None \<Rightarrow> None
   | Some items \<Rightarrow> if elems items = [] then Some None
       else (case decode_subscriptions (elems items) of None \<Rightarrow> None | Some ss \<Rightarrow> Some (Some ss)))"

definition events_subscribe_params_codec :: "events_subscribe_params codec" where
  "events_subscribe_params_codec = \<lparr>cod_zero = None, cod_enc = encode_subscribe_params,
     cod_dec = (\<lambda>j old. decode_subscribe_params j),
     cod_ok = (\<lambda>v. case v of None \<Rightarrow> True | Some ss \<Rightarrow> ss \<noteq> [] \<and> list_all subscription_ok ss)\<rparr>"

lemma decode_subscriptions_encoded:
  "list_all (\<lambda>s. decode_subscription (encode_subscription s) = Some s) ss \<Longrightarrow>
    decode_subscriptions (map (\<lambda>s. Some (encode_subscription s)) ss) = Some ss"
  by (induction ss) simp_all

lemma raw_subscriptions: "raw_items ''subscriptions'' (JObj [(''subscriptions'', j)]) = cod_dec (slice_codec raw_codec) j None"
  by (simp add: raw_items_def decode_struct_def find_field_def plain_field_def split: option.split)

lemma events_subscribe_params_codec_lawful [simp]: "lawful events_subscribe_params_codec"
  unfolding lawful_def
proof (intro allI impI)
  fix v assume ok: "cod_ok events_subscribe_params_codec v"
  show "cod_dec events_subscribe_params_codec (cod_enc events_subscribe_params_codec v)
      (cod_zero events_subscribe_params_codec) = Some v"
  proof (cases v)
    case None
    then show ?thesis
      by (simp add: events_subscribe_params_codec_def decode_subscribe_params_def encode_subscribe_params_def
          raw_subscriptions slice_codec_def)
  next
    case (Some ss)
    with ok have "list_all (\<lambda>s. decode_subscription (encode_subscription s) = Some s) ss" "ss \<noteq> []"
      by (auto simp: events_subscribe_params_codec_def list_all_iff decode_subscription_encoded)
    with decode_subscriptions_encoded [OF this(1)] Some show ?thesis
      by (simp add: events_subscribe_params_codec_def decode_subscribe_params_def encode_subscribe_params_def
          raw_subscriptions slice_codec_def decode_raw_elems comp_def)
  qed
qed

end
