(* ===== verification/Results.thy ===== *)
theory Results
  imports Response_Codec Param_Codec Client
begin

text \<open>
  \<open>herdr/results_gen.go\<close>: the union \<open>Result\<close> of the responses, their \<open>ResultType\<close> and \<open>MarshalJSON\<close>, and
  \<open>DecodeResult\<close>; \<open>decodeResult\<close> of \<open>herdr/client.go\<close>. A result is the value behind the pointer that
  \<open>DecodeResult\<close> returns. \<open>JsonError\<close> is whatever \<open>json.Unmarshal\<close> reports, errors of the methods of a value
  included.
\<close>

subsection \<open>The union\<close>

datatype (plugins only: code size) api_result =
    AgentExplainResponse agent_explain_response
  | AgentInfoResponse agent_info_response
  | AgentListResponse agent_list_response
  | AgentManifestReloadResponse agent_manifest_reload_response
  | AgentManifestStatusResponse agent_manifest_status_response
  | AgentPromptedResponse agent_prompted_response
  | AgentStartedResponse agent_started_response
  | AgentViewResponse agent_view_response
  | ClientShellSurfaceSetResponse client_shell_surface_set_response
  | ClientWindowTitleResponse client_window_title_response
  | ConfigReloadResponse config_reload_response
  | IntegrationInstallResponse integration_install_response
  | IntegrationListResponse integration_list_response
  | IntegrationUninstallResponse integration_uninstall_response
  | LayoutApplyResponse layout_apply_response
  | LayoutExportResponse layout_export_response
  | LayoutSplitRatioSetResponse layout_split_ratio_set_response
  | NotificationShowResponse notification_show_response
  | OKResponse
  | OutputMatchedResponse output_matched_response
  | PaneCopyMotionResponse pane_copy_motion_response
  | PaneCopySearchResponse pane_copy_search_response
  | PaneCurrentResponse pane_current_response
  | PaneEdgesResponse pane_edges_response
  | PaneFocusDirectionResponse pane_focus_direction_response
  | PaneInfoResponse pane_info_response
  | PaneLayoutResponse pane_layout_response
  | PaneLinkActivatedResponse pane_link_activated_response
  | PaneLinkResolvedResponse pane_link_resolved_response
  | PaneListResponse pane_list_response
  | PaneMoveResponse pane_move_response
  | PaneNeighborResponse pane_neighbor_response
  | PaneProcessInfoResponse pane_process_info_response
  | PaneReadResponse pane_read_response
  | PaneResizeResponse pane_resize_response
  | PaneSelectionResponse pane_selection_response
  | PaneSwapResponse pane_swap_response
  | PaneZoomResponse pane_zoom_response
  | PluginActionInvokedResponse plugin_action_invoked_response
  | PluginActionListResponse plugin_action_list_response
  | PluginDisabledResponse plugin_disabled_response
  | PluginEnabledResponse plugin_enabled_response
  | PluginLinkedResponse plugin_linked_response
  | PluginListResponse plugin_list_response
  | PluginLogListResponse plugin_log_list_response
  | PluginPaneClosedResponse plugin_pane_closed_response
  | PluginPaneFocusedResponse plugin_pane_focused_response
  | PluginPaneOpenedResponse plugin_pane_opened_response
  | PluginUnlinkedResponse plugin_unlinked_response
  | PongResponse pong_response
  | SessionSnapshotResponse session_snapshot_response
  | SubscriptionStartedResponse
  | TabCreatedResponse tab_created_response
  | TabInfoResponse tab_info_response
  | TabListResponse tab_list_response
  | WaitMatchedResponse wait_matched_response
  | WorkspaceCreatedResponse workspace_created_response
  | WorkspaceInfoResponse workspace_info_response
  | WorkspaceListResponse workspace_list_response
  | WorktreeCreatedResponse worktree_created_response
  | WorktreeListResponse worktree_list_response
  | WorktreeOpenedResponse worktree_opened_response
  | WorktreeRemovedResponse worktree_removed_response

primrec result_type :: "api_result \<Rightarrow> string" where
  "result_type (AgentExplainResponse v) = ''agent_explain''"
| "result_type (AgentInfoResponse v) = ''agent_info''"
| "result_type (AgentListResponse v) = ''agent_list''"
| "result_type (AgentManifestReloadResponse v) = ''agent_manifest_reload''"
| "result_type (AgentManifestStatusResponse v) = ''agent_manifest_status''"
| "result_type (AgentPromptedResponse v) = ''agent_prompted''"
| "result_type (AgentStartedResponse v) = ''agent_started''"
| "result_type (AgentViewResponse v) = ''agent_view''"
| "result_type (ClientShellSurfaceSetResponse v) = ''client_shell_surface_set''"
| "result_type (ClientWindowTitleResponse v) = ''client_window_title''"
| "result_type (ConfigReloadResponse v) = ''config_reload''"
| "result_type (IntegrationInstallResponse v) = ''integration_install''"
| "result_type (IntegrationListResponse v) = ''integration_list''"
| "result_type (IntegrationUninstallResponse v) = ''integration_uninstall''"
| "result_type (LayoutApplyResponse v) = ''layout_apply''"
| "result_type (LayoutExportResponse v) = ''layout_export''"
| "result_type (LayoutSplitRatioSetResponse v) = ''layout_split_ratio_set''"
| "result_type (NotificationShowResponse v) = ''notification_show''"
| "result_type OKResponse = ''ok''"
| "result_type (OutputMatchedResponse v) = ''output_matched''"
| "result_type (PaneCopyMotionResponse v) = ''pane_copy_motion''"
| "result_type (PaneCopySearchResponse v) = ''pane_copy_search''"
| "result_type (PaneCurrentResponse v) = ''pane_current''"
| "result_type (PaneEdgesResponse v) = ''pane_edges''"
| "result_type (PaneFocusDirectionResponse v) = ''pane_focus_direction''"
| "result_type (PaneInfoResponse v) = ''pane_info''"
| "result_type (PaneLayoutResponse v) = ''pane_layout''"
| "result_type (PaneLinkActivatedResponse v) = ''pane_link_activated''"
| "result_type (PaneLinkResolvedResponse v) = ''pane_link_resolved''"
| "result_type (PaneListResponse v) = ''pane_list''"
| "result_type (PaneMoveResponse v) = ''pane_move''"
| "result_type (PaneNeighborResponse v) = ''pane_neighbor''"
| "result_type (PaneProcessInfoResponse v) = ''pane_process_info''"
| "result_type (PaneReadResponse v) = ''pane_read''"
| "result_type (PaneResizeResponse v) = ''pane_resize''"
| "result_type (PaneSelectionResponse v) = ''pane_selection''"
| "result_type (PaneSwapResponse v) = ''pane_swap''"
| "result_type (PaneZoomResponse v) = ''pane_zoom''"
| "result_type (PluginActionInvokedResponse v) = ''plugin_action_invoked''"
| "result_type (PluginActionListResponse v) = ''plugin_action_list''"
| "result_type (PluginDisabledResponse v) = ''plugin_disabled''"
| "result_type (PluginEnabledResponse v) = ''plugin_enabled''"
| "result_type (PluginLinkedResponse v) = ''plugin_linked''"
| "result_type (PluginListResponse v) = ''plugin_list''"
| "result_type (PluginLogListResponse v) = ''plugin_log_list''"
| "result_type (PluginPaneClosedResponse v) = ''plugin_pane_closed''"
| "result_type (PluginPaneFocusedResponse v) = ''plugin_pane_focused''"
| "result_type (PluginPaneOpenedResponse v) = ''plugin_pane_opened''"
| "result_type (PluginUnlinkedResponse v) = ''plugin_unlinked''"
| "result_type (PongResponse v) = ''pong''"
| "result_type (SessionSnapshotResponse v) = ''session_snapshot''"
| "result_type SubscriptionStartedResponse = ''subscription_started''"
| "result_type (TabCreatedResponse v) = ''tab_created''"
| "result_type (TabInfoResponse v) = ''tab_info''"
| "result_type (TabListResponse v) = ''tab_list''"
| "result_type (WaitMatchedResponse v) = ''wait_matched''"
| "result_type (WorkspaceCreatedResponse v) = ''workspace_created''"
| "result_type (WorkspaceInfoResponse v) = ''workspace_info''"
| "result_type (WorkspaceListResponse v) = ''workspace_list''"
| "result_type (WorktreeCreatedResponse v) = ''worktree_created''"
| "result_type (WorktreeListResponse v) = ''worktree_list''"
| "result_type (WorktreeOpenedResponse v) = ''worktree_opened''"
| "result_type (WorktreeRemovedResponse v) = ''worktree_removed''"

text \<open>The \<open>MarshalJSON\<close> methods.\<close>

definition agent_explain_response_json :: "agent_explain_response \<Rightarrow> json" where
  "agent_explain_response_json v = tagged ''agent_explain'' agent_explain_response_fields v"

definition agent_info_response_json :: "agent_info_response \<Rightarrow> json" where
  "agent_info_response_json v = tagged ''agent_info'' agent_info_response_fields v"

definition agent_list_response_json :: "agent_list_response \<Rightarrow> json" where
  "agent_list_response_json v = tagged ''agent_list'' agent_list_response_fields v"

definition agent_manifest_reload_response_json :: "agent_manifest_reload_response \<Rightarrow> json" where
  "agent_manifest_reload_response_json v = tagged ''agent_manifest_reload'' agent_manifest_reload_response_fields v"

definition agent_manifest_status_response_json :: "agent_manifest_status_response \<Rightarrow> json" where
  "agent_manifest_status_response_json v = tagged ''agent_manifest_status'' agent_manifest_status_response_fields v"

definition agent_prompted_response_json :: "agent_prompted_response \<Rightarrow> json" where
  "agent_prompted_response_json v = tagged ''agent_prompted'' agent_prompted_response_fields v"

definition agent_started_response_json :: "agent_started_response \<Rightarrow> json" where
  "agent_started_response_json v = tagged ''agent_started'' agent_started_response_fields v"

definition agent_view_response_json :: "agent_view_response \<Rightarrow> json" where
  "agent_view_response_json v = tagged ''agent_view'' agent_view_response_fields v"

definition client_shell_surface_set_response_json :: "client_shell_surface_set_response \<Rightarrow> json" where
  "client_shell_surface_set_response_json v = tagged ''client_shell_surface_set'' client_shell_surface_set_response_fields v"

definition client_window_title_response_json :: "client_window_title_response \<Rightarrow> json" where
  "client_window_title_response_json v = tagged ''client_window_title'' client_window_title_response_fields v"

definition config_reload_response_json :: "config_reload_response \<Rightarrow> json" where
  "config_reload_response_json v = tagged ''config_reload'' config_reload_response_fields v"

definition integration_install_response_json :: "integration_install_response \<Rightarrow> json" where
  "integration_install_response_json v = tagged ''integration_install'' integration_install_response_fields v"

definition integration_list_response_json :: "integration_list_response \<Rightarrow> json" where
  "integration_list_response_json v = tagged ''integration_list'' integration_list_response_fields v"

definition integration_uninstall_response_json :: "integration_uninstall_response \<Rightarrow> json" where
  "integration_uninstall_response_json v = tagged ''integration_uninstall'' integration_uninstall_response_fields v"

definition layout_apply_response_json :: "(string \<Rightarrow> float64 option) \<Rightarrow> (float64 \<Rightarrow> string) \<Rightarrow> layout_apply_response \<Rightarrow> json" where
  "layout_apply_response_json pf ff v = tagged ''layout_apply'' (layout_apply_response_fields pf ff) v"

definition layout_export_response_json :: "(string \<Rightarrow> float64 option) \<Rightarrow> (float64 \<Rightarrow> string) \<Rightarrow> layout_export_response \<Rightarrow> json" where
  "layout_export_response_json pf ff v = tagged ''layout_export'' (layout_export_response_fields pf ff) v"

definition layout_split_ratio_set_response_json :: "(string \<Rightarrow> float64 option) \<Rightarrow> (float64 \<Rightarrow> string) \<Rightarrow> layout_split_ratio_set_response \<Rightarrow> json" where
  "layout_split_ratio_set_response_json pf ff v = tagged ''layout_split_ratio_set'' (layout_split_ratio_set_response_fields pf ff) v"

definition notification_show_response_json :: "notification_show_response \<Rightarrow> json" where
  "notification_show_response_json v = tagged ''notification_show'' notification_show_response_fields v"

definition ok_response_json :: json where
  "ok_response_json = tagged ''ok'' no_fields ()"

definition output_matched_response_json :: "output_matched_response \<Rightarrow> json" where
  "output_matched_response_json v = tagged ''output_matched'' output_matched_response_fields v"

definition pane_copy_motion_response_json :: "pane_copy_motion_response \<Rightarrow> json" where
  "pane_copy_motion_response_json v = tagged ''pane_copy_motion'' pane_copy_motion_response_fields v"

definition pane_copy_search_response_json :: "pane_copy_search_response \<Rightarrow> json" where
  "pane_copy_search_response_json v = tagged ''pane_copy_search'' pane_copy_search_response_fields v"

definition pane_current_response_json :: "pane_current_response \<Rightarrow> json" where
  "pane_current_response_json v = tagged ''pane_current'' pane_current_response_fields v"

definition pane_edges_response_json :: "(string \<Rightarrow> float64 option) \<Rightarrow> (float64 \<Rightarrow> string) \<Rightarrow> pane_edges_response \<Rightarrow> json" where
  "pane_edges_response_json pf ff v = tagged ''pane_edges'' (pane_edges_response_fields pf ff) v"

definition pane_focus_direction_response_json :: "(string \<Rightarrow> float64 option) \<Rightarrow> (float64 \<Rightarrow> string) \<Rightarrow> pane_focus_direction_response \<Rightarrow> json" where
  "pane_focus_direction_response_json pf ff v = tagged ''pane_focus_direction'' (pane_focus_direction_response_fields pf ff) v"

definition pane_info_response_json :: "pane_info_response \<Rightarrow> json" where
  "pane_info_response_json v = tagged ''pane_info'' pane_info_response_fields v"

definition pane_layout_response_json :: "(string \<Rightarrow> float64 option) \<Rightarrow> (float64 \<Rightarrow> string) \<Rightarrow> pane_layout_response \<Rightarrow> json" where
  "pane_layout_response_json pf ff v = tagged ''pane_layout'' (pane_layout_response_fields pf ff) v"

definition pane_link_activated_response_json :: "pane_link_activated_response \<Rightarrow> json" where
  "pane_link_activated_response_json v = tagged ''pane_link_activated'' pane_link_activated_response_fields v"

definition pane_link_resolved_response_json :: "pane_link_resolved_response \<Rightarrow> json" where
  "pane_link_resolved_response_json v = tagged ''pane_link_resolved'' pane_link_resolved_response_fields v"

definition pane_list_response_json :: "pane_list_response \<Rightarrow> json" where
  "pane_list_response_json v = tagged ''pane_list'' pane_list_response_fields v"

definition pane_move_response_json :: "(string \<Rightarrow> float64 option) \<Rightarrow> (float64 \<Rightarrow> string) \<Rightarrow> pane_move_response \<Rightarrow> json" where
  "pane_move_response_json pf ff v = tagged ''pane_move'' (pane_move_response_fields pf ff) v"

definition pane_neighbor_response_json :: "(string \<Rightarrow> float64 option) \<Rightarrow> (float64 \<Rightarrow> string) \<Rightarrow> pane_neighbor_response \<Rightarrow> json" where
  "pane_neighbor_response_json pf ff v = tagged ''pane_neighbor'' (pane_neighbor_response_fields pf ff) v"

definition pane_process_info_response_json :: "pane_process_info_response \<Rightarrow> json" where
  "pane_process_info_response_json v = tagged ''pane_process_info'' pane_process_info_response_fields v"

definition pane_read_response_json :: "pane_read_response \<Rightarrow> json" where
  "pane_read_response_json v = tagged ''pane_read'' pane_read_response_fields v"

definition pane_resize_response_json :: "(string \<Rightarrow> float64 option) \<Rightarrow> (float64 \<Rightarrow> string) \<Rightarrow> pane_resize_response \<Rightarrow> json" where
  "pane_resize_response_json pf ff v = tagged ''pane_resize'' (pane_resize_response_fields pf ff) v"

definition pane_selection_response_json :: "pane_selection_response \<Rightarrow> json" where
  "pane_selection_response_json v = tagged ''pane_selection'' pane_selection_response_fields v"

definition pane_swap_response_json :: "(string \<Rightarrow> float64 option) \<Rightarrow> (float64 \<Rightarrow> string) \<Rightarrow> pane_swap_response \<Rightarrow> json" where
  "pane_swap_response_json pf ff v = tagged ''pane_swap'' (pane_swap_response_fields pf ff) v"

definition pane_zoom_response_json :: "(string \<Rightarrow> float64 option) \<Rightarrow> (float64 \<Rightarrow> string) \<Rightarrow> pane_zoom_response \<Rightarrow> json" where
  "pane_zoom_response_json pf ff v = tagged ''pane_zoom'' (pane_zoom_response_fields pf ff) v"

definition plugin_action_invoked_response_json :: "plugin_action_invoked_response \<Rightarrow> json" where
  "plugin_action_invoked_response_json v = tagged ''plugin_action_invoked'' plugin_action_invoked_response_fields v"

definition plugin_action_list_response_json :: "plugin_action_list_response \<Rightarrow> json" where
  "plugin_action_list_response_json v = tagged ''plugin_action_list'' plugin_action_list_response_fields v"

definition plugin_disabled_response_json :: "(string \<Rightarrow> string) \<Rightarrow> plugin_disabled_response \<Rightarrow> json" where
  "plugin_disabled_response_json quote v = tagged ''plugin_disabled'' (plugin_disabled_response_fields quote) v"

definition plugin_enabled_response_json :: "(string \<Rightarrow> string) \<Rightarrow> plugin_enabled_response \<Rightarrow> json" where
  "plugin_enabled_response_json quote v = tagged ''plugin_enabled'' (plugin_enabled_response_fields quote) v"

definition plugin_linked_response_json :: "(string \<Rightarrow> string) \<Rightarrow> plugin_linked_response \<Rightarrow> json" where
  "plugin_linked_response_json quote v = tagged ''plugin_linked'' (plugin_linked_response_fields quote) v"

definition plugin_list_response_json :: "(string \<Rightarrow> string) \<Rightarrow> plugin_list_response \<Rightarrow> json" where
  "plugin_list_response_json quote v = tagged ''plugin_list'' (plugin_list_response_fields quote) v"

definition plugin_log_list_response_json :: "plugin_log_list_response \<Rightarrow> json" where
  "plugin_log_list_response_json v = tagged ''plugin_log_list'' plugin_log_list_response_fields v"

definition plugin_pane_closed_response_json :: "plugin_pane_closed_response \<Rightarrow> json" where
  "plugin_pane_closed_response_json v = tagged ''plugin_pane_closed'' plugin_pane_closed_response_fields v"

definition plugin_pane_focused_response_json :: "plugin_pane_focused_response \<Rightarrow> json" where
  "plugin_pane_focused_response_json v = tagged ''plugin_pane_focused'' plugin_pane_focused_response_fields v"

definition plugin_pane_opened_response_json :: "plugin_pane_opened_response \<Rightarrow> json" where
  "plugin_pane_opened_response_json v = tagged ''plugin_pane_opened'' plugin_pane_opened_response_fields v"

definition plugin_unlinked_response_json :: "plugin_unlinked_response \<Rightarrow> json" where
  "plugin_unlinked_response_json v = tagged ''plugin_unlinked'' plugin_unlinked_response_fields v"

definition pong_response_json :: "pong_response \<Rightarrow> json" where
  "pong_response_json v = tagged ''pong'' pong_response_fields v"

definition session_snapshot_response_json :: "(string \<Rightarrow> float64 option) \<Rightarrow> (float64 \<Rightarrow> string) \<Rightarrow> session_snapshot_response \<Rightarrow> json" where
  "session_snapshot_response_json pf ff v = tagged ''session_snapshot'' (session_snapshot_response_fields pf ff) v"

definition subscription_started_response_json :: json where
  "subscription_started_response_json = tagged ''subscription_started'' no_fields ()"

definition tab_created_response_json :: "tab_created_response \<Rightarrow> json" where
  "tab_created_response_json v = tagged ''tab_created'' tab_created_response_fields v"

definition tab_info_response_json :: "tab_info_response \<Rightarrow> json" where
  "tab_info_response_json v = tagged ''tab_info'' tab_info_response_fields v"

definition tab_list_response_json :: "tab_list_response \<Rightarrow> json" where
  "tab_list_response_json v = tagged ''tab_list'' tab_list_response_fields v"

definition wait_matched_response_json :: "(string \<Rightarrow> float64 option) \<Rightarrow> (float64 \<Rightarrow> string) \<Rightarrow> wait_matched_response \<Rightarrow> json" where
  "wait_matched_response_json pf ff v = tagged ''wait_matched'' (wait_matched_response_fields pf ff) v"

definition workspace_created_response_json :: "workspace_created_response \<Rightarrow> json" where
  "workspace_created_response_json v = tagged ''workspace_created'' workspace_created_response_fields v"

definition workspace_info_response_json :: "workspace_info_response \<Rightarrow> json" where
  "workspace_info_response_json v = tagged ''workspace_info'' workspace_info_response_fields v"

definition workspace_list_response_json :: "workspace_list_response \<Rightarrow> json" where
  "workspace_list_response_json v = tagged ''workspace_list'' workspace_list_response_fields v"

definition worktree_created_response_json :: "worktree_created_response \<Rightarrow> json" where
  "worktree_created_response_json v = tagged ''worktree_created'' worktree_created_response_fields v"

definition worktree_list_response_json :: "worktree_list_response \<Rightarrow> json" where
  "worktree_list_response_json v = tagged ''worktree_list'' worktree_list_response_fields v"

definition worktree_opened_response_json :: "worktree_opened_response \<Rightarrow> json" where
  "worktree_opened_response_json v = tagged ''worktree_opened'' worktree_opened_response_fields v"

definition worktree_removed_response_json :: "worktree_removed_response \<Rightarrow> json" where
  "worktree_removed_response_json v = tagged ''worktree_removed'' worktree_removed_response_fields v"

primrec encode_result :: "(string \<Rightarrow> float64 option) \<Rightarrow> (float64 \<Rightarrow> string) \<Rightarrow> (string \<Rightarrow> string) \<Rightarrow> api_result \<Rightarrow> json" where
  "encode_result pf ff quote (AgentExplainResponse v) = agent_explain_response_json v"
| "encode_result pf ff quote (AgentInfoResponse v) = agent_info_response_json v"
| "encode_result pf ff quote (AgentListResponse v) = agent_list_response_json v"
| "encode_result pf ff quote (AgentManifestReloadResponse v) = agent_manifest_reload_response_json v"
| "encode_result pf ff quote (AgentManifestStatusResponse v) = agent_manifest_status_response_json v"
| "encode_result pf ff quote (AgentPromptedResponse v) = agent_prompted_response_json v"
| "encode_result pf ff quote (AgentStartedResponse v) = agent_started_response_json v"
| "encode_result pf ff quote (AgentViewResponse v) = agent_view_response_json v"
| "encode_result pf ff quote (ClientShellSurfaceSetResponse v) = client_shell_surface_set_response_json v"
| "encode_result pf ff quote (ClientWindowTitleResponse v) = client_window_title_response_json v"
| "encode_result pf ff quote (ConfigReloadResponse v) = config_reload_response_json v"
| "encode_result pf ff quote (IntegrationInstallResponse v) = integration_install_response_json v"
| "encode_result pf ff quote (IntegrationListResponse v) = integration_list_response_json v"
| "encode_result pf ff quote (IntegrationUninstallResponse v) = integration_uninstall_response_json v"
| "encode_result pf ff quote (LayoutApplyResponse v) = layout_apply_response_json pf ff v"
| "encode_result pf ff quote (LayoutExportResponse v) = layout_export_response_json pf ff v"
| "encode_result pf ff quote (LayoutSplitRatioSetResponse v) = layout_split_ratio_set_response_json pf ff v"
| "encode_result pf ff quote (NotificationShowResponse v) = notification_show_response_json v"
| "encode_result pf ff quote OKResponse = ok_response_json"
| "encode_result pf ff quote (OutputMatchedResponse v) = output_matched_response_json v"
| "encode_result pf ff quote (PaneCopyMotionResponse v) = pane_copy_motion_response_json v"
| "encode_result pf ff quote (PaneCopySearchResponse v) = pane_copy_search_response_json v"
| "encode_result pf ff quote (PaneCurrentResponse v) = pane_current_response_json v"
| "encode_result pf ff quote (PaneEdgesResponse v) = pane_edges_response_json pf ff v"
| "encode_result pf ff quote (PaneFocusDirectionResponse v) = pane_focus_direction_response_json pf ff v"
| "encode_result pf ff quote (PaneInfoResponse v) = pane_info_response_json v"
| "encode_result pf ff quote (PaneLayoutResponse v) = pane_layout_response_json pf ff v"
| "encode_result pf ff quote (PaneLinkActivatedResponse v) = pane_link_activated_response_json v"
| "encode_result pf ff quote (PaneLinkResolvedResponse v) = pane_link_resolved_response_json v"
| "encode_result pf ff quote (PaneListResponse v) = pane_list_response_json v"
| "encode_result pf ff quote (PaneMoveResponse v) = pane_move_response_json pf ff v"
| "encode_result pf ff quote (PaneNeighborResponse v) = pane_neighbor_response_json pf ff v"
| "encode_result pf ff quote (PaneProcessInfoResponse v) = pane_process_info_response_json v"
| "encode_result pf ff quote (PaneReadResponse v) = pane_read_response_json v"
| "encode_result pf ff quote (PaneResizeResponse v) = pane_resize_response_json pf ff v"
| "encode_result pf ff quote (PaneSelectionResponse v) = pane_selection_response_json v"
| "encode_result pf ff quote (PaneSwapResponse v) = pane_swap_response_json pf ff v"
| "encode_result pf ff quote (PaneZoomResponse v) = pane_zoom_response_json pf ff v"
| "encode_result pf ff quote (PluginActionInvokedResponse v) = plugin_action_invoked_response_json v"
| "encode_result pf ff quote (PluginActionListResponse v) = plugin_action_list_response_json v"
| "encode_result pf ff quote (PluginDisabledResponse v) = plugin_disabled_response_json quote v"
| "encode_result pf ff quote (PluginEnabledResponse v) = plugin_enabled_response_json quote v"
| "encode_result pf ff quote (PluginLinkedResponse v) = plugin_linked_response_json quote v"
| "encode_result pf ff quote (PluginListResponse v) = plugin_list_response_json quote v"
| "encode_result pf ff quote (PluginLogListResponse v) = plugin_log_list_response_json v"
| "encode_result pf ff quote (PluginPaneClosedResponse v) = plugin_pane_closed_response_json v"
| "encode_result pf ff quote (PluginPaneFocusedResponse v) = plugin_pane_focused_response_json v"
| "encode_result pf ff quote (PluginPaneOpenedResponse v) = plugin_pane_opened_response_json v"
| "encode_result pf ff quote (PluginUnlinkedResponse v) = plugin_unlinked_response_json v"
| "encode_result pf ff quote (PongResponse v) = pong_response_json v"
| "encode_result pf ff quote (SessionSnapshotResponse v) = session_snapshot_response_json pf ff v"
| "encode_result pf ff quote SubscriptionStartedResponse = subscription_started_response_json"
| "encode_result pf ff quote (TabCreatedResponse v) = tab_created_response_json v"
| "encode_result pf ff quote (TabInfoResponse v) = tab_info_response_json v"
| "encode_result pf ff quote (TabListResponse v) = tab_list_response_json v"
| "encode_result pf ff quote (WaitMatchedResponse v) = wait_matched_response_json pf ff v"
| "encode_result pf ff quote (WorkspaceCreatedResponse v) = workspace_created_response_json v"
| "encode_result pf ff quote (WorkspaceInfoResponse v) = workspace_info_response_json v"
| "encode_result pf ff quote (WorkspaceListResponse v) = workspace_list_response_json v"
| "encode_result pf ff quote (WorktreeCreatedResponse v) = worktree_created_response_json v"
| "encode_result pf ff quote (WorktreeListResponse v) = worktree_list_response_json v"
| "encode_result pf ff quote (WorktreeOpenedResponse v) = worktree_opened_response_json v"
| "encode_result pf ff quote (WorktreeRemovedResponse v) = worktree_removed_response_json v"

subsection \<open>\<open>DecodeResult\<close>\<close>

definition decode_as :: "'a codec \<Rightarrow> ('a \<Rightarrow> api_result) \<Rightarrow> json \<Rightarrow> (go_error, api_result) result" where
  "decode_as c con raw = (case cod_dec c raw (cod_zero c) of None \<Rightarrow> err JsonError | Some v \<Rightarrow> ok (con v))"

definition no_codec :: "unit codec" where
  "no_codec = struct_codec () no_fields"

definition decode_result_as :: "(string \<Rightarrow> float64 option) \<Rightarrow> (float64 \<Rightarrow> string) \<Rightarrow> (string \<Rightarrow> string) \<Rightarrow> json \<Rightarrow> string \<Rightarrow> (go_error, api_result) result" where
  "decode_result_as pf ff quote raw type =
    (if type = ''agent_explain'' then decode_as agent_explain_response_codec AgentExplainResponse raw
     else if type = ''agent_info'' then decode_as agent_info_response_codec AgentInfoResponse raw
     else if type = ''agent_list'' then decode_as agent_list_response_codec AgentListResponse raw
     else if type = ''agent_manifest_reload'' then decode_as agent_manifest_reload_response_codec AgentManifestReloadResponse raw
     else if type = ''agent_manifest_status'' then decode_as agent_manifest_status_response_codec AgentManifestStatusResponse raw
     else if type = ''agent_prompted'' then decode_as agent_prompted_response_codec AgentPromptedResponse raw
     else if type = ''agent_started'' then decode_as agent_started_response_codec AgentStartedResponse raw
     else if type = ''agent_view'' then decode_as agent_view_response_codec AgentViewResponse raw
     else if type = ''client_shell_surface_set'' then decode_as client_shell_surface_set_response_codec ClientShellSurfaceSetResponse raw
     else if type = ''client_window_title'' then decode_as client_window_title_response_codec ClientWindowTitleResponse raw
     else if type = ''config_reload'' then decode_as config_reload_response_codec ConfigReloadResponse raw
     else if type = ''integration_install'' then decode_as integration_install_response_codec IntegrationInstallResponse raw
     else if type = ''integration_list'' then decode_as integration_list_response_codec IntegrationListResponse raw
     else if type = ''integration_uninstall'' then decode_as integration_uninstall_response_codec IntegrationUninstallResponse raw
     else if type = ''layout_apply'' then decode_as (layout_apply_response_codec pf ff) LayoutApplyResponse raw
     else if type = ''layout_export'' then decode_as (layout_export_response_codec pf ff) LayoutExportResponse raw
     else if type = ''layout_split_ratio_set'' then decode_as (layout_split_ratio_set_response_codec pf ff) LayoutSplitRatioSetResponse raw
     else if type = ''notification_show'' then decode_as notification_show_response_codec NotificationShowResponse raw
     else if type = ''ok'' then decode_as no_codec (\<lambda>_. OKResponse) raw
     else if type = ''output_matched'' then decode_as output_matched_response_codec OutputMatchedResponse raw
     else if type = ''pane_copy_motion'' then decode_as pane_copy_motion_response_codec PaneCopyMotionResponse raw
     else if type = ''pane_copy_search'' then decode_as pane_copy_search_response_codec PaneCopySearchResponse raw
     else if type = ''pane_current'' then decode_as pane_current_response_codec PaneCurrentResponse raw
     else if type = ''pane_edges'' then decode_as (pane_edges_response_codec pf ff) PaneEdgesResponse raw
     else if type = ''pane_focus_direction'' then decode_as (pane_focus_direction_response_codec pf ff) PaneFocusDirectionResponse raw
     else if type = ''pane_info'' then decode_as pane_info_response_codec PaneInfoResponse raw
     else if type = ''pane_layout'' then decode_as (pane_layout_response_codec pf ff) PaneLayoutResponse raw
     else if type = ''pane_link_activated'' then decode_as pane_link_activated_response_codec PaneLinkActivatedResponse raw
     else if type = ''pane_link_resolved'' then decode_as pane_link_resolved_response_codec PaneLinkResolvedResponse raw
     else if type = ''pane_list'' then decode_as pane_list_response_codec PaneListResponse raw
     else if type = ''pane_move'' then decode_as (pane_move_response_codec pf ff) PaneMoveResponse raw
     else if type = ''pane_neighbor'' then decode_as (pane_neighbor_response_codec pf ff) PaneNeighborResponse raw
     else if type = ''pane_process_info'' then decode_as pane_process_info_response_codec PaneProcessInfoResponse raw
     else if type = ''pane_read'' then decode_as pane_read_response_codec PaneReadResponse raw
     else if type = ''pane_resize'' then decode_as (pane_resize_response_codec pf ff) PaneResizeResponse raw
     else if type = ''pane_selection'' then decode_as pane_selection_response_codec PaneSelectionResponse raw
     else if type = ''pane_swap'' then decode_as (pane_swap_response_codec pf ff) PaneSwapResponse raw
     else if type = ''pane_zoom'' then decode_as (pane_zoom_response_codec pf ff) PaneZoomResponse raw
     else if type = ''plugin_action_invoked'' then decode_as plugin_action_invoked_response_codec PluginActionInvokedResponse raw
     else if type = ''plugin_action_list'' then decode_as plugin_action_list_response_codec PluginActionListResponse raw
     else if type = ''plugin_disabled'' then decode_as (plugin_disabled_response_codec quote) PluginDisabledResponse raw
     else if type = ''plugin_enabled'' then decode_as (plugin_enabled_response_codec quote) PluginEnabledResponse raw
     else if type = ''plugin_linked'' then decode_as (plugin_linked_response_codec quote) PluginLinkedResponse raw
     else if type = ''plugin_list'' then decode_as (plugin_list_response_codec quote) PluginListResponse raw
     else if type = ''plugin_log_list'' then decode_as plugin_log_list_response_codec PluginLogListResponse raw
     else if type = ''plugin_pane_closed'' then decode_as plugin_pane_closed_response_codec PluginPaneClosedResponse raw
     else if type = ''plugin_pane_focused'' then decode_as plugin_pane_focused_response_codec PluginPaneFocusedResponse raw
     else if type = ''plugin_pane_opened'' then decode_as plugin_pane_opened_response_codec PluginPaneOpenedResponse raw
     else if type = ''plugin_unlinked'' then decode_as plugin_unlinked_response_codec PluginUnlinkedResponse raw
     else if type = ''pong'' then decode_as pong_response_codec PongResponse raw
     else if type = ''session_snapshot'' then decode_as (session_snapshot_response_codec pf ff) SessionSnapshotResponse raw
     else if type = ''subscription_started'' then decode_as no_codec (\<lambda>_. SubscriptionStartedResponse) raw
     else if type = ''tab_created'' then decode_as tab_created_response_codec TabCreatedResponse raw
     else if type = ''tab_info'' then decode_as tab_info_response_codec TabInfoResponse raw
     else if type = ''tab_list'' then decode_as tab_list_response_codec TabListResponse raw
     else if type = ''wait_matched'' then decode_as (wait_matched_response_codec pf ff) WaitMatchedResponse raw
     else if type = ''workspace_created'' then decode_as workspace_created_response_codec WorkspaceCreatedResponse raw
     else if type = ''workspace_info'' then decode_as workspace_info_response_codec WorkspaceInfoResponse raw
     else if type = ''workspace_list'' then decode_as workspace_list_response_codec WorkspaceListResponse raw
     else if type = ''worktree_created'' then decode_as worktree_created_response_codec WorktreeCreatedResponse raw
     else if type = ''worktree_list'' then decode_as worktree_list_response_codec WorktreeListResponse raw
     else if type = ''worktree_opened'' then decode_as worktree_opened_response_codec WorktreeOpenedResponse raw
     else if type = ''worktree_removed'' then decode_as worktree_removed_response_codec WorktreeRemovedResponse raw
     else err (UnknownResultError type raw))"

definition decode_result :: "(string \<Rightarrow> float64 option) \<Rightarrow> (float64 \<Rightarrow> string) \<Rightarrow> (string \<Rightarrow> string) \<Rightarrow> json \<Rightarrow> (go_error, api_result) result" where
  "decode_result pf ff quote raw = (case decode_struct type_head raw [] of
     None \<Rightarrow> err JsonError
   | Some type \<Rightarrow> decode_result_as pf ff quote raw type)"

definition client_decode_result :: "(string \<Rightarrow> float64 option) \<Rightarrow> (float64 \<Rightarrow> string) \<Rightarrow> (string \<Rightarrow> string) \<Rightarrow> string \<Rightarrow> json \<Rightarrow> (go_error, api_result) result" where
  "client_decode_result pf ff quote method raw = (case decode_result pf ff quote raw of
     Inl e \<Rightarrow> err (OpError method OpDecode e) | Inr r \<Rightarrow> ok r)"

subsection \<open>Decoding what was encoded\<close>

primrec result_ok :: "(string \<Rightarrow> float64 option) \<Rightarrow> (float64 \<Rightarrow> string) \<Rightarrow> (string \<Rightarrow> string) \<Rightarrow> api_result \<Rightarrow> bool" where
  "result_ok pf ff quote (AgentExplainResponse v) = cod_ok agent_explain_response_codec v"
| "result_ok pf ff quote (AgentInfoResponse v) = cod_ok agent_info_response_codec v"
| "result_ok pf ff quote (AgentListResponse v) = cod_ok agent_list_response_codec v"
| "result_ok pf ff quote (AgentManifestReloadResponse v) = cod_ok agent_manifest_reload_response_codec v"
| "result_ok pf ff quote (AgentManifestStatusResponse v) = cod_ok agent_manifest_status_response_codec v"
| "result_ok pf ff quote (AgentPromptedResponse v) = cod_ok agent_prompted_response_codec v"
| "result_ok pf ff quote (AgentStartedResponse v) = cod_ok agent_started_response_codec v"
| "result_ok pf ff quote (AgentViewResponse v) = cod_ok agent_view_response_codec v"
| "result_ok pf ff quote (ClientShellSurfaceSetResponse v) = cod_ok client_shell_surface_set_response_codec v"
| "result_ok pf ff quote (ClientWindowTitleResponse v) = cod_ok client_window_title_response_codec v"
| "result_ok pf ff quote (ConfigReloadResponse v) = cod_ok config_reload_response_codec v"
| "result_ok pf ff quote (IntegrationInstallResponse v) = cod_ok integration_install_response_codec v"
| "result_ok pf ff quote (IntegrationListResponse v) = cod_ok integration_list_response_codec v"
| "result_ok pf ff quote (IntegrationUninstallResponse v) = cod_ok integration_uninstall_response_codec v"
| "result_ok pf ff quote (LayoutApplyResponse v) = cod_ok (layout_apply_response_codec pf ff) v"
| "result_ok pf ff quote (LayoutExportResponse v) = cod_ok (layout_export_response_codec pf ff) v"
| "result_ok pf ff quote (LayoutSplitRatioSetResponse v) = cod_ok (layout_split_ratio_set_response_codec pf ff) v"
| "result_ok pf ff quote (NotificationShowResponse v) = cod_ok notification_show_response_codec v"
| "result_ok pf ff quote OKResponse = True"
| "result_ok pf ff quote (OutputMatchedResponse v) = cod_ok output_matched_response_codec v"
| "result_ok pf ff quote (PaneCopyMotionResponse v) = cod_ok pane_copy_motion_response_codec v"
| "result_ok pf ff quote (PaneCopySearchResponse v) = cod_ok pane_copy_search_response_codec v"
| "result_ok pf ff quote (PaneCurrentResponse v) = cod_ok pane_current_response_codec v"
| "result_ok pf ff quote (PaneEdgesResponse v) = cod_ok (pane_edges_response_codec pf ff) v"
| "result_ok pf ff quote (PaneFocusDirectionResponse v) = cod_ok (pane_focus_direction_response_codec pf ff) v"
| "result_ok pf ff quote (PaneInfoResponse v) = cod_ok pane_info_response_codec v"
| "result_ok pf ff quote (PaneLayoutResponse v) = cod_ok (pane_layout_response_codec pf ff) v"
| "result_ok pf ff quote (PaneLinkActivatedResponse v) = cod_ok pane_link_activated_response_codec v"
| "result_ok pf ff quote (PaneLinkResolvedResponse v) = cod_ok pane_link_resolved_response_codec v"
| "result_ok pf ff quote (PaneListResponse v) = cod_ok pane_list_response_codec v"
| "result_ok pf ff quote (PaneMoveResponse v) = cod_ok (pane_move_response_codec pf ff) v"
| "result_ok pf ff quote (PaneNeighborResponse v) = cod_ok (pane_neighbor_response_codec pf ff) v"
| "result_ok pf ff quote (PaneProcessInfoResponse v) = cod_ok pane_process_info_response_codec v"
| "result_ok pf ff quote (PaneReadResponse v) = cod_ok pane_read_response_codec v"
| "result_ok pf ff quote (PaneResizeResponse v) = cod_ok (pane_resize_response_codec pf ff) v"
| "result_ok pf ff quote (PaneSelectionResponse v) = cod_ok pane_selection_response_codec v"
| "result_ok pf ff quote (PaneSwapResponse v) = cod_ok (pane_swap_response_codec pf ff) v"
| "result_ok pf ff quote (PaneZoomResponse v) = cod_ok (pane_zoom_response_codec pf ff) v"
| "result_ok pf ff quote (PluginActionInvokedResponse v) = cod_ok plugin_action_invoked_response_codec v"
| "result_ok pf ff quote (PluginActionListResponse v) = cod_ok plugin_action_list_response_codec v"
| "result_ok pf ff quote (PluginDisabledResponse v) = cod_ok (plugin_disabled_response_codec quote) v"
| "result_ok pf ff quote (PluginEnabledResponse v) = cod_ok (plugin_enabled_response_codec quote) v"
| "result_ok pf ff quote (PluginLinkedResponse v) = cod_ok (plugin_linked_response_codec quote) v"
| "result_ok pf ff quote (PluginListResponse v) = cod_ok (plugin_list_response_codec quote) v"
| "result_ok pf ff quote (PluginLogListResponse v) = cod_ok plugin_log_list_response_codec v"
| "result_ok pf ff quote (PluginPaneClosedResponse v) = cod_ok plugin_pane_closed_response_codec v"
| "result_ok pf ff quote (PluginPaneFocusedResponse v) = cod_ok plugin_pane_focused_response_codec v"
| "result_ok pf ff quote (PluginPaneOpenedResponse v) = cod_ok plugin_pane_opened_response_codec v"
| "result_ok pf ff quote (PluginUnlinkedResponse v) = cod_ok plugin_unlinked_response_codec v"
| "result_ok pf ff quote (PongResponse v) = cod_ok pong_response_codec v"
| "result_ok pf ff quote (SessionSnapshotResponse v) = cod_ok (session_snapshot_response_codec pf ff) v"
| "result_ok pf ff quote SubscriptionStartedResponse = True"
| "result_ok pf ff quote (TabCreatedResponse v) = cod_ok tab_created_response_codec v"
| "result_ok pf ff quote (TabInfoResponse v) = cod_ok tab_info_response_codec v"
| "result_ok pf ff quote (TabListResponse v) = cod_ok tab_list_response_codec v"
| "result_ok pf ff quote (WaitMatchedResponse v) = cod_ok (wait_matched_response_codec pf ff) v"
| "result_ok pf ff quote (WorkspaceCreatedResponse v) = cod_ok workspace_created_response_codec v"
| "result_ok pf ff quote (WorkspaceInfoResponse v) = cod_ok workspace_info_response_codec v"
| "result_ok pf ff quote (WorkspaceListResponse v) = cod_ok workspace_list_response_codec v"
| "result_ok pf ff quote (WorktreeCreatedResponse v) = cod_ok worktree_created_response_codec v"
| "result_ok pf ff quote (WorktreeListResponse v) = cod_ok worktree_list_response_codec v"
| "result_ok pf ff quote (WorktreeOpenedResponse v) = cod_ok worktree_opened_response_codec v"
| "result_ok pf ff quote (WorktreeRemovedResponse v) = cod_ok worktree_removed_response_codec v"

lemma tag_free_responses [simp]:
  "tag_free agent_explain_response_fields"
  "tag_free agent_info_response_fields"
  "tag_free agent_list_response_fields"
  "tag_free agent_manifest_reload_response_fields"
  "tag_free agent_manifest_status_response_fields"
  "tag_free agent_prompted_response_fields"
  "tag_free agent_started_response_fields"
  "tag_free agent_view_response_fields"
  "tag_free client_shell_surface_set_response_fields"
  "tag_free client_window_title_response_fields"
  "tag_free config_reload_response_fields"
  "tag_free integration_install_response_fields"
  "tag_free integration_list_response_fields"
  "tag_free integration_uninstall_response_fields"
  "tag_free (layout_apply_response_fields pf ff)"
  "tag_free (layout_export_response_fields pf ff)"
  "tag_free (layout_split_ratio_set_response_fields pf ff)"
  "tag_free notification_show_response_fields"
  "tag_free output_matched_response_fields"
  "tag_free pane_copy_motion_response_fields"
  "tag_free pane_copy_search_response_fields"
  "tag_free pane_current_response_fields"
  "tag_free (pane_edges_response_fields pf ff)"
  "tag_free (pane_focus_direction_response_fields pf ff)"
  "tag_free pane_info_response_fields"
  "tag_free (pane_layout_response_fields pf ff)"
  "tag_free pane_link_activated_response_fields"
  "tag_free pane_link_resolved_response_fields"
  "tag_free pane_list_response_fields"
  "tag_free (pane_move_response_fields pf ff)"
  "tag_free (pane_neighbor_response_fields pf ff)"
  "tag_free pane_process_info_response_fields"
  "tag_free pane_read_response_fields"
  "tag_free (pane_resize_response_fields pf ff)"
  "tag_free pane_selection_response_fields"
  "tag_free (pane_swap_response_fields pf ff)"
  "tag_free (pane_zoom_response_fields pf ff)"
  "tag_free plugin_action_invoked_response_fields"
  "tag_free plugin_action_list_response_fields"
  "tag_free (plugin_disabled_response_fields quote)"
  "tag_free (plugin_enabled_response_fields quote)"
  "tag_free (plugin_linked_response_fields quote)"
  "tag_free (plugin_list_response_fields quote)"
  "tag_free plugin_log_list_response_fields"
  "tag_free plugin_pane_closed_response_fields"
  "tag_free plugin_pane_focused_response_fields"
  "tag_free plugin_pane_opened_response_fields"
  "tag_free plugin_unlinked_response_fields"
  "tag_free pong_response_fields"
  "tag_free (session_snapshot_response_fields pf ff)"
  "tag_free tab_created_response_fields"
  "tag_free tab_info_response_fields"
  "tag_free tab_list_response_fields"
  "tag_free (wait_matched_response_fields pf ff)"
  "tag_free workspace_created_response_fields"
  "tag_free workspace_info_response_fields"
  "tag_free workspace_list_response_fields"
  "tag_free worktree_created_response_fields"
  "tag_free worktree_list_response_fields"
  "tag_free worktree_opened_response_fields"
  "tag_free worktree_removed_response_fields"
  by (simp_all add: tag_free_def field_names upper_char_def in_range_def bytes_of_def char_of_def
      agent_explain_response_fields_def
      agent_info_response_fields_def
      agent_list_response_fields_def
      agent_manifest_reload_response_fields_def
      agent_manifest_status_response_fields_def
      agent_prompted_response_fields_def
      agent_started_response_fields_def
      agent_view_response_fields_def
      client_shell_surface_set_response_fields_def
      client_window_title_response_fields_def
      config_reload_response_fields_def
      integration_install_response_fields_def
      integration_list_response_fields_def
      integration_uninstall_response_fields_def
      layout_apply_response_fields_def
      layout_export_response_fields_def
      layout_split_ratio_set_response_fields_def
      notification_show_response_fields_def
      output_matched_response_fields_def
      pane_copy_motion_response_fields_def
      pane_copy_search_response_fields_def
      pane_current_response_fields_def
      pane_edges_response_fields_def
      pane_focus_direction_response_fields_def
      pane_info_response_fields_def
      pane_layout_response_fields_def
      pane_link_activated_response_fields_def
      pane_link_resolved_response_fields_def
      pane_list_response_fields_def
      pane_move_response_fields_def
      pane_neighbor_response_fields_def
      pane_process_info_response_fields_def
      pane_read_response_fields_def
      pane_resize_response_fields_def
      pane_selection_response_fields_def
      pane_swap_response_fields_def
      pane_zoom_response_fields_def
      plugin_action_invoked_response_fields_def
      plugin_action_list_response_fields_def
      plugin_disabled_response_fields_def
      plugin_enabled_response_fields_def
      plugin_linked_response_fields_def
      plugin_list_response_fields_def
      plugin_log_list_response_fields_def
      plugin_pane_closed_response_fields_def
      plugin_pane_focused_response_fields_def
      plugin_pane_opened_response_fields_def
      plugin_unlinked_response_fields_def
      pong_response_fields_def
      session_snapshot_response_fields_def
      tab_created_response_fields_def
      tab_info_response_fields_def
      tab_list_response_fields_def
      wait_matched_response_fields_def
      workspace_created_response_fields_def
      workspace_info_response_fields_def
      workspace_list_response_fields_def
      worktree_created_response_fields_def
      worktree_list_response_fields_def
      worktree_opened_response_fields_def
      worktree_removed_response_fields_def)

lemma decode_as_tagged:
  assumes "lawful c" "c = struct_codec z fs" "tag_free fs" "cod_ok c v"
  shows "decode_as c con (tagged type fs v) = Inr (con v)"
proof -
  have "cod_dec c (tagged type fs v) (cod_zero c) = Some v"
    using lawfulD [OF assms(1,4)] assms(2)
    by (simp add: struct_codec_def decode_struct_def tagged_def tag_free_none [OF assms(3)])
  then show ?thesis by (simp add: decode_as_def)
qed

lemma no_codec_lawful: "lawful no_codec"
  by (auto simp: lawful_def no_codec_def struct_codec_def no_fields_def decode_struct_def encode_members_def map_filter_simps)

lemma no_codec_ok: "cod_ok no_codec ()"
  by (simp add: no_codec_def struct_codec_def no_fields_def)

lemmas decode_as_responses =
  decode_as_tagged [OF no_codec_lawful no_codec_def tag_free_subscriptions(5) no_codec_ok]
  decode_as_tagged [OF agent_explain_response_codec_lawful agent_explain_response_codec_def tag_free_responses(1)]
  decode_as_tagged [OF agent_info_response_codec_lawful agent_info_response_codec_def tag_free_responses(2)]
  decode_as_tagged [OF agent_list_response_codec_lawful agent_list_response_codec_def tag_free_responses(3)]
  decode_as_tagged [OF agent_manifest_reload_response_codec_lawful agent_manifest_reload_response_codec_def tag_free_responses(4)]
  decode_as_tagged [OF agent_manifest_status_response_codec_lawful agent_manifest_status_response_codec_def tag_free_responses(5)]
  decode_as_tagged [OF agent_prompted_response_codec_lawful agent_prompted_response_codec_def tag_free_responses(6)]
  decode_as_tagged [OF agent_started_response_codec_lawful agent_started_response_codec_def tag_free_responses(7)]
  decode_as_tagged [OF agent_view_response_codec_lawful agent_view_response_codec_def tag_free_responses(8)]
  decode_as_tagged [OF client_shell_surface_set_response_codec_lawful client_shell_surface_set_response_codec_def tag_free_responses(9)]
  decode_as_tagged [OF client_window_title_response_codec_lawful client_window_title_response_codec_def tag_free_responses(10)]
  decode_as_tagged [OF config_reload_response_codec_lawful config_reload_response_codec_def tag_free_responses(11)]
  decode_as_tagged [OF integration_install_response_codec_lawful integration_install_response_codec_def tag_free_responses(12)]
  decode_as_tagged [OF integration_list_response_codec_lawful integration_list_response_codec_def tag_free_responses(13)]
  decode_as_tagged [OF integration_uninstall_response_codec_lawful integration_uninstall_response_codec_def tag_free_responses(14)]
  decode_as_tagged [OF layout_apply_response_codec_lawful layout_apply_response_codec_def tag_free_responses(15)]
  decode_as_tagged [OF layout_export_response_codec_lawful layout_export_response_codec_def tag_free_responses(16)]
  decode_as_tagged [OF layout_split_ratio_set_response_codec_lawful layout_split_ratio_set_response_codec_def tag_free_responses(17)]
  decode_as_tagged [OF notification_show_response_codec_lawful notification_show_response_codec_def tag_free_responses(18)]
  decode_as_tagged [OF output_matched_response_codec_lawful output_matched_response_codec_def tag_free_responses(19)]
  decode_as_tagged [OF pane_copy_motion_response_codec_lawful pane_copy_motion_response_codec_def tag_free_responses(20)]
  decode_as_tagged [OF pane_copy_search_response_codec_lawful pane_copy_search_response_codec_def tag_free_responses(21)]
  decode_as_tagged [OF pane_current_response_codec_lawful pane_current_response_codec_def tag_free_responses(22)]
  decode_as_tagged [OF pane_edges_response_codec_lawful pane_edges_response_codec_def tag_free_responses(23)]
  decode_as_tagged [OF pane_focus_direction_response_codec_lawful pane_focus_direction_response_codec_def tag_free_responses(24)]
  decode_as_tagged [OF pane_info_response_codec_lawful pane_info_response_codec_def tag_free_responses(25)]
  decode_as_tagged [OF pane_layout_response_codec_lawful pane_layout_response_codec_def tag_free_responses(26)]
  decode_as_tagged [OF pane_link_activated_response_codec_lawful pane_link_activated_response_codec_def tag_free_responses(27)]
  decode_as_tagged [OF pane_link_resolved_response_codec_lawful pane_link_resolved_response_codec_def tag_free_responses(28)]
  decode_as_tagged [OF pane_list_response_codec_lawful pane_list_response_codec_def tag_free_responses(29)]
  decode_as_tagged [OF pane_move_response_codec_lawful pane_move_response_codec_def tag_free_responses(30)]
  decode_as_tagged [OF pane_neighbor_response_codec_lawful pane_neighbor_response_codec_def tag_free_responses(31)]
  decode_as_tagged [OF pane_process_info_response_codec_lawful pane_process_info_response_codec_def tag_free_responses(32)]
  decode_as_tagged [OF pane_read_response_codec_lawful pane_read_response_codec_def tag_free_responses(33)]
  decode_as_tagged [OF pane_resize_response_codec_lawful pane_resize_response_codec_def tag_free_responses(34)]
  decode_as_tagged [OF pane_selection_response_codec_lawful pane_selection_response_codec_def tag_free_responses(35)]
  decode_as_tagged [OF pane_swap_response_codec_lawful pane_swap_response_codec_def tag_free_responses(36)]
  decode_as_tagged [OF pane_zoom_response_codec_lawful pane_zoom_response_codec_def tag_free_responses(37)]
  decode_as_tagged [OF plugin_action_invoked_response_codec_lawful plugin_action_invoked_response_codec_def tag_free_responses(38)]
  decode_as_tagged [OF plugin_action_list_response_codec_lawful plugin_action_list_response_codec_def tag_free_responses(39)]
  decode_as_tagged [OF plugin_disabled_response_codec_lawful plugin_disabled_response_codec_def tag_free_responses(40)]
  decode_as_tagged [OF plugin_enabled_response_codec_lawful plugin_enabled_response_codec_def tag_free_responses(41)]
  decode_as_tagged [OF plugin_linked_response_codec_lawful plugin_linked_response_codec_def tag_free_responses(42)]
  decode_as_tagged [OF plugin_list_response_codec_lawful plugin_list_response_codec_def tag_free_responses(43)]
  decode_as_tagged [OF plugin_log_list_response_codec_lawful plugin_log_list_response_codec_def tag_free_responses(44)]
  decode_as_tagged [OF plugin_pane_closed_response_codec_lawful plugin_pane_closed_response_codec_def tag_free_responses(45)]
  decode_as_tagged [OF plugin_pane_focused_response_codec_lawful plugin_pane_focused_response_codec_def tag_free_responses(46)]
  decode_as_tagged [OF plugin_pane_opened_response_codec_lawful plugin_pane_opened_response_codec_def tag_free_responses(47)]
  decode_as_tagged [OF plugin_unlinked_response_codec_lawful plugin_unlinked_response_codec_def tag_free_responses(48)]
  decode_as_tagged [OF pong_response_codec_lawful pong_response_codec_def tag_free_responses(49)]
  decode_as_tagged [OF session_snapshot_response_codec_lawful session_snapshot_response_codec_def tag_free_responses(50)]
  decode_as_tagged [OF tab_created_response_codec_lawful tab_created_response_codec_def tag_free_responses(51)]
  decode_as_tagged [OF tab_info_response_codec_lawful tab_info_response_codec_def tag_free_responses(52)]
  decode_as_tagged [OF tab_list_response_codec_lawful tab_list_response_codec_def tag_free_responses(53)]
  decode_as_tagged [OF wait_matched_response_codec_lawful wait_matched_response_codec_def tag_free_responses(54)]
  decode_as_tagged [OF workspace_created_response_codec_lawful workspace_created_response_codec_def tag_free_responses(55)]
  decode_as_tagged [OF workspace_info_response_codec_lawful workspace_info_response_codec_def tag_free_responses(56)]
  decode_as_tagged [OF workspace_list_response_codec_lawful workspace_list_response_codec_def tag_free_responses(57)]
  decode_as_tagged [OF worktree_created_response_codec_lawful worktree_created_response_codec_def tag_free_responses(58)]
  decode_as_tagged [OF worktree_list_response_codec_lawful worktree_list_response_codec_def tag_free_responses(59)]
  decode_as_tagged [OF worktree_opened_response_codec_lawful worktree_opened_response_codec_def tag_free_responses(60)]
  decode_as_tagged [OF worktree_removed_response_codec_lawful worktree_removed_response_codec_def tag_free_responses(61)]

lemmas response_json_defs =
  agent_explain_response_json_def
  agent_info_response_json_def
  agent_list_response_json_def
  agent_manifest_reload_response_json_def
  agent_manifest_status_response_json_def
  agent_prompted_response_json_def
  agent_started_response_json_def
  agent_view_response_json_def
  client_shell_surface_set_response_json_def
  client_window_title_response_json_def
  config_reload_response_json_def
  integration_install_response_json_def
  integration_list_response_json_def
  integration_uninstall_response_json_def
  layout_apply_response_json_def
  layout_export_response_json_def
  layout_split_ratio_set_response_json_def
  notification_show_response_json_def
  ok_response_json_def
  output_matched_response_json_def
  pane_copy_motion_response_json_def
  pane_copy_search_response_json_def
  pane_current_response_json_def
  pane_edges_response_json_def
  pane_focus_direction_response_json_def
  pane_info_response_json_def
  pane_layout_response_json_def
  pane_link_activated_response_json_def
  pane_link_resolved_response_json_def
  pane_list_response_json_def
  pane_move_response_json_def
  pane_neighbor_response_json_def
  pane_process_info_response_json_def
  pane_read_response_json_def
  pane_resize_response_json_def
  pane_selection_response_json_def
  pane_swap_response_json_def
  pane_zoom_response_json_def
  plugin_action_invoked_response_json_def
  plugin_action_list_response_json_def
  plugin_disabled_response_json_def
  plugin_enabled_response_json_def
  plugin_linked_response_json_def
  plugin_list_response_json_def
  plugin_log_list_response_json_def
  plugin_pane_closed_response_json_def
  plugin_pane_focused_response_json_def
  plugin_pane_opened_response_json_def
  plugin_unlinked_response_json_def
  pong_response_json_def
  session_snapshot_response_json_def
  subscription_started_response_json_def
  tab_created_response_json_def
  tab_info_response_json_def
  tab_list_response_json_def
  wait_matched_response_json_def
  workspace_created_response_json_def
  workspace_info_response_json_def
  workspace_list_response_json_def
  worktree_created_response_json_def
  worktree_list_response_json_def
  worktree_opened_response_json_def
  worktree_removed_response_json_def

lemma encoded_result_head: "decode_struct type_head (encode_result pf ff quote r) [] = Some (result_type r)"
  by (cases r) (simp_all add: response_json_defs decode_type_head)

lemma decode_encoded_result_as:
  "result_ok pf ff quote r \<Longrightarrow> decode_result_as pf ff quote (encode_result pf ff quote r) (result_type r) = Inr r"
  by (cases r) (simp_all add: decode_result_as_def response_json_defs decode_as_responses)

lemma decode_encoded_result: "result_ok pf ff quote r \<Longrightarrow> decode_result pf ff quote (encode_result pf ff quote r) = Inr r"
  by (simp add: decode_result_def encoded_result_head decode_encoded_result_as)

definition result_types :: "string list" where
  "result_types = [''agent_explain'',
     ''agent_info'',
     ''agent_list'',
     ''agent_manifest_reload'',
     ''agent_manifest_status'',
     ''agent_prompted'',
     ''agent_started'',
     ''agent_view'',
     ''client_shell_surface_set'',
     ''client_window_title'',
     ''config_reload'',
     ''integration_install'',
     ''integration_list'',
     ''integration_uninstall'',
     ''layout_apply'',
     ''layout_export'',
     ''layout_split_ratio_set'',
     ''notification_show'',
     ''ok'',
     ''output_matched'',
     ''pane_copy_motion'',
     ''pane_copy_search'',
     ''pane_current'',
     ''pane_edges'',
     ''pane_focus_direction'',
     ''pane_info'',
     ''pane_layout'',
     ''pane_link_activated'',
     ''pane_link_resolved'',
     ''pane_list'',
     ''pane_move'',
     ''pane_neighbor'',
     ''pane_process_info'',
     ''pane_read'',
     ''pane_resize'',
     ''pane_selection'',
     ''pane_swap'',
     ''pane_zoom'',
     ''plugin_action_invoked'',
     ''plugin_action_list'',
     ''plugin_disabled'',
     ''plugin_enabled'',
     ''plugin_linked'',
     ''plugin_list'',
     ''plugin_log_list'',
     ''plugin_pane_closed'',
     ''plugin_pane_focused'',
     ''plugin_pane_opened'',
     ''plugin_unlinked'',
     ''pong'',
     ''session_snapshot'',
     ''subscription_started'',
     ''tab_created'',
     ''tab_info'',
     ''tab_list'',
     ''wait_matched'',
     ''workspace_created'',
     ''workspace_info'',
     ''workspace_list'',
     ''worktree_created'',
     ''worktree_list'',
     ''worktree_opened'',
     ''worktree_removed'']"

text \<open>What \<open>DecodeResult\<close> does with each tag.\<close>

lemma decode_result_branches:
  "decode_result_as pf ff quote raw ''agent_explain'' = decode_as agent_explain_response_codec AgentExplainResponse raw"
  "decode_result_as pf ff quote raw ''agent_info'' = decode_as agent_info_response_codec AgentInfoResponse raw"
  "decode_result_as pf ff quote raw ''agent_list'' = decode_as agent_list_response_codec AgentListResponse raw"
  "decode_result_as pf ff quote raw ''agent_manifest_reload'' = decode_as agent_manifest_reload_response_codec AgentManifestReloadResponse raw"
  "decode_result_as pf ff quote raw ''agent_manifest_status'' = decode_as agent_manifest_status_response_codec AgentManifestStatusResponse raw"
  "decode_result_as pf ff quote raw ''agent_prompted'' = decode_as agent_prompted_response_codec AgentPromptedResponse raw"
  "decode_result_as pf ff quote raw ''agent_started'' = decode_as agent_started_response_codec AgentStartedResponse raw"
  "decode_result_as pf ff quote raw ''agent_view'' = decode_as agent_view_response_codec AgentViewResponse raw"
  "decode_result_as pf ff quote raw ''client_shell_surface_set'' = decode_as client_shell_surface_set_response_codec ClientShellSurfaceSetResponse raw"
  "decode_result_as pf ff quote raw ''client_window_title'' = decode_as client_window_title_response_codec ClientWindowTitleResponse raw"
  "decode_result_as pf ff quote raw ''config_reload'' = decode_as config_reload_response_codec ConfigReloadResponse raw"
  "decode_result_as pf ff quote raw ''integration_install'' = decode_as integration_install_response_codec IntegrationInstallResponse raw"
  "decode_result_as pf ff quote raw ''integration_list'' = decode_as integration_list_response_codec IntegrationListResponse raw"
  "decode_result_as pf ff quote raw ''integration_uninstall'' = decode_as integration_uninstall_response_codec IntegrationUninstallResponse raw"
  "decode_result_as pf ff quote raw ''layout_apply'' = decode_as (layout_apply_response_codec pf ff) LayoutApplyResponse raw"
  "decode_result_as pf ff quote raw ''layout_export'' = decode_as (layout_export_response_codec pf ff) LayoutExportResponse raw"
  "decode_result_as pf ff quote raw ''layout_split_ratio_set'' = decode_as (layout_split_ratio_set_response_codec pf ff) LayoutSplitRatioSetResponse raw"
  "decode_result_as pf ff quote raw ''notification_show'' = decode_as notification_show_response_codec NotificationShowResponse raw"
  "decode_result_as pf ff quote raw ''ok'' = decode_as no_codec (\<lambda>_. OKResponse) raw"
  "decode_result_as pf ff quote raw ''output_matched'' = decode_as output_matched_response_codec OutputMatchedResponse raw"
  "decode_result_as pf ff quote raw ''pane_copy_motion'' = decode_as pane_copy_motion_response_codec PaneCopyMotionResponse raw"
  "decode_result_as pf ff quote raw ''pane_copy_search'' = decode_as pane_copy_search_response_codec PaneCopySearchResponse raw"
  "decode_result_as pf ff quote raw ''pane_current'' = decode_as pane_current_response_codec PaneCurrentResponse raw"
  "decode_result_as pf ff quote raw ''pane_edges'' = decode_as (pane_edges_response_codec pf ff) PaneEdgesResponse raw"
  "decode_result_as pf ff quote raw ''pane_focus_direction'' = decode_as (pane_focus_direction_response_codec pf ff) PaneFocusDirectionResponse raw"
  "decode_result_as pf ff quote raw ''pane_info'' = decode_as pane_info_response_codec PaneInfoResponse raw"
  "decode_result_as pf ff quote raw ''pane_layout'' = decode_as (pane_layout_response_codec pf ff) PaneLayoutResponse raw"
  "decode_result_as pf ff quote raw ''pane_link_activated'' = decode_as pane_link_activated_response_codec PaneLinkActivatedResponse raw"
  "decode_result_as pf ff quote raw ''pane_link_resolved'' = decode_as pane_link_resolved_response_codec PaneLinkResolvedResponse raw"
  "decode_result_as pf ff quote raw ''pane_list'' = decode_as pane_list_response_codec PaneListResponse raw"
  "decode_result_as pf ff quote raw ''pane_move'' = decode_as (pane_move_response_codec pf ff) PaneMoveResponse raw"
  "decode_result_as pf ff quote raw ''pane_neighbor'' = decode_as (pane_neighbor_response_codec pf ff) PaneNeighborResponse raw"
  "decode_result_as pf ff quote raw ''pane_process_info'' = decode_as pane_process_info_response_codec PaneProcessInfoResponse raw"
  "decode_result_as pf ff quote raw ''pane_read'' = decode_as pane_read_response_codec PaneReadResponse raw"
  "decode_result_as pf ff quote raw ''pane_resize'' = decode_as (pane_resize_response_codec pf ff) PaneResizeResponse raw"
  "decode_result_as pf ff quote raw ''pane_selection'' = decode_as pane_selection_response_codec PaneSelectionResponse raw"
  "decode_result_as pf ff quote raw ''pane_swap'' = decode_as (pane_swap_response_codec pf ff) PaneSwapResponse raw"
  "decode_result_as pf ff quote raw ''pane_zoom'' = decode_as (pane_zoom_response_codec pf ff) PaneZoomResponse raw"
  "decode_result_as pf ff quote raw ''plugin_action_invoked'' = decode_as plugin_action_invoked_response_codec PluginActionInvokedResponse raw"
  "decode_result_as pf ff quote raw ''plugin_action_list'' = decode_as plugin_action_list_response_codec PluginActionListResponse raw"
  "decode_result_as pf ff quote raw ''plugin_disabled'' = decode_as (plugin_disabled_response_codec quote) PluginDisabledResponse raw"
  "decode_result_as pf ff quote raw ''plugin_enabled'' = decode_as (plugin_enabled_response_codec quote) PluginEnabledResponse raw"
  "decode_result_as pf ff quote raw ''plugin_linked'' = decode_as (plugin_linked_response_codec quote) PluginLinkedResponse raw"
  "decode_result_as pf ff quote raw ''plugin_list'' = decode_as (plugin_list_response_codec quote) PluginListResponse raw"
  "decode_result_as pf ff quote raw ''plugin_log_list'' = decode_as plugin_log_list_response_codec PluginLogListResponse raw"
  "decode_result_as pf ff quote raw ''plugin_pane_closed'' = decode_as plugin_pane_closed_response_codec PluginPaneClosedResponse raw"
  "decode_result_as pf ff quote raw ''plugin_pane_focused'' = decode_as plugin_pane_focused_response_codec PluginPaneFocusedResponse raw"
  "decode_result_as pf ff quote raw ''plugin_pane_opened'' = decode_as plugin_pane_opened_response_codec PluginPaneOpenedResponse raw"
  "decode_result_as pf ff quote raw ''plugin_unlinked'' = decode_as plugin_unlinked_response_codec PluginUnlinkedResponse raw"
  "decode_result_as pf ff quote raw ''pong'' = decode_as pong_response_codec PongResponse raw"
  "decode_result_as pf ff quote raw ''session_snapshot'' = decode_as (session_snapshot_response_codec pf ff) SessionSnapshotResponse raw"
  "decode_result_as pf ff quote raw ''subscription_started'' = decode_as no_codec (\<lambda>_. SubscriptionStartedResponse) raw"
  "decode_result_as pf ff quote raw ''tab_created'' = decode_as tab_created_response_codec TabCreatedResponse raw"
  "decode_result_as pf ff quote raw ''tab_info'' = decode_as tab_info_response_codec TabInfoResponse raw"
  "decode_result_as pf ff quote raw ''tab_list'' = decode_as tab_list_response_codec TabListResponse raw"
  "decode_result_as pf ff quote raw ''wait_matched'' = decode_as (wait_matched_response_codec pf ff) WaitMatchedResponse raw"
  "decode_result_as pf ff quote raw ''workspace_created'' = decode_as workspace_created_response_codec WorkspaceCreatedResponse raw"
  "decode_result_as pf ff quote raw ''workspace_info'' = decode_as workspace_info_response_codec WorkspaceInfoResponse raw"
  "decode_result_as pf ff quote raw ''workspace_list'' = decode_as workspace_list_response_codec WorkspaceListResponse raw"
  "decode_result_as pf ff quote raw ''worktree_created'' = decode_as worktree_created_response_codec WorktreeCreatedResponse raw"
  "decode_result_as pf ff quote raw ''worktree_list'' = decode_as worktree_list_response_codec WorktreeListResponse raw"
  "decode_result_as pf ff quote raw ''worktree_opened'' = decode_as worktree_opened_response_codec WorktreeOpenedResponse raw"
  "decode_result_as pf ff quote raw ''worktree_removed'' = decode_as worktree_removed_response_codec WorktreeRemovedResponse raw"
  by (simp_all add: decode_result_as_def)

lemma unknown_result_type:
  "type \<notin> set result_types \<Longrightarrow> decode_result_as pf ff quote raw type = Inl (UnknownResultError type raw)"
  by (simp add: decode_result_as_def result_types_def)

lemma decode_as_cases:
  "(\<And>v. result_type (con v) = t) \<Longrightarrow>
    (\<exists>r. decode_as c con raw = Inr r \<and> result_type r = t) \<or> decode_as c con raw = Inl JsonError"
  by (simp add: decode_as_def split: option.split)

lemma decode_result_as_known:
  assumes "type \<in> set result_types"
  shows "(\<exists>r. decode_result_as pf ff quote raw type = Inr r \<and> result_type r = type) \<or>
    decode_result_as pf ff quote raw type = Inl JsonError"
proof -
  have "list_all (\<lambda>t. (\<exists>r. decode_result_as pf ff quote raw t = Inr r \<and> result_type r = t) \<or>
      decode_result_as pf ff quote raw t = Inl JsonError) result_types"
    unfolding result_types_def list.pred_inject decode_result_branches
    by (intro conjI list.pred_inject(1); rule decode_as_cases; simp)
  with assms show ?thesis by (simp only: list_all_iff)
qed

lemma decode_result_cases:
  assumes "decode_struct type_head raw [] = Some type"
  shows "(\<exists>r. decode_result pf ff quote raw = Inr r \<and> result_type r = type \<and> type \<in> set result_types) \<or>
    (decode_result pf ff quote raw = Inl JsonError \<and> type \<in> set result_types) \<or>
    (decode_result pf ff quote raw = Inl (UnknownResultError type raw) \<and> type \<notin> set result_types)"
  using assms decode_result_as_known [of type pf ff quote raw] unknown_result_type [of type pf ff quote raw]
  by (auto simp: decode_result_def)

lemma decode_result_no_head: "decode_struct type_head raw [] = None \<Longrightarrow> decode_result pf ff quote raw = Inl JsonError"
  by (simp add: decode_result_def)

text \<open>
  C3. Every response decodes back from what its \<open>MarshalJSON\<close> writes; a decoded result is of the type its tag
  names; a tag the schema does not have, and no other, is reported as unknown, with the whole document; any other
  failure is one of \<open>encoding/json\<close>.
\<close>

theorem decode_result_exact:
  "(result_ok pf ff quote r \<longrightarrow> decode_result pf ff quote (encode_result pf ff quote r) = Inr r) \<and>
   (decode_result pf ff quote raw = Inr r \<longrightarrow> decode_struct type_head raw [] = Some (result_type r)) \<and>
   (decode_result pf ff quote raw = Inl (UnknownResultError type data) \<longleftrightarrow>
     decode_struct type_head raw [] = Some type \<and> type \<notin> set result_types \<and> data = raw) \<and>
   (decode_result pf ff quote raw = Inl e \<longrightarrow> e = JsonError \<or> (\<exists>type. e = UnknownResultError type raw))"
proof (cases "decode_struct type_head raw []")
  case None
  then show ?thesis
    using decode_encoded_result [of pf ff quote r] by (auto simp: decode_result_no_head)
next
  case (Some t)
  then show ?thesis
    using decode_encoded_result [of pf ff quote r] decode_result_cases [OF Some, of pf ff quote] by auto
qed

definition sample_pong :: api_result where
  "sample_pong = PongResponse \<lparr>pong_response_capabilities = Absent, pong_response_protocol = 3, pong_response_version = ''0.4.1''\<rparr>"

lemma sample_pong_ok: "result_ok pf ff quote sample_pong"
  by (simp add: sample_pong_def pong_response_codec_def struct_codec_def pong_response_fields_def plain_field_def
      optional_field_def uint_codec_def string_codec_def valid_utf8_ascii)

theorem decode_result_exact_witness:
  "decode_result (\<lambda>s. None) (\<lambda>x. []) (\<lambda>s. s) (encode_result (\<lambda>s. None) (\<lambda>x. []) (\<lambda>s. s) sample_pong) = Inr sample_pong \<and>
   decode_result (\<lambda>s. None) (\<lambda>x. []) (\<lambda>s. s) (JObj [(''type'', JStr ''pangs'')]) =
     Inl (UnknownResultError ''pangs'' (JObj [(''type'', JStr ''pangs'')]))"
proof -
  have "decode_struct type_head (JObj [(''type'', JStr ''pangs'')]) [] = Some ''pangs''" "''pangs'' \<notin> set result_types"
    by (simp_all add: decode_struct_def type_head_def find_field_def plain_field_def string_codec_def result_types_def)
  with sample_pong_ok decode_result_exact [where raw = "JObj [(''type'', JStr ''pangs'')]" and type = "''pangs''"
      and data = "JObj [(''type'', JStr ''pangs'')]"]
  show ?thesis by blast
qed

end
