(* ===== verification/Methods.thy ===== *)
theory Methods
  imports Results
begin

text \<open>
  \<open>herdr/methods_gen.go\<close>: one method of the client per method of the API. Each marshals its parameters, calls
  the server, decodes the result and checks its type. An exchange \<open>x\<close> is what the call meets, its parameters set
  by the method. Parameters that may not marshal (a number that is not finite, a popup size or an agent view that
  \<open>unions_manual.go\<close> refuses) come with the predicate that says when they do.
\<close>

subsection \<open>Marshalling of parameters\<close>

text \<open>\<open>json.Marshal\<close> refuses infinities and NaN, whose exponent bits are all ones.\<close>

definition finite_float :: "float64 \<Rightarrow> bool" where
  "finite_float x \<longleftrightarrow> take_bit 11 (drop_bit 52 x) \<noteq> 0x7FF"

definition opt_all :: "('a \<Rightarrow> bool) \<Rightarrow> 'a optional \<Rightarrow> bool" where
  "opt_all P o' = (case o' of Present v \<Rightarrow> P v | _ \<Rightarrow> True)"

definition marshals :: "('a \<Rightarrow> (union_error, json) result) \<Rightarrow> 'a \<Rightarrow> bool" where
  "marshals write_to v = (case write_to v of Inl e \<Rightarrow> False | Inr j \<Rightarrow> True)"

definition marshal_checked :: "('a \<Rightarrow> bool) \<Rightarrow> 'a codec \<Rightarrow> 'a \<Rightarrow> (go_error, json) result" where
  "marshal_checked okay c v = (if okay v then ok (cod_enc c v) else err JsonError)"

fun layout_node_marshals :: "layout_node \<Rightarrow> bool" where
  "layout_node_marshals (LayoutNodePane v) = True"
| "layout_node_marshals (LayoutNodeSplit direction f ratio s) =
    (finite_float ratio \<and> pred_option layout_node_marshals f \<and> pred_option layout_node_marshals s)"
| "layout_node_marshals (LayoutNodeRef v) = pred_option layout_node_marshals v"

fun agent_view_filter_marshals :: "agent_view_filter \<Rightarrow> bool" where
  "agent_view_filter_marshals (AgentViewFilterAll fs) =
    pred_option (list_all (pred_option agent_view_filter_marshals)) fs"
| "agent_view_filter_marshals (AgentViewFilterAny fs) =
    pred_option (list_all (pred_option agent_view_filter_marshals)) fs"
| "agent_view_filter_marshals (AgentViewFilterNot f) = pred_option agent_view_filter_marshals f"
| "agent_view_filter_marshals (AgentViewFilterEq v) =
    (marshals marshal_agent_view_field (agent_view_filter_eq_field v) \<and>
     marshals marshal_agent_view_value (agent_view_filter_eq_value v))"
| "agent_view_filter_marshals (AgentViewFilterIn v) =
    (marshals marshal_agent_view_field (agent_view_filter_in_field v) \<and>
     list_all (marshals marshal_agent_view_value) (elems (agent_view_filter_in_values v)))"
| "agent_view_filter_marshals (AgentViewFilterExists v) =
    marshals marshal_agent_view_field (agent_view_filter_exists_field v)"

definition agent_view_set_params_marshals :: "agent_view_set_params \<Rightarrow> bool" where
  "agent_view_set_params_marshals p \<longleftrightarrow>
    opt_all (pred_option agent_view_filter_marshals) (agent_view_set_params_filter p) \<and>
    opt_all (\<lambda>s. list_all (\<lambda>v. marshals marshal_agent_view_sort_field (agent_view_sort_field v)) (elems s))
      (agent_view_set_params_sort p)"

definition plugin_pane_open_params_marshals :: "plugin_pane_open_params \<Rightarrow> bool" where
  "plugin_pane_open_params_marshals p \<longleftrightarrow>
    opt_all (marshals marshal_pane_size) (plugin_pane_open_params_height p) \<and>
    opt_all (marshals marshal_pane_size) (plugin_pane_open_params_width p)"

definition layout_apply_params_marshals :: "layout_apply_params \<Rightarrow> bool" where
  "layout_apply_params_marshals p \<longleftrightarrow> pred_option layout_node_marshals (layout_apply_params_root p)"

definition layout_set_split_ratio_params_marshals :: "layout_set_split_ratio_params \<Rightarrow> bool" where
  "layout_set_split_ratio_params_marshals p \<longleftrightarrow> finite_float (layout_set_split_ratio_params_ratio p)"

definition pane_move_params_marshals :: "pane_move_params \<Rightarrow> bool" where
  "pane_move_params_marshals p \<longleftrightarrow> (case pane_move_params_destination p of
     Some (PaneMoveDestinationTab v) \<Rightarrow> opt_all finite_float (pane_move_destination_tab_ratio v) | _ \<Rightarrow> True)"

definition pane_resize_params_marshals :: "pane_resize_params \<Rightarrow> bool" where
  "pane_resize_params_marshals p \<longleftrightarrow> opt_all finite_float (pane_resize_params_amount p)"

definition pane_split_params_marshals :: "pane_split_params \<Rightarrow> bool" where
  "pane_split_params_marshals p \<longleftrightarrow> opt_all finite_float (pane_split_params_ratio p)"

subsection \<open>What the methods share\<close>

definition any_call ::
  "(string \<Rightarrow> float64 option) \<Rightarrow> (float64 \<Rightarrow> string) \<Rightarrow> (string \<Rightarrow> string) \<Rightarrow> string \<Rightarrow> exchange \<Rightarrow>
    (go_error, api_result) result \<times> dialed" where
  "any_call pf ff quote method x = (case call_raw method x of
     (Inl e, d) \<Rightarrow> (err e, d)
   | (Inr raw, d) \<Rightarrow> (client_decode_result pf ff quote method raw, d))"

definition typed_call ::
  "(string \<Rightarrow> float64 option) \<Rightarrow> (float64 \<Rightarrow> string) \<Rightarrow> (string \<Rightarrow> string) \<Rightarrow> string \<Rightarrow> string \<Rightarrow>
    (api_result \<Rightarrow> 'a option) \<Rightarrow> exchange \<Rightarrow> (go_error, 'a) result \<times> dialed" where
  "typed_call pf ff quote method want pick x = (case call_raw method x of
     (Inl e, d) \<Rightarrow> (err e, d)
   | (Inr raw, d) \<Rightarrow>
       (case client_decode_result pf ff quote method raw of
          Inl e \<Rightarrow> (err e, d)
        | Inr result \<Rightarrow>
            (case pick result of
               None \<Rightarrow> (err (OpError method OpDecode (UnexpectedResultError method want (result_type result))), d)
             | Some typed \<Rightarrow> (ok typed, d))))"

text \<open>
  What a method promises: the connection is handled as the call handles it; it returns \<open>v\<close> exactly when the
  response decodes to \<open>v\<close>; a response that was encoded comes back; and an error is the error of the call, a
  response that does not decode, or a response of a type other than the one wanted, which is not worth a retry.
\<close>

definition method_contract ::
  "(string \<Rightarrow> float64 option) \<Rightarrow> (float64 \<Rightarrow> string) \<Rightarrow> (string \<Rightarrow> string) \<Rightarrow> string \<Rightarrow>
    (go_error, json) result option \<Rightarrow> string \<Rightarrow> ('a \<Rightarrow> api_result) \<Rightarrow>
    (exchange \<Rightarrow> (go_error, 'a) result \<times> dialed) \<Rightarrow> bool" where
  "method_contract pf ff quote method prm want con call \<longleftrightarrow> (\<forall>x raw d.
     call_raw method (x\<lparr>xc_params := prm\<rparr>) = (raw, d) \<longrightarrow>
       snd (call x) = d \<and>
       (\<forall>v. fst (call x) = Inr v \<longleftrightarrow> (\<exists>j. raw = Inr j \<and> decode_result pf ff quote j = Inr (con v))) \<and>
       (\<forall>v. result_ok pf ff quote (con v) \<and> raw = Inr (encode_result pf ff quote (con v)) \<longrightarrow> fst (call x) = Inr v) \<and>
       (\<forall>e. fst (call x) = Inl e \<longrightarrow> raw = Inl e \<or>
         (\<exists>j. raw = Inr j \<and> (e = OpError method OpDecode JsonError \<or>
           (\<exists>t. t \<notin> set result_types \<and> e = OpError method OpDecode (UnknownResultError t j)) \<or>
           (\<exists>got. got \<noteq> want \<and> e = OpError method OpDecode (UnexpectedResultError method want got) \<and>
             \<not> is_retryable e)))))"

definition asserts :: "(api_result \<Rightarrow> 'a option) \<Rightarrow> ('a \<Rightarrow> api_result) \<Rightarrow> string \<Rightarrow> bool" where
  "asserts pick con want \<longleftrightarrow> (\<forall>r v. pick r = Some v \<longleftrightarrow> r = con v) \<and> (\<forall>r. pick r = None \<longrightarrow> result_type r \<noteq> want)"

lemma assertsI:
  "(\<And>v. pick (con v) = Some v) \<Longrightarrow> (\<And>r. case pick r of None \<Rightarrow> result_type r \<noteq> want | Some v \<Rightarrow> r = con v) \<Longrightarrow>
    asserts pick con want"
proof -
  assume some: "\<And>v. pick (con v) = Some v" and none: "\<And>r. case pick r of None \<Rightarrow> result_type r \<noteq> want | Some v \<Rightarrow> r = con v"
  have "pick r = Some v \<Longrightarrow> r = con v" "pick r = None \<Longrightarrow> result_type r \<noteq> want" for r v
    using none [of r] by simp_all
  with some show ?thesis by (auto simp: asserts_def)
qed

lemma typed_call_contract:
  assumes "asserts pick con want" "\<And>x. call x = typed_call pf ff quote method want pick (x\<lparr>xc_params := prm\<rparr>)"
  shows "method_contract pf ff quote method prm want con call"
  unfolding method_contract_def
proof (intro allI impI)
  fix x raw d
  assume raw: "call_raw method (x\<lparr>xc_params := prm\<rparr>) = (raw, d)"
  have pick: "pick r = Some v \<longleftrightarrow> r = con v" "pick r = None \<Longrightarrow> result_type r \<noteq> want" for r v
    using assms(1) by (simp_all add: asserts_def)
  show "snd (call x) = d \<and>
       (\<forall>v. fst (call x) = Inr v \<longleftrightarrow> (\<exists>j. raw = Inr j \<and> decode_result pf ff quote j = Inr (con v))) \<and>
       (\<forall>v. result_ok pf ff quote (con v) \<and> raw = Inr (encode_result pf ff quote (con v)) \<longrightarrow> fst (call x) = Inr v) \<and>
       (\<forall>e. fst (call x) = Inl e \<longrightarrow> raw = Inl e \<or>
         (\<exists>j. raw = Inr j \<and> (e = OpError method OpDecode JsonError \<or>
           (\<exists>t. t \<notin> set result_types \<and> e = OpError method OpDecode (UnknownResultError t j)) \<or>
           (\<exists>got. got \<noteq> want \<and> e = OpError method OpDecode (UnexpectedResultError method want got) \<and>
             \<not> is_retryable e))))"
  proof (cases raw)
    case (Inl e)
    then show ?thesis by (simp add: assms(2) typed_call_def raw)
  next
    case (Inr j)
    show ?thesis
    proof (cases "decode_result pf ff quote j")
      case (Inl e)
      then have "e = JsonError \<or> (\<exists>t. t \<notin> set result_types \<and> e = UnknownResultError t j)"
        using decode_result_cases [of j _ pf ff quote] decode_result_no_head [of j pf ff quote]
        by (cases "decode_struct type_head j []") auto
      with Inl show ?thesis
        using decode_encoded_result [of pf ff quote]
        by (auto simp: assms(2) typed_call_def raw \<open>raw = Inr j\<close> client_decode_result_def)
    next
      case (Inr r)
      show ?thesis
      proof (cases "pick r")
        case None
        moreover have "pick (con v) = Some v" for v using pick(1) by simp
        ultimately show ?thesis
          using pick(2) [OF None] Inr decode_encoded_result [of pf ff quote]
          by (auto simp: assms(2) typed_call_def raw \<open>raw = Inr j\<close> client_decode_result_def is_retryable_def)
      next
        case (Some v)
        with pick(1) [of r] Inr show ?thesis
          using decode_encoded_result [of pf ff quote]
          by (auto simp: assms(2) typed_call_def raw \<open>raw = Inr j\<close> client_decode_result_def)
      qed
    qed
  qed
qed

subsection \<open>The names\<close>

definition method_names :: "string list" where
  "method_names = [''agent.explain'',
     ''agent.focus'',
     ''agent.get'',
     ''agent.list'',
     ''agent.prompt'',
     ''agent.read'',
     ''agent.rename'',
     ''agent.send_keys'',
     ''agent.start'',
     ''agent.view.clear'',
     ''agent.view.set'',
     ''agent.wait'',
     ''client_shell.surface.set'',
     ''client.window_title.clear'',
     ''client.window_title.set'',
     ''command.invoke'',
     ''events.subscribe'',
     ''events.wait'',
     ''integration.install'',
     ''integration.list'',
     ''integration.uninstall'',
     ''layout.apply'',
     ''layout.export'',
     ''layout.set_split_ratio'',
     ''notification.show'',
     ''pane.clear'',
     ''pane.clear_agent_authority'',
     ''pane.close'',
     ''pane.copy_motion'',
     ''pane.copy_search'',
     ''pane.current'',
     ''pane.edges'',
     ''pane.edit_scrollback'',
     ''pane.focus'',
     ''pane.focus_direction'',
     ''pane.get'',
     ''pane.input.set'',
     ''pane.layout'',
     ''pane.link.activate'',
     ''pane.link.resolve'',
     ''pane.list'',
     ''pane.move'',
     ''pane.neighbor'',
     ''pane.process_info'',
     ''pane.read'',
     ''pane.release_agent'',
     ''pane.rename'',
     ''pane.report_agent'',
     ''pane.report_agent_session'',
     ''pane.report_metadata'',
     ''pane.resize'',
     ''pane.scroll'',
     ''pane.selection.read'',
     ''pane.send_input'',
     ''pane.send_keys'',
     ''pane.send_text'',
     ''pane.split'',
     ''pane.swap'',
     ''pane.wait_for_output'',
     ''pane.zoom'',
     ''ping'',
     ''plugin.action.invoke'',
     ''plugin.action.list'',
     ''plugin.disable'',
     ''plugin.enable'',
     ''plugin.link'',
     ''plugin.list'',
     ''plugin.log.list'',
     ''plugin.pane.close'',
     ''plugin.pane.focus'',
     ''plugin.pane.open'',
     ''plugin.unlink'',
     ''popup.close'',
     ''product_announcement.dismiss'',
     ''release_notes.dismiss'',
     ''server.agent_manifests'',
     ''server.live_handoff'',
     ''server.reload_agent_manifests'',
     ''server.reload_config'',
     ''server.ssh_agent.register'',
     ''server.stop'',
     ''session.snapshot'',
     ''tab.close'',
     ''tab.create'',
     ''tab.focus'',
     ''tab.get'',
     ''tab.list'',
     ''tab.move'',
     ''tab.rename'',
     ''workspace.close'',
     ''workspace.create'',
     ''workspace.focus'',
     ''workspace.get'',
     ''workspace.list'',
     ''workspace.move'',
     ''workspace.move_block'',
     ''workspace.rename'',
     ''workspace.report_metadata'',
     ''worktree.create'',
     ''worktree.list'',
     ''worktree.open'',
     ''worktree.remove'']"

subsection \<open>The type assertions\<close>

definition as_agent_explain_response :: "api_result \<Rightarrow> agent_explain_response option" where
  "as_agent_explain_response r = (case r of AgentExplainResponse v \<Rightarrow> Some v | _ \<Rightarrow> None)"

definition as_agent_info_response :: "api_result \<Rightarrow> agent_info_response option" where
  "as_agent_info_response r = (case r of AgentInfoResponse v \<Rightarrow> Some v | _ \<Rightarrow> None)"

definition as_agent_list_response :: "api_result \<Rightarrow> agent_list_response option" where
  "as_agent_list_response r = (case r of AgentListResponse v \<Rightarrow> Some v | _ \<Rightarrow> None)"

definition as_agent_prompted_response :: "api_result \<Rightarrow> agent_prompted_response option" where
  "as_agent_prompted_response r = (case r of AgentPromptedResponse v \<Rightarrow> Some v | _ \<Rightarrow> None)"

definition as_pane_read_response :: "api_result \<Rightarrow> pane_read_response option" where
  "as_pane_read_response r = (case r of PaneReadResponse v \<Rightarrow> Some v | _ \<Rightarrow> None)"

definition as_ok_response :: "api_result \<Rightarrow> unit option" where
  "as_ok_response r = (case r of OKResponse \<Rightarrow> Some () | _ \<Rightarrow> None)"

definition as_agent_started_response :: "api_result \<Rightarrow> agent_started_response option" where
  "as_agent_started_response r = (case r of AgentStartedResponse v \<Rightarrow> Some v | _ \<Rightarrow> None)"

definition as_agent_view_response :: "api_result \<Rightarrow> agent_view_response option" where
  "as_agent_view_response r = (case r of AgentViewResponse v \<Rightarrow> Some v | _ \<Rightarrow> None)"

definition as_client_shell_surface_set_response :: "api_result \<Rightarrow> client_shell_surface_set_response option" where
  "as_client_shell_surface_set_response r = (case r of ClientShellSurfaceSetResponse v \<Rightarrow> Some v | _ \<Rightarrow> None)"

definition as_client_window_title_response :: "api_result \<Rightarrow> client_window_title_response option" where
  "as_client_window_title_response r = (case r of ClientWindowTitleResponse v \<Rightarrow> Some v | _ \<Rightarrow> None)"

definition as_wait_matched_response :: "api_result \<Rightarrow> wait_matched_response option" where
  "as_wait_matched_response r = (case r of WaitMatchedResponse v \<Rightarrow> Some v | _ \<Rightarrow> None)"

definition as_integration_install_response :: "api_result \<Rightarrow> integration_install_response option" where
  "as_integration_install_response r = (case r of IntegrationInstallResponse v \<Rightarrow> Some v | _ \<Rightarrow> None)"

definition as_integration_list_response :: "api_result \<Rightarrow> integration_list_response option" where
  "as_integration_list_response r = (case r of IntegrationListResponse v \<Rightarrow> Some v | _ \<Rightarrow> None)"

definition as_integration_uninstall_response :: "api_result \<Rightarrow> integration_uninstall_response option" where
  "as_integration_uninstall_response r = (case r of IntegrationUninstallResponse v \<Rightarrow> Some v | _ \<Rightarrow> None)"

definition as_layout_apply_response :: "api_result \<Rightarrow> layout_apply_response option" where
  "as_layout_apply_response r = (case r of LayoutApplyResponse v \<Rightarrow> Some v | _ \<Rightarrow> None)"

definition as_layout_export_response :: "api_result \<Rightarrow> layout_export_response option" where
  "as_layout_export_response r = (case r of LayoutExportResponse v \<Rightarrow> Some v | _ \<Rightarrow> None)"

definition as_layout_split_ratio_set_response :: "api_result \<Rightarrow> layout_split_ratio_set_response option" where
  "as_layout_split_ratio_set_response r = (case r of LayoutSplitRatioSetResponse v \<Rightarrow> Some v | _ \<Rightarrow> None)"

definition as_notification_show_response :: "api_result \<Rightarrow> notification_show_response option" where
  "as_notification_show_response r = (case r of NotificationShowResponse v \<Rightarrow> Some v | _ \<Rightarrow> None)"

definition as_pane_copy_motion_response :: "api_result \<Rightarrow> pane_copy_motion_response option" where
  "as_pane_copy_motion_response r = (case r of PaneCopyMotionResponse v \<Rightarrow> Some v | _ \<Rightarrow> None)"

definition as_pane_copy_search_response :: "api_result \<Rightarrow> pane_copy_search_response option" where
  "as_pane_copy_search_response r = (case r of PaneCopySearchResponse v \<Rightarrow> Some v | _ \<Rightarrow> None)"

definition as_pane_current_response :: "api_result \<Rightarrow> pane_current_response option" where
  "as_pane_current_response r = (case r of PaneCurrentResponse v \<Rightarrow> Some v | _ \<Rightarrow> None)"

definition as_pane_edges_response :: "api_result \<Rightarrow> pane_edges_response option" where
  "as_pane_edges_response r = (case r of PaneEdgesResponse v \<Rightarrow> Some v | _ \<Rightarrow> None)"

definition as_pane_info_response :: "api_result \<Rightarrow> pane_info_response option" where
  "as_pane_info_response r = (case r of PaneInfoResponse v \<Rightarrow> Some v | _ \<Rightarrow> None)"

definition as_pane_focus_direction_response :: "api_result \<Rightarrow> pane_focus_direction_response option" where
  "as_pane_focus_direction_response r = (case r of PaneFocusDirectionResponse v \<Rightarrow> Some v | _ \<Rightarrow> None)"

definition as_pane_layout_response :: "api_result \<Rightarrow> pane_layout_response option" where
  "as_pane_layout_response r = (case r of PaneLayoutResponse v \<Rightarrow> Some v | _ \<Rightarrow> None)"

definition as_pane_link_activated_response :: "api_result \<Rightarrow> pane_link_activated_response option" where
  "as_pane_link_activated_response r = (case r of PaneLinkActivatedResponse v \<Rightarrow> Some v | _ \<Rightarrow> None)"

definition as_pane_link_resolved_response :: "api_result \<Rightarrow> pane_link_resolved_response option" where
  "as_pane_link_resolved_response r = (case r of PaneLinkResolvedResponse v \<Rightarrow> Some v | _ \<Rightarrow> None)"

definition as_pane_list_response :: "api_result \<Rightarrow> pane_list_response option" where
  "as_pane_list_response r = (case r of PaneListResponse v \<Rightarrow> Some v | _ \<Rightarrow> None)"

definition as_pane_move_response :: "api_result \<Rightarrow> pane_move_response option" where
  "as_pane_move_response r = (case r of PaneMoveResponse v \<Rightarrow> Some v | _ \<Rightarrow> None)"

definition as_pane_neighbor_response :: "api_result \<Rightarrow> pane_neighbor_response option" where
  "as_pane_neighbor_response r = (case r of PaneNeighborResponse v \<Rightarrow> Some v | _ \<Rightarrow> None)"

definition as_pane_process_info_response :: "api_result \<Rightarrow> pane_process_info_response option" where
  "as_pane_process_info_response r = (case r of PaneProcessInfoResponse v \<Rightarrow> Some v | _ \<Rightarrow> None)"

definition as_pane_resize_response :: "api_result \<Rightarrow> pane_resize_response option" where
  "as_pane_resize_response r = (case r of PaneResizeResponse v \<Rightarrow> Some v | _ \<Rightarrow> None)"

definition as_pane_selection_response :: "api_result \<Rightarrow> pane_selection_response option" where
  "as_pane_selection_response r = (case r of PaneSelectionResponse v \<Rightarrow> Some v | _ \<Rightarrow> None)"

definition as_pane_swap_response :: "api_result \<Rightarrow> pane_swap_response option" where
  "as_pane_swap_response r = (case r of PaneSwapResponse v \<Rightarrow> Some v | _ \<Rightarrow> None)"

definition as_output_matched_response :: "api_result \<Rightarrow> output_matched_response option" where
  "as_output_matched_response r = (case r of OutputMatchedResponse v \<Rightarrow> Some v | _ \<Rightarrow> None)"

definition as_pane_zoom_response :: "api_result \<Rightarrow> pane_zoom_response option" where
  "as_pane_zoom_response r = (case r of PaneZoomResponse v \<Rightarrow> Some v | _ \<Rightarrow> None)"

definition as_pong_response :: "api_result \<Rightarrow> pong_response option" where
  "as_pong_response r = (case r of PongResponse v \<Rightarrow> Some v | _ \<Rightarrow> None)"

definition as_plugin_action_invoked_response :: "api_result \<Rightarrow> plugin_action_invoked_response option" where
  "as_plugin_action_invoked_response r = (case r of PluginActionInvokedResponse v \<Rightarrow> Some v | _ \<Rightarrow> None)"

definition as_plugin_action_list_response :: "api_result \<Rightarrow> plugin_action_list_response option" where
  "as_plugin_action_list_response r = (case r of PluginActionListResponse v \<Rightarrow> Some v | _ \<Rightarrow> None)"

definition as_plugin_disabled_response :: "api_result \<Rightarrow> plugin_disabled_response option" where
  "as_plugin_disabled_response r = (case r of PluginDisabledResponse v \<Rightarrow> Some v | _ \<Rightarrow> None)"

definition as_plugin_enabled_response :: "api_result \<Rightarrow> plugin_enabled_response option" where
  "as_plugin_enabled_response r = (case r of PluginEnabledResponse v \<Rightarrow> Some v | _ \<Rightarrow> None)"

definition as_plugin_linked_response :: "api_result \<Rightarrow> plugin_linked_response option" where
  "as_plugin_linked_response r = (case r of PluginLinkedResponse v \<Rightarrow> Some v | _ \<Rightarrow> None)"

definition as_plugin_list_response :: "api_result \<Rightarrow> plugin_list_response option" where
  "as_plugin_list_response r = (case r of PluginListResponse v \<Rightarrow> Some v | _ \<Rightarrow> None)"

definition as_plugin_log_list_response :: "api_result \<Rightarrow> plugin_log_list_response option" where
  "as_plugin_log_list_response r = (case r of PluginLogListResponse v \<Rightarrow> Some v | _ \<Rightarrow> None)"

definition as_plugin_pane_closed_response :: "api_result \<Rightarrow> plugin_pane_closed_response option" where
  "as_plugin_pane_closed_response r = (case r of PluginPaneClosedResponse v \<Rightarrow> Some v | _ \<Rightarrow> None)"

definition as_plugin_pane_focused_response :: "api_result \<Rightarrow> plugin_pane_focused_response option" where
  "as_plugin_pane_focused_response r = (case r of PluginPaneFocusedResponse v \<Rightarrow> Some v | _ \<Rightarrow> None)"

definition as_plugin_unlinked_response :: "api_result \<Rightarrow> plugin_unlinked_response option" where
  "as_plugin_unlinked_response r = (case r of PluginUnlinkedResponse v \<Rightarrow> Some v | _ \<Rightarrow> None)"

definition as_agent_manifest_status_response :: "api_result \<Rightarrow> agent_manifest_status_response option" where
  "as_agent_manifest_status_response r = (case r of AgentManifestStatusResponse v \<Rightarrow> Some v | _ \<Rightarrow> None)"

definition as_agent_manifest_reload_response :: "api_result \<Rightarrow> agent_manifest_reload_response option" where
  "as_agent_manifest_reload_response r = (case r of AgentManifestReloadResponse v \<Rightarrow> Some v | _ \<Rightarrow> None)"

definition as_config_reload_response :: "api_result \<Rightarrow> config_reload_response option" where
  "as_config_reload_response r = (case r of ConfigReloadResponse v \<Rightarrow> Some v | _ \<Rightarrow> None)"

definition as_session_snapshot_response :: "api_result \<Rightarrow> session_snapshot_response option" where
  "as_session_snapshot_response r = (case r of SessionSnapshotResponse v \<Rightarrow> Some v | _ \<Rightarrow> None)"

definition as_tab_created_response :: "api_result \<Rightarrow> tab_created_response option" where
  "as_tab_created_response r = (case r of TabCreatedResponse v \<Rightarrow> Some v | _ \<Rightarrow> None)"

definition as_tab_info_response :: "api_result \<Rightarrow> tab_info_response option" where
  "as_tab_info_response r = (case r of TabInfoResponse v \<Rightarrow> Some v | _ \<Rightarrow> None)"

definition as_tab_list_response :: "api_result \<Rightarrow> tab_list_response option" where
  "as_tab_list_response r = (case r of TabListResponse v \<Rightarrow> Some v | _ \<Rightarrow> None)"

definition as_workspace_created_response :: "api_result \<Rightarrow> workspace_created_response option" where
  "as_workspace_created_response r = (case r of WorkspaceCreatedResponse v \<Rightarrow> Some v | _ \<Rightarrow> None)"

definition as_workspace_info_response :: "api_result \<Rightarrow> workspace_info_response option" where
  "as_workspace_info_response r = (case r of WorkspaceInfoResponse v \<Rightarrow> Some v | _ \<Rightarrow> None)"

definition as_workspace_list_response :: "api_result \<Rightarrow> workspace_list_response option" where
  "as_workspace_list_response r = (case r of WorkspaceListResponse v \<Rightarrow> Some v | _ \<Rightarrow> None)"

definition as_worktree_created_response :: "api_result \<Rightarrow> worktree_created_response option" where
  "as_worktree_created_response r = (case r of WorktreeCreatedResponse v \<Rightarrow> Some v | _ \<Rightarrow> None)"

definition as_worktree_list_response :: "api_result \<Rightarrow> worktree_list_response option" where
  "as_worktree_list_response r = (case r of WorktreeListResponse v \<Rightarrow> Some v | _ \<Rightarrow> None)"

definition as_worktree_opened_response :: "api_result \<Rightarrow> worktree_opened_response option" where
  "as_worktree_opened_response r = (case r of WorktreeOpenedResponse v \<Rightarrow> Some v | _ \<Rightarrow> None)"

definition as_worktree_removed_response :: "api_result \<Rightarrow> worktree_removed_response option" where
  "as_worktree_removed_response r = (case r of WorktreeRemovedResponse v \<Rightarrow> Some v | _ \<Rightarrow> None)"

subsection \<open>The methods\<close>

definition client_agent_explain :: "(string \<Rightarrow> float64 option) \<Rightarrow> (float64 \<Rightarrow> string) \<Rightarrow> (string \<Rightarrow> string) \<Rightarrow> agent_target \<Rightarrow> exchange \<Rightarrow>
    (go_error, agent_explain_response) result \<times> dialed" where
  "client_agent_explain pf ff quote params x =
    typed_call pf ff quote ''agent.explain'' ''agent_explain'' as_agent_explain_response (x\<lparr>xc_params := Some (ok (cod_enc agent_target_codec params))\<rparr>)"

definition client_agent_focus :: "(string \<Rightarrow> float64 option) \<Rightarrow> (float64 \<Rightarrow> string) \<Rightarrow> (string \<Rightarrow> string) \<Rightarrow> agent_target \<Rightarrow> exchange \<Rightarrow>
    (go_error, agent_info_response) result \<times> dialed" where
  "client_agent_focus pf ff quote params x =
    typed_call pf ff quote ''agent.focus'' ''agent_info'' as_agent_info_response (x\<lparr>xc_params := Some (ok (cod_enc agent_target_codec params))\<rparr>)"

definition client_agent_get :: "(string \<Rightarrow> float64 option) \<Rightarrow> (float64 \<Rightarrow> string) \<Rightarrow> (string \<Rightarrow> string) \<Rightarrow> agent_target \<Rightarrow> exchange \<Rightarrow>
    (go_error, agent_info_response) result \<times> dialed" where
  "client_agent_get pf ff quote params x =
    typed_call pf ff quote ''agent.get'' ''agent_info'' as_agent_info_response (x\<lparr>xc_params := Some (ok (cod_enc agent_target_codec params))\<rparr>)"

definition client_agent_list :: "(string \<Rightarrow> float64 option) \<Rightarrow> (float64 \<Rightarrow> string) \<Rightarrow> (string \<Rightarrow> string) \<Rightarrow> exchange \<Rightarrow>
    (go_error, agent_list_response) result \<times> dialed" where
  "client_agent_list pf ff quote x =
    typed_call pf ff quote ''agent.list'' ''agent_list'' as_agent_list_response (x\<lparr>xc_params := None\<rparr>)"

definition client_agent_prompt :: "(string \<Rightarrow> float64 option) \<Rightarrow> (float64 \<Rightarrow> string) \<Rightarrow> (string \<Rightarrow> string) \<Rightarrow> agent_prompt_params \<Rightarrow> exchange \<Rightarrow>
    (go_error, agent_prompted_response) result \<times> dialed" where
  "client_agent_prompt pf ff quote params x =
    typed_call pf ff quote ''agent.prompt'' ''agent_prompted'' as_agent_prompted_response (x\<lparr>xc_params := Some (ok (cod_enc agent_prompt_params_codec params))\<rparr>)"

definition client_agent_read :: "(string \<Rightarrow> float64 option) \<Rightarrow> (float64 \<Rightarrow> string) \<Rightarrow> (string \<Rightarrow> string) \<Rightarrow> agent_read_params \<Rightarrow> exchange \<Rightarrow>
    (go_error, pane_read_response) result \<times> dialed" where
  "client_agent_read pf ff quote params x =
    typed_call pf ff quote ''agent.read'' ''pane_read'' as_pane_read_response (x\<lparr>xc_params := Some (ok (cod_enc agent_read_params_codec params))\<rparr>)"

definition client_agent_rename :: "(string \<Rightarrow> float64 option) \<Rightarrow> (float64 \<Rightarrow> string) \<Rightarrow> (string \<Rightarrow> string) \<Rightarrow> agent_rename_params \<Rightarrow> exchange \<Rightarrow>
    (go_error, agent_info_response) result \<times> dialed" where
  "client_agent_rename pf ff quote params x =
    typed_call pf ff quote ''agent.rename'' ''agent_info'' as_agent_info_response (x\<lparr>xc_params := Some (ok (cod_enc agent_rename_params_codec params))\<rparr>)"

definition client_agent_send_keys :: "(string \<Rightarrow> float64 option) \<Rightarrow> (float64 \<Rightarrow> string) \<Rightarrow> (string \<Rightarrow> string) \<Rightarrow> agent_send_keys_params \<Rightarrow> exchange \<Rightarrow>
    (go_error, unit) result \<times> dialed" where
  "client_agent_send_keys pf ff quote params x =
    typed_call pf ff quote ''agent.send_keys'' ''ok'' as_ok_response (x\<lparr>xc_params := Some (ok (cod_enc agent_send_keys_params_codec params))\<rparr>)"

definition client_agent_start :: "(string \<Rightarrow> float64 option) \<Rightarrow> (float64 \<Rightarrow> string) \<Rightarrow> (string \<Rightarrow> string) \<Rightarrow> agent_start_params \<Rightarrow> exchange \<Rightarrow>
    (go_error, agent_started_response) result \<times> dialed" where
  "client_agent_start pf ff quote params x =
    typed_call pf ff quote ''agent.start'' ''agent_started'' as_agent_started_response (x\<lparr>xc_params := Some (ok (cod_enc agent_start_params_codec params))\<rparr>)"

definition client_agent_view_clear :: "(string \<Rightarrow> float64 option) \<Rightarrow> (float64 \<Rightarrow> string) \<Rightarrow> (string \<Rightarrow> string) \<Rightarrow> agent_view_clear_params \<Rightarrow> exchange \<Rightarrow>
    (go_error, agent_view_response) result \<times> dialed" where
  "client_agent_view_clear pf ff quote params x =
    typed_call pf ff quote ''agent.view.clear'' ''agent_view'' as_agent_view_response (x\<lparr>xc_params := Some (ok (cod_enc agent_view_clear_params_codec params))\<rparr>)"

definition client_agent_view_set :: "(string \<Rightarrow> float64 option) \<Rightarrow> (float64 \<Rightarrow> string) \<Rightarrow> (string \<Rightarrow> string) \<Rightarrow> agent_view_set_params \<Rightarrow> exchange \<Rightarrow>
    (go_error, agent_view_response) result \<times> dialed" where
  "client_agent_view_set pf ff quote params x =
    typed_call pf ff quote ''agent.view.set'' ''agent_view'' as_agent_view_response (x\<lparr>xc_params := Some (marshal_checked agent_view_set_params_marshals agent_view_set_params_codec params)\<rparr>)"

definition client_agent_wait :: "(string \<Rightarrow> float64 option) \<Rightarrow> (float64 \<Rightarrow> string) \<Rightarrow> (string \<Rightarrow> string) \<Rightarrow> agent_wait_params \<Rightarrow> exchange \<Rightarrow>
    (go_error, agent_info_response) result \<times> dialed" where
  "client_agent_wait pf ff quote params x =
    typed_call pf ff quote ''agent.wait'' ''agent_info'' as_agent_info_response (x\<lparr>xc_params := Some (ok (cod_enc agent_wait_params_codec params))\<rparr>)"

definition client_client_shell_surface_set :: "(string \<Rightarrow> float64 option) \<Rightarrow> (float64 \<Rightarrow> string) \<Rightarrow> (string \<Rightarrow> string) \<Rightarrow> client_shell_surface_set_params \<Rightarrow> exchange \<Rightarrow>
    (go_error, client_shell_surface_set_response) result \<times> dialed" where
  "client_client_shell_surface_set pf ff quote params x =
    typed_call pf ff quote ''client_shell.surface.set'' ''client_shell_surface_set'' as_client_shell_surface_set_response (x\<lparr>xc_params := Some (ok (cod_enc client_shell_surface_set_params_codec params))\<rparr>)"

definition client_client_window_title_clear :: "(string \<Rightarrow> float64 option) \<Rightarrow> (float64 \<Rightarrow> string) \<Rightarrow> (string \<Rightarrow> string) \<Rightarrow> exchange \<Rightarrow>
    (go_error, client_window_title_response) result \<times> dialed" where
  "client_client_window_title_clear pf ff quote x =
    typed_call pf ff quote ''client.window_title.clear'' ''client_window_title'' as_client_window_title_response (x\<lparr>xc_params := None\<rparr>)"

definition client_client_window_title_set :: "(string \<Rightarrow> float64 option) \<Rightarrow> (float64 \<Rightarrow> string) \<Rightarrow> (string \<Rightarrow> string) \<Rightarrow> client_window_title_set_params \<Rightarrow> exchange \<Rightarrow>
    (go_error, client_window_title_response) result \<times> dialed" where
  "client_client_window_title_set pf ff quote params x =
    typed_call pf ff quote ''client.window_title.set'' ''client_window_title'' as_client_window_title_response (x\<lparr>xc_params := Some (ok (cod_enc client_window_title_set_params_codec params))\<rparr>)"

definition client_command_invoke :: "(string \<Rightarrow> float64 option) \<Rightarrow> (float64 \<Rightarrow> string) \<Rightarrow> (string \<Rightarrow> string) \<Rightarrow> command_invoke_params \<Rightarrow> exchange \<Rightarrow>
    (go_error, api_result) result \<times> dialed" where
  "client_command_invoke pf ff quote params x =
    any_call pf ff quote ''command.invoke'' (x\<lparr>xc_params := Some (ok (cod_enc command_invoke_params_codec params))\<rparr>)"

definition client_events_subscribe :: "events_subscribe_params \<Rightarrow> exchange \<Rightarrow>
    (go_error, stream) result \<times> dialed" where
  "client_events_subscribe params x =
    open_stream ''events.subscribe'' (x\<lparr>xc_params := Some (ok (cod_enc events_subscribe_params_codec params))\<rparr>)"

definition client_events_wait :: "(string \<Rightarrow> float64 option) \<Rightarrow> (float64 \<Rightarrow> string) \<Rightarrow> (string \<Rightarrow> string) \<Rightarrow> events_wait_params \<Rightarrow> exchange \<Rightarrow>
    (go_error, wait_matched_response) result \<times> dialed" where
  "client_events_wait pf ff quote params x =
    typed_call pf ff quote ''events.wait'' ''wait_matched'' as_wait_matched_response (x\<lparr>xc_params := Some (ok (cod_enc events_wait_params_codec params))\<rparr>)"

definition client_integration_install :: "(string \<Rightarrow> float64 option) \<Rightarrow> (float64 \<Rightarrow> string) \<Rightarrow> (string \<Rightarrow> string) \<Rightarrow> integration_install_params \<Rightarrow> exchange \<Rightarrow>
    (go_error, integration_install_response) result \<times> dialed" where
  "client_integration_install pf ff quote params x =
    typed_call pf ff quote ''integration.install'' ''integration_install'' as_integration_install_response (x\<lparr>xc_params := Some (ok (cod_enc integration_install_params_codec params))\<rparr>)"

definition client_integration_list :: "(string \<Rightarrow> float64 option) \<Rightarrow> (float64 \<Rightarrow> string) \<Rightarrow> (string \<Rightarrow> string) \<Rightarrow> exchange \<Rightarrow>
    (go_error, integration_list_response) result \<times> dialed" where
  "client_integration_list pf ff quote x =
    typed_call pf ff quote ''integration.list'' ''integration_list'' as_integration_list_response (x\<lparr>xc_params := None\<rparr>)"

definition client_integration_uninstall :: "(string \<Rightarrow> float64 option) \<Rightarrow> (float64 \<Rightarrow> string) \<Rightarrow> (string \<Rightarrow> string) \<Rightarrow> integration_uninstall_params \<Rightarrow> exchange \<Rightarrow>
    (go_error, integration_uninstall_response) result \<times> dialed" where
  "client_integration_uninstall pf ff quote params x =
    typed_call pf ff quote ''integration.uninstall'' ''integration_uninstall'' as_integration_uninstall_response (x\<lparr>xc_params := Some (ok (cod_enc integration_uninstall_params_codec params))\<rparr>)"

definition client_layout_apply :: "(string \<Rightarrow> float64 option) \<Rightarrow> (float64 \<Rightarrow> string) \<Rightarrow> (string \<Rightarrow> string) \<Rightarrow> layout_apply_params \<Rightarrow> exchange \<Rightarrow>
    (go_error, layout_apply_response) result \<times> dialed" where
  "client_layout_apply pf ff quote params x =
    typed_call pf ff quote ''layout.apply'' ''layout_apply'' as_layout_apply_response (x\<lparr>xc_params := Some (marshal_checked layout_apply_params_marshals (layout_apply_params_codec pf ff) params)\<rparr>)"

definition client_layout_export :: "(string \<Rightarrow> float64 option) \<Rightarrow> (float64 \<Rightarrow> string) \<Rightarrow> (string \<Rightarrow> string) \<Rightarrow> layout_export_params \<Rightarrow> exchange \<Rightarrow>
    (go_error, layout_export_response) result \<times> dialed" where
  "client_layout_export pf ff quote params x =
    typed_call pf ff quote ''layout.export'' ''layout_export'' as_layout_export_response (x\<lparr>xc_params := Some (ok (cod_enc layout_export_params_codec params))\<rparr>)"

definition client_layout_set_split_ratio :: "(string \<Rightarrow> float64 option) \<Rightarrow> (float64 \<Rightarrow> string) \<Rightarrow> (string \<Rightarrow> string) \<Rightarrow> layout_set_split_ratio_params \<Rightarrow> exchange \<Rightarrow>
    (go_error, layout_split_ratio_set_response) result \<times> dialed" where
  "client_layout_set_split_ratio pf ff quote params x =
    typed_call pf ff quote ''layout.set_split_ratio'' ''layout_split_ratio_set'' as_layout_split_ratio_set_response (x\<lparr>xc_params := Some (marshal_checked layout_set_split_ratio_params_marshals (layout_set_split_ratio_params_codec pf ff) params)\<rparr>)"

definition client_notification_show :: "(string \<Rightarrow> float64 option) \<Rightarrow> (float64 \<Rightarrow> string) \<Rightarrow> (string \<Rightarrow> string) \<Rightarrow> notification_show_params \<Rightarrow> exchange \<Rightarrow>
    (go_error, notification_show_response) result \<times> dialed" where
  "client_notification_show pf ff quote params x =
    typed_call pf ff quote ''notification.show'' ''notification_show'' as_notification_show_response (x\<lparr>xc_params := Some (ok (cod_enc notification_show_params_codec params))\<rparr>)"

definition client_pane_clear :: "(string \<Rightarrow> float64 option) \<Rightarrow> (float64 \<Rightarrow> string) \<Rightarrow> (string \<Rightarrow> string) \<Rightarrow> pane_target \<Rightarrow> exchange \<Rightarrow>
    (go_error, unit) result \<times> dialed" where
  "client_pane_clear pf ff quote params x =
    typed_call pf ff quote ''pane.clear'' ''ok'' as_ok_response (x\<lparr>xc_params := Some (ok (cod_enc pane_target_codec params))\<rparr>)"

definition client_pane_clear_agent_authority :: "(string \<Rightarrow> float64 option) \<Rightarrow> (float64 \<Rightarrow> string) \<Rightarrow> (string \<Rightarrow> string) \<Rightarrow> pane_clear_agent_authority_params \<Rightarrow> exchange \<Rightarrow>
    (go_error, unit) result \<times> dialed" where
  "client_pane_clear_agent_authority pf ff quote params x =
    typed_call pf ff quote ''pane.clear_agent_authority'' ''ok'' as_ok_response (x\<lparr>xc_params := Some (ok (cod_enc pane_clear_agent_authority_params_codec params))\<rparr>)"

definition client_pane_close :: "(string \<Rightarrow> float64 option) \<Rightarrow> (float64 \<Rightarrow> string) \<Rightarrow> (string \<Rightarrow> string) \<Rightarrow> pane_target \<Rightarrow> exchange \<Rightarrow>
    (go_error, unit) result \<times> dialed" where
  "client_pane_close pf ff quote params x =
    typed_call pf ff quote ''pane.close'' ''ok'' as_ok_response (x\<lparr>xc_params := Some (ok (cod_enc pane_target_codec params))\<rparr>)"

definition client_pane_copy_motion :: "(string \<Rightarrow> float64 option) \<Rightarrow> (float64 \<Rightarrow> string) \<Rightarrow> (string \<Rightarrow> string) \<Rightarrow> pane_copy_motion_params \<Rightarrow> exchange \<Rightarrow>
    (go_error, pane_copy_motion_response) result \<times> dialed" where
  "client_pane_copy_motion pf ff quote params x =
    typed_call pf ff quote ''pane.copy_motion'' ''pane_copy_motion'' as_pane_copy_motion_response (x\<lparr>xc_params := Some (ok (cod_enc pane_copy_motion_params_codec params))\<rparr>)"

definition client_pane_copy_search :: "(string \<Rightarrow> float64 option) \<Rightarrow> (float64 \<Rightarrow> string) \<Rightarrow> (string \<Rightarrow> string) \<Rightarrow> pane_copy_search_params \<Rightarrow> exchange \<Rightarrow>
    (go_error, pane_copy_search_response) result \<times> dialed" where
  "client_pane_copy_search pf ff quote params x =
    typed_call pf ff quote ''pane.copy_search'' ''pane_copy_search'' as_pane_copy_search_response (x\<lparr>xc_params := Some (ok (cod_enc pane_copy_search_params_codec params))\<rparr>)"

definition client_pane_current :: "(string \<Rightarrow> float64 option) \<Rightarrow> (float64 \<Rightarrow> string) \<Rightarrow> (string \<Rightarrow> string) \<Rightarrow> pane_current_params \<Rightarrow> exchange \<Rightarrow>
    (go_error, pane_current_response) result \<times> dialed" where
  "client_pane_current pf ff quote params x =
    typed_call pf ff quote ''pane.current'' ''pane_current'' as_pane_current_response (x\<lparr>xc_params := Some (ok (cod_enc pane_current_params_codec params))\<rparr>)"

definition client_pane_edges :: "(string \<Rightarrow> float64 option) \<Rightarrow> (float64 \<Rightarrow> string) \<Rightarrow> (string \<Rightarrow> string) \<Rightarrow> pane_edges_params \<Rightarrow> exchange \<Rightarrow>
    (go_error, pane_edges_response) result \<times> dialed" where
  "client_pane_edges pf ff quote params x =
    typed_call pf ff quote ''pane.edges'' ''pane_edges'' as_pane_edges_response (x\<lparr>xc_params := Some (ok (cod_enc pane_edges_params_codec params))\<rparr>)"

definition client_pane_edit_scrollback :: "(string \<Rightarrow> float64 option) \<Rightarrow> (float64 \<Rightarrow> string) \<Rightarrow> (string \<Rightarrow> string) \<Rightarrow> pane_target \<Rightarrow> exchange \<Rightarrow>
    (go_error, unit) result \<times> dialed" where
  "client_pane_edit_scrollback pf ff quote params x =
    typed_call pf ff quote ''pane.edit_scrollback'' ''ok'' as_ok_response (x\<lparr>xc_params := Some (ok (cod_enc pane_target_codec params))\<rparr>)"

definition client_pane_focus :: "(string \<Rightarrow> float64 option) \<Rightarrow> (float64 \<Rightarrow> string) \<Rightarrow> (string \<Rightarrow> string) \<Rightarrow> pane_target \<Rightarrow> exchange \<Rightarrow>
    (go_error, pane_info_response) result \<times> dialed" where
  "client_pane_focus pf ff quote params x =
    typed_call pf ff quote ''pane.focus'' ''pane_info'' as_pane_info_response (x\<lparr>xc_params := Some (ok (cod_enc pane_target_codec params))\<rparr>)"

definition client_pane_focus_direction :: "(string \<Rightarrow> float64 option) \<Rightarrow> (float64 \<Rightarrow> string) \<Rightarrow> (string \<Rightarrow> string) \<Rightarrow> pane_focus_direction_params \<Rightarrow> exchange \<Rightarrow>
    (go_error, pane_focus_direction_response) result \<times> dialed" where
  "client_pane_focus_direction pf ff quote params x =
    typed_call pf ff quote ''pane.focus_direction'' ''pane_focus_direction'' as_pane_focus_direction_response (x\<lparr>xc_params := Some (ok (cod_enc pane_focus_direction_params_codec params))\<rparr>)"

definition client_pane_get :: "(string \<Rightarrow> float64 option) \<Rightarrow> (float64 \<Rightarrow> string) \<Rightarrow> (string \<Rightarrow> string) \<Rightarrow> pane_target \<Rightarrow> exchange \<Rightarrow>
    (go_error, pane_info_response) result \<times> dialed" where
  "client_pane_get pf ff quote params x =
    typed_call pf ff quote ''pane.get'' ''pane_info'' as_pane_info_response (x\<lparr>xc_params := Some (ok (cod_enc pane_target_codec params))\<rparr>)"

definition client_pane_input_set :: "(string \<Rightarrow> float64 option) \<Rightarrow> (float64 \<Rightarrow> string) \<Rightarrow> (string \<Rightarrow> string) \<Rightarrow> pane_input_set_params \<Rightarrow> exchange \<Rightarrow>
    (go_error, unit) result \<times> dialed" where
  "client_pane_input_set pf ff quote params x =
    typed_call pf ff quote ''pane.input.set'' ''ok'' as_ok_response (x\<lparr>xc_params := Some (ok (cod_enc pane_input_set_params_codec params))\<rparr>)"

definition client_pane_layout :: "(string \<Rightarrow> float64 option) \<Rightarrow> (float64 \<Rightarrow> string) \<Rightarrow> (string \<Rightarrow> string) \<Rightarrow> pane_layout_params \<Rightarrow> exchange \<Rightarrow>
    (go_error, pane_layout_response) result \<times> dialed" where
  "client_pane_layout pf ff quote params x =
    typed_call pf ff quote ''pane.layout'' ''pane_layout'' as_pane_layout_response (x\<lparr>xc_params := Some (ok (cod_enc pane_layout_params_codec params))\<rparr>)"

definition client_pane_link_activate :: "(string \<Rightarrow> float64 option) \<Rightarrow> (float64 \<Rightarrow> string) \<Rightarrow> (string \<Rightarrow> string) \<Rightarrow> pane_link_activate_params \<Rightarrow> exchange \<Rightarrow>
    (go_error, pane_link_activated_response) result \<times> dialed" where
  "client_pane_link_activate pf ff quote params x =
    typed_call pf ff quote ''pane.link.activate'' ''pane_link_activated'' as_pane_link_activated_response (x\<lparr>xc_params := Some (ok (cod_enc pane_link_activate_params_codec params))\<rparr>)"

definition client_pane_link_resolve :: "(string \<Rightarrow> float64 option) \<Rightarrow> (float64 \<Rightarrow> string) \<Rightarrow> (string \<Rightarrow> string) \<Rightarrow> pane_link_activate_params \<Rightarrow> exchange \<Rightarrow>
    (go_error, pane_link_resolved_response) result \<times> dialed" where
  "client_pane_link_resolve pf ff quote params x =
    typed_call pf ff quote ''pane.link.resolve'' ''pane_link_resolved'' as_pane_link_resolved_response (x\<lparr>xc_params := Some (ok (cod_enc pane_link_activate_params_codec params))\<rparr>)"

definition client_pane_list :: "(string \<Rightarrow> float64 option) \<Rightarrow> (float64 \<Rightarrow> string) \<Rightarrow> (string \<Rightarrow> string) \<Rightarrow> pane_list_params \<Rightarrow> exchange \<Rightarrow>
    (go_error, pane_list_response) result \<times> dialed" where
  "client_pane_list pf ff quote params x =
    typed_call pf ff quote ''pane.list'' ''pane_list'' as_pane_list_response (x\<lparr>xc_params := Some (ok (cod_enc pane_list_params_codec params))\<rparr>)"

definition client_pane_move :: "(string \<Rightarrow> float64 option) \<Rightarrow> (float64 \<Rightarrow> string) \<Rightarrow> (string \<Rightarrow> string) \<Rightarrow> pane_move_params \<Rightarrow> exchange \<Rightarrow>
    (go_error, pane_move_response) result \<times> dialed" where
  "client_pane_move pf ff quote params x =
    typed_call pf ff quote ''pane.move'' ''pane_move'' as_pane_move_response (x\<lparr>xc_params := Some (marshal_checked pane_move_params_marshals (pane_move_params_codec pf ff) params)\<rparr>)"

definition client_pane_neighbor :: "(string \<Rightarrow> float64 option) \<Rightarrow> (float64 \<Rightarrow> string) \<Rightarrow> (string \<Rightarrow> string) \<Rightarrow> pane_neighbor_params \<Rightarrow> exchange \<Rightarrow>
    (go_error, pane_neighbor_response) result \<times> dialed" where
  "client_pane_neighbor pf ff quote params x =
    typed_call pf ff quote ''pane.neighbor'' ''pane_neighbor'' as_pane_neighbor_response (x\<lparr>xc_params := Some (ok (cod_enc pane_neighbor_params_codec params))\<rparr>)"

definition client_pane_process_info :: "(string \<Rightarrow> float64 option) \<Rightarrow> (float64 \<Rightarrow> string) \<Rightarrow> (string \<Rightarrow> string) \<Rightarrow> pane_process_info_params \<Rightarrow> exchange \<Rightarrow>
    (go_error, pane_process_info_response) result \<times> dialed" where
  "client_pane_process_info pf ff quote params x =
    typed_call pf ff quote ''pane.process_info'' ''pane_process_info'' as_pane_process_info_response (x\<lparr>xc_params := Some (ok (cod_enc pane_process_info_params_codec params))\<rparr>)"

definition client_pane_read :: "(string \<Rightarrow> float64 option) \<Rightarrow> (float64 \<Rightarrow> string) \<Rightarrow> (string \<Rightarrow> string) \<Rightarrow> pane_read_params \<Rightarrow> exchange \<Rightarrow>
    (go_error, pane_read_response) result \<times> dialed" where
  "client_pane_read pf ff quote params x =
    typed_call pf ff quote ''pane.read'' ''pane_read'' as_pane_read_response (x\<lparr>xc_params := Some (ok (cod_enc pane_read_params_codec params))\<rparr>)"

definition client_pane_release_agent :: "(string \<Rightarrow> float64 option) \<Rightarrow> (float64 \<Rightarrow> string) \<Rightarrow> (string \<Rightarrow> string) \<Rightarrow> pane_release_agent_params \<Rightarrow> exchange \<Rightarrow>
    (go_error, unit) result \<times> dialed" where
  "client_pane_release_agent pf ff quote params x =
    typed_call pf ff quote ''pane.release_agent'' ''ok'' as_ok_response (x\<lparr>xc_params := Some (ok (cod_enc pane_release_agent_params_codec params))\<rparr>)"

definition client_pane_rename :: "(string \<Rightarrow> float64 option) \<Rightarrow> (float64 \<Rightarrow> string) \<Rightarrow> (string \<Rightarrow> string) \<Rightarrow> pane_rename_params \<Rightarrow> exchange \<Rightarrow>
    (go_error, pane_info_response) result \<times> dialed" where
  "client_pane_rename pf ff quote params x =
    typed_call pf ff quote ''pane.rename'' ''pane_info'' as_pane_info_response (x\<lparr>xc_params := Some (ok (cod_enc pane_rename_params_codec params))\<rparr>)"

definition client_pane_report_agent :: "(string \<Rightarrow> float64 option) \<Rightarrow> (float64 \<Rightarrow> string) \<Rightarrow> (string \<Rightarrow> string) \<Rightarrow> pane_report_agent_params \<Rightarrow> exchange \<Rightarrow>
    (go_error, unit) result \<times> dialed" where
  "client_pane_report_agent pf ff quote params x =
    typed_call pf ff quote ''pane.report_agent'' ''ok'' as_ok_response (x\<lparr>xc_params := Some (ok (cod_enc pane_report_agent_params_codec params))\<rparr>)"

definition client_pane_report_agent_session :: "(string \<Rightarrow> float64 option) \<Rightarrow> (float64 \<Rightarrow> string) \<Rightarrow> (string \<Rightarrow> string) \<Rightarrow> pane_report_agent_session_params \<Rightarrow> exchange \<Rightarrow>
    (go_error, unit) result \<times> dialed" where
  "client_pane_report_agent_session pf ff quote params x =
    typed_call pf ff quote ''pane.report_agent_session'' ''ok'' as_ok_response (x\<lparr>xc_params := Some (ok (cod_enc pane_report_agent_session_params_codec params))\<rparr>)"

definition client_pane_report_metadata :: "(string \<Rightarrow> float64 option) \<Rightarrow> (float64 \<Rightarrow> string) \<Rightarrow> (string \<Rightarrow> string) \<Rightarrow> pane_report_metadata_params \<Rightarrow> exchange \<Rightarrow>
    (go_error, unit) result \<times> dialed" where
  "client_pane_report_metadata pf ff quote params x =
    typed_call pf ff quote ''pane.report_metadata'' ''ok'' as_ok_response (x\<lparr>xc_params := Some (ok (cod_enc pane_report_metadata_params_codec params))\<rparr>)"

definition client_pane_resize :: "(string \<Rightarrow> float64 option) \<Rightarrow> (float64 \<Rightarrow> string) \<Rightarrow> (string \<Rightarrow> string) \<Rightarrow> pane_resize_params \<Rightarrow> exchange \<Rightarrow>
    (go_error, pane_resize_response) result \<times> dialed" where
  "client_pane_resize pf ff quote params x =
    typed_call pf ff quote ''pane.resize'' ''pane_resize'' as_pane_resize_response (x\<lparr>xc_params := Some (marshal_checked pane_resize_params_marshals (pane_resize_params_codec pf ff) params)\<rparr>)"

definition client_pane_scroll :: "(string \<Rightarrow> float64 option) \<Rightarrow> (float64 \<Rightarrow> string) \<Rightarrow> (string \<Rightarrow> string) \<Rightarrow> pane_scroll_params \<Rightarrow> exchange \<Rightarrow>
    (go_error, pane_info_response) result \<times> dialed" where
  "client_pane_scroll pf ff quote params x =
    typed_call pf ff quote ''pane.scroll'' ''pane_info'' as_pane_info_response (x\<lparr>xc_params := Some (ok (cod_enc pane_scroll_params_codec params))\<rparr>)"

definition client_pane_selection_read :: "(string \<Rightarrow> float64 option) \<Rightarrow> (float64 \<Rightarrow> string) \<Rightarrow> (string \<Rightarrow> string) \<Rightarrow> pane_selection_read_params \<Rightarrow> exchange \<Rightarrow>
    (go_error, pane_selection_response) result \<times> dialed" where
  "client_pane_selection_read pf ff quote params x =
    typed_call pf ff quote ''pane.selection.read'' ''pane_selection'' as_pane_selection_response (x\<lparr>xc_params := Some (ok (cod_enc pane_selection_read_params_codec params))\<rparr>)"

definition client_pane_send_input :: "(string \<Rightarrow> float64 option) \<Rightarrow> (float64 \<Rightarrow> string) \<Rightarrow> (string \<Rightarrow> string) \<Rightarrow> pane_send_input_params \<Rightarrow> exchange \<Rightarrow>
    (go_error, unit) result \<times> dialed" where
  "client_pane_send_input pf ff quote params x =
    typed_call pf ff quote ''pane.send_input'' ''ok'' as_ok_response (x\<lparr>xc_params := Some (ok (cod_enc pane_send_input_params_codec params))\<rparr>)"

definition client_pane_send_keys :: "(string \<Rightarrow> float64 option) \<Rightarrow> (float64 \<Rightarrow> string) \<Rightarrow> (string \<Rightarrow> string) \<Rightarrow> pane_send_keys_params \<Rightarrow> exchange \<Rightarrow>
    (go_error, unit) result \<times> dialed" where
  "client_pane_send_keys pf ff quote params x =
    typed_call pf ff quote ''pane.send_keys'' ''ok'' as_ok_response (x\<lparr>xc_params := Some (ok (cod_enc pane_send_keys_params_codec params))\<rparr>)"

definition client_pane_send_text :: "(string \<Rightarrow> float64 option) \<Rightarrow> (float64 \<Rightarrow> string) \<Rightarrow> (string \<Rightarrow> string) \<Rightarrow> pane_send_text_params \<Rightarrow> exchange \<Rightarrow>
    (go_error, unit) result \<times> dialed" where
  "client_pane_send_text pf ff quote params x =
    typed_call pf ff quote ''pane.send_text'' ''ok'' as_ok_response (x\<lparr>xc_params := Some (ok (cod_enc pane_send_text_params_codec params))\<rparr>)"

definition client_pane_split :: "(string \<Rightarrow> float64 option) \<Rightarrow> (float64 \<Rightarrow> string) \<Rightarrow> (string \<Rightarrow> string) \<Rightarrow> pane_split_params \<Rightarrow> exchange \<Rightarrow>
    (go_error, pane_info_response) result \<times> dialed" where
  "client_pane_split pf ff quote params x =
    typed_call pf ff quote ''pane.split'' ''pane_info'' as_pane_info_response (x\<lparr>xc_params := Some (marshal_checked pane_split_params_marshals (pane_split_params_codec pf ff) params)\<rparr>)"

definition client_pane_swap :: "(string \<Rightarrow> float64 option) \<Rightarrow> (float64 \<Rightarrow> string) \<Rightarrow> (string \<Rightarrow> string) \<Rightarrow> pane_swap_params \<Rightarrow> exchange \<Rightarrow>
    (go_error, pane_swap_response) result \<times> dialed" where
  "client_pane_swap pf ff quote params x =
    typed_call pf ff quote ''pane.swap'' ''pane_swap'' as_pane_swap_response (x\<lparr>xc_params := Some (ok (cod_enc pane_swap_params_codec params))\<rparr>)"

definition client_pane_wait_for_output :: "(string \<Rightarrow> float64 option) \<Rightarrow> (float64 \<Rightarrow> string) \<Rightarrow> (string \<Rightarrow> string) \<Rightarrow> pane_wait_for_output_params \<Rightarrow> exchange \<Rightarrow>
    (go_error, output_matched_response) result \<times> dialed" where
  "client_pane_wait_for_output pf ff quote params x =
    typed_call pf ff quote ''pane.wait_for_output'' ''output_matched'' as_output_matched_response (x\<lparr>xc_params := Some (ok (cod_enc pane_wait_for_output_params_codec params))\<rparr>)"

definition client_pane_zoom :: "(string \<Rightarrow> float64 option) \<Rightarrow> (float64 \<Rightarrow> string) \<Rightarrow> (string \<Rightarrow> string) \<Rightarrow> pane_zoom_params \<Rightarrow> exchange \<Rightarrow>
    (go_error, pane_zoom_response) result \<times> dialed" where
  "client_pane_zoom pf ff quote params x =
    typed_call pf ff quote ''pane.zoom'' ''pane_zoom'' as_pane_zoom_response (x\<lparr>xc_params := Some (ok (cod_enc pane_zoom_params_codec params))\<rparr>)"

definition client_ping :: "(string \<Rightarrow> float64 option) \<Rightarrow> (float64 \<Rightarrow> string) \<Rightarrow> (string \<Rightarrow> string) \<Rightarrow> exchange \<Rightarrow>
    (go_error, pong_response) result \<times> dialed" where
  "client_ping pf ff quote x =
    typed_call pf ff quote ''ping'' ''pong'' as_pong_response (x\<lparr>xc_params := None\<rparr>)"

definition client_plugin_action_invoke :: "(string \<Rightarrow> float64 option) \<Rightarrow> (float64 \<Rightarrow> string) \<Rightarrow> (string \<Rightarrow> string) \<Rightarrow> plugin_action_invoke_params \<Rightarrow> exchange \<Rightarrow>
    (go_error, plugin_action_invoked_response) result \<times> dialed" where
  "client_plugin_action_invoke pf ff quote params x =
    typed_call pf ff quote ''plugin.action.invoke'' ''plugin_action_invoked'' as_plugin_action_invoked_response (x\<lparr>xc_params := Some (ok (cod_enc plugin_action_invoke_params_codec params))\<rparr>)"

definition client_plugin_action_list :: "(string \<Rightarrow> float64 option) \<Rightarrow> (float64 \<Rightarrow> string) \<Rightarrow> (string \<Rightarrow> string) \<Rightarrow> plugin_action_list_params \<Rightarrow> exchange \<Rightarrow>
    (go_error, plugin_action_list_response) result \<times> dialed" where
  "client_plugin_action_list pf ff quote params x =
    typed_call pf ff quote ''plugin.action.list'' ''plugin_action_list'' as_plugin_action_list_response (x\<lparr>xc_params := Some (ok (cod_enc plugin_action_list_params_codec params))\<rparr>)"

definition client_plugin_disable :: "(string \<Rightarrow> float64 option) \<Rightarrow> (float64 \<Rightarrow> string) \<Rightarrow> (string \<Rightarrow> string) \<Rightarrow> plugin_set_enabled_params \<Rightarrow> exchange \<Rightarrow>
    (go_error, plugin_disabled_response) result \<times> dialed" where
  "client_plugin_disable pf ff quote params x =
    typed_call pf ff quote ''plugin.disable'' ''plugin_disabled'' as_plugin_disabled_response (x\<lparr>xc_params := Some (ok (cod_enc plugin_set_enabled_params_codec params))\<rparr>)"

definition client_plugin_enable :: "(string \<Rightarrow> float64 option) \<Rightarrow> (float64 \<Rightarrow> string) \<Rightarrow> (string \<Rightarrow> string) \<Rightarrow> plugin_set_enabled_params \<Rightarrow> exchange \<Rightarrow>
    (go_error, plugin_enabled_response) result \<times> dialed" where
  "client_plugin_enable pf ff quote params x =
    typed_call pf ff quote ''plugin.enable'' ''plugin_enabled'' as_plugin_enabled_response (x\<lparr>xc_params := Some (ok (cod_enc plugin_set_enabled_params_codec params))\<rparr>)"

definition client_plugin_link :: "(string \<Rightarrow> float64 option) \<Rightarrow> (float64 \<Rightarrow> string) \<Rightarrow> (string \<Rightarrow> string) \<Rightarrow> plugin_link_params \<Rightarrow> exchange \<Rightarrow>
    (go_error, plugin_linked_response) result \<times> dialed" where
  "client_plugin_link pf ff quote params x =
    typed_call pf ff quote ''plugin.link'' ''plugin_linked'' as_plugin_linked_response (x\<lparr>xc_params := Some (ok (cod_enc plugin_link_params_codec params))\<rparr>)"

definition client_plugin_list :: "(string \<Rightarrow> float64 option) \<Rightarrow> (float64 \<Rightarrow> string) \<Rightarrow> (string \<Rightarrow> string) \<Rightarrow> plugin_list_params \<Rightarrow> exchange \<Rightarrow>
    (go_error, plugin_list_response) result \<times> dialed" where
  "client_plugin_list pf ff quote params x =
    typed_call pf ff quote ''plugin.list'' ''plugin_list'' as_plugin_list_response (x\<lparr>xc_params := Some (ok (cod_enc plugin_list_params_codec params))\<rparr>)"

definition client_plugin_log_list :: "(string \<Rightarrow> float64 option) \<Rightarrow> (float64 \<Rightarrow> string) \<Rightarrow> (string \<Rightarrow> string) \<Rightarrow> plugin_log_list_params \<Rightarrow> exchange \<Rightarrow>
    (go_error, plugin_log_list_response) result \<times> dialed" where
  "client_plugin_log_list pf ff quote params x =
    typed_call pf ff quote ''plugin.log.list'' ''plugin_log_list'' as_plugin_log_list_response (x\<lparr>xc_params := Some (ok (cod_enc plugin_log_list_params_codec params))\<rparr>)"

definition client_plugin_pane_close :: "(string \<Rightarrow> float64 option) \<Rightarrow> (float64 \<Rightarrow> string) \<Rightarrow> (string \<Rightarrow> string) \<Rightarrow> plugin_pane_close_params \<Rightarrow> exchange \<Rightarrow>
    (go_error, plugin_pane_closed_response) result \<times> dialed" where
  "client_plugin_pane_close pf ff quote params x =
    typed_call pf ff quote ''plugin.pane.close'' ''plugin_pane_closed'' as_plugin_pane_closed_response (x\<lparr>xc_params := Some (ok (cod_enc plugin_pane_close_params_codec params))\<rparr>)"

definition client_plugin_pane_focus :: "(string \<Rightarrow> float64 option) \<Rightarrow> (float64 \<Rightarrow> string) \<Rightarrow> (string \<Rightarrow> string) \<Rightarrow> plugin_pane_focus_params \<Rightarrow> exchange \<Rightarrow>
    (go_error, plugin_pane_focused_response) result \<times> dialed" where
  "client_plugin_pane_focus pf ff quote params x =
    typed_call pf ff quote ''plugin.pane.focus'' ''plugin_pane_focused'' as_plugin_pane_focused_response (x\<lparr>xc_params := Some (ok (cod_enc plugin_pane_focus_params_codec params))\<rparr>)"

definition client_plugin_pane_open :: "(string \<Rightarrow> float64 option) \<Rightarrow> (float64 \<Rightarrow> string) \<Rightarrow> (string \<Rightarrow> string) \<Rightarrow> plugin_pane_open_params \<Rightarrow> exchange \<Rightarrow>
    (go_error, api_result) result \<times> dialed" where
  "client_plugin_pane_open pf ff quote params x =
    any_call pf ff quote ''plugin.pane.open'' (x\<lparr>xc_params := Some (marshal_checked plugin_pane_open_params_marshals (plugin_pane_open_params_codec quote) params)\<rparr>)"

definition client_plugin_unlink :: "(string \<Rightarrow> float64 option) \<Rightarrow> (float64 \<Rightarrow> string) \<Rightarrow> (string \<Rightarrow> string) \<Rightarrow> plugin_unlink_params \<Rightarrow> exchange \<Rightarrow>
    (go_error, plugin_unlinked_response) result \<times> dialed" where
  "client_plugin_unlink pf ff quote params x =
    typed_call pf ff quote ''plugin.unlink'' ''plugin_unlinked'' as_plugin_unlinked_response (x\<lparr>xc_params := Some (ok (cod_enc plugin_unlink_params_codec params))\<rparr>)"

definition client_popup_close :: "(string \<Rightarrow> float64 option) \<Rightarrow> (float64 \<Rightarrow> string) \<Rightarrow> (string \<Rightarrow> string) \<Rightarrow> exchange \<Rightarrow>
    (go_error, unit) result \<times> dialed" where
  "client_popup_close pf ff quote x =
    typed_call pf ff quote ''popup.close'' ''ok'' as_ok_response (x\<lparr>xc_params := None\<rparr>)"

definition client_product_announcement_dismiss :: "(string \<Rightarrow> float64 option) \<Rightarrow> (float64 \<Rightarrow> string) \<Rightarrow> (string \<Rightarrow> string) \<Rightarrow> product_announcement_dismiss_params \<Rightarrow> exchange \<Rightarrow>
    (go_error, unit) result \<times> dialed" where
  "client_product_announcement_dismiss pf ff quote params x =
    typed_call pf ff quote ''product_announcement.dismiss'' ''ok'' as_ok_response (x\<lparr>xc_params := Some (ok (cod_enc product_announcement_dismiss_params_codec params))\<rparr>)"

definition client_release_notes_dismiss :: "(string \<Rightarrow> float64 option) \<Rightarrow> (float64 \<Rightarrow> string) \<Rightarrow> (string \<Rightarrow> string) \<Rightarrow> release_notes_dismiss_params \<Rightarrow> exchange \<Rightarrow>
    (go_error, unit) result \<times> dialed" where
  "client_release_notes_dismiss pf ff quote params x =
    typed_call pf ff quote ''release_notes.dismiss'' ''ok'' as_ok_response (x\<lparr>xc_params := Some (ok (cod_enc release_notes_dismiss_params_codec params))\<rparr>)"

definition client_server_agent_manifests :: "(string \<Rightarrow> float64 option) \<Rightarrow> (float64 \<Rightarrow> string) \<Rightarrow> (string \<Rightarrow> string) \<Rightarrow> exchange \<Rightarrow>
    (go_error, agent_manifest_status_response) result \<times> dialed" where
  "client_server_agent_manifests pf ff quote x =
    typed_call pf ff quote ''server.agent_manifests'' ''agent_manifest_status'' as_agent_manifest_status_response (x\<lparr>xc_params := None\<rparr>)"

definition client_server_live_handoff :: "(string \<Rightarrow> float64 option) \<Rightarrow> (float64 \<Rightarrow> string) \<Rightarrow> (string \<Rightarrow> string) \<Rightarrow> server_live_handoff_params \<Rightarrow> exchange \<Rightarrow>
    (go_error, api_result) result \<times> dialed" where
  "client_server_live_handoff pf ff quote params x =
    any_call pf ff quote ''server.live_handoff'' (x\<lparr>xc_params := Some (ok (cod_enc server_live_handoff_params_codec params))\<rparr>)"

definition client_server_reload_agent_manifests :: "(string \<Rightarrow> float64 option) \<Rightarrow> (float64 \<Rightarrow> string) \<Rightarrow> (string \<Rightarrow> string) \<Rightarrow> exchange \<Rightarrow>
    (go_error, agent_manifest_reload_response) result \<times> dialed" where
  "client_server_reload_agent_manifests pf ff quote x =
    typed_call pf ff quote ''server.reload_agent_manifests'' ''agent_manifest_reload'' as_agent_manifest_reload_response (x\<lparr>xc_params := None\<rparr>)"

definition client_server_reload_config :: "(string \<Rightarrow> float64 option) \<Rightarrow> (float64 \<Rightarrow> string) \<Rightarrow> (string \<Rightarrow> string) \<Rightarrow> exchange \<Rightarrow>
    (go_error, config_reload_response) result \<times> dialed" where
  "client_server_reload_config pf ff quote x =
    typed_call pf ff quote ''server.reload_config'' ''config_reload'' as_config_reload_response (x\<lparr>xc_params := None\<rparr>)"

definition client_server_ssh_agent_register :: "server_ssh_agent_register_params \<Rightarrow> exchange \<Rightarrow>
    (go_error, stream) result \<times> dialed" where
  "client_server_ssh_agent_register params x =
    open_stream ''server.ssh_agent.register'' (x\<lparr>xc_params := Some (ok (cod_enc server_ssh_agent_register_params_codec params))\<rparr>)"

definition client_server_stop :: "(string \<Rightarrow> float64 option) \<Rightarrow> (float64 \<Rightarrow> string) \<Rightarrow> (string \<Rightarrow> string) \<Rightarrow> exchange \<Rightarrow>
    (go_error, unit) result \<times> dialed" where
  "client_server_stop pf ff quote x =
    typed_call pf ff quote ''server.stop'' ''ok'' as_ok_response (x\<lparr>xc_params := None\<rparr>)"

definition client_session_snapshot :: "(string \<Rightarrow> float64 option) \<Rightarrow> (float64 \<Rightarrow> string) \<Rightarrow> (string \<Rightarrow> string) \<Rightarrow> exchange \<Rightarrow>
    (go_error, session_snapshot_response) result \<times> dialed" where
  "client_session_snapshot pf ff quote x =
    typed_call pf ff quote ''session.snapshot'' ''session_snapshot'' as_session_snapshot_response (x\<lparr>xc_params := None\<rparr>)"

definition client_tab_close :: "(string \<Rightarrow> float64 option) \<Rightarrow> (float64 \<Rightarrow> string) \<Rightarrow> (string \<Rightarrow> string) \<Rightarrow> tab_target \<Rightarrow> exchange \<Rightarrow>
    (go_error, unit) result \<times> dialed" where
  "client_tab_close pf ff quote params x =
    typed_call pf ff quote ''tab.close'' ''ok'' as_ok_response (x\<lparr>xc_params := Some (ok (cod_enc tab_target_codec params))\<rparr>)"

definition client_tab_create :: "(string \<Rightarrow> float64 option) \<Rightarrow> (float64 \<Rightarrow> string) \<Rightarrow> (string \<Rightarrow> string) \<Rightarrow> tab_create_params \<Rightarrow> exchange \<Rightarrow>
    (go_error, tab_created_response) result \<times> dialed" where
  "client_tab_create pf ff quote params x =
    typed_call pf ff quote ''tab.create'' ''tab_created'' as_tab_created_response (x\<lparr>xc_params := Some (ok (cod_enc tab_create_params_codec params))\<rparr>)"

definition client_tab_focus :: "(string \<Rightarrow> float64 option) \<Rightarrow> (float64 \<Rightarrow> string) \<Rightarrow> (string \<Rightarrow> string) \<Rightarrow> tab_target \<Rightarrow> exchange \<Rightarrow>
    (go_error, tab_info_response) result \<times> dialed" where
  "client_tab_focus pf ff quote params x =
    typed_call pf ff quote ''tab.focus'' ''tab_info'' as_tab_info_response (x\<lparr>xc_params := Some (ok (cod_enc tab_target_codec params))\<rparr>)"

definition client_tab_get :: "(string \<Rightarrow> float64 option) \<Rightarrow> (float64 \<Rightarrow> string) \<Rightarrow> (string \<Rightarrow> string) \<Rightarrow> tab_target \<Rightarrow> exchange \<Rightarrow>
    (go_error, tab_info_response) result \<times> dialed" where
  "client_tab_get pf ff quote params x =
    typed_call pf ff quote ''tab.get'' ''tab_info'' as_tab_info_response (x\<lparr>xc_params := Some (ok (cod_enc tab_target_codec params))\<rparr>)"

definition client_tab_list :: "(string \<Rightarrow> float64 option) \<Rightarrow> (float64 \<Rightarrow> string) \<Rightarrow> (string \<Rightarrow> string) \<Rightarrow> tab_list_params \<Rightarrow> exchange \<Rightarrow>
    (go_error, tab_list_response) result \<times> dialed" where
  "client_tab_list pf ff quote params x =
    typed_call pf ff quote ''tab.list'' ''tab_list'' as_tab_list_response (x\<lparr>xc_params := Some (ok (cod_enc tab_list_params_codec params))\<rparr>)"

definition client_tab_move :: "(string \<Rightarrow> float64 option) \<Rightarrow> (float64 \<Rightarrow> string) \<Rightarrow> (string \<Rightarrow> string) \<Rightarrow> tab_move_params \<Rightarrow> exchange \<Rightarrow>
    (go_error, tab_list_response) result \<times> dialed" where
  "client_tab_move pf ff quote params x =
    typed_call pf ff quote ''tab.move'' ''tab_list'' as_tab_list_response (x\<lparr>xc_params := Some (ok (cod_enc tab_move_params_codec params))\<rparr>)"

definition client_tab_rename :: "(string \<Rightarrow> float64 option) \<Rightarrow> (float64 \<Rightarrow> string) \<Rightarrow> (string \<Rightarrow> string) \<Rightarrow> tab_rename_params \<Rightarrow> exchange \<Rightarrow>
    (go_error, tab_info_response) result \<times> dialed" where
  "client_tab_rename pf ff quote params x =
    typed_call pf ff quote ''tab.rename'' ''tab_info'' as_tab_info_response (x\<lparr>xc_params := Some (ok (cod_enc tab_rename_params_codec params))\<rparr>)"

definition client_workspace_close :: "(string \<Rightarrow> float64 option) \<Rightarrow> (float64 \<Rightarrow> string) \<Rightarrow> (string \<Rightarrow> string) \<Rightarrow> workspace_close_params \<Rightarrow> exchange \<Rightarrow>
    (go_error, unit) result \<times> dialed" where
  "client_workspace_close pf ff quote params x =
    typed_call pf ff quote ''workspace.close'' ''ok'' as_ok_response (x\<lparr>xc_params := Some (ok (cod_enc workspace_close_params_codec params))\<rparr>)"

definition client_workspace_create :: "(string \<Rightarrow> float64 option) \<Rightarrow> (float64 \<Rightarrow> string) \<Rightarrow> (string \<Rightarrow> string) \<Rightarrow> workspace_create_params \<Rightarrow> exchange \<Rightarrow>
    (go_error, workspace_created_response) result \<times> dialed" where
  "client_workspace_create pf ff quote params x =
    typed_call pf ff quote ''workspace.create'' ''workspace_created'' as_workspace_created_response (x\<lparr>xc_params := Some (ok (cod_enc workspace_create_params_codec params))\<rparr>)"

definition client_workspace_focus :: "(string \<Rightarrow> float64 option) \<Rightarrow> (float64 \<Rightarrow> string) \<Rightarrow> (string \<Rightarrow> string) \<Rightarrow> workspace_target \<Rightarrow> exchange \<Rightarrow>
    (go_error, workspace_info_response) result \<times> dialed" where
  "client_workspace_focus pf ff quote params x =
    typed_call pf ff quote ''workspace.focus'' ''workspace_info'' as_workspace_info_response (x\<lparr>xc_params := Some (ok (cod_enc workspace_target_codec params))\<rparr>)"

definition client_workspace_get :: "(string \<Rightarrow> float64 option) \<Rightarrow> (float64 \<Rightarrow> string) \<Rightarrow> (string \<Rightarrow> string) \<Rightarrow> workspace_target \<Rightarrow> exchange \<Rightarrow>
    (go_error, workspace_info_response) result \<times> dialed" where
  "client_workspace_get pf ff quote params x =
    typed_call pf ff quote ''workspace.get'' ''workspace_info'' as_workspace_info_response (x\<lparr>xc_params := Some (ok (cod_enc workspace_target_codec params))\<rparr>)"

definition client_workspace_list :: "(string \<Rightarrow> float64 option) \<Rightarrow> (float64 \<Rightarrow> string) \<Rightarrow> (string \<Rightarrow> string) \<Rightarrow> exchange \<Rightarrow>
    (go_error, workspace_list_response) result \<times> dialed" where
  "client_workspace_list pf ff quote x =
    typed_call pf ff quote ''workspace.list'' ''workspace_list'' as_workspace_list_response (x\<lparr>xc_params := None\<rparr>)"

definition client_workspace_move :: "(string \<Rightarrow> float64 option) \<Rightarrow> (float64 \<Rightarrow> string) \<Rightarrow> (string \<Rightarrow> string) \<Rightarrow> workspace_move_params \<Rightarrow> exchange \<Rightarrow>
    (go_error, workspace_list_response) result \<times> dialed" where
  "client_workspace_move pf ff quote params x =
    typed_call pf ff quote ''workspace.move'' ''workspace_list'' as_workspace_list_response (x\<lparr>xc_params := Some (ok (cod_enc workspace_move_params_codec params))\<rparr>)"

definition client_workspace_move_block :: "(string \<Rightarrow> float64 option) \<Rightarrow> (float64 \<Rightarrow> string) \<Rightarrow> (string \<Rightarrow> string) \<Rightarrow> workspace_move_block_params \<Rightarrow> exchange \<Rightarrow>
    (go_error, workspace_list_response) result \<times> dialed" where
  "client_workspace_move_block pf ff quote params x =
    typed_call pf ff quote ''workspace.move_block'' ''workspace_list'' as_workspace_list_response (x\<lparr>xc_params := Some (ok (cod_enc workspace_move_block_params_codec params))\<rparr>)"

definition client_workspace_rename :: "(string \<Rightarrow> float64 option) \<Rightarrow> (float64 \<Rightarrow> string) \<Rightarrow> (string \<Rightarrow> string) \<Rightarrow> workspace_rename_params \<Rightarrow> exchange \<Rightarrow>
    (go_error, workspace_info_response) result \<times> dialed" where
  "client_workspace_rename pf ff quote params x =
    typed_call pf ff quote ''workspace.rename'' ''workspace_info'' as_workspace_info_response (x\<lparr>xc_params := Some (ok (cod_enc workspace_rename_params_codec params))\<rparr>)"

definition client_workspace_report_metadata :: "(string \<Rightarrow> float64 option) \<Rightarrow> (float64 \<Rightarrow> string) \<Rightarrow> (string \<Rightarrow> string) \<Rightarrow> workspace_report_metadata_params \<Rightarrow> exchange \<Rightarrow>
    (go_error, unit) result \<times> dialed" where
  "client_workspace_report_metadata pf ff quote params x =
    typed_call pf ff quote ''workspace.report_metadata'' ''ok'' as_ok_response (x\<lparr>xc_params := Some (ok (cod_enc workspace_report_metadata_params_codec params))\<rparr>)"

definition client_worktree_create :: "(string \<Rightarrow> float64 option) \<Rightarrow> (float64 \<Rightarrow> string) \<Rightarrow> (string \<Rightarrow> string) \<Rightarrow> worktree_create_params \<Rightarrow> exchange \<Rightarrow>
    (go_error, worktree_created_response) result \<times> dialed" where
  "client_worktree_create pf ff quote params x =
    typed_call pf ff quote ''worktree.create'' ''worktree_created'' as_worktree_created_response (x\<lparr>xc_params := Some (ok (cod_enc worktree_create_params_codec params))\<rparr>)"

definition client_worktree_list :: "(string \<Rightarrow> float64 option) \<Rightarrow> (float64 \<Rightarrow> string) \<Rightarrow> (string \<Rightarrow> string) \<Rightarrow> worktree_list_params \<Rightarrow> exchange \<Rightarrow>
    (go_error, worktree_list_response) result \<times> dialed" where
  "client_worktree_list pf ff quote params x =
    typed_call pf ff quote ''worktree.list'' ''worktree_list'' as_worktree_list_response (x\<lparr>xc_params := Some (ok (cod_enc worktree_list_params_codec params))\<rparr>)"

definition client_worktree_open :: "(string \<Rightarrow> float64 option) \<Rightarrow> (float64 \<Rightarrow> string) \<Rightarrow> (string \<Rightarrow> string) \<Rightarrow> worktree_open_params \<Rightarrow> exchange \<Rightarrow>
    (go_error, worktree_opened_response) result \<times> dialed" where
  "client_worktree_open pf ff quote params x =
    typed_call pf ff quote ''worktree.open'' ''worktree_opened'' as_worktree_opened_response (x\<lparr>xc_params := Some (ok (cod_enc worktree_open_params_codec params))\<rparr>)"

definition client_worktree_remove :: "(string \<Rightarrow> float64 option) \<Rightarrow> (float64 \<Rightarrow> string) \<Rightarrow> (string \<Rightarrow> string) \<Rightarrow> worktree_remove_params \<Rightarrow> exchange \<Rightarrow>
    (go_error, worktree_removed_response) result \<times> dialed" where
  "client_worktree_remove pf ff quote params x =
    typed_call pf ff quote ''worktree.remove'' ''worktree_removed'' as_worktree_removed_response (x\<lparr>xc_params := Some (ok (cod_enc worktree_remove_params_codec params))\<rparr>)"

subsection \<open>The contract of the typed methods\<close>

text \<open>A type assertion succeeds on the results of one type tag and yields what they hold.\<close>

lemma agent_explain_response_asserted: "asserts as_agent_explain_response AgentExplainResponse ''agent_explain''"
  by (rule assertsI) (simp_all add: as_agent_explain_response_def split: api_result.split)

lemma agent_info_response_asserted: "asserts as_agent_info_response AgentInfoResponse ''agent_info''"
  by (rule assertsI) (simp_all add: as_agent_info_response_def split: api_result.split)

lemma agent_list_response_asserted: "asserts as_agent_list_response AgentListResponse ''agent_list''"
  by (rule assertsI) (simp_all add: as_agent_list_response_def split: api_result.split)

lemma agent_prompted_response_asserted: "asserts as_agent_prompted_response AgentPromptedResponse ''agent_prompted''"
  by (rule assertsI) (simp_all add: as_agent_prompted_response_def split: api_result.split)

lemma pane_read_response_asserted: "asserts as_pane_read_response PaneReadResponse ''pane_read''"
  by (rule assertsI) (simp_all add: as_pane_read_response_def split: api_result.split)

lemma ok_response_asserted: "asserts as_ok_response (\<lambda>_. OKResponse) ''ok''"
  by (rule assertsI) (simp_all add: as_ok_response_def split: api_result.split)

lemma agent_started_response_asserted: "asserts as_agent_started_response AgentStartedResponse ''agent_started''"
  by (rule assertsI) (simp_all add: as_agent_started_response_def split: api_result.split)

lemma agent_view_response_asserted: "asserts as_agent_view_response AgentViewResponse ''agent_view''"
  by (rule assertsI) (simp_all add: as_agent_view_response_def split: api_result.split)

lemma client_shell_surface_set_response_asserted: "asserts as_client_shell_surface_set_response ClientShellSurfaceSetResponse ''client_shell_surface_set''"
  by (rule assertsI) (simp_all add: as_client_shell_surface_set_response_def split: api_result.split)

lemma client_window_title_response_asserted: "asserts as_client_window_title_response ClientWindowTitleResponse ''client_window_title''"
  by (rule assertsI) (simp_all add: as_client_window_title_response_def split: api_result.split)

lemma wait_matched_response_asserted: "asserts as_wait_matched_response WaitMatchedResponse ''wait_matched''"
  by (rule assertsI) (simp_all add: as_wait_matched_response_def split: api_result.split)

lemma integration_install_response_asserted: "asserts as_integration_install_response IntegrationInstallResponse ''integration_install''"
  by (rule assertsI) (simp_all add: as_integration_install_response_def split: api_result.split)

lemma integration_list_response_asserted: "asserts as_integration_list_response IntegrationListResponse ''integration_list''"
  by (rule assertsI) (simp_all add: as_integration_list_response_def split: api_result.split)

lemma integration_uninstall_response_asserted: "asserts as_integration_uninstall_response IntegrationUninstallResponse ''integration_uninstall''"
  by (rule assertsI) (simp_all add: as_integration_uninstall_response_def split: api_result.split)

lemma layout_apply_response_asserted: "asserts as_layout_apply_response LayoutApplyResponse ''layout_apply''"
  by (rule assertsI) (simp_all add: as_layout_apply_response_def split: api_result.split)

lemma layout_export_response_asserted: "asserts as_layout_export_response LayoutExportResponse ''layout_export''"
  by (rule assertsI) (simp_all add: as_layout_export_response_def split: api_result.split)

lemma layout_split_ratio_set_response_asserted: "asserts as_layout_split_ratio_set_response LayoutSplitRatioSetResponse ''layout_split_ratio_set''"
  by (rule assertsI) (simp_all add: as_layout_split_ratio_set_response_def split: api_result.split)

lemma notification_show_response_asserted: "asserts as_notification_show_response NotificationShowResponse ''notification_show''"
  by (rule assertsI) (simp_all add: as_notification_show_response_def split: api_result.split)

lemma pane_copy_motion_response_asserted: "asserts as_pane_copy_motion_response PaneCopyMotionResponse ''pane_copy_motion''"
  by (rule assertsI) (simp_all add: as_pane_copy_motion_response_def split: api_result.split)

lemma pane_copy_search_response_asserted: "asserts as_pane_copy_search_response PaneCopySearchResponse ''pane_copy_search''"
  by (rule assertsI) (simp_all add: as_pane_copy_search_response_def split: api_result.split)

lemma pane_current_response_asserted: "asserts as_pane_current_response PaneCurrentResponse ''pane_current''"
  by (rule assertsI) (simp_all add: as_pane_current_response_def split: api_result.split)

lemma pane_edges_response_asserted: "asserts as_pane_edges_response PaneEdgesResponse ''pane_edges''"
  by (rule assertsI) (simp_all add: as_pane_edges_response_def split: api_result.split)

lemma pane_info_response_asserted: "asserts as_pane_info_response PaneInfoResponse ''pane_info''"
  by (rule assertsI) (simp_all add: as_pane_info_response_def split: api_result.split)

lemma pane_focus_direction_response_asserted: "asserts as_pane_focus_direction_response PaneFocusDirectionResponse ''pane_focus_direction''"
  by (rule assertsI) (simp_all add: as_pane_focus_direction_response_def split: api_result.split)

lemma pane_layout_response_asserted: "asserts as_pane_layout_response PaneLayoutResponse ''pane_layout''"
  by (rule assertsI) (simp_all add: as_pane_layout_response_def split: api_result.split)

lemma pane_link_activated_response_asserted: "asserts as_pane_link_activated_response PaneLinkActivatedResponse ''pane_link_activated''"
  by (rule assertsI) (simp_all add: as_pane_link_activated_response_def split: api_result.split)

lemma pane_link_resolved_response_asserted: "asserts as_pane_link_resolved_response PaneLinkResolvedResponse ''pane_link_resolved''"
  by (rule assertsI) (simp_all add: as_pane_link_resolved_response_def split: api_result.split)

lemma pane_list_response_asserted: "asserts as_pane_list_response PaneListResponse ''pane_list''"
  by (rule assertsI) (simp_all add: as_pane_list_response_def split: api_result.split)

lemma pane_move_response_asserted: "asserts as_pane_move_response PaneMoveResponse ''pane_move''"
  by (rule assertsI) (simp_all add: as_pane_move_response_def split: api_result.split)

lemma pane_neighbor_response_asserted: "asserts as_pane_neighbor_response PaneNeighborResponse ''pane_neighbor''"
  by (rule assertsI) (simp_all add: as_pane_neighbor_response_def split: api_result.split)

lemma pane_process_info_response_asserted: "asserts as_pane_process_info_response PaneProcessInfoResponse ''pane_process_info''"
  by (rule assertsI) (simp_all add: as_pane_process_info_response_def split: api_result.split)

lemma pane_resize_response_asserted: "asserts as_pane_resize_response PaneResizeResponse ''pane_resize''"
  by (rule assertsI) (simp_all add: as_pane_resize_response_def split: api_result.split)

lemma pane_selection_response_asserted: "asserts as_pane_selection_response PaneSelectionResponse ''pane_selection''"
  by (rule assertsI) (simp_all add: as_pane_selection_response_def split: api_result.split)

lemma pane_swap_response_asserted: "asserts as_pane_swap_response PaneSwapResponse ''pane_swap''"
  by (rule assertsI) (simp_all add: as_pane_swap_response_def split: api_result.split)

lemma output_matched_response_asserted: "asserts as_output_matched_response OutputMatchedResponse ''output_matched''"
  by (rule assertsI) (simp_all add: as_output_matched_response_def split: api_result.split)

lemma pane_zoom_response_asserted: "asserts as_pane_zoom_response PaneZoomResponse ''pane_zoom''"
  by (rule assertsI) (simp_all add: as_pane_zoom_response_def split: api_result.split)

lemma pong_response_asserted: "asserts as_pong_response PongResponse ''pong''"
  by (rule assertsI) (simp_all add: as_pong_response_def split: api_result.split)

lemma plugin_action_invoked_response_asserted: "asserts as_plugin_action_invoked_response PluginActionInvokedResponse ''plugin_action_invoked''"
  by (rule assertsI) (simp_all add: as_plugin_action_invoked_response_def split: api_result.split)

lemma plugin_action_list_response_asserted: "asserts as_plugin_action_list_response PluginActionListResponse ''plugin_action_list''"
  by (rule assertsI) (simp_all add: as_plugin_action_list_response_def split: api_result.split)

lemma plugin_disabled_response_asserted: "asserts as_plugin_disabled_response PluginDisabledResponse ''plugin_disabled''"
  by (rule assertsI) (simp_all add: as_plugin_disabled_response_def split: api_result.split)

lemma plugin_enabled_response_asserted: "asserts as_plugin_enabled_response PluginEnabledResponse ''plugin_enabled''"
  by (rule assertsI) (simp_all add: as_plugin_enabled_response_def split: api_result.split)

lemma plugin_linked_response_asserted: "asserts as_plugin_linked_response PluginLinkedResponse ''plugin_linked''"
  by (rule assertsI) (simp_all add: as_plugin_linked_response_def split: api_result.split)

lemma plugin_list_response_asserted: "asserts as_plugin_list_response PluginListResponse ''plugin_list''"
  by (rule assertsI) (simp_all add: as_plugin_list_response_def split: api_result.split)

lemma plugin_log_list_response_asserted: "asserts as_plugin_log_list_response PluginLogListResponse ''plugin_log_list''"
  by (rule assertsI) (simp_all add: as_plugin_log_list_response_def split: api_result.split)

lemma plugin_pane_closed_response_asserted: "asserts as_plugin_pane_closed_response PluginPaneClosedResponse ''plugin_pane_closed''"
  by (rule assertsI) (simp_all add: as_plugin_pane_closed_response_def split: api_result.split)

lemma plugin_pane_focused_response_asserted: "asserts as_plugin_pane_focused_response PluginPaneFocusedResponse ''plugin_pane_focused''"
  by (rule assertsI) (simp_all add: as_plugin_pane_focused_response_def split: api_result.split)

lemma plugin_unlinked_response_asserted: "asserts as_plugin_unlinked_response PluginUnlinkedResponse ''plugin_unlinked''"
  by (rule assertsI) (simp_all add: as_plugin_unlinked_response_def split: api_result.split)

lemma agent_manifest_status_response_asserted: "asserts as_agent_manifest_status_response AgentManifestStatusResponse ''agent_manifest_status''"
  by (rule assertsI) (simp_all add: as_agent_manifest_status_response_def split: api_result.split)

lemma agent_manifest_reload_response_asserted: "asserts as_agent_manifest_reload_response AgentManifestReloadResponse ''agent_manifest_reload''"
  by (rule assertsI) (simp_all add: as_agent_manifest_reload_response_def split: api_result.split)

lemma config_reload_response_asserted: "asserts as_config_reload_response ConfigReloadResponse ''config_reload''"
  by (rule assertsI) (simp_all add: as_config_reload_response_def split: api_result.split)

lemma session_snapshot_response_asserted: "asserts as_session_snapshot_response SessionSnapshotResponse ''session_snapshot''"
  by (rule assertsI) (simp_all add: as_session_snapshot_response_def split: api_result.split)

lemma tab_created_response_asserted: "asserts as_tab_created_response TabCreatedResponse ''tab_created''"
  by (rule assertsI) (simp_all add: as_tab_created_response_def split: api_result.split)

lemma tab_info_response_asserted: "asserts as_tab_info_response TabInfoResponse ''tab_info''"
  by (rule assertsI) (simp_all add: as_tab_info_response_def split: api_result.split)

lemma tab_list_response_asserted: "asserts as_tab_list_response TabListResponse ''tab_list''"
  by (rule assertsI) (simp_all add: as_tab_list_response_def split: api_result.split)

lemma workspace_created_response_asserted: "asserts as_workspace_created_response WorkspaceCreatedResponse ''workspace_created''"
  by (rule assertsI) (simp_all add: as_workspace_created_response_def split: api_result.split)

lemma workspace_info_response_asserted: "asserts as_workspace_info_response WorkspaceInfoResponse ''workspace_info''"
  by (rule assertsI) (simp_all add: as_workspace_info_response_def split: api_result.split)

lemma workspace_list_response_asserted: "asserts as_workspace_list_response WorkspaceListResponse ''workspace_list''"
  by (rule assertsI) (simp_all add: as_workspace_list_response_def split: api_result.split)

lemma worktree_created_response_asserted: "asserts as_worktree_created_response WorktreeCreatedResponse ''worktree_created''"
  by (rule assertsI) (simp_all add: as_worktree_created_response_def split: api_result.split)

lemma worktree_list_response_asserted: "asserts as_worktree_list_response WorktreeListResponse ''worktree_list''"
  by (rule assertsI) (simp_all add: as_worktree_list_response_def split: api_result.split)

lemma worktree_opened_response_asserted: "asserts as_worktree_opened_response WorktreeOpenedResponse ''worktree_opened''"
  by (rule assertsI) (simp_all add: as_worktree_opened_response_def split: api_result.split)

lemma worktree_removed_response_asserted: "asserts as_worktree_removed_response WorktreeRemovedResponse ''worktree_removed''"
  by (rule assertsI) (simp_all add: as_worktree_removed_response_def split: api_result.split)

lemmas asserted =
  agent_explain_response_asserted
  agent_info_response_asserted
  agent_list_response_asserted
  agent_prompted_response_asserted
  pane_read_response_asserted
  ok_response_asserted
  agent_started_response_asserted
  agent_view_response_asserted
  client_shell_surface_set_response_asserted
  client_window_title_response_asserted
  wait_matched_response_asserted
  integration_install_response_asserted
  integration_list_response_asserted
  integration_uninstall_response_asserted
  layout_apply_response_asserted
  layout_export_response_asserted
  layout_split_ratio_set_response_asserted
  notification_show_response_asserted
  pane_copy_motion_response_asserted
  pane_copy_search_response_asserted
  pane_current_response_asserted
  pane_edges_response_asserted
  pane_info_response_asserted
  pane_focus_direction_response_asserted
  pane_layout_response_asserted
  pane_link_activated_response_asserted
  pane_link_resolved_response_asserted
  pane_list_response_asserted
  pane_move_response_asserted
  pane_neighbor_response_asserted
  pane_process_info_response_asserted
  pane_resize_response_asserted
  pane_selection_response_asserted
  pane_swap_response_asserted
  output_matched_response_asserted
  pane_zoom_response_asserted
  pong_response_asserted
  plugin_action_invoked_response_asserted
  plugin_action_list_response_asserted
  plugin_disabled_response_asserted
  plugin_enabled_response_asserted
  plugin_linked_response_asserted
  plugin_list_response_asserted
  plugin_log_list_response_asserted
  plugin_pane_closed_response_asserted
  plugin_pane_focused_response_asserted
  plugin_unlinked_response_asserted
  agent_manifest_status_response_asserted
  agent_manifest_reload_response_asserted
  config_reload_response_asserted
  session_snapshot_response_asserted
  tab_created_response_asserted
  tab_info_response_asserted
  tab_list_response_asserted
  workspace_created_response_asserted
  workspace_info_response_asserted
  workspace_list_response_asserted
  worktree_created_response_asserted
  worktree_list_response_asserted
  worktree_opened_response_asserted
  worktree_removed_response_asserted

lemmas method_defs =
  client_agent_explain_def
  client_agent_focus_def
  client_agent_get_def
  client_agent_list_def
  client_agent_prompt_def
  client_agent_read_def
  client_agent_rename_def
  client_agent_send_keys_def
  client_agent_start_def
  client_agent_view_clear_def
  client_agent_view_set_def
  client_agent_wait_def
  client_client_shell_surface_set_def
  client_client_window_title_clear_def
  client_client_window_title_set_def
  client_events_wait_def
  client_integration_install_def
  client_integration_list_def
  client_integration_uninstall_def
  client_layout_apply_def
  client_layout_export_def
  client_layout_set_split_ratio_def
  client_notification_show_def
  client_pane_clear_def
  client_pane_clear_agent_authority_def
  client_pane_close_def
  client_pane_copy_motion_def
  client_pane_copy_search_def
  client_pane_current_def
  client_pane_edges_def
  client_pane_edit_scrollback_def
  client_pane_focus_def
  client_pane_focus_direction_def
  client_pane_get_def
  client_pane_input_set_def
  client_pane_layout_def
  client_pane_link_activate_def
  client_pane_link_resolve_def
  client_pane_list_def
  client_pane_move_def
  client_pane_neighbor_def
  client_pane_process_info_def
  client_pane_read_def
  client_pane_release_agent_def
  client_pane_rename_def
  client_pane_report_agent_def
  client_pane_report_agent_session_def
  client_pane_report_metadata_def
  client_pane_resize_def
  client_pane_scroll_def
  client_pane_selection_read_def
  client_pane_send_input_def
  client_pane_send_keys_def
  client_pane_send_text_def
  client_pane_split_def
  client_pane_swap_def
  client_pane_wait_for_output_def
  client_pane_zoom_def
  client_ping_def
  client_plugin_action_invoke_def
  client_plugin_action_list_def
  client_plugin_disable_def
  client_plugin_enable_def
  client_plugin_link_def
  client_plugin_list_def
  client_plugin_log_list_def
  client_plugin_pane_close_def
  client_plugin_pane_focus_def
  client_plugin_unlink_def
  client_popup_close_def
  client_product_announcement_dismiss_def
  client_release_notes_dismiss_def
  client_server_agent_manifests_def
  client_server_reload_agent_manifests_def
  client_server_reload_config_def
  client_server_stop_def
  client_session_snapshot_def
  client_tab_close_def
  client_tab_create_def
  client_tab_focus_def
  client_tab_get_def
  client_tab_list_def
  client_tab_move_def
  client_tab_rename_def
  client_workspace_close_def
  client_workspace_create_def
  client_workspace_focus_def
  client_workspace_get_def
  client_workspace_list_def
  client_workspace_move_def
  client_workspace_move_block_def
  client_workspace_rename_def
  client_workspace_report_metadata_def
  client_worktree_create_def
  client_worktree_list_def
  client_worktree_open_def
  client_worktree_remove_def

lemmas typed_methods = asserted [THEN typed_call_contract]


end
