(* ===== verification/Gen_Schema.thy ===== *)
theory Gen_Schema
  imports Layout_Node "HOL-Library.AList"
begin

text \<open>
  The front of the generator, \<open>internal/gen\<close>: names (\<open>naming.go\<close>), the tree of a JSON schema and its parser
  (\<open>schema.go\<close>), the table of method results (\<open>methods.go\<close>). A Go map is an association list without duplicate
  keys, and \<open>sortedKeys\<close> its keys in the order of bytes. \<open>quote\<close> is \<open>strconv.Quote\<close>, the verb \<open>%q\<close>; \<open>raw_text\<close>
  gives the bytes of a raw document. An error keeps its text; \<open>GenWrap\<close> is \<open>fmt.Errorf\<close> with \<open>%w\<close> at the end and
  \<open>GenJson\<close> an error of \<open>encoding/json\<close>.
\<close>

datatype gen_error = GenMessage string | GenWrap string gen_error | GenJson

subsection \<open>Names\<close>

definition initialisms :: "(string \<times> string) list" where
  "initialisms = [(''ansi'', ''ANSI''), (''api'', ''API''), (''cli'', ''CLI''), (''id'', ''ID''), (''json'', ''JSON''),
     (''ok'', ''OK''), (''os'', ''OS''), (''pid'', ''PID''), (''tty'', ''TTY''), (''ttl'', ''TTL''), (''ui'', ''UI''),
     (''url'', ''URL'')]"

text \<open>\<open>strings.FieldsFunc\<close>: the runs of characters between separators.\<close>

fun fields_of :: "(char \<Rightarrow> bool) \<Rightarrow> string \<Rightarrow> string \<Rightarrow> string list" where
  "fields_of sep word [] = (if word = [] then [] else [word])"
| "fields_of sep word (c # cs) =
    (if sep c then (if word = [] then fields_of sep [] cs else word # fields_of sep [] cs)
     else fields_of sep (word @ [c]) cs)"

definition split_words :: "string \<Rightarrow> string list" where
  "split_words s = fields_of (\<lambda>c. c = CHR ''_'' \<or> c = CHR ''-'' \<or> c = CHR ''.'') [] s"

text \<open>
  \<open>strings.ToLower\<close> as far as ASCII words can tell: two runes outside ASCII have a lower case in it. And
  \<open>strings.ToUpper\<close> of one byte, which a byte outside ASCII turns into the replacement character.
\<close>

fun to_lower :: "string \<Rightarrow> string" where
  "to_lower [] = []"
| "to_lower (a # s) =
    (if take 2 s = bytes_of [0x84, 0xAA] \<and> (of_char a :: nat) = 0xE2 then CHR ''k'' # to_lower (drop 2 s)
     else if take 1 s = bytes_of [0xB0] \<and> (of_char a :: nat) = 0xC4 then CHR ''i'' # to_lower (drop 1 s)
     else lower_char a # to_lower s)"

definition upper_byte :: "char \<Rightarrow> string" where
  "upper_byte c = (if (of_char c :: nat) < 0x80 then [upper_char c] else replacement)"

fun pascal_words :: "string list \<Rightarrow> string" where
  "pascal_words [] = []"
| "pascal_words (word # rest) = (case map_of initialisms (to_lower word) of
     Some up \<Rightarrow> up
   | None \<Rightarrow> upper_byte (hd word) @ tl word) @ pascal_words rest"

definition pascal :: "string \<Rightarrow> string" where
  "pascal s = pascal_words (split_words s)"

definition enum_const_name :: "string \<Rightarrow> string \<Rightarrow> string" where
  "enum_const_name type_name v = type_name @ pascal v"

definition gen_dot_name :: "string \<Rightarrow> string" where
  "gen_dot_name kind = replace_first CHR ''_'' CHR ''.'' kind"

lemma fields_nonempty: "w \<in> set (fields_of sep word s) \<Longrightarrow> w \<noteq> []"
  by (induction sep word s rule: fields_of.induct) (auto split: if_splits)

text \<open>\<open>word[:1]\<close> never goes out of range.\<close>

lemma split_words_nonempty: "w \<in> set (split_words s) \<Longrightarrow> w \<noteq> []"
  unfolding split_words_def by (rule fields_nonempty)

lemma fields_concat: "concat (fields_of sep word s) = word @ filter (\<lambda>c. \<not> sep c) s"
  by (induction sep word s rule: fields_of.induct) auto

text \<open>The words are the name without its separators.\<close>

lemma split_words_concat: "concat (split_words s) = filter (\<lambda>c. c \<notin> {CHR ''_'', CHR ''-'', CHR ''.''}) s"
  unfolding split_words_def fields_concat by (rule trans [OF append_Nil]) (rule filter_cong; simp)

subsection \<open>Objects\<close>

definition object_members :: "(string \<times> json) list \<Rightarrow> (string \<times> json) list" where
  "object_members kvs = map (\<lambda>k. (k, the (map_of (rev kvs) k))) (sorted_list_of_set (fst ` set kvs))"

lemma object_members_in: "(k, j) \<in> set (object_members kvs) \<Longrightarrow> (k, j) \<in> set kvs"
proof -
  assume "(k, j) \<in> set (object_members kvs)"
  then have k: "k \<in> fst ` set (rev kvs)" "j = the (map_of (rev kvs) k)" by (auto simp: object_members_def)
  then obtain x where "map_of (rev kvs) k = Some x" by (metis map_of_eq_None_iff not_None_eq)
  with k(2) map_of_SomeD [OF this] show ?thesis by simp
qed

lemma object_members_smaller: "(k, j) \<in> set (object_members kvs) \<Longrightarrow> size j < size (JObj kvs)"
proof -
  assume "(k, j) \<in> set (object_members kvs)"
  then have "(k, j) \<in> set kvs" by (rule object_members_in)
  then have "size j < size_list (\<lambda>p. size (snd p)) kvs + 1"
    by (induction kvs) auto
  moreover have "size_list (\<lambda>p. size (snd p)) kvs \<le> size_list (size_prod (\<lambda>x. 0) size) kvs"
    by (rule size_list_pointwise) auto
  ultimately show ?thesis by simp
qed

text \<open>A \<open>map[string]json.RawMessage\<close> in the order of its keys: \<open>null\<close> is the nil map.\<close>

definition raw_map :: "json \<Rightarrow> (string \<times> json) list option" where
  "raw_map j = (case j of JObj kvs \<Rightarrow> Some (object_members kvs) | JNull \<Rightarrow> Some [] | _ \<Rightarrow> None)"

definition raw_list :: "json \<Rightarrow> json list option" where
  "raw_list j = (case j of JArr js \<Rightarrow> Some js | JNull \<Rightarrow> Some [] | _ \<Rightarrow> None)"

lemma raw_map_smaller: "raw_map j = Some ms \<Longrightarrow> (k, v) \<in> set ms \<Longrightarrow> size v < size j"
  by (cases j) (auto simp: raw_map_def dest: object_members_smaller)

lemma raw_list_smaller: "raw_list j = Some js \<Longrightarrow> v \<in> set js \<Longrightarrow> size v < size j"
  by (cases j) (auto simp: raw_list_def dest: size_list_estimation' [where f = size and y = "size v"])

subsection \<open>Nodes\<close>

text \<open>What a node says itself, and the nodes below it.\<close>

record node_attrs =
  na_path :: string
  na_always :: "bool option"
  na_ref :: string
  na_types :: "string list"
  na_format :: string
  na_description :: string
  na_default :: "json option"
  na_enum :: "string list"
  na_const :: "string option"
  na_required :: "string list"

datatype node = Node (nd: node_attrs) (nd_properties: "(string \<times> node) list") (nd_items: "node option")
  (nd_add_props: "node option") (nd_one_of: "node list") (nd_any_of: "node list") (nd_defs: "(string \<times> node) list")

definition no_attrs :: "string \<Rightarrow> node_attrs" where
  "no_attrs path = \<lparr>na_path = path, na_always = None, na_ref = [], na_types = [], na_format = [], na_description = [],
     na_default = None, na_enum = [], na_const = None, na_required = []\<rparr>"

definition empty_node :: "string \<Rightarrow> node" where
  "empty_node path = Node (no_attrs path) [] None None [] [] []"

definition bool_node :: "string \<Rightarrow> bool \<Rightarrow> node" where
  "bool_node path always = Node (no_attrs path\<lparr>na_always := Some always\<rparr>) [] None None [] [] []"

fun with_attrs :: "node_attrs \<Rightarrow> node \<Rightarrow> node" where
  "with_attrs a (Node _ p i ap oneof anyof d) = Node a p i ap oneof anyof d"

fun with_properties :: "(string \<times> node) list \<Rightarrow> node \<Rightarrow> node" where
  "with_properties p (Node a _ i ap oneof anyof d) = Node a p i ap oneof anyof d"

fun with_items :: "node \<Rightarrow> node \<Rightarrow> node" where
  "with_items i (Node a p _ ap oneof anyof d) = Node a p (Some i) ap oneof anyof d"

fun with_add_props :: "node \<Rightarrow> node \<Rightarrow> node" where
  "with_add_props ap (Node a p i _ oneof anyof d) = Node a p i (Some ap) oneof anyof d"

fun with_one_of :: "node list \<Rightarrow> node \<Rightarrow> node" where
  "with_one_of oneof (Node a p i ap _ anyof d) = Node a p i ap oneof anyof d"

fun with_any_of :: "node list \<Rightarrow> node \<Rightarrow> node" where
  "with_any_of anyof (Node a p i ap oneof _ d) = Node a p i ap oneof anyof d"

fun with_defs :: "(string \<times> node) list \<Rightarrow> node \<Rightarrow> node" where
  "with_defs d (Node a p i ap oneof anyof _) = Node a p i ap oneof anyof d"

subsection \<open>Parsing a node\<close>

definition ignored_keywords :: "string list" where
  "ignored_keywords = [''$schema'', ''title'', ''minimum'', ''maximum'', ''exclusiveMinimum'', ''exclusiveMaximum'',
     ''multipleOf'', ''minLength'', ''maxLength'', ''pattern'', ''minItems'', ''maxItems'', ''uniqueItems'',
     ''minProperties'', ''maxProperties'', ''propertyNames'']"

text \<open>\<open>refPattern\<close>: the name at the end of \<open>#/schemas/<section>/$defs/<name>\<close>.\<close>

definition ref_name :: "string \<Rightarrow> string option" where
  "ref_name ref = (case split_on CHR ''/'' ref of
     [hash, schemas, section', defs, name] \<Rightarrow>
       if hash = ''#'' \<and> schemas = ''schemas'' \<and> defs = ''$defs'' \<and> section' \<noteq> [] \<and> name \<noteq> [] \<and>
         list_all (\<lambda>c. in_range 97 122 c \<or> c = CHR ''_'') section' \<and>
         list_all (\<lambda>c. in_range 65 90 c \<or> in_range 97 122 c \<or> in_range 48 57 c \<or> c = CHR ''_'') name
       then Some name else None
   | _ \<Rightarrow> None)"

definition parse_string :: "json \<Rightarrow> (gen_error, string) result" where
  "parse_string j = (case cod_dec string_codec j [] of None \<Rightarrow> err GenJson | Some s \<Rightarrow> ok s)"

definition parse_strings :: "json \<Rightarrow> (gen_error, string list) result" where
  "parse_strings j = (case cod_dec (slice_codec string_codec) j None of None \<Rightarrow> err GenJson | Some s \<Rightarrow> ok (elems s))"

definition parse_string_or_list :: "json \<Rightarrow> (gen_error, string list) result" where
  "parse_string_or_list j = (case parse_string j of Inr single \<Rightarrow> ok [single] | Inl e \<Rightarrow> parse_strings j)"

text \<open>The nodes below a keyword, parsed: none, one, a map or a list of them.\<close>

datatype kids =
    NoKids
  | OneKid "(gen_error, node) result"
  | KidMap "(string \<times> (gen_error, node) result) list option"
  | KidList "(gen_error, node) result list option"

fun first_error_map :: "(string \<times> (gen_error, node) result) list \<Rightarrow> (gen_error, (string \<times> node) list) result" where
  "first_error_map [] = ok []"
| "first_error_map ((name, r) # rest) = (case r of
     Inl e \<Rightarrow> err e
   | Inr n \<Rightarrow> (case first_error_map rest of Inl e \<Rightarrow> err e | Inr out \<Rightarrow> ok ((name, n) # out)))"

fun first_error :: "(gen_error, node) result list \<Rightarrow> (gen_error, node list) result" where
  "first_error [] = ok []"
| "first_error (r # rest) = (case r of
     Inl e \<Rightarrow> err e
   | Inr n \<Rightarrow> (case first_error rest of Inl e \<Rightarrow> err e | Inr out \<Rightarrow> ok (n # out)))"

definition kid_map :: "kids \<Rightarrow> (gen_error, (string \<times> node) list) result" where
  "kid_map k = (case k of KidMap (Some rs) \<Rightarrow> first_error_map rs | _ \<Rightarrow> err GenJson)"

definition kid_list :: "kids \<Rightarrow> (gen_error, node list) result" where
  "kid_list k = (case k of KidList (Some rs) \<Rightarrow> first_error rs | _ \<Rightarrow> err GenJson)"

definition kid_node :: "kids \<Rightarrow> (gen_error, node) result" where
  "kid_node k = (case k of OneKid r \<Rightarrow> r | _ \<Rightarrow> err GenJson)"

text \<open>One keyword of an object: the body of the \<open>switch\<close> and the wrapping of its error.\<close>

definition wrap_key :: "string \<Rightarrow> string \<Rightarrow> ('a \<Rightarrow> node) \<Rightarrow> (gen_error, 'a) result \<Rightarrow> (gen_error, node) result" where
  "wrap_key path key put r = (case r of Inl e \<Rightarrow> err (GenWrap (path @ '': '' @ key) e) | Inr x \<Rightarrow> ok (put x))"

definition parse_keyword ::
  "(string \<Rightarrow> string) \<Rightarrow> string \<Rightarrow> string \<Rightarrow> json \<Rightarrow> kids \<Rightarrow> node \<Rightarrow> (gen_error, node) result" where
  "parse_keyword quote path key v k n =
    (if key = ''$ref'' then
       (case parse_string v of
          Inl e \<Rightarrow> err (GenWrap (path @ '': '' @ key) e)
        | Inr ref \<Rightarrow> (case ref_name ref of
            None \<Rightarrow> err (GenMessage (path @ '': unsupported $ref '' @ quote ref))
          | Some name \<Rightarrow> ok (with_attrs ((nd n)\<lparr>na_ref := name\<rparr>) n)))
     else if key = ''type'' then wrap_key path key (\<lambda>x. with_attrs ((nd n)\<lparr>na_types := x\<rparr>) n) (parse_string_or_list v)
     else if key = ''format'' then wrap_key path key (\<lambda>x. with_attrs ((nd n)\<lparr>na_format := x\<rparr>) n) (parse_string v)
     else if key = ''description''
       then wrap_key path key (\<lambda>x. with_attrs ((nd n)\<lparr>na_description := x\<rparr>) n) (parse_string v)
     else if key = ''default'' then ok (with_attrs ((nd n)\<lparr>na_default := Some v\<rparr>) n)
     else if key = ''enum'' then
       (case parse_strings v of
          Inl e \<Rightarrow> err (GenWrap (path @ '': enum must be a list of strings'') e)
        | Inr x \<Rightarrow> ok (with_attrs ((nd n)\<lparr>na_enum := x\<rparr>) n))
     else if key = ''const'' then
       (case parse_string v of
          Inl e \<Rightarrow> err (GenWrap (path @ '': const must be a string'') e)
        | Inr x \<Rightarrow> ok (with_attrs ((nd n)\<lparr>na_const := Some x\<rparr>) n))
     else if key = ''required'' then wrap_key path key (\<lambda>x. with_attrs ((nd n)\<lparr>na_required := x\<rparr>) n) (parse_strings v)
     else if key = ''properties'' then wrap_key path key (\<lambda>x. with_properties x n) (kid_map k)
     else if key = ''$defs'' then wrap_key path key (\<lambda>x. with_defs x n) (kid_map k)
     else if key = ''items'' then wrap_key path key (\<lambda>x. with_items x n) (kid_node k)
     else if key = ''additionalProperties'' then wrap_key path key (\<lambda>x. with_add_props x n) (kid_node k)
     else if key = ''oneOf'' then wrap_key path key (\<lambda>x. with_one_of x n) (kid_list k)
     else if key = ''anyOf'' then wrap_key path key (\<lambda>x. with_any_of x n) (kid_list k)
     else if key \<in> set ignored_keywords then ok n
     else err (GenMessage (path @ '': unsupported schema keyword '' @ quote key)))"

fun parse_keywords ::
  "(string \<Rightarrow> string) \<Rightarrow> string \<Rightarrow> (string \<times> json \<times> kids) list \<Rightarrow> node \<Rightarrow> (gen_error, node) result" where
  "parse_keywords quote path [] n = ok n"
| "parse_keywords quote path ((key, v, k) # rest) n =
    (case parse_keyword quote path key v k n of Inl e \<Rightarrow> err e | Inr n \<Rightarrow> parse_keywords quote path rest n)"

text \<open>
  \<open>parseNode\<close>, with \<open>parseNodeMap\<close> and \<open>parseNodeList\<close> over its children. The children of a keyword are parsed
  where they stand; whether Go reaches them, the first failing keyword decides.
\<close>

fun indexed :: "nat \<Rightarrow> 'a list \<Rightarrow> (nat \<times> 'a) list" where
  "indexed i [] = []"
| "indexed i (x # xs) = (i, x) # indexed (Suc i) xs"

lemma indexed_in: "(i, x) \<in> set (indexed j xs) \<Longrightarrow> x \<in> set xs"
  by (induction j xs rule: indexed.induct) auto

definition bool_document :: "json \<Rightarrow> bool option" where
  "bool_document j = (case j of JBool b \<Rightarrow> Some b | _ \<Rightarrow> None)"

lemma raw_kid_smaller:
  "raw_map j = Some ms \<Longrightarrow> (k, v) \<in> set ms \<Longrightarrow> raw_map v = Some ns \<Longrightarrow> (n, x) \<in> set ns \<Longrightarrow> size x < size j"
  "raw_map j = Some ms \<Longrightarrow> (k, v) \<in> set ms \<Longrightarrow> raw_list v = Some xs \<Longrightarrow> (i, x) \<in> set (indexed a xs) \<Longrightarrow> size x < size j"
  using raw_map_smaller raw_list_smaller indexed_in by (meson less_trans)+

function parse_node :: "(string \<Rightarrow> string) \<Rightarrow> string \<Rightarrow> json \<Rightarrow> (gen_error, node) result" where
  "parse_node quote path raw = (case bool_document raw of
     Some always \<Rightarrow> ok (bool_node path always)
   | None \<Rightarrow> (case raw_map raw of
       None \<Rightarrow> err (GenWrap path GenJson)
     | Some obj \<Rightarrow> parse_keywords quote path (map (\<lambda>(key, v). (key, v,
         if key = ''properties'' \<or> key = ''$defs'' then
           KidMap (case raw_map v of None \<Rightarrow> None
             | Some m \<Rightarrow> Some (map (\<lambda>(name, x). (name, parse_node quote (path @ ''/'' @ key @ ''/'' @ name) x)) m))
         else if key = ''items'' \<or> key = ''additionalProperties'' then OneKid (parse_node quote (path @ ''/'' @ key) v)
         else if key = ''oneOf'' \<or> key = ''anyOf'' then
           KidList (case raw_list v of None \<Rightarrow> None
             | Some l \<Rightarrow> Some (map (\<lambda>(i, x).
                 parse_node quote (path @ ''/'' @ key @ ''['' @ format_uint i @ '']'') x) (indexed 0 l)))
         else NoKids)) obj) (empty_node path)))"
  by pat_completeness auto
termination
  by (relation "measure (\<lambda>(quote, path, raw). size raw)")
    (simp, (simp, metis raw_map_smaller raw_kid_smaller)+)

declare parse_node.simps [simp del]

subsection \<open>Documents\<close>

record schema_document =
  sd_protocol :: "32 word"
  sd_version :: "64 word"
  sd_sections :: "(string \<times> node) list"

fun parse_sections ::
  "(string \<Rightarrow> string) \<Rightarrow> (string \<times> json) list \<Rightarrow> (string \<times> node) list \<Rightarrow> (gen_error, (string \<times> node) list) result" where
  "parse_sections quote [] sections = ok sections"
| "parse_sections quote ((name, j) # rest) sections = (case parse_node quote (''/'' @ name) j of
     Inl e \<Rightarrow> err e | Inr n \<Rightarrow> parse_sections quote rest (AList.update name n sections))"

fun parse_top ::
  "(string \<Rightarrow> string) \<Rightarrow> (string \<times> json) list \<Rightarrow> schema_document \<Rightarrow> (gen_error, schema_document) result" where
  "parse_top quote [] doc = ok doc"
| "parse_top quote ((key, j) # rest) doc =
    (if key = ''$schema'' \<or> key = ''title'' then parse_top quote rest doc
     else if key = ''protocol'' then (case cod_dec uint_codec j (sd_protocol doc) of
         None \<Rightarrow> err (GenWrap ''schema: protocol'' GenJson)
       | Some n \<Rightarrow> parse_top quote rest (doc\<lparr>sd_protocol := n\<rparr>))
     else if key = ''schema_version'' then (case cod_dec int_codec j (sd_version doc) of
         None \<Rightarrow> err (GenWrap ''schema: schema_version'' GenJson)
       | Some n \<Rightarrow> parse_top quote rest (doc\<lparr>sd_version := n\<rparr>))
     else if key = ''schemas'' then (case raw_map j of
         None \<Rightarrow> err (GenWrap ''schema: schemas'' GenJson)
       | Some sections \<Rightarrow> (case parse_sections quote sections (sd_sections doc) of
           Inl e \<Rightarrow> err e | Inr s \<Rightarrow> parse_top quote rest (doc\<lparr>sd_sections := s\<rparr>)))
     else err (GenMessage (''schema: unsupported top-level key '' @ quote key)))"

definition parse_schema :: "(string \<Rightarrow> string) \<Rightarrow> json option \<Rightarrow> (gen_error, schema_document) result" where
  "parse_schema quote data = (case Option.bind data raw_map of
     None \<Rightarrow> err (GenWrap ''schema'' GenJson)
   | Some members \<Rightarrow> (case parse_top quote members \<lparr>sd_protocol = 0, sd_version = 0, sd_sections = []\<rparr> of
       Inl e \<Rightarrow> err e
     | Inr doc \<Rightarrow> if sd_sections doc = [] then err (GenMessage ''schema: no sections'') else ok doc))"

definition section_names :: "schema_document \<Rightarrow> string list" where
  "section_names doc = sort (map fst (sd_sections doc))"

subsection \<open>Questions to a node\<close>

fun nullable_loop :: "string list \<Rightarrow> bool" where
  "nullable_loop [] = False"
| "nullable_loop (t # ts) = (if t = ''null'' then True else nullable_loop ts)"

definition node_nullable :: "node \<Rightarrow> bool" where
  "node_nullable n = nullable_loop (na_types (nd n))"

text \<open>\<open>%v\<close> of a slice of strings.\<close>

definition show_strings :: "string list \<Rightarrow> string" where
  "show_strings xs = ''['' @ join_with '' '' xs @ '']''"

fun base_loop :: "string \<Rightarrow> string list \<Rightarrow> string \<Rightarrow> string list \<Rightarrow> (gen_error, string) result" where
  "base_loop path types base [] = ok base"
| "base_loop path types base (t # ts) =
    (if t = ''null'' then base_loop path types base ts
     else if base \<noteq> [] then err (GenMessage (path @ '': unsupported type union '' @ show_strings types))
     else base_loop path types t ts)"

definition base_type :: "node \<Rightarrow> (gen_error, string) result" where
  "base_type n = base_loop (na_path (nd n)) (na_types (nd n)) [] (na_types (nd n))"

definition is_required :: "node \<Rightarrow> string \<Rightarrow> bool" where
  "is_required n name = list_ex (\<lambda>r. r = name) (na_required (nd n))"

definition property_names :: "node \<Rightarrow> string list" where
  "property_names n = sort (map fst (nd_properties n))"

subsection \<open>The shape of a definition\<close>

text \<open>\<open>writeCanonical\<close>; the description, the path and the definitions of a node do not matter.\<close>

fun prefix_all :: "string list \<Rightarrow> string" where
  "prefix_all xs = concat (map (\<lambda>x. x @ '','') xs)"

function write_canonical :: "(string \<Rightarrow> string) \<Rightarrow> (json \<Rightarrow> string) \<Rightarrow> node option \<Rightarrow> string" where
  "write_canonical quote raw_text None = ''null''"
| "write_canonical quote raw_text (Some n) = (case na_always (nd n) of
     Some b \<Rightarrow> if b then ''true'' else ''false''
   | None \<Rightarrow>
       ''{ref='' @ quote (na_ref (nd n)) @ '',types='' @ show_strings (na_types (nd n)) @ '',format='' @
       quote (na_format (nd n)) @ '',enum='' @ show_strings (na_enum (nd n)) @ '','' @
       (case na_const (nd n) of None \<Rightarrow> [] | Some c \<Rightarrow> ''const='' @ quote c @ '','') @
       (case na_default (nd n) of None \<Rightarrow> [] | Some d \<Rightarrow> ''default='' @ raw_text d @ '','') @
       ''required='' @ show_strings (sort (na_required (nd n))) @ '',properties={'' @
       prefix_all (map (\<lambda>(name, sub). quote name @ '':'' @ write_canonical quote raw_text (Some sub))
         (sort_key fst (nd_properties n))) @
       ''},items='' @ write_canonical quote raw_text (nd_items n) @
       '',addProps='' @ write_canonical quote raw_text (nd_add_props n) @
       '',oneOf=['' @ prefix_all (map (\<lambda>sub. write_canonical quote raw_text (Some sub)) (nd_one_of n)) @
       ''],anyOf=['' @ prefix_all (map (\<lambda>sub. write_canonical quote raw_text (Some sub)) (nd_any_of n)) @ '']}'')"
  by pat_completeness auto

lemma node_smaller:
  "(name, sub) \<in> set (nd_properties n) \<Longrightarrow> size sub < size n"
  "nd_items n = Some sub \<Longrightarrow> size sub < size n"
  "nd_add_props n = Some sub \<Longrightarrow> size sub < size n"
  "sub \<in> set (nd_one_of n) \<Longrightarrow> size sub < size n"
  "sub \<in> set (nd_any_of n) \<Longrightarrow> size sub < size n"
proof -
  have lists: "x \<in> set xs \<Longrightarrow> size x \<le> size_list size xs" for x :: node and xs by (induction xs) auto
  have pairs: "(k, x) \<in> set kvs \<Longrightarrow> size x \<le> size_list (size_prod (\<lambda>_. 0) size) kvs" for k :: string and x :: node and kvs
    by (induction kvs) auto
  show "(name, sub) \<in> set (nd_properties n) \<Longrightarrow> size sub < size n"
    using pairs [of name sub "nd_properties n"] by (cases n) simp
  show "nd_items n = Some sub \<Longrightarrow> size sub < size n" "nd_add_props n = Some sub \<Longrightarrow> size sub < size n"
    by (cases n; simp)+
  show "sub \<in> set (nd_one_of n) \<Longrightarrow> size sub < size n" using lists [of sub "nd_one_of n"] by (cases n) simp
  show "sub \<in> set (nd_any_of n) \<Longrightarrow> size sub < size n" using lists [of sub "nd_any_of n"] by (cases n) simp
qed

termination write_canonical
proof (relation "measure (\<lambda>(quote, raw_text, n). case n of None \<Rightarrow> 0 | Some n \<Rightarrow> Suc (size n))", goal_cases)
  case (2 quote raw_text n x name sub)
  then have "(name, sub) \<in> set (nd_properties n)" by simp
  from node_smaller(1) [OF this] show ?case by simp
next
  case (3 quote raw_text n)
  show ?case using node_smaller(2) [of n] by (cases "nd_items n") auto
next
  case (4 quote raw_text n)
  show ?case using node_smaller(3) [of n] by (cases "nd_add_props n") auto
qed (simp_all add: node_smaller)

declare write_canonical.simps [simp del]

definition canonical :: "(string \<Rightarrow> string) \<Rightarrow> (json \<Rightarrow> string) \<Rightarrow> node \<Rightarrow> string" where
  "canonical quote raw_text n = write_canonical quote raw_text (Some n)"

subsection \<open>The table of method results\<close>

record method_result =
  mr_result :: string
  mr_results :: "string list"
  mr_stream :: string

record method_table =
  mt_herdr_version :: string
  mt_protocol :: "32 word"
  mt_methods :: "(string \<times> method_result) list"

text \<open>The keys of an entry, in order, into the result.\<close>

fun parse_entry_keys ::
  "(string \<Rightarrow> string) \<Rightarrow> string \<Rightarrow> (string \<times> json) list \<Rightarrow> method_result \<Rightarrow> (gen_error, method_result) result" where
  "parse_entry_keys quote name [] r = ok r"
| "parse_entry_keys quote name ((key, j) # rest) r =
    (if key = ''result'' then
          (case parse_string j of Inl e \<Rightarrow> err (GenWrap (''method table: '' @ name @ '': '' @ key) e)
           | Inr v \<Rightarrow> parse_entry_keys quote name rest (r\<lparr>mr_result := v\<rparr>))
        else if key = ''results'' then
          (case parse_strings j of Inl e \<Rightarrow> err (GenWrap (''method table: '' @ name @ '': '' @ key) e)
           | Inr v \<Rightarrow> parse_entry_keys quote name rest (r\<lparr>mr_results := v\<rparr>))
        else if key = ''stream'' then
          (case parse_string j of Inl e \<Rightarrow> err (GenWrap (''method table: '' @ name @ '': '' @ key) e)
           | Inr v \<Rightarrow> parse_entry_keys quote name rest (r\<lparr>mr_stream := v\<rparr>))
        else err (GenMessage (''method table: '' @ name @ '': unsupported key '' @ quote key)))"

definition parse_entry :: "(string \<Rightarrow> string) \<Rightarrow> string \<Rightarrow> json \<Rightarrow> (gen_error, method_result) result" where
  "parse_entry quote name j = (case raw_map j of
     None \<Rightarrow> err (GenWrap (''method table: '' @ name) GenJson)
   | Some entry \<Rightarrow> (case parse_entry_keys quote name entry \<lparr>mr_result = [], mr_results = [], mr_stream = []\<rparr> of
       Inl e \<Rightarrow> err e
     | Inr r \<Rightarrow>
         if length entry \<noteq> 1
         then err (GenMessage (''method table: '' @ name @ '': expected exactly one of result, results, stream, got '' @
           show_strings (map fst entry)))
         else if mr_results r = [] \<and> mr_result r = [] \<and> mr_stream r = []
         then err (GenMessage (''method table: '' @ name @ '': empty entry''))
         else ok r))"

fun parse_entries ::
  "(string \<Rightarrow> string) \<Rightarrow> (string \<times> json) list \<Rightarrow> (gen_error, (string \<times> method_result) list) result" where
  "parse_entries quote [] = ok []"
| "parse_entries quote ((name, j) # rest) = (case parse_entry quote name j of
     Inl e \<Rightarrow> err e
   | Inr r \<Rightarrow> (case parse_entries quote rest of Inl e \<Rightarrow> err e | Inr rs \<Rightarrow> ok ((name, r) # rs)))"

text \<open>The struct \<open>raw\<close> of \<open>ParseMethodTable\<close>, its methods as raw documents.\<close>

record raw_table =
  rt_herdr_version :: string
  rt_protocol :: "32 word"
  rt_methods :: "(string \<times> json) list"

text \<open>Decoding into a map that has entries keeps them; null empties it.\<close>

definition methods_field :: "raw_table field" where
  "methods_field = \<lparr>fld_name = ''methods'', fld_enc = (\<lambda>r. None),
     fld_dec = (\<lambda>j r. if j = JNull then Some (r\<lparr>rt_methods := []\<rparr>)
       else map_option (\<lambda>ms. r\<lparr>rt_methods := fold (\<lambda>(k, v). AList.update k v) ms (rt_methods r)\<rparr>) (raw_map j)),
     fld_ok = (\<lambda>r. True)\<rparr>"

definition raw_table_fields :: "raw_table field list" where
  "raw_table_fields =
    [plain_field ''herdr_version'' string_codec rt_herdr_version (\<lambda>x r. r\<lparr>rt_herdr_version := x\<rparr>),
     plain_field ''protocol'' uint_codec rt_protocol (\<lambda>x r. r\<lparr>rt_protocol := x\<rparr>),
     methods_field]"

definition parse_method_table :: "(string \<Rightarrow> string) \<Rightarrow> json option \<Rightarrow> (gen_error, method_table) result" where
  "parse_method_table quote data =
    (case Option.bind data (\<lambda>j. decode_struct raw_table_fields j
         \<lparr>rt_herdr_version = [], rt_protocol = 0, rt_methods = []\<rparr>) of
       None \<Rightarrow> err (GenWrap ''method table'' GenJson)
     | Some raw \<Rightarrow>
         (let methods = sort_key fst (rt_methods raw)
          in if methods = [] then err (GenMessage ''method table: no methods'')
             else case parse_entries quote methods of
               Inl e \<Rightarrow> err e
             | Inr ms \<Rightarrow> ok \<lparr>mt_herdr_version = rt_herdr_version raw, mt_protocol = rt_protocol raw, mt_methods = ms\<rparr>))"

definition entry_tags :: "method_result \<Rightarrow> string list" where
  "entry_tags entry =
    (if mr_result entry \<noteq> [] then [mr_result entry]
     else if mr_stream entry \<noteq> [] then [mr_stream entry]
     else filter (\<lambda>tag. tag \<noteq> ''*'') (mr_results entry))"

fun check_entries :: "(string \<Rightarrow> string) \<Rightarrow> string list \<Rightarrow> (string \<times> method_result) list \<Rightarrow> gen_error option" where
  "check_entries quote tags [] = None"
| "check_entries quote tags ((name, entry) # rest) =
    (case find (\<lambda>tag. tag \<notin> set tags) (entry_tags entry) of
       Some tag \<Rightarrow> Some (GenMessage (''method table: '' @ name @ '': unknown result type '' @ quote tag))
     | None \<Rightarrow> check_entries quote tags rest)"

definition validate_table :: "(string \<Rightarrow> string) \<Rightarrow> string list \<Rightarrow> string list \<Rightarrow> method_table \<Rightarrow> gen_error option" where
  "validate_table quote methods tags t =
    (let missing = filter (\<lambda>m. m \<notin> fst ` set (mt_methods t)) methods;
         unknown = filter (\<lambda>name. name \<notin> set methods) (map fst (mt_methods t))
     in if missing \<noteq> [] then Some (GenMessage (''method table: no entry for '' @ show_strings (sort missing)))
        else if unknown \<noteq> [] then Some (GenMessage (''method table: unknown method '' @ show_strings (sort unknown)))
        else check_entries quote tags (sort_key fst (mt_methods t)))"

lemma check_entries_None:
  "check_entries quote tags es = None \<longleftrightarrow> (\<forall>(name, e) \<in> set es. set (entry_tags e) \<subseteq> set tags)"
  by (induction quote tags es rule: check_entries.induct)
    (auto simp: find_None_iff find_Some_iff subset_iff split: option.splits)

text \<open>A table passes when it has an entry for each method and no other, and names known results only.\<close>

lemma validate_table_None:
  "validate_table quote methods tags t = None \<longleftrightarrow> fst ` set (mt_methods t) = set methods \<and>
    (\<forall>(name, e) \<in> set (mt_methods t). set (entry_tags e) \<subseteq> set tags)"
  by (auto simp: validate_table_def Let_def check_entries_None filter_empty_conv)

end
