(* ===== verification/Gen_Cycles.thy ===== *)
theory Gen_Cycles
  imports Go_Strings
begin

text \<open>
  The types the generator of \<open>internal/gen\<close> builds (\<open>ir.go\<close>) and \<open>breakOptionalStructCycles\<close>, which puts a
  pointer where a struct would otherwise contain itself. A pointer to a \<open>Type\<close> or a \<open>Field\<close> is its value: each
  is reached through one list only. The variants of a union are the names of their types. Where Go ranges over a
  map the order is unspecified; here it is that of the list the map was filled from.
\<close>

subsection \<open>The types\<close>

datatype type_kind = KindEnum | KindStruct | KindUnion

record enum_value =
  ev_name :: string
  ev_value :: string

record gen_field =
  gf_name :: string
  gf_json :: string
  gf_type :: string
  gf_value_type :: string
  gf_doc :: string
  gf_required :: bool
  gf_nullable :: bool
  gf_optional :: bool
  gf_omit_empty :: bool
  gf_union :: string
  gf_union_slice :: bool

record gen_type =
  gt_name :: string
  gt_kind :: type_kind
  gt_doc :: string
  gt_file :: string
  gt_values :: "enum_value list"
  gt_fields :: "gen_field list"
  gt_tag_field :: string
  gt_tag_value :: string
  gt_union_name :: string
  gt_result_tag :: string
  gt_event_name :: string
  gt_discriminator :: string
  gt_variants :: "string list"

definition needs_unmarshal :: "gen_type \<Rightarrow> bool" where
  "needs_unmarshal t = list_ex (\<lambda>f. gf_union f \<noteq> []) (gt_fields t)"

subsection \<open>The graph of values inside values\<close>

type_synonym structs = "(string \<times> gen_type) list"
type_synonym graph = "(string \<times> string list) list"

text \<open>A later type of the same name replaces an earlier one.\<close>

fun collect_structs :: "structs \<Rightarrow> gen_type list \<Rightarrow> structs" where
  "collect_structs m [] = m"
| "collect_structs m (t # ts) = collect_structs (if gt_kind t = KindStruct then (gt_name t, t) # m else m) ts"

definition structs_of :: "gen_type list \<Rightarrow> structs" where
  "structs_of types = collect_structs [] types"

definition is_struct :: "structs \<Rightarrow> string \<Rightarrow> bool" where
  "is_struct m n \<longleftrightarrow> n \<in> set (map fst m)"

definition value_targets :: "structs \<Rightarrow> gen_type \<Rightarrow> string list" where
  "value_targets m t = [gf_value_type f. f \<leftarrow> gt_fields t, is_struct m (gf_value_type f)]"

definition edges_of :: "structs \<Rightarrow> graph" where
  "edges_of m = map (\<lambda>(n, t). (n, value_targets m t)) m"

definition successors :: "graph \<Rightarrow> string \<Rightarrow> string list" where
  "successors g n = (case map_of g n of None \<Rightarrow> [] | Some ts \<Rightarrow> ts)"

text \<open>
  \<open>visit\<close> on the names of a list, one after the other until one finds \<open>want\<close>; the names seen are threaded
  through as in the map \<open>seen\<close> of the closure.
\<close>

function visit :: "graph \<Rightarrow> string \<Rightarrow> string list \<Rightarrow> string list \<Rightarrow> bool \<times> string list" where
  "visit g want [] seen = (False, seen)"
| "visit g want (name # names) seen =
    (if name = want then (True, seen)
     else if name \<in> set seen then visit g want names seen
     else case visit g want (successors g name) (name # seen) of
         (True, seen') \<Rightarrow> (True, seen')
       | (False, seen') \<Rightarrow> visit g want names seen')"
  by pat_completeness auto

lemma visit_keeps_seen: "visit_dom (g, want, xs, seen) \<Longrightarrow> set seen \<subseteq> set (snd (visit g want xs seen))"
proof (induction g want xs seen rule: visit.pinduct)
  case (2 g want name names seen)
  show ?case
  proof (cases "name = want \<or> name \<in> set seen")
    case True
    with 2 show ?thesis by (auto simp: visit.psimps)
  next
    case False
    obtain b seen' where r: "visit g want (successors g name) (name # seen) = (b, seen')" by fastforce
    have inner: "set seen \<subseteq> set seen'" using 2(3) False r by auto
    show ?thesis
    proof (cases b)
      case True
      with 2(1) False r inner show ?thesis by (auto simp: visit.psimps)
    next
      case no: False
      have "set seen' \<subseteq> set (snd (visit g want names seen'))"
        using 2(4) [OF _ _ r [symmetric]] False no by simp
      with inner no 2(1) False r show ?thesis by (auto simp: visit.psimps)
    qed
  qed
qed (simp add: visit.psimps)

lemma successors_none: "n \<notin> fst ` set g \<Longrightarrow> successors g n = []"
  by (auto simp: successors_def dest!: map_of_SomeD split: option.split intro: rev_image_eqI)

termination visit
proof (relation "inv_image (finite_psubset <*lex*> less_than)
    (\<lambda>(g, want, xs, seen). (fst ` set g - set seen, length xs))")
  show "wf (inv_image (finite_psubset <*lex*> less_than)
    (\<lambda>(g, want, xs, seen). (fst ` set (g :: graph) - set (seen :: string list), length xs)))"
    by auto
next
  fix g :: graph and want name :: string and names seen :: "string list"
  assume "name \<notin> set seen"
  then show "((g, want, successors g name, name # seen), g, want, name # names, seen)
      \<in> inv_image (finite_psubset <*lex*> less_than) (\<lambda>(g, want, xs, seen). (fst ` set g - set seen, length xs))"
    by (cases "name \<in> fst ` set g") (auto simp: finite_psubset_def successors_none)
next
  fix g :: graph and want name :: string and names seen seen' :: "string list" and b
  assume dom: "visit_dom (g, want, successors g name, name # seen)"
    and x: "(b, seen') = visit g want (successors g name) (name # seen)"
  have "snd (visit g want (successors g name) (name # seen)) = seen'" using x by (metis snd_conv)
  with visit_keeps_seen [OF dom] have "set seen \<subseteq> set seen'" by auto
  then show "((g, want, names, seen'), g, want, name # names, seen)
      \<in> inv_image (finite_psubset <*lex*> less_than) (\<lambda>(g, want, xs, seen). (fst ` set g - set seen, length xs))"
    by (auto simp: finite_psubset_def)
qed (auto simp: finite_psubset_def)

definition reaches :: "graph \<Rightarrow> string \<Rightarrow> string \<Rightarrow> bool" where
  "reaches g from' want = fst (visit g want [from'] [])"

definition edge_rel :: "graph \<Rightarrow> (string \<times> string) set" where
  "edge_rel g = {(a, b). b \<in> set (successors g a)}"

lemma visit_found: "visit g want xs seen = (True, s) \<Longrightarrow> \<exists>x \<in> set xs. (x, want) \<in> (edge_rel g)\<^sup>*"
proof (induction g want xs seen arbitrary: s rule: visit.induct)
  case (2 g want name names seen)
  obtain b seen' where r: "visit g want (successors g name) (name # seen) = (b, seen')" by fastforce
  consider "name = want" | "name \<noteq> want" "name \<in> set seen" | "name \<noteq> want" "name \<notin> set seen" b
    | "name \<noteq> want" "name \<notin> set seen" "\<not> b" by blast
  then show ?case
  proof cases
    case 3
    with 2(2) [OF _ _ , of seen'] r obtain x where "x \<in> set (successors g name)" "(x, want) \<in> (edge_rel g)\<^sup>*" by auto
    then have "(name, want) \<in> (edge_rel g)\<^sup>*" by (auto simp: edge_rel_def intro: converse_rtrancl_into_rtrancl)
    then show ?thesis by simp
  next
    case 4
    with 2(4) r have "visit g want names seen' = (True, s)" by simp
    with 2(3) [OF _ _ r [symmetric], of s] 4 show ?thesis by auto
  qed (use 2 in auto)
qed simp

lemma visit_missed:
  "visit g want xs seen = (False, s) \<Longrightarrow>
    set seen \<subseteq> set s \<and> set xs \<subseteq> set s \<and> want \<notin> set s - set seen \<and>
    (\<forall>u \<in> set s - set seen. set (successors g u) \<subseteq> set s)"
proof (induction g want xs seen arbitrary: s rule: visit.induct)
  case (2 g want name names seen)
  obtain b seen' where r: "visit g want (successors g name) (name # seen) = (b, seen')" by fastforce
  show ?case
  proof (cases "name \<in> set seen")
    case True
    with 2 show ?thesis by (auto split: if_splits)
  next
    case False
    with 2(4) r have step: "name \<noteq> want" "\<not> b" "visit g want names seen' = (False, s)"
      by (auto split: if_splits bool.splits)
    from 2(2) [OF step(1) False, of seen'] r step(2)
    have inner: "insert name (set seen) \<subseteq> set seen'" "set (successors g name) \<subseteq> set seen'"
      "want \<notin> set seen' - insert name (set seen)"
      "\<forall>u \<in> set seen' - insert name (set seen). set (successors g u) \<subseteq> set seen'" by auto
    from 2(3) [OF step(1) False r [symmetric], of s] step(2,3)
    have outer: "set seen' \<subseteq> set s" "set names \<subseteq> set s" "want \<notin> set s - set seen'"
      "\<forall>u \<in> set s - set seen'. set (successors g u) \<subseteq> set s" by auto
    have "want \<notin> set s - set seen" using inner outer step(1) by blast
    moreover have "set (successors g u) \<subseteq> set s" if "u \<in> set s - set seen" for u
    proof (cases "u = name")
      case True
      with inner(2) outer(1) show ?thesis by blast
    next
      case no: False
      show ?thesis
      proof (cases "u \<in> set seen'")
        case True
        with that no inner(4) have "set (successors g u) \<subseteq> set seen'" by blast
        with outer(1) show ?thesis by blast
      next
        case False
        with that outer(4) show ?thesis by blast
      qed
    qed
    moreover have "set seen \<subseteq> set s" "name \<in> set s" using inner(1) outer(1) by blast+
    ultimately show ?thesis using outer(2) by simp
  qed
qed simp

lemma reaches_iff: "reaches g a b \<longleftrightarrow> (a, b) \<in> (edge_rel g)\<^sup>*"
proof
  assume "reaches g a b"
  then obtain s where "visit g b [a] [] = (True, s)" unfolding reaches_def by (metis prod.collapse)
  from visit_found [OF this] show "(a, b) \<in> (edge_rel g)\<^sup>*" by simp
next
  assume path: "(a, b) \<in> (edge_rel g)\<^sup>*"
  show "reaches g a b"
  proof (rule ccontr)
    assume "\<not> reaches g a b"
    then obtain s where "visit g b [a] [] = (False, s)" unfolding reaches_def by (metis prod.collapse)
    from visit_missed [OF this] have s: "a \<in> set s" "b \<notin> set s" "\<forall>u \<in> set s. set (successors g u) \<subseteq> set s" by auto
    from path have "b \<in> set s" by induction (use s in \<open>auto simp: edge_rel_def\<close>)
    with s show False by blast
  qed
qed

subsection \<open>\<open>breakOptionalStructCycles\<close>\<close>

definition pointer_field :: "gen_field \<Rightarrow> gen_field" where
  "pointer_field f =
    (let f = f\<lparr>gf_value_type := CHR ''*'' # gf_value_type f\<rparr>
     in f\<lparr>gf_type := ''Optional['' @ gf_value_type f @ '']''\<rparr>)"

text \<open>The first optional field that closes a cycle becomes a pointer; \<open>None\<close> when there is none.\<close>

fun break_fields :: "structs \<Rightarrow> graph \<Rightarrow> string \<Rightarrow> gen_field list \<Rightarrow> gen_field list option" where
  "break_fields m g owner [] = None"
| "break_fields m g owner (f # fs) =
    (if gf_optional f \<and> is_struct m (gf_value_type f) \<and> reaches g (gf_value_type f) owner
     then Some (pointer_field f # fs)
     else map_option (\<lambda>fs. f # fs) (break_fields m g owner fs))"

fun break_types :: "structs \<Rightarrow> graph \<Rightarrow> gen_type list \<Rightarrow> gen_type list option" where
  "break_types m g [] = None"
| "break_types m g (t # ts) = (case break_fields m g (gt_name t) (gt_fields t) of
     Some fs \<Rightarrow> Some (t\<lparr>gt_fields := fs\<rparr> # ts)
   | None \<Rightarrow> map_option (\<lambda>ts. t # ts) (break_types m g ts))"

text \<open>How much longer the value types can grow before none is the name of a struct.\<close>

definition max_name :: "gen_type list \<Rightarrow> nat" where
  "max_name types = Max (insert 0 (length ` gt_name ` set types))"

definition room :: "nat \<Rightarrow> gen_type list \<Rightarrow> nat" where
  "room bound types = (\<Sum>t\<leftarrow>types. \<Sum>f\<leftarrow>gt_fields t. Suc bound - length (gf_value_type f))"

lemma collect_structs_in: "(n, t) \<in> set (collect_structs m types) \<longleftrightarrow>
    (n, t) \<in> set m \<or> (t \<in> set types \<and> gt_kind t = KindStruct \<and> n = gt_name t)"
  by (induction m types rule: collect_structs.induct) auto

lemma struct_name_short: "is_struct (structs_of types) n \<Longrightarrow> length n \<le> max_name types"
proof -
  assume "is_struct (structs_of types) n"
  then obtain t where "(n, t) \<in> set (structs_of types)" by (auto simp: is_struct_def)
  then have "length n \<in> insert 0 (length ` gt_name ` set types)" by (auto simp: structs_of_def collect_structs_in)
  then show ?thesis unfolding max_name_def by (intro Max_ge) auto
qed

lemma break_fields_smaller:
  "break_fields m g owner fs = Some fs' \<Longrightarrow> (\<And>n. is_struct m n \<Longrightarrow> length n \<le> bound) \<Longrightarrow>
    (\<Sum>f\<leftarrow>fs'. Suc bound - length (gf_value_type f)) < (\<Sum>f\<leftarrow>fs. Suc bound - length (gf_value_type f))"
proof (induction m g owner fs arbitrary: fs' rule: break_fields.induct)
  case (2 m g owner f fs)
  show ?case
  proof (cases "gf_optional f \<and> is_struct m (gf_value_type f) \<and> reaches g (gf_value_type f) owner")
    case True
    with 2 have "length (gf_value_type f) \<le> bound" "fs' = pointer_field f # fs" by auto
    then show ?thesis by (simp add: pointer_field_def)
  next
    case False
    with 2(2) obtain rest where rest: "break_fields m g owner fs = Some rest" "fs' = f # rest" by auto
    with 2(1) [OF False rest(1) 2(3)] show ?thesis by simp
  qed
qed simp

lemma break_types_smaller:
  "break_types m g types = Some types' \<Longrightarrow> (\<And>n. is_struct m n \<Longrightarrow> length n \<le> bound) \<Longrightarrow>
    room bound types' < room bound types \<and> map gt_name types' = map gt_name types"
proof (induction m g types arbitrary: types' rule: break_types.induct)
  case (2 m g t ts)
  show ?case
  proof (cases "break_fields m g (gt_name t) (gt_fields t)")
    case None
    with 2 show ?thesis by (fastforce simp: room_def)
  next
    case (Some fs)
    with break_fields_smaller [OF Some 2(3)] 2 show ?thesis by (auto simp: room_def)
  qed
qed simp

lemma max_name_cong: "map gt_name types' = map gt_name types \<Longrightarrow> max_name types' = max_name types"
  unfolding max_name_def by (metis list.set_map)

function break_loop :: "gen_type list \<Rightarrow> gen_type list" where
  "break_loop types = (case break_types (structs_of types) (edges_of (structs_of types)) types of
     Some types' \<Rightarrow> break_loop types' | None \<Rightarrow> types)"
  by pat_completeness auto
termination
proof (relation "measure (\<lambda>types. room (max_name types) types)")
  fix types types'
  assume "break_types (structs_of types) (edges_of (structs_of types)) types = Some types'"
  from break_types_smaller [OF this struct_name_short] max_name_cong
  show "(types', types) \<in> measure (\<lambda>types. room (max_name types) types)" by (metis in_measure)
qed simp

declare break_loop.simps [simp del]

definition value_cycles :: "graph \<Rightarrow> (string \<times> string) list" where
  "value_cycles g =
    [(owner, target). owner \<leftarrow> remdups (map fst g), target \<leftarrow> successors g owner, reaches g target owner]"

definition break_optional_struct_cycles :: "gen_type list \<Rightarrow> (string, gen_type list) result" where
  "break_optional_struct_cycles types =
    (let types = break_loop types
     in case value_cycles (edges_of (structs_of types)) of
          (owner, target) # _ \<Rightarrow>
            err (''generated structs '' @ owner @ '' and '' @ target @ '' form a required value cycle'')
        | [] \<Rightarrow> ok types)"

subsection \<open>What it leaves\<close>

definition value_edges :: "gen_type list \<Rightarrow> (string \<times> string) set" where
  "value_edges types = edge_rel (edges_of (structs_of types))"

definition required_edges :: "gen_type list \<Rightarrow> (string \<times> string) set" where
  "required_edges types = {(n, gf_value_type f) | n t f. map_of (structs_of types) n = Some t \<and>
     f \<in> set (gt_fields t) \<and> \<not> gf_optional f \<and> is_struct (structs_of types) (gf_value_type f)}"

definition field_retyped :: "gen_field \<Rightarrow> gen_field \<Rightarrow> bool" where
  "field_retyped f f' \<longleftrightarrow> (\<exists>k. f' = (pointer_field ^^ k) f \<and> (k = 0 \<or> gf_optional f))"

definition type_retyped :: "gen_type \<Rightarrow> gen_type \<Rightarrow> bool" where
  "type_retyped t t' \<longleftrightarrow> (\<exists>fs. t' = t\<lparr>gt_fields := fs\<rparr> \<and> list_all2 field_retyped (gt_fields t) fs)"

lemma pointer_optional [simp]: "gf_optional ((pointer_field ^^ k) f) = gf_optional f"
  by (induction k) (simp_all add: pointer_field_def Let_def)

lemma field_retyped_refl [simp, intro]: "field_retyped f f"
  unfolding field_retyped_def by (intro exI [of _ 0]) simp

lemma field_retyped_trans: "field_retyped f g \<Longrightarrow> field_retyped g h \<Longrightarrow> field_retyped f h"
proof -
  assume "field_retyped f g" "field_retyped g h"
  then obtain j k where jk: "g = (pointer_field ^^ j) f" "h = (pointer_field ^^ k) g" "j = 0 \<or> gf_optional f"
    "k = 0 \<or> gf_optional g" unfolding field_retyped_def by blast
  then have "h = (pointer_field ^^ (k + j)) f" by (simp add: funpow_add)
  moreover have "k + j = 0 \<or> gf_optional f" using jk by auto
  ultimately show "field_retyped f h" unfolding field_retyped_def by blast
qed

lemma field_retyped_pointer: "gf_optional f \<Longrightarrow> field_retyped f (pointer_field f)"
  unfolding field_retyped_def by (intro exI [of _ 1]) simp

lemma type_retyped_refl [simp, intro]: "type_retyped t t"
  unfolding type_retyped_def by (intro exI [of _ "gt_fields t"]) (simp add: list.rel_refl)

lemma type_retyped_trans: "type_retyped t u \<Longrightarrow> type_retyped u v \<Longrightarrow> type_retyped t v"
proof -
  assume "type_retyped t u" "type_retyped u v"
  then obtain fs gs where "u = t\<lparr>gt_fields := fs\<rparr>" "list_all2 field_retyped (gt_fields t) fs"
    "v = u\<lparr>gt_fields := gs\<rparr>" "list_all2 field_retyped (gt_fields u) gs" unfolding type_retyped_def by blast
  then have "v = t\<lparr>gt_fields := gs\<rparr>" "list_all2 field_retyped (gt_fields t) gs"
    using list_all2_trans [OF field_retyped_trans, where as = "gt_fields t" and bs = fs and cs = gs] by simp_all
  then show ?thesis unfolding type_retyped_def by blast
qed

lemma type_retyped_simps:
  "type_retyped t t' \<Longrightarrow> gt_name t' = gt_name t \<and> gt_kind t' = gt_kind t \<and>
    list_all2 field_retyped (gt_fields t) (gt_fields t')"
  by (auto simp: type_retyped_def)

lemma break_fields_retyped: "break_fields m g owner fs = Some fs' \<Longrightarrow> list_all2 field_retyped fs fs'"
  by (induction m g owner fs arbitrary: fs' rule: break_fields.induct)
    (auto simp: list.rel_refl field_retyped_pointer split: if_splits)

lemma break_types_retyped: "break_types m g types = Some types' \<Longrightarrow> list_all2 type_retyped types types'"
proof (induction m g types arbitrary: types' rule: break_types.induct)
  case (2 m g t ts)
  show ?case
  proof (cases "break_fields m g (gt_name t) (gt_fields t)")
    case None
    with 2 show ?thesis by auto
  next
    case (Some fs)
    then have "type_retyped t (t\<lparr>gt_fields := fs\<rparr>)" unfolding type_retyped_def by (blast intro: break_fields_retyped)
    with Some 2(2) show ?thesis by (auto simp: list.rel_refl)
  qed
qed simp

lemma break_loop_ends:
  "break_types (structs_of (break_loop types)) (edges_of (structs_of (break_loop types))) (break_loop types) = None \<and>
    list_all2 type_retyped types (break_loop types)"
proof (induction types rule: break_loop.induct)
  case (1 types)
  show ?case
  proof (cases "break_types (structs_of types) (edges_of (structs_of types)) types")
    case None
    then show ?thesis by (simp add: break_loop.simps [of types] list.rel_refl)
  next
    case (Some types')
    with 1 [OF Some] break_types_retyped [OF Some] list_all2_trans [OF type_retyped_trans] show ?thesis
      by (auto simp: break_loop.simps [of types])
  qed
qed

lemma structs_retyped:
  "list_all2 type_retyped types types' \<Longrightarrow> list_all2 (rel_prod (=) type_retyped) m m' \<Longrightarrow>
    list_all2 (rel_prod (=) type_retyped) (collect_structs m types) (collect_structs m' types')"
proof (induction types types' arbitrary: m m' rule: list_all2_induct)
  case (Cons t ts t' ts')
  then show ?case by (simp add: type_retyped_simps)
qed simp

lemma retyped_keys: "list_all2 (rel_prod (=) R) m m' \<Longrightarrow> map fst m' = map fst m"
  by (induction m m' rule: list_all2_induct) auto

lemma retyped_map_of: "list_all2 (rel_prod (=) R) m m' \<Longrightarrow> rel_option R (map_of m n) (map_of m' n)"
  by (induction m m' rule: list_all2_induct) auto

lemma required_fields_kept:
  "list_all2 field_retyped fs fs' \<Longrightarrow> {f \<in> set fs'. \<not> gf_optional f} = {f \<in> set fs. \<not> gf_optional f}"
proof (induction fs fs' rule: list_all2_induct)
  case (Cons f fs f' fs')
  have "f' = f \<or> (gf_optional f \<and> gf_optional f')"
    using Cons(1) unfolding field_retyped_def by (metis funpow_0 pointer_optional)
  with Cons(3) show ?case by auto
qed simp

lemma required_edges_retyped:
  assumes "list_all2 type_retyped types types'"
  shows "required_edges types' = required_edges types"
proof -
  have m: "list_all2 (rel_prod (=) type_retyped) (structs_of types) (structs_of types')"
    unfolding structs_of_def by (rule structs_retyped [OF assms]) simp
  have same: "is_struct (structs_of types') = is_struct (structs_of types)"
    using retyped_keys [OF m] by (simp add: fun_eq_iff is_struct_def flip: set_map)
  have fields: "(\<exists>t f. map_of (structs_of types') n = Some t \<and> f \<in> set (gt_fields t) \<and> \<not> gf_optional f \<and> P f) \<longleftrightarrow>
    (\<exists>t f. map_of (structs_of types) n = Some t \<and> f \<in> set (gt_fields t) \<and> \<not> gf_optional f \<and> P f)" for n P
    using retyped_map_of [OF m, of n]
  proof (cases rule: option.rel_cases)
    case (Some t t')
    have "{f \<in> set (gt_fields t'). \<not> gf_optional f} = {f \<in> set (gt_fields t). \<not> gf_optional f}"
      using Some(3) by (intro required_fields_kept) (simp add: type_retyped_simps)
    with Some show ?thesis by auto
  qed simp
  have "(n, v) \<in> required_edges types' \<longleftrightarrow> (n, v) \<in> required_edges types" for n v
    unfolding required_edges_def same
    using fields [of n "\<lambda>f. is_struct (structs_of types) (gf_value_type f) \<and> v = gf_value_type f"] by auto
  then show ?thesis by auto
qed

lemma cycle_edges:
  assumes "\<And>x y. (x, y) \<in> R \<Longrightarrow> (y, x) \<in> R\<^sup>* \<Longrightarrow> (x, y) \<in> S" and "(a, b) \<in> R\<^sup>+" "(b, a) \<in> R\<^sup>*"
  shows "(a, b) \<in> S\<^sup>+"
  using assms(2,3)
proof (induction rule: trancl_induct)
  case (base b)
  then show ?case using assms(1) by blast
next
  case (step b c)
  then have "(b, a) \<in> R\<^sup>*" "(c, b) \<in> R\<^sup>*"
    by (auto intro: converse_rtrancl_into_rtrancl trancl_into_rtrancl rtrancl_trans)
  with step assms(1) show ?case by (meson trancl.trancl_into_trancl)
qed

lemma value_edges_iff: "(a, b) \<in> value_edges types \<longleftrightarrow>
    (\<exists>t f. map_of (structs_of types) a = Some t \<and> f \<in> set (gt_fields t) \<and> gf_value_type f = b \<and>
      is_struct (structs_of types) b)"
proof -
  have "map_of (edges_of m) n = map_option (value_targets m') (map_of m n)" if "edges_of m = map (\<lambda>(n, t). (n, value_targets m' t)) m" for m m' n
    unfolding that by (induction m) auto
  then have "map_of (edges_of m) n = map_option (value_targets m) (map_of m n)" for m n
    by (simp add: edges_of_def)
  then show ?thesis
    by (cases "map_of (structs_of types) a")
      (auto simp: value_edges_def edge_rel_def successors_def value_targets_def)
qed

lemma required_subset: "required_edges types \<subseteq> value_edges types"
  by (auto simp: required_edges_def value_edges_iff)

lemma struct_name: "map_of (structs_of types) n = Some t \<Longrightarrow> t \<in> set types \<and> gt_name t = n"
  by (auto dest!: map_of_SomeD simp: structs_of_def collect_structs_in)

lemma break_fields_none: "break_fields m g owner fs = None \<Longrightarrow> f \<in> set fs \<Longrightarrow> gf_optional f \<Longrightarrow>
    is_struct m (gf_value_type f) \<Longrightarrow> \<not> reaches g (gf_value_type f) owner"
  by (induction m g owner fs rule: break_fields.induct) (auto split: if_splits)

lemma break_types_none: "break_types m g types = None \<Longrightarrow> t \<in> set types \<Longrightarrow> break_fields m g (gt_name t) (gt_fields t) = None"
  by (induction m g types rule: break_types.induct) (auto split: option.splits)

text \<open>When the loop ends, only required fields lie on cycles.\<close>

lemma ended_cycles:
  assumes "break_types (structs_of types) (edges_of (structs_of types)) types = None" "(a, a) \<in> (value_edges types)\<^sup>+"
  shows "(a, a) \<in> (required_edges types)\<^sup>+"
proof (rule cycle_edges [OF _ assms(2)])
  fix x y
  assume edge: "(x, y) \<in> value_edges types" and return_path: "(y, x) \<in> (value_edges types)\<^sup>*"
  from edge obtain t f where f: "map_of (structs_of types) x = Some t" "f \<in> set (gt_fields t)" "gf_value_type f = y"
    "is_struct (structs_of types) y" by (auto simp: value_edges_iff)
  from struct_name [OF f(1)] break_types_none [OF assms(1), of t]
  have none: "break_fields (structs_of types) (edges_of (structs_of types)) x (gt_fields t) = None" by auto
  have "\<not> gf_optional f"
    using break_fields_none [OF none f(2)] f(3,4) return_path by (auto simp: reaches_iff value_edges_def)
  with f show "(x, y) \<in> required_edges types" by (auto simp: required_edges_def)
qed simp

lemma value_cycles_iff: "value_cycles (edges_of (structs_of types)) = [] \<longleftrightarrow> acyclic (value_edges types)"
proof -
  let ?g = "edges_of (structs_of types)"
  have key: "owner \<in> fst ` set ?g" if "target \<in> set (successors ?g owner)" for owner target
    using that successors_none by fastforce
  have "value_cycles ?g = [] \<longleftrightarrow> (\<forall>owner target. target \<in> set (successors ?g owner) \<longrightarrow> \<not> reaches ?g target owner)"
  proof -
    have "set (value_cycles ?g) = {(owner, target). target \<in> set (successors ?g owner) \<and> reaches ?g target owner}"
      using key by (force simp: value_cycles_def)
    then show ?thesis by (auto simp flip: set_empty)
  qed
  also have "\<dots> \<longleftrightarrow> acyclic (value_edges types)"
    unfolding acyclic_def value_edges_def reaches_iff
    by (auto simp: trancl_unfold_left edge_rel_def)
  finally show ?thesis .
qed

lemma distinct_struct:
  assumes "distinct (map gt_name types)" "t \<in> set types"
  shows "map_of (structs_of types) (gt_name t) = (if gt_kind t = KindStruct then Some t else None)"
proof -
  have only: "t' = t" if "t' \<in> set types" "gt_name t' = gt_name t" for t'
    using that assms by (metis distinct_map inj_onD)
  show ?thesis
  proof (cases "gt_kind t = KindStruct")
    case True
    then have "(gt_name t, t) \<in> set (structs_of types)" using assms(2) by (simp add: structs_of_def collect_structs_in)
    then obtain t' where t': "map_of (structs_of types) (gt_name t) = Some t'" by (metis weak_map_of_SomeI)
    with struct_name [OF t'] only True show ?thesis by auto
  next
    case False
    have "map_of (structs_of types) (gt_name t) \<noteq> Some t'" for t'
    proof
      assume t': "map_of (structs_of types) (gt_name t) = Some t'"
      then have "gt_kind t' = KindStruct" by (auto dest!: map_of_SomeD simp: structs_of_def collect_structs_in)
      with struct_name [OF t'] only False show False by auto
    qed
    with False show ?thesis by (cases "map_of (structs_of types) (gt_name t)") auto
  qed
qed

lemma reached_struct:
  "(a, b) \<in> (value_edges types)\<^sup>* \<Longrightarrow> is_struct (structs_of types) a \<Longrightarrow> is_struct (structs_of types) b"
  by (induction rule: rtrancl_induct) (auto simp: value_edges_iff)

lemma break_loop_acyclic:
  assumes "distinct (map gt_name types)" "acyclic (value_edges types)"
  shows "break_loop types = types"
proof -
  have none: "break_fields m (edges_of m) (gt_name t) fs = None"
    if "m = structs_of types" "t \<in> set types" "set fs \<subseteq> set (gt_fields t)" for m t fs
    using that(3)
  proof (induction fs)
    case (Cons f fs)
    have "\<not> (gf_optional f \<and> is_struct m (gf_value_type f) \<and> reaches (edges_of m) (gf_value_type f) (gt_name t))"
    proof
      assume f: "gf_optional f \<and> is_struct m (gf_value_type f) \<and> reaches (edges_of m) (gf_value_type f) (gt_name t)"
      then have return_path: "(gf_value_type f, gt_name t) \<in> (value_edges types)\<^sup>*"
        using that(1) by (simp add: reaches_iff value_edges_def)
      from reached_struct [OF this] f that(1) have "is_struct (structs_of types) (gt_name t)" by simp
      then have "map_of (structs_of types) (gt_name t) \<noteq> None" by (simp add: is_struct_def map_of_eq_None_iff)
      with distinct_struct [OF assms(1) that(2)] have "map_of (structs_of types) (gt_name t) = Some t"
        by (simp split: if_splits)
      with f Cons.prems that(1) have "(gt_name t, gf_value_type f) \<in> value_edges types" by (auto simp: value_edges_iff)
      with return_path assms(2) show False unfolding acyclic_def by (meson rtrancl_into_trancl2)
    qed
    with Cons show ?case by auto
  qed simp
  have "break_types (structs_of types) (edges_of (structs_of types)) ts = None" if "set ts \<subseteq> set types" for ts
    using that by (induction ts) (simp_all add: none)
  then show ?thesis by (subst break_loop.simps) simp
qed

lemma break_cycles:
  "case break_optional_struct_cycles types of
     Inl e \<Rightarrow> \<not> acyclic (required_edges types)
   | Inr types' \<Rightarrow> acyclic (required_edges types) \<and> acyclic (value_edges types') \<and> list_all2 type_retyped types types' \<and>
       (distinct (map gt_name types) \<and> acyclic (value_edges types) \<longrightarrow> types' = types)"
proof -
  let ?types = "break_loop types"
  have ended: "break_types (structs_of ?types) (edges_of (structs_of ?types)) ?types = None"
    and retyped: "list_all2 type_retyped types ?types"
    using break_loop_ends [of types] by simp_all
  have same: "required_edges ?types = required_edges types" by (rule required_edges_retyped [OF retyped])
  have acyclic: "acyclic (value_edges ?types) \<longleftrightarrow> acyclic (required_edges types)"
    using ended_cycles [OF ended] trancl_mono [OF _ required_subset [of ?types]] unfolding same acyclic_def by blast
  have kept: "?types = types" if "distinct (map gt_name types)" "acyclic (value_edges types)"
    by (rule break_loop_acyclic [OF that])
  show ?thesis
    using value_cycles_iff [of ?types] acyclic retyped kept
    by (auto simp: break_optional_struct_cycles_def Let_def split: list.split)
qed

text \<open>
  C40. \<open>breakOptionalStructCycles\<close> ends on every list of types. It fails exactly when the required fields alone
  form a cycle. Otherwise no struct of the result contains itself, only optional fields were changed, each to
  a pointer to what it held, and nothing was changed when there was no cycle to break.
\<close>

theorem break_cycles_exact:
  "case break_optional_struct_cycles types of
     Inl e \<Rightarrow> \<not> acyclic (required_edges types)
   | Inr types' \<Rightarrow> acyclic (required_edges types) \<and> acyclic (value_edges types') \<and> list_all2 type_retyped types types' \<and>
       (distinct (map gt_name types) \<and> acyclic (value_edges types) \<longrightarrow> types' = types)"
  by (rule break_cycles)

definition sample_field :: gen_field where
  "sample_field = \<lparr>gf_name = ''Next'', gf_json = ''next'', gf_type = ''Optional[Node]'', gf_value_type = ''Node'',
     gf_doc = [], gf_required = False, gf_nullable = False, gf_optional = True, gf_omit_empty = False,
     gf_union = [], gf_union_slice = False\<rparr>"

definition sample_node :: gen_type where
  "sample_node = \<lparr>gt_name = ''Node'', gt_kind = KindStruct, gt_doc = [], gt_file = ''types'', gt_values = [],
     gt_fields = [sample_field], gt_tag_field = [], gt_tag_value = [], gt_union_name = [], gt_result_tag = [],
     gt_event_name = [], gt_discriminator = [], gt_variants = []\<rparr>"

definition sample_broken :: gen_type where
  "sample_broken = sample_node\<lparr>gt_fields := [sample_field\<lparr>gf_value_type := ''*Node'', gf_type := ''Optional[*Node]''\<rparr>]\<rparr>"

lemma sample_breaks: "break_optional_struct_cycles [sample_node] = Inr [sample_broken]"
  by code_simp

theorem break_cycles_exact_witness:
  "break_optional_struct_cycles [sample_node] = Inr [sample_broken] \<and> acyclic (value_edges [sample_broken]) \<and>
   break_optional_struct_cycles [sample_broken] = Inr [sample_broken]"
proof -
  from break_cycles_exact [of "[sample_node]"] sample_breaks
  have "acyclic (required_edges [sample_node])" "acyclic (value_edges [sample_broken])"
    "list_all2 type_retyped [sample_node] [sample_broken]" by simp_all
  moreover from break_cycles_exact [of "[sample_broken]"] this(1) required_edges_retyped [OF this(3)] this(2)
  have "break_optional_struct_cycles [sample_broken] = Inr [sample_broken]"
    by (simp split: sum.splits)
  ultimately show ?thesis using sample_breaks by simp
qed

end
