(* ===== verification/Gen_Ir.thy ===== *)
theory Gen_Ir
  imports Gen_Schema Gen_Cycles
begin

text \<open>
  The middle of the generator: \<open>Build\<close> of \<open>internal/gen/ir.go\<close> turns a parsed schema and the table of method
  results into the types and methods the emitters write. The builder is a state that every step returns updated.
  The pointer to a union that its variants are appended to is found by the name of the union.
\<close>

subsection \<open>The builder\<close>

datatype def_kind = DefEnum | DefStruct | DefUnion | DefManual | DefSpecial

record gen_builder =
  bd_doc :: schema_document
  bd_defs :: "(string \<times> node) list"
  bd_kinds :: "(string \<times> def_kind) list"
  bd_order :: "gen_type list"

definition manual_defs :: "string list" where
  "manual_defs = [''AgentViewField'', ''AgentViewSortField'', ''AgentViewValue'', ''PopupSize'']"

definition special_defs :: "string list" where
  "special_defs = [''EventData'', ''EventEnvelope'', ''EventKind'', ''ResponseResult'', ''SubscriptionEventData'',
     ''SubscriptionEventKind'']"

text \<open>\<open>collectDefs\<close>: the definitions of the sections, which must agree on the names they share.\<close>

fun collect_section ::
  "(string \<Rightarrow> string) \<Rightarrow> (json \<Rightarrow> string) \<Rightarrow> (string \<times> node) list \<Rightarrow> (string \<times> node) list \<Rightarrow>
    (gen_error, (string \<times> node) list) result" where
  "collect_section quote raw_text [] defs = ok defs"
| "collect_section quote raw_text ((name, def) # rest) defs = (case map_of defs name of
     Some prev \<Rightarrow>
       if canonical quote raw_text prev \<noteq> canonical quote raw_text def
       then err (GenMessage (''definition '' @ quote name @ '' differs between schema sections''))
       else collect_section quote raw_text rest defs
   | None \<Rightarrow> collect_section quote raw_text rest (defs @ [(name, def)]))"

fun collect_defs ::
  "(string \<Rightarrow> string) \<Rightarrow> (json \<Rightarrow> string) \<Rightarrow> node list \<Rightarrow> (string \<times> node) list \<Rightarrow>
    (gen_error, (string \<times> node) list) result" where
  "collect_defs quote raw_text [] defs = ok defs"
| "collect_defs quote raw_text (section' # rest) defs =
    (case collect_section quote raw_text (sort_key fst (nd_defs section')) defs of
       Inl e \<Rightarrow> err e | Inr defs \<Rightarrow> collect_defs quote raw_text rest defs)"

definition sections_in_order :: "schema_document \<Rightarrow> node list" where
  "sections_in_order doc = map (\<lambda>name. the (map_of (sd_sections doc) name)) (section_names doc)"

definition kind_of :: "string \<Rightarrow> node \<Rightarrow> def_kind" where
  "kind_of name def =
    (if name \<in> set manual_defs then DefManual
     else if name \<in> set special_defs then DefSpecial
     else if na_enum (nd def) \<noteq> [] then DefEnum
     else if nd_one_of def \<noteq> [] then DefUnion
     else DefStruct)"

definition classify :: "(string \<times> node) list \<Rightarrow> (string \<times> def_kind) list" where
  "classify defs = map (\<lambda>(name, def). (name, kind_of name def)) defs"

definition register_type :: "(string \<Rightarrow> string) \<Rightarrow> gen_type \<Rightarrow> gen_builder \<Rightarrow> (gen_error, gen_builder) result" where
  "register_type quote t b =
    (if gt_name t \<in> gt_name ` set (bd_order b) then err (GenMessage (''duplicate type name '' @ quote (gt_name t)))
     else ok (b\<lparr>bd_order := bd_order b @ [t]\<rparr>))"

subsection \<open>\<open>resolve\<close>: the Go type of a node\<close>

datatype category =
    CatString | CatEnum | CatBool | CatInt | CatFloat | CatStruct | CatSlice | CatMap | CatRaw | CatUnion

record resolved =
  rs_go :: string
  rs_cat :: category
  rs_nullable :: bool
  rs_union :: string
  rs_elem_union :: string

definition plain_type :: "string \<Rightarrow> category \<Rightarrow> bool \<Rightarrow> resolved" where
  "plain_type go cat nullable = \<lparr>rs_go = go, rs_cat = cat, rs_nullable = nullable, rs_union = [], rs_elem_union = []\<rparr>"

definition gen_elem_type :: "resolved \<Rightarrow> string" where
  "gen_elem_type res =
    (if rs_nullable res \<and> rs_cat res \<noteq> CatSlice \<and> rs_cat res \<noteq> CatMap \<and> rs_cat res \<noteq> CatRaw \<and> rs_cat res \<noteq> CatUnion
     then CHR ''*'' # rs_go res else rs_go res)"

definition integer_type :: "(string \<Rightarrow> string) \<Rightarrow> string \<Rightarrow> (gen_error, string) result" where
  "integer_type quote format =
    (if format = [] then ok ''int64''
     else if format = ''uint'' then ok ''uint64''
     else if format \<in> {''uint8'', ''uint16'', ''uint32'', ''uint64'', ''int8'', ''int16'', ''int32'', ''int64''}
     then ok format
     else err (GenMessage (''unsupported integer format '' @ quote format)))"

definition is_null :: "node \<Rightarrow> bool" where
  "is_null n \<longleftrightarrow> length (na_types (nd n)) = 1 \<and> na_types (nd n) ! 0 = ''null''"

definition resolve_ref ::
  "(string \<Rightarrow> string) \<Rightarrow> (string \<times> def_kind) list \<Rightarrow> node \<Rightarrow> (gen_error, resolved) result" where
  "resolve_ref quote kinds n = (let ref = na_ref (nd n); path = na_path (nd n) in case map_of kinds ref of
     None \<Rightarrow> err (GenMessage (path @ '': unknown $ref target '' @ quote ref))
   | Some DefEnum \<Rightarrow> ok (plain_type ref CatEnum False)
   | Some DefStruct \<Rightarrow> ok (plain_type ref CatStruct False)
   | Some DefManual \<Rightarrow> ok (plain_type ref CatStruct False)
   | Some DefUnion \<Rightarrow> ok (plain_type ref CatUnion False\<lparr>rs_union := ref\<rparr>)
   | Some DefSpecial \<Rightarrow>
       if ref = ''EventEnvelope'' then ok (plain_type ''EventEnvelope'' CatStruct False)
       else err (GenMessage (path @ '': '' @ quote ref @ '' cannot be referenced as a field type'')))"

text \<open>The cases of \<open>resolve\<close> that look at no other node.\<close>

definition resolve_scalar ::
  "(string \<Rightarrow> string) \<Rightarrow> node \<Rightarrow> string \<Rightarrow> (gen_error, resolved) result" where
  "resolve_scalar quote n base = (let path = na_path (nd n); nullable = node_nullable n; format = na_format (nd n) in
    (if base = ''string'' then
       (if na_enum (nd n) \<noteq> [] then err (GenMessage (path @ '': inline enum is not supported, define it in $defs''))
        else ok (plain_type ''string'' CatString nullable))
     else if base = ''boolean'' then ok (plain_type ''bool'' CatBool nullable)
     else if base = ''integer'' then
       (case integer_type quote format of
          Inl e \<Rightarrow> err (GenWrap path e) | Inr go \<Rightarrow> ok (plain_type go CatInt nullable))
     else if base = ''number'' then
       (if format = [] \<or> format = ''float'' \<or> format = ''double'' then ok (plain_type ''float64'' CatFloat nullable)
        else err (GenMessage (path @ '': unsupported number format '' @ quote format)))
     else err (GenMessage (path @ '': unsupported type '' @ quote base))))"

lemma any_of_smaller: "nd_any_of n = m # ms \<Longrightarrow> size m < size n"
  using node_smaller(5) [of m n] by simp

function resolve ::
  "(string \<Rightarrow> string) \<Rightarrow> (string \<times> def_kind) list \<Rightarrow> node \<Rightarrow> (gen_error, resolved) result" where
  "resolve quote kinds n = (case na_always (nd n) of
     Some b \<Rightarrow>
       if \<not> b then err (GenMessage (na_path (nd n) @ '': schema rejects every value''))
       else ok (plain_type ''json.RawMessage'' CatRaw False)
   | None \<Rightarrow>
     if na_ref (nd n) \<noteq> [] then resolve_ref quote kinds n
     else (case nd_any_of n of
       m # ms \<Rightarrow>
         if length (m # ms) \<noteq> 2 \<or> \<not> is_null ((m # ms) ! 1)
         then err (GenMessage (na_path (nd n) @ '': unsupported anyOf, only [schema, null] is supported outside $defs''))
         else (case resolve quote kinds m of Inl e \<Rightarrow> err e | Inr res \<Rightarrow> ok (res\<lparr>rs_nullable := True\<rparr>))
     | [] \<Rightarrow>
       if nd_one_of n \<noteq> []
       then err (GenMessage (na_path (nd n) @ '': inline oneOf is not supported, define it in $defs''))
       else (case base_type n of
         Inl e \<Rightarrow> err e
       | Inr base \<Rightarrow>
           if base = ''array'' then
             (case nd_items n of
                None \<Rightarrow> err (GenMessage (na_path (nd n) @ '': array without items''))
              | Some items \<Rightarrow> (case resolve quote kinds items of
                  Inl e \<Rightarrow> err e
                | Inr elem \<Rightarrow> ok (plain_type (''[]'' @ gen_elem_type elem) CatSlice (node_nullable n)
                    \<lparr>rs_elem_union := rs_union elem\<rparr>)))
           else if base = ''object'' then
             (case nd_add_props n of
                None \<Rightarrow> err (GenMessage (na_path (nd n) @ '': inline object is not supported, define it in $defs''))
              | Some props \<Rightarrow> (case resolve quote kinds props of
                  Inl e \<Rightarrow> err e
                | Inr v \<Rightarrow>
                    if rs_union v \<noteq> [] then err (GenMessage (na_path (nd n) @ '': map values may not be a union''))
                    else ok (plain_type (''map[string]'' @ gen_elem_type v) CatMap (node_nullable n))))
           else resolve_scalar quote n base)))"
  by pat_completeness auto
termination
  by (relation "measure (\<lambda>(quote, kinds, n). size n)") (simp_all add: any_of_smaller node_smaller)

declare resolve.simps [simp del]

subsection \<open>Structs\<close>

definition build_field ::
  "(string \<Rightarrow> string) \<Rightarrow> (string \<times> def_kind) list \<Rightarrow> node \<Rightarrow> string \<Rightarrow> (gen_error, gen_field) result" where
  "build_field quote kinds owner name =
    (let node = the (map_of (nd_properties owner) name)
     in case resolve quote kinds node of
       Inl e \<Rightarrow> err (GenWrap name e)
     | Inr res \<Rightarrow>
         (let required = is_required owner name;
              f = \<lparr>gf_name = pascal name, gf_json = name, gf_type = [], gf_value_type = rs_go res,
                gf_doc = na_description (nd node), gf_required = required, gf_nullable = rs_nullable res,
                gf_optional = \<not> required, gf_omit_empty = False, gf_union = [], gf_union_slice = False\<rparr>;
              f = (case rs_cat res of
                  CatUnion \<Rightarrow> f\<lparr>gf_type := rs_go res, gf_union := rs_union res\<rparr>
                | CatSlice \<Rightarrow> f\<lparr>gf_type := rs_go res, gf_union := rs_elem_union res,
                    gf_union_slice := (rs_elem_union res \<noteq> [])\<rparr>
                | CatMap \<Rightarrow> f\<lparr>gf_type := rs_go res\<rparr>
                | CatRaw \<Rightarrow> f\<lparr>gf_type := rs_go res\<rparr>
                | _ \<Rightarrow> if required \<and> rs_nullable res
                    then f\<lparr>gf_type := CHR ''*'' # rs_go res, gf_value_type := CHR ''*'' # rs_go res\<rparr>
                    else f\<lparr>gf_type := rs_go res\<rparr>)
          in ok (if gf_optional f then f\<lparr>gf_type := ''Optional['' @ gf_value_type f @ '']''\<rparr> else f)))"

fun build_fields ::
  "(string \<Rightarrow> string) \<Rightarrow> (string \<times> def_kind) list \<Rightarrow> string \<Rightarrow> node \<Rightarrow> string \<Rightarrow> string list \<Rightarrow>
    (gen_error, gen_field list) result" where
  "build_fields quote kinds name node skip [] = ok []"
| "build_fields quote kinds name node skip (prop # props) =
    (if prop = skip then build_fields quote kinds name node skip props
     else case build_field quote kinds node prop of
       Inl e \<Rightarrow> err (GenWrap name e)
     | Inr f \<Rightarrow> (case build_fields quote kinds name node skip props of Inl e \<Rightarrow> err e | Inr fs \<Rightarrow> ok (f # fs)))"

definition new_type :: "string \<Rightarrow> type_kind \<Rightarrow> gen_type" where
  "new_type name kind = \<lparr>gt_name = name, gt_kind = kind, gt_doc = [], gt_file = ''types'', gt_values = [], gt_fields = [],
     gt_tag_field = [], gt_tag_value = [], gt_union_name = [], gt_result_tag = [], gt_event_name = [],
     gt_discriminator = [], gt_variants = []\<rparr>"

definition build_struct ::
  "(string \<Rightarrow> string) \<Rightarrow> (string \<times> def_kind) list \<Rightarrow> string \<Rightarrow> node \<Rightarrow> string \<Rightarrow> (gen_error, gen_type) result" where
  "build_struct quote kinds name node skip = (case base_type node of
     Inl e \<Rightarrow> err e
   | Inr base \<Rightarrow>
       if base \<noteq> [] \<and> base \<noteq> ''object''
       then err (GenMessage (na_path (nd node) @ '': expected an object, got '' @ quote base))
       else (case build_fields quote kinds name node skip (property_names node) of
         Inl e \<Rightarrow> err e | Inr fs \<Rightarrow> ok (new_type name KindStruct\<lparr>gt_fields := fs\<rparr>)))"

subsection \<open>Discriminators\<close>

definition const_names :: "node \<Rightarrow> string list" where
  "const_names variant = [name. (name, prop) \<leftarrow> nd_properties variant, na_const (nd prop) \<noteq> None]"

definition discriminator :: "node list \<Rightarrow> (gen_error, string) result" where
  "discriminator variants =
    (if variants = [] then err (GenMessage ''union without variants'')
     else let counted = concat (map const_names variants);
              found = sort (filter (\<lambda>name. count_list counted name = length variants) (remdups counted))
          in case found of
               [d] \<Rightarrow> ok d
             | [] \<Rightarrow> err (GenMessage ''no property carries a const in every variant'')
             | _ \<Rightarrow> err (GenMessage (''several discriminator candidates: '' @ show_strings found)))"

text \<open>\<open>*variant.Properties[disc].Const\<close>; \<open>None\<close> is the panic of a missing property or a nil pointer.\<close>

definition const_of :: "string \<Rightarrow> node \<Rightarrow> string option" where
  "const_of disc variant = (case map_of (nd_properties variant) disc of
     None \<Rightarrow> None | Some prop \<Rightarrow> na_const (nd prop))"

lemma count_concat: "count_list (concat xss) y = (\<Sum>xs\<leftarrow>xss. count_list xs y)"
  by (induction xss) simp_all

lemma const_names_pairs:
  "distinct (map fst ps) \<Longrightarrow> count_list [n. (n, p) \<leftarrow> ps, na_const (nd p) \<noteq> None] name =
    (case map_of ps name of None \<Rightarrow> 0 | Some p \<Rightarrow> if na_const (nd p) \<noteq> None then 1 else 0)"
proof (induction ps)
  case (Cons q ps)
  obtain n p where q: "q = (n, p)" by fastforce
  show ?case
  proof (cases "n = name")
    case True
    with Cons.prems q have "map_of ps name = None" by (simp add: map_of_eq_None_iff)
    with Cons True q show ?thesis by simp
  next
    case False
    with Cons q show ?thesis by simp
  qed
qed simp

lemma const_names_once:
  "distinct (map fst (nd_properties v)) \<Longrightarrow> count_list (const_names v) name = (if const_of name v \<noteq> None then 1 else 0)"
  unfolding const_names_def const_of_def by (simp only: const_names_pairs split: option.split) simp

lemma const_of_named: "const_of name v \<noteq> None \<Longrightarrow> name \<in> set (const_names v)"
  by (force simp: const_of_def const_names_def split: option.splits dest: map_of_SomeD)

lemma filter_everything: "length (filter P xs) = length xs \<longleftrightarrow> (\<forall>x \<in> set xs. P x)"
  by (induction xs) (simp_all add: Suc_n_not_le_n le_imp_less_Suc less_imp_neq)

lemma count_variants:
  assumes "\<forall>v \<in> set variants. distinct (map fst (nd_properties v))"
  shows "count_list (concat (map const_names variants)) name = length variants \<longleftrightarrow>
    (\<forall>v \<in> set variants. const_of name v \<noteq> None)"
proof -
  have "count_list (concat (map const_names variants)) name = length (filter (\<lambda>v. const_of name v \<noteq> None) variants)"
    using assms by (induction variants) (simp_all add: const_names_once)
  then show ?thesis by (simp only: filter_everything)
qed

lemma sort_singleton_iff: "distinct xs \<Longrightarrow> sort xs = [d] \<longleftrightarrow> set xs = {d}"
proof
  assume "distinct xs" "set xs = {d}"
  then have "length xs = 1" using distinct_card [of xs] by simp
  then obtain x where "xs = [x]" by (auto simp: length_Suc_conv)
  with \<open>set xs = {d}\<close> show "sort xs = [d]" by simp
next
  assume "sort xs = [d]"
  then show "set xs = {d}" using set_sort [of "\<lambda>x. x" xs] by simp
qed

text \<open>
  A discriminator is the one property that carries a const in every variant; so reading it never panics.
\<close>

lemma discriminator_iff:
  assumes "\<forall>v \<in> set variants. distinct (map fst (nd_properties v))"
  shows "discriminator variants = Inr d \<longleftrightarrow> variants \<noteq> [] \<and>
    (\<forall>name. (\<forall>v \<in> set variants. const_of name v \<noteq> None) \<longleftrightarrow> name = d)"
proof (cases "variants = []")
  case False
  let ?counted = "concat (map const_names variants)"
  let ?found = "filter (\<lambda>name. count_list ?counted name = length variants) (remdups ?counted)"
  have found: "name \<in> set ?found \<longleftrightarrow> (\<forall>v \<in> set variants. const_of name v \<noteq> None)" for name
  proof -
    have "name \<in> set ?counted" if "\<forall>v \<in> set variants. const_of name v \<noteq> None"
      using that False const_of_named [of name "hd variants"] by (auto simp: neq_Nil_conv)
    then show ?thesis by (auto simp only: set_filter set_remdups mem_Collect_eq count_variants [OF assms])
  qed
  have "distinct ?found" by simp
  then have "sort ?found = [d] \<longleftrightarrow> set ?found = {d}" by (rule sort_singleton_iff)
  moreover have "discriminator variants = Inr d \<longleftrightarrow> sort ?found = [d]"
    using False by (simp add: discriminator_def Let_def split: list.split)
  ultimately have "discriminator variants = Inr d \<longleftrightarrow> (\<forall>name. name \<in> set ?found \<longleftrightarrow> name = d)"
    by (simp only: set_eq_iff singleton_iff)
  then show ?thesis using False by (simp only: found simp_thms)
qed (simp add: discriminator_def)

end
