(* ===== verification/Gen_Build.thy ===== *)
theory Gen_Build
  imports Gen_Ir
begin

text \<open>
  \<open>Build\<close> of \<open>internal/gen/ir.go\<close>: the events, the results, the other types and the methods of the package, in the
  order the generator builds them, and what a successful build guarantees the emitters.
\<close>

record event_ref =
  er_name :: string
  er_type :: string

datatype method_kind = MethodSingle | MethodMulti | MethodStream

record gen_method =
  me_name :: string
  me_const :: string
  me_wrapper :: string
  me_params :: string
  me_kind :: method_kind
  me_result_type :: string
  me_result_tag :: string
  me_result_types :: "string list"

record gen_package =
  pk_name :: string
  pk_protocol :: "32 word"
  pk_types :: "gen_type list"
  pk_event_kind :: "enum_value list"
  pk_subscriptions :: "event_ref list"
  pk_methods :: "gen_method list"
  pk_manual_types :: "string list"
  pk_auxiliary_types :: "gen_type list"

definition types_in :: "gen_type list \<Rightarrow> string \<Rightarrow> gen_type list" where
  "types_in types file_name = sort_key gt_name (filter (\<lambda>t. gt_file t = file_name) types)"

definition same_field :: "gen_field \<Rightarrow> gen_field \<Rightarrow> bool" where
  "same_field f g \<longleftrightarrow> gf_name f = gf_name g \<and> gf_json f = gf_json g \<and> gf_type f = gf_type g \<and>
     gf_value_type f = gf_value_type g \<and> gf_required f = gf_required g \<and> gf_nullable f = gf_nullable g \<and>
     gf_optional f = gf_optional g \<and> gf_omit_empty f = gf_omit_empty g \<and> gf_union f = gf_union g \<and>
     gf_union_slice f = gf_union_slice g"

definition same_fields :: "gen_field list \<Rightarrow> gen_field list \<Rightarrow> bool" where
  "same_fields fs gs \<longleftrightarrow> list_all2 same_field fs gs"

definition enum_values :: "string \<Rightarrow> string list \<Rightarrow> enum_value list" where
  "enum_values name values' = map (\<lambda>v. \<lparr>ev_name = enum_const_name name v, ev_value = v\<rparr>) values'"

subsection \<open>Events\<close>

text \<open>The names of the dedicated subscriptions, each with the definition of its payload.\<close>

fun pair_refs :: "nat \<Rightarrow> string list \<Rightarrow> node list \<Rightarrow> (gen_error, event_ref list) result" where
  "pair_refs i (name # names) (n # ns) =
    (if na_ref (nd n) = []
     then err (GenMessage (''schema: SubscriptionEventData variant '' @ format_uint i @ '' is not a $ref''))
     else case pair_refs (Suc i) names ns of
       Inl e \<Rightarrow> err e | Inr out \<Rightarrow> ok (\<lparr>er_name = name, er_type = na_ref (nd n)\<rparr> # out))"
| "pair_refs i _ _ = ok []"

definition subscription_events :: "(string \<times> node) list \<Rightarrow> (gen_error, event_ref list) result" where
  "subscription_events defs = (case map_of defs ''SubscriptionEventKind'' of
     None \<Rightarrow> err (GenMessage ''schema: missing SubscriptionEventKind'')
   | Some kind \<Rightarrow> (case map_of defs ''SubscriptionEventData'' of
       None \<Rightarrow> err (GenMessage ''schema: missing SubscriptionEventData'')
     | Some data \<Rightarrow>
         if length (na_enum (nd kind)) \<noteq> length (nd_any_of data)
         then err (GenMessage (''schema: SubscriptionEventKind has '' @ format_uint (length (na_enum (nd kind))) @
           '' values but SubscriptionEventData has '' @ format_uint (length (nd_any_of data)) @ '' variants''))
         else pair_refs 0 (na_enum (nd kind)) (nd_any_of data)))"

text \<open>The tag \<open>*variant.Properties[disc].Const\<close>; \<open>discriminator_tags\<close> below says that it is there.\<close>

definition tag_of :: "string \<Rightarrow> node \<Rightarrow> string" where
  "tag_of disc variant = the (const_of disc variant)"

fun event_variants ::
  "(string \<Rightarrow> string) \<Rightarrow> string \<Rightarrow> string list \<Rightarrow> node list \<Rightarrow> gen_builder \<Rightarrow> (gen_error, gen_builder) result" where
  "event_variants quote disc known [] b = ok b"
| "event_variants quote disc known (variant # rest) b = (let tag = tag_of disc variant in
    if tag \<notin> set known then err (GenMessage (''EventData: '' @ quote tag @ '' is not an EventKind value''))
    else case build_struct quote (bd_kinds b) (pascal tag @ ''Event'') variant disc of
      Inl e \<Rightarrow> err e
    | Inr t \<Rightarrow> (case register_type quote (t\<lparr>gt_file := ''events'', gt_tag_field := disc, gt_tag_value := tag,
          gt_event_name := gen_dot_name tag, gt_doc := na_description (nd variant)\<rparr>) b of
        Inl e \<Rightarrow> err e | Inr b \<Rightarrow> event_variants quote disc known rest b))"

definition find_type :: "string \<Rightarrow> gen_builder \<Rightarrow> gen_type option" where
  "find_type name b = find (\<lambda>t. gt_name t = name) (bd_order b)"

fun subscription_types ::
  "(string \<Rightarrow> string) \<Rightarrow> event_ref list \<Rightarrow> gen_builder \<Rightarrow> (gen_error, gen_builder) result" where
  "subscription_types quote [] b = ok b"
| "subscription_types quote (pair # rest) b = (let ref = er_type pair in case map_of (bd_defs b) ref of
     None \<Rightarrow> err (GenMessage (''schema: missing definition '' @ quote ref))
   | Some def \<Rightarrow> (case build_struct quote (bd_kinds b) ref def [] of
       Inl e \<Rightarrow> err e
     | Inr t \<Rightarrow>
         (let t = t\<lparr>gt_file := ''events'', gt_event_name := er_name pair, gt_doc := na_description (nd def)\<rparr>
          in case find_type ref b of
            Some existing \<Rightarrow>
              if gt_event_name existing \<noteq> er_name pair
              then err (GenMessage (ref @ '': event name '' @ quote (gt_event_name existing) @
                '' does not match subscription name '' @ quote (er_name pair)))
              else if \<not> same_fields (gt_fields existing) (gt_fields t)
              then err (GenMessage (ref @ '': subscription payload differs from the EventData variant''))
              else subscription_types quote rest b
          | None \<Rightarrow> (case register_type quote t b of
              Inl e \<Rightarrow> err e | Inr b \<Rightarrow> subscription_types quote rest b))))"

definition build_events ::
  "(string \<Rightarrow> string) \<Rightarrow> gen_builder \<Rightarrow> gen_package \<Rightarrow> (gen_error, gen_builder \<times> gen_package) result" where
  "build_events quote b pkg = (case map_of (bd_defs b) ''EventKind'' of
     None \<Rightarrow> err (GenMessage ''schema: missing EventKind'')
   | Some kind \<Rightarrow>
       (let pkg = pkg\<lparr>pk_event_kind := pk_event_kind pkg @ enum_values ''EventKind'' (na_enum (nd kind))\<rparr>
        in case map_of (bd_defs b) ''EventData'' of
          None \<Rightarrow> err (GenMessage ''schema: missing EventData'')
        | Some data \<Rightarrow> (case discriminator (nd_one_of data) of
            Inl e \<Rightarrow> err (GenWrap ''EventData'' e)
          | Inr disc \<Rightarrow> (case event_variants quote disc (na_enum (nd kind)) (nd_one_of data) b of
              Inl e \<Rightarrow> err e
            | Inr b \<Rightarrow> (case subscription_events (bd_defs b) of
                Inl e \<Rightarrow> err e
              | Inr pairs \<Rightarrow> (case subscription_types quote pairs b of
                  Inl e \<Rightarrow> err e
                | Inr b \<Rightarrow> ok (b, pkg\<lparr>pk_subscriptions := pk_subscriptions pkg @ pairs\<rparr>)))))))"

subsection \<open>Results\<close>

fun result_variants ::
  "(string \<Rightarrow> string) \<Rightarrow> string \<Rightarrow> node list \<Rightarrow> gen_builder \<Rightarrow> (gen_error, gen_builder) result" where
  "result_variants quote disc [] b = ok b"
| "result_variants quote disc (variant # rest) b = (let tag = tag_of disc variant in
    case build_struct quote (bd_kinds b) (pascal tag @ ''Response'') variant disc of
      Inl e \<Rightarrow> err e
    | Inr t \<Rightarrow> (case register_type quote (t\<lparr>gt_file := ''results'', gt_tag_field := disc, gt_tag_value := tag,
          gt_result_tag := tag, gt_doc := na_description (nd variant)\<rparr>) b of
        Inl e \<Rightarrow> err e | Inr b \<Rightarrow> result_variants quote disc rest b))"

definition build_results :: "(string \<Rightarrow> string) \<Rightarrow> gen_builder \<Rightarrow> (gen_error, gen_builder) result" where
  "build_results quote b = (case map_of (bd_defs b) ''ResponseResult'' of
     None \<Rightarrow> err (GenMessage ''schema: missing ResponseResult'')
   | Some def \<Rightarrow> (case discriminator (nd_one_of def) of
       Inl e \<Rightarrow> err (GenWrap ''ResponseResult'' e)
     | Inr disc \<Rightarrow> result_variants quote disc (nd_one_of def) b))"

subsection \<open>The other types\<close>

definition append_variant :: "string \<Rightarrow> string \<Rightarrow> gen_builder \<Rightarrow> gen_builder" where
  "append_variant owner variant b = b\<lparr>bd_order := map (\<lambda>t.
     if gt_name t = owner then t\<lparr>gt_variants := gt_variants t @ [variant]\<rparr> else t) (bd_order b)\<rparr>"

definition variant_name :: "string \<Rightarrow> string \<Rightarrow> string" where
  "variant_name owner tag = (if owner = ''Subscription'' then pascal tag @ ''Subscription'' else owner @ pascal tag)"

fun union_variants ::
  "(string \<Rightarrow> string) \<Rightarrow> string \<Rightarrow> string \<Rightarrow> node list \<Rightarrow> gen_builder \<Rightarrow> (gen_error, gen_builder) result" where
  "union_variants quote name disc [] b = ok b"
| "union_variants quote name disc (variant # rest) b = (let tag = tag_of disc variant; vname = variant_name name tag in
    case build_struct quote (bd_kinds b) vname variant disc of
      Inl e \<Rightarrow> err e
    | Inr t \<Rightarrow> (case register_type quote (t\<lparr>gt_file := ''types'', gt_tag_field := disc, gt_tag_value := tag,
          gt_union_name := name, gt_doc := na_description (nd variant)\<rparr>) b of
        Inl e \<Rightarrow> err e
      | Inr b \<Rightarrow> union_variants quote name disc rest (append_variant name vname b)))"

definition build_union :: "(string \<Rightarrow> string) \<Rightarrow> string \<Rightarrow> node \<Rightarrow> gen_builder \<Rightarrow> (gen_error, gen_builder) result" where
  "build_union quote name def b = (case discriminator (nd_one_of def) of
     Inl e \<Rightarrow> err (GenWrap name e)
   | Inr disc \<Rightarrow> (case register_type quote
         (new_type name KindUnion\<lparr>gt_doc := na_description (nd def), gt_discriminator := disc\<rparr>) b of
       Inl e \<Rightarrow> err e | Inr b \<Rightarrow> union_variants quote name disc (nd_one_of def) b))"

fun remaining_types :: "(string \<Rightarrow> string) \<Rightarrow> string list \<Rightarrow> string list \<Rightarrow> gen_builder \<Rightarrow> (gen_error, gen_builder) result" where
  "remaining_types quote handled [] b = ok b"
| "remaining_types quote handled (name # names) b =
    (if name \<in> set handled then remaining_types quote handled names b
     else let def = the (map_of (bd_defs b) name); kind = the (map_of (bd_kinds b) name) in
       if kind = DefManual \<or> kind = DefSpecial then remaining_types quote handled names b
       else
         case (if kind = DefEnum
             then register_type quote (new_type name KindEnum
               \<lparr>gt_doc := na_description (nd def), gt_values := enum_values name (na_enum (nd def))\<rparr>) b
           else if kind = DefUnion then build_union quote name def b
           else (case build_struct quote (bd_kinds b) name def [] of
               Inl e \<Rightarrow> err e
             | Inr t \<Rightarrow> register_type quote (t\<lparr>gt_file := ''types'', gt_doc := na_description (nd def)\<rparr>) b)) of
           Inl e \<Rightarrow> err e | Inr b \<Rightarrow> remaining_types quote handled names b)"

definition build_remaining :: "(string \<Rightarrow> string) \<Rightarrow> gen_builder \<Rightarrow> (gen_error, gen_builder) result" where
  "build_remaining quote b = (case subscription_events (bd_defs b) of
     Inl e \<Rightarrow> err e
   | Inr pairs \<Rightarrow> remaining_types quote (map er_type pairs) (sort (map fst (bd_defs b))) b)"

subsection \<open>Methods\<close>

text \<open>The methods of the request section with the definitions of their parameters.\<close>

fun request_methods :: "node list \<Rightarrow> (gen_error, (string \<times> string) list) result" where
  "request_methods [] = ok []"
| "request_methods (variant # rest) = (case const_of ''method'' variant of
     None \<Rightarrow> err (GenMessage (na_path (nd variant) @ '': request variant without a method const''))
   | Some method \<Rightarrow> (case map_of (nd_properties variant) ''params'' of
       None \<Rightarrow> err (GenMessage (na_path (nd variant) @ '': request variant without a params $ref''))
     | Some params \<Rightarrow>
         if na_ref (nd params) = []
         then err (GenMessage (na_path (nd variant) @ '': request variant without a params $ref''))
         else (case request_methods rest of
           Inl e \<Rightarrow> err e | Inr ms \<Rightarrow> ok ((method, na_ref (nd params)) # ms))))"

text \<open>The maps \<open>params\<close> and \<open>resultTypes\<close>: a later entry replaces an earlier one, an absent one reads as empty.\<close>

definition last_entry :: "(string \<times> string) list \<Rightarrow> string \<Rightarrow> string" where
  "last_entry kvs k = (case map_of (rev kvs) k of None \<Rightarrow> [] | Some v \<Rightarrow> v)"

definition result_type_names :: "gen_type list \<Rightarrow> (string \<times> string) list" where
  "result_type_names types = [(gt_result_tag t, gt_name t). t \<leftarrow> types, gt_result_tag t \<noteq> []]"

definition multi_types :: "(string \<times> string) list \<Rightarrow> string list \<Rightarrow> string list" where
  "multi_types results tags = (if ''*'' \<in> set tags then [] else map (last_entry results) tags)"

definition build_method :: "(string \<times> string) list \<Rightarrow> (string \<times> string) list \<Rightarrow> string \<Rightarrow> method_result \<Rightarrow> gen_method" where
  "build_method results params name entry =
    (let wrapper = pascal name; p = last_entry params name;
         m = \<lparr>me_name = name, me_const = ''Method'' @ wrapper, me_wrapper = wrapper,
           me_params = (if p \<noteq> ''EmptyParams'' \<and> p \<noteq> ''P'' then p else []), me_kind = MethodSingle,
           me_result_type = [], me_result_tag = [], me_result_types = []\<rparr>
     in if mr_stream entry \<noteq> [] then m\<lparr>me_kind := MethodStream, me_result_tag := mr_stream entry\<rparr>
        else if mr_result entry \<noteq> [] then m\<lparr>me_kind := MethodSingle, me_result_tag := mr_result entry,
          me_result_type := last_entry results (mr_result entry)\<rparr>
        else m\<lparr>me_kind := MethodMulti, me_result_types := multi_types results (mr_results entry)\<rparr>)"

definition build_methods ::
  "(string \<Rightarrow> string) \<Rightarrow> method_table \<Rightarrow> gen_builder \<Rightarrow> (gen_error, gen_method list) result" where
  "build_methods quote table b = (case map_of (sd_sections (bd_doc b)) ''request'' of
     None \<Rightarrow> err (GenMessage ''schema: missing request section'')
   | Some request \<Rightarrow>
       if nd_one_of request = [] then err (GenMessage ''schema: request section has no methods'')
       else (case request_methods (nd_one_of request) of
         Inl e \<Rightarrow> err e
       | Inr params \<Rightarrow>
           (let results = result_type_names (bd_order b)
            in case validate_table quote (map fst params) (map fst results) table of
              Some e \<Rightarrow> err e
            | None \<Rightarrow> ok (map (\<lambda>name. build_method results params name (the (map_of (mt_methods table) name)))
                (sort (map fst params))))))"

subsection \<open>\<open>Build\<close>\<close>

definition auxiliary_types :: "gen_type list \<Rightarrow> gen_type list" where
  "auxiliary_types types =
    (let none = new_type [] KindStruct\<lparr>gt_file := []\<rparr>;
         envelope_field = (\<lambda>name type json. \<lparr>gf_name = name, gf_json = json, gf_type = type, gf_value_type = type,
           gf_doc = [], gf_required = True, gf_nullable = False, gf_optional = False, gf_omit_empty = False,
           gf_union = [], gf_union_slice = False\<rparr>)
     in [none\<lparr>gt_name := ''EventKind'', gt_kind := KindEnum\<rparr>,
         none\<lparr>gt_name := ''Event'', gt_kind := KindUnion, gt_variants := map gt_name (types_in types ''events'')\<rparr>,
         none\<lparr>gt_name := ''Result'', gt_kind := KindUnion, gt_variants := map gt_name (types_in types ''results'')\<rparr>,
         none\<lparr>gt_name := ''EventEnvelope'', gt_kind := KindStruct,
           gt_doc := ''EventEnvelope is one event line pushed on a subscription connection.'',
           gt_fields := [envelope_field ''Event'' ''EventKind'' ''event'', envelope_field ''Data'' ''Event'' ''data'']\<rparr>])"

definition build_package ::
  "(string \<Rightarrow> string) \<Rightarrow> (json \<Rightarrow> string) \<Rightarrow> schema_document \<Rightarrow> method_table \<Rightarrow> string \<Rightarrow>
    (gen_error, gen_package) result" where
  "build_package quote raw_text doc table name =
    bind_res (collect_defs quote raw_text (sections_in_order doc) []) (\<lambda>defs.
    let b = \<lparr>bd_doc = doc, bd_defs = defs, bd_kinds = classify defs, bd_order = []\<rparr>;
        pkg = \<lparr>pk_name = name, pk_protocol = sd_protocol doc, pk_types = [], pk_event_kind = [], pk_subscriptions = [],
          pk_methods = [], pk_manual_types = [], pk_auxiliary_types = []\<rparr>
    in bind_res (build_events quote b pkg) (\<lambda>(b, pkg).
    bind_res (build_results quote b) (\<lambda>b.
    bind_res (build_remaining quote b) (\<lambda>b.
    bind_res (case break_optional_struct_cycles (bd_order b) of
        Inl e \<Rightarrow> err (GenMessage e) | Inr order \<Rightarrow> ok (b\<lparr>bd_order := order\<rparr>)) (\<lambda>b.
    bind_res (build_methods quote table b) (\<lambda>methods.
      ok (pkg\<lparr>pk_methods := methods, pk_types := sort_key gt_name (bd_order b),
        pk_manual_types := filter (\<lambda>d. map_of (bd_defs b) d \<noteq> None) manual_defs,
        pk_auxiliary_types := auxiliary_types (bd_order b)\<rparr>)))))))"

subsection \<open>What the steps keep\<close>

text \<open>Reading the tag of a variant does not panic: the discriminator has a const in each of them.\<close>

lemma discriminator_tags:
  assumes "discriminator variants = Inr d" "\<forall>v \<in> set variants. distinct (map fst (nd_properties v))" "v \<in> set variants"
  shows "const_of d v = Some (tag_of d v)"
proof -
  have "const_of d v \<noteq> None" using assms discriminator_iff [OF assms(2), of d] by blast
  then show ?thesis by (simp add: tag_of_def)
qed

text \<open>
  \<open>grows b b'\<close>: the schema is the same, no type was lost or changed but for variants appended to a union, and
  names stay distinct and the variants of a union types of their own.
\<close>

definition same_but_variants :: "gen_type \<Rightarrow> gen_type \<Rightarrow> bool" where
  "same_but_variants t t' \<longleftrightarrow> gt_name t' = gt_name t \<and> gt_union_name t' = gt_union_name t \<and>
     gt_event_name t' = gt_event_name t \<and> gt_result_tag t' = gt_result_tag t"

definition variants_there :: "gen_type list \<Rightarrow> bool" where
  "variants_there types \<longleftrightarrow> (\<forall>u \<in> set types. \<forall>v \<in> set (gt_variants u).
     \<exists>t \<in> set types. gt_name t = v \<and> gt_union_name t = gt_name u)"

definition sound_order :: "gen_type list \<Rightarrow> bool" where
  "sound_order types \<longleftrightarrow> distinct (map gt_name types) \<and> variants_there types"

definition grows :: "gen_builder \<Rightarrow> gen_builder \<Rightarrow> bool" where
  "grows b b' \<longleftrightarrow> bd_doc b' = bd_doc b \<and> bd_defs b' = bd_defs b \<and> bd_kinds b' = bd_kinds b \<and>
     (\<forall>t \<in> set (bd_order b). \<exists>t' \<in> set (bd_order b'). same_but_variants t t') \<and>
     (sound_order (bd_order b) \<longrightarrow> sound_order (bd_order b'))"

lemma same_but_variants_refl [simp]: "same_but_variants t t"
  by (simp add: same_but_variants_def)

lemma grows_refl [simp]: "grows b b"
  unfolding grows_def by (auto intro: same_but_variants_refl)

lemma grows_trans: "grows a b \<Longrightarrow> grows b c \<Longrightarrow> grows a c"
  unfolding grows_def same_but_variants_def by (intro conjI ballI impI; simp) (metis (no_types, lifting))

lemma grows_type: "grows b b' \<Longrightarrow> t \<in> set (bd_order b) \<Longrightarrow> \<exists>t' \<in> set (bd_order b'). same_but_variants t t'"
  by (simp add: grows_def)

lemma register_ok:
  assumes "register_type quote t b = Inr b'"
  shows "bd_order b' = bd_order b @ [t]" "gt_name t \<notin> gt_name ` set (bd_order b)"
    "bd_doc b' = bd_doc b" "bd_defs b' = bd_defs b" "bd_kinds b' = bd_kinds b"
  using assms by (auto simp: register_type_def split: if_splits)

lemma register_grows:
  assumes "register_type quote t b = Inr b'" "gt_variants t = []"
  shows "grows b b'"
proof -
  note b' = register_ok [OF assms(1)]
  have "sound_order (bd_order b')" if "sound_order (bd_order b)"
    using that assms(2) unfolding sound_order_def variants_there_def b'(1)
    by (intro conjI) (use b'(2) in simp, fastforce)
  moreover have "\<exists>t' \<in> set (bd_order b'). same_but_variants u t'" if "u \<in> set (bd_order b)" for u
    using that b'(1) by (intro bexI [of _ u]) simp_all
  ultimately show ?thesis using b' by (simp add: grows_def)
qed

lemma build_struct_ok: "build_struct quote kinds name n skip = Inr t \<Longrightarrow> gt_name t = name \<and> gt_variants t = []"
  by (auto simp: build_struct_def new_type_def split: sum.splits if_splits)

lemma append_variant_grows:
  assumes "t \<in> set (bd_order b)" "gt_name t = v" "gt_union_name t = owner"
  shows "grows b (append_variant owner v b)"
proof -
  define f where "f t = (if gt_name t = owner then t\<lparr>gt_variants := gt_variants t @ [v]\<rparr> else t)" for t :: gen_type
  have f [simp]: "gt_name (f t) = gt_name t" "gt_union_name (f t) = gt_union_name t" "same_but_variants t (f t)" for t
    by (simp_all add: f_def same_but_variants_def)
  have in_f: "w \<in> set (gt_variants (f t)) \<longleftrightarrow> w \<in> set (gt_variants t) \<or> (gt_name t = owner \<and> w = v)" for t w
    by (auto simp: f_def)
  define order' where "order' = map f (bd_order b)"
  have names: "map gt_name order' = map gt_name (bd_order b)" by (simp add: order'_def)
  have kept: "\<exists>t' \<in> set order'. same_but_variants u t'" if "u \<in> set (bd_order b)" for u
    using that unfolding order'_def by (intro bexI [of _ "f u"]) simp_all
  have there: "variants_there order'" if "variants_there (bd_order b)"
    unfolding variants_there_def
  proof (intro ballI)
    fix u w
    assume "u \<in> set order'" "w \<in> set (gt_variants u)"
    then obtain u0 where u0: "u0 \<in> set (bd_order b)" "u = f u0" by (auto simp: order'_def)
    with \<open>w \<in> set (gt_variants u)\<close>
    have "w \<in> set (gt_variants u0) \<or> (gt_name u0 = owner \<and> w = v)" by (simp add: in_f)
    then have "\<exists>t' \<in> set (bd_order b). gt_name t' = w \<and> gt_union_name t' = gt_name u0"
    proof
      assume "w \<in> set (gt_variants u0)"
      with that u0(1) show ?thesis unfolding variants_there_def by simp
    next
      assume "gt_name u0 = owner \<and> w = v"
      with assms show ?thesis by (intro bexI [of _ t]) simp_all
    qed
    then obtain t' where "t' \<in> set (bd_order b)" "gt_name t' = w" "gt_union_name t' = gt_name u0" by (elim bexE conjE)
    then have "f t' \<in> set order'" "gt_name (f t') = w" "gt_union_name (f t') = gt_name u"
      by (simp_all add: order'_def u0(2))
    then show "\<exists>t \<in> set order'. gt_name t = w \<and> gt_union_name t = gt_name u" by blast
  qed
  have b': "bd_order (append_variant owner v b) = order'" "bd_doc (append_variant owner v b) = bd_doc b"
    "bd_defs (append_variant owner v b) = bd_defs b" "bd_kinds (append_variant owner v b) = bd_kinds b"
    by (simp_all add: append_variant_def order'_def f_def)
  show ?thesis using kept there by (simp only: grows_def sound_order_def names b') blast
qed

lemma event_variants_grows: "event_variants quote disc known vs b = Inr b' \<Longrightarrow> grows b b'"
proof (induction quote disc known vs b rule: event_variants.induct)
  case (2 quote disc known variant rest b)
  then obtain t b1 where t: "build_struct quote (bd_kinds b) (pascal (tag_of disc variant) @ ''Event'') variant disc = Inr t"
    and reg: "register_type quote (t\<lparr>gt_file := ''events'', gt_tag_field := disc, gt_tag_value := tag_of disc variant,
          gt_event_name := gen_dot_name (tag_of disc variant), gt_doc := na_description (nd variant)\<rparr>) b = Inr b1"
    and rest: "event_variants quote disc known rest b1 = Inr b'" and known: "tag_of disc variant \<in> set known"
    by (auto simp: Let_def split: if_splits sum.splits)
  from register_grows [OF reg] build_struct_ok [OF t] have "grows b b1" by simp
  with 2(1) [OF refl _ t reg rest] known show ?case by (auto intro: grows_trans)
qed simp

lemma result_variants_grows: "result_variants quote disc vs b = Inr b' \<Longrightarrow> grows b b'"
proof (induction quote disc vs b rule: result_variants.induct)
  case (2 quote disc variant rest b)
  then obtain t b1 where t: "build_struct quote (bd_kinds b) (pascal (tag_of disc variant) @ ''Response'') variant disc = Inr t"
    and reg: "register_type quote (t\<lparr>gt_file := ''results'', gt_tag_field := disc, gt_tag_value := tag_of disc variant,
          gt_result_tag := tag_of disc variant, gt_doc := na_description (nd variant)\<rparr>) b = Inr b1"
    and rest: "result_variants quote disc rest b1 = Inr b'"
    by (auto simp: Let_def split: if_splits sum.splits)
  from register_grows [OF reg] build_struct_ok [OF t] have "grows b b1" by simp
  with 2(1) [OF refl t reg rest] show ?case by (auto intro: grows_trans)
qed simp

lemma union_variants_grows: "union_variants quote name disc vs b = Inr b' \<Longrightarrow> grows b b'"
proof (induction quote name disc vs b rule: union_variants.induct)
  case (2 quote name disc variant rest b)
  let ?v = "variant_name name (tag_of disc variant)"
  from 2(2) obtain t b1 where t: "build_struct quote (bd_kinds b) ?v variant disc = Inr t"
    and reg: "register_type quote (t\<lparr>gt_file := ''types'', gt_tag_field := disc, gt_tag_value := tag_of disc variant,
          gt_union_name := name, gt_doc := na_description (nd variant)\<rparr>) b = Inr b1"
    and rest: "union_variants quote name disc rest (append_variant name ?v b1) = Inr b'"
    by (auto simp: Let_def split: if_splits sum.splits)
  let ?t = "t\<lparr>gt_file := ''types'', gt_tag_field := disc, gt_tag_value := tag_of disc variant,
          gt_union_name := name, gt_doc := na_description (nd variant)\<rparr>"
  from register_grows [OF reg] build_struct_ok [OF t] have "grows b b1" by simp
  moreover have "grows b1 (append_variant name ?v b1)"
    using register_ok(1) [OF reg] build_struct_ok [OF t] by (intro append_variant_grows [of ?t]) simp_all
  ultimately show ?case using 2(1) [OF refl refl t reg rest] by (blast intro: grows_trans)
qed simp

lemma build_union_grows:
  assumes "build_union quote name def b = Inr b'"
  shows "grows b b'"
proof -
  from assms obtain disc b1 where
    reg: "register_type quote (new_type name KindUnion\<lparr>gt_doc := na_description (nd def), gt_discriminator := disc\<rparr>) b = Inr b1"
    and variants: "union_variants quote name disc (nd_one_of def) b1 = Inr b'"
    by (auto simp: build_union_def split: sum.splits)
  from register_grows [OF reg] union_variants_grows [OF variants] show ?thesis
    by (auto simp: new_type_def intro: grows_trans)
qed

lemma remaining_types_grows: "remaining_types quote handled names b = Inr b' \<Longrightarrow> grows b b'"
proof (induction quote handled names b rule: remaining_types.induct)
  case (2 quote handled name names b)
  show ?case
  proof (cases "name \<in> set handled \<or> the (map_of (bd_kinds b) name) \<in> {DefManual, DefSpecial}")
    case True
    with 2 show ?thesis by (auto simp: Let_def split: if_splits)
  next
    case False
    let ?def = "the (map_of (bd_defs b) name)" and ?kind = "the (map_of (bd_kinds b) name)"
    let ?step = "if ?kind = DefEnum
             then register_type quote (new_type name KindEnum
               \<lparr>gt_doc := na_description (nd ?def), gt_values := enum_values name (na_enum (nd ?def))\<rparr>) b
           else if ?kind = DefUnion then build_union quote name ?def b
           else (case build_struct quote (bd_kinds b) name ?def [] of
               Inl e \<Rightarrow> err e
             | Inr t \<Rightarrow> register_type quote (t\<lparr>gt_file := ''types'', gt_doc := na_description (nd ?def)\<rparr>) b)"
    from False 2(4) obtain b1 where step: "?step = Inr b1" and rest: "remaining_types quote handled names b1 = Inr b'"
      by (simp add: Let_def split: sum.splits)
    from step have "grows b b1"
      by (auto simp: new_type_def dest!: build_struct_ok register_grows build_union_grows split: if_splits sum.splits)
    moreover from False have "grows b1 b'" by (intro 2(3) [OF _ refl refl _ step rest]) simp_all
    ultimately show ?thesis by (rule grows_trans)
  qed
qed simp

text \<open>Each dedicated subscription has a type of its name, which knows the event.\<close>

definition has_payload :: "gen_type list \<Rightarrow> event_ref \<Rightarrow> bool" where
  "has_payload types p \<longleftrightarrow> (\<exists>t \<in> set types. gt_name t = er_type p \<and> gt_event_name t = er_name p)"

lemma has_payload_grows: "grows b b' \<Longrightarrow> has_payload (bd_order b) p \<Longrightarrow> has_payload (bd_order b') p"
  unfolding has_payload_def grows_def same_but_variants_def by metis

lemma subscription_types_ok:
  "subscription_types quote pairs b = Inr b' \<Longrightarrow> grows b b' \<and> (\<forall>p \<in> set pairs. has_payload (bd_order b') p)"
proof (induction quote pairs b rule: subscription_types.induct)
  case (2 quote pair rest b)
  from 2(3) obtain def t0 where def: "map_of (bd_defs b) (er_type pair) = Some def"
    and t0: "build_struct quote (bd_kinds b) (er_type pair) def [] = Inr t0"
    by (auto simp: Let_def split: option.splits sum.splits)
  let ?t = "t0\<lparr>gt_file := ''events'', gt_event_name := er_name pair, gt_doc := na_description (nd def)\<rparr>"
  show ?case
  proof (cases "find_type (er_type pair) b")
    case (Some existing)
    with 2(3) def t0 have e: "gt_event_name existing = er_name pair" "same_fields (gt_fields existing) (gt_fields ?t)"
      and rest: "subscription_types quote rest b = Inr b'"
      by (auto simp: Let_def split: if_splits)
    from Some have "existing \<in> set (bd_order b)" "gt_name existing = er_type pair"
      by (auto simp: find_type_def find_Some_iff)
    with e have "has_payload (bd_order b) pair" unfolding has_payload_def by blast
    moreover have "grows b b' \<and> (\<forall>p \<in> set rest. has_payload (bd_order b') p)"
      by (rule 2(2) [OF refl def t0 refl Some _ _ rest]) (use e in simp_all)
    ultimately show ?thesis using has_payload_grows by (metis set_ConsD)
  next
    case None
    with 2(3) def t0 obtain b1 where reg: "register_type quote ?t b = Inr b1"
      and rest: "subscription_types quote rest b1 = Inr b'"
      by (auto simp: Let_def split: sum.splits)
    have "has_payload (bd_order b1) pair"
      using register_ok(1) [OF reg] build_struct_ok [OF t0] by (auto simp: has_payload_def)
    moreover have "grows b b1" using register_grows [OF reg] build_struct_ok [OF t0] by simp
    ultimately show ?thesis
      using 2(1) [OF refl def t0 refl None reg rest] has_payload_grows grows_trans by (metis set_ConsD)
  qed
qed simp

lemma build_events_ok:
  assumes "build_events quote b pkg = Inr (b', pkg')"
  shows "grows b b' \<and> (\<exists>pairs. pk_subscriptions pkg' = pk_subscriptions pkg @ pairs \<and>
    (\<forall>p \<in> set pairs. has_payload (bd_order b') p))"
proof -
  from assms obtain kind disc data b1 pairs where
    variants: "event_variants quote disc (na_enum (nd kind)) (nd_one_of data) b = Inr b1"
    and types: "subscription_types quote pairs b1 = Inr b'"
    and pkg': "pkg' = pkg\<lparr>pk_event_kind := pk_event_kind pkg @ enum_values ''EventKind'' (na_enum (nd kind)),
      pk_subscriptions := pk_subscriptions pkg @ pairs\<rparr>"
    by (auto simp: build_events_def Let_def split: option.splits sum.splits)
  from pkg' subscription_types_ok [OF types] event_variants_grows [OF variants] show ?thesis
    by (intro conjI exI [of _ pairs]) (auto intro: grows_trans)
qed

lemma build_results_grows: "build_results quote b = Inr b' \<Longrightarrow> grows b b'"
  by (auto simp: build_results_def split: option.splits sum.splits dest: result_variants_grows)

lemma build_remaining_grows: "build_remaining quote b = Inr b' \<Longrightarrow> grows b b'"
  by (auto simp: build_remaining_def split: sum.splits dest: remaining_types_grows)

subsection \<open>After the cycles are broken\<close>

lemma retyped_names: "list_all2 type_retyped ts ts' \<Longrightarrow> map gt_name ts' = map gt_name ts"
  by (induction ts ts' rule: list_all2_induct) (auto simp: type_retyped_def)

lemma retyped_member: "list_all2 type_retyped ts ts' \<Longrightarrow> t \<in> set ts \<Longrightarrow> \<exists>t' \<in> set ts'. \<exists>fs. t' = t\<lparr>gt_fields := fs\<rparr>"
  by (induction ts ts' rule: list_all2_induct) (auto simp: type_retyped_def)

lemma retyped_origin: "list_all2 type_retyped ts ts' \<Longrightarrow> t' \<in> set ts' \<Longrightarrow> \<exists>t \<in> set ts. \<exists>fs. t' = t\<lparr>gt_fields := fs\<rparr>"
  by (induction ts ts' rule: list_all2_induct) (auto simp: type_retyped_def)

lemma retyped_payload: "list_all2 type_retyped ts ts' \<Longrightarrow> has_payload ts p \<Longrightarrow> has_payload ts' p"
  unfolding has_payload_def
proof (elim bexE)
  fix t
  assume "list_all2 type_retyped ts ts'" "t \<in> set ts" and t: "gt_name t = er_type p \<and> gt_event_name t = er_name p"
  then obtain t' fs where "t' \<in> set ts'" "t' = t\<lparr>gt_fields := fs\<rparr>" using retyped_member by blast
  with t show "\<exists>t \<in> set ts'. gt_name t = er_type p \<and> gt_event_name t = er_name p" by (intro bexI [of _ t']) simp_all
qed

lemma retyped_sound:
  assumes "list_all2 type_retyped ts ts'" "sound_order ts"
  shows "sound_order ts'"
  unfolding sound_order_def variants_there_def
proof (intro conjI ballI)
  show "distinct (map gt_name ts')" using assms retyped_names by (simp add: sound_order_def)
  fix u' v
  assume "u' \<in> set ts'" "v \<in> set (gt_variants u')"
  with retyped_origin [OF assms(1)] obtain u fs where "u \<in> set ts" "u' = u\<lparr>gt_fields := fs\<rparr>" by blast
  with \<open>v \<in> set (gt_variants u')\<close> assms(2) obtain t where "t \<in> set ts" "gt_name t = v" "gt_union_name t = gt_name u'"
    by (auto simp: sound_order_def variants_there_def)
  moreover from this(1) obtain t' gs where "t' \<in> set ts'" "t' = t\<lparr>gt_fields := gs\<rparr>"
    using retyped_member [OF assms(1)] by blast
  ultimately show "\<exists>t \<in> set ts'. gt_name t = v \<and> gt_union_name t = gt_name u'" by (intro bexI [of _ t']) simp_all
qed

text \<open>With distinct names the graph of values does not depend on the order of the types.\<close>

lemma struct_of_iff:
  "distinct (map gt_name ts) \<Longrightarrow>
    map_of (structs_of ts) n = Some t \<longleftrightarrow> t \<in> set ts \<and> gt_name t = n \<and> gt_kind t = KindStruct"
  using struct_name [of ts n t] distinct_struct [of ts t] by (auto split: if_splits)

lemma value_edges_order:
  assumes "distinct (map gt_name ts)" "distinct (map gt_name ts')" "set ts' = set ts"
  shows "value_edges ts' = value_edges ts"
proof -
  have same: "map_of (structs_of ts') n = map_of (structs_of ts) n" for n
  proof -
    have "map_of (structs_of ts') n = Some t \<longleftrightarrow> map_of (structs_of ts) n = Some t" for t
      by (simp only: struct_of_iff [OF assms(1)] struct_of_iff [OF assms(2)] assms(3))
    then show ?thesis by (metis option.exhaust)
  qed
  then have "is_struct (structs_of ts') n = is_struct (structs_of ts) n" for n
    unfolding is_struct_def by (metis map_of_eq_None_iff set_map)
  with same show ?thesis by (auto simp: value_edges_iff)
qed

lemma sorted_types:
  assumes "distinct (map gt_name ts)"
  shows "distinct (map gt_name (sort_key gt_name ts)) \<and> sorted (map gt_name (sort_key gt_name ts)) \<and>
    value_edges (sort_key gt_name ts) = value_edges ts"
proof -
  from assms have "distinct (map gt_name (sort_key gt_name ts))" by (simp add: distinct_map)
  with assms value_edges_order [of ts "sort_key gt_name ts"] show ?thesis by simp
qed

subsection \<open>The methods of a package\<close>

definition answers_with :: "gen_type list \<Rightarrow> string \<Rightarrow> string \<Rightarrow> bool" where
  "answers_with types tag name \<longleftrightarrow> tag \<noteq> [] \<and> (\<exists>t \<in> set types. gt_result_tag t = tag \<and> gt_name t = name)"

definition method_ok :: "gen_type list \<Rightarrow> gen_method \<Rightarrow> bool" where
  "method_ok types m = (case me_kind m of
     MethodSingle \<Rightarrow> answers_with types (me_result_tag m) (me_result_type m)
   | MethodStream \<Rightarrow> \<exists>name. answers_with types (me_result_tag m) name
   | MethodMulti \<Rightarrow> \<forall>name \<in> set (me_result_types m). \<exists>tag. answers_with types tag name)"

lemma last_result:
  assumes "tag \<in> set (map fst (result_type_names types))"
  shows "answers_with types tag (last_entry (result_type_names types) tag)"
proof -
  from assms have "tag \<in> fst ` set (rev (result_type_names types))" by simp
  then obtain name where name: "map_of (rev (result_type_names types)) tag = Some name"
    using map_of_eq_None_iff [of "rev (result_type_names types)" tag] by (cases "map_of (rev (result_type_names types)) tag") auto
  then have "(tag, name) \<in> set (result_type_names types)" using map_of_SomeD by fastforce
  with name show ?thesis by (auto simp: last_entry_def result_type_names_def answers_with_def)
qed

lemma built_method_ok:
  assumes "set (entry_tags e) \<subseteq> set (map fst (result_type_names types))" "mr_result e = [] \<or> mr_stream e = []"
  shows "method_ok types (build_method (result_type_names types) params name e)"
  using assms last_result [of _ types]
  by (auto simp: method_ok_def build_method_def Let_def entry_tags_def multi_types_def split: if_splits) blast+

lemma build_methods_ok:
  assumes "build_methods quote table b = Inr ms"
    and "\<forall>(name, e) \<in> set (mt_methods table). mr_result e = [] \<or> mr_stream e = []"
  shows "\<exists>request params. map_of (sd_sections (bd_doc b)) ''request'' = Some request \<and>
    request_methods (nd_one_of request) = Inr params \<and> map me_name ms = sort (map fst params) \<and>
    set (map me_name ms) = fst ` set (mt_methods table) \<and> list_all (method_ok (bd_order b)) ms"
proof -
  let ?results = "result_type_names (bd_order b)"
  from assms(1) obtain request params where request: "map_of (sd_sections (bd_doc b)) ''request'' = Some request"
    and params: "request_methods (nd_one_of request) = Inr params"
    and valid: "validate_table quote (map fst params) (map fst ?results) table = None"
    and ms: "ms = map (\<lambda>name. build_method ?results params name (the (map_of (mt_methods table) name)))
      (sort (map fst params))"
    by (auto simp: build_methods_def Let_def split: option.splits sum.splits if_splits)
  have names: "me_name (build_method ?results params name e) = name" for name e
    by (simp add: build_method_def Let_def)
  note table = valid [unfolded validate_table_None]
  have "method_ok (bd_order b) (build_method ?results params name (the (map_of (mt_methods table) name)))"
    if "name \<in> set (map fst params)" for name
  proof -
    from that table obtain e where "map_of (mt_methods table) name = Some e"
      by (metis map_of_eq_None_iff not_None_eq)
    moreover from this have "(name, e) \<in> set (mt_methods table)" by (rule map_of_SomeD)
    ultimately show ?thesis using table assms(2) by (intro built_method_ok) auto
  qed
  with request params ms names table show ?thesis
    by (intro exI [of _ request] exI [of _ params]) (auto simp: list_all_iff comp_def)
qed

text \<open>An entry of a table that was parsed has one key.\<close>

lemma parse_entry_one: "parse_entry quote name j = Inr r \<Longrightarrow> mr_result r = [] \<or> mr_stream r = []"
  by (auto simp: parse_entry_def length_Suc_conv split: option.splits sum.splits if_splits)

lemma parse_entries_one:
  "parse_entries quote es = Inr rs \<Longrightarrow> \<forall>(name, e) \<in> set rs. mr_result e = [] \<or> mr_stream e = []"
proof (induction quote es arbitrary: rs rule: parse_entries.induct)
  case (2 quote name j rest)
  from 2(2) obtain e es where "parse_entry quote name j = Inr e" "parse_entries quote rest = Inr es" "rs = (name, e) # es"
    by (auto split: sum.splits)
  with 2(1) [of e es] parse_entry_one [of quote name j e] show ?case by simp
qed simp

lemma parsed_table_one:
  "parse_method_table quote data = Inr table \<Longrightarrow>
    \<forall>(name, e) \<in> set (mt_methods table). mr_result e = [] \<or> mr_stream e = []"
  by (auto simp: parse_method_table_def Let_def split: option.splits sum.splits if_splits dest!: parse_entries_one)

definition package_sound :: "schema_document \<Rightarrow> method_table \<Rightarrow> gen_package \<Rightarrow> bool" where
  "package_sound doc table pkg \<longleftrightarrow>
    distinct (map gt_name (pk_types pkg)) \<and> sorted (map gt_name (pk_types pkg)) \<and> acyclic (value_edges (pk_types pkg)) \<and>
    variants_there (pk_types pkg) \<and> list_all (has_payload (pk_types pkg)) (pk_subscriptions pkg) \<and>
    (\<exists>request params. map_of (sd_sections doc) ''request'' = Some request \<and>
      request_methods (nd_one_of request) = Inr params \<and> map me_name (pk_methods pkg) = sort (map fst params)) \<and>
    me_name ` set (pk_methods pkg) = fst ` set (mt_methods table) \<and>
    list_all (method_ok (pk_types pkg)) (pk_methods pkg)"

lemma lift_result_iff:
  "(case r of Inl e \<Rightarrow> Inl (f e) | Inr x \<Rightarrow> Inr (g x)) = Inr y \<longleftrightarrow> (\<exists>x. r = Inr x \<and> g x = y)"
  by (cases r) simp_all

lemma method_ok_set: "set ts' = set ts \<Longrightarrow> method_ok ts' = method_ok ts"
  by (simp add: method_ok_def answers_with_def fun_eq_iff cong: method_kind.case_cong)


subsection \<open>A small schema\<close>

definition sample_ref :: "string \<Rightarrow> node" where
  "sample_ref name = with_attrs ((no_attrs [])\<lparr>na_ref := name\<rparr>) (empty_node [])"

definition sample_object :: "(string \<times> node) list \<Rightarrow> node" where
  "sample_object props = with_properties props
     (with_attrs ((no_attrs [])\<lparr>na_types := [''object'']\<rparr>) (empty_node []))"

definition sample_const :: "string \<Rightarrow> node" where
  "sample_const c = with_attrs ((no_attrs [])\<lparr>na_const := Some c, na_types := [''string'']\<rparr>) (empty_node [])"

definition sample_enum :: "string list \<Rightarrow> node" where
  "sample_enum vs = with_attrs ((no_attrs [])\<lparr>na_enum := vs, na_types := [''string'']\<rparr>) (empty_node [])"

definition sample_document :: schema_document where
  "sample_document = \<lparr>sd_protocol = 3, sd_version = 1, sd_sections =
     [(''request'', with_defs
         [(''P'', sample_object [])]
         (with_one_of [sample_object [(''method'', sample_const ''p''), (''params'', sample_ref ''P'')]]
           (empty_node []))),
      (''event'', with_defs
         [(''EventKind'', sample_enum [''o'']),
          (''EventData'', with_one_of [sample_object [(''k'', sample_const ''o''), (''t'', sample_ref ''T'')]]
             (empty_node [])),
          (''SubscriptionEventKind'', sample_enum [''t'']),
          (''SubscriptionEventData'', with_any_of [sample_ref ''T''] (empty_node [])),
          (''T'', sample_object [])] (empty_node [])),
      (''success_response'', with_defs
         [(''ResponseResult'', with_one_of [sample_object [(''k'', sample_const ''p'')]] (empty_node []))]
         (empty_node []))]\<rparr>"

definition sample_table_json :: json where
  "sample_table_json = JObj [(''methods'', JObj [(''p'', JObj [(''result'', JStr ''p'')])])]"

definition sample_table :: method_table where
  "sample_table = \<lparr>mt_herdr_version = [], mt_protocol = 0,
     mt_methods = [(''p'', \<lparr>mr_result = ''p'', mr_results = [], mr_stream = []\<rparr>)]\<rparr>"

lemma sample_table_parsed: "parse_method_table (\<lambda>s. s) (Some sample_table_json) = Inr sample_table"
  by code_simp

lemma sample_builds:
  "case build_package (\<lambda>s. s) (\<lambda>j. []) sample_document sample_table ''herdr'' of
     Inl e \<Rightarrow> False
   | Inr pkg \<Rightarrow> map gt_name (pk_types pkg) = [''OEvent'', ''P'', ''PResponse'', ''T''] \<and> map me_result_type (pk_methods pkg) = [''PResponse'']"
  by code_simp


end
