(* ===== verification/Gen_Emit.thy ===== *)
theory Gen_Emit
  imports Gen_Build
begin

text \<open>
  The back of the generator: the text of the generated files (\<open>emit.go\<close>, \<open>emit_api.go\<close>). The \<open>code\<close> builder is the
  text it has collected, so a function that writes yields what it writes. \<open>quote\<close> is \<open>strconv.Quote\<close> and the verb
  \<open>%q\<close>. A variant of a union is found by its name among the types of the package.
\<close>

subsection \<open>Lines, comments and wrapping\<close>

definition nl :: string where "nl = [CHR 0x0A]"
definition dq :: string where "dq = [CHR 0x22]"

definition tabs :: "nat \<Rightarrow> string" where
  "tabs n = replicate n (CHR 0x09)"

definition gen_header :: string where
  "gen_header = ''// Code generated by herdr-api-gen. DO NOT EDIT.'' @ nl"

definition new_file :: "(string \<Rightarrow> string) \<Rightarrow> string \<Rightarrow> string list \<Rightarrow> string" where
  "new_file quote pkg imports' =
    gen_header @ nl @ ''package '' @ pkg @ nl @
    (case imports' of
       [] \<Rightarrow> []
     | [name] \<Rightarrow> nl @ ''import '' @ quote name @ nl
     | _ \<Rightarrow> nl @ ''import ('' @ nl @ concat (map (\<lambda>name. tabs 1 @ quote name @ nl) imports') @
       '')'' @ nl)"

text \<open>\<open>strings.Fields\<close>.\<close>

function text_fields :: "string \<Rightarrow> string \<Rightarrow> string list" where
  "text_fields word s = (case s of
     [] \<Rightarrow> if word = [] then [] else [word]
   | c # cs \<Rightarrow> (case find (\<lambda>p. p \<noteq> [] \<and> has_prefix s p) space_encodings of
       Some p \<Rightarrow> (if word = [] then text_fields [] (drop (length p) s) else word # text_fields [] (drop (length p) s))
     | None \<Rightarrow> text_fields (word @ [c]) cs))"
  by pat_completeness auto
termination
  by (relation "measure (\<lambda>(word, s). length s)") (auto simp: find_Some_iff)

declare text_fields.simps [simp del]

fun wrap_words :: "nat \<Rightarrow> string \<Rightarrow> string list \<Rightarrow> string list" where
  "wrap_words width current [] = [current]"
| "wrap_words width current (word # words) =
    (if length current + 1 + length word > width then current # wrap_words width word words
     else wrap_words width (current @ [CHR '' ''] @ word) words)"

lemma join_with_cons: "join_with sep (a # bs) = (if bs = [] then a else a @ sep @ join_with sep bs)"
  by (cases bs) simp_all

definition wrap_text :: "string \<Rightarrow> nat \<Rightarrow> string list" where
  "wrap_text s width = (case text_fields [] s of [] \<Rightarrow> [] | word # words \<Rightarrow> wrap_words width word words)"

text \<open>Wrapping keeps the words and their order, and a line that is too long is a single word.\<close>

lemma wrap_words_join: "join_with '' '' (wrap_words width current words) = join_with '' '' (current # words)"
  by (induction width current words rule: wrap_words.induct) (auto simp: join_with_cons)

lemma wrap_words_width:
  "l \<in> set (wrap_words width current words) \<Longrightarrow> length l \<le> width \<or> l \<in> set (current # words)"
  by (induction width current words rule: wrap_words.induct) (auto split: if_splits)

lemma wrap_text_exact:
  "join_with '' '' (wrap_text s width) = join_with '' '' (text_fields [] s) \<and>
    (\<forall>l \<in> set (wrap_text s width). length l \<le> width \<or> l \<in> set (text_fields [] s))"
  by (cases "text_fields [] s") (auto simp: wrap_text_def wrap_words_join dest: wrap_words_width)

definition doc_lines :: "string list \<Rightarrow> string" where
  "doc_lines ls = concat (map (\<lambda>l. if l = [] then ''//'' @ nl else concat (map (\<lambda>w. ''// '' @ w @
    nl) (wrap_text l 72))) ls)"

definition field_tag :: "(string \<Rightarrow> string) \<Rightarrow> gen_field \<Rightarrow> string" where
  "field_tag quote f =
    (let name = (if gf_optional f then gf_json f @ '',omitzero''
         else if gf_omit_empty f then gf_json f @ '',omitempty'' else gf_json f)
     in ''`json:'' @ quote name @ ''`'')"

subsection \<open>Types\<close>

definition type_named :: "gen_type list \<Rightarrow> string \<Rightarrow> gen_type" where
  "type_named types name = the (find (\<lambda>t. gt_name t = name) types)"

definition emit_enum :: "(string \<Rightarrow> string) \<Rightarrow> gen_type \<Rightarrow> string" where
  "emit_enum quote t =
    (if gt_doc t \<noteq> [] then doc_lines [gt_doc t] else []) @
    ''type '' @ gt_name t @ '' string'' @ nl @ nl @
    ''// '' @ gt_name t @ '' values.'' @ nl @
    ''const ('' @ nl @
    concat (map (\<lambda>v. tabs 1 @ ev_name v @ '' '' @ gt_name t @ '' = '' @ quote (ev_value v) @
      nl) (gt_values t)) @
    '')'' @ nl"

definition emit_union_decoder :: "(string \<Rightarrow> string) \<Rightarrow> gen_type list \<Rightarrow> gen_type \<Rightarrow> string" where
  "emit_union_decoder quote types t =
    ''func decode'' @ gt_name t @ ''(data []byte) ('' @ gt_name t @ '', error) {'' @ nl @
    tabs 1 @ ''var head struct {'' @ nl @
    tabs 2 @ ''Tag string `json:'' @ quote (gt_discriminator t) @ ''`'' @ nl @
    tabs 1 @ ''}'' @ nl @
    tabs 1 @ ''if err := json.Unmarshal(data, &head); err != nil {'' @ nl @
    tabs 2 @ ''return nil, err'' @ nl @
    tabs 1 @ ''}'' @ nl @
    tabs 1 @ ''switch head.Tag {'' @ nl @
    concat (map (\<lambda>v.
      tabs 1 @ ''case '' @ quote (gt_tag_value (type_named types v)) @ '':'' @ nl @
      tabs 2 @ ''var value '' @ v @ nl @
      tabs 2 @ ''if err := json.Unmarshal(data, &value); err != nil {'' @ nl @
      tabs 3 @ ''return nil, err'' @ nl @
      tabs 2 @ ''}'' @ nl @
      tabs 2 @ ''return value, nil'' @ nl) (gt_variants t)) @
    tabs 1 @ ''}'' @ nl @
    tabs 1 @ ''return nil, fmt.Errorf('' @ dq @ ''herdr: unknown '' @ gt_name t @ '' %q'' @ dq @
      '', head.Tag)'' @ nl @
    ''}'' @ nl"

definition emit_marshal :: "(string \<Rightarrow> string) \<Rightarrow> gen_type \<Rightarrow> string" where
  "emit_marshal quote t =
    ''// MarshalJSON writes the object with its '' @ quote (gt_tag_field t) @ '' field.'' @ nl @
    ''func (v '' @ gt_name t @ '') MarshalJSON() ([]byte, error) {'' @ nl @
    tabs 1 @ ''type alias '' @ gt_name t @ nl @
    tabs 1 @ ''return json.Marshal(struct {'' @ nl @
    tabs 2 @ (pascal (gt_tag_field t)) @ '' string `json:'' @ quote (gt_tag_field t) @ ''`'' @ nl @
    tabs 2 @ ''alias'' @ nl @
    tabs 1 @ ''}{'' @ (pascal (gt_tag_field t)) @ '': '' @ quote (gt_tag_value t) @ '', alias: alias(v)})'' @ nl @
    ''}'' @ nl"

text \<open>The bodies of \<open>emitUnmarshal\<close> for one field: optional, a slice, a single union value.\<close>

definition emit_optional_union :: "gen_field \<Rightarrow> string" where
  "emit_optional_union f =
    tabs 1 @ ''if len(aux.'' @ gf_name f @ '') > 0 {'' @ nl @
    tabs 2 @ ''if string(aux.'' @ gf_name f @ '') == '' @ dq @ ''null'' @ dq @ '' {'' @ nl @
    tabs 3 @ ''v.'' @ gf_name f @ '' = Null['' @ gf_value_type f @ '']()'' @ nl @
    tabs 2 @ ''} else {'' @ nl @
    (if gf_union_slice f then
      tabs 3 @ ''var items []json.RawMessage'' @ nl @
      tabs 3 @ ''if err := json.Unmarshal(aux.'' @ gf_name f @ '', &items); err != nil {'' @ nl @
      tabs 4 @ ''return err'' @ nl @
      tabs 3 @ ''}'' @ nl @
      tabs 3 @ ''decodedItems := make('' @ gf_value_type f @ '', 0, len(items))'' @ nl @
      tabs 3 @ ''for _, item := range items {'' @ nl @
      tabs 4 @ ''decoded, err := decode'' @ gf_union f @ ''(item)'' @ nl @
      tabs 4 @ ''if err != nil {'' @ nl @
      tabs 5 @ ''return err'' @ nl @
      tabs 4 @ ''}'' @ nl @
      tabs 4 @ ''decodedItems = append(decodedItems, decoded)'' @ nl @
      tabs 3 @ ''}'' @ nl @
      tabs 3 @ ''v.'' @ gf_name f @ '' = Some(decodedItems)'' @ nl
     else
      tabs 3 @ ''decoded, err := decode'' @ gf_union f @ ''(aux.'' @ gf_name f @ '')'' @ nl @
      tabs 3 @ ''if err != nil {'' @ nl @
      tabs 4 @ ''return err'' @ nl @
      tabs 3 @ ''}'' @ nl @
      tabs 3 @ ''v.'' @ gf_name f @ '' = Some(decoded)'' @ nl) @
    tabs 2 @ ''}'' @ nl @
    tabs 1 @ ''}'' @ nl"

definition emit_union_slice :: "gen_field \<Rightarrow> string" where
  "emit_union_slice f =
    tabs 1 @ ''if len(aux.'' @ gf_name f @ '') > 0 {'' @ nl @
    tabs 2 @ ''v.'' @ gf_name f @ '' = make('' @ gf_type f @ '', 0, len(aux.'' @ gf_name f @ ''))'' @ nl @
    tabs 2 @ ''for _, item := range aux.'' @ gf_name f @ '' {'' @ nl @
    tabs 3 @ ''decoded, err := decode'' @ gf_union f @ ''(item)'' @ nl @
    tabs 3 @ ''if err != nil {'' @ nl @
    tabs 4 @ ''return err'' @ nl @
    tabs 3 @ ''}'' @ nl @
    tabs 3 @ ''v.'' @ gf_name f @ '' = append(v.'' @ gf_name f @ '', decoded)'' @ nl @
    tabs 2 @ ''}'' @ nl @
    tabs 1 @ ''}'' @ nl"

definition emit_union_value :: "gen_field \<Rightarrow> string" where
  "emit_union_value f =
    tabs 1 @ ''if len(aux.'' @ gf_name f @ '') > 0 && string(aux.'' @ gf_name f @ '') != '' @ dq @ ''null'' @
      dq @ '' {'' @ nl @
    tabs 2 @ ''decoded, err := decode'' @ gf_union f @ ''(aux.'' @ gf_name f @ '')'' @ nl @
    tabs 2 @ ''if err != nil {'' @ nl @
    tabs 3 @ ''return err'' @ nl @
    tabs 2 @ ''}'' @ nl @
    tabs 2 @ ''v.'' @ gf_name f @ '' = decoded'' @ nl @
    tabs 1 @ ''}'' @ nl"

definition emit_unmarshal :: "(string \<Rightarrow> string) \<Rightarrow> gen_type \<Rightarrow> string" where
  "emit_unmarshal quote t = (let unions = filter (\<lambda>f. gf_union f \<noteq> []) (gt_fields t) in
    ''// UnmarshalJSON decodes the fields that hold a union value.'' @ nl @
    ''func (v *'' @ gt_name t @ '') UnmarshalJSON(data []byte) error {'' @ nl @
    tabs 1 @ ''type alias '' @ gt_name t @ nl @
    tabs 1 @ ''var aux struct {'' @ nl @
    tabs 2 @ ''alias'' @ nl @
    concat (map (\<lambda>f. let raw = (if gf_union_slice f \<and> \<not> gf_optional f then ''[]json.RawMessage'' else ''json.RawMessage'')
      in tabs 2 @ gf_name f @ '' '' @ raw @ '' '' @ (field_tag quote f) @ nl) unions) @
    tabs 1 @ ''}'' @ nl @
    tabs 1 @ ''if err := json.Unmarshal(data, &aux); err != nil {'' @ nl @
    tabs 2 @ ''return err'' @ nl @
    tabs 1 @ ''}'' @ nl @
    tabs 1 @ ''*v = '' @ gt_name t @ ''(aux.alias)'' @ nl @
    concat (map (\<lambda>f. if gf_optional f then emit_optional_union f
      else if gf_union_slice f then emit_union_slice f else emit_union_value f) unions) @
    tabs 1 @ ''return nil'' @ nl @
    ''}'' @ nl)"

text \<open>The comment of a struct, and its fields with theirs.\<close>

definition struct_doc :: "(string \<Rightarrow> string) \<Rightarrow> gen_type \<Rightarrow> string" where
  "struct_doc quote t =
    (let more = (if gt_doc t \<noteq> [] then doc_lines [[], gt_doc t] else [])
     in if gt_result_tag t \<noteq> [] then doc_lines [gt_name t @ '' is the '' @ quote (gt_result_tag t) @
       '' result.''] @ more
        else if gt_event_name t \<noteq> [] then doc_lines [gt_name t @ '' is the '' @ quote (gt_event_name t) @
          '' event payload.''] @ more
        else if gt_union_name t \<noteq> [] then
          doc_lines [gt_name t @ '' is the '' @ quote (gt_tag_value t) @ '' variant of '' @ gt_union_name t @
            ''.''] @ more
        else if gt_doc t \<noteq> [] then doc_lines [gt_doc t] else [])"

fun emit_fields :: "(string \<Rightarrow> string) \<Rightarrow> bool \<Rightarrow> gen_field list \<Rightarrow> string" where
  "emit_fields quote first [] = []"
| "emit_fields quote first (f # fs) =
    (if gf_doc f \<noteq> [] then (if first then [] else nl) @ concat (map (\<lambda>w. tabs 1 @ ''// '' @ w @
      nl) (wrap_text (gf_doc f) 68)) else []) @
    tabs 1 @ gf_name f @ '' '' @ gf_type f @ '' '' @ (field_tag quote f) @ nl @
    emit_fields quote False fs"

text \<open>\<open>clone\<close> is the \<open>Clone\<close> method of the type, when there is one.\<close>

definition emit_struct :: "(string \<Rightarrow> string) \<Rightarrow> (gen_type \<Rightarrow> string option) \<Rightarrow> gen_type \<Rightarrow> string" where
  "emit_struct quote clone t =
    struct_doc quote t @
    (if gt_fields t = [] then ''type '' @ gt_name t @ '' struct{}'' @ nl
     else ''type '' @ gt_name t @ '' struct {'' @ nl @ emit_fields quote True (gt_fields t) @ ''}'' @ nl) @
    (case clone t of Some s \<Rightarrow> nl @ s | None \<Rightarrow> []) @
    (if gt_union_name t \<noteq> [] then nl @ ''func ('' @ gt_name t @ '') is'' @ gt_union_name t @ ''() {}'' @
      nl else []) @
    (if gt_result_tag t \<noteq> [] then
       nl @ ''// ResultType returns '' @ quote (gt_result_tag t) @ ''.'' @ nl @
       ''func ('' @ gt_name t @ '') ResultType() string { return '' @ quote (gt_result_tag t) @ '' }'' @ nl else []) @
    (if gt_event_name t \<noteq> [] then
       nl @ ''// EventName returns '' @ quote (gt_event_name t) @ ''.'' @ nl @
       ''func ('' @ gt_name t @ '') EventName() string { return '' @ quote (gt_event_name t) @ '' }'' @ nl else []) @
    (if gt_tag_field t \<noteq> [] then nl @ emit_marshal quote t else []) @
    (if needs_unmarshal t then nl @ emit_unmarshal quote t else [])"

definition emit_union ::
  "(string \<Rightarrow> string) \<Rightarrow> gen_type list \<Rightarrow> (gen_type \<Rightarrow> string) \<Rightarrow> gen_type \<Rightarrow> string" where
  "emit_union quote types clone_union t =
    doc_lines [gt_name t @ '' is a union of the types below, selected by the '' @ quote (gt_discriminator t) @
      '' field.'', [],
      ''Each variant satisfies the interface as a value, and decoding produces'',
      ''values too, so one spelling works whether a union value is built here'',
      ''or read out of a response.''] @
    (if gt_doc t \<noteq> [] then doc_lines [[], gt_doc t] else []) @
    ''type '' @ gt_name t @ '' interface {'' @ nl @
    tabs 1 @ ''is'' @ gt_name t @ ''()'' @ nl @
    ''}'' @ nl @
    clone_union t @ nl @
    emit_union_decoder quote types t"

end
