(* ===== verification/Gen_Clone.thy ===== *)
theory Gen_Clone
  imports Gen_Emit
begin

text \<open>
  The \<open>Clone\<close> methods of the generated types (\<open>emit_clone.go\<close>): the visit that validates every struct and union, and
  the text of the methods. \<open>parse_expr\<close> is \<open>parser.ParseExpr\<close> of \<open>go/parser\<close>. A pointer to a type is its name; the
  calls of \<open>visit\<close> that wait for their turn are a list of items, worked off from the front.
\<close>

subsection \<open>Go types\<close>

text \<open>The expressions \<open>visitExpr\<close> knows; \<open>OtherExpr\<close> carries the name \<open>%T\<close> prints.\<close>

datatype go_expr =
    IdentExpr string
  | StarExpr go_expr
  | ArrayExpr bool go_expr
  | MapExpr go_expr go_expr
  | SelectorExpr go_expr string
  | IndexExpr go_expr go_expr
  | OtherExpr string

definition is_clone_scalar :: "string \<Rightarrow> bool" where
  "is_clone_scalar name \<longleftrightarrow> name \<in> {''bool'', ''string'', ''byte'', ''rune'', ''int'', ''int8'', ''int16'', ''int32'', ''int64'',
     ''uint'', ''uint8'', ''uint16'', ''uint32'', ''uint64'', ''uintptr'', ''float32'', ''float64'', ''complex64'', ''complex128''}"

definition is_raw_message :: "go_expr \<Rightarrow> string \<Rightarrow> bool" where
  "is_raw_message x sel \<longleftrightarrow> x = IdentExpr ''json'' \<and> sel = ''RawMessage''"

definition is_optional :: "go_expr \<Rightarrow> bool" where
  "is_optional x \<longleftrightarrow> x = IdentExpr ''Optional''"

fun go_type_text :: "go_expr \<Rightarrow> string" where
  "go_type_text (IdentExpr name) = name"
| "go_type_text (SelectorExpr x sel) = go_type_text x @ ''.'' @ sel"
| "go_type_text (StarExpr x) = ''*'' @ go_type_text x"
| "go_type_text (ArrayExpr sized elt) = ''[]'' @ go_type_text elt"
| "go_type_text (MapExpr key val) = ''map['' @ go_type_text key @ '']'' @ go_type_text val"
| "go_type_text (IndexExpr x index) = go_type_text x @ ''['' @ go_type_text index @ '']''"
| "go_type_text (OtherExpr name) = name"

subsection \<open>The visit\<close>

record clone_emitter =
  ce_types :: "(string \<times> gen_type) list"
  ce_seen :: "string list"
  ce_manual :: "string list"
  ce_unions :: "string list"

datatype clone_item =
    VisitType string
  | VisitField string gen_field
  | VisitExpr go_expr string string

definition clone_error :: "string \<Rightarrow> string \<Rightarrow> string \<Rightarrow> gen_error" where
  "clone_error owner field message = GenMessage (''generate clone: '' @ owner @ ''.'' @ field @ '' '' @ message)"

text \<open>One turn: what is left to visit of an item, and the emitter with what the turn saw.\<close>

definition visit_item ::
  "(string \<Rightarrow> string) \<Rightarrow> (string \<Rightarrow> (gen_error, go_expr) result) \<Rightarrow> clone_emitter \<Rightarrow> clone_item \<Rightarrow>
    (gen_error, clone_item list \<times> clone_emitter) result" where
  "visit_item quote parse_expr e item = (case item of
     VisitType name \<Rightarrow> (case map_of (ce_types e) name of
         None \<Rightarrow> ok ([], e)
       | Some t \<Rightarrow>
           if gt_name t \<in> set (ce_seen e) then ok ([], e)
           else ok (if gt_kind t = KindUnion then map VisitType (gt_variants t)
             else map (VisitField (gt_name t)) (gt_fields t), e\<lparr>ce_seen := gt_name t # ce_seen e\<rparr>))
   | VisitField owner f \<Rightarrow>
       if gf_name f = ''Clone'' then err (clone_error owner (gf_name f) ''conflicts with generated Clone method'')
       else (case parse_expr (gf_type f) of
         Inl x \<Rightarrow> err (GenWrap (''generate clone: '' @ owner @ ''.'' @ gf_name f @
           '' has invalid Go type '' @ quote (gf_type f)) x)
       | Inr expr \<Rightarrow> ok ([VisitExpr expr owner (gf_name f)], e))
   | VisitExpr expr owner field \<Rightarrow> (case expr of
         IdentExpr name \<Rightarrow>
           if is_clone_scalar name \<or> name \<in> set (ce_manual e) then ok ([], e)
           else (case map_of (ce_types e) name of
             None \<Rightarrow> err (clone_error owner field (''uses unsupported named type '' @ quote name))
           | Some t \<Rightarrow> (case gt_kind t of
               KindEnum \<Rightarrow> ok ([], e)
             | KindStruct \<Rightarrow> ok ([VisitType name], e)
             | KindUnion \<Rightarrow> ok ([VisitType name], e\<lparr>ce_unions := gt_name t # ce_unions e\<rparr>)))
       | StarExpr x \<Rightarrow> ok ([VisitExpr x owner field], e)
       | ArrayExpr sized elt \<Rightarrow>
           if sized then err (clone_error owner field ''uses unsupported array type'') else ok ([VisitExpr elt owner field], e)
       | MapExpr key val \<Rightarrow>
           if key \<noteq> IdentExpr ''string'' then err (clone_error owner field ''uses unsupported map key type'')
           else ok ([VisitExpr val owner field], e)
       | SelectorExpr x sel \<Rightarrow>
           if is_raw_message x sel then ok ([], e) else err (clone_error owner field ''uses unsupported qualified type'')
       | IndexExpr x index \<Rightarrow>
           if \<not> is_optional x
           then err (clone_error owner field (''uses unsupported generic type '' @
             quote (go_type_text (IndexExpr x index))))
           else ok ([VisitExpr index owner field], e)
       | OtherExpr name \<Rightarrow> err (clone_error owner field (''uses unsupported Go type '' @ quote name))))"

definition item_weight :: "(string \<Rightarrow> (gen_error, go_expr) result) \<Rightarrow> clone_item \<Rightarrow> nat" where
  "item_weight parse_expr item = (case item of
     VisitType name \<Rightarrow> 1
   | VisitField owner f \<Rightarrow> (case parse_expr (gf_type f) of Inl x \<Rightarrow> 1 | Inr expr \<Rightarrow> 3 + 2 * size expr)
   | VisitExpr expr owner field \<Rightarrow> 2 + 2 * size expr)"

definition unseen :: "clone_emitter \<Rightarrow> nat" where
  "unseen e = card (gt_name ` snd ` set (ce_types e) - set (ce_seen e))"

lemma visit_item_less:
  assumes "visit_item quote parse_expr e item = Inr (items, e')"
  shows "unseen e' < unseen e \<or>
    (unseen e' = unseen e \<and> (\<Sum>i\<leftarrow>items. item_weight parse_expr i) < item_weight parse_expr item)"
proof (cases item)
  case (VisitType name)
  show ?thesis
  proof (cases "items = [] \<and> e' = e")
    case True
    then show ?thesis by (simp add: item_weight_def VisitType)
  next
    case False
    with assms VisitType obtain t where t: "map_of (ce_types e) name = Some t" "gt_name t \<notin> set (ce_seen e)"
      "e' = e\<lparr>ce_seen := gt_name t # ce_seen e\<rparr>"
      by (auto simp: visit_item_def split: option.splits if_splits)
    then have "gt_name t \<in> gt_name ` snd ` set (ce_types e) - set (ce_seen e)"
      using map_of_SomeD [OF t(1)] by (force simp: image_iff)
    with t(3) have "unseen e' < unseen e" unfolding unseen_def by (intro psubset_card_mono) auto
    then show ?thesis ..
  qed
qed (use assms in \<open>auto simp: visit_item_def item_weight_def unseen_def
    split: if_splits sum.splits option.splits type_kind.splits go_expr.splits\<close>)

function visit_items ::
  "(string \<Rightarrow> string) \<Rightarrow> (string \<Rightarrow> (gen_error, go_expr) result) \<Rightarrow> clone_item list \<Rightarrow> clone_emitter \<Rightarrow>
    (gen_error, clone_emitter) result" where
  "visit_items quote parse_expr [] e = ok e"
| "visit_items quote parse_expr (item # rest) e = (case visit_item quote parse_expr e item of
     Inl x \<Rightarrow> err x | Inr (items, e) \<Rightarrow> visit_items quote parse_expr (items @ rest) e)"
  by pat_completeness auto
termination
  by (relation "measures [\<lambda>(quote, parse_expr, items, e). unseen e,
      \<lambda>(quote, parse_expr, items, e). \<Sum>i\<leftarrow>items. item_weight parse_expr i]")
    (auto dest: visit_item_less)

text \<open>Later types of a name replace earlier ones in the map.\<close>

definition new_clone_emitter ::
  "(string \<Rightarrow> string) \<Rightarrow> (string \<Rightarrow> (gen_error, go_expr) result) \<Rightarrow> gen_package \<Rightarrow> (gen_error, clone_emitter) result" where
  "new_clone_emitter quote parse_expr pkg =
    (let all = pk_types pkg @ pk_auxiliary_types pkg
     in visit_items quote parse_expr (map (\<lambda>t. VisitType (gt_name t)) (filter (\<lambda>t. gt_kind t \<noteq> KindEnum) all))
        \<lparr>ce_types = rev (map (\<lambda>t. (gt_name t, t)) all), ce_seen = [], ce_manual = pk_manual_types pkg, ce_unions = []\<rparr>)"

subsection \<open>What the visit guarantees\<close>

text \<open>The names a copy of a value of the type has to copy through.\<close>

fun named_in :: "go_expr \<Rightarrow> string set" where
  "named_in (IdentExpr name) = {name}"
| "named_in (StarExpr x) = named_in x"
| "named_in (ArrayExpr sized elt) = named_in elt"
| "named_in (MapExpr key val) = named_in val"
| "named_in (IndexExpr x index) = named_in index"
| "named_in (SelectorExpr x sel) = {}"
| "named_in (OtherExpr name) = {}"

text \<open>Copying through a name needs a function that is written: none, one of a manual type, a \<open>Clone\<close>, a type switch.\<close>

definition clone_known :: "clone_emitter \<Rightarrow> string \<Rightarrow> bool" where
  "clone_known e name \<longleftrightarrow> is_clone_scalar name \<or> name \<in> set (ce_manual e) \<or>
     (\<exists>t. map_of (ce_types e) name = Some t \<and> (case gt_kind t of
        KindEnum \<Rightarrow> True | KindStruct \<Rightarrow> name \<in> set (ce_seen e)
      | KindUnion \<Rightarrow> name \<in> set (ce_seen e) \<and> name \<in> set (ce_unions e)))"

definition item_done :: "(string \<Rightarrow> (gen_error, go_expr) result) \<Rightarrow> clone_emitter \<Rightarrow> clone_item \<Rightarrow> bool" where
  "item_done parse_expr e item = (case item of
     VisitType name \<Rightarrow> map_of (ce_types e) name = None \<or> name \<in> set (ce_seen e)
   | VisitField owner f \<Rightarrow> gf_name f \<noteq> ''Clone'' \<and>
       (\<exists>expr. parse_expr (gf_type f) = Inr expr \<and> (\<forall>name \<in> named_in expr. clone_known e name))
   | VisitExpr expr owner field \<Rightarrow> \<forall>name \<in> named_in expr. clone_known e name)"

definition parts_of :: "gen_type \<Rightarrow> clone_item list" where
  "parts_of t = (if gt_kind t = KindUnion then map VisitType (gt_variants t) else map (VisitField (gt_name t)) (gt_fields t))"

definition keyed :: "clone_emitter \<Rightarrow> bool" where
  "keyed e \<longleftrightarrow> (\<forall>name t. map_of (ce_types e) name = Some t \<longrightarrow> gt_name t = name)"

text \<open>An emitter that saw more.\<close>

definition saw_more :: "clone_emitter \<Rightarrow> clone_emitter \<Rightarrow> bool" where
  "saw_more e e' \<longleftrightarrow> ce_types e' = ce_types e \<and> ce_manual e' = ce_manual e \<and>
     set (ce_seen e) \<subseteq> set (ce_seen e') \<and> set (ce_unions e) \<subseteq> set (ce_unions e')"

lemma saw_more_trans: "saw_more a b \<Longrightarrow> saw_more b c \<Longrightarrow> saw_more a c"
  by (auto simp: saw_more_def)

lemma visit_type_turn:
  "visit_item quote parse_expr e (VisitType name) = (case map_of (ce_types e) name of
     None \<Rightarrow> ok ([], e)
   | Some t \<Rightarrow> if gt_name t \<in> set (ce_seen e) then ok ([], e)
       else ok (parts_of t, e\<lparr>ce_seen := gt_name t # ce_seen e\<rparr>))"
  by (simp add: visit_item_def parts_of_def split: option.split)

lemma visit_field_turn:
  "visit_item quote parse_expr e (VisitField owner f) = Inr (items, e') \<Longrightarrow>
    e' = e \<and> gf_name f \<noteq> ''Clone'' \<and> (\<exists>expr. parse_expr (gf_type f) = Inr expr \<and> items = [VisitExpr expr owner (gf_name f)])"
  by (simp add: visit_item_def split: if_splits sum.splits)

lemma clone_known_simple: "is_clone_scalar name \<or> name \<in> set (ce_manual e) \<Longrightarrow> clone_known e name"
  by (auto simp: clone_known_def)

lemma clone_known_enum: "map_of (ce_types e) name = Some t \<Longrightarrow> gt_kind t = KindEnum \<Longrightarrow> clone_known e name"
  by (simp add: clone_known_def)

text \<open>An expression leaves one part of itself to visit, with the names it has; a name is known or left to visit.\<close>

lemma visit_expr_turn:
  "visit_item quote parse_expr e (VisitExpr expr owner field) = Inr (items, e') \<Longrightarrow>
    (case expr of IdentExpr name \<Rightarrow>
        (e' = e \<and> items = [] \<and> clone_known e name) \<or>
        (\<exists>t. map_of (ce_types e) name = Some t \<and> items = [VisitType name] \<and>
          (gt_kind t = KindStruct \<and> e' = e \<or> gt_kind t = KindUnion \<and> e' = e\<lparr>ce_unions := gt_name t # ce_unions e\<rparr>))
      | _ \<Rightarrow> e' = e \<and> (items = [] \<and> named_in expr = {} \<or>
          (\<exists>x. items = [VisitExpr x owner field] \<and> named_in x = named_in expr)))"
  by (cases expr) (auto simp: visit_item_def intro: clone_known_simple clone_known_enum
    split: if_splits option.splits type_kind.splits)

lemma visit_expr_kept:
  assumes "visit_item quote parse_expr e (VisitExpr expr owner field) = Inr (items, e')"
  shows "saw_more e e' \<and> ce_seen e' = ce_seen e"
  using visit_expr_turn [OF assms] by (auto simp: saw_more_def split: go_expr.splits)

lemma visit_item_more:
  assumes turn: "visit_item quote parse_expr e item = Inr (items, e')"
  shows "saw_more e e'"
proof (cases item)
  case (VisitType name)
  with turn show ?thesis by (auto simp: visit_type_turn saw_more_def split: option.splits if_splits)
next
  case (VisitField owner f)
  with turn visit_field_turn show ?thesis by (fastforce simp: saw_more_def)
next
  case (VisitExpr expr owner field)
  with turn visit_expr_kept show ?thesis by blast
qed

text \<open>What a turn saw anew is a type whose parts it left to visit.\<close>

lemma visit_item_new:
  assumes turn: "visit_item quote parse_expr e item = Inr (items, e')"
    and new: "name \<in> set (ce_seen e')" "name \<notin> set (ce_seen e)"
    and t: "map_of (ce_types e) name = Some t" and "keyed e"
  shows "items = parts_of t"
proof (cases item)
  case (VisitType name')
  with turn new t \<open>keyed e\<close> show ?thesis
    by (auto simp: visit_type_turn keyed_def split: option.splits if_splits)
next
  case (VisitField owner f)
  with turn visit_field_turn new show ?thesis by fastforce
next
  case (VisitExpr expr owner field)
  with turn visit_expr_kept new show ?thesis by fastforce
qed

lemma clone_known_more: "clone_known e name \<Longrightarrow> saw_more e e' \<Longrightarrow> clone_known e' name"
  by (auto simp: clone_known_def saw_more_def split: type_kind.splits)

lemma visit_item_done:
  assumes turn: "visit_item quote parse_expr e item = Inr (items, e')" and more: "saw_more e' e2" and "keyed e"
    and parts: "\<forall>i \<in> set items. item_done parse_expr e2 i"
  shows "item_done parse_expr e2 item"
proof (cases item)
  case (VisitType name)
  show ?thesis
  proof (cases "map_of (ce_types e) name")
    case None
    with turn more VisitType show ?thesis by (simp add: visit_type_turn item_done_def saw_more_def)
  next
    case (Some t)
    with \<open>keyed e\<close> have "gt_name t = name" by (simp add: keyed_def)
    with Some turn VisitType have "name \<in> set (ce_seen e')" by (auto simp: visit_type_turn split: if_splits)
    with more VisitType show ?thesis by (auto simp: item_done_def saw_more_def)
  qed
next
  case (VisitField owner f)
  with turn visit_field_turn parts show ?thesis by (fastforce simp: item_done_def)
next
  case (VisitExpr expr owner field)
  note expr = visit_expr_turn [OF turn [unfolded VisitExpr]]
  note later = visit_item_more [OF turn, THEN saw_more_trans, OF more]
  show ?thesis
  proof (cases "\<exists>name. expr = IdentExpr name")
    case True
    then obtain name where name: "expr = IdentExpr name" by blast
    from expr have "clone_known e2 name"
    proof (simp add: name, elim disjE conjE exE)
      assume "clone_known e name"
      with later show ?thesis by (rule clone_known_more [rotated])
    next
      fix t assume t: "map_of (ce_types e) name = Some t" "items = [VisitType name]" "gt_kind t = KindStruct"
      with parts later show ?thesis by (auto simp: item_done_def clone_known_def saw_more_def)
    next
      fix t assume t: "map_of (ce_types e) name = Some t" "items = [VisitType name]" "gt_kind t = KindUnion"
        "e' = e\<lparr>ce_unions := gt_name t # ce_unions e\<rparr>"
      with \<open>keyed e\<close> more have "name \<in> set (ce_unions e2)" by (auto simp: keyed_def saw_more_def)
      with t parts later show ?thesis by (auto simp: item_done_def clone_known_def saw_more_def)
    qed
    with VisitExpr name show ?thesis by (simp add: item_done_def)
  next
    case False
    with expr have "named_in expr = {} \<or> (\<exists>x. items = [VisitExpr x owner field] \<and> named_in x = named_in expr)"
      by (cases expr) auto
    with parts VisitExpr show ?thesis by (auto simp: item_done_def)
  qed
qed

lemma visit_items_done:
  "visit_items quote parse_expr items e = Inr e' \<Longrightarrow> keyed e \<Longrightarrow>
    saw_more e e' \<and> (\<forall>i \<in> set items. item_done parse_expr e' i) \<and>
    (\<forall>name t. name \<in> set (ce_seen e') \<longrightarrow> name \<notin> set (ce_seen e) \<longrightarrow> map_of (ce_types e) name = Some t \<longrightarrow>
      (\<forall>i \<in> set (parts_of t). item_done parse_expr e' i))"
proof (induction quote parse_expr items e rule: visit_items.induct)
  case (2 quote parse_expr item rest e)
  from 2(2) obtain items e1 where turn: "visit_item quote parse_expr e item = Inr (items, e1)"
    and rest: "visit_items quote parse_expr (items @ rest) e1 = Inr e'"
    by (auto split: sum.splits prod.splits)
  note more = visit_item_more [OF turn]
  from more 2(3) have keyed: "keyed e1" by (simp add: keyed_def saw_more_def)
  note IH = 2(1) [OF turn refl rest keyed]
  have "item_done parse_expr e' item" using IH by (intro visit_item_done [OF turn _ 2(3)]) auto
  moreover have "\<forall>i \<in> set (parts_of t). item_done parse_expr e' i"
    if "name \<in> set (ce_seen e')" "name \<notin> set (ce_seen e)" "map_of (ce_types e) name = Some t" for name t
  proof (cases "name \<in> set (ce_seen e1)")
    case True
    from visit_item_new [OF turn True that(2,3) 2(3)] IH show ?thesis by auto
  next
    case False
    with that more IH show ?thesis by (simp add: saw_more_def)
  qed
  ultimately show ?case using IH more saw_more_trans by auto
qed (simp add: saw_more_def)

text \<open>
  When the emitter was made, each struct and union of the package gets its \<open>Clone\<close> or type switch, no field takes its
  name, and every field copies only through names whose copy is written: nothing the methods call is missing.
\<close>

lemma clones_closed:
  assumes "new_clone_emitter quote parse_expr pkg = Inr e" "map_of (ce_types e) name = Some t" "gt_kind t \<noteq> KindEnum"
  shows "name \<in> set (ce_seen e) \<and> (\<forall>i \<in> set (parts_of t). item_done parse_expr e i)"
proof -
  let ?all = "pk_types pkg @ pk_auxiliary_types pkg"
  let ?e = "\<lparr>ce_types = rev (map (\<lambda>t. (gt_name t, t)) ?all), ce_seen = [], ce_manual = pk_manual_types pkg, ce_unions = []\<rparr>"
  from assms(1) have visit: "visit_items quote parse_expr
      (map (\<lambda>t. VisitType (gt_name t)) (filter (\<lambda>t. gt_kind t \<noteq> KindEnum) ?all)) ?e = Inr e"
    by (simp add: new_clone_emitter_def Let_def)
  have "keyed ?e" unfolding keyed_def by (fastforce dest: map_of_SomeD)
  note facts = visit_items_done [OF visit this]
  from facts have types: "ce_types e = ce_types ?e" by (simp add: saw_more_def)
  with assms(2) have "t \<in> set ?all" "gt_name t = name" by (auto dest: map_of_SomeD)
  with assms(3) facts have "item_done parse_expr e (VisitType name)" by auto
  with assms(2) have "name \<in> set (ce_seen e)" by (simp add: item_done_def)
  with facts assms(2) types show ?thesis by auto
qed

subsection \<open>The methods\<close>

fun needs_clone :: "clone_emitter \<Rightarrow> go_expr \<Rightarrow> bool" where
  "needs_clone e (IdentExpr name) \<longleftrightarrow> name \<in> set (ce_manual e) \<or>
     (case map_of (ce_types e) name of None \<Rightarrow> False | Some t \<Rightarrow> gt_kind t \<noteq> KindEnum)"
| "needs_clone e (SelectorExpr x sel) \<longleftrightarrow> is_raw_message x sel"
| "needs_clone e (IndexExpr x index) \<longleftrightarrow> is_optional x \<and> needs_clone e index"
| "needs_clone e (OtherExpr name) \<longleftrightarrow> False"
| "needs_clone e expr \<longleftrightarrow> True"

text \<open>\<open>variable\<close>: a fresh name with the count after it.\<close>

definition fresh_var :: "string \<Rightarrow> nat \<Rightarrow> string \<times> nat" where
  "fresh_var prefix n = (prefix @ format_uint (Suc n), Suc n)"

fun emit_assign :: "clone_emitter \<Rightarrow> go_expr \<Rightarrow> string \<Rightarrow> string \<Rightarrow> nat \<Rightarrow> nat \<Rightarrow> string \<times> nat" where
  "emit_assign e (IdentExpr name) dst src depth n =
    (case map_of (ce_types e) name of
       None \<Rightarrow> if name \<in> set (ce_manual e) then (tabs depth @ dst @ '' = '' @ src @ ''.Clone()'' @
         nl, n)
         else (tabs depth @ dst @ '' = '' @ src @ nl, n)
     | Some t \<Rightarrow>
         if gt_kind t = KindUnion then (tabs depth @ dst @ '' = clone'' @ gt_name t @ ''('' @ src @ '')'' @ nl, n)
         else if name \<in> set (ce_manual e) \<or> gt_kind t = KindStruct then (tabs depth @ dst @ '' = '' @
           src @ ''.Clone()'' @ nl, n)
         else (tabs depth @ dst @ '' = '' @ src @ nl, n))"
| "emit_assign e (StarExpr x) dst src depth n =
    (let (body, n) = emit_assign e x (''(*'' @ dst @ '')'') (''(*'' @ src @ '')'') (depth + 1) n
     in (tabs depth @ ''if '' @ src @ '' != nil {'' @ nl @
       tabs depth @ tabs 1 @ dst @ '' = new('' @ go_type_text x @ '')'' @ nl @ body @
       tabs depth @ ''}'' @ nl, n))"
| "emit_assign e (ArrayExpr sized elt) dst src depth n =
    (let start = tabs depth @ ''if '' @ src @ '' != nil {'' @ nl @
       tabs depth @ tabs 1 @ dst @ '' = make('' @ (go_type_text (ArrayExpr sized elt)) @ '', len('' @ src @
         ''))'' @ nl
     in if \<not> needs_clone e elt then (start @ tabs depth @ tabs 1 @ ''copy('' @ dst @ '', '' @ src @ '')'' @
       nl @ tabs depth @ ''}'' @ nl, n)
        else let (index, n) = fresh_var ''i'' n;
               (body, n) = emit_assign e elt (dst @ ''['' @ index @ '']'') (src @ ''['' @ index @ '']'') (depth + 2) n
          in (start @ tabs depth @ tabs 1 @ ''for '' @ index @ '' := range '' @ src @ '' {'' @ nl @ body @
            tabs depth @ tabs 1 @ ''}'' @ nl @ tabs depth @ ''}'' @ nl, n))"
| "emit_assign e (MapExpr key val) dst src depth n =
    (let (k, n) = fresh_var ''key'' n; (v, n) = fresh_var ''value'' n;
       start = tabs depth @ ''if '' @ src @ '' != nil {'' @ nl @
         tabs depth @ tabs 1 @ dst @ '' = make('' @ (go_type_text (MapExpr key val)) @ '', len('' @ src @
           ''))'' @ nl @
         tabs depth @ tabs 1 @ ''for '' @ k @ '', '' @ v @ '' := range '' @ src @ '' {'' @ nl;
       finish = tabs depth @ tabs 1 @ ''}'' @ nl @ tabs depth @ ''}'' @ nl
     in if \<not> needs_clone e val then (start @ tabs depth @ tabs 2 @ dst @ ''['' @ k @ ''] = '' @ v @ nl @
       finish, n)
        else let (cloned, n) = fresh_var ''cloned'' n;
               (body, n) = emit_assign e val cloned v (depth + 2) n
          in (start @ tabs depth @ tabs 2 @ ''var '' @ cloned @ '' '' @ go_type_text val @ nl @ body @
            tabs depth @ tabs 2 @ dst @ ''['' @ k @ ''] = '' @ cloned @ nl @ finish, n))"
| "emit_assign e (SelectorExpr x sel) dst src depth n =
    (if is_raw_message x sel then
       (tabs depth @ ''if '' @ src @ '' != nil {'' @ nl @
        tabs depth @ tabs 1 @ dst @ '' = make(json.RawMessage, len('' @ src @ ''))'' @ nl @
        tabs depth @ tabs 1 @ ''copy('' @ dst @ '', '' @ src @ '')'' @ nl @ tabs depth @ ''}'' @ nl, n)
     else ([], n))"
| "emit_assign e (IndexExpr x index) dst src depth n =
    (if is_optional x then
       (let (v, n) = fresh_var ''value'' n; (okv, n) = fresh_var ''ok'' n; (cloned, n) = fresh_var ''cloned'' n;
          (body, n) = emit_assign e index cloned v (depth + 1) n
        in (tabs depth @ ''if '' @ v @ '', '' @ okv @ '' := '' @ src @ ''.Get(); '' @ okv @ '' {'' @ nl @
          tabs depth @ tabs 1 @ ''var '' @ cloned @ '' '' @ go_type_text index @ nl @ body @
          tabs depth @ tabs 1 @ dst @ '' = Some('' @ cloned @ '')'' @ nl @ tabs depth @ ''}'' @ nl, n))
     else ([], n))"
| "emit_assign e (OtherExpr name) dst src depth n = ([], n)"

text \<open>\<open>emitMethod\<close>: the fields in order, the count of variables going on; the visit has parsed every field before.\<close>

fun emit_clone_fields :: "(string \<Rightarrow> (gen_error, go_expr) result) \<Rightarrow> clone_emitter \<Rightarrow> gen_field list \<Rightarrow> nat \<Rightarrow> string" where
  "emit_clone_fields parse_expr e [] n = []"
| "emit_clone_fields parse_expr e (f # fs) n = (let expr = projr (parse_expr (gf_type f)) in
    if \<not> needs_clone e expr then emit_clone_fields parse_expr e fs n
    else let (body, n) = emit_assign e expr (''out.'' @ gf_name f) (''v.'' @ gf_name f) 1 n
      in body @ emit_clone_fields parse_expr e fs n)"

definition emit_clone_method :: "(string \<Rightarrow> (gen_error, go_expr) result) \<Rightarrow> clone_emitter \<Rightarrow> gen_type \<Rightarrow> string" where
  "emit_clone_method parse_expr e t =
    ''// Clone returns a deep copy of v.'' @ nl @
    ''func (v '' @ gt_name t @ '') Clone() '' @ gt_name t @ '' {'' @ nl @
    tabs 1 @ ''out := v'' @ nl @
    emit_clone_fields parse_expr e (gt_fields t) 0 @
    tabs 1 @ ''return out'' @ nl @
    ''}'' @ nl"

definition emit_clone_union :: "clone_emitter \<Rightarrow> gen_type \<Rightarrow> string" where
  "emit_clone_union e t =
    (if gt_name t \<notin> set (ce_unions e) then []
     else nl @
       ''func clone'' @ gt_name t @ ''(value '' @ gt_name t @ '') '' @ gt_name t @ '' {'' @ nl @
       tabs 1 @ ''switch v := value.(type) {'' @ nl @
       tabs 1 @ ''case nil:'' @ nl @
       tabs 2 @ ''return nil'' @ nl @
       concat (map (\<lambda>v.
         tabs 1 @ ''case '' @ v @ '':'' @ nl @ tabs 2 @ ''return v.Clone()'' @ nl @
         tabs 1 @ ''case *'' @ v @ '':'' @ nl @
         tabs 2 @ ''if v == nil { return v }'' @ nl @
         tabs 2 @ ''cloned := v.Clone()'' @ nl @
         tabs 2 @ ''return &cloned'' @ nl) (gt_variants t)) @
       tabs 1 @ ''default:'' @ nl @
       tabs 2 @ ''panic(fmt.Sprintf('' @ dq @ ''herdr: cannot clone unsupported '' @ gt_name t @
         '' implementation %T'' @ dq @ '', value))'' @ nl @
       tabs 1 @ ''}'' @ nl @
       ''}'' @ nl)"

end
