(* ===== verification/Gen_Api.thy ===== *)
theory Gen_Api
  imports Gen_Clone
begin

text \<open>
  The files of the generated package (\<open>emit_api.go\<close>) and \<open>Generate\<close> itself. \<open>format_source\<close> is \<open>format.Source\<close> of
  \<open>go/format\<close>; \<open>sources\<close> is a map in Go, here the files in the order of \<open>Files\<close>.
\<close>

subsection \<open>Types\<close>

definition clone_of :: "(string \<Rightarrow> (gen_error, go_expr) result) \<Rightarrow> clone_emitter \<Rightarrow> gen_type \<Rightarrow> string option" where
  "clone_of parse_expr clones t =
    (if gt_name t \<in> set (ce_seen clones) then Some (emit_clone_method parse_expr clones t) else None)"

definition emit_type ::
  "(string \<Rightarrow> string) \<Rightarrow> (string \<Rightarrow> (gen_error, go_expr) result) \<Rightarrow> clone_emitter \<Rightarrow> gen_type \<Rightarrow> string" where
  "emit_type quote parse_expr clones t = (case gt_kind t of
     KindEnum \<Rightarrow> emit_enum quote t
   | KindUnion \<Rightarrow> emit_union quote (map snd (ce_types clones)) (emit_clone_union clones) t
   | KindStruct \<Rightarrow> emit_struct quote (clone_of parse_expr clones) t)"

definition emit_schema_file :: "(string \<Rightarrow> string) \<Rightarrow> gen_package \<Rightarrow> string" where
  "emit_schema_file quote pkg =
    new_file quote (pk_name pkg) [] @
    nl @
    doc_lines [''SchemaProtocol is the protocol version of the API schema this code was generated from. Compare it with the protocol reported by Ping to detect a server that is newer than the generated code.''] @
    ''const SchemaProtocol uint32 = '' @ format_uint (unat (pk_protocol pkg)) @ nl"

text \<open>\<open>strings.Contains\<close>.\<close>

definition text_contains :: "string \<Rightarrow> string \<Rightarrow> bool" where
  "text_contains s part \<longleftrightarrow> list_ex (\<lambda>k. has_prefix (drop k s) part) [0..<Suc (length s)]"

definition needs_json :: "gen_type \<Rightarrow> bool" where
  "needs_json t \<longleftrightarrow> gt_kind t = KindUnion \<or> gt_tag_field t \<noteq> [] \<or> needs_unmarshal t \<or>
     list_ex (\<lambda>f. text_contains (gf_type f) ''json.RawMessage'') (gt_fields t)"

definition types_imports :: "gen_type list \<Rightarrow> string list" where
  "types_imports types =
    (if list_ex needs_json types then [''encoding/json''] else []) @
    (if list_ex (\<lambda>t. gt_kind t = KindUnion) types then [''fmt''] else [])"

definition emit_types_file ::
  "(string \<Rightarrow> string) \<Rightarrow> (string \<Rightarrow> (gen_error, go_expr) result) \<Rightarrow> gen_package \<Rightarrow> clone_emitter \<Rightarrow> string" where
  "emit_types_file quote parse_expr pkg clones =
    (let types = types_in (pk_types pkg) ''types''
     in new_file quote (pk_name pkg) (types_imports types) @
       concat (map (\<lambda>t. nl @ emit_type quote parse_expr clones t) types))"

subsection \<open>Results\<close>

definition result_cases :: "(string \<Rightarrow> string) \<Rightarrow> gen_type \<Rightarrow> string" where
  "result_cases quote t =
    tabs 1 @ ''case '' @ quote (gt_result_tag t) @ '':'' @ nl @
    tabs 2 @ ''var value '' @ gt_name t @ nl @
    tabs 2 @ ''if err := json.Unmarshal(raw, &value); err != nil {'' @ nl @
    tabs 3 @ ''return nil, err'' @ nl @
    tabs 2 @ ''}'' @ nl @
    tabs 2 @ ''return &value, nil'' @ nl"

definition result_errors :: "string" where
  "result_errors =
    tabs 1 @ ''}'' @ nl @
    tabs 1 @ ''return nil, &UnknownResultError{Type: head.Type, Data: append(json.RawMessage(nil), raw...)}'' @ nl @
    ''}'' @ nl @
    nl @
    doc_lines [''UnknownResultError is returned for a result type that is not in the schema the code was generated from. Data holds the undecoded result object.''] @
    ''type UnknownResultError struct {'' @ nl @
    tabs 1 @ ''Type string'' @ nl @
    tabs 1 @ ''Data json.RawMessage'' @ nl @
    ''}'' @ nl @
    nl @
    ''func (e *UnknownResultError) Error() string {'' @ nl @
    tabs 1 @ ''return fmt.Sprintf('' @ dq @ ''herdr: unknown result type %q'' @ dq @ '', e.Type)'' @ nl @
    ''}'' @ nl @
    nl @
    doc_lines [''UnexpectedResultError is returned when a method answers with a result type other than the one it is documented to return.''] @
    ''type UnexpectedResultError struct {'' @ nl @
    tabs 1 @ ''Method string'' @ nl @
    tabs 1 @ ''Want   string'' @ nl @
    tabs 1 @ ''Got    string'' @ nl @
    ''}'' @ nl @
    nl @
    ''func (e *UnexpectedResultError) Error() string {'' @ nl @
    tabs 1 @ ''return fmt.Sprintf('' @ dq @ ''herdr: %s: expected result type %q, got %q'' @ dq @
      '', e.Method, e.Want, e.Got)'' @ nl @
    ''}'' @ nl"

definition results_decoder :: "(string \<Rightarrow> string) \<Rightarrow> gen_type list \<Rightarrow> string" where
  "results_decoder quote results =
    doc_lines [''DecodeResult decodes a result object into the type named by its '' @ dq @ ''type'' @ dq @
      '' field. An unknown type is reported as *UnknownResultError.''] @
    ''func DecodeResult(raw json.RawMessage) (Result, error) {'' @ nl @
    tabs 1 @ ''var head struct {'' @ nl @
    tabs 2 @ ''Type string `json:'' @ dq @ ''type'' @ dq @ ''`'' @ nl @
    tabs 1 @ ''}'' @ nl @
    tabs 1 @ ''if err := json.Unmarshal(raw, &head); err != nil {'' @ nl @
    tabs 2 @ ''return nil, err'' @ nl @
    tabs 1 @ ''}'' @ nl @
    tabs 1 @ ''switch head.Type {'' @ nl @
    concat (map (result_cases quote) results) @
    result_errors"

definition emit_results_file :: "(string \<Rightarrow> string) \<Rightarrow> (string \<Rightarrow> (gen_error, go_expr) result) \<Rightarrow> gen_package \<Rightarrow> clone_emitter \<Rightarrow> string" where
  "emit_results_file quote parse_expr pkg clones =
    (let results = types_in (pk_types pkg) ''results'' in
    new_file quote (pk_name pkg) [''encoding/json'', ''fmt''] @
    nl @
    doc_lines [''Result is the decoded result object of a successful response. Every variant is named after its '' @ dq @ ''type'' @ dq @ '' value with a Response suffix, for example PaneInfoResponse for '' @ dq @ ''pane_info'' @ dq @ ''.''] @
    ''type Result interface {'' @ nl @
    doc_lines [tabs 1 @ ''ResultType returns the value of the result'' @ [CHR 0x27] @ ''s '' @ dq @ ''type'' @
      dq @ '' field.''] @
    tabs 1 @ ''ResultType() string'' @ nl @
    ''}'' @ nl @
    nl @
    emit_clone_union clones (the (map_of (ce_types clones) ''Result'')) @
    nl @
    results_decoder quote results @
    concat (map (\<lambda>t. nl @ emit_type quote parse_expr clones t) results))"

subsection \<open>Events\<close>

definition event_kinds :: "(string \<Rightarrow> string) \<Rightarrow> gen_package \<Rightarrow> string" where
  "event_kinds quote pkg =
    doc_lines [''EventKind is the '' @ dq @ ''event'' @ dq @ '' field of a lifecycle event envelope.''] @
    ''type EventKind string'' @ nl @
    nl @
    ''// EventKind values.'' @ nl @
    ''const ('' @ nl @
    concat (map (\<lambda>v.
      tabs 1 @ ev_name v @ '' EventKind = '' @ quote (ev_value v) @ nl) (pk_event_kind pkg)) @
    '')'' @ nl"

definition event_interface :: "string" where
  "event_interface =
    nl @
    doc_lines [''DotName returns the dotted spelling of the event name, matching EventKind::dot_name in herdr: the first underscore becomes a dot.''] @
    ''func (k EventKind) DotName() string {'' @ nl @
    tabs 1 @ ''return strings.Replace(string(k), '' @ dq @ ''_'' @ dq @ '', '' @ dq @ ''.'' @ dq @ '', 1)'' @ nl @
    ''}'' @ nl @
    nl @
    doc_lines [''Event is a decoded event payload.''] @
    ''type Event interface {'' @ nl @
    doc_lines [tabs 1 @ ''EventName returns the dotted name of the event, for example '' @ dq @
      ''pane.created'' @ dq @ ''.''] @
    tabs 1 @ ''EventName() string'' @ nl @
    ''}'' @ nl @
    nl"

definition envelope_decoder :: "string" where
  "envelope_decoder =
    doc_lines [''UnmarshalJSON decodes the payload according to the event name.''] @
    ''func (e *EventEnvelope) UnmarshalJSON(data []byte) error {'' @ nl @
    tabs 1 @ ''var aux struct {'' @ nl @
    tabs 2 @ ''Event EventKind       `json:'' @ dq @ ''event'' @ dq @ ''`'' @ nl @
    tabs 2 @ ''Data  json.RawMessage `json:'' @ dq @ ''data'' @ dq @ ''`'' @ nl @
    tabs 1 @ ''}'' @ nl @
    tabs 1 @ ''if err := json.Unmarshal(data, &aux); err != nil {'' @ nl @
    tabs 2 @ ''return err'' @ nl @
    tabs 1 @ ''}'' @ nl @
    tabs 1 @ ''e.Event = aux.Event'' @ nl @
    tabs 1 @ ''e.Data = nil'' @ nl @
    tabs 1 @ ''if len(aux.Data) == 0 || string(aux.Data) == '' @ dq @ ''null'' @ dq @ '' {'' @ nl @
    tabs 2 @ ''return nil'' @ nl @
    tabs 1 @ ''}'' @ nl @
    tabs 1 @ ''decoded, err := DecodeEvent(string(aux.Event), aux.Data)'' @ nl @
    tabs 1 @ ''if err != nil {'' @ nl @
    tabs 2 @ ''return err'' @ nl @
    tabs 1 @ ''}'' @ nl @
    tabs 1 @ ''e.Data = decoded'' @ nl @
    tabs 1 @ ''return nil'' @ nl @
    ''}'' @ nl @
    nl"

definition event_cases :: "(string \<Rightarrow> string) \<Rightarrow> gen_type \<Rightarrow> string" where
  "event_cases quote t =
    (if gt_tag_value t = [] then [] else
    tabs 1 @ ''case '' @ quote (gt_tag_value t) @ '':'' @ nl @
    tabs 2 @ ''var value '' @ gt_name t @ nl @
    tabs 2 @ ''if err := json.Unmarshal(data, &value); err != nil {'' @ nl @
    tabs 3 @ ''return nil, err'' @ nl @
    tabs 2 @ ''}'' @ nl @
    tabs 2 @ ''return &value, nil'' @ nl)"

definition subscription_cases :: "(string \<Rightarrow> string) \<Rightarrow> event_ref \<Rightarrow> string" where
  "subscription_cases quote r =
    tabs 2 @ ''case '' @ quote (er_name r) @ '':'' @ nl @
    tabs 3 @ ''var value '' @ er_type r @ nl @
    tabs 3 @ ''if err := json.Unmarshal(data, &value); err != nil {'' @ nl @
    tabs 4 @ ''return nil, err'' @ nl @
    tabs 3 @ ''}'' @ nl @
    tabs 3 @ ''return &value, nil'' @ nl"

definition event_decoder :: "(string \<Rightarrow> string) \<Rightarrow> gen_package \<Rightarrow> gen_type list \<Rightarrow> string" where
  "event_decoder quote pkg events =
    doc_lines [''DecodeEvent decodes an event payload. A dotted event name selects one of the dedicated subscription payloads; any other name selects the variant named by the payload'' @ [CHR 0x27] @ ''s '' @ dq @ ''type'' @ dq @ '' field. An unknown name is reported as *UnknownEventError.''] @
    ''func DecodeEvent(event string, data json.RawMessage) (Event, error) {'' @ nl @
    tabs 1 @ ''if strings.Contains(event, '' @ dq @ ''.'' @ dq @ '') {'' @ nl @
    tabs 2 @ ''switch event {'' @ nl @
    concat (map (subscription_cases quote) (pk_subscriptions pkg)) @
    tabs 2 @ ''}'' @ nl @
    tabs 2 @ ''return nil, &UnknownEventError{Event: event, Data: append(json.RawMessage(nil), data...)}'' @ nl @
    tabs 1 @ ''}'' @ nl @
    tabs 1 @ ''var head struct {'' @ nl @
    tabs 2 @ ''Type string `json:'' @ dq @ ''type'' @ dq @ ''`'' @ nl @
    tabs 1 @ ''}'' @ nl @
    tabs 1 @ ''if err := json.Unmarshal(data, &head); err != nil {'' @ nl @
    tabs 2 @ ''return nil, err'' @ nl @
    tabs 1 @ ''}'' @ nl @
    tabs 1 @ ''switch head.Type {'' @ nl @
    concat (map (event_cases quote) events) @
    tabs 1 @ ''}'' @ nl @
    tabs 1 @ ''return nil, &UnknownEventError{Event: event, Data: append(json.RawMessage(nil), data...)}'' @ nl @
    ''}'' @ nl"

definition event_rest :: "string" where
  "event_rest =
    nl @
    doc_lines [''UnknownEventError is returned for an event that is not in the schema the code was generated from. Data holds the undecoded payload.''] @
    ''type UnknownEventError struct {'' @ nl @
    tabs 1 @ ''Event string'' @ nl @
    tabs 1 @ ''Data  json.RawMessage'' @ nl @
    ''}'' @ nl @
    nl @
    ''func (e *UnknownEventError) Error() string {'' @ nl @
    tabs 1 @ ''return fmt.Sprintf('' @ dq @ ''herdr: unknown event %q'' @ dq @ '', e.Event)'' @ nl @
    ''}'' @ nl @
    nl @
    doc_lines [''NextEvent reads the next line the server pushes and decodes its payload. The errors of Next are returned unchanged; payload decoding failures carry OpDecode.''] @
    ''func (s *Stream) NextEvent(ctx context.Context) (Event, error) {'' @ nl @
    tabs 1 @ ''raw, err := s.Next(ctx)'' @ nl @
    tabs 1 @ ''if err != nil {'' @ nl @
    tabs 2 @ ''return nil, err'' @ nl @
    tabs 1 @ ''}'' @ nl @
    tabs 1 @ ''event, err := DecodeEvent(raw.Event, raw.Data)'' @ nl @
    tabs 1 @ ''return event, opError(s.method, OpDecode, err)'' @ nl @
    ''}'' @ nl"

definition emit_events_file :: "(string \<Rightarrow> string) \<Rightarrow> (string \<Rightarrow> (gen_error, go_expr) result) \<Rightarrow> gen_package \<Rightarrow> clone_emitter \<Rightarrow> string" where
  "emit_events_file quote parse_expr pkg clones =
    (let events = types_in (pk_types pkg) ''events'' in
    new_file quote (pk_name pkg) [''context'', ''encoding/json'', ''fmt'', ''strings''] @
    nl @
    event_kinds quote pkg @
    event_interface @
    emit_clone_union clones (the (map_of (ce_types clones) ''Event'')) @
    nl @
    emit_struct quote (clone_of parse_expr clones) (the (map_of (ce_types clones) ''EventEnvelope'')) @
    nl @
    envelope_decoder @
    event_decoder quote pkg events @
    event_rest @
    concat (map (\<lambda>t. nl @ emit_type quote parse_expr clones t) events))"

subsection \<open>Methods\<close>

definition join_types :: "string list \<Rightarrow> string" where
  "join_types names = (let pointers = map (\<lambda>name. ''*'' @ name) names in
    (case pointers of
       [a] \<Rightarrow> a
     | [a, b] \<Rightarrow> a @ '' or '' @ b
     | _ \<Rightarrow> join_with '', '' (butlast pointers) @ '' or '' @ last pointers))"

definition emit_stream_method :: "(string \<Rightarrow> string) \<Rightarrow> gen_method \<Rightarrow> string \<Rightarrow> string \<Rightarrow> string" where
  "emit_stream_method quote m params argument =
    doc_lines [me_wrapper m @ '' calls '' @ quote (me_name m) @
      '' and keeps the connection open until the Stream is closed. Events the server pushes on it are read with (*Stream).NextEvent.''] @
    ''func (c *Client) '' @ me_wrapper m @ ''(ctx context.Context'' @ params @ '') (*Stream, error) {'' @ nl @
    tabs 1 @ ''return c.OpenStream(ctx, '' @ me_const m @ '', '' @ argument @ '')'' @ nl @
    ''}'' @ nl"

definition emit_multi_method :: "(string \<Rightarrow> string) \<Rightarrow> gen_method \<Rightarrow> string \<Rightarrow> string \<Rightarrow> string" where
  "emit_multi_method quote m params argument =
    doc_lines [if me_result_types m = [] then me_wrapper m @ '' calls '' @ quote (me_name m) @
      ''. The method answers with more than one result type, so the result is returned as a Result.''
      else me_wrapper m @ '' calls '' @ quote (me_name m) @ ''. The result is one of '' @
        (join_types (me_result_types m)) @ ''.''] @
    ''func (c *Client) '' @ me_wrapper m @ ''(ctx context.Context'' @ params @ '') (Result, error) {'' @ nl @
    tabs 1 @ ''raw, err := c.CallRaw(ctx, '' @ me_const m @ '', '' @ argument @ '')'' @ nl @
    tabs 1 @ ''if err != nil {'' @ nl @
    tabs 2 @ ''return nil, err'' @ nl @
    tabs 1 @ ''}'' @ nl @
    tabs 1 @ ''return decodeResult('' @ me_const m @ '', raw)'' @ nl @
    ''}'' @ nl"

definition emit_single_method :: "(string \<Rightarrow> string) \<Rightarrow> gen_method \<Rightarrow> string \<Rightarrow> string \<Rightarrow> string" where
  "emit_single_method quote m params argument =
    doc_lines [me_wrapper m @ '' calls '' @ quote (me_name m) @ ''.''] @
    ''func (c *Client) '' @ me_wrapper m @ ''(ctx context.Context'' @ params @ '') (*'' @ me_result_type m @
      '', error) {'' @ nl @
    tabs 1 @ ''raw, err := c.CallRaw(ctx, '' @ me_const m @ '', '' @ argument @ '')'' @ nl @
    tabs 1 @ ''if err != nil {'' @ nl @
    tabs 2 @ ''return nil, err'' @ nl @
    tabs 1 @ ''}'' @ nl @
    tabs 1 @ ''result, err := decodeResult('' @ me_const m @ '', raw)'' @ nl @
    tabs 1 @ ''if err != nil {'' @ nl @
    tabs 2 @ ''return nil, err'' @ nl @
    tabs 1 @ ''}'' @ nl @
    tabs 1 @ ''typed, ok := result.(*'' @ me_result_type m @ '')'' @ nl @
    tabs 1 @ ''if !ok {'' @ nl @
    tabs 2 @ ''return nil, opError('' @ me_const m @ '', OpDecode, &UnexpectedResultError{Method: '' @
      me_const m @ '', Want: '' @ quote (me_result_tag m) @ '', Got: result.ResultType()})'' @ nl @
    tabs 1 @ ''}'' @ nl @
    tabs 1 @ ''return typed, nil'' @ nl @
    ''}'' @ nl"

definition emit_method :: "(string \<Rightarrow> string) \<Rightarrow> gen_method \<Rightarrow> string" where
  "emit_method quote m =
    (let params = (if me_params m \<noteq> [] then '', params '' @ me_params m else []);
       argument = (if me_params m \<noteq> [] then ''params'' else ''nil'')
     in (case me_kind m of
          MethodStream \<Rightarrow> emit_stream_method quote m params argument
        | MethodMulti \<Rightarrow> emit_multi_method quote m params argument
        | MethodSingle \<Rightarrow> emit_single_method quote m params argument))"

definition emit_methods_file :: "(string \<Rightarrow> string) \<Rightarrow> gen_package \<Rightarrow> string" where
  "emit_methods_file quote pkg =
    (let methods = sort_key me_wrapper (pk_methods pkg)
     in new_file quote (pk_name pkg) [''context''] @
       nl @
       ''// Method names of the Herdr API.'' @ nl @
       ''const ('' @ nl @
       concat (map (\<lambda>m. tabs 1 @ me_const m @ '' = '' @ quote (me_name m) @ nl) methods) @
       '')'' @ nl @
       concat (map (\<lambda>m. nl @ emit_method quote m) methods))"

subsection \<open>Generate\<close>

fun format_files :: "(string \<Rightarrow> (gen_error, string) result) \<Rightarrow> (string \<times> string) list \<Rightarrow> (gen_error, (string \<times> string) list) result" where
  "format_files format_source [] = ok []"
| "format_files format_source ((name, src) # sources) = (case format_source src of
     Inl x \<Rightarrow> err (GenWrap (name @ '': '') x)
   | Inr formatted \<Rightarrow> (case format_files format_source sources of
       Inl x \<Rightarrow> err x | Inr out \<Rightarrow> ok ((name, formatted) # out)))"

lemma format_files_names: "format_files format_source sources = Inr out \<Longrightarrow> map fst out = map fst sources"
  by (induction sources arbitrary: out) (auto split: sum.splits)

definition generate ::
  "(string \<Rightarrow> string) \<Rightarrow> (json \<Rightarrow> string) \<Rightarrow> (string \<Rightarrow> (gen_error, go_expr) result) \<Rightarrow> (string \<Rightarrow> (gen_error, string) result) \<Rightarrow>
    json option \<Rightarrow> json option \<Rightarrow> string \<Rightarrow> (gen_error, (string \<times> string) list) result" where
  "generate quote raw_text parse_expr format_source schema_data methods_data pkg_name =
    (case parse_schema quote schema_data of
       Inl x \<Rightarrow> err x
     | Inr doc \<Rightarrow> (case parse_method_table quote methods_data of
         Inl x \<Rightarrow> err x
       | Inr table \<Rightarrow> (case build_package quote raw_text doc table pkg_name of
           Inl x \<Rightarrow> err x
         | Inr pkg \<Rightarrow> (case new_clone_emitter quote parse_expr pkg of
             Inl x \<Rightarrow> err x
           | Inr clones \<Rightarrow> format_files format_source
               [(''schema_gen.go'', emit_schema_file quote pkg),
                (''types_gen.go'', emit_types_file quote parse_expr pkg clones),
                (''results_gen.go'', emit_results_file quote parse_expr pkg clones),
                (''events_gen.go'', emit_events_file quote parse_expr pkg clones),
                (''methods_gen.go'', emit_methods_file quote pkg)]))))"

text \<open>
  When files come out, they are the five of \<open>Files\<close>, and every struct and union of the package has its copy: each field
  copies only through scalars, manual types, enums and types whose \<open>Clone\<close> or type switch is written as well.
\<close>

lemma generate_closed:
  assumes "generate quote raw_text parse_expr format_source schema_data methods_data pkg_name = Inr out"
  shows "map fst out = [''schema_gen.go'', ''types_gen.go'', ''results_gen.go'', ''events_gen.go'', ''methods_gen.go''] \<and>
    (\<exists>pkg clones. new_clone_emitter quote parse_expr pkg = Inr clones \<and>
      (\<forall>name t. map_of (ce_types clones) name = Some t \<longrightarrow> gt_kind t \<noteq> KindEnum \<longrightarrow>
        name \<in> set (ce_seen clones) \<and> (\<forall>i \<in> set (parts_of t). item_done parse_expr clones i)))"
proof -
  from assms obtain doc table pkg clones where built: "build_package quote raw_text doc table pkg_name = Inr pkg"
    and clones: "new_clone_emitter quote parse_expr pkg = Inr clones"
    and out: "format_files format_source [(''schema_gen.go'', emit_schema_file quote pkg),
      (''types_gen.go'', emit_types_file quote parse_expr pkg clones),
      (''results_gen.go'', emit_results_file quote parse_expr pkg clones),
      (''events_gen.go'', emit_events_file quote parse_expr pkg clones),
      (''methods_gen.go'', emit_methods_file quote pkg)] = Inr out"
    by (auto simp: generate_def split: sum.splits)
  from format_files_names [OF out] have "map fst out = [''schema_gen.go'', ''types_gen.go'', ''results_gen.go'', ''events_gen.go'', ''methods_gen.go'']"
    by simp
  with clones clones_closed [OF clones] show ?thesis by blast
qed

end
