(* ===== verification/Rust_Scan.thy ===== *)
theory Rust_Scan
  imports Json_Codec
begin

text \<open>
  The reader of Rust sources in \<open>internal/cmd/herdrsource/rust.go\<close>, its scanner: what is not code (comments, strings,
  character literals) is skipped, delimiters are matched over the rest, and test modules are blanked out. Positions
  are byte offsets; \<open>src[i:]\<close> is \<open>drop i src\<close>, and the lemmas show that no offset leaves the text.
\<close>

subsection \<open>Searching\<close>

text \<open>\<open>strings.Index\<close>, \<open>strings.IndexByte\<close> and \<open>strings.ContainsAny\<close>.\<close>

fun index_str :: "string \<Rightarrow> string \<Rightarrow> nat option" where
  "index_str sub [] = (if sub = [] then Some 0 else None)"
| "index_str sub (c # cs) = (if has_prefix (c # cs) sub then Some 0 else map_option Suc (index_str sub cs))"

definition index_byte :: "char \<Rightarrow> string \<Rightarrow> nat option" where
  "index_byte c s = index_str [c] s"

definition contains_any :: "string \<Rightarrow> string \<Rightarrow> bool" where
  "contains_any s chars = list_ex (\<lambda>c. c \<in> set chars) s"

text \<open>\<open>src[lo:hi]\<close>.\<close>

definition sub_str :: "string \<Rightarrow> nat \<Rightarrow> nat \<Rightarrow> string" where
  "sub_str src lo hi = take (hi - lo) (drop lo src)"

lemma has_prefix_take: "has_prefix s p \<longleftrightarrow> take (length p) s = p"
  by (induction s p rule: has_prefix.induct) auto

lemma index_str_Some:
  "index_str sub s = Some i \<Longrightarrow> i + length sub \<le> length s \<and> take (length sub) (drop i s) = sub"
proof (induction sub s arbitrary: i rule: index_str.induct)
  case (2 sub c cs)
  show ?case
  proof (cases "has_prefix (c # cs) sub")
    case True
    with 2(2) have "i = 0" "take (length sub) (c # cs) = sub" by (simp_all add: has_prefix_take)
    then show ?thesis by (metis add_0 drop_0 length_take min.cobounded1)
  next
    case False
    with 2(2) obtain k where "index_str sub cs = Some k" "i = Suc k" by auto
    with 2(1) [OF False this(1)] show ?thesis by simp
  qed
qed (simp split: if_splits)

lemma index_byte_Some: "index_byte c s = Some i \<Longrightarrow> i < length s \<and> s ! i = c"
  using index_str_Some [of "[c]" s i] by (cases "drop i s") (auto simp: index_byte_def dest: nth_via_drop)

subsection \<open>What is not code\<close>

text \<open>\<open>skipString\<close>: \<open>j\<close> is the index of its loop.\<close>

function skip_string_from :: "string \<Rightarrow> nat \<Rightarrow> nat" where
  "skip_string_from src j =
    (if j < length src then
       (if src ! j = CHR 0x5C then skip_string_from src (Suc (Suc j))
        else if src ! j = CHR 0x22 then Suc j
        else skip_string_from src (Suc j))
     else length src)"
  by pat_completeness auto
termination
  by (relation "measure (\<lambda>(src, j). length src - j)") auto

declare skip_string_from.simps [simp del]

definition skip_string :: "string \<Rightarrow> nat \<Rightarrow> nat" where
  "skip_string src i = skip_string_from src (Suc i)"

text \<open>\<open>skipRawString\<close>; \<open>None\<close> is the result that nothing was skipped, here and below.\<close>

definition count_hashes :: "string \<Rightarrow> nat \<Rightarrow> nat" where
  "count_hashes src i = length (takeWhile (\<lambda>c. c = CHR ''#'') (drop i src))"

definition skip_raw_string :: "string \<Rightarrow> nat \<Rightarrow> nat option" where
  "skip_raw_string src i =
    (let hashes = count_hashes src (Suc i); j = Suc i + hashes
     in if length src \<le> j \<or> src ! j \<noteq> CHR 0x22 then None
        else let closer = CHR 0x22 # replicate hashes (CHR ''#'')
          in case index_str closer (drop (Suc j) src) of
              Some end' \<Rightarrow> Some (Suc j + end' + length closer)
            | None \<Rightarrow> Some (length src))"

fun char_width :: "string \<Rightarrow> nat list \<Rightarrow> nat option" where
  "char_width rest [] = None"
| "char_width rest (width # widths) =
    (if width < length rest then (if rest ! width = CHR 0x27 then Some width else char_width rest widths) else None)"

definition skip_char :: "string \<Rightarrow> nat \<Rightarrow> nat option" where
  "skip_char src i =
    (let rest = drop (Suc i) src
     in if has_prefix rest [CHR 0x5C] then
          (case index_byte (CHR 0x27) rest of
             Some end' \<Rightarrow> if end' \<le> 5 then Some (i + 1 + end' + 1) else None
           | None \<Rightarrow> None)
        else map_option (\<lambda>width. i + 1 + width + 1) (char_width rest [1, 2, 3, 4]))"

text \<open>Block comments nest.\<close>

function skip_block_comment :: "string \<Rightarrow> nat \<Rightarrow> nat \<Rightarrow> nat" where
  "skip_block_comment src depth j =
    (if j < length src then
       (if has_prefix (drop j src) ''/*'' then skip_block_comment src (Suc depth) (j + 2)
        else if has_prefix (drop j src) ''*/'' then
          (if depth = 1 then j + 2 else skip_block_comment src (depth - 1) (j + 2))
        else skip_block_comment src depth (Suc j))
     else length src)"
  by pat_completeness auto
termination
  by (relation "measure (\<lambda>(src, depth, j). length src - j)") auto

declare skip_block_comment.simps [simp del]

definition skip_non_code :: "string \<Rightarrow> nat \<Rightarrow> nat option" where
  "skip_non_code src i =
    (if has_prefix (drop i src) ''//'' then
       Some (case index_byte (CHR 0x0A) (drop i src) of Some end' \<Rightarrow> i + end' + 1 | None \<Rightarrow> length src)
     else if has_prefix (drop i src) ''/*'' then Some (skip_block_comment src 0 i)
     else if src ! i = CHR ''r'' \<and> (has_prefix (drop i src) [CHR ''r'', CHR 0x22] \<or> has_prefix (drop i src) ''r#'')
     then skip_raw_string src i
     else if src ! i = CHR 0x22 then Some (skip_string src i)
     else if src ! i = CHR 0x27 then skip_char src i
     else None)"

text \<open>Skipping moves on and stays inside the text.\<close>

lemma skip_string_bounds: "j \<le> length src \<Longrightarrow> j \<le> skip_string_from src j \<and> skip_string_from src j \<le> length src"
proof (induction src j rule: skip_string_from.induct)
  case (1 src j)
  show ?case
  proof (cases "j < length src")
    case True
    have over: "skip_string_from src k = length src" if "length src \<le> k" for k
      using that by (subst skip_string_from.simps) simp
    consider "src ! j = CHR 0x5C" "Suc (Suc j) \<le> length src" | "src ! j = CHR 0x5C" "\<not> Suc (Suc j) \<le> length src"
      | "src ! j \<noteq> CHR 0x5C" by blast
    then show ?thesis
    proof cases
      case 1
      with \<open>j < length src\<close> "1.IH"(1) show ?thesis by (subst (1 2) skip_string_from.simps) simp
    next
      case 2
      with over [of "Suc (Suc j)"] True show ?thesis by (subst (1 2) skip_string_from.simps) simp
    next
      case 3
      with True "1.IH"(2) show ?thesis by (subst (1 2) skip_string_from.simps) auto
    qed
  qed (use 1 in \<open>subst (1 2) skip_string_from.simps, simp\<close>)
qed

lemma prefix_fits: "has_prefix (drop i s) p \<Longrightarrow> p \<noteq> [] \<Longrightarrow> i + length p \<le> length s"
proof -
  assume "has_prefix (drop i s) p" "p \<noteq> []"
  then have "take (length p) (drop i s) = p" by (simp add: has_prefix_take)
  from arg_cong [OF this, of length] \<open>p \<noteq> []\<close> show ?thesis by (cases "i \<le> length s") auto
qed

lemma skip_block_bounds:
  "j \<le> length src \<Longrightarrow> j \<le> skip_block_comment src depth j \<and> skip_block_comment src depth j \<le> length src"
proof (induction src depth j rule: skip_block_comment.induct)
  case (1 src depth j)
  show ?case
  proof (cases "j < length src")
    case True
    with 1 prefix_fits [of j src "''/*''"] prefix_fits [of j src "''*/''"] show ?thesis
      by (subst (1 2) skip_block_comment.simps) (auto simp: le_diff_conv)
  qed (use 1 in \<open>subst (1 2) skip_block_comment.simps, simp\<close>)
qed

lemma skip_block_moves: "has_prefix (drop i src) ''/*'' \<Longrightarrow> i < skip_block_comment src 0 i"
  using prefix_fits [of i src "''/*''"] skip_block_bounds [of "i + 2" src 1]
  by (subst skip_block_comment.simps) auto

lemma skip_raw_bounds: "skip_raw_string src i = Some n \<Longrightarrow> i < n \<and> n \<le> length src"
  by (auto simp: skip_raw_string_def Let_def dest: index_str_Some split: if_splits option.splits)

lemma char_width_bound: "char_width rest ws = Some w \<Longrightarrow> w < length rest"
  by (induction rest ws rule: char_width.induct) (auto split: if_splits)

lemma skip_char_bounds: "skip_char src i = Some n \<Longrightarrow> i < n \<and> n \<le> length src"
  by (auto simp: skip_char_def Let_def dest!: index_byte_Some char_width_bound split: if_splits option.splits)

lemma skip_bounds:
  assumes "skip_non_code src i = Some n" "i < length src"
  shows "i < n \<and> n \<le> length src"
proof -
  have "i + end' < length src" if "index_byte (CHR 0x0A) (drop i src) = Some end'" for end'
    using index_byte_Some [OF that] assms(2) by (simp add: less_diff_conv add.commute)
  with assms skip_block_moves [of i src] skip_block_bounds [of i src 0] skip_raw_bounds [of src i n]
    skip_char_bounds [of src i n] skip_string_bounds [of "Suc i" src]
  show ?thesis by (auto simp: skip_non_code_def skip_string_def split: if_splits option.splits)
qed

subsection \<open>Balanced delimiters\<close>

text \<open>\<open>balanced\<close>, its loop at index \<open>i\<close>; the result is what stands between the delimiters and the index past the closing one.\<close>

function balanced_loop :: "string \<Rightarrow> nat \<Rightarrow> char \<Rightarrow> char \<Rightarrow> nat \<Rightarrow> nat \<Rightarrow> (string \<times> nat) option" where
  "balanced_loop src open' oc cc depth i =
    (if i < length src then (case skip_non_code src i of
        Some next' \<Rightarrow> balanced_loop src open' oc cc depth next'
      | None \<Rightarrow>
          if src ! i = oc then balanced_loop src open' oc cc (Suc depth) (Suc i)
          else if src ! i = cc then
            (if depth = 1 then Some (sub_str src (Suc open') i, Suc i)
             else balanced_loop src open' oc cc (depth - 1) (Suc i))
          else balanced_loop src open' oc cc depth (Suc i))
     else None)"
  by pat_completeness auto
termination
  by (relation "measure (\<lambda>(src, open', oc, cc, depth, i). length src - i)") (auto dest!: skip_bounds)

declare balanced_loop.simps [simp del]

definition balanced :: "string \<Rightarrow> nat \<Rightarrow> char \<Rightarrow> char \<Rightarrow> (string \<times> nat) option" where
  "balanced src open' oc cc =
    (if length src \<le> open' \<or> src ! open' \<noteq> oc then None else balanced_loop src open' oc cc 0 open')"

definition block_at :: "string \<Rightarrow> nat \<Rightarrow> (string \<times> nat) option" where
  "block_at src open' = balanced src open' (CHR ''{'') (CHR ''}'')"

definition group_at :: "string \<Rightarrow> nat \<Rightarrow> (string \<times> nat) option" where
  "group_at src open' = balanced src open' (CHR ''('') (CHR '')'')"

text \<open>\<open>untilArmComma\<close>.\<close>

function arm_comma_loop :: "string \<Rightarrow> nat \<Rightarrow> nat \<Rightarrow> nat \<Rightarrow> string option" where
  "arm_comma_loop src start depth i =
    (if i < length src then (case skip_non_code src i of
        Some next' \<Rightarrow> arm_comma_loop src start depth next'
      | None \<Rightarrow>
          if src ! i \<in> {CHR ''('', CHR ''['', CHR ''{''} then arm_comma_loop src start (Suc depth) (Suc i)
          else if src ! i \<in> {CHR '')'', CHR '']'', CHR ''}''} then
            (if depth = 0 then Some (sub_str src start i) else arm_comma_loop src start (depth - 1) (Suc i))
          else if src ! i = CHR '','' \<and> depth = 0 then Some (sub_str src start i)
          else arm_comma_loop src start depth (Suc i))
     else None)"
  by pat_completeness auto
termination
  by (relation "measure (\<lambda>(src, start, depth, i). length src - i)") (auto dest!: skip_bounds)

declare arm_comma_loop.simps [simp del]

definition until_arm_comma :: "string \<Rightarrow> nat \<Rightarrow> string option" where
  "until_arm_comma src start = arm_comma_loop src start 0 start"

subsection \<open>A reference for \<open>balanced\<close>\<close>

text \<open>The positions of code from an index on, in order.\<close>

function code_from :: "string \<Rightarrow> nat \<Rightarrow> nat list" where
  "code_from src i =
    (if i < length src then (case skip_non_code src i of
        Some next' \<Rightarrow> code_from src next' | None \<Rightarrow> i # code_from src (Suc i))
     else [])"
  by pat_completeness auto
termination
  by (relation "measure (\<lambda>(src, i). length src - i)") (auto dest!: skip_bounds)

declare code_from.simps [simp del]

definition open_depth :: "string \<Rightarrow> char \<Rightarrow> char \<Rightarrow> nat list \<Rightarrow> int" where
  "open_depth src oc cc ps = int (length (filter (\<lambda>p. src ! p = oc) ps)) - int (length (filter (\<lambda>p. src ! p = cc) ps))"

lemma open_depth_simps [simp]:
  "open_depth src oc cc [] = 0"
  "open_depth src oc cc (p # ps) = (if src ! p = oc then 1 else 0) - (if src ! p = cc then 1 else 0) + open_depth src oc cc ps"
  by (auto simp: open_depth_def)

lemma code_from_bounds: "p \<in> set (code_from src i) \<Longrightarrow> i \<le> p \<and> p < length src"
proof (induction src i rule: code_from.induct)
  case (1 src i)
  show ?case
  proof (cases "i < length src")
    case True
    show ?thesis
    proof (cases "skip_non_code src i")
      case None
      with 1 True show ?thesis by (subst (asm) (3) code_from.simps) auto
    next
      case (Some n)
      with 1 True skip_bounds [OF Some True] show ?thesis by (subst (asm) (3) code_from.simps) auto
    qed
  qed (use 1 in \<open>subst (asm) (3) code_from.simps, simp\<close>)
qed

text \<open>
  \<open>closes_at d ps q\<close>: counting from depth \<open>d\<close> over the positions \<open>ps\<close>, the depth first falls to 0 at position \<open>q\<close>.
\<close>

definition closes_at :: "string \<Rightarrow> char \<Rightarrow> char \<Rightarrow> nat \<Rightarrow> nat list \<Rightarrow> nat \<Rightarrow> bool" where
  "closes_at src oc cc d ps q \<longleftrightarrow> (\<exists>k < length ps. ps ! k = q \<and> src ! q = cc \<and>
     int d + open_depth src oc cc (take (Suc k) ps) = 0 \<and> (\<forall>j < k. src ! (ps ! j) = cc \<longrightarrow> int d + open_depth src oc cc (take (Suc j) ps) > 0))"

lemma closes_at_Nil [simp]: "\<not> closes_at src oc cc d [] q"
  by (simp add: closes_at_def)

lemma closes_at_Cons:
  assumes "oc \<noteq> cc" "0 < d \<or> src ! p \<noteq> cc"
  shows "closes_at src oc cc d (p # ps) q \<longleftrightarrow>
    (if src ! p = oc then closes_at src oc cc (Suc d) ps q
     else if src ! p = cc then (if d = 1 then p = q else closes_at src oc cc (d - 1) ps q)
     else closes_at src oc cc d ps q)"
proof -
  have shift: "closes_at src oc cc d (p # ps) q \<longleftrightarrow> closes_at src oc cc e ps q"
    if step: "int e = int d + open_depth src oc cc [p]" and no: "src ! p = cc \<longrightarrow> e \<noteq> 0" for e
  proof
    assume "closes_at src oc cc d (p # ps) q"
    then obtain k where k: "k < length (p # ps)" "(p # ps) ! k = q" "src ! q = cc"
      "int d + open_depth src oc cc (take (Suc k) (p # ps)) = 0"
      "\<forall>j < k. src ! ((p # ps) ! j) = cc \<longrightarrow> int d + open_depth src oc cc (take (Suc j) (p # ps)) > 0"
      by (auto simp: closes_at_def)
    with step no obtain k' where k': "k = Suc k'" by (cases k) auto
    have "\<forall>j < k'. src ! (ps ! j) = cc \<longrightarrow> int e + open_depth src oc cc (take (Suc j) ps) > 0"
    proof (intro allI impI)
      fix j assume "j < k'" "src ! (ps ! j) = cc"
      with k(5) [rule_format, of "Suc j"] k' step show "int e + open_depth src oc cc (take (Suc j) ps) > 0" by auto
    qed
    with k k' step show "closes_at src oc cc e ps q"
      unfolding closes_at_def by (intro exI [of _ k']) auto
  next
    assume "closes_at src oc cc e ps q"
    then obtain k where k: "k < length ps" "ps ! k = q" "src ! q = cc"
      "int e + open_depth src oc cc (take (Suc k) ps) = 0"
      "\<forall>j < k. src ! (ps ! j) = cc \<longrightarrow> int e + open_depth src oc cc (take (Suc j) ps) > 0"
      by (auto simp: closes_at_def)
    have "\<forall>j < Suc k. src ! ((p # ps) ! j) = cc \<longrightarrow> int d + open_depth src oc cc (take (Suc j) (p # ps)) > 0"
    proof (intro allI impI)
      fix j assume "j < Suc k" "src ! ((p # ps) ! j) = cc"
      then show "int d + open_depth src oc cc (take (Suc j) (p # ps)) > 0"
        using k(5) step no by (cases j) auto
    qed
    with k step show "closes_at src oc cc d (p # ps) q"
      unfolding closes_at_def by (intro exI [of _ "Suc k"]) auto
  qed
  have last: "closes_at src oc cc 1 (p # ps) q \<longleftrightarrow> p = q" if "src ! p = cc" "src ! p \<noteq> oc"
  proof
    assume "closes_at src oc cc 1 (p # ps) q"
    then obtain k where "(p # ps) ! k = q"
      "\<forall>j < k. src ! ((p # ps) ! j) = cc \<longrightarrow> 1 + open_depth src oc cc (take (Suc j) (p # ps)) > 0"
      by (auto simp: closes_at_def)
    with that show "p = q" by (cases k) auto
  next
    assume "p = q"
    with that show "closes_at src oc cc 1 (p # ps) q" unfolding closes_at_def by (intro exI [of _ 0]) auto
  qed
  show ?thesis
    using shift [of "Suc d"] shift [of "d - 1"] shift [of d] last assms by (auto simp: of_nat_diff)
qed

lemma balanced_loop_iff:
  "oc \<noteq> cc \<Longrightarrow> 0 < d \<Longrightarrow> balanced_loop src open' oc cc d i = Some (body, e) \<longleftrightarrow>
    (\<exists>q. closes_at src oc cc d (code_from src i) q \<and> body = sub_str src (Suc open') q \<and> e = Suc q)"
proof (induction src open' oc cc d i rule: balanced_loop.induct)
  case (1 src open' oc cc d i)
  show ?case
  proof (cases "i < length src \<and> skip_non_code src i = None")
    case True
    then have code: "code_from src i = i # code_from src (Suc i)" by (subst code_from.simps) simp
    have loop: "balanced_loop src open' oc cc d i =
      (if src ! i = oc then balanced_loop src open' oc cc (Suc d) (Suc i)
       else if src ! i = cc then
         (if d = 1 then Some (sub_str src (Suc open') i, Suc i) else balanced_loop src open' oc cc (d - 1) (Suc i))
       else balanced_loop src open' oc cc d (Suc i))"
      using True by (subst balanced_loop.simps) simp
    show ?thesis
      unfolding loop code closes_at_Cons [OF \<open>oc \<noteq> cc\<close> disjI1 [OF \<open>0 < d\<close>]]
      using True 1 by auto
  next
    case False
    then show ?thesis
      using 1 by (cases "i < length src") (auto simp: balanced_loop.simps [of _ _ _ _ _ i] code_from.simps [of _ i])
  qed
qed

lemma block_at_iff:
  "block_at src open' = Some (body, e) \<longleftrightarrow> open' < length src \<and> src ! open' = CHR ''{'' \<and>
    (\<exists>q. closes_at src (CHR ''{'') (CHR ''}'') 1 (code_from src (Suc open')) q \<and>
      body = sub_str src (Suc open') q \<and> e = Suc q)"
proof -
  have "balanced_loop src open' (CHR ''{'') (CHR ''}'') 0 open' =
      balanced_loop src open' (CHR ''{'') (CHR ''}'') 1 (Suc open')"
    if "open' < length src" "src ! open' = CHR ''{''"
  proof -
    from that have "skip_non_code src open' = None"
      by (auto simp: skip_non_code_def simp flip: Cons_nth_drop_Suc)
    with that show ?thesis by (subst balanced_loop.simps) simp
  qed
  then show ?thesis
    by (auto simp: block_at_def balanced_def balanced_loop_iff)
qed


text \<open>
  The literal of an escaped quote is skipped one byte short: \<open>skipChar\<close> takes the escaped quote for the closing one.
  In a block of two character literals, the quote and the double quote, the rest is then read as a string and the
  block has no end.
\<close>

definition quotes_block :: string where
  "quotes_block = ''{ ['' @ [CHR 0x27, CHR 0x5C, CHR 0x27, CHR 0x27] @ '', '' @ [CHR 0x27, CHR 0x22, CHR 0x27] @ ''] }''"

lemma escaped_quote_misread:
  "skip_char (drop 3 quotes_block) 0 = Some 3" "block_at quotes_block 0 = None"
  by code_simp+

end
