(* ===== verification/Rust_Source.thy ===== *)
theory Rust_Source
  imports Rust_Scan
begin

text \<open>
  The reader of Rust sources in \<open>internal/cmd/herdrsource/rust.go\<close>, what it looks for: the two views of a file, the
  regular expressions as matchers at a position (each is deterministic: a greedy step never has to give back), the
  names of the methods, the functions, the bodies a dispatch decides a method in, and the results reachable from
  them. The files are given in the order of their paths.
\<close>

subsection \<open>Files, lines and views\<close>

record location =
  lo_file :: string
  lo_line :: nat

definition location_text :: "location \<Rightarrow> string" where
  "location_text l = lo_file l @ '':'' @ format_uint (lo_line l)"

record source_file =
  sf_path :: string
  sf_text :: string

definition line_at :: "string \<Rightarrow> nat \<Rightarrow> nat" where
  "line_at src index = count_list (take index src) (CHR 0x0A) + 1"

definition blank_char :: "char \<Rightarrow> char" where
  "blank_char c = (if c = CHR 0x0A then c else CHR '' '')"

definition blank_range :: "nat \<Rightarrow> nat \<Rightarrow> string \<Rightarrow> string" where
  "blank_range from' to out = take from' out @ map blank_char (take (to - from') (drop from' out)) @ drop (max from' to) out"

definition copy_range :: "nat \<Rightarrow> nat \<Rightarrow> string \<Rightarrow> string \<Rightarrow> string" where
  "copy_range from' to text out = take from' out @ take (to - from') (drop from' text) @ drop (max from' to) out"

definition test_marker :: string where
  "test_marker = ''#[cfg(test)]''"

lemma block_at_bounds:
  assumes "block_at src open' = Some (body, e)"
  shows "Suc open' < e \<and> e \<le> length src"
proof -
  from assms obtain q where "closes_at src (CHR ''{'') (CHR ''}'') 1 (code_from src (Suc open')) q" "e = Suc q"
    by (auto simp: block_at_iff)
  then have "q \<in> set (code_from src (Suc open'))" by (auto simp: closes_at_def)
  with code_from_bounds [OF this] \<open>e = Suc q\<close> show ?thesis by simp
qed

function split_loop :: "bool \<Rightarrow> string \<Rightarrow> nat \<Rightarrow> string \<Rightarrow> string" where
  "split_loop keep_tests text at' out = (case index_str test_marker (drop at' text) of
     None \<Rightarrow> out
   | Some f \<Rightarrow> (case index_byte (CHR ''{'') (drop (f + at') text) of
       None \<Rightarrow> out
     | Some open' \<Rightarrow> (case block_at text (f + at' + open') of
         None \<Rightarrow> out
       | Some (body, end') \<Rightarrow> split_loop keep_tests text end'
           (if keep_tests then copy_range (f + at') end' text out else blank_range (f + at') end' out))))"
  by pat_completeness auto
termination
  by (relation "measure (\<lambda>(keep_tests, text, at', out). length text - at')") (auto dest!: block_at_bounds)

declare split_loop.simps [simp del]

definition split_view :: "source_file \<Rightarrow> bool \<Rightarrow> string" where
  "split_view s keep_tests =
    (let out = (if keep_tests then blank_range 0 (length (sf_text s)) (sf_text s) else sf_text s)
     in split_loop keep_tests (sf_text s) 0 out)"

definition production :: "source_file \<Rightarrow> string" where
  "production s = split_view s False"

definition tests_view :: "source_file \<Rightarrow> string" where
  "tests_view s = split_view s True"

subsection \<open>The views keep offsets and lines\<close>

lemma ranges_nth:
  assumes "length out = length text" "to \<le> length text"
  shows "length (blank_range from' to out) = length text" "length (copy_range from' to text out) = length text"
    "i < length text \<Longrightarrow> blank_range from' to out ! i = (if from' \<le> i \<and> i < to then blank_char (out ! i) else out ! i)"
    "i < length text \<Longrightarrow> copy_range from' to text out ! i = (if from' \<le> i \<and> i < to then text ! i else out ! i)"
  using assms by (auto simp: blank_range_def copy_range_def nth_append min_def max_def)

text \<open>At each offset one of the views has the byte of the file and the other blanks it.\<close>

definition views :: "string \<Rightarrow> string \<Rightarrow> string \<Rightarrow> bool" where
  "views text code tests \<longleftrightarrow> length code = length text \<and> length tests = length text \<and>
    (\<forall>i < length text. (code ! i = text ! i \<and> tests ! i = blank_char (text ! i)) \<or>
      (code ! i = blank_char (text ! i) \<and> tests ! i = text ! i))"

lemma split_loop_views:
  "views text code tests \<Longrightarrow> views text (split_loop False text at' code) (split_loop True text at' tests)"
proof (induction "length text - at'" arbitrary: at' code tests rule: less_induct)
  case less
  show ?case
  proof (cases "index_str test_marker (drop at' text)")
    case None
    with less show ?thesis by (simp add: split_loop.simps)
  next
    case f: (Some f)
    show ?thesis
    proof (cases "index_byte (CHR ''{'') (drop (f + at') text)")
      case None
      with less f show ?thesis by (simp add: split_loop.simps)
    next
      case o: (Some open')
      show ?thesis
      proof (cases "block_at text (f + at' + open')")
        case None
        with less f o show ?thesis by (simp add: split_loop.simps)
      next
        case (Some r)
        obtain body e where r: "block_at text (f + at' + open') = Some (body, e)" using Some by (cases r) auto
        note b = block_at_bounds [OF r]
        have "views text (blank_range (f + at') e code) (copy_range (f + at') e text tests)"
          unfolding views_def
        proof (intro conjI allI impI)
          fix i
          assume "i < length text"
          with less.prems have "(code ! i = text ! i \<and> tests ! i = blank_char (text ! i)) \<or>
            (code ! i = blank_char (text ! i) \<and> tests ! i = text ! i)" by (simp add: views_def)
          moreover have "blank_char (blank_char c) = blank_char c" for c by (simp add: blank_char_def)
          ultimately show "(blank_range (f + at') e code ! i = text ! i \<and>
              copy_range (f + at') e text tests ! i = blank_char (text ! i)) \<or>
            (blank_range (f + at') e code ! i = blank_char (text ! i) \<and> copy_range (f + at') e text tests ! i = text ! i)"
            using \<open>i < length text\<close> less.prems b by (auto simp: ranges_nth views_def)
        qed (use less.prems b in \<open>simp_all add: ranges_nth views_def\<close>)
        moreover from b have "length text - e < length text - at'" by linarith
        ultimately show ?thesis using less.hyps [of e] f o r by (simp add: split_loop.simps [of _ _ at'])
      qed
    qed
  qed
qed

lemma line_at_nth: "i \<le> length src \<Longrightarrow> line_at src i = Suc (card {j. j < i \<and> src ! j = CHR 0x0A})"
proof (induction i)
  case (Suc i)
  have "{j. j < Suc i \<and> src ! j = CHR 0x0A} = {j. j < i \<and> src ! j = CHR 0x0A} \<union> (if src ! i = CHR 0x0A then {i} else {})"
    by (auto simp: less_Suc_eq)
  with Suc show ?case by (auto simp: line_at_def take_Suc_conv_app_nth)
qed (simp add: line_at_def)

text \<open>
  Blanking keeps every byte offset: both views are as long as the file, a position has the same line in both
  as in the file, and every byte of the file stands at its place in one view and is blanked in the other.
\<close>

lemma views_keep_lines:
  "views (sf_text s) (production s) (tests_view s) \<and>
    (\<forall>i. line_at (production s) i = line_at (sf_text s) i \<and> line_at (tests_view s) i = line_at (sf_text s) i)"
proof -
  have v: "views (sf_text s) (production s) (tests_view s)"
    unfolding production_def tests_view_def split_view_def Let_def
    by (simp, rule split_loop_views) (auto simp: views_def ranges_nth)
  have lines: "line_at out i = line_at (sf_text s) i"
    if "length out = length (sf_text s)" "\<forall>j < length out. (out ! j = CHR 0x0A) = (sf_text s ! j = CHR 0x0A)" for out i
  proof -
    let ?m = "min i (length out)"
    have "line_at src i = line_at src (min i (length src))" for src by (simp add: line_at_def min_def)
    then have "line_at out i = Suc (card {j. j < ?m \<and> out ! j = CHR 0x0A})"
      "line_at (sf_text s) i = Suc (card {j. j < ?m \<and> sf_text s ! j = CHR 0x0A})"
      using that(1) line_at_nth [of ?m out] line_at_nth [of ?m "sf_text s"] by simp_all
    moreover have "{j. j < ?m \<and> out ! j = CHR 0x0A} = {j. j < ?m \<and> sf_text s ! j = CHR 0x0A}"
      using that(2) by auto
    ultimately show ?thesis by simp
  qed
  have len: "length (production s) = length (sf_text s)" "length (tests_view s) = length (sf_text s)"
    using v by (simp_all add: views_def)
  have newlines: "(production s ! j = CHR 0x0A) = (sf_text s ! j = CHR 0x0A)"
    "(tests_view s ! j = CHR 0x0A) = (sf_text s ! j = CHR 0x0A)" if "j < length (sf_text s)" for j
  proof -
    from v that have "(production s ! j = sf_text s ! j \<and> tests_view s ! j = blank_char (sf_text s ! j)) \<or>
      (production s ! j = blank_char (sf_text s ! j) \<and> tests_view s ! j = sf_text s ! j)" by (simp add: views_def)
    moreover have "(blank_char c = CHR 0x0A) = (c = CHR 0x0A)" for c by (simp add: blank_char_def)
    ultimately show "(production s ! j = CHR 0x0A) = (sf_text s ! j = CHR 0x0A)"
      "(tests_view s ! j = CHR 0x0A) = (sf_text s ! j = CHR 0x0A)" by (elim disjE conjE; simp)+
  qed
  show ?thesis by (intro conjI allI v lines) (simp_all add: len newlines)
qed

subsection \<open>Regular expressions\<close>

definition word_char :: "char \<Rightarrow> bool" where
  "word_char c \<longleftrightarrow> in_range 48 57 c \<or> in_range 65 90 c \<or> in_range 97 122 c \<or> c = CHR ''_''"

definition alnum_char :: "char \<Rightarrow> bool" where
  "alnum_char c \<longleftrightarrow> in_range 48 57 c \<or> in_range 65 90 c \<or> in_range 97 122 c"

definition space_char :: "char \<Rightarrow> bool" where
  "space_char c \<longleftrightarrow> c \<in> {CHR 0x09, CHR 0x0A, CHR 0x0C, CHR 0x0D, CHR '' ''}"

definition lower_start :: "char \<Rightarrow> bool" where
  "lower_start c \<longleftrightarrow> in_range 97 122 c \<or> c = CHR ''_''"

text \<open>\<open>\b\<close>.\<close>

definition word_boundary :: "string \<Rightarrow> nat \<Rightarrow> bool" where
  "word_boundary src i \<longleftrightarrow>
    (0 < i \<and> word_char (src ! (i - 1))) \<noteq> (i < length src \<and> word_char (src ! i))"

text \<open>A greedy run of characters, and the spaces that follow an index.\<close>

definition run_at :: "(char \<Rightarrow> bool) \<Rightarrow> string \<Rightarrow> nat \<Rightarrow> string" where
  "run_at P src i = takeWhile P (drop i src)"

definition skip_spaces :: "string \<Rightarrow> nat \<Rightarrow> nat" where
  "skip_spaces src i = i + length (run_at space_char src i)"

text \<open>
  \<open>FindAll\<close>: from left to right, each search going on where the last match ended. A matcher yields its submatches and
  the end of the match.
\<close>

function find_all :: "(string \<Rightarrow> nat \<Rightarrow> ('m \<times> nat) option) \<Rightarrow> string \<Rightarrow> nat \<Rightarrow> (nat \<times> 'm \<times> nat) list" where
  "find_all m src i =
    (if i < length src then (case m src i of
        Some (x, e) \<Rightarrow> (i, x, e) # find_all m src (max e (Suc i))
      | None \<Rightarrow> find_all m src (Suc i))
     else [])"
  by pat_completeness auto
termination
  by (relation "measure (\<lambda>(m, src, i). length src - i)") auto

declare find_all.simps [simp del]

text \<open>\<open>callRe\<close>.\<close>

definition match_call :: "string \<Rightarrow> nat \<Rightarrow> (string \<times> nat) option" where
  "match_call src i =
    (if word_boundary src i \<and> i < length src \<and> lower_start (src ! i) then
       (let name = run_at word_char src i; j = skip_spaces src (i + length name)
        in if j < length src \<and> src ! j = CHR ''('' then Some (name, Suc j) else None)
     else None)"

text \<open>\<open>fnRe\<close>.\<close>

definition match_fn :: "string \<Rightarrow> nat \<Rightarrow> (string \<times> nat) option" where
  "match_fn src i =
    (if word_boundary src i \<and> has_prefix (drop i src) ''fn'' then
       (let k = skip_spaces src (i + 2)
        in if k = i + 2 \<or> length src \<le> k \<or> \<not> lower_start (src ! k) then None
           else let name = run_at word_char src k; j = skip_spaces src (k + length name)
             in if j < length src \<and> src ! j \<in> {CHR ''('', CHR ''<''} then Some (name, Suc j) else None)
     else None)"

text \<open>\<open>responseRe\<close> and \<open>methodVariantAt\<close>: a variant behind a path.\<close>

definition match_variant :: "string \<Rightarrow> string \<Rightarrow> nat \<Rightarrow> (string \<times> nat) option" where
  "match_variant path src i =
    (if word_boundary src i \<and> has_prefix (drop i src) path then
       (let k = i + length path; name = run_at alnum_char src k
        in if k < length src \<and> in_range 65 90 (src ! k) then Some (name, k + length name) else None)
     else None)"

definition match_response :: "string \<Rightarrow> nat \<Rightarrow> (string \<times> nat) option" where
  "match_response = match_variant ''ResponseResult::''"

definition match_method :: "string \<Rightarrow> nat \<Rightarrow> (string \<times> nat) option" where
  "match_method = match_variant ''Method::''"

text \<open>\<open>nameRe\<close> of \<open>dispatchPoints\<close>.\<close>

definition match_name :: "string \<Rightarrow> string \<Rightarrow> nat \<Rightarrow> (unit \<times> nat) option" where
  "match_name variant src i =
    (let pre = ''Method::'' @ variant
     in if word_boundary src i \<and> has_prefix (drop i src) pre then
          (let j = skip_spaces src (i + length pre)
           in if j < length src \<and> src ! j = CHR ''('' then Some ((), Suc j) else None)
        else None)"

text \<open>\<open>methodEnumRe\<close>.\<close>

definition match_enum :: "string \<Rightarrow> nat \<Rightarrow> (unit \<times> nat) option" where
  "match_enum src i =
    (let pre = ''pub enum Method''
     in if (i = 0 \<or> src ! (i - 1) = CHR 0x0A) \<and> has_prefix (drop i src) pre then
          (let j = skip_spaces src (i + length pre)
           in if j < length src \<and> src ! j = CHR ''{'' then Some ((), Suc j) else None)
        else None)"

text \<open>\<open>(?://[^\n]*\n\s*)*\<close> of \<open>methodVariantRe\<close>, after the spaces before it.\<close>

function skip_line_comments :: "string \<Rightarrow> nat \<Rightarrow> nat" where
  "skip_line_comments src i =
    (if has_prefix (drop i src) ''//'' then (case index_byte (CHR 0x0A) (drop i src) of
        None \<Rightarrow> i | Some e \<Rightarrow> skip_line_comments src (skip_spaces src (Suc (i + e))))
     else i)"
  by pat_completeness auto
termination
  by (relation "measure (\<lambda>(src, i). length src - i)")
    (auto simp: skip_spaces_def dest!: index_byte_Some prefix_fits)

declare skip_line_comments.simps [simp del]

definition match_renamed :: "string \<Rightarrow> nat \<Rightarrow> ((string \<times> string) \<times> nat) option" where
  "match_renamed src i =
    (if \<not> has_prefix (drop i src) ''#[serde(rename'' then None
     else let a = skip_spaces src (i + length ''#[serde(rename'')
       in if \<not> has_prefix (drop a src) ''='' then None
       else let b = skip_spaces src (Suc a)
         in if \<not> has_prefix (drop b src) [CHR 0x22] then None
         else let method = run_at (\<lambda>c. c \<noteq> CHR 0x22) src (Suc b); e = Suc b + length method
           in if method = [] \<or> \<not> has_prefix (drop e src) (CHR 0x22 # '')]'') then None
           else let k = skip_line_comments src (skip_spaces src (e + 3)); variant = run_at alnum_char src k;
                  j = skip_spaces src (k + length variant)
             in if k < length src \<and> in_range 65 90 (src ! k) \<and> j < length src \<and> src ! j = CHR ''(''
                then Some ((method, variant), Suc j) else None)"

subsection \<open>Methods and functions\<close>

record method_variant =
  mv_variant :: string
  mv_method :: string

datatype source_error =
    NotClosed string
  | NoRenamed string
  | NoMethodEnum

fun rust_method_names :: "source_file list \<Rightarrow> (source_error, method_variant list) result" where
  "rust_method_names [] = err NoMethodEnum"
| "rust_method_names (f # fs) = (case find_all match_enum (sf_text f) 0 of
     [] \<Rightarrow> rust_method_names fs
   | (i, x, e) # _ \<Rightarrow> (case block_at (sf_text f) (e - 1) of
       None \<Rightarrow> err (NotClosed (sf_path f))
     | Some (body, _) \<Rightarrow>
         (let variants = map (\<lambda>(i, (method, variant), e). \<lparr>mv_variant = variant, mv_method = method\<rparr>)
            (find_all match_renamed body 0)
          in if variants = [] then err (NoRenamed (sf_path f)) else ok variants)))"

record rust_function =
  rf_name :: string
  rf_body :: string
  rf_at :: location

text \<open>\<open>functions\<close>; the index by name is the list of all of them, and a lookup the ones of the name in order.\<close>

definition functions_of :: "source_file \<Rightarrow> rust_function list" where
  "functions_of f = (let text = production f in List.map_filter (\<lambda>(i, name, e).
     case index_byte (CHR ''{'') (drop (e - 1) text) of
       None \<Rightarrow> None
     | Some open' \<Rightarrow> map_option (\<lambda>(body, _). \<lparr>rf_name = name, rf_body = body,
         rf_at = \<lparr>lo_file = sf_path f, lo_line = line_at text i\<rparr>\<rparr>) (block_at text (e - 1 + open')))
     (find_all match_fn text 0))"

definition rust_functions :: "source_file list \<Rightarrow> rust_function list" where
  "rust_functions files = concat (map functions_of files)"

definition functions_named :: "rust_function list \<Rightarrow> string \<Rightarrow> rust_function list" where
  "functions_named index name = filter (\<lambda>f. rf_name f = name) index"

fun distinct_names :: "string list \<Rightarrow> string list \<Rightarrow> string list" where
  "distinct_names skip [] = []"
| "distinct_names skip (n # ns) = (if n \<in> set skip then distinct_names skip ns else n # distinct_names (n # skip) ns)"

definition not_calls :: "string list" where
  "not_calls = [''encode_success'', ''encode_error'', ''error_response_json'', ''to_string'', ''unwrap_or_else'',
     ''matches'', ''format'', ''if'', ''match'', ''return'', ''while'', ''for'']"

definition called_functions :: "string \<Rightarrow> string list" where
  "called_functions body = distinct_names not_calls (map (\<lambda>(i, name, e). name) (find_all match_call body 0))"

lemma distinct_names_set: "set (distinct_names skip ns) = set ns - set skip"
  by (induction skip ns rule: distinct_names.induct) auto

lemma distinct_names_distinct: "distinct (distinct_names skip ns)"
  by (induction skip ns rule: distinct_names.induct) (auto simp: distinct_names_set)

end
