(* ===== verification/Rust_Search.thy ===== *)
theory Rust_Search
  imports Rust_Source
begin

text \<open>
  The search of \<open>internal/cmd/herdrsource/rust.go\<close> for the results a method can answer with: the bodies that decide
  it, and the calls from them, layer by layer, up to the first layer that encodes a result. The specification is the
  relation \<open>calls_within\<close>; the loop is shown to find exactly the results of the nearest layer.
\<close>

subsection \<open>The bodies of a dispatch\<close>

definition arm_space :: "char \<Rightarrow> bool" where
  "arm_space c \<longleftrightarrow> c \<in> {CHR '' '', CHR 0x0A, CHR 0x09, CHR 0x0D}"

definition arm_body :: "string \<Rightarrow> nat \<Rightarrow> string option" where
  "arm_body src open' = (case group_at src open' of
     None \<Rightarrow> None
   | Some (_, end') \<Rightarrow> (let rest = drop end' src in case index_str ''=>'' rest of
       None \<Rightarrow> None
     | Some arrow \<Rightarrow>
         if contains_any (trim_space (take arrow rest)) '';{}'' then None
         else let start = end' + arrow + 2 + length (run_at arm_space src (end' + arrow + 2))
           in if length src \<le> start then None
              else if src ! start = CHR ''{'' then map_option fst (block_at src start)
              else until_arm_comma src start))"

text \<open>\<open>strings.LastIndex\<close>.\<close>

definition last_index :: "string \<Rightarrow> string \<Rightarrow> nat option" where
  "last_index sub s = map_option (\<lambda>k. length s - k - length sub) (index_str (rev sub) (rev s))"

definition guarded_block :: "string \<Rightarrow> nat \<Rightarrow> string option" where
  "guarded_block src index = (case last_index ''matches!'' (take index src) of
     None \<Rightarrow> None
   | Some start \<Rightarrow>
       if index_str [CHR 0x0A, CHR 0x0A] (sub_str src start index) \<noteq> None then None
       else (case index_byte (CHR ''('') (drop start src) of
         None \<Rightarrow> None
       | Some open' \<Rightarrow> (case group_at src (start + open') of
           None \<Rightarrow> None
         | Some (_, end') \<Rightarrow> (let rest = drop end' src in case index_byte (CHR ''{'') rest of
             None \<Rightarrow> None
           | Some brace \<Rightarrow>
               if contains_any (trim_space (take brace rest)) '';='' then None
               else map_option fst (block_at src (end' + brace))))))"

definition bound_block :: "string \<Rightarrow> nat \<Rightarrow> string option" where
  "bound_block src open' = (case group_at src open' of
     None \<Rightarrow> None
   | Some (_, end') \<Rightarrow> (let rest = drop end' src in case index_byte (CHR ''='') rest of
       None \<Rightarrow> None
     | Some eq' \<Rightarrow>
         if has_prefix (drop eq' rest) ''=>'' \<or> contains_any (trim_space (take eq' rest)) '';{}'' then None
         else (case index_byte (CHR ''{'') (drop eq' rest) of
           None \<Rightarrow> None
         | Some brace \<Rightarrow>
             if contains_any (trim_space (sub_str rest (Suc eq') (eq' + brace))) '';}'' then None
             else map_option fst (block_at src (end' + eq' + brace)))))"

definition dispatch_body :: "string \<Rightarrow> nat \<Rightarrow> nat \<Rightarrow> string option" where
  "dispatch_body text i e = (case arm_body text (e - 1) of
     Some body \<Rightarrow> Some body
   | None \<Rightarrow> (case guarded_block text i of Some body \<Rightarrow> Some body | None \<Rightarrow> bound_block text (e - 1)))"

definition dispatch_points :: "string \<Rightarrow> source_file list \<Rightarrow> rust_function list" where
  "dispatch_points variant files = concat (map (\<lambda>f. let text = production f in
     List.map_filter (\<lambda>(i, x, e). map_option (\<lambda>body. \<lparr>rf_name = [], rf_body = body,
       rf_at = \<lparr>lo_file = sf_path f, lo_line = line_at text i\<rparr>\<rparr>) (dispatch_body text i e))
     (find_all (match_name variant) text 0)) files)"

subsection \<open>The search\<close>

record rust_finding =
  fi_variant :: string
  fi_at :: location
  fi_through :: string

datatype scan_reason = NoDispatch | NoResult

record rust_scan =
  sc_findings :: "rust_finding list"
  sc_why :: "scan_reason option"

definition scan_depth :: nat where
  "scan_depth = 4"

definition responses_in :: "string \<Rightarrow> string list" where
  "responses_in body = map (\<lambda>(i, variant, e). variant) (find_all match_response body 0)"

definition hits_in :: "nat \<Rightarrow> rust_function \<Rightarrow> rust_finding list" where
  "hits_in depth f = map (\<lambda>variant. \<lparr>fi_variant = variant, fi_at = rf_at f,
     fi_through = (if 0 < depth then rf_name f else [])\<rparr>) (responses_in (rf_body f))"

text \<open>The calls of one function, and all functions of a layer; the names visited are threaded through.\<close>

fun visit_calls :: "rust_function list \<Rightarrow> string list \<Rightarrow> string list \<Rightarrow> rust_function list \<times> string list" where
  "visit_calls index [] visited = ([], visited)"
| "visit_calls index (call # calls) visited =
    (if call \<in> set visited then visit_calls index calls visited
     else let (next', visited) = visit_calls index calls (call # visited)
       in (functions_named index call @ next', visited))"

fun scan_layer :: "rust_function list \<Rightarrow> nat \<Rightarrow> rust_function list \<Rightarrow> string list \<Rightarrow>
    rust_finding list \<times> rust_function list \<times> string list" where
  "scan_layer index depth [] visited = ([], [], visited)"
| "scan_layer index depth (f # fs) visited =
    (let (next1, visited) = visit_calls index (called_functions (rf_body f)) visited;
         (hits, next2, visited) = scan_layer index depth fs visited
     in (hits_in depth f @ hits, next1 @ next2, visited))"

function search_layers :: "rust_function list \<Rightarrow> nat \<Rightarrow> rust_function list \<Rightarrow> string list \<Rightarrow> rust_finding list" where
  "search_layers index depth frontier visited =
    (if depth < scan_depth \<and> frontier \<noteq> [] then
       (case scan_layer index depth frontier visited of (hits, next', visited) \<Rightarrow>
          if hits \<noteq> [] then hits else search_layers index (Suc depth) next' visited)
     else [])"
  by pat_completeness auto
termination
  by (relation "measure (\<lambda>(index, depth, frontier, visited). scan_depth - depth)") auto

declare search_layers.simps [simp del]

text \<open>\<open>add\<close>: a finding is kept once for its variant and place.\<close>

definition finding_key :: "rust_finding \<Rightarrow> string" where
  "finding_key f = fi_variant f @ ''@'' @ location_text (fi_at f)"

definition add_finding :: "rust_finding list \<Rightarrow> rust_finding \<Rightarrow> rust_finding list" where
  "add_finding found f = (if finding_key f \<in> finding_key ` set found then found else found @ [f])"

definition results_for :: "string \<Rightarrow> source_file list \<Rightarrow> rust_function list \<Rightarrow> rust_scan" where
  "results_for variant files index =
    (let points = dispatch_points variant files
     in if points = [] then \<lparr>sc_findings = [], sc_why = Some NoDispatch\<rparr>
        else let found = foldl add_finding [] (concat (map (\<lambda>entry. search_layers index 0 [entry] []) points))
          in if found = [] then \<lparr>sc_findings = [], sc_why = Some NoResult\<rparr>
             else \<lparr>sc_findings = sort_key (\<lambda>f. [fi_variant f, location_text (fi_at f)]) found, sc_why = None\<rparr>)"

text \<open>\<open>snakeCase\<close>; ranging over a string decodes its runes, so an invalid byte becomes the replacement character.\<close>

fun snake_loop :: "bool \<Rightarrow> string \<Rightarrow> string" where
  "snake_loop first [] = []"
| "snake_loop first (c # cs) =
    (if in_range 65 90 c then (if first then [] else [CHR ''_'']) @ [lower_char c] else [c]) @ snake_loop False cs"

definition snake_case :: "string \<Rightarrow> string" where
  "snake_case variant = snake_loop True (coerce_utf8 variant)"

definition location_evidence :: "rust_finding \<Rightarrow> string" where
  "location_evidence f = location_text (fi_at f) @ (if fi_through f \<noteq> [] then '' ('' @ fi_through f @ '')'' else [])"

text \<open>\<open>results\<close> and \<open>evidence\<close>: the first finding of each declared result type.\<close>

fun kept_findings :: "string list \<Rightarrow> string list \<Rightarrow> rust_finding list \<Rightarrow> rust_finding list" where
  "kept_findings declared seen [] = []"
| "kept_findings declared seen (f # fs) = (let typ = snake_case (fi_variant f) in
    if typ \<notin> set declared \<or> typ \<in> set seen then kept_findings declared seen fs
    else f # kept_findings declared (typ # seen) fs)"

definition scan_results :: "rust_scan \<Rightarrow> string list \<Rightarrow> string list" where
  "scan_results s declared = map (\<lambda>f. snake_case (fi_variant f)) (kept_findings declared [] (sc_findings s))"

definition scan_evidence :: "rust_scan \<Rightarrow> string list \<Rightarrow> string list" where
  "scan_evidence s declared = map location_evidence (kept_findings declared [] (sc_findings s))"

subsection \<open>Layers\<close>

inductive calls_within :: "rust_function list \<Rightarrow> rust_function \<Rightarrow> nat \<Rightarrow> rust_function \<Rightarrow> bool"
  for index entry where
  entry: "calls_within index entry 0 entry"
| call: "calls_within index entry n f \<Longrightarrow> c \<in> set (called_functions (rf_body f)) \<Longrightarrow>
    g \<in> set (functions_named index c) \<Longrightarrow> calls_within index entry (Suc n) g"

inductive_cases calls_within_SucE: "calls_within index entry (Suc n) g"
inductive_cases calls_within_0E: "calls_within index entry 0 g"

lemma visit_calls_exact:
  "visit_calls index calls visited = (next', visited') \<Longrightarrow>
    set visited' = set visited \<union> set calls \<and>
    set next' = (\<Union>c \<in> set calls - set visited. set (functions_named index c))"
proof (induction index calls visited arbitrary: next' visited' rule: visit_calls.induct)
  case (2 index call calls visited)
  show ?case
  proof (cases "call \<in> set visited")
    case True
    with 2(1) [OF True] 2(3) show ?thesis by auto
  next
    case False
    obtain n v where v: "visit_calls index calls (call # visited) = (n, v)" by fastforce
    from 2(2) [OF False v] 2(3) v False show ?thesis by auto
  qed
qed simp

lemma UN_diff_split: "(\<Union>c \<in> A - V. F c) \<union> (\<Union>c \<in> B - (V \<union> A). F c) = (\<Union>c \<in> A \<union> B - V. F c)"
  by blast

lemma scan_layer_exact:
  "scan_layer index depth frontier visited = (hits, next', visited') \<Longrightarrow>
    hits = concat (map (hits_in depth) frontier) \<and>
    set visited' = set visited \<union> (\<Union>f \<in> set frontier. set (called_functions (rf_body f))) \<and>
    set next' = (\<Union>c \<in> (\<Union>f \<in> set frontier. set (called_functions (rf_body f))) - set visited. set (functions_named index c))"
proof (induction index depth frontier visited arbitrary: hits next' visited' rule: scan_layer.induct)
  case (2 index depth f fs visited)
  obtain n1 v1 where v1: "visit_calls index (called_functions (rf_body f)) visited = (n1, v1)" by fastforce
  obtain h2 n2 v2 where v2: "scan_layer index depth fs v1 = (h2, n2, v2)" by (cases "scan_layer index depth fs v1") auto
  from 2(2) v1 v2 have r: "hits = hits_in depth f @ h2" "next' = n1 @ n2" "visited' = v2" by simp_all
  from 2(1) [OF v1 [symmetric] refl v2] visit_calls_exact [OF v1]
  show ?case by (simp add: r UN_diff_split Un_assoc)
qed simp

lemma hits_in_some: "x \<in> set (hits_in n f) \<Longrightarrow> responses_in (rf_body f) \<noteq> []"
  by (auto simp: hits_in_def)

text \<open>
  The answers nearest to an entry: what a function within fewer than four calls encodes, when none that is fewer calls
  away encodes anything.
\<close>

definition nearest_answer :: "rust_function list \<Rightarrow> rust_function \<Rightarrow> rust_finding \<Rightarrow> bool" where
  "nearest_answer index entry x \<longleftrightarrow> (\<exists>n f. n < scan_depth \<and> calls_within index entry n f \<and> x \<in> set (hits_in n f) \<and>
     (\<forall>m g. m < n \<longrightarrow> calls_within index entry m g \<longrightarrow> responses_in (rf_body g) = []))"

text \<open>
  Before layer \<open>d\<close>: \<open>done'\<close> are the functions of the earlier layers, none of which answers, and what they call was visited.
\<close>

definition layer_inv :: "rust_function list \<Rightarrow> rust_function \<Rightarrow> nat \<Rightarrow> rust_function set \<Rightarrow> rust_function set \<Rightarrow> string set \<Rightarrow> bool" where
  "layer_inv index entry d done' frontier visited \<longleftrightarrow>
    (\<forall>f \<in> frontier. calls_within index entry d f) \<and>
    (\<forall>m f. m \<le> d \<longrightarrow> calls_within index entry m f \<longrightarrow> f \<in> done' \<union> frontier) \<and>
    (\<forall>m f. m < d \<longrightarrow> calls_within index entry m f \<longrightarrow> f \<in> done') \<and>
    (\<forall>f \<in> done'. responses_in (rf_body f) = [] \<and> set (called_functions (rf_body f)) \<subseteq> visited) \<and>
    (\<forall>c \<in> visited. set (functions_named index c) \<subseteq> done' \<union> frontier)"

lemma layer_inv_start: "layer_inv index entry 0 {} {entry} {}"
  by (auto simp: layer_inv_def intro: calls_within.entry elim: calls_within_0E)

lemma layer_inv_step:
  assumes inv: "layer_inv index entry d done' frontier visited"
    and none: "\<forall>f \<in> frontier. responses_in (rf_body f) = []"
    and visited': "visited' = visited \<union> (\<Union>f \<in> frontier. set (called_functions (rf_body f)))"
    and next': "next' = (\<Union>c \<in> (\<Union>f \<in> frontier. set (called_functions (rf_body f))) - visited. set (functions_named index c))"
  shows "layer_inv index entry (Suc d) (done' \<union> frontier) next' visited'"
proof -
  have reached: "f \<in> done' \<union> frontier" if "calls_within index entry m f" "m \<le> d" for m f
    using inv that unfolding layer_inv_def by blast
  have closed: "set (functions_named index c) \<subseteq> (done' \<union> frontier) \<union> next'" if "c \<in> visited'" for c
    using inv that unfolding layer_inv_def visited' next' by blast
  have calls: "set (called_functions (rf_body f)) \<subseteq> visited'" if "f \<in> done' \<union> frontier" for f
    using inv that unfolding layer_inv_def visited' by blast
  have within: "f \<in> (done' \<union> frontier) \<union> next'" if "calls_within index entry m f" "m \<le> Suc d" for m f
  proof (cases "m \<le> d")
    case False
    with that have "calls_within index entry (Suc d) f" by (simp add: le_Suc_eq)
    then obtain g c where "calls_within index entry d g" "c \<in> set (called_functions (rf_body g))"
      "f \<in> set (functions_named index c)" by (rule calls_within_SucE)
    with reached [of d g] calls closed show ?thesis by blast
  qed (use reached that in blast)
  have exact: "calls_within index entry (Suc d) f" if "f \<in> next'" for f
    using that inv unfolding next' layer_inv_def by (blast intro: calls_within.call)
  have silent: "responses_in (rf_body f) = []" if "f \<in> done' \<union> frontier" for f
    using that none inv unfolding layer_inv_def by blast
  show ?thesis
    unfolding layer_inv_def using within exact silent calls closed reached by (auto simp: less_Suc_eq_le)
qed

text \<open>The first layer that answers has the nearest answers.\<close>

lemma layer_answers:
  assumes inv: "layer_inv index entry d done' (set frontier) visited" and "d < scan_depth"
    and "concat (map (hits_in d) frontier) \<noteq> []"
  shows "set (concat (map (hits_in d) frontier)) = {x. nearest_answer index entry x}"
proof -
  have "x \<in> set (concat (map (hits_in d) frontier)) \<longleftrightarrow> nearest_answer index entry x" for x
  proof
    assume "x \<in> set (concat (map (hits_in d) frontier))"
    then obtain f where "f \<in> set frontier" "x \<in> set (hits_in d f)" by auto
    with inv assms(2) show "nearest_answer index entry x"
      unfolding nearest_answer_def layer_inv_def by (intro exI [of _ d] exI [of _ f]) blast
  next
    assume "nearest_answer index entry x"
    then obtain n f where n: "calls_within index entry n f" "x \<in> set (hits_in n f)"
      "\<forall>m g. m < n \<longrightarrow> calls_within index entry m g \<longrightarrow> responses_in (rf_body g) = []"
      by (auto simp: nearest_answer_def)
    from n(2) have some: "responses_in (rf_body f) \<noteq> []" by (auto simp: hits_in_def)
    from assms(3) obtain g where g: "g \<in> set frontier" "hits_in d g \<noteq> []" by auto
    with inv have "calls_within index entry d g" "responses_in (rf_body g) \<noteq> []"
      by (auto simp: layer_inv_def hits_in_def)
    with n(3) have "n \<le> d" by (meson not_le)
    moreover from some n(1) inv have "\<not> n < d" unfolding layer_inv_def by blast
    ultimately have "n = d" by simp
    with some n(1) inv have "f \<in> set frontier" unfolding layer_inv_def by blast
    with n(2) \<open>n = d\<close> show "x \<in> set (concat (map (hits_in d) frontier))" by auto
  qed
  then show ?thesis by blast
qed

text \<open>When no layer is left, no function that can be reached answers.\<close>

lemma layers_exhausted:
  assumes inv: "layer_inv index entry d done' {} visited" and "calls_within index entry k g"
  shows "responses_in (rf_body g) = []"
proof -
  have silent: "\<forall>g \<in> done'. responses_in (rf_body g) = [] \<and> set (called_functions (rf_body g)) \<subseteq> visited"
    and closed: "\<forall>c \<in> visited. set (functions_named index c) \<subseteq> done'"
    and start: "\<forall>m g. m \<le> d \<longrightarrow> calls_within index entry m g \<longrightarrow> g \<in> done'"
    using inv by (simp_all add: layer_inv_def)
  from assms(2) have "g \<in> done'"
  proof (induction)
    case entry
    show ?case using start calls_within.entry by blast
  next
    case (call k f c g)
    from call.IH call.hyps(2) silent have "c \<in> visited" by blast
    with closed call.hyps(3) show ?case by blast
  qed
  with silent show ?thesis by blast
qed

lemma search_layers_exact:
  "layer_inv index entry d done' (set frontier) (set visited) \<Longrightarrow>
    set (search_layers index d frontier visited) = {x. nearest_answer index entry x}"
proof (induction index d frontier visited arbitrary: done' rule: search_layers.induct)
  case (1 index d frontier visited)
  note inv = 1(2)
  show ?case
  proof (cases "d < scan_depth \<and> frontier \<noteq> []")
    case True
    obtain hits next' visited' where layer: "scan_layer index d frontier visited = (hits, next', visited')"
      by (cases "scan_layer index d frontier visited") auto
    note exact = scan_layer_exact [OF layer]
    show ?thesis
    proof (cases "hits = []")
      case none: True
      with exact have "\<forall>f \<in> set frontier. responses_in (rf_body f) = []" by (auto simp: hits_in_def)
      from layer_inv_step [OF inv this] exact
      have "layer_inv index entry (Suc d) (done' \<union> set frontier) (set next') (set visited')" by simp
      with 1(1) [OF True layer [symmetric] refl _ this] none True layer show ?thesis
        by (simp add: search_layers.simps [of index d])
    next
      case False
      with False True layer exact layer_answers [OF inv] show ?thesis by (simp add: search_layers.simps [of index d])
    qed
  next
    case False
    have "\<not> nearest_answer index entry x" for x
    proof
      assume "nearest_answer index entry x"
      then obtain n f where n: "n < scan_depth" "calls_within index entry n f" "responses_in (rf_body f) \<noteq> []"
        by (auto simp: nearest_answer_def dest: hits_in_some)
      show False
      proof (cases "n < d")
        case True
        with n inv show False unfolding layer_inv_def by blast
      next
        case later: False
        with False n(1) have empty: "frontier = []" by simp
        with inv n show False using layers_exhausted [of index entry d done'] by simp
      qed
    qed
    moreover have "search_layers index d frontier visited = []" using False by (simp add: search_layers.simps)
    ultimately show ?thesis by simp
  qed
qed

lemma add_findings:
  "distinct (map finding_key found) \<Longrightarrow>
    distinct (map finding_key (foldl add_finding found xs)) \<and>
    finding_key ` set (foldl add_finding found xs) = finding_key ` (set found \<union> set xs) \<and>
    set (foldl add_finding found xs) \<subseteq> set found \<union> set xs"
proof (induction xs arbitrary: found)
  case (Cons x xs)
  have d: "distinct (map finding_key (add_finding found x))" using Cons.prems by (auto simp: add_finding_def)
  have k: "finding_key ` set (add_finding found x) = finding_key ` insert x (set found)"
    "set (add_finding found x) \<subseteq> insert x (set found)" by (auto simp: add_finding_def)
  from Cons.IH [OF d] k show ?case by (auto simp: image_Un)
qed simp

definition answers :: "string \<Rightarrow> source_file list \<Rightarrow> rust_function list \<Rightarrow> rust_finding set" where
  "answers variant files index = (\<Union>entry \<in> set (dispatch_points variant files). {x. nearest_answer index entry x})"

lemma found_answers:
  "set (concat (map (\<lambda>entry. search_layers index 0 [entry] []) (dispatch_points variant files))) = answers variant files index"
proof -
  have "set (search_layers index 0 [entry] []) = {x. nearest_answer index entry x}" for entry
    by (rule search_layers_exact [where done' = "{}"]) (simp add: layer_inv_start)
  then show ?thesis by (simp add: answers_def)
qed


end
