(* ===== verification/Source_Check.thy ===== *)
theory Source_Check
  imports Rust_Search "HOL-Library.AList" "HOL-Library.Sublist"
begin

text \<open>
  The command of \<open>internal/cmd/herdrsource\<close>: the second reading out of herdr's tests (\<open>pairs.go\<close>), the schema and
  the table of results, the textual insertion of an entry, the run that settles every method and its report
  (\<open>main.go\<close>). Reading and writing the files, and the verb \<open>%q\<close>, are arguments; flags and exit codes are left out.
\<close>

subsection \<open>Errors and documents\<close>

datatype run_error = RunMessage string | RunWrap string run_error | RunJson | RunSource source_error | RunIo string

text \<open>
  A struct of one field decodes as the field does; a map decodes entry by entry into an association list.
\<close>

definition nested :: "string \<Rightarrow> 'a codec \<Rightarrow> 'a codec" where
  "nested name c = \<lparr>cod_zero = cod_zero c, cod_enc = (\<lambda>x. JObj [(name, cod_enc c x)]),
     cod_dec = decode_struct [plain_field name c (\<lambda>x. x) (\<lambda>x old. x)], cod_ok = cod_ok c\<rparr>"

fun decode_alist :: "'a codec \<Rightarrow> (string \<times> json) list \<Rightarrow> (string \<times> 'a) list \<Rightarrow> (string \<times> 'a) list option" where
  "decode_alist c [] m = Some m"
| "decode_alist c ((k, j) # kvs) m = (case cod_dec c j (cod_zero c) of
     None \<Rightarrow> None | Some x \<Rightarrow> decode_alist c kvs (AList.update k x m))"

definition alist_codec :: "'a codec \<Rightarrow> (string \<times> 'a) list codec" where
  "alist_codec c = \<lparr>cod_zero = [], cod_enc = (\<lambda>m. JObj (map (\<lambda>(k, x). (k, cod_enc c x)) m)),
     cod_dec = (\<lambda>j old. case j of JObj kvs \<Rightarrow> decode_alist c kvs old | JNull \<Rightarrow> Some [] | _ \<Rightarrow> None),
     cod_ok = (\<lambda>m. True)\<rparr>"

record source_schema =
  ss_methods :: "string slice"
  ss_types :: "string slice"

definition const_of_property :: "string \<Rightarrow> string codec" where
  "const_of_property name = nested ''properties'' (nested name (nested ''const'' string_codec))"

definition source_schema_fields :: "source_schema field list" where
  "source_schema_fields =
    [plain_field ''request'' (nested ''oneOf'' (slice_codec (const_of_property ''method'')))
       ss_methods (\<lambda>x r. r\<lparr>ss_methods := x\<rparr>),
     plain_field ''success_response''
       (nested ''$defs'' (nested ''ResponseResult'' (nested ''oneOf'' (slice_codec (const_of_property ''type'')))))
       ss_types (\<lambda>x r. r\<lparr>ss_types := x\<rparr>)]"

definition source_schema_codec :: "source_schema codec" where
  "source_schema_codec = nested ''schemas'' (struct_codec \<lparr>ss_methods = None, ss_types = None\<rparr> source_schema_fields)"

text \<open>\<open>readSchema\<close> and \<open>readTable\<close> of what the file holds; the sets are lists without repetition.\<close>

definition read_schema :: "string \<Rightarrow> string \<Rightarrow> (run_error, string list \<times> string list) result" where
  "read_schema path raw = (case Option.bind (parse_json raw) (\<lambda>j. cod_dec source_schema_codec j (cod_zero source_schema_codec)) of
     None \<Rightarrow> err (RunWrap path RunJson)
   | Some doc \<Rightarrow>
       (let methods = remdups (filter (\<lambda>m. m \<noteq> []) (elems (ss_methods doc)));
            types = remdups (filter (\<lambda>t. t \<noteq> []) (elems (ss_types doc)))
        in if methods = [] \<or> types = [] then err (RunMessage (path @ '': no methods or no result types''))
           else ok (methods, types)))"

record table_entry =
  te_result :: string
  te_results :: "string slice"
  te_stream :: string

definition entry_zero :: table_entry where
  "entry_zero = \<lparr>te_result = [], te_results = None, te_stream = []\<rparr>"

definition any_result :: table_entry where
  "any_result = entry_zero\<lparr>te_results := Some [''*'']\<rparr>"

definition entry_fields :: "table_entry field list" where
  "entry_fields =
    [plain_field ''result'' string_codec te_result (\<lambda>x r. r\<lparr>te_result := x\<rparr>),
     plain_field ''results'' (slice_codec string_codec) te_results (\<lambda>x r. r\<lparr>te_results := x\<rparr>),
     plain_field ''stream'' string_codec te_stream (\<lambda>x r. r\<lparr>te_stream := x\<rparr>)]"

definition read_table :: "string \<Rightarrow> string \<Rightarrow> (run_error, (string \<times> table_entry) list \<times> string) result" where
  "read_table path raw = (let c = nested ''methods'' (alist_codec (struct_codec entry_zero entry_fields))
     in case Option.bind (parse_json raw) (\<lambda>j. cod_dec c j []) of
       None \<Rightarrow> err (RunWrap path RunJson)
     | Some methods \<Rightarrow>
         if methods = [] then err (RunMessage (path @ '': no methods'')) else ok (methods, raw))"

subsection \<open>Entries\<close>

definition allows :: "table_entry \<Rightarrow> string \<Rightarrow> bool" where
  "allows e typ =
    (if te_result e \<noteq> [] then typ = te_result e
     else if te_stream e \<noteq> [] then typ = te_stream e
     else list_ex (\<lambda>want. want = ''*'' \<or> want = typ) (elems (te_results e)))"

definition entry_text :: "table_entry \<Rightarrow> string" where
  "entry_text e =
    (if te_result e \<noteq> [] then te_result e
     else if te_stream e \<noteq> [] then ''stream:'' @ te_stream e
     else join_with ''|'' (elems (te_results e)))"

text \<open>\<open>json.MarshalIndent(e, "    ", "  ")\<close>; empty fields are omitted.\<close>

definition newline :: "nat \<Rightarrow> string" where
  "newline n = CHR 0x0A # replicate n CHR '' ''"

definition json_string :: "string \<Rightarrow> string" where
  "json_string s = print_string (coerce_utf8 s)"

definition marshal_entry :: "table_entry \<Rightarrow> string" where
  "marshal_entry e =
    (let fields =
         (if te_result e \<noteq> [] then [json_string ''result'' @ '': '' @ json_string (te_result e)] else []) @
         (if elems (te_results e) \<noteq> [] then [json_string ''results'' @ '': ['' @ newline 8 @
            join_with ('','' @ newline 8) (map json_string (elems (te_results e))) @ newline 6 @ '']''] else []) @
         (if te_stream e \<noteq> [] then [json_string ''stream'' @ '': '' @ json_string (te_stream e)] else [])
     in if fields = [] then ''{}''
        else ''{'' @ newline 6 @ join_with ('','' @ newline 6) fields @ newline 4 @ ''}'')"

text \<open>\<open>insertEntry\<close>.\<close>

definition insert_at :: "nat \<Rightarrow> string \<Rightarrow> string \<Rightarrow> string" where
  "insert_at k m text = take k text @ m @ drop k text"

definition insert_entry ::
  "(string \<Rightarrow> string) \<Rightarrow> string \<Rightarrow> string \<Rightarrow> string \<Rightarrow> table_entry \<Rightarrow> (run_error, string) result" where
  "insert_entry quote text after method e =
    (let block = ''    '' @ quote method @ '': '' @ marshal_entry e @ '','' @ newline 0
     in if after = [] then
          (let anchor = print_string ''methods'' @ '': {'' @ newline 0 in case index_str anchor text of
             None \<Rightarrow> err (RunMessage (''the table has no '' @ print_string ''methods'' @ '' object''))
           | Some at' \<Rightarrow> ok (insert_at (at' + length anchor) block text))
        else
          (let anchor = ''    '' @ quote after @ '': {'' in case index_str anchor text of
             None \<Rightarrow> err (RunMessage (''the table has no entry for '' @ quote after @ '' to insert '' @ quote method @ '' after''))
           | Some at' \<Rightarrow> (case block_at text (at' + length anchor - 1) of
               None \<Rightarrow> err (RunMessage (''the entry for '' @ quote after @ '' is not closed''))
             | Some (_, end') \<Rightarrow>
                 (let rest = drop end' text; trimmed = dropWhile (\<lambda>c. c \<in> {CHR '' '', CHR 0x09, CHR 0x0D, CHR 0x0A}) rest
                  in if has_prefix trimmed '','' then
                       (let cut = end' + the (index_str '','' rest) + 1;
                            cut = (case index_byte (CHR 0x0A) (drop cut text) of Some nl \<Rightarrow> cut + nl + 1 | None \<Rightarrow> cut)
                        in ok (insert_at cut block text))
                     else
                       (let block = (case cut_suffix block ('','' @ newline 0) of Some b \<Rightarrow> b | None \<Rightarrow> block) @ newline 0
                        in ok (insert_at end' ('','' @ newline 0 @ block) text))))))"

text \<open>An insertion keeps every byte of the table, in order.\<close>

lemma subseq_insert_at [simp]: "subseq text (insert_at k m text)"
proof -
  have "subseq (take k text @ drop k text) (take k text @ m @ drop k text)"
    by (intro list_emb_append_mono list_emb_append2) simp_all
  then show ?thesis by (simp add: insert_at_def)
qed

lemma insert_entry_keeps: "insert_entry quote text after method e = Inr text' \<Longrightarrow> subseq text text'"
  by (auto simp: insert_entry_def Let_def split: if_splits option.splits prod.splits)

subsection \<open>The second reading\<close>

record test_pair =
  tp_result :: string
  tp_at :: location

text \<open>\<open>testFnRe\<close>: the attributes after the test attribute, then the function.\<close>

function skip_attributes :: "string \<Rightarrow> nat \<Rightarrow> nat" where
  "skip_attributes src i =
    (if has_prefix (drop i src) ''#['' then (case index_byte (CHR '']'') (drop (i + 2) src) of
        None \<Rightarrow> i | Some e \<Rightarrow> skip_attributes src (skip_spaces src (i + 2 + e + 1)))
     else i)"
  by pat_completeness auto
termination
  by (relation "measure (\<lambda>(src, i). length src - i)")
    (auto simp: skip_spaces_def dest!: index_byte_Some prefix_fits)

declare skip_attributes.simps [simp del]

definition match_test_fn :: "string \<Rightarrow> nat \<Rightarrow> (string \<times> nat) option" where
  "match_test_fn src i =
    (if \<not> has_prefix (drop i src) ''#[test]'' then None
     else let f = skip_attributes src (skip_spaces src (i + 7)); k = skip_spaces src (f + 2)
       in if has_prefix (drop f src) ''fn'' \<and> f + 2 < k \<and> k < length src \<and> lower_start (src ! k)
          then (let name = run_at word_char src k in Some (name, k + length name)) else None)"

definition distinct_matches :: "(string \<Rightarrow> nat \<Rightarrow> (string \<times> nat) option) \<Rightarrow> string \<Rightarrow> string list" where
  "distinct_matches m body = distinct_names [] (map (\<lambda>(i, name, e). name) (find_all m body 0))"

definition pair_of_test :: "source_file \<Rightarrow> string \<Rightarrow> nat \<times> string \<times> nat \<Rightarrow> (string \<times> test_pair) option" where
  "pair_of_test file text m = (case m of (i, name, e) \<Rightarrow> (case index_byte (CHR ''{'') (drop e text) of
     None \<Rightarrow> None
   | Some open' \<Rightarrow> (case block_at text (e + open') of
       None \<Rightarrow> None
     | Some (body, _) \<Rightarrow> (case (distinct_matches match_method body, distinct_matches match_response body) of
         ([variant], [result]) \<Rightarrow> Some (variant, \<lparr>tp_result = snake_case result,
           tp_at = \<lparr>lo_file = sf_path file, lo_line = line_at text i\<rparr>\<rparr>)
       | _ \<Rightarrow> None))))"

text \<open>A pair that contradicts the one kept makes its variant ambiguous and is not kept.\<close>

fun add_pairs :: "(string \<times> test_pair) list \<Rightarrow> (string \<times> test_pair) list \<Rightarrow> string list \<Rightarrow> (string \<times> test_pair) list \<times> string list" where
  "add_pairs [] pairs ambiguous = (pairs, ambiguous)"
| "add_pairs ((variant, p) # rest) pairs ambiguous = (case map_of pairs variant of
     Some existing \<Rightarrow> if tp_result existing \<noteq> tp_result p then add_pairs rest pairs (variant # ambiguous)
       else add_pairs rest (AList.update variant p pairs) ambiguous
   | None \<Rightarrow> add_pairs rest (AList.update variant p pairs) ambiguous)"

definition test_pairs :: "source_file list \<Rightarrow> (string \<times> test_pair) list" where
  "test_pairs files =
    (let found = concat (map (\<lambda>file. let text = tests_view file
           in List.map_filter (pair_of_test file text) (find_all match_test_fn text 0)) files);
         (pairs, ambiguous) = add_pairs found [] []
     in filter (\<lambda>(variant, p). variant \<notin> set ambiguous) pairs)"

subsection \<open>The run\<close>

record added_method =
  am_method :: string
  am_written :: table_entry
  am_evidence :: "string list"
  am_why :: string
  am_choices :: "string list"

record table_conflict =
  tc_method :: string
  tc_table :: string
  tc_handlers :: "string list"
  tc_tests :: string
  tc_at :: "string list"

record run_result =
  rr_narrowed :: "added_method list"
  rr_widened :: "added_method list"
  rr_contradicts :: "table_conflict list"
  rr_partial :: "table_conflict list"
  rr_disputed :: "table_conflict list"
  rr_confirmed :: nat
  rr_unread :: "string list"
  rr_applied :: bool

definition no_result :: run_result where
  "no_result = \<lparr>rr_narrowed = [], rr_widened = [], rr_contradicts = [], rr_partial = [], rr_disputed = [],
     rr_confirmed = 0, rr_unread = [], rr_applied = False\<rparr>"

definition reason_text :: "scan_reason option \<Rightarrow> string" where
  "reason_text r = (case r of
     None \<Rightarrow> []
   | Some NoDispatch \<Rightarrow> ''its dispatch is not a shape this scan reads''
   | Some NoResult \<Rightarrow> ''no ResponseResult is reachable from its dispatch, which is what a deferred handler looks like: '' @
       ''the dispatch starts the work and a completion callback answers'')"

text \<open>A method the table lacks.\<close>

definition added_record :: "string \<Rightarrow> rust_scan \<Rightarrow> string list \<Rightarrow> string list \<Rightarrow> added_method" where
  "added_record method found types where' =
    (if length types = 1
     then \<lparr>am_method = method, am_written = entry_zero\<lparr>te_result := types ! 0\<rparr>, am_evidence = where', am_why = [], am_choices = []\<rparr>
     else \<lparr>am_method = method, am_written = any_result, am_evidence = where',
       am_why = (if length types > 1 then ''its dispatch can encode more than one result'' else reason_text (sc_why found)),
       am_choices = types\<rparr>)"

text \<open>A method the table has, with results the handlers reach.\<close>

definition compare_entry :: "string \<Rightarrow> table_entry \<Rightarrow> string list \<Rightarrow> string list \<Rightarrow> run_result \<Rightarrow> run_result" where
  "compare_entry method existing types where' res =
    (let accepted = length (filter (allows existing) types);
         c = \<lparr>tc_method = method, tc_table = entry_text existing, tc_handlers = types, tc_tests = [], tc_at = where'\<rparr>
     in if accepted = length types then res\<lparr>rr_confirmed := rr_confirmed res + 1\<rparr>
        else if accepted = 0 then res\<lparr>rr_contradicts := rr_contradicts res @ [c]\<rparr>
        else res\<lparr>rr_partial := rr_partial res @ [c]\<rparr>)"

definition dispute :: "(string \<times> test_pair) list \<Rightarrow> method_variant \<Rightarrow> string list \<Rightarrow> string list \<Rightarrow> run_result \<Rightarrow> run_result" where
  "dispute pairs v types where' res = (case map_of pairs (mv_variant v) of
     Some p \<Rightarrow> if types \<noteq> [] \<and> tp_result p \<notin> set types
       then res\<lparr>rr_disputed := rr_disputed res @ [\<lparr>tc_method = mv_method v, tc_table = [], tc_handlers = types,
         tc_tests = tp_result p, tc_at = where' @ [location_text (tp_at p)]\<rparr>]\<rparr>
       else res
   | None \<Rightarrow> res)"

text \<open>One turn of the loop over the variants: the result, the text of the table, its entries and the method before.\<close>

record run_state =
  rs_result :: run_result
  rs_text :: string
  rs_table :: "(string \<times> table_entry) list"
  rs_previous :: string

definition settle_variant ::
  "(string \<Rightarrow> string) \<Rightarrow> (string \<times> test_pair) list \<Rightarrow> rust_scan \<Rightarrow> string list \<Rightarrow> method_variant \<Rightarrow> run_state \<Rightarrow>
    (run_error, run_state) result" where
  "settle_variant quote pairs found declared v st =
    (let method = mv_method v; types = scan_results found declared; where' = scan_evidence found declared;
         settled = (case map_of (rs_table st) method of
             None \<Rightarrow>
               (let rec = added_record method found types where' in
                 case insert_entry quote (rs_text st) (rs_previous st) method (am_written rec) of
                   Inl e \<Rightarrow> err e
                 | Inr text' \<Rightarrow> ok (st\<lparr>rs_text := text', rs_table := (method, am_written rec) # rs_table st,
                     rs_result := (if te_result (am_written rec) \<noteq> []
                       then (rs_result st)\<lparr>rr_narrowed := rr_narrowed (rs_result st) @ [rec]\<rparr>
                       else (rs_result st)\<lparr>rr_widened := rr_widened (rs_result st) @ [rec]\<rparr>)\<rparr>))
           | Some existing \<Rightarrow> ok (st\<lparr>rs_result :=
               (if types = [] then (rs_result st)\<lparr>rr_unread := rr_unread (rs_result st) @ [method]\<rparr>
                else compare_entry method existing types where' (rs_result st))\<rparr>))
     in case settled of
         Inl e \<Rightarrow> err e
       | Inr st \<Rightarrow> ok (st\<lparr>rs_result := dispute pairs v types where' (rs_result st), rs_previous := method\<rparr>))"

fun settle_variants ::
  "(string \<Rightarrow> string) \<Rightarrow> (string \<times> test_pair) list \<Rightarrow> (string \<Rightarrow> rust_scan) \<Rightarrow> string list \<Rightarrow> string list \<Rightarrow>
    method_variant list \<Rightarrow> run_state \<Rightarrow> (run_error, run_state) result" where
  "settle_variants quote pairs look methods declared [] st = ok st"
| "settle_variants quote pairs look methods declared (v # vs) st =
    (if mv_method v \<notin> set methods then settle_variants quote pairs look methods declared vs st
     else case settle_variant quote pairs (look (mv_variant v)) declared v st of
       Inl e \<Rightarrow> err e | Inr st \<Rightarrow> settle_variants quote pairs look methods declared vs st)"

definition finish_run :: "bool \<Rightarrow> run_error option \<Rightarrow> run_state \<Rightarrow> (run_error, run_result \<times> string option) result" where
  "finish_run apply' write_err st =
    (if \<not> apply' then ok (rs_result st, None)
     else let res = (rs_result st)\<lparr>rr_applied := True\<rparr>
       in if rr_narrowed res = [] \<and> rr_widened res = [] then ok (res, None)
          else case write_err of Some e \<Rightarrow> err e | None \<Rightarrow> ok (res, Some (rs_text st)))"

text \<open>
  \<open>run\<close> on what the files hold; \<open>write_err\<close> is the error of the write, if it fails. The result comes with the text
  written, if any.
\<close>

definition source_run ::
  "(string \<Rightarrow> string) \<Rightarrow> (run_error, source_file list) result \<Rightarrow> string \<times> (run_error, string) result \<Rightarrow>
    string \<times> (run_error, string) result \<Rightarrow> bool \<Rightarrow> run_error option \<Rightarrow>
    (run_error, run_result \<times> string option) result" where
  "source_run quote read_files schema_file table_file apply' write_err =
    bind_res read_files (\<lambda>files.
    bind_res (case rust_method_names files of Inl e \<Rightarrow> err (RunSource e) | Inr vs \<Rightarrow> ok vs) (\<lambda>variants.
    bind_res (bind_res (snd schema_file) (read_schema (fst schema_file))) (\<lambda>(methods, declared).
    bind_res (bind_res (snd table_file) (read_table (fst table_file))) (\<lambda>(table, text').
      let missing = filter (\<lambda>m. m \<notin> set (map mv_method variants)) methods;
          obsolete = filter (\<lambda>m. m \<notin> set methods) (map fst table)
      in if missing \<noteq> []
         then err (RunMessage (''schema methods absent from the source Method enum: '' @ join_with '', '' (sort missing)))
         else if obsolete \<noteq> []
         then err (RunMessage (''method table entries absent from the schema: '' @ join_with '', '' (sort obsolete)))
         else
           (let index = rust_functions files
            in bind_res (settle_variants quote (test_pairs files) (\<lambda>variant. results_for variant files index) methods declared
                variants \<lparr>rs_result = no_result, rs_text = text', rs_table = table, rs_previous = []\<rparr>) (finish_run apply' write_err))))))"

definition needs_a_person :: "run_result \<Rightarrow> bool" where
  "needs_a_person r \<longleftrightarrow> rr_widened r \<noteq> [] \<or> rr_contradicts r \<noteq> []"

subsection \<open>What a run settles\<close>

definition settled_count :: "run_result \<Rightarrow> nat" where
  "settled_count r = length (rr_narrowed r) + length (rr_widened r) + length (rr_contradicts r) + length (rr_partial r) +
     rr_confirmed r + length (rr_unread r)"

lemma dispute_same:
  "settled_count (dispute pairs v types where' r) = settled_count r"
  "rr_narrowed (dispute pairs v types where' r) = rr_narrowed r" "rr_widened (dispute pairs v types where' r) = rr_widened r"
  by (auto simp: dispute_def settled_count_def split: option.splits)

lemma compare_counts: "settled_count (compare_entry method existing types where' r) = Suc (settled_count r)"
  by (auto simp: compare_entry_def settled_count_def Let_def)

lemma known_key: "map_of m k = Some x \<Longrightarrow> insert k (fst ` set m) = fst ` set m"
  by (force dest: map_of_SomeD)

lemma settle_variant_step:
  assumes "settle_variant quote pairs found declared v st = Inr st'"
  shows "settled_count (rs_result st') = Suc (settled_count (rs_result st)) \<and> subseq (rs_text st) (rs_text st') \<and>
    set (map fst (rs_table st')) = insert (mv_method v) (set (map fst (rs_table st)))"
  using assms
  by (auto simp: settle_variant_def Let_def dispute_same compare_counts known_key settled_count_def [of "run_result.rr_unread_update _ _"]
      settled_count_def [of "run_result.rr_narrowed_update _ _"] settled_count_def [of "run_result.rr_widened_update _ _"]
      settled_count_def [of "rs_result st"] dest: insert_entry_keeps split: option.splits sum.splits if_splits)

lemma settle_variants_all:
  "settle_variants quote pairs look methods declared vs st = Inr st' \<Longrightarrow>
    settled_count (rs_result st') = settled_count (rs_result st) + length (filter (\<lambda>v. mv_method v \<in> set methods) vs) \<and>
    subseq (rs_text st) (rs_text st') \<and>
    set (map fst (rs_table st')) = set (map fst (rs_table st)) \<union> (set (map mv_method vs) \<inter> set methods)"
proof (induction quote pairs look methods declared vs st rule: settle_variants.induct)
  case (2 quote pairs look methods declared v vs st)
  show ?case
  proof (cases "mv_method v \<in> set methods")
    case True
    with 2(3) obtain st1 where st1: "settle_variant quote pairs (look (mv_variant v)) declared v st = Inr st1"
      and rest: "settle_variants quote pairs look methods declared vs st1 = Inr st'" by (auto split: sum.splits)
    from True 2(2) [OF _ st1 rest] settle_variant_step [OF st1] show ?thesis by (auto intro: subseq_order.trans)
  next
    case False
    with 2 show ?thesis by simp
  qed
qed simp

lemma wrapped_ok_iff: "(case r of Inl e \<Rightarrow> Inl (f e) | Inr x \<Rightarrow> Inr x) = Inr y \<longleftrightarrow> r = Inr y"
  by (cases r) simp_all

text \<open>
  A run that ends settles each method of the schema that the enum declares once, under one heading of the report; the
  enum declares all of them; and what it writes is the old table with entries inserted.
\<close>

lemma run_settles_methods:
  assumes "source_run quote read_files schema_file table_file apply' write_err = Inr (res, out)"
  shows "\<exists>files variants methods declared table text'. read_files = Inr files \<and> rust_method_names files = Inr variants \<and>
    bind_res (snd schema_file) (read_schema (fst schema_file)) = Inr (methods, declared) \<and>
    bind_res (snd table_file) (read_table (fst table_file)) = Inr (table, text') \<and>
    set methods \<subseteq> mv_method ` set variants \<and> fst ` set table \<subseteq> set methods \<and>
    settled_count res = length (filter (\<lambda>v. mv_method v \<in> set methods) variants) \<and>
    (out = None \<or> (\<exists>t. out = Some t \<and> subseq text' t \<and> apply' \<and> rr_applied res))"
proof -
  from assms obtain files variants methods declared table text' st where
    facts: "read_files = Inr files" "rust_method_names files = Inr variants"
      "bind_res (snd schema_file) (read_schema (fst schema_file)) = Inr (methods, declared)"
      "bind_res (snd table_file) (read_table (fst table_file)) = Inr (table, text')"
      "filter (\<lambda>m. m \<notin> set (map mv_method variants)) methods = []" "filter (\<lambda>m. m \<notin> set methods) (map fst table) = []"
    and st: "settle_variants quote (test_pairs files) (\<lambda>variant. results_for variant files (rust_functions files)) methods
        declared variants \<lparr>rs_result = no_result, rs_text = text', rs_table = table, rs_previous = []\<rparr> = Inr st"
    and end': "finish_run apply' write_err st = Inr (res, out)"
    by (auto simp: source_run_def bind_res_Inr_iff wrapped_ok_iff Let_def [of "filter _ _"] split: prod.splits if_splits)
  have "settled_count res = settled_count (rs_result st)"
    using end' by (auto simp: finish_run_def Let_def settled_count_def split: if_splits option.splits)
  moreover have "out = None \<or> (\<exists>t. out = Some t \<and> t = rs_text st \<and> apply' \<and> rr_applied res)"
    using end' by (auto simp: finish_run_def Let_def split: if_splits option.splits)
  ultimately show ?thesis
    using facts settle_variants_all [OF st]
    by (intro exI [of _ files] exI [of _ variants] exI [of _ methods] exI [of _ declared] exI [of _ table] exI [of _ text'])
      (auto simp: filter_empty_conv settled_count_def no_result_def)
qed

subsection \<open>The report\<close>

definition ticks :: "string list \<Rightarrow> string" where
  "ticks xs = ''`'' @ join_with (''`, `'') xs @ ''`''"

definition text_line :: "string \<Rightarrow> string" where
  "text_line s = s @ newline 0"

text \<open>A section is left out when its list is empty; it ends with an empty line.\<close>

definition report_section :: "string \<Rightarrow> string list \<Rightarrow> 'a list \<Rightarrow> ('a \<Rightarrow> string) \<Rightarrow> string" where
  "report_section title header xs row =
    (if xs = [] then []
     else text_line (format_uint (length xs) @ title) @ newline 0 @ concat (map text_line header) @ concat (map (text_line \<circ> row) xs) @
       newline 0)"

definition conflict_row :: "table_conflict \<Rightarrow> string" where
  "conflict_row c = ''| `'' @ tc_method c @ ''` | `'' @ tc_table c @ ''` | '' @ ticks (tc_handlers c) @ '' | '' @
     ticks (tc_at c) @ '' |''"

definition run_markdown :: "run_result \<Rightarrow> string" where
  "run_markdown r =
    (let verb = (if rr_applied r then ''were read out of'' else ''read out of'')
     in report_section ('' method(s) the table lacked '' @ verb @ '' the handlers:'')
          [''| Method | Result | Read from |'', ''| --- | --- | --- |''] (rr_narrowed r)
          (\<lambda>a. ''| `'' @ am_method a @ ''` | `'' @ te_result (am_written a) @ ''` | '' @ ticks (am_evidence a) @ '' |'') @
        report_section ('' method(s) the table lacked could not be narrowed, so each accepts any result and its wrapper '' @
            ''returns the `Result` interface:'') [] (rr_widened r)
          (\<lambda>a. ''- `'' @ am_method a @ ''`: '' @ am_why a @ ''.'' @
            (if am_choices a \<noteq> [] then '' The candidates are '' @ ticks (am_choices a) @ '', read from '' @
               ticks (am_evidence a) @ ''.'' else [])) @
        report_section '' entry/entries the handlers contradict:''
          [''| Method | Table says | Handlers encode | Read from |'', ''| --- | --- | --- | --- |'']
          (rr_contradicts r) conflict_row @
        report_section ('' entry/entries accept only some results the scan reaches. A shared handler may encode the others '' @
            ''for different callers; a new return variant would also look this way. Check these candidates before '' @
            ''narrowing a wrapper:'')
          [''| Method | Table says | Candidates in handlers | Read from |'', ''| --- | --- | --- | --- |'']
          (rr_partial r) conflict_row @
        report_section ('' method(s) where herdr'' @ [CHR 0x27] @ ''s own tests name a result the handlers do not. A test that '' @
            ''sets up with one method and asserts on another reads this way too, so this is a prompt to look, not a finding:'')
          [''| Method | Handlers encode | A test names | Read from |'', ''| --- | --- | --- | --- |''] (rr_disputed r)
          (\<lambda>c. ''| `'' @ tc_method c @ ''` | '' @ ticks (tc_handlers c) @ '' | `'' @ tc_tests c @ ''` | '' @
            ticks (tc_at c) @ '' |'') @
        format_uint (rr_confirmed r) @ '' entry/entries agree with the handlers.'' @
        (if rr_unread r \<noteq> [] then [CHR '' ''] @ format_uint (length (rr_unread r)) @
           '' encode their result where this scan does not reach and stand on `internal/e2e` instead: '' @
           ticks (rr_unread r) @ ''.'' else []) @ newline 0)"

end
