(* ===== verification/Drift_Check.thy ===== *)
theory Drift_Check
  imports Source_Check Gen_Schema
begin

text \<open>
  The command of \<open>internal/cmd/herdrcheck/main.go\<close>: the report, the schema as it reads it, the comparison of two
  schemas and of a running server with the snapshot. What the server answers, what the files and the binary yield and
  the numbers of \<open>encoding/json\<close> are arguments. A Go map is an association list; where Go ranges over one without
  sorting, the order of the report is that of the list.
\<close>

subsection \<open>The report\<close>

record drift_report =
  dr_lines :: "string list"
  dr_differences :: "string list"

definition note_line :: "string \<Rightarrow> drift_report \<Rightarrow> drift_report" where
  "note_line s r = r\<lparr>dr_lines := dr_lines r @ [s]\<rparr>"

definition differ :: "string \<Rightarrow> drift_report \<Rightarrow> drift_report" where
  "differ s r = r\<lparr>dr_differences := dr_differences r @ [s]\<rparr>"

definition differ_all :: "(string \<Rightarrow> string) \<Rightarrow> string list \<Rightarrow> drift_report \<Rightarrow> drift_report" where
  "differ_all say names r = foldl (\<lambda>r name. differ (say name) r) r names"

definition report_text :: "bool \<Rightarrow> drift_report \<Rightarrow> string" where
  "report_text quiet r =
    (if quiet then [] else concat (map text_line (dr_lines r))) @
    (if dr_differences r = [] then (if quiet then [] else text_line ''no drift'')
     else newline 0 @ text_line (format_uint (length (dr_differences r)) @ '' difference(s):'') @
       concat (map (\<lambda>l. text_line (''  '' @ l)) (dr_differences r)) @
       newline 0 @ text_line ''After reviewing these, run `just schema-update && just gen && just check`,'' @
       text_line ''add any new method to schema/method-results.json, and walk the upgrade'' @
       text_line ''checklist in docs/design.md for the behaviour the schema does not describe.'')"

lemma differ_all_simps [simp]:
  "dr_differences (differ_all say names r) = dr_differences r @ map say names"
  "dr_lines (differ_all say names r) = dr_lines r"
  by (induction names arbitrary: r) (simp_all add: differ_all_def differ_def)

lemma differ_simps [simp]:
  "dr_differences (differ s r) = dr_differences r @ [s]" "dr_lines (differ s r) = dr_lines r"
  "dr_differences (note_line s r) = dr_differences r" "dr_lines (note_line s r) = dr_lines r @ [s]"
  by (simp_all add: differ_def note_line_def)

subsection \<open>Schemas\<close>

record drift_schema =
  ds_protocol :: "32 word"
  ds_methods :: "string slice"
  ds_request_defs :: "(string \<times> json) list"
  ds_response_defs :: "(string \<times> json) list"
  ds_event_defs :: "(string \<times> json) list"

definition json_codec :: "json codec" where
  "json_codec = \<lparr>cod_zero = JNull, cod_enc = (\<lambda>j. j), cod_dec = (\<lambda>j old. Some j), cod_ok = (\<lambda>j. True)\<rparr>"

definition defs_field ::
  "(drift_schema \<Rightarrow> (string \<times> json) list) \<Rightarrow> ((string \<times> json) list \<Rightarrow> drift_schema \<Rightarrow> drift_schema) \<Rightarrow> drift_schema field" where
  "defs_field get put = plain_field ''$defs'' (alist_codec json_codec) get put"

text \<open>A struct inside a struct, its fields those of the record around it.\<close>

definition sub_struct :: "string \<Rightarrow> 'r field list \<Rightarrow> 'r field" where
  "sub_struct name fs = \<lparr>fld_name = name, fld_enc = (\<lambda>r. Some (JObj (encode_members fs r))),
     fld_dec = decode_struct fs, fld_ok = (\<lambda>r. list_all (\<lambda>f. fld_ok f r) fs)\<rparr>"

definition drift_schema_fields :: "drift_schema field list" where
  "drift_schema_fields =
    [plain_field ''protocol'' uint_codec ds_protocol (\<lambda>x r. r\<lparr>ds_protocol := x\<rparr>),
     sub_struct ''schemas''
       [sub_struct ''request''
          [plain_field ''oneOf'' (slice_codec (const_of_property ''method'')) ds_methods (\<lambda>x r. r\<lparr>ds_methods := x\<rparr>),
           defs_field ds_request_defs (\<lambda>x r. r\<lparr>ds_request_defs := x\<rparr>)],
        sub_struct ''success_response'' [defs_field ds_response_defs (\<lambda>x r. r\<lparr>ds_response_defs := x\<rparr>)],
        sub_struct ''event'' [defs_field ds_event_defs (\<lambda>x r. r\<lparr>ds_event_defs := x\<rparr>)]]]"

definition decode_drift_schema :: "string \<Rightarrow> (run_error, drift_schema) result" where
  "decode_drift_schema raw = (case Option.bind (parse_json raw) (\<lambda>j. decode_struct drift_schema_fields j
       \<lparr>ds_protocol = 0, ds_methods = None, ds_request_defs = [], ds_response_defs = [], ds_event_defs = []\<rparr>) of
     None \<Rightarrow> err (RunWrap ''decode schema'' RunJson)
   | Some doc \<Rightarrow> if elems (ds_methods doc) = [] then err (RunMessage ''schema declares no methods'') else ok doc)"

definition drift_methods :: "drift_schema \<Rightarrow> string list" where
  "drift_methods d = remdups (filter (\<lambda>m. m \<noteq> []) (elems (ds_methods d)))"

text \<open>
  \<open>canonical\<close>: decoding into \<open>any\<close> and encoding again sorts the keys; \<open>renumber\<close> is what becomes of a number, \<open>None\<close>
  when it is out of range.
\<close>

fun canonical_json :: "(string \<Rightarrow> string option) \<Rightarrow> json \<Rightarrow> json option" where
  "canonical_json renumber (JNum lit) = map_option JNum (renumber lit)"
| "canonical_json renumber (JArr js) = map_option JArr (those (map (canonical_json renumber) js))"
| "canonical_json renumber (JObj kvs) =
    map_option (\<lambda>vs. JObj (object_members (zip (map fst kvs) vs))) (those (map (\<lambda>(k, j). canonical_json renumber j) kvs))"
| "canonical_json renumber j = Some j"

definition canonical_text :: "(string \<Rightarrow> string option) \<Rightarrow> (json \<Rightarrow> string) \<Rightarrow> json \<Rightarrow> string" where
  "canonical_text renumber raw_text raw = (case canonical_json renumber raw of None \<Rightarrow> raw_text raw | Some j \<Rightarrow> print_json j)"

definition drift_definitions ::
  "(string \<Rightarrow> string option) \<Rightarrow> (json \<Rightarrow> string) \<Rightarrow> drift_schema \<Rightarrow> (string \<times> string) list" where
  "drift_definitions renumber raw_text d =
    (let shapes = (\<lambda>section' defs. map (\<lambda>(name, raw). (section' @ ''.'' @ name, canonical_text renumber raw_text raw)) defs)
     in shapes ''request'' (ds_request_defs d) @ shapes ''success_response'' (ds_response_defs d) @
        shapes ''event'' (ds_event_defs d))"

subsection \<open>Comparing schemas\<close>

definition sorted_diff :: "string list \<Rightarrow> string list \<Rightarrow> string list" where
  "sorted_diff from' within = sort (filter (\<lambda>name. name \<notin> set within) from')"

definition sorted_missing :: "(string \<times> 'a) list \<Rightarrow> (string \<times> 'a) list \<Rightarrow> string list" where
  "sorted_missing from' within = sort (filter (\<lambda>name. map_of within name = None) (map fst from'))"

definition changed_shapes :: "(string \<times> string) list \<Rightarrow> (string \<times> string) list \<Rightarrow> string list" where
  "changed_shapes before after = sort (filter (\<lambda>name. case (map_of before name, map_of after name) of
     (Some shape, Some other) \<Rightarrow> other \<noteq> shape | _ \<Rightarrow> False) (remdups (map fst before)))"

definition compare_schemas ::
  "(string \<Rightarrow> string option) \<Rightarrow> (json \<Rightarrow> string) \<Rightarrow> drift_schema \<Rightarrow> drift_schema \<Rightarrow> drift_report \<Rightarrow> drift_report" where
  "compare_schemas renumber raw_text snapshot current r =
    (let r = (if ds_protocol snapshot \<noteq> ds_protocol current
           then differ (''protocol '' @ format_uint (unat (ds_protocol snapshot)) @ '' in the snapshot, '' @
             format_uint (unat (ds_protocol current)) @ '' in the installed binary'') r else r);
         r = differ_all (\<lambda>name. ''method '' @ name @ '' is new in the installed binary'')
           (sorted_diff (drift_methods current) (drift_methods snapshot)) r;
         r = differ_all (\<lambda>name. ''method '' @ name @ '' is gone from the installed binary'')
           (sorted_diff (drift_methods snapshot) (drift_methods current)) r;
         before = drift_definitions renumber raw_text snapshot; after = drift_definitions renumber raw_text current;
         r = differ_all (\<lambda>name. ''type '' @ name @ '' is new'') (sorted_missing after before) r;
         r = differ_all (\<lambda>name. ''type '' @ name @ '' is gone'') (sorted_missing before after) r
     in differ_all (\<lambda>name. ''type '' @ name @ '' changed shape'') (changed_shapes before after) r)"

lemma sort_empty: "sort xs = [] \<longleftrightarrow> xs = []"
  by (metis set_empty set_sort)

lemma no_diff_iff: "sorted_diff xs ys = [] \<longleftrightarrow> set xs \<subseteq> set ys"
  by (auto simp: sorted_diff_def sort_empty filter_empty_conv)

lemma no_missing_iff: "sorted_missing xs ys = [] \<longleftrightarrow> dom (map_of xs) \<subseteq> dom (map_of ys)"
  by (auto simp: sorted_missing_def sort_empty filter_empty_conv dom_map_of_conv_image_fst map_of_eq_None_iff)

lemma no_change_iff: "changed_shapes before after = [] \<longleftrightarrow>
    (\<forall>name shape other. map_of before name = Some shape \<longrightarrow> map_of after name = Some other \<longrightarrow> other = shape)"
  (is "?l \<longleftrightarrow> ?r")
proof
  assume ?l
  then have same: "case (map_of before name, map_of after name) of (Some shape, Some other) \<Rightarrow> other = shape | _ \<Rightarrow> True"
    if "name \<in> fst ` set before" for name
    using that by (auto simp: changed_shapes_def sort_empty filter_empty_conv split: option.splits)
  show ?r
  proof (intro allI impI)
    fix name shape other
    assume "map_of before name = Some shape" "map_of after name = Some other"
    with same [of name] show "other = shape" by (force dest: map_of_SomeD)
  qed
next
  assume ?r
  then show ?l by (auto simp: changed_shapes_def sort_empty filter_empty_conv split: option.splits)
qed

lemma same_map_iff:
  "m = n \<longleftrightarrow> dom m \<subseteq> dom n \<and> dom n \<subseteq> dom m \<and> (\<forall>k x y. m k = Some x \<longrightarrow> n k = Some y \<longrightarrow> y = x)"
proof
  assume r: "dom m \<subseteq> dom n \<and> dom n \<subseteq> dom m \<and> (\<forall>k x y. m k = Some x \<longrightarrow> n k = Some y \<longrightarrow> y = x)"
  have "m k = n k" for k
  proof (cases "m k")
    case None
    with r show ?thesis by (metis domIff subset_iff)
  next
    case (Some x)
    then have "k \<in> dom n" using r by blast
    then obtain y where y: "n k = Some y" by blast
    from r have "m k = Some x \<longrightarrow> n k = Some y \<longrightarrow> y = x" by simp
    with Some y show ?thesis by simp
  qed
  then show "m = n" by (rule ext)
qed simp


subsection \<open>The running server\<close>

text \<open>What the server answers to \<open>ping\<close>: its version and protocol.\<close>

record drift_pong =
  dp_version :: string
  dp_protocol :: "32 word"

definition unknown_method :: string where
  "unknown_method = ''herdrcheck.unknown.method''"

text \<open>\<open>quoted\<close>: a name between backquotes.\<close>

definition match_quoted :: "string \<Rightarrow> nat \<Rightarrow> (string \<times> nat) option" where
  "match_quoted src i =
    (if i < length src \<and> src ! i = CHR ''`'' \<and> Suc i < length src \<and> lower_start (src ! Suc i) then
       (let name = run_at (\<lambda>c. in_range 97 122 c \<or> in_range 48 57 c \<or> c = CHR ''_'' \<or> c = CHR ''.'') src (Suc i);
            e = Suc i + length name
        in if e < length src \<and> src ! e = CHR ''`'' then Some (name, Suc e) else None)
     else None)"

text \<open>\<open>acceptedMethods\<close>: the probe yields the message of an API error or another error.\<close>

definition accepted_methods :: "(run_error, string) result \<Rightarrow> (run_error, string list) result" where
  "accepted_methods probe = (case probe of
     Inl e \<Rightarrow> err (RunWrap ''probing for the method list'' e)
   | Inr message \<Rightarrow>
       (let found = remdups (filter (\<lambda>name. CHR ''.'' \<in> set name \<or> name = ''ping'')
              (map (\<lambda>(i, name, e). name) (find_all match_quoted message 0)));
            accepted = filter (\<lambda>name. name \<noteq> unknown_method) found
        in if accepted = [] then err (RunMessage (''the server did not list its methods: '' @ message)) else ok accepted))"

fun report_accepted :: "string list \<Rightarrow> string list \<Rightarrow> drift_report \<Rightarrow> drift_report" where
  "report_accepted gaps [] r = r"
| "report_accepted gaps (name # names) r = report_accepted gaps names
    (if name \<in> set gaps
     then note_line (''known gap: '' @ name @ '' is accepted by the server and absent from the schema'') r
     else differ (''server accepts '' @ name @ '' but the schema does not declare it, so no wrapper reaches it'') r)"

definition compare_server ::
  "(run_error, drift_pong) result \<Rightarrow> (run_error, string) result \<Rightarrow> drift_schema \<Rightarrow> string \<Rightarrow> string list \<Rightarrow> drift_report \<Rightarrow>
    run_error option \<times> drift_report" where
  "compare_server ping probe snapshot table_version gaps r = (case ping of
     Inl e \<Rightarrow> (Some e, r)
   | Inr pong \<Rightarrow>
       (let r = note_line (''running server: herdr '' @ dp_version pong @ '', protocol '' @
              format_uint (unat (dp_protocol pong))) r;
            r = (if dp_version pong \<noteq> table_version then differ (''server reports herdr '' @ dp_version pong @
              '', the snapshot was taken from '' @ table_version) r else r);
            r = (if dp_protocol pong \<noteq> ds_protocol snapshot then differ (''server reports protocol '' @
              format_uint (unat (dp_protocol pong)) @ '', the snapshot declares '' @
              format_uint (unat (ds_protocol snapshot))) r else r)
        in case accepted_methods probe of
            Inl e \<Rightarrow> (Some e, r)
          | Inr accepted \<Rightarrow>
              (let r = note_line (''running server accepts '' @ format_uint (length accepted) @ '' methods'') r;
                   r = report_accepted gaps (sorted_diff accepted (drift_methods snapshot)) r
               in (None, differ_all (\<lambda>name. ''known gap '' @ name @ '' is no longer accepted by the server; remove it from the gaps list'')
                    (filter (\<lambda>name. name \<notin> set accepted) gaps) r))))"

lemma report_accepted_differences [simp]:
  "dr_differences (report_accepted gaps names r) = dr_differences r @
    map (\<lambda>name. ''server accepts '' @ name @ '' but the schema does not declare it, so no wrapper reaches it'')
      (filter (\<lambda>name. name \<notin> set gaps) names)"
  by (induction gaps names r rule: report_accepted.induct) simp_all

text \<open>A server without drift: the version and protocol of the snapshot, and no method beside the schema but the known gaps.\<close>

lemma compare_server_exact:
  assumes "ping = Inr pong" "accepted_methods probe = Inr accepted"
  shows "dr_differences (snd (compare_server ping probe snapshot version gaps r)) = dr_differences r \<longleftrightarrow>
    dp_version pong = version \<and> dp_protocol pong = ds_protocol snapshot \<and>
    set accepted - set (drift_methods snapshot) \<subseteq> set gaps \<and> set gaps \<subseteq> set accepted"
proof -
  have names: "set (sorted_diff accepted (drift_methods snapshot)) = set accepted - set (drift_methods snapshot)"
    by (auto simp: sorted_diff_def)
  have "filter (\<lambda>name. name \<notin> set gaps) (sorted_diff accepted (drift_methods snapshot)) = [] \<longleftrightarrow>
      set accepted - set (drift_methods snapshot) \<subseteq> set gaps" "filter (\<lambda>name. name \<notin> set accepted) gaps = [] \<longleftrightarrow> set gaps \<subseteq> set accepted"
    by (auto simp: filter_empty_conv names)
  then show ?thesis by (simp add: compare_server_def assms Let_def)
qed

subsection \<open>The run\<close>

record drift_table =
  dt_herdr_version :: string
  dt_methods :: "(string \<times> json) list"

definition drift_table_fields :: "drift_table field list" where
  "drift_table_fields =
    [plain_field ''herdr_version'' string_codec dt_herdr_version (\<lambda>x r. r\<lparr>dt_herdr_version := x\<rparr>),
     plain_field ''methods'' (alist_codec json_codec) dt_methods (\<lambda>x r. r\<lparr>dt_methods := x\<rparr>)]"

definition load_drift_table :: "(run_error, string) result \<Rightarrow> (run_error, drift_table) result" where
  "load_drift_table data = bind_res data (\<lambda>raw.
     case Option.bind (parse_json raw) (\<lambda>j. decode_struct drift_table_fields j \<lparr>dt_herdr_version = [], dt_methods = []\<rparr>) of
       None \<Rightarrow> err (RunWrap ''decode method table'' RunJson) | Some t \<Rightarrow> ok t)"

definition load_drift_schema :: "(run_error, string) result \<Rightarrow> (run_error, drift_schema) result" where
  "load_drift_schema data = bind_res data decode_drift_schema"

text \<open>\<open>None\<close> is a file that does not exist.\<close>

definition load_gaps :: "(run_error, string) result option \<Rightarrow> (run_error, (string \<times> string) list) result" where
  "load_gaps data = (case data of
     None \<Rightarrow> ok []
   | Some r \<Rightarrow> bind_res r (\<lambda>raw. case Option.bind (parse_json raw) (\<lambda>j.
         cod_dec (nested ''server_methods_absent_from_schema'' (alist_codec string_codec)) j []) of
       None \<Rightarrow> err (RunWrap ''decode known gaps'' RunJson) | Some gaps \<Rightarrow> ok gaps))"

text \<open>\<open>currentSchema\<close>: what the binary prints, or the error of running it.\<close>

definition current_schema :: "string \<Rightarrow> (run_error, string) result \<Rightarrow> (run_error, drift_schema) result" where
  "current_schema binary output = (case output of
     Inl e \<Rightarrow> err (RunWrap (''run '' @ binary @ '' api schema --json'') e) | Inr out \<Rightarrow> decode_drift_schema out)"

text \<open>\<open>show_err\<close> is \<open>%v\<close> of an error.\<close>

definition drift_run ::
  "(string \<Rightarrow> string option) \<Rightarrow> (json \<Rightarrow> string) \<Rightarrow> (run_error \<Rightarrow> string) \<Rightarrow> (run_error, string) result \<Rightarrow>
    (run_error, string) result \<Rightarrow> (run_error, string) result option \<Rightarrow> string \<Rightarrow> (run_error, string) result \<Rightarrow>
    (run_error, drift_pong) result \<Rightarrow> (run_error, string) result \<Rightarrow> (run_error, drift_report) result" where
  "drift_run renumber raw_text show_err schema_file table_file gaps_file binary output ping probe =
    bind_res (load_drift_schema schema_file) (\<lambda>snapshot.
    bind_res (load_drift_table table_file) (\<lambda>table.
      let r = note_line (''snapshot: herdr '' @ dt_herdr_version table @ '', protocol '' @
            format_uint (unat (ds_protocol snapshot)) @ '', '' @ format_uint (length (drift_methods snapshot)) @ '' methods'')
            \<lparr>dr_lines = [], dr_differences = []\<rparr>;
          r = (case current_schema binary output of
              Inl e \<Rightarrow> note_line (''installed binary: '' @ show_err e) r
            | Inr current \<Rightarrow> compare_schemas renumber raw_text snapshot current
                (note_line (''installed binary: protocol '' @ format_uint (unat (ds_protocol current)) @ '', '' @
                  format_uint (length (drift_methods current)) @ '' methods'') r))
      in bind_res (load_gaps gaps_file) (\<lambda>gaps.
        ok (case compare_server ping probe snapshot (dt_herdr_version table) (map fst gaps) r of
            (None, r) \<Rightarrow> r | (Some e, r) \<Rightarrow> note_line (''running server: '' @ show_err e) r))))"

end
