(* ===== verification/Plugin_Check.thy ===== *)
theory Plugin_Check
  imports Manifest_Facts Plugin_Facts
begin

text \<open>
  \<open>CheckManifest\<close> (\<open>plugin/plugintest/manifest.go\<close>): the entrypoints a manifest declares against the handlers a
  program registers. The check of a test is the list of the errors it reports with \<open>t.Errorf\<close>, or the failure to
  read the manifest that stops the test.
\<close>

definition declared_actions :: "manifest \<Rightarrow> string list" where
  "declared_actions m = map (\<lambda>a. trim_space (ac_id a)) (elems (mf_actions m))"

definition declared_panes :: "manifest \<Rightarrow> string list" where
  "declared_panes m = map (\<lambda>p. trim_space (pa_id p)) (elems (mf_panes m))"

definition declared_events :: "manifest \<Rightarrow> string list" where
  "declared_events m = map (\<lambda>h. trim_space (eh_on h)) (elems (mf_events m))"

definition compare_ids ::
  "(string \<Rightarrow> string) \<Rightarrow> string \<Rightarrow> string \<Rightarrow> string list \<Rightarrow> string list \<Rightarrow> string list" where
  "compare_ids quote path what declared registered =
    map (\<lambda>i. path @ '': '' @ what @ '' '' @ quote i @ '' is declared but no handler is registered for it'')
      (filter (\<lambda>i. i \<notin> set registered) (sort declared)) @
    map (\<lambda>i. path @ '': a handler is registered for '' @ what @ '' '' @ quote i @ '' but the manifest declares none'')
      (filter (\<lambda>i. i \<notin> set declared) registered)"

definition compare_events :: "(string \<Rightarrow> string) \<Rightarrow> string \<Rightarrow> string list \<Rightarrow> string list \<Rightarrow> string list" where
  "compare_events quote path declared registered =
    map (\<lambda>n. path @ '': event hook '' @ quote n @ '' is declared but no handler is registered for it'')
      (filter (\<lambda>n. n \<notin> set registered) (sort declared)) @
    map (\<lambda>n. if n \<notin> set hook_event_names
        then path @ '': a handler is registered for event '' @ quote n @ '', which Herdr never fires a plugin hook for''
        else path @ '': a handler is registered for event hook '' @ quote n @ '' but the manifest declares none'')
      (filter (\<lambda>n. n \<notin> set declared) registered)"

definition compare_startup :: "string \<Rightarrow> bool \<Rightarrow> bool \<Rightarrow> string list" where
  "compare_startup path declared registered =
    (if declared \<and> \<not> registered then [path @ '': a [[startup]] entry is declared but no startup handler is registered'']
     else if \<not> declared \<and> registered
     then [path @ '': a startup handler is registered but the manifest declares no [[startup]] entry'']
     else [])"

definition check_manifest ::
  "(string \<Rightarrow> string) \<Rightarrow> (string \<Rightarrow> string option) \<Rightarrow> string \<Rightarrow> (string, 'b) result \<Rightarrow> ('b \<Rightarrow> (string, manifest) result) \<Rightarrow>
    'w plugin \<Rightarrow> (manifest_failure, string list) result" where
  "check_manifest quote regexp path contents toml p = (case manifest_parse quote regexp path contents toml of
     Inl e \<Rightarrow> err e
   | Inr (m, warnings) \<Rightarrow>
       (let r = plugin_registered p
        in ok (map (\<lambda>w. path @ '': '' @ w) warnings @
          compare_ids quote path ''action'' (declared_actions m) (ri_actions r) @
          compare_ids quote path ''pane'' (declared_panes m) (ri_panes r) @
          compare_events quote path (declared_events m) (ri_events r) @
          compare_startup path (elems (mf_startup m) \<noteq> []) (ri_startup r))))"

subsection \<open>What a clean check means\<close>

lemma compare_ids_clean: "compare_ids quote path what declared registered = [] \<longleftrightarrow> set declared = set registered"
  by (auto simp: compare_ids_def filter_empty_conv)

lemma compare_events_clean: "compare_events quote path declared registered = [] \<longleftrightarrow> set declared = set registered"
  by (auto simp: compare_events_def filter_empty_conv)

lemma compare_startup_clean: "compare_startup path declared registered = [] \<longleftrightarrow> declared = registered"
  by (simp add: compare_startup_def)

lemma check_manifest_clean:
  "check_manifest quote regexp path contents toml p = Inr [] \<longleftrightarrow>
    (\<exists>m. manifest_parse quote regexp path contents toml = Inr (m, []) \<and>
      set (declared_actions m) = set (ri_actions (plugin_registered p)) \<and>
      set (declared_panes m) = set (ri_panes (plugin_registered p)) \<and>
      set (declared_events m) = set (ri_events (plugin_registered p)) \<and>
      (elems (mf_startup m) \<noteq> []) = ri_startup (plugin_registered p))"
  by (auto simp: check_manifest_def Let_def compare_ids_clean compare_events_clean compare_startup_clean
      split: sum.splits)

text \<open>The entrypoint herdr starts a process for, as its manifest declares it and as a program serves it.\<close>

definition declares :: "manifest \<Rightarrow> plugin_env \<Rightarrow> entry_kind \<Rightarrow> bool" where
  "declares m env kind = (case kind of
     KindStartup \<Rightarrow> elems (mf_startup m) \<noteq> []
   | KindAction \<Rightarrow> pe_action_id env \<in> set (declared_actions m)
   | KindPane \<Rightarrow> pe_entrypoint_id env \<in> set (declared_panes m)
   | KindEvent \<Rightarrow> pe_event env \<in> set (declared_events m)
   | KindUnknown \<Rightarrow> False)"

definition registers :: "registered_ids \<Rightarrow> plugin_env \<Rightarrow> entry_kind \<Rightarrow> bool" where
  "registers r env kind = (case kind of
     KindStartup \<Rightarrow> ri_startup r
   | KindAction \<Rightarrow> pe_action_id env \<in> set (ri_actions r)
   | KindPane \<Rightarrow> pe_entrypoint_id env \<in> set (ri_panes r)
   | KindEvent \<Rightarrow> pe_event env \<in> set (ri_events r)
   | KindUnknown \<Rightarrow> False)"

text \<open>A refusal for want of a handler; other errors come from the environment of an event hook.\<close>

definition no_handler :: "(plugin_error, 'h) result \<Rightarrow> bool" where
  "no_handler r \<longleftrightarrow> (case r of Inr h \<Rightarrow> False | Inl e \<Rightarrow>
     (case e of ErrNoHandler k \<Rightarrow> True | ErrNoRegistration k i \<Rightarrow> True | ErrUnknownKind k \<Rightarrow> True | _ \<Rightarrow> False))"

lemma no_handler_simps [simp]:
  "\<not> no_handler (Inr h)" "no_handler (Inl (ErrNoHandler k))" "no_handler (Inl (ErrNoRegistration k i))"
  "no_handler (Inl (ErrUnknownKind k))" "\<not> no_handler (Inl (ErrNoData n))" "\<not> no_handler (Inl (ErrPayload a b))"
  "\<not> no_handler (Inl (Prefixed what e))"
  by (simp_all add: no_handler_def)

lemma hook_envelope_serves: "hook_envelope pf ff env = Inl e \<Longrightarrow> \<not> no_handler (Inl e)"
  by (auto simp: hook_envelope_def split: sum.splits)

lemma bind_by_id_serves: "no_handler (bind_by_id handlers env kind i) \<longleftrightarrow> i \<notin> fst ` set handlers"
proof (cases "map_of handlers i")
  case None
  moreover from None have "i \<notin> fst ` set handlers" by (simp add: map_of_eq_None_iff)
  ultimately show ?thesis by (simp add: bind_by_id_def)
next
  case (Some h)
  then show ?thesis by (force simp: bind_by_id_def dest: map_of_SomeD)
qed

lemma event_bind_serves:
  assumes "p = registry_of rs"
  shows "no_handler (plugin_bind pf ff p env KindEvent) \<longleftrightarrow> pe_event env \<notin> fst ` set (pl_events p)"
proof (cases "map_of (pl_events p) (pe_event env)")
  case None
  moreover from None have "pe_event env \<notin> fst ` set (pl_events p)" by (simp add: map_of_eq_None_iff)
  ultimately show ?thesis by (simp add: plugin_bind_def)
next
  case (Some bind_event)
  then obtain n h where "bind_event = typed_binder n h" by (auto simp: assms registry_of_def dest!: map_of_SomeD)
  then have "\<not> no_handler (bind_event env e)" for e by (simp add: typed_binder_def)
  with Some hook_envelope_serves [of pf ff env] have "\<not> no_handler (plugin_bind pf ff p env KindEvent)"
    by (auto simp: plugin_bind_def split: sum.split option.split)
  moreover from Some have "pe_event env \<in> fst ` set (pl_events p)" by (force dest: map_of_SomeD)
  ultimately show ?thesis by simp
qed

lemma registered_serves:
  assumes "register_all quote rs new_plugin = Inr p"
  shows "no_handler (plugin_bind pf ff p env kind) \<longleftrightarrow> \<not> registers (plugin_registered p) env kind"
proof (cases kind)
  case KindEvent
  have "p = registry_of rs" using assms by (simp add: registered_program)
  from event_bind_serves [OF this] KindEvent show ?thesis by (simp add: registers_def plugin_registered_def)
qed (simp_all add: plugin_bind_def bind_by_id_serves registers_def plugin_registered_def split: option.split)

text \<open>
  C8. The check of a manifest against a program is silent exactly when the manifest is valid without warnings and
  the program has a handler for each entrypoint the manifest declares and for no other: whatever environment
  a process is started with, it is turned away for want of a handler just when its entrypoint is not declared.
\<close>

theorem check_manifest_exact:
  assumes "register_all quote rs new_plugin = Inr p"
  shows "check_manifest quote regexp path contents toml p = Inr [] \<longleftrightarrow>
    (\<exists>m. manifest_parse quote regexp path contents toml = Inr (m, []) \<and>
      (\<forall>env kind. no_handler (plugin_bind pf ff p env kind) \<longleftrightarrow> \<not> declares m env kind))"
proof -
  have "(\<forall>env kind. registers (plugin_registered p) env kind \<longleftrightarrow> declares m env kind) \<longleftrightarrow>
      set (declared_actions m) = set (ri_actions (plugin_registered p)) \<and>
      set (declared_panes m) = set (ri_panes (plugin_registered p)) \<and>
      set (declared_events m) = set (ri_events (plugin_registered p)) \<and>
      (elems (mf_startup m) \<noteq> []) = ri_startup (plugin_registered p)" for m
  proof
    assume same: "\<forall>env kind. registers (plugin_registered p) env kind \<longleftrightarrow> declares m env kind"
    have "i \<in> set (declared_actions m) \<longleftrightarrow> i \<in> set (ri_actions (plugin_registered p))"
      "i \<in> set (declared_panes m) \<longleftrightarrow> i \<in> set (ri_panes (plugin_registered p))"
      "i \<in> set (declared_events m) \<longleftrightarrow> i \<in> set (ri_events (plugin_registered p))" for i
      using same [rule_format, of "action_env\<lparr>pe_action_id := i\<rparr>" KindAction]
        same [rule_format, of "action_env\<lparr>pe_entrypoint_id := i\<rparr>" KindPane]
        same [rule_format, of "action_env\<lparr>pe_event := i\<rparr>" KindEvent]
      by (simp_all add: registers_def declares_def)
    moreover have "(elems (mf_startup m) \<noteq> []) = ri_startup (plugin_registered p)"
      using same [rule_format, of action_env KindStartup] by (simp add: registers_def declares_def)
    ultimately show "set (declared_actions m) = set (ri_actions (plugin_registered p)) \<and>
      set (declared_panes m) = set (ri_panes (plugin_registered p)) \<and>
      set (declared_events m) = set (ri_events (plugin_registered p)) \<and>
      (elems (mf_startup m) \<noteq> []) = ri_startup (plugin_registered p)" by blast
  qed (auto simp: registers_def declares_def split: entry_kind.split)
  then show ?thesis
    unfolding check_manifest_clean registered_serves [OF assms] by simp
qed

definition checked_registrations :: "nat registration list" where
  "checked_registrations = [RegAction ''hide'' (Some quiet), RegEvent ''pane.closed'' (Some (\<lambda>env e. quiet env))]"

definition checked_manifest :: manifest where
  "checked_manifest = \<lparr>mf_id = ''acme'', mf_name = ''A'', mf_version = ''1'', mf_min_herdr_version = ''0.9.0'',
     mf_description = [], mf_platforms = Some [''linux''], mf_build = None, mf_startup = None,
     mf_actions = Some [\<lparr>ac_id = '' hide'', ac_title = ''H'', ac_description = [], ac_contexts = None,
       ac_command = Some [''a''], ac_platforms = None\<rparr>],
     mf_events = Some [\<lparr>eh_on = ''pane.closed'', eh_command = Some [''a''], eh_platforms = None\<rparr>],
     mf_panes = None, mf_link_handlers = None\<rparr>"

lemma checked_registered:
  "register_all id checked_registrations new_plugin = Inr (registry_of checked_registrations)"
  unfolding registered_program by (simp add: checked_registrations_def registrations_ok_def ids_ok_def)

lemma checked_version: "validate_min_herdr_version id ''0.9.0'' = None"
proof -
  have "trim_space ''0.9.0'' = ''0.9.0''" "split_on (CHR ''.'') ''0.9.0'' = [''0'', ''9'', ''0'']" by code_simp+
  moreover have "parse_uint 32 ''9'' = Some 9" "parse_uint 32 ''0'' = Some 0"
    by (simp_all add: parse_uint_def is_digit_def)
  ultimately show ?thesis by (simp add: validate_min_herdr_version_def trim_prefix_def)
qed

lemma checked_valid: "manifest_validate id (\<lambda>s. None) checked_manifest = Inr []"
proof -
  have "valid_plugin_id (mf_id checked_manifest)" "trim_space (mf_name checked_manifest) \<noteq> []"
    "trim_space (mf_version checked_manifest) \<noteq> []" "mf_min_herdr_version checked_manifest = ''0.9.0''"
    "validate_platforms id (mf_platforms checked_manifest) ''manifest'' = None"
    "build_loop id 0 (elems (mf_build checked_manifest)) = None"
    "startup_loop id 0 (elems (mf_startup checked_manifest)) = None"
    "validate_actions id checked_manifest = None" "validate_events id checked_manifest = None"
    "validate_panes id checked_manifest = None" "validate_link_handlers id (\<lambda>s. None) checked_manifest = None"
    "manifest_warnings checked_manifest = []"
    by code_simp+
  then show ?thesis by (simp add: manifest_validate_def checked_version also_check_def)
qed

theorem check_manifest_exact_witness:
  "\<not> no_handler (plugin_bind (\<lambda>s. None) (\<lambda>x. []) (registry_of checked_registrations) action_env KindAction) \<and>
   check_manifest id (\<lambda>s. None) ''m'' (Inr ()) (\<lambda>u. Inr checked_manifest) (registry_of checked_registrations) = Inr []"
proof -
  have parsed: "manifest_parse id (\<lambda>s. None) ''m'' (Inr ()) (\<lambda>u. Inr checked_manifest) = Inr (checked_manifest, [])"
    by (simp add: manifest_parse_def manifest_decode_def checked_valid)
  have "declared_actions checked_manifest = [''hide'']" "declared_panes checked_manifest = []"
    "declared_events checked_manifest = [''pane.closed'']" by code_simp+
  with parsed have clean:
    "check_manifest id (\<lambda>s. None) ''m'' (Inr ()) (\<lambda>u. Inr checked_manifest) (registry_of checked_registrations) = Inr []"
    by (simp add: check_manifest_clean plugin_registered_def registry_of_def checked_registrations_def
        checked_manifest_def)
  with check_manifest_exact [OF checked_registered, where pf = "\<lambda>s. None" and ff = "\<lambda>x. []"
      and regexp = "\<lambda>s. None" and path = "''m''" and contents = "Inr ()" and toml = "\<lambda>u. Inr checked_manifest"]
  obtain m where "manifest_parse id (\<lambda>s. None) ''m'' (Inr ()) (\<lambda>u. Inr checked_manifest) = Inr (m, [])"
    and serves: "\<And>env kind. no_handler (plugin_bind (\<lambda>s. None) (\<lambda>x. []) (registry_of checked_registrations) env kind) \<longleftrightarrow>
      \<not> declares m env kind"
    by blast
  with parsed have "m = checked_manifest" by simp
  with serves [of action_env KindAction] \<open>declared_actions checked_manifest = [''hide'']\<close> clean show ?thesis
    by (simp add: declares_def action_env_def)
qed

end
