(* ===== verification/Json_Roundtrip.thy ===== *)
theory Json_Roundtrip
  imports Json_Codec
begin

text \<open>
  What \<open>json.Marshal\<close> writes \<open>json.Unmarshal\<close> reads: \<open>parse_json\<close> is the inverse of \<open>print_json\<close> on the documents
  an encoder makes, those of valid UTF-8, number literals and the depth the reader allows.
\<close>

subsection \<open>Numbers\<close>

text \<open>The bytes behind a value in the compact form.\<close>

definition ends_value :: "string \<Rightarrow> bool" where
  "ends_value rest \<longleftrightarrow> rest = [] \<or> hd rest \<in> {CHR 0x2C, CHR 0x5D, CHR 0x7D}"

lemma ends_value_cases:
  assumes "ends_value rest"
  obtains "rest = []" | r where "rest = CHR 0x2C # r" | r where "rest = CHR 0x5D # r" | r where "rest = CHR 0x7D # r"
  using assms by (cases rest) (auto simp: ends_value_def)

lemma digits_append: "ends_value rest \<Longrightarrow> digits (s @ rest) = (fst (digits s), snd (digits s) @ rest)"
proof (induction s)
  case Nil
  then show ?case by (cases rest rule: ends_value_cases) (auto simp: digits_def is_digit_def)
qed (auto simp: digits_def)

lemma scan_int_append: "ends_value rest \<Longrightarrow> scan_int s = Some (i, r) \<Longrightarrow> scan_int (s @ rest) = Some (i, r @ rest)"
  by (auto simp: scan_int_def digits_append split: prod.splits list.splits if_splits)

lemma scan_frac_append: "ends_value rest \<Longrightarrow> scan_frac s = Some (i, r) \<Longrightarrow> scan_frac (s @ rest) = Some (i, r @ rest)"
  by (cases s; cases rest rule: ends_value_cases)
    (auto simp: scan_frac_def expect_def digits_append split: prod.splits list.splits if_splits)

lemma scan_sign_append:
  "ends_value rest \<Longrightarrow> set cs \<subseteq> {CHR 0x2B, CHR 0x2D} \<Longrightarrow>
    scan_sign cs (s @ rest) = (fst (scan_sign cs s), snd (scan_sign cs s) @ rest)"
  by (cases s; cases rest rule: ends_value_cases) (auto simp: scan_sign_def)

lemma scan_exp_append:
  assumes "ends_value rest" "scan_exp s = Some (i, r)"
  shows "scan_exp (s @ rest) = Some (i, r @ rest)"
proof (cases s)
  case Nil
  from assms Nil show ?thesis by (cases rest rule: ends_value_cases) (simp_all add: scan_exp_def)
next
  case (Cons c s')
  with assms show ?thesis
    by (auto simp: scan_exp_def scan_sign_append digits_append split: prod.splits list.splits if_splits)
qed

lemma scan_number_append:
  assumes "ends_value rest" "scan_number s = Some (lit, r)"
  shows "scan_number (s @ rest) = Some (lit, r @ rest)"
proof -
  from assms(2) obtain sign s1 i s2 fr s3 ex where "scan_sign [CHR 0x2D] s = (sign, s1)" "scan_int s1 = Some (i, s2)"
    "scan_frac s2 = Some (fr, s3)" "scan_exp s3 = Some (ex, r)" "lit = sign @ i @ fr @ ex"
    by (auto simp: scan_number_def split: prod.splits option.splits)
  with assms(1) show ?thesis
    by (simp add: scan_number_def scan_sign_append scan_int_append scan_frac_append scan_exp_append)
qed

definition number_ok :: "string \<Rightarrow> bool" where
  "number_ok lit \<longleftrightarrow> scan_number lit = Some (lit, [])"

lemma scan_number_head: "scan_number (c # s) = Some x \<Longrightarrow> c = CHR 0x2D \<or> is_digit c"
  by (auto simp: scan_number_def scan_sign_def scan_int_def digits_def split: if_splits option.splits prod.splits)

lemma number_head:
  assumes "number_ok lit"
  obtains c s where "lit = c # s" "c = CHR 0x2D \<or> is_digit c"
proof (cases lit)
  case Nil
  with assms have False by (simp add: number_ok_def scan_number_def scan_sign_def scan_int_def digits_def)
  then show ?thesis ..
next
  case (Cons c s)
  with assms scan_number_head [of c s] show ?thesis by (auto simp: number_ok_def intro: that)
qed

subsection \<open>Strings\<close>

lemma rune_size_take:
  assumes "1 < rune_size s"
  shows "rune_size (take (rune_size s) s @ x) = rune_size s"
proof -
  consider "s = []" | a where "s = [a]" | a b where "s = [a, b]" | a b c where "s = [a, b, c]"
    | a b c d t where "s = a # b # c # d # t"
    by (metis list.exhaust)
  then show ?thesis
  proof cases
    case 1
    with assms show ?thesis by (simp add: rune_size.simps)
  next
    case 2
    with assms show ?thesis by (simp add: rune_size.simps Let_def)
  next
    case 3
    with assms show ?thesis by (simp add: rune_size.simps Let_def split: if_splits)
  next
    case 4
    with assms show ?thesis by (simp add: rune_size.simps Let_def split: if_splits)
  next
    case 5
    with assms show ?thesis by (simp add: rune_size.simps Let_def split: if_splits)
  qed
qed

lemma hex_value_digit: "k < 16 \<Longrightarrow> hex_value (hex_digit k) = Some k"
  by (auto simp: hex_value_def hex_digit_def in_range_def)

lemma hex_value_zero: "hex_value (CHR 0x30) = Some 0"
  by (simp add: hex_value_def in_range_def)

lemma unicode_escape_ascii:
  "n < 0x80 \<Longrightarrow> unicode_escape (CHR 0x30 # CHR 0x30 # hex_digit (n div 16) # hex_digit (n mod 16) # rest) =
    Some (bytes_of [n], 4)"
  by (simp add: unicode_escape_def hex_value_digit hex_value_zero utf8_encode_def)

lemma parse_string_more:
  "c \<noteq> CHR 0x22 \<Longrightarrow> c \<noteq> CHR 0x5C \<Longrightarrow> \<not> (of_char c :: nat) < 0x20 \<Longrightarrow> 1 < rune_size (c # s) \<or> (of_char c :: nat) < 0x80 \<Longrightarrow>
    parse_string (Suc f) (c # s) = map_option (\<lambda>(t, r). (take (rune_size (c # s)) (c # s) @ t, r))
      (parse_string f (drop (rune_size (c # s)) (c # s)))"
  by (auto simp: Let_def)

lemma parse_string_simple:
  "simple_escape e = Some n \<Longrightarrow> e \<noteq> CHR 0x75 \<Longrightarrow>
    parse_string (Suc f) (CHR 0x5C # e # s) = map_option (\<lambda>(t, r). (char_of n # t, r)) (parse_string f s)"
  by (simp add: bytes_of_def)

lemma parse_string_unicode:
  "unicode_escape s = Some (out, n) \<Longrightarrow>
    parse_string (Suc f) (CHR 0x5C # CHR 0x75 # s) = map_option (\<lambda>(t, r). (out @ t, r)) (parse_string f (drop n s))"
  by simp

declare parse_string.simps(3) [simp del]

lemma char_of_value: "of_char c = (n :: nat) \<Longrightarrow> c = char_of n"
  by (metis char_of_char)

lemma char_of_quote: "char_of (34 :: nat) = CHR 0x22" "char_of (92 :: nat) = CHR 0x5C"
  by code_simp+

lemma parse_escaped_ascii:
  assumes "(of_char c :: nat) < 0x80"
  shows "parse_string (Suc f) (escape_ascii c @ s) = map_option (\<lambda>(t, r). (c # t, r)) (parse_string f s)"
proof -
  let ?n = "of_char c :: nat"
  consider "?n = 0x22" | "?n = 0x5C" | "?n = 8" | "?n = 12" | "?n = 10" | "?n = 13" | "?n = 9"
    | "?n < 0x20 \<or> ?n = 0x3C \<or> ?n = 0x3E \<or> ?n = 0x26" "?n \<notin> {0x22, 0x5C, 8, 12, 10, 13, 9}"
    | "0x20 \<le> ?n" "?n \<notin> {0x22, 0x5C, 0x3C, 0x3E, 0x26}"
    by fastforce
  then show ?thesis
  proof cases
    case 8
    then have "escape_ascii c @ s =
        CHR 0x5C # CHR 0x75 # CHR 0x30 # CHR 0x30 # hex_digit (?n div 16) # hex_digit (?n mod 16) # s"
      by (auto simp: escape_ascii_def Let_def)
    then show ?thesis
      using parse_string_unicode [OF unicode_escape_ascii [OF assms, of s]] by (simp add: bytes_of_def)
  next
    case 9
    then have "escape_ascii c = [c]" "c \<noteq> CHR 0x22" "c \<noteq> CHR 0x5C"
      by (auto simp: escape_ascii_def Let_def)
    with 9 assms show ?thesis by (simp add: parse_string_more rune_size_ascii)
  qed (auto dest!: char_of_value simp: escape_ascii_def Let_def parse_string_simple simple_escape_def char_of_quote)
qed

text \<open>A rune of more than one byte is written as it is, but for the two line separators.\<close>

lemma unicode_escape_separator:
  "unicode_escape (CHR 0x32 # CHR 0x30 # CHR 0x32 # CHR 0x38 # rest) = Some (bytes_of [0xE2, 0x80, 0xA8], 4)"
  "unicode_escape (CHR 0x32 # CHR 0x30 # CHR 0x32 # CHR 0x39 # rest) = Some (bytes_of [0xE2, 0x80, 0xA9], 4)"
  by (simp_all add: unicode_escape_def hex_value_def in_range_def utf8_encode_def)

definition escape_rune :: "string \<Rightarrow> string" where
  "escape_rune t = (if t = bytes_of [0xE2, 0x80, 0xA8] then (CHR 0x5C # ''u2028'')
     else if t = bytes_of [0xE2, 0x80, 0xA9] then (CHR 0x5C # ''u2029'') else t)"

lemma parse_escaped_rune:
  assumes "1 < rune_size (c # r)" "0x80 \<le> (of_char c :: nat)" and t: "t = take (rune_size (c # r)) (c # r)"
  shows "parse_string (Suc f) (escape_rune t @ s) = map_option (\<lambda>(u, r). (t @ u, r)) (parse_string f s)"
proof (cases "t = bytes_of [0xE2, 0x80, 0xA8] \<or> t = bytes_of [0xE2, 0x80, 0xA9]")
  case True
  then show ?thesis
    using parse_string_unicode [OF unicode_escape_separator(1) [of s]] parse_string_unicode [OF unicode_escape_separator(2) [of s]]
    by (auto simp: escape_rune_def)
next
  case False
  obtain u where u: "t = c # u" using t assms(1) by (cases "rune_size (c # r)") auto
  have size: "rune_size (c # u @ s) = rune_size (c # r)"
    using rune_size_take [OF assms(1), of s] by (simp only: t [symmetric] u append_Cons)
  have len: "length t = rune_size (c # r)" if "rune_size (c # r) \<le> length (c # r)" using that t by simp
  have le: "rune_size (c # r) \<le> length (c # r)"
    by (cases r; cases "tl r"; cases "tl (tl r)") (auto simp: rune_size.simps Let_def)
  have "c \<noteq> CHR 0x22" "c \<noteq> CHR 0x5C" using assms(2) by auto
  moreover have "take (rune_size (c # r)) (c # u @ s) = t" "drop (rune_size (c # r)) (c # u @ s) = s"
    using len [OF le] by (simp_all flip: u append_Cons)
  ultimately show ?thesis using False u size assms
    by (simp add: escape_rune_def parse_string_more)
qed

lemma escape_string_ascii: "(of_char c :: nat) < 0x80 \<Longrightarrow> escape_string (c # r) = escape_ascii c @ escape_string r"
  by (simp add: escape_string.simps [of "c # r"])

lemma escape_string_rune:
  "\<not> (of_char c :: nat) < 0x80 \<Longrightarrow> 1 < rune_size (c # r) \<Longrightarrow>
    escape_string (c # r) = escape_rune (take (rune_size (c # r)) (c # r)) @ escape_string (drop (rune_size (c # r)) (c # r))"
  by (simp add: escape_string.simps [of "c # r"] escape_rune_def Let_def)

lemma escape_not_empty: "escape_ascii c \<noteq> []" "t \<noteq> [] \<Longrightarrow> escape_rune t \<noteq> []"
  by (auto simp: escape_ascii_def escape_rune_def Let_def)

lemma parse_escaped:
  "valid_utf8 s \<Longrightarrow> length (escape_string s) < f \<Longrightarrow>
    parse_string f (escape_string s @ CHR 0x22 # rest) = Some (s, rest)"
proof (induction "length s" arbitrary: s f rule: less_induct)
  case less
  obtain f' where f: "f = Suc f'" using less.prems(2) by (cases f) auto
  show ?case
  proof (cases s)
    case Nil
    then show ?thesis by (simp add: f escape_string.simps parse_string.simps Let_def)
  next
    case (Cons c r)
    let ?n = "rune_size (c # r)"
    from less.prems(1) have valid: "(of_char c :: nat) < 0x80 \<or> 1 < ?n" "valid_utf8 (drop ?n (c # r))"
      by (simp_all add: Cons valid_utf8.simps [of "c # r"])
    have IH: "parse_string f' (escape_string (drop ?n (c # r)) @ CHR 0x22 # rest) = Some (drop ?n (c # r), rest)"
      if "length (escape_string (drop ?n (c # r))) < f'"
      using less.hyps [of "drop ?n (c # r)" f'] that valid(2) rune_size_pos [of "c # r"] by (simp add: Cons)
    show ?thesis
    proof (cases "(of_char c :: nat) < 0x80")
      case True
      with IH less.prems(2) escape_not_empty(1) [of c] show ?thesis
        by (simp add: Cons f escape_string_ascii parse_escaped_ascii rune_size_ascii flip: length_greater_0_conv)
    next
      case False
      with valid have n: "1 < ?n" by simp
      with False IH less.prems(2) escape_not_empty(2) [of "take ?n (c # r)"] show ?thesis
        by (simp add: Cons f escape_string_rune parse_escaped_rune flip: length_greater_0_conv)
    qed
  qed
qed

subsection \<open>Documents\<close>

text \<open>A document of valid strings and literals, nested at most \<open>n\<close> deep.\<close>

fun json_ok :: "nat \<Rightarrow> json \<Rightarrow> bool" where
  "json_ok n JNull \<longleftrightarrow> True"
| "json_ok n (JBool b) \<longleftrightarrow> True"
| "json_ok n (JNum lit) \<longleftrightarrow> number_ok lit"
| "json_ok n (JStr s) \<longleftrightarrow> valid_utf8 s"
| "json_ok 0 (JArr xs) \<longleftrightarrow> False"
| "json_ok (Suc n) (JArr xs) \<longleftrightarrow> (\<forall>x \<in> set xs. json_ok n x)"
| "json_ok 0 (JObj kvs) \<longleftrightarrow> False"
| "json_ok (Suc n) (JObj kvs) \<longleftrightarrow> (\<forall>kv \<in> set kvs. valid_utf8 (fst kv) \<and> json_ok n (snd kv))"

text \<open>The first byte of a document tells it from a closing bracket.\<close>

lemma print_json_head:
  assumes "json_ok n j"
  shows "\<exists>c s. print_json j = c # s \<and> \<not> is_space c \<and> c \<noteq> CHR 0x5D"
proof (cases j)
  case (JNum lit)
  with assms number_head [of lit] obtain c s where "lit = c # s" "c = CHR 0x2D \<or> is_digit c" by auto
  moreover from this(2) have "\<not> is_space c" "c \<noteq> CHR 0x5D" by (auto simp: is_space_def is_digit_def)
  ultimately show ?thesis using JNum by simp
qed (simp_all add: is_space_def print_string_def)

lemma skip_space_head: "\<not> is_space c \<Longrightarrow> skip_space (c # s) = c # s"
  by (simp add: skip_space_def)

lemma expect_printed:
  assumes "json_ok n j"
  shows "expect (CHR 0x5D) (skip_space (print_json j @ s)) = None"
proof -
  from print_json_head [OF assms] obtain c t where "print_json j = c # t" "\<not> is_space c" "c \<noteq> CHR 0x5D" by blast
  then show ?thesis by (simp add: skip_space_head expect_def)
qed

text \<open>A value, elements and members are read back from their text, whatever closes them.\<close>

definition reads_back :: "nat \<Rightarrow> json \<Rightarrow> bool" where
  "reads_back n j \<longleftrightarrow> (\<forall>f d rest. length (print_json j) \<le> f \<longrightarrow> d + n \<le> max_depth \<longrightarrow> ends_value rest \<longrightarrow>
     parse_value f d (print_json j @ rest) = Some (j, rest))"

lemma reads_backD:
  "reads_back n j \<Longrightarrow> length (print_json j) \<le> f \<Longrightarrow> d + n \<le> max_depth \<Longrightarrow> ends_value rest \<Longrightarrow>
    parse_value f d (print_json j @ rest) = Some (j, rest)"
  by (simp add: reads_back_def)

lemma ends_value_simps [simp]:
  "ends_value (CHR 0x2C # s)" "ends_value (CHR 0x5D # s)" "ends_value (CHR 0x7D # s)" "ends_value []"
  by (simp_all add: ends_value_def)

lemma expect_simps [simp]: "expect c [] = None" "expect c (c' # s) = (if c' = c then Some s else None)"
  by (simp_all add: expect_def)

lemma skip_space_simps [simp]:
  "skip_space (CHR 0x2C # s) = CHR 0x2C # s" "skip_space (CHR 0x5D # s) = CHR 0x5D # s"
  "skip_space (CHR 0x7D # s) = CHR 0x7D # s" "skip_space (CHR 0x22 # s) = CHR 0x22 # s"
  "skip_space (CHR 0x3A # s) = CHR 0x3A # s" "skip_space (CHR 0x5B # s) = CHR 0x5B # s"
  "skip_space (CHR 0x7B # s) = CHR 0x7B # s"
  by (simp_all add: skip_space_head is_space_def)

lemma elems_read_back:
  assumes "d + n \<le> max_depth"
  shows "xs \<noteq> [] \<Longrightarrow> \<forall>x \<in> set xs. reads_back n x \<Longrightarrow> length (join_with [CHR 0x2C] (map print_json xs)) < f \<Longrightarrow>
    parse_elems f d (join_with [CHR 0x2C] (map print_json xs) @ CHR 0x5D # rest) = Some (xs, rest)"
proof (induction xs arbitrary: f)
  case (Cons x xs)
  obtain f' where f: "f = Suc f'" using Cons.prems by (cases f) auto
  from Cons.prems have x: "reads_back n x" by simp
  show ?case
  proof (cases xs)
    case Nil
    with Cons.prems assms f show ?thesis by (simp add: reads_backD [OF x])
  next
    case (Cons y ys)
    with Cons.prems assms f have "parse_value f' d (print_json x @ CHR 0x2C # t) = Some (x, CHR 0x2C # t)" for t
      by (intro reads_backD [OF x]) auto
    with Cons Cons.prems Cons.IH [of f'] f show ?thesis by simp
  qed
qed simp

text \<open>A member, and the key before its value.\<close>

definition print_member :: "string \<times> json \<Rightarrow> string" where
  "print_member kv = print_string (fst kv) @ [CHR 0x3A] @ print_json (snd kv)"

lemma print_object: "print_json (JObj kvs) = CHR 0x7B # join_with [CHR 0x2C] (map print_member kvs) @ [CHR 0x7D]"
  by (simp add: case_prod_unfold print_member_def [abs_def])

lemma key_read_back:
  "valid_utf8 k \<Longrightarrow> Option.bind (expect (CHR 0x22) (skip_space (print_string k @ rest)))
    (\<lambda>r. parse_string (Suc (length r)) r) = Some (k, rest)"
  by (simp add: print_string_def parse_escaped)

lemma members_read_back:
  assumes "d + n \<le> max_depth"
  shows "kvs \<noteq> [] \<Longrightarrow> \<forall>kv \<in> set kvs. valid_utf8 (fst kv) \<and> reads_back n (snd kv) \<Longrightarrow>
    length (join_with [CHR 0x2C] (map print_member kvs)) < f \<Longrightarrow>
    parse_members f d (join_with [CHR 0x2C] (map print_member kvs) @ CHR 0x7D # rest) = Some (kvs, rest)"
proof (induction kvs arbitrary: f)
  case (Cons kv kvs)
  obtain f' where f: "f = Suc f'" using Cons.prems by (cases f) auto
  obtain k x where kv: "kv = (k, x)" by fastforce
  from Cons.prems kv have k: "valid_utf8 k" and x: "reads_back n x" by simp_all
  show ?case
  proof (cases kvs)
    case Nil
    with Cons.prems assms f kv have "parse_value f' d (print_json x @ CHR 0x7D # rest) = Some (x, CHR 0x7D # rest)"
      by (intro reads_backD [OF x]) (auto simp: print_member_def)
    with Nil f kv show ?thesis by (simp add: print_member_def key_read_back [OF k])
  next
    case rest: (Cons kv' kvs')
    with Cons.prems assms f kv have "parse_value f' d (print_json x @ CHR 0x2C # t) = Some (x, CHR 0x2C # t)" for t
      by (intro reads_backD [OF x]) (auto simp: print_member_def)
    with rest Cons.prems Cons.IH [of f'] f kv show ?thesis
      by (simp add: print_member_def [of "(k, x)"] key_read_back [OF k])
  qed
qed simp

lemma number_reads_back:
  assumes "number_ok lit"
  shows "reads_back n (JNum lit)"
proof -
  from number_head [OF assms] obtain c s where lit: "lit = c # s" "c = CHR 0x2D \<or> is_digit c" by blast
  then have c: "\<not> is_space c" "c \<noteq> CHR 0x22" "c \<noteq> CHR 0x5B" "c \<noteq> CHR 0x7B" "c \<noteq> CHR 0x74" "c \<noteq> CHR 0x66" "c \<noteq> CHR 0x6E"
    by (auto simp: is_space_def is_digit_def)
  have "parse_value f d (lit @ rest) = Some (JNum lit, rest)" if len: "length lit \<le> f" and ends: "ends_value rest" for f d rest
  proof -
    obtain f' where "f = Suc f'" using len lit(1) by (cases f) simp_all
    with scan_number_append [OF ends, of lit lit "[]"] assms c show ?thesis
      by (simp add: number_ok_def lit skip_space_head)
  qed
  then show ?thesis by (simp add: reads_back_def)
qed

lemma string_reads_back: "valid_utf8 s \<Longrightarrow> reads_back n (JStr s)"
  unfolding reads_back_def
proof (intro allI impI)
  fix f d rest assume "valid_utf8 s" and "length (print_json (JStr s)) \<le> f"
  then obtain f' where "f = Suc f'" by (cases f) (auto simp: print_string_def)
  with \<open>valid_utf8 s\<close> show "parse_value f d (print_json (JStr s) @ rest) = Some (JStr s, rest)"
    by (simp add: print_string_def parse_escaped)
qed

lemma array_reads_back:
  assumes "\<forall>x \<in> set xs. json_ok n x \<and> reads_back n x"
  shows "reads_back (Suc n) (JArr xs)"
  unfolding reads_back_def
proof (intro allI impI)
  fix f d rest assume len: "length (print_json (JArr xs)) \<le> f" and d: "d + Suc n \<le> max_depth"
  then obtain f' where f: "f = Suc f'" by (cases f) auto
  show "parse_value f d (print_json (JArr xs) @ rest) = Some (JArr xs, rest)"
  proof (cases xs)
    case Nil
    with d f show ?thesis by simp
  next
    case (Cons y ys)
    obtain t where t: "join_with [CHR 0x2C] (map print_json xs) @ CHR 0x5D # rest = print_json y @ t"
      by (cases ys) (simp_all add: Cons)
    have "json_ok n y" using assms Cons by simp
    then have "expect (CHR 0x5D) (skip_space (join_with [CHR 0x2C] (map print_json xs) @ CHR 0x5D # rest)) = None"
      unfolding t by (rule expect_printed)
    with elems_read_back [of "Suc d" n xs f' rest] assms len d f Cons show ?thesis by simp
  qed
qed

lemma object_reads_back:
  assumes "\<forall>kv \<in> set kvs. valid_utf8 (fst kv) \<and> reads_back n (snd kv)"
  shows "reads_back (Suc n) (JObj kvs)"
  unfolding reads_back_def
proof (intro allI impI)
  fix f d rest assume len: "length (print_json (JObj kvs)) \<le> f" and d: "d + Suc n \<le> max_depth"
  then obtain f' where f: "f = Suc f'" by (cases f) (auto simp: print_object simp del: print_json.simps)
  show "parse_value f d (print_json (JObj kvs) @ rest) = Some (JObj kvs, rest)"
  proof (cases kvs)
    case Nil
    with d f show ?thesis by simp
  next
    case (Cons kv kvs')
    obtain t where t: "join_with [CHR 0x2C] (map print_member kvs) @ CHR 0x7D # rest = CHR 0x22 # t"
      by (cases kvs') (simp_all add: Cons print_member_def print_string_def)
    then have "expect (CHR 0x7D) (skip_space (join_with [CHR 0x2C] (map print_member kvs) @ CHR 0x7D # rest)) = None"
      by simp
    with members_read_back [of "Suc d" n kvs f' rest] assms len d f Cons show ?thesis
      by (simp add: print_object del: print_json.simps)
  qed
qed

lemma null_reads_back: "reads_back n JNull"
proof -
  have "parse_value f d (print_json JNull @ rest) = Some (JNull, rest)" if "0 < f" for f d rest
    using that by (cases f) (simp_all add: skip_space_head is_space_def)
  then show ?thesis unfolding reads_back_def by simp
qed

lemma bool_reads_back: "reads_back n (JBool b)"
proof -
  have "parse_value f d (print_json (JBool b) @ rest) = Some (JBool b, rest)" if "0 < f" for f d rest
    using that by (cases f) (simp_all add: skip_space_head is_space_def)
  then show ?thesis unfolding reads_back_def by (cases b) simp_all
qed

lemma json_reads_back: "json_ok n j \<Longrightarrow> reads_back n j"
  by (induction n j rule: json_ok.induct)
    (simp_all add: null_reads_back bool_reads_back number_reads_back string_reads_back array_reads_back object_reads_back)

text \<open>What is written is read back; the fuel of \<open>parse_json\<close> is more than enough.\<close>

lemma parse_print_json: "json_ok max_depth j \<Longrightarrow> parse_json (print_json j) = Some j"
  using reads_backD [OF json_reads_back [of max_depth j], of "2 * length (print_json j) + 2" 0 "[]"]
  by (simp add: parse_json_def skip_space_def)

end
