(* ===== verification/Plugin_Invocation.thy ===== *)
theory Plugin_Invocation
  imports Plugin_Facts Info_Codec Json_Roundtrip
begin

text \<open>
  The invocation context of a plugin process (\<open>Context\<close> of \<open>plugin/plugin.go\<close>, \<open>plugin/invocation.go\<close>), and the
  environments \<open>plugintest\<close> builds (\<open>plugin/plugintest/plugintest.go\<close>). An option is a function on what the options
  describe so far, or a panic. \<open>json.Marshal\<close> of a struct is the text of its encoding.
\<close>

subsection \<open>The context\<close>

definition env_context :: "plugin_env \<Rightarrow> (plugin_error, plugin_invocation_context) result" where
  "env_context e =
    (if pe_context_json e = [] then err ErrNoContext
     else case Option.bind (parse_json (pe_context_json e))
         (\<lambda>j. cod_dec plugin_invocation_context_codec j plugin_invocation_context_zero) of
       None \<Rightarrow> err (Prefixed ''plugin: decode HERDR_PLUGIN_CONTEXT_JSON'' (ErrClient JsonError))
     | Some invocation \<Rightarrow> ok invocation)"

record invocation =
  inv_workspace_id :: string
  inv_workspace_label :: string
  inv_workspace_cwd :: string
  inv_tab_id :: string
  inv_tab_label :: string
  inv_focused_pane_id :: string
  inv_focused_pane_agent :: string
  inv_focused_pane_cwd :: string
  inv_focused_pane_status :: agent_status
  inv_selected_text :: string
  inv_clicked_url :: string
  inv_link_handler_id :: string
  inv_invocation_source :: string
  inv_correlation_id :: string
  inv_worktree :: "workspace_worktree_info optional"

definition invocation_zero :: invocation where
  "invocation_zero = \<lparr>inv_workspace_id = [], inv_workspace_label = [], inv_workspace_cwd = [], inv_tab_id = [],
     inv_tab_label = [], inv_focused_pane_id = [], inv_focused_pane_agent = [], inv_focused_pane_cwd = [],
     inv_focused_pane_status = [], inv_selected_text = [], inv_clicked_url = [], inv_link_handler_id = [],
     inv_invocation_source = [], inv_correlation_id = [], inv_worktree = Absent\<rparr>"

definition invocation_of :: "plugin_invocation_context \<Rightarrow> invocation" where
  "invocation_of c =
    \<lparr>inv_workspace_id = opt_value_or_zero [] (plugin_invocation_context_workspace_id c),
     inv_workspace_label = opt_value_or_zero [] (plugin_invocation_context_workspace_label c),
     inv_workspace_cwd = opt_value_or_zero [] (plugin_invocation_context_workspace_cwd c),
     inv_tab_id = opt_value_or_zero [] (plugin_invocation_context_tab_id c),
     inv_tab_label = opt_value_or_zero [] (plugin_invocation_context_tab_label c),
     inv_focused_pane_id = opt_value_or_zero [] (plugin_invocation_context_focused_pane_id c),
     inv_focused_pane_agent = opt_value_or_zero [] (plugin_invocation_context_focused_pane_agent c),
     inv_focused_pane_cwd = opt_value_or_zero [] (plugin_invocation_context_focused_pane_cwd c),
     inv_focused_pane_status = opt_value_or_zero [] (plugin_invocation_context_focused_pane_status c),
     inv_selected_text = opt_value_or_zero [] (plugin_invocation_context_selected_text c),
     inv_clicked_url = opt_value_or_zero [] (plugin_invocation_context_clicked_url c),
     inv_link_handler_id = opt_value_or_zero [] (plugin_invocation_context_link_handler_id c),
     inv_invocation_source = opt_value_or_zero [] (plugin_invocation_context_invocation_source c),
     inv_correlation_id = opt_value_or_zero [] (plugin_invocation_context_correlation_id c),
     inv_worktree = plugin_invocation_context_worktree c\<rparr>"

definition env_invocation :: "plugin_env \<Rightarrow> invocation" where
  "env_invocation e = (case env_context e of Inl x \<Rightarrow> invocation_zero | Inr context \<Rightarrow> invocation_of context)"

subsection \<open>Environments for tests\<close>

record fake =
  fk_env :: plugin_env
  fk_context :: plugin_invocation_context
  fk_has_context :: bool

text \<open>The panic of \<open>EventHook\<close>, with the name of the event and the error of decoding.\<close>

datatype tested_panic = NoHook string go_error

type_synonym env_option = "fake \<Rightarrow> (tested_panic, fake) result"

definition empty_env :: plugin_env where
  "empty_env = \<lparr>pe_plugin_id = [], pe_plugin_root = [], pe_config_dir = [], pe_state_dir = [], pe_socket_path = [],
     pe_bin_path = [], pe_workspace_id = [], pe_tab_id = [], pe_pane_id = [], pe_action_id = [], pe_entrypoint_id = [],
     pe_event = [], pe_context_json = [], pe_event_json = [], pe_clicked_url = [], pe_link_handler_id = []\<rparr>"

fun apply_options :: "env_option list \<Rightarrow> fake \<Rightarrow> (tested_panic, fake) result" where
  "apply_options [] built = ok built"
| "apply_options (opt # opts) built = bind_res (opt built) (apply_options opts)"

definition tested_env :: "env_option list \<Rightarrow> (tested_panic, plugin_env) result" where
  "tested_env opts =
    bind_res (apply_options opts \<lparr>fk_env = empty_env\<lparr>pe_plugin_id := ''test.plugin''\<rparr>,
      fk_context = plugin_invocation_context_zero, fk_has_context = False\<rparr>) (\<lambda>built.
    ok (if fk_has_context built
        then (fk_env built)\<lparr>pe_context_json := print_json (cod_enc plugin_invocation_context_codec (fk_context built))\<rparr>
        else fk_env built))"

definition set_env :: "(plugin_env \<Rightarrow> plugin_env) \<Rightarrow> fake \<Rightarrow> fake" where
  "set_env f built = built\<lparr>fk_env := f (fk_env built)\<rparr>"

definition with_context :: "(plugin_invocation_context \<Rightarrow> plugin_invocation_context) \<Rightarrow> fake \<Rightarrow> fake" where
  "with_context f built = built\<lparr>fk_has_context := True, fk_context := f (fk_context built)\<rparr>"

definition opt_startup :: env_option where
  "opt_startup built = ok (set_env (\<lambda>e. e\<lparr>pe_event := ''startup''\<rparr>) built)"

definition opt_action :: "string \<Rightarrow> env_option" where
  "opt_action i built = ok (set_env (\<lambda>e. e\<lparr>pe_action_id := i\<rparr>) built)"

definition opt_pane_command :: "string \<Rightarrow> env_option" where
  "opt_pane_command i built = ok (set_env (\<lambda>e. e\<lparr>pe_entrypoint_id := i\<rparr>) built)"

definition underscore_name :: "string \<Rightarrow> string" where
  "underscore_name dotted = replace_first (CHR ''.'') (CHR ''_'') dotted"

definition hook_json :: "(string \<Rightarrow> float64 option) \<Rightarrow> (float64 \<Rightarrow> string) \<Rightarrow> event \<Rightarrow> json" where
  "hook_json pf ff payload = JObj [(''event'', JStr (underscore_name (event_name payload))), (''data'', encode_event pf ff payload)]"

definition opt_event_hook :: "(string \<Rightarrow> float64 option) \<Rightarrow> (float64 \<Rightarrow> string) \<Rightarrow> event \<Rightarrow> env_option" where
  "opt_event_hook pf ff payload built =
    (let name = event_name payload; encoded = print_json (hook_json pf ff payload)
     in case parse_json encoded of
          None \<Rightarrow> err (NoHook name JsonError)
        | Some j \<Rightarrow> (case unmarshal_envelope pf ff j \<lparr>ee_event = [], ee_data = None\<rparr> of
            (decoded, Some x) \<Rightarrow> err (NoHook name x)
          | (decoded, None) \<Rightarrow> ok (set_env (\<lambda>e. e\<lparr>pe_event := name, pe_event_json := encoded\<rparr>) built)))"

definition opt_context :: "plugin_invocation_context \<Rightarrow> env_option" where
  "opt_context invocation built = ok (built\<lparr>fk_context := invocation, fk_has_context := True\<rparr>)"

definition opt_workspace :: "string \<Rightarrow> env_option" where
  "opt_workspace i built = ok (with_context (\<lambda>c. c\<lparr>plugin_invocation_context_workspace_id := Present i\<rparr>)
     (set_env (\<lambda>e. e\<lparr>pe_workspace_id := i\<rparr>) built))"

definition opt_tab :: "string \<Rightarrow> env_option" where
  "opt_tab i built = ok (with_context (\<lambda>c. c\<lparr>plugin_invocation_context_tab_id := Present i\<rparr>)
     (set_env (\<lambda>e. e\<lparr>pe_tab_id := i\<rparr>) built))"

definition opt_pane :: "string \<Rightarrow> env_option" where
  "opt_pane i built = ok (set_env (\<lambda>e. e\<lparr>pe_pane_id := i\<rparr>) built)"

definition opt_focused_pane :: "string \<Rightarrow> env_option" where
  "opt_focused_pane i built = ok (with_context (\<lambda>c. c\<lparr>plugin_invocation_context_focused_pane_id := Present i\<rparr>) built)"

definition opt_selected_text :: "string \<Rightarrow> env_option" where
  "opt_selected_text s built = ok (with_context (\<lambda>c. c\<lparr>plugin_invocation_context_selected_text := Present s\<rparr>) built)"

definition opt_clicked_url :: "string \<Rightarrow> env_option" where
  "opt_clicked_url url built = ok (with_context (\<lambda>c. c\<lparr>plugin_invocation_context_clicked_url := Present url\<rparr>)
     (set_env (\<lambda>e. e\<lparr>pe_clicked_url := url\<rparr>) built))"

definition opt_link_handler :: "string \<Rightarrow> env_option" where
  "opt_link_handler i built = ok (with_context (\<lambda>c. c\<lparr>plugin_invocation_context_link_handler_id := Present i\<rparr>)
     (set_env (\<lambda>e. e\<lparr>pe_link_handler_id := i\<rparr>) built))"

definition opt_state_dir :: "string \<Rightarrow> env_option" where
  "opt_state_dir dir built = ok (set_env (\<lambda>e. e\<lparr>pe_state_dir := dir\<rparr>) built)"

definition opt_config_dir :: "string \<Rightarrow> env_option" where
  "opt_config_dir dir built = ok (set_env (\<lambda>e. e\<lparr>pe_config_dir := dir\<rparr>) built)"

subsection \<open>The context comes back\<close>

definition writes :: "nat \<Rightarrow> 'a codec \<Rightarrow> bool" where
  "writes n c \<longleftrightarrow> (\<forall>x. cod_ok c x \<longrightarrow> json_ok n (cod_enc c x))"

definition field_writes :: "nat \<Rightarrow> 'r field \<Rightarrow> bool" where
  "field_writes n f \<longleftrightarrow> valid_utf8 (fld_name f) \<and> (\<forall>r j. fld_ok f r \<longrightarrow> fld_enc f r = Some j \<longrightarrow> json_ok n j)"

lemma writes_string: "writes n string_codec"
  by (simp add: writes_def string_codec_def coerce_valid)

lemma writes_bool: "writes n bool_codec"
  by (simp add: writes_def bool_codec_def)

lemma writes_plain: "valid_utf8 name \<Longrightarrow> writes n c \<Longrightarrow> field_writes n (plain_field name c get put)"
  by (simp add: field_writes_def plain_field_def writes_def)

lemma writes_optional: "valid_utf8 name \<Longrightarrow> writes n c \<Longrightarrow> field_writes n (optional_field name c get put)"
  by (auto simp: field_writes_def optional_field_def optional_enc_def writes_def split: optional.splits)

lemma writes_struct: "list_all (field_writes n) fs \<Longrightarrow> writes (Suc n) (struct_codec z fs)"
  unfolding writes_def struct_codec_def encode_members_def field_writes_def list_all_iff
  by (auto simp: map_filter_def split: option.splits)

lemma writes_worktree: "writes (Suc 0) workspace_worktree_info_codec"
  unfolding workspace_worktree_info_codec_def workspace_worktree_info_fields_def
  by (intro writes_struct) (simp add: writes_plain writes_string writes_bool valid_utf8_ascii)

lemma writes_context: "writes 2 plugin_invocation_context_codec"
  unfolding plugin_invocation_context_codec_def plugin_invocation_context_fields_def Suc_1 [symmetric]
  by (intro writes_struct) (simp add: writes_optional writes_string writes_worktree valid_utf8_ascii)

lemma json_ok_deeper: "json_ok n j \<Longrightarrow> json_ok (n + k) j"
  by (induction n j rule: json_ok.induct) simp_all

lemma context_read_back:
  assumes "cod_ok plugin_invocation_context_codec c"
  shows "env_context (e\<lparr>pe_context_json := print_json (cod_enc plugin_invocation_context_codec c)\<rparr>) = Inr c"
proof -
  let ?j = "cod_enc plugin_invocation_context_codec c"
  from writes_context assms have "json_ok 2 ?j" by (simp add: writes_def)
  from json_ok_deeper [OF this, of "max_depth - 2"] have "parse_json (print_json ?j) = Some ?j"
    by (intro parse_print_json) (simp add: max_depth_def)
  moreover have "print_json ?j \<noteq> []" by (simp add: plugin_invocation_context_codec_def struct_codec_def)
  moreover have "cod_dec plugin_invocation_context_codec ?j plugin_invocation_context_zero = Some c"
    using lawfulD [OF plugin_invocation_context_codec_lawful assms] by simp
  ultimately show ?thesis by (simp add: env_context_def)
qed

text \<open>The envelope of a hook: the name with an underscore is the tag the event is decoded by.\<close>

lemma underscore_tag: "event_tag e = Some t \<Longrightarrow> underscore_name (event_name e) = t"
  by (cases e) (simp_all add: underscore_name_def)

lemma hook_event_kept:
  assumes "event_ok pf ff e" "event_tag e = Some t" "json_ok max_depth (hook_json pf ff e)"
  shows "opt_event_hook pf ff e built = Inr (set_env (\<lambda>env. env\<lparr>pe_event := event_name e,
      pe_event_json := print_json (hook_json pf ff e)\<rparr>) built)"
  using parse_print_json [OF assms(3)] unmarshal_envelope_tagged [OF assms(1,2)] underscore_tag [OF assms(2)]
  by (simp add: opt_event_hook_def hook_json_def)

text \<open>
  C25. A handler that is tested in the environment \<open>plugintest\<close> builds for an event, an invocation context and a
  workspace runs as herdr would run it: dispatch calls it with that very event, and \<open>Context\<close> and
  \<open>Invocation\<close> yield that very context, with the workspace of the later option, through their bytes of JSON.
\<close>

theorem tested_hook_runs:
  assumes "register_all quote rs new_plugin = Inr p" and "RegEvent (event_name e) (Some h) \<in> set rs"
    and "event_ok pf ff e" and "event_tag e = Some t" and "json_ok max_depth (hook_json pf ff e)"
    and "cod_ok plugin_invocation_context_codec c" and "valid_utf8 i"
  shows "\<exists>env. tested_env [opt_event_hook pf ff e, opt_context c, opt_workspace i] = Inr env \<and>
    plugin_dispatch pf ff p env = h env e \<and> pe_workspace_id env = i \<and>
    env_context env = Inr (c\<lparr>plugin_invocation_context_workspace_id := Present i\<rparr>) \<and>
    env_invocation env = (invocation_of c)\<lparr>inv_workspace_id := i\<rparr>"
proof -
  let ?c = "c\<lparr>plugin_invocation_context_workspace_id := Present i\<rparr>"
  let ?bare = "empty_env\<lparr>pe_plugin_id := ''test.plugin'', pe_workspace_id := i, pe_event := event_name e,
    pe_event_json := print_json (hook_json pf ff e)\<rparr>"
  let ?env = "?bare\<lparr>pe_context_json := print_json (cod_enc plugin_invocation_context_codec ?c)\<rparr>"
  have built: "tested_env [opt_event_hook pf ff e, opt_context c, opt_workspace i] = Inr ?env"
    by (simp add: tested_env_def hook_event_kept [OF assms(3,4,5)] opt_context_def opt_workspace_def set_env_def
        with_context_def)
  have "cod_ok plugin_invocation_context_codec ?c"
    using assms(6,7) by (simp add: plugin_invocation_context_codec_def struct_codec_def plugin_invocation_context_fields_def
        optional_field_def string_codec_def)
  note kept = context_read_back [OF this, of ?bare]
  then have invocation: "env_invocation ?env = (invocation_of c)\<lparr>inv_workspace_id := i\<rparr>"
    by (simp add: env_invocation_def invocation_of_def opt_value_or_zero_def)
  have kind: "env_kind ?env = KindEvent" using event_name_dotted [of e] by (simp add: env_kind_def empty_env_def)
  have "print_json (hook_json pf ff e) \<noteq> []" by (simp add: hook_json_def)
  then have "hook_envelope pf ff ?env = Inr \<lparr>ee_event = t, ee_data = Some e\<rparr>"
    using parse_print_json [OF assms(5)] unmarshal_envelope_tagged [OF assms(3,4)] underscore_tag [OF assms(4)]
    by (simp add: hook_envelope_def env_event_envelope_def hook_json_def)
  from event_handler_bound [OF assms(1,2) _ this] kind have "plugin_dispatch pf ff p ?env = h ?env e"
    by (simp add: fun_eq_iff plugin_dispatch_def)
  with built kept invocation show ?thesis by (intro exI [of _ ?env]) (simp add: empty_env_def)
qed

definition tab_context :: plugin_invocation_context where
  "tab_context = plugin_invocation_context_zero\<lparr>plugin_invocation_context_tab_id := Present ''t''\<rparr>"

theorem tested_hook_runs_witness:
  "\<exists>env. tested_env [opt_event_hook (\<lambda>s. None) (\<lambda>x. []) closed_event, opt_context tab_context, opt_workspace ''w''] =
      Inr env \<and>
    plugin_dispatch (\<lambda>s. None) (\<lambda>x. []) (registry_of sample_registrations) env 0 = (Some (Failed ''no''), 0) \<and>
    inv_tab_id (env_invocation env) = ''t''"
proof -
  have "json_ok (Suc (Suc 0)) (hook_json (\<lambda>s. None) (\<lambda>x. []) closed_event)"
    by (simp add: hook_json_def closed_event_def tagged_def encode_members_def pane_closed_event_fields_def plain_field_def
        string_codec_def coerce_valid valid_utf8_ascii underscore_name_def)
  from json_ok_deeper [OF this, of "max_depth - 2"]
  have written: "json_ok max_depth (hook_json (\<lambda>s. None) (\<lambda>x. []) closed_event)" by (simp add: max_depth_def)
  have "cod_ok plugin_invocation_context_codec tab_context"
    by (simp add: plugin_invocation_context_codec_def struct_codec_def plugin_invocation_context_fields_def
        plugin_invocation_context_zero_def tab_context_def optional_field_def string_codec_def valid_utf8_ascii)
  from tested_hook_runs [OF sample_registered _ closed_event_ok _ written this, of "\<lambda>env e w. (Some (Failed ''no''), w)"
      "''pane_closed''" "''w''"]
  show ?thesis
    by (auto simp: closed_event_def sample_registrations_def valid_utf8_ascii invocation_of_def opt_value_or_zero_def
        tab_context_def)
qed

end
