(* ===== verification/Spec2Isabelle.thy ===== *)
theory Spec2Isabelle
  imports Session_Facts Manifest_Facts Plugin_Facts Plugin_State_Facts Socket_Path Methods Gen_Api Drift_Check Plugin_Check Plugin_Invocation
begin

text \<open>
  A verification of herdr-client, the Go client of the herdr terminal multiplexer.

  \<^bold>\<open>The program.\<close> The package \<open>herdr\<close> talks to a herdr server over a socket. A \<open>Client\<close> (\<open>client.go\<close>,
  \<open>dial.go\<close>) makes one connection per request, writes one line of JSON and reads one line back;
  \<open>OpenStream\<close> keeps the connection and makes it a \<open>Stream\<close> (\<open>stream.go\<close>) of pushed lines. The methods of
  the API (\<open>methods_gen.go\<close>) wrap an exchange: they encode a struct of parameters (\<open>types_gen.go\<close>), decode
  the response (\<open>results_gen.go\<close>) and check its type. \<open>DecodeEvent\<close> (\<open>events_gen.go\<close>) turns a pushed line into
  one of 28 events. A \<open>Session\<close> (\<open>session.go\<close>, \<open>session_bootstrap.go\<close>, \<open>session_state.go\<close>) subscribes, takes
  a snapshot and keeps a mirror of the server's workspaces, tabs, panes, agents and layouts current
  (\<open>session_cache.go\<close>, on \<open>ordered_collection.go\<close>), reconnecting when the server goes away. The package
  \<open>plugin\<close> is the frame of a herdr plugin: the environment a program is started with, the handler it runs,
  the files it keeps; \<open>plugin/manifest\<close> reads and validates a plugin's manifest. Under \<open>internal\<close> is the
  generator of the API's Go code from the JSON schema of the server (\<open>internal/gen\<close>), the tool that reads from the
  server's Rust sources what each method returns (\<open>herdrsource\<close>), and the one that compares two schemas (\<open>herdrcheck\<close>).

  \<^bold>\<open>The theories.\<close>
  \<^item> \<open>Prelude\<close>, \<open>Go_Strings\<close>, \<open>Go_Values\<close>: results, association lists, the \<open>strings\<close> functions the code
    uses, \<open>Optional\<close>, slices, maps, pointers, machine integers. \<open>Paths\<close>: \<open>filepath\<close> on Unix.
  \<^item> \<open>Ordered_Collection\<close>: the collection with its loops; the locale \<open>ordered_store\<close> states what it
    promises on association lists. \<open>Keyed_Store\<close>: the same for entries that carry their id, the locale
    \<open>keyed_store\<close>.
  \<^item> \<open>Api_Enums\<close>, \<open>Api_Types\<close>, \<open>Api_Events\<close>: the string enums, the structs of \<open>types_gen.go\<close> a session sees and
    the events, with \<open>Clone\<close>.
  \<^item> \<open>Session_Cache\<close>: the mirror and the effect of every event. \<open>Mirror\<close> and \<open>Mirror_Facts\<close>: the mirror as
    plain lists, the refinement and its facts. \<open>Session_Mirror\<close>: C1, C2 and C4 to C8.
  \<^item> \<open>Json_Text\<close>, \<open>Json_Codec\<close>, \<open>Type_Codec\<close>: JSON documents and text, decoding into Go values, the struct
    tags. \<open>Errors\<close>: the error values. \<open>Event_Codec\<close>: events in JSON, C9 and C10. \<open>Subscription\<close>: what is
    subscribed to, that it decodes back, and that it names every event of the mirror.
  \<^item> \<open>Unions_Manual\<close>: the unions of \<open>unions_manual.go\<close> with their rules for JSON. \<open>Layout_Node\<close>: layout trees
    and \<open>LayoutPanes\<close>, C38.
  \<^item> \<open>Info_Types\<close>, \<open>Info_Unions\<close>, \<open>Info_Codec\<close>: the structs only responses carry. \<open>Response_Types\<close>,
    \<open>Response_Structs\<close>, \<open>Response_Codec\<close>: the structs of the responses. \<open>Results\<close>: the union of all
    responses and \<open>DecodeResult\<close>, C3.
  \<^item> \<open>Param_Types\<close>, \<open>Param_Structs_A\<close>, \<open>Param_Structs_B\<close>, \<open>Agent_View\<close>, \<open>Param_Codec\<close>: the parameters of
    the methods with their unions. \<open>Methods\<close>: the methods of the API, C39.
  \<^item> \<open>Wire\<close>, \<open>Stream\<close>, \<open>Client\<close>: lines, streams and exchanges, C11 to C17.
  \<^item> \<open>Session_Machine\<close>, \<open>Session_Facts\<close>: the session as a step relation and what holds of it, C20 to C25.
  \<^item> \<open>Manifest\<close>, \<open>Manifest_Facts\<close>: the manifest and its rules, C26 and C27. \<open>Plugin\<close>, \<open>Plugin_Facts\<close>: the
    environment, the registry and the run of a plugin, C30 to C33. \<open>Plugin_State\<close>, \<open>Plugin_State_Facts\<close>: the
    files of a plugin on a disk that can fail and crash, C34 to C36. \<open>Socket_Path\<close>: \<open>socketpath.go\<close>, C37.
  \<^item> \<open>Gen_Schema\<close>: the names (\<open>naming.go\<close>), the schema (\<open>schema.go\<close>) and the table of results
    (\<open>methods.go\<close>). \<open>Gen_Ir\<close>, \<open>Gen_Build\<close>: the types, unions and methods \<open>ir.go\<close> makes of them, C19.
    \<open>Gen_Cycles\<close>: \<open>breakOptionalStructCycles\<close>, C40.
  \<^item> \<open>Rust_Scan\<close>: the blocks of Rust source (\<open>rust.go\<close>), C28. \<open>Rust_Source\<close>, \<open>Rust_Search\<close>: the handlers
    and what they return, C18. \<open>Source_Check\<close>: \<open>pairs.go\<close> and \<open>main.go\<close> of \<open>herdrsource\<close>, the edit of the
    table. \<open>Drift_Check\<close>: \<open>herdrcheck\<close>, C29.

  \<^bold>\<open>What the lemmas show.\<close> The mirror: it implements a specification on plain lists, applying an event again
  changes nothing, a snapshot rebuilds it, and agents, focus and layouts stay consistent. The codecs: what is encoded
  decodes back, and what is refused is refused with the error of the code. Client and stream: nothing that arrived is lost,
  every connection is closed exactly once, every error is the documented one. The session: no stream leaks, what
  \<open>Next\<close> returned is what the mirror shows, gaps are reported, \<open>Close\<close> ends it. The plugins: exactly the registered
  handler runs, files are written atomically and inside their directory. The generator and the tools: a package
  that was built has no dangling or doubled name, cycles are broken exactly when that is possible, a reader finds the
  blocks and results that are there, and a comparison finds every difference.

  \<^bold>\<open>How state and effects are modelled.\<close> A struct is a record, an interface of a closed set of types a
  datatype, a fallible function returns a sum with the error on the left. Mutexes and goroutines appear
  as steps: a critical section or a blocking operation is one step, and any interleaving of them is a
  path of the step relation. What comes from outside (the network, the clock, contexts, injected
  functions, \<open>strconv\<close>'s float formats, the TOML reader, regular expressions, the disk) is an argument or the
  choice of a step. Go maps whose order the code does not sort are association lists in one order.

  \<^bold>\<open>Bounds and fuel.\<close> \<open>parse_json\<close> runs on fuel, the length of its text; each of its steps
  consumes at least one byte, so the fuel is enough for every text. Every other recursion is structural or has a
  measure; the loop that breaks cycles makes one more field a pointer each time, and C40 states that it ends.

  \<^bold>\<open>Not modelled.\<close> The dialers of the platforms, the shutdown signals of a plugin and its \<open>Invocation\<close>, the
  embedded schema, the packages \<open>herdrtest\<close> and \<open>plugintest\<close> for tests, the test sockets, the
  examples: they call the operating system or the packages modelled here. The emitters that print the
  generated code (\<open>internal/gen/emit*.go\<close>): they print text for \<open>gofmt\<close>, and the code they printed is
  itself modelled. Flags, file walks and exit codes of the tools. Which slices and maps a clone
  shares with its original.
\<close>

end
